(* ===== verification/Prelude.thy ===== *)
theory Prelude
  imports Complex_Main "HOL-Library.Multiset" "HOL-Library.Word" "HOL-Library.AList"
begin

text \<open>
  Shared vocabulary of the development: how Go's values are represented, the
  generic lemmas the component theories use, and the collections they extend.

  \<^item> A Go \<^verbatim>\<open>time.Time\<close> is the number of nanoseconds since Go's zero time (year 1), so
    \<^verbatim>\<open>IsZero\<close> is equality with 0, \<^verbatim>\<open>Before\<close> is \<open><\<close> and \<^verbatim>\<open>Add\<close> is \<open>+\<close>. A
    \<^verbatim>\<open>time.Duration\<close> is a number of nanoseconds. Calls of \<^verbatim>\<open>time.Now()\<close> are arguments.
  \<^item> A Go \<^verbatim>\<open>error\<close> is its message; a pair \<^verbatim>\<open>(value, error)\<close> is a sum, \<open>Inl\<close> for the error.
  \<^item> A Go \<^verbatim>\<open>int\<close> that the code only increments or sums is an \<open>int\<close>, reduced by \<open>wrap64\<close>
    where the 64-bit width can be observed; \<^verbatim>\<open>uint32\<close> and \<^verbatim>\<open>uint64\<close> are words.
  \<^item> A Go map is a partial function, or an association list with distinct keys where the code
    ranges over it.
  \<^item> Ranging over a Go map visits the entries in an unspecified order: such a loop takes a
    \<open>range_order\<close>, any function that permutes the list of entries.
\<close>

named_theorems go_defs \<open>definitions of the small wrappers a proof unfolds\<close>

type_synonym gotime = int
type_synonym duration = int
type_synonym err = string
type_synonym 'a range_order = "'a list \<Rightarrow> 'a list"

text \<open>A call that returns, or panics with a message.\<close>

datatype 'a go_result = Returns 'a | Panics err

definition second :: duration where
  "second = 1000000000"

definition minute :: duration where
  "minute = 60 * second"

definition hour :: duration where
  "hour = 60 * minute"

definition millisecond :: duration where
  "millisecond = 1000000"

definition wrap64 :: "int \<Rightarrow> int" where
  "wrap64 i = (i + 2 ^ 63) mod 2 ^ 64 - 2 ^ 63"

text \<open>\<^verbatim>\<open>t.Unix()\<close>: the seconds since 1970, which is 62135596800 seconds after Go's zero time.\<close>

definition go_unix :: "gotime \<Rightarrow> int" where
  "go_unix t = t div second - 62135596800"

definition is_range_order :: "'a range_order \<Rightarrow> bool" where
  "is_range_order r \<longleftrightarrow> (\<forall>xs. mset (r xs) = mset xs)"

definition utf8 :: "nat list \<Rightarrow> string" where
  "utf8 bs = map char_of bs"

fun decimal :: "nat \<Rightarrow> string" where
  "decimal n = (if n < 10 then [char_of (48 + n)] else decimal (n div 10) @ [char_of (48 + n mod 10)])"

definition itoa :: "int \<Rightarrow> string" where
  "itoa i = (if i < 0 then ''-'' @ decimal (nat (- i)) else decimal (nat i))"

text \<open>
  Ranging over a Go string yields runes: the UTF-8 decoding of its bytes, where every byte that
  starts no valid encoding yields U+FFFD.
\<close>

definition cont_byte :: "nat \<Rightarrow> bool" where
  "cont_byte b \<longleftrightarrow> 0x80 \<le> b \<and> b \<le> 0xBF"

fun decode_runes :: "nat list \<Rightarrow> nat list" where
  "decode_runes [] = []"
| "decode_runes (a # bs) =
     (if a < 0x80 then a # decode_runes bs
      else case bs of
        b # cs \<Rightarrow>
          (if 0xC2 \<le> a \<and> a \<le> 0xDF \<and> cont_byte b
             then ((a - 0xC0) * 64 + (b - 0x80)) # decode_runes cs
           else case cs of
             c # ds \<Rightarrow>
               (if 0xE0 \<le> a \<and> a \<le> 0xEF \<and> cont_byte b \<and> cont_byte c
                   \<and> (a = 0xE0 \<longrightarrow> 0xA0 \<le> b) \<and> (a = 0xED \<longrightarrow> b \<le> 0x9F)
                  then ((a - 0xE0) * 4096 + (b - 0x80) * 64 + (c - 0x80)) # decode_runes ds
                else case ds of
                  d # es \<Rightarrow>
                    (if 0xF0 \<le> a \<and> a \<le> 0xF4 \<and> cont_byte b \<and> cont_byte c \<and> cont_byte d
                        \<and> (a = 0xF0 \<longrightarrow> 0x90 \<le> b) \<and> (a = 0xF4 \<longrightarrow> b \<le> 0x8F)
                       then ((a - 0xF0) * 262144 + (b - 0x80) * 4096 + (c - 0x80) * 64 + (d - 0x80))
                              # decode_runes es
                     else 0xFFFD # decode_runes bs)
                | [] \<Rightarrow> 0xFFFD # decode_runes bs)
           | [] \<Rightarrow> 0xFFFD # decode_runes bs)
      | [] \<Rightarrow> [0xFFFD])"

definition runes :: "string \<Rightarrow> nat list" where
  "runes s = decode_runes (map of_char s)"

text \<open>The conversion \<^verbatim>\<open>string(rune(i))\<close> for code points below U+0800.\<close>

definition rune_string :: "nat \<Rightarrow> string" where
  "rune_string i = (if i < 0x80 then [char_of i] else utf8 [0xC0 + i div 64, 0x80 + i mod 64])"

definition go_index :: "'a list \<Rightarrow> int \<Rightarrow> 'a option" where
  "go_index xs i = (if 0 \<le> i \<and> i < int (length xs) then Some (xs ! nat i) else None)"

definition go_mod :: "int \<Rightarrow> int \<Rightarrow> int" where
  "go_mod a b = sgn a * (\<bar>a\<bar> mod \<bar>b\<bar>)"

text \<open>The conversion of a \<^verbatim>\<open>float64\<close> to an integer go_truncs towards zero.\<close>

definition go_trunc :: "real \<Rightarrow> int" where
  "go_trunc x = (if x < 0 then \<lceil>x\<rceil> else \<lfloor>x\<rfloor>)"

fun upd_first :: "('a \<Rightarrow> bool) \<Rightarrow> ('a \<Rightarrow> 'a) \<Rightarrow> 'a list \<Rightarrow> 'a list" where
  "upd_first P f [] = []"
| "upd_first P f (x # xs) = (if P x then f x # xs else x # upd_first P f xs)"

fun del_first :: "('a \<Rightarrow> bool) \<Rightarrow> 'a list \<Rightarrow> 'a list" where
  "del_first P [] = []"
| "del_first P (x # xs) = (if P x then xs else x # del_first P xs)"

declare decimal.simps [simp del]

subsection \<open>Times, widths and indices\<close>

lemma durations_pos [simp]: "0 < second" "0 < minute" "0 < hour" "0 < millisecond"
  by (simp_all add: second_def minute_def hour_def millisecond_def)

lemma wrap64_id: "- (2 ^ 63) \<le> i \<Longrightarrow> i < 2 ^ 63 \<Longrightarrow> wrap64 i = i"
  by (simp add: wrap64_def)

lemma wrap64_bounds: "- (2 ^ 63) \<le> wrap64 i \<and> wrap64 i < 2 ^ 63"
proof -
  have "0 \<le> (i + 2 ^ 63) mod 2 ^ 64" and "(i + 2 ^ 63) mod 2 ^ 64 < 2 ^ 64"
    by simp_all
  then show ?thesis by (simp add: wrap64_def)
qed

lemma go_mod_nonneg: "0 \<le> a \<Longrightarrow> 0 < b \<Longrightarrow> go_mod a b = a mod b"
  by (cases "a = 0") (simp_all add: go_mod_def)

lemma go_index_mod:
  assumes "0 \<le> a" and "xs \<noteq> []"
  shows "go_index xs (go_mod a (int (length xs))) = Some (xs ! (nat a mod length xs))"
proof -
  from assms(2) have l: "0 < int (length xs)" by simp
  from assms(1) obtain n where n: "a = int n" by (metis nonneg_int_cases)
  have m: "go_mod a (int (length xs)) = int (n mod length xs)"
    using go_mod_nonneg [OF assms(1) l] by (simp add: n zmod_int)
  show ?thesis unfolding go_index_def m using assms(2) by (simp add: n)
qed

lemma digit_not_colon:
  assumes "k < 10"
  shows "char_of (48 + k :: nat) \<noteq> CHR '':''"
proof
  assume "char_of (48 + k) = CHR '':''"
  then have "(of_char (char_of (48 + k)) :: nat) = of_char (CHR '':'')" by simp
  with assms show False by simp
qed

lemma decimal_no_colon: "CHR '':'' \<notin> set (decimal n)"
proof (induction n rule: decimal.induct)
  case (1 n)
  have "n mod 10 < 10" by simp
  with 1 digit_not_colon [of n] digit_not_colon [of "n mod 10"] show ?case
    by (subst decimal.simps) auto
qed

lemma itoa_no_colon: "CHR '':'' \<notin> set (itoa i)"
  by (simp add: itoa_def decimal_no_colon)

lemma go_trunc_of_int [simp]: "go_trunc (of_int i) = i"
  by (simp add: go_trunc_def)

lemma go_trunc_mono: "x \<le> y \<Longrightarrow> go_trunc x \<le> go_trunc y"
  by (auto simp: go_trunc_def intro: floor_mono ceiling_mono order_trans [of _ 0])

lemma go_trunc_le: "0 \<le> x \<Longrightarrow> of_int (go_trunc x) \<le> x"
  by (simp add: go_trunc_def)

lemma go_trunc_nonneg: "0 \<le> x \<Longrightarrow> 0 \<le> go_trunc x"
  by (simp add: go_trunc_def)

lemma go_trunc_tenth: "0 \<le> d \<Longrightarrow> go_trunc (real_of_int d / 10) = d div 10"
  using floor_divide_of_int_eq [of d 10, where 'a = real] by (simp add: go_trunc_def)

subsection \<open>Unspecified iteration order\<close>

lemma range_order_mset: "is_range_order r \<Longrightarrow> mset (r xs) = mset xs"
  by (simp add: is_range_order_def)

lemma range_order_set: "is_range_order r \<Longrightarrow> set (r xs) = set xs"
  by (metis range_order_mset set_mset_mset)

lemma range_order_length: "is_range_order r \<Longrightarrow> length (r xs) = length xs"
  by (metis range_order_mset size_mset)

lemma range_order_id [simp]: "is_range_order (\<lambda>xs. xs)"
  by (simp add: is_range_order_def)

lemma range_order_rev [simp]: "is_range_order rev"
  by (simp add: is_range_order_def)

subsection \<open>Loops that find or change the first match\<close>

lemma find_SomeD: "find P xs = Some x \<Longrightarrow> x \<in> set xs \<and> P x"
  by (induction xs) (auto split: if_splits)

lemma length_upd_first [simp]: "length (upd_first P f xs) = length xs"
  by (induction xs) auto

lemma upd_first_none: "\<forall>x \<in> set xs. \<not> P x \<Longrightarrow> upd_first P f xs = xs"
  by (induction xs) auto

lemma map_upd_first: "(\<And>x. g (f x) = g x) \<Longrightarrow> map g (upd_first P f xs) = map g xs"
  by (induction xs) auto

lemma del_first_none: "\<forall>x \<in> set xs. \<not> P x \<Longrightarrow> del_first P xs = xs"
  by (induction xs) auto

lemma set_del_first: "set (del_first P xs) \<subseteq> set xs"
  by (induction xs) auto

lemma del_first_eq_remove1: "del_first (\<lambda>y. y = x) xs = remove1 x xs"
  by (induction xs) auto

lemma mset_del_first: "x \<in> set xs \<Longrightarrow> mset (del_first (\<lambda>y. y = x) xs) = mset xs - {#x#}"
  by (simp add: del_first_eq_remove1)

subsection \<open>Go maps as association lists\<close>

lemma distinct_head: "distinct (map f (x # xs)) \<Longrightarrow> y \<in> set xs \<Longrightarrow> f y \<noteq> f x"
  by (metis distinct.simps(2) image_eqI list.set_map list.simps(9))

lemma in_alist_update: "x \<in> set (AList.update k v al) \<Longrightarrow> x = (k, v) \<or> x \<in> set al"
  by (induction al) (auto split: if_splits)

lemma in_alist_delete: "x \<in> set (AList.delete k al) \<Longrightarrow> x \<in> set al"
  by (auto simp: AList.delete_eq)

lemma alist_update_new: "map_of al k = None \<Longrightarrow> AList.update k v al = al @ [(k, v)]"
  by (induction al) (auto split: if_splits)

end
