(* ===== verification/Redis.thy ===== *)
theory Redis
  imports Prelude
begin

text \<open>
  The Redis client (\<^verbatim>\<open>github.com/redis/go-redis/v9\<close>) is third-party code: the components that use it take
  it as a record of its commands, on an arbitrary world \<open>'w\<close>, and the theorems that depend on what the
  server does assume \<open>redis_conforms\<close>. That predicate states the documented behaviour of the commands
  the platform uses: the world holds a database of values with an optional expiry time, and each
  command answers and changes that database as the Redis documentation says, at the server's clock.
  \<open>mem_redis\<close> is an in-memory server that conforms.
\<close>

record ('w, 'v) redis_client =
  rd_Get :: "string \<Rightarrow> 'w \<Rightarrow> (err + 'v) \<times> 'w"
  rd_Set :: "string \<Rightarrow> 'v \<Rightarrow> duration \<Rightarrow> 'w \<Rightarrow> err option \<times> 'w"
  rd_SetNX :: "string \<Rightarrow> 'v \<Rightarrow> duration \<Rightarrow> 'w \<Rightarrow> (err + bool) \<times> 'w"
  rd_Del :: "string \<Rightarrow> 'w \<Rightarrow> err option \<times> 'w"

type_synonym 'v rdb = "string \<Rightarrow> ('v \<times> gotime option) option"

definition redisNil :: err where
  "redisNil = ''redis: nil''"

definition rdb_get :: "gotime \<Rightarrow> string \<Rightarrow> 'v rdb \<Rightarrow> 'v option" where
  "rdb_get now k db =
     (case db k of
        None \<Rightarrow> None
      | Some (v, None) \<Rightarrow> Some v
      | Some (v, Some e) \<Rightarrow> if now < e then Some v else None)"

definition rdb_set :: "gotime \<Rightarrow> string \<Rightarrow> 'v \<Rightarrow> duration \<Rightarrow> 'v rdb \<Rightarrow> 'v rdb" where
  "rdb_set now k v ttl db = db(k \<mapsto> (v, if 0 < ttl then Some (now + ttl) else None))"

definition rdb_del :: "string \<Rightarrow> 'v rdb \<Rightarrow> 'v rdb" where
  "rdb_del k db = db(k := None)"

definition redis_conforms :: "('w, 'v) redis_client \<Rightarrow> ('w \<Rightarrow> gotime) \<Rightarrow> ('w \<Rightarrow> 'v rdb) \<Rightarrow> bool" where
  "redis_conforms R clock obs \<longleftrightarrow>
     (\<forall>k w. fst (rd_Get R k w) = (case rdb_get (clock w) k (obs w) of None \<Rightarrow> Inl redisNil | Some v \<Rightarrow> Inr v)
          \<and> obs (snd (rd_Get R k w)) = obs w \<and> clock (snd (rd_Get R k w)) = clock w)
   \<and> (\<forall>k v t w. fst (rd_Set R k v t w) = None
          \<and> obs (snd (rd_Set R k v t w)) = rdb_set (clock w) k v t (obs w)
          \<and> clock (snd (rd_Set R k v t w)) = clock w)
   \<and> (\<forall>k v t w. fst (rd_SetNX R k v t w) = Inr (rdb_get (clock w) k (obs w) = None)
          \<and> obs (snd (rd_SetNX R k v t w)) =
              (if rdb_get (clock w) k (obs w) = None then rdb_set (clock w) k v t (obs w) else obs w)
          \<and> clock (snd (rd_SetNX R k v t w)) = clock w)
   \<and> (\<forall>k w. fst (rd_Del R k w) = None \<and> obs (snd (rd_Del R k w)) = rdb_del k (obs w)
          \<and> clock (snd (rd_Del R k w)) = clock w)"

text \<open>An in-memory server with a clock; the rest \<open>'x\<close> of the world is not touched.\<close>

type_synonym ('v, 'x) mem = "gotime \<times> 'v rdb \<times> 'x"

definition mem_redis :: "(('v, 'x) mem, 'v) redis_client" where
  "mem_redis = \<lparr>
     rd_Get = (\<lambda>k (t, db, x). (case rdb_get t k db of None \<Rightarrow> Inl redisNil | Some v \<Rightarrow> Inr v, t, db, x)),
     rd_Set = (\<lambda>k v ttl (t, db, x). (None, t, rdb_set t k v ttl db, x)),
     rd_SetNX = (\<lambda>k v ttl (t, db, x).
        if rdb_get t k db = None then (Inr True, t, rdb_set t k v ttl db, x) else (Inr False, t, db, x)),
     rd_Del = (\<lambda>k (t, db, x). (None, t, rdb_del k db, x))\<rparr>"

definition mem_clock :: "('v, 'x) mem \<Rightarrow> gotime" where
  "mem_clock w = fst w"

definition mem_obs :: "('v, 'x) mem \<Rightarrow> 'v rdb" where
  "mem_obs w = fst (snd w)"

lemma mem_redis_conforms: "redis_conforms mem_redis mem_clock mem_obs"
  by (auto simp: redis_conforms_def mem_redis_def mem_clock_def mem_obs_def split: prod.splits)

lemma rdb_get_set:
  "rdb_get now k (rdb_set t k' v ttl db) =
     (if k = k' then (if 0 < ttl \<and> t + ttl \<le> now then None else Some v) else rdb_get now k db)"
  by (auto simp: rdb_get_def rdb_set_def)

lemma rdb_get_del: "rdb_get now k (rdb_del k' db) = (if k = k' then None else rdb_get now k db)"
  by (auto simp: rdb_get_def rdb_del_def)

lemmas rdb_simps = rdb_get_set rdb_get_del

subsection \<open>The laws, command by command\<close>

lemma conforms_Get:
  assumes "redis_conforms R clock obs"
  shows "fst (rd_Get R k w) = (case rdb_get (clock w) k (obs w) of None \<Rightarrow> Inl redisNil | Some v \<Rightarrow> Inr v)"
    and "obs (snd (rd_Get R k w)) = obs w" and "clock (snd (rd_Get R k w)) = clock w"
  using assms by (simp_all add: redis_conforms_def)

lemma conforms_Set:
  assumes "redis_conforms R clock obs"
  shows "fst (rd_Set R k v t w) = None"
    and "obs (snd (rd_Set R k v t w)) = rdb_set (clock w) k v t (obs w)"
    and "clock (snd (rd_Set R k v t w)) = clock w"
  using assms by (simp_all add: redis_conforms_def)

lemma conforms_SetNX:
  assumes "redis_conforms R clock obs"
  shows "fst (rd_SetNX R k v t w) = Inr (rdb_get (clock w) k (obs w) = None)"
    and "obs (snd (rd_SetNX R k v t w)) =
        (if rdb_get (clock w) k (obs w) = None then rdb_set (clock w) k v t (obs w) else obs w)"
    and "clock (snd (rd_SetNX R k v t w)) = clock w"
  using assms by (simp_all add: redis_conforms_def)

lemma conforms_Del:
  assumes "redis_conforms R clock obs"
  shows "fst (rd_Del R k w) = None" and "obs (snd (rd_Del R k w)) = rdb_del k (obs w)"
    and "clock (snd (rd_Del R k w)) = clock w"
  using assms by (simp_all add: redis_conforms_def)

lemmas conforms_simps = conforms_Get conforms_Set conforms_SetNX conforms_Del

end
