(* ===== verification/App_Error.thy ===== *)
theory App_Error
  imports Prelude
begin

text \<open>
  The application errors of \<^verbatim>\<open>src/utils/errors.go\<close>: error codes, wrapping, the rendered
  message, the HTTP status a code maps to, and validation error lists. The source file and
  line that \<^verbatim>\<open>runtime.Caller\<close> reports are arguments (\<open>caller\<close>). The nested \<^verbatim>\<open>Err error\<close> field
  makes the error type recursive.
\<close>

(* src: utils/errors.go:224-228 ValidationError *)
record validation_error =
  ve_Field :: string
  ve_Message :: string
  ve_Value :: string

(* src: utils/errors.go:61-69 AppError *)
datatype goerror =
    PlainError string
  | AppError (ae_Code: int) (ae_Message: string) (ae_Details: string) (ae_RequestID: string)
      (ae_File: string) (ae_Line: int) (ae_Err: "goerror option")
  | ValidationErrors "validation_error list"

(* src: utils/errors.go:11-58 ErrorCode, constants *)
datatype error_code =
    ErrCodeSuccess | ErrCodeUnknown
  | ErrCodeInvalidParam | ErrCodeMissingParam | ErrCodeInvalidFormat
  | ErrCodeUnauthorized | ErrCodeForbidden | ErrCodeTokenExpired | ErrCodeInvalidToken
  | ErrCodeUserNotFound | ErrCodeUserExists | ErrCodeInvalidCredentials | ErrCodeOperationFailed
  | ErrCodeDatabase | ErrCodeRedis | ErrCodeNetwork | ErrCodeTimeout | ErrCodeServiceUnavailable
  | ErrCodeCacheMiss | ErrCodeCacheWrite | ErrCodeConfigError | ErrCodeExternalAPI
  | ErrCodeBoBingCheat | ErrCodeBoBingBlacklist | ErrCodeBoBingNoChance
  | ErrCodeBoBingInvalidFlag | ErrCodeBoBingDecrypt
  | ErrCodeWXLoginFailed | ErrCodeStuNumNotFound | ErrCodeWXInfoFailed | ErrCodeJWCError

(* src: utils/errors.go:11-58 ErrorCode, constants *)
fun code_int :: "error_code \<Rightarrow> int" where
  "code_int ErrCodeSuccess = 0"
| "code_int ErrCodeUnknown = 1000"
| "code_int ErrCodeInvalidParam = 1001"
| "code_int ErrCodeMissingParam = 1002"
| "code_int ErrCodeInvalidFormat = 1003"
| "code_int ErrCodeUnauthorized = 2001"
| "code_int ErrCodeForbidden = 2002"
| "code_int ErrCodeTokenExpired = 2003"
| "code_int ErrCodeInvalidToken = 2004"
| "code_int ErrCodeUserNotFound = 3001"
| "code_int ErrCodeUserExists = 3002"
| "code_int ErrCodeInvalidCredentials = 3003"
| "code_int ErrCodeOperationFailed = 3004"
| "code_int ErrCodeDatabase = 4001"
| "code_int ErrCodeRedis = 4002"
| "code_int ErrCodeNetwork = 4003"
| "code_int ErrCodeTimeout = 4004"
| "code_int ErrCodeServiceUnavailable = 4005"
| "code_int ErrCodeCacheMiss = 4006"
| "code_int ErrCodeCacheWrite = 4007"
| "code_int ErrCodeConfigError = 4008"
| "code_int ErrCodeExternalAPI = 4009"
| "code_int ErrCodeBoBingCheat = 5001"
| "code_int ErrCodeBoBingBlacklist = 5002"
| "code_int ErrCodeBoBingNoChance = 5003"
| "code_int ErrCodeBoBingInvalidFlag = 5004"
| "code_int ErrCodeBoBingDecrypt = 5005"
| "code_int ErrCodeWXLoginFailed = 6001"
| "code_int ErrCodeStuNumNotFound = 6002"
| "code_int ErrCodeWXInfoFailed = 6003"
| "code_int ErrCodeJWCError = 6004"

fun join :: "string \<Rightarrow> string list \<Rightarrow> string" where
  "join sep [] = []"
| "join sep [x] = x"
| "join sep (x # y # xs) = x @ sep @ join sep (y # xs)"

(* src: utils/errors.go:234-240 ValidationErrors.Error *)
definition ValidationErrors_Error :: "validation_error list \<Rightarrow> string" where
  "ValidationErrors_Error ve = join ''; '' (map (\<lambda>e. ve_Field e @ '': '' @ ve_Message e) ve)"

(* src: utils/errors.go:72-77 AppError.Error *)
fun Error :: "goerror \<Rightarrow> string" where
  "Error (PlainError m) = m"
| "Error (AppError c m d rid f l e) =
     (if d \<noteq> [] then ''['' @ itoa c @ ''] '' @ m @ '': '' @ d else ''['' @ itoa c @ ''] '' @ m)"
| "Error (ValidationErrors ve) = ValidationErrors_Error ve"

(* src: utils/errors.go:80-82 AppError.Unwrap *)
fun Unwrap :: "goerror \<Rightarrow> goerror option" where
  "Unwrap (AppError c m d rid f l e) = e"
| "Unwrap _ = None"

(* src: utils/errors.go:115-120 getErrorDetails *)
definition getErrorDetails :: "goerror option \<Rightarrow> string" where
  "getErrorDetails e = (case e of None \<Rightarrow> [] | Some e \<Rightarrow> Error e)"

(* src: utils/errors.go:85-95 NewAppError *)
definition NewAppError :: "string \<times> int \<Rightarrow> int \<Rightarrow> string \<Rightarrow> goerror option \<Rightarrow> goerror" where
  "NewAppError caller code message e =
     AppError code message (getErrorDetails e) [] (fst caller) (snd caller) e"

(* src: utils/errors.go:98-112 WrapError *)
definition WrapError :: "string \<times> int \<Rightarrow> goerror option \<Rightarrow> int \<Rightarrow> string \<Rightarrow> goerror option" where
  "WrapError caller e code message =
     (case e of None \<Rightarrow> None
      | Some e' \<Rightarrow> Some (AppError code message (getErrorDetails e) [] (fst caller) (snd caller) (Some e')))"

text \<open>
  A \<^verbatim>\<open>*AppError\<close> that is returned as an \<^verbatim>\<open>error\<close>: a nil pointer in the interface is not the nil error, and asking it for its message
  dereferences it.
\<close>

datatype go_error = NilError | TypedError "goerror option"

definition error_message :: "go_error \<Rightarrow> string go_result" where
  "error_message e =
     (case e of
        NilError \<Rightarrow> Panics ''runtime error: invalid memory address or nil pointer dereference''
      | TypedError None \<Rightarrow> Panics ''runtime error: invalid memory address or nil pointer dereference''
      | TypedError (Some g) \<Rightarrow> Returns (Error g))"

(* src: utils/errors.go:123-136 AppError.HTTPStatus *)
definition HTTPStatus :: "int \<Rightarrow> int" where
  "HTTPStatus code =
     (if code \<ge> 1001 \<and> code < 2000 then 400
      else if code \<ge> 2001 \<and> code < 3000 then 401
      else if code \<ge> 3001 \<and> code < 4000 then 422
      else if code \<ge> 4001 \<and> code < 5000 then 500
      else 500)"

(* src: utils/errors.go:173-183 IsAppError *)
fun IsAppError :: "goerror option \<Rightarrow> goerror option" where
  "IsAppError None = None"
| "IsAppError (Some (AppError c m d rid f l e)) = Some (AppError c m d rid f l e)"
| "IsAppError (Some _) = None"

(* src: utils/errors.go:186-191 GetErrorCode *)
definition GetErrorCode :: "goerror option \<Rightarrow> int" where
  "GetErrorCode e = (case IsAppError e of Some a \<Rightarrow> ae_Code a | None \<Rightarrow> code_int ErrCodeUnknown)"

(* src: utils/errors.go:194-199 GetErrorMessage *)
definition GetErrorMessage :: "goerror \<Rightarrow> string" where
  "GetErrorMessage e = (case IsAppError (Some e) of Some a \<Rightarrow> ae_Message a | None \<Rightarrow> Error e)"

(* src: utils/errors.go:202-209 ErrorResponse *)
record error_response =
  er_Success :: bool
  er_ErrorCode :: int
  er_Message :: string
  er_Details :: string
  er_RequestID :: string
  er_Timestamp :: int

(* src: utils/errors.go:212-221 AppError.ToResponse *)
fun ToResponse :: "goerror \<Rightarrow> error_response option" where
  "ToResponse (AppError c m d rid f l e) =
     Some \<lparr>er_Success = False, er_ErrorCode = c, er_Message = m, er_Details = d,
           er_RequestID = rid, er_Timestamp = 0\<rparr>"
| "ToResponse _ = None"

(* src: utils/errors.go:243-249 ValidationErrors.Add *)
definition ve_Add :: "string \<Rightarrow> string \<Rightarrow> string \<Rightarrow> validation_error list \<Rightarrow> validation_error list" where
  "ve_Add field message value ve =
     ve @ [\<lparr>ve_Field = field, ve_Message = message, ve_Value = value\<rparr>]"

(* src: utils/errors.go:252-254 ValidationErrors.HasErrors *)
definition HasErrors :: "validation_error list \<Rightarrow> bool" where
  "HasErrors ve \<longleftrightarrow> length ve > 0"

(* src: utils/errors.go:257-259 ValidationErrors.ToAppError *)
definition ve_ToAppError :: "string \<times> int \<Rightarrow> validation_error list \<Rightarrow> goerror" where
  "ve_ToAppError caller ve =
     NewAppError caller (code_int ErrCodeInvalidParam)
       (utf8 [0xE5, 0x8F, 0x82, 0xE6, 0x95, 0xB0, 0xE9, 0xAA, 0x8C, 0xE8, 0xAF, 0x81, 0xE5, 0xA4,
              0xB1, 0xE8, 0xB4, 0xA5]) (Some (ValidationErrors ve))"

(* src: utils/errors.go:293-298 WrapRedisError *)
definition WrapRedisError :: "string \<times> int \<Rightarrow> goerror option \<Rightarrow> string \<Rightarrow> goerror option" where
  "WrapRedisError caller e operation =
     (case e of None \<Rightarrow> None
      | Some e' \<Rightarrow> WrapError caller e (code_int ErrCodeRedis)
          (utf8 [0xE7, 0xBC, 0x93, 0xE5, 0xAD, 0x98, 0xE6, 0x93, 0x8D, 0xE4, 0xBD, 0x9C, 0xE5, 0xA4,
                 0xB1, 0xE8, 0xB4, 0xA5] @ '': '' @ operation))"

(* src: utils/errors.go:285-290 WrapDatabaseError *)
definition WrapDatabaseError :: "string \<times> int \<Rightarrow> goerror option \<Rightarrow> string \<Rightarrow> goerror option" where
  "WrapDatabaseError caller e operation =
     (case e of None \<Rightarrow> None
      | Some e' \<Rightarrow> WrapError caller e (code_int ErrCodeDatabase)
          (utf8 [0xE6, 0x95, 0xB0, 0xE6, 0x8D, 0xAE, 0xE5, 0xBA, 0x93, 0xE6, 0x93, 0x8D, 0xE4, 0xBD,
                 0x9C, 0xE5, 0xA4, 0xB1, 0xE8, 0xB4, 0xA5] @ '': '' @ operation))"

fun wrap_chain :: "((string \<times> int) \<times> int \<times> string) list \<Rightarrow> goerror \<Rightarrow> goerror option" where
  "wrap_chain [] e = Some e"
| "wrap_chain ((caller, code, message) # ws) e =
     (case wrap_chain ws e of None \<Rightarrow> None | Some e' \<Rightarrow> WrapError caller (Some e') code message)"

fun unwrap_n :: "nat \<Rightarrow> goerror \<Rightarrow> goerror option" where
  "unwrap_n 0 e = Some e"
| "unwrap_n (Suc n) e = (case Unwrap e of None \<Rightarrow> None | Some e' \<Rightarrow> unwrap_n n e')"

subsection \<open>Wrapping keeps the cause and reports the outermost code\<close>

lemma wrap_chain_Some: "\<exists>e'. wrap_chain ws e = Some e'"
  by (induction ws e rule: wrap_chain.induct) (auto simp: WrapError_def)

lemma unwrap_wrap_chain: "wrap_chain ws e = Some w \<Longrightarrow> unwrap_n (length ws) w = Some e"
proof (induction ws arbitrary: w)
  case Nil
  then show ?case by simp
next
  case (Cons x ws)
  obtain caller code message where x: "x = (caller, code, message)" by (cases x)
  obtain e' where e': "wrap_chain ws e = Some e'" using wrap_chain_Some by blast
  from Cons.prems show ?case
    by (auto simp: x e' WrapError_def intro: Cons.IH [OF e'])
qed

text \<open>
  Wrapping an error any number of times with \<^verbatim>\<open>WrapError\<close> never loses it: the chain of
  \<^verbatim>\<open>Unwrap\<close> leads back to the original error after exactly as many steps, \<^verbatim>\<open>GetErrorCode\<close>
  reports the outermost code (or \<^verbatim>\<open>ErrCodeUnknown\<close> for an unwrapped plain error), and the
  rendered message ends with the message of the wrapped error whenever that is not empty.
\<close>
theorem wrap_chain_roundtrip:
  "\<exists>w. wrap_chain ws (PlainError m) = Some w
     \<and> unwrap_n (length ws) w = Some (PlainError m)
     \<and> GetErrorCode (Some w) = (case ws of [] \<Rightarrow> 1000 | x # _ \<Rightarrow> fst (snd x))
     \<and> (\<exists>p. Error w = p @ m)"
proof -
  obtain w where w: "wrap_chain ws (PlainError m) = Some w" using wrap_chain_Some by blast
  have code: "GetErrorCode (Some w) = (case ws of [] \<Rightarrow> 1000 | x # _ \<Rightarrow> fst (snd x))"
    using w by (cases ws) (auto simp: GetErrorCode_def WrapError_def split: option.splits)
  have "\<exists>p. Error w = p @ m" using w
  proof (induction ws arbitrary: w)
    case Nil
    then show ?case by auto
  next
    case (Cons x ws)
    obtain caller code message where x: "x = (caller, code, message)" by (cases x)
    obtain e' where e': "wrap_chain ws (PlainError m) = Some e'" using wrap_chain_Some by blast
    obtain p where p: "Error e' = p @ m" using Cons.IH [OF e'] by blast
    from Cons.prems have w: "w = AppError code message (Error e') [] (fst caller) (snd caller) (Some e')"
      by (auto simp: x e' WrapError_def getErrorDetails_def)
    then show ?case
      by (cases "p @ m = []") (auto simp: p intro: exI [where x = "''['' @ itoa code @ ''] '' @ message @ '': '' @ p"])
  qed
  with w code unwrap_wrap_chain [OF w] show ?thesis by blast
qed

end
