(* ===== verification/Advanced_Cache.thy ===== *)
theory Advanced_Cache
  imports Redis App_Error
begin

text \<open>
  The caches of \<^verbatim>\<open>src/app/common/container\<close>: the local and the two-level cache of \<^verbatim>\<open>cache_manager.go\<close>, and the advanced cache of
  \<^verbatim>\<open>advanced_cache.go\<close> with its guards against penetration and avalanche, warm-up, circuit breaker, fallback, bloom filter and
  metrics.

  A value is a string or something else, which the Redis client encodes (\<open>encode\<close>); what comes back from Redis is a string. The
  Redis client is a parameter. An \<^verbatim>\<open>AppError\<close> names its place by the line in the file. Random numbers and the clock are arguments.
  The connections of \<^verbatim>\<open>CacheManager\<close> are left out.
\<close>

section \<open>Model\<close>

datatype 'v cache_value = CacheText string | CacheOther 'v

record ('w, 'v) cache_redis =
  cr_client :: "('w, string) redis_client"
  cr_Exists :: "string \<Rightarrow> 'w \<Rightarrow> (err + int) \<times> 'w"
  cr_encode :: "'v \<Rightarrow> err + string"

text \<open>\<^verbatim>\<open>client.Set\<close> with a value of any type.\<close>

definition redis_SetValue :: "('w, 'v) cache_redis \<Rightarrow> string \<Rightarrow> 'v cache_value \<Rightarrow> duration \<Rightarrow> 'w \<Rightarrow> err option \<times> 'w" where
  "redis_SetValue R key v ttl w =
     (case v of
        CacheText s \<Rightarrow> rd_Set (cr_client R) key s ttl w
      | CacheOther x \<Rightarrow> (case cr_encode R x of Inl e \<Rightarrow> (Some e, w) | Inr s \<Rightarrow> rd_Set (cr_client R) key s ttl w))"

subsection \<open>Local and two-level cache\<close>

(* src: app/common/container/cache_manager.go:166-169 LocalCache *)
type_synonym 'v local_cache = "string \<rightharpoonup> 'v cache_value"

(* src: app/common/container/cache_manager.go:172-176 NewLocalCache *)
definition NewLocalCache :: "'v local_cache" where
  "NewLocalCache = Map.empty"

(* src: app/common/container/cache_manager.go:179-184 LocalCache.Get *)
definition lc_Get :: "string \<Rightarrow> 'v local_cache \<Rightarrow> 'v cache_value option" where
  "lc_Get key lc = lc key"

(* src: app/common/container/cache_manager.go:187-191 LocalCache.Set *)
definition lc_Set :: "string \<Rightarrow> 'v cache_value \<Rightarrow> 'v local_cache \<Rightarrow> 'v local_cache" where
  "lc_Set key v lc = lc(key \<mapsto> v)"

(* src: app/common/container/cache_manager.go:194-198 LocalCache.Delete *)
definition lc_Delete :: "string \<Rightarrow> 'v local_cache \<Rightarrow> 'v local_cache" where
  "lc_Delete key lc = lc(key := None)"

(* src: app/common/container/cache_manager.go:201-205 LocalCache.Clear *)
definition lc_Clear :: "'v local_cache \<Rightarrow> 'v local_cache" where
  "lc_Clear lc = Map.empty"

(* src: app/common/container/cache_manager.go:159-163 MultiLevelCache *)
record 'v multi_level_cache =
  ml_localCache :: "'v local_cache"
  ml_ttl :: duration

(* src: app/common/container/cache_manager.go:208-214 NewMultiLevelCache *)
definition NewMultiLevelCache :: "duration \<Rightarrow> 'v multi_level_cache" where
  "NewMultiLevelCache ttl = \<lparr> ml_localCache = NewLocalCache, ml_ttl = ttl \<rparr>"

(* src: app/common/container/cache_manager.go:217-231 MultiLevelCache.Get *)
definition ml_Get ::
  "('w, 'v) cache_redis \<Rightarrow> string \<Rightarrow> 'v multi_level_cache \<times> 'w \<Rightarrow> (err + 'v cache_value) \<times> 'v multi_level_cache \<times> 'w" where
  "ml_Get R key cw =
     (case lc_Get key (ml_localCache (fst cw)) of
        Some v \<Rightarrow> (Inr v, cw)
      | None \<Rightarrow>
          (case rd_Get (cr_client R) key (snd cw) of
             (Inr s, w') \<Rightarrow> (Inr (CacheText s), (fst cw)\<lparr> ml_localCache := lc_Set key (CacheText s) (ml_localCache (fst cw)) \<rparr>, w')
           | (Inl _, w') \<Rightarrow> (Inl (''key not found: '' @ key), fst cw, w')))"

(* src: app/common/container/cache_manager.go:234-240 MultiLevelCache.Set *)
definition ml_Set ::
  "('w, 'v) cache_redis \<Rightarrow> string \<Rightarrow> 'v cache_value \<Rightarrow> 'v multi_level_cache \<times> 'w \<Rightarrow> err option \<times> 'v multi_level_cache \<times> 'w" where
  "ml_Set R key v cw =
     (case redis_SetValue R key v (ml_ttl (fst cw)) (snd cw) of
        (e, w') \<Rightarrow> (e, (fst cw)\<lparr> ml_localCache := lc_Set key v (ml_localCache (fst cw)) \<rparr>, w'))"

(* src: app/common/container/cache_manager.go:243-249 MultiLevelCache.Delete *)
definition ml_Delete :: "('w, 'v) cache_redis \<Rightarrow> string \<Rightarrow> 'v multi_level_cache \<times> 'w \<Rightarrow> err option \<times> 'v multi_level_cache \<times> 'w" where
  "ml_Delete R key cw =
     (case rd_Del (cr_client R) key (snd cw) of
        (e, w') \<Rightarrow> (e, (fst cw)\<lparr> ml_localCache := lc_Delete key (ml_localCache (fst cw)) \<rparr>, w'))"

subsection \<open>Guards\<close>

(* src: app/common/container/advanced_cache.go:130-134 PenetrationProtection *)
record penetration =
  pp_blockedKeys :: "string \<rightharpoonup> gotime"
  pp_blockTime :: duration

(* src: app/common/container/advanced_cache.go:137-142 NewPenetrationProtection *)
definition NewPenetrationProtection :: penetration where
  "NewPenetrationProtection = \<lparr> pp_blockedKeys = Map.empty, pp_blockTime = 5 * minute \<rparr>"

(* src: app/common/container/advanced_cache.go:145-157 PenetrationProtection.IsBlocked *)
definition IsBlocked :: "gotime \<Rightarrow> string \<Rightarrow> penetration \<Rightarrow> bool \<times> penetration" where
  "IsBlocked now key pp =
     (case pp_blockedKeys pp key of
        None \<Rightarrow> (False, pp)
      | Some t \<Rightarrow>
          if now - t < pp_blockTime pp then (True, pp)
          else (False, pp\<lparr> pp_blockedKeys := (pp_blockedKeys pp)(key := None) \<rparr>))"

(* src: app/common/container/advanced_cache.go:160-164 PenetrationProtection.BlockKey *)
definition BlockKey :: "gotime \<Rightarrow> string \<Rightarrow> penetration \<Rightarrow> penetration" where
  "BlockKey now key pp = pp\<lparr> pp_blockedKeys := (pp_blockedKeys pp)(key \<mapsto> now) \<rparr>"

(* src: app/common/container/advanced_cache.go:167-171 PenetrationProtection.RecordSet *)
definition pp_RecordSet :: "string \<Rightarrow> penetration \<Rightarrow> penetration" where
  "pp_RecordSet key pp = pp\<lparr> pp_blockedKeys := (pp_blockedKeys pp)(key := None) \<rparr>"

(* src: app/common/container/advanced_cache.go:174-180 AvalancheProtection *)
record avalanche =
  ap_lastCheck :: gotime
  ap_missCount :: int
  ap_threshold :: int
  ap_window :: duration

(* src: app/common/container/advanced_cache.go:183-188 NewAvalancheProtection *)
definition NewAvalancheProtection :: avalanche where
  "NewAvalancheProtection = \<lparr> ap_lastCheck = 0, ap_missCount = 0, ap_threshold = 100, ap_window = 1 * minute \<rparr>"

(* src: app/common/container/advanced_cache.go:191-203 AvalancheProtection.IsAvalanche *)
definition IsAvalanche :: "gotime \<Rightarrow> avalanche \<Rightarrow> bool \<times> avalanche" where
  "IsAvalanche now ap =
     (let ap1 = (if now - ap_lastCheck ap > ap_window ap then ap\<lparr> ap_missCount := 0, ap_lastCheck := now \<rparr> else ap);
          ap2 = ap1\<lparr> ap_missCount := ap_missCount ap1 + 1 \<rparr>
      in (ap_missCount ap2 > ap_threshold ap2, ap2))"

text \<open>\<open>r\<close> is the random number drawn, from 0 to less than 1.\<close>

(* src: app/common/container/advanced_cache.go:206-210 AvalancheProtection.AddRandomTTL *)
definition AddRandomTTL :: "real \<Rightarrow> duration \<Rightarrow> duration" where
  "AddRandomTTL r baseTTL = go_trunc (real_of_int baseTTL * (8 / 10 + r * (4 / 10)))"

subsection \<open>The advanced cache\<close>

text \<open>The circuit breaker that the cache is given is not used by any of its operations.\<close>

(* src: app/common/container/advanced_cache.go:25-32 AdvancedCache *)
record 'v advanced_cache =
  ac_localCache :: "'v local_cache"
  ac_penetration :: penetration
  ac_avalanche :: avalanche

(* src: app/common/container/advanced_cache.go:35-44 NewAdvancedCache *)
definition NewAdvancedCache :: "'v advanced_cache" where
  "NewAdvancedCache = \<lparr> ac_localCache = NewLocalCache, ac_penetration = NewPenetrationProtection, ac_avalanche = NewAvalancheProtection \<rparr>"

definition cache_site :: "int \<Rightarrow> string \<times> int" where
  "cache_site line = (''app/common/container/advanced_cache.go'', line)"

(* src: app/common/container/advanced_cache.go:47-74 AdvancedCache.Get *)
definition ac_Get ::
  "('w, 'v) cache_redis \<Rightarrow> gotime \<Rightarrow> string \<Rightarrow> 'v advanced_cache \<times> 'w \<Rightarrow> (goerror option + 'v cache_value) \<times> 'v advanced_cache \<times> 'w" where
  "ac_Get R now key cw =
     (let ac = fst cw in
      case lc_Get key (ac_localCache ac) of
        Some v \<Rightarrow> (Inr v, cw)
      | None \<Rightarrow>
          (case rd_Get (cr_client R) key (snd cw) of
             (Inr s, w') \<Rightarrow> (Inr (CacheText s), ac\<lparr> ac_localCache := lc_Set key (CacheText s) (ac_localCache ac) \<rparr>, w')
           | (Inl e, w') \<Rightarrow>
               (case IsBlocked now key (ac_penetration ac) of
                  (True, pp) \<Rightarrow>
                    (Inl (WrapError (cache_site 63) (Some (PlainError (''key '' @ key @ '' is blocked''))) (code_int ErrCodeCacheMiss)
                       (utf8 [0xE7, 0xBC, 0x93, 0xE5, 0xAD, 0x98, 0xE7, 0xA9, 0xBF, 0xE9, 0x80, 0x8F, 0xE9, 0x98, 0xB2, 0xE6, 0x8A, 0xA4])),
                     ac\<lparr> ac_penetration := pp \<rparr>, w')
                | (False, pp) \<Rightarrow>
                    (case IsAvalanche now (ac_avalanche ac) of
                       (True, ap) \<Rightarrow>
                         (Inl (WrapError (cache_site 69) (Some (PlainError ''cache avalanche detected'')) (code_int ErrCodeServiceUnavailable)
                            (utf8 [0xE7, 0xBC, 0x93, 0xE5, 0xAD, 0x98, 0xE9, 0x9B, 0xAA, 0xE5, 0xB4, 0xA9])),
                          ac\<lparr> ac_penetration := pp, ac_avalanche := ap \<rparr>, w')
                     | (False, ap) \<Rightarrow>
                         (Inl (WrapError (cache_site 73) (Some (PlainError e)) (code_int ErrCodeCacheMiss)
                            (utf8 [0xE7, 0xBC, 0x93, 0xE5, 0xAD, 0x98, 0xE6, 0x9C, 0xAA, 0xE5, 0x91, 0xBD, 0xE4, 0xB8, 0xAD])),
                          ac\<lparr> ac_penetration := pp, ac_avalanche := ap \<rparr>, w')))))"

(* src: app/common/container/advanced_cache.go:77-92 AdvancedCache.Set *)
definition ac_Set ::
  "('w, 'v) cache_redis \<Rightarrow> real \<Rightarrow> string \<Rightarrow> 'v cache_value \<Rightarrow> duration \<Rightarrow> 'v advanced_cache \<times> 'w \<Rightarrow> goerror option \<times> 'v advanced_cache \<times> 'w" where
  "ac_Set R r key v ttl cw =
     (let ac = (fst cw)\<lparr> ac_localCache := lc_Set key v (ac_localCache (fst cw)) \<rparr>
      in case redis_SetValue R key v (AddRandomTTL r ttl) (snd cw) of
           (Some e, w') \<Rightarrow>
             (WrapRedisError (cache_site 85) (Some (PlainError e)) (utf8 [0xE8, 0xAE, 0xBE, 0xE7, 0xBD, 0xAE, 0xE7, 0xBC, 0x93, 0xE5, 0xAD, 0x98]), ac, w')
         | (None, w') \<Rightarrow> (None, ac\<lparr> ac_penetration := pp_RecordSet key (ac_penetration ac) \<rparr>, w'))"

(* src: app/common/container/advanced_cache.go:95-106 AdvancedCache.Delete *)
definition ac_Delete ::
  "('w, 'v) cache_redis \<Rightarrow> string \<Rightarrow> 'v advanced_cache \<times> 'w \<Rightarrow> goerror option \<times> 'v advanced_cache \<times> 'w" where
  "ac_Delete R key cw =
     (let ac = (fst cw)\<lparr> ac_localCache := lc_Delete key (ac_localCache (fst cw)) \<rparr>
      in case rd_Del (cr_client R) key (snd cw) of
           (Some e, w') \<Rightarrow>
             (WrapRedisError (cache_site 102) (Some (PlainError e)) (utf8 [0xE5, 0x88, 0xA0, 0xE9, 0x99, 0xA4, 0xE7, 0xBC, 0x93, 0xE5, 0xAD, 0x98]), ac, w')
         | (None, w') \<Rightarrow> (None, ac, w'))"

(* src: app/common/container/advanced_cache.go:109-122 AdvancedCache.Exists *)
definition ac_Exists ::
  "('w, 'v) cache_redis \<Rightarrow> string \<Rightarrow> 'v advanced_cache \<times> 'w \<Rightarrow> (goerror option + bool) \<times> 'v advanced_cache \<times> 'w" where
  "ac_Exists R key cw =
     (case lc_Get key (ac_localCache (fst cw)) of
        Some _ \<Rightarrow> (Inr True, cw)
      | None \<Rightarrow>
          (case cr_Exists R key (snd cw) of
             (Inl e, w') \<Rightarrow>
               (Inl (WrapRedisError (cache_site 118) (Some (PlainError e))
                  (utf8 [0xE6, 0xA3, 0x80, 0xE6, 0x9F, 0xA5, 0xE7, 0xBC, 0x93, 0xE5, 0xAD, 0x98, 0xE5, 0xAD, 0x98, 0xE5, 0x9C, 0xA8, 0xE6, 0x80, 0xA7])),
                fst cw, w')
           | (Inr n, w') \<Rightarrow> (Inr (n > 0), fst cw, w')))"

text \<open>The warm-up passes over every key that exists, fails to be looked up or fails to load; errors of setting are dropped.\<close>

(* src: app/common/container/advanced_cache.go:226-251 WarmupManager.Warmup *)
fun Warmup :: "('w, 'v) cache_redis \<Rightarrow> string list \<Rightarrow> (string \<Rightarrow> err + 'v cache_value) \<Rightarrow> 'w \<Rightarrow> err option \<times> 'w" where
  "Warmup R [] loader w = (None, w)"
| "Warmup R (key # keys) loader w =
     (case cr_Exists R key w of
        (Inl _, w1) \<Rightarrow> Warmup R keys loader w1
      | (Inr n, w1) \<Rightarrow>
          if n > 0 then Warmup R keys loader w1
          else case loader key of
            Inl _ \<Rightarrow> Warmup R keys loader w1
          | Inr v \<Rightarrow> Warmup R keys loader (snd (redis_SetValue R key v hour w1)))"

subsection \<open>Circuit breaker\<close>

datatype cb_state_name = CbClosed | CbOpen | CbHalfOpen

(* src: app/common/container/advanced_cache.go:254-261 CircuitBreaker *)
record cache_breaker =
  cc_failures :: int
  cc_lastFailure :: gotime
  cc_threshold :: int
  cc_timeout :: duration
  cc_state :: cb_state_name

(* src: app/common/container/advanced_cache.go:264-270 NewCircuitBreaker *)
definition NewCacheBreaker :: cache_breaker where
  "NewCacheBreaker = \<lparr> cc_failures = 0, cc_lastFailure = 0, cc_threshold = 5, cc_timeout = 30 * second, cc_state = CbClosed \<rparr>"

text \<open>\<open>now\<close> is the time before the call, \<open>later\<close> the time after it; the function acts on the outside.\<close>

(* src: app/common/container/advanced_cache.go:273-304 CircuitBreaker.Call *)
definition cc_Call ::
  "gotime \<Rightarrow> gotime \<Rightarrow> ('w \<Rightarrow> goerror option \<times> 'w) \<Rightarrow> cache_breaker \<Rightarrow> 'w \<Rightarrow> goerror option \<times> cache_breaker \<times> 'w" where
  "cc_Call now later fn cb w =
     (if cc_state cb = CbOpen \<and> now - cc_lastFailure cb < cc_timeout cb
        then (WrapError (cache_site 280) (Some (PlainError ''circuit breaker is open'')) (code_int ErrCodeServiceUnavailable)
                (utf8 [0xE7, 0x86, 0x94, 0xE6, 0x96, 0xAD, 0xE5, 0x99, 0xA8, 0xE5, 0xBC, 0x80, 0xE5, 0x90, 0xAF]), cb, w)
      else
        let cb1 = (if cc_state cb = CbOpen then cb\<lparr> cc_state := CbHalfOpen \<rparr> else cb)
        in case fn w of
             (Some e, w') \<Rightarrow>
               (let cb2 = cb1\<lparr> cc_failures := cc_failures cb1 + 1, cc_lastFailure := later \<rparr>
                in (Some e, if cc_failures cb2 \<ge> cc_threshold cb2 then cb2\<lparr> cc_state := CbOpen \<rparr> else cb2, w'))
           | (None, w') \<Rightarrow>
               (None, cb1\<lparr> cc_state := (if cc_state cb1 = CbHalfOpen then CbClosed else cc_state cb1), cc_failures := 0 \<rparr>, w'))"

subsection \<open>Fallback\<close>

text \<open>The goroutine that writes the value back runs after the answer; \<open>cf_Get\<close> also returns what it will store.\<close>

(* src: app/common/container/advanced_cache.go:321-342 CacheWithFallback.Get *)
definition cf_Get ::
  "('c \<Rightarrow> (goerror option + 'v cache_value) \<times> 'c) \<Rightarrow> (string \<Rightarrow> goerror option + 'v cache_value) option \<Rightarrow> string \<Rightarrow> 'c
   \<Rightarrow> (goerror option + 'v cache_value) \<times> (string \<times> 'v cache_value \<times> duration) option \<times> 'c" where
  "cf_Get get fallback key c =
     (case get c of
        (Inr v, c') \<Rightarrow> (Inr v, None, c')
      | (Inl e, c') \<Rightarrow>
          (case fallback of
             None \<Rightarrow> (Inl e, None, c')
           | Some f \<Rightarrow> (case f key of Inl e' \<Rightarrow> (Inl e', None, c') | Inr v \<Rightarrow> (Inr v, Some (key, v, hour), c'))))"

subsection \<open>Bloom filter\<close>

(* src: app/common/container/advanced_cache.go:345-350 BloomFilter *)
record bloom_filter =
  bf_bitset :: "bool list"
  bf_size :: int
  bf_hashes :: nat

(* src: app/common/container/advanced_cache.go:353-359 NewBloomFilter *)
definition NewBloomFilter :: "nat \<Rightarrow> nat \<Rightarrow> bloom_filter" where
  "NewBloomFilter n hashes = \<lparr> bf_bitset = replicate n False, bf_size = int n, bf_hashes = hashes \<rparr>"

text \<open>\<open>md5\<close> gives the 16 bytes of the digest. The bytes are summed in 64 bits with wrap-around.\<close>

(* src: app/common/container/advanced_cache.go:387-401 BloomFilter.hash *)
definition bf_hash :: "(string \<Rightarrow> nat list) \<Rightarrow> string \<Rightarrow> nat \<Rightarrow> int" where
  "bf_hash md5 key seed =
     (let result = fold (\<lambda>b r. wrap64 (r * 256 + int b)) (md5 (key @ [char_of (seed mod 256)])) 0
      in if result < 0 then wrap64 (- result) else result)"

text \<open>The index of a hash, or the panic of the division or of the slice.\<close>

definition bf_index :: "(string \<Rightarrow> nat list) \<Rightarrow> string \<Rightarrow> nat \<Rightarrow> bloom_filter \<Rightarrow> err + nat" where
  "bf_index md5 key i bf =
     (if bf_size bf = 0 then Inl ''runtime error: integer divide by zero''
      else let k = go_mod (bf_hash md5 key i) (bf_size bf)
        in if 0 \<le> k \<and> k < int (length (bf_bitset bf)) then Inr (nat k) else Inl ''runtime error: index out of range'')"

fun bf_Add_from :: "(string \<Rightarrow> nat list) \<Rightarrow> string \<Rightarrow> nat list \<Rightarrow> bloom_filter \<Rightarrow> err + bloom_filter" where
  "bf_Add_from md5 key [] bf = Inr bf"
| "bf_Add_from md5 key (i # is) bf =
     (case bf_index md5 key i bf of
        Inl e \<Rightarrow> Inl e | Inr k \<Rightarrow> bf_Add_from md5 key is (bf\<lparr> bf_bitset := (bf_bitset bf)[k := True] \<rparr>))"

(* src: app/common/container/advanced_cache.go:362-370 BloomFilter.Add *)
definition bf_Add :: "(string \<Rightarrow> nat list) \<Rightarrow> string \<Rightarrow> bloom_filter \<Rightarrow> err + bloom_filter" where
  "bf_Add md5 key bf = bf_Add_from md5 key [0..<bf_hashes bf] bf"

fun bf_Contains_from :: "(string \<Rightarrow> nat list) \<Rightarrow> string \<Rightarrow> nat list \<Rightarrow> bloom_filter \<Rightarrow> err + bool" where
  "bf_Contains_from md5 key [] bf = Inr True"
| "bf_Contains_from md5 key (i # is) bf =
     (case bf_index md5 key i bf of
        Inl e \<Rightarrow> Inl e | Inr k \<Rightarrow> if \<not> bf_bitset bf ! k then Inr False else bf_Contains_from md5 key is bf)"

(* src: app/common/container/advanced_cache.go:373-384 BloomFilter.Contains *)
definition bf_Contains :: "(string \<Rightarrow> nat list) \<Rightarrow> string \<Rightarrow> bloom_filter \<Rightarrow> err + bool" where
  "bf_Contains md5 key bf = bf_Contains_from md5 key [0..<bf_hashes bf] bf"

subsection \<open>Metrics\<close>

(* src: app/common/container/advanced_cache.go:404-411 CacheMetrics *)
record cache_metrics =
  cx_Hits :: int
  cx_Misses :: int
  cx_Sets :: int
  cx_Deletes :: int
  cx_Errors :: int

(* src: app/common/container/advanced_cache.go:414-416 NewCacheMetrics *)
definition NewCacheMetrics :: cache_metrics where
  "NewCacheMetrics = \<lparr> cx_Hits = 0, cx_Misses = 0, cx_Sets = 0, cx_Deletes = 0, cx_Errors = 0 \<rparr>"

datatype cache_event = RecordHit | RecordMiss | RecordSet | RecordDelete | RecordError

(* src: app/common/container/advanced_cache.go:419-451 CacheMetrics.RecordHit, RecordMiss, RecordSet, RecordDelete, RecordError *)
fun cx_record :: "cache_event \<Rightarrow> cache_metrics \<Rightarrow> cache_metrics" where
  "cx_record RecordHit m = m\<lparr> cx_Hits := wrap64 (cx_Hits m + 1) \<rparr>"
| "cx_record RecordMiss m = m\<lparr> cx_Misses := wrap64 (cx_Misses m + 1) \<rparr>"
| "cx_record RecordSet m = m\<lparr> cx_Sets := wrap64 (cx_Sets m + 1) \<rparr>"
| "cx_record RecordDelete m = m\<lparr> cx_Deletes := wrap64 (cx_Deletes m + 1) \<rparr>"
| "cx_record RecordError m = m\<lparr> cx_Errors := wrap64 (cx_Errors m + 1) \<rparr>"

(* src: app/common/container/advanced_cache.go:454-463 CacheMetrics.GetHitRate *)
definition GetHitRate :: "cache_metrics \<Rightarrow> real" where
  "GetHitRate m =
     (let total = wrap64 (cx_Hits m + cx_Misses m) in if total = 0 then 0 else real_of_int (cx_Hits m) / real_of_int total)"

section \<open>Properties\<close>

subsection \<open>The local level\<close>

text \<open>The operations of other requests, with what each draws and reads from the clock, and changes of the outside by others.\<close>

datatype ('v, 'w) cache_op =
    OpGet gotime string
  | OpSet real string "'v cache_value" duration
  | OpDelete string
  | OpExists string
  | OpWorld "'w \<Rightarrow> 'w"

fun cache_step :: "('w, 'v) cache_redis \<Rightarrow> ('v, 'w) cache_op \<Rightarrow> 'v advanced_cache \<times> 'w \<Rightarrow> 'v advanced_cache \<times> 'w" where
  "cache_step R (OpGet now k) cw = snd (ac_Get R now k cw)"
| "cache_step R (OpSet r k v ttl) cw = snd (ac_Set R r k v ttl cw)"
| "cache_step R (OpDelete k) cw = snd (ac_Delete R k cw)"
| "cache_step R (OpExists k) cw = snd (ac_Exists R k cw)"
| "cache_step R (OpWorld f) cw = (fst cw, f (snd cw))"

fun changes_key :: "string \<Rightarrow> ('v, 'w) cache_op \<Rightarrow> bool" where
  "changes_key k (OpSet r k' v ttl) = (k' = k)"
| "changes_key k (OpDelete k') = (k' = k)"
| "changes_key k _ = False"

lemma cache_step_local:
  "ac_localCache (fst cw) k = Some v \<Longrightarrow> \<not> changes_key k op \<Longrightarrow> ac_localCache (fst (cache_step R op cw)) k = Some v"
proof (cases op)
  case (OpGet now k')
  assume "ac_localCache (fst cw) k = Some v"
  with OpGet show ?thesis
    by (auto simp: ac_Get_def lc_Get_def lc_Set_def Let_def split: option.split prod.split sum.split bool.split)
next
  case (OpSet r k' v' ttl)
  assume "ac_localCache (fst cw) k = Some v" "\<not> changes_key k op"
  with OpSet show ?thesis by (auto simp: ac_Set_def lc_Set_def Let_def split: option.split prod.split)
next
  case (OpDelete k')
  assume "ac_localCache (fst cw) k = Some v" "\<not> changes_key k op"
  with OpDelete show ?thesis by (auto simp: ac_Delete_def lc_Delete_def Let_def split: option.split prod.split)
next
  case (OpExists k')
  assume "ac_localCache (fst cw) k = Some v"
  with OpExists show ?thesis by (auto simp: ac_Exists_def split: option.split prod.split sum.split)
qed simp

text \<open>
  The local level knows no time: once a key was set, whatever its time to live, and whatever happens to Redis, to other keys and
  to the clock, the cache answers with the value that was set until this very process sets or deletes the key.
\<close>

theorem local_entry_never_expires:
  assumes "\<And>op. op \<in> set ops \<Longrightarrow> \<not> changes_key k op"
  shows "fst (ac_Get R now k (fold (cache_step R) ops (snd (ac_Set R r k v ttl cw)))) = Inr v"
proof -
  have "ac_localCache (fst (fold (cache_step R) ops cw')) k = Some v" if "ac_localCache (fst cw') k = Some v" for cw'
    using that assms by (induction ops arbitrary: cw') (simp_all add: cache_step_local)
  moreover have "ac_localCache (fst (snd (ac_Set R r k v ttl cw))) k = Some v"
    by (auto simp: ac_Set_def lc_Set_def Let_def split: option.split prod.split)
  ultimately have "ac_localCache (fst (fold (cache_step R) ops (snd (ac_Set R r k v ttl cw)))) k = Some v" by blast
  then show ?thesis by (simp add: ac_Get_def lc_Get_def)
qed

definition mem_cache_redis :: "((string, unit) mem, unit) cache_redis" where
  "mem_cache_redis = \<lparr> cr_client = mem_redis, cr_Exists = \<lambda>k (t, db, x). (Inr (if rdb_get t k db = None then 0 else 1), t, db, x),
     cr_encode = \<lambda>_. Inr ''?'' \<rparr>"

theorem local_entry_never_expires_witness:
  "fst (ac_Get mem_cache_redis (24 * hour) ''score'' (fold (cache_step mem_cache_redis) [OpWorld (\<lambda>(t, db, x). (24 * hour, Map.empty, x))]
     (snd (ac_Set mem_cache_redis (1 / 2) ''score'' (CacheText ''12'') minute (NewAdvancedCache, (0, Map.empty, ())))))) = Inr (CacheText ''12'')"
  by (rule local_entry_never_expires) auto

subsection \<open>The guards\<close>

lemma lc_set_blocked: "ac_penetration (ac\<lparr> ac_localCache := lc \<rparr>) = ac_penetration ac"
  by simp

text \<open>
  Nothing ever blocks a key: the guard against penetration lets every request through, so a key that does not exist is looked up
  in Redis each time.
\<close>

lemma never_blocked:
  "pp_blockedKeys (ac_penetration (fst cw)) = Map.empty \<Longrightarrow> pp_blockedKeys (ac_penetration (fst (cache_step R op cw))) = Map.empty"
proof (cases op)
  case (OpGet now k)
  assume e: "pp_blockedKeys (ac_penetration (fst cw)) = Map.empty"
  then have "IsBlocked now k (ac_penetration (fst cw)) = (False, ac_penetration (fst cw))" by (simp add: IsBlocked_def)
  with e OpGet show ?thesis
    by (auto simp: ac_Get_def Let_def split: option.split prod.split sum.split bool.split)
qed (auto simp: ac_Set_def ac_Delete_def ac_Exists_def pp_RecordSet_def Let_def split: option.split prod.split sum.split)

text \<open>Within a window the guard against avalanches reports every miss after the hundredth, and none before.\<close>

fun misses :: "gotime list \<Rightarrow> avalanche \<Rightarrow> bool list" where
  "misses [] ap = []"
| "misses (t # ts) ap = fst (IsAvalanche t ap) # misses ts (snd (IsAvalanche t ap))"

lemma misses_in_window:
  "\<forall>t \<in> set ts. t - ap_lastCheck ap \<le> ap_window ap \<Longrightarrow>
   misses ts ap = map (\<lambda>i. ap_missCount ap + int i + 1 > ap_threshold ap) [0..<length ts]"
proof (induction ts arbitrary: ap)
  case (Cons t ts)
  let ?ap = "snd (IsAvalanche t ap)"
  have ap: "?ap = ap\<lparr> ap_missCount := ap_missCount ap + 1 \<rparr>" "fst (IsAvalanche t ap) \<longleftrightarrow> ap_missCount ap + 1 > ap_threshold ap"
    using Cons.prems by (simp_all add: IsAvalanche_def Let_def)
  have "misses ts ?ap = map (\<lambda>i. ap_missCount ?ap + int i + 1 > ap_threshold ?ap) [0..<length ts]"
    by (rule Cons.IH) (use Cons.prems in \<open>simp add: ap(1)\<close>)
  then have ih: "misses ts ?ap = map (\<lambda>i. ap_missCount ap + 1 + int i + 1 > ap_threshold ap) [0..<length ts]" by (simp add: ap(1))
  have "[0..<length (t # ts)] = 0 # map Suc [0..<length ts]" by (simp add: upt_conv_Cons map_Suc_upt del: upt_Suc)
  then show ?case by (auto simp: ih ap(2) comp_def)
qed simp

theorem avalanche_after_hundred:
  assumes "\<And>t. t \<in> set ts \<Longrightarrow> first \<le> t \<and> t \<le> first + minute" and "minute < first"
  shows "misses (first # ts) NewAvalancheProtection = map (\<lambda>i. i \<ge> 100) [0..<Suc (length ts)]"
proof -
  let ?ap = "\<lparr> ap_lastCheck = first, ap_missCount = 1, ap_threshold = 100, ap_window = minute \<rparr>"
  have first: "IsAvalanche first NewAvalancheProtection = (False, ?ap)"
    using assms(2) by (simp add: IsAvalanche_def NewAvalancheProtection_def Let_def)
  have "misses ts ?ap = map (\<lambda>i. i \<ge> 99) [0..<length ts]"
    using assms(1) by (subst misses_in_window) (auto simp: algebra_simps)
  moreover have "[0..<Suc (length ts)] = 0 # map Suc [0..<length ts]" by (simp add: upt_conv_Cons map_Suc_upt del: upt_Suc)
  ultimately show ?thesis by (simp add: first comp_def)
qed

text \<open>The random time to live differs from the given one by up to a fifth, not by a tenth as the comment has it.\<close>

lemma random_ttl_bounds:
  assumes "0 \<le> r" "r < 1" "0 \<le> ttl"
  shows "8 * ttl div 10 \<le> AddRandomTTL r ttl \<and> AddRandomTTL r ttl \<le> 12 * ttl div 10"
proof -
  have "real_of_int ttl * (8 / 10) \<le> real_of_int ttl * (8 / 10 + r * (4 / 10))" using assms by (intro mult_left_mono) auto
  moreover have "real_of_int ttl * (8 / 10 + r * (4 / 10)) \<le> real_of_int ttl * (12 / 10)" using assms by (intro mult_left_mono) auto
  moreover have "go_trunc (real_of_int ttl * (8 / 10)) = 8 * ttl div 10" "go_trunc (real_of_int ttl * (12 / 10)) = 12 * ttl div 10"
    using go_trunc_tenth [of "8 * ttl"] go_trunc_tenth [of "12 * ttl"] assms(3) by (simp_all add: mult.commute)
  ultimately show ?thesis unfolding AddRandomTTL_def by (metis go_trunc_mono)
qed

subsection \<open>Bloom filter\<close>

lemma bf_index_set [simp]: "bf_index md5 key i (bf\<lparr> bf_bitset := (bf_bitset bf)[k := b] \<rparr>) = bf_index md5 key i bf"
  by (simp add: bf_index_def)

lemma Add_from_keeps:
  "bf_Add_from md5 key is bf = Inr bf' \<Longrightarrow>
   bf_size bf' = bf_size bf \<and> bf_hashes bf' = bf_hashes bf \<and> length (bf_bitset bf') = length (bf_bitset bf)
   \<and> (\<forall>k. k < length (bf_bitset bf) \<longrightarrow> bf_bitset bf ! k \<longrightarrow> bf_bitset bf' ! k)"
proof (induction "is" arbitrary: bf)
  case (Cons i "is")
  then obtain k where k: "bf_index md5 key i bf = Inr k"
    and r: "bf_Add_from md5 key is (bf\<lparr> bf_bitset := (bf_bitset bf)[k := True] \<rparr>) = Inr bf'"
    by (auto split: sum.splits)
  have "(bf_bitset bf)[k := True] ! j" if "j < length (bf_bitset bf)" "bf_bitset bf ! j" for j
    using that by (cases "k = j") simp_all
  with Cons.IH [OF r] show ?case by simp
qed simp

lemma same_index:
  "bf_size bf' = bf_size bf \<Longrightarrow> length (bf_bitset bf') = length (bf_bitset bf) \<Longrightarrow> bf_index md5 key i bf' = bf_index md5 key i bf"
  by (simp add: bf_index_def)

lemma index_bound: "bf_index md5 key i bf = Inr k \<Longrightarrow> k < length (bf_bitset bf)"
  by (auto simp: bf_index_def Let_def nat_less_iff split: if_splits)

lemma Add_from_sets:
  "bf_Add_from md5 key is bf = Inr bf' \<Longrightarrow> i \<in> set is \<Longrightarrow> \<exists>k. bf_index md5 key i bf = Inr k \<and> bf_bitset bf' ! k"
proof (induction "is" arbitrary: bf)
  case (Cons j "is")
  then obtain k where k: "bf_index md5 key j bf = Inr k"
    and r: "bf_Add_from md5 key is (bf\<lparr> bf_bitset := (bf_bitset bf)[k := True] \<rparr>) = Inr bf'"
    by (auto split: sum.splits)
  show ?case
  proof (cases "i \<in> set is")
    case True
    from Cons.IH [OF r True] show ?thesis by simp
  next
    case False
    with Cons.prems(2) have "i = j" by simp
    moreover have "bf_bitset bf' ! k" using Add_from_keeps [OF r] index_bound [OF k] by simp
    ultimately show ?thesis using k by blast
  qed
qed simp

lemma Contains_from:
  "\<forall>i \<in> set is. \<exists>k. bf_index md5 key i bf = Inr k \<and> bf_bitset bf ! k \<Longrightarrow> bf_Contains_from md5 key is bf = Inr True"
  by (induction "is") auto

fun add_keys :: "(string \<Rightarrow> nat list) \<Rightarrow> string list \<Rightarrow> bloom_filter \<Rightarrow> err + bloom_filter" where
  "add_keys md5 [] bf = Inr bf"
| "add_keys md5 (key # keys) bf = (case bf_Add md5 key bf of Inl e \<Rightarrow> Inl e | Inr bf' \<Rightarrow> add_keys md5 keys bf')"

lemma add_keys_keeps:
  "add_keys md5 keys bf = Inr bf' \<Longrightarrow>
   bf_size bf' = bf_size bf \<and> bf_hashes bf' = bf_hashes bf \<and> length (bf_bitset bf') = length (bf_bitset bf)
   \<and> (\<forall>k. k < length (bf_bitset bf) \<longrightarrow> bf_bitset bf ! k \<longrightarrow> bf_bitset bf' ! k)"
proof (induction keys arbitrary: bf)
  case (Cons key keys)
  then obtain bf1 where "bf_Add md5 key bf = Inr bf1" "add_keys md5 keys bf1 = Inr bf'" by (auto split: sum.splits)
  with Cons.IH [of bf1] Add_from_keeps [of md5 key "[0..<bf_hashes bf]" bf bf1] show ?case by (simp add: bf_Add_def)
qed simp

text \<open>
  C27. A bloom filter never forgets: after keys were added without a panic, it says of each of them that it is there, whatever the
  digests are.
\<close>

theorem bloom_never_forgets:
  assumes "add_keys md5 keys (NewBloomFilter n hashes) = Inr bf" and "key \<in> set keys"
  shows "bf_Contains md5 key bf = Inr True"
proof -
  have "add_keys md5 keys bf0 = Inr bf \<Longrightarrow> key \<in> set keys \<Longrightarrow> bf_Contains md5 key bf = Inr True" for bf0
  proof (induction keys arbitrary: bf0)
    case (Cons k keys)
    then obtain bf1 where a: "bf_Add md5 k bf0 = Inr bf1" and r: "add_keys md5 keys bf1 = Inr bf" by (auto split: sum.splits)
    show ?case
    proof (cases "key \<in> set keys")
      case True
      from Cons.IH [OF r True] show ?thesis .
    next
      case False
      with Cons.prems have "key = k" by simp
      note keeps = Add_from_keeps [OF a [unfolded bf_Add_def]] add_keys_keeps [OF r]
      have "\<exists>j. bf_index md5 key i bf = Inr j \<and> bf_bitset bf ! j" if i: "i \<in> set [0..<bf_hashes bf]" for i
      proof -
        have "i \<in> set [0..<bf_hashes bf0]" using i keeps by simp
        from Add_from_sets [OF a [unfolded bf_Add_def] this] \<open>key = k\<close>
        obtain j where j: "bf_index md5 key i bf0 = Inr j" "bf_bitset bf1 ! j" by blast
        from j(1) have "bf_index md5 key i bf = Inr j" using same_index [of bf bf0] keeps by simp
        moreover have "bf_bitset bf ! j" using keeps j(2) index_bound [OF j(1)] by simp
        ultimately show ?thesis by blast
      qed
      then show ?thesis unfolding bf_Contains_def by (intro Contains_from) blast
    qed
  qed simp
  then show ?thesis using assms by blast
qed

theorem bloom_never_forgets_witness:
  "bf_Contains (\<lambda>s. [length s]) ''ab'' \<lparr> bf_bitset = [False, False, True, True], bf_size = 4, bf_hashes = 1 \<rparr> = Inr True"
proof -
  have h: "bf_hash (\<lambda>s. [length s]) ''ab'' 0 = 3" "bf_hash (\<lambda>s. [length s]) ''c'' 0 = 2"
    by (simp_all add: bf_hash_def wrap64_def Let_def)
  have "replicate 4 False = [False, False, False, False]" by (simp add: numeral_eq_Suc)
  with h have "add_keys (\<lambda>s. [length s]) [''ab'', ''c''] (NewBloomFilter 4 1)
      = Inr \<lparr> bf_bitset = [False, False, True, True], bf_size = 4, bf_hashes = 1 \<rparr>"
    by (simp add: NewBloomFilter_def bf_Add_def bf_index_def go_mod_def Let_def)
  from bloom_never_forgets [OF this, of "''ab''"] show ?thesis by simp
qed

text \<open>
  A digest whose last 64 bits are the least integer stays negative, and the index of the filter with it: \<open>Add\<close> panics.
\<close>

lemma least_hash_panics:
  assumes "md5 (key @ [char_of (0 :: nat)]) = [128, 0, 0, 0, 0, 0, 0, 0]" and "0 < hashes"
  shows "bf_Add md5 key (NewBloomFilter 1000 hashes) = Inl ''runtime error: index out of range''"
proof -
  have "md5 (key @ [char_of (0 mod 256 :: nat)]) = [128, 0, 0, 0, 0, 0, 0, 0]" using assms(1) by simp
  then have h: "bf_hash md5 key 0 = - (2 ^ 63)" unfolding bf_hash_def Let_def by (simp only:) (simp add: wrap64_def)
  have "bf_index md5 key 0 (NewBloomFilter 1000 hashes) = Inl ''runtime error: index out of range''"
    unfolding bf_index_def h by (simp add: NewBloomFilter_def go_mod_def Let_def)
  then show ?thesis using assms(2) by (simp add: bf_Add_def NewBloomFilter_def upt_conv_Cons)
qed

end
