(* ===== verification/Go_Strings.thy ===== *)
theory Go_Strings
  imports Prelude
begin

text \<open>
  What the code uses of Go's packages \<^verbatim>\<open>strconv\<close> and \<^verbatim>\<open>strings\<close>, and slices of strings. A string is its bytes.
\<close>

text \<open>\<^verbatim>\<open>strconv.Atoi\<close>: an optional sign and decimal digits, within the range of \<^verbatim>\<open>int\<close>.\<close>

definition is_digit :: "char \<Rightarrow> bool" where
  "is_digit c \<longleftrightarrow> 48 \<le> (of_char c :: nat) \<and> (of_char c :: nat) \<le> 57"

definition digits_value :: "string \<Rightarrow> nat" where
  "digits_value s = fold (\<lambda>c n. 10 * n + (of_char c - 48)) s 0"

definition Atoi :: "string \<Rightarrow> err + int" where
  "Atoi s =
     (let body = (case s of c # r \<Rightarrow> if c = CHR ''+'' \<or> c = CHR ''-'' then r else s | [] \<Rightarrow> s);
          neg = (case s of c # r \<Rightarrow> c = CHR ''-'' | [] \<Rightarrow> False);
          value = (if neg then - int (digits_value body) else int (digits_value body))
      in if body = [] \<or> \<not> list_all is_digit body
           then Inl (''strconv.Atoi: parsing '' @ s @ '': invalid syntax'')
         else if value < - (2 ^ 63) \<or> value \<ge> 2 ^ 63
           then Inl (''strconv.Atoi: parsing '' @ s @ '': value out of range'')
         else Inr value)"

text \<open>\<^verbatim>\<open>n, _ := strconv.Atoi(s)\<close>: an input that is no number gives 0, one out of range the nearest number.\<close>

definition Atoi_value :: "string \<Rightarrow> int" where
  "Atoi_value s =
     (case Atoi s of
        Inr n \<Rightarrow> n
      | Inl _ \<Rightarrow>
          (case s of
             [] \<Rightarrow> 0
           | c # r \<Rightarrow>
               let body = (if c = CHR ''+'' \<or> c = CHR ''-'' then r else s)
               in if body = [] \<or> \<not> list_all is_digit body then 0
                  else if c = CHR ''-'' then - (2 ^ 63) else 2 ^ 63 - 1))"

text \<open>\<^verbatim>\<open>s[i:j]\<close>, which panics out of range.\<close>

definition slice :: "string \<Rightarrow> int \<Rightarrow> int \<Rightarrow> err + string" where
  "slice s i j =
     (if 0 \<le> i \<and> i \<le> j \<and> j \<le> int (length s) then Inr (take (nat (j - i)) (drop (nat i) s))
      else Inl ''runtime error: slice bounds out of range'')"

definition strings_HasPrefix :: "string \<Rightarrow> string \<Rightarrow> bool" where
  "strings_HasPrefix s p \<longleftrightarrow> take (length p) s = p"

definition strings_HasSuffix :: "string \<Rightarrow> string \<Rightarrow> bool" where
  "strings_HasSuffix s p \<longleftrightarrow> length p \<le> length s \<and> drop (length s - length p) s = p"

fun strings_Contains :: "string \<Rightarrow> string \<Rightarrow> bool" where
  "strings_Contains [] sub = (sub = [])"
| "strings_Contains (c # s) sub = (strings_HasPrefix (c # s) sub \<or> strings_Contains s sub)"

text \<open>\<^verbatim>\<open>strings.TrimSpace\<close>: the encodings of the white space characters of Unicode.\<close>

definition white_spaces :: "string list" where
  "white_spaces = map (\<lambda>n. utf8 [n]) [9, 10, 11, 12, 13, 32]
     @ map utf8 [[0xC2, 0x85], [0xC2, 0xA0], [0xE1, 0x9A, 0x80], [0xE2, 0x80, 0xA8], [0xE2, 0x80, 0xA9], [0xE2, 0x80, 0xAF],
                 [0xE2, 0x81, 0x9F], [0xE3, 0x80, 0x80]]
     @ map (\<lambda>n. utf8 [0xE2, 0x80, n]) [0x80..<0x8B]"

definition space_prefix :: "string \<Rightarrow> string option" where
  "space_prefix s = find (strings_HasPrefix s) white_spaces"

definition space_suffix :: "string \<Rightarrow> string option" where
  "space_suffix s = find (strings_HasSuffix s) white_spaces"

lemma white_spaces_nonempty: "w \<in> set white_spaces \<Longrightarrow> w \<noteq> []"
  by (auto simp: white_spaces_def utf8_def)

lemma shorter: "w \<noteq> [] \<Longrightarrow> length w \<le> length s \<Longrightarrow> length s - length w < length s"
  by (cases w) auto

lemma space_prefix_shrinks: "space_prefix s = Some w \<Longrightarrow> w \<noteq> [] \<and> length w \<le> length s"
  using white_spaces_nonempty
  by (auto simp: space_prefix_def strings_HasPrefix_def dest!: find_SomeD) (metis length_take min.cobounded1)

lemma space_suffix_shrinks: "space_suffix s = Some w \<Longrightarrow> w \<noteq> [] \<and> length w \<le> length s"
  using white_spaces_nonempty by (auto simp: space_suffix_def strings_HasSuffix_def dest!: find_SomeD)

function trim_left :: "string \<Rightarrow> string" where
  "trim_left s = (case space_prefix s of None \<Rightarrow> s | Some w \<Rightarrow> trim_left (drop (length w) s))"
  by pat_completeness auto
termination
  by (relation "measure length") (auto dest!: space_prefix_shrinks simp: shorter)

function trim_right :: "string \<Rightarrow> string" where
  "trim_right s = (case space_suffix s of None \<Rightarrow> s | Some w \<Rightarrow> trim_right (take (length s - length w) s))"
  by pat_completeness auto
termination
  by (relation "measure length") (auto dest!: space_suffix_shrinks simp: shorter)

declare trim_left.simps [simp del] trim_right.simps [simp del]

definition TrimSpace :: "string \<Rightarrow> string" where
  "TrimSpace s = trim_right (trim_left s)"

text \<open>\<^verbatim>\<open>strings.Split(s, sep)\<close> for a separator of one byte.\<close>

fun strings_Split :: "char \<Rightarrow> string \<Rightarrow> string list" where
  "strings_Split sep [] = [[]]"
| "strings_Split sep (c # s) =
     (if c = sep then [] # strings_Split sep s
      else (c # hd (strings_Split sep s)) # tl (strings_Split sep s))"

section \<open>Facts\<close>

lemma strings_Contains_iff: "strings_Contains s sub \<longleftrightarrow> (\<exists>a b. s = a @ sub @ b)"
proof (induction s)
  case (Cons c s)
  have "strings_HasPrefix (c # s) sub \<longleftrightarrow> (\<exists>b. c # s = sub @ b)"
    by (auto simp: strings_HasPrefix_def) (metis append_take_drop_id)
  with Cons show ?case by (auto simp: Cons_eq_append_conv)
qed simp

lemma slice_ok: "0 \<le> i \<Longrightarrow> i \<le> j \<Longrightarrow> j \<le> int (length s) \<Longrightarrow> slice s i j = Inr (take (nat (j - i)) (drop (nat i) s))"
  by (simp add: slice_def)

lemma slice_panics: "j < i \<or> int (length s) < j \<Longrightarrow> slice s i j = Inl ''runtime error: slice bounds out of range''"
  by (auto simp: slice_def)

lemma strings_Split_nonempty [simp]: "strings_Split sep s \<noteq> []"
  by (cases s) auto

lemma strings_Split_plain: "sep \<notin> set s \<Longrightarrow> strings_Split sep s = [s]"
  by (induction s) auto

lemma strings_Split_first: "sep \<notin> set a \<Longrightarrow> strings_Split sep (a @ sep # b) = a # strings_Split sep b"
  by (induction a) auto

lemma length_strings_Split: "length (strings_Split sep s) = Suc (length (filter (\<lambda>c. c = sep) s))"
  by (induction s) auto

lemma strings_Split_single: "length (strings_Split sep s) = 1 \<Longrightarrow> sep \<notin> set s \<and> strings_Split sep s = [s]"
  using strings_Split_plain [of sep s] by (auto simp: length_strings_Split filter_empty_conv)

lemma strings_Split_pair:
  "strings_Split sep s = [a, b] \<longleftrightarrow> s = a @ sep # b \<and> sep \<notin> set a \<and> sep \<notin> set b"
proof
  show "s = a @ sep # b \<and> sep \<notin> set a \<and> sep \<notin> set b \<Longrightarrow> strings_Split sep s = [a, b]"
    by (simp add: strings_Split_first strings_Split_plain)
  show "strings_Split sep s = [a, b] \<Longrightarrow> s = a @ sep # b \<and> sep \<notin> set a \<and> sep \<notin> set b"
  proof (induction s arbitrary: a)
    case (Cons c s)
    show ?case
    proof (cases "c = sep")
      case True
      with Cons.prems have "a = []" and s: "strings_Split sep s = [b]" by auto
      with strings_Split_single [of sep s] True show ?thesis by auto
    next
      case False
      with Cons.prems obtain a' where "a = c # a'" and "strings_Split sep s = [a', b]"
        by (cases "strings_Split sep s") auto
      with Cons.IH [of a'] False show ?thesis by simp
    qed
  qed simp
qed

end
