(* ===== verification/Gin_Context.thy ===== *)
theory Gin_Context
  imports App_Error Go_Strings
begin

text \<open>
  What the HTTP middlewares use of a request and how they end. A middleware reads the request and the values
  earlier handlers left in the gin context, and then either calls \<^verbatim>\<open>c.Next()\<close>, here \<open>Proceeds\<close> with the values of
  the context at that moment, or answers and calls \<^verbatim>\<open>c.Abort()\<close>, here \<open>Aborts\<close> with the HTTP status and the JSON
  body. The answers of \<^verbatim>\<open>src/middlewares/response_utils.go\<close> are modelled here. \<^verbatim>\<open>render\<close> is \<^verbatim>\<open>fmt.Sprintf("%v", x)\<close>.
\<close>

datatype ctx_value = CtxStr string | CtxInt int | CtxBool bool | CtxList "string list"

fun render :: "ctx_value \<Rightarrow> string" where
  "render (CtxStr s) = s"
| "render (CtxInt n) = itoa n"
| "render (CtxBool b) = (if b then ''true'' else ''false'')"
| "render (CtxList xs) = ''['' @ join '' '' xs @ '']''"

type_synonym gin_keys = "string \<rightharpoonup> ctx_value"

record gin_request =
  rq_Method :: string
  rq_FullPath :: string
  rq_Path :: string
  rq_ClientIP :: string
  rq_Header :: "string \<rightharpoonup> string"
  rq_Keys :: gin_keys

text \<open>\<^verbatim>\<open>c.GetHeader\<close>: empty when the header is missing. \<^verbatim>\<open>c.GetString\<close>: empty when the value is missing or no string.\<close>

definition GetHeader :: "gin_request \<Rightarrow> string \<Rightarrow> string" where
  "GetHeader c h = (case rq_Header c h of None \<Rightarrow> [] | Some s \<Rightarrow> s)"

definition GetString :: "gin_request \<Rightarrow> string \<Rightarrow> string" where
  "GetString c k = (case rq_Keys c k of Some (CtxStr s) \<Rightarrow> s | _ \<Rightarrow> [])"

(* src: middlewares/response_utils.go:13-19 ErrorResponse *)
record gin_error_response =
  er_Success :: bool
  er_ErrorCode :: int
  er_Message :: string
  er_Details :: "ctx_value option"
  er_Timestamp :: int

datatype json_body = ErrorBody gin_error_response | HBody "(string \<times> ctx_value) list" | EmptyBody

datatype mw_end = Proceeds gin_keys | Aborts nat json_body

(* src: middlewares/response_utils.go:30-38 RespondWithError *)
definition RespondWithError :: "gotime \<Rightarrow> nat \<Rightarrow> int \<Rightarrow> string \<Rightarrow> ctx_value option \<Rightarrow> nat \<times> json_body" where
  "RespondWithError now statusCode errorCode message details =
     (statusCode,
      ErrorBody \<lparr> er_Success = False, er_ErrorCode = errorCode, er_Message = message, er_Details = details,
                  er_Timestamp = go_unix now \<rparr>)"

(* src: middlewares/response_utils.go:56-58 RespondWithValidationError *)
definition RespondWithValidationError :: "gotime \<Rightarrow> string \<Rightarrow> ctx_value option \<Rightarrow> nat \<times> json_body" where
  "RespondWithValidationError now message details = RespondWithError now 400 (code_int ErrCodeInvalidParam) message details"

(* src: middlewares/response_utils.go:61-63 RespondWithUnauthorized *)
definition RespondWithUnauthorized :: "gotime \<Rightarrow> string \<Rightarrow> nat \<times> json_body" where
  "RespondWithUnauthorized now message = RespondWithError now 401 (code_int ErrCodeUnauthorized) message None"

(* src: middlewares/response_utils.go:66-68 RespondWithForbidden *)
definition RespondWithForbidden :: "gotime \<Rightarrow> string \<Rightarrow> nat \<times> json_body" where
  "RespondWithForbidden now message = RespondWithError now 403 (code_int ErrCodeForbidden) message None"

(* src: middlewares/response_utils.go:71-73 RespondWithInternalError *)
definition RespondWithInternalError :: "gotime \<Rightarrow> string \<Rightarrow> nat \<times> json_body" where
  "RespondWithInternalError now message = RespondWithError now 500 (code_int ErrCodeUnknown) message None"

(* src: middlewares/response_utils.go:76-78 RespondWithTooManyRequests *)
definition RespondWithTooManyRequests :: "gotime \<Rightarrow> string \<Rightarrow> nat \<times> json_body" where
  "RespondWithTooManyRequests now message = RespondWithError now 429 429 message None"

(* src: middlewares/response_utils.go:81-83 RespondWithMethodNotAllowed *)
definition RespondWithMethodNotAllowed :: "gotime \<Rightarrow> string \<Rightarrow> nat \<times> json_body" where
  "RespondWithMethodNotAllowed now message = RespondWithError now 405 405 message None"

(* src: middlewares/response_utils.go:86-88 RespondWithUnsupportedMediaType *)
definition RespondWithUnsupportedMediaType :: "gotime \<Rightarrow> string \<Rightarrow> nat \<times> json_body" where
  "RespondWithUnsupportedMediaType now message = RespondWithError now 415 415 message None"

definition abort_with :: "nat \<times> json_body \<Rightarrow> mw_end" where
  "abort_with answer = Aborts (fst answer) (snd answer)"

definition proceeds :: "mw_end \<Rightarrow> bool" where
  "proceeds e = (case e of Proceeds _ \<Rightarrow> True | Aborts _ _ \<Rightarrow> False)"

fun end_status :: "mw_end \<Rightarrow> nat option" where
  "end_status (Proceeds _) = None"
| "end_status (Aborts st _) = Some st"

lemmas respond_defs = RespondWithError_def RespondWithValidationError_def RespondWithUnauthorized_def RespondWithForbidden_def
  RespondWithInternalError_def RespondWithTooManyRequests_def RespondWithMethodNotAllowed_def
  RespondWithUnsupportedMediaType_def abort_with_def

lemma proceeds_simps [simp]: "proceeds (Proceeds k)" "\<not> proceeds (Aborts n b)" "\<not> proceeds (abort_with a)"
  by (simp_all add: proceeds_def abort_with_def)

lemma end_status_abort [simp]: "end_status (abort_with a) = Some (fst a)"
  by (simp add: abort_with_def)

lemma proceeds_iff: "proceeds e \<longleftrightarrow> end_status e = None"
  by (cases e) simp_all

lemma respond_status [simp]:
  "fst (RespondWithUnauthorized now m) = 401" "fst (RespondWithForbidden now m) = 403"
  "fst (RespondWithInternalError now m) = 500" "fst (RespondWithTooManyRequests now m) = 429"
  "fst (RespondWithMethodNotAllowed now m) = 405" "fst (RespondWithUnsupportedMediaType now m) = 415"
  "fst (RespondWithValidationError now m d) = 400"
  by (simp_all add: respond_defs)

end
