(* ===== verification/Auth_Enhanced.thy ===== *)
theory Auth_Enhanced
  imports Gin_Context
begin

text \<open>
  The provider based authentication of \<^verbatim>\<open>src/app/gateway/middlewares/auth_enhanced.go\<close>: the JWT and the OAuth2 provider,
  the middleware that authenticates a bearer token and those that ask for roles, permissions or scopes.

  Parameters are the JWT package (\<open>jp_sign\<close>, \<open>jp_parse\<close>; the code gives it a claims type that lacks the methods the
  version it imports asks for) and the \<^verbatim>\<open>TokenStore\<close>, which has no implementation in the repository and is taken to
  hand out copies of its claims: \<^verbatim>\<open>RefreshToken\<close> of the OAuth2 provider writes into the record it gets.
\<close>

section \<open>Model\<close>

datatype extra_value = ExtraStrings "string list" | ExtraOther string

(* src: app/gateway/middlewares/auth_enhanced.go:23-36 Claims *)
record eclaims =
  ec_UserID :: string
  ec_Username :: string
  ec_Email :: string
  ec_Roles :: "string list"
  ec_Permissions :: "string list"
  ec_ExpiresAt :: gotime
  ec_IssuedAt :: gotime
  ec_NotBefore :: gotime
  ec_Issuer :: string
  ec_Audience :: string
  ec_Subject :: string
  ec_Extra :: "(string \<rightharpoonup> extra_value) option"

(* src: app/gateway/middlewares/auth_enhanced.go:39-51 Claims.Valid *)
definition Claims_Valid :: "gotime \<Rightarrow> eclaims \<Rightarrow> err option" where
  "Claims_Valid now c =
     (if now < ec_NotBefore c then Some ''token not yet valid''
      else if ec_ExpiresAt c < now then Some ''token expired''
      else None)"

subsection \<open>JWT provider\<close>

datatype signing = HS256 | RS256 | OtherAlg string

text \<open>Keys are byte strings; \<open>None\<close> is a nil key pointer.\<close>

(* src: app/gateway/middlewares/auth_enhanced.go:54-61 JWTProvider *)
record jwt_provider =
  jp_secretKey :: string
  jp_publicKey :: "string option"
  jp_privateKey :: "string option"
  jp_signingMethod :: signing
  jp_issuer :: string
  jp_audience :: string

(* src: app/gateway/middlewares/auth_enhanced.go:64-71 NewJWTProvider *)
definition NewJWTProvider :: "string \<Rightarrow> string \<Rightarrow> string \<Rightarrow> jwt_provider" where
  "NewJWTProvider secretKey issuer audience =
     \<lparr> jp_secretKey = secretKey, jp_publicKey = None, jp_privateKey = None, jp_signingMethod = HS256,
       jp_issuer = issuer, jp_audience = audience \<rparr>"

(* src: app/gateway/middlewares/auth_enhanced.go:74-82 NewRSAJWTProvider *)
definition NewRSAJWTProvider :: "string option \<Rightarrow> string option \<Rightarrow> string \<Rightarrow> string \<Rightarrow> jwt_provider" where
  "NewRSAJWTProvider privateKey publicKey issuer audience =
     \<lparr> jp_secretKey = [], jp_publicKey = publicKey, jp_privateKey = privateKey, jp_signingMethod = RS256,
       jp_issuer = issuer, jp_audience = audience \<rparr>"

datatype jwt_key = SecretKey string | PublicKey "string option" | PrivateKey string

record jwt_package =
  jp_sign :: "signing \<Rightarrow> jwt_key \<Rightarrow> eclaims \<Rightarrow> err + string"
  jp_parse :: "gotime \<Rightarrow> string \<Rightarrow> (signing \<Rightarrow> err + jwt_key) \<Rightarrow> err + eclaims"

(* src: app/gateway/middlewares/auth_enhanced.go:85-105 JWTProvider.ValidateToken *)
definition jwt_ValidateToken :: "jwt_package \<Rightarrow> jwt_provider \<Rightarrow> gotime \<Rightarrow> string \<Rightarrow> err + eclaims" where
  "jwt_ValidateToken J p now token =
     jp_parse J now token (\<lambda>alg. case alg of
        HS256 \<Rightarrow> Inr (SecretKey (jp_secretKey p))
      | RS256 \<Rightarrow> Inr (PublicKey (jp_publicKey p))
      | OtherAlg a \<Rightarrow> Inl (''unexpected signing method: '' @ a))"

(* src: app/gateway/middlewares/auth_enhanced.go:108-125 JWTProvider.GenerateToken *)
definition jwt_GenerateToken :: "jwt_package \<Rightarrow> jwt_provider \<Rightarrow> gotime \<Rightarrow> eclaims \<Rightarrow> err + string" where
  "jwt_GenerateToken J p now claims =
     jp_sign J (jp_signingMethod p)
       (case jp_privateKey p of Some k \<Rightarrow> PrivateKey k | None \<Rightarrow> SecretKey (jp_secretKey p))
       (claims\<lparr> ec_IssuedAt := now, ec_NotBefore := now, ec_Issuer := jp_issuer p, ec_Audience := jp_audience p \<rparr>)"

(* src: app/gateway/middlewares/auth_enhanced.go:128-138 JWTProvider.RefreshToken *)
definition jwt_RefreshToken :: "jwt_package \<Rightarrow> jwt_provider \<Rightarrow> gotime \<Rightarrow> string \<Rightarrow> err + string" where
  "jwt_RefreshToken J p now refreshToken =
     (case jwt_ValidateToken J p now refreshToken of
        Inl e \<Rightarrow> Inl e
      | Inr claims \<Rightarrow> jwt_GenerateToken J p now (claims\<lparr> ec_ExpiresAt := now + hour \<rparr>))"

(* src: app/gateway/middlewares/auth_enhanced.go:141-145 JWTProvider.RevokeToken *)
definition jwt_RevokeToken :: "jwt_provider \<Rightarrow> string \<Rightarrow> err option" where
  "jwt_RevokeToken p token = None"

subsection \<open>OAuth2 provider\<close>

(* src: app/gateway/middlewares/auth_enhanced.go:155-161 OAuth2Client *)
record oauth2_client =
  oc_ID :: string
  oc_Secret :: string
  oc_RedirectURIs :: "string list"
  oc_Scopes :: "string list"
  oc_GrantTypes :: "string list"

(* src: app/gateway/middlewares/auth_enhanced.go:164-169 TokenStore *)
record 'w token_store =
  ts_Store :: "string \<Rightarrow> eclaims \<Rightarrow> gotime \<Rightarrow> 'w \<Rightarrow> err option \<times> 'w"
  ts_Get :: "string \<Rightarrow> 'w \<Rightarrow> (err + eclaims) \<times> 'w"
  ts_Delete :: "string \<Rightarrow> 'w \<Rightarrow> err option \<times> 'w"

(* src: app/gateway/middlewares/auth_enhanced.go:148-152 OAuth2Provider *)
record 'w oauth2_provider =
  op_clients :: "string \<rightharpoonup> oauth2_client"
  op_tokenStore :: "'w token_store"

(* src: app/gateway/middlewares/auth_enhanced.go:178-184 NewOAuth2Provider *)
definition NewOAuth2Provider :: "'w token_store \<Rightarrow> 'w oauth2_provider" where
  "NewOAuth2Provider S = \<lparr> op_clients = Map.empty, op_tokenStore = S \<rparr>"

text \<open>\<^verbatim>\<open>UnixNano\<close> of the clock reading.\<close>

(* src: app/gateway/middlewares/auth_enhanced.go:224-227 generateRandomToken *)
definition generateRandomToken :: "gotime \<Rightarrow> string" where
  "generateRandomToken now = ''random_token_'' @ itoa (now - 62135596800 * second)"

(* src: app/gateway/middlewares/auth_enhanced.go:187-189 OAuth2Provider.ValidateToken *)
definition oauth_ValidateToken :: "'w oauth2_provider \<Rightarrow> string \<Rightarrow> 'w \<Rightarrow> (err + eclaims) \<times> 'w" where
  "oauth_ValidateToken p token = ts_Get (op_tokenStore p) token"

(* src: app/gateway/middlewares/auth_enhanced.go:192-204 OAuth2Provider.GenerateToken *)
definition oauth_GenerateToken :: "'w oauth2_provider \<Rightarrow> gotime \<Rightarrow> eclaims \<Rightarrow> 'w \<Rightarrow> (err + string) \<times> 'w" where
  "oauth_GenerateToken p now claims w =
     (let token = generateRandomToken now
      in case ts_Store (op_tokenStore p) token claims (now + hour) w of
           (Some e, w') \<Rightarrow> (Inl e, w') | (None, w') \<Rightarrow> (Inr token, w'))"

(* src: app/gateway/middlewares/auth_enhanced.go:207-216 OAuth2Provider.RefreshToken *)
definition oauth_RefreshToken :: "'w oauth2_provider \<Rightarrow> gotime \<Rightarrow> string \<Rightarrow> 'w \<Rightarrow> (err + string) \<times> 'w" where
  "oauth_RefreshToken p now refreshToken w =
     (case oauth_ValidateToken p refreshToken w of
        (Inl e, w') \<Rightarrow> (Inl e, w')
      | (Inr claims, w') \<Rightarrow>
          oauth_GenerateToken p now (claims\<lparr> ec_ExpiresAt := now + hour \<rparr>) w')"

(* src: app/gateway/middlewares/auth_enhanced.go:219-221 OAuth2Provider.RevokeToken *)
definition oauth_RevokeToken :: "'w oauth2_provider \<Rightarrow> string \<Rightarrow> 'w \<Rightarrow> err option \<times> 'w" where
  "oauth_RevokeToken p token = ts_Delete (op_tokenStore p) token"

subsection \<open>Multi-factor settings\<close>

(* src: app/gateway/middlewares/auth_enhanced.go:243-248 MFAPolicy *)
record mfa_policy =
  mfa_RequiredMethods :: "string list"
  mfa_OptionalMethods :: "string list"
  mfa_MaxAttempts :: int
  mfa_LockoutDuration :: duration

subsection \<open>Middlewares\<close>

text \<open>
  The values these middlewares keep in the gin context. \<open>EnhNext\<close> goes on with them, \<open>EnhAbort\<close> is the HTTP status, the
  error code, the message and the details of the JSON answer (its other fields are constant).
\<close>

datatype enh_value = EnhString string | EnhStrings "string list" | EnhClaims eclaims | EnhOther string

type_synonym enh_keys = "string \<rightharpoonup> enh_value"

datatype enh_end = EnhNext enh_keys | EnhAbort nat int string "string option"

(* src: app/gateway/middlewares/auth_enhanced.go:259-313 EnhancedAuthMiddleware *)
definition EnhancedAuthMiddleware ::
  "(string \<Rightarrow> 'w \<Rightarrow> (err + eclaims) \<times> 'w) \<Rightarrow> string \<Rightarrow> enh_keys \<Rightarrow> 'w \<Rightarrow> enh_end \<times> 'w" where
  "EnhancedAuthMiddleware validate authHeader keys w =
     (if authHeader = [] then (EnhAbort 401 4010 ''Authorization header required'' None, w)
      else case strings_Split (CHR '' '') authHeader of
        [scheme, token] \<Rightarrow>
          if scheme \<noteq> ''Bearer'' then (EnhAbort 401 4011 ''Invalid authorization header format'' None, w)
          else (case validate token w of
                  (Inl e, w') \<Rightarrow> (EnhAbort 401 4012 ''Invalid token'' (Some e), w')
                | (Inr claims, w') \<Rightarrow>
                    (EnhNext (keys(''user_id'' \<mapsto> EnhString (ec_UserID claims), ''username'' \<mapsto> EnhString (ec_Username claims),
                       ''email'' \<mapsto> EnhString (ec_Email claims), ''roles'' \<mapsto> EnhStrings (ec_Roles claims),
                       ''permissions'' \<mapsto> EnhStrings (ec_Permissions claims), ''claims'' \<mapsto> EnhClaims claims)), w'))
      | _ \<Rightarrow> (EnhAbort 401 4011 ''Invalid authorization header format'' None, w))"

(* src: app/gateway/middlewares/auth_enhanced.go:343-354 RoleBasedAuthMiddleware (role loop) *)
definition shares :: "string list \<Rightarrow> string list \<Rightarrow> bool" where
  "shares required owned = list_ex (\<lambda>r. r \<in> set owned) required"

(* src: app/gateway/middlewares/auth_enhanced.go:316-370 RoleBasedAuthMiddleware *)
definition RoleBasedAuthMiddleware :: "string list \<Rightarrow> enh_keys \<Rightarrow> enh_end" where
  "RoleBasedAuthMiddleware requiredRoles keys =
     (case keys ''roles'' of
        None \<Rightarrow> EnhAbort 403 4030 ''User roles not found'' None
      | Some (EnhStrings userRoles) \<Rightarrow>
          if shares requiredRoles userRoles then EnhNext keys
          else EnhAbort 403 4032 ''Insufficient permissions''
                 (Some (''Required roles: '' @ render (CtxList requiredRoles) @ '', User roles: '' @ render (CtxList userRoles)))
      | Some _ \<Rightarrow> EnhAbort 403 4031 ''Invalid user roles format'' None)"

(* src: app/gateway/middlewares/auth_enhanced.go:373-427 PermissionBasedAuthMiddleware *)
definition PermissionBasedAuthMiddleware :: "string list \<Rightarrow> enh_keys \<Rightarrow> enh_end" where
  "PermissionBasedAuthMiddleware requiredPermissions keys =
     (case keys ''permissions'' of
        None \<Rightarrow> EnhAbort 403 4033 ''User permissions not found'' None
      | Some (EnhStrings userPermissions) \<Rightarrow>
          if shares requiredPermissions userPermissions then EnhNext keys
          else EnhAbort 403 4035 ''Insufficient permissions''
                 (Some (''Required permissions: '' @ render (CtxList requiredPermissions)
                        @ '', User permissions: '' @ render (CtxList userPermissions)))
      | Some _ \<Rightarrow> EnhAbort 403 4034 ''Invalid user permissions format'' None)"

(* src: app/gateway/middlewares/auth_enhanced.go:459-470 ScopeAuthMiddleware (scopes of the claims) *)
definition claims_scopes :: "eclaims \<Rightarrow> string list" where
  "claims_scopes c =
     (case ec_Extra c of
        None \<Rightarrow> []
      | Some extra \<Rightarrow> (case extra ''scopes'' of Some (ExtraStrings scopeList) \<Rightarrow> scopeList | _ \<Rightarrow> []))"

(* src: app/gateway/middlewares/auth_enhanced.go:430-490 ScopeAuthMiddleware *)
definition ScopeAuthMiddleware :: "string list \<Rightarrow> enh_keys \<Rightarrow> enh_end" where
  "ScopeAuthMiddleware requiredScopes keys =
     (case keys ''claims'' of
        None \<Rightarrow> EnhAbort 403 4036 ''User claims not found'' None
      | Some (EnhClaims userClaims) \<Rightarrow>
          if shares requiredScopes (claims_scopes userClaims) then EnhNext keys
          else EnhAbort 403 4038 ''Insufficient scope'' (Some (''Required scopes: '' @ render (CtxList requiredScopes)))
      | Some _ \<Rightarrow> EnhAbort 403 4037 ''Invalid user claims format'' None)"

(* src: app/gateway/middlewares/auth_enhanced.go:493-505 GetCurrentUser *)
definition GetCurrentUser :: "enh_keys \<Rightarrow> eclaims option" where
  "GetCurrentUser keys = (case keys ''claims'' of Some (EnhClaims c) \<Rightarrow> Some c | _ \<Rightarrow> None)"

(* src: app/gateway/middlewares/auth_enhanced.go:508-520 GetUserID *)
definition enh_GetUserID :: "enh_keys \<Rightarrow> string" where
  "enh_GetUserID keys = (case keys ''user_id'' of Some (EnhString s) \<Rightarrow> s | _ \<Rightarrow> [])"

(* src: app/gateway/middlewares/auth_enhanced.go:523-535 GetUserRoles *)
definition enh_GetUserRoles :: "enh_keys \<Rightarrow> string list" where
  "enh_GetUserRoles keys = (case keys ''roles'' of Some (EnhStrings xs) \<Rightarrow> xs | _ \<Rightarrow> [])"

(* src: app/gateway/middlewares/auth_enhanced.go:538-550 GetUserPermissions *)
definition enh_GetUserPermissions :: "enh_keys \<Rightarrow> string list" where
  "enh_GetUserPermissions keys = (case keys ''permissions'' of Some (EnhStrings xs) \<Rightarrow> xs | _ \<Rightarrow> [])"

section \<open>Properties\<close>

lemma shares_iff: "shares required owned \<longleftrightarrow> set required \<inter> set owned \<noteq> {}"
  by (auto simp: shares_def list_ex_iff)

definition enh_passes :: "enh_end \<Rightarrow> bool" where
  "enh_passes e = (case e of EnhNext _ \<Rightarrow> True | EnhAbort _ _ _ _ \<Rightarrow> False)"

lemma enh_passes_simps [simp]: "enh_passes (EnhNext k)" "\<not> enh_passes (EnhAbort st c m d)"
  by (simp_all add: enh_passes_def)

text \<open>The chain of the authentication and one of the checks after it.\<close>

definition authenticated_then ::
  "(string \<Rightarrow> 'w \<Rightarrow> (err + eclaims) \<times> 'w) \<Rightarrow> (enh_keys \<Rightarrow> enh_end) \<Rightarrow> string \<Rightarrow> enh_keys \<Rightarrow> 'w \<Rightarrow> enh_end" where
  "authenticated_then validate check authHeader keys w =
     (case fst (EnhancedAuthMiddleware validate authHeader keys w) of EnhNext keys' \<Rightarrow> check keys' | e \<Rightarrow> e)"

definition bearer_claims :: "(string \<Rightarrow> 'w \<Rightarrow> (err + eclaims) \<times> 'w) \<Rightarrow> string \<Rightarrow> 'w \<Rightarrow> eclaims option" where
  "bearer_claims validate authHeader w =
     (if take 7 authHeader = ''Bearer '' \<and> CHR '' '' \<notin> set (drop 7 authHeader)
        then case fst (validate (drop 7 authHeader) w) of Inl _ \<Rightarrow> None | Inr c \<Rightarrow> Some c
      else None)"

lemma bearer_split:
  "strings_Split (CHR '' '') h = [''Bearer'', token]
   \<longleftrightarrow> take 7 h = ''Bearer '' \<and> CHR '' '' \<notin> set (drop 7 h) \<and> token = drop 7 h"
proof -
  have "h = ''Bearer'' @ CHR '' '' # token \<longleftrightarrow> take 7 h = ''Bearer '' \<and> token = drop 7 h"
  proof
    assume "h = ''Bearer'' @ CHR '' '' # token"
    then show "take 7 h = ''Bearer '' \<and> token = drop 7 h" by simp
  next
    assume "take 7 h = ''Bearer '' \<and> token = drop 7 h"
    then show "h = ''Bearer'' @ CHR '' '' # token"
      by (metis append_take_drop_id append_Cons append_Nil)
  qed
  then show ?thesis by (auto simp: strings_Split_pair)
qed

lemma EnhancedAuth_passes:
  assumes "bearer_claims validate h w = Some claims"
  shows "fst (EnhancedAuthMiddleware validate h keys w) =
     EnhNext (keys(''user_id'' \<mapsto> EnhString (ec_UserID claims), ''username'' \<mapsto> EnhString (ec_Username claims),
       ''email'' \<mapsto> EnhString (ec_Email claims), ''roles'' \<mapsto> EnhStrings (ec_Roles claims),
       ''permissions'' \<mapsto> EnhStrings (ec_Permissions claims), ''claims'' \<mapsto> EnhClaims claims))"
proof -
  from assms have "take 7 h = ''Bearer ''" "CHR '' '' \<notin> set (drop 7 h)" and v: "fst (validate (drop 7 h) w) = Inr claims"
    by (auto simp: bearer_claims_def split: if_splits sum.splits)
  then have s: "strings_Split (CHR '' '') h = [''Bearer'', drop 7 h]" and "h \<noteq> []" by (auto simp: bearer_split)
  then show ?thesis using v by (cases "validate (drop 7 h) w") (simp add: EnhancedAuthMiddleware_def)
qed

lemma EnhancedAuth_stops:
  assumes "bearer_claims validate h w = None"
  shows "\<exists>code m d. fst (EnhancedAuthMiddleware validate h keys w) = EnhAbort 401 code m d"
proof (cases "\<exists>token. strings_Split (CHR '' '') h = [''Bearer'', token]")
  case True
  then have s: "strings_Split (CHR '' '') h = [''Bearer'', drop 7 h]" by (auto simp: bearer_split)
  with assms obtain e w' where "validate (drop 7 h) w = (Inl e, w')"
    by (cases "validate (drop 7 h) w") (auto simp: bearer_claims_def bearer_split split: sum.splits)
  with s show ?thesis by (simp add: EnhancedAuthMiddleware_def)
next
  case False
  have "(case xs of [scheme, token] \<Rightarrow> if scheme \<noteq> ''Bearer'' then A else B scheme token | _ \<Rightarrow> A) = A"
    if "\<nexists>token. xs = [''Bearer'', token]" for xs :: "string list" and A :: "enh_end \<times> 'a" and B
    using that by (simp split: list.split)
  from this [OF False] show ?thesis unfolding EnhancedAuthMiddleware_def by simp
qed

text \<open>
  C18. Authentication followed by one of the three checks: the request goes on exactly when the header is
  \<^verbatim>\<open>Bearer\<close>, one blank and a token without blanks that the provider accepts, and the claims it returns hold one of the
  required roles, permissions or scopes. Who gives a wrong header or token gets a 401, who lacks the right a 403.
  An empty list of requirements is satisfied by nobody.
\<close>

theorem bearer_access:
  "(case authenticated_then validate (RoleBasedAuthMiddleware required) h keys w of
      EnhNext _ \<Rightarrow> None | EnhAbort status _ _ _ \<Rightarrow> Some status)
   = (case bearer_claims validate h w of None \<Rightarrow> Some 401
      | Some c \<Rightarrow> if set required \<inter> set (ec_Roles c) \<noteq> {} then None else Some 403)
   \<and> (case authenticated_then validate (PermissionBasedAuthMiddleware required) h keys w of
      EnhNext _ \<Rightarrow> None | EnhAbort status _ _ _ \<Rightarrow> Some status)
   = (case bearer_claims validate h w of None \<Rightarrow> Some 401
      | Some c \<Rightarrow> if set required \<inter> set (ec_Permissions c) \<noteq> {} then None else Some 403)
   \<and> (case authenticated_then validate (ScopeAuthMiddleware required) h keys w of
      EnhNext _ \<Rightarrow> None | EnhAbort status _ _ _ \<Rightarrow> Some status)
   = (case bearer_claims validate h w of None \<Rightarrow> Some 401
      | Some c \<Rightarrow> if set required \<inter> set (claims_scopes c) \<noteq> {} then None else Some 403)"
proof (cases "bearer_claims validate h w")
  case None
  from EnhancedAuth_stops [OF this, of keys] obtain code m d
    where "fst (EnhancedAuthMiddleware validate h keys w) = EnhAbort 401 code m d" by blast
  with None show ?thesis by (simp add: authenticated_then_def)
next
  case (Some c)
  from EnhancedAuth_passes [OF this] Some show ?thesis
    by (simp add: authenticated_then_def RoleBasedAuthMiddleware_def PermissionBasedAuthMiddleware_def
        ScopeAuthMiddleware_def shares_iff)
qed

text \<open>
  The random tokens of the OAuth2 provider are the clock: two users who log in at the same nanosecond get the same
  token, and the one who came first is then recognised as the other.
\<close>

definition store_laws :: "'w token_store \<Rightarrow> bool" where
  "store_laws S \<longleftrightarrow> (\<forall>t c e w. fst (ts_Store S t c e w) = None \<longrightarrow> fst (ts_Get S t (snd (ts_Store S t c e w))) = Inr c)"

theorem same_instant_same_token:
  assumes "store_laws (op_tokenStore p)"
    and "oauth_GenerateToken p now claims1 w = (Inr token1, w1)" and "oauth_GenerateToken p now claims2 w1 = (Inr token2, w2)"
  shows "token1 = token2 \<and> fst (oauth_ValidateToken p token1 w2) = Inr claims2"
proof -
  obtain r v where s: "ts_Store (op_tokenStore p) (generateRandomToken now) claims2 (now + hour) w1 = (r, v)" by fastforce
  with assms(3) have r: "r = None" "token2 = generateRandomToken now" "w2 = v"
    by (auto simp: oauth_GenerateToken_def Let_def split: option.splits)
  have "token1 = generateRandomToken now"
    using assms(2) by (auto simp: oauth_GenerateToken_def Let_def split: option.splits prod.splits)
  moreover have "fst (ts_Get (op_tokenStore p) (generateRandomToken now) v) = Inr claims2"
    using assms(1) s r(1) unfolding store_laws_def by (metis fst_conv snd_conv)
  ultimately show ?thesis using r by (simp add: oauth_ValidateToken_def)
qed

end
