(* ===== verification/Go_Action.thy ===== *)
theory Go_Action
  imports Prelude
begin

text \<open>
  Go functions that may fail and act on the outside: an action takes the world and returns an
  error or a value together with the new world. \<open>andThen\<close> is the ubiquitous
  \<^verbatim>\<open>x, err := f(); if err != nil { return }\<close>. The lemmas are the proof rules for properties of the
  world that an action keeps.
\<close>

type_synonym ('a, 'w) action = "'w \<Rightarrow> (err + 'a) \<times> 'w"

definition ret :: "'a \<Rightarrow> ('a, 'w) action" where
  "ret x w = (Inr x, w)"

definition fail :: "err \<Rightarrow> ('a, 'w) action" where
  "fail e w = (Inl e, w)"

definition andThen :: "('a, 'w) action \<Rightarrow> ('a \<Rightarrow> ('b, 'w) action) \<Rightarrow> ('b, 'w) action" where
  "andThen m f w = (case m w of (Inl e, w') \<Rightarrow> (Inl e, w') | (Inr x, w') \<Rightarrow> f x w')"

text \<open>\<^verbatim>\<open>if err := f(); err != nil { h }\<close>: an action whose error is handled.\<close>

definition onError :: "('a, 'w) action \<Rightarrow> (err \<Rightarrow> ('a, 'w) action) \<Rightarrow> ('a, 'w) action" where
  "onError m h w = (case m w of (Inl e, w') \<Rightarrow> h e w' | (Inr x, w') \<Rightarrow> (Inr x, w'))"

text \<open>An action that only returns an error.\<close>

definition run_err :: "('w \<Rightarrow> err option \<times> 'w) \<Rightarrow> (unit, 'w) action" where
  "run_err m w = (case m w of (None, w') \<Rightarrow> (Inr (), w') | (Some e, w') \<Rightarrow> (Inl e, w'))"

text \<open>The pair of results of a handler, and the return that follows a failed call.\<close>

type_synonym ('r, 'w) handler = "'w \<Rightarrow> ('r option \<times> err option) \<times> 'w"

definition orReturn :: "('a, 'w) action \<Rightarrow> 'r option \<Rightarrow> ('a \<Rightarrow> ('r, 'w) handler) \<Rightarrow> ('r, 'w) handler" where
  "orReturn m resp k w =
     (case m w of (Inl e, w') \<Rightarrow> ((resp, Some e), w') | (Inr x, w') \<Rightarrow> k x w')"

definition reply :: "'r option \<Rightarrow> err option \<Rightarrow> ('r, 'w) handler" where
  "reply resp e w = ((resp, e), w)"

text \<open>The gRPC metadata of a request; \<open>None\<close> when the context has none. Values are joined.\<close>

type_synonym metadata = "(string \<Rightarrow> string list) option"

definition md_value :: "(string \<Rightarrow> string list) \<Rightarrow> string \<Rightarrow> string" where
  "md_value md k = concat (md k)"

named_theorems action_rules \<open>introduction rules for properties that actions keep\<close>

definition maintains :: "('w \<Rightarrow> bool) \<Rightarrow> ('w \<Rightarrow> 'a \<times> 'w) \<Rightarrow> bool" where
  "maintains I m \<longleftrightarrow> (\<forall>w. I w \<longrightarrow> I (snd (m w)))"

definition unchanged :: "('w \<Rightarrow> 'v) \<Rightarrow> ('w \<Rightarrow> 'a \<times> 'w) \<Rightarrow> bool" where
  "unchanged view m \<longleftrightarrow> (\<forall>w. view (snd (m w)) = view w)"

lemma ret_simps [simp]: "ret x w = (Inr x, w)" "fail e w = (Inl e, w)"
  by (simp_all add: ret_def fail_def)

lemma andThen_simps:
  "m w = (Inl e, w') \<Longrightarrow> andThen m f w = (Inl e, w')"
  "m w = (Inr x, w') \<Longrightarrow> andThen m f w = f x w'"
  by (simp_all add: andThen_def)

lemma onError_simps:
  "m w = (Inl e, w') \<Longrightarrow> onError m h w = h e w'"
  "m w = (Inr x, w') \<Longrightarrow> onError m h w = (Inr x, w')"
  by (simp_all add: onError_def)

lemma andThen_assoc: "andThen (andThen m f) g = andThen m (\<lambda>x. andThen (f x) g)"
  by (rule ext) (auto simp: andThen_def split: sum.split prod.split)

lemma maintainsD: "maintains I m \<Longrightarrow> I w \<Longrightarrow> m w = (r, w') \<Longrightarrow> I w'"
  by (metis maintains_def snd_conv)

lemma unchangedD: "unchanged view m \<Longrightarrow> m w = (r, w') \<Longrightarrow> view w' = view w"
  by (metis unchanged_def snd_conv)

lemma unchanged_maintains: "unchanged view m \<Longrightarrow> maintains (\<lambda>w. P (view w)) m"
  by (simp add: maintains_def unchanged_def)

lemma maintains_basic [action_rules]: "maintains I (ret x)" "maintains I (fail e)"
  by (simp_all add: maintains_def)

lemma maintains_andThen [action_rules]:
  "maintains I m \<Longrightarrow> (\<And>x. maintains I (f x)) \<Longrightarrow> maintains I (andThen m f)"
  by (auto simp: maintains_def andThen_def split: sum.split prod.split)

lemma maintains_onError [action_rules]:
  "maintains I m \<Longrightarrow> (\<And>e. maintains I (h e)) \<Longrightarrow> maintains I (onError m h)"
  by (auto simp: maintains_def onError_def split: sum.split prod.split)

lemma maintains_run_err [action_rules]: "maintains I m \<Longrightarrow> maintains I (run_err m)"
  by (auto simp: maintains_def run_err_def split: option.split prod.split)

lemma maintains_if [action_rules]:
  "(b \<Longrightarrow> maintains I m) \<Longrightarrow> (\<not> b \<Longrightarrow> maintains I n) \<Longrightarrow> maintains I (if b then m else n)"
  by simp

lemma unchanged_basic [action_rules]: "unchanged view (ret x)" "unchanged view (fail e)"
  by (simp_all add: unchanged_def)

lemma unchanged_andThen [action_rules]:
  "unchanged view m \<Longrightarrow> (\<And>x. unchanged view (f x)) \<Longrightarrow> unchanged view (andThen m f)"
  by (auto simp: unchanged_def andThen_def split: sum.split prod.split) (metis snd_conv)+

lemma unchanged_onError [action_rules]:
  "unchanged view m \<Longrightarrow> (\<And>e. unchanged view (h e)) \<Longrightarrow> unchanged view (onError m h)"
  by (auto simp: unchanged_def onError_def split: sum.split prod.split) (metis snd_conv)+

lemma unchanged_run_err [action_rules]: "unchanged view m \<Longrightarrow> unchanged view (run_err m)"
  by (auto simp: unchanged_def run_err_def split: option.split prod.split) (metis snd_conv)+

lemma unchanged_if [action_rules]:
  "(b \<Longrightarrow> unchanged view m) \<Longrightarrow> (\<not> b \<Longrightarrow> unchanged view n) \<Longrightarrow> unchanged view (if b then m else n)"
  by simp

subsection \<open>Pre- and postconditions\<close>

text \<open>
  \<open>ensures P m Q I\<close>: from a world in \<open>P\<close> the action ends in \<open>Q\<close> of its value, or with an error in \<open>I\<close>.
  \<open>leads P h I\<close> is the same for functions whose result does not matter.
\<close>

definition ensures :: "('w \<Rightarrow> bool) \<Rightarrow> ('a, 'w) action \<Rightarrow> ('a \<Rightarrow> 'w \<Rightarrow> bool) \<Rightarrow> ('w \<Rightarrow> bool) \<Rightarrow> bool" where
  "ensures P m Q I \<longleftrightarrow>
     (\<forall>w r w'. P w \<longrightarrow> m w = (r, w') \<longrightarrow> (case r of Inl e \<Rightarrow> I w' | Inr x \<Rightarrow> Q x w'))"

definition leads :: "('w \<Rightarrow> bool) \<Rightarrow> ('w \<Rightarrow> 'a \<times> 'w) \<Rightarrow> ('w \<Rightarrow> bool) \<Rightarrow> bool" where
  "leads P h I \<longleftrightarrow> (\<forall>w. P w \<longrightarrow> I (snd (h w)))"

lemma ensures_andThen:
  assumes "ensures P m R I" and "\<And>x. ensures (R x) (f x) Q I"
  shows "ensures P (andThen m f) Q I"
  unfolding ensures_def
proof (intro allI impI)
  fix w r w'
  assume P: "P w" and run: "andThen m f w = (r, w')"
  obtain r1 w1 where m: "m w = (r1, w1)" by fastforce
  show "case r of Inl e \<Rightarrow> I w' | Inr x \<Rightarrow> Q x w'"
  proof (cases r1)
    case (Inl e)
    with m run have "r = Inl e" "w' = w1" by (simp_all add: andThen_def)
    with assms(1) P m Inl show ?thesis by (auto simp: ensures_def)
  next
    case (Inr x)
    with m run have "f x w1 = (r, w')" by (simp add: andThen_def)
    moreover have "R x w1" using assms(1) P m Inr by (auto simp: ensures_def)
    ultimately show ?thesis using assms(2) by (auto simp: ensures_def)
  qed
qed

lemma ensures_ret: "(\<And>w. P w \<Longrightarrow> Q x w) \<Longrightarrow> ensures P (ret x) Q I"
  by (simp add: ensures_def)

lemma ensures_fail: "(\<And>w. P w \<Longrightarrow> I w) \<Longrightarrow> ensures P (fail e) Q I"
  by (simp add: ensures_def)

lemma ensures_if:
  "(b \<Longrightarrow> ensures P m Q I) \<Longrightarrow> (\<not> b \<Longrightarrow> ensures P n Q I) \<Longrightarrow> ensures P (if b then m else n) Q I"
  by simp

lemma ensures_pre: "(b \<Longrightarrow> ensures P m Q I) \<Longrightarrow> ensures (\<lambda>w. b \<and> P w) m Q I"
  by (auto simp: ensures_def)

lemma ensures_weaken:
  assumes "ensures P m Q I" and "\<And>w. P' w \<Longrightarrow> P w" and "\<And>x w. Q x w \<Longrightarrow> Q' x w"
  shows "ensures P' m Q' I"
  unfolding ensures_def
proof (intro allI impI)
  fix w r w' assume "P' w" and m: "m w = (r, w')"
  then have "case r of Inl e \<Rightarrow> I w' | Inr x \<Rightarrow> Q x w'"
    using assms(1,2) unfolding ensures_def by blast
  then show "case r of Inl e \<Rightarrow> I w' | Inr x \<Rightarrow> Q' x w'" using assms(3) by (cases r) auto
qed

lemma ensures_unchanged:
  assumes "unchanged view m" and "\<And>w. P w \<Longrightarrow> I w" and "\<And>w v. I w \<Longrightarrow> view v = view w \<Longrightarrow> I v"
    and "\<And>w v. P w \<Longrightarrow> view v = view w \<Longrightarrow> P v"
  shows "ensures P m (\<lambda>_. P) I"
  unfolding ensures_def
proof (intro allI impI)
  fix w r w' assume "P w" and "m w = (r, w')"
  then have "view w' = view w" using assms(1) by (meson unchangedD)
  with \<open>P w\<close> assms(2-4) show "case r of Inl e \<Rightarrow> I w' | Inr x \<Rightarrow> P w'" by (auto split: sum.split)
qed

lemma leads_maintains: "maintains I h \<longleftrightarrow> leads I h I"
  by (simp add: maintains_def leads_def)

lemma leadsD: "leads P h I \<Longrightarrow> P w \<Longrightarrow> h w = (r, w') \<Longrightarrow> I w'"
  by (metis leads_def snd_conv)

lemma ensures_maintains: "ensures I m (\<lambda>_. I) I \<longleftrightarrow> maintains I m"
  by (auto simp: ensures_def maintains_def split: sum.splits) (metis surj_pair snd_conv sum.exhaust)+

lemma ensures_keeps: "ensures I m (\<lambda>_. I) I \<Longrightarrow> I w \<Longrightarrow> m w = (r, w') \<Longrightarrow> I w'"
  unfolding ensures_maintains by (rule maintainsD)

subsection \<open>Handlers\<close>

lemma leads_orReturn:
  assumes "ensures P m R I" and "\<And>x. leads (R x) (k x) I"
  shows "leads P (orReturn m r k) I"
  unfolding leads_def
proof (intro allI impI)
  fix w assume P: "P w"
  obtain res w' where m: "m w = (res, w')" by fastforce
  with assms(1) P have post: "case res of Inl e \<Rightarrow> I w' | Inr x \<Rightarrow> R x w'" by (simp add: ensures_def)
  show "I (snd (orReturn m r k w))"
    using post m assms(2) by (cases res) (simp_all add: orReturn_def leads_def)
qed

lemma leads_reply: "(\<And>w. P w \<Longrightarrow> I w) \<Longrightarrow> leads P (reply r e) I"
  by (simp add: leads_def reply_def)

lemma leads_if: "(b \<Longrightarrow> leads P m I) \<Longrightarrow> (\<not> b \<Longrightarrow> leads P n I) \<Longrightarrow> leads P (if b then m else n) I"
  by simp

lemma leads_unchanged:
  "unchanged obs h \<Longrightarrow> (\<And>w. P w \<Longrightarrow> I (obs w)) \<Longrightarrow> leads P h (\<lambda>w. I (obs w))"
  by (simp add: leads_def unchanged_def)

lemma ensures_silent: "unchanged obs m \<Longrightarrow> ensures (\<lambda>w. I (obs w)) m (\<lambda>_ w. I (obs w)) (\<lambda>w. I (obs w))"
  by (rule ensures_unchanged) auto

lemma leads_shift:
  "leads P h I \<Longrightarrow> (\<And>w. Q w \<Longrightarrow> P (g w)) \<Longrightarrow> leads Q (\<lambda>w. h (g w)) I"
  by (simp add: leads_def)

lemma leads_at: "leads P h I \<Longrightarrow> P w \<Longrightarrow> I (snd (h w))"
  by (simp add: leads_def)

lemma leads_weaken: "leads P h I \<Longrightarrow> (\<And>w. Q w \<Longrightarrow> P w) \<Longrightarrow> leads Q h I"
  by (simp add: leads_def)

end
