(* ===== verification/Bobing_Dao.thy ===== *)
theory Bobing_Dao
  imports Go_Action
begin

text \<open>
  The tables of the dice game and the data access objects over them
  (\<^verbatim>\<open>src/app/boBing/database/models\<close>, \<^verbatim>\<open>src/app/boBing/database/dao\<close>). The SQL statements go through gorm,
  which is third-party code: a record with one function per statement the objects issue, on the
  world. \<open>gorm_ok\<close> is what a database does with them: each statement either fails and leaves the tables
  alone or has the effect of its SQL; it may fail at any time. The integers of the rows are small
  (counts of throws and scores), so they do not wrap.
\<close>

section \<open>Model\<close>

subsection \<open>Tables\<close>

(* src: app/boBing/database/models/rank.go:5-12 Rank *)
record rank =
  rk_OpenId :: string
  rk_StuNum :: string
  rk_NickName :: string
  rk_Score :: int

(* src: app/boBing/database/models/submission.go:8-15 Submission *)
record submission =
  sb_ID :: nat
  sb_RankOpenId :: string
  sb_Date :: gotime
  sb_Count :: int
  sb_Condition :: int
  sb_TuiWen :: int

(* src: app/boBing/database/models/record.go:5-12 Record *)
record throw_record =
  tr_OpenId :: string
  tr_StuNum :: string
  tr_Score :: int
  tr_Types :: string
  tr_Checked :: string

record bobing_tables =
  tab_ranks :: "rank list"
  tab_submissions :: "submission list"
  tab_records :: "throw_record list"

text \<open>The fields of the protocol message \<^verbatim>\<open>BoBingPublishRequest\<close>.\<close>

record publish_request =
  pr_OpenId :: string
  pr_StuNum :: string
  pr_NickName :: string
  pr_Flag :: string
  pr_Check :: string

subsection \<open>Statements\<close>

record 'w bobing_gorm =
  q_count_submissions :: "string \<Rightarrow> gotime \<Rightarrow> (int, 'w) action"
  q_first_submission :: "string \<Rightarrow> gotime \<Rightarrow> (submission, 'w) action"
  q_append_submission :: "rank \<Rightarrow> submission \<Rightarrow> 'w \<Rightarrow> err option \<times> 'w"
  q_update_submission :: "string \<Rightarrow> gotime \<Rightarrow> int \<Rightarrow> int \<Rightarrow> 'w \<Rightarrow> err option \<times> 'w"
  q_count_ranks_of :: "string \<Rightarrow> (int, 'w) action"
  q_count_ranks :: "(int, 'w) action"
  q_create_rank :: "rank \<Rightarrow> 'w \<Rightarrow> err option \<times> 'w"
  q_first_rank :: "string \<Rightarrow> (rank, 'w) action"
  q_add_score :: "string \<Rightarrow> int \<Rightarrow> 'w \<Rightarrow> err option \<times> 'w"
  q_set_counts :: "nat \<Rightarrow> int \<Rightarrow> int \<Rightarrow> (submission, 'w) action"
  q_begin :: "'w \<Rightarrow> 'w"
  q_rollback :: "'w \<Rightarrow> 'w"
  q_commit :: "'w \<Rightarrow> 'w"
  q_count_records :: "string \<Rightarrow> (int, 'w) action"
  q_create_record :: "throw_record \<Rightarrow> 'w \<Rightarrow> err option \<times> 'w"
  q_find_records :: "string \<Rightarrow> (throw_record list, 'w) action"

subsection \<open>Submissions\<close>

(* src: app/boBing/database/dao/submission.go:27-37 SubmissionDao.ExistDaySubmissionByOpenId *)
definition ExistDaySubmissionByOpenId :: "'w bobing_gorm \<Rightarrow> string \<Rightarrow> gotime \<Rightarrow> (int, 'w) action" where
  "ExistDaySubmissionByOpenId G openid today = q_count_submissions G openid today"

(* src: app/boBing/database/dao/submission.go:39-50 SubmissionDao.GetDaySubmissionByOpenId *)
definition GetDaySubmissionByOpenId :: "'w bobing_gorm \<Rightarrow> string \<Rightarrow> gotime \<Rightarrow> (submission, 'w) action" where
  "GetDaySubmissionByOpenId G openid today = q_first_submission G openid today"

text \<open>The database assigns the ID of the new row, 0 here.\<close>

(* src: app/boBing/database/dao/submission.go:52-68 SubmissionDao.CreateDaySubmission *)
definition CreateDaySubmission :: "'w bobing_gorm \<Rightarrow> string \<Rightarrow> rank \<Rightarrow> gotime \<Rightarrow> (unit, 'w) action" where
  "CreateDaySubmission G openid rank today =
     run_err (q_append_submission G rank
       \<lparr> sb_ID = 0, sb_RankOpenId = openid, sb_Date = today, sb_Count = 0, sb_Condition = 0, sb_TuiWen = 3 \<rparr>)"

(* src: app/boBing/database/dao/submission.go:70-84 SubmissionDao.UpdateSubmission *)
definition UpdateSubmission :: "'w bobing_gorm \<Rightarrow> submission \<Rightarrow> (unit, 'w) action" where
  "UpdateSubmission G s =
     run_err (q_update_submission G (sb_RankOpenId s) (sb_Date s) (sb_Condition s) (sb_TuiWen s))"

subsection \<open>Ranks\<close>

(* src: app/boBing/database/dao/rank.go:26-36 RankDao.ExistRankByOpenId *)
definition ExistRankByOpenId :: "'w bobing_gorm \<Rightarrow> string \<Rightarrow> (int, 'w) action" where
  "ExistRankByOpenId G openid = q_count_ranks_of G openid"

(* src: app/boBing/database/dao/rank.go:38-53 RankDao.CreatRank *)
definition CreatRank :: "'w bobing_gorm \<Rightarrow> string \<Rightarrow> string \<Rightarrow> string \<Rightarrow> int \<Rightarrow> (unit, 'w) action" where
  "CreatRank G openid stuNum nickName score =
     run_err (q_create_rank G \<lparr> rk_OpenId = openid, rk_StuNum = stuNum, rk_NickName = nickName, rk_Score = score \<rparr>)"

text \<open>The counts of a submission after one more throw.\<close>

(* src: app/boBing/database/dao/rank.go:73-81 RankDao.UpdateRank (counts) *)
definition count_throw :: "string \<Rightarrow> int \<Rightarrow> submission \<Rightarrow> submission" where
  "count_throw flag cnt s =
     (if flag = ''1''
      then (let s1 = s\<lparr> sb_Count := sb_Count s + 2 \<rparr>
            in if sb_Condition s1 + 10 - sb_Count s1 < 0 then s1\<lparr> sb_Count := sb_Count s1 - 1 \<rparr> else s1)
      else s\<lparr> sb_Count := sb_Count s + 1, sb_Condition := sb_Condition s + cnt \<rparr>)"

(* src: app/boBing/database/dao/rank.go:55-98 RankDao.UpdateRank *)
definition UpdateRank ::
  "'w bobing_gorm \<Rightarrow> publish_request \<Rightarrow> int \<Rightarrow> int \<Rightarrow> submission \<Rightarrow> (submission, 'w) action" where
  "UpdateRank G req score cnt s w =
     (case q_add_score G (pr_OpenId req) score (q_begin G w) of
        (Some e, w1) \<Rightarrow> (Inl e, q_rollback G w1)
      | (None, w1) \<Rightarrow>
          (let s' = count_throw (pr_Flag req) cnt s
           in case q_set_counts G (sb_ID s') (sb_Count s') (sb_Condition s') w1 of
                (Inl e, w2) \<Rightarrow> (Inl e, q_rollback G w2)
              | (Inr r, w2) \<Rightarrow> (Inr r, q_commit G w2)))"

(* src: app/boBing/database/dao/rank.go:100-110 RankDao.GetRankByOpenId *)
definition GetRankByOpenId :: "'w bobing_gorm \<Rightarrow> string \<Rightarrow> (rank, 'w) action" where
  "GetRankByOpenId G openid = q_first_rank G openid"

(* src: app/boBing/database/dao/rank.go:112-121 RankDao.CountRank *)
definition CountRank :: "'w bobing_gorm \<Rightarrow> (int, 'w) action" where
  "CountRank G = q_count_ranks G"

subsection \<open>Records\<close>

(* src: app/boBing/database/dao/record.go:26-36 RecordDao.ExistRecord *)
definition ExistRecord :: "'w bobing_gorm \<Rightarrow> string \<Rightarrow> (int, 'w) action" where
  "ExistRecord G check = q_count_records G check"

(* src: app/boBing/database/dao/record.go:37-54 RecordDao.SaveRecord *)
definition SaveRecord :: "'w bobing_gorm \<Rightarrow> publish_request \<Rightarrow> int \<Rightarrow> string \<Rightarrow> (unit, 'w) action" where
  "SaveRecord G req score types =
     run_err (q_create_record G
       \<lparr> tr_OpenId = pr_OpenId req, tr_StuNum = pr_StuNum req, tr_Score = score, tr_Types = types,
         tr_Checked = pr_Check req \<rparr>)"

(* src: app/boBing/database/dao/record.go:56-66 RecordDao.GetRecordByOpenId *)
definition GetRecordByOpenId :: "'w bobing_gorm \<Rightarrow> string \<Rightarrow> (throw_record list, 'w) action" where
  "GetRecordByOpenId G openid = q_find_records G openid"

section \<open>What the database does\<close>

definition sub_matches :: "string \<Rightarrow> gotime \<Rightarrow> submission \<Rightarrow> bool" where
  "sub_matches openid day s \<longleftrightarrow> sb_RankOpenId s = openid \<and> sb_Date s = day"

text \<open>A query changes nothing; its answer, if it gives one, satisfies \<open>P\<close>.\<close>

definition reads :: "('w \<Rightarrow> 't) \<Rightarrow> ('w \<Rightarrow> 't) \<Rightarrow> ('a, 'w) action \<Rightarrow> ('t \<Rightarrow> 'a \<Rightarrow> bool) \<Rightarrow> bool" where
  "reads obs snap m P \<longleftrightarrow>
     (\<forall>w. obs (snd (m w)) = obs w \<and> snap (snd (m w)) = snap w \<and> (\<forall>x. fst (m w) = Inr x \<longrightarrow> P (obs w) x))"

text \<open>A statement either fails and changes nothing, or takes the tables to a state that \<open>T\<close> allows.\<close>

definition writes :: "('w \<Rightarrow> 't) \<Rightarrow> ('w \<Rightarrow> 't) \<Rightarrow> ('w \<Rightarrow> err option \<times> 'w) \<Rightarrow> ('t \<Rightarrow> 't \<Rightarrow> bool) \<Rightarrow> bool" where
  "writes obs snap m T \<longleftrightarrow>
     (\<forall>w. snap (snd (m w)) = snap w
        \<and> (case fst (m w) of None \<Rightarrow> T (obs w) (obs (snd (m w))) | Some e \<Rightarrow> obs (snd (m w)) = obs w))"

text \<open>Rows are listed by primary key, so \<^verbatim>\<open>First\<close> is the first match.\<close>

definition set_counts :: "nat \<Rightarrow> int \<Rightarrow> int \<Rightarrow> submission list \<Rightarrow> submission list" where
  "set_counts i c d ss = map (\<lambda>s. if sb_ID s = i then s\<lparr> sb_Count := c, sb_Condition := d \<rparr> else s) ss"

definition gorm_ok :: "'w bobing_gorm \<Rightarrow> ('w \<Rightarrow> bobing_tables) \<Rightarrow> ('w \<Rightarrow> bobing_tables) \<Rightarrow> bool" where
  "gorm_ok G obs snap \<longleftrightarrow>
     (\<forall>i d. reads obs snap (q_count_submissions G i d)
        (\<lambda>t n. n = int (length (filter (sub_matches i d) (tab_submissions t)))))
   \<and> (\<forall>i d. reads obs snap (q_first_submission G i d) (\<lambda>t s. find (sub_matches i d) (tab_submissions t) = Some s))
   \<and> (\<forall>r s. writes obs snap (q_append_submission G r s)
        (\<lambda>t t'. \<exists>n. n \<notin> sb_ID ` set (tab_submissions t)
           \<and> t' = t\<lparr> tab_submissions := tab_submissions t @ [s\<lparr> sb_ID := n \<rparr>] \<rparr>))
   \<and> (\<forall>i d c u. writes obs snap (q_update_submission G i d c u)
        (\<lambda>t t'. t' = t\<lparr> tab_submissions := map (\<lambda>s. if sub_matches i d s
            then s\<lparr> sb_Condition := c, sb_TuiWen := u \<rparr> else s) (tab_submissions t) \<rparr>))
   \<and> (\<forall>i. reads obs snap (q_count_ranks_of G i) (\<lambda>t n. n = int (length (filter (\<lambda>r. rk_OpenId r = i) (tab_ranks t)))))
   \<and> reads obs snap (q_count_ranks G) (\<lambda>t n. n = int (length (tab_ranks t)))
   \<and> (\<forall>r. writes obs snap (q_create_rank G r)
        (\<lambda>t t'. rk_OpenId r \<notin> rk_OpenId ` set (tab_ranks t) \<and> t' = t\<lparr> tab_ranks := tab_ranks t @ [r] \<rparr>))
   \<and> (\<forall>i. reads obs snap (q_first_rank G i) (\<lambda>t r. find (\<lambda>r. rk_OpenId r = i) (tab_ranks t) = Some r))
   \<and> (\<forall>i sc. writes obs snap (q_add_score G i sc)
        (\<lambda>t t'. t' = t\<lparr> tab_ranks := map (\<lambda>r. if rk_OpenId r = i then r\<lparr> rk_Score := rk_Score r + sc \<rparr> else r) (tab_ranks t) \<rparr>))
   \<and> (\<forall>i c d w. snap (snd (q_set_counts G i c d w)) = snap w
        \<and> (case fst (q_set_counts G i c d w) of
             Inl e \<Rightarrow> True
           | Inr s \<Rightarrow> obs (snd (q_set_counts G i c d w)) = (obs w)\<lparr> tab_submissions := set_counts i c d (tab_submissions (obs w)) \<rparr>
               \<and> find (\<lambda>s. sb_ID s = i) (set_counts i c d (tab_submissions (obs w))) = Some s))
   \<and> (\<forall>w. obs (q_begin G w) = obs w \<and> snap (q_begin G w) = obs w)
   \<and> (\<forall>w. obs (q_rollback G w) = snap w) \<and> (\<forall>w. obs (q_commit G w) = obs w)
   \<and> (\<forall>c. reads obs snap (q_count_records G c) (\<lambda>t n. n = int (length (filter (\<lambda>r. tr_Checked r = c) (tab_records t)))))
   \<and> (\<forall>r. writes obs snap (q_create_record G r) (\<lambda>t t'. t' = t\<lparr> tab_records := tab_records t @ [r] \<rparr>))
   \<and> (\<forall>i. reads obs snap (q_find_records G i) (\<lambda>t rs. rs = filter (\<lambda>r. tr_OpenId r = i) (tab_records t)))"

section \<open>Properties\<close>

lemma readsD:
  "reads obs snap m P \<Longrightarrow> m w = (r, w') \<Longrightarrow> obs w' = obs w \<and> snap w' = snap w"
  "reads obs snap m P \<Longrightarrow> m w = (Inr x, w') \<Longrightarrow> P (obs w) x"
  by (auto simp: reads_def) (metis fst_conv snd_conv)+

lemma reads_unchanged: "reads obs snap m P \<Longrightarrow> unchanged obs m"
  by (simp add: reads_def unchanged_def)

lemma writes_run_err:
  assumes "writes obs snap m T" and "run_err m w = (r, w')"
  shows "case r of Inl e \<Rightarrow> obs w' = obs w | Inr u \<Rightarrow> T (obs w) (obs w')"
  using assms by (auto simp: writes_def run_err_def split: option.splits prod.splits) (metis fst_conv option.simps snd_conv)+

text \<open>The laws, one by one.\<close>

lemma gorm_reads:
  assumes "gorm_ok G obs snap"
  shows "reads obs snap (ExistDaySubmissionByOpenId G i d)
        (\<lambda>t n. n = int (length (filter (sub_matches i d) (tab_submissions t))))"
    and "reads obs snap (GetDaySubmissionByOpenId G i d) (\<lambda>t s. find (sub_matches i d) (tab_submissions t) = Some s)"
    and "reads obs snap (ExistRankByOpenId G i) (\<lambda>t n. n = int (length (filter (\<lambda>r. rk_OpenId r = i) (tab_ranks t))))"
    and "reads obs snap (GetRankByOpenId G i) (\<lambda>t r. find (\<lambda>r. rk_OpenId r = i) (tab_ranks t) = Some r)"
    and "reads obs snap (CountRank G) (\<lambda>t n. n = int (length (tab_ranks t)))"
    and "reads obs snap (ExistRecord G c) (\<lambda>t n. n = int (length (filter (\<lambda>r. tr_Checked r = c) (tab_records t))))"
    and "reads obs snap (GetRecordByOpenId G i) (\<lambda>t rs. rs = filter (\<lambda>r. tr_OpenId r = i) (tab_records t))"
  using assms
  by (simp_all only: gorm_ok_def simp_thms ExistDaySubmissionByOpenId_def GetDaySubmissionByOpenId_def
      ExistRankByOpenId_def GetRankByOpenId_def CountRank_def ExistRecord_def GetRecordByOpenId_def)

lemma gorm_writes:
  assumes "gorm_ok G obs snap"
  shows "writes obs snap (q_append_submission G r s)
        (\<lambda>t t'. \<exists>n. n \<notin> sb_ID ` set (tab_submissions t)
           \<and> t' = t\<lparr> tab_submissions := tab_submissions t @ [s\<lparr> sb_ID := n \<rparr>] \<rparr>)"
    and "writes obs snap (q_update_submission G i d c u)
        (\<lambda>t t'. t' = t\<lparr> tab_submissions := map (\<lambda>s. if sub_matches i d s
            then s\<lparr> sb_Condition := c, sb_TuiWen := u \<rparr> else s) (tab_submissions t) \<rparr>)"
    and "writes obs snap (q_create_rank G k)
        (\<lambda>t t'. rk_OpenId k \<notin> rk_OpenId ` set (tab_ranks t) \<and> t' = t\<lparr> tab_ranks := tab_ranks t @ [k] \<rparr>)"
    and "writes obs snap (q_add_score G i sc)
        (\<lambda>t t'. t' = t\<lparr> tab_ranks := map (\<lambda>r. if rk_OpenId r = i then r\<lparr> rk_Score := rk_Score r + sc \<rparr> else r) (tab_ranks t) \<rparr>)"
    and "writes obs snap (q_create_record G x) (\<lambda>t t'. t' = t\<lparr> tab_records := tab_records t @ [x] \<rparr>)"
  using assms by (simp_all only: gorm_ok_def simp_thms)

lemma gorm_tx:
  assumes "gorm_ok G obs snap"
  shows "obs (q_begin G w) = obs w" "snap (q_begin G w) = obs w"
    "obs (q_rollback G w) = snap w" "obs (q_commit G w) = obs w"
    "snap (snd (q_set_counts G n c d w)) = snap w"
    "fst (q_set_counts G n c d w) = Inr s \<Longrightarrow>
       obs (snd (q_set_counts G n c d w)) = (obs w)\<lparr> tab_submissions := set_counts n c d (tab_submissions (obs w)) \<rparr>"
proof -
  have law: "\<forall>i c d w. snap (snd (q_set_counts G i c d w)) = snap w
        \<and> (case fst (q_set_counts G i c d w) of
             Inl e \<Rightarrow> True
           | Inr s \<Rightarrow> obs (snd (q_set_counts G i c d w)) = (obs w)\<lparr> tab_submissions := set_counts i c d (tab_submissions (obs w)) \<rparr>
               \<and> find (\<lambda>s. sb_ID s = i) (set_counts i c d (tab_submissions (obs w))) = Some s)"
    using assms by (simp only: gorm_ok_def simp_thms)
  from law [rule_format, of n c d w]
  show "snap (snd (q_set_counts G n c d w)) = snap w"
    and "fst (q_set_counts G n c d w) = Inr s \<Longrightarrow>
       obs (snd (q_set_counts G n c d w)) = (obs w)\<lparr> tab_submissions := set_counts n c d (tab_submissions (obs w)) \<rparr>"
    by simp_all
qed (use assms in \<open>simp_all only: gorm_ok_def simp_thms\<close>)

lemmas gorm_unchanged = gorm_reads [THEN reads_unchanged]

lemma GetDaySubmission_answer:
  assumes "gorm_ok G obs snap" and "GetDaySubmissionByOpenId G i d w = (Inr s, w')"
  shows "find (sub_matches i d) (tab_submissions (obs w)) = Some s"
  using readsD(2) [OF gorm_reads(2) [OF assms(1)] assms(2)] .

lemma CreateDaySubmission_tables:
  assumes "gorm_ok G obs snap" and "CreateDaySubmission G i r d w = (res, w')"
  shows "obs w' = obs w \<or> (\<exists>n. n \<notin> sb_ID ` set (tab_submissions (obs w)) \<and> obs w' = (obs w)\<lparr> tab_submissions := tab_submissions (obs w)
      @ [\<lparr> sb_ID = n, sb_RankOpenId = i, sb_Date = d, sb_Count = 0, sb_Condition = 0, sb_TuiWen = 3 \<rparr>] \<rparr>)"
  using writes_run_err [OF gorm_writes(1) [OF assms(1)] assms(2) [unfolded CreateDaySubmission_def]]
  by (cases res) simp_all

lemma CreatRank_tables:
  assumes "gorm_ok G obs snap" and "CreatRank G i st nn sc w = (res, w')"
  shows "tab_submissions (obs w') = tab_submissions (obs w) \<and> tab_records (obs w') = tab_records (obs w)"
  using writes_run_err [OF gorm_writes(3) [OF assms(1)] assms(2) [unfolded CreatRank_def]]
  by (cases res) simp_all

lemma SaveRecord_tables:
  assumes "gorm_ok G obs snap" and "SaveRecord G req sc ty w = (res, w')"
  shows "tab_submissions (obs w') = tab_submissions (obs w) \<and> tab_ranks (obs w') = tab_ranks (obs w)"
  using writes_run_err [OF gorm_writes(5) [OF assms(1)] assms(2) [unfolded SaveRecord_def]]
  by (cases res) simp_all

lemma UpdateSubmission_tables:
  assumes "gorm_ok G obs snap" and "UpdateSubmission G s w = (res, w')"
  shows "obs w' = obs w \<or> obs w' = (obs w)\<lparr> tab_submissions := map (\<lambda>x. if sub_matches (sb_RankOpenId s) (sb_Date s) x
            then x\<lparr> sb_Condition := sb_Condition s, sb_TuiWen := sb_TuiWen s \<rparr> else x) (tab_submissions (obs w)) \<rparr>"
  using writes_run_err [OF gorm_writes(2) [OF assms(1)] assms(2) [unfolded UpdateSubmission_def]]
  by (cases res) simp_all

text \<open>\<^verbatim>\<open>UpdateRank\<close> is atomic: on an error the tables are as before, whichever statement failed.\<close>

lemma UpdateRank_tables:
  assumes G: "gorm_ok G obs snap" and "UpdateRank G req sc cnt s w = (res, w')"
  shows "case res of
      Inl e \<Rightarrow> obs w' = obs w
    | Inr r \<Rightarrow> obs w' = (obs w)\<lparr>
        tab_ranks := map (\<lambda>r. if rk_OpenId r = pr_OpenId req then r\<lparr> rk_Score := rk_Score r + sc \<rparr> else r) (tab_ranks (obs w)),
        tab_submissions := set_counts (sb_ID s) (sb_Count (count_throw (pr_Flag req) cnt s))
          (sb_Condition (count_throw (pr_Flag req) cnt s)) (tab_submissions (obs w)) \<rparr>"
proof -
  let ?s = "count_throw (pr_Flag req) cnt s" and ?b = "q_begin G w"
  let ?add = "\<lambda>t. t\<lparr> tab_ranks := map (\<lambda>r. if rk_OpenId r = pr_OpenId req then r\<lparr> rk_Score := rk_Score r + sc \<rparr> else r) (tab_ranks t) \<rparr>"
  have sid: "sb_ID ?s = sb_ID s" by (simp add: count_throw_def Let_def)
  obtain e1 w1 where a: "q_add_score G (pr_OpenId req) sc ?b = (e1, w1)" by fastforce
  have w1: "snap w1 = obs w" "e1 = None \<Longrightarrow> obs w1 = ?add (obs w)"
    using gorm_writes(4) [OF G, unfolded writes_def, rule_format, of "pr_OpenId req" sc ?b] a
    by (auto simp: gorm_tx [OF G])
  obtain r2 w2 where c: "q_set_counts G (sb_ID s) (sb_Count ?s) (sb_Condition ?s) w1 = (r2, w2)" by fastforce
  have w2: "snap w2 = snap w1"
    "\<And>x. r2 = Inr x \<Longrightarrow> obs w2 = (obs w1)\<lparr> tab_submissions := set_counts (sb_ID s) (sb_Count ?s) (sb_Condition ?s) (tab_submissions (obs w1)) \<rparr>"
    using gorm_tx(5,6) [OF G, of "sb_ID s" "sb_Count ?s" "sb_Condition ?s" w1] c by auto
  show ?thesis
  proof (cases e1)
    case (Some e)
    with assms(2) a have "res = Inl e" "w' = q_rollback G w1" by (simp_all add: UpdateRank_def)
    with w1 show ?thesis by (simp add: gorm_tx [OF G])
  next
    case None
    with assms(2) a c sid show ?thesis
      using w1 w2 by (cases r2) (auto simp: UpdateRank_def Let_def gorm_tx [OF G])
  qed
qed

end
