(* ===== verification/Bobing_Cache.thy ===== *)
theory Bobing_Cache
  imports Bobing_Dao
begin

text \<open>
  The Redis side of the dice game (\<^verbatim>\<open>src/app/boBing/database/cache/common.go\<close>): one-time keys, score
  boards, the counts left for the day, the black list and the set of dice positions seen. The
  client's commands, the JSON codec of the board members and the calendar are parameters. Scores are
  whole numbers, which \<^verbatim>\<open>float64\<close> holds exactly.
\<close>

section \<open>Model\<close>

record 'w game_redis =
  r_Get :: "string \<Rightarrow> (string, 'w) action"
  r_Set :: "string \<Rightarrow> string \<Rightarrow> duration \<Rightarrow> 'w \<Rightarrow> err option \<times> 'w"
  r_Unlink :: "string \<Rightarrow> 'w \<Rightarrow> err option \<times> 'w"
  r_ZIncrBy :: "string \<Rightarrow> int \<Rightarrow> string \<Rightarrow> 'w \<Rightarrow> err option \<times> 'w"
  r_ZRevRangeWithScores :: "string \<Rightarrow> int \<Rightarrow> int \<Rightarrow> ((string \<times> int) list, 'w) action"
  r_ZRevRank :: "string \<Rightarrow> string \<Rightarrow> (int, 'w) action"
  r_ZScore :: "string \<Rightarrow> string \<Rightarrow> (int, 'w) action"
  r_ZRem :: "string \<Rightarrow> string \<Rightarrow> 'w \<Rightarrow> err option \<times> 'w"
  r_ZAdd :: "string \<Rightarrow> int \<Rightarrow> string \<Rightarrow> 'w \<Rightarrow> err option \<times> 'w"
  r_SAdd :: "string \<Rightarrow> string list \<Rightarrow> 'w \<Rightarrow> err option \<times> 'w"
  r_SIsMember :: "string \<Rightarrow> string \<Rightarrow> 'w \<Rightarrow> bool \<times> 'w"

definition redis_Nil :: err where
  "redis_Nil = ''redis: nil''"

(* src: app/boBing/database/cache/common.go:58-61 Member *)
record member =
  mb_OpenId :: string
  mb_NickName :: string

(* src: app/boBing/database/cache/common.go:63-67 ZhuangYuan *)
record zhuang_yuan =
  zy_NickName :: string
  zy_Types :: string
  zy_Time :: gotime

(* src: app/boBing/pkg/verify.go:15-18 Dice *)
record thrown_die =
  dc_Position :: "(string \<times> real) list"
  dc_Quaternion :: "real list"

text \<open>
  What the service sees of its surroundings: the database, Redis, the JSON codecs, the clock and the
  calendar in local time (\<^verbatim>\<open>Date()\<close> as year, name of the month and day; \<open>be_midnight\<close> is
  \<^verbatim>\<open>time.Date(y, m, d, 0, 0, 0, 0, time.Local)\<close> of a time), random bytes, the encryption object (whose key
  is global state, so it acts on the world), float formatting and base64 decoding.
\<close>

record 'w bobing_env =
  be_gorm :: "'w bobing_gorm"
  be_rdb :: "'w game_redis"
  enc_member :: "member \<Rightarrow> err + string"
  dec_member :: "string \<Rightarrow> err + member"
  enc_zy :: "zhuang_yuan \<Rightarrow> err + string"
  dec_zy :: "string \<Rightarrow> err + zhuang_yuan"
  be_now :: "'w \<Rightarrow> gotime"
  be_midnight :: "gotime \<Rightarrow> gotime"
  be_civil :: "gotime \<Rightarrow> int \<times> string \<times> int"
  dec_dices :: "string \<Rightarrow> err + thrown_die list"
  enc_quaternion :: "real list \<Rightarrow> string"
  fmt_float :: "real \<Rightarrow> string"
  be_random :: "nat \<Rightarrow> (nat list, 'w) action"
  be_SetKey :: "string \<Rightarrow> 'w \<Rightarrow> 'w"
  be_AesDecoding :: "string \<Rightarrow> (string, 'w) action"
  be_AesEncoding :: "string \<Rightarrow> 'w \<Rightarrow> string \<times> 'w"
  be_AcquiesceKey :: string
  be_base64 :: "string \<Rightarrow> string"

text \<open>The messages for a missing key and for a cheater.\<close>

definition no_key :: err where
  "no_key =
     ''key'' @ utf8 [0xE4, 0xB8, 0x8D, 0xE5, 0xAD, 0x98, 0xE5, 0x9C, 0xA8]"

definition cheat_msg :: err where
  "cheat_msg =
     utf8 [0xE6, 0xA3, 0x80, 0xE6, 0xB5, 0x8B, 0xE5, 0x88, 0xB0, 0xE4, 0xBD, 0xA0, 0xE6, 0x9C,
     0x89, 0xE4, 0xBD, 0x9C, 0xE5, 0xBC, 0x8A, 0xE8, 0xA1, 0x8C, 0xE4, 0xB8, 0xBA, 0xEF, 0xBC,
     0x8C, 0xE5, 0xB7, 0xB2, 0xE8, 0xBF, 0x9B, 0xE5, 0x85, 0xA5, 0xE9, 0xBB, 0x91, 0xE5, 0x90,
     0x8D, 0xE5, 0x8D, 0x95]"

definition lift_err :: "err + 'a \<Rightarrow> ('a, 'w) action" where
  "lift_err r w = (r, w)"

subsection \<open>Keys\<close>

(* src: app/boBing/database/cache/common.go:27-38 RDBCache.GetKey *)
definition GetKey :: "'w bobing_env \<Rightarrow> string \<Rightarrow> (string, 'w) action" where
  "GetKey E openid =
     onError (r_Get (be_rdb E) openid) (\<lambda>e. if e = redis_Nil then fail no_key else fail e)"

(* src: app/boBing/database/cache/common.go:40-47 RDBCache.SaveKey *)
definition SaveKey :: "'w bobing_env \<Rightarrow> string \<Rightarrow> string \<Rightarrow> (unit, 'w) action" where
  "SaveKey E openId key = run_err (r_Set (be_rdb E) openId key (4 * second))"

(* src: app/boBing/database/cache/common.go:49-56 RDBCache.UnlinkKey *)
definition UnlinkKey :: "'w bobing_env \<Rightarrow> string \<Rightarrow> (unit, 'w) action" where
  "UnlinkKey E openId = run_err (r_Unlink (be_rdb E) openId)"

subsection \<open>Score boards\<close>

(* src: app/boBing/database/cache/common.go:69-83 RDBCache.SaveZhuangYuan *)
definition SaveZhuangYuan :: "'w bobing_env \<Rightarrow> string \<Rightarrow> string \<Rightarrow> gotime \<Rightarrow> (unit, 'w) action" where
  "SaveZhuangYuan E nickName types time =
     andThen (lift_err (enc_zy E \<lparr> zy_NickName = nickName, zy_Types = types, zy_Time = time \<rparr>))
       (\<lambda>json. run_err (r_ZIncrBy (be_rdb E) ''tianxuan'' (go_unix time) json))"

(* src: app/boBing/database/cache/common.go:85-101 RDBCache.SaveToTalScore *)
definition SaveToTalScore :: "'w bobing_env \<Rightarrow> string \<Rightarrow> string \<Rightarrow> int \<Rightarrow> (unit, 'w) action" where
  "SaveToTalScore E nickName openid score =
     andThen (lift_err (enc_member E \<lparr> mb_OpenId = openid, mb_NickName = nickName \<rparr>))
       (\<lambda>json. run_err (r_ZIncrBy (be_rdb E) ''totalrank'' score json))"

definition day_key :: "'w bobing_env \<Rightarrow> gotime \<Rightarrow> string \<Rightarrow> string" where
  "day_key E t suffix =
     (case be_civil E t of (year, month, day) \<Rightarrow> itoa year @ '':'' @ month @ '':'' @ itoa day @ suffix)"

(* src: app/boBing/database/cache/common.go:103-121 RDBCache.SaveDayScore *)
definition SaveDayScore :: "'w bobing_env \<Rightarrow> string \<Rightarrow> string \<Rightarrow> int \<Rightarrow> (unit, 'w) action" where
  "SaveDayScore E nickName openid score =
     andThen (lift_err (enc_member E \<lparr> mb_OpenId = openid, mb_NickName = nickName \<rparr>))
       (\<lambda>json w. run_err (r_ZIncrBy (be_rdb E) (day_key E (be_now E w) ''rank'') score json) w)"

fun decode_board :: "'w bobing_env \<Rightarrow> (string \<times> int) list \<Rightarrow> err + (string \<times> int) list" where
  "decode_board E [] = Inr []"
| "decode_board E ((m, sc) # zs) =
     (case dec_member E m of
        Inl e \<Rightarrow> Inl e
      | Inr x \<Rightarrow> (case decode_board E zs of Inl e \<Rightarrow> Inl e | Inr r \<Rightarrow> Inr ((mb_NickName x, sc) # r)))"

(* src: app/boBing/database/cache/common.go:123-142 RDBCache.GetTop *)
definition GetTop :: "'w bobing_env \<Rightarrow> ((string \<times> int) list, 'w) action" where
  "GetTop E =
     andThen (r_ZRevRangeWithScores (be_rdb E) ''totalrank'' 0 29) (\<lambda>z. lift_err (decode_board E z))"

(* src: app/boBing/database/cache/common.go:144-165 RDBCache.GetDayTop *)
definition GetDayTop :: "'w bobing_env \<Rightarrow> ((string \<times> int) list, 'w) action" where
  "GetDayTop E w =
     andThen (r_ZRevRangeWithScores (be_rdb E) (day_key E (be_now E w) ''rank'') 0 29)
       (\<lambda>z. lift_err (decode_board E z)) w"

text \<open>The rank and score of a member of a board; a missing member has rank and score 0.\<close>

definition board_rank :: "'w bobing_env \<Rightarrow> string \<Rightarrow> string \<Rightarrow> string \<Rightarrow> (int \<times> int, 'w) action" where
  "board_rank E key nickName openid =
     andThen (lift_err (enc_member E \<lparr> mb_OpenId = openid, mb_NickName = nickName \<rparr>)) (\<lambda>m.
       onError
         (andThen (r_ZRevRank (be_rdb E) key m) (\<lambda>rank.
            andThen (r_ZScore (be_rdb E) key m) (\<lambda>score. ret (rank, score))))
         (\<lambda>e. if e = redis_Nil then ret (0, 0) else fail e))"

(* src: app/boBing/database/cache/common.go:167-195 RDBCache.GetMyToTalRank *)
definition GetMyToTalRank :: "'w bobing_env \<Rightarrow> string \<Rightarrow> string \<Rightarrow> (int \<times> int, 'w) action" where
  "GetMyToTalRank E nickName openid = board_rank E ''totalrank'' nickName openid"

(* src: app/boBing/database/cache/common.go:219-249 RDBCache.GetMyDayRank *)
definition GetMyDayRank :: "'w bobing_env \<Rightarrow> string \<Rightarrow> string \<Rightarrow> (int \<times> int, 'w) action" where
  "GetMyDayRank E nickName openid w = board_rank E (day_key E (be_now E w) ''rank'') nickName openid w"

fun decode_zy :: "'w bobing_env \<Rightarrow> (string \<times> int) list \<Rightarrow> err + zhuang_yuan list" where
  "decode_zy E [] = Inr []"
| "decode_zy E ((m, sc) # zs) =
     (case dec_zy E m of
        Inl e \<Rightarrow> Inl e
      | Inr x \<Rightarrow> (case decode_zy E zs of Inl e \<Rightarrow> Inl e | Inr r \<Rightarrow> Inr (x # r)))"

(* src: app/boBing/database/cache/common.go:197-217 RDBCache.GetTianXuan *)
definition GetTianXuan :: "'w bobing_env \<Rightarrow> (zhuang_yuan list, 'w) action" where
  "GetTianXuan E =
     andThen (r_ZRevRangeWithScores (be_rdb E) ''tianxuan'' 0 (-1)) (\<lambda>z. lift_err (decode_zy E z))"

subsection \<open>Black list and dice positions\<close>

(* src: app/boBing/database/cache/common.go:251-258 RDBCache.SaveBlacklist *)
definition SaveBlacklist :: "'w bobing_env \<Rightarrow> string \<Rightarrow> (unit, 'w) action" where
  "SaveBlacklist E openid = run_err (r_SAdd (be_rdb E) ''blacklist'' [openid])"

(* src: app/boBing/database/cache/common.go:260-266 RDBCache.ExistBlacklist *)
definition ExistBlacklist :: "'w bobing_env \<Rightarrow> string \<Rightarrow> (unit, 'w) action" where
  "ExistBlacklist E openid w =
     (case r_SIsMember (be_rdb E) ''blacklist'' openid w of
        (isExist, w') \<Rightarrow> if isExist then (Inl cheat_msg, w') else (Inr (), w'))"

text \<open>The code indexes \<^verbatim>\<open>quaternion[0]\<close> to \<^verbatim>\<open>quaternion[5]\<close>; fewer elements are a panic.\<close>

(* src: app/boBing/database/cache/common.go:268-275 RDBCache.SaveQuaternion *)
definition SaveQuaternion :: "'w bobing_env \<Rightarrow> string list \<Rightarrow> (unit, 'w) action" where
  "SaveQuaternion E quaternion =
     (if length quaternion < 6 then fail ''runtime error: index out of range''
      else run_err (r_SAdd (be_rdb E) ''quaternions'' (take 6 quaternion)))"

(* src: app/boBing/database/cache/common.go:277-285 RDBCache.ExistQuaternion *)
fun ExistQuaternion :: "'w bobing_env \<Rightarrow> string list \<Rightarrow> (unit, 'w) action" where
  "ExistQuaternion E [] w = (Inr (), w)"
| "ExistQuaternion E (v # vs) w =
     (case r_SIsMember (be_rdb E) ''quaternions'' v w of
        (isExist, w') \<Rightarrow> if isExist then (Inl cheat_msg, w') else ExistQuaternion E vs w')"

subsection \<open>Throws left\<close>

(* src: app/boBing/database/cache/common.go:287-306 RDBCache.SaveDayCount *)
definition SaveDayCount :: "'w bobing_env \<Rightarrow> gotime \<Rightarrow> submission \<Rightarrow> (unit, 'w) action" where
  "SaveDayCount E today s =
     (if sb_Condition s \<ge> 12 then fail cheat_msg
      else (let key = day_key E today ''count''
            in andThen
                 (onError (run_err (r_ZRem (be_rdb E) key (sb_RankOpenId s)))
                    (\<lambda>e. if e \<noteq> redis_Nil then fail e else ret ()))
                 (\<lambda>_. run_err (r_ZAdd (be_rdb E) key (10 + sb_Condition s - sb_Count s) (sb_RankOpenId s)))))"

(* src: app/boBing/database/cache/common.go:308-320 RDBCache.GetDayCount *)
definition GetDayCount :: "'w bobing_env \<Rightarrow> gotime \<Rightarrow> string \<Rightarrow> (int, 'w) action" where
  "GetDayCount E today openid = r_ZScore (be_rdb E) (day_key E today ''count'') openid"

end
