(* ===== verification/Name_Registry.thy ===== *)
theory Name_Registry
  imports Prelude
begin

text \<open>
  The contract shared by every manager of the platform that keeps values under a name:
  the game strategy factory, the TCC and saga managers, the retry executor, the breaker and
  rate limiter managers, the load balancer factory and the error recovery manager are all a
  Go map with \<^verbatim>\<open>RegisterX\<close> and \<^verbatim>\<open>GetX\<close>. The client lemmas are proved once here; each manager's
  theory interprets the locale on its own operations.
\<close>

locale name_registry =
  fixes new :: 'r
    and register :: "'e \<Rightarrow> 'r \<Rightarrow> 'r"
    and get :: "'r \<Rightarrow> string \<Rightarrow> 'x + 'v"
    and name :: "'e \<Rightarrow> string"
    and val :: "'e \<Rightarrow> 'v"
    and missing :: "string \<Rightarrow> 'x"
  assumes get_new: "get new n = Inl (missing n)"
    and get_register: "get (register e r) n = (if n = name e then Inr (val e) else get r n)"
begin

lemma get_register_all:
  "get (fold register es r) n =
     (case find (\<lambda>e. name e = n) (rev es) of None \<Rightarrow> get r n | Some e \<Rightarrow> Inr (val e))"
proof (induction es rule: rev_induct)
  case Nil
  show ?case by simp
next
  case (snoc e es)
  then show ?case by (simp add: get_register)
qed

lemma register_overwrites: "get (register e (register d r)) n = get (register e r) n"
  if "name d = name e"
  using that by (simp add: get_register)

lemma get_after_new:
  "get (fold register es new) n = Inl (missing n) \<longleftrightarrow> (\<forall>e \<in> set es. name e \<noteq> n)"
  by (auto simp: get_register_all get_new find_None_iff split: option.splits dest!: find_SomeD)

end

end
