(* ===== verification/Game.thy ===== *)
theory Game
  imports Name_Registry App_Error
begin

text \<open>
  The dice game: the award table of the boBing service (\<^verbatim>\<open>src/app/boBing/pkg/boBing.go\<close>) and
  the scoring strategy with its factory (\<^verbatim>\<open>src/app/common/strategy/game_strategy.go\<close>). Award
  names are the UTF-8 bytes of the source's literals. The map of occurrence counts is an
  association list; the order in which \<^verbatim>\<open>range\<close> visits it is an argument.
\<close>

subsection \<open>The award table\<close>

(* src: app/boBing/pkg/boBing.go:3-21 BoBingMessage *)
record boBing_message =
  bm_flag :: int

(* src: app/boBing/pkg/boBing.go:23-25 NewBoBingMessageTransform *)
definition NewBoBingMessageTransform :: boBing_message where
  "NewBoBingMessageTransform = \<lparr>bm_flag = 0\<rparr>"

(* src: app/boBing/pkg/boBing.go:28-30 SetType *)
definition SetType :: "int \<Rightarrow> boBing_message \<Rightarrow> boBing_message" where
  "SetType flag b = b\<lparr>bm_flag := flag\<rparr>"

(* src: app/boBing/pkg/boBing.go:33-92 Transform *)
definition Transform :: "boBing_message \<Rightarrow> int \<times> string \<times> int" where
  "Transform b =
     (if bm_flag b = 1 then (0, utf8 [0xE8, 0xB7, 0xB3, 0xE7, 0x8C, 0xB4], 0)
      else if bm_flag b = 2 then
        (0, utf8 [0xE8, 0x99, 0xBE, 0xE7, 0xB1, 0xB3, 0xE6, 0x8B, 0xA2, 0xE6, 0x9F, 0x90], 0)
      else if bm_flag b = 3 then (1, utf8 [0xE4, 0xB8, 0x80, 0xE7, 0xA7, 0x80], 0)
      else if bm_flag b = 4 then (2, utf8 [0xE4, 0xBA, 0x8C, 0xE4, 0xB8, 0xBE], 0)
      else if bm_flag b = 5 then (6, utf8 [0xE5, 0x9B, 0x9B, 0xE8, 0xBF, 0x9B], 0)
      else if bm_flag b = 6 then
        (6, utf8 [0xE5, 0x9B, 0x9B, 0xE8, 0xBF, 0x9B, 0xE5, 0xB8, 0xA6, 0xE4, 0xBA, 0x8C, 0xE4,
                  0xB8, 0xBE], 0)
      else if bm_flag b = 7 then
        (6, utf8 [0xE5, 0x9B, 0x9B, 0xE8, 0xBF, 0x9B, 0xE5, 0xB8, 0xA6, 0xE4, 0xB8, 0x80, 0xE7,
                  0xA7, 0x80], 0)
      else if bm_flag b = 8 then (8, utf8 [0xE4, 0xB8, 0x89, 0xE7, 0xBA, 0xA2], 0)
      else if bm_flag b = 9 then (10, utf8 [0xE5, 0xAF, 0xB9, 0xE5, 0xA0, 0x82], 0)
      else if bm_flag b = 10 then (16, utf8 [0xE7, 0x8A, 0xB6, 0xE5, 0x85, 0x83], 1)
      else if bm_flag b = 11 then
        (16, utf8 [0xE4, 0xBA, 0x94, 0xE5, 0xAD, 0x90, 0xE7, 0x99, 0xBB, 0xE7, 0xA7, 0x91], 1)
      else if bm_flag b = 12 then
        (16, utf8 [0xE4, 0xBA, 0x94, 0xE5, 0xAD, 0x90, 0xE5, 0xB8, 0xA6, 0xE4, 0xB8, 0x80, 0xE7,
                   0xA7, 0x80], 1)
      else if bm_flag b = 13 then (16, utf8 [0xE4, 0xBA, 0x94, 0xE7, 0xBA, 0xA2], 1)
      else if bm_flag b = 14 then
        (16, utf8 [0xE5, 0x85, 0xAD, 0xE6, 0x9D, 0xAF, 0xE9, 0xBB, 0x91], 2)
      else if bm_flag b = 15 then
        (16, utf8 [0xE5, 0x85, 0xAD, 0xE6, 0x9D, 0xAF, 0xE7, 0xBA, 0xA2], 2)
      else if bm_flag b = 16 then
        (16, utf8 [0xE7, 0x8A, 0xB6, 0xE5, 0x85, 0x83, 0xE6, 0x8F, 0x92, 0xE9, 0x87, 0x91, 0xE8,
                   0x8A, 0xB1], 2)
      else (0, [], 0))"

subsection \<open>Scoring six dice\<close>

(* src: app/common/strategy/game_strategy.go:26-28 Dice *)
record dice =
  dice_Value :: int

text \<open>\<^verbatim>\<open>counts[d.Value]++\<close> on a Go map kept as an association list with distinct keys.\<close>

fun bump :: "int \<Rightarrow> (int \<times> int) list \<Rightarrow> (int \<times> int) list" where
  "bump k [] = [(k, 1)]"
| "bump k ((k', c) # m) = (if k' = k then (k', c + 1) # m else (k', c) # bump k m)"

definition count_at :: "(int \<times> int) list \<Rightarrow> int \<Rightarrow> int" where
  "count_at m k = (case map_of m k of None \<Rightarrow> 0 | Some c \<Rightarrow> c)"

(* src: app/common/strategy/game_strategy.go:53-57 CalculateScore (counting loop) *)
definition count_dice :: "dice list \<Rightarrow> (int \<times> int) list" where
  "count_dice ds = fold (\<lambda>d m. bump (dice_Value d) m) ds []"

(* src: app/common/strategy/game_strategy.go:66-70 evaluateBoBing (tallies) *)
record tallies =
  t_fours :: int
  t_threes :: int
  t_pairs :: int
  t_singles :: int

text \<open>The loop over the counts: \<open>Inl\<close> is the early \<^verbatim>\<open>return\<close> of its first two cases.\<close>

(* src: app/common/strategy/game_strategy.go:72-87 evaluateBoBing (loop) *)
fun tally_loop :: "int list \<Rightarrow> tallies \<Rightarrow> (int \<times> string \<times> int) + tallies" where
  "tally_loop [] t = Inr t"
| "tally_loop (c # cs) t =
     (if c = 6 then Inl (100, utf8 [0xE5, 0x85, 0xAD, 0xE7, 0xBA, 0xA2], 6)
      else if c = 5 then Inl (50, utf8 [0xE4, 0xBA, 0x94, 0xE7, 0xBA, 0xA2], 5)
      else if c = 4 then tally_loop cs (t\<lparr>t_fours := t_fours t + 1\<rparr>)
      else if c = 3 then tally_loop cs (t\<lparr>t_threes := t_threes t + 1\<rparr>)
      else if c = 2 then tally_loop cs (t\<lparr>t_pairs := t_pairs t + 1\<rparr>)
      else if c = 1 then tally_loop cs (t\<lparr>t_singles := t_singles t + 1\<rparr>)
      else tally_loop cs t)"

(* src: app/common/strategy/game_strategy.go:132-142 isStraight *)
definition isStraight :: "(int \<times> int) list \<Rightarrow> bool" where
  "isStraight counts =
     (let straight1 = count_at counts 1 = 1 \<and> count_at counts 2 = 1 \<and> count_at counts 3 = 1 \<and>
            count_at counts 4 = 1 \<and> count_at counts 5 = 1 \<and> count_at counts 6 = 1;
          straight2 = count_at counts 2 = 1 \<and> count_at counts 3 = 1 \<and> count_at counts 4 = 1 \<and>
            count_at counts 5 = 1 \<and> count_at counts 6 = 1 \<and> count_at counts 1 = 1
      in straight1 \<or> straight2)"

(* src: app/common/strategy/game_strategy.go:65-129 evaluateBoBing *)
definition evaluateBoBing :: "(int \<times> int) range_order \<Rightarrow> (int \<times> int) list \<Rightarrow> int \<times> string \<times> int" where
  "evaluateBoBing rng counts =
     (case tally_loop (map snd (rng counts)) \<lparr>t_fours = 0, t_threes = 0, t_pairs = 0, t_singles = 0\<rparr> of
        Inl res \<Rightarrow> res
      | Inr t \<Rightarrow>
         (if t_fours t = 1 then
            (if t_threes t = 1 then
               (40, utf8 [0xE5, 0x9B, 0x9B, 0xE7, 0xBA, 0xA2, 0xE5, 0xB8, 0xA6, 0xE4, 0xB8, 0x89,
                          0xE7, 0xBA, 0xA2], 4)
             else if t_pairs t = 1 then
               (35, utf8 [0xE5, 0x9B, 0x9B, 0xE7, 0xBA, 0xA2, 0xE5, 0xB8, 0xA6, 0xE5, 0xAF, 0xB9], 4)
             else (30, utf8 [0xE5, 0x9B, 0x9B, 0xE7, 0xBA, 0xA2], 4))
          else if t_threes t = 2 then (25, utf8 [0xE4, 0xB8, 0x89, 0xE7, 0xBA, 0xA2], 3)
          else if t_threes t = 1 then
            (if t_pairs t = 1 then
               (20, utf8 [0xE4, 0xB8, 0x89, 0xE7, 0xBA, 0xA2, 0xE5, 0xB8, 0xA6, 0xE5, 0xAF, 0xB9], 3)
             else (15, utf8 [0xE4, 0xB8, 0x89, 0xE7, 0xBA, 0xA2], 3))
          else if t_pairs t = 3 then (10, utf8 [0xE4, 0xB8, 0x89, 0xE5, 0xAF, 0xB9], 2)
          else if t_pairs t = 2 then (8, utf8 [0xE4, 0xB8, 0xA4, 0xE5, 0xAF, 0xB9], 2)
          else if t_pairs t = 1 then (5, utf8 [0xE4, 0xB8, 0x80, 0xE5, 0xAF, 0xB9], 2)
          else if isStraight counts then (3, utf8 [0xE9, 0xA1, 0xBA, 0xE5, 0xAD, 0x90], 1)
          else (0, utf8 [0xE6, 0x97, 0xA0, 0xE5, 0xA5, 0x96], 0)))"

(* src: app/common/strategy/game_strategy.go:48-62 CalculateScore *)
definition CalculateScore :: "(int \<times> int) range_order \<Rightarrow> dice list \<Rightarrow> int \<times> string \<times> int" where
  "CalculateScore rng dice =
     (if length dice \<noteq> 6 then (0, ''invalid'', 0)
      else evaluateBoBing rng (count_dice dice))"

subsection \<open>Input validation\<close>

(* src: app/common/strategy/game_strategy.go:178-185 contains *)
fun byte_contains :: "string \<Rightarrow> char \<Rightarrow> bool" where
  "byte_contains [] c = False"
| "byte_contains (x # s) c = (if x = c then True else byte_contains s c)"

definition validChars :: string where
  "validChars = ''0123456789abcdefghijklmnopqrstuvwxyzABCDEFGHIJKLMNOPQRSTUVWXYZ''"

fun first_invalid :: "string \<Rightarrow> char option" where
  "first_invalid [] = None"
| "first_invalid (c # cs) = (if \<not> byte_contains validChars c then Some c else first_invalid cs)"

(* src: app/common/strategy/game_strategy.go:145-160 ValidateInput *)
definition ValidateInput :: "string \<Rightarrow> err + bool" where
  "ValidateInput data =
     (if length data < 10 then Inl ''input too short''
      else case first_invalid data of
        Some c \<Rightarrow> Inl (''invalid character: '' @ [c])
      | None \<Rightarrow> Inr True)"

subsection \<open>Strategies and their factory\<close>

(* src: app/common/strategy/game_strategy.go:14-23 GameStrategy *)
record game_strategy =
  gs_CalculateScore :: "dice list \<Rightarrow> int \<times> string \<times> int"
  gs_ValidateInput :: "string \<Rightarrow> err + bool"
  gs_GetGameType :: string
  gs_ProcessGame :: "gotime \<Rightarrow> err + (string \<times> string) list"

(* src: app/common/strategy/game_strategy.go:163-175 ProcessGame *)
definition BoBing_ProcessGame :: "string \<Rightarrow> gotime \<Rightarrow> err + (string \<times> string) list" where
  "BoBing_ProcessGame gameType now =
     Inr [(''gameType'', gameType), (''result'', ''processed''), (''timestamp'', itoa (now div second))]"

(* src: app/common/strategy/game_strategy.go:36-45 NewBoBingStrategy, GetGameType *)
definition NewBoBingStrategy :: "(int \<times> int) range_order \<Rightarrow> game_strategy" where
  "NewBoBingStrategy rng =
     \<lparr>gs_CalculateScore = CalculateScore rng, gs_ValidateInput = ValidateInput,
      gs_GetGameType = ''bobing'', gs_ProcessGame = BoBing_ProcessGame ''bobing''\<rparr>"

(* src: app/common/strategy/game_strategy.go:188-191 GameStrategyFactory *)
record strategy_factory =
  gsf_strategies :: "string \<rightharpoonup> game_strategy"

(* src: app/common/strategy/game_strategy.go:206-210 RegisterStrategy *)
definition RegisterStrategy :: "game_strategy \<Rightarrow> strategy_factory \<Rightarrow> strategy_factory" where
  "RegisterStrategy s f = f\<lparr>gsf_strategies := (gsf_strategies f)(gs_GetGameType s \<mapsto> s)\<rparr>"

(* src: app/common/strategy/game_strategy.go:194-203 NewGameStrategyFactory *)
definition NewGameStrategyFactory :: "(int \<times> int) range_order \<Rightarrow> strategy_factory" where
  "NewGameStrategyFactory rng = RegisterStrategy (NewBoBingStrategy rng) \<lparr>gsf_strategies = Map.empty\<rparr>"

(* src: app/common/strategy/game_strategy.go:213-222 GetStrategy *)
definition GetStrategy :: "strategy_factory \<Rightarrow> string \<Rightarrow> err + game_strategy" where
  "GetStrategy f gameType =
     (case gsf_strategies f gameType of
        Some s \<Rightarrow> Inr s
      | None \<Rightarrow> Inl (''strategy for game type '' @ gameType @ '' not found''))"

(* src: app/common/strategy/game_strategy.go:250-257 GameProcessor.ProcessGame *)
definition gp_ProcessGame ::
    "string \<times> int \<Rightarrow> strategy_factory \<Rightarrow> string \<Rightarrow> gotime \<Rightarrow> err + (string \<times> string) list" where
  "gp_ProcessGame caller f gameType now =
     (case GetStrategy f gameType of
        Inl e \<Rightarrow> (case WrapError caller (Some (PlainError e)) (code_int ErrCodeInvalidParam)
                          ''Invalid game type'' of
                   Some w \<Rightarrow> Inl (Error w) | None \<Rightarrow> Inl [])
      | Inr s \<Rightarrow> gs_ProcessGame s now)"

(* src: app/common/strategy/game_strategy.go:260-267 ValidateGameInput *)
definition ValidateGameInput :: "strategy_factory \<Rightarrow> string \<Rightarrow> string \<Rightarrow> err + bool" where
  "ValidateGameInput f gameType data =
     (case GetStrategy f gameType of Inl e \<Rightarrow> Inl e | Inr s \<Rightarrow> gs_ValidateInput s data)"

(* src: app/common/strategy/game_strategy.go:270-278 CalculateGameScore *)
definition CalculateGameScore ::
    "strategy_factory \<Rightarrow> string \<Rightarrow> dice list \<Rightarrow> err + int \<times> string \<times> int" where
  "CalculateGameScore f gameType dice =
     (case GetStrategy f gameType of Inl e \<Rightarrow> Inl e | Inr s \<Rightarrow> Inr (gs_CalculateScore s dice))"

subsection \<open>Reference definitions\<close>

text \<open>What the loop computes, as a function of the multiset of counts alone.\<close>

definition tally_spec :: "int multiset \<Rightarrow> (int \<times> string \<times> int) + tallies" where
  "tally_spec M =
     (if 6 \<in># M then Inl (100, utf8 [0xE5, 0x85, 0xAD, 0xE7, 0xBA, 0xA2], 6)
      else if 5 \<in># M then Inl (50, utf8 [0xE4, 0xBA, 0x94, 0xE7, 0xBA, 0xA2], 5)
      else Inr \<lparr>t_fours = int (count M 4), t_threes = int (count M 3),
                t_pairs = int (count M 2), t_singles = int (count M 1)\<rparr>)"

text \<open>
  The reference: the score of six dice read off the partition of 6 that their counts form.
\<close>

definition bobing_reference :: "dice list \<Rightarrow> int \<times> string \<times> int" where
  "bobing_reference ds =
     (let p = sort (map snd (count_dice ds)) in
      if p = [6] then (100, utf8 [0xE5, 0x85, 0xAD, 0xE7, 0xBA, 0xA2], 6)
      else if p = [1, 5] then (50, utf8 [0xE4, 0xBA, 0x94, 0xE7, 0xBA, 0xA2], 5)
      else if p = [2, 4] then
        (35, utf8 [0xE5, 0x9B, 0x9B, 0xE7, 0xBA, 0xA2, 0xE5, 0xB8, 0xA6, 0xE5, 0xAF, 0xB9], 4)
      else if p = [1, 1, 4] then (30, utf8 [0xE5, 0x9B, 0x9B, 0xE7, 0xBA, 0xA2], 4)
      else if p = [3, 3] then (25, utf8 [0xE4, 0xB8, 0x89, 0xE7, 0xBA, 0xA2], 3)
      else if p = [1, 2, 3] then
        (20, utf8 [0xE4, 0xB8, 0x89, 0xE7, 0xBA, 0xA2, 0xE5, 0xB8, 0xA6, 0xE5, 0xAF, 0xB9], 3)
      else if p = [1, 1, 1, 3] then (15, utf8 [0xE4, 0xB8, 0x89, 0xE7, 0xBA, 0xA2], 3)
      else if p = [2, 2, 2] then (10, utf8 [0xE4, 0xB8, 0x89, 0xE5, 0xAF, 0xB9], 2)
      else if p = [1, 1, 2, 2] then (8, utf8 [0xE4, 0xB8, 0xA4, 0xE5, 0xAF, 0xB9], 2)
      else if p = [1, 1, 1, 1, 2] then (5, utf8 [0xE4, 0xB8, 0x80, 0xE5, 0xAF, 0xB9], 2)
      else if set (map dice_Value ds) = {1, 2, 3, 4, 5, 6} then
        (3, utf8 [0xE9, 0xA1, 0xBA, 0xE5, 0xAD, 0x90], 1)
      else (0, utf8 [0xE6, 0x97, 0xA0, 0xE5, 0xA5, 0x96], 0))"

text \<open>All sorted lists of positive numbers with a given sum (partitions), by enumeration.\<close>

fun parts :: "nat \<Rightarrow> int \<Rightarrow> int \<Rightarrow> int list list" where
  "parts 0 lo n = (if n = 0 then [[]] else [])"
| "parts (Suc f) lo n =
     (if n = 0 then [[]] else concat (map (\<lambda>c. map ((#) c) (parts f c (n - c))) [lo..n]))"

subsection \<open>Counting\<close>

lemma fst_bump: "fst ` set (bump k m) = insert k (fst ` set m)"
  by (induction k m rule: bump.induct) auto

lemma distinct_bump: "distinct (map fst m) \<Longrightarrow> distinct (map fst (bump k m))"
  by (induction k m rule: bump.induct) (auto simp: fst_bump image_iff)

lemma count_at_bump: "count_at (bump k m) k' = count_at m k' + (if k' = k then 1 else 0)"
  by (induction k m rule: bump.induct) (auto simp: count_at_def)

lemma sum_bump: "sum_list (map snd (bump k m)) = sum_list (map snd m) + 1"
  by (induction k m rule: bump.induct) auto

lemma pos_bump: "\<forall>c \<in> set (map snd m). 0 < c \<Longrightarrow> \<forall>c \<in> set (map snd (bump k m)). 0 < c"
  by (induction k m rule: bump.induct) auto

lemma count_dice_invs:
  "distinct (map fst (count_dice ds)) \<and> (\<forall>c \<in> set (map snd (count_dice ds)). 0 < c)
   \<and> sum_list (map snd (count_dice ds)) = int (length ds)
   \<and> (\<forall>k. count_at (count_dice ds) k = int (count_list (map dice_Value ds) k))"
proof (induction ds rule: rev_induct)
  case Nil
  show ?case by (simp add: count_dice_def count_at_def)
next
  case (snoc d ds)
  let ?m = "count_dice ds"
  have m: "count_dice (ds @ [d]) = bump (dice_Value d) ?m" by (simp add: count_dice_def)
  from snoc have "distinct (map fst (bump (dice_Value d) ?m))" by (blast intro: distinct_bump)
  moreover from snoc have "\<forall>c \<in> set (map snd (bump (dice_Value d) ?m)). 0 < c"
    by (intro pos_bump) blast
  ultimately show ?case
    unfolding m using snoc by (simp add: sum_bump count_at_bump)
qed

lemmas count_dice_distinct = count_dice_invs [THEN conjunct1]
  and count_dice_pos = count_dice_invs [THEN conjunct2, THEN conjunct1]
  and count_dice_sum = count_dice_invs [THEN conjunct2, THEN conjunct2, THEN conjunct1]
  and count_dice_at = count_dice_invs [THEN conjunct2, THEN conjunct2, THEN conjunct2, rule_format]

lemma in_count_dice:
  "(k, c) \<in> set (count_dice ds) \<longleftrightarrow> c = int (count_list (map dice_Value ds) k) \<and> 0 < c"
proof
  assume kc: "(k, c) \<in> set (count_dice ds)"
  then have "map_of (count_dice ds) k = Some c"
    using count_dice_distinct by (simp add: map_of_is_SomeI)
  then have "c = count_at (count_dice ds) k" by (simp add: count_at_def)
  moreover have "0 < c" using kc count_dice_pos by force
  ultimately show "c = int (count_list (map dice_Value ds) k) \<and> 0 < c"
    by (simp only: count_dice_at)
next
  assume c: "c = int (count_list (map dice_Value ds) k) \<and> 0 < c"
  then have "count_at (count_dice ds) k = c \<and> 0 < c" using count_dice_at by metis
  then show "(k, c) \<in> set (count_dice ds)"
    by (auto simp: count_at_def dest: map_of_SomeD split: option.splits)
qed

lemma count_list_perm: "mset xs = mset ys \<Longrightarrow> count_list xs k = count_list ys k"
  by (metis count_mset)

lemma count_dice_perm:
  assumes "mset (map dice_Value ds) = mset (map dice_Value ds')"
  shows "mset (count_dice ds) = mset (count_dice ds')"
proof -
  have "set (count_dice ds) = set (count_dice ds')"
    using count_list_perm [OF assms] by (auto simp only: in_count_dice)
  moreover have "distinct (count_dice ds)" and "distinct (count_dice ds')"
    using count_dice_distinct distinct_map by blast+
  ultimately show ?thesis by (simp add: set_eq_iff_mset_eq_distinct)
qed

subsection \<open>The tally does not depend on the iteration order\<close>

lemma tally_loop_Inr:
  "6 \<notin> set cs \<Longrightarrow> 5 \<notin> set cs \<Longrightarrow> tally_loop cs t = Inr
     (t\<lparr>t_fours := t_fours t + int (count (mset cs) 4), t_threes := t_threes t + int (count (mset cs) 3),
        t_pairs := t_pairs t + int (count (mset cs) 2), t_singles := t_singles t + int (count (mset cs) 1)\<rparr>)"
  by (induction cs t rule: tally_loop.induct) simp_all

lemma tally_loop_6: "6 \<in> set cs \<Longrightarrow> 5 \<notin> set cs \<Longrightarrow>
   tally_loop cs t = Inl (100, utf8 [0xE5, 0x85, 0xAD, 0xE7, 0xBA, 0xA2], 6)"
  by (induction cs t rule: tally_loop.induct) auto

lemma tally_loop_5: "5 \<in> set cs \<Longrightarrow> 6 \<notin> set cs \<Longrightarrow>
   tally_loop cs t = Inl (50, utf8 [0xE4, 0xBA, 0x94, 0xE7, 0xBA, 0xA2], 5)"
  by (induction cs t rule: tally_loop.induct) auto

lemma tally_loop_spec:
  assumes "\<not> (6 \<in> set cs \<and> 5 \<in> set cs)"
  shows "tally_loop cs \<lparr>t_fours = 0, t_threes = 0, t_pairs = 0, t_singles = 0\<rparr> = tally_spec (mset cs)"
  using assms by (auto simp: tally_spec_def tally_loop_6 tally_loop_5 tally_loop_Inr)

lemma sum_list_member: "\<forall>c \<in> set cs. 0 \<le> c \<Longrightarrow> x \<in> set cs \<Longrightarrow> x \<le> sum_list (cs :: int list)"
proof (induction cs)
  case Nil
  then show ?case by simp
next
  case (Cons c cs)
  have "0 \<le> sum_list cs" and "0 \<le> c" using Cons.prems(1) by (auto intro: sum_list_nonneg)
  with Cons show ?case by (cases "x = c") auto
qed

lemma sum_list_two:
  assumes "\<forall>c \<in> set cs. 0 \<le> c" and "x \<in> set cs" and "y \<in> set cs" and "x \<noteq> (y :: int)"
  shows "x + y \<le> sum_list cs"
proof -
  have "x + y \<le> x + sum_list (remove1 x cs)"
    using assms set_remove1_subset [of x cs] by (auto intro!: sum_list_member)
  also have "\<dots> = sum_list cs" using assms(2) by (simp add: sum_list_map_remove1 [of x cs "\<lambda>z. z", simplified])
  finally show ?thesis .
qed

lemma counts_no_5_6:
  assumes "length ds = 6" and "mset cs = mset (map snd (count_dice ds))"
  shows "\<not> (6 \<in> set cs \<and> 5 \<in> set cs)"
proof
  assume "6 \<in> set cs \<and> 5 \<in> set cs"
  then have "6 \<in> set (map snd (count_dice ds))" and "5 \<in> set (map snd (count_dice ds))"
    using assms(2) by (metis set_mset_mset)+
  then have "(6::int) + 5 \<le> sum_list (map snd (count_dice ds))"
    using count_dice_pos by (intro sum_list_two) force+
  then show False using assms(1) by (simp add: count_dice_sum)
qed

lemma isStraight_cong: "(\<And>k. count_at m k = count_at m' k) \<Longrightarrow> isStraight m = isStraight m'"
  by (simp add: isStraight_def)

text \<open>
  \<^verbatim>\<open>CalculateScore\<close> ranges over a Go map and returns from inside the loop, yet its result is
  deterministic: it depends only on the multiset of the dice values. Two calls on the same
  values, in any order and under any two iteration orders of the map, agree.
\<close>
theorem score_order_independent:
  assumes "is_range_order r" and "is_range_order r'"
    and "mset (map dice_Value ds) = mset (map dice_Value ds')"
  shows "CalculateScore r ds = CalculateScore r' ds'"
proof (cases "length ds = 6")
  case False
  moreover have "length ds = length ds'" using assms(3) by (metis length_map size_mset)
  ultimately show ?thesis by (simp add: CalculateScore_def)
next
  case True
  have len: "length ds' = 6" using assms(3) True by (metis length_map size_mset)
  have m: "mset (map snd (r (count_dice ds))) = mset (map snd (r' (count_dice ds')))"
    using assms count_dice_perm [OF assms(3)] by (simp add: range_order_mset)
  have p: "mset (map snd (r (count_dice ds))) = mset (map snd (count_dice ds))"
    and p': "mset (map snd (r' (count_dice ds'))) = mset (map snd (count_dice ds'))"
    using assms(1,2) by (simp_all add: range_order_mset)
  have "isStraight (count_dice ds) = isStraight (count_dice ds')"
    using count_list_perm [OF assms(3)] by (intro isStraight_cong) (simp only: count_dice_at)
  then show ?thesis
    unfolding CalculateScore_def evaluateBoBing_def
      tally_loop_spec [OF counts_no_5_6 [OF True p]] tally_loop_spec [OF counts_no_5_6 [OF len p']] m
    using True len by simp
qed

theorem score_order_independent_witness:
  "CalculateScore (\<lambda>xs. xs) (map dice.make [4, 4, 1, 4, 2, 4]) =
   CalculateScore rev (map dice.make [1, 2, 4, 4, 4, 4])"
  by (rule score_order_independent) (simp_all add: dice.make_def)

subsection \<open>The score table\<close>

lemma in_parts:
  "sorted cs \<Longrightarrow> \<forall>c \<in> set cs. lo \<le> c \<Longrightarrow> 1 \<le> lo \<Longrightarrow> sum_list cs = n \<Longrightarrow> n \<le> int f \<Longrightarrow>
   cs \<in> set (parts f lo n)"
proof (induction f arbitrary: cs lo n)
  case 0
  have nonneg: "\<forall>c \<in> set cs. 0 \<le> c" and pos: "\<forall>c \<in> set cs. 1 \<le> c" using 0 by auto
  have "0 \<le> sum_list cs" using nonneg by (auto intro: sum_list_nonneg)
  with "0.prems"(4,5) have z: "sum_list cs = 0" by linarith
  then have "cs = []" using sum_list_member [OF nonneg] pos by (cases cs) force+
  with z "0.prems"(4) show ?case by simp
next
  case (Suc f)
  show ?case
  proof (cases cs)
    case Nil
    with Suc.prems show ?thesis by simp
  next
    case (Cons c r)
    have r: "0 \<le> sum_list r" and c: "lo \<le> c" "1 \<le> c"
      using Suc.prems Cons by (force intro: sum_list_nonneg)+
    have "r \<in> set (parts f c (n - c))"
      using Suc.prems Cons c by (intro Suc.IH) auto
    moreover have "c \<in> set [lo..n]" and "n \<noteq> 0" using Suc.prems Cons r c by auto
    ultimately show ?thesis unfolding Cons by force
  qed
qed

lemma parts_6: "set (parts 6 1 6) =
   {[6], [1, 5], [2, 4], [1, 1, 4], [3, 3], [1, 2, 3], [1, 1, 1, 3], [2, 2, 2], [1, 1, 2, 2],
    [1, 1, 1, 1, 2], [1, 1, 1, 1, 1, 1]}"
  by code_simp

lemma partition_cases:
  assumes "length ds = 6"
  shows "sort (map snd (count_dice ds)) \<in> set (parts 6 1 6)"
proof (rule in_parts)
  show "\<forall>c \<in> set (sort (map snd (count_dice ds))). 1 \<le> c" using count_dice_pos by force
  have "sum_list (sort (map snd (count_dice ds))) = sum_list (map snd (count_dice ds))"
    by (metis mset_sort sum_mset_sum_list)
  then show "sum_list (sort (map snd (count_dice ds))) = 6" using assms by (simp add: count_dice_sum)
qed simp_all

lemma straight_iff:
  assumes "length ds = 6"
  shows "isStraight (count_dice ds) \<longleftrightarrow> set (map dice_Value ds) = {1, 2, 3, 4, 5, 6}"
proof -
  let ?vs = "map dice_Value ds"
  have s: "isStraight (count_dice ds) \<longleftrightarrow> (\<forall>k \<in> {1, 2, 3, 4, 5, 6}. count_list ?vs k = 1)"
    unfolding isStraight_def count_dice_at Let_def by auto
  show ?thesis
  proof
    assume "isStraight (count_dice ds)"
    then have sub: "{1, 2, 3, 4, 5, 6} \<subseteq> set ?vs"
      unfolding s by (metis count_notin subsetI zero_neq_one)
    moreover have "card (set ?vs) \<le> 6" using assms card_length [of ?vs] by simp
    ultimately have "card (set ?vs) \<le> card {1, 2, 3, 4, 5, 6 :: int}" by simp
    then show "set ?vs = {1, 2, 3, 4, 5, 6}" using sub by (metis List.finite_set card_seteq)
  next
    assume eq: "set ?vs = {1, 2, 3, 4, 5, 6}"
    then have "card (set ?vs) = length ?vs" using assms by simp
    then have "distinct ?vs" by (rule card_distinct)
    then have "\<forall>k. count_list ?vs k = (if k \<in> set ?vs then 1 else 0)"
      by (metis count_mset distinct_count_atmost_1)
    with eq show "isStraight (count_dice ds)" unfolding s by simp
  qed
qed

text \<open>
  C35. On six dice \<^verbatim>\<open>CalculateScore\<close> computes exactly the reference table over the eleven
  partitions of 6, for every iteration order of the map; in particular its branch for four and
  three equal values (score 40) is dead.
\<close>
theorem score_reference:
  assumes "is_range_order r" and "length ds = 6"
  shows "CalculateScore r ds = bobing_reference ds \<and> fst (CalculateScore r ds) \<noteq> 40"
proof -
  let ?p = "sort (map snd (count_dice ds))"
  have m: "mset (map snd (r (count_dice ds))) = mset (map snd (count_dice ds))"
    using assms(1) by (simp add: range_order_mset)
  also have "\<dots> = mset ?p" by simp
  finally have mp: "mset (map snd (r (count_dice ds))) = mset ?p" .
  have "CalculateScore r ds = bobing_reference ds"
    using partition_cases [OF assms(2)] assms(2)
    unfolding CalculateScore_def evaluateBoBing_def tally_loop_spec [OF counts_no_5_6 [OF assms(2) m]]
      mp straight_iff [OF assms(2)] bobing_reference_def parts_6
    by (elim insertE emptyE) (simp_all add: tally_spec_def)
  then show ?thesis by (auto simp: bobing_reference_def Let_def)
qed

theorem score_reference_witness:
  "CalculateScore rev (map dice.make [4, 4, 1, 4, 1, 4]) = bobing_reference (map dice.make [4, 4, 1, 4, 1, 4])
   \<and> fst (CalculateScore rev (map dice.make [4, 4, 1, 4, 1, 4])) \<noteq> 40"
  by (rule score_reference) simp_all

subsection \<open>The award table and the strategy factory\<close>

text \<open>
  The award table \<^verbatim>\<open>Transform\<close>: a higher flag never scores less, every score lies between 0
  and 16, extra throws are granted exactly for the flags 10 to 16, and a flag outside 1 to 16
  yields the zero result.
\<close>
theorem transform_table:
  fixes f g :: int
  defines "tr \<equiv> \<lambda>flag. Transform (SetType flag NewBoBingMessageTransform)"
  shows "(1 \<le> f \<and> f \<le> g \<and> g \<le> 16 \<longrightarrow> fst (tr f) \<le> fst (tr g))
       \<and> 0 \<le> fst (tr f) \<and> fst (tr f) \<le> 16
       \<and> (0 < snd (snd (tr f)) \<longleftrightarrow> 10 \<le> f \<and> f \<le> 16)
       \<and> (f < 1 \<or> 16 < f \<longrightarrow> tr f = (0, [], 0))"
proof -
  have score: "fst (tr f) = (if f = 3 then 1 else if f = 4 then 2 else if f \<in> {5, 6, 7} then 6
      else if f = 8 then 8 else if f = 9 then 10 else if f \<in> {10..16} then 16 else 0)" for f
    by (auto simp: tr_def Transform_def SetType_def)
  have count: "snd (snd (tr f)) = (if f \<in> {10..13} then 1 else if f \<in> {14..16} then 2 else 0)" for f
    by (auto simp: tr_def Transform_def SetType_def)
  have out: "f < 1 \<or> 16 < f \<longrightarrow> tr f = (0, [], 0)"
    by (auto simp: tr_def Transform_def SetType_def)
  have mono: "1 \<le> f \<and> f \<le> g \<and> g \<le> 16 \<longrightarrow> fst (tr f) \<le> fst (tr g)"
    by (auto simp: score)
  show ?thesis using out mono by (auto simp: score count)
qed

theorem transform_table_witness:
  "fst (Transform (SetType 8 NewBoBingMessageTransform))
     \<le> fst (Transform (SetType 14 NewBoBingMessageTransform))"
  using transform_table [of 8 14] by simp

interpretation gsf: name_registry "\<lparr>gsf_strategies = Map.empty\<rparr>" RegisterStrategy GetStrategy
  gs_GetGameType "\<lambda>s. s" "\<lambda>n. ''strategy for game type '' @ n @ '' not found''"
  by unfold_locales (auto simp: GetStrategy_def RegisterStrategy_def)

lemma byte_contains_iff: "byte_contains s c \<longleftrightarrow> c \<in> set s"
  by (induction s c rule: byte_contains.induct) auto

lemma first_invalid_None: "first_invalid cs = None \<longleftrightarrow> set cs \<subseteq> set validChars"
  by (induction cs) (auto simp: byte_contains_iff)

lemma ValidateInput_ok: "ValidateInput data = Inr True \<longleftrightarrow> 10 \<le> length data \<and> set data \<subseteq> set validChars"
  unfolding first_invalid_None [symmetric] by (auto simp: ValidateInput_def split: option.splits)

text \<open>
  The game processor over the default factory: scoring, validation and processing of
  \<^verbatim>\<open>"bobing"\<close> go to the boBing strategy even after other game types were registered, an unknown
  type is rejected by all three entry points, and \<^verbatim>\<open>ValidateInput\<close> accepts exactly the inputs of
  at least ten ASCII letters and digits.
\<close>
theorem game_processor_dispatch:
  assumes "\<forall>s \<in> set ss. gs_GetGameType s \<noteq> ''bobing'' \<and> gs_GetGameType s \<noteq> t" and "t \<noteq> ''bobing''"
    and f_def: "f = fold RegisterStrategy ss (NewGameStrategyFactory r)"
  shows "CalculateGameScore f ''bobing'' ds = Inr (CalculateScore r ds)
       \<and> (ValidateGameInput f ''bobing'' data = Inr True
            \<longleftrightarrow> 10 \<le> length data \<and> set data \<subseteq> set validChars)
       \<and> CalculateGameScore f t ds = Inl (''strategy for game type '' @ t @ '' not found'')
       \<and> ValidateGameInput f t data = Inl (''strategy for game type '' @ t @ '' not found'')
       \<and> gp_ProcessGame caller f t now
           = Inl (''[1001] Invalid game type: strategy for game type '' @ t @ '' not found'')"
proof -
  have none: "find (\<lambda>s. gs_GetGameType s = n) (rev ss) = None" if "n = ''bobing'' \<or> n = t" for n
    using assms(1) that by (auto simp: find_None_iff)
  have b: "GetStrategy f ''bobing'' = Inr (NewBoBingStrategy r)"
    unfolding f_def gsf.get_register_all none [of "''bobing''", simplified]
    by (simp add: NewGameStrategyFactory_def gsf.get_register NewBoBingStrategy_def)
  have t: "GetStrategy f t = Inl (''strategy for game type '' @ t @ '' not found'')"
    unfolding f_def gsf.get_register_all using none [of t] assms(2)
    by (simp add: NewGameStrategyFactory_def gsf.get_register gsf.get_new NewBoBingStrategy_def)
  have "itoa 1001 = ''1001''" by code_simp
  then show ?thesis
    using b t
    by (auto simp: CalculateGameScore_def ValidateGameInput_def gp_ProcessGame_def NewBoBingStrategy_def
        ValidateInput_ok WrapError_def getErrorDetails_def)
qed

theorem game_processor_dispatch_witness:
  "CalculateGameScore (fold RegisterStrategy [] (NewGameStrategyFactory rev)) ''chess'' []
     = Inl ''strategy for game type chess not found''"
  using game_processor_dispatch [of "[]" "''chess''" _ rev] by simp

end
