(* ===== verification/Bobing_Service.thy ===== *)
theory Bobing_Service
  imports Bobing_Cache Game App_Error Go_Strings
begin

text \<open>
  The dice game service (\<^verbatim>\<open>src/app/boBing/service/boBing.go\<close>) and the check of the dice positions
  (\<^verbatim>\<open>src/app/boBing/pkg/verify.go\<close>). A handler returns the pair of its named results, the response
  (\<open>None\<close> for nil) and the error, and acts on the world through the parameters in \<open>bobing_env\<close>.

  \<^verbatim>\<open>BoBingPublish\<close> runs two goroutines that share the variables \<open>err\<close> and \<open>submission\<close>; the model runs their
  steps in the order given by a schedule, an argument. Floats are real numbers.
\<close>

section \<open>Model\<close>

subsection \<open>Messages\<close>

definition msg_tiao_hou :: err where
  "msg_tiao_hou =
     utf8 [0xE8, 0xB7, 0xB3, 0xE7, 0x8C, 0xB4]"

definition msg_plus_two :: err where
  "msg_plus_two =
     utf8 [0xE5, 0x8A, 0xA0, 0xE4, 0xBA, 0x8C]"

definition msg_plus_three :: err where
  "msg_plus_three =
     utf8 [0xE5, 0x8A, 0xA0, 0xE4, 0xB8, 0x89]"

definition msg_plus_five :: err where
  "msg_plus_five =
     utf8 [0xE5, 0x8A, 0xA0, 0xE4, 0xBA, 0x94]"

definition msg_plus_six :: err where
  "msg_plus_six =
     utf8 [0xE5, 0x8A, 0xA0, 0xE5, 0x85, 0xAD]"

definition msg_banned :: err where
  "msg_banned =
     utf8 [0xE6, 0xA3, 0x80, 0xE6, 0xB5, 0x8B, 0xE5, 0x88, 0xB0, 0xE4, 0xBD, 0xA0, 0xE6, 0x9C,
     0x89, 0xE4, 0xBD, 0x9C, 0xE5, 0xBC, 0x8A, 0xE8, 0xA1, 0x8C, 0xE4, 0xB8, 0xBA, 0xEF, 0xBC,
     0x8C, 0xE5, 0xB7, 0xB2, 0xE8, 0xA2, 0xAB, 0xE5, 0xB0, 0x81, 0xE5, 0x8F, 0xB7]"

definition msg_empty :: err where
  "msg_empty =
     utf8 [0xE4, 0xBF, 0xA1, 0xE6, 0x81, 0xAF, 0xE4, 0xB8, 0xBA, 0xE7, 0xA9, 0xBA]"

definition msg_init :: err where
  "msg_init =
     utf8 [0xE5, 0x88, 0x9D, 0xE5, 0xA7, 0x8B, 0xE5, 0x8C, 0x96, 0xE9, 0x94, 0x99, 0xE8, 0xAF,
     0xAF]"

definition msg_mismatch :: err where
  "msg_mismatch =
     utf8 [0xE4, 0xBF, 0xA1, 0xE6, 0x81, 0xAF, 0xE4, 0xB8, 0x8D, 0xE7, 0xAC, 0xA6, 0xE5, 0x90,
     0x88]"

(* src: utils/errors.go:159-159 ErrBoBingCheat *)
definition ErrBoBingCheat :: err where
  "ErrBoBingCheat = App_Error.Error (NewAppError ([], 0) 5001 (
       utf8 [0xE6, 0xA3, 0x80, 0xE6, 0xB5, 0x8B, 0xE5, 0x88, 0xB0, 0xE4, 0xBD, 0x9C, 0xE5, 0xBC,
       0x8A, 0xE8, 0xA1, 0x8C, 0xE4, 0xB8, 0xBA, 0xEF, 0xBC, 0x8C, 0xE5, 0xB7, 0xB2, 0xE8, 0xA2,
       0xAB, 0xE5, 0xB0, 0x81, 0xE5, 0x8F, 0xB7]) None)"

(* src: utils/errors.go:161-161 ErrBoBingNoChance *)
definition ErrBoBingNoChance :: err where
  "ErrBoBingNoChance = App_Error.Error (NewAppError ([], 0) 5003 (
       utf8 [0xE4, 0xBB, 0x8A, 0xE6, 0x97, 0xA5, 0xE5, 0xA2, 0x9E, 0xE5, 0x8A, 0xA0, 0xE6, 0x8A,
       0x95, 0xE6, 0x8E, 0xB7, 0xE6, 0xAC, 0xA1, 0xE6, 0x95, 0xB0, 0xE5, 0xB7, 0xB2, 0xE8, 0xBE,
       0xBE, 0xE4, 0xB8, 0x8A, 0xE9, 0x99, 0x90]) None)"

(* src: utils/errors.go:162-162 ErrBoBingInvalidFlag *)
definition ErrBoBingInvalidFlag :: err where
  "ErrBoBingInvalidFlag = App_Error.Error (NewAppError ([], 0) 5004 (
       utf8 [0xE6, 0x97, 0xA0, 0xE6, 0x95, 0x88, 0xE7, 0x9A, 0x84, 0xE6, 0x8A, 0x95, 0xE6, 0x8E,
       0xB7, 0xE6, 0xA0, 0x87, 0xE5, 0xBF, 0x97]) None)"

text \<open>The text of \<^verbatim>\<open>utils.WrapRedisError\<close> around an error; errors carry no caller position here.\<close>

definition wrap_redis :: "err \<Rightarrow> string \<Rightarrow> err" where
  "wrap_redis e operation =
     (case WrapRedisError ([], 0) (Some (PlainError e)) operation of None \<Rightarrow> [] | Some g \<Rightarrow> App_Error.Error g)"

definition op_blacklist :: string where
  "op_blacklist =
     utf8 [0xE4, 0xBF, 0x9D, 0xE5, 0xAD, 0x98, 0xE9, 0xBB, 0x91, 0xE5, 0x90, 0x8D, 0xE5, 0x8D,
     0x95]"

subsection \<open>Checking the dice\<close>

(* src: app/boBing/pkg/verify.go:21-23 quaternionNorm *)
definition quaternionNorm :: "real list \<Rightarrow> real" where
  "quaternionNorm q = sqrt ((q ! 0) ^ 2 + (q ! 1) ^ 2 + (q ! 2) ^ 2 + (q ! 3) ^ 2)"

fun duplicate_loop :: "real list \<Rightarrow> real list \<Rightarrow> bool" where
  "duplicate_loop visited [] = False"
| "duplicate_loop visited (v # vs) = (if v \<in> set visited then True else duplicate_loop (v # visited) vs)"

(* src: app/boBing/pkg/verify.go:26-37 hasDuplicateValue *)
definition hasDuplicateValue :: "(string \<times> real) list \<Rightarrow> bool" where
  "hasDuplicateValue m = duplicate_loop [] (map snd m)"

(* src: app/boBing/pkg/verify.go:53-72 ValidateParams (loop) *)
fun validate_dices ::
  "'w bobing_env \<Rightarrow> string \<Rightarrow> int \<Rightarrow> int \<Rightarrow> string list \<Rightarrow> thrown_die list \<Rightarrow> bool \<times> err option \<times> string list" where
  "validate_dices E openid today i strs [] = (True, None, strs)"
| "validate_dices E openid today i strs (dice # ds) =
     (if length (dc_Position dice) \<noteq> 3
        then (False, Some (''invalid position length for dice '' @ itoa (i + 1)), [])
      else if hasDuplicateValue (dc_Position dice) then (False, Some ''hasDuplicateValue'', [])
      else if length (dc_Quaternion dice) \<noteq> 4
        then (False, Some (''invalid quaternion length for dice '' @ itoa (i + 1)), [])
      else (let strs' = strs @ [enc_quaternion E (dc_Quaternion dice) @ openid @ itoa today];
                norm = quaternionNorm (dc_Quaternion dice)
            in if \<bar>norm - 1\<bar> > 1 / 1000
               then (False, Some (''invalid quaternion norm '' @ fmt_float E norm @ '' for dice '' @ itoa (i + 1)), [])
               else validate_dices E openid today (i + 1) strs' ds))"

(* src: app/boBing/pkg/verify.go:40-76 ValidateParams *)
definition ValidateParams ::
  "'w bobing_env \<Rightarrow> int \<Rightarrow> string \<Rightarrow> string \<Rightarrow> bool \<times> err option \<times> string list" where
  "ValidateParams E today openid data =
     (case dec_dices E data of
        Inl e \<Rightarrow> (False, Some e, [])
      | Inr dices \<Rightarrow>
          if length dices \<noteq> 6 then (False, None, [])
          else validate_dices E openid today 0 [] dices)"

subsection \<open>Helpers\<close>

definition charset :: string where
  "charset = ''abcdefghijklmnopqrstuvwxyzABCDEFGHIJKLMNOPQRSTUVWXYZ0123456789''"

(* src: utils/rand.go:8-23 RandString *)
definition RandString :: "'w bobing_env \<Rightarrow> nat \<Rightarrow> (string, 'w) action" where
  "RandString E len =
     andThen (be_random E len) (\<lambda>bytes. ret (map (\<lambda>b. charset ! (b mod 62)) bytes))"

definition today_of :: "'w bobing_env \<Rightarrow> 'w \<Rightarrow> gotime" where
  "today_of E w = be_midnight E (be_now E w)"

subsection \<open>Day rows\<close>

text \<open>
  The creation of today's submission that \<^verbatim>\<open>BoBingDayInit\<close> and \<^verbatim>\<open>BoBingPublish\<close> share, with the rank
  created on demand.
\<close>

(* src: app/boBing/service/boBing.go:115-141 BoBingSrv.BoBingPublish (day row) *)
definition ensure_day :: "'w bobing_env \<Rightarrow> string \<Rightarrow> string \<Rightarrow> string \<Rightarrow> gotime \<Rightarrow> (unit, 'w) action" where
  "ensure_day E openId stuNum nickName today =
     (let G = be_gorm E in
      andThen (ExistDaySubmissionByOpenId G openId today) (\<lambda>cnt.
        if cnt = 0
        then andThen (ExistRankByOpenId G openId) (\<lambda>cnt.
               andThen (if cnt = 0 then CreatRank G openId stuNum nickName 0 else ret ()) (\<lambda>_.
                 andThen (GetRankByOpenId G openId) (\<lambda>rank.
                   CreateDaySubmission G openId rank today)))
        else ret ()))"

text \<open>The variant of \<^verbatim>\<open>BoBingGetCount\<close> and \<^verbatim>\<open>BoBingRetransmission\<close>, which demand the rank.\<close>

(* src: app/boBing/service/boBing.go:442-465 BoBingSrv.BoBingRetransmission (day row) *)
definition ensure_day_ranked :: "'w bobing_env \<Rightarrow> string \<Rightarrow> gotime \<Rightarrow> (unit, 'w) action" where
  "ensure_day_ranked E openid today =
     (let G = be_gorm E in
      andThen (ExistDaySubmissionByOpenId G openid today) (\<lambda>cnt.
        if cnt = 0
        then andThen (ExistRankByOpenId G openid) (\<lambda>cnt.
               if cnt = 0 then fail msg_init
               else andThen (GetRankByOpenId G openid) (\<lambda>rank.
                      CreateDaySubmission G openid rank today))
        else ret ()))"

(* src: app/boBing/service/boBing.go:45-88 BoBingSrv.BoBingDayInit *)
definition BoBingDayInit :: "'w bobing_env \<Rightarrow> string \<Rightarrow> string \<Rightarrow> string \<Rightarrow> (unit, 'w) handler" where
  "BoBingDayInit E openId stuNum nickName w =
     orReturn (ensure_day E openId stuNum nickName (today_of E w)) (Some ()) (\<lambda>_. reply (Some ()) None) w"

(* src: app/boBing/service/boBing.go:90-107 BoBingSrv.BoBingKey *)
definition BoBingKey :: "'w bobing_env \<Rightarrow> string \<Rightarrow> (string, 'w) handler" where
  "BoBingKey E openid =
     orReturn (UnlinkKey E openid) (Some []) (\<lambda>_.
       orReturn (RandString E 32) (Some []) (\<lambda>key.
         orReturn (SaveKey E openid key) (Some []) (\<lambda>_.
           reply (Some key) None)))"

subsection \<open>Publishing a throw\<close>

text \<open>
  The two goroutines of \<^verbatim>\<open>BoBingPublish\<close>. Each call, each assignment of its results to the shared
  variables and each test of \<open>err\<close> is a step; the first goroutine is at one of these points, the second
  one before its call, between the call and the assignment to \<open>err\<close>, or done.
\<close>

definition zero_submission :: submission where
  "zero_submission = \<lparr> sb_ID = 0, sb_RankOpenId = [], sb_Date = 0, sb_Count = 0, sb_Condition = 0, sb_TuiWen = 0 \<rparr>"

datatype update_pc = UpdateCall | UpdateTest | CountCall | CountTest | BlackCall | BlackTest | UpdateEnd

datatype save_pc = SaveCall | SaveAssign "err option" | SaveEnd

record 'w publish_state =
  ps_update :: update_pc
  ps_save :: save_pc
  ps_err :: "err option"
  ps_submission :: submission
  ps_world :: 'w

definition err_of :: "err + 'a \<Rightarrow> err option" where
  "err_of r = (case r of Inl e \<Rightarrow> Some e | Inr _ \<Rightarrow> None)"

(* src: app/boBing/service/boBing.go:221-240 BoBingSrv.BoBingPublish (first goroutine) *)
definition update_step ::
  "'w bobing_env \<Rightarrow> publish_request \<Rightarrow> gotime \<Rightarrow> int \<Rightarrow> int \<Rightarrow> 'w publish_state \<Rightarrow> 'w publish_state" where
  "update_step E req today score cnt st =
     (case ps_update st of
        UpdateCall \<Rightarrow>
          (case UpdateRank (be_gorm E) req score cnt (ps_submission st) (ps_world st) of
             (r, w') \<Rightarrow> st\<lparr> ps_update := UpdateTest, ps_err := err_of r,
               ps_submission := (case r of Inl _ \<Rightarrow> zero_submission | Inr s \<Rightarrow> s), ps_world := w' \<rparr>)
      | UpdateTest \<Rightarrow> st\<lparr> ps_update := (if ps_err st \<noteq> None then UpdateEnd else CountCall) \<rparr>
      | CountCall \<Rightarrow>
          (case SaveDayCount E today (ps_submission st) (ps_world st) of
             (r, w') \<Rightarrow> st\<lparr> ps_update := CountTest, ps_err := err_of r, ps_world := w' \<rparr>)
      | CountTest \<Rightarrow> st\<lparr> ps_update := (if ps_err st = Some cheat_msg then BlackCall else UpdateEnd) \<rparr>
      | BlackCall \<Rightarrow>
          (case SaveBlacklist E (pr_OpenId req) (ps_world st) of
             (r, w') \<Rightarrow> st\<lparr> ps_update := BlackTest, ps_err := err_of r, ps_world := w' \<rparr>)
      | BlackTest \<Rightarrow>
          (if ps_err st \<noteq> None then st\<lparr> ps_update := UpdateEnd \<rparr>
           else st\<lparr> ps_update := UpdateEnd, ps_err := Some msg_banned \<rparr>)
      | UpdateEnd \<Rightarrow> st)"

(* src: app/boBing/service/boBing.go:241-248 BoBingSrv.BoBingPublish (second goroutine) *)
definition save_step ::
  "'w bobing_env \<Rightarrow> publish_request \<Rightarrow> int \<Rightarrow> string \<Rightarrow> 'w publish_state \<Rightarrow> 'w publish_state" where
  "save_step E req score types st =
     (case ps_save st of
        SaveCall \<Rightarrow>
          (case SaveRecord (be_gorm E) req score types (ps_world st) of
             (r, w') \<Rightarrow> st\<lparr> ps_save := SaveAssign (err_of r), ps_world := w' \<rparr>)
      | SaveAssign e \<Rightarrow> st\<lparr> ps_save := SaveEnd, ps_err := e \<rparr>
      | SaveEnd \<Rightarrow> st)"

text \<open>
  A schedule lists which goroutine takes the next step (\<open>True\<close> for the first). When it is used up, the
  goroutines run to their end one after the other: six and two steps are enough.
\<close>

(* src: app/boBing/service/boBing.go:219-249 BoBingSrv.BoBingPublish (goroutines) *)
definition run_goroutines ::
  "bool list \<Rightarrow> 'w bobing_env \<Rightarrow> publish_request \<Rightarrow> gotime \<Rightarrow> int \<Rightarrow> string \<Rightarrow> int \<Rightarrow> submission \<Rightarrow> 'w
   \<Rightarrow> err option \<times> 'w" where
  "run_goroutines sched E req today score types cnt s w =
     (let step = (\<lambda>b. if b then update_step E req today score cnt else save_step E req score types);
          st = fold step (sched @ replicate 6 True @ replicate 2 False)
            \<lparr> ps_update = UpdateCall, ps_save = SaveCall, ps_err = None, ps_submission = s, ps_world = w \<rparr>
      in (ps_err st, ps_world st))"

(* src: app/boBing/service/boBing.go:176-182 BoBingSrv.BoBingPublish (black list) *)
definition punish :: "'w bobing_env \<Rightarrow> string \<Rightarrow> err \<Rightarrow> (string, 'w) handler" where
  "punish E openId e w =
     (case SaveBlacklist E openId w of
        (Inl e', w') \<Rightarrow> ((None, Some (wrap_redis e' op_blacklist)), w')
      | (Inr _, w') \<Rightarrow> ((None, Some e), w'))"

text \<open>What follows the goroutines: the boards, the key for a rare throw and the award message.\<close>

(* src: app/boBing/service/boBing.go:254-303 BoBingSrv.BoBingPublish (awards) *)
definition publish_awards ::
  "'w bobing_env \<Rightarrow> publish_request \<Rightarrow> gotime \<Rightarrow> int \<Rightarrow> int \<Rightarrow> string \<Rightarrow> (string, 'w) handler" where
  "publish_awards E req now flag score types =
     orReturn (if flag \<ge> 10 \<and> flag \<le> 16 then SaveZhuangYuan E (pr_NickName req) types now else ret ()) (Some []) (\<lambda>_.
     orReturn (SaveToTalScore E (pr_NickName req) (pr_OpenId req) score) (Some []) (\<lambda>_.
     orReturn (SaveDayScore E (pr_NickName req) (pr_OpenId req) score) (Some []) (\<lambda>_.
       if flag = 1 then reply (Some []) (Some msg_tiao_hou)
       else orReturn
              (if flag \<ge> 4
               then andThen (RandString E 16) (\<lambda>key.
                      andThen (SaveKey E (pr_OpenId req) key) (\<lambda>_ w.
                        (case be_AesEncoding E (be_AcquiesceKey E) (be_SetKey E key w) of (c, w') \<Rightarrow> (Inr c, w'))))
               else ret []) (Some [])
              (\<lambda>ciphertext. reply (Some ciphertext)
                 (if flag = 16 then Some msg_plus_six
                  else if flag \<ge> 14 \<and> flag \<le> 15 then Some msg_plus_five
                  else if flag \<ge> 11 \<and> flag \<le> 13 then Some msg_plus_three
                  else if flag = 10 then Some msg_plus_two else None)))))"

(* src: app/boBing/service/boBing.go:200-252 BoBingSrv.BoBingPublish (recording the throw) *)
definition publish_throw ::
  "bool list \<Rightarrow> 'w bobing_env \<Rightarrow> publish_request \<Rightarrow> gotime \<Rightarrow> gotime \<Rightarrow> submission \<Rightarrow> (string, 'w) handler" where
  "publish_throw sched E req now today s w =
     (case Atoi (pr_Flag req) of
        Inl e \<Rightarrow> ((Some [], Some e), w)
      | Inr flag \<Rightarrow>
          if flag > 16 \<or> flag < 1 then punish E (pr_OpenId req) ErrBoBingInvalidFlag w
          else (case Transform (SetType flag NewBoBingMessageTransform) of
                  (score, types, cnt) \<Rightarrow>
                    (case run_goroutines sched E req today score types cnt s w of
                       (Some e, w') \<Rightarrow> ((Some [], Some e), w')
                     | (None, w') \<Rightarrow> publish_awards E req now flag score types w')))"

(* src: app/boBing/service/boBing.go:174-198 BoBingSrv.BoBingPublish (checks) *)
definition publish_checked ::
  "bool list \<Rightarrow> 'w bobing_env \<Rightarrow> publish_request \<Rightarrow> gotime \<Rightarrow> gotime \<Rightarrow> submission \<Rightarrow> (string, 'w) handler" where
  "publish_checked sched E req now today s w =
     (case ValidateParams E (snd (snd (be_civil E (be_now E w)))) (pr_OpenId req) (pr_Check req) of
        (valid, e, quaternions) \<Rightarrow>
          if \<not> valid then punish E (pr_OpenId req) ErrBoBingCheat w
          else if e \<noteq> None then ((Some [], e), w)
          else (case ExistQuaternion E quaternions w of
                  (Inl _, w') \<Rightarrow> punish E (pr_OpenId req) ErrBoBingCheat w'
                | (Inr _, w') \<Rightarrow>
                    orReturn (SaveQuaternion E quaternions) (Some [])
                      (\<lambda>_. publish_throw sched E req now today s) w'))"

(* src: app/boBing/service/boBing.go:109-303 BoBingSrv.BoBingPublish *)
definition BoBingPublish :: "bool list \<Rightarrow> 'w bobing_env \<Rightarrow> publish_request \<Rightarrow> (string, 'w) handler" where
  "BoBingPublish sched E req w =
     (let now = be_now E w; today = be_midnight E now; openId = pr_OpenId req in
      orReturn (ensure_day E openId (pr_StuNum req) (pr_NickName req) today) (Some []) (\<lambda>_.
      orReturn (GetDaySubmissionByOpenId (be_gorm E) openId today) (Some []) (\<lambda>s.
        if sb_Count s \<ge> sb_Condition s + 10 then reply (Some []) None
        else orReturn (GetKey E openId) (Some []) (\<lambda>key.
             orReturn (UnlinkKey E openId) (Some []) (\<lambda>_ w.
             orReturn (be_AesDecoding E (pr_Flag req)) (Some []) (\<lambda>flag.
             orReturn (be_AesDecoding E (pr_Check req)) (Some []) (\<lambda>check.
               publish_checked sched E (req\<lparr> pr_Flag := flag, pr_Check := check \<rparr>) now today s))
             (be_SetKey E key w))))) w)"

subsection \<open>Queries\<close>

record rank_reply =
  rr_board :: "(string \<times> int) list"
  rr_Rank :: int
  rr_Score :: int
  rr_NickName :: string

(* src: app/boBing/service/boBing.go:305-332 BoBingSrv.BoBingToTalTen *)
definition BoBingToTalTen :: "'w bobing_env \<Rightarrow> metadata \<Rightarrow> (rank_reply, 'w) handler" where
  "BoBingToTalTen E mdata =
     (case mdata of
        None \<Rightarrow> reply None (Some msg_empty)
      | Some md \<Rightarrow>
          (let openid = md_value md ''open_id''; nickName = be_base64 E (md_value md ''nick_name'') in
           orReturn (GetTop E) (Some \<lparr> rr_board = [], rr_Rank = 0, rr_Score = 0, rr_NickName = [] \<rparr>) (\<lambda>total.
           orReturn (GetMyToTalRank E nickName openid) (Some \<lparr> rr_board = [], rr_Rank = 0, rr_Score = 0, rr_NickName = [] \<rparr>)
             (\<lambda>(rank, score).
                reply (Some \<lparr> rr_board = total, rr_Rank = rank + 1, rr_Score = score, rr_NickName = nickName \<rparr>) None))))"

(* src: app/boBing/service/boBing.go:334-362 BoBingSrv.BoBingDayRank *)
definition BoBingDayRank :: "'w bobing_env \<Rightarrow> metadata \<Rightarrow> (rank_reply, 'w) handler" where
  "BoBingDayRank E mdata =
     (case mdata of
        None \<Rightarrow> reply None (Some msg_empty)
      | Some md \<Rightarrow>
          (let openid = md_value md ''open_id''; nickName = be_base64 E (md_value md ''nick_name'') in
           orReturn (GetMyDayRank E nickName openid) (Some \<lparr> rr_board = [], rr_Rank = 0, rr_Score = 0, rr_NickName = [] \<rparr>)
             (\<lambda>(rank, score).
                let mine = \<lparr> rr_board = [], rr_Rank = rank + 1, rr_Score = score, rr_NickName = nickName \<rparr> in
                orReturn (GetDayTop E) (Some mine) (\<lambda>top. reply (Some (mine\<lparr> rr_board := top \<rparr>)) None))))"

(* src: app/boBing/service/boBing.go:364-373 BoBingSrv.BoBingTianXuan *)
definition BoBingTianXuan :: "'w bobing_env \<Rightarrow> (zhuang_yuan list, 'w) handler" where
  "BoBingTianXuan E = orReturn (GetTianXuan E) (Some []) (\<lambda>z. reply (Some z) None)"

text \<open>The throws left, from Redis or, when Redis has no count, from the table.\<close>

(* src: app/boBing/service/boBing.go:375-429 BoBingSrv.BoBingGetCount *)
definition BoBingGetCount :: "'w bobing_env \<Rightarrow> metadata \<Rightarrow> (int, 'w) handler" where
  "BoBingGetCount E mdata w =
     (case mdata of
        None \<Rightarrow> reply None (Some msg_empty) w
      | Some md \<Rightarrow>
          (let openid = md_value md ''open_id''; today = today_of E w in
           case GetDayCount E today openid w of
             (Inr n, w') \<Rightarrow> ((Some n, None), w')
           | (Inl e, w') \<Rightarrow>
               if e \<noteq> redis_Nil then ((Some 0, Some e), w')
               else (case ensure_day_ranked E openid today w' of
                       (Inl e, w1) \<Rightarrow> ((if e = msg_init then None else Some 0, Some e), w1)
                     | (Inr _, w1) \<Rightarrow>
                         orReturn (GetDaySubmissionByOpenId (be_gorm E) openid today) (Some 0) (\<lambda>s.
                         orReturn (SaveDayCount E today s) (Some 0) (\<lambda>_.
                           reply (Some (sb_Condition s + 10 - sb_Count s)) None)) w1)))"

(* src: app/boBing/service/boBing.go:481-493 BoBingSrv.BoBingRetransmission (count) *)
definition save_article_count :: "'w bobing_env \<Rightarrow> string \<Rightarrow> gotime \<Rightarrow> submission \<Rightarrow> (unit, 'w) handler" where
  "save_article_count E openid today s w =
     (case SaveDayCount E today s w of
        (Inr _, w') \<Rightarrow> ((Some (), None), w')
      | (Inl e, w') \<Rightarrow>
          if e = cheat_msg
          then (case SaveBlacklist E openid w' of (_, w'') \<Rightarrow> ((None, Some msg_banned), w''))
          else ((Some (), Some e), w'))"

(* src: app/boBing/service/boBing.go:431-494 BoBingSrv.BoBingRetransmission *)
definition BoBingRetransmission :: "'w bobing_env \<Rightarrow> metadata \<Rightarrow> (unit, 'w) handler" where
  "BoBingRetransmission E mdata w =
     (case mdata of
        None \<Rightarrow> reply None (Some msg_empty) w
      | Some md \<Rightarrow>
          (let openid = md_value md ''open_id''; today = today_of E w in
           case ensure_day_ranked E openid today w of
             (Inl e, w1) \<Rightarrow> ((if e = msg_init then None else Some (), Some e), w1)
           | (Inr _, w1) \<Rightarrow>
               orReturn (GetDaySubmissionByOpenId (be_gorm E) openid today) (Some ()) (\<lambda>s.
                 if sb_TuiWen s > 0
                 then (let s' = s\<lparr> sb_TuiWen := sb_TuiWen s - 1, sb_Condition := sb_Condition s + 1 \<rparr> in
                       orReturn (UpdateSubmission (be_gorm E) s') (Some ()) (\<lambda>_. save_article_count E openid today s'))
                 else reply None (Some ErrBoBingNoChance)) w1))"

(* src: app/boBing/service/boBing.go:496-519 BoBingSrv.BoBingBroadcastCheck *)
definition BoBingBroadcastCheck :: "'w bobing_env \<Rightarrow> string \<Rightarrow> string \<Rightarrow> (unit, 'w) handler" where
  "BoBingBroadcastCheck E openId ciphertext =
     orReturn (GetKey E openId) (Some ()) (\<lambda>key.
     orReturn (UnlinkKey E openId) (Some ()) (\<lambda>_ w.
     orReturn (be_AesDecoding E ciphertext) (Some ()) (\<lambda>reqKey.
       if reqKey \<noteq> be_AcquiesceKey E then reply None (Some msg_mismatch) else reply (Some ()) None)
     (be_SetKey E key w)))"

(* src: app/boBing/service/boBing.go:521-538 BoBingSrv.BoBingRecord *)
definition BoBingRecord :: "'w bobing_env \<Rightarrow> metadata \<Rightarrow> (string \<rightharpoonup> int, 'w) handler" where
  "BoBingRecord E mdata =
     (case mdata of
        None \<Rightarrow> reply None (Some msg_empty)
      | Some md \<Rightarrow>
          orReturn (GetRecordByOpenId (be_gorm E) (md_value md ''open_id'')) (Some Map.empty) (\<lambda>records.
            reply (Some (fold (\<lambda>v m. m(tr_Types v \<mapsto> (case m (tr_Types v) of None \<Rightarrow> 0 | Some n \<Rightarrow> n) + 1))
                           records Map.empty)) None))"

text \<open>The error of \<^verbatim>\<open>GetMyDayRank\<close> is overwritten before it is looked at; its score is then 0.\<close>

(* src: app/boBing/service/boBing.go:540-564 BoBingSrv.BoBingBlacklist *)
definition BoBingBlacklist :: "'w bobing_env \<Rightarrow> metadata \<Rightarrow> (unit, 'w) handler" where
  "BoBingBlacklist E mdata w =
     (case mdata of
        None \<Rightarrow> reply None (Some msg_empty) w
      | Some md \<Rightarrow>
          (let openid = md_value md ''open_id''; nickName = be_base64 E (md_value md ''nick_name'') in
           case GetMyDayRank E nickName openid w of
             (r, w1) \<Rightarrow>
               if (case r of Inl _ \<Rightarrow> 0 | Inr (_, score) \<Rightarrow> score) \<ge> 100
               then (case SaveBlacklist E openid w1 of (_, w2) \<Rightarrow> ((None, Some msg_banned), w2))
               else orReturn (ExistBlacklist E openid) (Some ()) (\<lambda>_. reply (Some ()) None) w1))"

(* src: app/boBing/service/boBing.go:566-575 BoBingSrv.BoBingGetNumber *)
definition BoBingGetNumber :: "'w bobing_env \<Rightarrow> (int, 'w) handler" where
  "BoBingGetNumber E = orReturn (CountRank (be_gorm E)) (Some 0) (\<lambda>cnt. reply (Some cnt) None)"

end
