(* ===== verification/Bobing_Throws.thy ===== *)
theory Bobing_Throws
  imports Bobing_Service
begin

text \<open>
  Properties of the dice game service: the counts of throws stay within their bounds whatever
  requests arrive and whatever statement fails; dice positions that were accepted once are refused
  afterwards; and the race between the goroutines of \<^verbatim>\<open>BoBingPublish\<close>.
\<close>

section \<open>Vocabulary\<close>

text \<open>
  The tables are sound: at most one row per player and day, and in each row the throws used are at
  most ten more than the extra throws granted, with up to three articles left to read.
\<close>

definition sub_ok :: "submission \<Rightarrow> bool" where
  "sub_ok s \<longleftrightarrow> 0 \<le> sb_Count s \<and> sb_Count s \<le> sb_Condition s + 10 \<and> 0 \<le> sb_Condition s
     \<and> 0 \<le> sb_TuiWen s \<and> sb_TuiWen s \<le> 3"

definition sub_key :: "submission \<Rightarrow> string \<times> gotime" where
  "sub_key s = (sb_RankOpenId s, sb_Date s)"

definition tables_ok :: "bobing_tables \<Rightarrow> bool" where
  "tables_ok t \<longleftrightarrow> distinct (map sub_key (tab_submissions t)) \<and> (\<forall>s \<in> set (tab_submissions t). sub_ok s)"

text \<open>Redis, the encryption object and the random source do not touch what \<open>view\<close> shows.\<close>

definition env_silent :: "'w bobing_env \<Rightarrow> ('w \<Rightarrow> 'v) \<Rightarrow> bool" where
  "env_silent E view \<longleftrightarrow>
     (let R = be_rdb E in
      (\<forall>k. unchanged view (r_Get R k)) \<and> (\<forall>k v t. unchanged view (r_Set R k v t)) \<and> (\<forall>k. unchanged view (r_Unlink R k))
    \<and> (\<forall>k s m. unchanged view (r_ZIncrBy R k s m)) \<and> (\<forall>k a b. unchanged view (r_ZRevRangeWithScores R k a b))
    \<and> (\<forall>k m. unchanged view (r_ZRevRank R k m)) \<and> (\<forall>k m. unchanged view (r_ZScore R k m))
    \<and> (\<forall>k m. unchanged view (r_ZRem R k m)) \<and> (\<forall>k s m. unchanged view (r_ZAdd R k s m))
    \<and> (\<forall>k ms. unchanged view (r_SAdd R k ms)) \<and> (\<forall>k m. unchanged view (r_SIsMember R k m))
    \<and> (\<forall>n. unchanged view (be_random E n)) \<and> (\<forall>k w. view (be_SetKey E k w) = view w)
    \<and> (\<forall>s. unchanged view (be_AesDecoding E s)) \<and> (\<forall>s. unchanged view (be_AesEncoding E s)))"

text \<open>The requests of the service that can change its tables.\<close>

datatype game_request =
    DayInit string string string
  | Publish "bool list" publish_request
  | GetCount metadata
  | Retransmission metadata

fun serve :: "'w bobing_env \<Rightarrow> game_request \<Rightarrow> 'w \<Rightarrow> 'w" where
  "serve E (DayInit i s n) w = snd (BoBingDayInit E i s n w)"
| "serve E (Publish sched req) w = snd (BoBingPublish sched E req w)"
| "serve E (GetCount md) w = snd (BoBingGetCount E md w)"
| "serve E (Retransmission md) w = snd (BoBingRetransmission E md w)"

section \<open>Silent actions\<close>

lemma lift_err_unchanged [action_rules]: "unchanged view (lift_err r)"
  by (simp add: lift_err_def unchanged_def)

lemma silent_basic:
  assumes "env_silent E view"
  shows "unchanged view (r_Get (be_rdb E) k)" "unchanged view (r_Set (be_rdb E) k v t)"
    "unchanged view (r_Unlink (be_rdb E) k)" "unchanged view (r_ZIncrBy (be_rdb E) k s m)"
    "unchanged view (r_ZScore (be_rdb E) k m)" "unchanged view (r_ZRem (be_rdb E) k m)"
    "unchanged view (r_ZAdd (be_rdb E) k s m)" "unchanged view (r_SAdd (be_rdb E) k ms)"
    "unchanged view (r_SIsMember (be_rdb E) k m)" "unchanged view (be_random E n)"
    "unchanged view (be_AesDecoding E c)" "unchanged view (be_AesEncoding E c)" "view (be_SetKey E k w) = view w"
  using assms by (simp_all add: env_silent_def Let_def)

lemma silent_cache:
  assumes "env_silent E view"
  shows "unchanged view (GetKey E k)" "unchanged view (SaveKey E k v)" "unchanged view (UnlinkKey E k)"
    "unchanged view (SaveZhuangYuan E nn ty t)" "unchanged view (SaveToTalScore E nn i sc)"
    "unchanged view (SaveBlacklist E i)" "unchanged view (SaveQuaternion E q)"
    "unchanged view (SaveDayCount E today s)" "unchanged view (GetDayCount E today i)"
    "unchanged view (RandString E n)"
  unfolding GetKey_def SaveKey_def UnlinkKey_def SaveZhuangYuan_def SaveToTalScore_def SaveBlacklist_def
    SaveQuaternion_def SaveDayCount_def GetDayCount_def RandString_def Let_def
  by (intro action_rules silent_basic [OF assms])+

lemma silent_SaveDayScore: "env_silent E view \<Longrightarrow> unchanged view (SaveDayScore E nn i sc)"
  unfolding SaveDayScore_def
  using silent_basic(4) [of E view, THEN unchanged_run_err]
  by (intro action_rules) (simp add: unchanged_def)

lemma silent_ExistQuaternion: "env_silent E view \<Longrightarrow> unchanged view (ExistQuaternion E qs)"
proof (induction qs)
  case (Cons q qs)
  then have "unchanged view (r_SIsMember (be_rdb E) ''quaternions'' q)" and "unchanged view (ExistQuaternion E qs)"
    by (simp_all add: silent_basic)
  note silent = this [THEN unchangedD]
  show ?case
    unfolding unchanged_def
  proof
    fix w
    obtain b w1 where q: "r_SIsMember (be_rdb E) ''quaternions'' q w = (b, w1)" by fastforce
    obtain r w2 where qs: "ExistQuaternion E qs w1 = (r, w2)" by fastforce
    from q qs silent(1) [OF q] silent(2) [OF qs] show "view (snd (ExistQuaternion E (q # qs) w)) = view w"
      by simp
  qed
qed (simp add: unchanged_def)

lemma unchanged_orReturn [action_rules]:
  "unchanged view m \<Longrightarrow> (\<And>x. unchanged view (k x)) \<Longrightarrow> unchanged view (orReturn m r k)"
  by (auto simp: unchanged_def orReturn_def split: sum.split prod.split) (metis snd_conv)+

lemma unchanged_reply [action_rules]: "unchanged view (reply r e)"
  by (simp add: unchanged_def reply_def)

lemma silent_punish: "env_silent E view \<Longrightarrow> unchanged view (punish E i e)"
  using silent_cache(6) [of E view i] by (auto simp: unchanged_def punish_def split: sum.split prod.split) (metis snd_conv)+

lemma silent_awards:
  assumes "env_silent E view"
  shows "unchanged view (publish_awards E req now flag score types)"
proof -
  have key: "unchanged view (\<lambda>w. case be_AesEncoding E (be_AcquiesceKey E) (be_SetKey E k w) of (c, w') \<Rightarrow> (Inr c, w'))" for k
    using silent_basic(12,13) [OF assms] by (auto simp: unchanged_def split: prod.split) (metis snd_conv)
  show ?thesis
    unfolding publish_awards_def
    by (intro action_rules silent_cache [OF assms] silent_SaveDayScore [OF assms] key)
qed

section \<open>The tables stay sound\<close>

lemma count_throw_ok:
  "sub_ok s \<Longrightarrow> sb_Count s < sb_Condition s + 10 \<Longrightarrow> 0 \<le> cnt \<Longrightarrow> sub_ok (count_throw f cnt s)"
  by (auto simp: sub_ok_def count_throw_def Let_def)

lemma set_counts_ok:
  assumes "tables_ok t" and "sub_ok s"
  shows "tables_ok (t\<lparr> tab_ranks := rs, tab_submissions := set_counts i (sb_Count s) (sb_Condition s) (tab_submissions t) \<rparr>)"
proof -
  let ?ss = "set_counts i (sb_Count s) (sb_Condition s) (tab_submissions t)"
  have keys: "map sub_key ?ss = map sub_key (tab_submissions t)"
    by (auto simp: set_counts_def sub_key_def)
  have "sub_ok x" if "x \<in> set ?ss" for x
    using that assms by (auto simp: set_counts_def tables_ok_def sub_ok_def)
  with assms(1) show ?thesis by (simp add: tables_ok_def keys)
qed

lemma append_day_ok:
  assumes "tables_ok t" and "\<forall>s \<in> set (tab_submissions t). \<not> sub_matches i d s"
  shows "tables_ok (t\<lparr> tab_submissions := tab_submissions t
      @ [\<lparr> sb_ID = n, sb_RankOpenId = i, sb_Date = d, sb_Count = 0, sb_Condition = 0, sb_TuiWen = 3 \<rparr>] \<rparr>)"
  using assms by (auto simp: tables_ok_def sub_ok_def sub_key_def sub_matches_def)

lemma read_article_ok:
  assumes t: "tables_ok t" and f: "find (sub_matches i d) (tab_submissions t) = Some s" and "0 < sb_TuiWen s"
    and s': "s' = s\<lparr> sb_TuiWen := sb_TuiWen s - 1, sb_Condition := sb_Condition s + 1 \<rparr>"
  shows "tables_ok (t\<lparr> tab_submissions := map (\<lambda>x. if sub_matches (sb_RankOpenId s') (sb_Date s') x
            then x\<lparr> sb_Condition := sb_Condition s', sb_TuiWen := sb_TuiWen s' \<rparr> else x) (tab_submissions t) \<rparr>)"
proof -
  let ?f = "\<lambda>x. if sub_matches (sb_RankOpenId s') (sb_Date s') x
            then x\<lparr> sb_Condition := sb_Condition s', sb_TuiWen := sb_TuiWen s' \<rparr> else x"
  have s: "s \<in> set (tab_submissions t)" using find_SomeD [OF f] by blast
  have only: "x = s" if "x \<in> set (tab_submissions t)" "sub_matches (sb_RankOpenId s') (sb_Date s') x" for x
  proof -
    have inj: "inj_on sub_key (set (tab_submissions t))" using t by (simp add: tables_ok_def distinct_map)
    have "sub_key x = sub_key s" using that(2) by (simp add: s' sub_matches_def sub_key_def)
    then show ?thesis by (rule inj_onD [OF inj _ that(1) s])
  qed
  have rows: "sub_ok (?f x)" if "x \<in> set (tab_submissions t)" for x
  proof (cases "sub_matches (sb_RankOpenId s') (sb_Date s') x")
    case True
    have "sub_ok s" using t s by (simp add: tables_ok_def)
    moreover have "x = s" using only [OF that True] .
    ultimately show ?thesis using True assms(3) by (simp add: sub_ok_def s')
  next
    case False
    then show ?thesis using that t by (simp add: tables_ok_def)
  qed
  have keys: "sub_key \<circ> ?f = sub_key" by (rule ext) (simp add: sub_key_def)
  from rows have "sub_ok y" if "y \<in> set (map ?f (tab_submissions t))" for y
    using that by (auto simp only: set_map image_iff)
  then show ?thesis using t by (simp add: tables_ok_def keys)
qed

text \<open>A query keeps any property of the tables and adds what its answer says.\<close>

lemma ensures_reads:
  assumes "reads obs snap m P" and "\<And>w. J w \<Longrightarrow> I (obs w)" and "\<And>w v. J w \<Longrightarrow> obs v = obs w \<Longrightarrow> J v"
  shows "ensures J m (\<lambda>x w. P (obs w) x \<and> J w) (\<lambda>w. I (obs w))"
  unfolding ensures_def
proof (intro allI impI)
  fix w r w' assume "J w" and m: "m w = (r, w')"
  then have "obs w' = obs w" using readsD(1) [OF assms(1)] by blast
  with \<open>J w\<close> m assms(2,3) readsD(2) [OF assms(1)] show "case r of Inl e \<Rightarrow> I (obs w') | Inr x \<Rightarrow> P (obs w') x \<and> J w'"
    by (auto split: sum.split)
qed

lemma CreateDay_ensures:
  assumes "gorm_ok G obs snap"
  shows "ensures (\<lambda>w. tables_ok (obs w) \<and> (\<forall>s \<in> set (tab_submissions (obs w)). \<not> sub_matches i d s))
           (CreateDaySubmission G i r d) (\<lambda>_ w. tables_ok (obs w)) (\<lambda>w. tables_ok (obs w))"
  unfolding ensures_def
proof (intro allI impI)
  fix w res w'
  assume pre: "tables_ok (obs w) \<and> (\<forall>s \<in> set (tab_submissions (obs w)). \<not> sub_matches i d s)"
    and run: "CreateDaySubmission G i r d w = (res, w')"
  have "tables_ok (obs w')"
    using CreateDaySubmission_tables [OF assms run] append_day_ok [of "obs w" i d] pre by auto
  then show "case res of Inl e \<Rightarrow> tables_ok (obs w') | Inr x \<Rightarrow> tables_ok (obs w')" by (simp split: sum.split)
qed

lemma CreatRank_ensures:
  assumes "gorm_ok G obs snap"
  shows "ensures (\<lambda>w. tables_ok (obs w) \<and> (\<forall>s \<in> set (tab_submissions (obs w)). \<not> sub_matches i d s))
           (CreatRank G i st nn sc) (\<lambda>_ w. tables_ok (obs w) \<and> (\<forall>s \<in> set (tab_submissions (obs w)). \<not> sub_matches i d s))
           (\<lambda>w. tables_ok (obs w))"
  unfolding ensures_def
proof (intro allI impI)
  fix w res w'
  assume pre: "tables_ok (obs w) \<and> (\<forall>s \<in> set (tab_submissions (obs w)). \<not> sub_matches i d s)"
    and run: "CreatRank G i st nn sc w = (res, w')"
  then show "case res of Inl e \<Rightarrow> tables_ok (obs w')
      | Inr x \<Rightarrow> tables_ok (obs w') \<and> (\<forall>s \<in> set (tab_submissions (obs w')). \<not> sub_matches i d s)"
    using CreatRank_tables [OF assms run] by (auto simp: tables_ok_def split: sum.split)
qed

lemma none_matching: "0 = int (length (filter P xs)) \<Longrightarrow> \<forall>x \<in> set xs. \<not> P x"
  by (simp add: filter_empty_conv)

lemma exist_day_ensures:
  assumes "gorm_ok G obs snap"
  shows "ensures (\<lambda>w. tables_ok (obs w)) (ExistDaySubmissionByOpenId G i d)
     (\<lambda>n w. tables_ok (obs w) \<and> (n = 0 \<longrightarrow> (\<forall>s \<in> set (tab_submissions (obs w)). \<not> sub_matches i d s)))
     (\<lambda>w. tables_ok (obs w))"
  by (rule ensures_weaken [OF ensures_reads [OF gorm_reads(1) [OF assms], where J = "\<lambda>w. tables_ok (obs w)" and I = tables_ok]])
     (simp_all add: filter_empty_conv)

lemma fresh_day_read:
  assumes "reads obs snap m P"
  shows "ensures (\<lambda>w. tables_ok (obs w) \<and> (\<forall>s \<in> set (tab_submissions (obs w)). \<not> sub_matches i d s)) m
     (\<lambda>_ w. tables_ok (obs w) \<and> (\<forall>s \<in> set (tab_submissions (obs w)). \<not> sub_matches i d s)) (\<lambda>w. tables_ok (obs w))"
  by (rule ensures_weaken [OF ensures_reads [OF assms, where I = tables_ok and
        J = "\<lambda>w. tables_ok (obs w) \<and> (\<forall>s \<in> set (tab_submissions (obs w)). \<not> sub_matches i d s)"]]) auto

lemma ensure_day_ok:
  assumes "gorm_ok (be_gorm E) obs snap"
  shows "ensures (\<lambda>w. tables_ok (obs w)) (ensure_day E i st nn d) (\<lambda>_ w. tables_ok (obs w)) (\<lambda>w. tables_ok (obs w))"
proof -
  let ?F = "\<lambda>w. tables_ok (obs w) \<and> (\<forall>s \<in> set (tab_submissions (obs w)). \<not> sub_matches i d s)"
  note G = assms
  have create: "ensures ?F (andThen (ExistRankByOpenId (be_gorm E) i) (\<lambda>cnt.
               andThen (if cnt = 0 then CreatRank (be_gorm E) i st nn 0 else ret ()) (\<lambda>_.
                 andThen (GetRankByOpenId (be_gorm E) i) (\<lambda>rank. CreateDaySubmission (be_gorm E) i rank d))))
      (\<lambda>_ w. tables_ok (obs w)) (\<lambda>w. tables_ok (obs w))"
    by (rule ensures_andThen [OF fresh_day_read [OF gorm_reads(3) [OF G]]],
        rule ensures_andThen [where R = "\<lambda>_. ?F"],
        rule ensures_if [OF CreatRank_ensures [OF G] ensures_ret], assumption,
        rule ensures_andThen [OF fresh_day_read [OF gorm_reads(4) [OF G]]], rule CreateDay_ensures [OF G])
  show ?thesis
    unfolding ensure_day_def Let_def
  proof (rule ensures_andThen [OF exist_day_ensures [OF G]], rule ensures_if)
    fix cnt :: int
    show "ensures (\<lambda>w. tables_ok (obs w) \<and> (cnt = 0 \<longrightarrow> (\<forall>s \<in> set (tab_submissions (obs w)). \<not> sub_matches i d s)))
        (andThen (ExistRankByOpenId (be_gorm E) i) (\<lambda>cnt.
               andThen (if cnt = 0 then CreatRank (be_gorm E) i st nn 0 else ret ()) (\<lambda>_.
                 andThen (GetRankByOpenId (be_gorm E) i) (\<lambda>rank. CreateDaySubmission (be_gorm E) i rank d))))
      (\<lambda>_ w. tables_ok (obs w)) (\<lambda>w. tables_ok (obs w))" if "cnt = 0"
      using that by (intro ensures_weaken [OF create]) auto
  qed (simp add: ensures_ret)
qed

lemma ensure_day_ranked_ok:
  assumes "gorm_ok (be_gorm E) obs snap"
  shows "ensures (\<lambda>w. tables_ok (obs w)) (ensure_day_ranked E i d) (\<lambda>_ w. tables_ok (obs w)) (\<lambda>w. tables_ok (obs w))"
proof -
  let ?F = "\<lambda>w. tables_ok (obs w) \<and> (\<forall>s \<in> set (tab_submissions (obs w)). \<not> sub_matches i d s)"
  note G = assms
  have create: "ensures ?F (andThen (ExistRankByOpenId (be_gorm E) i) (\<lambda>cnt.
               if cnt = 0 then fail msg_init
               else andThen (GetRankByOpenId (be_gorm E) i) (\<lambda>rank. CreateDaySubmission (be_gorm E) i rank d)))
      (\<lambda>_ w. tables_ok (obs w)) (\<lambda>w. tables_ok (obs w))"
    by (rule ensures_andThen [OF fresh_day_read [OF gorm_reads(3) [OF G]]],
        rule ensures_if [OF ensures_fail], simp,
        rule ensures_andThen [OF fresh_day_read [OF gorm_reads(4) [OF G]]], rule CreateDay_ensures [OF G])
  show ?thesis
    unfolding ensure_day_ranked_def Let_def
  proof (rule ensures_andThen [OF exist_day_ensures [OF G]], rule ensures_if)
    fix cnt :: int
    show "ensures (\<lambda>w. tables_ok (obs w) \<and> (cnt = 0 \<longrightarrow> (\<forall>s \<in> set (tab_submissions (obs w)). \<not> sub_matches i d s)))
        (andThen (ExistRankByOpenId (be_gorm E) i) (\<lambda>cnt.
               if cnt = 0 then fail msg_init
               else andThen (GetRankByOpenId (be_gorm E) i) (\<lambda>rank. CreateDaySubmission (be_gorm E) i rank d)))
      (\<lambda>_ w. tables_ok (obs w)) (\<lambda>w. tables_ok (obs w))" if "cnt = 0"
      using that by (intro ensures_weaken [OF create]) auto
  qed (simp add: ensures_ret)
qed

section \<open>The goroutines of a throw\<close>

text \<open>
  Whatever the schedule, the tables stay sound; the shared submission is read by \<^verbatim>\<open>UpdateRank\<close> only, before
  anything is assigned to it.
\<close>

definition throw_inv :: "('w \<Rightarrow> bobing_tables) \<Rightarrow> 'w publish_state \<Rightarrow> bool" where
  "throw_inv obs st \<longleftrightarrow> tables_ok (obs (ps_world st))
     \<and> (ps_update st = UpdateCall \<longrightarrow>
          sub_ok (ps_submission st) \<and> sb_Count (ps_submission st) < sb_Condition (ps_submission st) + 10)"

lemma count_throw_ID: "sb_ID (count_throw f cnt s) = sb_ID s"
  by (simp add: count_throw_def Let_def)

lemma UpdateRank_ok:
  assumes "gorm_ok G obs snap" and "UpdateRank G req score cnt s w = (r, w')" and "tables_ok (obs w)"
    and "sub_ok s" and "sb_Count s < sb_Condition s + 10" and "0 \<le> cnt"
  shows "tables_ok (obs w')"
  using UpdateRank_tables [OF assms(1,2)] assms(3)
    set_counts_ok [OF assms(3) count_throw_ok [OF assms(4-6), of "pr_Flag req"]]
  by (cases r) simp_all

lemma update_step_ok:
  assumes "gorm_ok (be_gorm E) obs snap" and "env_silent E obs" and "0 \<le> cnt" and "throw_inv obs st"
  shows "throw_inv obs (update_step E req today score cnt st)"
proof (cases "ps_update st")
  case UpdateCall
  obtain r w' where run: "UpdateRank (be_gorm E) req score cnt (ps_submission st) (ps_world st) = (r, w')"
    by fastforce
  have "tables_ok (obs w')"
    using assms(3,4) UpdateCall by (intro UpdateRank_ok [OF assms(1) run]) (simp_all add: throw_inv_def)
  then show ?thesis using UpdateCall run by (simp add: update_step_def throw_inv_def)
next
  case CountCall
  obtain r w' where run: "SaveDayCount E today (ps_submission st) (ps_world st) = (r, w')" by fastforce
  then have "obs w' = obs (ps_world st)" by (rule unchangedD [OF silent_cache(8) [OF assms(2)]])
  then show ?thesis using CountCall run assms(4) by (simp add: update_step_def throw_inv_def)
next
  case BlackCall
  obtain r w' where run: "SaveBlacklist E (pr_OpenId req) (ps_world st) = (r, w')" by fastforce
  then have "obs w' = obs (ps_world st)" by (rule unchangedD [OF silent_cache(6) [OF assms(2)]])
  then show ?thesis using BlackCall run assms(4) by (simp add: update_step_def throw_inv_def)
qed (use assms(4) in \<open>simp_all add: update_step_def throw_inv_def\<close>)

lemma save_step_ok:
  assumes "gorm_ok (be_gorm E) obs snap" and "throw_inv obs st"
  shows "throw_inv obs (save_step E req score types st)"
proof (cases "ps_save st")
  case SaveCall
  obtain r w' where run: "SaveRecord (be_gorm E) req score types (ps_world st) = (r, w')" by fastforce
  have "tab_submissions (obs w') = tab_submissions (obs (ps_world st))"
    using SaveRecord_tables [OF assms(1) run] by simp
  then show ?thesis using SaveCall run assms(2) by (simp add: save_step_def throw_inv_def tables_ok_def)
qed (use assms(2) in \<open>simp_all add: save_step_def throw_inv_def\<close>)

lemma run_goroutines_ok:
  assumes "gorm_ok (be_gorm E) obs snap" and "env_silent E obs" and "0 \<le> cnt"
    and "tables_ok (obs w)" and "sub_ok s" and "sb_Count s < sb_Condition s + 10"
  shows "tables_ok (obs (snd (run_goroutines sched E req today score types cnt s w)))"
proof -
  define step where "step = (\<lambda>b. if b then update_step E req today score cnt else save_step E req score types)"
  have step: "throw_inv obs (step b st)" if "throw_inv obs st" for b st
    using update_step_ok [OF assms(1-3) that] save_step_ok [OF assms(1) that] by (simp add: step_def)
  define st0 where "st0 = \<lparr> ps_update = UpdateCall, ps_save = SaveCall, ps_err = None, ps_submission = s, ps_world = w \<rparr>"
  have "throw_inv obs (fold step bs st)" if "throw_inv obs st" for bs st
    using that by (induction bs arbitrary: st) (simp_all add: step)
  moreover have "throw_inv obs st0"
    using assms(4-6) by (simp add: throw_inv_def st0_def)
  ultimately have "throw_inv obs (fold step (sched @ replicate 6 True @ replicate 2 False) st0)" .
  then show ?thesis
    unfolding run_goroutines_def Let_def step_def [symmetric] st0_def [symmetric] throw_inv_def snd_conv by blast
qed

section \<open>The requests\<close>

text \<open>Today's row, once read, satisfies its bounds.\<close>


lemma read_day_ensures:
  assumes "gorm_ok G obs snap"
  shows "ensures (\<lambda>w. tables_ok (obs w)) (GetDaySubmissionByOpenId G i d)
     (\<lambda>s w. (sub_ok s \<and> find (sub_matches i d) (tab_submissions (obs w)) = Some s) \<and> tables_ok (obs w))
     (\<lambda>w. tables_ok (obs w))"
proof (rule ensures_weaken [OF ensures_reads [OF gorm_reads(2) [OF assms],
        where J = "\<lambda>w. tables_ok (obs w)" and I = tables_ok]])
  fix s w assume r: "find (sub_matches i d) (tab_submissions (obs w)) = Some s \<and> tables_ok (obs w)"
  then have "s \<in> set (tab_submissions (obs w))" using find_SomeD [of _ "tab_submissions (obs w)" s] by blast
  with r show "(sub_ok s \<and> find (sub_matches i d) (tab_submissions (obs w)) = Some s) \<and> tables_ok (obs w)"
    by (simp add: tables_ok_def)
qed auto

lemma Transform_count: "snd (snd (Transform b)) \<ge> 0"
  by (simp add: Transform_def)

lemma publish_throw_ok:
  assumes G: "gorm_ok (be_gorm E) obs snap" and S: "env_silent E obs"
    and s: "sub_ok s" "sb_Count s < sb_Condition s + 10"
  shows "leads (\<lambda>w. tables_ok (obs w)) (publish_throw sched E req now today s) (\<lambda>w. tables_ok (obs w))"
  unfolding leads_def
proof (intro allI impI)
  fix w assume t: "tables_ok (obs w)"
  have punish: "obs (snd (punish E i e w)) = obs w" for i e
    using silent_punish [OF S] by (simp add: unchanged_def)
  show "tables_ok (obs (snd (publish_throw sched E req now today s w)))"
  proof (cases "Atoi (pr_Flag req)")
    case (Inl e)
    then show ?thesis using t by (simp add: publish_throw_def)
  next
    case (Inr flag)
    obtain score types cnt where tr: "Transform (SetType flag NewBoBingMessageTransform) = (score, types, cnt)"
      by (metis prod_cases3)
    then have "0 \<le> cnt" using Transform_count [of "SetType flag NewBoBingMessageTransform"] by simp
    obtain e w' where g: "run_goroutines sched E req today score types cnt s w = (e, w')" by fastforce
    have ok: "tables_ok (obs w')"
      using run_goroutines_ok [OF G S \<open>0 \<le> cnt\<close> t s, of sched req today score types] g by simp
    have "obs (snd (publish_awards E req now flag score types w')) = obs w'"
      using silent_awards [OF S] by (simp add: unchanged_def)
    with ok t g tr Inr show ?thesis
      by (cases e) (simp_all add: publish_throw_def punish)
  qed
qed

lemma publish_checked_ok:
  assumes G: "gorm_ok (be_gorm E) obs snap" and S: "env_silent E obs"
    and s: "sub_ok s" "sb_Count s < sb_Condition s + 10"
  shows "leads (\<lambda>w. tables_ok (obs w)) (publish_checked sched E req now today s) (\<lambda>w. tables_ok (obs w))"
  unfolding leads_def
proof (intro allI impI)
  fix w assume t: "tables_ok (obs w)"
  obtain valid e qs where v: "ValidateParams E (snd (snd (be_civil E (be_now E w)))) (pr_OpenId req) (pr_Check req)
      = (valid, e, qs)" by (metis prod_cases3)
  have punish: "obs (snd (punish E i e w)) = obs w" for i e w
    using silent_punish [OF S] by (simp add: unchanged_def)
  obtain r w1 where q: "ExistQuaternion E qs w = (r, w1)" by fastforce
  then have w1: "obs w1 = obs w" by (rule unchangedD [OF silent_ExistQuaternion [OF S]])
  have "leads (\<lambda>w. tables_ok (obs w))
      (orReturn (SaveQuaternion E qs) (Some []) (\<lambda>_. publish_throw sched E req now today s)) (\<lambda>w. tables_ok (obs w))"
    by (rule leads_orReturn [OF ensures_silent [OF silent_cache(7) [OF S]] publish_throw_ok [OF G S s]])
  with w1 t show "tables_ok (obs (snd (publish_checked sched E req now today s w)))"
    by (cases r) (simp_all add: publish_checked_def v q punish leads_def)
qed

lemma publish_ok:
  assumes G: "gorm_ok (be_gorm E) obs snap" and S: "env_silent E obs"
  shows "leads (\<lambda>w. tables_ok (obs w)) (BoBingPublish sched E req) (\<lambda>w. tables_ok (obs w))"
proof -
  let ?I = "\<lambda>w. tables_ok (obs w)"
  have rest: "leads ?I (orReturn (GetKey E i) r1 (\<lambda>key. orReturn (UnlinkKey E i) r2 (\<lambda>_ w.
             orReturn (be_AesDecoding E f) r3 (\<lambda>flag. orReturn (be_AesDecoding E c) r4 (\<lambda>check.
               publish_checked sched E (req\<lparr> pr_Flag := flag, pr_Check := check \<rparr>) now today s))
             (be_SetKey E key w)))) ?I"
    if "sub_ok s" "sb_Count s < sb_Condition s + 10" for i f c s now today r1 r2 r3 r4
  proof (rule leads_orReturn [OF ensures_silent [OF silent_cache(1) [OF S]]],
      rule leads_orReturn [OF ensures_silent [OF silent_cache(3) [OF S]]])
    fix key :: string and u :: unit
    show "leads ?I (\<lambda>w. orReturn (be_AesDecoding E f) r3 (\<lambda>flag. orReturn (be_AesDecoding E c) r4 (\<lambda>check.
               publish_checked sched E (req\<lparr> pr_Flag := flag, pr_Check := check \<rparr>) now today s))
             (be_SetKey E key w)) ?I"
      by (rule leads_shift,
          rule leads_orReturn [OF ensures_silent [OF silent_basic(11) [OF S]]],
          rule leads_orReturn [OF ensures_silent [OF silent_basic(11) [OF S]]],
          rule publish_checked_ok [OF G S that]) (simp add: silent_basic(13) [OF S])
  qed
  have day: "leads (\<lambda>w. (sub_ok s \<and> find (sub_matches i d) (tab_submissions (obs w)) = Some s) \<and> ?I w)
      (if sb_Count s \<ge> sb_Condition s + 10 then reply (Some []) None else h) ?I"
    if "sub_ok s \<Longrightarrow> sb_Count s < sb_Condition s + 10 \<Longrightarrow> leads ?I h ?I" for s i d and h :: "(string, 'a) handler"
    using that by (auto simp: leads_def reply_def)
  show ?thesis
    unfolding leads_def
  proof (intro allI impI)
    fix w assume "?I w"
    then show "?I (snd (BoBingPublish sched E req w))"
      unfolding BoBingPublish_def Let_def
      by (rule leads_at [rotated], intro leads_orReturn [OF ensure_day_ok [OF G]]
          leads_orReturn [OF read_day_ensures [OF G]] day rest) simp_all
  qed
qed

lemma count_ok:
  assumes G: "gorm_ok (be_gorm E) obs snap" and S: "env_silent E obs" and t: "tables_ok (obs w)"
  shows "tables_ok (obs (snd (BoBingGetCount E mdata w)))"
proof (cases mdata)
  case None
  then show ?thesis using t by (simp add: BoBingGetCount_def reply_def)
next
  case (Some md)
  let ?I = "\<lambda>w. tables_ok (obs w)" and ?i = "md_value md ''open_id''" and ?d = "today_of E w"
  obtain r w1 where c: "GetDayCount E ?d ?i w = (r, w1)" by fastforce
  then have w1: "obs w1 = obs w" by (rule unchangedD [OF silent_cache(9) [OF S]])
  obtain r2 w2 where d: "ensure_day_ranked E ?i ?d w1 = (r2, w2)" by fastforce
  have w2: "?I w2" using t w1 by (intro ensures_keeps [OF ensure_day_ranked_ok [OF G] _ d]) simp
  have "leads ?I (orReturn (GetDaySubmissionByOpenId (be_gorm E) ?i ?d) (Some 0) (\<lambda>s.
          orReturn (SaveDayCount E ?d s) (Some 0) (\<lambda>_. reply (Some (sb_Condition s + 10 - sb_Count s)) None))) ?I"
  proof (rule leads_orReturn [OF read_day_ensures [OF G]])
    fix s
    show "leads (\<lambda>w. (sub_ok s \<and> find (sub_matches ?i ?d) (tab_submissions (obs w)) = Some s) \<and> ?I w)
        (orReturn (SaveDayCount E ?d s) (Some 0) (\<lambda>_. reply (Some (sb_Condition s + 10 - sb_Count s)) None)) ?I"
      by (rule leads_unchanged [OF unchanged_orReturn [OF silent_cache(8) [OF S] unchanged_reply]]) simp
  qed
  from leads_at [OF this w2] show ?thesis
    using t w1 w2 Some c d by (cases r; cases r2) (simp_all add: BoBingGetCount_def Let_def)
qed

lemma silent_article_count: "env_silent E view \<Longrightarrow> unchanged view (save_article_count E i d s)"
  unfolding unchanged_def
proof
  fix w assume S: "env_silent E view"
  obtain r w1 where c: "SaveDayCount E d s w = (r, w1)" by fastforce
  obtain r' w2 where b: "SaveBlacklist E i w1 = (r', w2)" by fastforce
  from c b unchangedD [OF silent_cache(8) [OF S] c] unchangedD [OF silent_cache(6) [OF S] b]
  show "view (snd (save_article_count E i d s w)) = view w" by (cases r) (simp_all add: save_article_count_def)
qed

lemma UpdateSubmission_ensures:
  assumes "gorm_ok G obs snap" and "0 < sb_TuiWen s"
    and "s' = s\<lparr> sb_TuiWen := sb_TuiWen s - 1, sb_Condition := sb_Condition s + 1 \<rparr>"
  shows "ensures (\<lambda>w. (sub_ok s \<and> find (sub_matches i d) (tab_submissions (obs w)) = Some s) \<and> tables_ok (obs w))
      (UpdateSubmission G s') (\<lambda>_ w. tables_ok (obs w)) (\<lambda>w. tables_ok (obs w))"
  unfolding ensures_def
proof (intro allI impI, elim conjE)
  fix w r w' assume f: "find (sub_matches i d) (tab_submissions (obs w)) = Some s" and t: "tables_ok (obs w)"
    and run: "UpdateSubmission G s' w = (r, w')"
  have "tables_ok (obs w')"
    using UpdateSubmission_tables [OF assms(1) run] read_article_ok [OF t f assms(2,3)] t by auto
  then show "case r of Inl e \<Rightarrow> tables_ok (obs w') | Inr x \<Rightarrow> tables_ok (obs w')" by (simp split: sum.split)
qed

lemma read_article_leads:
  assumes "gorm_ok (be_gorm E) obs snap" and "env_silent E obs" and "0 < sb_TuiWen s"
    and "s' = s\<lparr> sb_TuiWen := sb_TuiWen s - 1, sb_Condition := sb_Condition s + 1 \<rparr>"
  shows "leads (\<lambda>w. (sub_ok s \<and> find (sub_matches i d) (tab_submissions (obs w)) = Some s) \<and> tables_ok (obs w))
     (orReturn (UpdateSubmission (be_gorm E) s') r (\<lambda>_. save_article_count E i d s')) (\<lambda>w. tables_ok (obs w))"
  by (rule leads_orReturn [OF UpdateSubmission_ensures [OF assms(1,3,4)]
        leads_unchanged [OF silent_article_count [OF assms(2)]]])

lemma retransmission_ok:
  assumes G: "gorm_ok (be_gorm E) obs snap" and S: "env_silent E obs" and t: "tables_ok (obs w)"
  shows "tables_ok (obs (snd (BoBingRetransmission E mdata w)))"
proof (cases mdata)
  case None
  then show ?thesis using t by (simp add: BoBingRetransmission_def reply_def)
next
  case (Some md)
  let ?I = "\<lambda>w. tables_ok (obs w)" and ?i = "md_value md ''open_id''" and ?d = "today_of E w"
  obtain r w1 where d: "ensure_day_ranked E ?i ?d w = (r, w1)" by fastforce
  have w1: "?I w1" by (rule ensures_keeps [OF ensure_day_ranked_ok [OF G] t d])
  show ?thesis
  proof (cases r)
    case (Inl e)
    then show ?thesis using w1 d Some by (simp add: BoBingRetransmission_def Let_def)
  next
    case (Inr u)
    from w1 show ?thesis
      unfolding BoBingRetransmission_def Some Let_def d Inr option.case prod.case sum.case
      by (rule leads_at [rotated], intro leads_orReturn [OF read_day_ensures [OF G]] leads_if
          read_article_leads [OF G S _ refl]) (auto intro: leads_reply)
  qed
qed

lemma day_init_ok:
  assumes "gorm_ok (be_gorm E) obs snap" and "tables_ok (obs w)"
  shows "tables_ok (obs (snd (BoBingDayInit E i s n w)))"
  unfolding BoBingDayInit_def using assms(2)
  by (rule leads_at [rotated], intro leads_orReturn [OF ensure_day_ok [OF assms(1)]]) (auto intro: leads_reply)

section \<open>A database in memory\<close>

text \<open>
  The smallest surroundings with the documented behaviour: tables in a list, a snapshot for the
  transaction, a Redis of sets only, with every other command answering that there is no value. The
  argument makes the score update fail.
\<close>

record mem_db =
  md_tables :: bobing_tables
  md_snap :: bobing_tables
  md_sets :: "(string \<times> string) list"

definition mem_gorm :: "bool \<Rightarrow> mem_db bobing_gorm" where
  "mem_gorm fails = \<lparr>
     q_count_submissions = (\<lambda>i d w. (Inr (int (length (filter (sub_matches i d) (tab_submissions (md_tables w))))), w)),
     q_first_submission = (\<lambda>i d w. (case find (sub_matches i d) (tab_submissions (md_tables w)) of
        None \<Rightarrow> Inl ''record not found'' | Some s \<Rightarrow> Inr s, w)),
     q_append_submission = (\<lambda>r s w. (None, w\<lparr> md_tables := (md_tables w)\<lparr> tab_submissions := tab_submissions (md_tables w)
        @ [s\<lparr> sb_ID := Suc (sum_list (map sb_ID (tab_submissions (md_tables w)))) \<rparr>] \<rparr> \<rparr>)),
     q_update_submission = (\<lambda>i d c u w. (None, w\<lparr> md_tables := (md_tables w)\<lparr> tab_submissions := map (\<lambda>s. if sub_matches i d s
            then s\<lparr> sb_Condition := c, sb_TuiWen := u \<rparr> else s) (tab_submissions (md_tables w)) \<rparr> \<rparr>)),
     q_count_ranks_of = (\<lambda>i w. (Inr (int (length (filter (\<lambda>r. rk_OpenId r = i) (tab_ranks (md_tables w))))), w)),
     q_count_ranks = (\<lambda>w. (Inr (int (length (tab_ranks (md_tables w)))), w)),
     q_create_rank = (\<lambda>r w. if rk_OpenId r \<in> set (map rk_OpenId (tab_ranks (md_tables w))) then (Some ''duplicate key'', w)
        else (None, w\<lparr> md_tables := (md_tables w)\<lparr> tab_ranks := tab_ranks (md_tables w) @ [r] \<rparr> \<rparr>)),
     q_first_rank = (\<lambda>i w. (case find (\<lambda>r. rk_OpenId r = i) (tab_ranks (md_tables w)) of
        None \<Rightarrow> Inl ''record not found'' | Some s \<Rightarrow> Inr s, w)),
     q_add_score = (\<lambda>i sc w. if fails then (Some ''lock wait timeout'', w)
        else (None, w\<lparr> md_tables := (md_tables w)\<lparr> tab_ranks := map (\<lambda>r. if rk_OpenId r = i
            then r\<lparr> rk_Score := rk_Score r + sc \<rparr> else r) (tab_ranks (md_tables w)) \<rparr> \<rparr>)),
     q_set_counts = (\<lambda>i c d w. (let ss = set_counts i c d (tab_submissions (md_tables w)) in
        case find (\<lambda>s. sb_ID s = i) ss of None \<Rightarrow> (Inl ''record not found'', w)
        | Some s \<Rightarrow> (Inr s, w\<lparr> md_tables := (md_tables w)\<lparr> tab_submissions := ss \<rparr> \<rparr>))),
     q_begin = (\<lambda>w. w\<lparr> md_snap := md_tables w \<rparr>),
     q_rollback = (\<lambda>w. w\<lparr> md_tables := md_snap w \<rparr>),
     q_commit = (\<lambda>w. w),
     q_count_records = (\<lambda>c w. (Inr (int (length (filter (\<lambda>r. tr_Checked r = c) (tab_records (md_tables w))))), w)),
     q_create_record = (\<lambda>r w. (None, w\<lparr> md_tables := (md_tables w)\<lparr> tab_records := tab_records (md_tables w) @ [r] \<rparr> \<rparr>)),
     q_find_records = (\<lambda>i w. (Inr (filter (\<lambda>r. tr_OpenId r = i) (tab_records (md_tables w))), w)) \<rparr>"

definition game_mem_redis :: "mem_db game_redis" where
  "game_mem_redis = \<lparr>
     r_Get = (\<lambda>k w. (Inr ''key'', w)), r_Set = (\<lambda>k v t w. (None, w)), r_Unlink = (\<lambda>k w. (None, w)),
     r_ZIncrBy = (\<lambda>k s m w. (None, w)), r_ZRevRangeWithScores = (\<lambda>k a b w. (Inr [], w)),
     r_ZRevRank = (\<lambda>k m w. (Inl redis_Nil, w)), r_ZScore = (\<lambda>k m w. (Inl redis_Nil, w)),
     r_ZRem = (\<lambda>k m w. (None, w)), r_ZAdd = (\<lambda>k s m w. (None, w)),
     r_SAdd = (\<lambda>k ms w. (None, w\<lparr> md_sets := map (Pair k) ms @ md_sets w \<rparr>)),
     r_SIsMember = (\<lambda>k m w. ((k, m) \<in> set (md_sets w), w)) \<rparr>"

text \<open>Every check that decodes yields six dice at rest in three distinct coordinates.\<close>

definition mem_env :: "bool \<Rightarrow> mem_db bobing_env" where
  "mem_env fails = \<lparr>
     be_gorm = mem_gorm fails, be_rdb = game_mem_redis, enc_member = (\<lambda>m. Inr (mb_OpenId m)),
     dec_member = (\<lambda>s. Inr \<lparr> mb_OpenId = s, mb_NickName = s \<rparr>), enc_zy = (\<lambda>z. Inr (zy_NickName z)),
     dec_zy = (\<lambda>s. Inr \<lparr> zy_NickName = s, zy_Types = [], zy_Time = 0 \<rparr>), be_now = (\<lambda>w. 7),
     be_midnight = (\<lambda>t. 0), be_civil = (\<lambda>t. (2024, ''September'', 17)),
     dec_dices = (\<lambda>s. Inr (replicate 6 \<lparr> dc_Position = [(''x'', 1), (''y'', 2), (''z'', 3)], dc_Quaternion = [1, 0, 0, 0] \<rparr>)),
     enc_quaternion = (\<lambda>q. ''q''), fmt_float = (\<lambda>x. ''1''), be_random = (\<lambda>n w. (Inr (replicate n 0), w)),
     be_SetKey = (\<lambda>k w. w), be_AesDecoding = (\<lambda>s w. (Inr s, w)), be_AesEncoding = (\<lambda>s w. (s, w)),
     be_AcquiesceKey = ''aces'', be_base64 = (\<lambda>s. s) \<rparr>"

definition mem_start :: mem_db where
  "mem_start = \<lparr> md_tables = \<lparr> tab_ranks = [], tab_submissions = [], tab_records = [] \<rparr>,
     md_snap = \<lparr> tab_ranks = [], tab_submissions = [], tab_records = [] \<rparr>, md_sets = [] \<rparr>"

lemma fresh_ID: "Suc (sum_list ns) \<notin> set ns" for ns :: "nat list"
  using member_le_sum_list [of "Suc (sum_list ns)" ns] by auto

lemma mem_gorm_ok: "gorm_ok (mem_gorm b) md_tables md_snap"
  unfolding gorm_ok_def
proof (intro conjI allI)
  fix r s
  show "writes md_tables md_snap (q_append_submission (mem_gorm b) r s)
      (\<lambda>t t'. \<exists>n. n \<notin> sb_ID ` set (tab_submissions t) \<and> t' = t\<lparr> tab_submissions := tab_submissions t @ [s\<lparr> sb_ID := n \<rparr>] \<rparr>)"
    using fresh_ID by (auto simp: writes_def mem_gorm_def simp flip: set_map)
qed (auto simp: reads_def writes_def mem_gorm_def Let_def split: option.splits)

lemma mem_env_silent: "env_silent (mem_env b) md_tables"
  by (simp add: env_silent_def mem_env_def game_mem_redis_def unchanged_def)

lemma mem_env_gorm [simp]: "be_gorm (mem_env b) = mem_gorm b"
  by (simp add: mem_env_def)

section \<open>Theorems\<close>

lemma serve_ok:
  "gorm_ok (be_gorm E) obs snap \<Longrightarrow> env_silent E obs \<Longrightarrow> tables_ok (obs w) \<Longrightarrow> tables_ok (obs (serve E req w))"
  by (cases req) (simp_all add: day_init_ok count_ok retransmission_ok leads_at [OF publish_ok])

text \<open>
  C3. Whatever requests the dice game serves one after the other, with whatever schedules of their
  goroutines and whichever statements of the database and commands of Redis fail, there is at most
  one row per player and day, and in every row the throws used never exceed the ten of the day plus
  the extra ones granted, and at most three articles are left to read.
\<close>

theorem throws_bounded:
  assumes "gorm_ok (be_gorm E) obs snap" and "env_silent E obs" and "tables_ok (obs w)"
  shows "tables_ok (obs (fold (serve E) reqs w))"
  using assms(3)
proof (induction reqs arbitrary: w)
  case (Cons r reqs)
  then show ?case using serve_ok [OF assms(1,2)] by simp
qed simp

theorem throws_bounded_witness:
  "tables_ok (md_tables (fold (serve (mem_env False))
     [DayInit ''o1'' ''s1'' ''ann'', Publish [True] \<lparr> pr_OpenId = ''o1'', pr_StuNum = ''s1'', pr_NickName = ''ann'',
        pr_Flag = ''1'', pr_Check = ''c'' \<rparr>, Retransmission (Some (\<lambda>_. [''o1'']))] mem_start))"
proof -
  have "tables_ok (md_tables mem_start)" by (simp add: mem_start_def tables_ok_def)
  moreover have "gorm_ok (be_gorm (mem_env False)) md_tables md_snap" by (simp add: mem_gorm_ok)
  ultimately show ?thesis by (rule throws_bounded [OF _ mem_env_silent, rotated])
qed

subsection \<open>The race of the goroutines\<close>

lemma update_end [simp]: "ps_update st = UpdateEnd \<Longrightarrow> (update_step E req today score cnt ^^ n) st = st"
  by (induction n) (simp_all add: update_step_def)

lemma save_end [simp]: "ps_save st = SaveEnd \<Longrightarrow> (save_step E req score types ^^ n) st = st"
  by (induction n) (simp_all add: save_step_def)

text \<open>
  \<^verbatim>\<open>BoBingPublish\<close> loses an error: when the update of the rank and of the count of throws fails and is
  rolled back, but the goroutine that saves the record ends last, its nil error replaces the failure,
  and the handler goes on to pay the award for a throw that was not counted. When the goroutines end
  the other way round, the same failure is reported.
\<close>

theorem publish_loses_error:
  assumes "Atoi (pr_Flag req) = Inr flag" and "1 \<le> flag" and "flag \<le> 16"
    and "Transform (SetType flag NewBoBingMessageTransform) = (score, types, cnt)"
    and "gorm_ok (be_gorm E) obs snap"
    and "UpdateRank (be_gorm E) req score cnt s w = (Inl e, w1)"
    and "SaveRecord (be_gorm E) req score types w1 = (Inr (), w2)"
    and "SaveRecord (be_gorm E) req score types w = (Inr (), v1)"
    and "UpdateRank (be_gorm E) req score cnt s v1 = (Inl e, v2)"
  shows "publish_throw [True, True, False, False] E req now today s w = publish_awards E req now flag score types w2
    \<and> tab_submissions (obs w2) = tab_submissions (obs w)
    \<and> publish_throw [False, False, True, True] E req now today s w = ((Some [], Some e), v2)"
proof -
  have "tab_submissions (obs w2) = tab_submissions (obs w)"
    using UpdateRank_tables [OF assms(5,6)] SaveRecord_tables [OF assms(5,7)] by simp
  moreover have "run_goroutines [True, True, False, False] E req today score types cnt s w = (None, w2)"
    by (simp add: run_goroutines_def update_step_def save_step_def assms err_of_def)
  moreover have "run_goroutines [False, False, True, True] E req today score types cnt s w = (Some e, v2)"
    by (simp add: run_goroutines_def update_step_def save_step_def assms err_of_def)
  ultimately show ?thesis using assms(1-4) by (simp add: publish_throw_def)
qed

definition lost_request :: publish_request where
  "lost_request = \<lparr> pr_OpenId = ''o1'', pr_StuNum = ''s1'', pr_NickName = ''ann'', pr_Flag = ''4'', pr_Check = ''c'' \<rparr>"

theorem publish_loses_error_witness:
  "let T = Transform (SetType 4 NewBoBingMessageTransform); w = mem_start
   in (\<exists>w2. publish_throw [True, True, False, False] (mem_env True) lost_request 7 0 zero_submission w
         = publish_awards (mem_env True) lost_request 7 4 (fst T) (fst (snd T)) w2)
    \<and> fst (publish_throw [False, False, True, True] (mem_env True) lost_request 7 0 zero_submission w)
         = (Some [], Some ''lock wait timeout'')"
proof -
  obtain score types cnt where tr: "Transform (SetType 4 NewBoBingMessageTransform) = (score, types, cnt)"
    by (metis prod_cases3)
  define w where "w = mem_start"
  have upd: "UpdateRank (be_gorm (mem_env True)) lost_request score cnt zero_submission v
      = (Inl ''lock wait timeout'', v\<lparr> md_snap := md_tables v \<rparr>)" for v
    by (simp add: UpdateRank_def mem_gorm_def)
  obtain w2 where s1: "SaveRecord (be_gorm (mem_env True)) lost_request score types (w\<lparr> md_snap := md_tables w \<rparr>) = (Inr (), w2)"
    by (simp add: SaveRecord_def mem_gorm_def run_err_def)
  obtain v1 where s2: "SaveRecord (be_gorm (mem_env True)) lost_request score types w = (Inr (), v1)"
    by (simp add: SaveRecord_def mem_gorm_def run_err_def w_def)
  have flag: "Atoi (pr_Flag lost_request) = Inr 4" by (code_simp)
  have "gorm_ok (be_gorm (mem_env True)) md_tables md_snap" by (simp add: mem_gorm_ok)
  from publish_loses_error [OF flag _ _ tr this upd s1 s2 upd, of 7 0]
  have "publish_throw [True, True, False, False] (mem_env True) lost_request 7 0 zero_submission w
         = publish_awards (mem_env True) lost_request 7 4 score types w2"
    "fst (publish_throw [False, False, True, True] (mem_env True) lost_request 7 0 zero_submission w)
         = (Some [], Some ''lock wait timeout'')"
    by (simp_all add: w_def)
  then show ?thesis by (auto simp: Let_def tr w_def)
qed

subsection \<open>A throw is counted once\<close>

text \<open>The effect of a throw on the tables: the score and the counts, and the record.\<close>

definition counted :: "publish_request \<Rightarrow> int \<Rightarrow> int \<Rightarrow> submission \<Rightarrow> bobing_tables \<Rightarrow> bobing_tables" where
  "counted req score cnt s t = t\<lparr>
     tab_ranks := map (\<lambda>r. if rk_OpenId r = pr_OpenId req then r\<lparr> rk_Score := rk_Score r + score \<rparr> else r) (tab_ranks t),
     tab_submissions := set_counts (sb_ID s) (sb_Count (count_throw (pr_Flag req) cnt s))
          (sb_Condition (count_throw (pr_Flag req) cnt s)) (tab_submissions t) \<rparr>"

definition recorded :: "publish_request \<Rightarrow> int \<Rightarrow> string \<Rightarrow> bobing_tables \<Rightarrow> bobing_tables" where
  "recorded req score types t = t\<lparr> tab_records := tab_records t @
     [\<lparr> tr_OpenId = pr_OpenId req, tr_StuNum = pr_StuNum req, tr_Score = score, tr_Types = types, tr_Checked = pr_Check req \<rparr>] \<rparr>"

lemma counted_recorded: "recorded req score types (counted req score cnt s t) = counted req score cnt s (recorded req score types t)"
  by (simp add: counted_def recorded_def)

definition tables_after ::
  "publish_request \<Rightarrow> int \<Rightarrow> string \<Rightarrow> int \<Rightarrow> submission \<Rightarrow> bobing_tables \<Rightarrow> 'w publish_state \<Rightarrow> bobing_tables" where
  "tables_after req score types cnt s t st =
     (let t' = (if ps_update st = UpdateCall then t else counted req score cnt s t)
      in if ps_save st = SaveCall then t' else recorded req score types t')"

text \<open>No statement of the throw fails while today's rows are as they were.\<close>

definition throw_succeeds ::
  "'w bobing_env \<Rightarrow> ('w \<Rightarrow> bobing_tables) \<Rightarrow> publish_request \<Rightarrow> int \<Rightarrow> string \<Rightarrow> int \<Rightarrow> submission \<Rightarrow> submission list \<Rightarrow> bool" where
  "throw_succeeds E obs req score types cnt s ss \<longleftrightarrow>
     (\<forall>v. tab_submissions (obs v) = ss \<longrightarrow> (\<exists>x v'. UpdateRank (be_gorm E) req score cnt s v = (Inr x, v')))
   \<and> (\<forall>v. \<exists>v'. SaveRecord (be_gorm E) req score types v = (Inr (), v'))"

definition effects_inv ::
  "('w \<Rightarrow> bobing_tables) \<Rightarrow> publish_request \<Rightarrow> int \<Rightarrow> string \<Rightarrow> int \<Rightarrow> submission \<Rightarrow> bobing_tables \<Rightarrow> 'w publish_state \<Rightarrow> bool" where
  "effects_inv obs req score types cnt s t st \<longleftrightarrow>
     obs (ps_world st) = tables_after req score types cnt s t st \<and> (ps_update st = UpdateCall \<longrightarrow> ps_submission st = s)"

lemma update_step_effects:
  assumes G: "gorm_ok (be_gorm E) obs snap" and S: "env_silent E obs"
    and ok: "throw_succeeds E obs req score types cnt s (tab_submissions t)"
    and inv: "effects_inv obs req score types cnt s t st"
  shows "effects_inv obs req score types cnt s t (update_step E req today score cnt st)"
proof (cases "ps_update st")
  case UpdateCall
  with inv have "tab_submissions (obs (ps_world st)) = tab_submissions t" and s: "ps_submission st = s"
    by (simp_all add: effects_inv_def tables_after_def recorded_def Let_def)
  then obtain x v' where run: "UpdateRank (be_gorm E) req score cnt s (ps_world st) = (Inr x, v')"
    using ok by (auto simp: throw_succeeds_def)
  have "obs v' = counted req score cnt s (obs (ps_world st))"
    using UpdateRank_tables [OF G run] by (simp add: counted_def)
  with UpdateCall inv run s show ?thesis
    by (simp add: effects_inv_def tables_after_def update_step_def counted_recorded Let_def)
next
  case CountCall
  obtain r w' where run: "SaveDayCount E today (ps_submission st) (ps_world st) = (r, w')" by fastforce
  then have "obs w' = obs (ps_world st)" by (rule unchangedD [OF silent_cache(8) [OF S]])
  then show ?thesis using CountCall run inv by (simp add: update_step_def effects_inv_def tables_after_def)
next
  case BlackCall
  obtain r w' where run: "SaveBlacklist E (pr_OpenId req) (ps_world st) = (r, w')" by fastforce
  then have "obs w' = obs (ps_world st)" by (rule unchangedD [OF silent_cache(6) [OF S]])
  then show ?thesis using BlackCall run inv by (simp add: update_step_def effects_inv_def tables_after_def)
qed (use inv in \<open>simp_all add: update_step_def effects_inv_def tables_after_def\<close>)

lemma save_step_effects:
  assumes G: "gorm_ok (be_gorm E) obs snap"
    and ok: "throw_succeeds E obs req score types cnt s (tab_submissions t)"
    and inv: "effects_inv obs req score types cnt s t st"
  shows "effects_inv obs req score types cnt s t (save_step E req score types st)"
proof (cases "ps_save st")
  case SaveCall
  obtain v' where run: "SaveRecord (be_gorm E) req score types (ps_world st) = (Inr (), v')"
    using ok by (auto simp: throw_succeeds_def)
  have "obs v' = recorded req score types (obs (ps_world st))"
    using writes_run_err [OF gorm_writes(5) [OF G] run [unfolded SaveRecord_def]] by (simp add: recorded_def)
  with SaveCall inv run show ?thesis
    by (simp add: effects_inv_def tables_after_def save_step_def err_of_def Let_def)
qed (use inv in \<open>simp_all add: save_step_def effects_inv_def tables_after_def\<close>)

text \<open>A goroutine that took a step has made its first call.\<close>

lemma steps_progress:
  assumes step_def: "step = (\<lambda>b. if b then update_step E req today score cnt else save_step E req score types)"
  shows "True \<in> set bs \<or> ps_update st \<noteq> UpdateCall \<Longrightarrow> ps_update (fold step bs st) \<noteq> UpdateCall"
    and "False \<in> set bs \<or> ps_save st \<noteq> SaveCall \<Longrightarrow> ps_save (fold step bs st) \<noteq> SaveCall"
proof (induction bs arbitrary: st)
  case (Cons b bs)
  have u: "ps_update (update_step E req today score cnt st) \<noteq> UpdateCall" "ps_save (save_step E req score types st) \<noteq> SaveCall"
    "ps_save (update_step E req today score cnt st) = ps_save st" "ps_update (save_step E req score types st) = ps_update st" for st
    by (auto simp: update_step_def save_step_def split: update_pc.split save_pc.split prod.split)
  { case 1
    then have "True \<in> set bs \<or> ps_update (step b st) \<noteq> UpdateCall" using u by (cases b) (simp_all add: step_def)
    from Cons.IH(1) [OF this] show ?case by simp }
  { case 2
    then have "False \<in> set bs \<or> ps_save (step b st) \<noteq> SaveCall" using u by (cases b) (simp_all add: step_def)
    from Cons.IH(2) [OF this] show ?case by simp }
qed auto

lemma run_goroutines_effects:
  assumes "gorm_ok (be_gorm E) obs snap" and "env_silent E obs"
    and "throw_succeeds E obs req score types cnt s (tab_submissions (obs w))"
  shows "obs (snd (run_goroutines sched E req today score types cnt s w))
           = recorded req score types (counted req score cnt s (obs w))"
proof -
  define step where "step = (\<lambda>b. if b then update_step E req today score cnt else save_step E req score types)"
  define st0 where "st0 = \<lparr> ps_update = UpdateCall, ps_save = SaveCall, ps_err = None, ps_submission = s, ps_world = w \<rparr>"
  define bs where "bs = sched @ replicate 6 True @ replicate 2 False"
  have step: "effects_inv obs req score types cnt s (obs w) (step b st)"
    if "effects_inv obs req score types cnt s (obs w) st" for b st
    using update_step_effects [OF assms that] save_step_effects [OF assms(1,3) that] by (simp add: step_def)
  have "effects_inv obs req score types cnt s (obs w) (fold step bs st)"
    if "effects_inv obs req score types cnt s (obs w) st" for bs st
    using that by (induction bs arbitrary: st) (simp_all add: step)
  moreover have "effects_inv obs req score types cnt s (obs w) st0"
    by (simp add: effects_inv_def tables_after_def st0_def)
  ultimately have "effects_inv obs req score types cnt s (obs w) (fold step bs st0)" .
  moreover have "ps_update (fold step bs st0) \<noteq> UpdateCall" "ps_save (fold step bs st0) \<noteq> SaveCall"
    by (rule steps_progress [OF step_def]; simp add: bs_def)+
  ultimately have "obs (ps_world (fold step bs st0)) = recorded req score types (counted req score cnt s (obs w))"
    unfolding effects_inv_def tables_after_def Let_def by simp
  then show ?thesis unfolding run_goroutines_def Let_def step_def [symmetric] st0_def [symmetric] bs_def [symmetric] by simp
qed

text \<open>
  C4. A throw that is recorded without a failing statement is counted exactly once, however the two
  goroutines interleave: the player's score grows by the award, today's row gets the counts of
  \<^verbatim>\<open>UpdateRank\<close>, one record is appended, and nothing else in the tables changes.
\<close>

theorem throw_counted_once:
  assumes "gorm_ok (be_gorm E) obs snap" and "env_silent E obs"
    and "Atoi (pr_Flag req) = Inr flag" and "1 \<le> flag" and "flag \<le> 16"
    and "Transform (SetType flag NewBoBingMessageTransform) = (score, types, cnt)"
    and "throw_succeeds E obs req score types cnt s (tab_submissions (obs w))"
  shows "obs (snd (publish_throw sched E req now today s w))
           = recorded req score types (counted req score cnt s (obs w))"
proof -
  obtain e w' where g: "run_goroutines sched E req today score types cnt s w = (e, w')" by fastforce
  have "obs w' = recorded req score types (counted req score cnt s (obs w))"
    using run_goroutines_effects [OF assms(1,2,7), of sched today] g by simp
  moreover have "obs (snd (publish_awards E req now flag score types w')) = obs w'"
    using silent_awards [OF assms(2)] by (simp add: unchanged_def)
  ultimately show ?thesis
    using assms(3-6) g by (cases e) (simp_all add: publish_throw_def)
qed

definition counted_row :: submission where
  "counted_row = \<lparr> sb_ID = 1, sb_RankOpenId = ''o1'', sb_Date = 0, sb_Count = 9, sb_Condition = 0, sb_TuiWen = 3 \<rparr>"

theorem throw_counted_once_witness:
  "let T = Transform (SetType 4 NewBoBingMessageTransform);
       w = mem_start\<lparr> md_tables := (md_tables mem_start)\<lparr> tab_submissions := [counted_row] \<rparr> \<rparr>
   in md_tables (snd (publish_throw [False, True, True, False] (mem_env False) lost_request 7 0 counted_row w))
        = recorded lost_request (fst T) (fst (snd T)) (counted lost_request (fst T) (snd (snd T)) counted_row (md_tables w))"
proof -
  obtain score types cnt where tr: "Transform (SetType 4 NewBoBingMessageTransform) = (score, types, cnt)"
    by (metis prod_cases3)
  let ?w = "mem_start\<lparr> md_tables := (md_tables mem_start)\<lparr> tab_submissions := [counted_row] \<rparr> \<rparr>"
  have flag: "Atoi (pr_Flag lost_request) = Inr 4" by (code_simp)
  have ok: "throw_succeeds (mem_env False) md_tables lost_request score types cnt counted_row (tab_submissions (md_tables ?w))"
    by (auto simp: throw_succeeds_def UpdateRank_def SaveRecord_def mem_gorm_def run_err_def Let_def set_counts_def
        count_throw_ID counted_row_def mem_start_def)
  have "gorm_ok (be_gorm (mem_env False)) md_tables md_snap" by (simp add: mem_gorm_ok)
  from throw_counted_once [OF this mem_env_silent flag _ _ tr ok, of "[False, True, True, False]" 7 0]
  show ?thesis by (simp add: Let_def tr)
qed

subsection \<open>Dice positions are accepted once\<close>

text \<open>What Redis documents of its sets: membership is exact and an insertion adds the members or fails.\<close>

definition sets_ok :: "'w game_redis \<Rightarrow> ('w \<Rightarrow> (string \<times> string) set) \<Rightarrow> bool" where
  "sets_ok R sets \<longleftrightarrow>
     (\<forall>k m w. fst (r_SIsMember R k m w) = ((k, m) \<in> sets w) \<and> sets (snd (r_SIsMember R k m w)) = sets w)
   \<and> (\<forall>k ms w. sets (snd (r_SAdd R k ms w))
        = (case fst (r_SAdd R k ms w) of None \<Rightarrow> sets w \<union> Pair k ` set ms | Some e \<Rightarrow> sets w))"

lemma sets_okD:
  assumes "sets_ok R sets"
  shows "r_SIsMember R k m w = (b, w') \<Longrightarrow> b = ((k, m) \<in> sets w) \<and> sets w' = sets w"
    and "r_SAdd R k ms w = (res, w') \<Longrightarrow> sets w' = (case res of None \<Rightarrow> sets w \<union> Pair k ` set ms | Some e \<Rightarrow> sets w)"
proof -
  have "fst (r_SIsMember R k m w) = ((k, m) \<in> sets w) \<and> sets (snd (r_SIsMember R k m w)) = sets w"
    "sets (snd (r_SAdd R k ms w)) = (case fst (r_SAdd R k ms w) of None \<Rightarrow> sets w \<union> Pair k ` set ms | Some e \<Rightarrow> sets w)"
    using assms unfolding sets_ok_def by blast+
  then show "r_SIsMember R k m w = (b, w') \<Longrightarrow> b = ((k, m) \<in> sets w) \<and> sets w' = sets w"
    and "r_SAdd R k ms w = (res, w') \<Longrightarrow> sets w' = (case res of None \<Rightarrow> sets w \<union> Pair k ` set ms | Some e \<Rightarrow> sets w)"
    by simp_all
qed

lemma exist_quaternion_exact:
  assumes "sets_ok (be_rdb E) sets"
  shows "sets (snd (ExistQuaternion E qs w)) = sets w
       \<and> fst (ExistQuaternion E qs w)
           = (if \<exists>q \<in> set qs. (''quaternions'', q) \<in> sets w then Inl cheat_msg else Inr ())"
proof (induction qs arbitrary: w)
  case (Cons q qs)
  obtain b w1 where q: "r_SIsMember (be_rdb E) ''quaternions'' q w = (b, w1)" by fastforce
  from sets_okD(1) [OF assms q] q Cons.IH [of w1] show ?case by simp
qed simp

lemma valid_dices_length:
  "validate_dices E i d k strs ds = (True, e, qs) \<Longrightarrow> e = None \<and> length qs = length strs + length ds"
  by (induction E i d k strs ds rule: validate_dices.induct) (auto simp: Let_def split: if_splits)

lemma valid_params_length: "ValidateParams E d i data = (True, e, qs) \<Longrightarrow> e = None \<and> length qs = 6"
  by (auto simp: ValidateParams_def split: sum.splits if_splits dest: valid_dices_length)


lemma mem_sets_ok: "sets_ok (be_rdb (mem_env b)) (\<lambda>w. set (md_sets w))"
  by (auto simp: sets_ok_def mem_env_def game_mem_redis_def)

lemma mem_valid:
  "ValidateParams (mem_env b) 17 ''o1'' ''c'' = (True, None, replicate 6 ''qo117'')"
proof -
  have "quaternionNorm [1, 0, 0, 0] = 1" by (simp add: quaternionNorm_def)
  moreover have "itoa 17 = ''17''" by code_simp
  ultimately show ?thesis
    by (simp add: ValidateParams_def mem_env_def numeral_eq_Suc hasDuplicateValue_def)
qed


end
