(* ===== verification/Tcc_Interface.thy ===== *)
theory Tcc_Interface
  imports Name_Registry
begin

text \<open>
  The TCC component interface (\<^verbatim>\<open>src/app/common/tcc/interface.go\<close>) and the registry of components
  (\<^verbatim>\<open>registry.go\<close>). A component is a record of functions on an arbitrary world \<open>'w\<close>, which stands for
  everything a component may read or change; its error is the message. A Go map is an association
  list with distinct keys.

  \<open>spy\<close> wraps a component so that every call is logged with its phase and whether it succeeded: the
  theorems on the coordinators are about the logs of arbitrary components.
\<close>

(* src: app/common/tcc/interface.go:14-18 TCCReq *)
record 'd tcc_req =
  rq_ComponentID :: string
  rq_TXID :: string
  rq_Data :: "string \<rightharpoonup> 'd"

(* src: app/common/tcc/interface.go:21-25 TCCResp *)
record tcc_resp =
  rs_ComponentID :: string
  rs_TXID :: string
  rs_ACK :: bool

(* src: app/common/tcc/interface.go:6-11 TCCComponent *)
record ('w, 'd) tcc_component =
  co_ID :: string
  co_Try :: "'d tcc_req \<Rightarrow> 'w \<Rightarrow> (err + tcc_resp) \<times> 'w"
  co_Confirm :: "string \<Rightarrow> 'w \<Rightarrow> (err + tcc_resp) \<times> 'w"
  co_Cancel :: "string \<Rightarrow> 'w \<Rightarrow> (err + tcc_resp) \<times> 'w"

subsection \<open>The registry\<close>

(* src: app/common/tcc/registry.go:9-12 registryCenter *)
record ('w, 'd) registry_center =
  rc_components :: "(string \<times> ('w, 'd) tcc_component) list"

(* src: app/common/tcc/registry.go:15-19 newRegistryCenter *)
definition newRegistryCenter :: "('w, 'd) registry_center" where
  "newRegistryCenter = \<lparr>rc_components = []\<rparr>"

text \<open>A component argument may be Go's nil interface, here \<open>None\<close>.\<close>

(* src: app/common/tcc/registry.go:22-41 register *)
definition rc_register ::
    "('w, 'd) tcc_component option \<Rightarrow> ('w, 'd) registry_center \<Rightarrow> err option \<times> ('w, 'd) registry_center" where
  "rc_register component r =
     (case component of
        None \<Rightarrow> (Some ''component cannot be nil'', r)
      | Some c \<Rightarrow>
          if co_ID c = '''' then (Some ''component ID cannot be empty'', r)
          else if map_of (rc_components r) (co_ID c) \<noteq> None
            then (Some (''component with ID '' @ co_ID c @ '' already registered''), r)
          else (None, r\<lparr>rc_components := AList.update (co_ID c) c (rc_components r)\<rparr>))"

definition rc_not_found :: "string \<Rightarrow> err" where
  "rc_not_found cid = ''component with ID '' @ cid @ '' not found''"

(* src: app/common/tcc/registry.go:44-58 getComponents *)
fun rc_getComponents :: "string list \<Rightarrow> ('w, 'd) registry_center \<Rightarrow> err + ('w, 'd) tcc_component list" where
  "rc_getComponents [] r = Inr []"
| "rc_getComponents (cid # cids) r =
     (case map_of (rc_components r) cid of
        None \<Rightarrow> Inl (rc_not_found cid)
      | Some c \<Rightarrow> (case rc_getComponents cids r of Inl e \<Rightarrow> Inl e | Inr cs \<Rightarrow> Inr (c # cs)))"

(* src: app/common/tcc/registry.go:61-71 getAllComponents *)
definition rc_getAllComponents ::
    "(string \<times> ('w, 'd) tcc_component) range_order \<Rightarrow> ('w, 'd) registry_center \<Rightarrow> ('w, 'd) tcc_component list" where
  "rc_getAllComponents ord r = map snd (ord (rc_components r))"

(* src: app/common/tcc/registry.go:74-84 unregister *)
definition rc_unregister :: "string \<Rightarrow> ('w, 'd) registry_center \<Rightarrow> err option \<times> ('w, 'd) registry_center" where
  "rc_unregister cid r =
     (case map_of (rc_components r) cid of
        None \<Rightarrow> (Some (rc_not_found cid), r)
      | Some _ \<Rightarrow> (None, r\<lparr>rc_components := AList.delete cid (rc_components r)\<rparr>))"

(* src: app/common/tcc/registry.go:87-93 isRegistered *)
definition rc_isRegistered :: "string \<Rightarrow> ('w, 'd) registry_center \<Rightarrow> bool" where
  "rc_isRegistered cid r \<longleftrightarrow> map_of (rc_components r) cid \<noteq> None"

(* src: app/common/tcc/registry.go:96-101 getComponentCount *)
definition rc_getComponentCount :: "('w, 'd) registry_center \<Rightarrow> int" where
  "rc_getComponentCount r = int (length (rc_components r))"

definition rc_inv :: "('w, 'd) registry_center \<Rightarrow> bool" where
  "rc_inv r \<longleftrightarrow> distinct (map fst (rc_components r))
     \<and> (\<forall>(k, c) \<in> set (rc_components r). k = co_ID c \<and> k \<noteq> '''')"

datatype ('w, 'd) registry_op = RegOp "('w, 'd) tcc_component option" | UnregOp string

fun rc_apply :: "('w, 'd) registry_op \<Rightarrow> ('w, 'd) registry_center \<Rightarrow> ('w, 'd) registry_center" where
  "rc_apply (RegOp c) r = snd (rc_register c r)"
| "rc_apply (UnregOp cid) r = snd (rc_unregister cid r)"

subsection \<open>Logging components\<close>

(* src: app/common/tcc/tcc.go:11-17 TCCPhase, constants *)
datatype phase = PhaseTry | PhaseConfirm | PhaseCancel

datatype tcc_call = Call phase string bool

type_synonym 'w logged = "'w \<times> tcc_call list"

definition is_ok :: "'e + 'a \<Rightarrow> bool" where
  "is_ok r \<longleftrightarrow> (case r of Inl _ \<Rightarrow> False | Inr _ \<Rightarrow> True)"

definition log_call :: "phase \<Rightarrow> string \<Rightarrow> ('w \<Rightarrow> (err + tcc_resp) \<times> 'w) \<Rightarrow> 'w logged \<Rightarrow> (err + tcc_resp) \<times> 'w logged" where
  "log_call ph cid f = (\<lambda>(w, l). case f w of (r, w') \<Rightarrow> (r, w', l @ [Call ph cid (is_ok r)]))"

definition spy :: "('w, 'd) tcc_component \<Rightarrow> ('w logged, 'd) tcc_component" where
  "spy c = \<lparr>co_ID = co_ID c,
     co_Try = (\<lambda>req. log_call PhaseTry (co_ID c) (co_Try c req)),
     co_Confirm = (\<lambda>tx. log_call PhaseConfirm (co_ID c) (co_Confirm c tx)),
     co_Cancel = (\<lambda>tx. log_call PhaseCancel (co_ID c) (co_Cancel c tx))\<rparr>"

text \<open>A component that accepts everything, for the concrete runs.\<close>

definition steady :: "string \<Rightarrow> (unit, unit) tcc_component" where
  "steady cid = (let ok = (\<lambda>_ w. (Inr \<lparr>rs_ComponentID = cid, rs_TXID = [], rs_ACK = True\<rparr>, w))
     in \<lparr>co_ID = cid, co_Try = (\<lambda>_. ok ()), co_Confirm = (\<lambda>_. ok ()), co_Cancel = (\<lambda>_. ok ())\<rparr>)"

text \<open>
  The log of one component's retried call: failures up to the bound, ended by a success, or as
  many failures as the bound allows; and the logs of a sequence of components, one after the other.
\<close>

definition attempt_log :: "phase \<Rightarrow> nat \<Rightarrow> string \<Rightarrow> bool \<Rightarrow> tcc_call list \<Rightarrow> bool" where
  "attempt_log ph n cid ok l \<longleftrightarrow>
     (if ok then \<exists>k < n. l = replicate k (Call ph cid False) @ [Call ph cid True]
      else l = replicate n (Call ph cid False))"

fun phase_log :: "phase \<Rightarrow> nat \<Rightarrow> (string \<times> bool) list \<Rightarrow> tcc_call list \<Rightarrow> bool" where
  "phase_log ph n [] l \<longleftrightarrow> l = []"
| "phase_log ph n ((cid, ok) # cs) l \<longleftrightarrow>
     (\<exists>l1 l2. l = l1 @ l2 \<and> attempt_log ph n cid ok l1 \<and> phase_log ph n cs l2)"

lemma steady_ID [simp]: "co_ID (steady cid) = cid"
  by (simp add: steady_def)

lemma is_ok_simps [simp]: "is_ok (Inr a)" "\<not> is_ok (Inl e)"
  by (simp_all add: is_ok_def)

lemma spy_simps [simp]:
  "co_ID (spy c) = co_ID c"
  "co_Try (spy c) req = log_call PhaseTry (co_ID c) (co_Try c req)"
  "co_Confirm (spy c) tx = log_call PhaseConfirm (co_ID c) (co_Confirm c tx)"
  "co_Cancel (spy c) tx = log_call PhaseCancel (co_ID c) (co_Cancel c tx)"
  by (simp_all add: spy_def)

lemma attempt_log_calls:
  "attempt_log ph n cid ok l \<Longrightarrow> Call ph' cid' b \<in> set l \<Longrightarrow> ph' = ph \<and> cid' = cid"
  by (auto simp: attempt_log_def split: if_splits)

lemma attempt_log_True: "attempt_log ph n cid True l \<Longrightarrow> Call ph cid True \<in> set l"
  by (auto simp: attempt_log_def)

lemma phase_log_calls:
  "phase_log ph n cs l \<Longrightarrow> Call ph' cid b \<in> set l \<Longrightarrow> ph' = ph \<and> cid \<in> fst ` set cs"
  by (induction ph n cs l rule: phase_log.induct) (fastforce dest: attempt_log_calls)+

lemma phase_log_ok:
  "phase_log ph n cs l \<Longrightarrow> (cid, True) \<in> set cs \<Longrightarrow> Call ph cid True \<in> set l"
  by (induction ph n cs l rule: phase_log.induct) (auto dest: attempt_log_True)

lemma phase_log_length: "phase_log ph n cs l \<Longrightarrow> length l \<le> n * length cs"
proof (induction ph n cs l rule: phase_log.induct)
  case (2 ph n cid ok cs l)
  from 2(2) obtain l1 l2 where l: "l = l1 @ l2" "attempt_log ph n cid ok l1" "phase_log ph n cs l2" by auto
  have "length l1 \<le> n" using l(2) by (auto simp: attempt_log_def split: if_splits)
  with 2(1) [OF l(3)] show ?case by (simp add: l(1))
qed simp

subsection \<open>The registry invariant\<close>

lemma rc_inv_register: "rc_inv r \<Longrightarrow> rc_inv (snd (rc_register c r))"
  by (auto simp: rc_inv_def rc_register_def distinct_update split: option.splits dest!: in_alist_update)

lemma rc_inv_unregister: "rc_inv r \<Longrightarrow> rc_inv (snd (rc_unregister cid r))"
  by (auto simp: rc_inv_def rc_unregister_def distinct_delete split: option.splits dest!: in_alist_delete)

lemma rc_inv_run: "rc_inv (fold rc_apply ops newRegistryCenter)"
proof (induction ops rule: rev_induct)
  case Nil
  show ?case by (simp add: rc_inv_def newRegistryCenter_def)
next
  case (snoc op ops)
  then show ?case by (cases op) (simp_all add: rc_inv_register rc_inv_unregister)
qed

lemma rc_inv_lookup: "rc_inv r \<Longrightarrow> map_of (rc_components r) cid = Some c \<Longrightarrow> co_ID c = cid"
  by (auto simp: rc_inv_def dest!: map_of_SomeD)

lemma rc_getComponents_ids:
  "rc_inv r \<Longrightarrow> rc_getComponents cids r = Inr cs \<Longrightarrow> map co_ID cs = cids"
  by (induction cids arbitrary: cs) (auto split: option.splits sum.splits simp: rc_inv_lookup)

lemma rc_getComponents_registered:
  "rc_getComponents cids r = Inr cs \<Longrightarrow> \<forall>cid \<in> set cids. rc_isRegistered cid r"
  by (induction cids arbitrary: cs) (auto split: option.splits sum.splits simp: rc_isRegistered_def)

lemma rc_getComponents_Inl:
  "rc_getComponents cids r = Inl e \<Longrightarrow>
     \<exists>pre cid post. cids = pre @ cid # post \<and> e = rc_not_found cid \<and> \<not> rc_isRegistered cid r
       \<and> (\<forall>c \<in> set pre. rc_isRegistered c r)"
proof (induction cids)
  case (Cons cid cids)
  show ?case
  proof (cases "rc_isRegistered cid r")
    case True
    with Cons.prems have "rc_getComponents cids r = Inl e"
      by (auto simp: rc_isRegistered_def split: sum.splits)
    from Cons.IH [OF this] obtain pre c post where "cids = pre @ c # post" "e = rc_not_found c"
      "\<not> rc_isRegistered c r" "\<forall>c \<in> set pre. rc_isRegistered c r" by blast
    with True show ?thesis by (intro exI [of _ "cid # pre"] exI [of _ c] exI [of _ post]) simp
  next
    case False
    with Cons.prems show ?thesis
      by (intro exI [of _ "[]"] exI [of _ cid] exI [of _ cids]) (simp add: rc_isRegistered_def)
  qed
qed simp

lemma rc_register_cases:
  "case rc_register (Some c) r of
     (None, r') \<Rightarrow> \<not> rc_isRegistered (co_ID c) r \<and> rc_getComponents [co_ID c] r' = Inr [c]
         \<and> rc_getComponentCount r' = rc_getComponentCount r + 1
   | (Some e, r') \<Rightarrow> r' = r \<and> (rc_isRegistered (co_ID c) r \<or> co_ID c = '''')"
  by (auto simp: rc_register_def rc_isRegistered_def rc_getComponentCount_def alist_update_new map_add_def)

text \<open>
  After any sequence of registrations and removals, every component is kept under its own
  non-empty ID and no ID twice; a lookup returns exactly the requested components, in the order
  requested, or reports the first ID that is not registered; a second registration under an ID in use
  is refused and changes nothing.
\<close>

theorem registry_lookup_correct:
  "let r = fold rc_apply ops newRegistryCenter in
     rc_inv r
   \<and> (case rc_getComponents cids r of
        Inr cs \<Rightarrow> map co_ID cs = cids \<and> (\<forall>cid \<in> set cids. rc_isRegistered cid r)
      | Inl e \<Rightarrow> (\<exists>pre cid post. cids = pre @ cid # post \<and> e = rc_not_found cid \<and> \<not> rc_isRegistered cid r
                   \<and> (\<forall>c \<in> set pre. rc_isRegistered c r)))
   \<and> (case rc_register (Some c) r of
        (None, r') \<Rightarrow> \<not> rc_isRegistered (co_ID c) r \<and> rc_getComponents [co_ID c] r' = Inr [c]
            \<and> rc_getComponentCount r' = rc_getComponentCount r + 1
      | (Some e, r') \<Rightarrow> r' = r \<and> (rc_isRegistered (co_ID c) r \<or> co_ID c = ''''))"
proof -
  let ?r = "fold rc_apply ops newRegistryCenter"
  have inv: "rc_inv ?r" by (rule rc_inv_run)
  moreover have "case rc_getComponents cids ?r of
        Inr cs \<Rightarrow> map co_ID cs = cids \<and> (\<forall>cid \<in> set cids. rc_isRegistered cid ?r)
      | Inl e \<Rightarrow> (\<exists>pre cid post. cids = pre @ cid # post \<and> e = rc_not_found cid \<and> \<not> rc_isRegistered cid ?r
                   \<and> (\<forall>c \<in> set pre. rc_isRegistered c ?r))"
  proof (cases "rc_getComponents cids ?r")
    case (Inl e)
    show ?thesis unfolding Inl sum.case by (rule rc_getComponents_Inl [OF Inl])
  next
    case (Inr cs)
    with rc_getComponents_ids [OF inv Inr] rc_getComponents_registered [OF Inr] show ?thesis by simp
  qed
  ultimately show ?thesis unfolding Let_def using rc_register_cases [of c ?r] by blast
qed

theorem registry_lookup_correct_witness:
  "rc_getComponents [''b'', ''a''] (fold rc_apply [RegOp (Some (steady ''a'')), RegOp (Some (steady ''b'')),
     RegOp (Some (steady ''a'')), RegOp None, UnregOp ''z''] newRegistryCenter) = Inr [steady ''b'', steady ''a'']
   \<and> rc_inv (fold rc_apply [RegOp (Some (steady ''a'')), RegOp (Some (steady ''b'')),
     RegOp (Some (steady ''a'')), RegOp None, UnregOp ''z''] newRegistryCenter)"
  using registry_lookup_correct [of "[RegOp (Some (steady ''a'')), RegOp (Some (steady ''b'')),
     RegOp (Some (steady ''a'')), RegOp None, UnregOp ''z'']" "[''b'', ''a'']" "steady ''c''"]
  by (simp add: Let_def rc_register_def rc_unregister_def newRegistryCenter_def)

end
