(* ===== verification/Tx_Store.thy ===== *)
theory Tx_Store
  imports Redis Tcc_Interface
begin

text \<open>
  The transaction log (\<^verbatim>\<open>src/app/common/tcc/txstore.go\<close>) and the idempotency records
  (\<^verbatim>\<open>idempotency.go\<close>). The store keeps a transaction in a database table and a copy in Redis. Redis is the
  parameter described in \<open>Redis\<close>; the database (gorm) is the record \<open>tx_db\<close> of the five statements the
  store issues. A transaction is put into Redis as JSON and read back: \<open>TJson\<close> is such a text, \<open>TText\<close> any
  other, whose decoding fails. \<open>td_now\<close> is \<^verbatim>\<open>time.Now\<close> and \<open>td_sleep\<close> is \<^verbatim>\<open>time.Sleep\<close>.
\<close>

(* src: app/common/tcc/txstore.go:37-40 ComponentTryEntity *)
record component_try =
  ct_ComponentID :: string
  ct_TryStatus :: string

(* src: app/common/tcc/txstore.go:28-34 Transaction *)
record tx_record =
  tx_TXID :: string
  tx_Components :: "component_try list"
  tx_Status :: string
  tx_CreatedAt :: gotime
  tx_UpdatedAt :: gotime

datatype txval = TText string | TJson tx_record

definition tx_unmarshal :: "txval \<Rightarrow> err + tx_record" where
  "tx_unmarshal v = (case v of TJson tx \<Rightarrow> Inr tx | TText _ \<Rightarrow> Inl ''invalid character'')"

record 'w tx_db =
  db_Create :: "tx_record \<Rightarrow> 'w \<Rightarrow> err option \<times> 'w"
  db_First :: "string \<Rightarrow> 'w \<Rightarrow> (err + tx_record) \<times> 'w"
  db_UpdateComponents :: "string \<Rightarrow> component_try list \<Rightarrow> gotime \<Rightarrow> 'w \<Rightarrow> err option \<times> 'w"
  db_UpdateStatus :: "string \<Rightarrow> string \<Rightarrow> gotime \<Rightarrow> 'w \<Rightarrow> err option \<times> 'w"
  db_FindByStatus :: "string \<Rightarrow> 'w \<Rightarrow> (err + tx_record list) \<times> 'w"

(* src: app/common/tcc/txstore.go:14-25 TXStore, NewTXStore *)
record 'w tx_store =
  ts_db :: "'w tx_db"
  ts_redis :: "('w, txval) redis_client"
  ts_now :: "'w \<Rightarrow> gotime"
  ts_sleep :: "duration \<Rightarrow> 'w \<Rightarrow> 'w"

definition day :: duration where
  "day = 24 * hour"

definition txKey :: "string \<Rightarrow> string" where
  "txKey txID = ''tx:'' @ txID"

(* src: app/common/tcc/txstore.go:232-234 generateTXID *)
definition generateTXID :: "gotime \<Rightarrow> gotime \<Rightarrow> string" where
  "generateTXID t1 t2 = ''tx_'' @ itoa (t1 - 62135596800 * second) @ ''_'' @ itoa (go_unix t2)"

(* src: app/common/tcc/txstore.go:43-75 CreateTX *)
definition CreateTX :: "'w tx_store \<Rightarrow> ('w, 'd) tcc_component list \<Rightarrow> 'w \<Rightarrow> (err + string) \<times> 'w" where
  "CreateTX S cs w =
     (let now = ts_now S w;
          txID = generateTXID now now;
          tx = \<lparr>tx_TXID = txID,
                tx_Components = map (\<lambda>c. \<lparr>ct_ComponentID = co_ID c, ct_TryStatus = ''hanging''\<rparr>) cs,
                tx_Status = ''hanging'', tx_CreatedAt = now, tx_UpdatedAt = now\<rparr>
      in case db_Create (ts_db S) tx w of
           (Some e, w1) \<Rightarrow> (Inl e, w1)
         | (None, w1) \<Rightarrow> (Inr txID, snd (rd_Set (ts_redis S) (txKey txID) (TJson tx) day w1)))"

text \<open>
  \<^verbatim>\<open>TXUpdate\<close> reads the transaction, changes one component and writes the whole transaction back. The two
  halves are separate definitions because concurrent calls interleave between them.
\<close>

(* src: app/common/tcc/txstore.go:79-93 TXUpdate (read) *)
definition TXUpdate_read :: "'w tx_store \<Rightarrow> string \<Rightarrow> 'w \<Rightarrow> (err + tx_record) \<times> 'w" where
  "TXUpdate_read S txID w =
     (case rd_Get (ts_redis S) (txKey txID) w of
        (Inl _, w1) \<Rightarrow> db_First (ts_db S) txID w1
      | (Inr v, w1) \<Rightarrow> (tx_unmarshal v, w1))"

(* src: app/common/tcc/txstore.go:96-105 TXUpdate (component status) *)
definition set_try_status :: "string \<Rightarrow> bool \<Rightarrow> component_try list \<Rightarrow> component_try list" where
  "set_try_status cid accept cs =
     upd_first (\<lambda>c. ct_ComponentID c = cid)
       (\<lambda>c. c\<lparr>ct_TryStatus := if accept then ''successful'' else ''failure''\<rparr>) cs"

(* src: app/common/tcc/txstore.go:108-119 TXUpdate (write) *)
definition TXUpdate_write :: "'w tx_store \<Rightarrow> string \<Rightarrow> string \<Rightarrow> bool \<Rightarrow> tx_record \<Rightarrow> 'w \<Rightarrow> err option \<times> 'w" where
  "TXUpdate_write S txID cid accept tx w =
     (let cs = set_try_status cid accept (tx_Components tx) in
      case db_UpdateComponents (ts_db S) txID cs (ts_now S w) w of
        (Some e, w1) \<Rightarrow> (Some e, w1)
      | (None, w1) \<Rightarrow> (None, snd (rd_Set (ts_redis S) (txKey txID) (TJson (tx\<lparr>tx_Components := cs\<rparr>)) day w1)))"

(* src: app/common/tcc/txstore.go:78-120 TXUpdate *)
definition TXUpdate :: "'w tx_store \<Rightarrow> string \<Rightarrow> string \<Rightarrow> bool \<Rightarrow> 'w \<Rightarrow> err option \<times> 'w" where
  "TXUpdate S txID cid accept w =
     (case TXUpdate_read S txID w of
        (Inl e, w1) \<Rightarrow> (Some e, w1)
      | (Inr tx, w1) \<Rightarrow> TXUpdate_write S txID cid accept tx w1)"

(* src: app/common/tcc/txstore.go:123-150 TXSubmit *)
definition TXSubmit :: "'w tx_store \<Rightarrow> string \<Rightarrow> bool \<Rightarrow> 'w \<Rightarrow> err option \<times> 'w" where
  "TXSubmit S txID success w =
     (let status = (if success then ''successful'' else ''failure'') in
      case db_UpdateStatus (ts_db S) txID status (ts_now S w) w of
        (Some e, w1) \<Rightarrow> (Some e, w1)
      | (None, w1) \<Rightarrow>
          (case rd_Get (ts_redis S) (txKey txID) w1 of
             (Inl _, w2) \<Rightarrow> (None, w2)
           | (Inr v, w2) \<Rightarrow>
               (case tx_unmarshal v of
                  Inl _ \<Rightarrow> (None, w2)
                | Inr tx \<Rightarrow> (None, snd (rd_Set (ts_redis S) (txKey txID)
                     (TJson (tx\<lparr>tx_Status := status, tx_UpdatedAt := ts_now S w2\<rparr>)) day w2)))))"

fun submit_expired :: "'w tx_store \<Rightarrow> tx_record list \<Rightarrow> 'w \<Rightarrow> 'w" where
  "submit_expired S [] w = w"
| "submit_expired S (tx # txs) w = submit_expired S txs (snd (TXSubmit S (tx_TXID tx) False w))"

(* src: app/common/tcc/txstore.go:153-181 GetHangingTXs *)
definition GetHangingTXs :: "'w tx_store \<Rightarrow> 'w \<Rightarrow> (err + tx_record list) \<times> 'w" where
  "GetHangingTXs S w =
     (case db_FindByStatus (ts_db S) ''hanging'' w of
        (Inl e, w1) \<Rightarrow> (Inl e, w1)
      | (Inr txs, w1) \<Rightarrow>
          let timeout = ts_now S w1 - 30 * minute;
              expired = filter (\<lambda>tx. tx_CreatedAt tx < timeout) txs
          in db_FindByStatus (ts_db S) ''hanging'' (submit_expired S expired w1))"

(* src: app/common/tcc/txstore.go:184-205 GetTX *)
definition GetTX :: "'w tx_store \<Rightarrow> string \<Rightarrow> 'w \<Rightarrow> (err + tx_record) \<times> 'w" where
  "GetTX S txID w =
     (let from_db = (\<lambda>w1. case db_First (ts_db S) txID w1 of
             (Inl e, w2) \<Rightarrow> (Inl e, w2)
           | (Inr tx, w2) \<Rightarrow> (Inr tx, snd (rd_Set (ts_redis S) (txKey txID) (TJson tx) day w2)))
      in case rd_Get (ts_redis S) (txKey txID) w of
           (Inl _, w1) \<Rightarrow> from_db w1
         | (Inr v, w1) \<Rightarrow> (case tx_unmarshal v of Inr tx \<Rightarrow> (Inr tx, w1) | Inl _ \<Rightarrow> from_db w1))"

(* src: app/common/tcc/txstore.go:208-223 Lock *)
definition tx_Lock :: "'w tx_store \<Rightarrow> duration \<Rightarrow> 'w \<Rightarrow> err option \<times> 'w" where
  "tx_Lock S expire w =
     (case rd_SetNX (ts_redis S) ''txstore:lock'' (TText (itoa (ts_now S w - 62135596800 * second))) expire w of
        (Inl e, w1) \<Rightarrow> (Some e, w1)
      | (Inr True, w1) \<Rightarrow> (None, w1)
      | (Inr False, w1) \<Rightarrow> (Some ''failed to acquire lock'', w1))"

(* src: app/common/tcc/txstore.go:226-229 Unlock *)
definition tx_Unlock :: "'w tx_store \<Rightarrow> 'w \<Rightarrow> err option \<times> 'w" where
  "tx_Unlock S w = rd_Del (ts_redis S) ''txstore:lock'' w"

subsection \<open>Idempotency records\<close>

(* src: app/common/tcc/idempotency.go:12-18 Phase, constants *)
fun idem_phase :: "phase \<Rightarrow> string" where
  "idem_phase PhaseTry = ''try''"
| "idem_phase PhaseConfirm = ''confirm''"
| "idem_phase PhaseCancel = ''cancel''"

(* src: app/common/tcc/idempotency.go:29-31 IdempotencyStore.key *)
definition idem_key :: "string \<Rightarrow> string \<Rightarrow> phase \<Rightarrow> string" where
  "idem_key txID cid ph = ''tcc:idem:'' @ txID @ '':'' @ cid @ '':'' @ idem_phase ph"

(* src: app/common/tcc/idempotency.go:35-43 CheckAndMark *)
definition CheckAndMark :: "'w tx_store \<Rightarrow> string \<Rightarrow> string \<Rightarrow> phase \<Rightarrow> duration \<Rightarrow> 'w \<Rightarrow> (err + bool) \<times> 'w" where
  "CheckAndMark S txID cid ph ttl w =
     (case rd_SetNX (ts_redis S) (idem_key txID cid ph) (TText ''done'') ttl w of
        (Inl e, w1) \<Rightarrow> (Inl e, w1)
      | (Inr isNew, w1) \<Rightarrow> (Inr (\<not> isNew), w1))"

(* src: app/common/tcc/idempotency.go:46-49 MarkExplicit *)
definition MarkExplicit :: "'w tx_store \<Rightarrow> string \<Rightarrow> string \<Rightarrow> phase \<Rightarrow> duration \<Rightarrow> 'w \<Rightarrow> err option \<times> 'w" where
  "MarkExplicit S txID cid ph ttl w = rd_Set (ts_redis S) (idem_key txID cid ph) (TText ''done'') ttl w"

subsection \<open>What the store relies on\<close>

text \<open>
  The documented behaviour of the two servers: Redis as in \<open>redis_conforms\<close>, and a table of transactions
  in which an update changes the rows with the given ID. Neither server touches the other's data, and
  time passes between the calls only.
\<close>

definition upd_rows :: "string \<Rightarrow> (tx_record \<Rightarrow> tx_record) \<Rightarrow> tx_record list \<Rightarrow> tx_record list" where
  "upd_rows txID f rows = map (\<lambda>tx. if tx_TXID tx = txID then f tx else tx) rows"

definition db_conforms :: "'w tx_db \<Rightarrow> ('w \<Rightarrow> tx_record list) \<Rightarrow> bool" where
  "db_conforms D rows \<longleftrightarrow>
     (\<forall>tx w. tx_TXID tx \<notin> tx_TXID ` set (rows w) \<longrightarrow>
        fst (db_Create D tx w) = None \<and> rows (snd (db_Create D tx w)) = rows w @ [tx])
   \<and> (\<forall>txID w. fst (db_First D txID w) =
          (case find (\<lambda>tx. tx_TXID tx = txID) (rows w) of None \<Rightarrow> Inl ''record not found'' | Some tx \<Rightarrow> Inr tx)
        \<and> rows (snd (db_First D txID w)) = rows w)
   \<and> (\<forall>txID cs t w. fst (db_UpdateComponents D txID cs t w) = None
        \<and> rows (snd (db_UpdateComponents D txID cs t w)) =
            upd_rows txID (\<lambda>tx. tx\<lparr>tx_Components := cs, tx_UpdatedAt := t\<rparr>) (rows w))
   \<and> (\<forall>txID st t w. fst (db_UpdateStatus D txID st t w) = None
        \<and> rows (snd (db_UpdateStatus D txID st t w)) =
            upd_rows txID (\<lambda>tx. tx\<lparr>tx_Status := st, tx_UpdatedAt := t\<rparr>) (rows w))
   \<and> (\<forall>st w. fst (db_FindByStatus D st w) = Inr (filter (\<lambda>tx. tx_Status tx = st) (rows w))
        \<and> rows (snd (db_FindByStatus D st w)) = rows w)"

definition keeps :: "('w \<Rightarrow> 'a) \<Rightarrow> ('w \<Rightarrow> 'b \<times> 'w) \<Rightarrow> bool" where
  "keeps view act \<longleftrightarrow> (\<forall>w. view (snd (act w)) = view w)"

definition store_conforms ::
    "'w tx_store \<Rightarrow> ('w \<Rightarrow> gotime) \<Rightarrow> ('w \<Rightarrow> txval rdb) \<Rightarrow> ('w \<Rightarrow> tx_record list) \<Rightarrow> bool" where
  "store_conforms S clock obs rows \<longleftrightarrow>
     redis_conforms (ts_redis S) clock obs \<and> db_conforms (ts_db S) rows \<and> ts_now S = clock
   \<and> (\<forall>k. keeps rows (rd_Get (ts_redis S) k)) \<and> (\<forall>k v t. keeps rows (rd_Set (ts_redis S) k v t))
   \<and> (\<forall>k v t. keeps rows (rd_SetNX (ts_redis S) k v t)) \<and> (\<forall>k. keeps rows (rd_Del (ts_redis S) k))
   \<and> (\<forall>tx. keeps obs (db_Create (ts_db S) tx) \<and> keeps clock (db_Create (ts_db S) tx))
   \<and> (\<forall>i. keeps obs (db_First (ts_db S) i) \<and> keeps clock (db_First (ts_db S) i))
   \<and> (\<forall>i c t. keeps obs (db_UpdateComponents (ts_db S) i c t) \<and> keeps clock (db_UpdateComponents (ts_db S) i c t))
   \<and> (\<forall>i s t. keeps obs (db_UpdateStatus (ts_db S) i s t) \<and> keeps clock (db_UpdateStatus (ts_db S) i s t))
   \<and> (\<forall>s. keeps obs (db_FindByStatus (ts_db S) s) \<and> keeps clock (db_FindByStatus (ts_db S) s))"

text \<open>An in-memory pair of servers that conforms; \<open>'x\<close> is the rest of the world.\<close>

type_synonym 'x tx_mem = "(txval, tx_record list \<times> 'x) mem"

definition mem_rows :: "'x tx_mem \<Rightarrow> tx_record list" where
  "mem_rows w = fst (snd (snd w))"

definition mem_db :: "'x tx_mem tx_db" where
  "mem_db = \<lparr>
     db_Create = (\<lambda>tx (t, db, rows, x).
       if tx_TXID tx \<in> tx_TXID ` set rows then (Some ''duplicated key not allowed'', t, db, rows, x)
       else (None, t, db, rows @ [tx], x)),
     db_First = (\<lambda>txID (t, db, rows, x).
       (case find (\<lambda>tx. tx_TXID tx = txID) rows of None \<Rightarrow> Inl ''record not found'' | Some tx \<Rightarrow> Inr tx, t, db, rows, x)),
     db_UpdateComponents = (\<lambda>txID cs u (t, db, rows, x).
       (None, t, db, upd_rows txID (\<lambda>tx. tx\<lparr>tx_Components := cs, tx_UpdatedAt := u\<rparr>) rows, x)),
     db_UpdateStatus = (\<lambda>txID st u (t, db, rows, x).
       (None, t, db, upd_rows txID (\<lambda>tx. tx\<lparr>tx_Status := st, tx_UpdatedAt := u\<rparr>) rows, x)),
     db_FindByStatus = (\<lambda>st (t, db, rows, x). (Inr (filter (\<lambda>tx. tx_Status tx = st) rows), t, db, rows, x))\<rparr>"

definition mem_store :: "'x tx_mem tx_store" where
  "mem_store = \<lparr>ts_db = mem_db, ts_redis = mem_redis, ts_now = mem_clock,
     ts_sleep = (\<lambda>d (t, r). (t + d, r))\<rparr>"

text \<open>The updates of a transaction's components, one after the other.\<close>

fun tx_updates :: "'w tx_store \<Rightarrow> string \<Rightarrow> (string \<times> bool) list \<Rightarrow> 'w \<Rightarrow> 'w" where
  "tx_updates S txID [] w = w"
| "tx_updates S txID ((cid, acc) # us) w = tx_updates S txID us (snd (TXUpdate S txID cid acc w))"

definition apply_updates :: "(string \<times> bool) list \<Rightarrow> component_try list \<Rightarrow> component_try list" where
  "apply_updates us cs = fold (\<lambda>(cid, acc). set_try_status cid acc) us cs"

text \<open>The live Redis copy of a transaction.\<close>

definition logged_tx :: "gotime \<Rightarrow> txval rdb \<Rightarrow> string \<Rightarrow> tx_record option" where
  "logged_tx now db txID = (case rdb_get now (txKey txID) db of Some (TJson tx) \<Rightarrow> Some tx | _ \<Rightarrow> None)"

text \<open>A component for the concrete runs, which accepts everything.\<close>

definition quiet :: "string \<Rightarrow> ('w, unit) tcc_component" where
  "quiet cid = (let ok = (\<lambda>w. (Inr \<lparr>rs_ComponentID = cid, rs_TXID = [], rs_ACK = True\<rparr>, w))
     in \<lparr>co_ID = cid, co_Try = (\<lambda>_. ok), co_Confirm = (\<lambda>_. ok), co_Cancel = (\<lambda>_. ok)\<rparr>)"

lemma quiet_ID [simp]: "co_ID (quiet cid) = cid"
  by (simp add: quiet_def Let_def)

lemma mem_store_conforms: "store_conforms mem_store mem_clock mem_obs mem_rows"
proof -
  have "db_conforms mem_db (mem_rows :: 'x tx_mem \<Rightarrow> _)"
    by (auto simp: db_conforms_def mem_db_def mem_rows_def)
  then show ?thesis
    by (simp add: store_conforms_def mem_store_def mem_redis_conforms)
       (auto simp: keeps_def mem_redis_def mem_db_def mem_obs_def mem_rows_def mem_clock_def)
qed

subsection \<open>The store's operations on conforming servers\<close>

lemma GetTX_logged:
  assumes "store_conforms S clock obs rows" and "logged_tx (clock w) (obs w) txID = Some tx"
  shows "fst (GetTX S txID w) = Inr tx" and "obs (snd (GetTX S txID w)) = obs w"
    and "clock (snd (GetTX S txID w)) = clock w" and "rows (snd (GetTX S txID w)) = rows w"
proof -
  have r: "redis_conforms (ts_redis S) clock obs" using assms(1) by (simp add: store_conforms_def)
  have g: "rdb_get (clock w) (txKey txID) (obs w) = Some (TJson tx)"
    using assms(2) by (simp add: logged_tx_def split: option.splits txval.splits)
  obtain w1 where w1: "rd_Get (ts_redis S) (txKey txID) w = (Inr (TJson tx), w1)"
    using conforms_Get(1) [OF r, of "txKey txID" w] g by (metis option.case(2) prod.collapse)
  have "rows w1 = rows w" using assms(1) w1 by (auto simp: store_conforms_def keeps_def) (metis snd_conv)
  then show "fst (GetTX S txID w) = Inr tx" "obs (snd (GetTX S txID w)) = obs w"
    "clock (snd (GetTX S txID w)) = clock w" "rows (snd (GetTX S txID w)) = rows w"
    using conforms_Get(2,3) [OF r, of "txKey txID" w] w1
    by (simp_all add: GetTX_def tx_unmarshal_def)
qed

lemma conforms_redis: "store_conforms S clock obs rows \<Longrightarrow> redis_conforms (ts_redis S) clock obs"
  and conforms_now: "store_conforms S clock obs rows \<Longrightarrow> ts_now S = clock"
  by (simp_all add: store_conforms_def)

lemma conforms_redis_rows:
  assumes "store_conforms S clock obs rows"
  shows "rows (snd (rd_Get (ts_redis S) k w)) = rows w" and "rows (snd (rd_Set (ts_redis S) k v t w)) = rows w"
    and "rows (snd (rd_SetNX (ts_redis S) k v t w)) = rows w" and "rows (snd (rd_Del (ts_redis S) k w)) = rows w"
  using assms by (simp_all add: store_conforms_def keeps_def)

lemma conforms_UpdateComponents:
  assumes "store_conforms S clock obs rows"
  shows "fst (db_UpdateComponents (ts_db S) i cs t w) = None"
    and "rows (snd (db_UpdateComponents (ts_db S) i cs t w)) =
        upd_rows i (\<lambda>tx. tx\<lparr>tx_Components := cs, tx_UpdatedAt := t\<rparr>) (rows w)"
    and "obs (snd (db_UpdateComponents (ts_db S) i cs t w)) = obs w"
    and "clock (snd (db_UpdateComponents (ts_db S) i cs t w)) = clock w"
  using assms by (simp_all add: store_conforms_def keeps_def db_conforms_def)

lemma conforms_UpdateStatus:
  assumes "store_conforms S clock obs rows"
  shows "fst (db_UpdateStatus (ts_db S) i st t w) = None"
    and "rows (snd (db_UpdateStatus (ts_db S) i st t w)) =
        upd_rows i (\<lambda>tx. tx\<lparr>tx_Status := st, tx_UpdatedAt := t\<rparr>) (rows w)"
    and "obs (snd (db_UpdateStatus (ts_db S) i st t w)) = obs w"
    and "clock (snd (db_UpdateStatus (ts_db S) i st t w)) = clock w"
  using assms by (simp_all add: store_conforms_def keeps_def db_conforms_def)

lemma conforms_Create:
  assumes "store_conforms S clock obs rows" and "tx_TXID tx \<notin> tx_TXID ` set (rows w)"
  shows "fst (db_Create (ts_db S) tx w) = None" and "rows (snd (db_Create (ts_db S) tx w)) = rows w @ [tx]"
    and "obs (snd (db_Create (ts_db S) tx w)) = obs w" and "clock (snd (db_Create (ts_db S) tx w)) = clock w"
  using assms by (simp_all add: store_conforms_def keeps_def db_conforms_def)

lemma TXUpdate_read_logged:
  assumes "store_conforms S clock obs rows" and "logged_tx (clock w) (obs w) txID = Some tx"
  shows "fst (TXUpdate_read S txID w) = Inr tx" and "obs (snd (TXUpdate_read S txID w)) = obs w"
    and "clock (snd (TXUpdate_read S txID w)) = clock w" and "rows (snd (TXUpdate_read S txID w)) = rows w"
proof -
  note r = conforms_redis [OF assms(1)]
  have g: "rdb_get (clock w) (txKey txID) (obs w) = Some (TJson tx)"
    using assms(2) by (simp add: logged_tx_def split: option.splits txval.splits)
  obtain w1 where w1: "rd_Get (ts_redis S) (txKey txID) w = (Inr (TJson tx), w1)"
    using conforms_Get(1) [OF r, of "txKey txID" w] g by (metis option.case(2) prod.collapse)
  show "fst (TXUpdate_read S txID w) = Inr tx" "obs (snd (TXUpdate_read S txID w)) = obs w"
    "clock (snd (TXUpdate_read S txID w)) = clock w" "rows (snd (TXUpdate_read S txID w)) = rows w"
    using conforms_Get(2,3) [OF r, of "txKey txID" w] conforms_redis_rows(1) [OF assms(1), of "txKey txID" w] w1
    by (simp_all add: TXUpdate_read_def tx_unmarshal_def)
qed

lemma TXUpdate_write_conforms:
  assumes "store_conforms S clock obs rows"
  shows "fst (TXUpdate_write S txID cid acc tx w) = None"
    and "obs (snd (TXUpdate_write S txID cid acc tx w)) =
        rdb_set (clock w) (txKey txID) (TJson (tx\<lparr>tx_Components := set_try_status cid acc (tx_Components tx)\<rparr>)) day (obs w)"
    and "clock (snd (TXUpdate_write S txID cid acc tx w)) = clock w"
    and "rows (snd (TXUpdate_write S txID cid acc tx w)) = upd_rows txID
        (\<lambda>r. r\<lparr>tx_Components := set_try_status cid acc (tx_Components tx), tx_UpdatedAt := clock w\<rparr>) (rows w)"
  using conforms_UpdateComponents [OF assms] conforms_Set [OF conforms_redis [OF assms]] conforms_redis_rows [OF assms]
    conforms_now [OF assms]
  by (simp_all add: TXUpdate_write_def Let_def case_prod_beta)

lemma find_upd_rows:
  "find (\<lambda>r. tx_TXID r = i) rows = Some row \<Longrightarrow> (\<And>r. tx_TXID (f r) = tx_TXID r) \<Longrightarrow>
   find (\<lambda>r. tx_TXID r = i) (upd_rows i f rows) = Some (f row)"
  by (induction rows) (auto simp: upd_rows_def split: if_splits)

lemma upd_rows_ids: "(\<And>r. tx_TXID (f r) = tx_TXID r) \<Longrightarrow> map tx_TXID (upd_rows i f rows) = map tx_TXID rows"
  by (simp add: upd_rows_def)

lemma in_upd_rows:
  assumes "\<And>r. tx_TXID (f r) = tx_TXID r"
  shows "r \<in> set (upd_rows i f rows) \<Longrightarrow> tx_TXID r = i \<Longrightarrow> \<exists>r0. r = f r0"
proof (induction rows)
  case (Cons x rows)
  from Cons.prems(1) consider "r = (if tx_TXID x = i then f x else x)" | "r \<in> set (upd_rows i f rows)"
    unfolding upd_rows_def list.map set_simps by blast
  then show ?case
  proof cases
    case 1
    with Cons.prems(2) show ?thesis by (cases "tx_TXID x = i") auto
  qed (use Cons in blast)
qed (simp add: upd_rows_def)

lemma find_append: "find P (xs @ ys) = (case find P xs of None \<Rightarrow> find P ys | Some x \<Rightarrow> Some x)"
  by (induction xs) auto

lemma day_pos [simp]: "0 < day"
  by (simp add: day_def)

lemma logged_tx_set:
  "logged_tx now (rdb_set t (txKey txID) (TJson tx) day db) txID = (if t + day \<le> now then None else Some tx)"
  by (simp add: logged_tx_def rdb_simps)

lemma TXUpdate_logged:
  assumes "store_conforms S clock obs rows" and "logged_tx (clock w) (obs w) txID = Some tx"
    and "tx' = tx\<lparr>tx_Components := set_try_status cid acc (tx_Components tx)\<rparr>"
  shows "fst (TXUpdate S txID cid acc w) = None"
    and "obs (snd (TXUpdate S txID cid acc w)) = rdb_set (clock w) (txKey txID) (TJson tx') day (obs w)"
    and "clock (snd (TXUpdate S txID cid acc w)) = clock w"
    and "logged_tx (clock w) (obs (snd (TXUpdate S txID cid acc w))) txID = Some tx'"
    and "rows (snd (TXUpdate S txID cid acc w)) = upd_rows txID
        (\<lambda>r. r\<lparr>tx_Components := tx_Components tx', tx_UpdatedAt := clock w\<rparr>) (rows w)"
proof -
  note r = TXUpdate_read_logged [OF assms(1,2)]
  have u: "TXUpdate S txID cid acc w = TXUpdate_write S txID cid acc tx (snd (TXUpdate_read S txID w))"
    using r(1) by (simp add: TXUpdate_def case_prod_beta)
  show "fst (TXUpdate S txID cid acc w) = None"
    and o: "obs (snd (TXUpdate S txID cid acc w)) = rdb_set (clock w) (txKey txID) (TJson tx') day (obs w)"
    and "clock (snd (TXUpdate S txID cid acc w)) = clock w"
    and "rows (snd (TXUpdate S txID cid acc w)) = upd_rows txID
        (\<lambda>r. r\<lparr>tx_Components := tx_Components tx', tx_UpdatedAt := clock w\<rparr>) (rows w)"
    unfolding u by (simp_all add: TXUpdate_write_conforms [OF assms(1)] r assms(3))
  show "logged_tx (clock w) (obs (snd (TXUpdate S txID cid acc w))) txID = Some tx'"
    unfolding o by (simp add: logged_tx_set not_le)
qed

lemma split_at_sep:
  "c \<notin> set xs \<Longrightarrow> c \<notin> set ys \<Longrightarrow> xs @ c # r = ys @ c # s \<Longrightarrow> xs = ys \<and> r = s"
proof (induction xs arbitrary: ys)
  case Nil
  then show ?case by (cases ys) auto
next
  case (Cons x xs)
  then show ?case by (cases ys) auto
qed

lemma idem_phase_inj: "idem_phase p = idem_phase q \<Longrightarrow> p = q"
  by (cases p; cases q) simp_all

lemma idem_key_inj:
  assumes "CHR '':'' \<notin> set (txID @ txID' @ cid @ cid')" and "idem_key txID cid ph = idem_key txID' cid' ph'"
  shows "(txID, cid, ph) = (txID', cid', ph')"
proof -
  from assms(2) have e: "txID @ CHR '':'' # cid @ CHR '':'' # idem_phase ph =
      txID' @ CHR '':'' # cid' @ CHR '':'' # idem_phase ph'" by (simp add: idem_key_def)
  from split_at_sep [OF _ _ e] assms(1) have 1: "txID = txID'"
    and e2: "cid @ CHR '':'' # idem_phase ph = cid' @ CHR '':'' # idem_phase ph'" by auto
  from split_at_sep [OF _ _ e2] assms(1) have "cid = cid'" "idem_phase ph = idem_phase ph'" by auto
  with 1 idem_phase_inj show ?thesis by blast
qed

lemma CheckAndMark_conforms:
  assumes "store_conforms S clock obs rows"
  shows "fst (CheckAndMark S txID cid ph ttl w) = Inr (rdb_get (clock w) (idem_key txID cid ph) (obs w) \<noteq> None)"
    and "obs (snd (CheckAndMark S txID cid ph ttl w)) =
        (if rdb_get (clock w) (idem_key txID cid ph) (obs w) = None
         then rdb_set (clock w) (idem_key txID cid ph) (TText ''done'') ttl (obs w) else obs w)"
    and "clock (snd (CheckAndMark S txID cid ph ttl w)) = clock w"
    and "rows (snd (CheckAndMark S txID cid ph ttl w)) = rows w"
  using conforms_SetNX [OF conforms_redis [OF assms]] conforms_redis_rows [OF assms]
  by (simp_all add: CheckAndMark_def case_prod_beta)

lemma CreateTX_conforms:
  assumes "store_conforms S clock obs rows"
    and "txID = generateTXID (clock w) (clock w)" and "txID \<notin> tx_TXID ` set (rows w)"
    and "tx = \<lparr>tx_TXID = txID, tx_Components = map (\<lambda>c. \<lparr>ct_ComponentID = co_ID c, ct_TryStatus = ''hanging''\<rparr>) cs,
           tx_Status = ''hanging'', tx_CreatedAt = clock w, tx_UpdatedAt = clock w\<rparr>"
  shows "fst (CreateTX S cs w) = Inr txID" and "clock (snd (CreateTX S cs w)) = clock w"
    and "obs (snd (CreateTX S cs w)) = rdb_set (clock w) (txKey txID) (TJson tx) day (obs w)"
    and "rows (snd (CreateTX S cs w)) = rows w @ [tx]"
proof -
  have n: "tx_TXID tx \<notin> tx_TXID ` set (rows w)" using assms(3,4) by simp
  show "fst (CreateTX S cs w) = Inr txID" "clock (snd (CreateTX S cs w)) = clock w"
    "obs (snd (CreateTX S cs w)) = rdb_set (clock w) (txKey txID) (TJson tx) day (obs w)"
    "rows (snd (CreateTX S cs w)) = rows w @ [tx]"
    using conforms_Create [OF assms(1) n] conforms_Set [OF conforms_redis [OF assms(1)]]
      conforms_redis_rows(2) [OF assms(1)] conforms_now [OF assms(1)]
    by (simp_all add: CreateTX_def Let_def case_prod_beta flip: assms(2,4))
qed

lemma tx_updates_logged:
  assumes "store_conforms S clock obs rows"
  shows "logged_tx (clock w) (obs w) txID = Some tx \<Longrightarrow> find (\<lambda>r. tx_TXID r = txID) (rows w) = Some row \<Longrightarrow>
     tx_Components row = tx_Components tx \<Longrightarrow>
     clock (tx_updates S txID us w) = clock w
   \<and> logged_tx (clock w) (obs (tx_updates S txID us w)) txID =
       Some (tx\<lparr>tx_Components := apply_updates us (tx_Components tx)\<rparr>)
   \<and> (\<exists>r. find (\<lambda>r. tx_TXID r = txID) (rows (tx_updates S txID us w)) = Some r
        \<and> tx_Components r = apply_updates us (tx_Components tx))"
proof (induction us arbitrary: w tx row)
  case Nil
  then show ?case by (simp add: apply_updates_def)
next
  case (Cons u us)
  obtain cid acc where u: "u = (cid, acc)" by (cases u)
  let ?tx = "tx\<lparr>tx_Components := set_try_status cid acc (tx_Components tx)\<rparr>"
  let ?w = "snd (TXUpdate S txID cid acc w)"
  note s = TXUpdate_logged [OF assms Cons.prems(1) refl, of cid acc]
  have "find (\<lambda>r. tx_TXID r = txID) (rows ?w) =
      Some (row\<lparr>tx_Components := tx_Components ?tx, tx_UpdatedAt := clock w\<rparr>)"
    unfolding s(5) using Cons.prems(2) by (intro find_upd_rows) simp_all
  from Cons.IH [OF _ this, of ?tx] s show ?case by (simp add: u apply_updates_def)
qed

text \<open>
  C22. The transaction log is faithful: after a transaction is created and its components' outcomes are
  reported one after the other, reading the transaction gives every component with its last reported
  outcome (still hanging if none was), and the row in the database has the same components as the copy
  in Redis.
\<close>

theorem tx_log_faithful:
  assumes "store_conforms S clock obs rows" and "generateTXID (clock w) (clock w) \<notin> tx_TXID ` set (rows w)"
    and "CreateTX S cs w = (r, w1)" and "w2 = tx_updates S (generateTXID (clock w) (clock w)) us w1"
  shows "r = Inr (generateTXID (clock w) (clock w))
   \<and> (\<exists>tx row. fst (GetTX S (generateTXID (clock w) (clock w)) w2) = Inr tx
        \<and> tx_Status tx = ''hanging'' \<and> tx_CreatedAt tx = clock w
        \<and> tx_Components tx = apply_updates us (map (\<lambda>c. \<lparr>ct_ComponentID = co_ID c, ct_TryStatus = ''hanging''\<rparr>) cs)
        \<and> find (\<lambda>t. tx_TXID t = generateTXID (clock w) (clock w)) (rows w2) = Some row
        \<and> tx_Components row = tx_Components tx)"
proof -
  let ?id = "generateTXID (clock w) (clock w)"
  let ?tx = "\<lparr>tx_TXID = ?id, tx_Components = map (\<lambda>c. \<lparr>ct_ComponentID = co_ID c, ct_TryStatus = ''hanging''\<rparr>) cs,
           tx_Status = ''hanging'', tx_CreatedAt = clock w, tx_UpdatedAt = clock w\<rparr>"
  note c = CreateTX_conforms [OF assms(1) refl assms(2) refl, of cs, unfolded assms(3) fst_conv snd_conv]
  have l: "logged_tx (clock w1) (obs w1) ?id = Some ?tx" by (simp add: c logged_tx_set not_le)
  have "find (\<lambda>r. tx_TXID r = ?id) (rows w) = None" using assms(2) by (force simp: find_None_iff)
  then have f: "find (\<lambda>r. tx_TXID r = ?id) (rows w1) = Some ?tx" by (simp add: c find_append)
  note u = tx_updates_logged [OF assms(1) l f refl, of us, folded assms(4)]
  have "logged_tx (clock w2) (obs w2) ?id = Some (?tx\<lparr>tx_Components := apply_updates us (tx_Components ?tx)\<rparr>)"
    using u by simp
  from GetTX_logged(1) [OF assms(1) this] u c(1) show ?thesis by auto
qed

theorem tx_log_faithful_witness:
  "\<exists>tx. fst (GetTX mem_store (generateTXID 7 7) (tx_updates mem_store (generateTXID 7 7) [(''b'', True)]
       (snd (CreateTX mem_store [quiet ''a'', quiet ''b''] (7, Map.empty, [], ()))))) = Inr tx
     \<and> tx_Components tx = [\<lparr>ct_ComponentID = ''a'', ct_TryStatus = ''hanging''\<rparr>,
                           \<lparr>ct_ComponentID = ''b'', ct_TryStatus = ''successful''\<rparr>]"
proof -
  let ?w = "(7, Map.empty, [], ()) :: unit tx_mem"
  have m: "mem_clock ?w = 7" "mem_rows ?w = []" by (simp_all add: mem_clock_def mem_rows_def)
  from tx_log_faithful [OF mem_store_conforms _ prod.collapse [symmetric] refl,
      of ?w "[quiet ''a'', quiet ''b'']" "[(''b'', True)]", unfolded m]
  show ?thesis
    by (auto simp: apply_updates_def set_try_status_def)
qed

text \<open>
  Concurrent reports lose outcomes. The try phase runs one goroutine per component, and each reports
  through a read followed by a write of the whole transaction. If two of them read before either
  writes, the second write restores the state the first one replaced: the outcome of the first
  component is lost from Redis and from the database, so it stays hanging although both calls returned
  no error. Run one after the other, both outcomes are kept.
\<close>

theorem concurrent_updates_lose_outcome:
  assumes "store_conforms S clock obs rows" and "logged_tx (clock w) (obs w) txID = Some tx"
    and "tx_Components tx = [\<lparr>ct_ComponentID = a, ct_TryStatus = ''hanging''\<rparr>, \<lparr>ct_ComponentID = b, ct_TryStatus = ''hanging''\<rparr>]"
    and "a \<noteq> b"
    and "TXUpdate_read S txID w = (Inr txa, w1)" and "TXUpdate_read S txID w1 = (Inr txb, w2)"
    and "TXUpdate_write S txID a True txa w2 = (ea, w3)" and "TXUpdate_write S txID b True txb w3 = (eb, w4)"
  shows "ea = None \<and> eb = None
   \<and> fst (GetTX S txID w4) = Inr (tx\<lparr>tx_Components := [\<lparr>ct_ComponentID = a, ct_TryStatus = ''hanging''\<rparr>,
         \<lparr>ct_ComponentID = b, ct_TryStatus = ''successful''\<rparr>]\<rparr>)
   \<and> (\<forall>r \<in> set (rows w4). tx_TXID r = txID \<longrightarrow> \<lparr>ct_ComponentID = a, ct_TryStatus = ''hanging''\<rparr> \<in> set (tx_Components r))
   \<and> fst (GetTX S txID (tx_updates S txID [(a, True), (b, True)] w)) =
       Inr (tx\<lparr>tx_Components := [\<lparr>ct_ComponentID = a, ct_TryStatus = ''successful''\<rparr>,
         \<lparr>ct_ComponentID = b, ct_TryStatus = ''successful''\<rparr>]\<rparr>)"
proof -
  note c = assms(1)
  note r1 = TXUpdate_read_logged [OF c assms(2), unfolded assms(5) fst_conv snd_conv]
  have "logged_tx (clock w1) (obs w1) txID = Some tx" using assms(2) r1 by simp
  note r2 = TXUpdate_read_logged [OF c this, unfolded assms(6) fst_conv snd_conv]
  note x1 = TXUpdate_write_conforms [OF c, of txID a True txa w2, unfolded assms(7) fst_conv snd_conv]
  note x2 = TXUpdate_write_conforms [OF c, of txID b True txb w3, unfolded assms(8) fst_conv snd_conv]
  have txb: "txa = tx" "txb = tx" using r1(1) r2(1) by simp_all
  have s: "set_try_status b True (tx_Components tx) =
      [\<lparr>ct_ComponentID = a, ct_TryStatus = ''hanging''\<rparr>, \<lparr>ct_ComponentID = b, ct_TryStatus = ''successful''\<rparr>]"
    using assms(3,4) by (simp add: set_try_status_def)
  let ?t = "tx\<lparr>tx_Components := set_try_status b True (tx_Components tx)\<rparr>"
  have "logged_tx (clock w4) (obs w4) txID = Some ?t"
    using x2 by (simp add: logged_tx_set txb not_le)
  note g = GetTX_logged(1) [OF c this]
  have rw: "\<forall>r \<in> set (rows w4). tx_TXID r = txID \<longrightarrow> tx_Components r = set_try_status b True (tx_Components tx)"
    unfolding x2(4) txb by (rule ballI, rule impI, drule (1) in_upd_rows [rotated]) auto
  let ?w5 = "snd (TXUpdate S txID a True w)"
  note u1 = TXUpdate_logged [OF c assms(2) refl, of a True]
  note u2 = TXUpdate_logged [OF c u1(4) [folded u1(3)] refl, of b True]
  have q: "fst (GetTX S txID (tx_updates S txID [(a, True), (b, True)] w)) = Inr (tx\<lparr>tx_Components :=
      set_try_status b True (set_try_status a True (tx_Components tx))\<rparr>)"
    using GetTX_logged(1) [OF c u2(4) [folded u2(3)]] by simp
  have s2: "set_try_status b True (set_try_status a True (tx_Components tx)) =
      [\<lparr>ct_ComponentID = a, ct_TryStatus = ''successful''\<rparr>, \<lparr>ct_ComponentID = b, ct_TryStatus = ''successful''\<rparr>]"
    using assms(3,4) by (simp add: set_try_status_def)
  show ?thesis
    using x1(1) x2(1) g rw unfolding q s s2 by simp
qed

theorem concurrent_updates_lose_outcome_witness:
  "let tx = \<lparr>tx_TXID = ''t'', tx_Components = [\<lparr>ct_ComponentID = ''a'', ct_TryStatus = ''hanging''\<rparr>,
         \<lparr>ct_ComponentID = ''b'', ct_TryStatus = ''hanging''\<rparr>], tx_Status = ''hanging'', tx_CreatedAt = 0, tx_UpdatedAt = 0\<rparr>;
       w = (5, [txKey ''t'' \<mapsto> (TJson tx, None)], [tx], ()) :: unit tx_mem;
       w4 = snd (TXUpdate_write mem_store ''t'' ''b'' True tx (snd (TXUpdate_write mem_store ''t'' ''a'' True tx w)))
   in fst (GetTX mem_store ''t'' w4) = Inr (tx\<lparr>tx_Components := [\<lparr>ct_ComponentID = ''a'', ct_TryStatus = ''hanging''\<rparr>,
         \<lparr>ct_ComponentID = ''b'', ct_TryStatus = ''successful''\<rparr>]\<rparr>)"
proof -
  let ?tx = "\<lparr>tx_TXID = ''t'', tx_Components = [\<lparr>ct_ComponentID = ''a'', ct_TryStatus = ''hanging''\<rparr>,
         \<lparr>ct_ComponentID = ''b'', ct_TryStatus = ''hanging''\<rparr>], tx_Status = ''hanging'', tx_CreatedAt = 0, tx_UpdatedAt = 0\<rparr>"
  let ?w = "(5, [txKey ''t'' \<mapsto> (TJson ?tx, None)], [?tx], ()) :: unit tx_mem"
  have l: "logged_tx (mem_clock ?w) (mem_obs ?w) ''t'' = Some ?tx"
    by (simp add: logged_tx_def mem_clock_def mem_obs_def rdb_get_def)
  have r: "TXUpdate_read mem_store ''t'' ?w = (Inr ?tx, ?w)"
    by (simp add: TXUpdate_read_def mem_store_def mem_redis_def rdb_get_def tx_unmarshal_def)
  from concurrent_updates_lose_outcome [OF mem_store_conforms l _ _ r r prod.collapse [symmetric] prod.collapse [symmetric],
      of "''a''" "''b''"]
  show ?thesis unfolding Let_def by simp
qed

text \<open>
  Idempotency records: the first check of a transaction's component and phase answers "not yet
  processed" and marks it; every later check answers "already processed" until the record's lifetime
  has passed, and marks of other components or phases do not interfere (for IDs without a colon).
\<close>

theorem idempotency_marks_once:
  assumes "store_conforms S clock obs rows" and "0 < ttl"
    and "rdb_get (clock w) (idem_key txID cid ph) (obs w) = None"
    and "CheckAndMark S txID cid ph ttl w = (r, w1)"
    and "CHR '':'' \<notin> set (txID @ txID' @ cid @ cid')" and "(txID, cid, ph) \<noteq> (txID', cid', ph')"
    and "CheckAndMark S txID' cid' ph' ttl' w1 = (r', w2)"
    and "obs w3 = obs w2" and "clock w \<le> clock w3"
  shows "r = Inr False
   \<and> fst (CheckAndMark S txID cid ph ttl'' w3) = Inr (clock w3 < clock w + ttl)
   \<and> (clock w3 < clock w + ttl \<longrightarrow> obs (snd (CheckAndMark S txID cid ph ttl'' w3)) = obs w3)"
proof -
  note c = CheckAndMark_conforms [OF assms(1)]
  have k: "idem_key txID cid ph \<noteq> idem_key txID' cid' ph'" using idem_key_inj assms(5,6) by blast
  note m1 = c [of txID cid ph ttl w, unfolded assms(4) fst_conv snd_conv]
  note m2 = c [of txID' cid' ph' ttl' w1, unfolded assms(7) fst_conv snd_conv]
  have "rdb_get t (idem_key txID cid ph) (obs w2) = (if clock w + ttl \<le> t then None else Some (TText ''done''))" for t
    using m1(2) m2(2) assms(2,3) k by (simp add: rdb_simps)
  then show ?thesis
    using m1(1) assms(3,8) c(1) [of txID cid ph ttl'' w3] c(2) [of txID cid ph ttl'' w3] by auto
qed

theorem idempotency_marks_once_witness:
  "fst (CheckAndMark mem_store ''t'' ''a'' PhaseTry 100 (snd (CheckAndMark mem_store ''t'' ''a'' PhaseConfirm 100
     (snd (CheckAndMark mem_store ''t'' ''a'' PhaseTry 100 ((5, Map.empty, [], ()) :: unit tx_mem)))))) = Inr True"
proof -
  let ?w = "(5, Map.empty, [], ()) :: unit tx_mem"
  have 0: "rdb_get (mem_clock ?w) (idem_key ''t'' ''a'' PhaseTry) (mem_obs ?w) = None"
    by (simp add: mem_obs_def rdb_get_def)
  have clk: "mem_clock ?w = 5" by (simp add: mem_clock_def)
  have t: "mem_clock (snd (CheckAndMark mem_store i c p l (v :: unit tx_mem))) = mem_clock v" for i c p l v
    using CheckAndMark_conforms(3) [OF mem_store_conforms] .
  from idempotency_marks_once [OF mem_store_conforms _ 0 prod.collapse [symmetric] _ _ prod.collapse [symmetric] refl,
      of 100 "''t''" "''a''" PhaseConfirm 100 100]
  show ?thesis by (simp add: t clk)
qed

end
