(* ===== verification/Tx_Manager.thy ===== *)
theory Tx_Manager
  imports Tx_Store
begin

text \<open>
  The TCC transaction manager (\<^verbatim>\<open>src/app/common/tcc/txmanager.go\<close>): resolving the components of a request,
  the concurrent try phase, the second phase driven by the transaction log, and the monitor that
  advances hanging transactions. Goroutines run in an order given by a \<open>range_order\<close>, one at a time;
  what interleaving inside \<^verbatim>\<open>TXUpdate\<close> adds is the subject of \<open>Tx_Store\<close>. The first error cancels the
  context of the try goroutines: the ones that have not started yet then run against \<open>SC\<close>, the store
  as seen through the cancelled context. A panic is the error value \<open>nil_deref\<close>.
\<close>

(* src: app/common/tcc/txmanager.go:24-27 Options *)
record tx_options =
  op_Timeout :: duration
  op_MonitorTick :: duration

(* src: app/common/tcc/txmanager.go:33-37 WithTimeout *)
definition WithTimeout :: "duration \<Rightarrow> tx_options \<Rightarrow> tx_options" where
  "WithTimeout t opts = opts\<lparr>op_Timeout := t\<rparr>"

(* src: app/common/tcc/txmanager.go:40-44 WithMonitorTick *)
definition WithMonitorTick :: "duration \<Rightarrow> tx_options \<Rightarrow> tx_options" where
  "WithMonitorTick t opts = opts\<lparr>op_MonitorTick := t\<rparr>"

(* src: app/common/tcc/txmanager.go:73-80 repair *)
definition repair :: "tx_options \<Rightarrow> tx_options" where
  "repair opts =
     (let o1 = (if op_Timeout opts = 0 then opts\<lparr>op_Timeout := 30 * second\<rparr> else opts)
      in if op_MonitorTick o1 = 0 then o1\<lparr>op_MonitorTick := 5 * second\<rparr> else o1)"

(* src: app/common/tcc/txmanager.go:14-21 TXManager *)
record ('w, 'd) tx_manager =
  txm_opts :: tx_options
  txm_store :: "'w tx_store"
  txm_registry :: "('w, 'd) registry_center"

(* src: app/common/tcc/txmanager.go:47-70 NewTXManager *)
definition NewTXManager :: "'w tx_store \<Rightarrow> (tx_options \<Rightarrow> tx_options) list \<Rightarrow> ('w, 'd) tx_manager" where
  "NewTXManager S opts =
     \<lparr>txm_opts = repair (fold (\<lambda>f x. f x) opts \<lparr>op_Timeout = 0, op_MonitorTick = 0\<rparr>),
      txm_store = S, txm_registry = newRegistryCenter\<rparr>"

(* src: app/common/tcc/txmanager.go:88-90 Register *)
definition txm_Register :: "('w, 'd) tcc_component option \<Rightarrow> ('w, 'd) tx_manager \<Rightarrow> err option \<times> ('w, 'd) tx_manager" where
  "txm_Register c M = (case rc_register c (txm_registry M) of (e, r) \<Rightarrow> (e, M\<lparr>txm_registry := r\<rparr>))"

(* src: app/common/tcc/txmanager.go:115-118 RequestEntity *)
record 'd request_entity =
  re_ComponentID :: string
  re_Request :: "string \<rightharpoonup> 'd"

(* src: app/common/tcc/txmanager.go:133-136 ComponentEntity *)
record ('w, 'd) component_entity =
  ce_Request :: "string \<rightharpoonup> 'd"
  ce_Component :: "('w, 'd) tcc_component"

(* src: app/common/tcc/txmanager.go:124-130 ToComponents *)
definition ToComponents :: "('w, 'd) component_entity list \<Rightarrow> ('w, 'd) tcc_component list" where
  "ToComponents es = map ce_Component es"

subsection \<open>Resolving a request\<close>

definition nil_deref :: err where
  "nil_deref = ''runtime error: invalid memory address or nil pointer dereference''"

(* src: app/common/tcc/txmanager.go:413-420 getComponents (duplicates) *)
fun collect_requests :: "'d request_entity list \<Rightarrow> (string \<times> 'd request_entity) list \<Rightarrow> err + (string \<times> 'd request_entity) list" where
  "collect_requests [] m = Inr m"
| "collect_requests (r # rs) m =
     (if map_of m (re_ComponentID r) \<noteq> None then Inl (''repeat component: '' @ re_ComponentID r)
      else collect_requests rs (m @ [(re_ComponentID r, r)]))"

(* src: app/common/tcc/txmanager.go:431-437 getComponents (entities) *)
fun build_entities :: "(string \<times> 'd request_entity) list \<Rightarrow> ('w, 'd) tcc_component list \<Rightarrow> err + ('w, 'd) component_entity list" where
  "build_entities m [] = Inr []"
| "build_entities m (c # cs) =
     (case map_of m (co_ID c) of
        None \<Rightarrow> Inl nil_deref
      | Some r \<Rightarrow> (case build_entities m cs of
          Inl e \<Rightarrow> Inl e | Inr es \<Rightarrow> Inr (\<lparr>ce_Request = re_Request r, ce_Component = c\<rparr> # es)))"

(* src: app/common/tcc/txmanager.go:406-440 getComponents *)
definition getComponents :: "('w, 'd) tx_manager \<Rightarrow> 'd request_entity list \<Rightarrow> err + ('w, 'd) component_entity list" where
  "getComponents M reqs =
     (if reqs = [] then Inl ''empty task''
      else case collect_requests reqs [] of
        Inl e \<Rightarrow> Inl e
      | Inr m \<Rightarrow>
          (case rc_getComponents (map fst m) (txm_registry M) of
             Inl e \<Rightarrow> Inl e
           | Inr cs \<Rightarrow> if length m \<noteq> length cs then Inl ''invalid componentIDs '' else build_entities m cs))"

subsection \<open>Phases\<close>

(* src: app/common/tcc/txmanager.go:446-451 getStatus (component loop) *)
fun status_loop :: "bool \<Rightarrow> component_try list \<Rightarrow> bool option" where
  "status_loop hangingExist [] = Some hangingExist"
| "status_loop hangingExist (c # cs) =
     (if ct_TryStatus c = ''failure'' then None
      else status_loop (hangingExist \<or> ct_TryStatus c \<noteq> ''successful'') cs)"

(* src: app/common/tcc/txmanager.go:443-465 getStatus *)
definition getStatus :: "gotime \<Rightarrow> tx_record \<Rightarrow> string" where
  "getStatus createdBefore tx =
     (case status_loop False (tx_Components tx) of
        None \<Rightarrow> ''failure''
      | Some hangingExist \<Rightarrow>
          if hangingExist \<and> tx_CreatedAt tx < createdBefore then ''failure''
          else if hangingExist then ''hanging'' else ''successful'')"

text \<open>
  \<^verbatim>\<open>executeWithRetry\<close>: \<open>n\<close> attempts left, \<open>res\<close> the result so far (it is replaced by the first attempt).
\<close>

fun retry_attempts ::
    "'w tx_store \<Rightarrow> nat \<Rightarrow> duration \<Rightarrow> err + tcc_resp \<Rightarrow> ('w \<Rightarrow> (err + tcc_resp) \<times> 'w) \<Rightarrow> 'w \<Rightarrow> (err + tcc_resp) \<times> 'w" where
  "retry_attempts S 0 backoff res fn w = (res, w)"
| "retry_attempts S (Suc n) backoff res fn w =
     (case fn w of
        (Inr resp, w1) \<Rightarrow> (Inr resp, w1)
      | (Inl e, w1) \<Rightarrow>
          retry_attempts S n (if 2 * backoff > 2 * second then 2 * second else 2 * backoff) (Inl e) fn
            (ts_sleep S backoff w1))"

(* src: app/common/tcc/txmanager.go:386-403 executeWithRetry *)
definition executeWithRetry :: "'w tx_store \<Rightarrow> ('w \<Rightarrow> (err + tcc_resp) \<times> 'w) \<Rightarrow> 'w \<Rightarrow> (err + tcc_resp) \<times> 'w" where
  "executeWithRetry S fn w = retry_attempts S 3 (50 * millisecond) (Inl []) fn w"

definition acked :: "tcc_resp" where
  "acked = \<lparr>rs_ComponentID = [], rs_TXID = [], rs_ACK = True\<rparr>"

(* src: app/common/tcc/txmanager.go:244-256 advanceProgress (confirm) *)
definition confirm_component :: "'w tx_store \<Rightarrow> string \<Rightarrow> ('w, 'd) tcc_component \<Rightarrow> 'w \<Rightarrow> (err + tcc_resp) \<times> 'w" where
  "confirm_component S txID c w =
     (case CheckAndMark S txID (co_ID c) PhaseConfirm day w of
        (Inl e, w1) \<Rightarrow> (Inl e, w1)
      | (Inr True, w1) \<Rightarrow> (Inr acked, w1)
      | (Inr False, w1) \<Rightarrow> executeWithRetry S (co_Confirm c txID) w1)"

(* src: app/common/tcc/txmanager.go:263-282 advanceProgress (cancel) *)
definition cancel_component :: "'w tx_store \<Rightarrow> string \<Rightarrow> ('w, 'd) tcc_component \<Rightarrow> 'w \<Rightarrow> (err + tcc_resp) \<times> 'w" where
  "cancel_component S txID c w =
     (case CheckAndMark S txID (co_ID c) PhaseCancel day w of
        (Inl e, w1) \<Rightarrow> (Inl e, w1)
      | (Inr True, w1) \<Rightarrow> (Inr acked, w1)
      | (Inr False, w1) \<Rightarrow>
          (case executeWithRetry S (co_Cancel c txID) w1 of
             (Inr resp, w2) \<Rightarrow> (Inr resp, w2)
           | (Inl e, w2) \<Rightarrow> (Inr acked, snd (MarkExplicit S txID (co_ID c) PhaseCancel day w2))))"

(* src: app/common/tcc/txmanager.go:290-307 advanceProgress (second phase) *)
fun second_phase :: "('w, 'd) tx_manager \<Rightarrow> bool \<Rightarrow> string \<Rightarrow> component_try list \<Rightarrow> 'w \<Rightarrow> err option \<times> 'w" where
  "second_phase M success txID [] w = TXSubmit (txm_store M) txID success w"
| "second_phase M success txID (ct # cts) w =
     (case rc_getComponents [ct_ComponentID ct] (txm_registry M) of
        Inl _ \<Rightarrow> (Some ''get tcc component failed'', w)
      | Inr [] \<Rightarrow> (Some ''get tcc component failed'', w)
      | Inr (c # _) \<Rightarrow>
          (case (if success then confirm_component else cancel_component) (txm_store M) txID c w of
             (Inl e, w1) \<Rightarrow> (Some e, w1)
           | (Inr resp, w1) \<Rightarrow>
               if \<not> rs_ACK resp then (Some (''component: '' @ ct_ComponentID ct @ '' ack failed''), w1)
               else second_phase M success txID cts w1))"

(* src: app/common/tcc/txmanager.go:231-308 advanceProgress *)
definition advanceProgress :: "('w, 'd) tx_manager \<Rightarrow> tx_record \<Rightarrow> 'w \<Rightarrow> err option \<times> 'w" where
  "advanceProgress M tx w =
     (let txStatus = getStatus (ts_now (txm_store M) w - op_Timeout (txm_opts M)) tx in
      if txStatus = ''hanging'' then (None, w)
      else second_phase M (txStatus = ''successful'') (tx_TXID tx) (tx_Components tx) w)"

(* src: app/common/tcc/txmanager.go:221-228 advanceProgressByTXID *)
definition advanceProgressByTXID :: "('w, 'd) tx_manager \<Rightarrow> string \<Rightarrow> 'w \<Rightarrow> err option \<times> 'w" where
  "advanceProgressByTXID M txID w =
     (case GetTX (txm_store M) txID w of
        (Inl e, w1) \<Rightarrow> (Some e, w1)
      | (Inr tx, w1) \<Rightarrow> advanceProgress M tx w1)"

text \<open>The goroutine of one component in the try phase, on the store \<open>S\<close> its context gives it.\<close>

(* src: app/common/tcc/txmanager.go:325-364 twoPhaseCommit (try goroutine) *)
definition try_task :: "('w, 'd) tx_manager \<Rightarrow> 'w tx_store \<Rightarrow> string \<Rightarrow> ('w, 'd) component_entity \<Rightarrow> 'w \<Rightarrow> err option \<times> 'w" where
  "try_task M S txID ent w =
     (let c = ce_Component ent; cid = co_ID c in
      case CheckAndMark S txID cid PhaseTry day w of
        (Inl e, w1) \<Rightarrow> (Some e, w1)
      | (Inr True, w1) \<Rightarrow> TXUpdate S txID cid True w1
      | (Inr False, w1) \<Rightarrow>
          let req = \<lparr>rq_ComponentID = cid, rq_TXID = txID, rq_Data = ce_Request ent\<rparr>;
              (r, w2) = executeWithRetry (txm_store M) (co_Try c req) w1
          in if (case r of Inl _ \<Rightarrow> True | Inr resp \<Rightarrow> \<not> rs_ACK resp)
             then (Some (''component: '' @ cid @ '' try failed''), snd (TXUpdate S txID cid False w2))
             else TXUpdate S txID cid True w2)"

fun run_tasks :: "('w, 'd) tx_manager \<Rightarrow> 'w tx_store \<Rightarrow> string \<Rightarrow> ('w, 'd) component_entity list \<Rightarrow> 'w \<Rightarrow> 'w" where
  "run_tasks M S txID [] w = w"
| "run_tasks M S txID (t # ts) w = run_tasks M S txID ts (snd (try_task M S txID t w))"

text \<open>
  The goroutines up to the moment the main goroutine goes on: after all of them, or after the first
  error and \<open>slack\<close> more goroutines. The result says whether an error was received and which goroutines
  are left.
\<close>

fun await_tries :: "('w, 'd) tx_manager \<Rightarrow> nat \<Rightarrow> string \<Rightarrow> ('w, 'd) component_entity list \<Rightarrow> 'w \<Rightarrow>
    bool \<times> ('w, 'd) component_entity list \<times> 'w" where
  "await_tries M slack txID [] w = (True, [], w)"
| "await_tries M slack txID (t # ts) w =
     (case try_task M (txm_store M) txID t w of
        (None, w1) \<Rightarrow> await_tries M slack txID ts w1
      | (Some _, w1) \<Rightarrow> (False, drop slack ts, run_tasks M (txm_store M) txID (take slack ts) w1))"

(* src: app/common/tcc/txmanager.go:311-383 twoPhaseCommit *)
definition twoPhaseCommit ::
    "('w, 'd) tx_manager \<Rightarrow> 'w tx_store \<Rightarrow> ('w, 'd) component_entity range_order \<Rightarrow> nat \<Rightarrow> string \<Rightarrow>
     ('w, 'd) component_entity list \<Rightarrow> 'w \<Rightarrow> bool \<times> 'w" where
  "twoPhaseCommit M SC ord slack txID es w =
     (case await_tries M slack txID (ord es) w of
        (successful, rest, w1) \<Rightarrow>
          let w2 = snd (advanceProgressByTXID M txID w1)
          in (successful, run_tasks M SC txID rest w2))"

(* src: app/common/tcc/txmanager.go:93-112 Transaction *)
definition txm_Transaction ::
    "('w, 'd) tx_manager \<Rightarrow> 'w tx_store \<Rightarrow> ('w, 'd) component_entity range_order \<Rightarrow> nat \<Rightarrow>
     'd request_entity list \<Rightarrow> 'w \<Rightarrow> (string \<times> bool \<times> err option) \<times> 'w" where
  "txm_Transaction M SC ord slack reqs w =
     (case getComponents M reqs of
        Inl e \<Rightarrow> (([], False, Some e), w)
      | Inr es \<Rightarrow>
          (case CreateTX (txm_store M) (ToComponents es) w of
             (Inl e, w1) \<Rightarrow> (([], False, Some e), w1)
           | (Inr txID, w1) \<Rightarrow>
               (case twoPhaseCommit M SC ord slack txID es w1 of (ok, w2) \<Rightarrow> ((txID, ok, None), w2))))"

subsection \<open>The monitor\<close>

(* src: app/common/tcc/txmanager.go:175-181 backOffTick *)
definition backOffTick :: "tx_options \<Rightarrow> duration \<Rightarrow> duration" where
  "backOffTick opts tick =
     (let tick' = wrap64 (2 * tick); threshold = wrap64 (8 * op_MonitorTick opts)
      in if tick' > threshold then threshold else tick')"

fun advance_all :: "('w, 'd) tx_manager \<Rightarrow> tx_record list \<Rightarrow> 'w \<Rightarrow> err option \<times> 'w" where
  "advance_all M [] w = (None, w)"
| "advance_all M (tx # txs) w =
     (case advanceProgress M tx w of (e, w1) \<Rightarrow>
        case advance_all M txs w1 of (e', w2) \<Rightarrow> (case e of None \<Rightarrow> e' | Some _ \<Rightarrow> e, w2))"

(* src: app/common/tcc/txmanager.go:184-218 batchAdvanceProgress *)
definition batchAdvanceProgress :: "('w, 'd) tx_manager \<Rightarrow> tx_record range_order \<Rightarrow> tx_record list \<Rightarrow> 'w \<Rightarrow> err option \<times> 'w" where
  "batchAdvanceProgress M ord txs w = advance_all M (ord txs) w"

text \<open>One turn of the monitor loop: the pause, the lock, and the pending transactions.\<close>

(* src: app/common/tcc/txmanager.go:139-172 run *)
definition monitor_turn ::
    "('w, 'd) tx_manager \<Rightarrow> tx_record range_order \<Rightarrow> duration \<times> err option \<Rightarrow> 'w \<Rightarrow> (duration \<times> err option) \<times> 'w" where
  "monitor_turn M ord st w =
     (let S = txm_store M;
          tick = (if snd st = None then op_MonitorTick (txm_opts M) else backOffTick (txm_opts M) (fst st));
          w0 = ts_sleep S tick w
      in case tx_Lock S (op_MonitorTick (txm_opts M)) w0 of
           (Some _, w1) \<Rightarrow> ((tick, None), w1)
         | (None, w1) \<Rightarrow>
             (case GetHangingTXs S w1 of
                (Inl e, w2) \<Rightarrow> ((tick, Some e), snd (tx_Unlock S w2))
              | (Inr txs, w2) \<Rightarrow>
                  (case batchAdvanceProgress M ord txs w2 of
                     (e, w3) \<Rightarrow> ((tick, e), snd (tx_Unlock S w3)))))"

fun monitor :: "('w, 'd) tx_manager \<Rightarrow> tx_record range_order \<Rightarrow> nat \<Rightarrow> duration \<times> err option \<Rightarrow> 'w \<Rightarrow> (duration \<times> err option) \<times> 'w" where
  "monitor M ord 0 st w = (st, w)"
| "monitor M ord (Suc n) st w = (case monitor_turn M ord st w of (st', w') \<Rightarrow> monitor M ord n st' w')"

subsection \<open>Vocabulary of the theorems\<close>

text \<open>
  \<open>env_ok\<close>: conforming servers that leave the components' call log alone. \<open>acking\<close>: a component that
  accepts every call, logs it, takes some time, and does not touch the manager's own records.
\<close>

definition store_silent :: "'w tx_store \<Rightarrow> ('w \<Rightarrow> 'a) \<Rightarrow> bool" where
  "store_silent S view \<longleftrightarrow>
     (\<forall>k. keeps view (rd_Get (ts_redis S) k)) \<and> (\<forall>k v t. keeps view (rd_Set (ts_redis S) k v t))
   \<and> (\<forall>k v t. keeps view (rd_SetNX (ts_redis S) k v t)) \<and> (\<forall>k. keeps view (rd_Del (ts_redis S) k))
   \<and> (\<forall>tx. keeps view (db_Create (ts_db S) tx)) \<and> (\<forall>i. keeps view (db_First (ts_db S) i))
   \<and> (\<forall>i c t. keeps view (db_UpdateComponents (ts_db S) i c t)) \<and> (\<forall>i s t. keeps view (db_UpdateStatus (ts_db S) i s t))
   \<and> (\<forall>s. keeps view (db_FindByStatus (ts_db S) s))"

definition env_ok :: "'w tx_store \<Rightarrow> ('w \<Rightarrow> gotime) \<Rightarrow> ('w \<Rightarrow> txval rdb) \<Rightarrow> ('w \<Rightarrow> tx_record list) \<Rightarrow> ('w \<Rightarrow> tcc_call list) \<Rightarrow> bool" where
  "env_ok S clock obs rows calls \<longleftrightarrow> store_conforms S clock obs rows \<and> store_silent S calls"

definition answers_call :: "('w \<Rightarrow> gotime) \<Rightarrow> ('w \<Rightarrow> txval rdb) \<Rightarrow> ('w \<Rightarrow> tx_record list) \<Rightarrow> ('w \<Rightarrow> tcc_call list) \<Rightarrow>
    tcc_call \<Rightarrow> ('w \<Rightarrow> (err + tcc_resp) \<times> 'w) \<Rightarrow> bool" where
  "answers_call clock obs rows calls ev f \<longleftrightarrow>
     (\<forall>w. (\<exists>resp. fst (f w) = Inr resp \<and> rs_ACK resp) \<and> calls (snd (f w)) = calls w @ [ev]
        \<and> obs (snd (f w)) = obs w \<and> rows (snd (f w)) = rows w \<and> clock w \<le> clock (snd (f w)))"

definition acking :: "('w \<Rightarrow> gotime) \<Rightarrow> ('w \<Rightarrow> txval rdb) \<Rightarrow> ('w \<Rightarrow> tx_record list) \<Rightarrow> ('w \<Rightarrow> tcc_call list) \<Rightarrow>
    ('w, 'd) tcc_component \<Rightarrow> bool" where
  "acking clock obs rows calls c \<longleftrightarrow>
     (\<forall>req. answers_call clock obs rows calls (Call PhaseTry (co_ID c) True) (co_Try c req))
   \<and> (\<forall>tx. answers_call clock obs rows calls (Call PhaseConfirm (co_ID c) True) (co_Confirm c tx))
   \<and> (\<forall>tx. answers_call clock obs rows calls (Call PhaseCancel (co_ID c) True) (co_Cancel c tx))"

definition registry_acks :: "('w \<Rightarrow> gotime) \<Rightarrow> ('w \<Rightarrow> txval rdb) \<Rightarrow> ('w \<Rightarrow> tx_record list) \<Rightarrow> ('w \<Rightarrow> tcc_call list) \<Rightarrow>
    ('w, 'd) registry_center \<Rightarrow> bool" where
  "registry_acks clock obs rows calls r \<longleftrightarrow> (\<forall>(k, c) \<in> set (rc_components r). acking clock obs rows calls c)"

definition logged_until :: "gotime \<Rightarrow> txval rdb \<Rightarrow> string \<Rightarrow> tx_record \<Rightarrow> bool" where
  "logged_until T db txID tx \<longleftrightarrow> (\<forall>t < T. logged_tx t db txID = Some tx)"

abbreviation ent_ID :: "('w, 'd) component_entity \<Rightarrow> string" where
  "ent_ID e \<equiv> co_ID (ce_Component e)"

text \<open>The transaction once the given components have reported success.\<close>

definition accepted :: "('w, 'd) component_entity list \<Rightarrow> tx_record \<Rightarrow> tx_record" where
  "accepted es tx = tx\<lparr>tx_Components := fold (\<lambda>e. set_try_status (ent_ID e) True) es (tx_Components tx)\<rparr>"

subsection \<open>Resolving a request: lemmas\<close>

lemma collect_requests_Inr:
  "collect_requests rs m = Inr m' \<Longrightarrow> distinct (map fst m) \<Longrightarrow>
   m' = m @ map (\<lambda>r. (re_ComponentID r, r)) rs \<and> distinct (map fst m')"
proof (induction rs arbitrary: m)
  case (Cons r rs)
  from Cons.prems(1) have n: "map_of m (re_ComponentID r) = None"
    and c: "collect_requests rs (m @ [(re_ComponentID r, r)]) = Inr m'" by (auto split: if_splits)
  from n have "re_ComponentID r \<notin> set (map fst m)" by (simp add: map_of_eq_None_iff)
  with Cons.prems(2) have "distinct (map fst (m @ [(re_ComponentID r, r)]))" by simp
  note ih = Cons.IH [OF c this]
  then have "m' = m @ map (\<lambda>r. (re_ComponentID r, r)) (r # rs)" by simp
  with ih show ?case by blast
qed simp

lemma collect_requests_Inl:
  "collect_requests rs m = Inl e \<Longrightarrow> \<not> distinct (map fst m @ map re_ComponentID rs)"
proof (induction rs arbitrary: m)
  case (Cons r rs)
  show ?case
  proof (cases "map_of m (re_ComponentID r)")
    case None
    with Cons.prems have "collect_requests rs (m @ [(re_ComponentID r, r)]) = Inl e" by simp
    from Cons.IH [OF this] show ?thesis by simp
  next
    case (Some x)
    then have "re_ComponentID r \<in> set (map fst m)" by (force dest: map_of_SomeD)
    then show ?thesis by auto
  qed
qed simp

lemma collect_requests_msg: "collect_requests rs m = Inl e \<Longrightarrow> \<exists>s. e = ''repeat component: '' @ s"
  by (induction rs arbitrary: m) (auto split: if_splits)

lemma build_entities_Inr:
  "build_entities m cs = Inr es \<Longrightarrow>
   map ce_Component es = cs \<and> (\<forall>e \<in> set es. \<exists>r. map_of m (ent_ID e) = Some r \<and> ce_Request e = re_Request r)"
  by (induction cs arbitrary: es) (auto split: option.splits sum.splits)

lemma build_entities_total:
  "\<forall>c \<in> set cs. map_of m (co_ID c) \<noteq> None \<Longrightarrow> \<exists>es. build_entities m cs = Inr es"
  by (induction cs) (auto split: option.splits sum.splits)

lemma rc_getComponents_length: "rc_getComponents cids r = Inr cs \<Longrightarrow> length cs = length cids"
  by (induction cids arbitrary: cs) (auto split: option.splits sum.splits)

lemma getComponents_Inr:
  assumes "rc_inv (txm_registry M)" and "getComponents M reqs = Inr es"
  shows "reqs \<noteq> []" and "distinct (map re_ComponentID reqs)" and "map ent_ID es = map re_ComponentID reqs"
    and "rc_getComponents (map re_ComponentID reqs) (txm_registry M) = Inr (map ce_Component es)"
    and "map ce_Request es = map re_Request reqs"
proof -
  show "reqs \<noteq> []" using assms(2) by (auto simp: getComponents_def)
  obtain m cs where m: "collect_requests reqs [] = Inr m" and cs: "rc_getComponents (map fst m) (txm_registry M) = Inr cs"
    and b: "build_entities m cs = Inr es" using assms(2) by (auto simp: getComponents_def split: if_splits sum.splits)
  have mm: "m = map (\<lambda>r. (re_ComponentID r, r)) reqs" and d: "distinct (map fst m)"
    using collect_requests_Inr [OF m] by auto
  then show dist: "distinct (map re_ComponentID reqs)" by (simp add: comp_def)
  have ids: "map co_ID cs = map re_ComponentID reqs" using rc_getComponents_ids [OF assms(1) cs] by (simp add: mm comp_def)
  from build_entities_Inr [OF b] have e: "map ce_Component es = cs"
    and rq: "\<forall>e \<in> set es. \<exists>r. map_of m (ent_ID e) = Some r \<and> ce_Request e = re_Request r" by auto
  show i: "map ent_ID es = map re_ComponentID reqs" 
    using ids unfolding e [symmetric] by (simp add: comp_def)
  show "rc_getComponents (map re_ComponentID reqs) (txm_registry M) = Inr (map ce_Component es)"
    using cs e by (simp add: mm comp_def)
  show "map ce_Request es = map re_Request reqs"
  proof (rule nth_equalityI)
    show l: "length (map ce_Request es) = length (map re_Request reqs)" using i by (metis length_map)
    fix k assume k: "k < length (map ce_Request es)"
    then have "ent_ID (es ! k) = re_ComponentID (reqs ! k)" using i l by (metis length_map nth_map)
    moreover have "map_of m (re_ComponentID (reqs ! k)) = Some (reqs ! k)"
      using d k l by (auto simp: mm intro!: map_of_is_SomeI)
    ultimately show "map ce_Request es ! k = map re_Request reqs ! k" using rq k l by (auto dest!: bspec [of _ _ "es ! k"])
  qed
qed

text \<open>
  A request is resolved exactly when it names at least one component, no component twice and only
  registered ones; then the entities are the components in the order of the request, each with its own
  part of the request. The nil dereference in the lookup of the request never happens.
\<close>

theorem getComponents_correct:
  assumes "M = fold (\<lambda>c M. snd (txm_Register c M)) cs (NewTXManager S opts)"
  shows "(case getComponents M reqs of
      Inr es \<Rightarrow> reqs \<noteq> [] \<and> distinct (map re_ComponentID reqs)
        \<and> map ent_ID es = map re_ComponentID reqs \<and> map ce_Request es = map re_Request reqs
    | Inl e \<Rightarrow> e \<noteq> nil_deref \<and> (reqs = [] \<or> \<not> distinct (map re_ComponentID reqs)
        \<or> (\<exists>r \<in> set reqs. \<not> rc_isRegistered (re_ComponentID r) (txm_registry M))))"
proof -
  have inv: "rc_inv (txm_registry M)"
    unfolding assms by (induction cs rule: rev_induct)
      (simp_all add: NewTXManager_def rc_inv_run [of "[]", simplified] txm_Register_def case_prod_beta rc_inv_register)
  show ?thesis
  proof (cases "getComponents M reqs")
    case (Inr es)
    with getComponents_Inr [OF inv Inr] show ?thesis by simp
  next
    case (Inl e)
    consider "reqs = []" "e = ''empty task''"
      | "reqs \<noteq> []" "collect_requests reqs [] = Inl e"
      | m where "reqs \<noteq> []" "collect_requests reqs [] = Inr m" "rc_getComponents (map fst m) (txm_registry M) = Inl e"
      | m cs where "reqs \<noteq> []" "collect_requests reqs [] = Inr m" "rc_getComponents (map fst m) (txm_registry M) = Inr cs"
      using Inl by (auto simp: getComponents_def split: if_splits sum.splits)
    then show ?thesis
    proof cases
      case 1
      with Inl show ?thesis by (simp add: nil_deref_def)
    next
      case 2
      have "e \<noteq> nil_deref" using 2(2) collect_requests_msg by (auto simp: nil_deref_def)
      with 2 Inl collect_requests_Inl [OF 2(2)] show ?thesis by simp
    next
      case 3
      have m: "map fst m = map re_ComponentID reqs" using collect_requests_Inr [OF 3(2)] by (simp add: comp_def)
      from rc_getComponents_Inl [OF 3(3)] obtain pre cid post where
        c: "map re_ComponentID reqs = pre @ cid # post" "e = rc_not_found cid" "\<not> rc_isRegistered cid (txm_registry M)"
        unfolding m by blast
      have "cid \<in> re_ComponentID ` set reqs" using arg_cong [OF c(1), of set] by auto
      with c(2,3) Inl show ?thesis by (auto simp: rc_not_found_def nil_deref_def)
    next
      case 4
      have m: "m = map (\<lambda>r. (re_ComponentID r, r)) reqs" using collect_requests_Inr [OF 4(2)] by simp
      have ids: "map co_ID cs = map fst m" using rc_getComponents_ids [OF inv 4(3)] .
      have "\<forall>c \<in> set cs. map_of m (co_ID c) \<noteq> None"
        using arg_cong [OF ids, of set] by (auto simp: map_of_eq_None_iff)
      from build_entities_total [OF this] 4 rc_getComponents_length [OF 4(3)] Inl show ?thesis
        by (auto simp: getComponents_def)
    qed
  qed
qed

subsection \<open>The store's operations leave other views alone\<close>

lemma silent_redis:
  assumes "store_silent S view"
  shows "view (snd (rd_Get (ts_redis S) k w)) = view w" and "view (snd (rd_Set (ts_redis S) k v t w)) = view w"
    and "view (snd (rd_SetNX (ts_redis S) k v t w)) = view w" and "view (snd (rd_Del (ts_redis S) k w)) = view w"
  using assms by (simp_all add: store_silent_def keeps_def)

lemma silent_db:
  assumes "store_silent S view"
  shows "view (snd (db_Create (ts_db S) tx w)) = view w" and "view (snd (db_First (ts_db S) i w)) = view w"
    and "view (snd (db_UpdateComponents (ts_db S) i c t w)) = view w"
    and "view (snd (db_UpdateStatus (ts_db S) i s t w)) = view w"
    and "view (snd (db_FindByStatus (ts_db S) s w)) = view w"
  using assms by (simp_all add: store_silent_def keeps_def)

lemmas silent_simps = silent_redis silent_db

lemma silent_clock: "store_conforms S clock obs rows \<Longrightarrow> store_silent S clock"
  by (simp add: store_silent_def keeps_def conforms_redis [THEN conforms_Get(3)] conforms_redis [THEN conforms_Set(3)]
      conforms_redis [THEN conforms_SetNX(3)] conforms_redis [THEN conforms_Del(3)])
     (simp add: store_conforms_def keeps_def)

lemma silent_ops:
  assumes "store_silent S view"
  shows "view (snd (CheckAndMark S txID cid ph ttl w)) = view w"
    and "view (snd (TXUpdate S txID cid acc w)) = view w"
    and "view (snd (GetTX S txID w)) = view w"
    and "view (snd (TXSubmit S txID ok w)) = view w"
    and "view (snd (CreateTX S cs w)) = view w"
    and "view (snd (MarkExplicit S txID cid ph ttl w)) = view w"
  using silent_simps [OF assms]
  by (simp_all add: CheckAndMark_def TXUpdate_def TXUpdate_read_def TXUpdate_write_def GetTX_def TXSubmit_def
      CreateTX_def MarkExplicit_def case_prod_beta Let_def split: sum.split option.split)

lemma executeWithRetry_first: "fn w = (Inr r, w') \<Longrightarrow> executeWithRetry S fn w = (Inr r, w')"
  by (simp add: executeWithRetry_def numeral_3_eq_3)

lemma answers_call_retry:
  assumes "answers_call clock obs rows calls ev fn"
  shows "\<exists>resp. fst (executeWithRetry S fn w) = Inr resp \<and> rs_ACK resp"
    and "calls (snd (executeWithRetry S fn w)) = calls w @ [ev]"
    and "obs (snd (executeWithRetry S fn w)) = obs w" and "rows (snd (executeWithRetry S fn w)) = rows w"
    and "clock w \<le> clock (snd (executeWithRetry S fn w))"
proof -
  from assms obtain resp where r: "fst (fn w) = Inr resp" "rs_ACK resp" unfolding answers_call_def by blast
  then have "executeWithRetry S fn w = (Inr resp, snd (fn w))" by (intro executeWithRetry_first) (simp add: prod_eq_iff)
  with r assms show "\<exists>resp. fst (executeWithRetry S fn w) = Inr resp \<and> rs_ACK resp"
    "calls (snd (executeWithRetry S fn w)) = calls w @ [ev]"
    "obs (snd (executeWithRetry S fn w)) = obs w" "rows (snd (executeWithRetry S fn w)) = rows w"
    "clock w \<le> clock (snd (executeWithRetry S fn w))"
    by (auto simp: answers_call_def)
qed

subsection \<open>The try phase with accepting components\<close>

lemma logged_until_set:
  "t + day \<ge> T \<Longrightarrow> logged_until T (rdb_set t (txKey txID) (TJson tx) day db) txID tx"
  by (auto simp: logged_until_def logged_tx_set)

lemma logged_until_other:
  "k \<noteq> txKey txID \<Longrightarrow> logged_until T (rdb_set t k v ttl db) txID tx \<longleftrightarrow> logged_until T db txID tx"
  by (simp add: logged_until_def logged_tx_def rdb_get_set)

lemma idem_not_txKey [simp]: "idem_key txID cid ph \<noteq> txKey txID'"
  by (simp add: idem_key_def txKey_def)

lemma absent_get: "db k = None \<Longrightarrow> rdb_get t k db = None"
  by (simp add: rdb_get_def)

lemma rdb_set_other: "k \<noteq> k' \<Longrightarrow> rdb_set t k' v ttl db k = db k"
  by (simp add: rdb_set_def)

lemma try_task_mono:
  assumes "store_silent S clock" and "acking clock obs rows calls (ce_Component ent)"
  shows "clock w \<le> clock (snd (try_task M S txID ent w))"
proof -
  let ?c = "ce_Component ent"
  let ?w1 = "snd (CheckAndMark S txID (co_ID ?c) PhaseTry day w)"
  let ?fn = "co_Try ?c \<lparr>rq_ComponentID = co_ID ?c, rq_TXID = txID, rq_Data = ce_Request ent\<rparr>"
  note keep = silent_ops [OF assms(1)]
  have "clock ?w1 \<le> clock (snd (executeWithRetry (txm_store M) ?fn ?w1))"
    using assms(2) by (intro answers_call_retry(5) [of clock obs rows calls "Call PhaseTry (ent_ID ent) True"])
      (simp add: acking_def)
  then show ?thesis
    by (simp add: try_task_def case_prod_beta Let_def keep split: sum.split bool.split)
qed

lemma try_task_acks:
  assumes "env_ok (txm_store M) clock obs rows calls" and "acking clock obs rows calls (ce_Component ent)"
    and "obs w (idem_key txID (ent_ID ent) PhaseTry) = None" and "logged_until T (obs w) txID tx"
    and "T \<le> clock w + day" and "clock (snd (try_task M (txm_store M) txID ent w)) < T"
    and "tx' = tx\<lparr>tx_Components := set_try_status (ent_ID ent) True (tx_Components tx)\<rparr>"
    and "try_task M (txm_store M) txID ent w = (e, w')"
  shows "e = None" and "calls w' = calls w @ [Call PhaseTry (ent_ID ent) True]" and "logged_until T (obs w') txID tx'"
    and "k \<noteq> txKey txID \<Longrightarrow> k \<noteq> idem_key txID (ent_ID ent) PhaseTry \<Longrightarrow> obs w' k = obs w k"
    and "map tx_TXID (rows w') = map tx_TXID (rows w)"
proof -
  let ?c = "ce_Component ent" and ?S = "txm_store M" and ?cid = "ent_ID ent"
  define w1 where "w1 = snd (CheckAndMark ?S txID ?cid PhaseTry day w)"
  define fn where "fn = co_Try ?c \<lparr>rq_ComponentID = ?cid, rq_TXID = txID, rq_Data = ce_Request ent\<rparr>"
  define w2 where "w2 = snd (executeWithRetry ?S fn w1)"
  have sc: "store_conforms ?S clock obs rows" and sl: "store_silent ?S calls"
    using assms(1) by (simp_all add: env_ok_def)
  note cm = CheckAndMark_conforms [OF sc, of txID ?cid PhaseTry day w, folded w1_def]
  have ab: "rdb_get t (idem_key txID ?cid PhaseTry) (obs w) = None" for t
    using assms(3) by (rule absent_get)
  have "answers_call clock obs rows calls (Call PhaseTry ?cid True) fn" using assms(2) by (simp add: acking_def fn_def)
  note ac = answers_call_retry [OF this, where S = ?S and w = w1, folded w2_def]
  have step: "try_task M ?S txID ent w = TXUpdate ?S txID ?cid True w2"
    using cm(1) ac(1) ab
    by (auto simp: try_task_def case_prod_beta Let_def fn_def [symmetric] w1_def [symmetric] w2_def)
  have o2: "obs w2 = rdb_set (clock w) (idem_key txID ?cid PhaseTry) (TText ''done'') day (obs w)"
    using ac(3) cm(2) ab by simp
  have mono: "clock w \<le> clock w2" using ac(5) cm(3) by simp
  have "clock (snd (TXUpdate ?S txID ?cid True w2)) = clock w2" using silent_ops(2) [OF silent_clock [OF sc]] .
  with assms(6) have lt: "clock w2 < T" by (simp add: step)
  have "logged_until T (obs w2) txID tx" using assms(4) by (simp add: o2 logged_until_other)
  then have "logged_tx (clock w2) (obs w2) txID = Some tx" using lt by (simp add: logged_until_def)
  note u = TXUpdate_logged [OF sc this assms(7)]
  from assms(8) u(1) show "e = None" by (simp add: step)
  have w': "w' = snd (TXUpdate ?S txID ?cid True w2)" using assms(8) by (simp add: step)
  show "calls w' = calls w @ [Call PhaseTry ?cid True]"
    using silent_ops(1,2) [OF sl] ac(2) by (simp add: w' w1_def)
  show "logged_until T (obs w') txID tx'" unfolding w' u(2) using assms(5) mono by (intro logged_until_set) simp
  show "obs w' k = obs w k" if "k \<noteq> txKey txID" "k \<noteq> idem_key txID ?cid PhaseTry"
    unfolding w' u(2) o2 using that by (simp add: rdb_set_other)
  show "map tx_TXID (rows w') = map tx_TXID (rows w)"
    unfolding w' u(5) using ac(4) cm(4) by (simp add: upd_rows_ids)
qed

lemma run_tasks_mono:
  assumes "store_silent S clock" and "\<forall>e \<in> set es. acking clock obs rows calls (ce_Component e)"
  shows "clock w \<le> clock (run_tasks M S txID es w)"
  using assms(2)
proof (induction es arbitrary: w)
  case (Cons e es)
  have "clock w \<le> clock (snd (try_task M S txID e w))"
    using Cons.prems by (intro try_task_mono [OF assms(1), of obs rows calls]) simp
  also have "\<dots> \<le> clock (run_tasks M S txID es (snd (try_task M S txID e w)))"
    using Cons by simp
  finally show ?case by simp
qed simp

lemma env_silent: "env_ok S clock obs rows calls \<Longrightarrow> store_silent S clock"
  unfolding env_ok_def by (blast intro: silent_clock)

lemma await_tries_mono:
  assumes "store_silent (txm_store M) clock" and "\<forall>e \<in> set es. acking clock obs rows calls (ce_Component e)"
  shows "clock w \<le> clock (snd (snd (await_tries M slack txID es w)))"
  using assms(2)
proof (induction es arbitrary: w)
  case (Cons e es)
  let ?w1 = "snd (try_task M (txm_store M) txID e w)"
  have 1: "clock w \<le> clock ?w1" using Cons.prems by (intro try_task_mono [OF assms(1), of obs rows calls]) simp
  have 2: "clock ?w1 \<le> clock (snd (snd (await_tries M slack txID es ?w1)))" using Cons by simp
  have 3: "clock ?w1 \<le> clock (run_tasks M (txm_store M) txID (take slack es) ?w1)"
    using Cons.prems by (intro run_tasks_mono [OF assms(1), of _ obs rows calls]) (auto dest: in_set_takeD)
  from 1 2 3 show ?case by (auto simp: case_prod_beta split: option.split)
qed simp

lemma await_tries_acks:
  assumes env: "env_ok (txm_store M) clock obs rows calls"
    and sep: "\<And>c d. c \<in> set (map ent_ID es) \<Longrightarrow> d \<in> set (map ent_ID es) \<Longrightarrow>
      idem_key txID c PhaseTry = idem_key txID d PhaseTry \<Longrightarrow> c = d"
  shows "\<forall>e \<in> set es. acking clock obs rows calls (ce_Component e) \<Longrightarrow> distinct (map ent_ID es) \<Longrightarrow>
     \<forall>e \<in> set es. obs w (idem_key txID (ent_ID e) PhaseTry) = None \<Longrightarrow> logged_until T (obs w) txID tx \<Longrightarrow>
     T \<le> clock w + day \<Longrightarrow> clock (snd (snd (await_tries M slack txID es w))) < T \<Longrightarrow>
     \<exists>w'. await_tries M slack txID es w = (True, [], w')
       \<and> calls w' = calls w @ map (\<lambda>e. Call PhaseTry (ent_ID e) True) es
       \<and> logged_until T (obs w') txID (accepted es tx)
       \<and> (\<forall>k. k \<noteq> txKey txID \<longrightarrow> (\<forall>e \<in> set es. k \<noteq> idem_key txID (ent_ID e) PhaseTry) \<longrightarrow> obs w' k = obs w k)
       \<and> map tx_TXID (rows w') = map tx_TXID (rows w) \<and> clock w \<le> clock w'"
  using sep
proof (induction es arbitrary: w tx)
  case Nil
  then show ?case by (simp add: accepted_def)
next
  case (Cons e es)
  obtain r w1 where t: "try_task M (txm_store M) txID e w = (r, w1)" by fastforce
  have ack: "acking clock obs rows calls (ce_Component e)" using Cons.prems(1) by simp
  have m0: "clock w \<le> clock w1" using try_task_mono [OF env_silent [OF env] ack, of w M txID] t by simp
  have m1: "clock w1 \<le> clock (snd (snd (await_tries M slack txID es w1)))"
    using Cons.prems(1) by (intro await_tries_mono [OF env_silent [OF env], of _ obs rows calls]) simp
  have rt: "clock w1 \<le> clock (run_tasks M (txm_store M) txID (take slack es) w1)"
    using Cons.prems(1) by (intro run_tasks_mono [OF env_silent [OF env], of _ obs rows calls]) (auto dest: in_set_takeD)
  have lt: "clock w1 < T" using Cons.prems(6) m1 rt by (cases r) (auto simp: t)
  have lt': "clock (snd (try_task M (txm_store M) txID e w)) < T" using lt t by simp
  note s = try_task_acks [OF env ack _ Cons.prems(4,5) lt' refl t]
  have ab: "obs w (idem_key txID (ent_ID e) PhaseTry) = None" using Cons.prems(3) by simp
  have step: "await_tries M slack txID (e # es) w = await_tries M slack txID es w1"
    using s(1) [OF ab] t by simp
  have other: "\<forall>e' \<in> set es. obs w1 (idem_key txID (ent_ID e') PhaseTry) = None"
  proof
    fix e' assume e': "e' \<in> set es"
    have "ent_ID e' \<noteq> ent_ID e" by (rule distinct_head [OF Cons.prems(2) e'])
    then have "idem_key txID (ent_ID e') PhaseTry \<noteq> idem_key txID (ent_ID e) PhaseTry"
      using Cons.prems(7) [of "ent_ID e'" "ent_ID e"] e' by auto
    then show "obs w1 (idem_key txID (ent_ID e') PhaseTry) = None"
      using s(4) [OF ab, of "idem_key txID (ent_ID e') PhaseTry"] Cons.prems(3) e' by simp
  qed
  have "\<exists>w'. await_tries M slack txID es w1 = (True, [], w')
       \<and> calls w' = calls w1 @ map (\<lambda>e. Call PhaseTry (ent_ID e) True) es
       \<and> logged_until T (obs w') txID (accepted es (tx\<lparr>tx_Components := set_try_status (ent_ID e) True (tx_Components tx)\<rparr>))
       \<and> (\<forall>k. k \<noteq> txKey txID \<longrightarrow> (\<forall>e \<in> set es. k \<noteq> idem_key txID (ent_ID e) PhaseTry) \<longrightarrow> obs w' k = obs w1 k)
       \<and> map tx_TXID (rows w') = map tx_TXID (rows w1) \<and> clock w1 \<le> clock w'"
    using Cons.prems(1,2,5,6) other m0
    by (intro Cons.IH s(3) ab) (auto simp: step [unfolded await_tries.simps] step intro: Cons.prems(7))
  then obtain w' where w': "await_tries M slack txID es w1 = (True, [], w')"
       "calls w' = calls w1 @ map (\<lambda>e. Call PhaseTry (ent_ID e) True) es"
       "logged_until T (obs w') txID (accepted es (tx\<lparr>tx_Components := set_try_status (ent_ID e) True (tx_Components tx)\<rparr>))"
       "\<forall>k. k \<noteq> txKey txID \<longrightarrow> (\<forall>e \<in> set es. k \<noteq> idem_key txID (ent_ID e) PhaseTry) \<longrightarrow> obs w' k = obs w1 k"
       "map tx_TXID (rows w') = map tx_TXID (rows w1)" "clock w1 \<le> clock w'" by blast
  have acc: "accepted (e # es) tx = accepted es (tx\<lparr>tx_Components := set_try_status (ent_ID e) True (tx_Components tx)\<rparr>)"
    by (simp add: accepted_def)
  show ?case unfolding step acc
    by (rule exI [of _ w']) (use w' s(2,4,5) [OF ab] m0 in auto)
qed

subsection \<open>The second phase with accepting components\<close>

lemma TXSubmit_conforms:
  assumes "store_conforms S clock obs rows"
  shows "fst (TXSubmit S txID ok w) = None"
    and "rows (snd (TXSubmit S txID ok w)) = upd_rows txID
      (\<lambda>r. r\<lparr>tx_Status := (if ok then ''successful'' else ''failure''), tx_UpdatedAt := clock w\<rparr>) (rows w)"
  using conforms_UpdateStatus [OF assms] conforms_redis_rows [OF assms] conforms_now [OF assms]
  by (simp_all add: TXSubmit_def case_prod_beta Let_def split: sum.split)

lemma confirm_component_acks:
  assumes "env_ok S clock obs rows calls" and "acking clock obs rows calls c"
    and "obs w (idem_key txID (co_ID c) PhaseConfirm) = None" and "confirm_component S txID c w = (r, w')"
  shows "\<exists>resp. r = Inr resp \<and> rs_ACK resp" and "calls w' = calls w @ [Call PhaseConfirm (co_ID c) True]"
    and "k \<noteq> idem_key txID (co_ID c) PhaseConfirm \<Longrightarrow> obs w' k = obs w k" and "rows w' = rows w"
proof -
  define w1 where "w1 = snd (CheckAndMark S txID (co_ID c) PhaseConfirm day w)"
  have sc: "store_conforms S clock obs rows" and sl: "store_silent S calls"
    using assms(1) by (simp_all add: env_ok_def)
  note cm = CheckAndMark_conforms [OF sc, of txID "co_ID c" PhaseConfirm day w, folded w1_def]
  have ab: "rdb_get t (idem_key txID (co_ID c) PhaseConfirm) (obs w) = None" for t
    using assms(3) by (rule absent_get)
  have "answers_call clock obs rows calls (Call PhaseConfirm (co_ID c) True) (co_Confirm c txID)"
    using assms(2) by (simp add: acking_def)
  note ac = answers_call_retry [OF this, where S = S and w = w1]
  have "confirm_component S txID c w = executeWithRetry S (co_Confirm c txID) w1"
    using cm(1) ab by (simp add: confirm_component_def case_prod_beta w1_def [symmetric])
  with assms(4) have r: "r = fst (executeWithRetry S (co_Confirm c txID) w1)"
    and w': "w' = snd (executeWithRetry S (co_Confirm c txID) w1)" by simp_all
  show "\<exists>resp. r = Inr resp \<and> rs_ACK resp" using ac(1) r by blast
  show "calls w' = calls w @ [Call PhaseConfirm (co_ID c) True]"
    using ac(2) silent_ops(1) [OF sl] by (simp add: w' w1_def)
  show "obs w' k = obs w k" if "k \<noteq> idem_key txID (co_ID c) PhaseConfirm"
    using ac(3) cm(2) ab that by (simp add: w' rdb_set_other)
  show "rows w' = rows w" using ac(4) cm(4) by (simp add: w')
qed

lemma second_phase_acks:
  assumes env: "env_ok (txm_store M) clock obs rows calls"
  shows "\<forall>c \<in> set cs. acking clock obs rows calls c \<and> rc_getComponents [co_ID c] (txm_registry M) = Inr [c] \<Longrightarrow>
     distinct (map co_ID cs) \<Longrightarrow>
     \<forall>c \<in> set cs. \<forall>d \<in> set cs. idem_key txID (co_ID c) PhaseConfirm = idem_key txID (co_ID d) PhaseConfirm \<longrightarrow> co_ID c = co_ID d \<Longrightarrow>
     \<forall>c \<in> set cs. obs w (idem_key txID (co_ID c) PhaseConfirm) = None \<Longrightarrow>
     second_phase M True txID (map (\<lambda>c. \<lparr>ct_ComponentID = co_ID c, ct_TryStatus = st\<rparr>) cs) w = (e, w') \<Longrightarrow>
     e = None \<and> calls w' = calls w @ map (\<lambda>c. Call PhaseConfirm (co_ID c) True) cs
     \<and> map tx_TXID (rows w') = map tx_TXID (rows w)
     \<and> (\<forall>r \<in> set (rows w'). tx_TXID r = txID \<longrightarrow> tx_Status r = ''successful'')"
proof (induction cs arbitrary: w)
  case Nil
  have sc: "store_conforms (txm_store M) clock obs rows" and sl: "store_silent (txm_store M) calls"
    using env by (simp_all add: env_ok_def)
  have w': "e = fst (TXSubmit (txm_store M) txID True w)" "w' = snd (TXSubmit (txm_store M) txID True w)"
    using Nil.prems(5) by simp_all
  show ?case unfolding w' TXSubmit_conforms [OF sc] silent_ops(4) [OF sl]
    by (simp add: upd_rows_ids) (rule ballI, rule impI, drule (1) in_upd_rows [rotated], auto)
next
  case (Cons c cs)
  obtain r w1 where c: "confirm_component (txm_store M) txID c w = (r, w1)" by fastforce
  have ack: "acking clock obs rows calls c" and look: "rc_getComponents [co_ID c] (txm_registry M) = Inr [c]"
    and ab: "obs w (idem_key txID (co_ID c) PhaseConfirm) = None" using Cons.prems(1,4) by simp_all
  note s = confirm_component_acks [OF env ack ab c]
  from s(1) obtain resp where resp: "r = Inr resp" "rs_ACK resp" by blast
  have step: "second_phase M True txID (map (\<lambda>c. \<lparr>ct_ComponentID = co_ID c, ct_TryStatus = st\<rparr>) cs) w1 = (e, w')"
    using Cons.prems(5) look c resp by (simp del: rc_getComponents.simps)
  have "\<forall>d \<in> set cs. obs w1 (idem_key txID (co_ID d) PhaseConfirm) = None"
  proof
    fix d assume d: "d \<in> set cs"
    then have "co_ID d \<noteq> co_ID c" by (rule distinct_head [OF Cons.prems(2)])
    then have "idem_key txID (co_ID d) PhaseConfirm \<noteq> idem_key txID (co_ID c) PhaseConfirm"
      using Cons.prems(3) d by auto
    then show "obs w1 (idem_key txID (co_ID d) PhaseConfirm) = None" using s(3) Cons.prems(4) d by simp
  qed
  with Cons.IH [OF _ _ _ _ step] Cons.prems(1-3) s(2,4) show ?case by simp
qed

lemma set_try_status_map:
  assumes "distinct ids"
  shows "set_try_status cid True (map (\<lambda>i. \<lparr>ct_ComponentID = i, ct_TryStatus = s i\<rparr>) ids) =
    map (\<lambda>i. \<lparr>ct_ComponentID = i, ct_TryStatus = if i = cid then ''successful'' else s i\<rparr>) ids"
  using assms by (induction ids) (auto simp: set_try_status_def)

lemma accepted_all:
  assumes "distinct ids" and "set ids \<subseteq> set (map ent_ID es)"
    and "tx_Components tx = map (\<lambda>i. \<lparr>ct_ComponentID = i, ct_TryStatus = ''hanging''\<rparr>) ids"
  shows "tx_Components (accepted es tx) = map (\<lambda>i. \<lparr>ct_ComponentID = i, ct_TryStatus = ''successful''\<rparr>) ids"
proof -
  have "fold (\<lambda>e. set_try_status (ent_ID e) True) es (map (\<lambda>i. \<lparr>ct_ComponentID = i, ct_TryStatus = s i\<rparr>) ids) =
    map (\<lambda>i. \<lparr>ct_ComponentID = i, ct_TryStatus = if i \<in> set (map ent_ID es) then ''successful'' else s i\<rparr>) ids" for s
    by (induction es arbitrary: s) (auto simp: set_try_status_map [OF assms(1)])
  from this [of "\<lambda>_. ''hanging''"] assms(2,3) show ?thesis by (auto simp: accepted_def)
qed

lemma status_loop_spec:
  "status_loop h cs = (if \<exists>c \<in> set cs. ct_TryStatus c = ''failure'' then None
     else Some (h \<or> (\<exists>c \<in> set cs. ct_TryStatus c \<noteq> ''successful'')))"
  by (induction h cs rule: status_loop.induct) auto

lemma rc_getComponents_one:
  assumes "rc_getComponents cids r = Inr cs" and "i < length cids"
  shows "rc_getComponents [cids ! i] r = Inr [cs ! i]"
proof -
  have "rc_getComponents cids r = Inr cs \<Longrightarrow> i < length cids \<Longrightarrow> map_of (rc_components r) (cids ! i) = Some (cs ! i)" for i
  proof (induction cids arbitrary: cs i)
    case (Cons cid cids)
    then show ?case by (cases i) (auto split: option.splits sum.splits)
  qed simp
  with assms show ?thesis by simp
qed

lemma registry_acks_lookup:
  assumes "registry_acks clock obs rows calls r" and "rc_getComponents cids r = Inr cs"
  shows "\<forall>c \<in> set cs. acking clock obs rows calls c"
  using assms(2)
proof (induction cids arbitrary: cs)
  case (Cons cid cids)
  then obtain c cs' where c: "map_of (rc_components r) cid = Some c" "rc_getComponents cids r = Inr cs'" "cs = c # cs'"
    by (auto split: option.splits sum.splits)
  have "acking clock obs rows calls c" using assms(1) map_of_SomeD [OF c(1)] by (auto simp: registry_acks_def)
  with Cons.IH [OF c(2)] c(3) show ?case by simp
qed simp

lemma phase_component_mono:
  assumes "store_silent S clock" and "acking clock obs rows calls c"
  shows "clock w \<le> clock (snd ((if ok then confirm_component else cancel_component) S txID c w))"
proof -
  have 1: "clock v \<le> clock (snd (executeWithRetry S (co_Confirm c txID) v))"
    and 2: "clock v \<le> clock (snd (executeWithRetry S (co_Cancel c txID) v))" for v
    using assms(2) unfolding acking_def by (blast intro: answers_call_retry(5))+
  have "clock w \<le> clock (snd (confirm_component S txID c w))"
    using 1 [of "snd (CheckAndMark S txID (co_ID c) PhaseConfirm day w)"]
    by (simp add: confirm_component_def case_prod_beta silent_ops [OF assms(1)] split: sum.split bool.split)
  moreover have "clock w \<le> clock (snd (cancel_component S txID c w))"
    using 2 [of "snd (CheckAndMark S txID (co_ID c) PhaseCancel day w)"]
    by (simp add: cancel_component_def case_prod_beta silent_ops [OF assms(1)] split: sum.split bool.split)
  ultimately show ?thesis by simp
qed

lemma second_phase_mono:
  assumes "store_silent (txm_store M) clock" and "registry_acks clock obs rows calls (txm_registry M)"
  shows "clock w \<le> clock (snd (second_phase M ok txID cts w))"
proof (induction cts arbitrary: w)
  case Nil
  show ?case by (simp add: silent_ops [OF assms(1)])
next
  case (Cons ct cts)
  show ?case
  proof (cases "rc_getComponents [ct_ComponentID ct] (txm_registry M)")
    case (Inr cs)
    show ?thesis
    proof (cases cs)
      case (Cons c cs')
      let ?op = "(if ok then confirm_component else cancel_component) (txm_store M) txID c w"
      have "acking clock obs rows calls c" using registry_acks_lookup [OF assms(2) Inr] Cons by simp
      from phase_component_mono [OF assms(1) this, of w ok txID] have m: "clock w \<le> clock (snd ?op)" .
      have "clock (snd ?op) \<le> clock (snd (second_phase M ok txID cts (snd ?op)))" by (rule Cons.IH)
      with m have "clock w \<le> clock (snd (second_phase M ok txID cts (snd ?op)))" by linarith
      with m show ?thesis unfolding second_phase.simps Inr Cons
        by (simp only: sum.case list.case case_prod_beta) (auto split: sum.split)
    qed (simp add: Inr del: rc_getComponents.simps)
  qed (simp del: rc_getComponents.simps)
qed

lemma advance_mono:
  assumes "store_silent (txm_store M) clock" and "registry_acks clock obs rows calls (txm_registry M)"
  shows "clock w \<le> clock (snd (advanceProgressByTXID M txID w))"
proof -
  have "clock v \<le> clock (snd (advanceProgress M tx v))" for tx v
    using second_phase_mono [OF assms, of v] by (simp add: advanceProgress_def Let_def)
  from this [of "snd (GetTX (txm_store M) txID w)"] show ?thesis
    by (simp add: advanceProgressByTXID_def case_prod_beta silent_ops [OF assms(1)] split: sum.split)
qed

lemma await_tries_rest: "set (fst (snd (await_tries M slack txID es w))) \<subseteq> set es"
proof (induction es arbitrary: w)
  case (Cons e es)
  from Cons.IH [of "snd (try_task M (txm_store M) txID e w)"] show ?case
    by (auto simp: case_prod_beta split: option.splits dest: in_set_dropD)
qed simp

lemma transaction_mono:
  assumes "store_silent (txm_store M) clock" and "store_silent SC clock"
    and "registry_acks clock obs rows calls (txm_registry M)" and "rc_inv (txm_registry M)" and "is_range_order ord"
  shows "clock w \<le> clock (snd (txm_Transaction M SC ord slack reqs w))"
proof (cases "getComponents M reqs")
  case (Inr es)
  let ?S = "txm_store M"
  have ack: "\<forall>e \<in> set (ord es). acking clock obs rows calls (ce_Component e)"
    using registry_acks_lookup [OF assms(3) getComponents_Inr(4) [OF assms(4) Inr]] assms(5) by (simp add: range_order_set)
  have tpc: "clock v \<le> clock (snd (twoPhaseCommit M SC ord slack txID es v))" for txID v
  proof -
    obtain ok rest v1 where aw: "await_tries M slack txID (ord es) v = (ok, rest, v1)" by (metis prod_cases3)
    have 1: "clock v \<le> clock v1" using await_tries_mono [OF assms(1) ack, of v slack txID] aw by simp
    have 2: "clock v1 \<le> clock (snd (advanceProgressByTXID M txID v1))" by (rule advance_mono [OF assms(1,3)])
    have "\<forall>e \<in> set rest. acking clock obs rows calls (ce_Component e)"
      using await_tries_rest [of M slack txID "ord es" v] aw ack by auto
    from run_tasks_mono [OF assms(2) this] 1 2 show ?thesis
      by (simp add: twoPhaseCommit_def aw Let_def) (meson order_trans)
  qed
  from tpc [of "snd (CreateTX ?S (ToComponents es) w)"] show ?thesis
    by (simp add: txm_Transaction_def Inr case_prod_beta silent_ops [OF assms(1)] split: sum.split)
qed (simp add: txm_Transaction_def)

lemma idem_key_phase:
  "idem_key txID c PhaseConfirm \<noteq> idem_key txID d PhaseTry"
proof
  assume "idem_key txID c PhaseConfirm = idem_key txID d PhaseTry"
  then have "last (idem_key txID c PhaseConfirm) = last (idem_key txID d PhaseTry)" by simp
  then show False by (simp add: idem_key_def)
qed

lemma generateTXID_no_colon: "CHR '':'' \<notin> set (generateTXID s t)"
  by (simp add: generateTXID_def itoa_no_colon)

lemma advance_confirms:
  assumes env: "env_ok (txm_store M) clock obs rows calls"
    and look: "\<forall>c \<in> set cs. acking clock obs rows calls c \<and> rc_getComponents [co_ID c] (txm_registry M) = Inr [c]"
    and dist: "distinct (map co_ID cs)" and nocolon: "CHR '':'' \<notin> set txID" "\<forall>c \<in> set cs. CHR '':'' \<notin> set (co_ID c)"
    and absent: "\<forall>c \<in> set cs. obs w (idem_key txID (co_ID c) PhaseConfirm) = None"
    and logged: "logged_tx (clock w) (obs w) txID = Some tx" "tx_TXID tx = txID"
      "tx_Components tx = map (\<lambda>c. \<lparr>ct_ComponentID = co_ID c, ct_TryStatus = ''successful''\<rparr>) cs"
    and adv: "advanceProgressByTXID M txID w = (e, w')"
  shows "e = None \<and> calls w' = calls w @ map (\<lambda>c. Call PhaseConfirm (co_ID c) True) cs
     \<and> map tx_TXID (rows w') = map tx_TXID (rows w)
     \<and> (\<forall>r \<in> set (rows w'). tx_TXID r = txID \<longrightarrow> tx_Status r = ''successful'')"
proof -
  let ?S = "txm_store M"
  have sc: "store_conforms ?S clock obs rows" and sl: "store_silent ?S calls" using env by (simp_all add: env_ok_def)
  define w1 where "w1 = snd (GetTX ?S txID w)"
  note g = GetTX_logged [OF sc logged(1), folded w1_def]
  have st: "getStatus t tx = ''successful''" for t by (auto simp: getStatus_def status_loop_spec logged(3))
  have sp: "second_phase M True txID (map (\<lambda>c. \<lparr>ct_ComponentID = co_ID c, ct_TryStatus = ''successful''\<rparr>) cs) w1 = (e, w')"
    using adv g(1) by (simp add: advanceProgressByTXID_def advanceProgress_def case_prod_beta w1_def st logged(2,3))
  have sep: "\<forall>c \<in> set cs. \<forall>d \<in> set cs. idem_key txID (co_ID c) PhaseConfirm = idem_key txID (co_ID d) PhaseConfirm
      \<longrightarrow> co_ID c = co_ID d"
    using nocolon idem_key_inj [of txID txID] by (metis Pair_inject Un_iff set_append)
  have "\<forall>c \<in> set cs. obs w1 (idem_key txID (co_ID c) PhaseConfirm) = None" using absent g(2) by simp
  from second_phase_acks [OF env look dist sep this sp] show ?thesis
    using g(4) silent_ops(3) [OF sl] by (simp add: w1_def)
qed


text \<open>
  The status of a transaction: \<^verbatim>\<open>failure\<close> exactly when some component's try failed, or when some
  component has not reported success and the transaction is older than the deadline; \<^verbatim>\<open>successful\<close>
  exactly when every component reported success, whatever its age; hanging otherwise. Only a
  hanging transaction is left alone by \<^verbatim>\<open>advanceProgress\<close>, which then calls no component.
\<close>

theorem tx_status_correct:
  "(getStatus t tx = ''failure'' \<longleftrightarrow> (\<exists>c \<in> set (tx_Components tx). ct_TryStatus c = ''failure'')
      \<or> (\<exists>c \<in> set (tx_Components tx). ct_TryStatus c \<noteq> ''successful'') \<and> tx_CreatedAt tx < t)
   \<and> (getStatus t tx = ''successful'' \<longleftrightarrow> (\<forall>c \<in> set (tx_Components tx). ct_TryStatus c = ''successful''))
   \<and> (getStatus t tx = ''hanging'' \<longleftrightarrow> (\<forall>c \<in> set (tx_Components tx). ct_TryStatus c \<noteq> ''failure'')
      \<and> (\<exists>c \<in> set (tx_Components tx). ct_TryStatus c \<noteq> ''successful'') \<and> t \<le> tx_CreatedAt tx)
   \<and> getStatus t tx \<in> {''failure'', ''successful'', ''hanging''}
   \<and> (getStatus (ts_now (txm_store M) w - op_Timeout (txm_opts M)) tx = ''hanging'' \<longrightarrow> advanceProgress M tx w = (None, w))"
  by (auto simp: getStatus_def status_loop_spec advanceProgress_def)

theorem tx_status_correct_witness:
  "getStatus 100 \<lparr>tx_TXID = ''t'', tx_Components = [\<lparr>ct_ComponentID = ''a'', ct_TryStatus = ''successful''\<rparr>,
      \<lparr>ct_ComponentID = ''b'', ct_TryStatus = ''hanging''\<rparr>], tx_Status = ''hanging'', tx_CreatedAt = 99, tx_UpdatedAt = 99\<rparr> = ''failure''"
  using tx_status_correct [THEN conjunct1, of 100 "\<lparr>tx_TXID = ''t'', tx_Components = [\<lparr>ct_ComponentID = ''a'', ct_TryStatus = ''successful''\<rparr>,
      \<lparr>ct_ComponentID = ''b'', ct_TryStatus = ''hanging''\<rparr>], tx_Status = ''hanging'', tx_CreatedAt = 99, tx_UpdatedAt = 99\<rparr>"]
  by simp

subsection \<open>The second phase after a failed confirmation\<close>

lemma retry_attempts_keeps:
  assumes "\<forall>d w. obs (ts_sleep S d w) = obs w" and "\<forall>w. obs (snd (fn w)) = obs w"
  shows "obs (snd (retry_attempts S n b r fn w)) = obs w"
proof (induction n arbitrary: b r w)
  case (Suc n)
  show ?case
  proof (cases "fst (fn w)")
    case (Inl e)
    with Suc assms show ?thesis by (simp add: case_prod_beta)
  qed (use assms(2) in \<open>simp add: case_prod_beta\<close>)
qed simp

lemma confirm_component_marks:
  assumes "store_conforms S clock obs rows" and "\<forall>d w. obs (ts_sleep S d w) = obs w"
    and "\<forall>w. obs (snd (co_Confirm c txID w)) = obs w"
    and "rdb_get (clock w) (idem_key txID (co_ID c) PhaseConfirm) (obs w) = None"
  shows "obs (snd (confirm_component S txID c w)) =
    rdb_set (clock w) (idem_key txID (co_ID c) PhaseConfirm) (TText ''done'') day (obs w)"
  using CheckAndMark_conforms(1,2) [OF assms(1), of txID "co_ID c" PhaseConfirm day w] assms(4)
  by (simp add: confirm_component_def case_prod_beta executeWithRetry_def retry_attempts_keeps [OF assms(2,3)])

lemma confirm_component_marked:
  assumes "store_conforms S clock obs rows"
    and "rdb_get (clock w) (idem_key txID (co_ID c) PhaseConfirm) (obs w) \<noteq> None"
  shows "confirm_component S txID c w = (Inr acked, snd (CheckAndMark S txID (co_ID c) PhaseConfirm day w))"
  using CheckAndMark_conforms(1) [OF assms(1), of txID "co_ID c" PhaseConfirm day w] assms(2)
  by (simp add: confirm_component_def case_prod_beta)


subsection \<open>The monitor's pace\<close>

text \<open>
  The monitor's pause between two turns is at least the configured tick and at most eight ticks,
  however often advancing transactions fails; after a turn without error it is the configured tick
  again. (For ticks below \<open>2^59\<close> nanoseconds, 18 years: beyond that the doubling overflows.)
\<close>

theorem monitor_tick_bounded:
  assumes "0 < op_MonitorTick (txm_opts M)" and "op_MonitorTick (txm_opts M) < 2 ^ 59"
    and "monitor M ord (Suc n) (0, None) w = ((tick, e), w')" and "monitor_turn M ord (tick, e) w' = ((tick', e'), w'')"
  shows "op_MonitorTick (txm_opts M) \<le> tick' \<and> tick' \<le> 8 * op_MonitorTick (txm_opts M)
     \<and> (if e = None then tick' = op_MonitorTick (txm_opts M)
        else tick' = min (2 * tick) (8 * op_MonitorTick (txm_opts M)))"
proof -
  let ?m = "op_MonitorTick (txm_opts M)"
  have turn: "fst (fst (monitor_turn M ord st v)) = (if snd st = None then ?m else backOffTick (txm_opts M) (fst st))" for st v
    by (simp add: monitor_turn_def Let_def case_prod_beta split: option.split sum.split)
  have bo: "backOffTick (txm_opts M) t = min (2 * t) (8 * ?m)" if "?m \<le> t" "t \<le> 8 * ?m" for t
    using that assms(1,2) by (simp add: backOffTick_def Let_def wrap64_id min_def)
  have step: "?m \<le> fst (fst (monitor_turn M ord st v)) \<and> fst (fst (monitor_turn M ord st v)) \<le> 8 * ?m"
    if "snd st = None \<or> ?m \<le> fst st \<and> fst st \<le> 8 * ?m" for st v
    unfolding turn using that assms(1) bo by auto
  have run: "snd st = None \<or> ?m \<le> fst st \<and> fst st \<le> 8 * ?m \<Longrightarrow>
      ?m \<le> fst (fst (monitor M ord (Suc n) st v)) \<and> fst (fst (monitor M ord (Suc n) st v)) \<le> 8 * ?m" for n st v
  proof (induction n arbitrary: st v)
    case 0
    with step show ?case by (simp add: case_prod_beta)
  next
    case (Suc n)
    from Suc.IH [of "fst (monitor_turn M ord st v)" "snd (monitor_turn M ord st v)"] step [OF Suc.prems]
    show ?case by (simp add: case_prod_beta)
  qed
  have t: "?m \<le> tick" "tick \<le> 8 * ?m" using run [of "(0, None)" n w] assms(3) by simp_all
  from turn [of "(tick, e)" w'] assms(4) have "tick' = (if e = None then ?m else backOffTick (txm_opts M) tick)" by simp
  with bo [OF t] t assms(1) show ?thesis by auto
qed

subsection \<open>Concrete runs\<close>

definition mem_calls :: "tcc_call list tx_mem \<Rightarrow> tcc_call list" where
  "mem_calls w = snd (snd (snd w))"

definition logging_call :: "tcc_call \<Rightarrow> tcc_call list tx_mem \<Rightarrow> (err + tcc_resp) \<times> tcc_call list tx_mem" where
  "logging_call ev = (\<lambda>(t, db, rows, l). (Inr acked, t, db, rows, l @ [ev]))"

definition logging :: "string \<Rightarrow> (tcc_call list tx_mem, unit) tcc_component" where
  "logging cid = \<lparr>co_ID = cid, co_Try = (\<lambda>_. logging_call (Call PhaseTry cid True)),
     co_Confirm = (\<lambda>_. logging_call (Call PhaseConfirm cid True)),
     co_Cancel = (\<lambda>_. logging_call (Call PhaseCancel cid True))\<rparr>"

definition sample_manager :: "(tcc_call list tx_mem, unit) tx_manager" where
  "sample_manager = fold (\<lambda>c M. snd (txm_Register c M)) [Some (logging ''a''), Some (logging ''b'')]
     (NewTXManager mem_store [WithTimeout second])"

definition sample_request :: "string \<Rightarrow> unit request_entity" where
  "sample_request cid = \<lparr>re_ComponentID = cid, re_Request = Map.empty\<rparr>"

lemma logging_acks: "acking (\<lambda>w. k * mem_clock w) mem_obs mem_rows mem_calls (logging cid)"
  by (simp add: acking_def answers_call_def logging_def logging_call_def acked_def mem_clock_def mem_obs_def
      mem_rows_def mem_calls_def case_prod_beta)

lemma mem_env_ok: "env_ok mem_store mem_clock mem_obs mem_rows mem_calls"
  by (simp add: env_ok_def mem_store_conforms)
     (auto simp: store_silent_def keeps_def mem_store_def mem_redis_def mem_db_def mem_calls_def)

lemma sample_manager_fields:
  "txm_store sample_manager = mem_store"
  "txm_registry sample_manager = \<lparr>rc_components = [(''a'', logging ''a''), (''b'', logging ''b'')]\<rparr>"
  by (simp_all add: sample_manager_def NewTXManager_def txm_Register_def rc_register_def newRegistryCenter_def
      logging_def case_prod_beta)

theorem getComponents_correct_witness:
  "distinct (map re_ComponentID [sample_request ''b'', sample_request ''a''])
   \<and> (case getComponents sample_manager [sample_request ''b'', sample_request ''a''] of
        Inr es \<Rightarrow> map ent_ID es = [''b'', ''a''] | Inl e \<Rightarrow> False)"
  using getComponents_correct [OF sample_manager_def, of "[sample_request ''b'', sample_request ''a'']"]
  by (simp add: sample_request_def rc_isRegistered_def sample_manager_fields split: sum.splits)

theorem monitor_tick_bounded_witness:
  "let M = NewTXManager mem_store [] :: (tcc_call list tx_mem, unit) tx_manager;
       r = monitor M (\<lambda>txs. txs) 2 (0, None) (7, Map.empty, [], [])
   in 5 * second \<le> fst (fst (monitor_turn M (\<lambda>txs. txs) (fst r) (snd r)))"
proof -
  let ?M = "NewTXManager mem_store [] :: (tcc_call list tx_mem, unit) tx_manager"
  have m: "op_MonitorTick (txm_opts ?M) = 5 * second" by (simp add: NewTXManager_def repair_def Let_def)
  obtain tick e w' where r: "monitor ?M (\<lambda>txs. txs) (Suc 1) (0, None) (7, Map.empty, [], []) = ((tick, e), w')"
    by (metis surj_pair)
  obtain tick' e' w'' where t: "monitor_turn ?M (\<lambda>txs. txs) (tick, e) w' = ((tick', e'), w'')" by (metis surj_pair)
  have "5 * second \<le> tick'" using monitor_tick_bounded [OF _ _ r t] by (simp add: m second_def)
  then show ?thesis using r t by (simp only: Let_def numeral_2_eq_2 One_nat_def fst_conv snd_conv)
qed

text \<open>A component whose Confirm always fails.\<close>

definition stubborn :: "string \<Rightarrow> (tcc_call list tx_mem, unit) tcc_component" where
  "stubborn cid = (logging cid)\<lparr>co_Confirm := (\<lambda>_ (t, db, rows, l). (Inl ''timeout'', t, db, rows, l @ [Call PhaseConfirm cid False]))\<rparr>"

definition stuck_manager :: "(tcc_call list tx_mem, unit) tx_manager" where
  "stuck_manager = \<lparr>txm_opts = \<lparr>op_Timeout = second, op_MonitorTick = second\<rparr>, txm_store = mem_store,
     txm_registry = \<lparr>rc_components = [(''a'', stubborn ''a'')]\<rparr>\<rparr>"

definition stuck_tx :: tx_record where
  "stuck_tx = \<lparr>tx_TXID = ''t'', tx_Components = [\<lparr>ct_ComponentID = ''a'', ct_TryStatus = ''successful''\<rparr>],
     tx_Status = ''hanging'', tx_CreatedAt = 5, tx_UpdatedAt = 5\<rparr>"

lemma stubborn_ID [simp]: "co_ID (stubborn cid) = cid"
  by (simp add: stubborn_def logging_def)

lemma stubborn_confirm:
  "executeWithRetry mem_store (co_Confirm (stubborn cid) i) (t, db, rows, l) =
     (Inl ''timeout'', t + 350 * millisecond, db, rows, l @ replicate 3 (Call PhaseConfirm cid False))"
  by (simp add: executeWithRetry_def numeral_3_eq_3 stubborn_def mem_store_def millisecond_def second_def)

lemma stuck_first:
  "advanceProgress stuck_manager stuck_tx (7, Map.empty, [stuck_tx], []) =
     (Some ''timeout'', 7 + 350 * millisecond,
      rdb_set 7 (idem_key ''t'' ''a'' PhaseConfirm) (TText ''done'') day Map.empty, [stuck_tx],
      replicate 3 (Call PhaseConfirm ''a'' False))"
proof -
  let ?w = "(7, Map.empty, [stuck_tx], []) :: tcc_call list tx_mem"
  have "CheckAndMark mem_store ''t'' ''a'' PhaseConfirm day ?w =
      (Inr False, 7, rdb_set 7 (idem_key ''t'' ''a'' PhaseConfirm) (TText ''done'') day Map.empty, [stuck_tx], [])"
    by (simp add: CheckAndMark_def mem_store_def mem_redis_def rdb_get_def)
  then have "confirm_component mem_store ''t'' (stubborn ''a'') ?w =
     (Inl ''timeout'', 7 + 350 * millisecond,
      rdb_set 7 (idem_key ''t'' ''a'' PhaseConfirm) (TText ''done'') day Map.empty, [stuck_tx],
      replicate 3 (Call PhaseConfirm ''a'' False))"
    by (simp add: confirm_component_def stubborn_confirm)
  then show ?thesis
    by (simp add: advanceProgress_def getStatus_def stuck_tx_def stuck_manager_def)
qed



end
