(* ===== verification/Tx_Frame.thy ===== *)
theory Tx_Frame
  imports Tx_Manager Go_Action
begin

text \<open>
  A frame rule for the transaction manager: a property of the world that the transaction log and the
  registered components keep is kept by every transaction and by the monitor, whatever fails and in
  whatever order the goroutines run. The components are only ever called with transaction IDs that
  the log holds, so a component has to keep the property for such IDs only.
\<close>

section \<open>The rule\<close>

text \<open>
  \<open>log_frame S I P\<close>: the servers behind the log keep \<open>I\<close>, and in \<open>I\<close> every transaction they answer has an ID in \<open>P\<close>,
  as long as only such transactions are written.
\<close>

fun value_ok :: "(string \<Rightarrow> bool) \<Rightarrow> txval \<Rightarrow> bool" where
  "value_ok P (TText s) = True"
| "value_ok P (TJson tx) = P (tx_TXID tx)"

definition log_frame :: "'w tx_store \<Rightarrow> ('w \<Rightarrow> bool) \<Rightarrow> (string \<Rightarrow> bool) \<Rightarrow> bool" where
  "log_frame S I P \<longleftrightarrow>
     (\<forall>k. ensures I (rd_Get (ts_redis S) k) (\<lambda>v w. value_ok P v \<and> I w) I)
   \<and> (\<forall>k v t. value_ok P v \<longrightarrow> maintains I (rd_Set (ts_redis S) k v t))
   \<and> (\<forall>k s t. maintains I (rd_SetNX (ts_redis S) k (TText s) t)) \<and> (\<forall>k. maintains I (rd_Del (ts_redis S) k))
   \<and> (\<forall>tx. P (tx_TXID tx) \<longrightarrow> maintains I (db_Create (ts_db S) tx))
   \<and> (\<forall>i. ensures I (db_First (ts_db S) i) (\<lambda>tx w. P (tx_TXID tx) \<and> I w) I)
   \<and> (\<forall>i cs t. maintains I (db_UpdateComponents (ts_db S) i cs t))
   \<and> (\<forall>i s t. maintains I (db_UpdateStatus (ts_db S) i s t))
   \<and> (\<forall>s. ensures I (db_FindByStatus (ts_db S) s) (\<lambda>txs w. (\<forall>tx \<in> set txs. P (tx_TXID tx)) \<and> I w) I)
   \<and> (\<forall>d w. I w \<longrightarrow> I (ts_sleep S d w))"

definition component_frame :: "('w \<Rightarrow> bool) \<Rightarrow> (string \<Rightarrow> bool) \<Rightarrow> ('w, 'd) tcc_component \<Rightarrow> bool" where
  "component_frame I P c \<longleftrightarrow>
     (\<forall>req. P (rq_TXID req) \<longrightarrow> maintains I (co_Try c req))
   \<and> (\<forall>x. P x \<longrightarrow> maintains I (co_Confirm c x)) \<and> (\<forall>x. P x \<longrightarrow> maintains I (co_Cancel c x))"

lemma ensuresD:
  assumes "ensures Q m R I" and "Q w" and "m w = (r, w')"
  shows "r = Inl e \<Longrightarrow> I w'" and "r = Inr x \<Longrightarrow> R x w'"
  using assms unfolding ensures_def by fastforce+

lemma maintains_at: "maintains I m \<Longrightarrow> I w \<Longrightarrow> I (snd (m w))"
  by (simp add: maintains_def)

subsection \<open>The log\<close>

lemma TXUpdate_read_frame:
  assumes "log_frame S I P"
  shows "ensures I (TXUpdate_read S txID) (\<lambda>tx w. P (tx_TXID tx) \<and> I w) I"
  unfolding ensures_def
proof (intro allI impI)
  fix w r w' assume w: "I w" and run: "TXUpdate_read S txID w = (r, w')"
  obtain g w1 where g: "rd_Get (ts_redis S) (txKey txID) w = (g, w1)" by fastforce
  have get: "ensures I (rd_Get (ts_redis S) (txKey txID)) (\<lambda>v w. value_ok P v \<and> I w) I"
    and first: "ensures I (db_First (ts_db S) txID) (\<lambda>tx w. P (tx_TXID tx) \<and> I w) I"
    using assms by (simp_all add: log_frame_def)
  show "case r of Inl e \<Rightarrow> I w' | Inr tx \<Rightarrow> P (tx_TXID tx) \<and> I w'"
  proof (cases g)
    case (Inl e)
    with g run have "db_First (ts_db S) txID w1 = (r, w')" by (simp add: TXUpdate_read_def)
    moreover have "I w1" using ensuresD(1) [OF get w g Inl] .
    ultimately show ?thesis using first by (simp add: ensures_def)
  next
    case (Inr v)
    have "value_ok P v \<and> I w1" using ensuresD(2) [OF get w g Inr] .
    with Inr g run show ?thesis by (cases v) (auto simp: TXUpdate_read_def tx_unmarshal_def)
  qed
qed

lemma set_frame: "log_frame S I P \<Longrightarrow> value_ok P v \<Longrightarrow> I w \<Longrightarrow> I (snd (rd_Set (ts_redis S) k v t w))"
  by (simp add: log_frame_def maintains_def)

lemma db_frame:
  assumes "log_frame S I P" and "I w"
  shows "I (snd (db_UpdateComponents (ts_db S) i cs t w))" "I (snd (db_UpdateStatus (ts_db S) i s t w))"
    "P (tx_TXID tx) \<Longrightarrow> I (snd (db_Create (ts_db S) tx w))"
    "I (snd (rd_SetNX (ts_redis S) k (TText v) t w))" "I (snd (rd_Del (ts_redis S) k w))"
    "I (ts_sleep S d w)"
  using assms by (simp_all add: log_frame_def maintains_def)

lemma TXUpdate_frame:
  assumes "log_frame S I P" and "I w"
  shows "I (snd (TXUpdate S txID cid accept w))"
proof -
  obtain r w1 where read: "TXUpdate_read S txID w = (r, w1)" by fastforce
  show ?thesis
  proof (cases r)
    case (Inl e)
    then show ?thesis using read ensuresD(1) [OF TXUpdate_read_frame [OF assms(1)] assms(2) read Inl]
      by (simp add: TXUpdate_def)
  next
    case (Inr tx)
    have "P (tx_TXID tx)" "I w1" using ensuresD(2) [OF TXUpdate_read_frame [OF assms(1)] assms(2) read Inr] by simp_all
    moreover obtain e w2 where u: "db_UpdateComponents (ts_db S) txID (set_try_status cid accept (tx_Components tx)) (ts_now S w1) w1 = (e, w2)"
      by fastforce
    moreover have "I w2" using db_frame(1) [OF assms(1) \<open>I w1\<close>] u by (metis snd_conv)
    ultimately show ?thesis
      using read Inr by (cases e) (simp_all add: TXUpdate_def TXUpdate_write_def Let_def set_frame [OF assms(1)])
  qed
qed

lemma TXSubmit_frame:
  assumes "log_frame S I P" and "I w"
  shows "I (snd (TXSubmit S txID success w))"
proof -
  let ?s = "if success then ''successful'' else ''failure''"
  obtain e w1 where u: "db_UpdateStatus (ts_db S) txID ?s (ts_now S w) w = (e, w1)" by fastforce
  have w1: "I w1" using db_frame(2) [OF assms] u by (metis snd_conv)
  obtain g w2 where g: "rd_Get (ts_redis S) (txKey txID) w1 = (g, w2)" by fastforce
  have get: "ensures I (rd_Get (ts_redis S) (txKey txID)) (\<lambda>v w. value_ok P v \<and> I w) I"
    using assms by (simp add: log_frame_def)
  show ?thesis
  proof (cases g)
    case (Inl x)
    have "I w2" using ensuresD(1) [OF get w1 g Inl] .
    with w1 u g Inl show ?thesis by (cases e) (simp_all add: TXSubmit_def Let_def)
  next
    case (Inr v)
    have "value_ok P v" "I w2" using ensuresD(2) [OF get w1 g Inr] by simp_all
    with w1 u g Inr show ?thesis
      by (cases e; cases v) (simp_all add: TXSubmit_def Let_def tx_unmarshal_def set_frame [OF assms(1)])
  qed
qed

lemma GetTX_frame:
  assumes "log_frame S I P"
  shows "ensures I (GetTX S txID) (\<lambda>tx w. P (tx_TXID tx) \<and> I w) I"
  unfolding ensures_def
proof (intro allI impI)
  fix w r w' assume w: "I w" and run: "GetTX S txID w = (r, w')"
  obtain g w1 where g: "rd_Get (ts_redis S) (txKey txID) w = (g, w1)" by fastforce
  have get: "ensures I (rd_Get (ts_redis S) (txKey txID)) (\<lambda>v w. value_ok P v \<and> I w) I"
    and first: "ensures I (db_First (ts_db S) txID) (\<lambda>tx w. P (tx_TXID tx) \<and> I w) I"
    using assms by (simp_all add: log_frame_def)
  have w1: "I w1" using ensuresD [OF get w g] by (cases g) auto
  obtain f w2 where f: "db_First (ts_db S) txID w1 = (f, w2)" by fastforce
  have from_db: "case r of Inl e \<Rightarrow> I w' | Inr tx \<Rightarrow> P (tx_TXID tx) \<and> I w'"
    if "(case db_First (ts_db S) txID w1 of (Inl e, w2) \<Rightarrow> (Inl e, w2)
         | (Inr tx, w2) \<Rightarrow> (Inr tx, snd (rd_Set (ts_redis S) (txKey txID) (TJson tx) day w2))) = (r, w')"
    using that f ensuresD [OF first w1 f] by (cases f) (auto simp: set_frame [OF assms])
  show "case r of Inl e \<Rightarrow> I w' | Inr tx \<Rightarrow> P (tx_TXID tx) \<and> I w'"
  proof (cases g)
    case (Inl e)
    then show ?thesis using run g by (intro from_db) (simp add: GetTX_def Let_def)
  next
    case (Inr v)
    have "value_ok P v" using ensuresD(2) [OF get w g Inr] by simp
    then show ?thesis
    proof (cases v)
      case (TJson tx)
      with Inr run g w1 \<open>value_ok P v\<close> show ?thesis by (auto simp: GetTX_def Let_def tx_unmarshal_def)
    next
      case (TText s)
      with Inr run g show ?thesis by (intro from_db) (simp add: GetTX_def Let_def tx_unmarshal_def)
    qed
  qed
qed

lemma mark_frame:
  assumes "log_frame S I P" and "I w"
  shows "I (snd (CheckAndMark S txID cid ph ttl w))" "I (snd (MarkExplicit S txID cid ph ttl w))"
proof -
  show "I (snd (CheckAndMark S txID cid ph ttl w))"
    using db_frame(4) [OF assms, of "idem_key txID cid ph" "''done''" ttl]
    by (auto simp: CheckAndMark_def split: sum.split prod.split)
  show "I (snd (MarkExplicit S txID cid ph ttl w))"
    by (simp add: MarkExplicit_def set_frame [OF assms(1) _ assms(2)])
qed

subsection \<open>The manager\<close>

lemma retry_frame:
  assumes "log_frame S I P" and "maintains I fn"
  shows "I w \<Longrightarrow> I (snd (executeWithRetry S fn w))"
proof -
  have "I w \<Longrightarrow> I (snd (retry_attempts S n b res fn w))" for n b res w
  proof (induction n arbitrary: b res w)
    case (Suc n)
    obtain r w1 where run: "fn w = (r, w1)" by fastforce
    have "I w1" using assms(2) Suc.prems run by (rule maintainsD)
    with run Suc.IH db_frame(6) [OF assms(1)] show ?case by (cases r) simp_all
  qed simp
  then show "I w \<Longrightarrow> I (snd (executeWithRetry S fn w))" by (simp add: executeWithRetry_def)
qed

lemma second_phase_component_frame:
  assumes L: "log_frame S I P" and "component_frame I P c" and "P txID" and "I w"
  shows "I (snd (confirm_component S txID c w))" "I (snd (cancel_component S txID c w))"
proof -
  have call: "maintains I (co_Confirm c txID)" "maintains I (co_Cancel c txID)"
    using assms(2,3) by (simp_all add: component_frame_def)
  note retry = retry_frame [OF L call(1)] retry_frame [OF L call(2)]
  obtain m w1 where m: "CheckAndMark S txID (co_ID c) PhaseConfirm day w = (m, w1)" by fastforce
  have w1: "I w1" using mark_frame(1) [OF L \<open>I w\<close>] m by (metis snd_conv)
  show "I (snd (confirm_component S txID c w))"
    using w1 retry(1) [OF w1] m by (simp add: confirm_component_def split: sum.split bool.split)
  obtain m2 w2 where m2: "CheckAndMark S txID (co_ID c) PhaseCancel day w = (m2, w2)" by fastforce
  have w2: "I w2" using mark_frame(1) [OF L \<open>I w\<close>] m2 by (metis snd_conv)
  obtain r w3 where r: "executeWithRetry S (co_Cancel c txID) w2 = (r, w3)" by fastforce
  have w3: "I w3" using retry(2) [OF w2] r by simp
  show "I (snd (cancel_component S txID c w))"
    using w2 w3 mark_frame(2) [OF L w3] m2 r
    by (simp add: cancel_component_def split: sum.split bool.split)
qed

lemma registered_frame:
  assumes "\<forall>(k, c) \<in> set (rc_components r). component_frame I P c" and "rc_getComponents cids r = Inr cs" and "c \<in> set cs"
  shows "component_frame I P c"
  using assms(2,3)
proof (induction cids arbitrary: cs)
  case (Cons cid cids)
  then obtain d ds where "map_of (rc_components r) cid = Some d" "rc_getComponents cids r = Inr ds" "cs = d # ds"
    by (auto split: option.splits sum.splits)
  then show ?case using Cons assms(1) by (auto dest!: map_of_SomeD)
qed simp

lemma second_phase_frame:
  assumes "log_frame (txm_store M) I P" and "\<forall>(k, c) \<in> set (rc_components (txm_registry M)). component_frame I P c"
    and "P txID"
  shows "I w \<Longrightarrow> I (snd (second_phase M success txID cts w))"
proof (induction cts arbitrary: w)
  case Nil
  then show ?case by (simp add: TXSubmit_frame [OF assms(1)])
next
  case (Cons ct cts)
  show ?case
  proof (cases "rc_getComponents [ct_ComponentID ct] (txm_registry M)")
    case (Inl e)
    then show ?thesis using Cons.prems by (simp del: rc_getComponents.simps)
  next
    case (Inr cs)
    show ?thesis
    proof (cases cs)
      case Nil
      then show ?thesis using Inr Cons.prems by (simp del: rc_getComponents.simps)
    next
      case (Cons c cs')
      have "component_frame I P c" using registered_frame [OF assms(2) Inr] Cons by simp
      note keep = second_phase_component_frame [OF assms(1) this assms(3) \<open>I w\<close>]
      obtain r w1 where run: "(if success then confirm_component else cancel_component) (txm_store M) txID c w = (r, w1)"
        by fastforce
      have "I (snd ((if success then confirm_component else cancel_component) (txm_store M) txID c w))" using keep by simp
      then have "I w1" unfolding run by simp
      with Cons.IH run Inr \<open>cs = c # cs'\<close> show ?thesis
        by (cases r) (simp_all del: rc_getComponents.simps)
    qed
  qed
qed

lemma advance_frame:
  assumes "log_frame (txm_store M) I P" and "\<forall>(k, c) \<in> set (rc_components (txm_registry M)). component_frame I P c"
    and "P (tx_TXID tx)" and "I w"
  shows "I (snd (advanceProgress M tx w))"
  using second_phase_frame [OF assms(1-3)] assms(4) by (simp add: advanceProgress_def Let_def)

lemma try_task_frame:
  assumes L: "log_frame (txm_store M) I P" "log_frame S I P" and "component_frame I P (ce_Component ent)" and "P txID" and "I w"
  shows "I (snd (try_task M S txID ent w))"
proof -
  let ?c = "ce_Component ent"
  let ?req = "\<lparr>rq_ComponentID = co_ID ?c, rq_TXID = txID, rq_Data = ce_Request ent\<rparr>"
  obtain m w1 where m: "CheckAndMark S txID (co_ID ?c) PhaseTry day w = (m, w1)" by fastforce
  have w1: "I w1" using mark_frame(1) [OF L(2) \<open>I w\<close>] m by (metis snd_conv)
  have call: "maintains I (co_Try ?c ?req)" using assms(3,4) by (simp add: component_frame_def)
  obtain r w2 where r: "executeWithRetry (txm_store M) (co_Try ?c ?req) w1 = (r, w2)" by fastforce
  have w2: "I w2" using retry_frame [OF L(1) call w1] r by simp
  show ?thesis
    using w1 TXUpdate_frame [OF L(2) w1] TXUpdate_frame [OF L(2) w2] m r
    by (simp add: try_task_def Let_def split: sum.split bool.split)
qed

lemma run_tasks_frame:
  assumes "log_frame (txm_store M) I P" "log_frame S I P" and "P txID"
  shows "\<forall>e \<in> set es. component_frame I P (ce_Component e) \<Longrightarrow> I w \<Longrightarrow> I (run_tasks M S txID es w)"
  by (induction es arbitrary: w) (simp_all add: try_task_frame [OF assms(1,2) _ assms(3)])

lemma await_tries_frame:
  assumes "log_frame (txm_store M) I P" and "P txID"
  shows "\<forall>e \<in> set es. component_frame I P (ce_Component e) \<Longrightarrow> I w \<Longrightarrow> I (snd (snd (await_tries M slack txID es w)))"
proof (induction es arbitrary: w)
  case (Cons e es)
  obtain r w1 where t: "try_task M (txm_store M) txID e w = (r, w1)" by fastforce
  have w1: "I w1" using try_task_frame [OF assms(1,1) _ assms(2), of e w] Cons.prems t by simp
  have "I (run_tasks M (txm_store M) txID (take slack es) w1)"
    using Cons.prems(1) w1 by (intro run_tasks_frame [OF assms(1,1,2)]) (auto dest: in_set_takeD)
  with t w1 Cons show ?case by (cases r) simp_all
qed simp

lemma getComponents_registered:
  assumes "getComponents M reqs = Inr es" and "e \<in> set es"
    and "\<forall>(k, c) \<in> set (rc_components (txm_registry M)). component_frame I P c"
  shows "component_frame I P (ce_Component e)"
proof -
  from assms(1) obtain m cs where m: "rc_getComponents (map fst m) (txm_registry M) = Inr cs" and b: "build_entities m cs = Inr es"
    by (auto simp: getComponents_def split: if_splits sum.splits)
  have "ce_Component e \<in> set cs" using build_entities_Inr [OF b] assms(2) by (auto simp: ToComponents_def)
  then show ?thesis by (rule registered_frame [OF assms(3) m])
qed

lemma transaction_frame:
  assumes L: "log_frame (txm_store M) I P" "log_frame SC I P"
    and R: "\<forall>(k, c) \<in> set (rc_components (txm_registry M)). component_frame I P c"
    and ids: "\<And>s t. P (generateTXID s t)" and ord: "\<And>xs. set (ord xs) \<subseteq> set xs" and "I w"
  shows "I (snd (txm_Transaction M SC ord slack reqs w))"
proof (cases "getComponents M reqs")
  case (Inl e)
  then show ?thesis using \<open>I w\<close> by (simp add: txm_Transaction_def)
next
  case (Inr es)
  have comps: "\<forall>e \<in> set es. component_frame I P (ce_Component e)"
    using getComponents_registered [OF Inr _ R] by blast
  obtain c w1 where c: "CreateTX (txm_store M) (ToComponents es) w = (c, w1)" by fastforce
  let ?id = "generateTXID (ts_now (txm_store M) w) (ts_now (txm_store M) w)"
  have w1: "I w1" "c = Inr txID \<Longrightarrow> P txID" for txID
  proof -
    define tx where "tx = \<lparr>tx_TXID = ?id,
      tx_Components = map (\<lambda>c. \<lparr>ct_ComponentID = co_ID c, ct_TryStatus = ''hanging''\<rparr>) (ToComponents es),
      tx_Status = ''hanging'', tx_CreatedAt = ts_now (txm_store M) w, tx_UpdatedAt = ts_now (txm_store M) w\<rparr>"
    have P: "P (tx_TXID tx)" by (simp add: tx_def ids)
    obtain e v where d: "db_Create (ts_db (txm_store M)) tx w = (e, v)" by fastforce
    have "I v" using db_frame(3) [OF L(1) \<open>I w\<close> P] d by simp
    moreover have "CreateTX (txm_store M) (ToComponents es) w = (case (e, v) of (Some e, w1) \<Rightarrow> (Inl e, w1)
        | (None, w1) \<Rightarrow> (Inr ?id, snd (rd_Set (ts_redis (txm_store M)) (txKey ?id) (TJson tx) day w1)))"
      using d by (cases e) (simp_all add: CreateTX_def Let_def tx_def)
    ultimately show "I w1" "c = Inr txID \<Longrightarrow> P txID"
      using c set_frame [OF L(1), of "TJson tx" v "txKey ?id" day] P ids by (cases e; auto)+
  qed
  show ?thesis
  proof (cases c)
    case (Inl e)
    then show ?thesis using Inr c w1 by (simp add: txm_Transaction_def)
  next
    case I: (Inr txID)
    obtain ok rest w2 where a: "await_tries M slack txID (ord es) w1 = (ok, rest, w2)" by (metis prod_cases3)
    have oes: "\<forall>e \<in> set (ord es). component_frame I P (ce_Component e)" using comps ord by blast
    have w2: "I w2" using await_tries_frame [OF L(1) w1(2) [OF I] oes w1(1), of slack] a by simp
    have "set rest \<subseteq> set (ord es)" using await_tries_rest [of M slack txID "ord es" w1] a by simp
    then have rest: "\<forall>e \<in> set rest. component_frame I P (ce_Component e)" using oes by blast
    obtain g w3 where g: "GetTX (txm_store M) txID w2 = (g, w3)" by fastforce
    have w3: "I w3" "\<And>tx. g = Inr tx \<Longrightarrow> P (tx_TXID tx)"
      using ensuresD [OF GetTX_frame [OF L(1)] w2 g] by (cases g; auto)+
    have "I (snd (advanceProgressByTXID M txID w2))"
      using w3 advance_frame [OF L(1) R] g by (cases g) (simp_all add: advanceProgressByTXID_def)
    from run_tasks_frame [OF L w1(2) [OF I] rest this] show ?thesis
      using Inr c I a by (simp add: txm_Transaction_def twoPhaseCommit_def Let_def)
  qed
qed

lemma submit_expired_frame:
  "log_frame S I P \<Longrightarrow> I w \<Longrightarrow> I (submit_expired S txs w)"
  by (induction txs arbitrary: w) (simp_all add: TXSubmit_frame)

lemma GetHangingTXs_frame:
  assumes L: "log_frame S I P"
  shows "ensures I (GetHangingTXs S) (\<lambda>txs w. (\<forall>tx \<in> set txs. P (tx_TXID tx)) \<and> I w) I"
  unfolding ensures_def
proof (intro allI impI)
  fix w r w' assume w: "I w" and run: "GetHangingTXs S w = (r, w')"
  have find: "ensures I (db_FindByStatus (ts_db S) ''hanging'') (\<lambda>txs w. (\<forall>tx \<in> set txs. P (tx_TXID tx)) \<and> I w) I"
    using L by (simp add: log_frame_def)
  obtain g w1 where g: "db_FindByStatus (ts_db S) ''hanging'' w = (g, w1)" by fastforce
  have w1: "I w1" using ensuresD [OF find w g] by (cases g) auto
  show "case r of Inl e \<Rightarrow> I w' | Inr txs \<Rightarrow> (\<forall>tx \<in> set txs. P (tx_TXID tx)) \<and> I w'"
  proof (cases g)
    case (Inl e)
    then show ?thesis using run g w1 by (auto simp: GetHangingTXs_def)
  next
    case (Inr txs)
    define v where "v = submit_expired S (filter (\<lambda>tx. tx_CreatedAt tx < ts_now S w1 - 30 * minute) txs) w1"
    have "I v" unfolding v_def by (rule submit_expired_frame [OF L w1])
    moreover have "db_FindByStatus (ts_db S) ''hanging'' v = (r, w')"
      using run g Inr by (simp add: GetHangingTXs_def Let_def v_def)
    ultimately show ?thesis using find by (simp add: ensures_def)
  qed
qed

lemma advance_all_frame:
  assumes "log_frame (txm_store M) I P" and "\<forall>(k, c) \<in> set (rc_components (txm_registry M)). component_frame I P c"
  shows "\<forall>tx \<in> set txs. P (tx_TXID tx) \<Longrightarrow> I w \<Longrightarrow> I (snd (advance_all M txs w))"
proof (induction txs arbitrary: w)
  case (Cons tx txs)
  obtain e w1 where a: "advanceProgress M tx w = (e, w1)" by fastforce
  have "I w1" using advance_frame [OF assms, of tx w] Cons.prems a by simp
  with Cons show ?case by (simp add: a case_prod_beta)
qed simp

lemma monitor_turn_frame:
  assumes L: "log_frame (txm_store M) I P"
    and R: "\<forall>(k, c) \<in> set (rc_components (txm_registry M)). component_frame I P c"
    and ord: "\<And>xs. set (ord xs) \<subseteq> set xs" and "I w"
  shows "I (snd (monitor_turn M ord st w))"
proof -
  let ?S = "txm_store M"
  define tick where "tick = (if snd st = None then op_MonitorTick (txm_opts M) else backOffTick (txm_opts M) (fst st))"
  define w0 where "w0 = ts_sleep ?S tick w"
  have w0: "I w0" unfolding w0_def by (rule db_frame(6) [OF L \<open>I w\<close>])
  obtain l w1 where l: "tx_Lock ?S (op_MonitorTick (txm_opts M)) w0 = (l, w1)" by fastforce
  have w1: "I w1"
    using db_frame(4) [OF L w0, of "''txstore:lock''" "itoa (ts_now ?S w0 - 62135596800 * second)" "op_MonitorTick (txm_opts M)"] l
    by (auto simp: tx_Lock_def split: prod.splits sum.splits bool.splits)
  obtain g w2 where g: "GetHangingTXs ?S w1 = (g, w2)" by fastforce
  have w2: "I w2" "\<And>txs. g = Inr txs \<Longrightarrow> \<forall>tx \<in> set txs. P (tx_TXID tx)"
    using ensuresD [OF GetHangingTXs_frame [OF L] w1 g] by (cases g; auto)+
  have unlock: "I v \<Longrightarrow> I (snd (tx_Unlock ?S v))" for v
    unfolding tx_Unlock_def by (rule db_frame(5) [OF L])
  have eq: "monitor_turn M ord st w = (case l of
       Some _ \<Rightarrow> ((tick, None), w1)
     | None \<Rightarrow> (case g of
          Inl e \<Rightarrow> ((tick, Some e), snd (tx_Unlock ?S w2))
        | Inr txs \<Rightarrow> (case batchAdvanceProgress M ord txs w2 of (e, w3) \<Rightarrow> ((tick, e), snd (tx_Unlock ?S w3)))))"
    using l g by (simp add: monitor_turn_def Let_def tick_def w0_def split: option.split sum.split)
  show ?thesis
  proof (cases g)
    case (Inl e)
    then show ?thesis unfolding eq using w1 unlock [OF w2(1)] by (simp split: option.split)
  next
    case (Inr txs)
    have "\<forall>tx \<in> set (ord txs). P (tx_TXID tx)" using w2(2) [OF Inr] ord by blast
    then have "I (snd (batchAdvanceProgress M ord txs w2))"
      unfolding batchAdvanceProgress_def by (rule advance_all_frame [OF L R _ w2(1)])
    then show ?thesis unfolding eq using Inr w1 by (simp add: unlock case_prod_beta split: option.split)
  qed
qed

lemma monitor_frame:
  assumes "log_frame (txm_store M) I P"
    and "\<forall>(k, c) \<in> set (rc_components (txm_registry M)). component_frame I P c"
    and "\<And>xs. set (ord xs) \<subseteq> set xs"
  shows "I w \<Longrightarrow> I (snd (monitor M ord n st w))"
proof (induction n arbitrary: st w)
  case (Suc n)
  obtain st' w' where t: "monitor_turn M ord st w = (st', w')" by fastforce
  have "I w'" using monitor_turn_frame [OF assms Suc.prems, of st] t by simp
  with Suc.IH t show ?case by simp
qed simp

section \<open>Conforming servers\<close>

text \<open>
  The property the servers keep on their side: every transaction in the table and in Redis has an ID
  in \<open>P\<close>. A failed insertion adds no other row.
\<close>

definition log_ids :: "(string \<Rightarrow> bool) \<Rightarrow> ('w \<Rightarrow> txval rdb) \<Rightarrow> ('w \<Rightarrow> tx_record list) \<Rightarrow> 'w \<Rightarrow> bool" where
  "log_ids P obs rows w \<longleftrightarrow> (\<forall>tx \<in> set (rows w). P (tx_TXID tx)) \<and> (\<forall>k v e. obs w k = Some (v, e) \<longrightarrow> value_ok P v)"

definition create_sound :: "'w tx_db \<Rightarrow> ('w \<Rightarrow> tx_record list) \<Rightarrow> bool" where
  "create_sound D rows \<longleftrightarrow> (\<forall>tx w. set (rows (snd (db_Create D tx w))) \<subseteq> insert tx (set (rows w)))"

lemma rdb_get_stored: "rdb_get t k db = Some v \<Longrightarrow> \<exists>e. db k = Some (v, e)"
  by (auto simp: rdb_get_def split: option.splits prod.splits if_splits)

lemma log_idsD: "log_ids P obs rows w \<Longrightarrow> obs w k = Some (v, e) \<Longrightarrow> value_ok P v"
  unfolding log_ids_def by (drule conjunct2, drule spec, drule spec, drule spec, erule (1) mp)

lemma log_idsI:
  "\<forall>tx \<in> set (rows w). P (tx_TXID tx) \<Longrightarrow> (\<And>k v e. obs w k = Some (v, e) \<Longrightarrow> value_ok P v) \<Longrightarrow> log_ids P obs rows w"
  unfolding log_ids_def by (intro conjI allI impI)

lemma log_ids_set: "log_ids P obs rows w \<Longrightarrow> value_ok P v \<Longrightarrow> rows w' = rows w \<Longrightarrow> obs w' = rdb_set t k v ttl (obs w)
   \<Longrightarrow> log_ids P obs rows w'"
  by (auto simp: log_ids_def rdb_set_def)

lemma log_ids_same: "log_ids P obs rows w \<Longrightarrow> rows w' = rows w \<Longrightarrow> obs w' = obs w \<Longrightarrow> log_ids P obs rows w'"
  by (simp add: log_ids_def)

lemma log_ids_upd:
  assumes "log_ids P obs rows w" and "rows w' = upd_rows i f (rows w)" and "\<And>tx. tx_TXID (f tx) = tx_TXID tx" and "obs w' = obs w"
  shows "log_ids P obs rows w'"
proof (rule log_idsI)
  have "tx_TXID ` set (rows w') = tx_TXID ` set (rows w)"
    unfolding assms(2) upd_rows_def set_map image_image using assms(3) by (intro image_cong) auto
  then show "\<forall>tx \<in> set (rows w'). P (tx_TXID tx)" using assms(1) unfolding log_ids_def by (metis imageE imageI)
qed (use assms(1,4) in \<open>auto intro: log_idsD\<close>)

lemma log_ids_get:
  assumes "store_conforms S clock obs rows"
  shows "ensures (log_ids P obs rows) (rd_Get (ts_redis S) k) (\<lambda>v w. value_ok P v \<and> log_ids P obs rows w) (log_ids P obs rows)"
  unfolding ensures_def
proof (intro allI impI)
  fix w r w' assume w: "log_ids P obs rows w" and run: "rd_Get (ts_redis S) k w = (r, w')"
  note g = conforms_Get [OF conforms_redis [OF assms], of k w, unfolded run]
  have "log_ids P obs rows w'"
    using w g(2) conforms_redis_rows(1) [OF assms, of k w] run by (intro log_ids_same [OF w]) simp_all
  moreover have "value_ok P v" if "r = Inr v" for v
  proof -
    have "rdb_get (clock w) k (obs w) = Some v" using g(1) that by (simp split: option.splits)
    from rdb_get_stored [OF this] obtain e where "obs w k = Some (v, e)" ..
    with w show ?thesis by (rule log_idsD)
  qed
  ultimately show "case r of Inl e \<Rightarrow> log_ids P obs rows w' | Inr v \<Rightarrow> value_ok P v \<and> log_ids P obs rows w'"
    by (simp split: sum.split)
qed

lemma log_ids_writes:
  assumes C: "store_conforms S clock obs rows"
  shows "value_ok P v \<Longrightarrow> maintains (log_ids P obs rows) (rd_Set (ts_redis S) k v t)"
    and "maintains (log_ids P obs rows) (rd_SetNX (ts_redis S) k (TText s) t)"
    and "maintains (log_ids P obs rows) (rd_Del (ts_redis S) k)"
    and "maintains (log_ids P obs rows) (db_UpdateComponents (ts_db S) i cs u)"
    and "maintains (log_ids P obs rows) (db_UpdateStatus (ts_db S) i st u)"
proof -
  note R = conforms_redis [OF C] and rows = conforms_redis_rows [OF C]
  show "maintains (log_ids P obs rows) (rd_Set (ts_redis S) k v t)" if "value_ok P v"
    unfolding maintains_def
  proof (intro allI impI)
    fix w assume w: "log_ids P obs rows w"
    show "log_ids P obs rows (snd (rd_Set (ts_redis S) k v t w))"
      by (rule log_ids_set [of _ _ _ w v _ "clock w" k t]) (simp_all add: w that rows conforms_Set [OF R])
  qed
  show "maintains (log_ids P obs rows) (rd_SetNX (ts_redis S) k (TText s) t)"
    unfolding maintains_def
  proof (intro allI impI)
    fix w assume w: "log_ids P obs rows w"
    show "log_ids P obs rows (snd (rd_SetNX (ts_redis S) k (TText s) t w))"
    proof (cases "rdb_get (clock w) k (obs w) = None")
      case True
      show ?thesis
        by (rule log_ids_set [of _ _ _ w "TText s" _ "clock w" k t]) (simp_all add: True w rows conforms_SetNX [OF R])
    next
      case False
      show ?thesis by (intro log_ids_same [OF w]) (simp_all only: False rows conforms_SetNX [OF R] if_False)
    qed
  qed
  show "maintains (log_ids P obs rows) (rd_Del (ts_redis S) k)"
    unfolding maintains_def
  proof (intro allI impI log_idsI)
    fix w assume w: "log_ids P obs rows w"
    then show "\<forall>tx \<in> set (rows (snd (rd_Del (ts_redis S) k w))). P (tx_TXID tx)" by (simp add: rows log_ids_def)
    fix k' v e assume "obs (snd (rd_Del (ts_redis S) k w)) k' = Some (v, e)"
    then have "obs w k' = Some (v, e)" by (simp add: conforms_Del [OF R] rdb_del_def split: if_splits)
    with w show "value_ok P v" by (rule log_idsD)
  qed
  show "maintains (log_ids P obs rows) (db_UpdateComponents (ts_db S) i cs u)"
    unfolding maintains_def
  proof (intro allI impI)
    fix w assume "log_ids P obs rows w"
    then show "log_ids P obs rows (snd (db_UpdateComponents (ts_db S) i cs u w))"
      by (rule log_ids_upd [where i = i and f = "\<lambda>tx. tx\<lparr>tx_Components := cs, tx_UpdatedAt := u\<rparr>"])
         (simp_all add: conforms_UpdateComponents [OF C])
  qed
  show "maintains (log_ids P obs rows) (db_UpdateStatus (ts_db S) i st u)"
    unfolding maintains_def
  proof (intro allI impI)
    fix w assume "log_ids P obs rows w"
    then show "log_ids P obs rows (snd (db_UpdateStatus (ts_db S) i st u w))"
      by (rule log_ids_upd [where i = i and f = "\<lambda>tx. tx\<lparr>tx_Status := st, tx_UpdatedAt := u\<rparr>"])
         (simp_all add: conforms_UpdateStatus [OF C])
  qed
qed

lemma log_ids_db:
  assumes C: "store_conforms S clock obs rows"
  shows "create_sound (ts_db S) rows \<Longrightarrow> P (tx_TXID tx) \<Longrightarrow> maintains (log_ids P obs rows) (db_Create (ts_db S) tx)"
    and "ensures (log_ids P obs rows) (db_First (ts_db S) i) (\<lambda>tx w. P (tx_TXID tx) \<and> log_ids P obs rows w) (log_ids P obs rows)"
    and "ensures (log_ids P obs rows) (db_FindByStatus (ts_db S) s)
       (\<lambda>txs w. (\<forall>tx \<in> set txs. P (tx_TXID tx)) \<and> log_ids P obs rows w) (log_ids P obs rows)"
proof -
  have obs: "obs (snd (db_Create (ts_db S) tx w)) = obs w" "obs (snd (db_First (ts_db S) i w)) = obs w"
    "obs (snd (db_FindByStatus (ts_db S) s w)) = obs w" for w
    using C by (simp_all add: store_conforms_def keeps_def)
  have first: "fst (db_First (ts_db S) i w) = (case find (\<lambda>tx. tx_TXID tx = i) (rows w) of None \<Rightarrow> Inl ''record not found'' | Some tx \<Rightarrow> Inr tx)"
    "rows (snd (db_First (ts_db S) i w)) = rows w"
    "fst (db_FindByStatus (ts_db S) s w) = Inr (filter (\<lambda>tx. tx_Status tx = s) (rows w))"
    "rows (snd (db_FindByStatus (ts_db S) s w)) = rows w" for w
    using C by (simp_all add: store_conforms_def db_conforms_def)
  show "maintains (log_ids P obs rows) (db_Create (ts_db S) tx)" if "create_sound (ts_db S) rows" "P (tx_TXID tx)"
    unfolding maintains_def
  proof (intro allI impI)
    fix w assume w: "log_ids P obs rows w"
    have "set (rows (snd (db_Create (ts_db S) tx w))) \<subseteq> insert tx (set (rows w))" using that(1) by (simp add: create_sound_def)
    then show "log_ids P obs rows (snd (db_Create (ts_db S) tx w))"
      using w that(2) unfolding log_ids_def obs(1) by blast
  qed
  show "ensures (log_ids P obs rows) (db_First (ts_db S) i) (\<lambda>tx w. P (tx_TXID tx) \<and> log_ids P obs rows w) (log_ids P obs rows)"
    unfolding ensures_def
  proof (intro allI impI)
    fix w r w' assume w: "log_ids P obs rows w" and run: "db_First (ts_db S) i w = (r, w')"
    have "log_ids P obs rows w'" using first(2) [of w] obs(2) [of w] run by (intro log_ids_same [OF w]) simp_all
    moreover have "P (tx_TXID tx)" if "r = Inr tx" for tx
      using first(1) [of w] run that w by (auto simp: log_ids_def find_Some_iff split: option.splits)
    ultimately show "case r of Inl e \<Rightarrow> log_ids P obs rows w' | Inr tx \<Rightarrow> P (tx_TXID tx) \<and> log_ids P obs rows w'"
      by (simp split: sum.split)
  qed
  show "ensures (log_ids P obs rows) (db_FindByStatus (ts_db S) s)
       (\<lambda>txs w. (\<forall>tx \<in> set txs. P (tx_TXID tx)) \<and> log_ids P obs rows w) (log_ids P obs rows)"
    unfolding ensures_def
  proof (intro allI impI)
    fix w r w' assume w: "log_ids P obs rows w" and run: "db_FindByStatus (ts_db S) s w = (r, w')"
    have "log_ids P obs rows w'" using first(4) [of w] obs(3) [of w] run by (intro log_ids_same [OF w]) simp_all
    moreover have "r = Inr (filter (\<lambda>tx. tx_Status tx = s) (rows w))" using first(3) [of w] run by simp
    ultimately show "case r of Inl e \<Rightarrow> log_ids P obs rows w' | Inr txs \<Rightarrow> (\<forall>tx \<in> set txs. P (tx_TXID tx)) \<and> log_ids P obs rows w'"
      using w by (simp add: log_ids_def)
  qed
qed

text \<open>Adding what the servers do not touch.\<close>

lemma maintains_and_view:
  "maintains J m \<Longrightarrow> (\<And>w. view (snd (m w)) = view w) \<Longrightarrow> maintains (\<lambda>w. J w \<and> Q (view w)) m"
  by (simp add: maintains_def)

lemma ensures_and_view:
  assumes "ensures J m (\<lambda>x w. R x \<and> J w) J" and "\<And>w. view (snd (m w)) = view w"
  shows "ensures (\<lambda>w. J w \<and> Q (view w)) m (\<lambda>x w. R x \<and> J w \<and> Q (view w)) (\<lambda>w. J w \<and> Q (view w))"
  unfolding ensures_def
proof (intro allI impI)
  fix w r w' assume w: "J w \<and> Q (view w)" and run: "m w = (r, w')"
  then have "view w' = view w" using assms(2) [of w] by simp
  moreover have "case r of Inl e \<Rightarrow> J w' | Inr x \<Rightarrow> R x \<and> J w'" using assms(1) w run unfolding ensures_def by blast
  ultimately show "case r of Inl e \<Rightarrow> J w' \<and> Q (view w') | Inr x \<Rightarrow> R x \<and> J w' \<and> Q (view w')"
    using w by (cases r) simp_all
qed

lemma conforming_log_frame:
  assumes C: "store_conforms S clock obs rows" and D: "create_sound (ts_db S) rows" and V: "store_silent S view"
    and sleep: "\<And>d w. rows (ts_sleep S d w) = rows w \<and> obs (ts_sleep S d w) = obs w \<and> view (ts_sleep S d w) = view w"
  shows "log_frame S (\<lambda>w. log_ids P obs rows w \<and> Q (view w)) P"
proof -
  let ?I = "\<lambda>w. log_ids P obs rows w \<and> Q (view w)"
  note r = silent_redis [OF V] and d = silent_db [OF V]
  have 1: "ensures ?I (rd_Get (ts_redis S) k) (\<lambda>v w. value_ok P v \<and> ?I w) ?I" for k
    by (rule ensures_and_view [where view = view and Q = Q, OF log_ids_get [OF C] r(1)])
  have 2: "maintains ?I (rd_Set (ts_redis S) k v t)" if "value_ok P v" for k v t
    by (rule maintains_and_view [where view = view and Q = Q, OF log_ids_writes(1) [OF C that] r(2)])
  have 3: "maintains ?I (rd_SetNX (ts_redis S) k (TText s) t)" for k s t
    by (rule maintains_and_view [where view = view and Q = Q, OF log_ids_writes(2) [OF C] r(3)])
  have 4: "maintains ?I (rd_Del (ts_redis S) k)" for k
    by (rule maintains_and_view [where view = view and Q = Q, OF log_ids_writes(3) [OF C] r(4)])
  have 5: "maintains ?I (db_Create (ts_db S) tx)" if "P (tx_TXID tx)" for tx
    by (rule maintains_and_view [where view = view and Q = Q, OF log_ids_db(1) [OF C D, of P, OF that] d(1)])
  have 6: "ensures ?I (db_First (ts_db S) i) (\<lambda>tx w. P (tx_TXID tx) \<and> ?I w) ?I" for i
    by (rule ensures_and_view [where view = view and Q = Q, OF log_ids_db(2) [OF C] d(2)])
  have 7: "maintains ?I (db_UpdateComponents (ts_db S) i cs t)" "maintains ?I (db_UpdateStatus (ts_db S) i s t)" for i cs s t
    by (rule maintains_and_view [where view = view and Q = Q, OF log_ids_writes(4) [OF C] d(3)] maintains_and_view [where view = view and Q = Q, OF log_ids_writes(5) [OF C] d(4)])+
  have 8: "ensures ?I (db_FindByStatus (ts_db S) s) (\<lambda>txs w. (\<forall>tx \<in> set txs. P (tx_TXID tx)) \<and> ?I w) ?I" for s
    by (rule ensures_and_view [where view = view and Q = Q, OF log_ids_db(3) [OF C] d(5)])
  have 9: "?I (ts_sleep S d w)" if "?I w" for d w
    using that sleep [of d w] by (simp add: log_ids_def)
  show ?thesis unfolding log_frame_def using 1 2 3 4 5 6 7 8 9 by blast
qed

text \<open>A store through a cancelled context: every command fails at once and does nothing.\<close>

definition cancelled_store :: "'w tx_store \<Rightarrow> 'w tx_store" where
  "cancelled_store S = (let e = ''context canceled'' in S\<lparr>
     ts_redis := \<lparr> rd_Get = (\<lambda>k w. (Inl e, w)), rd_Set = (\<lambda>k v t w. (Some e, w)), rd_SetNX = (\<lambda>k v t w. (Inl e, w)),
       rd_Del = (\<lambda>k w. (Some e, w)) \<rparr>,
     ts_db := \<lparr> db_Create = (\<lambda>tx w. (Some e, w)), db_First = (\<lambda>i w. (Inl e, w)), db_UpdateComponents = (\<lambda>i cs t w. (Some e, w)),
       db_UpdateStatus = (\<lambda>i s t w. (Some e, w)), db_FindByStatus = (\<lambda>s w. (Inl e, w)) \<rparr> \<rparr>)"

lemma cancelled_log_frame: "log_frame S I P \<Longrightarrow> log_frame (cancelled_store S) I P"
  by (simp add: log_frame_def cancelled_store_def maintains_def ensures_def Let_def)

section \<open>Runs of a manager\<close>

text \<open>
  What a manager does over time: transactions, whose late try goroutines may see a cancelled context,
  and turns of the monitor.
\<close>

datatype ('w, 'd) manager_step =
    Transact bool "('w, 'd) component_entity range_order" nat "'d request_entity list"
  | Watch "tx_record range_order" nat "duration \<times> err option"

fun step_manager :: "('w, 'd) tx_manager \<Rightarrow> ('w, 'd) manager_step \<Rightarrow> 'w \<Rightarrow> 'w" where
  "step_manager M (Transact cancelled ord slack reqs) w =
     snd (txm_Transaction M (if cancelled then cancelled_store (txm_store M) else txm_store M) ord slack reqs w)"
| "step_manager M (Watch ord n st) w = snd (monitor M ord n st w)"

fun step_ordered :: "('w, 'd) manager_step \<Rightarrow> bool" where
  "step_ordered (Transact cancelled ord slack reqs) = is_range_order ord"
| "step_ordered (Watch ord n st) = is_range_order ord"

lemma run_manager_frame:
  assumes L: "log_frame (txm_store M) I P" and R: "\<forall>(k, c) \<in> set (rc_components (txm_registry M)). component_frame I P c"
    and ids: "\<And>s t. P (generateTXID s t)"
  shows "\<forall>s \<in> set steps. step_ordered s \<Longrightarrow> I w \<Longrightarrow> I (fold (step_manager M) steps w)"
proof (induction steps arbitrary: w)
  case (Cons s steps)
  have "I (step_manager M s w)"
  proof (cases s)
    case (Transact cancelled ord slack reqs)
    have SC: "log_frame (if cancelled then cancelled_store (txm_store M) else txm_store M) I P"
      using L cancelled_log_frame [OF L] by simp
    have "set (ord xs) \<subseteq> set xs" for xs using Cons.prems(1) Transact by (simp add: range_order_set)
    from transaction_frame [OF L SC R ids this Cons.prems(2)] show ?thesis using Transact by simp
  next
    case (Watch ord n st)
    have "set (ord xs) \<subseteq> set xs" for xs using Cons.prems(1) Watch by (simp add: range_order_set)
    from monitor_frame [OF L R this Cons.prems(2)] show ?thesis using Watch by simp
  qed
  with Cons show ?case by simp
qed simp

end
