(* ===== verification/Tcc_Staging.thy ===== *)
theory Tcc_Staging
  imports Tx_Frame
begin

text \<open>
  What the TCC components of the services share (\<^verbatim>\<open>src/app/boBing/service/tcc_components.go\<close>,
  \<^verbatim>\<open>src/app/user/service/tcc_components.go\<close>): \<^verbatim>\<open>Try\<close> stages its data in Redis as JSON for ten minutes under a key made of
  a prefix, the transaction ID and the user, \<^verbatim>\<open>Confirm\<close> and \<^verbatim>\<open>Cancel\<close> look for it under the prefix and the
  transaction ID only. The locale states what follows from that for any such component.

  \<open>govalue\<close> are the Go values the components put into a \<^verbatim>\<open>map[string]interface{}\<close>; a round trip through JSON
  turns numbers into floats and times into strings. A failed type assertion is a panic, here the
  error value \<open>bad_assertion\<close>; in the program it ends the process.
\<close>

section \<open>Model\<close>

datatype govalue = GoString string | GoInt int | GoFloat int | GoBool bool | GoTime gotime

datatype stval = StText string | StJson "(string \<times> govalue) list"

definition bad_assertion :: err where
  "bad_assertion = ''panic: interface conversion''"

fun as_string :: "govalue option \<Rightarrow> err + string" where
  "as_string (Some (GoString s)) = Inr s"
| "as_string _ = Inl bad_assertion"

fun as_float :: "govalue option \<Rightarrow> err + int" where
  "as_float (Some (GoFloat n)) = Inr n"
| "as_float _ = Inl bad_assertion"

fun as_bool :: "govalue option \<Rightarrow> err + bool" where
  "as_bool (Some (GoBool b)) = Inr b"
| "as_bool _ = Inl bad_assertion"

definition value_of :: "err + 'a \<Rightarrow> ('a, 'w) action" where
  "value_of r w = (r, w)"

text \<open>The value a JSON round trip gives; \<open>fmt\<close> renders a time.\<close>

fun json_value :: "(gotime \<Rightarrow> string) \<Rightarrow> govalue \<Rightarrow> govalue" where
  "json_value fmt (GoInt n) = GoFloat n"
| "json_value fmt (GoTime t) = GoString (fmt t)"
| "json_value fmt v = v"

fun unmarshal_map :: "(gotime \<Rightarrow> string) \<Rightarrow> stval \<Rightarrow> err + (string \<rightharpoonup> govalue)" where
  "unmarshal_map fmt (StText s) = Inl ''invalid character''"
| "unmarshal_map fmt (StJson kvs) = Inr (\<lambda>k. map_option (json_value fmt) (map_of kvs k))"

type_synonym 'w staging_client = "('w, stval) redis_client"

definition nacked :: tcc_resp where
  "nacked = acked\<lparr> rs_ACK := False \<rparr>"

text \<open>The check at the start of \<^verbatim>\<open>Try\<close>: it compares the staged data itself with \<open>tried\<close>.\<close>

(* src: app/boBing/service/tcc_components.go:53-58 BoBingSubmissionTCCComponent.Try (already tried) *)
definition already_tried :: "'w staging_client \<Rightarrow> string \<Rightarrow> 'w \<Rightarrow> bool \<times> 'w" where
  "already_tried R key w = (case rd_Get R key w of (r, w') \<Rightarrow> (r = Inr (StText ''tried''), w'))"

(* src: app/boBing/service/tcc_components.go:84-88 BoBingSubmissionTCCComponent.Try (staging) *)
definition stage :: "'w staging_client \<Rightarrow> string \<Rightarrow> (string \<times> govalue) list \<Rightarrow> (tcc_resp, 'w) action" where
  "stage R key kvs w =
     (let w1 = snd (rd_Set R key (StJson kvs) (10 * minute) w);
          w2 = snd (rd_Set R (key @ '':status'') (StText ''tried'') (10 * minute) w1)
      in (Inr acked, w2))"

(* src: app/boBing/service/tcc_components.go:91-103 BoBingSubmissionTCCComponent.Confirm (staged data) *)
definition load_staged :: "'w staging_client \<Rightarrow> (gotime \<Rightarrow> string) \<Rightarrow> string \<Rightarrow> (string \<rightharpoonup> govalue, 'w) action" where
  "load_staged R fmt key = andThen (rd_Get R key) (\<lambda>v. value_of (unmarshal_map fmt v))"

(* src: app/boBing/service/tcc_components.go:176-183 BoBingSubmissionTCCComponent.Cancel (deletion) *)
definition unstage :: "'w staging_client \<Rightarrow> string \<Rightarrow> (tcc_resp, 'w) action" where
  "unstage R key w =
     (let w1 = snd (rd_Del R key w); w2 = snd (rd_Del R (key @ '':status'') w1) in (Inr acked, w2))"

section \<open>Keys\<close>

text \<open>
  A key of \<^verbatim>\<open>Confirm\<close> has one colon, a staged key at least two, because transaction IDs have none.
\<close>

definition colons :: "string \<Rightarrow> nat" where
  "colons s = count_list s CHR '':''"

definition colon_free :: "string \<Rightarrow> bool" where
  "colon_free x \<longleftrightarrow> CHR '':'' \<notin> set x"

definition unstaged :: "stval rdb \<Rightarrow> bool" where
  "unstaged db \<longleftrightarrow> (\<forall>k. colons k \<le> 1 \<longrightarrow> db k = None)"

lemma colons_append [simp]: "colons (s @ t) = colons s + colons t"
  by (simp add: colons_def)

lemma colons_free [simp]: "colon_free x \<Longrightarrow> colons x = 0"
  by (simp add: colons_def colon_free_def count_list_0_iff)

lemma generated_colon_free: "colon_free (generateTXID s t)"
  by (simp add: colon_free_def generateTXID_no_colon)

lemma unstaged_get: "unstaged db \<Longrightarrow> colons k \<le> 1 \<Longrightarrow> rdb_get t k db = None"
  by (simp add: unstaged_def absent_get)

lemma unstaged_set: "unstaged db \<Longrightarrow> 1 < colons k \<Longrightarrow> unstaged (rdb_set t k v ttl db)"
  by (auto simp: unstaged_def rdb_set_def)

lemma unstaged_del: "unstaged db \<Longrightarrow> unstaged (rdb_del k db)"
  by (simp add: unstaged_def rdb_del_def)

section \<open>Rules\<close>

text \<open>The Redis client and a view of the business data that it leaves alone.\<close>

definition client_ok :: "'w staging_client \<Rightarrow> ('w \<Rightarrow> gotime) \<Rightarrow> ('w \<Rightarrow> stval rdb) \<Rightarrow> ('w \<Rightarrow> 'v) \<Rightarrow> bool" where
  "client_ok R clock obs data \<longleftrightarrow> redis_conforms R clock obs
     \<and> (\<forall>k. unchanged data (rd_Get R k)) \<and> (\<forall>k v t. unchanged data (rd_Set R k v t)) \<and> (\<forall>k. unchanged data (rd_Del R k))"

definition clean :: "('w \<Rightarrow> stval rdb) \<Rightarrow> ('w \<Rightarrow> 'v) \<Rightarrow> 'v \<Rightarrow> 'w \<Rightarrow> bool" where
  "clean obs data d w \<longleftrightarrow> unstaged (obs w) \<and> data w = d"

lemma client_get:
  "client_ok R clock obs data \<Longrightarrow> rd_Get R k w = (r, w') \<Longrightarrow> obs w' = obs w \<and> data w' = data w"
  using conforms_Get(2) [of R clock obs k w] by (auto simp: client_ok_def unchanged_def) (metis snd_conv)

lemma already_tried_clean: "client_ok R clock obs data \<Longrightarrow> maintains (clean obs data d) (already_tried R key)"
  unfolding maintains_def already_tried_def clean_def
  by (auto split: prod.split dest: client_get)

lemma stage_clean:
  assumes "client_ok R clock obs data" and "1 < colons key"
  shows "maintains (clean obs data d) (stage R key kvs)"
  unfolding maintains_def
proof (intro allI impI)
  fix w assume "clean obs data d w"
  have R: "redis_conforms R clock obs" and keep: "data (snd (rd_Set R k v t w)) = data w" for k v t w
    using assms(1) by (simp_all add: client_ok_def unchanged_def)
  have "unstaged (obs (snd (rd_Set R k v t w)))" if "unstaged (obs w)" "1 < colons k" for k v t w
    using unstaged_set [OF that] by (simp add: conforms_Set [OF R])
  with \<open>clean obs data d w\<close> assms(2) show "clean obs data d (snd (stage R key kvs w))"
    by (simp add: clean_def stage_def keep)
qed

lemma unstage_clean:
  assumes "client_ok R clock obs data"
  shows "maintains (clean obs data d) (unstage R key)"
proof -
  have R: "redis_conforms R clock obs" and keep: "data (snd (rd_Del R k w)) = data w" for k w
    using assms(1) by (simp_all add: client_ok_def unchanged_def)
  show ?thesis
    by (simp add: maintains_def clean_def unstage_def keep conforms_Del [OF R] unstaged_del)
qed

lemma maintains_value_of [action_rules]: "maintains I (value_of r)"
  by (simp add: maintains_def value_of_def)

lemma maintains_after_tried:
  assumes "maintains I (already_tried R key)" and "maintains I yes" and "maintains I no"
  shows "maintains I (\<lambda>w. case already_tried R key w of (True, w') \<Rightarrow> yes w' | (False, w') \<Rightarrow> no w')"
  unfolding maintains_def
proof (intro allI impI)
  fix w assume "I w"
  obtain b w' where run: "already_tried R key w = (b, w')" by fastforce
  have "I w'" using assms(1) \<open>I w\<close> run by (rule maintainsD)
  with run assms(2,3) show "I (snd (case already_tried R key w of (True, w') \<Rightarrow> yes w' | (False, w') \<Rightarrow> no w'))"
    by (cases b) (simp_all add: maintains_def)
qed

text \<open>Reading a key with one colon finds nothing.\<close>

lemma load_staged_missing:
  assumes "client_ok R clock obs data" and "unstaged (obs w)" and "colons key \<le> 1"
  shows "\<exists>w'. load_staged R fmt key w = (Inl redisNil, w') \<and> obs w' = obs w \<and> data w' = data w"
proof -
  obtain r w' where g: "rd_Get R key w = (r, w')" by fastforce
  have "redis_conforms R clock obs" using assms(1) by (simp add: client_ok_def)
  from conforms_Get(1) [OF this, of key w] have "r = Inl redisNil" using g unstaged_get [OF assms(2,3)] by simp
  with g client_get [OF assms(1) g] show ?thesis by (simp add: load_staged_def andThen_def)
qed

lemma missing_confirm:
  assumes "client_ok R clock obs data" and "unstaged (obs w)" and "colons key \<le> 1"
  shows "\<exists>w'. andThen (load_staged R fmt key) f w = (Inl redisNil, w') \<and> obs w' = obs w \<and> data w' = data w"
  using load_staged_missing [OF assms, of fmt] by (auto simp: andThen_def)

lemma clean_unchanged: "unchanged obs m \<Longrightarrow> unchanged data m \<Longrightarrow> maintains (clean obs data d) m"
  by (simp add: maintains_def unchanged_def clean_def)

lemma colons_key: "colons p = 1 \<Longrightarrow> 1 < colons (p @ x @ '':'' @ y)"
  by simp (simp add: colons_def)

lemma confirm_key: "colons p = 1 \<Longrightarrow> colon_free x \<Longrightarrow> colons (p @ x) \<le> 1"
  by simp

lemma missing_clean:
  assumes "client_ok R clock obs data" and "colons key \<le> 1"
  shows "maintains (clean obs data d) (andThen (load_staged R fmt key) f)"
  unfolding maintains_def
proof (intro allI impI)
  fix w assume w: "clean obs data d w"
  then have "unstaged (obs w)" by (simp add: clean_def)
  from missing_confirm [OF assms(1) this assms(2)]
  obtain w' where "andThen (load_staged R fmt key) f w = (Inl redisNil, w')" "obs w' = obs w" "data w' = data w" by blast
  with w show "clean obs data d (snd (andThen (load_staged R fmt key) f w))" by (simp add: clean_def)
qed

section \<open>The contract\<close>

text \<open>
  A component of a service: \<open>good E clock obs data\<close> is what its surroundings \<open>E\<close> promise. No call may put
  anything under a key with one colon or change the data, and \<^verbatim>\<open>Confirm\<close> of a transaction finds nothing.
\<close>

locale staged_component =
  fixes component :: "'e \<Rightarrow> ('w, govalue) tcc_component"
    and good :: "'e \<Rightarrow> ('w \<Rightarrow> gotime) \<Rightarrow> ('w \<Rightarrow> stval rdb) \<Rightarrow> ('w \<Rightarrow> 'v) \<Rightarrow> bool"
  assumes try_clean: "good E clock obs data \<Longrightarrow> maintains (clean obs data d) (co_Try (component E) req)"
    and confirm_missing: "good E clock obs data \<Longrightarrow> unstaged (obs w) \<Longrightarrow> colon_free x \<Longrightarrow>
          \<exists>w'. co_Confirm (component E) x w = (Inl redisNil, w') \<and> obs w' = obs w \<and> data w' = data w"
    and cancel_clean: "good E clock obs data \<Longrightarrow> colon_free x \<Longrightarrow> maintains (clean obs data d) (co_Cancel (component E) x)"
begin

lemma frame: "good E clock obs data \<Longrightarrow> component_frame (clean obs data d) colon_free (component E)"
  unfolding component_frame_def maintains_def
proof (intro conjI allI impI)
  fix x w assume g: "good E clock obs data" and x: "colon_free x" and w: "clean obs data d w"
  then obtain w' where "co_Confirm (component E) x w = (Inl redisNil, w')" "obs w' = obs w" "data w' = data w"
    using confirm_missing [OF g _ x, of w] by (auto simp: clean_def)
  with w show "clean obs data d (snd (co_Confirm (component E) x w))" by (simp add: clean_def)
qed (use try_clean cancel_clean in \<open>auto simp: maintains_def\<close>)

text \<open>However often the component is tried, its data cannot be confirmed.\<close>

lemma confirm_after_tries:
  assumes "good E clock obs data" and "unstaged (obs w)" and "colon_free x"
  shows "fst (co_Confirm (component E) x (fold (\<lambda>req w. snd (co_Try (component E) req w)) reqs w)) = Inl redisNil
       \<and> data (snd (co_Confirm (component E) x (fold (\<lambda>req w. snd (co_Try (component E) req w)) reqs w))) = data w"
proof -
  let ?w = "fold (\<lambda>req w. snd (co_Try (component E) req w)) reqs w"
  have "clean obs data (data w) (fold (\<lambda>req w. snd (co_Try (component E) req w)) reqs v)" if "clean obs data (data w) v" for v
    using that by (induction reqs arbitrary: v) (simp_all add: maintains_at [OF try_clean [OF assms(1)]])
  then have "clean obs data (data w) ?w" using assms(2) by (simp add: clean_def)
  with confirm_missing [OF assms(1) _ assms(3), of ?w] show ?thesis by (auto simp: clean_def)
qed

end

section \<open>Managers of staged components\<close>

text \<open>
  \<open>apart\<close>: the log of the manager lives in a database and in Redis keys that the components do not use, and
  its servers leave the staging keys and the tables of the service alone; pauses change only the time.
\<close>

definition apart :: "'w tx_store \<Rightarrow> ('w \<Rightarrow> gotime) \<Rightarrow> ('w \<Rightarrow> txval rdb) \<Rightarrow> ('w \<Rightarrow> tx_record list) \<Rightarrow> ('w \<Rightarrow> 'v) \<Rightarrow> bool" where
  "apart S clock sobs rows view \<longleftrightarrow> store_conforms S clock sobs rows \<and> create_sound (ts_db S) rows \<and> store_silent S view
     \<and> (\<forall>d w. rows (ts_sleep S d w) = rows w \<and> sobs (ts_sleep S d w) = sobs w \<and> view (ts_sleep S d w) = view w)"

lemma staged_frame:
  assumes "\<And>d. component_frame (clean obs (\<lambda>w. (tables w, sobs w, rows w)) d) P c"
  shows "component_frame (\<lambda>w. log_ids Q sobs rows w \<and> unstaged (obs w) \<and> tables w = d0) P c"
proof -
  have keep: "maintains (\<lambda>w. log_ids Q sobs rows w \<and> unstaged (obs w) \<and> tables w = d0) m"
    if "\<And>d. maintains (clean obs (\<lambda>w. (tables w, sobs w, rows w)) d) m" for m
    unfolding maintains_def
  proof (intro allI impI)
    fix w assume w: "log_ids Q sobs rows w \<and> unstaged (obs w) \<and> tables w = d0"
    let ?w' = "snd (m w)"
    have "clean obs (\<lambda>w. (tables w, sobs w, rows w)) (tables w, sobs w, rows w) ?w'"
      using maintains_at [OF that] w by (simp add: clean_def)
    then show "log_ids Q sobs rows ?w' \<and> unstaged (obs ?w') \<and> tables ?w' = d0"
      using w by (simp add: clean_def log_ids_def)
  qed
  show ?thesis unfolding component_frame_def using assms by (auto simp: component_frame_def intro!: keep)
qed

lemma staged_manager_keeps:
  assumes A: "apart (txm_store M) clock sobs rows (\<lambda>w. (obs w, tables w))"
    and R: "\<forall>(k, c) \<in> set (rc_components (txm_registry M)). \<forall>d. component_frame (clean obs (\<lambda>w. (tables w, sobs w, rows w)) d) colon_free c"
    and "\<forall>s \<in> set steps. step_ordered s" and "log_ids colon_free sobs rows w" and "unstaged (obs w)"
  shows "tables (fold (step_manager M) steps w) = tables w"
proof -
  let ?I = "\<lambda>v. log_ids colon_free sobs rows v \<and> unstaged (obs v) \<and> tables v = tables w"
  have "log_frame (txm_store M) (\<lambda>v. log_ids colon_free sobs rows v
      \<and> (\<lambda>(db, t). unstaged db \<and> t = tables w) (obs v, tables v)) colon_free"
    using A unfolding apart_def by (intro conforming_log_frame) blast+
  then have L: "log_frame (txm_store M) ?I colon_free" by simp
  have "\<forall>(k, c) \<in> set (rc_components (txm_registry M)). component_frame ?I colon_free c"
    using R staged_frame [of obs tables sobs rows colon_free _ colon_free "tables w"] by blast
  from run_manager_frame [OF L this generated_colon_free assms(3)] assms(4,5) show ?thesis by simp
qed

section \<open>A server in memory\<close>

text \<open>The log of the manager in memory, with the staging keys and the tables of a service beside it.\<close>

type_synonym 'g staged_world = "(stval rdb \<times> 'g) tx_mem"

definition side_of :: "'g staged_world \<Rightarrow> 'g" where
  "side_of = (\<lambda>(t, db, rows, st, g). g)"

definition put_side :: "'g \<Rightarrow> 'g staged_world \<Rightarrow> 'g staged_world" where
  "put_side g = (\<lambda>(t, db, rows, st, _). (t, db, rows, st, g))"

definition via_side :: "('g \<Rightarrow> 'a \<times> 'g) \<Rightarrow> 'g staged_world \<Rightarrow> 'a \<times> 'g staged_world" where
  "via_side m w = (case m (side_of w) of (r, g) \<Rightarrow> (r, put_side g w))"

definition staged_of :: "'g staged_world \<Rightarrow> stval rdb" where
  "staged_of = (\<lambda>(t, db, rows, st, g). st)"

definition mem_staging :: "'g staged_world staging_client" where
  "mem_staging = \<lparr>
     rd_Get = (\<lambda>k (t, db, rows, st, g). (case rdb_get t k st of None \<Rightarrow> Inl redisNil | Some v \<Rightarrow> Inr v, t, db, rows, st, g)),
     rd_Set = (\<lambda>k v ttl (t, db, rows, st, g). (None, t, db, rows, rdb_set t k v ttl st, g)),
     rd_SetNX = (\<lambda>k v ttl (t, db, rows, st, g).
        if rdb_get t k st = None then (Inr True, t, db, rows, rdb_set t k v ttl st, g) else (Inr False, t, db, rows, st, g)),
     rd_Del = (\<lambda>k (t, db, rows, st, g). (None, t, db, rows, rdb_del k st, g))\<rparr>"

lemma mem_staging_conforms: "redis_conforms mem_staging mem_clock staged_of"
  by (auto simp: redis_conforms_def mem_staging_def mem_clock_def staged_of_def split: prod.splits)

lemma mem_client_ok: "client_ok mem_staging mem_clock staged_of (\<lambda>w. (f (side_of w), mem_obs w, mem_rows w))"
  unfolding client_ok_def
  by (auto simp: mem_staging_conforms)
     (auto simp: unchanged_def mem_staging_def side_of_def mem_obs_def mem_rows_def)

lemma mem_apart: "apart mem_store mem_clock mem_obs mem_rows (\<lambda>w. (staged_of w, f (side_of w)))"
  unfolding apart_def
  by (auto simp: mem_store_conforms)
     (auto simp: mem_store_def store_silent_def create_sound_def keeps_def Redis.mem_redis_def mem_db_def staged_of_def side_of_def
        mem_obs_def mem_rows_def split: if_splits)

end
