(* ===== verification/Bobing_Tcc.thy ===== *)
theory Bobing_Tcc
  imports Bobing_Throws Tcc_Staging
begin

text \<open>
  The TCC components of the dice game (\<^verbatim>\<open>src/app/boBing/service/tcc_components.go\<close>) and the service that
  runs them as one transaction (\<^verbatim>\<open>tcc_integration.go\<close>).
\<close>

section \<open>Model\<close>

text \<open>The surroundings: those of the service, the Redis client for staging, and the JSON codecs.\<close>

record 'w bobing_tcc_env =
  bt_env :: "'w bobing_env"
  bt_client :: "'w staging_client"
  bt_fmt :: "gotime \<Rightarrow> string"
  bt_dec :: "string \<Rightarrow> err + publish_request"
  bt_enc :: "publish_request \<Rightarrow> err + string"

subsection \<open>Throws\<close>

(* src: app/boBing/service/tcc_components.go:46-89 BoBingSubmissionTCCComponent.Try *)
definition submission_Try :: "'w bobing_tcc_env \<Rightarrow> govalue tcc_req \<Rightarrow> (tcc_resp, 'w) action" where
  "submission_Try B req =
     andThen (value_of (as_string (rq_Data req ''request''))) (\<lambda>text.
     andThen (value_of (bt_dec B text)) (\<lambda>sub w.
       let key = ''tcc_bobing_submission:'' @ rq_TXID req @ '':'' @ pr_OpenId sub in
       case already_tried (bt_client B) key w of
         (True, w') \<Rightarrow> (Inr acked, w')
       | (False, w') \<Rightarrow>
           (case Atoi (pr_Flag sub) of
              Inl e \<Rightarrow> (Inl e, w')
            | Inr flag \<Rightarrow>
                if flag > 16 \<or> flag < 1 then (Inr nacked, w')
                else (case Transform (SetType flag NewBoBingMessageTransform) of
                        (score, types, cnt) \<Rightarrow>
                          stage (bt_client B) key
                            [(''open_id'', GoString (pr_OpenId sub)), (''stu_num'', GoString (pr_StuNum sub)),
                             (''nick_name'', GoString (pr_NickName sub)), (''flag'', GoString (pr_Flag sub)),
                             (''check'', GoString (pr_Check sub)), (''score'', GoInt score), (''types'', GoString types),
                             (''count'', GoInt cnt), (''timestamp'', GoTime (be_now (bt_env B) w'))] w'))))"

(* src: app/boBing/service/tcc_components.go:91-174 BoBingSubmissionTCCComponent.Confirm *)
definition submission_Confirm :: "'w bobing_tcc_env \<Rightarrow> string \<Rightarrow> (tcc_resp, 'w) action" where
  "submission_Confirm B txID =
     (let key = ''tcc_bobing_submission:'' @ txID; E = bt_env B in
      andThen (load_staged (bt_client B) (bt_fmt B) key) (\<lambda>tempData.
      andThen (value_of (as_string (tempData ''open_id''))) (\<lambda>openId.
      andThen (value_of (as_string (tempData ''stu_num''))) (\<lambda>stuNum.
      andThen (value_of (as_string (tempData ''nick_name''))) (\<lambda>nickName.
      andThen (value_of (as_string (tempData ''flag''))) (\<lambda>flag.
      andThen (value_of (as_string (tempData ''check''))) (\<lambda>check.
      andThen (value_of (as_float (tempData ''score''))) (\<lambda>score.
      andThen (value_of (as_string (tempData ''types''))) (\<lambda>types.
      andThen (value_of (as_float (tempData ''count''))) (\<lambda>cnt w.
        let req = \<lparr> pr_OpenId = openId, pr_StuNum = stuNum, pr_NickName = nickName, pr_Flag = flag, pr_Check = check \<rparr>;
            now = be_now E w; today = be_midnight E now
        in andThen (GetDaySubmissionByOpenId (be_gorm E) openId today) (\<lambda>submission.
           andThen (UpdateRank (be_gorm E) req score cnt submission) (\<lambda>updated.
           andThen (SaveRecord (be_gorm E) req score types) (\<lambda>_.
           andThen (SaveDayCount E today updated) (\<lambda>_.
           andThen (SaveToTalScore E nickName openId score) (\<lambda>_.
           andThen (SaveDayScore E nickName openId score) (\<lambda>_.
           andThen (case Atoi flag of
                      Inl _ \<Rightarrow> ret ()
                    | Inr n \<Rightarrow> if n \<ge> 10 \<and> n \<le> 16 then SaveZhuangYuan E nickName types now else ret ()) (\<lambda>_.
             unstage (bt_client B) key))))))) w))))))))))"

(* src: app/boBing/service/tcc_components.go:176-183 BoBingSubmissionTCCComponent.Cancel *)
definition submission_Cancel :: "'w bobing_tcc_env \<Rightarrow> string \<Rightarrow> (tcc_resp, 'w) action" where
  "submission_Cancel B txID = unstage (bt_client B) (''tcc_bobing_submission:'' @ txID)"

(* src: app/boBing/service/tcc_components.go:18-24 BoBingSubmissionTCCComponent *)
definition submission_component :: "'w bobing_tcc_env \<Rightarrow> ('w, govalue) tcc_component" where
  "submission_component B = \<lparr> co_ID = ''bobing_submission_component'', co_Try = submission_Try B,
     co_Confirm = submission_Confirm B, co_Cancel = submission_Cancel B \<rparr>"

subsection \<open>Ranks\<close>

(* src: app/boBing/service/tcc_components.go:204-244 BoBingRankUpdateTCCComponent.Try *)
definition rank_Try :: "'w bobing_tcc_env \<Rightarrow> govalue tcc_req \<Rightarrow> (tcc_resp, 'w) action" where
  "rank_Try B req =
     (let G = be_gorm (bt_env B) in
      andThen (value_of (as_string (rq_Data req ''open_id''))) (\<lambda>openId.
      andThen (value_of (as_string (rq_Data req ''stu_num''))) (\<lambda>stuNum.
      andThen (value_of (as_string (rq_Data req ''nick_name''))) (\<lambda>nickName w.
        let key = ''tcc_bobing_rank:'' @ rq_TXID req @ '':'' @ openId in
        case already_tried (bt_client B) key w of
          (True, w') \<Rightarrow> (Inr acked, w')
        | (False, w') \<Rightarrow>
            andThen (ExistRankByOpenId G openId) (\<lambda>cnt.
            andThen (if cnt = 0 then CreatRank G openId stuNum nickName 0 else ret ()) (\<lambda>_.
              stage (bt_client B) key
                [(''open_id'', GoString openId), (''stu_num'', GoString stuNum), (''nick_name'', GoString nickName),
                 (''created'', GoBool (cnt = 0))])) w'))))"

(* src: app/boBing/service/tcc_components.go:246-267 BoBingRankUpdateTCCComponent.Confirm *)
definition rank_Confirm :: "'w bobing_tcc_env \<Rightarrow> string \<Rightarrow> (tcc_resp, 'w) action" where
  "rank_Confirm B txID =
     (let key = ''tcc_bobing_rank:'' @ txID in
      andThen (load_staged (bt_client B) (bt_fmt B) key) (\<lambda>_. unstage (bt_client B) key))"

text \<open>The deletion of a rank created by \<^verbatim>\<open>Try\<close> is a comment in the code.\<close>

(* src: app/boBing/service/tcc_components.go:269-294 BoBingRankUpdateTCCComponent.Cancel *)
definition rank_Cancel :: "'w bobing_tcc_env \<Rightarrow> string \<Rightarrow> (tcc_resp, 'w) action" where
  "rank_Cancel B txID =
     (let key = ''tcc_bobing_rank:'' @ txID in
      andThen (load_staged (bt_client B) (bt_fmt B) key) (\<lambda>tempData.
      andThen (value_of (as_bool (tempData ''created''))) (\<lambda>created.
      andThen (if created then value_of (as_string (tempData ''open_id'')) else ret []) (\<lambda>_.
        unstage (bt_client B) key))))"

(* src: app/boBing/service/tcc_components.go:186-190 BoBingRankUpdateTCCComponent *)
definition rank_component :: "'w bobing_tcc_env \<Rightarrow> ('w, govalue) tcc_component" where
  "rank_component B = \<lparr> co_ID = ''bobing_rank_update_component'', co_Try = rank_Try B,
     co_Confirm = rank_Confirm B, co_Cancel = rank_Cancel B \<rparr>"

subsection \<open>Records\<close>

(* src: app/boBing/service/tcc_components.go:315-340 BoBingRecordTCCComponent.Try *)
definition record_Try :: "'w bobing_tcc_env \<Rightarrow> govalue tcc_req \<Rightarrow> (tcc_resp, 'w) action" where
  "record_Try B req =
     andThen (value_of (as_string (rq_Data req ''open_id''))) (\<lambda>openId.
     andThen (value_of (as_float (rq_Data req ''score''))) (\<lambda>score.
     andThen (value_of (as_string (rq_Data req ''types''))) (\<lambda>types w.
       let key = ''tcc_bobing_record:'' @ rq_TXID req @ '':'' @ openId in
       case already_tried (bt_client B) key w of
         (True, w') \<Rightarrow> (Inr acked, w')
       | (False, w') \<Rightarrow>
           stage (bt_client B) key
             [(''open_id'', GoString openId), (''score'', GoInt score), (''types'', GoString types)] w')))"

(* src: app/boBing/service/tcc_components.go:342-371 BoBingRecordTCCComponent.Confirm *)
definition record_Confirm :: "'w bobing_tcc_env \<Rightarrow> string \<Rightarrow> (tcc_resp, 'w) action" where
  "record_Confirm B txID =
     (let key = ''tcc_bobing_record:'' @ txID in
      andThen (load_staged (bt_client B) (bt_fmt B) key) (\<lambda>tempData.
      andThen (value_of (as_string (tempData ''open_id''))) (\<lambda>openId.
      andThen (value_of (as_float (tempData ''score''))) (\<lambda>score.
      andThen (value_of (as_string (tempData ''types''))) (\<lambda>types.
      andThen (SaveRecord (be_gorm (bt_env B))
                 \<lparr> pr_OpenId = openId, pr_StuNum = [], pr_NickName = [], pr_Flag = [], pr_Check = [] \<rparr> score types) (\<lambda>_.
        unstage (bt_client B) key))))))"

(* src: app/boBing/service/tcc_components.go:373-380 BoBingRecordTCCComponent.Cancel *)
definition record_Cancel :: "'w bobing_tcc_env \<Rightarrow> string \<Rightarrow> (tcc_resp, 'w) action" where
  "record_Cancel B txID = unstage (bt_client B) (''tcc_bobing_record:'' @ txID)"

(* src: app/boBing/service/tcc_components.go:297-301 BoBingRecordTCCComponent *)
definition record_component :: "'w bobing_tcc_env \<Rightarrow> ('w, govalue) tcc_component" where
  "record_component B = \<lparr> co_ID = ''bobing_record_component'', co_Try = record_Try B,
     co_Confirm = record_Confirm B, co_Cancel = record_Cancel B \<rparr>"

subsection \<open>The service\<close>

(* src: app/boBing/service/tcc_integration.go:23-52 NewBoBingTCCService *)
definition NewBoBingTCCService :: "'w tx_store \<Rightarrow> 'w bobing_tcc_env \<Rightarrow> ('w, govalue) tx_manager" where
  "NewBoBingTCCService S B =
     fold (\<lambda>c M. snd (txm_Register (Some c) M))
       [submission_component B, rank_component B, record_component B]
       (NewTXManager S [WithTimeout (30 * second), WithMonitorTick (5 * second)])"

(* src: app/boBing/service/tcc_integration.go:62-86 BoBingTCCService.BoBingPublishWithTCC (requests) *)
definition publish_requests :: "publish_request \<Rightarrow> string \<Rightarrow> govalue request_entity list" where
  "publish_requests req reqJSON =
     [\<lparr> re_ComponentID = ''bobing_rank_update_component'',
        re_Request = [''open_id'' \<mapsto> GoString (pr_OpenId req), ''stu_num'' \<mapsto> GoString (pr_StuNum req),
                      ''nick_name'' \<mapsto> GoString (pr_NickName req)] \<rparr>,
      \<lparr> re_ComponentID = ''bobing_submission_component'', re_Request = [''request'' \<mapsto> GoString reqJSON] \<rparr>,
      \<lparr> re_ComponentID = ''bobing_record_component'',
        re_Request = [''open_id'' \<mapsto> GoString (pr_OpenId req), ''score'' \<mapsto> GoInt 0, ''types'' \<mapsto> GoString []] \<rparr>]"

text \<open>The error it returns: nil also when the transaction did not succeed.\<close>

(* src: app/boBing/service/tcc_integration.go:55-101 BoBingTCCService.BoBingPublishWithTCC *)
definition BoBingPublishWithTCC ::
  "('w, govalue) tx_manager \<Rightarrow> 'w bobing_tcc_env \<Rightarrow> 'w tx_store \<Rightarrow> ('w, govalue) component_entity range_order \<Rightarrow> nat
   \<Rightarrow> publish_request \<Rightarrow> 'w \<Rightarrow> err option \<times> 'w" where
  "BoBingPublishWithTCC M B SC ord slack req w =
     (case bt_enc B req of
        Inl e \<Rightarrow> (Some e, w)
      | Inr reqJSON \<Rightarrow>
          (case txm_Transaction M SC ord slack (publish_requests req reqJSON) w of
             ((txID, success, e), w') \<Rightarrow> (e, w')))"

(* src: app/boBing/service/tcc_integration.go:104-106 BoBingTCCService.GetTransactionStatus *)
definition bobing_GetTransactionStatus :: "('w, govalue) tx_manager \<Rightarrow> string \<Rightarrow> (tx_record, 'w) action" where
  "bobing_GetTransactionStatus M txID = GetTX (txm_store M) txID"

section \<open>Properties\<close>

text \<open>
  What the components rely on: a Redis client for staging, and statements on the ranks that touch
  neither Redis nor the data under observation.
\<close>

definition bobing_good :: "'w bobing_tcc_env \<Rightarrow> ('w \<Rightarrow> gotime) \<Rightarrow> ('w \<Rightarrow> stval rdb) \<Rightarrow> ('w \<Rightarrow> 'v) \<Rightarrow> bool" where
  "bobing_good B clock obs data \<longleftrightarrow> client_ok (bt_client B) clock obs data
     \<and> (\<forall>i. unchanged obs (q_count_ranks_of (be_gorm (bt_env B)) i) \<and> unchanged data (q_count_ranks_of (be_gorm (bt_env B)) i))
     \<and> (\<forall>r. unchanged obs (q_create_rank (be_gorm (bt_env B)) r) \<and> unchanged data (q_create_rank (be_gorm (bt_env B)) r))"

lemma colons_prefix:
  "colons ''tcc_bobing_submission:'' = 1" "colons ''tcc_bobing_rank:'' = 1" "colons ''tcc_bobing_record:'' = 1"
  by (simp_all add: colons_def)

lemma submission_try_clean:
  assumes "client_ok (bt_client B) clock obs data"
  shows "maintains (clean obs data d) (submission_Try B req)"
proof -
  have rest: "maintains (clean obs data d) (\<lambda>w'. case Atoi f of
              Inl e \<Rightarrow> (Inl e, w')
            | Inr flag \<Rightarrow>
                if flag > 16 \<or> flag < 1 then (Inr nacked, w')
                else (case Transform (SetType flag NewBoBingMessageTransform) of
                        (score, types, cnt) \<Rightarrow> stage (bt_client B) key (kvs score types cnt w') w'))"
    if "1 < colons key" for f key kvs
    using stage_clean [OF assms that, of d] by (auto simp: maintains_def split: sum.split prod.split)
  show ?thesis
    unfolding submission_Try_def Let_def
    by (intro action_rules maintains_after_tried [OF already_tried_clean [OF assms]] rest
        colons_key colons_prefix) (simp add: maintains_def)
qed

lemma rank_try_clean:
  assumes "bobing_good B clock obs data"
  shows "maintains (clean obs data d) (rank_Try B req)"
proof -
  let ?G = "be_gorm (bt_env B)"
  have R: "client_ok (bt_client B) clock obs data" using assms by (simp add: bobing_good_def)
  have db: "maintains (clean obs data d) (ExistRankByOpenId ?G i)" "maintains (clean obs data d) (CreatRank ?G i st nn sc)" for i st nn sc
    unfolding ExistRankByOpenId_def CreatRank_def
    by (intro action_rules clean_unchanged; use assms in \<open>simp add: bobing_good_def\<close>)+
  have ok: "maintains (clean obs data d) (\<lambda>w'. (Inr acked, w'))" by (simp add: maintains_def)
  show ?thesis
    unfolding rank_Try_def Let_def
    by (intro action_rules maintains_after_tried [OF already_tried_clean [OF R]] ok db stage_clean [OF R]
        colons_key colons_prefix)
qed

lemma record_try_clean:
  assumes R: "client_ok (bt_client B) clock obs data"
  shows "maintains (clean obs data d) (record_Try B req)"
proof -
  have ok: "maintains (clean obs data d) (\<lambda>w'. (Inr acked, w'))" by (simp add: maintains_def)
  show ?thesis
    unfolding record_Try_def Let_def
    by (intro action_rules maintains_after_tried [OF already_tried_clean [OF R]] ok stage_clean [OF R]
        colons_key colons_prefix)
qed

lemma rank_cancel_clean:
  assumes "client_ok (bt_client B) clock obs data" and "colon_free x"
  shows "maintains (clean obs data d) (rank_Cancel B x)"
  unfolding rank_Cancel_def Let_def by (rule missing_clean [OF assms(1) confirm_key [OF colons_prefix(2) assms(2)]])

lemma bobing_client: "bobing_good B clock obs data \<Longrightarrow> client_ok (bt_client B) clock obs data"
  by (simp add: bobing_good_def)

text \<open>The three components satisfy the contract.\<close>

interpretation submission: staged_component submission_component bobing_good
proof
  show "maintains (clean obs data d) (co_Try (submission_component B) req)" if "bobing_good B clock obs data"
    for B :: "'a bobing_tcc_env" and clock obs data d req
    unfolding submission_component_def tcc_component.simps by (rule submission_try_clean [OF bobing_client [OF that]])
  show "\<exists>w'. co_Confirm (submission_component B) x w = (Inl redisNil, w') \<and> obs w' = obs w \<and> data w' = data w"
    if "bobing_good B clock obs data" "unstaged (obs w)" "colon_free x"
    for B :: "'a bobing_tcc_env" and clock obs data w x
    unfolding submission_component_def tcc_component.simps submission_Confirm_def Let_def
    by (rule missing_confirm [OF bobing_client [OF that(1)] that(2) confirm_key [OF colons_prefix(1) that(3)]])
  show "maintains (clean obs data d) (co_Cancel (submission_component B) x)" if "bobing_good B clock obs data"
    for B :: "'a bobing_tcc_env" and clock obs data d x
    unfolding submission_component_def tcc_component.simps submission_Cancel_def by (rule unstage_clean [OF bobing_client [OF that]])
qed

interpretation rank: staged_component rank_component bobing_good
proof
  show "maintains (clean obs data d) (co_Try (rank_component B) req)" if "bobing_good B clock obs data"
    for B :: "'a bobing_tcc_env" and clock obs data d req
    using that by (simp add: rank_component_def rank_try_clean)
  show "\<exists>w'. co_Confirm (rank_component B) x w = (Inl redisNil, w') \<and> obs w' = obs w \<and> data w' = data w"
    if "bobing_good B clock obs data" "unstaged (obs w)" "colon_free x"
    for B :: "'a bobing_tcc_env" and clock obs data w x
    unfolding rank_component_def tcc_component.simps rank_Confirm_def Let_def
    by (rule missing_confirm [OF bobing_client [OF that(1)] that(2) confirm_key [OF colons_prefix(2) that(3)]])
  show "maintains (clean obs data d) (co_Cancel (rank_component B) x)" if "bobing_good B clock obs data" "colon_free x"
    for B :: "'a bobing_tcc_env" and clock obs data d x
    unfolding rank_component_def tcc_component.simps by (rule rank_cancel_clean [OF bobing_client [OF that(1)] that(2)])
qed

interpretation record_saver: staged_component record_component bobing_good
proof
  show "maintains (clean obs data d) (co_Try (record_component B) req)" if "bobing_good B clock obs data"
    for B :: "'a bobing_tcc_env" and clock obs data d req
    unfolding record_component_def tcc_component.simps by (rule record_try_clean [OF bobing_client [OF that]])
  show "\<exists>w'. co_Confirm (record_component B) x w = (Inl redisNil, w') \<and> obs w' = obs w \<and> data w' = data w"
    if "bobing_good B clock obs data" "unstaged (obs w)" "colon_free x"
    for B :: "'a bobing_tcc_env" and clock obs data w x
    unfolding record_component_def tcc_component.simps record_Confirm_def Let_def
    by (rule missing_confirm [OF bobing_client [OF that(1)] that(2) confirm_key [OF colons_prefix(3) that(3)]])
  show "maintains (clean obs data d) (co_Cancel (record_component B) x)" if "bobing_good B clock obs data"
    for B :: "'a bobing_tcc_env" and clock obs data d x
    unfolding record_component_def tcc_component.simps record_Cancel_def by (rule unstage_clean [OF bobing_client [OF that]])
qed

subsection \<open>The service over time\<close>

datatype 'w dice_step =
    TccPublish bool "('w, govalue) component_entity range_order" nat publish_request
  | TccMonitor "tx_record range_order" nat "duration \<times> err option"

fun serve_tcc :: "'w tx_store \<Rightarrow> 'w bobing_tcc_env \<Rightarrow> 'w dice_step \<Rightarrow> 'w \<Rightarrow> 'w" where
  "serve_tcc S B (TccPublish cancelled ord slack req) w =
     snd (BoBingPublishWithTCC (NewBoBingTCCService S B) B (if cancelled then cancelled_store S else S) ord slack req w)"
| "serve_tcc S B (TccMonitor ord n st) w = snd (monitor (NewBoBingTCCService S B) ord n st w)"

fun dice_ordered :: "'w dice_step \<Rightarrow> bool" where
  "dice_ordered (TccPublish cancelled ord slack req) = is_range_order ord"
| "dice_ordered (TccMonitor ord n st) = is_range_order ord"

fun manager_steps :: "'w bobing_tcc_env \<Rightarrow> 'w dice_step \<Rightarrow> ('w, govalue) manager_step list" where
  "manager_steps B (TccPublish cancelled ord slack req) =
     (case bt_enc B req of Inl e \<Rightarrow> [] | Inr json \<Rightarrow> [Transact cancelled ord slack (publish_requests req json)])"
| "manager_steps B (TccMonitor ord n st) = [Watch ord n st]"

lemma service_manager:
  "txm_store (NewBoBingTCCService S B) = S"
  "rc_components (txm_registry (NewBoBingTCCService S B)) =
     [(''bobing_submission_component'', submission_component B), (''bobing_rank_update_component'', rank_component B),
      (''bobing_record_component'', record_component B)]"
  by (simp_all add: NewBoBingTCCService_def NewTXManager_def txm_Register_def rc_register_def newRegistryCenter_def
      submission_component_def rank_component_def record_component_def)

lemma serve_steps:
  "serve_tcc S B s w = fold (step_manager (NewBoBingTCCService S B)) (manager_steps B s) w"
  by (cases s) (auto simp: BoBingPublishWithTCC_def service_manager case_prod_beta split: sum.split)

lemma steps_ordered: "dice_ordered s \<Longrightarrow> m \<in> set (manager_steps B s) \<Longrightarrow> step_ordered m"
  by (cases s) (auto split: sum.splits)

lemma serve_fold:
  "fold (serve_tcc S B) steps w = fold (step_manager (NewBoBingTCCService S B)) (concat (map (manager_steps B) steps)) w"
  by (induction steps arbitrary: w) (simp_all add: serve_steps)

section \<open>Theorem\<close>


subsection \<open>A run in memory\<close>

text \<open>The log of the manager in memory, with the staging keys and the tables of the game beside it.\<close>

type_synonym dice_world = "mem_db staged_world"

definition dice_gorm :: "dice_world bobing_gorm" where
  "dice_gorm = \<lparr>
     q_count_submissions = (\<lambda>i d. via_side (q_count_submissions (mem_gorm False) i d)),
     q_first_submission = (\<lambda>i d. via_side (q_first_submission (mem_gorm False) i d)),
     q_append_submission = (\<lambda>r s. via_side (q_append_submission (mem_gorm False) r s)),
     q_update_submission = (\<lambda>i d c u. via_side (q_update_submission (mem_gorm False) i d c u)),
     q_count_ranks_of = (\<lambda>i. via_side (q_count_ranks_of (mem_gorm False) i)),
     q_count_ranks = via_side (q_count_ranks (mem_gorm False)),
     q_create_rank = (\<lambda>r. via_side (q_create_rank (mem_gorm False) r)),
     q_first_rank = (\<lambda>i. via_side (q_first_rank (mem_gorm False) i)),
     q_add_score = (\<lambda>i sc. via_side (q_add_score (mem_gorm False) i sc)),
     q_set_counts = (\<lambda>i c d. via_side (q_set_counts (mem_gorm False) i c d)),
     q_begin = (\<lambda>w. put_side (q_begin (mem_gorm False) (side_of w)) w),
     q_rollback = (\<lambda>w. put_side (q_rollback (mem_gorm False) (side_of w)) w),
     q_commit = (\<lambda>w. put_side (q_commit (mem_gorm False) (side_of w)) w),
     q_count_records = (\<lambda>c. via_side (q_count_records (mem_gorm False) c)),
     q_create_record = (\<lambda>r. via_side (q_create_record (mem_gorm False) r)),
     q_find_records = (\<lambda>i. via_side (q_find_records (mem_gorm False) i)) \<rparr>"

definition dice_env :: "dice_world bobing_tcc_env" where
  "dice_env = \<lparr>
     bt_env = \<lparr>
       be_gorm = dice_gorm,
       be_rdb = \<lparr>
         r_Get = (\<lambda>k w. (Inl redis_Nil, w)), r_Set = (\<lambda>k v t w. (None, w)), r_Unlink = (\<lambda>k w. (None, w)),
         r_ZIncrBy = (\<lambda>k s m w. (None, w)), r_ZRevRangeWithScores = (\<lambda>k a b w. (Inr [], w)),
         r_ZRevRank = (\<lambda>k m w. (Inl redis_Nil, w)), r_ZScore = (\<lambda>k m w. (Inl redis_Nil, w)),
         r_ZRem = (\<lambda>k m w. (None, w)), r_ZAdd = (\<lambda>k s m w. (None, w)),
         r_SAdd = (\<lambda>k ms w. (None, w)), r_SIsMember = (\<lambda>k m w. (False, w)) \<rparr>,
       enc_member = enc_member (mem_env False), dec_member = dec_member (mem_env False), enc_zy = enc_zy (mem_env False),
       dec_zy = dec_zy (mem_env False), be_now = mem_clock, be_midnight = (\<lambda>t. 0), be_civil = be_civil (mem_env False),
       dec_dices = dec_dices (mem_env False), enc_quaternion = enc_quaternion (mem_env False), fmt_float = fmt_float (mem_env False),
       be_random = (\<lambda>n w. (Inr (replicate n 0), w)), be_SetKey = (\<lambda>k w. w), be_AesDecoding = (\<lambda>s w. (Inr s, w)),
       be_AesEncoding = (\<lambda>s w. (s, w)), be_AcquiesceKey = ''aces'', be_base64 = (\<lambda>s. s) \<rparr>,
     bt_client = mem_staging, bt_fmt = itoa,
     bt_dec = (\<lambda>s. Inr lost_request), bt_enc = (\<lambda>r. Inr (pr_OpenId r)) \<rparr>"

definition dice_start :: dice_world where
  "dice_start = (7, Map.empty, [], Map.empty, mem_start)"

lemma dice_good:
  "bobing_good dice_env mem_clock staged_of
     (\<lambda>w. ((tab_submissions (md_tables (side_of w)), tab_records (md_tables (side_of w))), mem_obs w, mem_rows w))"
  unfolding bobing_good_def client_ok_def
  by (auto simp: dice_env_def mem_staging_conforms)
     (auto simp: unchanged_def mem_staging_def dice_gorm_def via_side_def put_side_def side_of_def staged_of_def mem_gorm_def
        mem_obs_def mem_rows_def)

lemma dice_apart:
  "apart mem_store mem_clock mem_obs mem_rows
     (\<lambda>w. (staged_of w, tab_submissions (md_tables (side_of w)), tab_records (md_tables (side_of w))))"
  using mem_apart [of "\<lambda>g. (tab_submissions (md_tables g), tab_records (md_tables g))"] .


end
