(* ===== verification/Breaker_Interface.thy ===== *)
theory Breaker_Interface
  imports Name_Registry
begin

text \<open>
  What the two circuit breakers of the platform have in common: the request counters, the
  three states, and the guarded execution of a request between \<^verbatim>\<open>beforeRequest\<close> and
  \<^verbatim>\<open>afterRequest\<close>. The locale states what a client relies on: a rejected request is not run, and
  a result that comes back for an older generation leaves the breaker as time alone would.
  A request is a function on an arbitrary world; it returns a value and an error, or panics.
\<close>

datatype breaker_state = StateClosed | StateOpen | StateHalfOpen

datatype 'a outcome = Ret "'a option" "err option" | Panic string

(* src: app/common/discovery/circuit_breaker.go:37-43 Counts *)
record counts =
  c_Requests :: "32 word"
  c_TotalSuccesses :: "32 word"
  c_TotalFailures :: "32 word"
  c_ConsecutiveSuccesses :: "32 word"
  c_ConsecutiveFailures :: "32 word"

definition zero_counts :: counts where
  "zero_counts = \<lparr>c_Requests = 0, c_TotalSuccesses = 0, c_TotalFailures = 0,
                  c_ConsecutiveSuccesses = 0, c_ConsecutiveFailures = 0\<rparr>"

(* src: app/common/discovery/circuit_breaker.go:220-222 Counts.onRequest *)
definition counts_onRequest :: "counts \<Rightarrow> counts" where
  "counts_onRequest c = c\<lparr>c_Requests := c_Requests c + 1\<rparr>"

(* src: app/common/discovery/circuit_breaker.go:225-229 Counts.onSuccess *)
definition counts_onSuccess :: "counts \<Rightarrow> counts" where
  "counts_onSuccess c = c\<lparr>c_TotalSuccesses := c_TotalSuccesses c + 1,
     c_ConsecutiveSuccesses := c_ConsecutiveSuccesses c + 1, c_ConsecutiveFailures := 0\<rparr>"

(* src: app/common/discovery/circuit_breaker.go:232-236 Counts.onFailure *)
definition counts_onFailure :: "counts \<Rightarrow> counts" where
  "counts_onFailure c = c\<lparr>c_TotalFailures := c_TotalFailures c + 1,
     c_ConsecutiveFailures := c_ConsecutiveFailures c + 1, c_ConsecutiveSuccesses := 0\<rparr>"

text \<open>
  The guarded execution both packages write out: ask, run, report. \<open>now1\<close> and \<open>now2\<close> are the
  clock readings of \<^verbatim>\<open>beforeRequest\<close> and \<^verbatim>\<open>afterRequest\<close>; the deferred function reports a panic as
  a failure and raises it again.
\<close>

definition guarded ::
    "(gotime \<Rightarrow> 's \<Rightarrow> (err + 64 word) \<times> 's) \<Rightarrow> (gotime \<Rightarrow> 64 word \<Rightarrow> bool \<Rightarrow> 's \<Rightarrow> 's) \<Rightarrow>
     gotime \<Rightarrow> gotime \<Rightarrow> ('w \<Rightarrow> 'a outcome \<times> 'w) \<Rightarrow> 's \<Rightarrow> 'w \<Rightarrow> 'a outcome \<times> 's \<times> 'w" where
  "guarded before after now1 now2 req s w =
     (case before now1 s of
        (Inl e, s') \<Rightarrow> (Ret None (Some e), s', w)
      | (Inr g, s') \<Rightarrow>
         (case req w of
            (Ret v e, w') \<Rightarrow> (Ret v e, after now2 g (e = None) s', w')
          | (Panic p, w') \<Rightarrow> (Panic p, after now2 g False s', w')))"

locale breaker =
  fixes before :: "gotime \<Rightarrow> 's \<Rightarrow> (err + 64 word) \<times> 's"
    and after :: "gotime \<Rightarrow> 64 word \<Rightarrow> bool \<Rightarrow> 's \<Rightarrow> 's"
    and settle :: "gotime \<Rightarrow> 's \<Rightarrow> 's"
    and generation :: "'s \<Rightarrow> 64 word"
  assumes before_rejected: "before now s = (Inl e, s') \<Longrightarrow> s' = settle now s"
    and before_admitted: "before now s = (Inr g, s') \<Longrightarrow> g = generation s'"
    and after_stale: "g \<noteq> generation (settle now s) \<Longrightarrow> after now g ok s = settle now s"
begin

lemma rejected_not_run:
  assumes "before now1 s = (Inl e, s')"
  shows "guarded before after now1 now2 req s w = (Ret None (Some e), settle now1 s, w)"
  using assms before_rejected [OF assms] by (simp add: guarded_def)

lemma admitted_runs_once:
  assumes "before now1 s = (Inr g, s')" and "req w = (r, w')"
  shows "\<exists>ok. guarded before after now1 now2 req s w = (r, after now2 (generation s') ok s', w')
           \<and> (ok \<longleftrightarrow> (\<exists>v. r = Ret v None))"
  using assms before_admitted [OF assms(1)] by (cases r) (auto simp: guarded_def)

lemma stale_results_ignored:
  assumes "\<And>now. settle now s = s"
  shows "\<forall>r \<in> set rs. fst (snd r) \<noteq> generation s \<Longrightarrow> fold (\<lambda>(now, g, ok). after now g ok) rs s = s"
proof (induction rs)
  case Nil
  show ?case by simp
next
  case (Cons r rs)
  obtain now g ok where r: "r = (now, g, ok)" by (cases r)
  have "after now g ok s = s" using after_stale [of g now s ok] assms Cons.prems by (simp add: r)
  with Cons show ?case by (simp add: r)
qed

end

end
