(* ===== verification/Breaker_Discovery.thy ===== *)
theory Breaker_Discovery
  imports Breaker_Interface
begin

text \<open>
  The circuit breaker of the service discovery package and its manager
  (\<^verbatim>\<open>src/app/common/discovery/circuit_breaker.go\<close>). The callback \<^verbatim>\<open>onStateChange\<close> is present or
  absent; its calls are appended to \<open>cb_log\<close>. Counters are 32-bit, generations 64-bit words.
\<close>

(* src: app/common/discovery/circuit_breaker.go:21-34 CircuitBreaker *)
record circuit_breaker =
  cb_name :: string
  cb_maxRequests :: "32 word"
  cb_interval :: duration
  cb_timeout :: duration
  cb_readyToTrip :: "counts \<Rightarrow> bool"
  cb_onStateChange :: bool
  cb_state :: breaker_state
  cb_generation :: "64 word"
  cb_counts :: counts
  cb_expiry :: gotime
  cb_log :: "(string \<times> breaker_state \<times> breaker_state) list"

(* src: app/common/discovery/circuit_breaker.go:46-53 Settings *)
record settings =
  st_Name :: string
  st_MaxRequests :: "32 word"
  st_Interval :: duration
  st_Timeout :: duration
  st_ReadyToTrip :: "(counts \<Rightarrow> bool) option"
  st_OnStateChange :: bool

(* src: app/common/discovery/circuit_breaker.go:259-261 defaultReadyToTrip *)
definition defaultReadyToTrip :: "counts \<Rightarrow> bool" where
  "defaultReadyToTrip c \<longleftrightarrow> c_ConsecutiveFailures c > 5"

(* src: app/common/discovery/circuit_breaker.go:264-267 ErrOpenState *)
definition ErrOpenState :: err where
  "ErrOpenState = ''circuit breaker is open''"

definition ErrTooManyRequests :: err where
  "ErrTooManyRequests = ''too many requests''"

(* src: app/common/discovery/circuit_breaker.go:200-217 toNewGeneration *)
definition toNewGeneration :: "gotime \<Rightarrow> circuit_breaker \<Rightarrow> circuit_breaker" where
  "toNewGeneration now cb =
     cb\<lparr>cb_generation := cb_generation cb + 1,
        cb_counts := zero_counts,
        cb_expiry := (case cb_state cb of
            StateClosed \<Rightarrow> (if cb_interval cb = 0 then 0 else now + cb_interval cb)
          | StateOpen \<Rightarrow> now + cb_timeout cb
          | StateHalfOpen \<Rightarrow> 0)\<rparr>"

(* src: app/common/discovery/circuit_breaker.go:184-197 setState *)
definition setState :: "breaker_state \<Rightarrow> gotime \<Rightarrow> circuit_breaker \<Rightarrow> circuit_breaker" where
  "setState st now cb =
     (if cb_state cb = st then cb
      else let cb' = toNewGeneration now (cb\<lparr>cb_state := st\<rparr>)
           in if cb_onStateChange cb then cb'\<lparr>cb_log := cb_log cb' @ [(cb_name cb', cb_state cb, st)]\<rparr>
              else cb')"

(* src: app/common/discovery/circuit_breaker.go:56-89 NewCircuitBreaker *)
definition NewCircuitBreaker :: "gotime \<Rightarrow> settings \<Rightarrow> circuit_breaker" where
  "NewCircuitBreaker now st = toNewGeneration now
     \<lparr>cb_name = st_Name st,
      cb_maxRequests = (if st_MaxRequests st = 0 then 1 else st_MaxRequests st),
      cb_interval = (if st_Interval st = 0 then 0 * second else st_Interval st),
      cb_timeout = (if st_Timeout st = 0 then 20 * second else st_Timeout st),
      cb_readyToTrip = (case st_ReadyToTrip st of None \<Rightarrow> defaultReadyToTrip | Some f \<Rightarrow> f),
      cb_onStateChange = st_OnStateChange st,
      cb_state = StateClosed, cb_generation = 0, cb_counts = zero_counts, cb_expiry = 0, cb_log = []\<rparr>"

text \<open>\<^verbatim>\<open>currentState\<close> returns the state and the generation of the breaker it has just updated; the
  model returns the updated breaker, and the callers read both fields of it.\<close>

(* src: app/common/discovery/circuit_breaker.go:153-165 currentState *)
definition currentState :: "gotime \<Rightarrow> circuit_breaker \<Rightarrow> circuit_breaker" where
  "currentState now cb =
     (case cb_state cb of
        StateClosed \<Rightarrow> (if cb_expiry cb \<noteq> 0 \<and> cb_expiry cb < now then toNewGeneration now cb else cb)
      | StateOpen \<Rightarrow> (if cb_expiry cb < now then setState StateHalfOpen now cb else cb)
      | StateHalfOpen \<Rightarrow> cb)"

(* src: app/common/discovery/circuit_breaker.go:168-173 onSuccess *)
definition onSuccess :: "gotime \<Rightarrow> circuit_breaker \<Rightarrow> circuit_breaker" where
  "onSuccess now cb =
     (let cb' = cb\<lparr>cb_counts := counts_onSuccess (cb_counts cb)\<rparr>
      in if cb_state cb' = StateHalfOpen then setState StateClosed now cb' else cb')"

(* src: app/common/discovery/circuit_breaker.go:176-181 onFailure *)
definition onFailure :: "gotime \<Rightarrow> circuit_breaker \<Rightarrow> circuit_breaker" where
  "onFailure now cb =
     (let cb' = cb\<lparr>cb_counts := counts_onFailure (cb_counts cb)\<rparr>
      in if cb_readyToTrip cb' (cb_counts cb') then setState StateOpen now cb' else cb')"

(* src: app/common/discovery/circuit_breaker.go:117-132 beforeRequest *)
definition beforeRequest :: "gotime \<Rightarrow> circuit_breaker \<Rightarrow> (err + 64 word) \<times> circuit_breaker" where
  "beforeRequest now cb =
     (let cb' = currentState now cb in
      if cb_state cb' = StateOpen then (Inl ErrOpenState, cb')
      else if cb_state cb' = StateHalfOpen \<and> c_Requests (cb_counts cb') \<ge> cb_maxRequests cb'
        then (Inl ErrTooManyRequests, cb')
      else (Inr (cb_generation cb'), cb'\<lparr>cb_counts := counts_onRequest (cb_counts cb')\<rparr>))"

(* src: app/common/discovery/circuit_breaker.go:135-150 afterRequest *)
definition afterRequest :: "gotime \<Rightarrow> 64 word \<Rightarrow> bool \<Rightarrow> circuit_breaker \<Rightarrow> circuit_breaker" where
  "afterRequest now before success cb =
     (let cb' = currentState now cb in
      if cb_generation cb' \<noteq> before then cb'
      else if success then onSuccess now cb' else onFailure now cb')"

(* src: app/common/discovery/circuit_breaker.go:92-114 Execute, ExecuteWithContext *)
definition cb_Execute ::
    "gotime \<Rightarrow> gotime \<Rightarrow> ('w \<Rightarrow> 'a outcome \<times> 'w) \<Rightarrow> circuit_breaker \<Rightarrow> 'w \<Rightarrow>
     'a outcome \<times> circuit_breaker \<times> 'w" where
  "cb_Execute now1 now2 req cb w = guarded beforeRequest afterRequest now1 now2 req cb w"

(* src: app/common/discovery/circuit_breaker.go:239-246 State *)
definition cb_State :: "gotime \<Rightarrow> circuit_breaker \<Rightarrow> breaker_state \<times> circuit_breaker" where
  "cb_State now cb = (let cb' = currentState now cb in (cb_state cb', cb'))"

(* src: app/common/discovery/circuit_breaker.go:249-256 Counts *)
definition cb_Counts :: "gotime \<Rightarrow> circuit_breaker \<Rightarrow> counts \<times> circuit_breaker" where
  "cb_Counts now cb = (let cb' = currentState now cb in (cb_counts cb', cb'))"

subsection \<open>The manager\<close>

(* src: app/common/discovery/circuit_breaker.go:270-280 CircuitBreakerManager, NewCircuitBreakerManager *)
record breaker_manager =
  cbm_breakers :: "string \<rightharpoonup> circuit_breaker"

(* src: app/common/discovery/circuit_breaker.go:283-305 GetCircuitBreaker *)
definition GetCircuitBreaker :: "gotime \<Rightarrow> string \<Rightarrow> breaker_manager \<Rightarrow> circuit_breaker \<times> breaker_manager" where
  "GetCircuitBreaker now name m =
     (case cbm_breakers m name of
        Some cb \<Rightarrow> (cb, m)
      | None \<Rightarrow>
         (let cb = NewCircuitBreaker now
                \<lparr>st_Name = name, st_MaxRequests = 3, st_Interval = 10 * second,
                 st_Timeout = 20 * second, st_ReadyToTrip = None, st_OnStateChange = False\<rparr>
          in (cb, m\<lparr>cbm_breakers := (cbm_breakers m)(name \<mapsto> cb)\<rparr>)))"

(* src: app/common/discovery/circuit_breaker.go:308-313 RegisterCircuitBreaker *)
definition RegisterCircuitBreaker :: "gotime \<Rightarrow> string \<Rightarrow> settings \<Rightarrow> breaker_manager \<Rightarrow> breaker_manager" where
  "RegisterCircuitBreaker now name st m =
     m\<lparr>cbm_breakers := (cbm_breakers m)(name \<mapsto> NewCircuitBreaker now st)\<rparr>"

(* src: app/common/discovery/circuit_breaker.go:316-321 RemoveCircuitBreaker *)
definition RemoveCircuitBreaker :: "string \<Rightarrow> breaker_manager \<Rightarrow> breaker_manager" where
  "RemoveCircuitBreaker name m = m\<lparr>cbm_breakers := (cbm_breakers m)(name := None)\<rparr>"

text \<open>The statistics of one breaker; \<^verbatim>\<open>State\<close> and \<^verbatim>\<open>Counts\<close> each read the clock and update it.\<close>

(* src: app/common/discovery/circuit_breaker.go:336-348 GetCircuitBreakerStats *)
definition GetCircuitBreakerStats ::
    "gotime \<Rightarrow> gotime \<Rightarrow> breaker_manager \<Rightarrow> (string \<rightharpoonup> breaker_state \<times> counts) \<times> breaker_manager" where
  "GetCircuitBreakerStats now1 now2 m =
     ((\<lambda>n. map_option (\<lambda>cb. let (s, cb') = cb_State now1 cb in (s, fst (cb_Counts now2 cb')))
             (cbm_breakers m n)),
      m\<lparr>cbm_breakers := (\<lambda>n. map_option (\<lambda>cb. snd (cb_Counts now2 (snd (cb_State now1 cb))))
             (cbm_breakers m n))\<rparr>)"

(* src: app/common/discovery/circuit_breaker.go:351-359 Get *)
definition cbm_Get :: "breaker_manager \<Rightarrow> string \<Rightarrow> err + circuit_breaker" where
  "cbm_Get m name =
     (case cbm_breakers m name of
        Some cb \<Rightarrow> Inr cb
      | None \<Rightarrow> Inl (''circuit breaker not found: '' @ name))"

(* src: app/common/discovery/circuit_breaker.go:362-366 Register *)
definition cbm_Register :: "string \<times> circuit_breaker \<Rightarrow> breaker_manager \<Rightarrow> breaker_manager" where
  "cbm_Register e m = m\<lparr>cbm_breakers := (cbm_breakers m)(fst e \<mapsto> snd e)\<rparr>"

subsection \<open>Runs\<close>

text \<open>
  The operations of a breaker in any order and at any times, as concurrent requests produce
  them: a request asks to start, a request that was admitted in some generation reports its
  result, or somebody reads the state.
\<close>

datatype cb_event = EvBefore gotime | EvAfter gotime "64 word" bool | EvRead gotime

inductive cb_step :: "circuit_breaker \<Rightarrow> cb_event \<Rightarrow> circuit_breaker \<Rightarrow> bool" where
  step_before: "beforeRequest now cb = (r, cb') \<Longrightarrow> cb_step cb (EvBefore now) cb'"
| step_after: "cb_step cb (EvAfter now g ok) (afterRequest now g ok cb)"
| step_read: "cb_step cb (EvRead now) (currentState now cb)"

inductive cb_reachable :: "circuit_breaker \<Rightarrow> bool" where
  reach_new: "cb_reachable (NewCircuitBreaker now st)"
| reach_step: "cb_reachable cb \<Longrightarrow> cb_step cb ev cb' \<Longrightarrow> cb_reachable cb'"

inductive_cases cb_stepE: "cb_step cb ev cb'"

text \<open>
  What holds between the operations: a half-open breaker never admits more than
  \<open>cb_maxRequests\<close> requests in one generation, only an open or interval breaker has an expiry,
  an open breaker has fresh counters, and the limits are the configured ones.
\<close>

definition cb_inv :: "circuit_breaker \<Rightarrow> bool" where
  "cb_inv cb \<longleftrightarrow>
     cb_maxRequests cb \<noteq> 0
     \<and> (cb_state cb = StateHalfOpen \<longrightarrow> c_Requests (cb_counts cb) \<le> cb_maxRequests cb \<and> cb_expiry cb = 0)
     \<and> (cb_state cb = StateClosed \<longrightarrow> cb_interval cb = 0 \<longrightarrow> cb_expiry cb = 0)"

text \<open>A request that only returns an error, and a sequence of such requests at given times.\<close>

definition failing :: "'w \<Rightarrow> unit outcome \<times> 'w" where
  "failing w = (Ret None (Some ''failed''), w)"

fun fail_all :: "gotime list \<Rightarrow> circuit_breaker \<Rightarrow> circuit_breaker" where
  "fail_all [] cb = cb"
| "fail_all (t # ts) cb = fail_all ts (fst (snd (cb_Execute t t failing cb ())))"

text \<open>The breaker the manager creates on first use.\<close>

definition fresh_breaker :: "gotime \<Rightarrow> string \<Rightarrow> circuit_breaker" where
  "fresh_breaker t0 name = fst (GetCircuitBreaker t0 name \<lparr>cbm_breakers = Map.empty\<rparr>)"

lemmas cb_defs = toNewGeneration_def setState_def currentState_def onSuccess_def onFailure_def
  counts_onRequest_def counts_onSuccess_def counts_onFailure_def zero_counts_def

subsection \<open>The interface\<close>

interpretation dcb: breaker beforeRequest afterRequest currentState cb_generation
  by unfold_locales (auto simp: beforeRequest_def afterRequest_def Let_def split: if_splits)

interpretation cbm: name_registry "\<lparr>cbm_breakers = Map.empty\<rparr>" cbm_Register cbm_Get fst snd
  "\<lambda>n. ''circuit breaker not found: '' @ n"
  by unfold_locales (auto simp: cbm_Get_def cbm_Register_def)

subsection \<open>Invariant of all reachable breakers\<close>

lemma setState_state [simp]: "cb_state (setState st now cb) = st"
  by (simp add: setState_def toNewGeneration_def Let_def)

lemma cb_inv_new: "cb_inv (NewCircuitBreaker now st)"
  by (simp add: cb_inv_def NewCircuitBreaker_def toNewGeneration_def)

lemma cb_inv_setState: "cb_inv cb \<Longrightarrow> cb_inv (setState st now cb)"
  by (cases st) (auto simp: cb_inv_def setState_def toNewGeneration_def zero_counts_def Let_def)

lemma cb_inv_currentState: "cb_inv cb \<Longrightarrow> cb_inv (currentState now cb)"
  by (auto simp: currentState_def cb_inv_setState split: breaker_state.splits)
     (auto simp: cb_inv_def toNewGeneration_def)

lemma cb_inv_admit:
  assumes "cb_inv cb" and "\<not> (cb_state cb = StateHalfOpen \<and> c_Requests (cb_counts cb) \<ge> cb_maxRequests cb)"
  shows "cb_inv (cb\<lparr>cb_counts := counts_onRequest (cb_counts cb)\<rparr>)"
proof -
  have "x < m \<Longrightarrow> x + 1 \<le> m" for x m :: "32 word" by (rule inc_le)
  with assms show ?thesis by (auto simp: cb_inv_def counts_onRequest_def not_le)
qed

lemma cb_inv_before: "cb_inv cb \<Longrightarrow> cb_inv (snd (beforeRequest now cb))"
  using cb_inv_currentState [of cb now] cb_inv_admit [of "currentState now cb"]
  by (auto simp: beforeRequest_def Let_def)

lemma cb_inv_counts:
  "cb_inv cb \<Longrightarrow> c_Requests c = c_Requests (cb_counts cb) \<Longrightarrow> cb_inv (cb\<lparr>cb_counts := c\<rparr>)"
  by (auto simp: cb_inv_def)

lemma cb_inv_after: "cb_inv cb \<Longrightarrow> cb_inv (afterRequest now g ok cb)"
proof -
  assume "cb_inv cb"
  then have c: "cb_inv (currentState now cb)" by (rule cb_inv_currentState)
  then have "cb_inv (onSuccess now (currentState now cb))" and "cb_inv (onFailure now (currentState now cb))"
    by (auto simp: onSuccess_def onFailure_def Let_def counts_onSuccess_def counts_onFailure_def
        intro!: cb_inv_setState cb_inv_counts)
  with c show ?thesis by (simp add: afterRequest_def Let_def)
qed

lemma cb_inv_step: "cb_step cb ev cb' \<Longrightarrow> cb_inv cb \<Longrightarrow> cb_inv cb'"
proof (erule cb_stepE)
  fix now r
  assume "cb_inv cb" and "beforeRequest now cb = (r, cb')"
  then show "cb_inv cb'" using cb_inv_before [of cb now] by simp
qed (auto simp: cb_inv_after cb_inv_currentState)

text \<open>
  Every breaker the discovery package can reach, under any interleaving of requests,
  late results and state reads at arbitrary times, satisfies the invariant: in particular a
  half-open breaker has admitted at most \<^verbatim>\<open>maxRequests\<close> requests of its generation.
\<close>
theorem cb_reachable_inv: "cb_reachable cb \<Longrightarrow> cb_inv cb"
  by (induction rule: cb_reachable.induct) (auto intro: cb_inv_new cb_inv_step)

theorem cb_reachable_inv_witness:
  "cb_inv (snd (beforeRequest 5 (fst (GetCircuitBreaker 1 ''user'' \<lparr>cbm_breakers = Map.empty\<rparr>))))"
proof -
  let ?cb = "fst (GetCircuitBreaker 1 ''user'' \<lparr>cbm_breakers = Map.empty\<rparr>)"
  have "cb_reachable ?cb" by (simp add: GetCircuitBreaker_def Let_def reach_new)
  then have "cb_reachable (snd (beforeRequest 5 ?cb))"
    by (rule reach_step) (rule step_before, rule prod.collapse [symmetric])
  then show ?thesis by (rule cb_reachable_inv)
qed

subsection \<open>An open breaker\<close>

lemma beforeRequest_open:
  "cb_state cb = StateOpen \<Longrightarrow> now \<le> cb_expiry cb \<Longrightarrow> beforeRequest now cb = (Inl ErrOpenState, cb)"
  by (simp add: beforeRequest_def currentState_def)

lemma trips:
  assumes "cb_state cb \<noteq> StateOpen" and "cb_readyToTrip cb (counts_onFailure (cb_counts cb))"
  shows "cb_state (onFailure now cb) = StateOpen \<and> cb_expiry (onFailure now cb) = now + cb_timeout cb"
  using assms by (auto simp: onFailure_def setState_def toNewGeneration_def Let_def)

text \<open>
  When a failure makes the trip condition true the breaker opens, and from then until
  \<^verbatim>\<open>timeout\<close> has passed every \<^verbatim>\<open>Execute\<close> is answered with \<^verbatim>\<open>ErrOpenState\<close> without running the
  request and without changing the breaker.
\<close>
theorem open_rejects_until_timeout:
  assumes "cb_state (currentState now cb) \<noteq> StateOpen" and "cb_generation (currentState now cb) = g"
    and "cb_readyToTrip (currentState now cb) (counts_onFailure (cb_counts (currentState now cb)))"
    and "now1 \<le> now + cb_timeout (currentState now cb)"
  shows "cb_Execute now1 now2 req (afterRequest now g False cb) w
           = (Ret None (Some ErrOpenState), afterRequest now g False cb, w)"
proof -
  let ?cb = "afterRequest now g False cb"
  have "?cb = onFailure now (currentState now cb)" using assms(2) by (simp add: afterRequest_def Let_def)
  then have "beforeRequest now1 ?cb = (Inl ErrOpenState, ?cb)"
    using trips [OF assms(1,3), of now] assms(4) by (simp add: beforeRequest_open)
  then show ?thesis by (simp add: cb_Execute_def guarded_def)
qed

subsection \<open>Consecutive failures\<close>

lemma fail_once:
  assumes "cb_state cb = StateClosed" and "cb_expiry cb = 0 \<or> now \<le> cb_expiry cb"
  shows "fst (snd (cb_Execute now now failing cb ())) =
           onFailure now (cb\<lparr>cb_counts := counts_onRequest (cb_counts cb)\<rparr>)"
proof -
  have "currentState now (cb\<lparr>cb_counts := c\<rparr>) = cb\<lparr>cb_counts := c\<rparr>" for c
    using assms by (auto simp: currentState_def)
  then show ?thesis
    using assms by (auto simp: cb_Execute_def guarded_def failing_def beforeRequest_def afterRequest_def
        currentState_def Let_def)
qed

text \<open>The state after \<open>n\<close> failures of a closed breaker, none of which trips it.\<close>

lemma fail_closed:
  assumes "cb_state cb = StateClosed" and "cb_readyToTrip cb = defaultReadyToTrip"
    and "\<forall>t \<in> set ts. cb_expiry cb = 0 \<or> t \<le> cb_expiry cb"
    and "unat (c_ConsecutiveFailures (cb_counts cb)) + length ts \<le> 5"
  shows "cb_state (fail_all ts cb) = StateClosed \<and> cb_expiry (fail_all ts cb) = cb_expiry cb
     \<and> cb_readyToTrip (fail_all ts cb) = defaultReadyToTrip \<and> cb_timeout (fail_all ts cb) = cb_timeout cb
     \<and> unat (c_ConsecutiveFailures (cb_counts (fail_all ts cb)))
         = unat (c_ConsecutiveFailures (cb_counts cb)) + length ts"
  using assms
proof (induction ts arbitrary: cb)
  case Nil
  then show ?case by simp
next
  case (Cons t ts)
  let ?c = "counts_onFailure (counts_onRequest (cb_counts cb))"
  let ?f = "c_ConsecutiveFailures (cb_counts cb)"
  have u: "unat (?f + 1) = unat ?f + 1" using Cons.prems(4) by (simp add: unat_word_ariths)
  then have "\<not> defaultReadyToTrip ?c"
    using Cons.prems(4)
    by (simp add: defaultReadyToTrip_def counts_onFailure_def counts_onRequest_def word_less_nat_alt)
  then have step: "fst (snd (cb_Execute t t failing cb ())) = cb\<lparr>cb_counts := ?c\<rparr>"
    using fail_once [of cb t] Cons.prems(1-3) by (simp add: onFailure_def)
  show ?case
    unfolding fail_all.simps step using Cons.prems u
    by (subst Cons.IH) (auto simp: Cons.IH counts_onFailure_def counts_onRequest_def)
qed

lemma fail_all_append: "fail_all (ts @ us) cb = fail_all us (fail_all ts cb)"
  by (induction ts arbitrary: cb) auto

lemmas fresh_defs = fresh_breaker_def GetCircuitBreaker_def NewCircuitBreaker_def

lemma fresh_breaker_fields:
  "cb_state (fresh_breaker t0 name) = StateClosed"
  "cb_expiry (fresh_breaker t0 name) = t0 + 10 * second"
  "cb_timeout (fresh_breaker t0 name) = 20 * second"
  "cb_maxRequests (fresh_breaker t0 name) = 3"
  "cb_onStateChange (fresh_breaker t0 name) = False"
  "cb_readyToTrip (fresh_breaker t0 name) = defaultReadyToTrip"
  "cb_counts (fresh_breaker t0 name) = zero_counts"
  by (simp_all add: fresh_defs toNewGeneration_def Let_def second_def)

lemma fail_closed_fresh:
  assumes "0 < t0" and "\<forall>t \<in> set ts. t \<le> t0 + 10 * second" and "length ts \<le> 5"
  shows "cb_state (fail_all ts (fresh_breaker t0 name)) = StateClosed
     \<and> cb_expiry (fail_all ts (fresh_breaker t0 name)) = t0 + 10 * second
     \<and> cb_readyToTrip (fail_all ts (fresh_breaker t0 name)) = defaultReadyToTrip
     \<and> cb_timeout (fail_all ts (fresh_breaker t0 name)) = 20 * second
     \<and> unat (c_ConsecutiveFailures (cb_counts (fail_all ts (fresh_breaker t0 name)))) = length ts"
  using fail_closed [of "fresh_breaker t0 name" ts] assms
  by (simp add: fresh_breaker_fields zero_counts_def)

lemma six_failures_open:
  assumes "0 < t0" and "\<forall>t \<in> set (ts @ [t6]). t \<le> t0 + 10 * second" and "length ts = 5"
  shows "cb_state (fail_all (ts @ [t6]) (fresh_breaker t0 name)) = StateOpen
     \<and> cb_expiry (fail_all (ts @ [t6]) (fresh_breaker t0 name)) = t6 + 20 * second"
proof -
  let ?cb = "fail_all ts (fresh_breaker t0 name)"
  have five: "cb_state ?cb = StateClosed" "cb_expiry ?cb = t0 + 10 * second"
    "cb_readyToTrip ?cb = defaultReadyToTrip" "cb_timeout ?cb = 20 * second"
    "unat (c_ConsecutiveFailures (cb_counts ?cb)) = 5"
    using fail_closed_fresh [OF assms(1), of ts name] assms(2,3) by simp_all
  let ?c = "?cb\<lparr>cb_counts := counts_onRequest (cb_counts ?cb)\<rparr>"
  have "5 < unat (c_ConsecutiveFailures (cb_counts ?cb) + 1)" using five(5) by (simp add: unat_word_ariths)
  then have "cb_readyToTrip ?c (counts_onFailure (cb_counts ?c))"
    using five by (simp add: defaultReadyToTrip_def counts_onFailure_def counts_onRequest_def word_less_nat_alt)
  then have "cb_state (onFailure t6 ?c) = StateOpen \<and> cb_expiry (onFailure t6 ?c) = t6 + 20 * second"
    using trips [of ?c t6] five by simp
  then show ?thesis
    using fail_once [OF five(1), of t6] five(2) assms(2) by (simp add: fail_all_append)
qed

text \<open>
  The default breaker of the manager trips on exactly the sixth consecutive failure: with
  failing requests inside its ten second interval it is closed after any number up to five and
  open, for twenty seconds, after six.
\<close>
theorem sixth_failure_trips:
  assumes "0 < t0" and "\<forall>t \<in> set (ts @ [t6]). t \<le> t0 + 10 * second" and "length ts = 5"
  shows "(\<forall>n \<le> 5. cb_state (fail_all (take n ts) (fresh_breaker t0 name)) = StateClosed)
     \<and> cb_state (fail_all (ts @ [t6]) (fresh_breaker t0 name)) = StateOpen
     \<and> cb_expiry (fail_all (ts @ [t6]) (fresh_breaker t0 name)) = t6 + 20 * second"
proof -
  have "cb_state (fail_all (take n ts) (fresh_breaker t0 name)) = StateClosed" for n
    using assms by (intro fail_closed_fresh [THEN conjunct1]) (auto dest: in_set_takeD)
  with six_failures_open [OF assms] show ?thesis by blast
qed

theorem sixth_failure_trips_witness:
  "cb_state (fail_all [1, 1, 1, 1, 1, 1] (fresh_breaker 1 ''user'')) = StateOpen"
  using sixth_failure_trips [of 1 "[1, 1, 1, 1, 1]" 1 "''user''"] by (simp add: second_def)

theorem open_rejects_until_timeout_witness:
  "let cb = NewCircuitBreaker 1 \<lparr>st_Name = ''user'', st_MaxRequests = 1, st_Interval = 0,
       st_Timeout = 7, st_ReadyToTrip = Some (\<lambda>c. True), st_OnStateChange = False\<rparr>
   in cb_Execute 8 9 failing (afterRequest 2 1 False cb) ()
        = (Ret None (Some ErrOpenState), afterRequest 2 1 False cb, ())"
  unfolding Let_def
  by (rule open_rejects_until_timeout)
     (simp_all add: NewCircuitBreaker_def currentState_def toNewGeneration_def)

subsection \<open>A half-open breaker whose probes fail\<close>

text \<open>No operation changes the configuration.\<close>

lemma setState_config [simp]:
  "cb_readyToTrip (setState st now cb) = cb_readyToTrip cb" "cb_maxRequests (setState st now cb) = cb_maxRequests cb"
  by (simp_all add: setState_def toNewGeneration_def Let_def)

lemma currentState_config [simp]:
  "cb_readyToTrip (currentState now cb) = cb_readyToTrip cb" "cb_maxRequests (currentState now cb) = cb_maxRequests cb"
  by (simp_all add: currentState_def toNewGeneration_def split: breaker_state.splits)

lemma afterRequest_config [simp]:
  "cb_readyToTrip (afterRequest now g ok cb) = cb_readyToTrip cb"
  "cb_maxRequests (afterRequest now g ok cb) = cb_maxRequests cb"
  by (simp_all add: afterRequest_def onSuccess_def onFailure_def Let_def)

lemma beforeRequest_config:
  "beforeRequest now cb = (r, cb') \<Longrightarrow> cb_readyToTrip cb' = cb_readyToTrip cb \<and> cb_maxRequests cb' = cb_maxRequests cb"
  by (auto simp: beforeRequest_def Let_def split: if_splits)

lemma fail_all_config:
  "cb_readyToTrip (fail_all ts cb) = cb_readyToTrip cb \<and> cb_maxRequests (fail_all ts cb) = cb_maxRequests cb"
proof (induction ts arbitrary: cb)
  case (Cons t ts)
  then show ?case
    by (auto simp: cb_Execute_def guarded_def failing_def split: prod.splits sum.splits
        dest: beforeRequest_config)
qed simp

lemma probe_fails:
  assumes "cb_state cb = StateHalfOpen" and "c_Requests (cb_counts cb) < cb_maxRequests cb"
    and "cb_readyToTrip cb = defaultReadyToTrip"
    and "unat (c_ConsecutiveFailures (cb_counts cb)) < 5"
  shows "fst (snd (cb_Execute now now failing cb ())) =
           cb\<lparr>cb_counts := counts_onFailure (counts_onRequest (cb_counts cb))\<rparr>"
proof -
  let ?f = "c_ConsecutiveFailures (cb_counts cb)"
  have "unat (?f + 1) = unat ?f + 1" using assms(4) by (simp add: unat_word_ariths)
  then have "\<not> defaultReadyToTrip (counts_onFailure (counts_onRequest (cb_counts cb)))"
    using assms(4)
    by (simp add: defaultReadyToTrip_def counts_onFailure_def counts_onRequest_def word_less_nat_alt)
  then show ?thesis
    using assms(1-3) by (simp add: cb_Execute_def guarded_def failing_def beforeRequest_def
        afterRequest_def currentState_def onFailure_def Let_def)
qed

lemma probes_fail:
  assumes "cb_state cb = StateHalfOpen" and "cb_readyToTrip cb = defaultReadyToTrip"
    and "unat (cb_maxRequests cb) \<le> 5"
    and "unat (c_ConsecutiveFailures (cb_counts cb)) = unat (c_Requests (cb_counts cb))"
    and "unat (c_Requests (cb_counts cb)) + length ts = unat (cb_maxRequests cb)"
  shows "cb_state (fail_all ts cb) = StateHalfOpen
     \<and> c_Requests (cb_counts (fail_all ts cb)) = cb_maxRequests (fail_all ts cb)"
  using assms
proof (induction ts arbitrary: cb)
  case Nil
  then show ?case by (simp add: word_unat_eq_iff)
next
  case (Cons t ts)
  let ?r = "c_Requests (cb_counts cb)"
  let ?cb = "cb\<lparr>cb_counts := counts_onFailure (counts_onRequest (cb_counts cb))\<rparr>"
  have lt: "?r < cb_maxRequests cb" using Cons.prems(5) by (simp add: word_less_nat_alt)
  have u: "unat (?r + 1) = unat ?r + 1"
    and v: "unat (c_ConsecutiveFailures (cb_counts cb) + 1) = unat (c_ConsecutiveFailures (cb_counts cb)) + 1"
    using Cons.prems(3-5) by (simp_all add: unat_word_ariths)
  have step: "fst (snd (cb_Execute t t failing cb ())) = ?cb"
    using Cons.prems lt by (intro probe_fails) simp_all
  show ?case
    unfolding fail_all.simps step
    by (rule Cons.IH) (use Cons.prems u v in \<open>simp_all add: counts_onFailure_def counts_onRequest_def\<close>)
qed

lemma wedged_before:
  "cb_state cb = StateHalfOpen \<Longrightarrow> c_Requests (cb_counts cb) = cb_maxRequests cb \<Longrightarrow>
   beforeRequest now cb = (Inl ErrTooManyRequests, cb)"
  by (simp add: beforeRequest_def currentState_def)

text \<open>
  C36. A breaker with the default trip condition and at most five half-open probes (the
  manager's default allows three) is wedged for good once all probes of a half-open generation
  fail: five consecutive failures never exceed the trip threshold, so it does not open again,
  and having used up its probes it answers every later request, at any time, with
  \<^verbatim>\<open>ErrTooManyRequests\<close>. Only a result of an earlier probe could still move it.
\<close>
theorem half_open_wedged:
  assumes "cb_state cb = StateOpen" and "cb_expiry cb < t" and "cb_readyToTrip cb = defaultReadyToTrip"
    and "cb_maxRequests cb \<noteq> 0" and "unat (cb_maxRequests cb) \<le> 5"
    and "Suc (length ts) = unat (cb_maxRequests cb)" and "cb' = fail_all (t # ts) cb"
  shows "cb_state cb' = StateHalfOpen
     \<and> (\<forall>now1 now2 req w. cb_Execute now1 now2 req cb' w = (Ret None (Some ErrTooManyRequests), cb', w))
     \<and> (\<forall>now g ok. g \<noteq> cb_generation cb' \<longrightarrow> afterRequest now g ok cb' = cb')"
proof -
  let ?h = "setState StateHalfOpen t cb"
  have h: "cb_state ?h = StateHalfOpen" "cb_readyToTrip ?h = defaultReadyToTrip"
    "cb_maxRequests ?h = cb_maxRequests cb" "cb_counts ?h = zero_counts"
    using assms(1,3) by (simp_all add: setState_def toNewGeneration_def Let_def)
  have cur: "currentState now ?h = ?h" for now by (simp add: currentState_def h(1))
  have "cb_Execute t t failing cb () = cb_Execute t t failing ?h ()"
    using assms(1,2) cur
    by (simp add: cb_Execute_def guarded_def beforeRequest_def) (simp add: currentState_def)
  then have eq: "cb' = fail_all (t # ts) ?h" by (simp add: assms(7))
  have "cb_state cb' = StateHalfOpen \<and> c_Requests (cb_counts cb') = cb_maxRequests cb'"
    unfolding eq by (rule probes_fail) (use h assms(5,6) in \<open>simp_all add: zero_counts_def\<close>)
  then show ?thesis
    by (simp add: cb_Execute_def guarded_def wedged_before afterRequest_def currentState_def)
qed

theorem half_open_wedged_witness:
  "let cb = fail_all [1, 1, 1, 1, 1, 1] (fresh_breaker 1 ''user'') in
   cb_state (fail_all [30000000000, 30000000000, 30000000000] cb) = StateHalfOpen"
proof -
  let ?cb = "fail_all [1, 1, 1, 1, 1, 1] (fresh_breaker 1 ''user'')"
  have "cb_state ?cb = StateOpen \<and> cb_expiry ?cb = 1 + 20 * second"
    using six_failures_open [of 1 "[1, 1, 1, 1, 1]" 1 "''user''"] by (simp add: second_def)
  then show ?thesis
    unfolding Let_def
    by (intro half_open_wedged [where cb = ?cb and ts = "[30000000000, 30000000000]", THEN conjunct1])
       (simp_all del: fail_all.simps add: fail_all_config fresh_breaker_fields second_def)
qed

end
