(* ===== verification/Breaker_Gateway.thy ===== *)
theory Breaker_Gateway
  imports Breaker_Interface
begin

text \<open>
  The circuit breaker of the gateway and its middleware
  (\<^verbatim>\<open>src/app/gateway/middlewares/circuit_breaker.go\<close>). The counters are the same struct as in the
  discovery package. An HTTP response is its status, the error code of the body and the detail.
\<close>

(* src: app/gateway/middlewares/circuit_breaker.go:55-66 State.String *)
fun State_String :: "breaker_state \<Rightarrow> string" where
  "State_String StateClosed = ''closed''"
| "State_String StateOpen = ''open''"
| "State_String StateHalfOpen = ''half-open''"

(* src: app/gateway/middlewares/circuit_breaker.go:21-34 CircuitBreaker *)
record gateway_breaker =
  gcb_name :: string
  gcb_maxRequests :: "32 word"
  gcb_interval :: duration
  gcb_timeout :: duration
  gcb_readyToTrip :: "counts \<Rightarrow> bool"
  gcb_onStateChange :: bool
  gcb_state :: breaker_state
  gcb_generation :: "64 word"
  gcb_counts :: counts
  gcb_expiry :: gotime
  gcb_log :: "(string \<times> breaker_state \<times> breaker_state) list"

(* src: app/gateway/middlewares/circuit_breaker.go:69-76 Settings *)
record gateway_settings =
  gst_Name :: string
  gst_MaxRequests :: "32 word"
  gst_Interval :: duration
  gst_Timeout :: duration
  gst_ReadyToTrip :: "(counts \<Rightarrow> bool) option"
  gst_OnStateChange :: bool

(* src: app/gateway/middlewares/circuit_breaker.go:79-81 DefaultReadyToTrip *)
definition gcb_DefaultReadyToTrip :: "counts \<Rightarrow> bool" where
  "gcb_DefaultReadyToTrip c \<longleftrightarrow> c_ConsecutiveFailures c \<ge> 5"

(* src: app/gateway/middlewares/circuit_breaker.go:261-267 Counts.clear *)
definition counts_clear :: "counts \<Rightarrow> counts" where
  "counts_clear c = c\<lparr>c_Requests := 0, c_TotalSuccesses := 0, c_TotalFailures := 0,
     c_ConsecutiveSuccesses := 0, c_ConsecutiveFailures := 0\<rparr>"

(* src: app/gateway/middlewares/circuit_breaker.go:191-197 toNewGeneration *)
definition gcb_toNewGeneration :: "gotime \<Rightarrow> gateway_breaker \<Rightarrow> gateway_breaker" where
  "gcb_toNewGeneration now cb =
     cb\<lparr>gcb_generation := gcb_generation cb + 1, gcb_counts := counts_clear (gcb_counts cb), gcb_expiry := 0\<rparr>"

(* src: app/gateway/middlewares/circuit_breaker.go:200-213 setState *)
definition gcb_setState :: "breaker_state \<Rightarrow> gotime \<Rightarrow> gateway_breaker \<Rightarrow> gateway_breaker" where
  "gcb_setState st now cb =
     (if gcb_state cb = st then cb
      else let cb' = gcb_toNewGeneration now (cb\<lparr>gcb_state := st\<rparr>)
           in if gcb_onStateChange cb
              then cb'\<lparr>gcb_log := gcb_log cb' @ [(gcb_name cb', gcb_state cb, st)]\<rparr> else cb')"

(* src: app/gateway/middlewares/circuit_breaker.go:84-117 NewCircuitBreaker *)
definition gcb_NewCircuitBreaker :: "gotime \<Rightarrow> gateway_settings \<Rightarrow> gateway_breaker" where
  "gcb_NewCircuitBreaker now st = gcb_toNewGeneration now
     \<lparr>gcb_name = gst_Name st,
      gcb_maxRequests = (if gst_MaxRequests st = 0 then 2 else gst_MaxRequests st),
      gcb_interval = (if gst_Interval st = 0 then 60 * second else gst_Interval st),
      gcb_timeout = (if gst_Timeout st = 0 then 60 * second else gst_Timeout st),
      gcb_readyToTrip = (case gst_ReadyToTrip st of None \<Rightarrow> gcb_DefaultReadyToTrip | Some f \<Rightarrow> f),
      gcb_onStateChange = gst_OnStateChange st,
      gcb_state = StateClosed, gcb_generation = 0, gcb_counts = zero_counts, gcb_expiry = 0, gcb_log = []\<rparr>"

(* src: app/gateway/middlewares/circuit_breaker.go:176-188 currentState *)
definition gcb_currentState :: "gotime \<Rightarrow> gateway_breaker \<Rightarrow> gateway_breaker" where
  "gcb_currentState now cb =
     (case gcb_state cb of
        StateClosed \<Rightarrow> (if gcb_expiry cb \<noteq> 0 \<and> gcb_expiry cb < now then gcb_toNewGeneration now cb else cb)
      | StateOpen \<Rightarrow> (if gcb_expiry cb < now then gcb_setState StateHalfOpen now cb else cb)
      | StateHalfOpen \<Rightarrow> cb)"

(* src: app/gateway/middlewares/circuit_breaker.go:216-226 onSuccess *)
definition gcb_onSuccess :: "gotime \<Rightarrow> gateway_breaker \<Rightarrow> gateway_breaker" where
  "gcb_onSuccess now cb =
     (case gcb_state cb of
        StateClosed \<Rightarrow> cb\<lparr>gcb_counts := counts_onSuccess (gcb_counts cb)\<rparr>
      | StateHalfOpen \<Rightarrow>
         (let cb' = cb\<lparr>gcb_counts := counts_onSuccess (gcb_counts cb)\<rparr>
          in if c_ConsecutiveSuccesses (gcb_counts cb') \<ge> gcb_maxRequests cb'
             then gcb_setState StateClosed now cb' else cb')
      | StateOpen \<Rightarrow> cb)"

(* src: app/gateway/middlewares/circuit_breaker.go:229-239 onFailure *)
definition gcb_onFailure :: "gotime \<Rightarrow> gateway_breaker \<Rightarrow> gateway_breaker" where
  "gcb_onFailure now cb =
     (case gcb_state cb of
        StateClosed \<Rightarrow>
         (let cb' = cb\<lparr>gcb_counts := counts_onFailure (gcb_counts cb)\<rparr>
          in if gcb_readyToTrip cb' (gcb_counts cb') then gcb_setState StateOpen now cb' else cb')
      | StateHalfOpen \<Rightarrow> gcb_setState StateOpen now cb
      | StateOpen \<Rightarrow> cb)"

(* src: app/gateway/middlewares/circuit_breaker.go:140-155 beforeRequest *)
definition gcb_beforeRequest :: "gotime \<Rightarrow> gateway_breaker \<Rightarrow> (err + 64 word) \<times> gateway_breaker" where
  "gcb_beforeRequest now cb =
     (let cb' = gcb_currentState now cb in
      if gcb_state cb' = StateOpen then (Inl ''circuit breaker is open'', cb')
      else if gcb_state cb' = StateHalfOpen \<and> c_Requests (gcb_counts cb') \<ge> gcb_maxRequests cb'
        then (Inl ''circuit breaker is half-open and too many requests'', cb')
      else (Inr (gcb_generation cb'), cb'\<lparr>gcb_counts := counts_onRequest (gcb_counts cb')\<rparr>))"

(* src: app/gateway/middlewares/circuit_breaker.go:158-173 afterRequest *)
definition gcb_afterRequest :: "gotime \<Rightarrow> 64 word \<Rightarrow> bool \<Rightarrow> gateway_breaker \<Rightarrow> gateway_breaker" where
  "gcb_afterRequest now before success cb =
     (let cb' = gcb_currentState now cb in
      if gcb_generation cb' \<noteq> before then cb'
      else if success then gcb_onSuccess now cb' else gcb_onFailure now cb')"

(* src: app/gateway/middlewares/circuit_breaker.go:120-137 Execute *)
definition gcb_Execute ::
    "gotime \<Rightarrow> gotime \<Rightarrow> ('w \<Rightarrow> 'a outcome \<times> 'w) \<Rightarrow> gateway_breaker \<Rightarrow> 'w \<Rightarrow>
     'a outcome \<times> gateway_breaker \<times> 'w" where
  "gcb_Execute now1 now2 req cb w = guarded gcb_beforeRequest gcb_afterRequest now1 now2 req cb w"

record http_response =
  http_status :: int
  http_errorCode :: int
  http_message :: string
  http_details :: string
  http_timestamp :: int

text \<open>
  The middleware: the rest of the handler chain (\<^verbatim>\<open>c.Next()\<close>) runs as the guarded request, whose
  function always reports success; a rejection is written as a 503 and the chain is aborted.
  A panic of the chain passes through.
\<close>

(* src: app/gateway/middlewares/circuit_breaker.go:270-288 CircuitBreakerMiddleware *)
definition CircuitBreakerMiddleware ::
    "gotime \<Rightarrow> gotime \<Rightarrow> gotime \<Rightarrow> ('w \<Rightarrow> string option \<times> 'w) \<Rightarrow> gateway_breaker \<Rightarrow> 'w \<Rightarrow>
     (string + http_response option) \<times> gateway_breaker \<times> 'w" where
  "CircuitBreakerMiddleware now1 now2 now3 next cb w =
     (let req = (\<lambda>w. case next w of
                   (None, w') \<Rightarrow> (Ret (None :: unit option) None, w')
                 | (Some p, w') \<Rightarrow> (Panic p, w'));
          (r, cb', w') = gcb_Execute now1 now2 req cb w
      in (case r of
            Ret _ None \<Rightarrow> (Inr None, cb', w')
          | Ret _ (Some e) \<Rightarrow>
             (Inr (Some \<lparr>http_status = 503, http_errorCode = 5030,
                http_message = ''Service temporarily unavailable'', http_details = e,
                http_timestamp = go_unix now3\<rparr>), cb', w')
          | Panic p \<Rightarrow> (Inl p, cb', w')))"

(* src: app/gateway/middlewares/circuit_breaker.go:291-304 NewDefaultCircuitBreaker *)
definition NewDefaultCircuitBreaker :: "gotime \<Rightarrow> string \<Rightarrow> gateway_breaker" where
  "NewDefaultCircuitBreaker now name = gcb_NewCircuitBreaker now
     \<lparr>gst_Name = name, gst_MaxRequests = 2, gst_Interval = 60 * second, gst_Timeout = 60 * second,
      gst_ReadyToTrip = Some (\<lambda>c. c_ConsecutiveFailures c \<ge> 5), gst_OnStateChange = True\<rparr>"

subsection \<open>Runs and the invariant\<close>

datatype gcb_event = GBefore gotime | GAfter gotime "64 word" bool

inductive gcb_step :: "gateway_breaker \<Rightarrow> gcb_event \<Rightarrow> gateway_breaker \<Rightarrow> bool" where
  gstep_before: "gcb_beforeRequest now cb = (r, cb') \<Longrightarrow> gcb_step cb (GBefore now) cb'"
| gstep_after: "gcb_step cb (GAfter now g ok) (gcb_afterRequest now g ok cb)"

inductive gcb_reachable :: "gateway_breaker \<Rightarrow> bool" where
  greach_new: "gcb_reachable (gcb_NewCircuitBreaker now st)"
| greach_step: "gcb_reachable cb \<Longrightarrow> gcb_step cb ev cb' \<Longrightarrow> gcb_reachable cb'"

inductive_cases gcb_stepE: "gcb_step cb ev cb'"

definition gcb_inv :: "gateway_breaker \<Rightarrow> bool" where
  "gcb_inv cb \<longleftrightarrow>
     gcb_expiry cb = 0 \<and> gcb_maxRequests cb \<noteq> 0
     \<and> (gcb_state cb = StateHalfOpen \<longrightarrow>
          c_Requests (gcb_counts cb) \<le> gcb_maxRequests cb
        \<and> c_TotalFailures (gcb_counts cb) = 0
        \<and> c_ConsecutiveSuccesses (gcb_counts cb) < gcb_maxRequests cb)"

text \<open>A request that succeeds, run several times one after the other.\<close>

definition succeeding :: "'w \<Rightarrow> unit outcome \<times> 'w" where
  "succeeding w = (Ret (Some ()) None, w)"

fun succeed_all :: "gotime list \<Rightarrow> gateway_breaker \<Rightarrow> gateway_breaker" where
  "succeed_all [] cb = cb"
| "succeed_all (t # ts) cb = succeed_all ts (fst (snd (gcb_Execute t t succeeding cb ())))"

lemmas gcb_count_defs = counts_onRequest_def counts_onSuccess_def counts_onFailure_def counts_clear_def
  zero_counts_def

interpretation gcb: breaker gcb_beforeRequest gcb_afterRequest gcb_currentState gcb_generation
  by unfold_locales (auto simp: gcb_beforeRequest_def gcb_afterRequest_def Let_def split: if_splits)

lemma gcb_setState_state [simp]: "gcb_state (gcb_setState st now cb) = st"
  by (simp add: gcb_setState_def gcb_toNewGeneration_def Let_def)

lemma gcb_inv_new: "gcb_inv (gcb_NewCircuitBreaker now st)"
  by (simp add: gcb_inv_def gcb_NewCircuitBreaker_def gcb_toNewGeneration_def)

lemma gcb_inv_setState: "gcb_inv cb \<Longrightarrow> gcb_inv (gcb_setState st now cb)"
  by (auto simp: gcb_inv_def gcb_setState_def gcb_toNewGeneration_def counts_clear_def Let_def
      word_neq_0_conv)

lemma gcb_inv_currentState: "gcb_inv cb \<Longrightarrow> gcb_inv (gcb_currentState now cb)"
  by (auto simp: gcb_currentState_def gcb_inv_setState split: breaker_state.splits)
     (auto simp: gcb_inv_def)

lemma gcb_inv_before: "gcb_inv cb \<Longrightarrow> gcb_beforeRequest now cb = (r, cb') \<Longrightarrow> gcb_inv cb'"
proof -
  assume inv: "gcb_inv cb" and b: "gcb_beforeRequest now cb = (r, cb')"
  have "x < m \<Longrightarrow> x + 1 \<le> m" for x m :: "32 word" by (rule inc_le)
  with gcb_inv_currentState [OF inv, of now] b show "gcb_inv cb'"
    by (auto simp: gcb_beforeRequest_def Let_def gcb_inv_def counts_onRequest_def not_le split: if_splits)
qed

lemma gcb_inv_onSuccess: "gcb_inv cb \<Longrightarrow> gcb_inv (gcb_onSuccess now cb)"
proof -
  assume inv: "gcb_inv cb"
  show ?thesis
  proof (cases "gcb_state cb")
    case StateHalfOpen
    let ?cb = "cb\<lparr>gcb_counts := counts_onSuccess (gcb_counts cb)\<rparr>"
    show ?thesis
    proof (cases "gcb_maxRequests cb \<le> c_ConsecutiveSuccesses (gcb_counts ?cb)")
      case True
      then have "gcb_onSuccess now cb = gcb_setState StateClosed now ?cb"
        by (simp add: gcb_onSuccess_def StateHalfOpen)
      then show ?thesis
        using inv by (simp add: gcb_inv_def gcb_setState_def gcb_toNewGeneration_def Let_def)
    next
      case False
      then show ?thesis
        using inv by (auto simp: gcb_onSuccess_def StateHalfOpen gcb_inv_def counts_onSuccess_def not_le Let_def)
    qed
  qed (use inv in \<open>auto simp: gcb_onSuccess_def gcb_inv_def\<close>)
qed

lemma gcb_inv_onFailure: "gcb_inv cb \<Longrightarrow> gcb_inv (gcb_onFailure now cb)"
proof (cases "gcb_state cb")
  case StateClosed
  assume "gcb_inv cb"
  then have "gcb_inv (cb\<lparr>gcb_counts := c\<rparr>)" for c by (simp add: gcb_inv_def StateClosed)
  then show ?thesis by (simp add: gcb_onFailure_def StateClosed gcb_inv_setState Let_def)
qed (auto simp: gcb_onFailure_def gcb_inv_setState)

lemma gcb_inv_step: "gcb_step cb ev cb' \<Longrightarrow> gcb_inv cb \<Longrightarrow> gcb_inv cb'"
  by (erule gcb_stepE)
     (auto simp: gcb_afterRequest_def Let_def intro: gcb_inv_before gcb_inv_currentState
       gcb_inv_onSuccess gcb_inv_onFailure)

lemma gcb_reachable_inv: "gcb_reachable cb \<Longrightarrow> gcb_inv cb"
  by (induction rule: gcb_reachable.induct) (auto intro: gcb_inv_new gcb_inv_step)

text \<open>
  The open state of the gateway breaker never holds: \<^verbatim>\<open>toNewGeneration\<close> always clears the
  expiry, so in every reachable state the first request after the breaker opened is admitted as
  a half-open probe at once, whatever \<^verbatim>\<open>timeout\<close> was configured; no request is ever rejected with
  "circuit breaker is open".
\<close>
theorem gateway_open_is_immediate:
  assumes "gcb_reachable cb" and "0 < now"
  shows "fst (gcb_beforeRequest now cb) \<noteq> Inl ''circuit breaker is open''
     \<and> (gcb_state cb = StateOpen \<longrightarrow>
          (\<exists>g cb'. gcb_beforeRequest now cb = (Inr g, cb') \<and> gcb_state cb' = StateHalfOpen))"
proof -
  have inv: "gcb_expiry cb = 0" "gcb_maxRequests cb \<noteq> 0"
    using gcb_reachable_inv [OF assms(1)] by (auto simp: gcb_inv_def)
  have cur: "gcb_state (gcb_currentState now cb) \<noteq> StateOpen"
    using inv assms(2) by (auto simp: gcb_currentState_def split: breaker_state.splits)
  have "gcb_state cb = StateOpen \<Longrightarrow> gcb_counts (gcb_currentState now cb) = zero_counts
      \<and> gcb_maxRequests (gcb_currentState now cb) \<noteq> 0 \<and> gcb_state (gcb_currentState now cb) = StateHalfOpen"
    using inv assms(2) by (auto simp: gcb_currentState_def gcb_setState_def gcb_toNewGeneration_def
        counts_clear_def zero_counts_def Let_def)
  with cur show ?thesis
    by (auto simp: gcb_beforeRequest_def zero_counts_def Let_def)
qed

theorem gateway_open_is_immediate_witness:
  "let cb = gcb_NewCircuitBreaker 1 \<lparr>gst_Name = ''gw'', gst_MaxRequests = 2, gst_Interval = 0,
       gst_Timeout = 60 * second, gst_ReadyToTrip = Some (\<lambda>c. True), gst_OnStateChange = False\<rparr>;
       op = gcb_afterRequest 2 1 False cb
   in gcb_state op = StateOpen \<and> (\<exists>g cb'. gcb_beforeRequest 3 op = (Inr g, cb') \<and> gcb_state cb' = StateHalfOpen)"
proof -
  let ?cb = "gcb_NewCircuitBreaker 1 \<lparr>gst_Name = ''gw'', gst_MaxRequests = 2, gst_Interval = 0,
       gst_Timeout = 60 * second, gst_ReadyToTrip = Some (\<lambda>c. True), gst_OnStateChange = False\<rparr>"
  let ?op = "gcb_afterRequest 2 1 False ?cb"
  have r: "gcb_reachable ?op" by (rule greach_step [OF greach_new gstep_after])
  have "gcb_state ?op = StateOpen"
    by (simp add: gcb_afterRequest_def gcb_currentState_def gcb_NewCircuitBreaker_def
        gcb_toNewGeneration_def gcb_onFailure_def Let_def)
  with gateway_open_is_immediate [OF r, of 3] show ?thesis by (simp add: Let_def)
qed

subsection \<open>Half-open probing\<close>

lemma probe_succeeds:
  assumes "gcb_state cb = StateHalfOpen" and "c_Requests (gcb_counts cb) < gcb_maxRequests cb"
  shows "fst (snd (gcb_Execute now now succeeding cb ())) =
     gcb_onSuccess now (cb\<lparr>gcb_counts := counts_onRequest (gcb_counts cb)\<rparr>)"
  using assms by (simp add: gcb_Execute_def guarded_def succeeding_def gcb_beforeRequest_def
      gcb_afterRequest_def gcb_currentState_def Let_def)

lemma probes_succeed:
  assumes "gcb_state cb = StateHalfOpen"
    and "unat (c_ConsecutiveSuccesses (gcb_counts cb)) = unat (c_Requests (gcb_counts cb))"
    and "ts \<noteq> []" and "unat (c_Requests (gcb_counts cb)) + length ts = unat (gcb_maxRequests cb)"
  shows "gcb_state (succeed_all ts cb) = StateClosed
     \<and> (\<forall>n < length ts. gcb_state (succeed_all (take n ts) cb) = StateHalfOpen)"
  using assms
proof (induction ts arbitrary: cb)
  case Nil
  then show ?case by simp
next
  case (Cons t ts)
  let ?r = "c_Requests (gcb_counts cb)" and ?s = "c_ConsecutiveSuccesses (gcb_counts cb)"
  let ?cb = "cb\<lparr>gcb_counts := counts_onSuccess (counts_onRequest (gcb_counts cb))\<rparr>"
  have bound: "unat (gcb_maxRequests cb) < 2 ^ 32" using unsigned_less [of "gcb_maxRequests cb"] by simp
  have lt: "?r < gcb_maxRequests cb" using Cons.prems(4) by (simp add: word_less_nat_alt)
  have u: "unat (?r + 1) = unat ?r + 1" and v: "unat (?s + 1) = unat ?s + 1"
    using Cons.prems(2,4) bound by (simp_all add: unat_word_ariths)
  have step: "fst (snd (gcb_Execute t t succeeding cb ())) =
      (if ts = [] then gcb_setState StateClosed t ?cb else ?cb)"
    unfolding probe_succeeds [OF Cons.prems(1) lt]
    using Cons.prems(1,2,4) v
    by (cases ts) (auto simp: gcb_onSuccess_def counts_onSuccess_def counts_onRequest_def word_le_nat_alt Let_def)
  show ?case
  proof (cases "ts = []")
    case True
    then show ?thesis using step Cons.prems(1) by simp
  next
    case False
    have "gcb_state (succeed_all ts ?cb) = StateClosed
       \<and> (\<forall>n < length ts. gcb_state (succeed_all (take n ts) ?cb) = StateHalfOpen)"
      by (rule Cons.IH) (use False Cons.prems u v in \<open>simp_all add: counts_onSuccess_def counts_onRequest_def\<close>)
    then show ?thesis using False step Cons.prems(1) by (auto simp: less_Suc_eq_0_disj)
  qed
qed

text \<open>
  Recovery of the gateway breaker: from a freshly half-open breaker, \<^verbatim>\<open>maxRequests\<close>
  successful requests in a row close it and no smaller number does, while a single failed probe
  opens it again.
\<close>
theorem gateway_half_open_recovery:
  assumes "gcb_state cb = StateHalfOpen" and "gcb_counts cb = zero_counts"
    and "gcb_maxRequests cb \<noteq> 0" and "length ts = unat (gcb_maxRequests cb)"
  shows "gcb_state (succeed_all ts cb) = StateClosed
     \<and> (\<forall>n < length ts. gcb_state (succeed_all (take n ts) cb) = StateHalfOpen)
     \<and> gcb_state (gcb_afterRequest now (gcb_generation cb) False cb) = StateOpen"
proof -
  have ne: "ts \<noteq> []" using assms(3,4) by (auto simp: unat_eq_zero)
  have "gcb_state (gcb_afterRequest now (gcb_generation cb) False cb) = StateOpen"
    using assms(1) by (simp add: gcb_afterRequest_def gcb_currentState_def gcb_onFailure_def)
  with probes_succeed [OF assms(1) _ ne] assms(2,4) show ?thesis by (simp add: zero_counts_def)
qed

theorem gateway_half_open_recovery_witness:
  "gcb_state (succeed_all [5, 6] (gcb_setState StateHalfOpen 4 (NewDefaultCircuitBreaker 1 ''gw''))) = StateClosed"
  by (rule gateway_half_open_recovery [THEN conjunct1])
     (simp_all add: gcb_setState_def gcb_toNewGeneration_def NewDefaultCircuitBreaker_def
       gcb_NewCircuitBreaker_def counts_clear_def zero_counts_def Let_def)

text \<open>
  The breaker middleware answers 503 exactly when the breaker rejects the request; then the
  rest of the handler chain does not run. Otherwise the chain runs exactly once, its panic is
  passed on, and no error body is written.
\<close>
theorem middleware_503_iff_rejected:
  "(case gcb_beforeRequest now1 cb of
      (Inl e, cb1) \<Rightarrow>
        CircuitBreakerMiddleware now1 now2 now3 next cb w =
          (Inr (Some \<lparr>http_status = 503, http_errorCode = 5030,
             http_message = ''Service temporarily unavailable'', http_details = e,
             http_timestamp = go_unix now3\<rparr>), gcb_currentState now1 cb, w)
    | (Inr g, cb1) \<Rightarrow>
        CircuitBreakerMiddleware now1 now2 now3 next cb w =
          (case fst (next w) of None \<Rightarrow> Inr None | Some p \<Rightarrow> Inl p,
           gcb_afterRequest now2 g (fst (next w) = None) cb1, snd (next w)))"
proof (cases "gcb_beforeRequest now1 cb")
  case (Pair r cb1)
  show ?thesis
  proof (cases r)
    case (Inl e)
    with Pair gcb.before_rejected show ?thesis
      by (auto simp: CircuitBreakerMiddleware_def gcb_Execute_def guarded_def)
  next
    case (Inr g)
    with Pair show ?thesis
      by (auto simp: CircuitBreakerMiddleware_def gcb_Execute_def guarded_def split: prod.splits option.splits)
  qed
qed

end
