(* ===== verification/Config_Validator.thy ===== *)
theory Config_Validator
  imports Go_Strings
begin

text \<open>
  Validation of configurations by rules on the fields of a struct: \<^verbatim>\<open>src/app/common/config/config_validator.go\<close>.

  A struct is the list of its fields with their values. A value keeps its dynamic type, since the checks of the file are type
  assertions; numbers are unbounded and exact. Regular expressions and \<^verbatim>\<open>time.ParseDuration\<close> are parameters. A value of another
  kind (a bool, a slice, a struct) is \<open>GoOther\<close> with its name and whether it is the zero value.
\<close>

section \<open>Model\<close>

datatype int_type = TInt | TInt8 | TInt16 | TInt32 | TInt64
datatype uint_type = TUint | TUint8 | TUint16 | TUint32 | TUint64
datatype float_type = TFloat32 | TFloat64

datatype go_value = GoInt int_type int | GoUint uint_type nat | GoFloat float_type real | GoString string | GoOther string bool

fun value_is_zero :: "go_value \<Rightarrow> bool" where
  "value_is_zero (GoInt _ i) = (i = 0)"
| "value_is_zero (GoUint _ n) = (n = 0)"
| "value_is_zero (GoFloat _ x) = (x = 0)"
| "value_is_zero (GoString s) = (s = [])"
| "value_is_zero (GoOther _ z) = z"

type_synonym go_struct = "(string \<times> go_value) list"

text \<open>What the fmt verbs make of a float and of a list of values, the patterns, and the durations.\<close>

record text_lib =
  tl_float :: "real \<Rightarrow> string"
  tl_values :: "go_value list \<Rightarrow> string"
  tl_compile :: "string \<Rightarrow> err + (string \<Rightarrow> bool)"
  tl_ParseDuration :: "string \<Rightarrow> err + duration"

(* src: app/common/config/config_validator.go:12-20 ValidationRule *)
record validation_rule =
  vr_Field :: string
  vr_Required :: bool
  vr_Min :: "go_value option"
  vr_Max :: "go_value option"
  vr_Pattern :: string
  vr_Custom :: "(go_value \<Rightarrow> err option) option"
  vr_Message :: string

(* src: app/common/config/config_validator.go:23-25 ConfigValidator *)
type_synonym config_validator = "string \<rightharpoonup> validation_rule list"

(* src: app/common/config/config_validator.go:28-32 NewConfigValidator *)
definition NewConfigValidator :: config_validator where
  "NewConfigValidator = Map.empty"

(* src: app/common/config/config_validator.go:35-37 ConfigValidator.AddRule *)
definition cv_AddRule :: "string \<Rightarrow> validation_rule \<Rightarrow> config_validator \<Rightarrow> config_validator" where
  "cv_AddRule configType rule cv = cv(configType \<mapsto> (case cv configType of None \<Rightarrow> [] | Some rs \<Rightarrow> rs) @ [rule])"

(* src: app/common/config/config_validator.go:116-153 ConfigValidator.validateMin *)
definition validateMin :: "text_lib \<Rightarrow> go_value \<Rightarrow> go_value \<Rightarrow> string \<Rightarrow> err option" where
  "validateMin T field low fieldName =
     (let invalid = Some (''invalid min value type for field '' @ fieldName)
      in case field of
           GoInt _ i \<Rightarrow>
             (case low of
                GoInt TInt64 m \<Rightarrow> if i < m then Some (''field '' @ fieldName @ '' must be >= '' @ itoa m) else None
              | _ \<Rightarrow> invalid)
         | GoUint _ i \<Rightarrow>
             (case low of
                GoUint TUint64 m \<Rightarrow> if i < m then Some (''field '' @ fieldName @ '' must be >= '' @ decimal m) else None
              | _ \<Rightarrow> invalid)
         | GoFloat _ x \<Rightarrow>
             (case low of
                GoFloat TFloat64 m \<Rightarrow> if x < m then Some (''field '' @ fieldName @ '' must be >= '' @ tl_float T m) else None
              | _ \<Rightarrow> invalid)
         | GoString s \<Rightarrow>
             (case low of
                GoInt TInt m \<Rightarrow>
                  if int (length s) < m then Some (''field '' @ fieldName @ '' must be at least '' @ itoa m @ '' characters long'') else None
              | _ \<Rightarrow> invalid)
         | GoOther _ _ \<Rightarrow> None)"

(* src: app/common/config/config_validator.go:156-193 ConfigValidator.validateMax *)
definition validateMax :: "text_lib \<Rightarrow> go_value \<Rightarrow> go_value \<Rightarrow> string \<Rightarrow> err option" where
  "validateMax T field high fieldName =
     (let invalid = Some (''invalid max value type for field '' @ fieldName)
      in case field of
           GoInt _ i \<Rightarrow>
             (case high of
                GoInt TInt64 m \<Rightarrow> if i > m then Some (''field '' @ fieldName @ '' must be <= '' @ itoa m) else None
              | _ \<Rightarrow> invalid)
         | GoUint _ i \<Rightarrow>
             (case high of
                GoUint TUint64 m \<Rightarrow> if i > m then Some (''field '' @ fieldName @ '' must be <= '' @ decimal m) else None
              | _ \<Rightarrow> invalid)
         | GoFloat _ x \<Rightarrow>
             (case high of
                GoFloat TFloat64 m \<Rightarrow> if x > m then Some (''field '' @ fieldName @ '' must be <= '' @ tl_float T m) else None
              | _ \<Rightarrow> invalid)
         | GoString s \<Rightarrow>
             (case high of
                GoInt TInt m \<Rightarrow>
                  if int (length s) > m then Some (''field '' @ fieldName @ '' must be at most '' @ itoa m @ '' characters long'') else None
              | _ \<Rightarrow> invalid)
         | GoOther _ _ \<Rightarrow> None)"

(* src: app/common/config/config_validator.go:196-211 ConfigValidator.validatePattern *)
definition validatePattern :: "text_lib \<Rightarrow> go_value \<Rightarrow> string \<Rightarrow> string \<Rightarrow> err option" where
  "validatePattern T field pat fieldName =
     (case field of
        GoString s \<Rightarrow>
          (case tl_compile T pat of
             Inl e \<Rightarrow> Some (''invalid pattern for field '' @ fieldName @ '': '' @ e)
           | Inr matches \<Rightarrow> if \<not> matches s then Some (''field '' @ fieldName @ '' does not match pattern '' @ pat) else None)
      | _ \<Rightarrow> Some ''pattern validation only supports string fields'')"

definition orElse :: "err option \<Rightarrow> err option \<Rightarrow> err option" where
  "orElse e e' = (case e of None \<Rightarrow> e' | Some x \<Rightarrow> Some x)"

(* src: app/common/config/config_validator.go:65-113 ConfigValidator.validateRule *)
definition validateRule :: "text_lib \<Rightarrow> go_struct \<Rightarrow> validation_rule \<Rightarrow> err option" where
  "validateRule T config rule =
     (case map_of config (vr_Field rule) of
        None \<Rightarrow> Some (''field '' @ vr_Field rule @ '' not found in config'')
      | Some field \<Rightarrow>
          if vr_Required rule \<and> value_is_zero field then Some (''field '' @ vr_Field rule @ '' is required'')
          else if value_is_zero field \<and> \<not> vr_Required rule then None
          else
            orElse (case vr_Min rule of None \<Rightarrow> None | Some m \<Rightarrow> validateMin T field m (vr_Field rule))
              (orElse (case vr_Max rule of None \<Rightarrow> None | Some m \<Rightarrow> validateMax T field m (vr_Field rule))
                (orElse (if vr_Pattern rule \<noteq> [] then validatePattern T field (vr_Pattern rule) (vr_Field rule) else None)
                  (case vr_Custom rule of
                     None \<Rightarrow> None
                   | Some custom \<Rightarrow>
                       (case custom field of
                          None \<Rightarrow> None
                        | Some e \<Rightarrow> Some (if vr_Message rule \<noteq> [] then vr_Message rule @ '': '' @ e else e))))))"

text \<open>A configuration is a struct, by value or by pointer, or something else.\<close>

datatype config_arg = StructArg go_struct | StructPtr go_struct | NoStruct

fun first_error :: "(validation_rule \<Rightarrow> err option) \<Rightarrow> validation_rule list \<Rightarrow> err option" where
  "first_error f [] = None"
| "first_error f (r # rs) = (case f r of Some e \<Rightarrow> Some e | None \<Rightarrow> first_error f rs)"

(* src: app/common/config/config_validator.go:40-62 ConfigValidator.Validate *)
definition Validate :: "text_lib \<Rightarrow> config_validator \<Rightarrow> string \<Rightarrow> config_arg \<Rightarrow> err option" where
  "Validate T cv configType config =
     (case cv configType of
        None \<Rightarrow> Some (''no validation rules found for config type: '' @ configType)
      | Some rules \<Rightarrow>
          (case config of
             NoStruct \<Rightarrow> Some ''config must be a struct''
           | StructArg s \<Rightarrow> first_error (validateRule T s) rules
           | StructPtr s \<Rightarrow> first_error (validateRule T s) rules))"

subsection \<open>Built-in checks\<close>

(* src: app/common/config/config_validator.go:216-225 ValidatePort *)
definition ValidatePort :: "go_value \<Rightarrow> err option" where
  "ValidatePort port =
     (case port of
        GoInt TInt p \<Rightarrow> if p < 1 \<or> p > 65535 then Some ''port must be between 1 and 65535'' else None
      | _ \<Rightarrow> Some ''port must be an integer'')"

(* src: app/common/config/config_validator.go:228-237 ValidateURL *)
definition ValidateURL :: "go_value \<Rightarrow> err option" where
  "ValidateURL url =
     (case url of
        GoString u \<Rightarrow>
          if \<not> strings_HasPrefix u ''http://'' \<and> \<not> strings_HasPrefix u ''https://'' then Some ''URL must start with http:// or https://'' else None
      | _ \<Rightarrow> Some ''URL must be a string'')"

definition email_pattern :: string where
  "email_pattern = ''^[a-zA-Z0-9._%+-]+@[a-zA-Z0-9.-]+'' @ [CHR 0x5C] @ ''.[a-zA-Z]{2,}$''"

(* src: app/common/config/config_validator.go:240-254 ValidateEmail *)
definition ValidateEmail :: "text_lib \<Rightarrow> go_value \<Rightarrow> err option" where
  "ValidateEmail T email =
     (case email of
        GoString e \<Rightarrow>
          (case tl_compile T email_pattern of
             Inl er \<Rightarrow> Some er | Inr matches \<Rightarrow> if \<not> matches e then Some ''invalid email format'' else None)
      | _ \<Rightarrow> Some ''email must be a string'')"

(* src: app/common/config/config_validator.go:257-267 ValidateDuration *)
definition ValidateDuration :: "text_lib \<Rightarrow> go_value \<Rightarrow> err option" where
  "ValidateDuration T d =
     (case d of
        GoString s \<Rightarrow> (case tl_ParseDuration T s of Inl e \<Rightarrow> Some (''invalid duration format: '' @ e) | Inr _ \<Rightarrow> None)
      | _ \<Rightarrow> Some ''duration must be a string'')"

(* src: app/common/config/config_validator.go:270-279 ValidatePositiveInt *)
definition ValidatePositiveInt :: "go_value \<Rightarrow> err option" where
  "ValidatePositiveInt x =
     (case x of
        GoInt TInt v \<Rightarrow> if v \<le> 0 then Some ''value must be positive'' else None | _ \<Rightarrow> Some ''value must be an integer'')"

(* src: app/common/config/config_validator.go:282-291 ValidateNonEmptyString *)
definition ValidateNonEmptyString :: "go_value \<Rightarrow> err option" where
  "ValidateNonEmptyString x =
     (case x of
        GoString s \<Rightarrow> if TrimSpace s = [] then Some ''value cannot be empty'' else None | _ \<Rightarrow> Some ''value must be a string'')"

(* src: app/common/config/config_validator.go:294-317 ValidateRange *)
definition ValidateRange :: "go_value \<Rightarrow> go_value \<Rightarrow> go_value \<Rightarrow> err option" where
  "ValidateRange low high x =
     (case x of
        GoInt TInt v \<Rightarrow>
          (case low of
             GoInt TInt minVal \<Rightarrow>
               (case high of
                  GoInt TInt maxVal \<Rightarrow>
                    if v < minVal \<or> v > maxVal then Some (''value must be between '' @ itoa minVal @ '' and '' @ itoa maxVal) else None
                | _ \<Rightarrow> Some ''invalid max value type'')
           | _ \<Rightarrow> Some ''invalid min value type'')
      | _ \<Rightarrow> Some ''value must be an integer'')"

(* src: app/common/config/config_validator.go:320-329 ValidateOneOf *)
definition ValidateOneOf :: "text_lib \<Rightarrow> go_value list \<Rightarrow> go_value \<Rightarrow> err option" where
  "ValidateOneOf T options x = (if x \<in> set options then None else Some (''value must be one of '' @ tl_values T options))"

definition custom_rule :: "string \<Rightarrow> bool \<Rightarrow> (go_value \<Rightarrow> err option) \<Rightarrow> validation_rule" where
  "custom_rule field required check =
     \<lparr> vr_Field = field, vr_Required = required, vr_Min = None, vr_Max = None, vr_Pattern = [], vr_Custom = Some check, vr_Message = [] \<rparr>"

(* src: app/common/config/config_validator.go:342-408 ConfigValidator.addDefaultRules *)
definition addDefaultRules :: "text_lib \<Rightarrow> string \<Rightarrow> config_validator \<Rightarrow> config_validator" where
  "addDefaultRules T configType cv =
     (if configType = ''database'' then
        fold (cv_AddRule ''database'')
          [custom_rule ''Host'' True ValidateNonEmptyString, custom_rule ''Port'' True ValidatePort,
           custom_rule ''Username'' True ValidateNonEmptyString, custom_rule ''Password'' True ValidateNonEmptyString,
           custom_rule ''Database'' True ValidateNonEmptyString] cv
      else if configType = ''redis'' then
        fold (cv_AddRule ''redis'')
          [custom_rule ''Host'' True ValidateNonEmptyString, custom_rule ''Port'' True ValidatePort,
           custom_rule ''Password'' False ValidateNonEmptyString] cv
      else if configType = ''server'' then
        fold (cv_AddRule ''server'')
          [custom_rule ''Port'' True ValidatePort, custom_rule ''Host'' True ValidateNonEmptyString,
           custom_rule ''ReadTimeout'' True (ValidateDuration T), custom_rule ''WriteTimeout'' True (ValidateDuration T)] cv
      else cv)"

(* src: app/common/config/config_validator.go:332-339 ValidateConfigFile *)
definition ValidateConfigFile :: "text_lib \<Rightarrow> string \<Rightarrow> config_arg \<Rightarrow> err option" where
  "ValidateConfigFile T configType config = Validate T (addDefaultRules T configType NewConfigValidator) configType config"

section \<open>Properties\<close>

subsection \<open>What a valid configuration is\<close>

text \<open>A bound has the type of the check and holds.\<close>

fun at_least :: "go_value \<Rightarrow> go_value \<Rightarrow> bool" where
  "at_least (GoInt _ i) low = (\<exists>m. low = GoInt TInt64 m \<and> m \<le> i)"
| "at_least (GoUint _ i) low = (\<exists>m. low = GoUint TUint64 m \<and> m \<le> i)"
| "at_least (GoFloat _ x) low = (\<exists>m. low = GoFloat TFloat64 m \<and> m \<le> x)"
| "at_least (GoString s) low = (\<exists>m. low = GoInt TInt m \<and> m \<le> int (length s))"
| "at_least (GoOther _ _) low = True"

fun at_most :: "go_value \<Rightarrow> go_value \<Rightarrow> bool" where
  "at_most (GoInt _ i) high = (\<exists>m. high = GoInt TInt64 m \<and> i \<le> m)"
| "at_most (GoUint _ i) high = (\<exists>m. high = GoUint TUint64 m \<and> i \<le> m)"
| "at_most (GoFloat _ x) high = (\<exists>m. high = GoFloat TFloat64 m \<and> x \<le> m)"
| "at_most (GoString s) high = (\<exists>m. high = GoInt TInt m \<and> int (length s) \<le> m)"
| "at_most (GoOther _ _) high = True"

definition fits_pattern :: "text_lib \<Rightarrow> string \<Rightarrow> go_value \<Rightarrow> bool" where
  "fits_pattern T pat v \<longleftrightarrow> (\<exists>s matches. v = GoString s \<and> tl_compile T pat = Inr matches \<and> matches s)"

text \<open>A rule is met by a field that is there and is zero though not required, or passes every check of the rule.\<close>

definition rule_met :: "text_lib \<Rightarrow> go_struct \<Rightarrow> validation_rule \<Rightarrow> bool" where
  "rule_met T config rule \<longleftrightarrow>
     (\<exists>v. map_of config (vr_Field rule) = Some v \<and>
       (if value_is_zero v then \<not> vr_Required rule
        else (\<forall>m. vr_Min rule = Some m \<longrightarrow> at_least v m) \<and> (\<forall>m. vr_Max rule = Some m \<longrightarrow> at_most v m)
          \<and> (vr_Pattern rule \<noteq> [] \<longrightarrow> fits_pattern T (vr_Pattern rule) v) \<and> (\<forall>f. vr_Custom rule = Some f \<longrightarrow> f v = None)))"

lemma validateMin_None: "validateMin T v m f = None \<longleftrightarrow> at_least v m"
  by (cases v) (auto simp: validateMin_def Let_def not_less split: go_value.splits int_type.splits uint_type.splits float_type.splits)

lemma validateMax_None: "validateMax T v m f = None \<longleftrightarrow> at_most v m"
  by (cases v) (auto simp: validateMax_def Let_def not_less split: go_value.splits int_type.splits uint_type.splits float_type.splits)

lemma validatePattern_None: "validatePattern T v p f = None \<longleftrightarrow> fits_pattern T p v"
  by (cases v) (auto simp: validatePattern_def fits_pattern_def split: sum.split)

lemma orElse_None [simp]: "orElse e e' = None \<longleftrightarrow> e = None \<and> e' = None"
  by (cases e) (simp_all add: orElse_def)

lemma validateRule_None: "validateRule T s r = None \<longleftrightarrow> rule_met T s r"
proof (cases "map_of s (vr_Field r)")
  case (Some v)
  have "(case vr_Min r of None \<Rightarrow> None | Some m \<Rightarrow> validateMin T v m (vr_Field r)) = None \<longleftrightarrow> (\<forall>m. vr_Min r = Some m \<longrightarrow> at_least v m)"
    by (cases "vr_Min r") (simp_all add: validateMin_None)
  moreover have "(case vr_Max r of None \<Rightarrow> None | Some m \<Rightarrow> validateMax T v m (vr_Field r)) = None
      \<longleftrightarrow> (\<forall>m. vr_Max r = Some m \<longrightarrow> at_most v m)"
    by (cases "vr_Max r") (simp_all add: validateMax_None)
  ultimately show ?thesis
    by (simp add: validateRule_def rule_met_def Some validatePattern_None split: option.split)
qed (simp add: validateRule_def rule_met_def)

lemma first_error_None: "first_error f rs = None \<longleftrightarrow> (\<forall>r \<in> set rs. f r = None)"
  by (induction rs) (auto split: option.split)

text \<open>
  A struct is accepted exactly when there are rules for its type and every one of them is met.
\<close>

theorem validate_iff:
  "Validate T cv configType (StructArg s) = None \<longleftrightarrow> (\<exists>rules. cv configType = Some rules \<and> list_all (rule_met T s) rules)"
  by (simp add: Validate_def list_all_iff first_error_None validateRule_None split: option.split)

text \<open>The rules of a type are those added for it, in the order they were added.\<close>

lemma rules_of_type:
  "fold (\<lambda>(t, r). cv_AddRule t r) rs NewConfigValidator t
    = (case map snd (filter (\<lambda>tr. fst tr = t) rs) of [] \<Rightarrow> None | r # rest \<Rightarrow> Some (r # rest))"
proof (induction rs rule: rev_induct)
  case (snoc tr rs)
  then show ?case by (cases tr) (auto simp: cv_AddRule_def split: list.splits option.splits)
qed (simp add: NewConfigValidator_def)

subsection \<open>The built-in rules\<close>

lemma rule_met_custom:
  "rule_met T s (custom_rule f True check) \<longleftrightarrow> (\<exists>v. map_of s f = Some v \<and> \<not> value_is_zero v \<and> check v = None)"
  by (auto simp: rule_met_def custom_rule_def)

lemma ValidatePort_None: "ValidatePort v = None \<longleftrightarrow> (\<exists>p. v = GoInt TInt p \<and> 1 \<le> p \<and> p \<le> 65535)"
  by (auto simp: ValidatePort_def split: go_value.split int_type.split)

lemma ValidateNonEmptyString_None: "ValidateNonEmptyString v = None \<longleftrightarrow> (\<exists>h. v = GoString h \<and> TrimSpace h \<noteq> [])"
  by (auto simp: ValidateNonEmptyString_def split: go_value.split)

lemma ValidateDuration_None: "ValidateDuration T v = None \<longleftrightarrow> (\<exists>t d. v = GoString t \<and> tl_ParseDuration T t = Inr d)"
  by (auto simp: ValidateDuration_def split: go_value.split sum.split)

text \<open>
  A server configuration is accepted exactly when its port is an \<^verbatim>\<open>int\<close> from 1 to 65535, its host is a string that is not blank
  and its two time limits are nonempty strings that parse as durations.
\<close>

theorem server_config_accepted:
  "ValidateConfigFile T ''server'' (StructArg s) = None \<longleftrightarrow>
     (\<exists>p. map_of s ''Port'' = Some (GoInt TInt p) \<and> 1 \<le> p \<and> p \<le> 65535)
     \<and> (\<exists>h. map_of s ''Host'' = Some (GoString h) \<and> h \<noteq> [] \<and> TrimSpace h \<noteq> [])
     \<and> (\<exists>t d. map_of s ''ReadTimeout'' = Some (GoString t) \<and> t \<noteq> [] \<and> tl_ParseDuration T t = Inr d)
     \<and> (\<exists>t d. map_of s ''WriteTimeout'' = Some (GoString t) \<and> t \<noteq> [] \<and> tl_ParseDuration T t = Inr d)"
proof -
  have "addDefaultRules T ''server'' NewConfigValidator ''server'' = Some
      [custom_rule ''Port'' True ValidatePort, custom_rule ''Host'' True ValidateNonEmptyString,
       custom_rule ''ReadTimeout'' True (ValidateDuration T), custom_rule ''WriteTimeout'' True (ValidateDuration T)]"
    by (simp add: addDefaultRules_def cv_AddRule_def NewConfigValidator_def)
  then have "ValidateConfigFile T ''server'' (StructArg s) = None \<longleftrightarrow>
      rule_met T s (custom_rule ''Port'' True ValidatePort) \<and> rule_met T s (custom_rule ''Host'' True ValidateNonEmptyString)
      \<and> rule_met T s (custom_rule ''ReadTimeout'' True (ValidateDuration T))
      \<and> rule_met T s (custom_rule ''WriteTimeout'' True (ValidateDuration T))"
    by (simp add: ValidateConfigFile_def validate_iff)
  then show ?thesis
    unfolding rule_met_custom ValidatePort_None ValidateNonEmptyString_None ValidateDuration_None by force
qed

text \<open>Bounds written as plain integer constants, which are of type \<^verbatim>\<open>int\<close>, refuse every integer field that is not zero.\<close>

lemma int_bound_refuses:
  assumes "vr_Min rule = Some (GoInt TInt m)" and "map_of s (vr_Field rule) = Some (GoInt k i)" and "i \<noteq> 0"
  shows "validateRule T s rule = Some (''invalid min value type for field '' @ vr_Field rule)"
  using assms by (simp add: validateRule_def validateMin_def orElse_def)

end
