(* ===== verification/Config_Versions.thy ===== *)
theory Config_Versions
  imports Prelude
begin

text \<open>
  Configuration versions: the version manager with its changes, the audit log and the reloader that tells the watchers, all of
  \<^verbatim>\<open>src/app/common/config/config_version_manager.go\<close>.

  A configuration is a map from names to values; \<^verbatim>\<open>json.Marshal\<close> of it is a parameter. Every operation reads the clock for the
  version, for the identifier of its change and for the change, in this order. The manager hands out pointers to its versions
  and keeps the map it is given; callers are taken not to change them. The periodic loop \<^verbatim>\<open>WatchConfigChanges\<close> does nothing on its
  tick and is left out.
\<close>

section \<open>Model\<close>

datatype 'v config_value = BoolValue bool | OtherValue 'v

type_synonym 'v config_map = "string \<rightharpoonup> 'v config_value"

(* src: app/common/config/config_version_manager.go:12-20 ConfigVersion *)
record 'v config_version =
  cv_Version :: string
  cv_Config :: "'v config_map"
  cv_CreatedAt :: gotime
  cv_CreatedBy :: string
  cv_Description :: string
  cv_Checksum :: string
  cv_IsActive :: bool

(* src: app/common/config/config_version_manager.go:37-44 ChangeType, constants *)
datatype change_type = ChangeTypeCreate | ChangeTypeUpdate | ChangeTypeDelete | ChangeTypeRollback

(* src: app/common/config/config_version_manager.go:47-60 ChangeType.String *)
fun change_type_String :: "change_type \<Rightarrow> string" where
  "change_type_String ChangeTypeCreate = ''create''"
| "change_type_String ChangeTypeUpdate = ''update''"
| "change_type_String ChangeTypeDelete = ''delete''"
| "change_type_String ChangeTypeRollback = ''rollback''"

(* src: app/common/config/config_version_manager.go:63-71 ChangeStatus, constants *)
datatype change_status = ChangeStatusPending | ChangeStatusApproved | ChangeStatusRejected | ChangeStatusApplied | ChangeStatusFailed

(* src: app/common/config/config_version_manager.go:74-89 ChangeStatus.String *)
fun change_status_String :: "change_status \<Rightarrow> string" where
  "change_status_String ChangeStatusPending = ''pending''"
| "change_status_String ChangeStatusApproved = ''approved''"
| "change_status_String ChangeStatusRejected = ''rejected''"
| "change_status_String ChangeStatusApplied = ''applied''"
| "change_status_String ChangeStatusFailed = ''failed''"

(* src: app/common/config/config_version_manager.go:23-34 ConfigChange *)
record 'v config_change =
  ch_ID :: string
  ch_Version :: string
  ch_Changes :: "'v config_map"
  ch_ChangeType :: change_type
  ch_CreatedAt :: gotime
  ch_CreatedBy :: string
  ch_Description :: string
  ch_ApprovedBy :: string
  ch_ApprovedAt :: "gotime option"
  ch_Status :: change_status

text \<open>The validator of the manager is created and never used.\<close>

(* src: app/common/config/config_version_manager.go:92-98 ConfigVersionManager *)
record 'v config_manager =
  cm_versions :: "(string \<times> 'v config_version) list"
  cm_changes :: "(string \<times> 'v config_change) list"
  cm_activeVersion :: string

(* src: app/common/config/config_version_manager.go:101-107 NewConfigVersionManager *)
definition NewConfigVersionManager :: "'v config_manager" where
  "NewConfigVersionManager = \<lparr> cm_versions = [], cm_changes = [], cm_activeVersion = [] \<rparr>"

(* src: app/common/config/config_version_manager.go:371-380 ConfigVersionManager.calculateChecksum *)
definition calculateChecksum :: "('v config_map \<Rightarrow> err + string) \<Rightarrow> 'v config_map \<Rightarrow> err + string" where
  "calculateChecksum marshal config = (case marshal config of Inl e \<Rightarrow> Inl e | Inr configBytes \<Rightarrow> Inr (itoa (int (length configBytes))))"

definition unix_nano :: "gotime \<Rightarrow> int" where
  "unix_nano t = t - 62135596800 * second"

(* src: app/common/config/config_version_manager.go:383-385 ConfigVersionManager.generateChangeID *)
definition generateChangeID :: "gotime \<Rightarrow> string" where
  "generateChangeID now = ''change_'' @ itoa (unix_nano now)"

text \<open>The readings of the clock of one call.\<close>

record instants =
  at_version :: gotime
  at_id :: gotime
  at_change :: gotime

definition record_change ::
  "instants \<Rightarrow> string \<Rightarrow> 'v config_map \<Rightarrow> change_type \<Rightarrow> string \<Rightarrow> string \<Rightarrow> change_status \<Rightarrow> 'v config_manager \<Rightarrow> 'v config_manager" where
  "record_change ts version changes ct who description status m =
     (let i = generateChangeID (at_id ts)
      in m\<lparr> cm_changes := AList.update i
           \<lparr> ch_ID = i, ch_Version = version, ch_Changes = changes, ch_ChangeType = ct, ch_CreatedAt = at_change ts, ch_CreatedBy = who,
             ch_Description = description, ch_ApprovedBy = [], ch_ApprovedAt = None, ch_Status = status \<rparr> (cm_changes m) \<rparr>)"

(* src: app/common/config/config_version_manager.go:110-152 ConfigVersionManager.CreateVersion *)
definition CreateVersion ::
  "('v config_map \<Rightarrow> err + string) \<Rightarrow> instants \<Rightarrow> string \<Rightarrow> 'v config_map \<Rightarrow> string \<Rightarrow> string \<Rightarrow> 'v config_manager
   \<Rightarrow> (err + 'v config_version) \<times> 'v config_manager" where
  "CreateVersion marshal ts version config createdBy description m =
     (case map_of (cm_versions m) version of
        Some _ \<Rightarrow> (Inl (''version '' @ version @ '' already exists''), m)
      | None \<Rightarrow>
          (case calculateChecksum marshal config of
             Inl e \<Rightarrow> (Inl (''failed to calculate checksum: '' @ e), m)
           | Inr checksum \<Rightarrow>
               let configVersion = \<lparr> cv_Version = version, cv_Config = config, cv_CreatedAt = at_version ts, cv_CreatedBy = createdBy,
                     cv_Description = description, cv_Checksum = checksum, cv_IsActive = False \<rparr>
               in (Inr configVersion,
                   record_change ts version config ChangeTypeCreate createdBy description ChangeStatusPending
                     (m\<lparr> cm_versions := AList.update version configVersion (cm_versions m) \<rparr>))))"

(* src: app/common/config/config_version_manager.go:155-192 ConfigVersionManager.UpdateVersion *)
definition UpdateVersion ::
  "('v config_map \<Rightarrow> err + string) \<Rightarrow> instants \<Rightarrow> string \<Rightarrow> 'v config_map \<Rightarrow> string \<Rightarrow> string \<Rightarrow> 'v config_manager
   \<Rightarrow> (err + 'v config_version) \<times> 'v config_manager" where
  "UpdateVersion marshal ts version config updatedBy description m =
     (case map_of (cm_versions m) version of
        None \<Rightarrow> (Inl (''version '' @ version @ '' not found''), m)
      | Some existing \<Rightarrow>
          (case calculateChecksum marshal config of
             Inl e \<Rightarrow> (Inl (''failed to calculate checksum: '' @ e), m)
           | Inr checksum \<Rightarrow>
               let updated = existing\<lparr> cv_Config := config, cv_Checksum := checksum, cv_CreatedBy := updatedBy,
                     cv_Description := description, cv_CreatedAt := at_version ts \<rparr>
               in (Inr updated,
                   record_change ts version config ChangeTypeUpdate updatedBy description ChangeStatusPending
                     (m\<lparr> cm_versions := AList.update version updated (cm_versions m) \<rparr>))))"

definition set_active :: "bool \<Rightarrow> string \<Rightarrow> (string \<times> 'v config_version) list \<Rightarrow> (string \<times> 'v config_version) list" where
  "set_active b version vs =
     (case map_of vs version of None \<Rightarrow> vs | Some cv \<Rightarrow> AList.update version (cv\<lparr> cv_IsActive := b \<rparr>) vs)"

text \<open>The common part of activation and rollback: the flag of the current version goes down, that of the new one up.\<close>

(* src: app/common/config/config_version_manager.go:205-214 ConfigVersionManager.ActivateVersion (flags) *)
definition switch_active :: "string \<Rightarrow> 'v config_manager \<Rightarrow> 'v config_manager" where
  "switch_active version m =
     (let vs = (if cm_activeVersion m \<noteq> [] then set_active False (cm_activeVersion m) (cm_versions m) else cm_versions m)
      in m\<lparr> cm_versions := set_active True version vs, cm_activeVersion := version \<rparr>)"

(* src: app/common/config/config_version_manager.go:195-230 ConfigVersionManager.ActivateVersion *)
definition ActivateVersion :: "instants \<Rightarrow> string \<Rightarrow> string \<Rightarrow> 'v config_manager \<Rightarrow> err option \<times> 'v config_manager" where
  "ActivateVersion ts version activatedBy m =
     (case map_of (cm_versions m) version of
        None \<Rightarrow> (Some (''version '' @ version @ '' not found''), m)
      | Some _ \<Rightarrow>
          (None, record_change ts version [''is_active'' \<mapsto> BoolValue True] ChangeTypeUpdate activatedBy (''Activated version '' @ version)
             ChangeStatusApplied (switch_active version m)))"

(* src: app/common/config/config_version_manager.go:233-268 ConfigVersionManager.RollbackVersion *)
definition RollbackVersion :: "instants \<Rightarrow> string \<Rightarrow> string \<Rightarrow> 'v config_manager \<Rightarrow> err option \<times> 'v config_manager" where
  "RollbackVersion ts version rolledBackBy m =
     (case map_of (cm_versions m) version of
        None \<Rightarrow> (Some (''version '' @ version @ '' not found''), m)
      | Some _ \<Rightarrow>
          (None, record_change ts version [''is_active'' \<mapsto> BoolValue True] ChangeTypeRollback rolledBackBy
             (''Rolled back to version '' @ version) ChangeStatusApplied (switch_active version m)))"

(* src: app/common/config/config_version_manager.go:271-281 ConfigVersionManager.GetVersion *)
definition GetVersion :: "string \<Rightarrow> 'v config_manager \<Rightarrow> err + 'v config_version" where
  "GetVersion version m =
     (case map_of (cm_versions m) version of None \<Rightarrow> Inl (''version '' @ version @ '' not found'') | Some cv \<Rightarrow> Inr cv)"

(* src: app/common/config/config_version_manager.go:284-298 ConfigVersionManager.GetActiveVersion *)
definition GetActiveVersion :: "'v config_manager \<Rightarrow> err + 'v config_version" where
  "GetActiveVersion m =
     (if cm_activeVersion m = [] then Inl ''no active version''
      else case map_of (cm_versions m) (cm_activeVersion m) of
        None \<Rightarrow> Inl (''active version '' @ cm_activeVersion m @ '' not found'') | Some cv \<Rightarrow> Inr cv)"

(* src: app/common/config/config_version_manager.go:301-311 ConfigVersionManager.ListVersions *)
definition ListVersions :: "'v config_version range_order \<Rightarrow> 'v config_manager \<Rightarrow> 'v config_version list" where
  "ListVersions order m = order (map snd (cm_versions m))"

(* src: app/common/config/config_version_manager.go:314-324 ConfigVersionManager.ListChanges *)
definition ListChanges :: "'v config_change range_order \<Rightarrow> 'v config_manager \<Rightarrow> 'v config_change list" where
  "ListChanges order m = order (map snd (cm_changes m))"

definition decide_change ::
  "change_status \<Rightarrow> gotime \<Rightarrow> string \<Rightarrow> string \<Rightarrow> 'v config_manager \<Rightarrow> err option \<times> 'v config_manager" where
  "decide_change status now changeID who m =
     (case map_of (cm_changes m) changeID of
        None \<Rightarrow> (Some (''change '' @ changeID @ '' not found''), m)
      | Some c \<Rightarrow>
          if ch_Status c \<noteq> ChangeStatusPending then (Some (''change '' @ changeID @ '' is not pending''), m)
          else (None, m\<lparr> cm_changes := AList.update changeID
                  (c\<lparr> ch_Status := status, ch_ApprovedBy := who, ch_ApprovedAt := Some now \<rparr>) (cm_changes m) \<rparr>))"

(* src: app/common/config/config_version_manager.go:327-346 ConfigVersionManager.ApproveChange *)
definition ApproveChange :: "gotime \<Rightarrow> string \<Rightarrow> string \<Rightarrow> 'v config_manager \<Rightarrow> err option \<times> 'v config_manager" where
  "ApproveChange now changeID approvedBy m = decide_change ChangeStatusApproved now changeID approvedBy m"

(* src: app/common/config/config_version_manager.go:349-368 ConfigVersionManager.RejectChange *)
definition RejectChange :: "gotime \<Rightarrow> string \<Rightarrow> string \<Rightarrow> 'v config_manager \<Rightarrow> err option \<times> 'v config_manager" where
  "RejectChange now changeID rejectedBy m = decide_change ChangeStatusRejected now changeID rejectedBy m"

subsection \<open>Audit log\<close>

(* src: app/common/config/config_version_manager.go:394-401 ConfigAuditLog *)
record config_audit_log =
  cal_ID :: string
  cal_Action :: string
  cal_Version :: string
  cal_User :: string
  cal_Timestamp :: gotime
  cal_Details :: string

(* src: app/common/config/config_version_manager.go:404-408 NewConfigAuditLogger *)
definition NewConfigAuditLogger :: "config_audit_log list" where
  "NewConfigAuditLogger = []"

(* src: app/common/config/config_version_manager.go:411-425 ConfigAuditLogger.Log *)
definition cal_Log :: "gotime \<Rightarrow> string \<Rightarrow> string \<Rightarrow> string \<Rightarrow> string \<Rightarrow> config_audit_log list \<Rightarrow> config_audit_log list" where
  "cal_Log now action version user details logs =
     logs @ [\<lparr> cal_ID = ''audit_'' @ itoa (unix_nano now), cal_Action = action, cal_Version = version, cal_User = user, cal_Timestamp = now,
               cal_Details = details \<rparr>]"

(* src: app/common/config/config_version_manager.go:428-436 ConfigAuditLogger.GetLogs *)
definition cal_GetLogs :: "config_audit_log list \<Rightarrow> config_audit_log list" where
  "cal_GetLogs logs = logs"

(* src: app/common/config/config_version_manager.go:439-451 ConfigAuditLogger.GetLogsByUser *)
definition cal_GetLogsByUser :: "string \<Rightarrow> config_audit_log list \<Rightarrow> config_audit_log list" where
  "cal_GetLogsByUser user logs = filter (\<lambda>l. cal_User l = user) logs"

(* src: app/common/config/config_version_manager.go:454-466 ConfigAuditLogger.GetLogsByVersion *)
definition GetLogsByVersion :: "string \<Rightarrow> config_audit_log list \<Rightarrow> config_audit_log list" where
  "GetLogsByVersion version logs = filter (\<lambda>l. cal_Version l = version) logs"

subsection \<open>Reloading\<close>

text \<open>A watcher acts on the outside, \<open>'w\<close>.\<close>

(* src: app/common/config/config_version_manager.go:477-480 ConfigWatcher *)
record ('v, 'w) config_watcher =
  cw_OnConfigChange :: "string \<Rightarrow> 'v config_map \<Rightarrow> 'w \<Rightarrow> err option \<times> 'w"
  cw_GetWatcherID :: string

(* src: app/common/config/config_version_manager.go:469-474 ConfigHotReloader *)
record ('v, 'w) hot_reloader =
  hr_versionManager :: "'v config_manager"
  hr_auditLogger :: "config_audit_log list"
  hr_watchers :: "(string \<times> ('v, 'w) config_watcher) list"

(* src: app/common/config/config_version_manager.go:483-489 NewConfigHotReloader *)
definition NewConfigHotReloader :: "'v config_manager \<Rightarrow> config_audit_log list \<Rightarrow> ('v, 'w) hot_reloader" where
  "NewConfigHotReloader versionManager auditLogger =
     \<lparr> hr_versionManager = versionManager, hr_auditLogger = auditLogger, hr_watchers = [] \<rparr>"

(* src: app/common/config/config_version_manager.go:492-496 ConfigHotReloader.RegisterWatcher *)
definition RegisterWatcher :: "('v, 'w) config_watcher \<Rightarrow> ('v, 'w) hot_reloader \<Rightarrow> ('v, 'w) hot_reloader" where
  "RegisterWatcher w hr = hr\<lparr> hr_watchers := AList.update (cw_GetWatcherID w) w (hr_watchers hr) \<rparr>"

(* src: app/common/config/config_version_manager.go:499-503 ConfigHotReloader.UnregisterWatcher *)
definition UnregisterWatcher :: "string \<Rightarrow> ('v, 'w) hot_reloader \<Rightarrow> ('v, 'w) hot_reloader" where
  "UnregisterWatcher watcherID hr = hr\<lparr> hr_watchers := AList.delete watcherID (hr_watchers hr) \<rparr>"

text \<open>The loop over the watchers: an error is written to the audit log and the loop goes on.\<close>

(* src: app/common/config/config_version_manager.go:526-532 ConfigHotReloader.ReloadConfig (watchers) *)
fun notify_watchers ::
  "gotime \<Rightarrow> string \<Rightarrow> 'v config_map \<Rightarrow> ('v, 'w) config_watcher list \<Rightarrow> config_audit_log list \<Rightarrow> 'w \<Rightarrow> config_audit_log list \<times> 'w" where
  "notify_watchers now version config [] logs w = (logs, w)"
| "notify_watchers now version config (x # xs) logs w =
     (case cw_OnConfigChange x version config w of
        (Some e, w') \<Rightarrow>
          notify_watchers now version config xs
            (cal_Log now ''config_reload_error'' version ''system''
               (''Failed to notify watcher '' @ cw_GetWatcherID x @ '': '' @ e) logs) w'
      | (None, w') \<Rightarrow> notify_watchers now version config xs logs w')"

(* src: app/common/config/config_version_manager.go:506-539 ConfigHotReloader.ReloadConfig *)
definition cm_ReloadConfig ::
  "('v, 'w) config_watcher range_order \<Rightarrow> instants \<Rightarrow> string \<Rightarrow> ('v, 'w) hot_reloader \<Rightarrow> 'w
   \<Rightarrow> err option \<times> ('v, 'w) hot_reloader \<times> 'w" where
  "cm_ReloadConfig order ts version hr w =
     (case GetVersion version (hr_versionManager hr) of
        Inl e \<Rightarrow> (Some e, hr, w)
      | Inr configVersion \<Rightarrow>
          (case ActivateVersion ts version ''system'' (hr_versionManager hr) of
             (Some e, vm) \<Rightarrow> (Some e, hr\<lparr> hr_versionManager := vm \<rparr>, w)
           | (None, vm) \<Rightarrow>
               (case notify_watchers (at_change ts) version (cv_Config configVersion) (order (map snd (hr_watchers hr)))
                       (hr_auditLogger hr) w of
                  (logs, w') \<Rightarrow>
                    (None, hr\<lparr> hr_versionManager := vm,
                       hr_auditLogger := cal_Log (at_change ts) ''config_reloaded'' version ''system''
                         (''Configuration reloaded to version '' @ version) logs \<rparr>, w'))))"

section \<open>Properties\<close>

subsection \<open>The active version\<close>

text \<open>The operations of the manager.\<close>

datatype 'v version_op =
    OpCreate instants string "'v config_map" string string
  | OpUpdate instants string "'v config_map" string string
  | OpActivate instants string string
  | OpRollback instants string string
  | OpApprove gotime string string
  | OpReject gotime string string

fun version_step :: "('v config_map \<Rightarrow> err + string) \<Rightarrow> 'v version_op \<Rightarrow> 'v config_manager \<Rightarrow> 'v config_manager" where
  "version_step J (OpCreate ts v c who d) m = snd (CreateVersion J ts v c who d m)"
| "version_step J (OpUpdate ts v c who d) m = snd (UpdateVersion J ts v c who d m)"
| "version_step J (OpActivate ts v who) m = snd (ActivateVersion ts v who m)"
| "version_step J (OpRollback ts v who) m = snd (RollbackVersion ts v who m)"
| "version_step J (OpApprove now i who) m = snd (ApproveChange now i who m)"
| "version_step J (OpReject now i who) m = snd (RejectChange now i who m)"

fun creates_empty_name :: "'v version_op \<Rightarrow> bool" where
  "creates_empty_name (OpCreate ts v c who d) = (v = [])"
| "creates_empty_name _ = False"

definition active_ok :: "'v config_manager \<Rightarrow> bool" where
  "active_ok m \<longleftrightarrow>
     (\<forall>v cv. map_of (cm_versions m) v = Some cv \<longrightarrow> cv_Version cv = v \<and> v \<noteq> [] \<and> (cv_IsActive cv \<longleftrightarrow> v = cm_activeVersion m))
     \<and> (cm_activeVersion m \<noteq> [] \<longrightarrow> map_of (cm_versions m) (cm_activeVersion m) \<noteq> None)"

lemma record_change_fields [simp]:
  "cm_versions (record_change ts v c ct who d st m) = cm_versions m"
  "cm_activeVersion (record_change ts v c ct who d st m) = cm_activeVersion m"
  by (simp_all add: record_change_def Let_def)

lemma decide_change_fields [simp]:
  "cm_versions (snd (decide_change st now i who m)) = cm_versions m"
  "cm_activeVersion (snd (decide_change st now i who m)) = cm_activeVersion m"
  by (simp_all add: decide_change_def split: option.split)

lemma map_of_update [simp]: "map_of (AList.update k v al) = (map_of al)(k \<mapsto> v)"
  by (rule update_conv')

lemma map_of_set_active:
  "map_of (set_active b v vs) k = (if k = v then map_option (\<lambda>cv. cv\<lparr> cv_IsActive := b \<rparr>) (map_of vs k) else map_of vs k)"
  by (simp add: set_active_def split: option.split)

lemma switch_active_versions:
  "map_of (cm_versions (switch_active v m)) k
    = map_option (\<lambda>cv. if k = v then cv\<lparr> cv_IsActive := True \<rparr>
        else if k = cm_activeVersion m \<and> k \<noteq> [] then cv\<lparr> cv_IsActive := False \<rparr> else cv) (map_of (cm_versions m) k)"
  "cm_activeVersion (switch_active v m) = v"
  by (auto simp: switch_active_def Let_def map_of_set_active option.map_comp comp_def option.map_ident intro!: option.map_cong split: option.split)

lemma active_ok_cong:
  "cm_versions m' = cm_versions m \<Longrightarrow> cm_activeVersion m' = cm_activeVersion m \<Longrightarrow> active_ok m' = active_ok m"
  by (simp add: active_ok_def)

lemma switch_active_ok:
  assumes "active_ok m" and "map_of (cm_versions m) v = Some cv"
  shows "active_ok (switch_active v m)"
proof -
  have ok: "cv_Version c = k \<and> k \<noteq> [] \<and> (cv_IsActive c \<longleftrightarrow> k = cm_activeVersion m)" if "map_of (cm_versions m) k = Some c" for k c
    using assms(1) that by (simp add: active_ok_def)
  have "cv_Version c' = k \<and> k \<noteq> [] \<and> (cv_IsActive c' \<longleftrightarrow> k = v)" if new: "map_of (cm_versions (switch_active v m)) k = Some c'" for k c'
  proof -
    from new obtain c where c: "map_of (cm_versions m) k = Some c"
      and c': "c' = (if k = v then c\<lparr> cv_IsActive := True \<rparr>
        else if k = cm_activeVersion m \<and> k \<noteq> [] then c\<lparr> cv_IsActive := False \<rparr> else c)"
      by (simp only: switch_active_versions map_option_eq_Some) blast
    from ok [OF c] show ?thesis unfolding c' by (cases "k = v"; cases "cv_IsActive c") auto
  qed
  moreover have "map_of (cm_versions (switch_active v m)) v \<noteq> None" by (simp add: switch_active_versions(1) assms(2))
  ultimately show ?thesis unfolding active_ok_def switch_active_versions(2) by blast
qed

lemma active_ok_update:
  assumes "active_ok m" and "v \<noteq> []" and "cv_Version cv = v" and "cv_IsActive cv \<longleftrightarrow> v = cm_activeVersion m"
  shows "active_ok (m\<lparr> cm_versions := AList.update v cv (cm_versions m) \<rparr>)"
  using assms by (simp add: active_ok_def)

lemma CreateVersion_ok:
  assumes ok: "active_ok m" and "v \<noteq> []"
  shows "active_ok (snd (CreateVersion J ts v c who d m))"
proof (cases "map_of (cm_versions m) v")
  case None
  with ok have inactive: "v \<noteq> cm_activeVersion m" using \<open>v \<noteq> []\<close> by (auto simp: active_ok_def)
  show ?thesis
  proof (cases "calculateChecksum J c")
    case (Inr ck)
    show ?thesis
      by (simp add: CreateVersion_def None Inr Let_def active_ok_cong [OF record_change_fields] active_ok_update ok assms(2) inactive)
  qed (simp add: CreateVersion_def None ok)
qed (simp add: CreateVersion_def ok)

lemma UpdateVersion_ok:
  assumes ok: "active_ok m"
  shows "active_ok (snd (UpdateVersion J ts v c who d m))"
proof (cases "map_of (cm_versions m) v")
  case (Some cv)
  with ok have cv: "cv_Version cv = v" "v \<noteq> []" "cv_IsActive cv \<longleftrightarrow> v = cm_activeVersion m" by (simp_all add: active_ok_def)
  show ?thesis
    by (simp add: UpdateVersion_def Some Let_def active_ok_cong [OF record_change_fields] active_ok_update ok cv split: sum.split)
qed (simp add: UpdateVersion_def ok)

lemma activate_ok:
  assumes "active_ok m"
  shows "active_ok (snd (ActivateVersion ts v who m))" "active_ok (snd (RollbackVersion ts v who m))"
  using assms
  by (auto simp: ActivateVersion_def RollbackVersion_def active_ok_cong [OF record_change_fields] switch_active_ok split: option.split)

lemma version_step_ok: "active_ok m \<Longrightarrow> \<not> creates_empty_name op \<Longrightarrow> active_ok (version_step J op m)"
  by (cases op)
    (simp_all add: CreateVersion_ok UpdateVersion_ok activate_ok ApproveChange_def RejectChange_def active_ok_cong [OF decide_change_fields])

lemma version_run_ok:
  "active_ok m \<Longrightarrow> \<forall>op \<in> set ops. \<not> creates_empty_name op \<Longrightarrow> active_ok (fold (version_step J) ops m)"
  by (induction ops arbitrary: m) (simp_all add: version_step_ok)


definition demo_instants :: "gotime \<Rightarrow> instants" where
  "demo_instants t = \<lparr> at_version = t, at_id = t, at_change = t \<rparr>"

lemmas version_defs = CreateVersion_def UpdateVersion_def ActivateVersion_def RollbackVersion_def calculateChecksum_def record_change_def
  switch_active_def set_active_def NewConfigVersionManager_def GetVersion_def GetActiveVersion_def demo_instants_def Let_def

definition demo_versions :: "unit version_op list" where
  "demo_versions = [OpCreate (demo_instants 1) ''v1'' Map.empty ''a'' [], OpCreate (demo_instants 2) ''v2'' Map.empty ''a'' [],
     OpActivate (demo_instants 3) ''v1'' ''a'', OpActivate (demo_instants 4) ''v2'' ''a'']"


text \<open>A version with the empty name keeps its flag when another one is activated.\<close>

lemma two_active_versions:
  fixes m :: "unit config_manager"
  assumes "m = fold (version_step (\<lambda>_. Inr ''{}'')) [OpCreate (demo_instants 1) [] Map.empty ''a'' [],
      OpCreate (demo_instants 2) ''v2'' Map.empty ''a'' [], OpActivate (demo_instants 3) [] ''a'', OpActivate (demo_instants 4) ''v2'' ''a'']
      NewConfigVersionManager"
  shows "\<exists>cv1 cv2. GetVersion [] m = Inr cv1 \<and> GetVersion ''v2'' m = Inr cv2 \<and> cv_IsActive cv1 \<and> cv_IsActive cv2"
  unfolding assms by (simp add: version_defs)

subsection \<open>Changes\<close>

lemma decide_change_activates:
  "ActivateVersion ts v who (snd (decide_change st now i by' m))
    = (case map_of (cm_versions m) v of
        None \<Rightarrow> (Some (''version '' @ v @ '' not found''), snd (decide_change st now i by' m))
      | Some _ \<Rightarrow> (None, snd (ActivateVersion ts v who (snd (decide_change st now i by' m)))))"
  by (simp add: ActivateVersion_def split: option.split)

text \<open>
  The approval of changes guards nothing: a version whose pending change has been rejected can be activated, and is then the
  active one with the rejected configuration.
\<close>

theorem rejected_version_activates:
  assumes "GetVersion v m = Inr cv" and "v \<noteq> []"
    and "map_of (cm_changes m) i = Some ch" and "ch_Status ch = ChangeStatusPending" and "ch_Version ch = v"
  shows "\<exists>m1 m2. RejectChange now i reviewer m = (None, m1) \<and> ActivateVersion ts v who m1 = (None, m2)
    \<and> map_option ch_Status (map_of (cm_changes m1) i) = Some ChangeStatusRejected
    \<and> GetActiveVersion m2 = Inr (cv\<lparr> cv_IsActive := True \<rparr>)"
proof -
  from assms(1) have cv: "map_of (cm_versions m) v = Some cv" by (simp add: GetVersion_def split: option.splits)
  let ?m1 = "m\<lparr> cm_changes := AList.update i (ch\<lparr> ch_Status := ChangeStatusRejected, ch_ApprovedBy := reviewer, ch_ApprovedAt := Some now \<rparr>)
    (cm_changes m) \<rparr>"
  have "RejectChange now i reviewer m = (None, ?m1)" by (simp add: RejectChange_def decide_change_def assms(3,4))
  moreover have "ActivateVersion ts v who ?m1 = (None, snd (ActivateVersion ts v who ?m1))" by (simp add: ActivateVersion_def cv)
  moreover have "GetActiveVersion (snd (ActivateVersion ts v who ?m1)) = Inr (cv\<lparr> cv_IsActive := True \<rparr>)"
    by (simp add: ActivateVersion_def cv GetActiveVersion_def switch_active_versions assms(2))
  ultimately show ?thesis by (intro exI conjI) (assumption | simp)+
qed

theorem rejected_version_activates_witness:
  "let m = fold (version_step (\<lambda>_. Inr ''{}'')) [OpCreate (demo_instants (62135596800 * second)) ''v1'' (Map.empty :: unit config_map) ''a'' []]
        NewConfigVersionManager
   in \<exists>m1 m2. RejectChange 5 ''change_0'' ''b'' m = (None, m1) \<and> ActivateVersion (demo_instants 6) ''v1'' ''c'' m1 = (None, m2)
     \<and> map_option ch_Status (map_of (cm_changes m1) ''change_0'') = Some ChangeStatusRejected
     \<and> GetActiveVersion m2 = Inr \<lparr> cv_Version = ''v1'', cv_Config = Map.empty, cv_CreatedAt = 62135596800 * second, cv_CreatedBy = ''a'',
         cv_Description = [], cv_Checksum = ''2'', cv_IsActive = True \<rparr>"
proof -
  let ?m = "fold (version_step (\<lambda>_. Inr ''{}'')) [OpCreate (demo_instants (62135596800 * second)) ''v1'' (Map.empty :: unit config_map) ''a'' []]
        NewConfigVersionManager"
  let ?cv = "\<lparr> cv_Version = ''v1'', cv_Config = (Map.empty :: unit config_map), cv_CreatedAt = 62135596800 * second, cv_CreatedBy = ''a'',
         cv_Description = [], cv_Checksum = ''2'', cv_IsActive = False \<rparr>"
  have two: "itoa 2 = ''2''" and nought: "itoa 0 = ''0''" by code_simp+
  have v: "GetVersion ''v1'' ?m = Inr ?cv" by (simp add: version_defs two)
  obtain ch where ch: "map_of (cm_changes ?m) ''change_0'' = Some ch" "ch_Status ch = ChangeStatusPending" "ch_Version ch = ''v1''"
    by (simp add: version_defs generateChangeID_def unix_nano_def nought)
  from rejected_version_activates [OF v _ ch, of 5 "''b''" "demo_instants 6" "''c''"] show ?thesis by simp
qed

text \<open>A decision stands: a change that is not pending cannot be approved or rejected any more.\<close>

lemma decided_is_final:
  assumes "map_of (cm_changes m) i = Some ch" and "ch_Status ch \<noteq> ChangeStatusPending"
  shows "ApproveChange now i who m = (Some (''change '' @ i @ '' is not pending''), m)"
    and "RejectChange now i who m = (Some (''change '' @ i @ '' is not pending''), m)"
  using assms by (simp_all add: ApproveChange_def RejectChange_def decide_change_def)

lemma length_update_any: "length (AList.update k x al) = length (AList.update k y al)"
  by (induction al) auto

text \<open>Two changes made in the same nanosecond have one identifier: the second takes the place of the first.\<close>

lemma same_instant_change_lost:
  assumes "at_id ts' = at_id ts"
  shows "length (cm_changes (record_change ts' v' c' ct' who' d' st' (record_change ts v c ct who d st m)))
    = length (cm_changes (record_change ts v c ct who d st m))"
  unfolding record_change_def Let_def assms by (simp, rule length_update_any)

text \<open>An update overwrites the configuration of its version: a later rollback to the version brings back the new one.\<close>

lemma rollback_gives_updated:
  assumes "UpdateVersion J ts v c who d m = (Inr cv, m1)" and "v \<noteq> []"
  shows "GetActiveVersion (snd (RollbackVersion ts' v who' m1)) = Inr (cv\<lparr> cv_IsActive := True \<rparr>) \<and> cv_Config cv = c"
  using assms by (auto simp: UpdateVersion_def RollbackVersion_def GetActiveVersion_def Let_def switch_active_versions
      split: option.splits sum.splits)

subsection \<open>Reloading\<close>

text \<open>
  The outside is the list of the calls made: \<open>records w v c\<close> says that a watcher writes its call down, whatever it answers.
\<close>

definition records :: "('v, (string \<times> string \<times> 'v config_map) list) config_watcher \<Rightarrow> bool" where
  "records x \<longleftrightarrow> (\<forall>v c w. snd (cw_OnConfigChange x v c w) = w @ [(cw_GetWatcherID x, v, c)])"

lemma notify_calls:
  "\<forall>x \<in> set xs. records x \<Longrightarrow>
   snd (notify_watchers now v c xs logs w) = w @ map (\<lambda>x. (cw_GetWatcherID x, v, c)) xs"
proof (induction xs arbitrary: logs w)
  case (Cons x xs)
  have "snd (cw_OnConfigChange x v c w) = w @ [(cw_GetWatcherID x, v, c)]" using Cons.prems by (simp add: records_def)
  then show ?case using Cons
    by (cases "cw_OnConfigChange x v c w"; cases "fst (cw_OnConfigChange x v c w)") auto
qed simp

text \<open>
  Reloading activates the version and tells every registered watcher once, in any order, with the configuration of the version,
  also when watchers before it have failed.
\<close>

theorem reload_tells_every_watcher:
  assumes "is_range_order order" and "GetVersion v (hr_versionManager hr) = Inr cv" and "v \<noteq> []"
    and "\<And>k x. (k, x) \<in> set (hr_watchers hr) \<Longrightarrow> records x"
  shows "\<exists>hr' w'. cm_ReloadConfig order ts v hr w = (None, hr', w')
    \<and> mset w' = mset w + image_mset (\<lambda>kx. (cw_GetWatcherID (snd kx), v, cv_Config cv)) (mset (hr_watchers hr))
    \<and> GetActiveVersion (hr_versionManager hr') = Inr (cv\<lparr> cv_IsActive := True \<rparr>)"
proof -
  let ?xs = "order (map snd (hr_watchers hr))"
  let ?n = "notify_watchers (at_change ts) v (cv_Config cv) ?xs (hr_auditLogger hr) w"
  have "\<forall>x \<in> set ?xs. records x" using assms(4) by (auto simp: range_order_set [OF assms(1)])
  then have "snd ?n = w @ map (\<lambda>x. (cw_GetWatcherID x, v, cv_Config cv)) ?xs" by (rule notify_calls)
  then have calls: "mset (snd ?n) = mset w + image_mset (\<lambda>kx. (cw_GetWatcherID (snd kx), v, cv_Config cv)) (mset (hr_watchers hr))"
    by (simp add: range_order_mset [OF assms(1)] image_mset.compositionality comp_def)
  have cv: "map_of (cm_versions (hr_versionManager hr)) v = Some cv" using assms(2) by (simp add: GetVersion_def split: option.splits)
  have "GetActiveVersion (snd (ActivateVersion ts v ''system'' (hr_versionManager hr))) = Inr (cv\<lparr> cv_IsActive := True \<rparr>)"
    by (simp add: ActivateVersion_def cv GetActiveVersion_def switch_active_versions assms(3))
  with calls show ?thesis
    by (cases ?n) (simp add: cm_ReloadConfig_def assms(2) ActivateVersion_def cv)
qed

definition demo_watcher :: "string \<Rightarrow> err option \<Rightarrow> ('v, (string \<times> string \<times> 'v config_map) list) config_watcher" where
  "demo_watcher i e = \<lparr> cw_OnConfigChange = \<lambda>v c w. (e, w @ [(i, v, c)]), cw_GetWatcherID = i \<rparr>"

definition demo_reloader :: "(unit, (string \<times> string \<times> unit config_map) list) hot_reloader" where
  "demo_reloader = RegisterWatcher (demo_watcher ''b'' None) (RegisterWatcher (demo_watcher ''a'' (Some ''down''))
     (NewConfigHotReloader (fold (version_step (\<lambda>_. Inr ''{}'')) demo_versions NewConfigVersionManager) NewConfigAuditLogger))"

theorem reload_tells_every_watcher_witness:
  "\<exists>hr' w'. cm_ReloadConfig rev (demo_instants 9) ''v1'' demo_reloader [] = (None, hr', w')
     \<and> mset w' = {# (''a'', ''v1'', Map.empty), (''b'', ''v1'', Map.empty) #}"
proof -
  let ?m = "fold (version_step (\<lambda>_. Inr ''{}'')) demo_versions NewConfigVersionManager :: unit config_manager"
  obtain cv where cv: "GetVersion ''v1'' (hr_versionManager demo_reloader) = Inr cv" and e: "cv_Config cv = Map.empty"
    by (simp add: demo_reloader_def RegisterWatcher_def NewConfigHotReloader_def demo_versions_def version_defs)
  have ws: "hr_watchers demo_reloader = [(''a'', demo_watcher ''a'' (Some ''down'')), (''b'', demo_watcher ''b'' None)]"
    by (simp add: demo_reloader_def RegisterWatcher_def NewConfigHotReloader_def demo_watcher_def)
  have "\<exists>hr' w'. cm_ReloadConfig rev (demo_instants 9) ''v1'' demo_reloader [] = (None, hr', w')
      \<and> mset w' = mset [] + image_mset (\<lambda>kx. (cw_GetWatcherID (snd kx), ''v1'', cv_Config cv)) (mset (hr_watchers demo_reloader))
      \<and> GetActiveVersion (hr_versionManager hr') = Inr (cv\<lparr> cv_IsActive := True \<rparr>)"
    by (rule reload_tells_every_watcher [OF range_order_rev cv]) (auto simp: ws records_def demo_watcher_def)
  then show ?thesis by (auto simp: ws e demo_watcher_def)
qed

end
