(* ===== verification/Data_Masking.thy ===== *)
theory Data_Masking
  imports Go_Strings
begin

text \<open>
  Masking of personal data and the security audit log (\<^verbatim>\<open>src/app/common/security/data_encryption.go\<close>).

  A struct is the list of its fields; reflection on it sees whether a field is exported, its \<^verbatim>\<open>mask\<close> tag, its kind and whether
  the struct was passed by pointer. Slicing out of range and setting an unexported field are panics, here \<open>Inl\<close> of the panic
  message. Lengths are those of the bytes, as in the code.
\<close>

section \<open>Model\<close>

(* src: app/common/security/data_encryption.go:158-168 MaskingType, constants *)
datatype masking_type = MaskEmail | MaskPhone | MaskIDCard | MaskCreditCard | MaskName | MaskAddress | MaskCustom | MaskUnknown int

(* src: app/common/security/data_encryption.go:149-155 MaskingRule *)
record masking_rule =
  mr_Type :: masking_type
  mr_Replacement :: string
  mr_KeepLength :: bool
  mr_KeepPrefix :: int
  mr_KeepSuffix :: int

(* src: app/common/security/data_encryption.go:144-146 DataMasking *)
type_synonym data_masking = "string \<rightharpoonup> masking_rule"

(* src: app/common/security/data_encryption.go:180-228 DataMasking.registerDefaultRules *)
definition registerMaskingRules :: "data_masking \<Rightarrow> data_masking" where
  "registerMaskingRules dm = dm(
     ''email'' \<mapsto> \<lparr> mr_Type = MaskEmail, mr_Replacement = ''***'', mr_KeepLength = False, mr_KeepPrefix = 2, mr_KeepSuffix = 2 \<rparr>,
     ''phone'' \<mapsto> \<lparr> mr_Type = MaskPhone, mr_Replacement = ''*'', mr_KeepLength = True, mr_KeepPrefix = 3, mr_KeepSuffix = 4 \<rparr>,
     ''idcard'' \<mapsto> \<lparr> mr_Type = MaskIDCard, mr_Replacement = ''*'', mr_KeepLength = True, mr_KeepPrefix = 4, mr_KeepSuffix = 4 \<rparr>,
     ''creditcard'' \<mapsto> \<lparr> mr_Type = MaskCreditCard, mr_Replacement = ''*'', mr_KeepLength = True, mr_KeepPrefix = 4, mr_KeepSuffix = 4 \<rparr>,
     ''name'' \<mapsto> \<lparr> mr_Type = MaskName, mr_Replacement = ''*'', mr_KeepLength = False, mr_KeepPrefix = 1, mr_KeepSuffix = 0 \<rparr>,
     ''address'' \<mapsto> \<lparr> mr_Type = MaskAddress, mr_Replacement = ''***'', mr_KeepLength = False, mr_KeepPrefix = 2, mr_KeepSuffix = 2 \<rparr>)"

(* src: app/common/security/data_encryption.go:171-177 NewDataMasking *)
definition NewDataMasking :: data_masking where
  "NewDataMasking = registerMaskingRules Map.empty"

(* src: app/common/security/data_encryption.go:231-233 DataMasking.AddRule *)
definition masking_AddRule :: "string \<Rightarrow> masking_rule \<Rightarrow> data_masking \<Rightarrow> data_masking" where
  "masking_AddRule fieldName rule dm = dm(fieldName \<mapsto> rule)"

subsection \<open>Rules\<close>

definition strings_Repeat :: "string \<Rightarrow> int \<Rightarrow> err + string" where
  "strings_Repeat s n = (if n < 0 then Inl ''strings: negative Repeat count'' else Inr (concat (replicate (nat n) s)))"

text \<open>The prefix, the replacement, once or for every masked byte, and the suffix.\<close>

(* src: app/common/security/data_encryption.go:340-348 DataMasking.maskPhone (after the length check) *)
definition mask_edges :: "string \<Rightarrow> masking_rule \<Rightarrow> err + string" where
  "mask_edges v rule =
     (case slice v 0 (mr_KeepPrefix rule) of
        Inl e \<Rightarrow> Inl e
      | Inr prefix \<Rightarrow>
          (case slice v (int (length v) - mr_KeepSuffix rule) (int (length v)) of
             Inl e \<Rightarrow> Inl e
           | Inr suffix \<Rightarrow>
               if mr_KeepLength rule
                 then (case strings_Repeat (mr_Replacement rule) (int (length v) - mr_KeepPrefix rule - mr_KeepSuffix rule) of
                         Inl e \<Rightarrow> Inl e | Inr middle \<Rightarrow> Inr (prefix @ middle @ suffix))
               else Inr (prefix @ mr_Replacement rule @ suffix)))"

(* src: app/common/security/data_encryption.go:317-332 DataMasking.maskEmail *)
definition maskEmail :: "string \<Rightarrow> masking_rule \<Rightarrow> err + string" where
  "maskEmail v rule =
     (case strings_Split (CHR ''@'') v of
        [username, domain] \<Rightarrow>
          if int (length username) \<le> mr_KeepPrefix rule + mr_KeepSuffix rule then Inr v
          else (case mask_edges username (rule\<lparr> mr_KeepLength := False \<rparr>) of
                  Inl e \<Rightarrow> Inl e | Inr masked \<Rightarrow> Inr (masked @ ''@'' @ domain))
      | _ \<Rightarrow> Inr v)"

(* src: app/common/security/data_encryption.go:335-349 DataMasking.maskPhone *)
definition maskPhone :: "string \<Rightarrow> masking_rule \<Rightarrow> err + string" where
  "maskPhone v rule = (if int (length v) \<le> mr_KeepPrefix rule + mr_KeepSuffix rule then Inr v else mask_edges v rule)"

(* src: app/common/security/data_encryption.go:352-366 DataMasking.maskIDCard *)
definition maskIDCard :: "string \<Rightarrow> masking_rule \<Rightarrow> err + string" where
  "maskIDCard v rule = (if int (length v) \<le> mr_KeepPrefix rule + mr_KeepSuffix rule then Inr v else mask_edges v rule)"

(* src: app/common/security/data_encryption.go:369-383 DataMasking.maskCreditCard *)
definition maskCreditCard :: "string \<Rightarrow> masking_rule \<Rightarrow> err + string" where
  "maskCreditCard v rule = (if int (length v) \<le> mr_KeepPrefix rule + mr_KeepSuffix rule then Inr v else mask_edges v rule)"

(* src: app/common/security/data_encryption.go:386-400 DataMasking.maskName *)
definition maskName :: "string \<Rightarrow> masking_rule \<Rightarrow> err + string" where
  "maskName v rule = (if int (length v) \<le> mr_KeepPrefix rule then Inr v else mask_edges v rule)"

(* src: app/common/security/data_encryption.go:403-417 DataMasking.maskAddress *)
definition maskAddress :: "string \<Rightarrow> masking_rule \<Rightarrow> err + string" where
  "maskAddress v rule = (if int (length v) \<le> mr_KeepPrefix rule + mr_KeepSuffix rule then Inr v else mask_edges v rule)"

(* src: app/common/security/data_encryption.go:420-434 DataMasking.maskCustom *)
definition maskCustom :: "string \<Rightarrow> masking_rule \<Rightarrow> err + string" where
  "maskCustom v rule = (if int (length v) \<le> mr_KeepPrefix rule + mr_KeepSuffix rule then Inr v else mask_edges v rule)"

(* src: app/common/security/data_encryption.go:295-314 DataMasking.applyMaskingRule *)
definition applyMaskingRule :: "string \<Rightarrow> masking_rule \<Rightarrow> err + string" where
  "applyMaskingRule v rule =
     (case mr_Type rule of
        MaskEmail \<Rightarrow> maskEmail v rule
      | MaskPhone \<Rightarrow> maskPhone v rule
      | MaskIDCard \<Rightarrow> maskIDCard v rule
      | MaskCreditCard \<Rightarrow> maskCreditCard v rule
      | MaskName \<Rightarrow> maskName v rule
      | MaskAddress \<Rightarrow> maskAddress v rule
      | MaskCustom \<Rightarrow> maskCustom v rule
      | MaskUnknown _ \<Rightarrow> Inr v)"

subsection \<open>Structs\<close>

text \<open>A field holds a \<^verbatim>\<open>string\<close>, a value of a named type of that kind, or something else.\<close>

datatype 'a field_value = FString string | FNamed string | FOther 'a

record 'a struct_field =
  sf_Tag :: "string option"
  sf_Exported :: bool
  sf_Value :: "'a field_value"

datatype 'a go_data = StructValue "'a struct_field list" | StructPointer "'a struct_field list" | NoStruct

text \<open>\<^verbatim>\<open>maskField\<close>: \<open>Inr None\<close> when it returns the field as it is.\<close>

(* src: app/common/security/data_encryption.go:275-292 DataMasking.maskField *)
definition maskField :: "data_masking \<Rightarrow> 'a field_value \<Rightarrow> string \<Rightarrow> err + string option" where
  "maskField dm field tag =
     (case (case field of FString s \<Rightarrow> s | FNamed s \<Rightarrow> s | FOther _ \<Rightarrow> []) of
        [] \<Rightarrow> Inr None
      | c # cs \<Rightarrow>
          (case dm tag of
             None \<Rightarrow> Inr None
           | Some rule \<Rightarrow> (case applyMaskingRule (c # cs) rule of Inl e \<Rightarrow> Inl e | Inr masked \<Rightarrow> Inr (Some masked))))"

(* src: app/common/security/data_encryption.go:251-268 DataMasking.MaskData (one field) *)
definition mask_struct_field :: "data_masking \<Rightarrow> bool \<Rightarrow> 'a struct_field \<Rightarrow> err + 'a struct_field" where
  "mask_struct_field dm addressable f =
     (if \<not> sf_Exported f then Inl ''reflect: reflect.Value.Set using value obtained using unexported field''
      else case sf_Tag f of
        None \<Rightarrow> Inr f
      | Some tag \<Rightarrow>
          if \<not> addressable then Inr f
          else (case maskField dm (sf_Value f) tag of
                  Inl e \<Rightarrow> Inl e
                | Inr None \<Rightarrow> Inr f
                | Inr (Some masked) \<Rightarrow>
                    (case sf_Value f of
                       FNamed _ \<Rightarrow> Inl ''reflect.Set: value of type string is not assignable''
                     | _ \<Rightarrow> Inr (f\<lparr> sf_Value := FString masked \<rparr>))))"

fun mask_fields :: "data_masking \<Rightarrow> bool \<Rightarrow> 'a struct_field list \<Rightarrow> err + 'a struct_field list" where
  "mask_fields dm addressable [] = Inr []"
| "mask_fields dm addressable (f # fs) =
     (case mask_struct_field dm addressable f of
        Inl e \<Rightarrow> Inl e
      | Inr f' \<Rightarrow> (case mask_fields dm addressable fs of Inl e \<Rightarrow> Inl e | Inr fs' \<Rightarrow> Inr (f' # fs')))"

(* src: app/common/security/data_encryption.go:236-272 DataMasking.MaskData *)
fun MaskData :: "data_masking \<Rightarrow> 'a go_data \<Rightarrow> err + 'a struct_field list" where
  "MaskData dm NoStruct = Inl ''data must be a struct''"
| "MaskData dm (StructValue fs) = mask_fields dm False fs"
| "MaskData dm (StructPointer fs) = mask_fields dm True fs"

subsection \<open>Audit log\<close>

(* src: app/common/security/data_encryption.go:443-453 SecurityAuditLog *)
record security_audit_log =
  sal_ID :: string
  sal_UserID :: string
  sal_Action :: string
  sal_Resource :: string
  sal_IP :: string
  sal_UserAgent :: string
  sal_Result :: string
  sal_Details :: string
  sal_Timestamp :: gotime

text \<open>The logger is the list of its entries, oldest first.\<close>

(* src: app/common/security/data_encryption.go:456-460 NewSecurityAuditLogger *)
definition NewSecurityAuditLogger :: "security_audit_log list" where
  "NewSecurityAuditLogger = []"

(* src: app/common/security/data_encryption.go:467-477 SecurityAuditLogger.Log (entry) *)
definition audit_entry ::
  "gotime \<Rightarrow> string \<Rightarrow> string \<Rightarrow> string \<Rightarrow> string \<Rightarrow> string \<Rightarrow> string \<Rightarrow> string \<Rightarrow> security_audit_log" where
  "audit_entry now userID action resource ip userAgent res details =
     \<lparr> sal_ID = ''audit_'' @ itoa (now - 62135596800 * second), sal_UserID = userID, sal_Action = action, sal_Resource = resource,
       sal_IP = ip, sal_UserAgent = userAgent, sal_Result = res, sal_Details = details, sal_Timestamp = now \<rparr>"

(* src: app/common/security/data_encryption.go:463-485 SecurityAuditLogger.Log *)
definition audit_Log :: "security_audit_log \<Rightarrow> security_audit_log list \<Rightarrow> security_audit_log list" where
  "audit_Log entry logs =
     (let logs' = logs @ [entry] in if length logs' > 10000 then drop (length logs' - 10000) logs' else logs')"

(* src: app/common/security/data_encryption.go:488-496 SecurityAuditLogger.GetLogs *)
definition GetLogs :: "security_audit_log list \<Rightarrow> security_audit_log list" where
  "GetLogs logs = logs"

(* src: app/common/security/data_encryption.go:499-511 SecurityAuditLogger.GetLogsByUser *)
definition GetLogsByUser :: "string \<Rightarrow> security_audit_log list \<Rightarrow> security_audit_log list" where
  "GetLogsByUser userID logs = filter (\<lambda>l. sal_UserID l = userID) logs"

(* src: app/common/security/data_encryption.go:514-526 SecurityAuditLogger.GetLogsByAction *)
definition GetLogsByAction :: "string \<Rightarrow> security_audit_log list \<Rightarrow> security_audit_log list" where
  "GetLogsByAction action logs = filter (\<lambda>l. sal_Action l = action) logs"

(* src: app/common/security/data_encryption.go:529-541 SecurityAuditLogger.GetLogsByResult *)
definition GetLogsByResult :: "string \<Rightarrow> security_audit_log list \<Rightarrow> security_audit_log list" where
  "GetLogsByResult res logs = filter (\<lambda>l. sal_Result l = res) logs"

section \<open>Properties\<close>

subsection \<open>What a mask shows\<close>

lemma mask_edges_eq:
  assumes "0 \<le> mr_KeepPrefix rule" and "0 \<le> mr_KeepSuffix rule"
    and "mr_KeepPrefix rule + mr_KeepSuffix rule \<le> int (length v)"
  shows "mask_edges v rule = Inr (take (nat (mr_KeepPrefix rule)) v
     @ (if mr_KeepLength rule then concat (replicate (length v - nat (mr_KeepPrefix rule) - nat (mr_KeepSuffix rule)) (mr_Replacement rule))
        else mr_Replacement rule)
     @ drop (length v - nat (mr_KeepSuffix rule)) v)"
proof -
  have "nat (int (length v) - mr_KeepSuffix rule) = length v - nat (mr_KeepSuffix rule)"
    "nat (int (length v) - mr_KeepPrefix rule - mr_KeepSuffix rule) = length v - nat (mr_KeepPrefix rule) - nat (mr_KeepSuffix rule)"
    using assms by (simp_all add: nat_diff_distrib)
  then show ?thesis using assms by (simp add: mask_edges_def slice_ok strings_Repeat_def)
qed

definition edge_type :: "masking_type \<Rightarrow> bool" where
  "edge_type ty \<longleftrightarrow> ty \<in> {MaskPhone, MaskIDCard, MaskCreditCard, MaskAddress, MaskCustom}"

lemma edge_mask:
  assumes "edge_type (mr_Type rule)"
  shows "applyMaskingRule v rule
    = (if int (length v) \<le> mr_KeepPrefix rule + mr_KeepSuffix rule then Inr v else mask_edges v rule)"
  using assms
  by (auto simp: edge_type_def applyMaskingRule_def maskPhone_def maskIDCard_def maskCreditCard_def maskAddress_def maskCustom_def)

text \<open>
  The rules for telephone numbers, identity cards, credit cards, addresses and custom fields show the prefix and the suffix
  they are set to and nothing of what is between: values of one length that agree there have the same mask. A value that is
  not longer than prefix and suffix together is shown in full.
\<close>

theorem mask_shows_edges_only:
  assumes "edge_type (mr_Type rule)" and "0 \<le> mr_KeepPrefix rule" and "0 \<le> mr_KeepSuffix rule"
    and "length v' = length v"
    and "take (nat (mr_KeepPrefix rule)) v' = take (nat (mr_KeepPrefix rule)) v"
    and "drop (length v - nat (mr_KeepSuffix rule)) v' = drop (length v - nat (mr_KeepSuffix rule)) v"
  shows "if mr_KeepPrefix rule + mr_KeepSuffix rule < int (length v)
         then (\<exists>m. applyMaskingRule v rule = Inr m \<and> applyMaskingRule v' rule = Inr m)
         else applyMaskingRule v rule = Inr v"
  using assms by (simp add: edge_mask mask_edges_eq)

definition phone_rule :: masking_rule where
  "phone_rule = \<lparr> mr_Type = MaskPhone, mr_Replacement = ''*'', mr_KeepLength = True, mr_KeepPrefix = 3, mr_KeepSuffix = 4 \<rparr>"

theorem mask_shows_edges_only_witness:
  "\<exists>m. applyMaskingRule ''13812345678'' phone_rule = Inr m \<and> applyMaskingRule ''13899995678'' phone_rule = Inr m"
  using mask_shows_edges_only [of phone_rule "''13899995678''" "''13812345678''"]
  by (simp add: phone_rule_def edge_type_def)

lemma keep_length:
  assumes "0 \<le> mr_KeepPrefix rule" and "0 \<le> mr_KeepSuffix rule" and "mr_KeepLength rule" and "length (mr_Replacement rule) = 1"
    and "mr_KeepPrefix rule + mr_KeepSuffix rule \<le> int (length v)" and "mask_edges v rule = Inr m"
  shows "length m = length v"
proof -
  have "length (concat (replicate k (mr_Replacement rule))) = k" for k
    using assms(4) by (induction k) simp_all
  then show ?thesis using assms by (auto simp: mask_edges_eq)
qed

text \<open>The default rule for names keeps one byte, which for a Chinese name is a third of a character.\<close>

lemma chinese_name_cut:
  "applyMaskingRule (utf8 [0xE5, 0xBC, 0xA0, 0xE4, 0xB8, 0x89]) (the (NewDataMasking ''name'')) = Inr (utf8 [0xE5] @ ''*'')"
  "runes (utf8 [0xE5] @ ''*'') = [0xFFFD, 0x2A]"
  by (simp_all add: applyMaskingRule_def NewDataMasking_def registerMaskingRules_def maskName_def mask_edges_def slice_def utf8_def
      runes_def)

subsection \<open>Structs\<close>

text \<open>
  A struct that is handed over by value comes back as it is: its fields cannot be set, so no rule is applied, and
  \<^verbatim>\<open>MaskData\<close> reports success. The same struct handed over by pointer is masked.
\<close>

theorem value_struct_not_masked:
  assumes "list_all sf_Exported fs"
  shows "MaskData dm (StructValue fs) = Inr fs"
proof -
  have "mask_fields dm False fs = Inr fs"
    using assms by (induction fs) (simp_all add: mask_struct_field_def split: option.split)
  then show ?thesis by simp
qed

theorem value_struct_not_masked_witness:
  "MaskData NewDataMasking (StructValue [\<lparr> sf_Tag = Some ''phone'', sf_Exported = True, sf_Value = FString ''13812345678'' \<rparr> :: unit struct_field])
     = Inr [\<lparr> sf_Tag = Some ''phone'', sf_Exported = True, sf_Value = FString ''13812345678'' \<rparr>]
   \<and> MaskData NewDataMasking (StructPointer [\<lparr> sf_Tag = Some ''phone'', sf_Exported = True, sf_Value = FString ''13812345678'' \<rparr> :: unit struct_field])
     = Inr [\<lparr> sf_Tag = Some ''phone'', sf_Exported = True, sf_Value = FString ''138****5678'' \<rparr>]"
proof -
  let ?f = "\<lparr> sf_Tag = Some ''phone'', sf_Exported = True, sf_Value = FString ''13812345678'' \<rparr> :: unit struct_field"
  have "NewDataMasking ''phone'' = Some phone_rule"
    by (simp add: NewDataMasking_def registerMaskingRules_def phone_rule_def)
  moreover have "applyMaskingRule ''13812345678'' phone_rule = Inr ''138****5678''"
    by (simp add: applyMaskingRule_def phone_rule_def maskPhone_def mask_edges_def slice_def strings_Repeat_def numeral_eq_Suc)
  ultimately have "mask_struct_field NewDataMasking True ?f = Inr (?f\<lparr> sf_Value := FString ''138****5678'' \<rparr>)"
    by (simp add: mask_struct_field_def maskField_def)
  moreover have "list_all sf_Exported [?f]" by simp
  from value_struct_not_masked [OF this, of NewDataMasking] have "MaskData NewDataMasking (StructValue [?f]) = Inr [?f]" .
  ultimately show ?thesis by simp
qed

subsection \<open>The audit log\<close>

text \<open>After any number of calls the log holds the latest ten thousand entries, in order.\<close>

theorem audit_keeps_latest:
  "GetLogs (fold audit_Log entries NewSecurityAuditLogger) = drop (length entries - 10000) entries"
proof -
  have "fold audit_Log entries [] = drop (length entries - 10000) entries"
  proof (induction entries rule: rev_induct)
    case (snoc e es)
    define k where "k = length es - 10000"
    have "fold audit_Log (es @ [e]) [] = audit_Log e (drop k es)" by (simp add: snoc k_def)
    also have "\<dots> = drop (length (es @ [e]) - 10000) (es @ [e])"
    proof (cases "length es < 10000")
      case True
      then show ?thesis by (simp add: k_def audit_Log_def Let_def)
    next
      case False
      then have "length es = k + 10000" by (simp add: k_def)
      then show ?thesis by (simp add: audit_Log_def Let_def)
    qed
    finally show ?case .
  qed simp
  then show ?thesis by (simp add: GetLogs_def NewSecurityAuditLogger_def)
qed

end
