(* ===== verification/Database_Router.thy ===== *)
theory Database_Router
  imports Prelude
begin

text \<open>
  Routing of statements to a master and its slaves and to shards: \<^verbatim>\<open>src/app/common/performance/database_router.go\<close>.

  A database is a function on the outside: it takes a statement (query and arguments) and gives rows or an error. The row of
  \<^verbatim>\<open>QueryRowContext\<close> carries its error until it is scanned, so it is a sum as well. \<^verbatim>\<open>Route\<close> gets the name of an operation, which the
  router sets to SELECT itself. \<^verbatim>\<open>HashShardingStrategy.GetTable\<close> is declared to return an \<^verbatim>\<open>int\<close> and returns a string, which does not
  compile; the string is modelled.
\<close>

section \<open>Model\<close>

datatype db_name = Master | Slave nat

record ('q, 'r, 'w) sql_lib =
  sq_Query :: "db_name \<Rightarrow> 'q \<Rightarrow> 'w \<Rightarrow> (err + 'r) \<times> 'w"
  sq_Exec :: "db_name \<Rightarrow> 'q \<Rightarrow> 'w \<Rightarrow> (err + 'r) \<times> 'w"

subsection \<open>Strategies\<close>

text \<open>\<open>'s\<close> is the state of a strategy; true means the master.\<close>

(* src: app/common/performance/database_router.go:30-35 RoutingStrategy *)
record ('q, 's) routing_strategy =
  rs_Route :: "string \<Rightarrow> 'q \<Rightarrow> 's \<Rightarrow> err + bool"
  rs_GetSlaveIndex :: "'s \<Rightarrow> int \<times> 's"
  rs_SetSlaveHealth :: "int \<Rightarrow> bool \<Rightarrow> 's \<Rightarrow> 's"
  rs_GetSlaveHealth :: "int \<Rightarrow> 's \<Rightarrow> bool"

(* src: app/common/performance/database_router.go:182-186 RoundRobinStrategy *)
record rr_strategy =
  rr_currentIndex :: nat
  rr_slaveHealth :: "bool list"

(* src: app/common/performance/database_router.go:189-193 NewRoundRobinStrategy *)
definition NewRoundRobinStrategy :: "nat \<Rightarrow> rr_strategy" where
  "NewRoundRobinStrategy slaveCount = \<lparr> rr_currentIndex = 0, rr_slaveHealth = replicate slaveCount False \<rparr>"

(* src: app/common/performance/database_router.go:196-204 RoundRobinStrategy.Route *)
definition rr_Route :: "string \<Rightarrow> 'q \<Rightarrow> rr_strategy \<Rightarrow> err + bool" where
  "rr_Route operation query s = Inr (operation = ''INSERT'' \<or> operation = ''UPDATE'' \<or> operation = ''DELETE'')"

text \<open>\<open>n\<close> rounds of the loop are left.\<close>

(* src: app/common/performance/database_router.go:212-217 RoundRobinStrategy.GetSlaveIndex (loop) *)
fun next_healthy :: "nat \<Rightarrow> rr_strategy \<Rightarrow> int \<times> rr_strategy" where
  "next_healthy 0 s = (0, s)"
| "next_healthy (Suc n) s =
     (let k = (rr_currentIndex s + 1) mod length (rr_slaveHealth s); s' = s\<lparr> rr_currentIndex := k \<rparr>
      in if rr_slaveHealth s ! k then (int k, s') else next_healthy n s')"

(* src: app/common/performance/database_router.go:207-221 RoundRobinStrategy.GetSlaveIndex *)
definition rr_GetSlaveIndex :: "rr_strategy \<Rightarrow> int \<times> rr_strategy" where
  "rr_GetSlaveIndex s = next_healthy (length (rr_slaveHealth s)) s"

(* src: app/common/performance/database_router.go:224-231 RoundRobinStrategy.SetSlaveHealth *)
definition rr_SetSlaveHealth :: "int \<Rightarrow> bool \<Rightarrow> rr_strategy \<Rightarrow> rr_strategy" where
  "rr_SetSlaveHealth index healthy s =
     (if index \<ge> 0 \<and> index < int (length (rr_slaveHealth s))
        then s\<lparr> rr_slaveHealth := (rr_slaveHealth s)[nat index := healthy] \<rparr> else s)"

(* src: app/common/performance/database_router.go:234-243 RoundRobinStrategy.GetSlaveHealth *)
definition rr_GetSlaveHealth :: "int \<Rightarrow> rr_strategy \<Rightarrow> bool" where
  "rr_GetSlaveHealth index s =
     (if index \<ge> 0 \<and> index < int (length (rr_slaveHealth s)) then rr_slaveHealth s ! nat index else False)"

definition round_robin :: "('q, rr_strategy) routing_strategy" where
  "round_robin = \<lparr> rs_Route = rr_Route, rs_GetSlaveIndex = rr_GetSlaveIndex, rs_SetSlaveHealth = rr_SetSlaveHealth,
     rs_GetSlaveHealth = rr_GetSlaveHealth \<rparr>"

text \<open>The weighted strategy holds weights that none of its operations reads; the operations are those of the plain one.\<close>

(* src: app/common/performance/database_router.go:246-251 WeightedRoundRobinStrategy *)
record wrr_strategy = rr_strategy +
  wrr_weights :: "int list"

(* src: app/common/performance/database_router.go:254-259 NewWeightedRoundRobinStrategy *)
definition NewWeightedRoundRobinStrategy :: "int list \<Rightarrow> wrr_strategy" where
  "NewWeightedRoundRobinStrategy weights =
     \<lparr> rr_currentIndex = 0, rr_slaveHealth = replicate (length weights) False, wrr_weights = weights \<rparr>"

(* src: app/common/performance/database_router.go:262-270 WeightedRoundRobinStrategy.Route *)
definition wrr_Route :: "string \<Rightarrow> 'q \<Rightarrow> wrr_strategy \<Rightarrow> err + bool" where
  "wrr_Route operation query s = Inr (operation = ''INSERT'' \<or> operation = ''UPDATE'' \<or> operation = ''DELETE'')"

(* src: app/common/performance/database_router.go:278-283 WeightedRoundRobinStrategy.GetSlaveIndex (loop) *)
fun wrr_next_healthy :: "nat \<Rightarrow> wrr_strategy \<Rightarrow> int \<times> wrr_strategy" where
  "wrr_next_healthy 0 s = (0, s)"
| "wrr_next_healthy (Suc n) s =
     (let k = (rr_currentIndex s + 1) mod length (rr_slaveHealth s); s' = s\<lparr> rr_currentIndex := k \<rparr>
      in if rr_slaveHealth s ! k then (int k, s') else wrr_next_healthy n s')"

(* src: app/common/performance/database_router.go:273-287 WeightedRoundRobinStrategy.GetSlaveIndex *)
definition wrr_GetSlaveIndex :: "wrr_strategy \<Rightarrow> int \<times> wrr_strategy" where
  "wrr_GetSlaveIndex s = wrr_next_healthy (length (rr_slaveHealth s)) s"

(* src: app/common/performance/database_router.go:290-297 WeightedRoundRobinStrategy.SetSlaveHealth *)
definition wrr_SetSlaveHealth :: "int \<Rightarrow> bool \<Rightarrow> wrr_strategy \<Rightarrow> wrr_strategy" where
  "wrr_SetSlaveHealth index healthy s =
     (if index \<ge> 0 \<and> index < int (length (rr_slaveHealth s))
        then s\<lparr> rr_slaveHealth := (rr_slaveHealth s)[nat index := healthy] \<rparr> else s)"

(* src: app/common/performance/database_router.go:300-309 WeightedRoundRobinStrategy.GetSlaveHealth *)
definition wrr_GetSlaveHealth :: "int \<Rightarrow> wrr_strategy \<Rightarrow> bool" where
  "wrr_GetSlaveHealth index s =
     (if index \<ge> 0 \<and> index < int (length (rr_slaveHealth s)) then rr_slaveHealth s ! nat index else False)"

definition weighted_round_robin :: "('q, wrr_strategy) routing_strategy" where
  "weighted_round_robin = \<lparr> rs_Route = wrr_Route, rs_GetSlaveIndex = wrr_GetSlaveIndex, rs_SetSlaveHealth = wrr_SetSlaveHealth,
     rs_GetSlaveHealth = wrr_GetSlaveHealth \<rparr>"

subsection \<open>Router\<close>

(* src: app/common/performance/database_router.go:21-27 RouterStats *)
record router_stats =
  rt_MasterQueries :: int
  rt_SlaveQueries :: int
  rt_TotalQueries :: int
  rt_ErrorCount :: int

(* src: app/common/performance/database_router.go:12-18 DatabaseRouter *)
record 's db_router =
  dr_slaveDBs :: nat
  dr_strategy :: 's
  dr_stats :: router_stats

(* src: app/common/performance/database_router.go:38-45 NewDatabaseRouter *)
definition NewDatabaseRouter :: "nat \<Rightarrow> 's \<Rightarrow> 's db_router" where
  "NewDatabaseRouter slaveDBs strategy =
     \<lparr> dr_slaveDBs = slaveDBs, dr_strategy = strategy,
       dr_stats = \<lparr> rt_MasterQueries = 0, rt_SlaveQueries = 0, rt_TotalQueries = 0, rt_ErrorCount = 0 \<rparr> \<rparr>"

definition count_master :: "'s db_router \<Rightarrow> 's db_router" where
  "count_master d = d\<lparr> dr_stats := (dr_stats d)\<lparr> rt_MasterQueries := rt_MasterQueries (dr_stats d) + 1,
     rt_TotalQueries := rt_TotalQueries (dr_stats d) + 1 \<rparr> \<rparr>"

definition count_slave :: "'s db_router \<Rightarrow> 's db_router" where
  "count_slave d = d\<lparr> dr_stats := (dr_stats d)\<lparr> rt_SlaveQueries := rt_SlaveQueries (dr_stats d) + 1,
     rt_TotalQueries := rt_TotalQueries (dr_stats d) + 1 \<rparr> \<rparr>"

(* src: app/common/performance/database_router.go:85-92 DatabaseRouter.queryMaster *)
definition queryMaster :: "('q, 'r, 'w) sql_lib \<Rightarrow> 'q \<Rightarrow> 's db_router \<times> 'w \<Rightarrow> (err + 'r) \<times> 's db_router \<times> 'w" where
  "queryMaster Q q dw = (case sq_Query Q Master q (snd dw) of (r, w') \<Rightarrow> (r, count_master (fst dw), w'))"

text \<open>A negative index of a slave panics; \<open>Inl\<close> of the result is the panic.\<close>

(* src: app/common/performance/database_router.go:95-123 DatabaseRouter.querySlave *)
definition querySlave ::
  "('q, 'r, 'w) sql_lib \<Rightarrow> ('q, 's) routing_strategy \<Rightarrow> 'q \<Rightarrow> 's db_router \<times> 'w \<Rightarrow> err + (err + 'r) \<times> 's db_router \<times> 'w" where
  "querySlave Q S q dw =
     (case rs_GetSlaveIndex S (dr_strategy (fst dw)) of
        (i, s) \<Rightarrow>
          let d = (fst dw)\<lparr> dr_strategy := s \<rparr>
          in if i \<ge> int (dr_slaveDBs d) then Inr (queryMaster Q q (d, snd dw))
             else if i < 0 then Inl ''runtime error: index out of range''
             else if \<not> rs_GetSlaveHealth S i (dr_strategy d) then Inr (queryMaster Q q (d, snd dw))
             else
               (case sq_Query Q (Slave (nat i)) q (snd dw) of
                  (Inr rows, w') \<Rightarrow> Inr (Inr rows, count_slave d, w')
                | (Inl e, w') \<Rightarrow>
                    let d1 = (count_slave d)\<lparr> dr_strategy := rs_SetSlaveHealth S i False (dr_strategy d) \<rparr>
                    in Inr (Inl e, d1\<lparr> dr_stats := (dr_stats d1)\<lparr> rt_ErrorCount := rt_ErrorCount (dr_stats d1) + 1 \<rparr> \<rparr>, w')))"

(* src: app/common/performance/database_router.go:48-60 DatabaseRouter.Query *)
definition dr_Query ::
  "('q, 'r, 'w) sql_lib \<Rightarrow> ('q, 's) routing_strategy \<Rightarrow> 'q \<Rightarrow> 's db_router \<times> 'w \<Rightarrow> err + (err + 'r) \<times> 's db_router \<times> 'w" where
  "dr_Query Q S q dw =
     (case rs_Route S ''SELECT'' q (dr_strategy (fst dw)) of
        Inl e \<Rightarrow> Inr (Inl e, dw)
      | Inr useMaster \<Rightarrow> if useMaster then Inr (queryMaster Q q dw) else querySlave Q S q dw)"

text \<open>A single row from a slave: an error of the slave is in the row and does not change its health.\<close>

(* src: app/common/performance/database_router.go:136-155 DatabaseRouter.queryRowSlave *)
definition queryRowSlave ::
  "('q, 'r, 'w) sql_lib \<Rightarrow> ('q, 's) routing_strategy \<Rightarrow> 'q \<Rightarrow> 's db_router \<times> 'w \<Rightarrow> err + (err + 'r) \<times> 's db_router \<times> 'w" where
  "queryRowSlave Q S q dw =
     (case rs_GetSlaveIndex S (dr_strategy (fst dw)) of
        (i, s) \<Rightarrow>
          let d = (fst dw)\<lparr> dr_strategy := s \<rparr>
          in if i \<ge> int (dr_slaveDBs d) then Inr (queryMaster Q q (d, snd dw))
             else if i < 0 then Inl ''runtime error: index out of range''
             else if \<not> rs_GetSlaveHealth S i (dr_strategy d) then Inr (queryMaster Q q (d, snd dw))
             else (case sq_Query Q (Slave (nat i)) q (snd dw) of (row, w') \<Rightarrow> Inr (row, count_slave d, w')))"

(* src: app/common/performance/database_router.go:63-76 DatabaseRouter.QueryRow *)
definition dr_QueryRow ::
  "('q, 'r, 'w) sql_lib \<Rightarrow> ('q, 's) routing_strategy \<Rightarrow> 'q \<Rightarrow> 's db_router \<times> 'w \<Rightarrow> err + (err + 'r) \<times> 's db_router \<times> 'w" where
  "dr_QueryRow Q S q dw =
     (case rs_Route S ''SELECT'' q (dr_strategy (fst dw)) of
        Inl e \<Rightarrow> Inr (queryMaster Q q dw)
      | Inr useMaster \<Rightarrow> if useMaster then Inr (queryMaster Q q dw) else queryRowSlave Q S q dw)"

(* src: app/common/performance/database_router.go:79-82 DatabaseRouter.Exec *)
definition dr_Exec :: "('q, 'r, 'w) sql_lib \<Rightarrow> 'q \<Rightarrow> 's db_router \<times> 'w \<Rightarrow> (err + 'r) \<times> 's db_router \<times> 'w" where
  "dr_Exec Q q dw = (case sq_Exec Q Master q (snd dw) of (r, w') \<Rightarrow> (r, count_master (fst dw), w'))"

subsection \<open>Shards\<close>

text \<open>The sum over the runes of a key in 64 bits.\<close>

(* src: app/common/performance/database_router.go:334-337 HashShardingStrategy.GetShard (hash) *)
definition key_hash :: "string \<Rightarrow> int" where
  "key_hash key = fold (\<lambda>c hash. wrap64 (hash * 31 + int c)) (runes key) 0"

text \<open>A strategy gives the number of a shard, or the panic of the division by zero.\<close>

(* src: app/common/performance/database_router.go:333-339 HashShardingStrategy.GetShard *)
definition hash_GetShard :: "int \<Rightarrow> string \<Rightarrow> err + int" where
  "hash_GetShard shardCount key =
     (if shardCount = 0 then Inl ''runtime error: integer divide by zero'' else Inr (go_mod (key_hash key) shardCount))"

(* src: app/common/performance/database_router.go:342-345 HashShardingStrategy.GetTable *)
definition hash_GetTable :: "int \<Rightarrow> string \<Rightarrow> string \<Rightarrow> err + string" where
  "hash_GetTable shardCount tablePrefix key =
     (case hash_GetShard shardCount key of Inl e \<Rightarrow> Inl e | Inr shard \<Rightarrow> Inr (tablePrefix @ ''_'' @ itoa shard))"

fun first_range :: "int \<Rightarrow> int list \<Rightarrow> int \<Rightarrow> int option" where
  "first_range v [] i = None"
| "first_range v (r # rs) i = (if v < r then Some i else first_range v rs (i + 1))"

(* src: app/common/performance/database_router.go:367-383 RangeShardingStrategy.GetShard *)
definition range_GetShard :: "int list \<Rightarrow> string \<Rightarrow> err + int" where
  "range_GetShard ranges key =
     Inr (case first_range (key_hash key) ranges 0 of Some i \<Rightarrow> i | None \<Rightarrow> int (length ranges) - 1)"

(* src: app/common/performance/database_router.go:386-389 RangeShardingStrategy.GetTable *)
definition range_GetTable :: "int list \<Rightarrow> string \<Rightarrow> string \<Rightarrow> err + string" where
  "range_GetTable ranges tablePrefix key =
     (case range_GetShard ranges key of Inl e \<Rightarrow> Inl e | Inr shard \<Rightarrow> Inr (tablePrefix @ ''_'' @ itoa shard))"

(* src: app/common/performance/database_router.go:405-410 ShardingStats *)
record sharding_stats =
  ss_ShardQueries :: "int list"
  ss_TotalQueries :: int
  ss_ErrorCount :: int

(* src: app/common/performance/database_router.go:413-419 NewDatabaseSharding *)
definition NewShardingStats :: "nat \<Rightarrow> sharding_stats" where
  "NewShardingStats databases = \<lparr> ss_ShardQueries = replicate databases 0, ss_TotalQueries = 0, ss_ErrorCount = 0 \<rparr>"

definition count_shard :: "nat \<Rightarrow> sharding_stats \<Rightarrow> sharding_stats" where
  "count_shard i st = st\<lparr> ss_ShardQueries := (ss_ShardQueries st)[i := ss_ShardQueries st ! i + 1], ss_TotalQueries := ss_TotalQueries st + 1 \<rparr>"

text \<open>\<open>run i\<close> runs the statement on the database of a shard; \<open>databases\<close> is their number.\<close>

(* src: app/common/performance/database_router.go:422-443 DatabaseSharding.Query *)
definition sharding_Query ::
  "(string \<Rightarrow> err + int) \<Rightarrow> nat \<Rightarrow> (nat \<Rightarrow> 'w \<Rightarrow> (err + 'r) \<times> 'w) \<Rightarrow> string \<Rightarrow> sharding_stats \<times> 'w \<Rightarrow> err + (err + 'r) \<times> sharding_stats \<times> 'w"
  where
  "sharding_Query GetShard databases run key sw =
     (case GetShard key of
        Inl panic \<Rightarrow> Inl panic
      | Inr shard \<Rightarrow>
          if shard \<ge> int databases then Inr (Inl (''shard index out of range: '' @ itoa shard), sw)
          else if shard < 0 then Inl ''runtime error: index out of range''
          else case run (nat shard) (snd sw) of
            (Inl e, w') \<Rightarrow> Inr (Inl e, (fst sw)\<lparr> ss_ErrorCount := ss_ErrorCount (fst sw) + 1 \<rparr>, w')
          | (Inr rows, w') \<Rightarrow> Inr (Inr rows, count_shard (nat shard) (fst sw), w'))"

(* src: app/common/performance/database_router.go:446-462 DatabaseSharding.QueryRow *)
definition sharding_QueryRow ::
  "(string \<Rightarrow> err + int) \<Rightarrow> nat \<Rightarrow> (nat \<Rightarrow> 'w \<Rightarrow> (err + 'r) \<times> 'w) \<Rightarrow> 'r \<Rightarrow> string \<Rightarrow> sharding_stats \<times> 'w
   \<Rightarrow> err + (err + 'r) \<times> sharding_stats \<times> 'w" where
  "sharding_QueryRow GetShard databases run empty_row key sw =
     (case GetShard key of
        Inl panic \<Rightarrow> Inl panic
      | Inr shard \<Rightarrow>
          if shard \<ge> int databases then Inr (Inr empty_row, sw)
          else if shard < 0 then Inl ''runtime error: index out of range''
          else case run (nat shard) (snd sw) of (row, w') \<Rightarrow> Inr (row, count_shard (nat shard) (fst sw), w'))"

(* src: app/common/performance/database_router.go:465-486 DatabaseSharding.Exec *)
definition sharding_Exec ::
  "(string \<Rightarrow> err + int) \<Rightarrow> nat \<Rightarrow> (nat \<Rightarrow> 'w \<Rightarrow> (err + 'r) \<times> 'w) \<Rightarrow> string \<Rightarrow> sharding_stats \<times> 'w \<Rightarrow> err + (err + 'r) \<times> sharding_stats \<times> 'w"
  where
  "sharding_Exec GetShard databases run key sw =
     (case GetShard key of
        Inl panic \<Rightarrow> Inl panic
      | Inr shard \<Rightarrow>
          if shard \<ge> int databases then Inr (Inl (''shard index out of range: '' @ itoa shard), sw)
          else if shard < 0 then Inl ''runtime error: index out of range''
          else case run (nat shard) (snd sw) of
            (Inl e, w') \<Rightarrow> Inr (Inl e, (fst sw)\<lparr> ss_ErrorCount := ss_ErrorCount (fst sw) + 1 \<rparr>, w')
          | (Inr result, w') \<Rightarrow> Inr (Inr result, count_shard (nat shard) (fst sw), w'))"

section \<open>The contract between router and strategy\<close>

text \<open>
  The router relies on this much of a strategy: an index is no negative number and names a healthy slave when there is one,
  choosing one changes no health, reporting a failure makes that slave unhealthy and no other one healthy, and a SELECT may go
  to a slave.
\<close>

locale slave_choice =
  fixes S :: "('q, 's) routing_strategy"
  assumes select_routed: "rs_Route S ''SELECT'' q s = Inr False"
    and index_natural: "0 \<le> fst (rs_GetSlaveIndex S s)"
    and index_healthy: "rs_GetSlaveHealth S j s \<Longrightarrow> rs_GetSlaveHealth S (fst (rs_GetSlaveIndex S s)) s"
    and index_keeps_health: "rs_GetSlaveHealth S j (snd (rs_GetSlaveIndex S s)) = rs_GetSlaveHealth S j s"
    and failure_kept: "rs_GetSlaveHealth S j (rs_SetSlaveHealth S i False s) = (j \<noteq> i \<and> rs_GetSlaveHealth S j s)"

text \<open>A run of statements: the results in order, or the panic that ended it.\<close>

datatype 'q statement = Read 'q | Read_Row 'q | Write 'q

definition routed :: "('q, 'r, 'w) sql_lib \<Rightarrow> ('q, 's) routing_strategy \<Rightarrow> 'q statement \<Rightarrow> 's db_router \<times> 'w
    \<Rightarrow> err + (err + 'r) \<times> 's db_router \<times> 'w" where
  "routed Q S st dw = (case st of Read q \<Rightarrow> dr_Query Q S q dw | Read_Row q \<Rightarrow> dr_QueryRow Q S q dw | Write q \<Rightarrow> Inr (dr_Exec Q q dw))"

primrec run_statements :: "('q, 'r, 'w) sql_lib \<Rightarrow> ('q, 's) routing_strategy \<Rightarrow> 'q statement list \<Rightarrow> 's db_router \<times> 'w
    \<Rightarrow> err + (err + 'r) list \<times> 's db_router \<times> 'w" where
  "run_statements Q S [] dw = Inr ([], dw)"
| "run_statements Q S (st # sts) dw =
     (case routed Q S st dw of
        Inl panic \<Rightarrow> Inl panic
      | Inr (r, dw') \<Rightarrow> map_sum (\<lambda>x. x) (\<lambda>(rs, dw''). (r # rs, dw'')) (run_statements Q S sts dw'))"

text \<open>The specification without slaves: every statement on the master.\<close>

definition on_master :: "('q, 'r, 'w) sql_lib \<Rightarrow> 'q statement \<Rightarrow> 'w \<Rightarrow> (err + 'r) \<times> 'w" where
  "on_master Q st w = (case st of Read q \<Rightarrow> sq_Query Q Master q w | Read_Row q \<Rightarrow> sq_Query Q Master q w | Write q \<Rightarrow> sq_Exec Q Master q w)"

primrec all_on_master :: "('q, 'r, 'w) sql_lib \<Rightarrow> 'q statement list \<Rightarrow> 'w \<Rightarrow> (err + 'r) list \<times> 'w" where
  "all_on_master Q [] w = ([], w)"
| "all_on_master Q (st # sts) w =
     (case on_master Q st w of (r, w') \<Rightarrow> (case all_on_master Q sts w' of (rs, w'') \<Rightarrow> (r # rs, w'')))"

definition counted :: "'s db_router \<Rightarrow> bool" where
  "counted d \<longleftrightarrow> rt_TotalQueries (dr_stats d) = rt_MasterQueries (dr_stats d) + rt_SlaveQueries (dr_stats d)
     \<and> rt_ErrorCount (dr_stats d) \<le> rt_SlaveQueries (dr_stats d)"

lemma count_master_stats [simp]:
  "dr_strategy (count_master d) = dr_strategy d" "dr_slaveDBs (count_master d) = dr_slaveDBs d"
  "rt_MasterQueries (dr_stats (count_master d)) = rt_MasterQueries (dr_stats d) + 1"
  "rt_SlaveQueries (dr_stats (count_master d)) = rt_SlaveQueries (dr_stats d)"
  "rt_TotalQueries (dr_stats (count_master d)) = rt_TotalQueries (dr_stats d) + 1"
  "rt_ErrorCount (dr_stats (count_master d)) = rt_ErrorCount (dr_stats d)"
  by (simp_all add: count_master_def)

lemma count_slave_stats [simp]:
  "dr_strategy (count_slave d) = dr_strategy d" "dr_slaveDBs (count_slave d) = dr_slaveDBs d"
  "rt_MasterQueries (dr_stats (count_slave d)) = rt_MasterQueries (dr_stats d)"
  "rt_SlaveQueries (dr_stats (count_slave d)) = rt_SlaveQueries (dr_stats d) + 1"
  "rt_TotalQueries (dr_stats (count_slave d)) = rt_TotalQueries (dr_stats d) + 1"
  "rt_ErrorCount (dr_stats (count_slave d)) = rt_ErrorCount (dr_stats d)"
  by (simp_all add: count_slave_def)

lemmas router_defs = routed_def dr_Query_def dr_QueryRow_def dr_Exec_def querySlave_def queryRowSlave_def queryMaster_def

context slave_choice
begin

lemma never_panics: "\<exists>r d w'. routed Q S st dw = Inr (r, d, w')"
  using index_natural [of "dr_strategy (fst dw)"]
  by (cases st) (auto simp: router_defs select_routed Let_def split: prod.splits sum.splits)

lemma health_never_gained:
  "routed Q S st dw = Inr (r, d, w') \<Longrightarrow> rs_GetSlaveHealth S j (dr_strategy d) \<Longrightarrow> rs_GetSlaveHealth S j (dr_strategy (fst dw))"
  using index_keeps_health [of j "dr_strategy (fst dw)"]
  by (cases st)
    (auto simp: router_defs select_routed Let_def failure_kept split: prod.splits sum.splits if_splits)

lemma counted_kept: "routed Q S st dw = Inr (r, d, w') \<Longrightarrow> counted (fst dw) \<Longrightarrow> counted d"
  by (cases st)
    (auto simp: router_defs select_routed Let_def counted_def split: prod.splits sum.splits if_splits)

lemma unhealthy_gives_master:
  assumes "\<And>j. \<not> rs_GetSlaveHealth S j (dr_strategy (fst dw))"
  shows "\<exists>s. routed Q S st dw =
    Inr (fst (on_master Q st (snd dw)), count_master ((fst dw)\<lparr> dr_strategy := s \<rparr>), snd (on_master Q st (snd dw)))
    \<and> (\<forall>j. \<not> rs_GetSlaveHealth S j s)"
proof -
  define s where "s = (case st of Write q \<Rightarrow> dr_strategy (fst dw) | _ \<Rightarrow> snd (rs_GetSlaveIndex S (dr_strategy (fst dw))))"
  have "\<not> rs_GetSlaveHealth S j s" for j
    using assms by (cases st) (simp_all add: s_def index_keeps_health)
  moreover have "\<not> rs_GetSlaveHealth S i (snd (rs_GetSlaveIndex S (dr_strategy (fst dw))))" for i
    using assms by (simp add: index_keeps_health)
  then have "routed Q S st dw =
    Inr (fst (on_master Q st (snd dw)), count_master ((fst dw)\<lparr> dr_strategy := s \<rparr>), snd (on_master Q st (snd dw)))"
    using index_natural [of "dr_strategy (fst dw)"]
    by (cases st; cases "rs_GetSlaveIndex S (dr_strategy (fst dw))")
      (auto simp: router_defs select_routed on_master_def s_def Let_def split: prod.splits)
  ultimately show ?thesis by blast
qed

end

text \<open>Runs: they never panic, keep the counters right and, while no slave is healthy, are the runs on the master alone.\<close>

context slave_choice
begin

lemma run_never_panics: "\<exists>rs d w'. run_statements Q S sts dw = Inr (rs, d, w')"
proof (induction sts arbitrary: dw)
  case (Cons st sts)
  obtain r d w' where "routed Q S st dw = Inr (r, d, w')"
    using never_panics [of Q st dw] by blast
  then show ?case using Cons [of "(d, w')"] by auto
qed simp

lemma run_counted: "run_statements Q S sts dw = Inr (rs, d, w') \<Longrightarrow> counted (fst dw) \<Longrightarrow> counted d"
proof (induction sts arbitrary: dw rs)
  case (Cons st sts)
  obtain r d1 w1 where st: "routed Q S st dw = Inr (r, d1, w1)"
    using never_panics [of Q st dw] by blast
  obtain rs1 where "run_statements Q S sts (d1, w1) = Inr (rs1, d, w')"
    using Cons.prems(1) run_never_panics [of Q sts "(d1, w1)"] by (auto simp: st)
  then show ?case using Cons.IH [of "(d1, w1)"] counted_kept [OF st Cons.prems(2)] by simp
qed simp

lemma run_on_master:
  assumes "\<And>j. \<not> rs_GetSlaveHealth S j (dr_strategy d)"
  shows "\<exists>d'. run_statements Q S sts (d, w) = Inr (fst (all_on_master Q sts w), d', snd (all_on_master Q sts w))
    \<and> rt_SlaveQueries (dr_stats d') = rt_SlaveQueries (dr_stats d)
    \<and> rt_MasterQueries (dr_stats d') = rt_MasterQueries (dr_stats d) + int (length sts)"
  using assms
proof (induction sts arbitrary: d w)
  case (Cons st sts)
  obtain s where st: "routed Q S st (d, w) =
      Inr (fst (on_master Q st w), count_master (d\<lparr> dr_strategy := s \<rparr>), snd (on_master Q st w))"
    and s: "\<And>j. \<not> rs_GetSlaveHealth S j s"
    using unhealthy_gives_master [of "(d, w)" Q st] Cons.prems by auto
  show ?case
    using Cons.IH [of "count_master (d\<lparr> dr_strategy := s \<rparr>)" "snd (on_master Q st w)"] s st
    by (auto split: prod.splits)
qed simp

text \<open>What an unhealthy slave would answer makes no difference.\<close>

lemma unhealthy_not_asked:
  assumes "\<not> rs_GetSlaveHealth S (int i) (dr_strategy (fst dw))"
  shows "routed (Q\<lparr> sq_Query := (sq_Query Q)(Slave i := answer) \<rparr>) S st dw = routed Q S st dw"
proof -
  obtain j s where j: "rs_GetSlaveIndex S (dr_strategy (fst dw)) = (j, s)"
    by fastforce
  have "nat j \<noteq> i" if "rs_GetSlaveHealth S j s"
    using assms that index_natural [of "dr_strategy (fst dw)"] index_keeps_health [of j "dr_strategy (fst dw)"] j by auto
  then show ?thesis
    by (cases st; cases "rs_GetSlaveHealth S j s") (simp_all add: router_defs select_routed j Let_def cong: sum.case_cong)
qed

lemma run_unhealthy_not_asked:
  "\<not> rs_GetSlaveHealth S (int i) (dr_strategy (fst dw)) \<Longrightarrow>
   run_statements (Q\<lparr> sq_Query := (sq_Query Q)(Slave i := answer) \<rparr>) S sts dw = run_statements Q S sts dw"
proof (induction sts arbitrary: dw)
  case (Cons st sts)
  obtain r d w' where st: "routed Q S st dw = Inr (r, d, w')"
    using never_panics [of Q st dw] by blast
  have "\<not> rs_GetSlaveHealth S (int i) (dr_strategy d)"
    using health_never_gained [OF st] Cons.prems by blast
  then show ?case
    using Cons.IH [of "(d, w')"] unhealthy_not_asked [OF Cons.prems, of Q answer st] st by (simp del: fun_upd_apply)
qed simp

end

section \<open>The two strategies\<close>

lemma next_healthy_health [simp]: "rr_slaveHealth (snd (next_healthy n s)) = rr_slaveHealth s"
  by (induction n s rule: next_healthy.induct) (simp_all add: Let_def)

lemma next_healthy_natural [simp]: "0 \<le> fst (next_healthy n s)"
  by (induction n s rule: next_healthy.induct) (simp_all add: Let_def)

text \<open>The search meets every index within its rounds.\<close>

lemma next_healthy_finds:
  assumes "rr_slaveHealth s ! ((rr_currentIndex s + k) mod length (rr_slaveHealth s))" "0 < k" "k \<le> n"
    "0 < length (rr_slaveHealth s)"
  shows "\<exists>j < length (rr_slaveHealth s). fst (next_healthy n s) = int j \<and> rr_slaveHealth s ! j"
  using assms
proof (induction n s arbitrary: k rule: next_healthy.induct)
  case (2 n s)
  let ?l = "length (rr_slaveHealth s)"
  let ?c = "(rr_currentIndex s + 1) mod ?l"
  show ?case
  proof (cases "rr_slaveHealth s ! ?c")
    case True
    then show ?thesis using 2(5) by (auto simp: Let_def)
  next
    case False
    then have "k \<noteq> 1" using 2(2) by auto
    with 2(3) have "0 < k - 1" by simp
    have "(?c + (k - 1)) mod ?l = (rr_currentIndex s + 1 + (k - 1)) mod ?l"
      by (rule mod_add_left_eq)
    then have "(?c + (k - 1)) mod ?l = (rr_currentIndex s + k) mod ?l"
      using 2(3) by simp
    then show ?thesis
      using 2(1) [of ?c "s\<lparr> rr_currentIndex := ?c \<rparr>" "k - 1"] 2(2-5) False \<open>0 < k - 1\<close> by (simp add: Let_def)
  qed
qed simp

lemma rounds_meet_every_index:
  assumes "j < l" shows "\<exists>k. 0 < k \<and> k \<le> l \<and> (c + k) mod l = (j :: nat)"
proof (cases "c mod l < j")
  case True
  have "(c + (j - c mod l)) mod l = (c mod l + (j - c mod l)) mod l" by (simp add: mod_add_left_eq)
  with True assms show ?thesis by (intro exI [of _ "j - c mod l"]) auto
next
  case False
  have "c mod l < l" using assms by simp
  have "(c + (l + j - c mod l)) mod l = (c mod l + (l + j - c mod l)) mod l" by (simp add: mod_add_left_eq)
  also have "\<dots> = (l + j) mod l" using \<open>c mod l < l\<close> by simp
  finally show ?thesis using False assms \<open>c mod l < l\<close> by (intro exI [of _ "l + j - c mod l"]) auto
qed

lemma rr_index_healthy: "rr_GetSlaveHealth j s \<Longrightarrow> rr_GetSlaveHealth (fst (rr_GetSlaveIndex s)) s"
proof -
  assume j: "rr_GetSlaveHealth j s"
  then have "nat j < length (rr_slaveHealth s)" "rr_slaveHealth s ! nat j"
    by (auto simp: rr_GetSlaveHealth_def split: if_splits)
  with rounds_meet_every_index [of "nat j" "length (rr_slaveHealth s)" "rr_currentIndex s"]
  obtain k where "0 < k" "k \<le> length (rr_slaveHealth s)" "0 < length (rr_slaveHealth s)"
    "rr_slaveHealth s ! ((rr_currentIndex s + k) mod length (rr_slaveHealth s))"
    by (metis less_nat_zero_code not_gr_zero)
  with next_healthy_finds [of s k "length (rr_slaveHealth s)"]
  show ?thesis by (auto simp: rr_GetSlaveHealth_def rr_GetSlaveIndex_def)
qed

text \<open>The laws, first for the operations by their names.\<close>

lemma rr_laws:
  "0 \<le> fst (rr_GetSlaveIndex s)"
  "rr_GetSlaveHealth j (snd (rr_GetSlaveIndex s)) = rr_GetSlaveHealth j s"
  "rr_GetSlaveHealth j (rr_SetSlaveHealth i False s) = (j \<noteq> i \<and> rr_GetSlaveHealth j s)"
  by (auto simp: rr_GetSlaveIndex_def rr_GetSlaveHealth_def rr_SetSlaveHealth_def nth_list_update eq_nat_nat_iff
      split: if_splits)

interpretation plain: slave_choice "round_robin :: ('q, rr_strategy) routing_strategy"
  by unfold_locales (simp_all add: round_robin_def rr_Route_def rr_laws rr_index_healthy)

text \<open>The weighted strategy takes the same steps as the plain one; its weights stay as they are.\<close>

definition plain_part :: "wrr_strategy \<Rightarrow> rr_strategy" where
  "plain_part s = \<lparr> rr_currentIndex = rr_currentIndex s, rr_slaveHealth = rr_slaveHealth s \<rparr>"

lemma plain_part_fields [simp]:
  "rr_currentIndex (plain_part s) = rr_currentIndex s" "rr_slaveHealth (plain_part s) = rr_slaveHealth s"
  by (simp_all add: plain_part_def)

lemma wrr_next_healthy_plain:
  "fst (wrr_next_healthy n s) = fst (next_healthy n (plain_part s))
   \<and> plain_part (snd (wrr_next_healthy n s)) = snd (next_healthy n (plain_part s))
   \<and> wrr_weights (snd (wrr_next_healthy n s)) = wrr_weights s"
  by (induction n s rule: wrr_next_healthy.induct) (auto simp: Let_def plain_part_def)

lemma wrr_GetSlaveIndex_plain:
  "fst (wrr_GetSlaveIndex s) = fst (rr_GetSlaveIndex (plain_part s))"
  "plain_part (snd (wrr_GetSlaveIndex s)) = snd (rr_GetSlaveIndex (plain_part s))"
  using wrr_next_healthy_plain by (simp_all add: wrr_GetSlaveIndex_def rr_GetSlaveIndex_def)

lemma wrr_health_plain: "wrr_GetSlaveHealth j s = rr_GetSlaveHealth j (plain_part s)"
  by (simp add: wrr_GetSlaveHealth_def rr_GetSlaveHealth_def)

lemma wrr_failure_plain: "plain_part (wrr_SetSlaveHealth i b s) = rr_SetSlaveHealth i b (plain_part s)"
  by (simp add: wrr_SetSlaveHealth_def rr_SetSlaveHealth_def plain_part_def)

interpretation weighted: slave_choice "weighted_round_robin :: ('q, wrr_strategy) routing_strategy"
  by unfold_locales
    (simp_all add: weighted_round_robin_def wrr_Route_def wrr_GetSlaveIndex_plain wrr_health_plain wrr_failure_plain
      rr_laws rr_index_healthy)

lemma new_slaves_unhealthy:
  "\<not> rs_GetSlaveHealth round_robin j (NewRoundRobinStrategy n)"
  "\<not> rs_GetSlaveHealth weighted_round_robin j (NewWeightedRoundRobinStrategy weights)"
  by (simp_all add: round_robin_def weighted_round_robin_def rr_GetSlaveHealth_def wrr_GetSlaveHealth_def
      NewRoundRobinStrategy_def NewWeightedRoundRobinStrategy_def nat_less_iff)

section \<open>Properties\<close>

text \<open>
  C28. The slaves are never used. \<^verbatim>\<open>NewRoundRobinStrategy\<close> makes a list of health flags that are all false, and nothing in the
  router sets one to true: every run of reads and writes through a new router gives the results, and leaves the outside, of the
  same run on the master alone, and its counters show that every statement went to the master.
\<close>

theorem slaves_never_used:
  "\<exists>d. run_statements Q round_robin sts (NewDatabaseRouter slaves (NewRoundRobinStrategy n), w)
     = Inr (fst (all_on_master Q sts w), d, snd (all_on_master Q sts w))
     \<and> rt_SlaveQueries (dr_stats d) = 0 \<and> rt_MasterQueries (dr_stats d) = int (length sts)"
  using plain.run_on_master [of "NewDatabaseRouter slaves (NewRoundRobinStrategy n)" Q sts w]
  by (simp add: NewDatabaseRouter_def new_slaves_unhealthy)

lemma weighted_slaves_never_used:
  "\<exists>d. run_statements Q weighted_round_robin sts (NewDatabaseRouter slaves (NewWeightedRoundRobinStrategy weights), w)
     = Inr (fst (all_on_master Q sts w), d, snd (all_on_master Q sts w))
     \<and> rt_SlaveQueries (dr_stats d) = 0 \<and> rt_MasterQueries (dr_stats d) = int (length sts)"
  using weighted.run_on_master [of "NewDatabaseRouter slaves (NewWeightedRoundRobinStrategy weights)" Q sts w]
  by (simp add: NewDatabaseRouter_def new_slaves_unhealthy)

text \<open>
  A slave that is marked unhealthy is not asked again: from then on a run gives the same results, the same counters and the
  same outside whatever that slave would answer.
\<close>

theorem failed_slave_avoided:
  assumes "\<not> rr_GetSlaveHealth (int i) (dr_strategy (fst dw))"
  shows "run_statements (Q\<lparr> sq_Query := (sq_Query Q)(Slave i := answer) \<rparr>) round_robin sts dw = run_statements Q round_robin sts dw"
  by (rule plain.run_unhealthy_not_asked) (use assms in \<open>simp add: round_robin_def\<close>)

text \<open>The counters of a run are those of its statements.\<close>

lemma router_counters:
  assumes "run_statements Q round_robin sts (NewDatabaseRouter slaves s, w) = Inr (rs, d, w')"
  shows "rt_TotalQueries (dr_stats d) = rt_MasterQueries (dr_stats d) + rt_SlaveQueries (dr_stats d)"
  using plain.run_counted [OF assms] by (simp add: counted_def NewDatabaseRouter_def)

text \<open>A failing read marks its slave; a failing read of a row does not, and the next one asks it again.\<close>

definition down_slave :: "(string, string, nat) sql_lib" where
  "down_slave = \<lparr> sq_Query = (\<lambda>db q w. case db of Master \<Rightarrow> (Inr ''row'', w) | Slave i \<Rightarrow> (Inl ''connection refused'', w + 1)),
     sq_Exec = (\<lambda>db q w. (Inr ''ok'', w)) \<rparr>"

definition one_slave :: "rr_strategy db_router" where
  "one_slave = NewDatabaseRouter 1 (rr_SetSlaveHealth 0 True (NewRoundRobinStrategy 1))"

definition row_results :: "err + (err + string) list \<times> rr_strategy db_router \<times> nat \<Rightarrow> (err + string) list \<times> nat" where
  "row_results r = (case r of Inl p \<Rightarrow> ([], 0) | Inr (rs, d, w) \<Rightarrow> (rs, w))"

lemmas router_eval = round_robin_def rr_Route_def rr_GetSlaveIndex_def rr_GetSlaveHealth_def rr_SetSlaveHealth_def
  NewRoundRobinStrategy_def NewDatabaseRouter_def

lemma row_error_keeps_asking:
  "row_results (run_statements down_slave round_robin [Read_Row q, Read_Row q, Read_Row q] (one_slave, 0))
     = ([Inl ''connection refused'', Inl ''connection refused'', Inl ''connection refused''], 3)"
  "row_results (run_statements down_slave round_robin [Read q, Read q, Read_Row q] (one_slave, 0))
     = ([Inl ''connection refused'', Inr ''row'', Inr ''row''], 1)"
  by (simp_all add: row_results_def one_slave_def down_slave_def router_defs router_eval Let_def)

lemma failed_slave_avoided_witness:
  "row_results (run_statements (down_slave\<lparr> sq_Query := (sq_Query down_slave)(Slave 0 := \<lambda>q w. (Inr ''other'', w)) \<rparr>) round_robin
      [Read ''q'', Read_Row ''q''] (NewDatabaseRouter 1 (NewRoundRobinStrategy 1), 0)) = ([Inr ''row'', Inr ''row''], 0)"
proof -
  have "\<not> rr_GetSlaveHealth (int 0) (dr_strategy (fst (NewDatabaseRouter 1 (NewRoundRobinStrategy 1), 0 :: nat)))"
    by (simp add: router_eval)
  from failed_slave_avoided [OF this, of down_slave "\<lambda>q w. (Inr ''other'', w)" "[Read ''q'', Read_Row ''q'']"]
  have "run_statements (down_slave\<lparr> sq_Query := (sq_Query down_slave)(Slave 0 := \<lambda>q w. (Inr ''other'', w)) \<rparr>) round_robin
      [Read ''q'', Read_Row ''q''] (NewDatabaseRouter 1 (NewRoundRobinStrategy 1), 0)
    = run_statements down_slave round_robin [Read ''q'', Read_Row ''q''] (NewDatabaseRouter 1 (NewRoundRobinStrategy 1), 0)" .
  then show ?thesis
    by (simp add: row_results_def down_slave_def router_defs router_eval Let_def)
qed

text \<open>The hash of a long key overflows, and the shard of a negative hash is negative: the access to the databases panics.\<close>

lemma order_key_hash: "key_hash ''order-20240002'' = - 1137218772197059423"
  by (simp add: key_hash_def runes_def decode_runes.simps wrap64_def)


lemma shard_in_range:
  assumes "0 \<le> key_hash key" "0 < n"
  shows "\<exists>i. hash_GetShard (int n) key = Inr (int i) \<and> i < n"
  using assms by (intro exI [of _ "nat (key_hash key) mod n"]) (simp add: hash_GetShard_def go_mod_nonneg zmod_int nat_mod_distrib)

end
