(* ===== verification/Event_Store.thy ===== *)
theory Event_Store
  imports Prelude
begin

text \<open>
  Events and their stores: the interface, the store in memory, snapshots, and the archive of old events, of
  \<^verbatim>\<open>src/app/common/patterns/event_persistence.go\<close>.

  An event is a \<^verbatim>\<open>BaseEvent\<close>, the only implementation of the interface; its data and metadata are maps to values of any type, whose
  JSON form is a parameter. The store in memory ranges over a Go map, in another order each time: its state holds the orders of
  the rounds to come.
\<close>

section \<open>Model\<close>

(* src: app/common/patterns/event_persistence.go:35-42 BaseEvent *)
record 'v event =
  ev_ID :: string
  ev_Type :: string
  ev_Source :: string
  ev_Timestamp :: gotime
  ev_Data :: "string \<rightharpoonup> 'v"
  ev_Metadata :: "string \<rightharpoonup> 'v"

(* src: app/common/patterns/event_persistence.go:75-84 NewBaseEvent *)
definition NewBaseEvent :: "gotime \<Rightarrow> string \<Rightarrow> string \<Rightarrow> string \<Rightarrow> (string \<rightharpoonup> 'v) \<Rightarrow> 'v event" where
  "NewBaseEvent now i eventType source data =
     \<lparr> ev_ID = i, ev_Type = eventType, ev_Source = source, ev_Timestamp = now, ev_Data = data, ev_Metadata = Map.empty \<rparr>"

text \<open>The interface, for a store whose state is \<open>'w\<close>; limits and offsets are integers.\<close>

(* src: app/common/patterns/event_persistence.go:12-22 EventStore *)
record ('v, 'w) event_store_ops =
  es_SaveEvent :: "'v event \<Rightarrow> 'w \<Rightarrow> err option \<times> 'w"
  es_GetEvent :: "string \<Rightarrow> 'w \<Rightarrow> (err + 'v event) \<times> 'w"
  es_GetEventsByType :: "string \<Rightarrow> int \<Rightarrow> int \<Rightarrow> 'w \<Rightarrow> (err + 'v event list) \<times> 'w"
  es_GetEventsBySource :: "string \<Rightarrow> int \<Rightarrow> int \<Rightarrow> 'w \<Rightarrow> (err + 'v event list) \<times> 'w"
  es_GetEventsByTimeRange :: "gotime \<Rightarrow> gotime \<Rightarrow> int \<Rightarrow> int \<Rightarrow> 'w \<Rightarrow> (err + 'v event list) \<times> 'w"
  es_DeleteEvent :: "string \<Rightarrow> 'w \<Rightarrow> err option \<times> 'w"
  es_DeleteEventsByType :: "string \<Rightarrow> 'w \<Rightarrow> err option \<times> 'w"
  es_DeleteEventsBySource :: "string \<Rightarrow> 'w \<Rightarrow> err option \<times> 'w"
  es_DeleteEventsByTimeRange :: "gotime \<Rightarrow> gotime \<Rightarrow> 'w \<Rightarrow> err option \<times> 'w"

subsection \<open>The store in memory\<close>

text \<open>\<open>ms_orders n\<close> is the order of the \<open>n\<close>-th loop over the map, \<open>ms_round\<close> counts the loops.\<close>

(* src: app/common/patterns/event_persistence.go:87-90 MemoryEventStore *)
record 'v mem_store =
  ms_events :: "(string \<times> 'v event) list"
  ms_orders :: "nat \<Rightarrow> (string \<times> 'v event) range_order"
  ms_round :: nat

(* src: app/common/patterns/event_persistence.go:93-97 NewMemoryEventStore *)
definition NewMemoryEventStore :: "(nat \<Rightarrow> (string \<times> 'v event) range_order) \<Rightarrow> 'v mem_store" where
  "NewMemoryEventStore orders = \<lparr> ms_events = [], ms_orders = orders, ms_round = 0 \<rparr>"

definition ms_range :: "'v mem_store \<Rightarrow> (string \<times> 'v event) list \<times> 'v mem_store" where
  "ms_range s = (ms_orders s (ms_round s) (ms_events s), s\<lparr> ms_round := Suc (ms_round s) \<rparr>)"

(* src: app/common/patterns/event_persistence.go:100-105 MemoryEventStore.SaveEvent *)
definition ms_SaveEvent :: "'v event \<Rightarrow> 'v mem_store \<Rightarrow> err option \<times> 'v mem_store" where
  "ms_SaveEvent e s = (None, s\<lparr> ms_events := AList.update (ev_ID e) e (ms_events s) \<rparr>)"

(* src: app/common/patterns/event_persistence.go:108-116 MemoryEventStore.GetEvent *)
definition ms_GetEvent :: "string \<Rightarrow> 'v mem_store \<Rightarrow> (err + 'v event) \<times> 'v mem_store" where
  "ms_GetEvent i s = (case map_of (ms_events s) i of None \<Rightarrow> Inl (''event not found: '' @ i) | Some e \<Rightarrow> Inr e, s)"

text \<open>The loop of the three queries: matching events are skipped up to the offset, then taken up to the limit.\<close>

(* src: app/common/patterns/event_persistence.go:127-139 MemoryEventStore.GetEventsByType (loop) *)
fun page_loop :: "('v event \<Rightarrow> bool) \<Rightarrow> int \<Rightarrow> int \<Rightarrow> int \<Rightarrow> int \<Rightarrow> (string \<times> 'v event) list \<Rightarrow> 'v event list" where
  "page_loop P limit offset taken skipped [] = []"
| "page_loop P limit offset taken skipped ((k, e) # es) =
     (if P e then
        if skipped < offset then page_loop P limit offset taken (skipped + 1) es
        else if limit > 0 \<and> taken \<ge> limit then []
        else e # page_loop P limit offset (taken + 1) skipped es
      else page_loop P limit offset taken skipped es)"

definition ms_query :: "('v event \<Rightarrow> bool) \<Rightarrow> int \<Rightarrow> int \<Rightarrow> 'v mem_store \<Rightarrow> (err + 'v event list) \<times> 'v mem_store" where
  "ms_query P limit offset s = (case ms_range s of (es, s') \<Rightarrow> (Inr (page_loop P limit offset 0 0 es), s'))"

(* src: app/common/patterns/event_persistence.go:119-142 MemoryEventStore.GetEventsByType *)
definition ms_GetEventsByType :: "string \<Rightarrow> int \<Rightarrow> int \<Rightarrow> 'v mem_store \<Rightarrow> (err + 'v event list) \<times> 'v mem_store" where
  "ms_GetEventsByType t = ms_query (\<lambda>e. ev_Type e = t)"

(* src: app/common/patterns/event_persistence.go:145-168 MemoryEventStore.GetEventsBySource *)
definition ms_GetEventsBySource :: "string \<Rightarrow> int \<Rightarrow> int \<Rightarrow> 'v mem_store \<Rightarrow> (err + 'v event list) \<times> 'v mem_store" where
  "ms_GetEventsBySource src = ms_query (\<lambda>e. ev_Source e = src)"

definition in_range :: "gotime \<Rightarrow> gotime \<Rightarrow> 'v event \<Rightarrow> bool" where
  "in_range from till e \<longleftrightarrow> from < ev_Timestamp e \<and> ev_Timestamp e < till"

(* src: app/common/patterns/event_persistence.go:171-195 MemoryEventStore.GetEventsByTimeRange *)
definition ms_GetEventsByTimeRange ::
  "gotime \<Rightarrow> gotime \<Rightarrow> int \<Rightarrow> int \<Rightarrow> 'v mem_store \<Rightarrow> (err + 'v event list) \<times> 'v mem_store" where
  "ms_GetEventsByTimeRange from till = ms_query (in_range from till)"

(* src: app/common/patterns/event_persistence.go:198-203 MemoryEventStore.DeleteEvent *)
definition ms_DeleteEvent :: "string \<Rightarrow> 'v mem_store \<Rightarrow> err option \<times> 'v mem_store" where
  "ms_DeleteEvent i s = (None, s\<lparr> ms_events := AList.delete i (ms_events s) \<rparr>)"

text \<open>A loop that deletes the matching entries, in the order of the round.\<close>

definition ms_delete_where :: "('v event \<Rightarrow> bool) \<Rightarrow> 'v mem_store \<Rightarrow> err option \<times> 'v mem_store" where
  "ms_delete_where P s =
     (case ms_range s of (es, s') \<Rightarrow>
        (None, s'\<lparr> ms_events := fold (\<lambda>(k, e) al. if P e then AList.delete k al else al) es (ms_events s') \<rparr>))"

(* src: app/common/patterns/event_persistence.go:206-217 MemoryEventStore.DeleteEventsByType *)
definition ms_DeleteEventsByType :: "string \<Rightarrow> 'v mem_store \<Rightarrow> err option \<times> 'v mem_store" where
  "ms_DeleteEventsByType t = ms_delete_where (\<lambda>e. ev_Type e = t)"

(* src: app/common/patterns/event_persistence.go:220-231 MemoryEventStore.DeleteEventsBySource *)
definition ms_DeleteEventsBySource :: "string \<Rightarrow> 'v mem_store \<Rightarrow> err option \<times> 'v mem_store" where
  "ms_DeleteEventsBySource src = ms_delete_where (\<lambda>e. ev_Source e = src)"

(* src: app/common/patterns/event_persistence.go:234-246 MemoryEventStore.DeleteEventsByTimeRange *)
definition ms_DeleteEventsByTimeRange :: "gotime \<Rightarrow> gotime \<Rightarrow> 'v mem_store \<Rightarrow> err option \<times> 'v mem_store" where
  "ms_DeleteEventsByTimeRange from till = ms_delete_where (in_range from till)"

definition memory_event_store :: "('v, 'v mem_store) event_store_ops" where
  "memory_event_store = \<lparr> es_SaveEvent = ms_SaveEvent, es_GetEvent = ms_GetEvent, es_GetEventsByType = ms_GetEventsByType,
     es_GetEventsBySource = ms_GetEventsBySource, es_GetEventsByTimeRange = ms_GetEventsByTimeRange, es_DeleteEvent = ms_DeleteEvent,
     es_DeleteEventsByType = ms_DeleteEventsByType, es_DeleteEventsBySource = ms_DeleteEventsBySource,
     es_DeleteEventsByTimeRange = ms_DeleteEventsByTimeRange \<rparr>"

subsection \<open>Snapshots\<close>

(* src: app/common/patterns/event_persistence.go:363-371 EventSnapshot *)
record event_snapshot =
  sn_ID :: string
  sn_EventType :: string
  sn_Source :: string
  sn_Timestamp :: gotime
  sn_Data :: string
  sn_Metadata :: string
  sn_CreatedAt :: gotime

record 'v json_lib =
  js_Marshal :: "(string \<rightharpoonup> 'v) \<Rightarrow> err + string"
  js_Unmarshal :: "string \<Rightarrow> err + (string \<rightharpoonup> 'v)"

(* src: app/common/patterns/event_persistence.go:374-377 EventSnapshotStore *)
type_synonym snapshot_store = "string \<rightharpoonup> event_snapshot"

(* src: app/common/patterns/event_persistence.go:380-384 NewEventSnapshotStore *)
definition NewEventSnapshotStore :: snapshot_store where
  "NewEventSnapshotStore = Map.empty"

(* src: app/common/patterns/event_persistence.go:387-413 EventSnapshotStore.CreateSnapshot *)
definition CreateSnapshot ::
  "'v json_lib \<Rightarrow> gotime \<Rightarrow> 'v event \<Rightarrow> snapshot_store \<Rightarrow> (err + event_snapshot) \<times> snapshot_store" where
  "CreateSnapshot J now e st =
     (case js_Marshal J (ev_Data e) of
        Inl er \<Rightarrow> (Inl (''failed to marshal event data: '' @ er), st)
      | Inr data \<Rightarrow>
          (case js_Marshal J (ev_Metadata e) of
             Inl er \<Rightarrow> (Inl (''failed to marshal event metadata: '' @ er), st)
           | Inr metadata \<Rightarrow>
               let snapshot = \<lparr> sn_ID = ev_ID e, sn_EventType = ev_Type e, sn_Source = ev_Source e, sn_Timestamp = ev_Timestamp e,
                     sn_Data = data, sn_Metadata = metadata, sn_CreatedAt = now \<rparr>
               in (Inr snapshot, st(ev_ID e \<mapsto> snapshot))))"

(* src: app/common/patterns/event_persistence.go:416-426 EventSnapshotStore.GetSnapshot *)
definition GetSnapshot :: "string \<Rightarrow> snapshot_store \<Rightarrow> err + event_snapshot" where
  "GetSnapshot i st = (case st i of None \<Rightarrow> Inl (''snapshot not found: '' @ i) | Some sn \<Rightarrow> Inr sn)"

(* src: app/common/patterns/event_persistence.go:429-450 EventSnapshotStore.RestoreEvent *)
definition RestoreEvent :: "'v json_lib \<Rightarrow> event_snapshot \<Rightarrow> err + 'v event" where
  "RestoreEvent J sn =
     (case js_Unmarshal J (sn_Data sn) of
        Inl er \<Rightarrow> Inl (''failed to unmarshal event data: '' @ er)
      | Inr data \<Rightarrow>
          (case js_Unmarshal J (sn_Metadata sn) of
             Inl er \<Rightarrow> Inl (''failed to unmarshal event metadata: '' @ er)
           | Inr metadata \<Rightarrow>
               Inr \<lparr> ev_ID = sn_ID sn, ev_Type = sn_EventType sn, ev_Source = sn_Source sn, ev_Timestamp = sn_Timestamp sn,
                     ev_Data = data, ev_Metadata = metadata \<rparr>))"

subsection \<open>Archive\<close>

fun save_each :: "('v, 'w) event_store_ops \<Rightarrow> string \<Rightarrow> 'v event list \<Rightarrow> 'w \<Rightarrow> err option \<times> 'w" where
  "save_each S what [] w = (None, w)"
| "save_each S what (e # es) w =
     (case es_SaveEvent S e w of
        (Some er, w') \<Rightarrow> (Some (''failed to '' @ what @ '' event '' @ ev_ID e @ '': '' @ er), w')
      | (None, w') \<Rightarrow> save_each S what es w')"

text \<open>
  The days of retention are days of 24 hours, as in a time zone without summer time. The manager is its two stores and the
  number of days.
\<close>

(* src: app/common/patterns/event_persistence.go:470-492 EventArchiveManager.ArchiveOldEvents *)
definition ArchiveOldEvents ::
  "('v, 'w) event_store_ops \<Rightarrow> ('v, 'a) event_store_ops \<Rightarrow> int \<Rightarrow> gotime \<Rightarrow> 'w \<times> 'a \<Rightarrow> err option \<times> 'w \<times> 'a" where
  "ArchiveOldEvents S A retentionDays now wa =
     (let cutoffTime = now - retentionDays * (24 * hour)
      in case es_GetEventsByTimeRange S 0 cutoffTime 0 0 (fst wa) of
           (Inl er, w1) \<Rightarrow> (Some (''failed to get old events: '' @ er), w1, snd wa)
         | (Inr events, w1) \<Rightarrow>
             (case save_each A ''archive'' events (snd wa) of
                (Some er, a1) \<Rightarrow> (Some er, w1, a1)
              | (None, a1) \<Rightarrow>
                  (case es_DeleteEventsByTimeRange S 0 cutoffTime w1 of
                     (Some er, w2) \<Rightarrow> (Some (''failed to delete archived events: '' @ er), w2, a1)
                   | (None, w2) \<Rightarrow> (None, w2, a1))))"

(* src: app/common/patterns/event_persistence.go:495-509 EventArchiveManager.RestoreFromArchive *)
definition RestoreFromArchive ::
  "('v, 'w) event_store_ops \<Rightarrow> ('v, 'a) event_store_ops \<Rightarrow> string \<Rightarrow> int \<Rightarrow> 'w \<times> 'a \<Rightarrow> err option \<times> 'w \<times> 'a" where
  "RestoreFromArchive S A eventType limit wa =
     (case es_GetEventsByType A eventType limit 0 (snd wa) of
        (Inl er, a1) \<Rightarrow> (Some (''failed to get archived events: '' @ er), fst wa, a1)
      | (Inr events, a1) \<Rightarrow> (case save_each S ''restore'' events (fst wa) of (er, w1) \<Rightarrow> (er, w1, a1)))"

section \<open>Properties\<close>

subsection \<open>The contract of a store\<close>

locale event_store =
  fixes S :: "('v, 'w) event_store_ops" and contents :: "'w \<Rightarrow> string \<Rightarrow> 'v event option" and ok :: "'w \<Rightarrow> bool"
  assumes keyed: "ok w \<Longrightarrow> contents w k = Some e \<Longrightarrow> ev_ID e = k"
    and save: "ok w \<Longrightarrow> fst (es_SaveEvent S e w) = None" "ok w \<Longrightarrow> ok (snd (es_SaveEvent S e w))"
      "ok w \<Longrightarrow> contents (snd (es_SaveEvent S e w)) = (contents w)(ev_ID e \<mapsto> e)"
    and by_time: "ok w \<Longrightarrow> \<exists>es. fst (es_GetEventsByTimeRange S a b 0 0 w) = Inr es \<and> set es = {e \<in> ran (contents w). in_range a b e}"
      "ok w \<Longrightarrow> ok (snd (es_GetEventsByTimeRange S a b l i w))"
      "ok w \<Longrightarrow> contents (snd (es_GetEventsByTimeRange S a b l i w)) = contents w"
    and by_type: "ok w \<Longrightarrow> \<exists>es. fst (es_GetEventsByType S t 0 0 w) = Inr es \<and> set es = {e \<in> ran (contents w). ev_Type e = t}"
      "ok w \<Longrightarrow> ok (snd (es_GetEventsByType S t l i w))"
      "ok w \<Longrightarrow> contents (snd (es_GetEventsByType S t l i w)) = contents w"
    and delete_time: "ok w \<Longrightarrow> fst (es_DeleteEventsByTimeRange S a b w) = None" "ok w \<Longrightarrow> ok (snd (es_DeleteEventsByTimeRange S a b w))"
      "ok w \<Longrightarrow> contents (snd (es_DeleteEventsByTimeRange S a b w)) k
        = (case contents w k of None \<Rightarrow> None | Some e \<Rightarrow> if in_range a b e then None else Some e)"
begin

text \<open>Events that come out of a store have different identifiers.\<close>

definition agree :: "'v event list \<Rightarrow> bool" where
  "agree es \<longleftrightarrow> (\<forall>e \<in> set es. \<forall>e' \<in> set es. ev_ID e = ev_ID e' \<longrightarrow> e = e')"

lemma save_each_ok:
  "ok w \<Longrightarrow> fst (save_each S what es w) = None \<and> ok (snd (save_each S what es w))"
proof (induction es arbitrary: w)
  case (Cons e es)
  then show ?case using save(1,2) [OF Cons.prems, of e] by (cases "es_SaveEvent S e w") simp
qed simp

lemma save_each_keep:
  "ok w \<Longrightarrow> k \<notin> ev_ID ` set es \<Longrightarrow> contents (snd (save_each S what es w)) k = contents w k"
proof (induction es arbitrary: w)
  case (Cons e es)
  then show ?case using save [OF Cons.prems(1), of e] by (cases "es_SaveEvent S e w") simp
qed simp

lemma save_each_put:
  "ok w \<Longrightarrow> d \<in> set es \<Longrightarrow> agree es \<Longrightarrow> contents (snd (save_each S what es w)) (ev_ID d) = Some d"
proof (induction es arbitrary: w)
  case (Cons e es)
  obtain w' where w': "es_SaveEvent S e w = (None, w')" "ok w'" "contents w' = (contents w)(ev_ID e \<mapsto> e)"
    using save [OF Cons.prems(1), of e] by (cases "es_SaveEvent S e w") simp
  have "agree es" using Cons.prems(3) by (simp add: agree_def)
  show ?case
  proof (cases "d \<in> set es")
    case True
    with Cons.IH [OF w'(2) True \<open>agree es\<close>] w'(1) show ?thesis by simp
  next
    case False
    with Cons.prems have "d = e" "ev_ID d \<notin> ev_ID ` set es" by (auto simp: agree_def)
    with save_each_keep [OF w'(2), of "ev_ID d" es] w' show ?thesis by simp
  qed
qed simp

text \<open>What comes out of one store, saved in another.\<close>

lemma save_from:
  assumes "ok w" and keyed': "\<And>k e. c k = Some e \<Longrightarrow> ev_ID e = k" and es: "set es = {e \<in> ran c. P e}"
  shows "contents (snd (save_each S what es w)) k
    = (case c k of Some e \<Rightarrow> if P e then Some e else contents w k | None \<Rightarrow> contents w k)"
proof -
  have iff: "e \<in> set es \<longleftrightarrow> c (ev_ID e) = Some e \<and> P e" for e using es keyed' by (auto simp: ran_def)
  then have "agree es" by (auto simp: agree_def)
  show ?thesis
  proof (cases "k \<in> ev_ID ` set es")
    case True
    then obtain e where "e \<in> set es" "k = ev_ID e" by blast
    then show ?thesis using save_each_put [OF assms(1) _ \<open>agree es\<close>] iff by simp
  next
    case False
    have "\<not> P e" if "c k = Some e" for e using that False iff [of e] keyed' [OF that] by auto
    then show ?thesis using save_each_keep [OF assms(1) False] by (simp split: option.split)
  qed
qed

end

locale event_archive = src: event_store S cs oks + dst: event_store A ca oka
  for S :: "('v, 'w) event_store_ops" and cs oks and A :: "('v, 'a) event_store_ops" and ca oka
begin

lemma archive:
  fixes days :: int and now :: gotime
  assumes w: "oks w" and a: "oka a"
  defines "r \<equiv> ArchiveOldEvents S A days now (w, a)" and "old \<equiv> in_range 0 (now - days * (24 * hour))"
  shows "fst r = None" "oks (fst (snd r))" "oka (snd (snd r))"
    "cs (fst (snd r)) k = (case cs w k of Some e \<Rightarrow> if old e then None else Some e | None \<Rightarrow> None)"
    "ca (snd (snd r)) k = (case cs w k of Some e \<Rightarrow> if old e then Some e else ca a k | None \<Rightarrow> ca a k)"
proof -
  let ?c = "now - days * (24 * hour)"
  obtain es w1 where g: "es_GetEventsByTimeRange S 0 ?c 0 0 w = (Inr es, w1)" "set es = {e \<in> ran (cs w). old e}"
    using src.by_time(1) [OF w, of 0 ?c] by (cases "es_GetEventsByTimeRange S 0 ?c 0 0 w") (auto simp: old_def)
  have w1: "oks w1" "cs w1 = cs w" using src.by_time(2,3) [OF w, of 0 ?c 0 0] g(1) by simp_all
  obtain a1 where s: "save_each A ''archive'' es a = (None, a1)" "oka a1"
    using dst.save_each_ok [OF a, of "''archive''" es] by (cases "save_each A ''archive'' es a") simp
  have a1: "ca a1 k = (case cs w k of Some e \<Rightarrow> if old e then Some e else ca a k | None \<Rightarrow> ca a k)"
    using dst.save_from [OF a _ g(2), of "''archive''" k] src.keyed [OF w] s(1) by simp
  obtain w2 where d: "es_DeleteEventsByTimeRange S 0 ?c w1 = (None, w2)" "oks w2"
    using src.delete_time(1,2) [OF w1(1), of 0 ?c] by (cases "es_DeleteEventsByTimeRange S 0 ?c w1") simp
  have w2: "cs w2 k = (case cs w k of Some e \<Rightarrow> if old e then None else Some e | None \<Rightarrow> None)"
    using src.delete_time(3) [OF w1(1), of 0 ?c k] d(1) w1(2) by (simp add: old_def cong: option.case_cong split: option.split)
  have "r = (None, w2, a1)" by (simp add: r_def ArchiveOldEvents_def Let_def g(1) s(1) d(1))
  with d(2) s(2) w2 a1 show "fst r = None" "oks (fst (snd r))" "oka (snd (snd r))"
    "cs (fst (snd r)) k = (case cs w k of Some e \<Rightarrow> if old e then None else Some e | None \<Rightarrow> None)"
    "ca (snd (snd r)) k = (case cs w k of Some e \<Rightarrow> if old e then Some e else ca a k | None \<Rightarrow> ca a k)"
    by simp_all
qed

lemma restore:
  fixes t :: string
  assumes w: "oks w" and a: "oka a"
  defines "r \<equiv> RestoreFromArchive S A t 0 (w, a)"
  shows "fst r = None" "ca (snd (snd r)) = ca a"
    "cs (fst (snd r)) k = (case ca a k of Some e \<Rightarrow> if ev_Type e = t then Some e else cs w k | None \<Rightarrow> cs w k)"
proof -
  obtain es a1 where g: "es_GetEventsByType A t 0 0 a = (Inr es, a1)" "set es = {e \<in> ran (ca a). ev_Type e = t}"
    using dst.by_type(1) [OF a, of t] by (cases "es_GetEventsByType A t 0 0 a") auto
  have a1: "ca a1 = ca a" using dst.by_type(3) [OF a, of t 0 0] g(1) by simp
  obtain w1 where s: "save_each S ''restore'' es w = (None, w1)"
    using src.save_each_ok [OF w, of "''restore''" es] by (cases "save_each S ''restore'' es w") simp
  have "cs w1 k = (case ca a k of Some e \<Rightarrow> if ev_Type e = t then Some e else cs w k | None \<Rightarrow> cs w k)"
    using src.save_from [OF w _ g(2), of "''restore''" k] dst.keyed [OF a] s by simp
  moreover have "r = (None, w1, a1)" by (simp add: r_def RestoreFromArchive_def g(1) s)
  ultimately show "fst r = None" "ca (snd (snd r)) = ca a"
    "cs (fst (snd r)) k = (case ca a k of Some e \<Rightarrow> if ev_Type e = t then Some e else cs w k | None \<Rightarrow> cs w k)"
    by (simp_all add: a1)
qed

end

subsection \<open>The store in memory keeps the contract\<close>

definition ms_contents :: "'v mem_store \<Rightarrow> string \<Rightarrow> 'v event option" where
  "ms_contents s = map_of (ms_events s)"

definition ms_ok :: "'v mem_store \<Rightarrow> bool" where
  "ms_ok s \<longleftrightarrow> distinct (map fst (ms_events s)) \<and> (\<forall>(k, e) \<in> set (ms_events s). ev_ID e = k) \<and> (\<forall>n. is_range_order (ms_orders s n))"

lemma page_loop_eq:
  "page_loop P limit offset taken skipped es
    = (let rest = drop (nat (offset - skipped)) (filter P (map snd es)) in if limit > 0 then take (nat (limit - taken)) rest else rest)"
proof (induction P limit offset taken skipped es rule: page_loop.induct)
  case (2 P limit offset taken skipped k e es)
  show ?case
  proof (cases "P e \<and> skipped < offset")
    case True
    then have "nat (offset - skipped) = Suc (nat (offset - (skipped + 1)))" by arith
    then show ?thesis using 2(1) True by (simp add: Let_def)
  next
    case False
    show ?thesis
    proof (cases "P e \<and> \<not> (limit > 0 \<and> taken \<ge> limit)")
      case True
      then have "limit > 0 \<Longrightarrow> nat (limit - taken) = Suc (nat (limit - (taken + 1)))" by arith
      then show ?thesis using 2(2) True False by (simp add: Let_def)
    next
      case skip: False
      then show ?thesis using 2(3) False by (auto simp: Let_def)
    qed
  qed
qed (simp add: Let_def)

lemma page_all: "page_loop P 0 0 0 0 es = filter P (map snd es)"
  by (simp add: page_loop_eq)

lemma delete_each:
  "map_of (fold (\<lambda>(k, e) al. if P e then AList.delete k al else al) es al) i
    = (if \<exists>e. (i, e) \<in> set es \<and> P e then None else map_of al i)"
  by (induction es arbitrary: al) (auto simp: delete_conv')

lemma delete_each_subset: "set (fold (\<lambda>(k, e) al. if P e then AList.delete k al else al) es al) \<subseteq> set al"
proof (induction es arbitrary: al)
  case (Cons ke es)
  have "set (AList.delete (fst ke) al) \<subseteq> set al" by (auto dest: in_alist_delete)
  with Cons [of "AList.delete (fst ke) al"] Cons [of al] show ?case by (auto simp: case_prod_beta)
qed simp

lemma delete_each_distinct:
  "distinct (map fst al) \<Longrightarrow> distinct (map fst (fold (\<lambda>(k, e) al. if P e then AList.delete k al else al) es al))"
  by (induction es arbitrary: al) (auto simp: distinct_delete)

lemma query_simps [simp]:
  "ms_contents (snd (ms_query P l i s)) = ms_contents s" "ms_ok (snd (ms_query P l i s)) = ms_ok s"
  by (simp_all add: ms_query_def ms_range_def ms_contents_def ms_ok_def)

lemma query_all:
  assumes "ms_ok s"
  shows "\<exists>es. fst (ms_query P 0 0 s) = Inr es \<and> set es = {e \<in> ran (ms_contents s). P e}"
proof -
  have "set (ms_orders s (ms_round s) (ms_events s)) = set (ms_events s)" using assms by (auto simp: ms_ok_def range_order_set)
  moreover have "ran (ms_contents s) = snd ` set (ms_events s)" using assms by (simp add: ms_contents_def ms_ok_def ran_distinct)
  ultimately show ?thesis by (auto simp: ms_query_def ms_range_def page_all)
qed

lemma delete_where_ok:
  assumes "ms_ok s"
  shows "ms_ok (snd (ms_delete_where P s))"
    "ms_contents (snd (ms_delete_where P s)) k = (case ms_contents s k of None \<Rightarrow> None | Some e \<Rightarrow> if P e then None else Some e)"
proof -
  have rng: "set (ms_orders s (ms_round s) (ms_events s)) = set (ms_events s)" using assms by (auto simp: ms_ok_def range_order_set)
  show "ms_ok (snd (ms_delete_where P s))"
    using assms delete_each_distinct delete_each_subset [of P "ms_orders s (ms_round s) (ms_events s)" "ms_events s"]
    by (auto simp: ms_ok_def ms_delete_where_def ms_range_def)
  have "(k, e) \<in> set (ms_events s) \<longleftrightarrow> ms_contents s k = Some e" for e
    using assms by (auto simp: ms_contents_def ms_ok_def)
  then show "ms_contents (snd (ms_delete_where P s)) k = (case ms_contents s k of None \<Rightarrow> None | Some e \<Rightarrow> if P e then None else Some e)"
    by (auto simp: ms_contents_def ms_delete_where_def ms_range_def delete_each rng split: option.split)
qed

lemma ms_save_ok: "ms_ok s \<Longrightarrow> ms_ok (snd (ms_SaveEvent e s))"
  by (auto simp: ms_ok_def ms_SaveEvent_def dest!: in_alist_update intro: distinct_update)

interpretation mem_events: event_store memory_event_store ms_contents ms_ok
proof unfold_locales
  fix s :: "'a mem_store" and k e
  assume "ms_ok s" "ms_contents s k = Some e"
  then show "ev_ID e = k" by (auto simp: ms_ok_def ms_contents_def dest: map_of_SomeD)
qed (auto simp: memory_event_store_def ms_GetEventsByTimeRange_def ms_GetEventsByType_def ms_DeleteEventsByTimeRange_def query_all
    delete_where_ok ms_save_ok, (simp_all add: ms_SaveEvent_def ms_contents_def update_conv' ms_delete_where_def ms_range_def)?)

interpretation mem_archive: event_archive memory_event_store ms_contents ms_ok memory_event_store ms_contents ms_ok
  by unfold_locales

subsection \<open>Archive\<close>

text \<open>A store as a program uses it: new, then any saves, deletions and queries.\<close>

datatype 'v store_op =
    OpSave "'v event"
  | OpDelete string
  | OpDeleteType string
  | OpDeleteSource string
  | OpDeleteTime gotime gotime
  | OpQueryType string int int
  | OpQuerySource string int int
  | OpQueryTime gotime gotime int int

fun store_step :: "'v store_op \<Rightarrow> 'v mem_store \<Rightarrow> 'v mem_store" where
  "store_step (OpSave e) s = snd (ms_SaveEvent e s)"
| "store_step (OpDelete i) s = snd (ms_DeleteEvent i s)"
| "store_step (OpDeleteType t) s = snd (ms_DeleteEventsByType t s)"
| "store_step (OpDeleteSource src) s = snd (ms_DeleteEventsBySource src s)"
| "store_step (OpDeleteTime a b) s = snd (ms_DeleteEventsByTimeRange a b s)"
| "store_step (OpQueryType t l i) s = snd (ms_GetEventsByType t l i s)"
| "store_step (OpQuerySource src l i) s = snd (ms_GetEventsBySource src l i s)"
| "store_step (OpQueryTime a b l i) s = snd (ms_GetEventsByTimeRange a b l i s)"

lemma store_step_ok: "ms_ok s \<Longrightarrow> ms_ok (store_step op s)"
proof (cases op)
  case (OpDelete i)
  assume "ms_ok s"
  with OpDelete show ?thesis by (auto simp: ms_DeleteEvent_def ms_ok_def distinct_delete dest!: in_alist_delete)
qed (simp_all add: ms_save_ok delete_where_ok ms_DeleteEventsByType_def ms_DeleteEventsBySource_def ms_DeleteEventsByTimeRange_def
    ms_GetEventsByType_def ms_GetEventsBySource_def ms_GetEventsByTimeRange_def)

lemma store_run_ok:
  assumes "\<And>n. is_range_order (orders n)"
  shows "ms_ok (fold store_step ops (NewMemoryEventStore orders))"
proof -
  have "ms_ok s \<Longrightarrow> ms_ok (fold store_step ops s)" for s
    by (induction ops arbitrary: s) (simp_all add: store_step_ok)
  moreover have "ms_ok (NewMemoryEventStore orders)" using assms by (simp add: ms_ok_def NewMemoryEventStore_def)
  ultimately show ?thesis by blast
qed

definition lookup :: "'v mem_store \<Rightarrow> string \<Rightarrow> 'v event option" where
  "lookup s i = (case fst (ms_GetEvent i s) of Inl _ \<Rightarrow> None | Inr e \<Rightarrow> Some e)"

lemma lookup_eq: "lookup s i = ms_contents s i"
  by (simp add: lookup_def ms_GetEvent_def ms_contents_def split: option.split)

text \<open>
  C24. Archiving loses no event: it succeeds, and every event of the store is afterwards found unchanged in the archive when it is
  older than the retention, and in the store otherwise, in whatever order the loops visit the map. Events with the zero time are
  never old.
\<close>

theorem archive_loses_nothing:
  assumes "\<And>n. is_range_order (o1 n)" and "\<And>n. is_range_order (o2 n)"
    and "s = fold store_step ops1 (NewMemoryEventStore o1)" and "a = fold store_step ops2 (NewMemoryEventStore o2)"
    and "ArchiveOldEvents memory_event_store memory_event_store days now (s, a) = (res, s', a')" and "lookup s i = Some e"
  shows "res = None \<and> (if 0 < ev_Timestamp e \<and> ev_Timestamp e < now - days * (24 * hour)
      then lookup s' i = None \<and> lookup a' i = Some e else lookup s' i = Some e \<and> lookup a' i = lookup a i)"
proof -
  have ok: "ms_ok s" "ms_ok a" using assms(1-4) by (simp_all add: store_run_ok)
  from mem_archive.archive(1) [OF ok, where days = days and now = now]
    mem_archive.archive(4,5) [OF ok, where days = days and now = now and k = i] assms(5,6)
  show ?thesis by (simp add: lookup_eq in_range_def)
qed

text \<open>
  What was archived comes back: after an archive and a restore of a type, every event of that type is in the store as it was
  before.
\<close>

theorem archive_restore_roundtrip:
  assumes "\<And>n. is_range_order (o1 n)" and "\<And>n. is_range_order (o2 n)"
    and "s = fold store_step ops1 (NewMemoryEventStore o1)" and "a = fold store_step ops2 (NewMemoryEventStore o2)"
    and "ArchiveOldEvents memory_event_store memory_event_store days now (s, a) = (None, s1, a1)"
    and "RestoreFromArchive memory_event_store memory_event_store t 0 (s1, a1) = (res, s2, a2)"
    and "lookup s i = Some e" and "ev_Type e = t" and "lookup a i = None"
  shows "res = None \<and> lookup s2 i = Some e"
proof -
  have ok: "ms_ok s" "ms_ok a" using assms(1-4) by (simp_all add: store_run_ok)
  have "ms_ok s1" "ms_ok a1" using mem_archive.archive(2,3) [OF ok, where days = days and now = now] assms(5) by simp_all
  note restored = mem_archive.restore(1) [OF this, where t = t] mem_archive.restore(3) [OF this, where t = t and k = i]
  from restored mem_archive.archive(4,5) [OF ok, where days = days and now = now and k = i] assms(5-9)
  show ?thesis by (auto simp: lookup_eq split: if_splits option.splits)
qed

definition old_event :: "unit event" where
  "old_event = NewBaseEvent (5 * hour) ''e1'' ''user'' ''app'' Map.empty"

definition new_event :: "unit event" where
  "new_event = NewBaseEvent (100 * hour) ''e2'' ''user'' ''app'' Map.empty"

definition sample_events :: "unit mem_store" where
  "sample_events = fold store_step [OpSave old_event, OpSave new_event] (NewMemoryEventStore (\<lambda>n. rev))"

definition empty_archive :: "unit mem_store" where
  "empty_archive = fold store_step [] (NewMemoryEventStore (\<lambda>n xs. xs))"

lemma sample_events_lookup:
  "lookup sample_events ''e1'' = Some old_event" "lookup sample_events ''e2'' = Some new_event" "lookup empty_archive i = None"
  by (simp_all add: lookup_eq ms_contents_def sample_events_def empty_archive_def NewMemoryEventStore_def ms_SaveEvent_def old_event_def
      new_event_def NewBaseEvent_def)

theorem archive_loses_nothing_witness:
  "\<exists>s' a'. ArchiveOldEvents memory_event_store memory_event_store 1 (100 * hour) (sample_events, empty_archive) = (None, s', a')
    \<and> lookup s' ''e1'' = None \<and> lookup a' ''e1'' = Some old_event \<and> lookup s' ''e2'' = Some new_event"
proof -
  obtain res s' a' where r: "ArchiveOldEvents memory_event_store memory_event_store 1 (100 * hour) (sample_events, empty_archive) = (res, s', a')"
    by (cases "ArchiveOldEvents memory_event_store memory_event_store 1 (100 * hour) (sample_events, empty_archive)") auto
  note arch = archive_loses_nothing [OF range_order_rev range_order_id sample_events_def empty_archive_def r]
  from arch [OF sample_events_lookup(1)] arch [OF sample_events_lookup(2)] r show ?thesis
    by (simp add: old_event_def new_event_def NewBaseEvent_def)
qed

theorem archive_restore_roundtrip_witness:
  "\<exists>s1 a1 s2 a2. ArchiveOldEvents memory_event_store memory_event_store 1 (100 * hour) (sample_events, empty_archive) = (None, s1, a1)
    \<and> RestoreFromArchive memory_event_store memory_event_store ''user'' 0 (s1, a1) = (None, s2, a2) \<and> lookup s2 ''e1'' = Some old_event"
proof -
  obtain s1 a1 where r: "ArchiveOldEvents memory_event_store memory_event_store 1 (100 * hour) (sample_events, empty_archive) = (None, s1, a1)"
    using archive_loses_nothing_witness by blast
  obtain res s2 a2 where q: "RestoreFromArchive memory_event_store memory_event_store ''user'' 0 (s1, a1) = (res, s2, a2)"
    by (cases "RestoreFromArchive memory_event_store memory_event_store ''user'' 0 (s1, a1)") auto
  have "ev_Type old_event = ''user''" by (simp add: old_event_def NewBaseEvent_def)
  from archive_restore_roundtrip [OF range_order_rev range_order_id sample_events_def empty_archive_def r q sample_events_lookup(1) this
      sample_events_lookup(3)] r q show ?thesis by blast
qed

subsection \<open>Pages\<close>

text \<open>
  Two pages cover a query when the map is visited in one order, but each call visits it in its own: the second page can repeat
  the first, and an event be on none.
\<close>

lemma pages_cover:
  "0 < n \<Longrightarrow> ms_range s = (es, s') \<Longrightarrow>
   page_loop P n 0 0 0 es @ page_loop P 0 n 0 0 es = page_loop P 0 0 0 0 es"
  by (simp add: page_loop_eq)

theorem pages_can_repeat:
  assumes "lookup s i = Some e1" and "lookup s j = Some e2" and "e1 \<noteq> e2" and "ms_events s = [(i, e1), (j, e2)]"
    and "ev_Type e1 = t" and "ev_Type e2 = t"
  shows "\<exists>orders. is_range_order (orders 0) \<and> is_range_order (orders 1)
    \<and> (case ms_GetEventsByType t 1 0 (s\<lparr> ms_orders := orders, ms_round := 0 \<rparr>) of (page1, s1) \<Rightarrow>
        page1 = Inr [e1] \<and> fst (ms_GetEventsByType t 1 1 s1) = Inr [e1])"
proof -
  let ?orders = "\<lambda>n::nat. if n = 0 then (\<lambda>xs. xs) else rev"
  have "case ms_GetEventsByType t 1 0 (s\<lparr> ms_orders := ?orders, ms_round := 0 \<rparr>) of (page1, s1) \<Rightarrow>
      page1 = Inr [e1] \<and> fst (ms_GetEventsByType t 1 1 s1) = Inr [e1]"
    using assms by (simp add: ms_GetEventsByType_def ms_query_def ms_range_def)
  then show ?thesis by (intro exI [of _ ?orders]) simp
qed

subsection \<open>Snapshots\<close>

text \<open>A snapshot restores its event, when the JSON form of its data can be read back.\<close>

lemma snapshot_roundtrip:
  assumes "\<And>m d. js_Marshal J m = Inr d \<Longrightarrow> js_Unmarshal J d = Inr m" and "CreateSnapshot J now e st = (Inr sn, st')"
  shows "GetSnapshot (ev_ID e) st' = Inr sn \<and> RestoreEvent J sn = Inr e"
  using assms(2) by (auto simp: CreateSnapshot_def GetSnapshot_def RestoreEvent_def Let_def assms(1) split: sum.splits)

end
