(* ===== verification/Exchange_Sort.thy ===== *)
theory Exchange_Sort
  imports Prelude
begin

text \<open>
  The double loop that the load balancer and the error recovery manager both use to sort:
  \<^verbatim>\<open>for i { for j > i { if xs[i] > xs[j] { swap } } }\<close>. Iteration \<open>i\<close> only touches position \<open>i\<close> and
  the positions after it, so the loop is read on the suffix that starts at \<open>i\<close>: the inner loop
  carries the element at position \<open>i\<close> along and leaves the larger of each pair behind.
\<close>

fun exchange_inner :: "('a \<Rightarrow> 'k::linorder) \<Rightarrow> 'a \<Rightarrow> 'a list \<Rightarrow> 'a \<times> 'a list" where
  "exchange_inner key x [] = (x, [])"
| "exchange_inner key x (y # ys) =
     (if key x > key y then (case exchange_inner key y ys of (m, r) \<Rightarrow> (m, x # r))
      else (case exchange_inner key x ys of (m, r) \<Rightarrow> (m, y # r)))"

lemma exchange_inner_length: "exchange_inner key x ys = (m, r) \<Longrightarrow> length r = length ys"
  by (induction key x ys arbitrary: m r rule: exchange_inner.induct) (auto split: if_splits prod.splits)

function exchange_sort :: "('a \<Rightarrow> 'k::linorder) \<Rightarrow> 'a list \<Rightarrow> 'a list" where
  "exchange_sort key [] = []"
| "exchange_sort key (x # xs) =
     (case exchange_inner key x xs of (m, r) \<Rightarrow> m # exchange_sort key r)"
  by pat_completeness auto
termination
  by (relation "measure (\<lambda>(key, xs). length xs)") (auto dest: exchange_inner_length [OF sym])

lemma exchange_inner_mset: "exchange_inner key x ys = (m, r) \<Longrightarrow> add_mset m (mset r) = add_mset x (mset ys)"
proof (induction key x ys arbitrary: m r rule: exchange_inner.induct)
  case (2 key x y ys)
  show ?case
  proof (cases "key x > key y")
    case True
    with "2.prems" obtain r' where r: "exchange_inner key y ys = (m, r')" "r = x # r'"
      by (auto split: prod.splits)
    then show ?thesis using "2.IH"(1) [OF True r(1)] by (simp add: add_mset_commute)
  next
    case False
    with "2.prems" obtain r' where r: "exchange_inner key x ys = (m, r')" "r = y # r'"
      by (auto split: prod.splits)
    then show ?thesis using "2.IH"(2) [OF False r(1)] by (metis add_mset_commute mset.simps(2))
  qed
qed simp

lemma exchange_inner_min:
  "exchange_inner key x ys = (m, r) \<Longrightarrow> key m \<le> key x \<and> (\<forall>y \<in> set r. key m \<le> key y)"
proof (induction key x ys arbitrary: m r rule: exchange_inner.induct)
  case (2 key x y ys)
  show ?case
  proof (cases "key x > key y")
    case True
    with "2.prems" obtain r' where r: "exchange_inner key y ys = (m, r')" "r = x # r'"
      by (auto split: prod.splits)
    with "2.IH"(1) [OF True r(1)] True show ?thesis by auto
  next
    case False
    with "2.prems" obtain r' where r: "exchange_inner key x ys = (m, r')" "r = y # r'"
      by (auto split: prod.splits)
    with "2.IH"(2) [OF False r(1)] False show ?thesis by auto
  qed
qed simp

theorem mset_exchange_sort: "mset (exchange_sort key xs) = mset xs"
proof (induction key xs rule: exchange_sort.induct)
  case (2 key x xs)
  obtain m r where r: "exchange_inner key x xs = (m, r)" by fastforce
  with 2 [OF r [symmetric]] exchange_inner_mset [OF r] show ?case by simp
qed simp

theorem sorted_exchange_sort: "sorted (map key (exchange_sort key xs))"
proof (induction key xs rule: exchange_sort.induct)
  case (2 key x xs)
  obtain m r where r: "exchange_inner key x xs = (m, r)" by fastforce
  have "set (exchange_sort key r) = set r" by (metis mset_exchange_sort set_mset_mset)
  with 2 [OF r [symmetric]] exchange_inner_min [OF r] r show ?case by simp
qed simp

lemma set_exchange_sort [simp]: "set (exchange_sort key xs) = set xs"
  by (metis mset_exchange_sort set_mset_mset)

end
