(* ===== verification/Event_Bus.thy ===== *)
theory Event_Bus
  imports Event_Store Exchange_Sort
begin

text \<open>
  The event bus of \<^verbatim>\<open>src/app/common/patterns/observer.go\<close> with its filters, priorities and counters, the subscribers with a queue, and
  the bus that stores its events and replays them, of \<^verbatim>\<open>event_persistence.go\<close>.

  A subscriber acts on the outside, \<open>'w\<close>. \<^verbatim>\<open>Subscriber\<close> and \<^verbatim>\<open>ObserverError\<close> are used but nowhere declared in the repository; an
  \<open>observer_error\<close> holds the two fields the code sets. \<^verbatim>\<open>Publish\<close> reads the slices of subscribers and filters under the lock and
  uses them after it has released it: it is a reading and a delivery here.
\<close>

section \<open>Model\<close>

datatype observer_error = ObserverError string "err list"

record ('v, 'w) subscriber =
  su_ID :: string
  su_Priority :: int
  su_Update :: "'v event \<Rightarrow> 'w \<Rightarrow> err option \<times> 'w"

(* src: app/common/patterns/observer.go:20-23 EventFilter *)
record 'v event_filter =
  ef_Name :: string
  ef_Filter :: "'v event \<Rightarrow> bool"

(* src: app/common/patterns/observer.go:41-49 EventBusMetrics *)
record bus_metrics =
  bm_EventsPublished :: int
  bm_EventsFiltered :: int
  bm_EventsDelivered :: int
  bm_EventsFailed :: int
  bm_SubscribersCount :: int
  bm_FilterCount :: int

text \<open>The priority manager of a bus is always the default one, which is its map.\<close>

(* src: app/common/patterns/observer.go:32-38 EnhancedEventBus *)
record ('v, 'w) event_bus =
  eb_subscribers :: "(string \<times> ('v, 'w) subscriber list) list"
  eb_filters :: "(string \<times> 'v event_filter list) list"
  eb_priority :: "string \<rightharpoonup> int"
  eb_metrics :: bus_metrics

(* src: app/common/patterns/observer.go:52-59 NewEnhancedEventBus *)
definition NewEnhancedEventBus :: "('v, 'w) event_bus" where
  "NewEnhancedEventBus =
     \<lparr> eb_subscribers = [], eb_filters = [], eb_priority = Map.empty,
       eb_metrics = \<lparr> bm_EventsPublished = 0, bm_EventsFiltered = 0, bm_EventsDelivered = 0, bm_EventsFailed = 0, bm_SubscribersCount = 0,
         bm_FilterCount = 0 \<rparr> \<rparr>"

definition at_key :: "(string \<times> 'b list) list \<Rightarrow> string \<Rightarrow> 'b list" where
  "at_key al t = (case map_of al t of None \<Rightarrow> [] | Some xs \<Rightarrow> xs)"

(* src: app/common/patterns/observer.go:62-81 EnhancedEventBus.Subscribe *)
definition eb_Subscribe :: "string \<Rightarrow> ('v, 'w) subscriber \<Rightarrow> ('v, 'w) event_bus \<Rightarrow> observer_error option \<times> ('v, 'w) event_bus" where
  "eb_Subscribe t s b =
     (if list_ex (\<lambda>x. su_ID x = su_ID s) (at_key (eb_subscribers b) t)
        then (Some (ObserverError (''subscriber already exists: '' @ su_ID s) []), b)
      else (None, b\<lparr> eb_subscribers := AList.update t (at_key (eb_subscribers b) t @ [s]) (eb_subscribers b),
                     eb_metrics := (eb_metrics b)\<lparr> bm_SubscribersCount := bm_SubscribersCount (eb_metrics b) + 1 \<rparr> \<rparr>))"

(* src: app/common/patterns/observer.go:84-103 EnhancedEventBus.Unsubscribe *)
definition eb_Unsubscribe :: "string \<Rightarrow> string \<Rightarrow> ('v, 'w) event_bus \<Rightarrow> observer_error option \<times> ('v, 'w) event_bus" where
  "eb_Unsubscribe t i b =
     (if list_ex (\<lambda>x. su_ID x = i) (at_key (eb_subscribers b) t)
        then (None, b\<lparr> eb_subscribers := AList.update t (del_first (\<lambda>x. su_ID x = i) (at_key (eb_subscribers b) t)) (eb_subscribers b),
                       eb_metrics := (eb_metrics b)\<lparr> bm_SubscribersCount := bm_SubscribersCount (eb_metrics b) - 1 \<rparr> \<rparr>)
      else (Some (ObserverError (''subscriber not found: '' @ i) []), b))"

(* src: app/common/patterns/observer.go:154-164 EnhancedEventBus.AddFilter *)
definition eb_AddFilter :: "string \<Rightarrow> 'v event_filter \<Rightarrow> ('v, 'w) event_bus \<Rightarrow> ('v, 'w) event_bus" where
  "eb_AddFilter t f b =
     b\<lparr> eb_filters := AList.update t (at_key (eb_filters b) t @ [f]) (eb_filters b),
        eb_metrics := (eb_metrics b)\<lparr> bm_FilterCount := bm_FilterCount (eb_metrics b) + 1 \<rparr> \<rparr>"

(* src: app/common/patterns/observer.go:167-184 EnhancedEventBus.RemoveFilter *)
definition eb_RemoveFilter :: "string \<Rightarrow> string \<Rightarrow> ('v, 'w) event_bus \<Rightarrow> ('v, 'w) event_bus" where
  "eb_RemoveFilter t n b =
     (if list_ex (\<lambda>f. ef_Name f = n) (at_key (eb_filters b) t)
        then b\<lparr> eb_filters := AList.update t (del_first (\<lambda>f. ef_Name f = n) (at_key (eb_filters b) t)) (eb_filters b),
                eb_metrics := (eb_metrics b)\<lparr> bm_FilterCount := bm_FilterCount (eb_metrics b) - 1 \<rparr> \<rparr>
      else b)"

(* src: app/common/patterns/observer.go:187-194 EnhancedEventBus.applyFilters *)
definition applyFilters :: "'v event \<Rightarrow> 'v event_filter list \<Rightarrow> bool" where
  "applyFilters e filters = list_all (\<lambda>f. ef_Filter f e) filters"

(* src: app/common/patterns/observer.go:243-252 DefaultPriorityManager.GetPriority *)
definition dpm_GetPriority :: "('v, 'w) subscriber \<Rightarrow> (string \<rightharpoonup> int) \<Rightarrow> int" where
  "dpm_GetPriority s priorities = (case priorities (su_ID s) of None \<Rightarrow> su_Priority s | Some p \<Rightarrow> p)"

(* src: app/common/patterns/observer.go:255-260 DefaultPriorityManager.SetPriority *)
definition dpm_SetPriority :: "('v, 'w) subscriber \<Rightarrow> int \<Rightarrow> (string \<rightharpoonup> int) \<Rightarrow> (string \<rightharpoonup> int)" where
  "dpm_SetPriority s p priorities = priorities(su_ID s \<mapsto> p)"

text \<open>The loop swaps two subscribers when the first has the smaller priority.\<close>

(* src: app/common/patterns/observer.go:197-211 EnhancedEventBus.sortSubscribersByPriority *)
definition sortSubscribersByPriority :: "(string \<rightharpoonup> int) \<Rightarrow> ('v, 'w) subscriber list \<Rightarrow> ('v, 'w) subscriber list" where
  "sortSubscribersByPriority priorities subs = exchange_sort (\<lambda>s. - dpm_GetPriority s priorities) subs"

(* src: app/common/patterns/observer.go:128-144 EnhancedEventBus.Publish (notification) *)
fun notify_all ::
  "'v event \<Rightarrow> ('v, 'w) subscriber list \<Rightarrow> err list \<Rightarrow> bus_metrics \<Rightarrow> 'w \<Rightarrow> err list \<times> bus_metrics \<times> 'w" where
  "notify_all e [] errors m w = (errors, m, w)"
| "notify_all e (s # ss) errors m w =
     (case su_Update s e w of
        (Some er, w') \<Rightarrow> notify_all e ss (errors @ [er]) (m\<lparr> bm_EventsFailed := bm_EventsFailed m + 1 \<rparr>) w'
      | (None, w') \<Rightarrow> notify_all e ss errors (m\<lparr> bm_EventsDelivered := bm_EventsDelivered m + 1 \<rparr>) w')"

text \<open>The delivery: with the subscribers and filters that the slices show when they are used.\<close>

(* src: app/common/patterns/observer.go:112-150 EnhancedEventBus.Publish (delivery) *)
definition publish_to ::
  "('v, 'w) subscriber list \<Rightarrow> 'v event_filter list \<Rightarrow> 'v event \<Rightarrow> ('v, 'w) event_bus \<Rightarrow> 'w
   \<Rightarrow> observer_error option \<times> ('v, 'w) event_bus \<times> 'w" where
  "publish_to subs filters e b w =
     (let m = (eb_metrics b)\<lparr> bm_EventsPublished := bm_EventsPublished (eb_metrics b) + 1 \<rparr>
      in if \<not> applyFilters e filters
           then (None, b\<lparr> eb_metrics := m\<lparr> bm_EventsFiltered := bm_EventsFiltered m + 1 \<rparr> \<rparr>, w)
         else case notify_all e (sortSubscribersByPriority (eb_priority b) subs) [] m w of
           (errors, m', w') \<Rightarrow>
             (if errors \<noteq> [] then Some (ObserverError ''some subscribers failed'' errors) else None, b\<lparr> eb_metrics := m' \<rparr>, w'))"

(* src: app/common/patterns/observer.go:106-151 EnhancedEventBus.Publish *)
definition eb_Publish ::
  "'v event \<Rightarrow> ('v, 'w) event_bus \<Rightarrow> 'w \<Rightarrow> observer_error option \<times> ('v, 'w) event_bus \<times> 'w" where
  "eb_Publish e b w = publish_to (at_key (eb_subscribers b) (ev_Type e)) (at_key (eb_filters b) (ev_Type e)) e b w"

text \<open>
  \<^verbatim>\<open>append(subscribers[:i], subscribers[i+1:]...)\<close> moves the rest of the slice within its array: whoever holds the old slice of the
  same length sees the last subscriber twice.
\<close>

(* src: app/common/patterns/observer.go:91-91 EnhancedEventBus.Unsubscribe (array) *)
definition old_slice_after :: "string \<Rightarrow> ('v, 'w) subscriber list \<Rightarrow> ('v, 'w) subscriber list" where
  "old_slice_after i subs = (if list_ex (\<lambda>x. su_ID x = i) subs then del_first (\<lambda>x. su_ID x = i) subs @ [List.last subs] else subs)"

(* src: app/common/patterns/observer.go:214-227 EnhancedEventBus.GetMetrics *)
definition eb_GetMetrics :: "('v, 'w) event_bus \<Rightarrow> bus_metrics" where
  "eb_GetMetrics b = eb_metrics b"

subsection \<open>Filters and subscribers\<close>

(* src: app/common/patterns/observer.go:294-303 NewTimeBasedFilter *)
definition NewTimeBasedFilter :: "string \<Rightarrow> gotime \<Rightarrow> gotime \<Rightarrow> 'v event_filter" where
  "NewTimeBasedFilter name startTime endTime = \<lparr> ef_Name = name, ef_Filter = in_range startTime endTime \<rparr>"

(* src: app/common/patterns/observer.go:312-325 NewSourceBasedFilter *)
definition NewSourceBasedFilter :: "string \<Rightarrow> string list \<Rightarrow> 'v event_filter" where
  "NewSourceBasedFilter name allowedSources = \<lparr> ef_Name = name, ef_Filter = \<lambda>e. list_ex (\<lambda>s. ev_Source e = s) allowedSources \<rparr>"

(* src: app/common/patterns/observer.go:334-339 NewPrioritySubscriber *)
definition NewPrioritySubscriber :: "('v, 'w) subscriber \<Rightarrow> int \<Rightarrow> ('v, 'w) subscriber" where
  "NewPrioritySubscriber s p = s\<lparr> su_Priority := p \<rparr>"

text \<open>
  A subscriber with a queue: the events waiting, and what its workers have handed on, with \<open>None\<close> for the nil event that a closed
  queue gives. An update does not block: among the cases that are ready one is taken, \<open>prefer_done\<close> says which; a send on a
  closed queue panics.
\<close>

(* src: app/common/patterns/observer.go:357-363 AsyncSubscriber *)
record 'v async_subscriber =
  as_size :: nat
  as_queue :: "'v event list"
  as_closed :: bool
  as_cancelled :: bool
  as_handed :: "'v event option list"

(* src: app/common/patterns/observer.go:366-383 NewAsyncSubscriber *)
definition NewAsyncSubscriber :: "nat \<Rightarrow> 'v async_subscriber" where
  "NewAsyncSubscriber queueSize = \<lparr> as_size = queueSize, as_queue = [], as_closed = False, as_cancelled = False, as_handed = [] \<rparr>"

datatype async_answer = Queued | ContextDone | QueueFull | SendPanic

(* src: app/common/patterns/observer.go:386-395 AsyncSubscriber.Update *)
definition as_Update :: "bool \<Rightarrow> bool \<Rightarrow> 'v event \<Rightarrow> 'v async_subscriber \<Rightarrow> async_answer \<times> 'v async_subscriber" where
  "as_Update ctx_done prefer_done e a =
     (let sendable = as_closed a \<or> length (as_queue a) < as_size a
      in if ctx_done \<and> (prefer_done \<or> \<not> sendable) then (ContextDone, a)
         else if as_closed a then (SendPanic, a)
         else if sendable then (Queued, a\<lparr> as_queue := as_queue a @ [e] \<rparr>)
         else (QueueFull, a))"

(* src: app/common/patterns/observer.go:420-423 AsyncSubscriber.Stop *)
definition as_Stop :: "'v async_subscriber \<Rightarrow> 'v async_subscriber" where
  "as_Stop a = a\<lparr> as_closed := True, as_cancelled := True \<rparr>"

text \<open>One round of a worker: it takes the next event, or the nil event of a closed queue that is empty, or ends.\<close>

(* src: app/common/patterns/observer.go:408-417 AsyncSubscriber.worker *)
inductive worker_round :: "'v async_subscriber \<Rightarrow> 'v async_subscriber \<Rightarrow> bool" where
  take: "as_queue a = e # q \<Longrightarrow> worker_round a (a\<lparr> as_queue := q, as_handed := as_handed a @ [Some e] \<rparr>)"
| take_nil: "as_queue a = [] \<Longrightarrow> as_closed a \<Longrightarrow> worker_round a (a\<lparr> as_handed := as_handed a @ [None] \<rparr>)"
| finish: "as_cancelled a \<Longrightarrow> worker_round a a"

subsection \<open>Buses by name\<close>

(* src: app/common/patterns/observer.go:426-429 EventBusManager *)
type_synonym ('v, 'w) bus_manager = "(string \<times> ('v, 'w) event_bus) list"

(* src: app/common/patterns/observer.go:439-450 EventBusManager.GetEventBus *)
definition GetEventBus :: "string \<Rightarrow> ('v, 'w) bus_manager \<Rightarrow> ('v, 'w) event_bus \<times> ('v, 'w) bus_manager" where
  "GetEventBus name m =
     (case map_of m name of
        Some b \<Rightarrow> (b, m) | None \<Rightarrow> (NewEnhancedEventBus, AList.update name NewEnhancedEventBus m))"

(* src: app/common/patterns/observer.go:453-458 EventBusManager.RemoveEventBus *)
definition RemoveEventBus :: "string \<Rightarrow> ('v, 'w) bus_manager \<Rightarrow> ('v, 'w) bus_manager" where
  "RemoveEventBus name m = AList.delete name m"

(* src: app/common/patterns/observer.go:461-471 EventBusManager.ListEventBuses *)
definition ListEventBuses :: "(string \<times> ('v, 'w) event_bus) range_order \<Rightarrow> ('v, 'w) bus_manager \<Rightarrow> string list" where
  "ListEventBuses order m = map fst (order m)"

(* src: app/common/patterns/observer.go:474-484 EventBusManager.GetGlobalMetrics *)
definition GetGlobalMetrics :: "('v, 'w) bus_manager \<Rightarrow> string \<rightharpoonup> bus_metrics" where
  "GetGlobalMetrics m = map_option eb_GetMetrics \<circ> map_of m"

subsection \<open>Stored events\<close>

text \<open>A bus over a store: the state is the bus, the store and the outside.\<close>

(* src: app/common/patterns/event_persistence.go:249-254 PersistentEventBus *)
record ('v, 'w, 's) persistent_bus =
  pb_bus :: "('v, 'w) event_bus"
  pb_persist :: bool
  pb_store :: 's

(* src: app/common/patterns/event_persistence.go:257-263 NewPersistentEventBus *)
definition NewPersistentEventBus :: "'s \<Rightarrow> ('v, 'w, 's) persistent_bus" where
  "NewPersistentEventBus store = \<lparr> pb_bus = NewEnhancedEventBus, pb_persist = True, pb_store = store \<rparr>"

(* src: app/common/patterns/event_persistence.go:266-270 PersistentEventBus.SetPersistence *)
definition SetPersistence :: "bool \<Rightarrow> ('v, 'w, 's) persistent_bus \<Rightarrow> ('v, 'w, 's) persistent_bus" where
  "SetPersistence persist p = p\<lparr> pb_persist := persist \<rparr>"

datatype publish_error = StoreError err | BusError observer_error | ReplayError string observer_error

(* src: app/common/patterns/event_persistence.go:273-283 PersistentEventBus.Publish *)
definition pb_Publish ::
  "('v, 's) event_store_ops \<Rightarrow> 'v event \<Rightarrow> ('v, 'w, 's) persistent_bus \<Rightarrow> 'w
   \<Rightarrow> publish_error option \<times> ('v, 'w, 's) persistent_bus \<times> 'w" where
  "pb_Publish S e p w =
     (let deliver = (\<lambda>p'. case eb_Publish e (pb_bus p') w of (er, b, w') \<Rightarrow> (map_option BusError er, p'\<lparr> pb_bus := b \<rparr>, w'))
      in if pb_persist p then
           (case es_SaveEvent S e (pb_store p) of
              (Some er, s') \<Rightarrow> (Some (StoreError (''failed to persist event: '' @ er)), p\<lparr> pb_store := s' \<rparr>, w)
            | (None, s') \<Rightarrow> deliver (p\<lparr> pb_store := s' \<rparr>))
         else deliver p)"

(* src: app/common/patterns/event_persistence.go:352-360 EventReplayManager.replayEvents *)
fun replayEvents ::
  "'v event list \<Rightarrow> ('v, 'w) event_bus \<Rightarrow> 'w \<Rightarrow> publish_error option \<times> ('v, 'w) event_bus \<times> 'w" where
  "replayEvents [] b w = (None, b, w)"
| "replayEvents (e # es) b w =
     (case eb_Publish e b w of
        (Some er, b', w') \<Rightarrow> (Some (ReplayError (''failed to replay event '' @ ev_ID e) er), b', w')
      | (None, b', w') \<Rightarrow> replayEvents es b' w')"

(* src: app/common/patterns/event_persistence.go:286-299 PersistentEventBus.ReplayEvents *)
definition ReplayEvents ::
  "('v, 's) event_store_ops \<Rightarrow> string \<Rightarrow> int \<Rightarrow> ('v, 'w, 's) persistent_bus \<Rightarrow> 'w
   \<Rightarrow> publish_error option \<times> ('v, 'w, 's) persistent_bus \<times> 'w" where
  "ReplayEvents S t limit p w =
     (case es_GetEventsByType S t limit 0 (pb_store p) of
        (Inl er, s') \<Rightarrow> (Some (StoreError (''failed to get events: '' @ er)), p\<lparr> pb_store := s' \<rparr>, w)
      | (Inr events, s') \<Rightarrow>
          (case replayEvents events (pb_bus p) w of (er, b, w') \<Rightarrow> (er, p\<lparr> pb_store := s', pb_bus := b \<rparr>, w')))"

(* src: app/common/patterns/event_persistence.go:302-304 PersistentEventBus.GetEventHistory *)
definition GetEventHistory ::
  "('v, 's) event_store_ops \<Rightarrow> string \<Rightarrow> int \<Rightarrow> int \<Rightarrow> ('v, 'w, 's) persistent_bus \<Rightarrow> (err + 'v event list) \<times> ('v, 'w, 's) persistent_bus"
  where
  "GetEventHistory S t limit offset p =
     (case es_GetEventsByType S t limit offset (pb_store p) of (r, s') \<Rightarrow> (r, p\<lparr> pb_store := s' \<rparr>))"

definition replay_found ::
  "(err + 'v event list) \<times> 's \<Rightarrow> ('v, 'w) event_bus \<Rightarrow> 'w \<Rightarrow> publish_error option \<times> 's \<times> ('v, 'w) event_bus \<times> 'w" where
  "replay_found found b w =
     (case found of
        (Inl er, s') \<Rightarrow> (Some (StoreError (''failed to get events: '' @ er)), s', b, w)
      | (Inr events, s') \<Rightarrow> (case replayEvents events b w of (er, b', w') \<Rightarrow> (er, s', b', w')))"

(* src: app/common/patterns/event_persistence.go:322-329 EventReplayManager.ReplayEventsByType *)
definition ReplayEventsByType ::
  "('v, 's) event_store_ops \<Rightarrow> string \<Rightarrow> int \<Rightarrow> 's \<Rightarrow> ('v, 'w) event_bus \<Rightarrow> 'w \<Rightarrow> publish_error option \<times> 's \<times> ('v, 'w) event_bus \<times> 'w"
  where
  "ReplayEventsByType S t limit s b w = replay_found (es_GetEventsByType S t limit 0 s) b w"

(* src: app/common/patterns/event_persistence.go:332-339 EventReplayManager.ReplayEventsBySource *)
definition ReplayEventsBySource ::
  "('v, 's) event_store_ops \<Rightarrow> string \<Rightarrow> int \<Rightarrow> 's \<Rightarrow> ('v, 'w) event_bus \<Rightarrow> 'w \<Rightarrow> publish_error option \<times> 's \<times> ('v, 'w) event_bus \<times> 'w"
  where
  "ReplayEventsBySource S src limit s b w = replay_found (es_GetEventsBySource S src limit 0 s) b w"

(* src: app/common/patterns/event_persistence.go:342-349 EventReplayManager.ReplayEventsByTimeRange *)
definition ReplayEventsByTimeRange ::
  "('v, 's) event_store_ops \<Rightarrow> gotime \<Rightarrow> gotime \<Rightarrow> int \<Rightarrow> 's \<Rightarrow> ('v, 'w) event_bus \<Rightarrow> 'w
   \<Rightarrow> publish_error option \<times> 's \<times> ('v, 'w) event_bus \<times> 'w" where
  "ReplayEventsByTimeRange S from till limit s b w = replay_found (es_GetEventsByTimeRange S from till limit 0 s) b w"

section \<open>Properties\<close>

subsection \<open>Counters\<close>

definition listed :: "(string \<times> 'b list) list \<Rightarrow> int" where
  "listed al = (\<Sum>(t, xs) \<leftarrow> al. int (length xs))"

lemma listed_update:
  "distinct (map fst al) \<Longrightarrow> listed (AList.update t xs al) = listed al + int (length xs) - int (length (at_key al t))"
proof (induction al)
  case (Cons p al)
  show ?case
  proof (cases "fst p = t")
    case True
    then show ?thesis by (cases p) (simp add: listed_def at_key_def)
  next
    case False
    with Cons show ?thesis by (cases p) (simp add: listed_def at_key_def)
  qed
qed (simp add: listed_def at_key_def)

lemma at_key_update: "at_key (AList.update t xs al) t' = (if t' = t then xs else at_key al t')"
  by (simp add: at_key_def update_conv')

lemma length_del_first: "list_ex P xs \<Longrightarrow> length xs = Suc (length (del_first P xs))"
  by (induction xs) auto

lemma distinct_del_first: "distinct (map f xs) \<Longrightarrow> distinct (map f (del_first P xs))"
  by (induction xs) (auto dest: subsetD [OF set_del_first])

text \<open>Everything a program does with a bus.\<close>

datatype ('v, 'w) bus_op =
    OpSubscribe string "('v, 'w) subscriber"
  | OpUnsubscribe string string
  | OpAddFilter string "'v event_filter"
  | OpRemoveFilter string string
  | OpSetPriority "('v, 'w) subscriber" int
  | OpPublish "'v event"

fun bus_step :: "('v, 'w) bus_op \<Rightarrow> ('v, 'w) event_bus \<times> 'w \<Rightarrow> ('v, 'w) event_bus \<times> 'w" where
  "bus_step (OpSubscribe t s) (b, w) = (snd (eb_Subscribe t s b), w)"
| "bus_step (OpUnsubscribe t i) (b, w) = (snd (eb_Unsubscribe t i b), w)"
| "bus_step (OpAddFilter t f) (b, w) = (eb_AddFilter t f b, w)"
| "bus_step (OpRemoveFilter t n) (b, w) = (eb_RemoveFilter t n b, w)"
| "bus_step (OpSetPriority s p) (b, w) = (b\<lparr> eb_priority := dpm_SetPriority s p (eb_priority b) \<rparr>, w)"
| "bus_step (OpPublish e) (b, w) = snd (eb_Publish e b w)"

definition counters_ok :: "('v, 'w) event_bus \<Rightarrow> bool" where
  "counters_ok b \<longleftrightarrow>
     bm_SubscribersCount (eb_metrics b) = listed (eb_subscribers b) \<and> bm_FilterCount (eb_metrics b) = listed (eb_filters b)
     \<and> distinct (map fst (eb_subscribers b)) \<and> distinct (map fst (eb_filters b))
     \<and> (\<forall>t. distinct (map su_ID (at_key (eb_subscribers b) t)))"

lemma notify_all_counts:
  "notify_all e ss errors m w = (errors', m', w') \<Longrightarrow>
   bm_EventsDelivered m' + bm_EventsFailed m' = bm_EventsDelivered m + bm_EventsFailed m + int (length ss)
   \<and> int (length errors') - int (length errors) = bm_EventsFailed m' - bm_EventsFailed m
   \<and> bm_SubscribersCount m' = bm_SubscribersCount m \<and> bm_FilterCount m' = bm_FilterCount m
   \<and> bm_EventsPublished m' = bm_EventsPublished m \<and> bm_EventsFiltered m' = bm_EventsFiltered m"
proof (induction ss arbitrary: errors m w)
  case (Cons s ss)
  obtain r w1 where u: "su_Update s e w = (r, w1)" by fastforce
  show ?case
  proof (cases r)
    case None
    with Cons.prems u have "notify_all e ss errors (m\<lparr> bm_EventsDelivered := bm_EventsDelivered m + 1 \<rparr>) w1 = (errors', m', w')" by simp
    from Cons.IH [OF this] show ?thesis by simp
  next
    case (Some er)
    with Cons.prems u have "notify_all e ss (errors @ [er]) (m\<lparr> bm_EventsFailed := bm_EventsFailed m + 1 \<rparr>) w1 = (errors', m', w')" by simp
    from Cons.IH [OF this] show ?thesis by simp
  qed
qed simp

lemma publish_keeps:
  assumes "publish_to subs fs e b w = (r, b', w')"
  shows "eb_subscribers b' = eb_subscribers b \<and> eb_filters b' = eb_filters b \<and> eb_priority b' = eb_priority b
    \<and> bm_SubscribersCount (eb_metrics b') = bm_SubscribersCount (eb_metrics b)
    \<and> bm_FilterCount (eb_metrics b') = bm_FilterCount (eb_metrics b)"
proof -
  let ?m = "(eb_metrics b)\<lparr> bm_EventsPublished := bm_EventsPublished (eb_metrics b) + 1 \<rparr>"
  obtain es m' w1 where n: "notify_all e (sortSubscribersByPriority (eb_priority b) subs) [] ?m w = (es, m', w1)"
    by (cases "notify_all e (sortSubscribersByPriority (eb_priority b) subs) [] ?m w") auto
  from notify_all_counts [OF n] n assms show ?thesis
    by (auto simp: publish_to_def Let_def split: if_splits)
qed

lemma bus_step_ok:
  assumes "counters_ok b"
  shows "counters_ok (fst (bus_step op (b, w)))"
proof (cases op)
  case (OpSubscribe t s)
  then show ?thesis using assms
    by (auto simp: counters_ok_def eb_Subscribe_def listed_update at_key_update list_ex_iff intro: distinct_update)
next
  case (OpUnsubscribe t i)
  then show ?thesis using assms length_del_first [of "\<lambda>x. su_ID x = i" "at_key (eb_subscribers b) t"]
    by (auto simp: counters_ok_def eb_Unsubscribe_def listed_update at_key_update intro: distinct_update distinct_del_first)
next
  case (OpAddFilter t f)
  then show ?thesis using assms by (auto simp: counters_ok_def eb_AddFilter_def listed_update intro: distinct_update)
next
  case (OpRemoveFilter t n)
  then show ?thesis using assms length_del_first [of "\<lambda>f. ef_Name f = n" "at_key (eb_filters b) t"]
    by (auto simp: counters_ok_def eb_RemoveFilter_def listed_update intro: distinct_update)
next
  case (OpSetPriority s p)
  then show ?thesis using assms by (simp add: counters_ok_def)
next
  case (OpPublish e)
  obtain r b' w' where p: "eb_Publish e b w = (r, b', w')" by (cases "eb_Publish e b w") auto
  from publish_keeps [OF p [unfolded eb_Publish_def]] p OpPublish assms show ?thesis by (simp add: counters_ok_def)
qed

text \<open>
  C26. Over any use of a bus, the counter of subscribers and the counter of filters are the numbers of registered subscribers and
  filters, and no identifier is subscribed twice to a type.
\<close>

theorem bus_counters_correct:
  "case fold bus_step ops (NewEnhancedEventBus, w) of (b, _) \<Rightarrow>
     bm_SubscribersCount (eb_GetMetrics b) = (\<Sum>(t, ss) \<leftarrow> eb_subscribers b. int (length ss))
     \<and> bm_FilterCount (eb_GetMetrics b) = (\<Sum>(t, fs) \<leftarrow> eb_filters b. int (length fs))
     \<and> distinct (map su_ID (at_key (eb_subscribers b) t))"
proof -
  have "counters_ok (fst (fold bus_step ops bw))" if "counters_ok (fst bw)" for bw
  proof -
    have step: "counters_ok (fst bw) \<Longrightarrow> counters_ok (fst (bus_step op bw))" for op and bw :: "('a, 'b) event_bus \<times> 'b"
      by (cases bw) (simp add: bus_step_ok)
    show ?thesis using that by (induction ops arbitrary: bw) (simp_all add: step)
  qed
  moreover have "counters_ok (fst (NewEnhancedEventBus, w))" by (simp add: counters_ok_def NewEnhancedEventBus_def listed_def at_key_def)
  ultimately show ?thesis
    by (fastforce simp: counters_ok_def listed_def eb_GetMetrics_def case_prod_beta)
qed

subsection \<open>Delivery\<close>

text \<open>
  The outside is the list of identifiers of the subscribers told so far: \<open>writes_down s\<close> says that a subscriber adds its own,
  whether or not it then fails.
\<close>

definition writes_down :: "('v, string list) subscriber \<Rightarrow> bool" where
  "writes_down s \<longleftrightarrow> (\<forall>e w. snd (su_Update s e w) = w @ [su_ID s])"

lemma notify_all_told:
  "\<forall>s \<in> set ss. writes_down s \<Longrightarrow> snd (snd (notify_all e ss errors m w)) = w @ map su_ID ss"
proof (induction ss arbitrary: errors m w)
  case (Cons s ss)
  obtain r w1 where u: "su_Update s e w = (r, w1)" by fastforce
  have "snd (su_Update s e w) = w @ [su_ID s]" using Cons.prems by (simp add: writes_down_def)
  with u have "w1 = w @ [su_ID s]" by simp
  then show ?case using Cons u by (cases r) simp_all
qed simp

lemma sort_by_priority:
  "mset (sortSubscribersByPriority p ss) = mset ss"
  "sorted_wrt (\<lambda>s t. dpm_GetPriority t p \<le> dpm_GetPriority s p) (sortSubscribersByPriority p ss)"
  using sorted_exchange_sort [of "\<lambda>s. - dpm_GetPriority s p" ss]
  by (simp_all add: sortSubscribersByPriority_def mset_exchange_sort sorted_map)

text \<open>
  An event that passes the filters of its type is given to every subscriber of the type once, those of higher priority before
  those of lower; a failing subscriber does not stop the others. The bus reports an error exactly when the counter of failures
  has grown.
\<close>

theorem publish_by_priority:
  assumes "applyFilters e (at_key (eb_filters b) (ev_Type e))"
    and "\<And>s. s \<in> set (at_key (eb_subscribers b) (ev_Type e)) \<Longrightarrow> writes_down s"
  shows "\<exists>told r b'. eb_Publish e b w = (r, b', w @ map su_ID told)
    \<and> mset told = mset (at_key (eb_subscribers b) (ev_Type e))
    \<and> sorted_wrt (\<lambda>s t. dpm_GetPriority t (eb_priority b) \<le> dpm_GetPriority s (eb_priority b)) told
    \<and> (r = None \<longleftrightarrow> bm_EventsFailed (eb_GetMetrics b') = bm_EventsFailed (eb_GetMetrics b))"
proof -
  let ?ss = "at_key (eb_subscribers b) (ev_Type e)"
  let ?told = "sortSubscribersByPriority (eb_priority b) ?ss"
  let ?m = "(eb_metrics b)\<lparr> bm_EventsPublished := bm_EventsPublished (eb_metrics b) + 1 \<rparr>"
  obtain es m' w' where n: "notify_all e ?told [] ?m w = (es, m', w')" by (cases "notify_all e ?told [] ?m w") auto
  have "set ?told = set ?ss" using sort_by_priority(1) by (metis set_mset_mset)
  then have "w' = w @ map su_ID ?told" using notify_all_told [of ?told e "[]" ?m w] assms(2) n by simp
  moreover have "eb_Publish e b w
      = (if es \<noteq> [] then Some (ObserverError ''some subscribers failed'' es) else None, b\<lparr> eb_metrics := m' \<rparr>, w')"
    by (simp add: eb_Publish_def publish_to_def assms(1) Let_def n)
  moreover have "es = [] \<longleftrightarrow> bm_EventsFailed m' = bm_EventsFailed (eb_metrics b)"
    using notify_all_counts [OF n] by auto
  ultimately show ?thesis using sort_by_priority [of "eb_priority b" ?ss]
    by (intro exI [of _ ?told] exI conjI) (auto simp: eb_GetMetrics_def)
qed

definition demo_subscriber :: "string \<Rightarrow> int \<Rightarrow> err option \<Rightarrow> (unit, string list) subscriber" where
  "demo_subscriber i p r = \<lparr> su_ID = i, su_Priority = p, su_Update = \<lambda>e w. (r, w @ [i]) \<rparr>"

definition demo_bus :: "(unit, string list) event_bus" where
  "demo_bus = fst (fold bus_step [OpSubscribe ''user'' (demo_subscriber ''a'' 1 (Some ''down'')), OpSubscribe ''user'' (demo_subscriber ''b'' 5 None),
     OpSubscribe ''user'' (demo_subscriber ''c'' 3 None)] (NewEnhancedEventBus, []))"

lemma demo_bus_subscribers:
  "at_key (eb_subscribers demo_bus) ''user'' = [demo_subscriber ''a'' 1 (Some ''down''), demo_subscriber ''b'' 5 None, demo_subscriber ''c'' 3 None]"
  "at_key (eb_filters demo_bus) ''user'' = []" "eb_priority demo_bus = Map.empty"
  by (simp_all add: demo_bus_def NewEnhancedEventBus_def eb_Subscribe_def at_key_def demo_subscriber_def)

theorem publish_by_priority_witness:
  "\<exists>told r b'. eb_Publish old_event demo_bus [] = (r, b', map su_ID told)
    \<and> mset told = {# demo_subscriber ''a'' 1 (Some ''down''), demo_subscriber ''b'' 5 None, demo_subscriber ''c'' 3 None #}
    \<and> sorted_wrt (\<lambda>s t. su_Priority t \<le> su_Priority s) told"
proof -
  have t: "ev_Type old_event = ''user''" by (simp add: old_event_def NewBaseEvent_def)
  have "\<exists>told r b'. eb_Publish old_event demo_bus [] = (r, b', [] @ map su_ID told)
    \<and> mset told = mset (at_key (eb_subscribers demo_bus) (ev_Type old_event))
    \<and> sorted_wrt (\<lambda>s t. dpm_GetPriority t (eb_priority demo_bus) \<le> dpm_GetPriority s (eb_priority demo_bus)) told
    \<and> (r = None \<longleftrightarrow> bm_EventsFailed (eb_GetMetrics b') = bm_EventsFailed (eb_GetMetrics demo_bus))"
    by (rule publish_by_priority) (auto simp: t demo_bus_subscribers applyFilters_def writes_down_def demo_subscriber_def)
  then show ?thesis by (auto simp: t demo_bus_subscribers dpm_GetPriority_def)
qed

lemma filter_eq_replicate: "filter (\<lambda>y. y = x) xs = replicate (count (mset xs) x) x"
  by (induction xs) auto

text \<open>
  A subscriber that leaves while an event is being published, after the slice was read and before it is copied, makes the last
  subscriber of the type be told twice.
\<close>

theorem unsubscribe_doubles_last:
  assumes "at_key (eb_subscribers b) (ev_Type e) = ss" and "s \<in> set ss" and "su_ID s \<noteq> su_ID (List.last ss)"
    and "distinct (map su_ID ss)" and "\<And>s. s \<in> set ss \<Longrightarrow> writes_down s" and "applyFilters e fs"
  shows "\<exists>r b' w'. publish_to (old_slice_after (su_ID s) ss) fs e (snd (eb_Unsubscribe (ev_Type e) (su_ID s) b)) w = (r, b', w @ w')
    \<and> filter (\<lambda>i. i = su_ID (List.last ss)) w' = [su_ID (List.last ss), su_ID (List.last ss)] \<and> su_ID s \<notin> set w'"
proof -
  let ?i = "su_ID s" and ?l = "List.last ss"
  let ?b = "snd (eb_Unsubscribe (ev_Type e) ?i b)"
  let ?rest = "del_first (\<lambda>x. su_ID x = ?i) ss"
  have old: "old_slice_after ?i ss = ?rest @ [?l]" using assms(2) by (auto simp: old_slice_after_def list_ex_iff)
  have "ss \<noteq> []" using assms(2) by auto
  have l: "?l \<in> set ?rest" using assms(2,3) by (induction ss) auto
  have gone: "?i \<notin> su_ID ` set ?rest" using assms(2,4) by (induction ss) auto
  have dist: "distinct (map su_ID ?rest)" using assms(4) by (rule distinct_del_first)
  let ?told = "sortSubscribersByPriority (eb_priority ?b) (?rest @ [?l])"
  let ?m = "(eb_metrics ?b)\<lparr> bm_EventsPublished := bm_EventsPublished (eb_metrics ?b) + 1 \<rparr>"
  obtain es m' w' where n: "notify_all e ?told [] ?m w = (es, m', w')" by (cases "notify_all e ?told [] ?m w") auto
  have told: "mset ?told = mset (?rest @ [?l])" by (rule sort_by_priority)
  then have "set ?told = set (?rest @ [?l])" by (metis set_mset_mset)
  then have "set ?told \<subseteq> set ss" using l set_del_first [of "\<lambda>x. su_ID x = ?i" ss] by auto
  then have w': "w' = w @ map su_ID ?told" using notify_all_told [of ?told e "[]" ?m w] assms(5) n by auto
  have p: "\<exists>r b'. publish_to (old_slice_after ?i ss) fs e ?b w = (r, b', w @ map su_ID ?told)"
    by (simp add: old publish_to_def assms(6) Let_def n w')
  have ms: "mset (map su_ID ?told) = mset (map su_ID ?rest) + {# su_ID ?l #}" by (simp add: told)
  have "count (mset (map su_ID ?rest)) (su_ID ?l) = 1" using l dist by (simp add: distinct_count_atmost_1 del: mset_map)
  then have "count (mset (map su_ID ?told)) (su_ID ?l) = 2" unfolding ms by simp
  then have "filter (\<lambda>i. i = su_ID ?l) (map su_ID ?told) = [su_ID ?l, su_ID ?l]"
    unfolding filter_eq_replicate by (simp add: numeral_2_eq_2 del: mset_map)
  moreover have "?i \<notin> set (map su_ID ?told)" using gone assms(3) \<open>set ?told = _\<close> by auto
  ultimately show ?thesis using p by blast
qed

theorem unsubscribe_doubles_last_witness:
  "\<exists>r b' w'. publish_to (old_slice_after ''b'' (at_key (eb_subscribers demo_bus) ''user'')) [] old_event
       (snd (eb_Unsubscribe ''user'' ''b'' demo_bus)) [] = (r, b', w')
    \<and> filter (\<lambda>i. i = ''c'') w' = [''c'', ''c''] \<and> ''b'' \<notin> set w'"
proof -
  let ?ss = "at_key (eb_subscribers demo_bus) ''user''"
  have t: "ev_Type old_event = ''user''" by (simp add: old_event_def NewBaseEvent_def)
  have "\<exists>r b' w'. publish_to (old_slice_after (su_ID (demo_subscriber ''b'' 5 None)) ?ss) [] old_event
       (snd (eb_Unsubscribe (ev_Type old_event) (su_ID (demo_subscriber ''b'' 5 None)) demo_bus)) [] = (r, b', [] @ w')
    \<and> filter (\<lambda>i. i = su_ID (List.last ?ss)) w' = [su_ID (List.last ?ss), su_ID (List.last ?ss)]
    \<and> su_ID (demo_subscriber ''b'' 5 None) \<notin> set w'"
    by (rule unsubscribe_doubles_last) (auto simp: t demo_bus_subscribers writes_down_def demo_subscriber_def applyFilters_def)
  then show ?thesis by (simp add: t demo_bus_subscribers) (simp add: demo_subscriber_def)
qed

subsection \<open>Replay\<close>

definition keeps :: "('v, 'v event list) subscriber \<Rightarrow> bool" where
  "keeps s \<longleftrightarrow> (\<forall>e w. su_Update s e w = (None, w @ [e]))"

definition only :: "string \<Rightarrow> ('v, 'w) subscriber \<Rightarrow> ('v, 'w) event_bus \<Rightarrow> bool" where
  "only t s b \<longleftrightarrow> at_key (eb_subscribers b) t = [s] \<and> at_key (eb_filters b) t = []"

lemma publish_only:
  assumes "only t s b" and "keeps s" and "ev_Type e = t"
  shows "\<exists>b'. eb_Publish e b w = (None, b', w @ [e]) \<and> only t s b'"
  using assms by (simp add: only_def eb_Publish_def publish_to_def applyFilters_def Let_def sortSubscribersByPriority_def keeps_def)

lemma replay_only:
  "only t s b \<Longrightarrow> keeps s \<Longrightarrow> \<forall>e \<in> set es. ev_Type e = t \<Longrightarrow> \<exists>b'. replayEvents es b w = (None, b', w @ es)"
proof (induction es arbitrary: b w)
  case (Cons e es)
  have "ev_Type e = t" using Cons.prems(3) by simp
  from publish_only [OF Cons.prems(1,2) this] obtain b1 where b1: "eb_Publish e b w = (None, b1, w @ [e])" "only t s b1" by blast
  from Cons.IH [OF b1(2) Cons.prems(2), of "w @ [e]"] Cons.prems(3) b1(1) show ?case by simp
qed simp

definition publish_each ::
  "('v, 's) event_store_ops \<Rightarrow> 'v event list \<Rightarrow> ('v, 'w, 's) persistent_bus \<times> 'w \<Rightarrow> ('v, 'w, 's) persistent_bus \<times> 'w" where
  "publish_each S es pw = fold (\<lambda>e (p, w). snd (pb_Publish S e p w)) es pw"

lemma publish_each_stored:
  assumes "keeps s" and "only t s (pb_bus p)" and "pb_persist p" and "ms_events (pb_store p) = []"
    and "distinct (map ev_ID es)" and "\<forall>e \<in> set es. ev_Type e = t"
  shows "\<exists>p'. publish_each memory_event_store es (p, w) = (p', w @ es) \<and> only t s (pb_bus p') \<and> pb_persist p'
    \<and> ms_events (pb_store p') = map (\<lambda>e. (ev_ID e, e)) es \<and> ms_orders (pb_store p') = ms_orders (pb_store p)"
  using assms(5,6)
proof (induction es rule: rev_induct)
  case Nil
  then show ?case using assms by (simp add: publish_each_def)
next
  case (snoc e es)
  then obtain p1 where p1: "publish_each memory_event_store es (p, w) = (p1, w @ es)" "only t s (pb_bus p1)" "pb_persist p1"
      "ms_events (pb_store p1) = map (\<lambda>e. (ev_ID e, e)) es" "ms_orders (pb_store p1) = ms_orders (pb_store p)"
    by auto
  from publish_only [OF p1(2) assms(1), of e "w @ es"] snoc.prems
  obtain b where b: "eb_Publish e (pb_bus p1) (w @ es) = (None, b, w @ es @ [e])" "only t s b" by auto
  have "map_of (map (\<lambda>e. (ev_ID e, e)) es) (ev_ID e) = None"
    using snoc.prems(1) by (auto simp: map_of_eq_None_iff)
  then have "ms_events (snd (ms_SaveEvent e (pb_store p1))) = map (\<lambda>e. (ev_ID e, e)) (es @ [e])"
    by (simp add: ms_SaveEvent_def p1(4) alist_update_new)
  with p1 b show ?case
    by (simp add: publish_each_def pb_Publish_def memory_event_store_def Let_def ms_SaveEvent_def)
qed


definition keeper :: "(unit, unit event list) subscriber" where
  "keeper = \<lparr> su_ID = ''k'', su_Priority = 0, su_Update = \<lambda>e w. (None, w @ [e]) \<rparr>"


subsection \<open>Subscribers with a queue\<close>

text \<open>Updates, rounds of the workers and the stop, in any order; \<open>accepted\<close> are the events whose update was queued.\<close>

inductive async_run :: "nat \<Rightarrow> 'v event list \<Rightarrow> 'v async_subscriber \<Rightarrow> bool" for n where
  start: "async_run n [] (NewAsyncSubscriber n)"
| queued: "async_run n acc a \<Longrightarrow> as_Update d p e a = (Queued, a') \<Longrightarrow> async_run n (acc @ [e]) a'"
| refused: "async_run n acc a \<Longrightarrow> as_Update d p e a = (r, a') \<Longrightarrow> r \<noteq> Queued \<Longrightarrow> async_run n acc a'"
| worked: "async_run n acc a \<Longrightarrow> worker_round a a' \<Longrightarrow> async_run n acc a'"
| stopped: "async_run n acc a \<Longrightarrow> async_run n acc (as_Stop a)"

inductive_cases worker_roundE: "worker_round a a'"

lemma as_Update_cases:
  "as_Update d p e a = (Queued, a') \<Longrightarrow> a' = a\<lparr> as_queue := as_queue a @ [e] \<rparr> \<and> length (as_queue a) < as_size a \<and> \<not> as_closed a"
  "as_Update d p e a = (r, a') \<Longrightarrow> r \<noteq> Queued \<Longrightarrow> a' = a"
  by (auto simp: as_Update_def Let_def split: if_splits)

text \<open>
  Whatever happens, the accepted events are handed on in their order, none lost and none twice, and the queue stays within its
  size; only after the stop does a worker hand on a nil event.
\<close>

theorem async_in_order:
  "async_run n accepted a \<Longrightarrow>
   List.map_filter (\<lambda>x. x) (as_handed a) @ as_queue a = accepted \<and> length (as_queue a) \<le> n \<and> as_size a = n
   \<and> (None \<in> set (as_handed a) \<longrightarrow> as_closed a)"
proof (induction rule: async_run.induct)
  case (queued acc a d p e a')
  from as_Update_cases(1) [OF queued(2)] queued(3) show ?case by auto
next
  case (refused acc a d p e r a')
  from as_Update_cases(2) [OF refused(2,3)] refused(4) show ?case by simp
next
  case (worked acc a a')
  from worked(2,3) show ?case by (auto elim!: worker_roundE simp: List.map_filter_def)
next
  case (stopped acc a)
  then show ?case by (auto simp: as_Stop_def)
qed (simp add: NewAsyncSubscriber_def map_filter_simps)

text \<open>A publication that reaches a stopped subscriber panics.\<close>

lemma update_after_stop_panics: "fst (as_Update False p e (as_Stop a)) = SendPanic"
  by (simp add: as_Update_def as_Stop_def Let_def)

end
