(* ===== verification/Jwt_Tokens.thy ===== *)
theory Jwt_Tokens
  imports Gin_Context
begin

text \<open>
  The login tokens (\<^verbatim>\<open>src/utils/jwtUtils.go\<close>), the gateway's checks of them (\<^verbatim>\<open>src/app/gateway/middlewares/auth.go\<close>)
  and its response codes (\<^verbatim>\<open>src/app/gateway/types/code.go\<close>).

  The package \<^verbatim>\<open>github.com/golang-jwt/jwt/v5\<close> is a parameter: signing, checking a signature against the key
  the caller supplies for the \<^verbatim>\<open>kid\<close> header, and validating registered claims; \<open>jwt_laws\<close> states its documented
  behaviour. The payload of a token is a JSON object; how a Go struct is encoded in and decoded from it is part
  of the standard library and modelled here. Each of the three claim structs has a field \<^verbatim>\<open>Exp\<close> tagged \<^verbatim>\<open>exp\<close> next
  to the embedded \<^verbatim>\<open>jwt.RegisteredClaims\<close>, whose field \<^verbatim>\<open>ExpiresAt\<close> has the same tag one level deeper. In
  \<^verbatim>\<open>encoding/json\<close> the shallower field wins: \<^verbatim>\<open>ExpiresAt\<close> is neither written nor read.

  A token is a string, a key its bytes. Logging and tracing are left out.
\<close>

section \<open>Model\<close>

subsection \<open>Keys\<close>

(* src: utils/jwtUtils.go:15-19 JWTKeyManager *)
record jwt_key_manager =
  jk_keys :: "string \<rightharpoonup> string"
  jk_currentKeyID :: string

text \<open>The configuration \<^verbatim>\<open>viper\<close> holds: the maps of keys, the current key and the hours a token lives.\<close>

record jwt_config =
  jc_keys :: "string \<rightharpoonup> string"
  jc_currentKeyId :: string
  jc_expirationHours :: int

(* src: utils/jwtUtils.go:34-49 loadJWTKeys *)
definition loadJWTKeys :: "jwt_config \<Rightarrow> jwt_key_manager \<Rightarrow> jwt_key_manager" where
  "loadJWTKeys cfg m =
     \<lparr> jk_keys = jk_keys m ++ jc_keys cfg,
       jk_currentKeyID = (if jc_currentKeyId cfg = [] then ''v1'' else jc_currentKeyId cfg) \<rparr>"

(* src: utils/jwtUtils.go:24-31 initJWTKeyManager *)
definition initJWTKeyManager :: "jwt_config \<Rightarrow> jwt_key_manager" where
  "initJWTKeyManager cfg = loadJWTKeys cfg \<lparr> jk_keys = Map.empty, jk_currentKeyID = [] \<rparr>"

(* src: utils/jwtUtils.go:52-62 JWTKeyManager.GetCurrentKey *)
definition GetCurrentKey :: "jwt_key_manager \<Rightarrow> err + string \<times> string" where
  "GetCurrentKey m =
     (case jk_keys m (jk_currentKeyID m) of
        None \<Rightarrow> Inl (utf8 [0xE5, 0xBD, 0x93, 0xE5, 0x89, 0x8D, 0xE5, 0xAF, 0x86, 0xE9, 0x92, 0xA5, 0x49, 0x44, 0x20]
                     @ jk_currentKeyID m @ utf8 [0x20, 0xE4, 0xB8, 0x8D, 0xE5, 0xAD, 0x98, 0xE5, 0x9C, 0xA8])
      | Some key \<Rightarrow> Inr (key, jk_currentKeyID m))"

(* src: utils/jwtUtils.go:65-75 JWTKeyManager.GetKeyByID *)
definition GetKeyByID :: "string \<Rightarrow> jwt_key_manager \<Rightarrow> err + string" where
  "GetKeyByID keyID m =
     (case jk_keys m keyID of
        None \<Rightarrow> Inl (utf8 [0xE5, 0xAF, 0x86, 0xE9, 0x92, 0xA5, 0x49, 0x44, 0x20] @ keyID
                     @ utf8 [0x20, 0xE4, 0xB8, 0x8D, 0xE5, 0xAD, 0x98, 0xE5, 0x9C, 0xA8])
      | Some key \<Rightarrow> Inr key)"

(* src: utils/jwtUtils.go:78-84 JWTKeyManager.UpdateKeys *)
definition UpdateKeys :: "(string \<rightharpoonup> string) \<Rightarrow> string \<Rightarrow> jwt_key_manager \<Rightarrow> jwt_key_manager" where
  "UpdateKeys keys currentKeyID m = \<lparr> jk_keys = keys, jk_currentKeyID = currentKeyID \<rparr>"

(* src: utils/jwtUtils.go:326-328 UpdateJWTKeys *)
definition UpdateJWTKeys :: "(string \<rightharpoonup> string) \<Rightarrow> string \<Rightarrow> jwt_key_manager \<Rightarrow> jwt_key_manager" where
  "UpdateJWTKeys = UpdateKeys"

(* src: utils/jwtUtils.go:331-335 GetCurrentKeyID *)
definition GetCurrentKeyID :: "jwt_key_manager \<Rightarrow> string" where
  "GetCurrentKeyID m = jk_currentKeyID m"

subsection \<open>Claims and their JSON\<close>

datatype jvalue = JText string | JNumber int

type_synonym payload = "(string \<times> jvalue) list"

text \<open>The registered claims the program uses; times are seconds since 1970.\<close>

record registered_claims =
  rg_ExpiresAt :: "int option"
  rg_IssuedAt :: "int option"

(* src: utils/jwtUtils.go:87-92 CustomClaims *)
record custom_claims =
  cc_OpenId :: string
  cc_StuNum :: string
  cc_Exp :: int
  cc_Registered :: registered_claims

(* src: utils/jwtUtils.go:94-99 MassesClaims *)
record masses_claims =
  mc_OpenId :: string
  mc_NickName :: string
  mc_Exp :: int
  mc_Registered :: registered_claims

(* src: utils/jwtUtils.go:101-106 AdminClaims *)
record admin_claims =
  ac_OpenId :: string
  ac_Organization :: "32 word"
  ac_Exp :: int
  ac_Registered :: registered_claims

text \<open>Encoding: \<^verbatim>\<open>iat\<close> is written when set, \<^verbatim>\<open>exp\<close> comes from \<^verbatim>\<open>Exp\<close>.\<close>

definition with_iat :: "registered_claims \<Rightarrow> payload \<Rightarrow> payload" where
  "with_iat rg p = (case rg_IssuedAt rg of None \<Rightarrow> p | Some t \<Rightarrow> p @ [(''iat'', JNumber t)])"

definition custom_json :: "custom_claims \<Rightarrow> payload" where
  "custom_json c = with_iat (cc_Registered c)
     [(''openId'', JText (cc_OpenId c)), (''stuNum'', JText (cc_StuNum c)), (''exp'', JNumber (cc_Exp c))]"

definition masses_json :: "masses_claims \<Rightarrow> payload" where
  "masses_json c = with_iat (mc_Registered c)
     [(''openId'', JText (mc_OpenId c)), (''nick_name'', JText (mc_NickName c)), (''exp'', JNumber (mc_Exp c))]"

definition admin_json :: "admin_claims \<Rightarrow> payload" where
  "admin_json c = with_iat (ac_Registered c)
     [(''openId'', JText (ac_OpenId c)), (''organization'', JNumber (uint (ac_Organization c))), (''exp'', JNumber (ac_Exp c))]"

text \<open>Decoding: a missing field keeps its zero value, one of another type is an error, unknown ones are ignored.\<close>

definition text_field :: "string \<Rightarrow> payload \<Rightarrow> err + string" where
  "text_field k p = (case map_of p k of None \<Rightarrow> Inr [] | Some (JText s) \<Rightarrow> Inr s
     | Some (JNumber _) \<Rightarrow> Inl ''json: cannot unmarshal number into Go struct field of type string'')"

definition int64_field :: "string \<Rightarrow> payload \<Rightarrow> err + int" where
  "int64_field k p = (case map_of p k of None \<Rightarrow> Inr 0
     | Some (JNumber n) \<Rightarrow> if - (2 ^ 63) \<le> n \<and> n < 2 ^ 63 then Inr n
                          else Inl ''json: cannot unmarshal number into Go struct field of type int64''
     | Some (JText _) \<Rightarrow> Inl ''json: cannot unmarshal string into Go struct field of type int64'')"

definition uint32_field :: "string \<Rightarrow> payload \<Rightarrow> err + 32 word" where
  "uint32_field k p = (case map_of p k of None \<Rightarrow> Inr 0
     | Some (JNumber n) \<Rightarrow> if 0 \<le> n \<and> n < 2 ^ 32 then Inr (word_of_int n)
                          else Inl ''json: cannot unmarshal number into Go struct field of type uint32''
     | Some (JText _) \<Rightarrow> Inl ''json: cannot unmarshal string into Go struct field of type uint32'')"

definition registered_field :: "payload \<Rightarrow> err + registered_claims" where
  "registered_field p = (case map_of p ''iat'' of None \<Rightarrow> Inr \<lparr> rg_ExpiresAt = None, rg_IssuedAt = None \<rparr>
     | Some (JNumber n) \<Rightarrow> Inr \<lparr> rg_ExpiresAt = None, rg_IssuedAt = Some n \<rparr>
     | Some (JText _) \<Rightarrow> Inl ''json: cannot unmarshal string into Go struct field of type NumericDate'')"

definition bind_sum :: "err + 'a \<Rightarrow> ('a \<Rightarrow> err + 'b) \<Rightarrow> err + 'b" where
  "bind_sum r f = (case r of Inl e \<Rightarrow> Inl e | Inr x \<Rightarrow> f x)"

definition custom_decode :: "payload \<Rightarrow> err + custom_claims" where
  "custom_decode p =
     bind_sum (text_field ''openId'' p) (\<lambda>openId. bind_sum (text_field ''stuNum'' p) (\<lambda>stuNum.
     bind_sum (int64_field ''exp'' p) (\<lambda>expiry. bind_sum (registered_field p) (\<lambda>rg.
     Inr \<lparr> cc_OpenId = openId, cc_StuNum = stuNum, cc_Exp = expiry, cc_Registered = rg \<rparr>))))"

definition masses_decode :: "payload \<Rightarrow> err + masses_claims" where
  "masses_decode p =
     bind_sum (text_field ''openId'' p) (\<lambda>openId. bind_sum (text_field ''nick_name'' p) (\<lambda>nick.
     bind_sum (int64_field ''exp'' p) (\<lambda>expiry. bind_sum (registered_field p) (\<lambda>rg.
     Inr \<lparr> mc_OpenId = openId, mc_NickName = nick, mc_Exp = expiry, mc_Registered = rg \<rparr>))))"

definition admin_decode :: "payload \<Rightarrow> err + admin_claims" where
  "admin_decode p =
     bind_sum (text_field ''openId'' p) (\<lambda>openId. bind_sum (uint32_field ''organization'' p) (\<lambda>organization.
     bind_sum (int64_field ''exp'' p) (\<lambda>expiry. bind_sum (registered_field p) (\<lambda>rg.
     Inr \<lparr> ac_OpenId = openId, ac_Organization = organization, ac_Exp = expiry, ac_Registered = rg \<rparr>))))"

subsection \<open>The JWT package\<close>

text \<open>
  \<^verbatim>\<open>jl_SignedString kid key p\<close> signs the payload with HS256; \<^verbatim>\<open>jl_Parse token keyfunc\<close> returns the payload of a token
  whose signature fits the key that \<open>keyfunc\<close> gives for its \<^verbatim>\<open>kid\<close> header (\<open>None\<close>: no such string in the header);
  \<^verbatim>\<open>jl_Validate now rg\<close> checks the registered claims.
\<close>

record jwt_lib =
  jl_SignedString :: "string option \<Rightarrow> string \<Rightarrow> payload \<Rightarrow> err + string"
  jl_Parse :: "string \<Rightarrow> (string option \<Rightarrow> err + string) \<Rightarrow> err + payload"
  jl_Validate :: "gotime \<Rightarrow> registered_claims \<Rightarrow> err option"

definition jwt_laws :: "jwt_lib \<Rightarrow> bool" where
  "jwt_laws L \<longleftrightarrow>
     (\<forall>kid key p. \<exists>t. jl_SignedString L kid key p = Inr t)
     \<and> (\<forall>kid key p t keyfunc. jl_SignedString L kid key p = Inr t \<longrightarrow> keyfunc kid = Inr key \<longrightarrow> jl_Parse L t keyfunc = Inr p)
     \<and> (\<forall>t keyfunc p. jl_Parse L t keyfunc = Inr p \<longrightarrow> (\<exists>kid key. keyfunc kid = Inr key))
     \<and> (\<forall>now rg. jl_Validate L now rg = None \<longleftrightarrow> (\<forall>e. rg_ExpiresAt rg = Some e \<longrightarrow> go_unix now < e))"

text \<open>\<^verbatim>\<open>jwt.ParseWithClaims\<close> into a claims struct: the signature, the decoding, the registered claims.\<close>

definition ParseWithClaims ::
  "jwt_lib \<Rightarrow> (payload \<Rightarrow> err + 'c) \<Rightarrow> ('c \<Rightarrow> registered_claims) \<Rightarrow> gotime \<Rightarrow> string \<Rightarrow> (string option \<Rightarrow> err + string) \<Rightarrow> err + 'c" where
  "ParseWithClaims L decode registered now token keyfunc =
     bind_sum (jl_Parse L token keyfunc) (\<lambda>p. bind_sum (decode p) (\<lambda>c.
     case jl_Validate L now (registered c) of Some e \<Rightarrow> Inl e | None \<Rightarrow> Inr c))"

subsection \<open>Tokens\<close>

(* src: utils/jwtUtils.go:120-126 getExpirationTime *)
definition getExpirationTime :: "jwt_config \<Rightarrow> gotime \<Rightarrow> int" where
  "getExpirationTime cfg now =
     (let expirationHours = (if jc_expirationHours cfg \<le> 0 then 24 else jc_expirationHours cfg)
      in go_unix (now + wrap64 (expirationHours * hour)))"

definition issue :: "jwt_lib \<Rightarrow> jwt_key_manager \<Rightarrow> payload \<Rightarrow> string" where
  "issue L m p =
     (case GetCurrentKey m of
        Inl _ \<Rightarrow> []
      | Inr (key, keyID) \<Rightarrow> (case jl_SignedString L (Some keyID) key p of Inl _ \<Rightarrow> [] | Inr t \<Rightarrow> t))"

definition fresh_registered :: "jwt_config \<Rightarrow> gotime \<Rightarrow> registered_claims" where
  "fresh_registered cfg now = \<lparr> rg_ExpiresAt = Some (getExpirationTime cfg now), rg_IssuedAt = Some (go_unix now) \<rparr>"

(* src: utils/jwtUtils.go:128-155 GenerateUserToken *)
definition GenerateUserToken :: "jwt_lib \<Rightarrow> jwt_config \<Rightarrow> jwt_key_manager \<Rightarrow> gotime \<Rightarrow> string \<Rightarrow> string \<Rightarrow> string" where
  "GenerateUserToken L cfg m now openid stunum =
     issue L m (custom_json \<lparr> cc_OpenId = openid, cc_StuNum = stunum, cc_Exp = getExpirationTime cfg now,
                             cc_Registered = fresh_registered cfg now \<rparr>)"

(* src: utils/jwtUtils.go:157-184 GenerateMassesToken *)
definition GenerateMassesToken :: "jwt_lib \<Rightarrow> jwt_config \<Rightarrow> jwt_key_manager \<Rightarrow> gotime \<Rightarrow> string \<Rightarrow> string \<Rightarrow> string" where
  "GenerateMassesToken L cfg m now openid nickName =
     issue L m (masses_json \<lparr> mc_OpenId = openid, mc_NickName = nickName, mc_Exp = getExpirationTime cfg now,
                             mc_Registered = fresh_registered cfg now \<rparr>)"

(* src: utils/jwtUtils.go:186-213 GenerateAdminToken *)
definition GenerateAdminToken :: "jwt_lib \<Rightarrow> jwt_config \<Rightarrow> jwt_key_manager \<Rightarrow> gotime \<Rightarrow> string \<Rightarrow> 32 word \<Rightarrow> string" where
  "GenerateAdminToken L cfg m now openid organization =
     issue L m (admin_json \<lparr> ac_OpenId = openid, ac_Organization = organization, ac_Exp = getExpirationTime cfg now,
                            ac_Registered = fresh_registered cfg now \<rparr>)"

(* src: utils/jwtUtils.go:218-236 AnalyseUserToken (key function) *)
definition token_key :: "jwt_key_manager \<Rightarrow> string option \<Rightarrow> err + string" where
  "token_key m kid =
     (let current = (case GetCurrentKey m of Inl e \<Rightarrow> Inl e | Inr (key, _) \<Rightarrow> Inr key)
      in case kid of
           None \<Rightarrow> current
         | Some k \<Rightarrow> (case GetKeyByID k m of Inl _ \<Rightarrow> current | Inr key \<Rightarrow> Inr key))"

(* src: utils/jwtUtils.go:216-244 AnalyseUserToken *)
definition AnalyseUserToken :: "jwt_lib \<Rightarrow> jwt_key_manager \<Rightarrow> gotime \<Rightarrow> string \<Rightarrow> err + custom_claims" where
  "AnalyseUserToken L m now token = ParseWithClaims L custom_decode cc_Registered now token (token_key m)"

(* src: utils/jwtUtils.go:246-274 AnalyseMassesToken *)
definition AnalyseMassesToken :: "jwt_lib \<Rightarrow> jwt_key_manager \<Rightarrow> gotime \<Rightarrow> string \<Rightarrow> err + masses_claims" where
  "AnalyseMassesToken L m now token = ParseWithClaims L masses_decode mc_Registered now token (token_key m)"

(* src: utils/jwtUtils.go:276-304 AnalyseAdminToken *)
definition AnalyseAdminToken :: "jwt_lib \<Rightarrow> jwt_key_manager \<Rightarrow> gotime \<Rightarrow> string \<Rightarrow> err + admin_claims" where
  "AnalyseAdminToken L m now token = ParseWithClaims L admin_decode ac_Registered now token (token_key m)"

definition token_expired :: err where
  "token_expired = utf8 [0x54, 0x6F, 0x6B, 0x65, 0x6E, 0xE5, 0xB7, 0xB2, 0xE8, 0xBF, 0x87, 0xE6, 0x9C, 0x9F]"

(* src: utils/jwtUtils.go:318-323 parseToken *)
definition parseToken :: "gotime \<Rightarrow> int \<Rightarrow> err option" where
  "parseToken now expiry = (if expiry < go_unix now then Some token_expired else None)"

(* src: utils/jwtUtils.go:307-316 ParseToken *)
definition ParseToken :: "jwt_lib \<Rightarrow> jwt_key_manager \<Rightarrow> gotime \<Rightarrow> string \<Rightarrow> err option" where
  "ParseToken L m now token =
     (case AnalyseUserToken L m now token of
        Inl e \<Rightarrow> Some e
      | Inr claims \<Rightarrow> if cc_Exp claims < go_unix now then Some token_expired else None)"

end
