(* ===== verification/Gateway_Auth.thy ===== *)
theory Gateway_Auth
  imports Jwt_Tokens
begin

text \<open>
  The gateway's token checks (\<^verbatim>\<open>src/app/gateway/middlewares/auth.go\<close>) and its response codes
  (\<^verbatim>\<open>src/app/gateway/types/code.go\<close>). A check ends by going on with the next handler or by aborting the chain. The
  functions \<^verbatim>\<open>types.ResponseError\<close> and \<^verbatim>\<open>types.ResponseErrorWithMsg\<close> it answers with are not defined in the
  repository: the model records with what they are called. Logging and tracing are left out.
\<close>

section \<open>Model\<close>

subsection \<open>Response codes\<close>

(* src: app/gateway/types/code.go:8-22 ResCode, constants *)
datatype res_code = CodeSuccess | CodeInvalidParam | CodeUnauthorized | CodeForbidden | CodeNotFound | CodeUpstreamError
  | CodeTimeout | CodeServerBusy | AuthenticationTimeout | OtherCode int

(* src: app/gateway/types/code.go:8-22 ResCode, constants *)
fun res_code_int :: "res_code \<Rightarrow> int" where
  "res_code_int CodeSuccess = 1000"
| "res_code_int CodeInvalidParam = 1001"
| "res_code_int CodeUnauthorized = 1002"
| "res_code_int CodeForbidden = 1003"
| "res_code_int CodeNotFound = 1004"
| "res_code_int CodeUpstreamError = 1005"
| "res_code_int CodeTimeout = 1006"
| "res_code_int CodeServerBusy = 1007"
| "res_code_int AuthenticationTimeout = 1419"
| "res_code_int (OtherCode n) = n"

definition server_busy :: string where
  "server_busy = utf8 [0xE6, 0x9C, 0x8D, 0xE5, 0x8A, 0xA1, 0xE7, 0xB9, 0x81, 0xE5, 0xBF, 0x99]"

(* src: app/gateway/types/code.go:24-43 codeMsgMap, ResCode.Msg *)
fun Msg :: "res_code \<Rightarrow> string" where
  "Msg CodeSuccess = ''success''"
| "Msg CodeInvalidParam = utf8 [0xE8, 0xAF, 0xB7, 0xE6, 0xB1, 0x82, 0xE5, 0x8F, 0x82, 0xE6, 0x95, 0xB0, 0xE9, 0x94, 0x99, 0xE8, 0xAF, 0xAF]"
| "Msg CodeUnauthorized = utf8 [0xE6, 0x9C, 0xAA, 0xE8, 0xAE, 0xA4, 0xE8, 0xAF, 0x81]"
| "Msg CodeForbidden = utf8 [0xE6, 0x97, 0xA0, 0xE6, 0x9D, 0x83, 0xE9, 0x99, 0x90]"
| "Msg CodeNotFound = utf8 [0xE6, 0x9C, 0xAA, 0xE6, 0x89, 0xBE, 0xE5, 0x88, 0xB0]"
| "Msg CodeUpstreamError = utf8 [0xE4, 0xB8, 0x8A, 0xE6, 0xB8, 0xB8, 0xE6, 0x9C, 0x8D, 0xE5, 0x8A, 0xA1, 0xE9, 0x94, 0x99, 0xE8, 0xAF, 0xAF]"
| "Msg CodeTimeout = utf8 [0xE8, 0xAF, 0xB7, 0xE6, 0xB1, 0x82, 0xE8, 0xB6, 0x85, 0xE6, 0x97, 0xB6]"
| "Msg CodeServerBusy = server_busy"
| "Msg AuthenticationTimeout = utf8 [0xE8, 0xBA, 0xAB, 0xE4, 0xBB, 0xBD, 0xE8, 0xAE, 0xA4, 0xE8, 0xAF, 0x81, 0xE8, 0xBF, 0x87, 0xE6, 0x9C, 0x9F]"
| "Msg (OtherCode n) = server_busy"

(* src: app/gateway/types/code.go:46-67 ResCode.ToHTTPStatus *)
fun ToHTTPStatus :: "res_code \<Rightarrow> nat" where
  "ToHTTPStatus CodeSuccess = 200"
| "ToHTTPStatus CodeInvalidParam = 400"
| "ToHTTPStatus CodeUnauthorized = 401"
| "ToHTTPStatus AuthenticationTimeout = 401"
| "ToHTTPStatus CodeForbidden = 403"
| "ToHTTPStatus CodeNotFound = 404"
| "ToHTTPStatus CodeTimeout = 504"
| "ToHTTPStatus CodeUpstreamError = 502"
| "ToHTTPStatus CodeServerBusy = 500"
| "ToHTTPStatus (OtherCode _) = 500"

subsection \<open>Token checks\<close>

datatype gateway_reply = ResponseError res_code | ResponseErrorWithMsg res_code string

datatype auth_end = AuthNext gin_keys | AuthAbort "gateway_reply list"

definition unauthorized :: auth_end where
  "unauthorized = AuthAbort [ResponseErrorWithMsg CodeUnauthorized ''Unauthorized'']"

(* src: app/gateway/middlewares/auth.go:18-75 AuthUserCheck *)
definition AuthUserCheck :: "jwt_lib \<Rightarrow> jwt_key_manager \<Rightarrow> gotime \<Rightarrow> gin_request \<Rightarrow> auth_end" where
  "AuthUserCheck L m now c =
     (let auth = GetHeader c ''token''
      in if auth = [] then unauthorized
         else case AnalyseUserToken L m now auth of
                Inl _ \<Rightarrow> unauthorized
              | Inr claims \<Rightarrow>
                  AuthNext ((rq_Keys c)(''open_id'' \<mapsto> CtxStr (cc_OpenId claims), ''stu_num'' \<mapsto> CtxStr (cc_StuNum claims))))"

(* src: app/gateway/middlewares/auth.go:77-133 AuthAdminCheck *)
definition AuthAdminCheck :: "jwt_lib \<Rightarrow> jwt_key_manager \<Rightarrow> gotime \<Rightarrow> gin_request \<Rightarrow> auth_end" where
  "AuthAdminCheck L m now c =
     (let auth = GetHeader c ''token''
      in if auth = [] then unauthorized
         else case AnalyseAdminToken L m now auth of
                Inl _ \<Rightarrow> unauthorized
              | Inr claims \<Rightarrow> AuthNext ((rq_Keys c)(''organization'' \<mapsto> CtxInt (uint (ac_Organization claims)))))"

text \<open>\<open>unlink\<close> removes a key from the user service's Redis.\<close>

(* src: app/gateway/middlewares/auth.go:135-213 AuthMassesCheck *)
definition AuthMassesCheck ::
  "jwt_lib \<Rightarrow> jwt_key_manager \<Rightarrow> (string \<Rightarrow> 'w \<Rightarrow> err option \<times> 'w) \<Rightarrow> gotime \<Rightarrow> gin_request \<Rightarrow> 'w \<Rightarrow> auth_end \<times> 'w" where
  "AuthMassesCheck L m unlink now c w =
     (let auth = GetHeader c ''token''
      in if auth = [] then (unauthorized, w)
         else case AnalyseMassesToken L m now auth of
                Inl _ \<Rightarrow> (unauthorized, w)
              | Inr claims \<Rightarrow>
                  (case ParseToken L m now auth of
                     Some _ \<Rightarrow>
                       (case unlink (mc_OpenId claims) w of
                          (Some e, w') \<Rightarrow> (AuthAbort [ResponseError AuthenticationTimeout, ResponseErrorWithMsg CodeServerBusy e], w')
                        | (None, w') \<Rightarrow> (AuthAbort [ResponseError AuthenticationTimeout], w'))
                   | None \<Rightarrow>
                       (AuthNext ((rq_Keys c)(''open_id'' \<mapsto> CtxStr (mc_OpenId claims), ''nick_name'' \<mapsto> CtxStr (mc_NickName claims))), w)))"

text \<open>
  \<^verbatim>\<open>RequestTimeout\<close> runs the chain and answers afterwards when the deadline has passed: \<open>handled\<close> is what the chain
  answered and \<open>expired\<close> whether the context had reached its deadline when it came back.
\<close>

(* src: app/gateway/middlewares/auth.go:216-228 RequestTimeout *)
definition RequestTimeout :: "bool \<Rightarrow> gateway_reply list \<Rightarrow> gateway_reply list" where
  "RequestTimeout expired handled = (if expired then handled @ [ResponseError CodeTimeout] else handled)"

section \<open>Properties\<close>

lemma ToHTTPStatus_success: "ToHTTPStatus c = 200 \<longleftrightarrow> c = CodeSuccess"
  by (cases c) simp_all

lemma GetCurrentKey_iff: "GetCurrentKey m = Inr (key, kid) \<longleftrightarrow> kid = jk_currentKeyID m \<and> jk_keys m kid = Some key"
  by (auto simp: GetCurrentKey_def split: option.split)

lemma parse_issued:
  assumes "jwt_laws L" and "GetCurrentKey m = Inr (key, kid)" and "jk_keys m' kid = Some key"
  shows "jl_Parse L (issue L m p) (token_key m') = Inr p"
proof -
  from assms(1) obtain t where t: "jl_SignedString L (Some kid) key p = Inr t" unfolding jwt_laws_def by blast
  have "token_key m' (Some kid) = Inr key" using assms(3) by (simp add: token_key_def GetKeyByID_def)
  with assms(1) t have "jl_Parse L t (token_key m') = Inr p" unfolding jwt_laws_def by blast
  with t assms(2) show ?thesis by (simp add: issue_def)
qed

lemma validate_no_expiry: "jwt_laws L \<Longrightarrow> rg_ExpiresAt rg = None \<Longrightarrow> jl_Validate L now rg = None"
  by (simp add: jwt_laws_def)

lemma ParseWithClaims_issued:
  assumes "jwt_laws L" and "GetCurrentKey m = Inr (key, kid)" and "jk_keys m' kid = Some key"
    and "decode p = Inr c" and "rg_ExpiresAt (registered c) = None"
  shows "ParseWithClaims L decode registered now (issue L m p) (token_key m') = Inr c"
  using assms(4) validate_no_expiry [OF assms(1,5)]
  by (simp add: ParseWithClaims_def parse_issued [OF assms(1-3)] bind_sum_def)

lemmas payload_defs = custom_decode_def admin_decode_def masses_decode_def custom_json_def admin_json_def masses_json_def
  with_iat_def fresh_registered_def bind_sum_def text_field_def int64_field_def uint32_field_def registered_field_def

text \<open>Expiry times a token can carry: those of an \<^verbatim>\<open>int64\<close>.\<close>

definition lifetime_ok :: "jwt_config \<Rightarrow> gotime \<Rightarrow> bool" where
  "lifetime_ok cfg now \<longleftrightarrow> - (2 ^ 63) \<le> getExpirationTime cfg now \<and> getExpirationTime cfg now < 2 ^ 63"

definition seen_registered :: "gotime \<Rightarrow> registered_claims" where
  "seen_registered now = \<lparr> rg_ExpiresAt = None, rg_IssuedAt = Some (go_unix now) \<rparr>"

definition user_payload :: "jwt_config \<Rightarrow> gotime \<Rightarrow> string \<Rightarrow> string \<Rightarrow> payload" where
  "user_payload cfg now openid stunum = custom_json \<lparr> cc_OpenId = openid, cc_StuNum = stunum,
     cc_Exp = getExpirationTime cfg now, cc_Registered = fresh_registered cfg now \<rparr>"

lemma decode_user_payload:
  assumes "lifetime_ok cfg now"
  shows "custom_decode (user_payload cfg now openid stunum)
      = Inr \<lparr> cc_OpenId = openid, cc_StuNum = stunum, cc_Exp = getExpirationTime cfg now, cc_Registered = seen_registered now \<rparr>"
    and "admin_decode (user_payload cfg now openid stunum)
      = Inr \<lparr> ac_OpenId = openid, ac_Organization = 0, ac_Exp = getExpirationTime cfg now, ac_Registered = seen_registered now \<rparr>"
    and "masses_decode (user_payload cfg now openid stunum)
      = Inr \<lparr> mc_OpenId = openid, mc_NickName = [], mc_Exp = getExpirationTime cfg now, mc_Registered = seen_registered now \<rparr>"
  using assms by (simp_all add: user_payload_def payload_defs lifetime_ok_def seen_registered_def)

definition sends_token :: "string \<Rightarrow> gin_request \<Rightarrow> bool" where
  "sends_token token c \<longleftrightarrow> token \<noteq> [] \<and> rq_Header c ''token'' = Some token"

text \<open>
  C17. A user token stays good for ever: whenever it is presented, as long as the key it was signed with is still
  configured, the user check lets the request through with the user's identity, also long after its expiry. The
  expiry is written and read as the field \<^verbatim>\<open>Exp\<close>, which the JWT package does not look at, and the check does not
  either.
\<close>

theorem user_token_never_expires:
  assumes "jwt_laws L" and "GetCurrentKey m = Inr (key, kid)" and "jk_keys m' kid = Some key" and "lifetime_ok cfg now"
    and "sends_token (GenerateUserToken L cfg m now openid stunum) c"
  shows "AuthUserCheck L m' later c = AuthNext ((rq_Keys c)(''open_id'' \<mapsto> CtxStr openid, ''stu_num'' \<mapsto> CtxStr stunum))"
proof -
  have "AnalyseUserToken L m' later (issue L m (user_payload cfg now openid stunum))
      = Inr \<lparr> cc_OpenId = openid, cc_StuNum = stunum, cc_Exp = getExpirationTime cfg now, cc_Registered = seen_registered now \<rparr>"
    unfolding AnalyseUserToken_def
    by (rule ParseWithClaims_issued [OF assms(1-3)]) (simp_all add: decode_user_payload assms(4) seen_registered_def)
  with assms(5) show ?thesis
    by (simp add: AuthUserCheck_def sends_token_def GetHeader_def GenerateUserToken_def user_payload_def)
qed

text \<open>
  The three kinds of tokens are signed with the same key and nothing in them tells them apart: the administrator
  check accepts the token of any user, at any time, as one of organization 0.
\<close>

theorem user_token_passes_admin_check:
  assumes "jwt_laws L" and "GetCurrentKey m = Inr (key, kid)" and "jk_keys m' kid = Some key" and "lifetime_ok cfg now"
    and "sends_token (GenerateUserToken L cfg m now openid stunum) c"
  shows "AuthAdminCheck L m' later c = AuthNext ((rq_Keys c)(''organization'' \<mapsto> CtxInt 0))"
proof -
  have "AnalyseAdminToken L m' later (issue L m (user_payload cfg now openid stunum))
      = Inr \<lparr> ac_OpenId = openid, ac_Organization = 0, ac_Exp = getExpirationTime cfg now, ac_Registered = seen_registered now \<rparr>"
    unfolding AnalyseAdminToken_def
    by (rule ParseWithClaims_issued [OF assms(1-3)]) (simp_all add: decode_user_payload assms(4) seen_registered_def)
  with assms(5) show ?thesis
    by (simp add: AuthAdminCheck_def sends_token_def GetHeader_def GenerateUserToken_def user_payload_def)
qed

text \<open>
  A concrete JWT package for the witnesses. A token is a list of parts, each closed by a dot: whether there is a key
  identifier, the identifier, the key (in place of a signature), and three parts for every field of the payload.
\<close>

definition part :: "string \<Rightarrow> string" where
  "part s = concat (map (\<lambda>c. [CHR ''x'', c]) s) @ ''.''"

fun parts_of :: "string \<Rightarrow> string \<Rightarrow> string list" where
  "parts_of acc (d # c # rest) = (if d = CHR ''x'' then parts_of (acc @ [c]) rest else acc # parts_of [] (c # rest))"
| "parts_of acc [d] = [acc]"
| "parts_of acc [] = []"

definition signed_digits :: "int \<Rightarrow> string" where
  "signed_digits n = (if n < 0 then CHR ''-'' else CHR ''+'') # replicate (nat \<bar>n\<bar>) (CHR ''1'')"

definition digits_int :: "string \<Rightarrow> int" where
  "digits_int s = (if take 1 s = ''-'' then - int (length (tl s)) else int (length (tl s)))"

fun field_parts :: "string \<times> jvalue \<Rightarrow> string list" where
  "field_parts (k, JText s) = [k, ''t'', s]"
| "field_parts (k, JNumber n) = [k, ''n'', signed_digits n]"

fun fields_of :: "string list \<Rightarrow> payload" where
  "fields_of (k # ty # v # rest) = (k, if ty = ''t'' then JText v else JNumber (digits_int v)) # fields_of rest"
| "fields_of _ = []"

definition demo_jwt :: jwt_lib where
  "demo_jwt = \<lparr>
     jl_SignedString = \<lambda>kid key p. Inr (concat (map part
       ((case kid of None \<Rightarrow> [''0'', []] | Some k \<Rightarrow> [''1'', k]) @ key # concat (map field_parts p)))),
     jl_Parse = \<lambda>t keyfunc.
       (case parts_of [] t of
          flag # k # key # flds \<Rightarrow>
            (case keyfunc (if flag = ''1'' then Some k else None) of
               Inl e \<Rightarrow> Inl e
             | Inr key' \<Rightarrow> if key' = key then Inr (fields_of flds) else Inl ''signature is invalid'')
        | _ \<Rightarrow> Inl ''token is malformed''),
     jl_Validate = \<lambda>now rg. (case rg_ExpiresAt rg of
       None \<Rightarrow> None | Some e \<Rightarrow> if go_unix now < e then None else Some ''token is expired'') \<rparr>"

lemma parts_of_part: "parts_of acc (part s @ rest) = (acc @ s) # parts_of [] rest"
proof (induction s arbitrary: acc)
  case Nil
  show ?case by (cases rest) (simp_all add: part_def)
next
  case (Cons c s)
  from Cons [of "acc @ [c]"] show ?case by (simp add: part_def)
qed

lemma parts_of_concat: "parts_of [] (concat (map part ss)) = ss"
  by (induction ss) (simp_all add: parts_of_part)

lemma digits_int_signed: "digits_int (signed_digits n) = n"
  by (simp add: digits_int_def signed_digits_def)

lemma fields_of_parts: "fields_of (concat (map field_parts p)) = p"
proof (induction p)
  case (Cons f p)
  obtain k v where f: "f = (k, v)" by (cases f)
  from Cons show ?case by (cases v) (simp_all add: f digits_int_signed)
qed simp

lemma demo_jwt_laws: "jwt_laws demo_jwt"
  unfolding jwt_laws_def
proof (intro conjI allI impI)
  fix kid key p t and keyfunc :: "string option \<Rightarrow> err + string"
  assume t: "jl_SignedString demo_jwt kid key p = Inr t" and k: "keyfunc kid = Inr key"
  from t have "parts_of [] t = (case kid of None \<Rightarrow> [''0'', []] | Some k \<Rightarrow> [''1'', k]) @ key # concat (map field_parts p)"
    by (auto simp: demo_jwt_def parts_of_concat simp del: concat_append map_append list.map concat.simps)
  with k show "jl_Parse demo_jwt t keyfunc = Inr p"
    by (cases kid) (simp_all add: demo_jwt_def fields_of_parts)
next
  fix t p and keyfunc :: "string option \<Rightarrow> err + string"
  assume "jl_Parse demo_jwt t keyfunc = Inr p"
  then show "\<exists>kid key. keyfunc kid = Inr key"
    by (auto simp: demo_jwt_def split: list.splits sum.splits if_splits)
qed (auto simp: demo_jwt_def split: option.splits if_splits)

definition demo_manager :: jwt_key_manager where
  "demo_manager = \<lparr> jk_keys = [''v1'' \<mapsto> ''secret''], jk_currentKeyID = ''v1'' \<rparr>"

definition rotated_manager :: jwt_key_manager where
  "rotated_manager = UpdateJWTKeys [''v1'' \<mapsto> ''secret'', ''v2'' \<mapsto> ''other''] ''v2'' demo_manager"

definition demo_config :: jwt_config where
  "demo_config = \<lparr> jc_keys = Map.empty, jc_currentKeyId = ''v1'', jc_expirationHours = 0 \<rparr>"

definition token_request :: "string \<Rightarrow> gin_request" where
  "token_request token = \<lparr> rq_Method = ''GET'', rq_FullPath = ''/bill'', rq_Path = ''/bill'', rq_ClientIP = ''::1'',
     rq_Header = [''token'' \<mapsto> token], rq_Keys = Map.empty \<rparr>"

lemma demo_token:
  "GetCurrentKey demo_manager = Inr (''secret'', ''v1'')" "jk_keys rotated_manager ''v1'' = Some ''secret''"
  "lifetime_ok demo_config 0"
  "sends_token (GenerateUserToken demo_jwt demo_config demo_manager 0 ''o'' ''s'')
     (token_request (GenerateUserToken demo_jwt demo_config demo_manager 0 ''o'' ''s''))"
proof -
  show k: "GetCurrentKey demo_manager = Inr (''secret'', ''v1'')" by (simp add: GetCurrentKey_def demo_manager_def)
  show "jk_keys rotated_manager ''v1'' = Some ''secret''" by (simp add: rotated_manager_def UpdateJWTKeys_def UpdateKeys_def)
  show "lifetime_ok demo_config 0"
    by (simp add: lifetime_ok_def getExpirationTime_def demo_config_def wrap64_def go_unix_def hour_def minute_def second_def)
  have "part s \<noteq> []" for s by (simp add: part_def)
  then have "issue demo_jwt demo_manager p \<noteq> []" for p
    by (simp add: issue_def k demo_jwt_def)
  then show "sends_token (GenerateUserToken demo_jwt demo_config demo_manager 0 ''o'' ''s'')
     (token_request (GenerateUserToken demo_jwt demo_config demo_manager 0 ''o'' ''s''))"
    by (simp add: sends_token_def token_request_def GenerateUserToken_def)
qed

theorem user_token_never_expires_witness:
  "AuthUserCheck demo_jwt rotated_manager (10 ^ 30) (token_request (GenerateUserToken demo_jwt demo_config demo_manager 0 ''o'' ''s''))
     = AuthNext [''open_id'' \<mapsto> CtxStr ''o'', ''stu_num'' \<mapsto> CtxStr ''s'']"
  using user_token_never_expires [OF demo_jwt_laws demo_token] by (simp add: token_request_def)

theorem user_token_passes_admin_check_witness:
  "AuthAdminCheck demo_jwt rotated_manager 0 (token_request (GenerateUserToken demo_jwt demo_config demo_manager 0 ''o'' ''s''))
     = AuthNext [''organization'' \<mapsto> CtxInt 0]"
  using user_token_passes_admin_check [OF demo_jwt_laws demo_token] by (simp add: token_request_def)

text \<open>The check of the outside players is the only one that looks at the expiry, in a second pass over the token.\<close>

definition masses_payload :: "jwt_config \<Rightarrow> gotime \<Rightarrow> string \<Rightarrow> string \<Rightarrow> payload" where
  "masses_payload cfg now openid nick = masses_json \<lparr> mc_OpenId = openid, mc_NickName = nick,
     mc_Exp = getExpirationTime cfg now, mc_Registered = fresh_registered cfg now \<rparr>"

lemma masses_check_spec:
  assumes "jwt_laws L" and "GetCurrentKey m = Inr (key, kid)" and "jk_keys m' kid = Some key" and "lifetime_ok cfg now"
    and "sends_token (GenerateMassesToken L cfg m now openid nick) c"
  shows "AuthMassesCheck L m' unlink later c w =
    (if getExpirationTime cfg now < go_unix later
       then (AuthAbort (ResponseError AuthenticationTimeout # (case fst (unlink openid w) of
               None \<Rightarrow> [] | Some e \<Rightarrow> [ResponseErrorWithMsg CodeServerBusy e])), snd (unlink openid w))
     else (AuthNext ((rq_Keys c)(''open_id'' \<mapsto> CtxStr openid, ''nick_name'' \<mapsto> CtxStr nick)), w))"
proof -
  let ?t = "issue L m (masses_payload cfg now openid nick)"
  have "AnalyseMassesToken L m' later ?t = Inr \<lparr> mc_OpenId = openid, mc_NickName = nick,
      mc_Exp = getExpirationTime cfg now, mc_Registered = seen_registered now \<rparr>"
    unfolding AnalyseMassesToken_def
    by (rule ParseWithClaims_issued [OF assms(1-3)])
       (use assms(4) in \<open>simp_all add: masses_payload_def payload_defs seen_registered_def lifetime_ok_def\<close>)
  moreover have "AnalyseUserToken L m' later ?t = Inr \<lparr> cc_OpenId = openid, cc_StuNum = [],
      cc_Exp = getExpirationTime cfg now, cc_Registered = seen_registered now \<rparr>"
    unfolding AnalyseUserToken_def
    by (rule ParseWithClaims_issued [OF assms(1-3)])
       (use assms(4) in \<open>simp_all add: masses_payload_def payload_defs seen_registered_def lifetime_ok_def\<close>)
  ultimately show ?thesis using assms(5)
    by (simp add: AuthMassesCheck_def ParseToken_def sends_token_def GetHeader_def GenerateMassesToken_def masses_payload_def
        split: prod.split option.split)
qed

text \<open>
  The keys are read when the package is initialised, before \<^verbatim>\<open>config.InitConfig\<close> reads the configuration, and the
  function that would load them again is never started. A program that starts this way issues empty tokens and
  refuses every request.
\<close>

theorem no_login_without_keys:
  assumes "jwt_laws L" and "jc_keys cfg = Map.empty"
  shows "let m = initJWTKeyManager cfg
         in GenerateUserToken L cfg' m now openid stunum = []
            \<and> AuthUserCheck L m later c = unauthorized
            \<and> AuthAdminCheck L m later c = unauthorized
            \<and> fst (AuthMassesCheck L m unlink later c w) = unauthorized"
proof -
  define m where "m = initJWTKeyManager cfg"
  have none: "jk_keys m = Map.empty" using assms(2) by (simp add: m_def initJWTKeyManager_def loadJWTKeys_def)
  have key: "\<exists>e. token_key m kid = Inl e" for kid
    by (simp add: none token_key_def GetCurrentKey_def GetKeyByID_def Let_def split: option.split)
  have "jl_Parse L t (token_key m) \<noteq> Inr p" for t p
  proof
    assume "jl_Parse L t (token_key m) = Inr p"
    then obtain kid k where "token_key m kid = Inr k" using assms(1) unfolding jwt_laws_def by blast
    with key [of kid] show False by auto
  qed
  then have parse: "\<exists>e. jl_Parse L t (token_key m) = Inl e" for t
    by (metis sum.exhaust)
  have failed: "\<exists>e. ParseWithClaims L decode reg later t (token_key m) = Inl e" for decode :: "payload \<Rightarrow> err + 'x" and reg t
    using parse [of t] by (auto simp: ParseWithClaims_def bind_sum_def)
  have user: "\<exists>e. AnalyseUserToken L m later t = Inl e" for t
    using failed by (simp add: AnalyseUserToken_def)
  have admin: "\<exists>e. AnalyseAdminToken L m later t = Inl e" for t
    using failed by (simp add: AnalyseAdminToken_def)
  have masses: "\<exists>e. AnalyseMassesToken L m later t = Inl e" for t
    using failed by (simp add: AnalyseMassesToken_def)
  have "issue L m p = []" for p by (simp add: issue_def GetCurrentKey_def none)
  then have "GenerateUserToken L cfg' m now openid stunum = []" by (simp add: GenerateUserToken_def)
  moreover have "AuthUserCheck L m later c = unauthorized"
    using user [of "GetHeader c ''token''"] by (auto simp: AuthUserCheck_def Let_def)
  moreover have "AuthAdminCheck L m later c = unauthorized"
    using admin [of "GetHeader c ''token''"] by (auto simp: AuthAdminCheck_def Let_def)
  moreover have "fst (AuthMassesCheck L m unlink later c w) = unauthorized"
    using masses [of "GetHeader c ''token''"] by (auto simp: AuthMassesCheck_def Let_def)
  ultimately show ?thesis by (simp add: m_def Let_def)
qed

theorem no_login_without_keys_witness:
  "GenerateUserToken demo_jwt demo_config (initJWTKeyManager demo_config) 0 ''o'' ''s'' = []
   \<and> AuthUserCheck demo_jwt (initJWTKeyManager demo_config) 0 (token_request ''t'') = unauthorized"
  using no_login_without_keys [OF demo_jwt_laws, of demo_config demo_config 0 "''o''" "''s''" 0 "token_request ''t''"
        "\<lambda>k w. (None, w)" "()"]
  by (simp add: demo_config_def Let_def)

end
