(* ===== verification/Jwt_Manager.thy ===== *)
theory Jwt_Manager
  imports Prelude
begin

text \<open>
  The token manager of \<^verbatim>\<open>src/app/common/security/jwt_manager.go\<close>: signing keys that can be rotated, access tokens, and
  refresh tokens kept in a store, with the in-memory store of the same file.

  The JWT package is a parameter (\<open>tm_sign\<close>, \<open>tm_parse\<close>; what it promises is \<open>access_laws\<close>); random bytes, rendered as hex, and
  the clock are arguments. The store hands out pointers: a refresh that marks its token as used writes into the store's own
  record at once, and the \<^verbatim>\<open>Save\<close> after it writes the same record again. The model saves it once.
  \<^verbatim>\<open>RefreshAccessToken\<close> takes no lock between looking at the token and marking it, so it is two steps here.
\<close>

section \<open>Model\<close>

(* src: app/common/security/jwt_manager.go:33-42 RefreshToken *)
record refresh_token =
  rt_ID :: string
  rt_UserID :: string
  rt_Token :: string
  rt_ExpiresAt :: gotime
  rt_CreatedAt :: gotime
  rt_IsUsed :: bool
  rt_ClientIP :: string
  rt_UserAgent :: string

(* src: app/common/security/jwt_manager.go:45-50 TokenPair *)
record token_pair =
  tp_AccessToken :: string
  tp_RefreshToken :: string
  tp_ExpiresIn :: int
  tp_TokenType :: string

(* src: app/common/security/jwt_manager.go:53-61 Claims *)
record access_claims =
  acl_UserID :: string
  acl_Username :: string
  acl_Roles :: "string list"
  acl_Permissions :: "string list"
  acl_ClientID :: string
  acl_SessionID :: string
  acl_Issuer :: string
  acl_Subject :: string
  acl_Audience :: "string list"
  acl_ExpiresAt :: gotime
  acl_NotBefore :: gotime
  acl_IssuedAt :: gotime
  acl_JTI :: string

(* src: app/common/security/jwt_manager.go:24-30 RefreshTokenStore *)
record 'w refresh_store =
  rs_Save :: "refresh_token \<Rightarrow> 'w \<Rightarrow> err option \<times> 'w"
  rs_Get :: "string \<Rightarrow> 'w \<Rightarrow> (err + refresh_token) \<times> 'w"
  rs_Delete :: "string \<Rightarrow> 'w \<Rightarrow> err option \<times> 'w"
  rs_DeleteByUserID :: "string \<Rightarrow> 'w \<Rightarrow> err option \<times> 'w"
  rs_Cleanup :: "gotime \<Rightarrow> 'w \<Rightarrow> err option \<times> 'w"

(* src: app/common/security/jwt_manager.go:14-21 JWTManager *)
record token_manager =
  tm_accessTokenTTL :: duration
  tm_refreshTokenTTL :: duration
  tm_keys :: "string \<rightharpoonup> string"
  tm_currentKeyID :: string

(* src: app/common/security/jwt_manager.go:64-71 NewJWTManager *)
definition NewJWTManager :: "duration \<Rightarrow> duration \<Rightarrow> token_manager" where
  "NewJWTManager accessTokenTTL refreshTokenTTL =
     \<lparr> tm_accessTokenTTL = accessTokenTTL, tm_refreshTokenTTL = refreshTokenTTL, tm_keys = Map.empty, tm_currentKeyID = [] \<rparr>"

subsection \<open>Keys\<close>

text \<open>\<open>key\<close> is the drawn key as hex, or the error of the random source; \<open>keyID\<close> the drawn identifier.\<close>

(* src: app/common/security/jwt_manager.go:74-90 JWTManager.GenerateKeyPair *)
definition GenerateKeyPair :: "err + string \<Rightarrow> string \<Rightarrow> token_manager \<Rightarrow> (err + string \<times> string) \<times> token_manager" where
  "GenerateKeyPair key keyID m =
     (case key of
        Inl e \<Rightarrow> (Inl (''failed to generate random key: '' @ e), m)
      | Inr k \<Rightarrow> (Inr (keyID, k), m\<lparr> tm_keys := (tm_keys m)(keyID \<mapsto> k), tm_currentKeyID := keyID \<rparr>))"

(* src: app/common/security/jwt_manager.go:93-97 JWTManager.SetKey *)
definition tm_SetKey :: "string \<Rightarrow> string \<Rightarrow> token_manager \<Rightarrow> token_manager" where
  "tm_SetKey keyID key m = m\<lparr> tm_keys := (tm_keys m)(keyID \<mapsto> key) \<rparr>"

(* src: app/common/security/jwt_manager.go:100-110 JWTManager.SetCurrentKey *)
definition SetCurrentKey :: "string \<Rightarrow> token_manager \<Rightarrow> err option \<times> token_manager" where
  "SetCurrentKey keyID m =
     (case tm_keys m keyID of
        None \<Rightarrow> (Some (''key not found: '' @ keyID), m) | Some _ \<Rightarrow> (None, m\<lparr> tm_currentKeyID := keyID \<rparr>))"

subsection \<open>Access tokens\<close>

text \<open>
  \<open>tm_sign kid key claims\<close> is \<^verbatim>\<open>SignedString\<close> of a token with HS256 and that \<^verbatim>\<open>kid\<close> header; \<open>tm_parse\<close> parses, asks for the key of
  the token's method and \<^verbatim>\<open>kid\<close>, checks the signature and validates the registered claims.
\<close>

datatype jwt_method = HMACMethod | OtherMethod string

record jwt_codec =
  tm_sign :: "string \<Rightarrow> string \<Rightarrow> access_claims \<Rightarrow> err + string"
  tm_parse :: "gotime \<Rightarrow> string \<Rightarrow> (jwt_method \<Rightarrow> string option \<Rightarrow> err + string) \<Rightarrow> err + access_claims"

text \<open>
  The key is read under the lock, the header takes the current key identifier a second time without it: \<open>later\<close> is the
  manager at that moment.
\<close>

(* src: app/common/security/jwt_manager.go:113-145 JWTManager.GenerateAccessToken *)
definition GenerateAccessToken ::
  "jwt_codec \<Rightarrow> token_manager \<Rightarrow> token_manager \<Rightarrow> gotime \<Rightarrow> string \<Rightarrow> string \<Rightarrow> string \<Rightarrow> string list \<Rightarrow> string list \<Rightarrow> string \<Rightarrow> string \<Rightarrow> err + string" where
  "GenerateAccessToken J m later now jti userID username roles permissions clientID sessionID =
     (case tm_keys m (tm_currentKeyID m) of
        None \<Rightarrow> Inl ''current key not found''
      | Some key \<Rightarrow>
          tm_sign J (tm_currentKeyID later) key
            \<lparr> acl_UserID = userID, acl_Username = username, acl_Roles = roles, acl_Permissions = permissions, acl_ClientID = clientID,
              acl_SessionID = sessionID, acl_Issuer = ''platform'', acl_Subject = userID, acl_Audience = [''platform-api''],
              acl_ExpiresAt = now + tm_accessTokenTTL m, acl_NotBefore = now, acl_IssuedAt = now, acl_JTI = jti \<rparr>)"

(* src: app/common/security/jwt_manager.go:193-216 JWTManager.ValidateAccessToken (key function) *)
definition access_key :: "token_manager \<Rightarrow> jwt_method \<Rightarrow> string option \<Rightarrow> err + string" where
  "access_key m alg kid =
     (case alg of
        OtherMethod a \<Rightarrow> Inl (''unexpected signing method: '' @ a)
      | HMACMethod \<Rightarrow>
          (case kid of
             None \<Rightarrow> Inl ''missing key ID''
           | Some keyID \<Rightarrow> (case tm_keys m keyID of None \<Rightarrow> Inl (''key not found: '' @ keyID) | Some key \<Rightarrow> Inr key)))"

(* src: app/common/security/jwt_manager.go:192-231 JWTManager.ValidateAccessToken *)
definition ValidateAccessToken :: "jwt_codec \<Rightarrow> token_manager \<Rightarrow> gotime \<Rightarrow> string \<Rightarrow> err + access_claims" where
  "ValidateAccessToken J m now tokenString =
     (case tm_parse J now tokenString (access_key m) of
        Inl e \<Rightarrow> Inl (''failed to parse token: '' @ e) | Inr claims \<Rightarrow> Inr claims)"

subsection \<open>Refresh tokens\<close>

(* src: app/common/security/jwt_manager.go:148-167 JWTManager.GenerateRefreshToken *)
definition GenerateRefreshToken ::
  "token_manager \<Rightarrow> 'w refresh_store \<Rightarrow> gotime \<Rightarrow> string \<Rightarrow> string \<Rightarrow> string \<Rightarrow> string \<Rightarrow> string \<Rightarrow> 'w \<Rightarrow> (err + refresh_token) \<times> 'w" where
  "GenerateRefreshToken m S now tokenID token userID clientIP userAgent w =
     (let refreshToken = \<lparr> rt_ID = tokenID, rt_UserID = userID, rt_Token = token, rt_ExpiresAt = now + tm_refreshTokenTTL m,
            rt_CreatedAt = now, rt_IsUsed = False, rt_ClientIP = clientIP, rt_UserAgent = userAgent \<rparr>
      in case rs_Save S refreshToken w of
           (Some e, w') \<Rightarrow> (Inl (''failed to save refresh token: '' @ e), w')
         | (None, w') \<Rightarrow> (Inr refreshToken, w'))"

text \<open>The random strings one pair takes: the identifier of the access token, that of the refresh token, and the refresh token.\<close>

record draws =
  dr_jti :: string
  dr_tokenID :: string
  dr_token :: string

(* src: app/common/security/jwt_manager.go:170-189 JWTManager.GenerateTokenPair *)
definition GenerateTokenPair ::
  "jwt_codec \<Rightarrow> token_manager \<Rightarrow> 'w refresh_store \<Rightarrow> gotime \<Rightarrow> draws \<Rightarrow> string \<Rightarrow> string \<Rightarrow> string list \<Rightarrow> string list \<Rightarrow> string \<Rightarrow> string
   \<Rightarrow> string \<Rightarrow> string \<Rightarrow> 'w \<Rightarrow> (err + token_pair) \<times> 'w" where
  "GenerateTokenPair J m S now d userID username roles permissions clientID sessionID clientIP userAgent w =
     (case GenerateAccessToken J m m now (dr_jti d) userID username roles permissions clientID sessionID of
        Inl e \<Rightarrow> (Inl (''failed to generate access token: '' @ e), w)
      | Inr accessToken \<Rightarrow>
          (case GenerateRefreshToken m S now (dr_tokenID d) (dr_token d) userID clientIP userAgent w of
             (Inl e, w') \<Rightarrow> (Inl (''failed to generate refresh token: '' @ e), w')
           | (Inr refreshToken, w') \<Rightarrow>
               (Inr \<lparr> tp_AccessToken = accessToken, tp_RefreshToken = rt_Token refreshToken,
                      tp_ExpiresIn = sgn (tm_accessTokenTTL m) * (\<bar>tm_accessTokenTTL m\<bar> div second), tp_TokenType = ''Bearer'' \<rparr>, w')))"

text \<open>The first step of a refresh: the token and the checks.\<close>

(* src: app/common/security/jwt_manager.go:235-249 JWTManager.RefreshAccessToken (checks) *)
definition refresh_check :: "'w refresh_store \<Rightarrow> gotime \<Rightarrow> string \<Rightarrow> 'w \<Rightarrow> (err + refresh_token) \<times> 'w" where
  "refresh_check S now refreshTokenString w =
     (case rs_Get S refreshTokenString w of
        (Inl e, w') \<Rightarrow> (Inl (''failed to get refresh token: '' @ e), w')
      | (Inr refreshToken, w') \<Rightarrow>
          if rt_ExpiresAt refreshToken < now then (Inl ''refresh token expired'', w')
          else if rt_IsUsed refreshToken then (Inl ''refresh token already used'', w')
          else (Inr refreshToken, w'))"

text \<open>The second step: the token is marked, saved (an error is ignored) and a new pair made for fixed user data.\<close>

(* src: app/common/security/jwt_manager.go:251-265 JWTManager.RefreshAccessToken (new pair) *)
definition refresh_issue ::
  "jwt_codec \<Rightarrow> token_manager \<Rightarrow> 'w refresh_store \<Rightarrow> gotime \<Rightarrow> draws \<Rightarrow> string \<Rightarrow> refresh_token \<Rightarrow> 'w \<Rightarrow> (err + token_pair) \<times> 'w" where
  "refresh_issue J m S now d sessionID refreshToken w =
     (let w1 = snd (rs_Save S (refreshToken\<lparr> rt_IsUsed := True \<rparr>) w)
      in GenerateTokenPair J m S now d (rt_UserID refreshToken) ''user'' [''user''] [''read'', ''write''] ''default'' sessionID
           (rt_ClientIP refreshToken) (rt_UserAgent refreshToken) w1)"

(* src: app/common/security/jwt_manager.go:234-266 JWTManager.RefreshAccessToken *)
definition RefreshAccessToken ::
  "jwt_codec \<Rightarrow> token_manager \<Rightarrow> 'w refresh_store \<Rightarrow> gotime \<Rightarrow> draws \<Rightarrow> string \<Rightarrow> string \<Rightarrow> 'w \<Rightarrow> (err + token_pair) \<times> 'w" where
  "RefreshAccessToken J m S now d sessionID refreshTokenString w =
     (case refresh_check S now refreshTokenString w of
        (Inl e, w') \<Rightarrow> (Inl e, w') | (Inr refreshToken, w') \<Rightarrow> refresh_issue J m S now d sessionID refreshToken w')"

(* src: app/common/security/jwt_manager.go:269-271 JWTManager.RevokeRefreshToken *)
definition RevokeRefreshToken :: "'w refresh_store \<Rightarrow> string \<Rightarrow> 'w \<Rightarrow> err option \<times> 'w" where
  "RevokeRefreshToken S tokenID = rs_Delete S tokenID"

(* src: app/common/security/jwt_manager.go:274-276 JWTManager.RevokeUserTokens *)
definition RevokeUserTokens :: "'w refresh_store \<Rightarrow> string \<Rightarrow> 'w \<Rightarrow> err option \<times> 'w" where
  "RevokeUserTokens S userID = rs_DeleteByUserID S userID"

(* src: app/common/security/jwt_manager.go:279-281 JWTManager.CleanupExpiredTokens *)
definition CleanupExpiredTokens :: "'w refresh_store \<Rightarrow> gotime \<Rightarrow> 'w \<Rightarrow> err option \<times> 'w" where
  "CleanupExpiredTokens S now = rs_Cleanup S now"

subsection \<open>The store in memory\<close>

(* src: app/common/security/jwt_manager.go:305-308 MemoryRefreshTokenStore *)
type_synonym memory_tokens = "string \<rightharpoonup> refresh_token"

(* src: app/common/security/jwt_manager.go:311-315 NewMemoryRefreshTokenStore *)
definition NewMemoryRefreshTokenStore :: memory_tokens where
  "NewMemoryRefreshTokenStore = Map.empty"

(* src: app/common/security/jwt_manager.go:318-323 MemoryRefreshTokenStore.Save *)
definition mem_Save :: "refresh_token \<Rightarrow> memory_tokens \<Rightarrow> err option \<times> memory_tokens" where
  "mem_Save token tokens = (None, tokens(rt_Token token \<mapsto> token))"

(* src: app/common/security/jwt_manager.go:326-336 MemoryRefreshTokenStore.Get *)
definition mem_Get :: "string \<Rightarrow> memory_tokens \<Rightarrow> (err + refresh_token) \<times> memory_tokens" where
  "mem_Get tokenID tokens =
     (case tokens tokenID of None \<Rightarrow> Inl ''refresh token not found'' | Some token \<Rightarrow> Inr token, tokens)"

(* src: app/common/security/jwt_manager.go:339-344 MemoryRefreshTokenStore.Delete *)
definition mem_Delete :: "string \<Rightarrow> memory_tokens \<Rightarrow> err option \<times> memory_tokens" where
  "mem_Delete tokenID tokens = (None, tokens(tokenID := None))"

(* src: app/common/security/jwt_manager.go:347-358 MemoryRefreshTokenStore.DeleteByUserID *)
definition mem_DeleteByUserID :: "string \<Rightarrow> memory_tokens \<Rightarrow> err option \<times> memory_tokens" where
  "mem_DeleteByUserID userID tokens =
     (None, \<lambda>k. case tokens k of None \<Rightarrow> None | Some t \<Rightarrow> if rt_UserID t = userID then None else Some t)"

(* src: app/common/security/jwt_manager.go:361-373 MemoryRefreshTokenStore.Cleanup *)
definition mem_Cleanup :: "gotime \<Rightarrow> memory_tokens \<Rightarrow> err option \<times> memory_tokens" where
  "mem_Cleanup now tokens =
     (None, \<lambda>k. case tokens k of None \<Rightarrow> None | Some t \<Rightarrow> if rt_ExpiresAt t < now then None else Some t)"

definition memory_store :: "memory_tokens refresh_store" where
  "memory_store = \<lparr> rs_Save = mem_Save, rs_Get = mem_Get, rs_Delete = mem_Delete, rs_DeleteByUserID = mem_DeleteByUserID,
     rs_Cleanup = mem_Cleanup \<rparr>"

subsection \<open>Use of the store\<close>

datatype token_op =
    OpLogin gotime draws string string string
  | OpRefresh gotime draws string string
  | OpRevoke string
  | OpRevokeUser string
  | OpCleanup gotime

fun token_apply :: "jwt_codec \<Rightarrow> token_manager \<Rightarrow> 'w refresh_store \<Rightarrow> token_op \<Rightarrow> 'w \<Rightarrow> 'w" where
  "token_apply J m S (OpLogin now d userID ip agent) w = snd (GenerateRefreshToken m S now (dr_tokenID d) (dr_token d) userID ip agent w)"
| "token_apply J m S (OpRefresh now d sessionID r) w = snd (RefreshAccessToken J m S now d sessionID r w)"
| "token_apply J m S (OpRevoke r) w = snd (RevokeRefreshToken S r w)"
| "token_apply J m S (OpRevokeUser u) w = snd (RevokeUserTokens S u w)"
| "token_apply J m S (OpCleanup now) w = snd (CleanupExpiredTokens S now w)"

definition token_run :: "jwt_codec \<Rightarrow> token_manager \<Rightarrow> 'w refresh_store \<Rightarrow> token_op list \<Rightarrow> 'w \<Rightarrow> 'w" where
  "token_run J m S ops w = fold (token_apply J m S) ops w"

text \<open>The random tokens a run draws.\<close>

fun drawn :: "token_op \<Rightarrow> string set" where
  "drawn (OpLogin _ d _ _ _) = {dr_token d}"
| "drawn (OpRefresh _ d _ _) = {dr_token d}"
| "drawn _ = {}"

section \<open>Properties\<close>

subsection \<open>The contract of a store\<close>

locale refresh_tokens =
  fixes S :: "'w refresh_store" and contents :: "'w \<Rightarrow> string \<Rightarrow> refresh_token option"
  assumes Save: "fst (rs_Save S t w) = None" "contents (snd (rs_Save S t w)) = (contents w)(rt_Token t \<mapsto> t)"
    and Get: "contents w k = None \<Longrightarrow> \<exists>e. fst (rs_Get S k w) = Inl e" "contents w k = Some t \<Longrightarrow> fst (rs_Get S k w) = Inr t"
      "contents (snd (rs_Get S k w)) = contents w"
    and Delete: "contents (snd (rs_Delete S k w)) = (contents w)(k := None)"
    and DeleteByUserID: "contents (snd (rs_DeleteByUserID S u w)) k \<in> {None, contents w k}"
    and Cleanup: "contents (snd (rs_Cleanup S now w)) k \<in> {None, contents w k}"
begin

definition keyed_by_token :: "'w \<Rightarrow> bool" where
  "keyed_by_token w \<longleftrightarrow> (\<forall>k t. contents w k = Some t \<longrightarrow> rt_Token t = k)"

definition spent :: "string \<Rightarrow> 'w \<Rightarrow> bool" where
  "spent r w \<longleftrightarrow> (\<forall>t. contents w r = Some t \<longrightarrow> rt_IsUsed t)"

lemma check_result:
  "(\<exists>e. fst (refresh_check S now r w) = Inl e)
   \<or> (\<exists>t. fst (refresh_check S now r w) = Inr t \<and> contents w r = Some t \<and> \<not> rt_IsUsed t \<and> now \<le> rt_ExpiresAt t)"
proof (cases "contents w r")
  case None
  then obtain e where "fst (rs_Get S r w) = Inl e" using Get(1) by blast
  then show ?thesis by (cases "rs_Get S r w") (simp add: refresh_check_def)
next
  case (Some t)
  then have "fst (rs_Get S r w) = Inr t" by (rule Get(2))
  with Some show ?thesis by (cases "rs_Get S r w") (simp add: refresh_check_def)
qed

lemma check_contents: "contents (snd (refresh_check S now r w)) = contents w"
  using Get(3) [of r w] by (cases "rs_Get S r w") (simp add: refresh_check_def split: sum.split)

lemma login_contents:
  "contents (snd (GenerateRefreshToken m S now i tok u ip a w))
    = (contents w)(tok \<mapsto> \<lparr> rt_ID = i, rt_UserID = u, rt_Token = tok, rt_ExpiresAt = now + tm_refreshTokenTTL m, rt_CreatedAt = now,
        rt_IsUsed = False, rt_ClientIP = ip, rt_UserAgent = a \<rparr>)"
  by (simp add: GenerateRefreshToken_def Let_def Save split: prod.split option.split) (metis Save(2) refresh_token.select_convs(3) snd_conv)

lemma login_succeeds: "\<exists>t. fst (GenerateRefreshToken m S now i tok u ip a w) = Inr t \<and> rt_Token t = tok"
proof -
  have "fst (rs_Save S t w) = None" for t by (rule Save(1))
  then show ?thesis by (auto simp: GenerateRefreshToken_def Let_def split: prod.split option.split) (metis fst_conv option.distinct(1))
qed

lemma pair_contents:
  "contents (snd (GenerateTokenPair J m S now d u n rs ps c se ip a w)) = contents w
   \<or> (\<exists>t. rt_Token t = dr_token d \<and> contents (snd (GenerateTokenPair J m S now d u n rs ps c se ip a w)) = (contents w)(dr_token d \<mapsto> t))"
proof (cases "GenerateAccessToken J m m now (dr_jti d) u n rs ps c se")
  case (Inr tok)
  have "snd (GenerateTokenPair J m S now d u n rs ps c se ip a w)
      = snd (GenerateRefreshToken m S now (dr_tokenID d) (dr_token d) u ip a w)"
    by (simp add: GenerateTokenPair_def Inr split: prod.split sum.split)
  then show ?thesis
    by (intro disjI2 exI [of _ "\<lparr> rt_ID = dr_tokenID d, rt_UserID = u, rt_Token = dr_token d, rt_ExpiresAt = now + tm_refreshTokenTTL m,
        rt_CreatedAt = now, rt_IsUsed = False, rt_ClientIP = ip, rt_UserAgent = a \<rparr>"]) (simp add: login_contents)
qed (simp add: GenerateTokenPair_def)

lemma refresh_contents:
  assumes "keyed_by_token w"
  obtains (failed) e where "fst (refresh_check S now r w) = Inl e"
      "contents (snd (RefreshAccessToken J m S now d se r w)) = contents w"
      "fst (RefreshAccessToken J m S now d se r w) = Inl e"
  | (marked) t where "contents w r = Some t" "\<not> rt_IsUsed t"
      "contents (snd (RefreshAccessToken J m S now d se r w)) = (contents w)(r \<mapsto> t\<lparr> rt_IsUsed := True \<rparr>)"
  | (issued) t t' where "contents w r = Some t" "\<not> rt_IsUsed t" "rt_Token t' = dr_token d"
      "contents (snd (RefreshAccessToken J m S now d se r w)) = (contents w)(r \<mapsto> t\<lparr> rt_IsUsed := True \<rparr>, dr_token d \<mapsto> t')"
proof -
  obtain res w1 where c: "refresh_check S now r w = (res, w1)" by fastforce
  have w1: "contents w1 = contents w" using check_contents [of now r w] c by simp
  show thesis
  proof (cases res)
    case (Inl e)
    with c w1 failed show ?thesis by (simp add: RefreshAccessToken_def)
  next
    case (Inr t)
    with check_result [of now r w] c have t: "contents w r = Some t" "\<not> rt_IsUsed t" by auto
    then have key: "rt_Token t = r" using assms by (simp add: keyed_by_token_def)
    define w2 where "w2 = snd (rs_Save S (t\<lparr> rt_IsUsed := True \<rparr>) w1)"
    have w2: "contents w2 = (contents w)(r \<mapsto> t\<lparr> rt_IsUsed := True \<rparr>)" by (simp add: w2_def Save(2) w1 key)
    have "snd (RefreshAccessToken J m S now d se r w) = snd (GenerateTokenPair J m S now d (rt_UserID t) ''user'' [''user'']
        [''read'', ''write''] ''default'' se (rt_ClientIP t) (rt_UserAgent t) w2)"
      by (simp add: RefreshAccessToken_def c Inr refresh_issue_def w2_def Let_def)
    with pair_contents [of J m now d "rt_UserID t" "''user''" "[''user'']" "[''read'', ''write'']" "''default''" se "rt_ClientIP t" "rt_UserAgent t" w2]
    show ?thesis using marked issued t w2 by auto
  qed
qed

text \<open>Every entry stays under its own token, and a spent token stays spent until it is drawn again.\<close>

lemma keyed_smaller:
  assumes "keyed_by_token w" "\<And>k. contents w' k \<in> {None, contents w k}"
  shows "keyed_by_token w'"
proof -
  have "rt_Token t = k" if "contents w' k = Some t" for k t
    using assms(2) [of k] assms(1) that by (auto simp: keyed_by_token_def)
  then show ?thesis by (simp add: keyed_by_token_def)
qed

lemma apply_keyed:
  assumes k: "keyed_by_token w"
  shows "keyed_by_token (token_apply J m S op w)"
proof (cases op)
  case (OpLogin now d u ip a)
  then show ?thesis using k by (auto simp: keyed_by_token_def login_contents)
next
  case (OpRefresh now d se r)
  show ?thesis
    by (rule refresh_contents [OF k, of now r J m d se]) (use k OpRefresh in \<open>auto simp: keyed_by_token_def\<close>)
next
  case (OpRevoke r)
  show ?thesis by (rule keyed_smaller [OF k]) (simp add: OpRevoke RevokeRefreshToken_def Delete)
next
  case (OpRevokeUser u)
  then show ?thesis using k by (auto simp: RevokeUserTokens_def intro: keyed_smaller [OF _ DeleteByUserID])
next
  case (OpCleanup now)
  then show ?thesis using k by (auto simp: CleanupExpiredTokens_def intro: keyed_smaller [OF _ Cleanup])
qed

lemma apply_spent:
  assumes k: "keyed_by_token w" and sp: "spent r w" and new: "r \<notin> drawn op"
  shows "spent r (token_apply J m S op w)"
proof (cases op)
  case (OpLogin now d u ip a)
  then show ?thesis using sp new by (auto simp: spent_def login_contents)
next
  case (OpRefresh now d se r')
  show ?thesis
    by (rule refresh_contents [OF k, of now r' J m d se]) (use sp new OpRefresh in \<open>auto simp: spent_def\<close>)
next
  case (OpRevoke r')
  then show ?thesis using sp by (auto simp: spent_def RevokeRefreshToken_def Delete)
next
  case (OpRevokeUser u)
  then show ?thesis using sp DeleteByUserID [of u w r] by (auto simp: spent_def RevokeUserTokens_def)
next
  case (OpCleanup now)
  then show ?thesis using sp Cleanup [of now w r] by (auto simp: spent_def CleanupExpiredTokens_def)
qed

lemma run_keyed: "keyed_by_token w \<Longrightarrow> keyed_by_token (token_run J m S ops w)"
  unfolding token_run_def by (induction ops arbitrary: w) (auto intro: apply_keyed)

lemma run_spent:
  "keyed_by_token w \<Longrightarrow> spent r w \<Longrightarrow> (\<And>op. op \<in> set ops \<Longrightarrow> r \<notin> drawn op) \<Longrightarrow> spent r (token_run J m S ops w)"
  unfolding token_run_def by (induction ops arbitrary: w) (auto intro: apply_keyed apply_spent)

lemma refresh_spends:
  assumes k: "keyed_by_token w" and ok: "fst (RefreshAccessToken J m S now d se r w) = Inr p" and new: "dr_token d \<noteq> r"
  shows "spent r (snd (RefreshAccessToken J m S now d se r w))"
  by (rule refresh_contents [OF k, of now r J m d se]) (use ok new in \<open>auto simp: spent_def\<close>)

lemma spent_rejected: "spent r w \<Longrightarrow> \<exists>e. fst (RefreshAccessToken J m S now d se r w) = Inl e"
  using check_result [of now r w] by (cases "refresh_check S now r w") (auto simp: RefreshAccessToken_def spent_def)

lemma used_once:
  assumes "keyed_by_token w" "fst (RefreshAccessToken J m S now d se r w) = Inr p" "dr_token d \<noteq> r"
    and "\<And>op. op \<in> set ops \<Longrightarrow> r \<notin> drawn op"
  shows "\<exists>e. fst (RefreshAccessToken J' m' S now' d' se' r (token_run J m S ops (snd (RefreshAccessToken J m S now d se r w)))) = Inl e"
proof -
  have "keyed_by_token (snd (RefreshAccessToken J m S now d se r w))"
    using apply_keyed [OF assms(1), of J m "OpRefresh now d se r"] by simp
  then show ?thesis using refresh_spends [OF assms(1-3)] assms(4) by (intro spent_rejected run_spent)
qed

end

interpretation mem: refresh_tokens memory_store "\<lambda>w. w"
  by unfold_locales
    (auto simp: memory_store_def mem_Save_def mem_Get_def mem_Delete_def mem_DeleteByUserID_def mem_Cleanup_def split: option.splits)

lemma new_keyed: "mem.keyed_by_token NewMemoryRefreshTokenStore"
  by (simp add: mem.keyed_by_token_def NewMemoryRefreshTokenStore_def)

subsection \<open>Single use\<close>


definition demo_tok_codec :: jwt_codec where
  "demo_tok_codec = \<lparr> tm_sign = \<lambda>kid key claims. Inr (kid @ ''.'' @ acl_JTI claims), tm_parse = \<lambda>now tok key. Inl ''token is malformed'' \<rparr>"

definition demo_tok_manager :: token_manager where
  "demo_tok_manager = snd (GenerateKeyPair (Inr ''00'') ''k1'' (NewJWTManager (15 * minute) (7 * 24 * hour)))"

definition demo_tok_draws :: "string \<Rightarrow> draws" where
  "demo_tok_draws s = \<lparr> dr_jti = ''j'' @ s, dr_tokenID = ''i'' @ s, dr_token = ''r'' @ s \<rparr>"

lemmas demo_tok_defs = demo_tok_codec_def demo_tok_manager_def demo_tok_draws_def GenerateKeyPair_def NewJWTManager_def NewMemoryRefreshTokenStore_def
  memory_store_def mem_Save_def mem_Get_def mem_Delete_def RefreshAccessToken_def refresh_check_def refresh_issue_def
  GenerateTokenPair_def GenerateAccessToken_def GenerateRefreshToken_def RevokeRefreshToken_def Let_def token_run_def
  minute_def second_def hour_def


subsection \<open>Two refreshes at once\<close>

text \<open>
  Single use does not survive two requests at once: when both have looked at the same unused token before either marks it, and
  signing does not fail, both get a pair, with different refresh tokens when the random source draws different ones.
\<close>

theorem concurrent_refresh_both_succeed:
  assumes "fst (refresh_check memory_store now1 r w) = Inr t" and "fst (refresh_check memory_store now2 r w) = Inr t'"
    and "tm_keys m (tm_currentKeyID m) \<noteq> None" and sign: "\<And>kid key claims. \<exists>s. tm_sign J kid key claims = Inr s"
  shows "\<exists>p1 p2. fst (refresh_issue J m memory_store now1 d1 s1 t w) = Inr p1
    \<and> fst (refresh_issue J m memory_store now2 d2 s2 t' (snd (refresh_issue J m memory_store now1 d1 s1 t w))) = Inr p2
    \<and> tp_RefreshToken p1 = dr_token d1 \<and> tp_RefreshToken p2 = dr_token d2"
proof -
  obtain key where key: "tm_keys m (tm_currentKeyID m) = Some key" using assms(3) by blast
  define f where "f kid k c = projr (tm_sign J kid k c)" for kid k c
  have f: "tm_sign J kid k c = Inr (f kid k c)" for kid k c using sign [of kid k c] by (auto simp: f_def)
  have "\<exists>p. fst (refresh_issue J m memory_store now d se u v) = Inr p \<and> tp_RefreshToken p = dr_token d" for now d se u v
    by (simp add: refresh_issue_def GenerateTokenPair_def GenerateAccessToken_def GenerateRefreshToken_def memory_store_def mem_Save_def
        key f Let_def)
  then show ?thesis by blast
qed

definition demo_tok_store :: memory_tokens where
  "demo_tok_store = token_run demo_tok_codec demo_tok_manager memory_store [OpLogin 0 (demo_tok_draws ''1'') ''u'' [] []] NewMemoryRefreshTokenStore"

definition demo_tok_token :: refresh_token where
  "demo_tok_token = \<lparr> rt_ID = ''i1'', rt_UserID = ''u'', rt_Token = ''r1'', rt_ExpiresAt = 7 * 24 * hour, rt_CreatedAt = 0, rt_IsUsed = False,
     rt_ClientIP = [], rt_UserAgent = [] \<rparr>"

lemma demo_tok_check: "now \<le> 10 \<Longrightarrow> fst (refresh_check memory_store now ''r1'' demo_tok_store) = Inr demo_tok_token"
  by (simp add: demo_tok_defs demo_tok_store_def demo_tok_token_def)

lemma concurrent_refresh_both_succeed_witness:
  "\<exists>p1 p2. fst (refresh_issue demo_tok_codec demo_tok_manager memory_store 1 (demo_tok_draws ''2'') [] demo_tok_token demo_tok_store) = Inr p1
    \<and> fst (refresh_issue demo_tok_codec demo_tok_manager memory_store 2 (demo_tok_draws ''3'') [] demo_tok_token
        (snd (refresh_issue demo_tok_codec demo_tok_manager memory_store 1 (demo_tok_draws ''2'') [] demo_tok_token demo_tok_store))) = Inr p2
    \<and> tp_RefreshToken p1 = dr_token (demo_tok_draws ''2'') \<and> tp_RefreshToken p2 = dr_token (demo_tok_draws ''3'')"
  by (rule concurrent_refresh_both_succeed [OF demo_tok_check demo_tok_check])
    (simp_all add: demo_tok_codec_def demo_tok_manager_def GenerateKeyPair_def NewJWTManager_def)

subsection \<open>Revocation\<close>

text \<open>The store is keyed by the token itself: revoking by the identifier of a token leaves it good for a refresh.\<close>

lemma revoke_by_id_keeps_token:
  "i \<noteq> r \<Longrightarrow> snd (RevokeRefreshToken memory_store i w) r = w r"
  by (simp add: RevokeRefreshToken_def memory_store_def mem_Delete_def)

lemma revoked_token_is_refused:
  "\<exists>e. fst (RefreshAccessToken J m memory_store now d se r (snd (RevokeRefreshToken memory_store r w))) = Inl e"
  by (rule mem.spent_rejected) (simp add: mem.spent_def RevokeRefreshToken_def memory_store_def mem_Delete_def)

text \<open>Without a current key a refresh takes the token and gives nothing for it.\<close>

lemma keyless_refresh_spends:
  assumes "w r = Some t" "rt_Token t = r" "\<not> rt_IsUsed t" "now \<le> rt_ExpiresAt t" "tm_keys m (tm_currentKeyID m) = None"
  shows "RefreshAccessToken J m memory_store now d se r w
    = (Inl ''failed to generate access token: current key not found'', w(r \<mapsto> t\<lparr> rt_IsUsed := True \<rparr>))"
  using assms by (simp add: RefreshAccessToken_def refresh_check_def refresh_issue_def GenerateTokenPair_def GenerateAccessToken_def
      memory_store_def mem_Save_def mem_Get_def Let_def)

end
