(* ===== verification/Load_Balancer.thy ===== *)
theory Load_Balancer
  imports Exchange_Sort Name_Registry
begin

text \<open>
  The load balancers of \<^verbatim>\<open>src/app/common/discovery/load_balancer.go\<close> over the service instances
  of \<^verbatim>\<open>service_registry.go\<close>. A selection is an instance, Go's nil instance, an error, or a panic
  (an index out of range). \<^verbatim>\<open>rand.Intn(n)\<close> is the next of an arbitrary sequence of draws, reduced
  modulo \<open>n\<close>. Instance pointers are never nil.
\<close>

(* src: app/common/discovery/service_registry.go:14-25 ServiceInstance *)
record service_instance =
  si_ID :: string
  si_Name :: string
  si_Address :: string
  si_Port :: int
  si_Version :: string
  si_Health :: string
  si_Metadata :: "(string \<times> string) list"
  si_LastSeen :: gotime
  si_Weight :: int
  si_Tags :: "string list"

datatype selection = Selected service_instance | SelectedNil | SelectErr err | SelectPanic

(* src: app/common/discovery/load_balancer.go:379-392 ErrNoInstances, LoadBalancerError *)
definition ErrNoInstances :: err where
  "ErrNoInstances = ''no service instances available''"

definition ErrNoHealthyInstances :: err where
  "ErrNoHealthyInstances = ''no healthy service instances available''"

definition ErrUnknownStrategy :: err where
  "ErrUnknownStrategy = ''unknown load balancing strategy''"

text \<open>The filter loop every balancer starts with.\<close>

(* src: app/common/discovery/load_balancer.go:32-38 Select (healthy filter) *)
fun healthyInstances :: "service_instance list \<Rightarrow> service_instance list" where
  "healthyInstances [] = []"
| "healthyInstances (i # is) =
     (if si_Health i = ''healthy'' then i # healthyInstances is else healthyInstances is)"

definition pick :: "service_instance list \<Rightarrow> int \<Rightarrow> selection" where
  "pick is k = (case go_index is k of Some i \<Rightarrow> Selected i | None \<Rightarrow> SelectPanic)"

subsection \<open>Round robin and random\<close>

(* src: app/common/discovery/load_balancer.go:16-24 RoundRobinLoadBalancer, NewRoundRobinLoadBalancer *)
record round_robin =
  rr_current :: int

(* src: app/common/discovery/load_balancer.go:27-50 RoundRobinLoadBalancer.Select *)
definition rr_Select :: "round_robin \<Rightarrow> service_instance list \<Rightarrow> selection \<times> round_robin" where
  "rr_Select rr is =
     (if is = [] then (SelectErr ErrNoInstances, rr)
      else let hs = healthyInstances is in
        if hs = [] then (SelectErr ErrNoHealthyInstances, rr)
        else case pick hs (go_mod (rr_current rr) (int (length hs))) of
          SelectPanic \<Rightarrow> (SelectPanic, rr)
        | s \<Rightarrow> (s, rr\<lparr>rr_current := wrap64 (rr_current rr + 1)\<rparr>))"

(* src: app/common/discovery/load_balancer.go:58-67 RandomLoadBalancer, NewRandomLoadBalancer *)
record random_lb =
  rl_draws :: "nat \<Rightarrow> nat"
  rl_pos :: nat

(* src: app/common/discovery/load_balancer.go:70-89 RandomLoadBalancer.Select *)
definition rl_Select :: "random_lb \<Rightarrow> service_instance list \<Rightarrow> selection \<times> random_lb" where
  "rl_Select r is =
     (if is = [] then (SelectErr ErrNoInstances, r)
      else let hs = healthyInstances is in
        if hs = [] then (SelectErr ErrNoHealthyInstances, r)
        else (pick hs (int (rl_draws r (rl_pos r) mod length hs)), r\<lparr>rl_pos := rl_pos r + 1\<rparr>))"

subsection \<open>Weighted round robin\<close>

(* src: app/common/discovery/load_balancer.go:97-106 WeightedRoundRobinLoadBalancer, NewWeightedRoundRobinLoadBalancer *)
record weighted_rr =
  wrr_current :: int
  wrr_weights :: "int list"

(* src: app/common/discovery/load_balancer.go:129-133 Select (total weight) *)
definition totalWeight :: "service_instance list \<Rightarrow> int" where
  "totalWeight hs = fold (\<lambda>i t. wrap64 (t + si_Weight i)) hs 0"

(* src: app/common/discovery/load_balancer.go:142-152 Select (weight loop) *)
fun weight_loop :: "service_instance list \<Rightarrow> int \<Rightarrow> int \<Rightarrow> service_instance option" where
  "weight_loop [] cw ws = None"
| "weight_loop (i # is) cw ws =
     (let ws' = wrap64 (ws + si_Weight i)
      in if cw < ws' then Some i else weight_loop is cw ws')"

(* src: app/common/discovery/load_balancer.go:109-156 WeightedRoundRobinLoadBalancer.Select *)
definition wrr_Select :: "weighted_rr \<Rightarrow> service_instance list \<Rightarrow> selection \<times> weighted_rr" where
  "wrr_Select w is =
     (if is = [] then (SelectErr ErrNoInstances, w)
      else let hs = healthyInstances is in
        if hs = [] then (SelectErr ErrNoHealthyInstances, w)
        else let total = totalWeight hs in
          if total = 0 then
            (case pick hs (go_mod (wrr_current w) (int (length hs))) of
               SelectPanic \<Rightarrow> (SelectPanic, w)
             | s \<Rightarrow> (s, w\<lparr>wrr_current := wrap64 (wrr_current w + 1)\<rparr>))
          else case weight_loop hs (go_mod (wrr_current w) total) 0 of
            Some i \<Rightarrow> (Selected i, w\<lparr>wrr_current := wrap64 (wrr_current w + 1)\<rparr>)
          | None \<Rightarrow> (Selected (hd hs), w))"

subsection \<open>Least connections\<close>

(* src: app/common/discovery/load_balancer.go:164-174 LeastConnectionsLoadBalancer, NewLeastConnectionsLoadBalancer *)
record least_conn =
  lc_connections :: "string \<rightharpoonup> int"

definition conn_count :: "least_conn \<Rightarrow> string \<Rightarrow> int" where
  "conn_count lc cid = (case lc_connections lc cid of None \<Rightarrow> 0 | Some c \<Rightarrow> c)"

(* src: app/common/discovery/load_balancer.go:197-207 Select (minimum loop) *)
fun min_loop :: "least_conn \<Rightarrow> service_instance list \<Rightarrow> int \<Rightarrow> service_instance option \<Rightarrow> service_instance option" where
  "min_loop lc [] m sel = sel"
| "min_loop lc (i # is) m sel =
     (if conn_count lc (si_ID i) < m then min_loop lc is (conn_count lc (si_ID i)) (Some i)
      else min_loop lc is m sel)"

(* src: app/common/discovery/load_balancer.go:177-210 LeastConnectionsLoadBalancer.Select *)
definition lc_Select :: "least_conn \<Rightarrow> service_instance list \<Rightarrow> selection \<times> least_conn" where
  "lc_Select lc is =
     (if is = [] then (SelectErr ErrNoInstances, lc)
      else let hs = healthyInstances is in
        if hs = [] then (SelectErr ErrNoHealthyInstances, lc)
        else (case min_loop lc hs (2 ^ 63 - 1) None of Some i \<Rightarrow> Selected i | None \<Rightarrow> SelectedNil, lc))"

(* src: app/common/discovery/load_balancer.go:213-217 IncrementConnections *)
definition IncrementConnections :: "string \<Rightarrow> least_conn \<Rightarrow> least_conn" where
  "IncrementConnections cid lc =
     lc\<lparr>lc_connections := (lc_connections lc)(cid \<mapsto> wrap64 (conn_count lc cid + 1))\<rparr>"

(* src: app/common/discovery/load_balancer.go:220-226 DecrementConnections *)
definition DecrementConnections :: "string \<Rightarrow> least_conn \<Rightarrow> least_conn" where
  "DecrementConnections cid lc =
     (if conn_count lc cid > 0
      then lc\<lparr>lc_connections := (lc_connections lc)(cid \<mapsto> wrap64 (conn_count lc cid - 1))\<rparr> else lc)"

subsection \<open>Consistent hashing\<close>

(* src: app/common/discovery/load_balancer.go:234-245 ConsistentHashLoadBalancer, NewConsistentHashLoadBalancer *)
record consistent_hash =
  ch_ring :: "32 word \<rightharpoonup> service_instance"
  ch_keys :: "32 word list"

(* src: app/common/discovery/load_balancer.go:311-317 hash *)
definition ch_hash :: "string \<Rightarrow> 32 word" where
  "ch_hash key = fold (\<lambda>c h. h * 31 + word_of_nat c) (runes key) 0"

definition virtualKey :: "service_instance \<Rightarrow> nat \<Rightarrow> string" where
  "virtualKey i n = si_ID i @ '':'' @ rune_string n"

definition add_virtual :: "service_instance \<Rightarrow> nat \<Rightarrow> consistent_hash \<Rightarrow> consistent_hash" where
  "add_virtual i n ch =
     (let h = ch_hash (virtualKey i n)
      in ch\<lparr>ch_ring := (ch_ring ch)(h \<mapsto> i), ch_keys := ch_keys ch @ [h]\<rparr>)"

(* src: app/common/discovery/load_balancer.go:286-308 buildRing *)
definition buildRing :: "service_instance list \<Rightarrow> consistent_hash \<Rightarrow> consistent_hash" where
  "buildRing is ch =
     (let ch0 = ch\<lparr>ch_ring := Map.empty, ch_keys := []\<rparr>;
          ch1 = fold (\<lambda>i. fold (add_virtual i) [0..<150]) is ch0
      in ch1\<lparr>ch_keys := exchange_sort (\<lambda>k. k) (ch_keys ch1)\<rparr>)"

definition ring_pick :: "consistent_hash \<Rightarrow> 32 word \<Rightarrow> selection" where
  "ring_pick ch k = (case ch_ring ch k of Some i \<Rightarrow> Selected i | None \<Rightarrow> SelectedNil)"

(* src: app/common/discovery/load_balancer.go:248-283 ConsistentHashLoadBalancer.Select *)
definition ch_Select :: "string \<Rightarrow> consistent_hash \<Rightarrow> service_instance list \<Rightarrow> selection \<times> consistent_hash" where
  "ch_Select key ch is =
     (if is = [] then (SelectErr ErrNoInstances, ch)
      else let hs = healthyInstances is in
        if hs = [] then (SelectErr ErrNoHealthyInstances, ch)
        else let ch' = buildRing hs ch; h = ch_hash key in
          (case find (\<lambda>k. k \<ge> h) (ch_keys ch') of
             Some k \<Rightarrow> (ring_pick ch' k, ch')
           | None \<Rightarrow> (case ch_keys ch' of [] \<Rightarrow> (SelectPanic, ch') | k # _ \<Rightarrow> (ring_pick ch' k, ch'))))"

subsection \<open>The factory\<close>

datatype load_balancer =
  LB_RoundRobin round_robin | LB_Random random_lb | LB_Weighted weighted_rr
| LB_LeastConn least_conn | LB_ConsistentHash consistent_hash

(* src: app/common/discovery/load_balancer.go:325-327 LoadBalancerFactory *)
record lb_factory =
  lbf_strategies :: "string \<rightharpoonup> load_balancer"

(* src: app/common/discovery/load_balancer.go:356-358 RegisterStrategy *)
definition lbf_RegisterStrategy :: "string \<times> load_balancer \<Rightarrow> lb_factory \<Rightarrow> lb_factory" where
  "lbf_RegisterStrategy e f = f\<lparr>lbf_strategies := (lbf_strategies f)(fst e \<mapsto> snd e)\<rparr>"

(* src: app/common/discovery/load_balancer.go:330-353 NewLoadBalancerFactory *)
definition NewLoadBalancerFactory :: "(nat \<Rightarrow> nat) \<Rightarrow> lb_factory" where
  "NewLoadBalancerFactory draws =
     fold lbf_RegisterStrategy
       [(''round_robin'', LB_RoundRobin \<lparr>rr_current = 0\<rparr>),
        (''random'', LB_Random \<lparr>rl_draws = draws, rl_pos = 0\<rparr>),
        (''weighted_round_robin'', LB_Weighted \<lparr>wrr_current = 0, wrr_weights = []\<rparr>),
        (''least_connections'', LB_LeastConn \<lparr>lc_connections = Map.empty\<rparr>),
        (''consistent_hash'', LB_ConsistentHash \<lparr>ch_ring = Map.empty, ch_keys = []\<rparr>)]
       \<lparr>lbf_strategies = Map.empty\<rparr>"

(* src: app/common/discovery/load_balancer.go:361-367 CreateLoadBalancer *)
definition CreateLoadBalancer :: "lb_factory \<Rightarrow> string \<Rightarrow> err + load_balancer" where
  "CreateLoadBalancer f strategy =
     (case lbf_strategies f strategy of Some lb \<Rightarrow> Inr lb | None \<Rightarrow> Inl ErrUnknownStrategy)"

subsection \<open>Runs of a balancer\<close>

text \<open>Calling \<open>select\<close> \<open>n\<close> times on the same instances, collecting the selections.\<close>

fun select_n :: "('s \<Rightarrow> service_instance list \<Rightarrow> selection \<times> 's) \<Rightarrow> nat \<Rightarrow> 's \<Rightarrow> service_instance list \<Rightarrow>
    selection list \<times> 's" where
  "select_n select 0 s is = ([], s)"
| "select_n select (Suc n) s is =
     (case select s is of (r, s') \<Rightarrow> case select_n select n s' is of (rs, s'') \<Rightarrow> (r # rs, s''))"

text \<open>The cycle a weighted balancer should run through: each healthy instance as often as its weight.\<close>

definition weighted_cycle :: "service_instance list \<Rightarrow> service_instance list" where
  "weighted_cycle is = concat (map (\<lambda>i. replicate (nat (si_Weight i)) i) (healthyInstances is))"

definition weights_ok :: "service_instance list \<Rightarrow> bool" where
  "weights_ok is \<longleftrightarrow> (\<forall>i \<in> set (healthyInstances is). 0 \<le> si_Weight i)
     \<and> 0 < sum_list (map si_Weight (healthyInstances is))
     \<and> sum_list (map si_Weight (healthyInstances is)) < 2 ^ 63"

text \<open>What every balancer promises of its answer, and the invariant of the hash ring.\<close>

definition answers :: "selection \<Rightarrow> service_instance list \<Rightarrow> bool" where
  "answers r is \<longleftrightarrow>
     (if is = [] then r = SelectErr ErrNoInstances
      else if \<forall>i \<in> set is. si_Health i \<noteq> ''healthy'' then r = SelectErr ErrNoHealthyInstances
      else \<exists>i \<in> set is. r = Selected i \<and> si_Health i = ''healthy'')"

definition ring_ok :: "service_instance set \<Rightarrow> consistent_hash \<Rightarrow> bool" where
  "ring_ok I ch \<longleftrightarrow> (\<forall>k \<in> set (ch_keys ch). \<exists>i \<in> I. ch_ring ch k = Some i)"

text \<open>Sample instances for the concrete runs.\<close>

definition node :: "string \<Rightarrow> string \<Rightarrow> int \<Rightarrow> service_instance" where
  "node i h w = \<lparr>si_ID = i, si_Name = ''svc'', si_Address = ''10.0.0.1'', si_Port = 80, si_Version = ''1'',
     si_Health = h, si_Metadata = [], si_LastSeen = 0, si_Weight = w, si_Tags = []\<rparr>"

lemma healthyInstances_filter: "healthyInstances is = filter (\<lambda>i. si_Health i = ''healthy'') is"
  by (induction "is") auto

subsection \<open>The balancer contract\<close>

locale balancer =
  fixes select :: "'s \<Rightarrow> service_instance list \<Rightarrow> selection \<times> 's"
    and ok :: "'s \<Rightarrow> bool"
  assumes select_none: "select s [] = (SelectErr ErrNoInstances, s)"
    and select_unhealthy: "is \<noteq> [] \<Longrightarrow> healthyInstances is = [] \<Longrightarrow>
          select s is = (SelectErr ErrNoHealthyInstances, s)"
    and select_healthy: "ok s \<Longrightarrow> healthyInstances is \<noteq> [] \<Longrightarrow>
          \<exists>i \<in> set (healthyInstances is). fst (select s is) = Selected i"
begin

lemma select_answers: "ok s \<Longrightarrow> answers (fst (select s is)) is"
  using select_none [of s] select_unhealthy [of "is" s] select_healthy [of s "is"]
  by (auto simp: answers_def healthyInstances_filter filter_empty_conv)

lemma select_errors_keep_state:
  assumes "healthyInstances is = []"
  shows "snd (select s is) = s"
  using assms by (cases "is = []") (simp_all add: select_none select_unhealthy)

end

lemma pick_mod:
  assumes "0 \<le> k" and "hs \<noteq> []"
  shows "pick hs (go_mod k (int (length hs))) = Selected (hs ! (nat k mod length hs))"
  by (simp add: pick_def go_index_mod [OF assms])

interpretation rrb: balancer rr_Select "\<lambda>rr. 0 \<le> rr_current rr"
  by unfold_locales (auto simp: rr_Select_def pick_mod Let_def)

lemma pick_draw: "hs \<noteq> [] \<Longrightarrow> pick hs (int (k mod length hs)) = Selected (hs ! (k mod length hs))"
  by (simp add: pick_def go_index_def)

interpretation rlb: balancer rl_Select "\<lambda>_. True"
  by unfold_locales (auto simp: rl_Select_def pick_draw Let_def)

lemma weight_loop_in: "weight_loop hs cw ws = Some i \<Longrightarrow> i \<in> set hs"
  by (induction hs cw ws rule: weight_loop.induct) (auto simp: Let_def split: if_splits)

interpretation wrrb: balancer wrr_Select "\<lambda>w. 0 \<le> wrr_current w"
proof unfold_locales
  fix s :: weighted_rr and "is" assume "0 \<le> wrr_current s" and "healthyInstances is \<noteq> []"
  then show "\<exists>i \<in> set (healthyInstances is). fst (wrr_Select s is) = Selected i"
    by (cases "weight_loop (healthyInstances is) (go_mod (wrr_current s) (totalWeight (healthyInstances is))) 0")
       (auto simp: wrr_Select_def pick_mod Let_def dest: weight_loop_in)
qed (auto simp: wrr_Select_def Let_def)

lemma min_loop_spec:
  "min_loop lc hs m sel = (if \<exists>i \<in> set hs. conn_count lc (si_ID i) < m
     then min_loop lc hs m None else sel)"
  by (induction lc hs m sel rule: min_loop.induct) auto

lemma min_loop_min:
  "\<exists>i \<in> set hs. conn_count lc (si_ID i) < m \<Longrightarrow>
   \<exists>i \<in> set hs. min_loop lc hs m sel = Some i \<and> (\<forall>j \<in> set hs. conn_count lc (si_ID i) \<le> conn_count lc (si_ID j))"
proof (induction hs arbitrary: m sel)
  case (Cons h hs)
  show ?case
  proof (cases "conn_count lc (si_ID h) < m")
    case True
    show ?thesis
    proof (cases "\<exists>i \<in> set hs. conn_count lc (si_ID i) < conn_count lc (si_ID h)")
      case lt: True
      from Cons.IH [OF lt, of "Some h"] obtain i where i: "i \<in> set hs"
        "min_loop lc hs (conn_count lc (si_ID h)) (Some h) = Some i"
        "\<forall>j \<in> set hs. conn_count lc (si_ID i) \<le> conn_count lc (si_ID j)" by blast
      with lt have "conn_count lc (si_ID i) \<le> conn_count lc (si_ID h)" by force
      with i True show ?thesis by auto
    next
      case False
      then have "min_loop lc hs (conn_count lc (si_ID h)) (Some h) = Some h"
        by (subst min_loop_spec) auto
      with True False show ?thesis by (auto simp: not_less)
    qed
  next
    case False
    with Cons.prems have ex: "\<exists>i \<in> set hs. conn_count lc (si_ID i) < m" by auto
    from Cons.IH [OF ex, of sel] obtain i where i: "i \<in> set hs" "min_loop lc hs m sel = Some i"
      "\<forall>j \<in> set hs. conn_count lc (si_ID i) \<le> conn_count lc (si_ID j)" by blast
    with ex have "conn_count lc (si_ID i) < m" by force
    with i False show ?thesis by auto
  qed
qed simp

lemma lc_Select_min:
  assumes "\<forall>cid. conn_count lc cid < 2 ^ 63 - 1" and "healthyInstances is \<noteq> []"
  shows "\<exists>i \<in> set (healthyInstances is). fst (lc_Select lc is) = Selected i
     \<and> (\<forall>j \<in> set (healthyInstances is). conn_count lc (si_ID i) \<le> conn_count lc (si_ID j))"
proof -
  have "\<exists>i \<in> set (healthyInstances is). conn_count lc (si_ID i) < 2 ^ 63 - 1"
    using assms by (cases "healthyInstances is") auto
  from min_loop_min [OF this, of None] obtain i where i: "i \<in> set (healthyInstances is)"
    "min_loop lc (healthyInstances is) (2 ^ 63 - 1) None = Some i"
    "\<forall>j \<in> set (healthyInstances is). conn_count lc (si_ID i) \<le> conn_count lc (si_ID j)" by blast
  have "is \<noteq> []" using assms(2) by auto
  with i assms(2) show ?thesis by (auto simp: lc_Select_def Let_def)
qed

interpretation lcb: balancer lc_Select "\<lambda>lc. \<forall>cid. conn_count lc cid < 2 ^ 63 - 1"
proof unfold_locales
  fix s :: least_conn and "is"
  assume "\<forall>cid. conn_count s cid < 2 ^ 63 - 1" and "healthyInstances is \<noteq> []"
  from lc_Select_min [OF this] show "\<exists>i \<in> set (healthyInstances is). fst (lc_Select s is) = Selected i"
    by blast
qed (auto simp: lc_Select_def Let_def)

subsection \<open>Consistent hashing: the ring\<close>

lemma add_virtual_fields [simp]:
  "ch_keys (add_virtual i n ch) = ch_keys ch @ [ch_hash (virtualKey i n)]"
  "ch_ring (add_virtual i n ch) = (ch_ring ch)(ch_hash (virtualKey i n) \<mapsto> i)"
  by (simp_all add: add_virtual_def Let_def)

lemma ring_virtual:
  assumes "ring_ok I ch" and "i \<in> I"
  shows "ring_ok I (fold (add_virtual i) ns ch) \<and>
    ch_keys (fold (add_virtual i) ns ch) = ch_keys ch @ map (\<lambda>n. ch_hash (virtualKey i n)) ns"
  using assms(1)
proof (induction ns arbitrary: ch)
  case (Cons n ns)
  have "ring_ok I (add_virtual i n ch)" using Cons.prems assms(2) by (auto simp: ring_ok_def)
  from Cons.IH [OF this] show ?case by simp
qed simp

lemma ring_instances:
  assumes "ring_ok I ch" and "set is \<subseteq> I"
  shows "ring_ok I (fold (\<lambda>i. fold (add_virtual i) ns) is ch) \<and>
    ch_keys (fold (\<lambda>i. fold (add_virtual i) ns) is ch) =
      ch_keys ch @ concat (map (\<lambda>i. map (\<lambda>n. ch_hash (virtualKey i n)) ns) is)"
  using assms
proof (induction "is" arbitrary: ch)
  case (Cons i "is")
  note v = ring_virtual [OF Cons.prems(1), of i ns]
  show ?case using Cons.IH [of "fold (add_virtual i) ns ch"] v Cons.prems(2) by simp
qed simp

lemma buildRing_props:
  assumes "hs \<noteq> []"
  shows "sorted (ch_keys (buildRing hs ch))" and "ch_keys (buildRing hs ch) \<noteq> []"
    and "set (ch_keys (buildRing hs ch)) = {ch_hash (virtualKey i n) |i n. i \<in> set hs \<and> n < 150}"
    and "ring_ok (set hs) (buildRing hs ch)"
proof -
  let ?c1 = "fold (\<lambda>i. fold (add_virtual i) [0..<150]) hs (ch\<lparr>ch_ring := Map.empty, ch_keys := []\<rparr>)"
  have b: "buildRing hs ch = ?c1\<lparr>ch_keys := exchange_sort (\<lambda>k. k) (ch_keys ?c1)\<rparr>"
    by (simp only: buildRing_def Let_def)
  have r: "ring_ok (set hs) ?c1" 
    and k: "ch_keys ?c1 = concat (map (\<lambda>i. map (\<lambda>n. ch_hash (virtualKey i n)) [0..<150]) hs)"
    using ring_instances [of "set hs" "ch\<lparr>ch_ring := Map.empty, ch_keys := []\<rparr>" hs "[0..<150]"]
    by (simp_all add: ring_ok_def del: upt_rec_numeral)
  have s: "set (ch_keys (buildRing hs ch)) = set (ch_keys ?c1)"
    by (simp add: b set_exchange_sort del: upt_rec_numeral)
  show "ring_ok (set hs) (buildRing hs ch)"
    using r s by (simp add: ring_ok_def b del: upt_rec_numeral)
  show keys: "set (ch_keys (buildRing hs ch)) = {ch_hash (virtualKey i n) |i n. i \<in> set hs \<and> n < 150}"
    unfolding s k by (auto simp del: upt_rec_numeral) blast
  show "sorted (ch_keys (buildRing hs ch))"
    using sorted_exchange_sort [of "\<lambda>k. k" "ch_keys ?c1"] by (simp add: b del: upt_rec_numeral)
  have "ch_hash (virtualKey (hd hs) 0) \<in> set (ch_keys (buildRing hs ch))"
    unfolding keys using assms by force
  then show "ch_keys (buildRing hs ch) \<noteq> []" by auto
qed

lemma find_sorted:
  "sorted ks \<Longrightarrow> find (\<lambda>k. k \<ge> h) ks = Some k \<Longrightarrow> k \<in> set ks \<and> h \<le> k \<and> (\<forall>k' \<in> set ks. h \<le> k' \<longrightarrow> k \<le> k')"
  by (induction ks) (auto split: if_splits)

lemma ring_pick_healthy:
  assumes "hs \<noteq> []" and "k \<in> set (ch_keys (buildRing hs ch))"
  shows "\<exists>i \<in> set hs. ring_pick (buildRing hs ch) k = Selected i"
  using buildRing_props(4) [OF assms(1), of ch] assms(2) by (auto simp: ring_ok_def ring_pick_def)

lemma ch_Select_node:
  assumes "healthyInstances is \<noteq> []" and ch'_def: "ch' = buildRing (healthyInstances is) ch"
  shows "\<exists>k \<in> set (ch_keys ch'). ch_Select key ch is = (ring_pick ch' k, ch') \<and>
     (if \<exists>k' \<in> set (ch_keys ch'). ch_hash key \<le> k'
      then ch_hash key \<le> k \<and> (\<forall>k' \<in> set (ch_keys ch'). ch_hash key \<le> k' \<longrightarrow> k \<le> k')
      else (\<forall>k' \<in> set (ch_keys ch'). k \<le> k'))"
proof -
  let ?h = "ch_hash key"
  have ne: "is \<noteq> []" using assms(1) by auto
  have sel: "ch_Select key ch is = (case find (\<lambda>k. k \<ge> ?h) (ch_keys ch') of
       Some k \<Rightarrow> (ring_pick ch' k, ch')
     | None \<Rightarrow> (case ch_keys ch' of [] \<Rightarrow> (SelectPanic, ch') | k # _ \<Rightarrow> (ring_pick ch' k, ch')))"
    using assms(1) ne by (simp only: ch_Select_def ch'_def Let_def if_False)
  note ring = buildRing_props [OF assms(1), of ch, folded ch'_def]
  show ?thesis
  proof (cases "find (\<lambda>k. k \<ge> ?h) (ch_keys ch')")
    case (Some k)
    then show ?thesis using sel find_sorted [OF ring(1) Some] by auto
  next
    case None
    then have none: "\<not> (\<exists>k' \<in> set (ch_keys ch'). ?h \<le> k')" by (auto simp: find_None_iff)
    obtain k ks where "ch_keys ch' = k # ks" using ring(2) by (cases "ch_keys ch'") auto
    with None none sel ring(1) show ?thesis by auto
  qed
qed

text \<open>For a fixed key, consistent hashing honours the same contract as the other balancers.\<close>

interpretation chb: balancer "ch_Select key" "\<lambda>_. True" for key
proof unfold_locales
  fix s :: consistent_hash and "is" assume ne: "healthyInstances is \<noteq> []"
  show "\<exists>i \<in> set (healthyInstances is). fst (ch_Select key s is) = Selected i"
    using ch_Select_node [OF ne refl, of s key] ring_pick_healthy [OF ne] by fastforce
qed (auto simp: ch_Select_def Let_def)

interpretation lbf: name_registry "\<lparr>lbf_strategies = Map.empty\<rparr>" lbf_RegisterStrategy CreateLoadBalancer
  fst snd "\<lambda>_. ErrUnknownStrategy"
  by unfold_locales (auto simp: CreateLoadBalancer_def lbf_RegisterStrategy_def)

subsection \<open>Fairness of the cyclic balancers\<close>

locale cyclic_balancer =
  fixes select :: "'s \<Rightarrow> service_instance list \<Rightarrow> selection \<times> 's"
    and cur :: "'s \<Rightarrow> int"
    and cycle :: "service_instance list \<Rightarrow> service_instance list"
    and fair :: "service_instance list \<Rightarrow> bool"
  assumes select_cycle: "fair is \<Longrightarrow> 0 \<le> cur s \<Longrightarrow> cur s + 1 < 2 ^ 63 \<Longrightarrow>
        fst (select s is) = Selected (cycle is ! (nat (cur s) mod length (cycle is)))
      \<and> cur (snd (select s is)) = cur s + 1"
begin

lemma select_n_cycle:
  assumes "fair is" and "0 \<le> cur s" and "cur s + int n < 2 ^ 63"
  shows "fst (select_n select n s is) =
      map (\<lambda>k. Selected (cycle is ! ((nat (cur s) + k) mod length (cycle is)))) [0..<n]
    \<and> cur (snd (select_n select n s is)) = cur s + int n"
  using assms(2,3)
proof (induction n arbitrary: s)
  case (Suc n)
  obtain r s' where s': "select s is = (r, s')" by fastforce
  with select_cycle [OF assms(1) Suc.prems(1)] Suc.prems(2)
  have r: "r = Selected (cycle is ! (nat (cur s) mod length (cycle is)))" and c: "cur s' = cur s + 1"
    by auto
  have n: "nat (cur s + 1) = Suc (nat (cur s))" using Suc.prems(1) by simp
  have IH: "fst (select_n select n s' is) =
      map (\<lambda>k. Selected (cycle is ! ((nat (cur s) + Suc k) mod length (cycle is)))) [0..<n]"
    "cur (snd (select_n select n s' is)) = cur s + int (Suc n)"
    using Suc.IH [of s'] Suc.prems by (simp_all add: c n)
  have step: "select_n select (Suc n) s is = (r # fst (select_n select n s' is), snd (select_n select n s' is))"
    by (simp add: s' split: prod.split)
  have "[0..<Suc n] = 0 # map Suc [0..<n]" by (simp add: map_Suc_upt upt_conv_Cons del: upt_Suc)
  then show ?case unfolding step fst_conv snd_conv IH r by (simp del: upt_Suc)
qed simp

theorem round:
  assumes "fair is" and "0 \<le> cur s" and "cur s + int (length (cycle is)) < 2 ^ 63"
  shows "fst (select_n select (length (cycle is)) s is) = map Selected (rotate (nat (cur s)) (cycle is))"
  using select_n_cycle [OF assms] by (auto intro!: nth_equalityI simp: nth_rotate)

lemma round_mset:
  assumes "fair is" and "0 \<le> cur s" and "cur s + int (length (cycle is)) < 2 ^ 63"
  shows "mset (fst (select_n select (length (cycle is)) s is)) = mset (map Selected (cycle is))"
proof -
  have "mset (rotate (nat (cur s)) (cycle is)) = mset (cycle is)"
    by (simp add: rotate_drop_take) (metis append_take_drop_id mset_append union_commute)
  then show ?thesis by (simp add: round [OF assms])
qed

end

interpretation rrc: cyclic_balancer rr_Select rr_current healthyInstances "\<lambda>is. healthyInstances is \<noteq> []"
proof unfold_locales
  fix "is" and s :: round_robin
  assume ne: "healthyInstances is \<noteq> []" and "0 \<le> rr_current s" "rr_current s + 1 < 2 ^ 63"
  moreover from ne have "is \<noteq> []" by auto
  ultimately show "fst (rr_Select s is) = Selected (healthyInstances is ! (nat (rr_current s) mod length (healthyInstances is)))
    \<and> rr_current (snd (rr_Select s is)) = rr_current s + 1"
    by (simp add: rr_Select_def pick_mod Let_def wrap64_id)
qed

lemma totalWeight_aux:
  "\<lbrakk>\<forall>i \<in> set hs. 0 \<le> si_Weight i; 0 \<le> t; t + sum_list (map si_Weight hs) < 2 ^ 63\<rbrakk> \<Longrightarrow>
   fold (\<lambda>i t. wrap64 (t + si_Weight i)) hs t = t + sum_list (map si_Weight hs)"
proof (induction hs arbitrary: t)
  case (Cons h hs)
  have "0 \<le> sum_list (map si_Weight hs)" using Cons.prems(1) by (intro sum_list_nonneg) auto
  then have "wrap64 (t + si_Weight h) = t + si_Weight h" using Cons.prems by (intro wrap64_id) auto
  with Cons show ?case by (simp add: add.assoc)
qed simp

lemma length_weighted_cycle:
  assumes "\<forall>i \<in> set (healthyInstances is). 0 \<le> si_Weight i"
  shows "int (length (weighted_cycle is)) = sum_list (map si_Weight (healthyInstances is))"
proof -
  have "\<forall>i \<in> set hs. 0 \<le> si_Weight i \<Longrightarrow>
    int (length (concat (map (\<lambda>i. replicate (nat (si_Weight i)) i) hs))) = sum_list (map si_Weight hs)" for hs
    by (induction hs) auto
  from this [OF assms] show ?thesis by (simp add: weighted_cycle_def)
qed

lemma weight_loop_nth:
  "\<lbrakk>\<forall>i \<in> set hs. 0 \<le> si_Weight i; 0 \<le> ws; ws + sum_list (map si_Weight hs) < 2 ^ 63;
    cw = ws + int k; int k < sum_list (map si_Weight hs)\<rbrakk> \<Longrightarrow>
   weight_loop hs cw ws = Some (concat (map (\<lambda>i. replicate (nat (si_Weight i)) i) hs) ! k)"
proof (induction hs arbitrary: ws k)
  case (Cons h hs)
  have s: "0 \<le> sum_list (map si_Weight hs)" using Cons.prems(1) by (intro sum_list_nonneg) auto
  then have w: "wrap64 (ws + si_Weight h) = ws + si_Weight h" using Cons.prems by (intro wrap64_id) auto
  show ?case
  proof (cases "k < nat (si_Weight h)")
    case True
    then have "int k < si_Weight h" by linarith
    then show ?thesis using Cons.prems True by (simp add: w nth_append Let_def)
  next
    case False
    have "weight_loop hs cw (ws + si_Weight h) =
        Some (concat (map (\<lambda>i. replicate (nat (si_Weight i)) i) hs) ! (k - nat (si_Weight h)))"
      using Cons.prems False s by (intro Cons.IH) auto
    with False Cons.prems show ?thesis by (simp add: w nth_append Let_def)
  qed
qed simp

interpretation wrrc: cyclic_balancer wrr_Select wrr_current weighted_cycle weights_ok
proof unfold_locales
  fix "is" and s :: weighted_rr
  assume ok: "weights_ok is" and c: "0 \<le> wrr_current s" "wrr_current s + 1 < 2 ^ 63"
  let ?hs = "healthyInstances is" and ?L = "length (weighted_cycle is)"
  have ne: "?hs \<noteq> []" "is \<noteq> []" using ok by (auto simp: weights_ok_def)
  have L: "int ?L = sum_list (map si_Weight ?hs)" and pos: "0 < int ?L"
    using ok length_weighted_cycle [of "is"] by (auto simp: weights_ok_def)
  have T: "totalWeight ?hs = int ?L"
    using totalWeight_aux [of ?hs 0] ok by (simp add: totalWeight_def weights_ok_def L)
  have m: "go_mod (wrr_current s) (int ?L) = int (nat (wrr_current s) mod ?L)"
    using go_mod_nonneg [OF c(1) pos] c(1) by (simp add: zmod_int)
  have lt: "int (nat (wrr_current s) mod ?L) < sum_list (map si_Weight ?hs)"
    using pos by (simp flip: L)
  have "weight_loop ?hs (int (nat (wrr_current s) mod ?L)) 0 =
      Some (weighted_cycle is ! (nat (wrr_current s) mod ?L))"
    unfolding weighted_cycle_def
    by (rule weight_loop_nth) (use ok lt in \<open>simp_all add: weights_ok_def weighted_cycle_def\<close>)
  then show "fst (wrr_Select s is) = Selected (weighted_cycle is ! (nat (wrr_current s) mod ?L))
    \<and> wrr_current (snd (wrr_Select s is)) = wrr_current s + 1"
    using ne pos c by (simp add: wrr_Select_def Let_def T m wrap64_id)
qed

subsection \<open>Stability of the hash ring\<close>

lemma ring_virtual_lookup:
  "ch_ring (fold (add_virtual i) ns ch) k =
     (if \<exists>n \<in> set ns. ch_hash (virtualKey i n) = k then Some i else ch_ring ch k)"
  by (induction ns arbitrary: ch) auto

lemma ring_lookup:
  "ch_ring (fold (\<lambda>i. fold (add_virtual i) ns) is ch) k =
     (case find (\<lambda>i. \<exists>n \<in> set ns. ch_hash (virtualKey i n) = k) (rev is) of
        Some i \<Rightarrow> Some i | None \<Rightarrow> ch_ring ch k)"
proof (induction "is" rule: rev_induct)
  case (snoc i "is")
  then show ?case by (simp only: fold_append fold.simps o_apply id_apply ring_virtual_lookup) auto
qed simp

lemma buildRing_lookup:
  "ch_ring (buildRing hs ch) k = find (\<lambda>i. \<exists>n < 150. ch_hash (virtualKey i n) = k) (rev hs)"
  by (simp add: buildRing_def ring_lookup Let_def Bex_def conj_commute split: option.split
      del: upt_rec_numeral)

lemma find_filter:
  "find P xs = Some x \<Longrightarrow> Q x \<Longrightarrow> find P (filter Q xs) = Some x"
  by (induction xs) (auto split: if_splits)

lemma buildRing_removed:
  assumes "ch_ring (buildRing hs ch) k = Some i" and "i \<noteq> j"
  shows "ch_ring (buildRing (filter (\<lambda>x. x \<noteq> j) hs) ch) k = Some i"
  using find_filter [of _ "rev hs" i "\<lambda>x. x \<noteq> j"] assms by (simp add: buildRing_lookup rev_filter)

lemma ring_lookup_key:
  assumes "ch_ring (buildRing hs ch) k = Some i" and "hs \<noteq> []"
  shows "i \<in> set hs" and "k \<in> set (ch_keys (buildRing hs ch))"
proof -
  from find_SomeD [OF assms(1) [unfolded buildRing_lookup]]
  show "i \<in> set hs" and "k \<in> set (ch_keys (buildRing hs ch))"
    using buildRing_props(3) [OF assms(2)] by auto
qed

lemma buildRing_stateless: "buildRing hs ch = buildRing hs ch'"
proof -
  have "ch\<lparr>ch_ring := Map.empty, ch_keys := []\<rparr> = ch'\<lparr>ch_ring := Map.empty, ch_keys := []\<rparr>"
    by (cases ch; cases ch') simp
  then show ?thesis by (simp only: buildRing_def)
qed

lemma ch_Select_stateless: "fst (ch_Select key ch is) = fst (ch_Select key ch' is)"
  unfolding ch_Select_def Let_def buildRing_stateless [of _ ch ch']
  by (simp split: option.split list.split)

lemma ch_Select_removed:
  assumes sel: "fst (ch_Select key ch is) = Selected i" and "i \<noteq> j"
  shows "fst (ch_Select key ch (filter (\<lambda>x. x \<noteq> j) is)) = Selected i"
proof -
  let ?hs = "healthyInstances is" and ?hs' = "healthyInstances (filter (\<lambda>x. x \<noteq> j) is)"
  have eq: "?hs' = filter (\<lambda>x. x \<noteq> j) ?hs" by (simp add: healthyInstances_filter conj_commute)
  have ne: "?hs \<noteq> []" using sel by (auto simp: ch_Select_def split: if_splits)
  obtain k where k: "k \<in> set (ch_keys (buildRing ?hs ch))" "ch_ring (buildRing ?hs ch) k = Some i"
    and kmin: "if \<exists>k' \<in> set (ch_keys (buildRing ?hs ch)). ch_hash key \<le> k'
      then ch_hash key \<le> k \<and> (\<forall>k' \<in> set (ch_keys (buildRing ?hs ch)). ch_hash key \<le> k' \<longrightarrow> k \<le> k')
      else (\<forall>k' \<in> set (ch_keys (buildRing ?hs ch)). k \<le> k')"
    using ch_Select_node [OF ne refl, of ch key] sel by (auto simp: ring_pick_def split: option.splits)
  have r': "ch_ring (buildRing ?hs' ch) k = Some i"
    using buildRing_removed [OF k(2) assms(2)] by (simp add: eq)
  have ne': "?hs' \<noteq> []" using ring_lookup_key(1) [OF k(2) ne] assms(2) by (auto simp: eq filter_empty_conv)
  have k': "k \<in> set (ch_keys (buildRing ?hs' ch))" using ring_lookup_key(2) [OF r' ne'] .
  have sub: "set (ch_keys (buildRing ?hs' ch)) \<subseteq> set (ch_keys (buildRing ?hs ch))"
    unfolding buildRing_props(3) [OF ne] buildRing_props(3) [OF ne'] by (auto simp: eq)
  obtain m where m: "m \<in> set (ch_keys (buildRing ?hs' ch))"
      "ch_Select key ch (filter (\<lambda>x. x \<noteq> j) is) = (ring_pick (buildRing ?hs' ch) m, buildRing ?hs' ch)"
    and mmin: "if \<exists>k' \<in> set (ch_keys (buildRing ?hs' ch)). ch_hash key \<le> k'
      then ch_hash key \<le> m \<and> (\<forall>k' \<in> set (ch_keys (buildRing ?hs' ch)). ch_hash key \<le> k' \<longrightarrow> m \<le> k')
      else (\<forall>k' \<in> set (ch_keys (buildRing ?hs' ch)). m \<le> k')"
    using ch_Select_node [OF ne' refl, of ch key] by blast
  have "m = k"
  proof (cases "\<exists>k' \<in> set (ch_keys (buildRing ?hs ch)). ch_hash key \<le> k'")
    case True
    with kmin mmin k' m(1) sub show ?thesis by (auto split: if_splits intro: antisym)
  next
    case False
    with kmin mmin k' m(1) sub have "k \<le> m" "m \<le> k" by (auto split: if_splits)
    then show ?thesis by simp
  qed
  with m(2) r' show ?thesis by (simp add: ring_pick_def)
qed

subsection \<open>Properties\<close>

text \<open>
  Every balancer the factory builds answers every request: an error naming the reason when
  there is no instance or no healthy one, and otherwise one of the healthy instances. It never
  panics and never returns the nil instance, as long as the counter has not wrapped to a negative
  value (round robin, weighted) and no instance has \<open>2^63 - 1\<close> connections (least connections).
\<close>

theorem balancers_answer:
  assumes "0 \<le> rr_current rr" and "0 \<le> wrr_current w" and "\<forall>cid. conn_count lc cid < 2 ^ 63 - 1"
  shows "answers (fst (rr_Select rr is)) is \<and> answers (fst (rl_Select rl is)) is
       \<and> answers (fst (wrr_Select w is)) is \<and> answers (fst (lc_Select lc is)) is
       \<and> answers (fst (ch_Select key ch is)) is"
  using rrb.select_answers [OF assms(1)] rlb.select_answers [OF TrueI] wrrb.select_answers [OF assms(2)]
    lcb.select_answers [OF assms(3)] chb.select_answers [OF TrueI] by blast

theorem balancers_answer_witness:
  "answers (fst (wrr_Select \<lparr>wrr_current = 7, wrr_weights = []\<rparr>
     [node ''a'' ''down'' 1, node ''b'' ''healthy'' (-3)])) [node ''a'' ''down'' 1, node ''b'' ''healthy'' (-3)]"
  by (rule balancers_answer [of "\<lparr>rr_current = 0\<rparr>" _ "\<lparr>lc_connections = Map.empty\<rparr>",
        THEN conjunct2, THEN conjunct2, THEN conjunct1])
     (simp_all add: conn_count_def)

text \<open>
  Fairness of the two cyclic balancers. Starting anywhere, one round of round robin selects
  every healthy instance exactly once, in list order from the current position; one round of
  weighted round robin, as many calls as the weights add up to, selects every healthy instance
  exactly as often as its weight. Neither selects an unhealthy one.
\<close>

theorem cyclic_fairness:
  assumes "healthyInstances is \<noteq> []" and "0 \<le> rr_current rr"
    and "rr_current rr + int (length (healthyInstances is)) < 2 ^ 63"
    and "weights_ok is" and "0 \<le> wrr_current w"
    and "wrr_current w + sum_list (map si_Weight (healthyInstances is)) < 2 ^ 63"
  shows "fst (select_n rr_Select (length (healthyInstances is)) rr is) =
           map Selected (rotate (nat (rr_current rr)) (healthyInstances is))
       \<and> mset (fst (select_n wrr_Select (nat (sum_list (map si_Weight (healthyInstances is)))) w is)) =
           mset (map Selected (weighted_cycle is))"
proof -
  have l: "int (length (weighted_cycle is)) = sum_list (map si_Weight (healthyInstances is))"
    using length_weighted_cycle [of "is"] assms(4) by (simp add: weights_ok_def)
  show ?thesis
    using rrc.round [OF assms(1-3)] wrrc.round_mset [OF assms(4,5)] assms(6) by (simp flip: l)
qed

theorem cyclic_fairness_witness:
  "fst (select_n rr_Select 2 \<lparr>rr_current = 5\<rparr>
      [node ''a'' ''healthy'' 2, node ''b'' ''down'' 9, node ''c'' ''healthy'' 1]) =
     [Selected (node ''c'' ''healthy'' 1), Selected (node ''a'' ''healthy'' 2)]"
  using cyclic_fairness [of "[node ''a'' ''healthy'' 2, node ''b'' ''down'' 9, node ''c'' ''healthy'' 1]"
      "\<lparr>rr_current = 5\<rparr>" "\<lparr>wrr_current = 4, wrr_weights = []\<rparr>"]
  by (simp add: node_def weights_ok_def numeral_2_eq_2 rotate_def eval_nat_numeral)

text \<open>
  Least connections: the selected instance has no more connections than any healthy one, and a
  caller that increments the selected instance keeps the healthy instances balanced: if their
  counts differ by at most one before, they differ by at most one afterwards.
\<close>

theorem least_connections_balanced:
  assumes "\<forall>cid. 0 \<le> conn_count lc cid \<and> conn_count lc cid < 2 ^ 63 - 1" and "healthyInstances is \<noteq> []"
  shows "\<exists>i \<in> set (healthyInstances is). lc_Select lc is = (Selected i, lc)
     \<and> (\<forall>j \<in> set (healthyInstances is). conn_count lc (si_ID i) \<le> conn_count lc (si_ID j))
     \<and> ((\<forall>j \<in> set (healthyInstances is). \<forall>k \<in> set (healthyInstances is).
            conn_count lc (si_ID j) \<le> conn_count lc (si_ID k) + 1) \<longrightarrow>
        (\<forall>j \<in> set (healthyInstances is). \<forall>k \<in> set (healthyInstances is).
            conn_count (IncrementConnections (si_ID i) lc) (si_ID j)
            \<le> conn_count (IncrementConnections (si_ID i) lc) (si_ID k) + 1))
     \<and> DecrementConnections (si_ID i) (IncrementConnections (si_ID i) lc) =
        lc\<lparr>lc_connections := (lc_connections lc)(si_ID i \<mapsto> conn_count lc (si_ID i))\<rparr>"
proof -
  have lt: "\<forall>cid. conn_count lc cid < 2 ^ 63 - 1" using assms(1) by simp
  from lc_Select_min [OF lt assms(2)] obtain i where i: "i \<in> set (healthyInstances is)"
    "fst (lc_Select lc is) = Selected i"
    "\<forall>j \<in> set (healthyInstances is). conn_count lc (si_ID i) \<le> conn_count lc (si_ID j)" by blast
  have w: "wrap64 (conn_count lc (si_ID i) + 1) = conn_count lc (si_ID i) + 1"
      "wrap64 (conn_count lc (si_ID i)) = conn_count lc (si_ID i)"
    using assms(1) [THEN spec, of "si_ID i"] by (auto intro!: wrap64_id)
  have inc: "conn_count (IncrementConnections (si_ID i) lc) cid =
      conn_count lc cid + (if cid = si_ID i then 1 else 0)" for cid
    using w by (simp add: conn_count_def IncrementConnections_def)
  have dec: "DecrementConnections (si_ID i) (IncrementConnections (si_ID i) lc) =
      lc\<lparr>lc_connections := (lc_connections lc)(si_ID i \<mapsto> conn_count lc (si_ID i))\<rparr>"
    unfolding DecrementConnections_def inc using assms(1) [THEN spec, of "si_ID i"]
    by (simp add: w) (simp add: IncrementConnections_def)
  have st: "lc_Select lc is = (Selected i, lc)" using i(2) by (auto simp: lc_Select_def Let_def split: if_splits)
  have "conn_count (IncrementConnections (si_ID i) lc) (si_ID j)
      \<le> conn_count (IncrementConnections (si_ID i) lc) (si_ID k) + 1"
    if *: "\<forall>j \<in> set (healthyInstances is). \<forall>k \<in> set (healthyInstances is).
            conn_count lc (si_ID j) \<le> conn_count lc (si_ID k) + 1"
      and "j \<in> set (healthyInstances is)" "k \<in> set (healthyInstances is)" for j k
    using * [rule_format, OF that(2) i(1)] * [rule_format, OF that(2,3)] i(3) that(3) by (auto simp: inc)
  with i(1,3) st dec show ?thesis by blast
qed

theorem least_connections_balanced_witness:
  "lc_Select \<lparr>lc_connections = [''a'' \<mapsto> 1]\<rparr> [node ''a'' ''healthy'' 1, node ''b'' ''healthy'' 1] =
     (Selected (node ''b'' ''healthy'' 1), \<lparr>lc_connections = [''a'' \<mapsto> 1]\<rparr>)"
  using least_connections_balanced [of "\<lparr>lc_connections = [''a'' \<mapsto> 1]\<rparr>"
      "[node ''a'' ''healthy'' 1, node ''b'' ''healthy'' 1]"]
  by (auto simp: node_def conn_count_def)

text \<open>
  Consistency of the hash ring: when an instance other than the selected one disappears (or
  turns unhealthy), the key keeps its instance, hash collisions included; and the selection does not
  depend on the ring built by earlier calls, which every call rebuilds.
\<close>

theorem consistent_hash_stable:
  assumes "fst (ch_Select key ch is) = Selected i" and "i \<noteq> j"
  shows "fst (ch_Select key ch' (filter (\<lambda>x. x \<noteq> j) is)) = Selected i"
proof -
  have "fst (ch_Select key ch' is) = Selected i" using assms(1) ch_Select_stateless [of key ch "is" ch'] by simp
  from ch_Select_removed [OF this assms(2)] show ?thesis .
qed

theorem consistent_hash_stable_witness:
  "fst (ch_Select ''user:7'' \<lparr>ch_ring = Map.empty, ch_keys = []\<rparr> [node ''a'' ''healthy'' 1, node ''b'' ''healthy'' 1])
      = Selected (node ''a'' ''healthy'' 1)
    \<and> fst (ch_Select ''user:7'' \<lparr>ch_ring = Map.empty, ch_keys = [5]\<rparr> [node ''a'' ''healthy'' 1])
      = Selected (node ''a'' ''healthy'' 1)
  \<or> fst (ch_Select ''user:7'' \<lparr>ch_ring = Map.empty, ch_keys = []\<rparr> [node ''a'' ''healthy'' 1, node ''b'' ''healthy'' 1])
      = Selected (node ''b'' ''healthy'' 1)
    \<and> fst (ch_Select ''user:7'' \<lparr>ch_ring = Map.empty, ch_keys = [5]\<rparr> [node ''b'' ''healthy'' 1])
      = Selected (node ''b'' ''healthy'' 1)"
proof -
  let ?a = "node ''a'' ''healthy'' 1" and ?b = "node ''b'' ''healthy'' 1"
  let ?c = "\<lparr>ch_ring = Map.empty, ch_keys = []\<rparr>" and ?d = "\<lparr>ch_ring = Map.empty, ch_keys = [5]\<rparr>"
  have ab: "?a \<noteq> ?b" by (simp add: node_def)
  have "fst (ch_Select ''user:7'' ?c [?a, ?b]) = Selected ?a \<or> fst (ch_Select ''user:7'' ?c [?a, ?b]) = Selected ?b"
    using chb.select_healthy [OF TrueI, of "[?a, ?b]" "''user:7''" ?c] by (simp add: node_def)
  then show ?thesis
    using consistent_hash_stable [of "''user:7''" ?c "[?a, ?b]" ?a ?b ?d]
      consistent_hash_stable [of "''user:7''" ?c "[?a, ?b]" ?b ?a ?d] ab
    by auto
qed

end
