(* ===== verification/Redis_Script.thy ===== *)
theory Redis_Script
  imports Prelude
begin

text \<open>
  The Redis commands that the Lua scripts of the gateway call. The server is third-party code: a
  script takes the commands as a record on the server's state \<open>'d\<close>, and theorems about scripts assume
  \<open>cmds_conform\<close>, the documented behaviour of the commands on a database of typed values with an
  optional expiry time. Values that the scripts only use as numbers are the numbers they denote.
  \<open>mem_cmds\<close> is an in-memory server that conforms.
\<close>

datatype rvalue = RInt int | RHash "string \<rightharpoonup> int" | RZSet "(int \<times> int) list"

type_synonym script_db = "string \<Rightarrow> (rvalue \<times> gotime option) option"

record 'd redis_cmds =
  c_HMGET :: "string \<Rightarrow> string list \<Rightarrow> 'd \<Rightarrow> int option list"
  c_HMSET :: "string \<Rightarrow> (string \<times> int) list \<Rightarrow> 'd \<Rightarrow> 'd"
  c_EXPIRE :: "string \<Rightarrow> int \<Rightarrow> 'd \<Rightarrow> 'd"
  c_GET :: "string \<Rightarrow> 'd \<Rightarrow> int option"
  c_INCR :: "string \<Rightarrow> 'd \<Rightarrow> 'd"
  c_ZREMRANGEBYSCORE :: "string \<Rightarrow> int \<Rightarrow> int \<Rightarrow> 'd \<Rightarrow> 'd"
  c_ZCARD :: "string \<Rightarrow> 'd \<Rightarrow> int"
  c_ZADD :: "string \<Rightarrow> int \<Rightarrow> int \<Rightarrow> 'd \<Rightarrow> 'd"

text \<open>The entry of a key that has not expired at time \<open>t\<close>.\<close>

definition live :: "gotime \<Rightarrow> string \<Rightarrow> script_db \<Rightarrow> (rvalue \<times> gotime option) option" where
  "live t k db =
     (case db k of
        Some (v, Some e) \<Rightarrow> if t < e then Some (v, Some e) else None
      | r \<Rightarrow> r)"

text \<open>A value of each type under a key; an absent key reads as an empty value, a key of another type as \<open>None\<close>.\<close>

definition hash_at :: "gotime \<Rightarrow> string \<Rightarrow> script_db \<Rightarrow> (string \<rightharpoonup> int) option" where
  "hash_at t k db = (case live t k db of None \<Rightarrow> Some Map.empty | Some (RHash h, _) \<Rightarrow> Some h | _ \<Rightarrow> None)"

definition zset_at :: "gotime \<Rightarrow> string \<Rightarrow> script_db \<Rightarrow> (int \<times> int) list option" where
  "zset_at t k db = (case live t k db of None \<Rightarrow> Some [] | Some (RZSet z, _) \<Rightarrow> Some z | _ \<Rightarrow> None)"

definition int_at :: "gotime \<Rightarrow> string \<Rightarrow> script_db \<Rightarrow> int option option" where
  "int_at t k db = (case live t k db of None \<Rightarrow> Some None | Some (RInt i, _) \<Rightarrow> Some (Some i) | _ \<Rightarrow> None)"

definition expiry_at :: "gotime \<Rightarrow> string \<Rightarrow> script_db \<Rightarrow> gotime option" where
  "expiry_at t k db = (case live t k db of None \<Rightarrow> None | Some (_, e) \<Rightarrow> e)"

definition db_hmset :: "gotime \<Rightarrow> string \<Rightarrow> (string \<times> int) list \<Rightarrow> script_db \<Rightarrow> script_db" where
  "db_hmset t k kvs db =
     (case hash_at t k db of
        None \<Rightarrow> db
      | Some h \<Rightarrow> db(k \<mapsto> (RHash (h ++ map_of (rev kvs)), expiry_at t k db)))"

definition db_expire :: "gotime \<Rightarrow> string \<Rightarrow> int \<Rightarrow> script_db \<Rightarrow> script_db" where
  "db_expire t k s db =
     (case live t k db of
        None \<Rightarrow> db
      | Some (v, _) \<Rightarrow> if 0 < s then db(k \<mapsto> (v, Some (t + s * second))) else db(k := None))"

definition db_incr :: "gotime \<Rightarrow> string \<Rightarrow> script_db \<Rightarrow> script_db" where
  "db_incr t k db =
     (case int_at t k db of
        None \<Rightarrow> db
      | Some i \<Rightarrow> db(k \<mapsto> (RInt ((case i of None \<Rightarrow> 0 | Some n \<Rightarrow> n) + 1), expiry_at t k db)))"

definition db_zput :: "gotime \<Rightarrow> string \<Rightarrow> (int \<times> int) list \<Rightarrow> script_db \<Rightarrow> script_db" where
  "db_zput t k z db = (if z = [] then db(k := None) else db(k \<mapsto> (RZSet z, expiry_at t k db)))"

definition db_zrem :: "gotime \<Rightarrow> string \<Rightarrow> int \<Rightarrow> int \<Rightarrow> script_db \<Rightarrow> script_db" where
  "db_zrem t k lo hi db =
     (case zset_at t k db of
        None \<Rightarrow> db
      | Some z \<Rightarrow> db_zput t k (filter (\<lambda>(m, s). \<not> (lo \<le> s \<and> s \<le> hi)) z) db)"

definition db_zadd :: "gotime \<Rightarrow> string \<Rightarrow> int \<Rightarrow> int \<Rightarrow> script_db \<Rightarrow> script_db" where
  "db_zadd t k score member db =
     (case zset_at t k db of
        None \<Rightarrow> db
      | Some z \<Rightarrow> db_zput t k (AList.update member score z) db)"

text \<open>
  The laws: reads answer from the database for a key of the right type, writes change the
  database as the functions above say, and no command moves the server's clock.
\<close>

definition cmds_conform :: "'d redis_cmds \<Rightarrow> ('d \<Rightarrow> gotime) \<Rightarrow> ('d \<Rightarrow> script_db) \<Rightarrow> bool" where
  "cmds_conform R clk obs \<longleftrightarrow>
     (\<forall>k fs d h. hash_at (clk d) k (obs d) = Some h \<longrightarrow> c_HMGET R k fs d = map h fs)
   \<and> (\<forall>k d i. int_at (clk d) k (obs d) = Some i \<longrightarrow> c_GET R k d = i)
   \<and> (\<forall>k d z. zset_at (clk d) k (obs d) = Some z \<longrightarrow> c_ZCARD R k d = int (length z))
   \<and> (\<forall>k kvs d. obs (c_HMSET R k kvs d) = db_hmset (clk d) k kvs (obs d) \<and> clk (c_HMSET R k kvs d) = clk d)
   \<and> (\<forall>k s d. obs (c_EXPIRE R k s d) = db_expire (clk d) k s (obs d) \<and> clk (c_EXPIRE R k s d) = clk d)
   \<and> (\<forall>k d. obs (c_INCR R k d) = db_incr (clk d) k (obs d) \<and> clk (c_INCR R k d) = clk d)
   \<and> (\<forall>k a b d. obs (c_ZREMRANGEBYSCORE R k a b d) = db_zrem (clk d) k a b (obs d)
              \<and> clk (c_ZREMRANGEBYSCORE R k a b d) = clk d)
   \<and> (\<forall>k s m d. obs (c_ZADD R k s m d) = db_zadd (clk d) k s m (obs d) \<and> clk (c_ZADD R k s m d) = clk d)"

text \<open>An in-memory server: its clock and its database.\<close>

type_synonym script_mem = "gotime \<times> script_db"

definition mem_cmds :: "script_mem redis_cmds" where
  "mem_cmds = \<lparr>
     c_HMGET = (\<lambda>k fs (t, db). case hash_at t k db of None \<Rightarrow> [] | Some h \<Rightarrow> map h fs),
     c_HMSET = (\<lambda>k kvs (t, db). (t, db_hmset t k kvs db)),
     c_EXPIRE = (\<lambda>k s (t, db). (t, db_expire t k s db)),
     c_GET = (\<lambda>k (t, db). case int_at t k db of None \<Rightarrow> None | Some i \<Rightarrow> i),
     c_INCR = (\<lambda>k (t, db). (t, db_incr t k db)),
     c_ZREMRANGEBYSCORE = (\<lambda>k a b (t, db). (t, db_zrem t k a b db)),
     c_ZCARD = (\<lambda>k (t, db). case zset_at t k db of None \<Rightarrow> 0 | Some z \<Rightarrow> int (length z)),
     c_ZADD = (\<lambda>k s m (t, db). (t, db_zadd t k s m db)) \<rparr>"

lemma mem_cmds_conform: "cmds_conform mem_cmds fst snd"
  by (simp add: cmds_conform_def mem_cmds_def case_prod_beta)

subsection \<open>The laws, command by command\<close>

lemma conform_reads:
  assumes "cmds_conform R clk obs"
  shows "hash_at (clk d) k (obs d) = Some h \<Longrightarrow> c_HMGET R k fs d = map h fs"
    and "int_at (clk d) k (obs d) = Some i \<Longrightarrow> c_GET R k d = i"
    and "zset_at (clk d) k (obs d) = Some z \<Longrightarrow> c_ZCARD R k d = int (length z)"
  using assms by (simp_all add: cmds_conform_def)

lemma conform_writes:
  assumes "cmds_conform R clk obs"
  shows "obs (c_HMSET R k kvs d) = db_hmset (clk d) k kvs (obs d)" "clk (c_HMSET R k kvs d) = clk d"
    "obs (c_EXPIRE R k s d) = db_expire (clk d) k s (obs d)" "clk (c_EXPIRE R k s d) = clk d"
    "obs (c_INCR R k d) = db_incr (clk d) k (obs d)" "clk (c_INCR R k d) = clk d"
    "obs (c_ZREMRANGEBYSCORE R k a b d) = db_zrem (clk d) k a b (obs d)"
    "clk (c_ZREMRANGEBYSCORE R k a b d) = clk d"
    "obs (c_ZADD R k sc m d) = db_zadd (clk d) k sc m (obs d)" "clk (c_ZADD R k sc m d) = clk d"
  using assms by (simp_all add: cmds_conform_def)

lemmas entry_defs = live_def hash_at_def int_at_def zset_at_def expiry_at_def

lemmas write_defs = db_hmset_def db_expire_def db_incr_def db_zput_def db_zrem_def db_zadd_def

end
