(* ===== verification/Rate_Limiter.thy ===== *)
theory Rate_Limiter
  imports Redis_Script Name_Registry
begin

text \<open>
  The rate limiters of the gateway (\<^verbatim>\<open>src/app/gateway/middlewares/rate_limiter.go\<close>): token bucket,
  sliding window and fixed window, whose decisions are Lua scripts run by the Redis server, the
  adaptive limiter, the manager and the middleware.

  A script is a function on the server's state \<open>'d\<close> that uses the Redis commands (parameters, see
  \<^verbatim>\<open>Redis_Script\<close>). The Go side sees a world \<open>'w\<close> with the client's \<^verbatim>\<open>Eval\<close>, which runs a script or fails,
  and the clock. The Lua numbers of the scripts are whole numbers below \<open>2 ^ 53\<close>, on which Lua's
  arithmetic is exact. The code stores the remaining count through
  \<^verbatim>\<open>ctx.Value("rate_limit_remaining").(*int) = ...\<close>, which is not a valid Go assignment; the model
  returns the count beside the decision.
\<close>

section \<open>Model\<close>

record ('w, 'd) limiter_env =
  Eval :: "('d \<Rightarrow> int list \<times> 'd) \<Rightarrow> 'w \<Rightarrow> (err + int list) \<times> 'w"
  Now :: "'w \<Rightarrow> gotime"
  Cmds :: "'d redis_cmds"

text \<open>\<open>AllowPanic\<close> is a failed type assertion or index on the reply.\<close>

datatype allow_result = Answer bool int | AllowErr err | AllowPanic

(* src: app/gateway/middlewares/rate_limiter.go:18-22 RateLimiter *)
record 'w rate_limiter =
  Allow :: "string \<Rightarrow> 'w \<Rightarrow> allow_result \<times> 'w"
  GetLimit :: int
  GetWindow :: duration

text \<open>\<^verbatim>\<open>int64(d.Seconds())\<close>.\<close>

definition whole_seconds :: "duration \<Rightarrow> int" where
  "whole_seconds d = sgn d * (\<bar>d\<bar> div second)"

text \<open>How every limiter reads the reply \<^verbatim>\<open>{allowed, remaining}\<close> of its script.\<close>

(* src: app/gateway/middlewares/rate_limiter.go:83-94 TokenBucketRateLimiter.Allow (reading the reply) *)
definition read_reply :: "(err + int list) \<times> 'w \<Rightarrow> allow_result \<times> 'w" where
  "read_reply r =
     (case r of
        (Inl e, w) \<Rightarrow> (AllowErr e, w)
      | (Inr (a # b # _), w) \<Rightarrow> (Answer (a = 1) b, w)
      | (Inr _, w) \<Rightarrow> (AllowPanic, w))"

subsection \<open>Token bucket\<close>

(* src: app/gateway/middlewares/rate_limiter.go:25-31 TokenBucketRateLimiter *)
record token_bucket =
  tb_capacity :: int
  tb_refillRate :: int
  tb_refillPeriod :: duration
  tb_keyPrefix :: string

(* src: app/gateway/middlewares/rate_limiter.go:34-42 NewTokenBucketRateLimiter *)
definition NewTokenBucketRateLimiter :: "int \<Rightarrow> int \<Rightarrow> duration \<Rightarrow> token_bucket" where
  "NewTokenBucketRateLimiter capacity refillRate refillPeriod =
     \<lparr> tb_capacity = capacity, tb_refillRate = refillRate, tb_refillPeriod = refillPeriod,
       tb_keyPrefix = ''rate_limit:token_bucket:'' \<rparr>"

text \<open>
  A period below one second is passed to the script as 0. Lua then divides by zero: the tokens to
  add are infinite or not a number, and \<^verbatim>\<open>math.min\<close> answers the capacity (for a rate that is not
  negative and a clock that does not go back).
\<close>

(* src: app/gateway/middlewares/rate_limiter.go:49-79 TokenBucketRateLimiter.Allow (script) *)
definition token_bucket_script ::
  "'d redis_cmds \<Rightarrow> string \<Rightarrow> int \<Rightarrow> int \<Rightarrow> int \<Rightarrow> int \<Rightarrow> 'd \<Rightarrow> int list \<times> 'd" where
  "token_bucket_script R key capacity refillRate refillPeriod now d =
     (let bucket = c_HMGET R key [''tokens'', ''lastRefill''] d;
          tokens = (case bucket ! 0 of None \<Rightarrow> capacity | Some n \<Rightarrow> n);
          lastRefill = (case bucket ! 1 of None \<Rightarrow> now | Some n \<Rightarrow> n);
          timePassed = now - lastRefill;
          tokens = (if refillPeriod = 0 then capacity
                    else min capacity (tokens + timePassed div refillPeriod * refillRate));
          lastRefill = now
      in if tokens \<ge> 1
         then (let tokens = tokens - 1
               in ([1, tokens],
                   c_EXPIRE R key 3600 (c_HMSET R key [(''tokens'', tokens), (''lastRefill'', lastRefill)] d)))
         else ([0, tokens],
               c_EXPIRE R key 3600 (c_HMSET R key [(''tokens'', tokens), (''lastRefill'', lastRefill)] d)))"

(* src: app/gateway/middlewares/rate_limiter.go:45-95 TokenBucketRateLimiter.Allow *)
definition tb_Allow :: "('w, 'd) limiter_env \<Rightarrow> token_bucket \<Rightarrow> string \<Rightarrow> 'w \<Rightarrow> allow_result \<times> 'w" where
  "tb_Allow E tb key w =
     read_reply (Eval E (token_bucket_script (Cmds E) (tb_keyPrefix tb @ key) (tb_capacity tb)
                   (tb_refillRate tb) (whole_seconds (tb_refillPeriod tb)) (go_unix (Now E w))) w)"

(* src: app/gateway/middlewares/rate_limiter.go:98-105 TokenBucketRateLimiter.GetLimit GetWindow (sub) *)
definition token_bucket_limiter :: "('w, 'd) limiter_env \<Rightarrow> token_bucket \<Rightarrow> 'w rate_limiter" where
  "token_bucket_limiter E tb =
     \<lparr> Allow = tb_Allow E tb, GetLimit = tb_capacity tb, GetWindow = tb_refillPeriod tb \<rparr>"

subsection \<open>Sliding window\<close>

(* src: app/gateway/middlewares/rate_limiter.go:108-113 SlidingWindowRateLimiter *)
record sliding_window =
  sw_limit :: int
  sw_window :: duration
  sw_keyPrefix :: string

(* src: app/gateway/middlewares/rate_limiter.go:116-123 NewSlidingWindowRateLimiter *)
definition NewSlidingWindowRateLimiter :: "int \<Rightarrow> duration \<Rightarrow> sliding_window" where
  "NewSlidingWindowRateLimiter limit window =
     \<lparr> sw_limit = limit, sw_window = window, sw_keyPrefix = ''rate_limit:sliding_window:'' \<rparr>"

(* src: app/gateway/middlewares/rate_limiter.go:132-152 SlidingWindowRateLimiter.Allow (script) *)
definition sliding_window_script ::
  "'d redis_cmds \<Rightarrow> string \<Rightarrow> int \<Rightarrow> int \<Rightarrow> int \<Rightarrow> 'd \<Rightarrow> int list \<times> 'd" where
  "sliding_window_script R key limit windowStart now d =
     (let d1 = c_ZREMRANGEBYSCORE R key 0 windowStart d;
          current = c_ZCARD R key d1
      in if current < limit
         then ([1, limit - current - 1], c_EXPIRE R key 3600 (c_ZADD R key now now d1))
         else ([0, 0], d1))"

(* src: app/gateway/middlewares/rate_limiter.go:126-168 SlidingWindowRateLimiter.Allow *)
definition sw_Allow :: "('w, 'd) limiter_env \<Rightarrow> sliding_window \<Rightarrow> string \<Rightarrow> 'w \<Rightarrow> allow_result \<times> 'w" where
  "sw_Allow E sw key w =
     (let now = Now E w; windowStart = now - sw_window sw
      in read_reply (Eval E (sliding_window_script (Cmds E) (sw_keyPrefix sw @ key) (sw_limit sw)
                       (go_unix windowStart) (go_unix now)) w))"

(* src: app/gateway/middlewares/rate_limiter.go:171-178 SlidingWindowRateLimiter.GetLimit GetWindow (sub) *)
definition sliding_window_limiter :: "('w, 'd) limiter_env \<Rightarrow> sliding_window \<Rightarrow> 'w rate_limiter" where
  "sliding_window_limiter E sw =
     \<lparr> Allow = sw_Allow E sw, GetLimit = sw_limit sw, GetWindow = sw_window sw \<rparr>"

subsection \<open>Fixed window\<close>

(* src: app/gateway/middlewares/rate_limiter.go:181-186 FixedWindowRateLimiter *)
record fixed_window =
  fw_limit :: int
  fw_window :: duration
  fw_keyPrefix :: string

(* src: app/gateway/middlewares/rate_limiter.go:189-196 NewFixedWindowRateLimiter *)
definition NewFixedWindowRateLimiter :: "int \<Rightarrow> duration \<Rightarrow> fixed_window" where
  "NewFixedWindowRateLimiter limit window =
     \<lparr> fw_limit = limit, fw_window = window, fw_keyPrefix = ''rate_limit:fixed_window:'' \<rparr>"

text \<open>\<^verbatim>\<open>t.Truncate(d)\<close> rounds down to a multiple of \<open>d\<close> since the zero time.\<close>

definition time_Truncate :: "gotime \<Rightarrow> duration \<Rightarrow> gotime" where
  "time_Truncate t d = (if d \<le> 0 then t else t - t mod d)"

(* src: app/gateway/middlewares/rate_limiter.go:205-224 FixedWindowRateLimiter.Allow (script) *)
definition fixed_window_script ::
  "'d redis_cmds \<Rightarrow> string \<Rightarrow> int \<Rightarrow> int \<Rightarrow> 'd \<Rightarrow> int list \<times> 'd" where
  "fixed_window_script R key limit window d =
     (let current = (case c_GET R key d of None \<Rightarrow> 0 | Some n \<Rightarrow> n)
      in if current < limit
         then ([1, limit - current - 1], c_EXPIRE R key window (c_INCR R key d))
         else ([0, 0], d))"

definition fixed_window_key :: "fixed_window \<Rightarrow> string \<Rightarrow> gotime \<Rightarrow> string" where
  "fixed_window_key fw key windowStart = fw_keyPrefix fw @ key @ '':'' @ itoa (go_unix windowStart)"

(* src: app/gateway/middlewares/rate_limiter.go:199-240 FixedWindowRateLimiter.Allow *)
definition fw_Allow :: "('w, 'd) limiter_env \<Rightarrow> fixed_window \<Rightarrow> string \<Rightarrow> 'w \<Rightarrow> allow_result \<times> 'w" where
  "fw_Allow E fw key w =
     (let now = Now E w; windowStart = time_Truncate now (fw_window fw)
      in read_reply (Eval E (fixed_window_script (Cmds E) (fixed_window_key fw key windowStart)
                       (fw_limit fw) (whole_seconds (fw_window fw))) w))"

(* src: app/gateway/middlewares/rate_limiter.go:243-250 FixedWindowRateLimiter.GetLimit GetWindow (sub) *)
definition fixed_window_limiter :: "('w, 'd) limiter_env \<Rightarrow> fixed_window \<Rightarrow> 'w rate_limiter" where
  "fixed_window_limiter E fw =
     \<lparr> Allow = fw_Allow E fw, GetLimit = fw_limit fw, GetWindow = fw_window fw \<rparr>"

subsection \<open>Adaptive limiter\<close>

(* src: app/gateway/middlewares/rate_limiter.go:342-347 AdaptiveRateLimiter *)
record 'w adaptive_limiter =
  ar_baseLimiter :: "'w rate_limiter"
  ar_adaptiveFactor :: real

(* src: app/gateway/middlewares/rate_limiter.go:350-357 NewAdaptiveRateLimiter *)
definition NewAdaptiveRateLimiter :: "'w rate_limiter \<Rightarrow> 'w adaptive_limiter" where
  "NewAdaptiveRateLimiter baseLimiter = \<lparr> ar_baseLimiter = baseLimiter, ar_adaptiveFactor = 1 \<rparr>"

(* src: app/gateway/middlewares/rate_limiter.go:382-387 AdaptiveRateLimiter.getSystemLoad *)
definition getSystemLoad :: "err + real" where
  "getSystemLoad = Inr (1 / 2)"

(* src: app/gateway/middlewares/rate_limiter.go:360-379 AdaptiveRateLimiter.Allow *)
definition ar_Allow ::
  "'w adaptive_limiter \<Rightarrow> string \<Rightarrow> 'w \<Rightarrow> allow_result \<times> 'w adaptive_limiter \<times> 'w" where
  "ar_Allow ar key w =
     (let ar' = (case getSystemLoad of
                   Inl e \<Rightarrow> ar
                 | Inr load \<Rightarrow>
                     ar\<lparr> ar_adaptiveFactor := (if load > 8 / 10 then 1 / 2 else if load < 3 / 10 then 3 / 2 else 1) \<rparr>);
          (r, w') = Allow (ar_baseLimiter ar') key w
      in (r, ar', w'))"

(* src: app/gateway/middlewares/rate_limiter.go:390-392 AdaptiveRateLimiter.GetLimit *)
definition ar_GetLimit :: "'w adaptive_limiter \<Rightarrow> int" where
  "ar_GetLimit ar = go_trunc (real_of_int (GetLimit (ar_baseLimiter ar)) * ar_adaptiveFactor ar)"

(* src: app/gateway/middlewares/rate_limiter.go:395-397 AdaptiveRateLimiter.GetWindow *)
definition ar_GetWindow :: "'w adaptive_limiter \<Rightarrow> duration" where
  "ar_GetWindow ar = GetWindow (ar_baseLimiter ar)"

subsection \<open>Manager and middleware\<close>

(* src: app/gateway/middlewares/rate_limiter.go:253-256 RateLimiterManager *)
type_synonym 'w limiter_manager = "string \<rightharpoonup> 'w rate_limiter"

(* src: app/gateway/middlewares/rate_limiter.go:259-263 NewRateLimiterManager *)
definition NewRateLimiterManager :: "'w limiter_manager" where
  "NewRateLimiterManager = Map.empty"

(* src: app/gateway/middlewares/rate_limiter.go:266-270 RateLimiterManager.RegisterRateLimiter *)
definition RegisterRateLimiter :: "string \<Rightarrow> 'w rate_limiter \<Rightarrow> 'w limiter_manager \<Rightarrow> 'w limiter_manager" where
  "RegisterRateLimiter name limiter rlm = rlm(name \<mapsto> limiter)"

(* src: app/gateway/middlewares/rate_limiter.go:273-278 RateLimiterManager.GetRateLimiter *)
definition GetRateLimiter :: "'w limiter_manager \<Rightarrow> string \<Rightarrow> 'w rate_limiter option" where
  "GetRateLimiter rlm name = rlm name"

text \<open>
  What the middleware reads of the request: the client address, the user id (empty when unset), the
  path, the remaining count of the gin context if it is set, and the manager, without which
  \<^verbatim>\<open>MustGet\<close> panics.
\<close>

record 'w limited_request =
  ClientIP :: string
  user_id :: string
  Path :: string
  ctx_remaining :: "int option"
  ctx_manager :: "'w limiter_manager option"

datatype header_value = HInt int | HDuration duration

text \<open>
  The end of the middleware: the handlers after it run with these response headers set, or the
  chain is aborted with a 429, or the middleware panics.
\<close>

datatype limited = RunNext "(string \<times> header_value) list" | TooManyRequests | LimitPanic

(* src: app/gateway/middlewares/rate_limiter.go:328-339 generateRateLimitKey *)
definition generateRateLimitKey :: "'w limited_request \<Rightarrow> string" where
  "generateRateLimitKey c =
     (if user_id c \<noteq> [] then ClientIP c @ '':'' @ user_id c @ '':'' @ Path c
      else ClientIP c @ '':'' @ Path c)"

(* src: app/gateway/middlewares/rate_limiter.go:281-325 RateLimitMiddleware *)
definition RateLimitMiddleware :: "string \<Rightarrow> 'w limited_request \<Rightarrow> 'w \<Rightarrow> limited \<times> 'w" where
  "RateLimitMiddleware limiterName c w =
     (case ctx_manager c of
        None \<Rightarrow> (LimitPanic, w)
      | Some rlm \<Rightarrow>
          (case GetRateLimiter rlm limiterName of
             None \<Rightarrow> (RunNext [], w)
           | Some limiter \<Rightarrow>
               (case Allow limiter (generateRateLimitKey c) w of
                  (AllowErr e, w') \<Rightarrow> (RunNext [], w')
                | (AllowPanic, w') \<Rightarrow> (LimitPanic, w')
                | (Answer allowed _, w') \<Rightarrow>
                    (if \<not> allowed then (TooManyRequests, w')
                     else (RunNext ((case ctx_remaining c of None \<Rightarrow> []
                                     | Some r \<Rightarrow> [(''X-RateLimit-Remaining'', HInt r)])
                              @ [(''X-RateLimit-Limit'', HInt (GetLimit limiter)),
                                 (''X-RateLimit-Window'', HDuration (GetWindow limiter))]), w')))))"

section \<open>Properties\<close>

subsection \<open>Request sequences\<close>

text \<open>
  The environment keeps its promises: \<^verbatim>\<open>Eval\<close> runs the script on the server's state, the commands
  conform, and \<open>adv t\<close>, the passing of time up to \<open>t\<close> between two requests, sets both clocks to \<open>t\<close> and
  changes nothing in the database.
\<close>

definition env_ok ::
  "('w, 'd) limiter_env \<Rightarrow> (gotime \<Rightarrow> 'w \<Rightarrow> 'w) \<Rightarrow> ('w \<Rightarrow> 'd) \<Rightarrow> ('d \<Rightarrow> gotime) \<Rightarrow> ('d \<Rightarrow> script_db) \<Rightarrow> bool" where
  "env_ok E adv db clk obs \<longleftrightarrow>
     cmds_conform (Cmds E) clk obs
   \<and> (\<forall>s w. fst (Eval E s w) = Inr (fst (s (db w))) \<and> db (snd (Eval E s w)) = snd (s (db w)))
   \<and> (\<forall>t w. Now E (adv t w) = t \<and> clk (db (adv t w)) = t \<and> obs (db (adv t w)) = obs (db w))"

text \<open>The answers to requests for one key at the given times.\<close>

fun allow_run ::
  "(string \<Rightarrow> 'w \<Rightarrow> allow_result \<times> 'w) \<Rightarrow> (gotime \<Rightarrow> 'w \<Rightarrow> 'w) \<Rightarrow> string \<Rightarrow> gotime list \<Rightarrow> 'w \<Rightarrow> allow_result list" where
  "allow_run allow adv key [] w = []"
| "allow_run allow adv key (t # ts) w =
     (case allow key (adv t w) of (r, w') \<Rightarrow> r # allow_run allow adv key ts w')"

definition granted :: "allow_result \<Rightarrow> bool" where
  "granted r = (case r of Answer b _ \<Rightarrow> b | _ \<Rightarrow> False)"

lemma granted_Answer [simp]: "granted (Answer b n) = b"
  by (simp add: granted_def)

text \<open>The shape all the proofs below share: one step and the rest of the run.\<close>

lemma run_invariant:
  assumes step: "\<And>n t w. I n w \<Longrightarrow> P n t \<Longrightarrow> \<exists>r w'. allow key (adv t w) = (r, w') \<and> granted r = g n \<and> I (Suc n) w'"
    and "I n w" and "\<And>i. i < length ts \<Longrightarrow> P (n + i) (ts ! i)"
  shows "map granted (allow_run allow adv key ts w) = map g [n..<n + length ts]"
  using assms(2,3)
proof (induction ts arbitrary: n w)
  case (Cons t ts)
  obtain r w' where r: "allow key (adv t w) = (r, w')" "granted r = g n" "I (Suc n) w'"
    using step [OF Cons.prems(1), of t] Cons.prems(2) [of 0] by auto
  have "P (Suc n + i) (ts ! i)" if "i < length ts" for i
    using Cons.prems(2) [of "Suc i"] that by simp
  then have "map granted (allow_run allow adv key ts w') = map g [Suc n..<Suc n + length ts]"
    using Cons.IH [OF r(3)] by blast
  with r show ?case by (simp add: upt_rec)
qed simp

lemma Eval_reply:
  assumes "env_ok E adv db clk obs" and "s (db w) = ([a, b], d')"
  shows "\<exists>w'. read_reply (Eval E s w) = (Answer (a = 1) b, w') \<and> db w' = d'"
proof -
  obtain r w' where ev: "Eval E s w = (r, w')" by fastforce
  with assms have "r = Inr [a, b]" and "db w' = d'"
    unfolding env_ok_def by (metis fst_conv snd_conv)+
  with ev show ?thesis by (simp add: read_reply_def)
qed

lemma env_okD:
  assumes "env_ok E adv db clk obs"
  shows "cmds_conform (Cmds E) clk obs" "Now E (adv t w) = t" "clk (db (adv t w)) = t"
    "obs (db (adv t w)) = obs (db w)"
  using assms by (simp_all add: env_ok_def)

subsection \<open>Fixed window\<close>

text \<open>
  The counter of a window: absent before the first request, then the number of granted requests,
  living at least to the end of the window.
\<close>

definition counter_at :: "int \<Rightarrow> gotime \<Rightarrow> string \<Rightarrow> script_db \<Rightarrow> bool" where
  "counter_at c until k db \<longleftrightarrow>
     (if c = 0 then db k = None else \<exists>e. db k = Some (RInt c, Some e) \<and> until \<le> e)"

lemma counter_read:
  "counter_at c until k db \<Longrightarrow> t < until \<Longrightarrow> int_at t k db = Some (if c = 0 then None else Some c)"
  by (auto simp: counter_at_def entry_defs split: if_splits)

lemma counter_incr:
  assumes "counter_at c until k db" and "t < until" and "0 \<le> c" and "0 < s" and "until \<le> t + s * second"
  shows "counter_at (c + 1) until k (db_expire t k s (db_incr t k db))"
proof (cases "c = 0")
  case True
  with assms show ?thesis by (simp add: counter_at_def write_defs entry_defs)
next
  case False
  with assms obtain e where "db k = Some (RInt c, Some e)" "until \<le> e" by (auto simp: counter_at_def)
  with False assms show ?thesis by (simp add: counter_at_def write_defs entry_defs)
qed

lemma fixed_window_step:
  assumes env: "env_ok E adv db clk obs" and w: "0 < fw_window fw" "second dvd fw_window fw"
    and t: "time_Truncate t (fw_window fw) = start" and "0 \<le> c" and "c \<le> fw_limit fw"
    and inv: "counter_at c (start + fw_window fw) (fixed_window_key fw key start) (obs (db w0))"
  shows "\<exists>r w'. fw_Allow E fw key (adv t w0) = (r, w') \<and> granted r = (c < fw_limit fw)
      \<and> counter_at (if c < fw_limit fw then c + 1 else c) (start + fw_window fw)
           (fixed_window_key fw key start) (obs (db w'))"
proof -
  let ?k = "fixed_window_key fw key start" and ?w = "adv t w0"
  let ?s = "fixed_window_script (Cmds E) ?k (fw_limit fw) (whole_seconds (fw_window fw))"
  have bounds: "start \<le> t" "t < start + fw_window fw"
    using t w(1) by (auto simp: time_Truncate_def)
  have secs: "whole_seconds (fw_window fw) * second = fw_window fw"
    using w by (simp add: whole_seconds_def)
  then have pos: "0 < whole_seconds (fw_window fw)"
    using w(1) by (metis durations_pos(1) zero_less_mult_pos2)
  have get: "c_GET (Cmds E) ?k (db ?w) = (if c = 0 then None else Some c)"
    using conform_reads(2) [OF env_okD(1) [OF env]] counter_read [OF inv bounds(2)]
    by (simp add: env_okD [OF env])
  have allow: "fw_Allow E fw key ?w =
      read_reply (Eval E (fixed_window_script (Cmds E) ?k (fw_limit fw) (whole_seconds (fw_window fw))) ?w)"
    using t by (simp add: fw_Allow_def env_okD [OF env])
  show ?thesis
  proof (cases "c < fw_limit fw")
    case True
    let ?d = "c_EXPIRE (Cmds E) ?k (whole_seconds (fw_window fw)) (c_INCR (Cmds E) ?k (db ?w))"
    have "fixed_window_script (Cmds E) ?k (fw_limit fw) (whole_seconds (fw_window fw)) (db ?w) =
        ([1, fw_limit fw - c - 1], ?d)"
      using True get by (simp add: fixed_window_script_def Let_def)
    from Eval_reply [OF env, of ?s ?w, OF this] obtain w' where w': "fw_Allow E fw key ?w = (Answer True (fw_limit fw - c - 1), w')" "db w' = ?d"
      unfolding allow by auto
    have "obs ?d = db_expire t ?k (whole_seconds (fw_window fw)) (db_incr t ?k (obs (db w0)))"
      by (simp add: conform_writes [OF env_okD(1) [OF env]] env_okD [OF env])
    with counter_incr [OF inv bounds(2) assms(5) pos] bounds secs w' True show ?thesis by simp
  next
    case False
    then have "fixed_window_script (Cmds E) ?k (fw_limit fw) (whole_seconds (fw_window fw)) (db ?w) = ([0, 0], db ?w)"
      using get assms(5,6) by (auto simp: fixed_window_script_def Let_def)
    from Eval_reply [OF env, of ?s ?w, OF this] obtain w' where "fw_Allow E fw key ?w = (Answer False 0, w')" "db w' = db ?w"
      unfolding allow by auto
    with False inv show ?thesis by (simp add: env_okD [OF env])
  qed
qed

text \<open>
  C39. The fixed window limiter keeps its limit: of the requests for one key at any times within
  one window (of whole seconds), exactly the first \<open>limit\<close> are granted, however many there are.
\<close>
theorem fixed_window_limit:
  assumes "env_ok E adv db clk obs" and "0 < fw_window fw" and "second dvd fw_window fw" and "0 \<le> fw_limit fw"
    and "\<forall>t \<in> set ts. time_Truncate t (fw_window fw) = start"
    and "obs (db w) (fixed_window_key fw key start) = None"
  shows "map granted (allow_run (fw_Allow E fw) adv key ts w) = map (\<lambda>i. int i < fw_limit fw) [0..<length ts]"
proof -
  let ?I = "\<lambda>n w. counter_at (min (int n) (fw_limit fw)) (start + fw_window fw) (fixed_window_key fw key start) (obs (db w))"
  have "map granted (allow_run (fw_Allow E fw) adv key ts w) = map (\<lambda>i. int i < fw_limit fw) [0..<0 + length ts]"
  proof (rule run_invariant [where I = ?I and P = "\<lambda>_ t. time_Truncate t (fw_window fw) = start"])
    fix n t w
    assume inv: "?I n w" and t: "time_Truncate t (fw_window fw) = start"
    have "(if min (int n) (fw_limit fw) < fw_limit fw then min (int n) (fw_limit fw) + 1 else min (int n) (fw_limit fw))
        = min (int (Suc n)) (fw_limit fw)" by simp
    moreover have "(min (int n) (fw_limit fw) < fw_limit fw) = (int n < fw_limit fw)" by (auto simp: min_def)
    ultimately show "\<exists>r w'. fw_Allow E fw key (adv t w) = (r, w') \<and> granted r = (int n < fw_limit fw) \<and> ?I (Suc n) w'"
      using fixed_window_step [OF assms(1-3) t _ _ inv] assms(4) by simp
  qed (use assms in \<open>simp_all add: counter_at_def\<close>)
  then show ?thesis by simp
qed

subsection \<open>Token bucket\<close>

text \<open>The bucket after a request at time \<open>t\<close> that left \<open>n\<close> tokens.\<close>

definition bucket_at :: "int \<Rightarrow> gotime \<Rightarrow> string \<Rightarrow> script_db \<Rightarrow> bool" where
  "bucket_at n t k db \<longleftrightarrow>
     (\<exists>h. db k = Some (RHash h, Some (t + 3600 * second)) \<and> h ''tokens'' = Some n \<and> h ''lastRefill'' = Some (go_unix t))"

lemma bucket_stored:
  assumes "hash_at t k db = Some h"
  shows "bucket_at n t k (db_expire t k 3600 (db_hmset t k [(''tokens'', n), (''lastRefill'', go_unix t)] db))"
proof -
  have "live t k (db_hmset t k [(''tokens'', n), (''lastRefill'', go_unix t)] db) =
      Some (RHash (h ++ map_of (rev [(''tokens'', n), (''lastRefill'', go_unix t)])), expiry_at t k db)"
    using assms by (auto simp: write_defs entry_defs split: option.splits prod.splits if_splits)
  then show ?thesis by (simp add: bucket_at_def db_expire_def)
qed

text \<open>One request, given the tokens and the refill time the bucket yields before it.\<close>

lemma token_bucket_step:
  assumes env: "env_ok E adv db clk obs"
    and h: "hash_at t (tb_keyPrefix tb @ key) (obs (db w0)) = Some h"
    and period: "0 < whole_seconds (tb_refillPeriod tb)"
    and m: "m = min (tb_capacity tb)
        ((case h ''tokens'' of None \<Rightarrow> tb_capacity tb | Some n \<Rightarrow> n)
         + (case h ''lastRefill'' of None \<Rightarrow> 0 | Some l \<Rightarrow> (go_unix t - l) div whole_seconds (tb_refillPeriod tb))
           * tb_refillRate tb)"
  shows "\<exists>r w'. tb_Allow E tb key (adv t w0) = (r, w') \<and> granted r = (1 \<le> m)
      \<and> bucket_at (if 1 \<le> m then m - 1 else m) t (tb_keyPrefix tb @ key) (obs (db w'))"
proof -
  let ?k = "tb_keyPrefix tb @ key" and ?w = "adv t w0" and ?R = "Cmds E"
  let ?s = "token_bucket_script ?R ?k (tb_capacity tb) (tb_refillRate tb) (whole_seconds (tb_refillPeriod tb)) (go_unix t)"
  let ?n = "if 1 \<le> m then m - 1 else m"
  let ?d = "c_EXPIRE ?R ?k 3600 (c_HMSET ?R ?k [(''tokens'', ?n), (''lastRefill'', go_unix t)] (db ?w))"
  have "c_HMGET ?R ?k [''tokens'', ''lastRefill''] (db ?w) = [h ''tokens'', h ''lastRefill'']"
    using conform_reads(1) [OF env_okD(1) [OF env]] h by (simp add: env_okD [OF env])
  then have "?s (db ?w) = ([if 1 \<le> m then 1 else 0, ?n], ?d)"
    using period m by (cases "h ''lastRefill''") (simp_all add: token_bucket_script_def Let_def)
  from Eval_reply [OF env, of ?s ?w, OF this] obtain w' where
    w': "read_reply (Eval E ?s ?w) = (Answer (1 \<le> m) ?n, w')" "db w' = ?d"
    by (auto split: if_splits)
  have "obs ?d = db_expire t ?k 3600 (db_hmset t ?k [(''tokens'', ?n), (''lastRefill'', go_unix t)] (obs (db w0)))"
    by (simp add: conform_writes [OF env_okD(1) [OF env]] env_okD [OF env])
  with bucket_stored [OF h, of ?n] w' show ?thesis
    by (simp add: tb_Allow_def env_okD [OF env])
qed

lemma bucket_read:
  "bucket_at n t k db \<Longrightarrow> t' < t + 3600 * second \<Longrightarrow>
     \<exists>h. hash_at t' k db = Some h \<and> h ''tokens'' = Some n \<and> h ''lastRefill'' = Some (go_unix t)"
  by (auto simp: bucket_at_def entry_defs)


subsection \<open>Sliding window\<close>

definition second_at :: "int \<Rightarrow> string \<Rightarrow> script_db \<Rightarrow> bool" where
  "second_at u k db \<longleftrightarrow> (\<exists>t. go_unix t = u \<and> db k = Some (RZSet [(u, u)], Some (t + 3600 * second)))"

lemma same_second: "go_unix t = go_unix t' \<Longrightarrow> t < t' + second"
proof -
  assume "go_unix t = go_unix t'"
  then have "t div second * second = t' div second * second" by (simp add: go_unix_def)
  moreover have "t mod second < second" "0 \<le> t' mod second" by simp_all
  ultimately show ?thesis
    using div_mult_mod_eq [of t second] div_mult_mod_eq [of t' second] by linarith
qed

lemma earlier_second: "second \<le> v \<Longrightarrow> go_unix (t - v) < go_unix t"
proof -
  assume "second \<le> v"
  then have "(t - v) div second \<le> (t - second) div second" by (intro zdiv_mono1) simp_all
  also have "\<dots> = t div second - 1" by (metis div_add_self2 durations_pos(1) add_diff_cancel diff_add_cancel less_irrefl)
  finally show ?thesis by (simp add: go_unix_def)
qed

lemma second_read:
  assumes "second_at u k db" and "go_unix t = u" and "lo < u"
  shows "zset_at t k db = Some [(u, u)]" and "db_zrem t k 0 lo db k = db k"
proof -
  obtain t' where t': "go_unix t' = u" "db k = Some (RZSet [(u, u)], Some (t' + 3600 * second))"
    using assms(1) by (auto simp: second_at_def)
  have "t < t' + 3600 * second" using same_second [of t t'] t'(1) assms(2) by (simp add: second_def)
  with t' assms(3) show "zset_at t k db = Some [(u, u)]" and "db_zrem t k 0 lo db k = db k"
    by (simp_all add: entry_defs write_defs)
qed

lemma second_stored:
  assumes "zset_at t k db = Some z" and "z = [] \<or> z = [(u, u)]" and "go_unix t = u"
  shows "second_at u k (db_expire t k 3600 (db_zadd t k u u db))"
proof -
  have "AList.update u u z = [(u, u)]" using assms(2) by auto
  then have "live t k (db_zadd t k u u db) = Some (RZSet [(u, u)], expiry_at t k db)"
    using assms(1) by (auto simp: write_defs entry_defs split: option.splits prod.splits if_splits)
  with assms(3) show ?thesis by (auto simp: second_at_def db_expire_def)
qed

text \<open>
  The sliding window limiter does not limit a burst: its set of requests has one member per
  second, so, once the limit is at least two, every one of arbitrarily many requests for one key
  within the same second is granted.
\<close>
theorem sliding_window_burst:
  assumes "env_ok E adv db clk obs" and "2 \<le> sw_limit sw" and "second \<le> sw_window sw"
    and "\<forall>t \<in> set ts. go_unix t = u" and "obs (db w) (sw_keyPrefix sw @ key) = None"
  shows "map granted (allow_run (sw_Allow E sw) adv key ts w) = replicate (length ts) True"
proof -
  let ?k = "sw_keyPrefix sw @ key" and ?R = "Cmds E"
  let ?I = "\<lambda>n w. (n = 0 \<and> obs (db w) ?k = None) \<or> second_at u ?k (obs (db w))"
  note conf = env_okD(1) [OF assms(1)]
  have "map granted (allow_run (sw_Allow E sw) adv key ts w) = map (\<lambda>i. True) [0..<0 + length ts]"
  proof (rule run_invariant [where I = ?I and P = "\<lambda>_ t. go_unix t = u"])
    fix n :: nat and t w
    assume inv: "?I n w" and t: "go_unix t = u"
    let ?w = "adv t w" and ?lo = "go_unix (t - sw_window sw)"
    let ?s = "sliding_window_script ?R ?k (sw_limit sw) ?lo u"
    let ?d1 = "c_ZREMRANGEBYSCORE ?R ?k 0 ?lo (db ?w)"
    let ?d = "c_EXPIRE ?R ?k 3600 (c_ZADD ?R ?k u u ?d1)"
    have lo: "?lo < u" using earlier_second [OF assms(3)] t by blast
    have obs1: "obs ?d1 = db_zrem t ?k 0 ?lo (obs (db w))" "clk ?d1 = t"
      by (simp_all add: conform_writes [OF conf] env_okD [OF assms(1)])
    have same: "obs ?d1 ?k = obs (db w) ?k"
      using inv second_read(2) [OF _ t lo] unfolding obs1 by (auto simp: write_defs entry_defs)
    then have "\<exists>z. zset_at t ?k (obs ?d1) = Some z \<and> (z = [] \<or> z = [(u, u)])"
      using inv second_read(1) [OF _ t lo] by (auto simp: zset_at_def live_def)
    then obtain z where z: "zset_at t ?k (obs ?d1) = Some z" "z = [] \<or> z = [(u, u)]" by blast
    have card: "c_ZCARD ?R ?k ?d1 = int (length z)"
      using conform_reads(3) [OF conf, of ?d1 ?k z] z(1) obs1(2) by simp
    then have "?s (db ?w) = ([1, sw_limit sw - int (length z) - 1], ?d)"
      using z(2) assms(2) by (auto simp: sliding_window_script_def Let_def)
    from Eval_reply [OF assms(1), of ?s ?w, OF this] obtain w' where
      w': "sw_Allow E sw key ?w = (Answer True (sw_limit sw - int (length z) - 1), w')" "db w' = ?d"
      using t by (auto simp: sw_Allow_def env_okD [OF assms(1)])
    have "obs ?d = db_expire t ?k 3600 (db_zadd t ?k u u (obs ?d1))"
      by (simp add: conform_writes [OF conf] env_okD [OF assms(1)])
    with second_stored [OF z t] w'
    show "\<exists>r w'. sw_Allow E sw key ?w = (r, w') \<and> granted r = True \<and> ?I (Suc n) w'" by simp
  qed (use assms in simp_all)
  then show ?thesis by (simp add: map_replicate_const)
qed

subsection \<open>Adaptive limiter, manager and middleware\<close>

text \<open>
  The measured load is constant, so the adaptive limiter is its base limiter: the factor is 1
  after every call and the decision is the base limiter's.
\<close>

lemma adaptive_is_base:
  "ar_Allow ar key w =
     (case Allow (ar_baseLimiter ar) key w of (r, w') \<Rightarrow> (r, ar\<lparr> ar_adaptiveFactor := 1 \<rparr>, w'))"
  "ar_GetLimit (NewAdaptiveRateLimiter l) = GetLimit l"
  by (simp_all add: ar_Allow_def getSystemLoad_def ar_GetLimit_def NewAdaptiveRateLimiter_def)

interpretation rlm: name_registry NewRateLimiterManager "\<lambda>(name, limiter). RegisterRateLimiter name limiter"
  "\<lambda>rlm name. case GetRateLimiter rlm name of None \<Rightarrow> Inl name | Some l \<Rightarrow> Inr l" fst snd "\<lambda>name. name"
  by unfold_locales (auto simp: NewRateLimiterManager_def RegisterRateLimiter_def GetRateLimiter_def)

lemma middleware_refuses_iff:
  assumes "ctx_manager c = Some (fold (\<lambda>(name, limiter). RegisterRateLimiter name limiter) ls NewRateLimiterManager)"
  shows "fst (RateLimitMiddleware n c w) = TooManyRequests \<longleftrightarrow>
     (\<exists>limiter r. find (\<lambda>l. fst l = n) (rev ls) = Some (n, limiter)
        \<and> fst (Allow limiter (generateRateLimitKey c) w) = Answer False r)"
proof -
  let ?m = "fold (\<lambda>(name, limiter). RegisterRateLimiter name limiter) ls NewRateLimiterManager"
  have look: "GetRateLimiter ?m n = map_option snd (find (\<lambda>l. fst l = n) (rev ls))"
    using rlm.get_register_all [where es = ls and r = NewRateLimiterManager and n = n]
    by (auto simp: rlm.get_new split: option.splits)
  show ?thesis
  proof (cases "find (\<lambda>l. fst l = n) (rev ls)")
    case None
    with assms look show ?thesis by (simp add: RateLimitMiddleware_def)
  next
    case (Some l)
    then have "fst l = n" by (auto dest: find_SomeD)
    then obtain limiter where l: "l = (n, limiter)" by (metis prod.collapse)
    obtain r w' where "Allow limiter (generateRateLimitKey c) w = (r, w')" by fastforce
    with assms look Some l show ?thesis
      by (cases r) (auto simp: RateLimitMiddleware_def)
  qed
qed

subsection \<open>Witnesses\<close>

text \<open>A gateway and a server in memory that share one clock.\<close>

definition demo_limiter_env :: "(script_mem, script_mem) limiter_env" where
  "demo_limiter_env = \<lparr> Eval = (\<lambda>s w. case s w of (r, w') \<Rightarrow> (Inr r, w')), Now = fst, Cmds = mem_cmds \<rparr>"

lemma demo_limiter_env_ok: "env_ok demo_limiter_env (\<lambda>t w. (t, snd w)) (\<lambda>w. w) fst snd"
  by (simp add: env_ok_def demo_limiter_env_def mem_cmds_conform case_prod_beta)

theorem fixed_window_limit_witness:
  "map granted (allow_run (fw_Allow demo_limiter_env (NewFixedWindowRateLimiter 2 second)) (\<lambda>t w. (t, snd w)) ''ip''
      [5, 6, 7] (0, Map.empty)) = [True, True, False]"
  using fixed_window_limit [OF demo_limiter_env_ok, of "NewFixedWindowRateLimiter 2 second" "[5, 6, 7]" 0 "(0, Map.empty)" "''ip''"]
  by (simp add: NewFixedWindowRateLimiter_def time_Truncate_def second_def upt_rec)


theorem sliding_window_burst_witness:
  "map granted (allow_run (sw_Allow demo_limiter_env (NewSlidingWindowRateLimiter 2 minute)) (\<lambda>t w. (t, snd w)) ''ip''
      [5, 6, 7, 8] (0, Map.empty)) = [True, True, True, True]"
  using sliding_window_burst [OF demo_limiter_env_ok, of "NewSlidingWindowRateLimiter 2 minute" "[5, 6, 7, 8]" "go_unix 5" "(0, Map.empty)" "''ip''"]
  by (simp add: NewSlidingWindowRateLimiter_def go_unix_def second_def minute_def eval_nat_numeral)

end
