(* ===== verification/Rbac.thy ===== *)
theory Rbac
  imports Gin_Context
begin

text \<open>
  Role based access control (\<^verbatim>\<open>src/app/common/security/rbac.go\<close>) and the HTTP middlewares that enforce it
  (\<^verbatim>\<open>src/middlewares/rbac_enhanced.go\<close>).

  The maps of the \<^verbatim>\<open>RBAC\<close> value are association lists, since the code ranges over them; the records they
  point to are values of the model, which is how they behave as long as a caller does not write to a record it
  has handed over. A call reads the clock once (\<open>now\<close>). An operation is guarded by the mutex and so is one
  step; it returns the error, if any, and the new state. The permissions of a user are kept twice: in the user's
  own list, where \<^verbatim>\<open>AssignRoleToUser\<close> copies those of the role, and in the roles.
\<close>

section \<open>Model\<close>

(* src: app/common/security/rbac.go:10-17 Role *)
record role =
  role_ID :: string
  role_Name :: string
  role_Permissions :: "string list"
  role_Metadata :: "string \<rightharpoonup> string"
  role_CreatedAt :: gotime
  role_UpdatedAt :: gotime

(* src: app/common/security/rbac.go:20-28 Permission *)
record permission =
  perm_ID :: string
  perm_Name :: string
  perm_Resource :: string
  perm_Action :: string
  perm_Metadata :: "string \<rightharpoonup> string"
  perm_CreatedAt :: gotime
  perm_UpdatedAt :: gotime

(* src: app/common/security/rbac.go:31-40 User *)
record ruser =
  ruser_ID :: string
  ruser_Username :: string
  ruser_Email :: string
  ruser_Roles :: "string list"
  ruser_Permissions :: "string list"
  ruser_Metadata :: "string \<rightharpoonup> string"
  ruser_CreatedAt :: gotime
  ruser_UpdatedAt :: gotime

(* src: app/common/security/rbac.go:43-48 RBAC *)
record rbac =
  rb_roles :: "(string \<times> role) list"
  rb_permissions :: "(string \<times> permission) list"
  rb_users :: "(string \<times> ruser) list"

(* src: app/common/security/rbac.go:51-57 NewRBAC *)
definition NewRBAC :: rbac where
  "NewRBAC = \<lparr> rb_roles = [], rb_permissions = [], rb_users = [] \<rparr>"

subsection \<open>Roles, permissions and users\<close>

(* src: app/common/security/rbac.go:60-73 RBAC.AddRole *)
definition AddRole :: "gotime \<Rightarrow> role \<Rightarrow> rbac \<Rightarrow> err option \<times> rbac" where
  "AddRole now ro s =
     (case map_of (rb_roles s) (role_ID ro) of
        Some _ \<Rightarrow> (Some (''role '' @ role_ID ro @ '' already exists''), s)
      | None \<Rightarrow>
          (None, s\<lparr> rb_roles := AList.update (role_ID ro)
                     (ro\<lparr> role_CreatedAt := now, role_UpdatedAt := now \<rparr>) (rb_roles s) \<rparr>))"

(* src: app/common/security/rbac.go:76-86 RBAC.GetRole *)
definition GetRole :: "string \<Rightarrow> rbac \<Rightarrow> err + role" where
  "GetRole roleID s =
     (case map_of (rb_roles s) roleID of
        None \<Rightarrow> Inl (''role '' @ roleID @ '' not found'') | Some ro \<Rightarrow> Inr ro)"

(* src: app/common/security/rbac.go:89-101 RBAC.UpdateRole *)
definition UpdateRole :: "gotime \<Rightarrow> role \<Rightarrow> rbac \<Rightarrow> err option \<times> rbac" where
  "UpdateRole now ro s =
     (case map_of (rb_roles s) (role_ID ro) of
        None \<Rightarrow> (Some (''role '' @ role_ID ro @ '' not found''), s)
      | Some _ \<Rightarrow>
          (None, s\<lparr> rb_roles := AList.update (role_ID ro) (ro\<lparr> role_UpdatedAt := now \<rparr>) (rb_roles s) \<rparr>))"

(* src: app/common/security/rbac.go:104-115 RBAC.DeleteRole *)
definition DeleteRole :: "string \<Rightarrow> rbac \<Rightarrow> err option \<times> rbac" where
  "DeleteRole roleID s =
     (case map_of (rb_roles s) roleID of
        None \<Rightarrow> (Some (''role '' @ roleID @ '' not found''), s)
      | Some _ \<Rightarrow> (None, s\<lparr> rb_roles := AList.delete roleID (rb_roles s) \<rparr>))"

(* src: app/common/security/rbac.go:118-131 RBAC.AddPermission *)
definition AddPermission :: "gotime \<Rightarrow> permission \<Rightarrow> rbac \<Rightarrow> err option \<times> rbac" where
  "AddPermission now pe s =
     (case map_of (rb_permissions s) (perm_ID pe) of
        Some _ \<Rightarrow> (Some (''permission '' @ perm_ID pe @ '' already exists''), s)
      | None \<Rightarrow>
          (None, s\<lparr> rb_permissions := AList.update (perm_ID pe)
                     (pe\<lparr> perm_CreatedAt := now, perm_UpdatedAt := now \<rparr>) (rb_permissions s) \<rparr>))"

(* src: app/common/security/rbac.go:134-144 RBAC.GetPermission *)
definition GetPermission :: "string \<Rightarrow> rbac \<Rightarrow> err + permission" where
  "GetPermission permissionID s =
     (case map_of (rb_permissions s) permissionID of
        None \<Rightarrow> Inl (''permission '' @ permissionID @ '' not found'') | Some pe \<Rightarrow> Inr pe)"

(* src: app/common/security/rbac.go:147-159 RBAC.UpdatePermission *)
definition UpdatePermission :: "gotime \<Rightarrow> permission \<Rightarrow> rbac \<Rightarrow> err option \<times> rbac" where
  "UpdatePermission now pe s =
     (case map_of (rb_permissions s) (perm_ID pe) of
        None \<Rightarrow> (Some (''permission '' @ perm_ID pe @ '' not found''), s)
      | Some _ \<Rightarrow>
          (None, s\<lparr> rb_permissions := AList.update (perm_ID pe) (pe\<lparr> perm_UpdatedAt := now \<rparr>) (rb_permissions s) \<rparr>))"

(* src: app/common/security/rbac.go:162-173 RBAC.DeletePermission *)
definition DeletePermission :: "string \<Rightarrow> rbac \<Rightarrow> err option \<times> rbac" where
  "DeletePermission permissionID s =
     (case map_of (rb_permissions s) permissionID of
        None \<Rightarrow> (Some (''permission '' @ permissionID @ '' not found''), s)
      | Some _ \<Rightarrow> (None, s\<lparr> rb_permissions := AList.delete permissionID (rb_permissions s) \<rparr>))"

(* src: app/common/security/rbac.go:176-189 RBAC.AddUser *)
definition AddUser :: "gotime \<Rightarrow> ruser \<Rightarrow> rbac \<Rightarrow> err option \<times> rbac" where
  "AddUser now u s =
     (case map_of (rb_users s) (ruser_ID u) of
        Some _ \<Rightarrow> (Some (''user '' @ ruser_ID u @ '' already exists''), s)
      | None \<Rightarrow>
          (None, s\<lparr> rb_users := AList.update (ruser_ID u)
                     (u\<lparr> ruser_CreatedAt := now, ruser_UpdatedAt := now \<rparr>) (rb_users s) \<rparr>))"

(* src: app/common/security/rbac.go:192-202 RBAC.GetUser *)
definition GetUser :: "string \<Rightarrow> rbac \<Rightarrow> err + ruser" where
  "GetUser userID s =
     (case map_of (rb_users s) userID of
        None \<Rightarrow> Inl (''user '' @ userID @ '' not found'') | Some u \<Rightarrow> Inr u)"

(* src: app/common/security/rbac.go:205-217 RBAC.UpdateUser *)
definition UpdateUser :: "gotime \<Rightarrow> ruser \<Rightarrow> rbac \<Rightarrow> err option \<times> rbac" where
  "UpdateUser now u s =
     (case map_of (rb_users s) (ruser_ID u) of
        None \<Rightarrow> (Some (''user '' @ ruser_ID u @ '' not found''), s)
      | Some _ \<Rightarrow>
          (None, s\<lparr> rb_users := AList.update (ruser_ID u) (u\<lparr> ruser_UpdatedAt := now \<rparr>) (rb_users s) \<rparr>))"

(* src: app/common/security/rbac.go:220-231 RBAC.DeleteUser *)
definition DeleteUser :: "string \<Rightarrow> rbac \<Rightarrow> err option \<times> rbac" where
  "DeleteUser userID s =
     (case map_of (rb_users s) userID of
        None \<Rightarrow> (Some (''user '' @ userID @ '' not found''), s)
      | Some _ \<Rightarrow> (None, s\<lparr> rb_users := AList.delete userID (rb_users s) \<rparr>))"

subsection \<open>Assignments\<close>

(* src: app/common/security/rbac.go:234-264 RBAC.AssignRoleToUser *)
definition AssignRoleToUser :: "gotime \<Rightarrow> string \<Rightarrow> string \<Rightarrow> rbac \<Rightarrow> err option \<times> rbac" where
  "AssignRoleToUser now userID roleID s =
     (case map_of (rb_users s) userID of
        None \<Rightarrow> (Some (''user '' @ userID @ '' not found''), s)
      | Some u \<Rightarrow>
          (case map_of (rb_roles s) roleID of
             None \<Rightarrow> (Some (''role '' @ roleID @ '' not found''), s)
           | Some ro \<Rightarrow>
               if roleID \<in> set (ruser_Roles u)
                 then (Some (''role '' @ roleID @ '' already assigned to user '' @ userID), s)
               else (None, s\<lparr> rb_users := AList.update userID
                       (u\<lparr> ruser_Roles := ruser_Roles u @ [roleID], ruser_UpdatedAt := now,
                           ruser_Permissions := ruser_Permissions u @ role_Permissions ro \<rparr>) (rb_users s) \<rparr>)))"

text \<open>\<^verbatim>\<open>for j, q := range ps { if q == p { ps = append(ps[:j], ps[j+1:]...); break } }\<close>, for each \<^verbatim>\<open>p\<close> in turn.\<close>

(* src: app/common/security/rbac.go:285-292 RBAC.RemoveRoleFromUser (permission loop) *)
definition drop_each :: "string list \<Rightarrow> string list \<Rightarrow> string list" where
  "drop_each ps qs = fold (\<lambda>p. del_first (\<lambda>q. q = p)) ps qs"

(* src: app/common/security/rbac.go:267-300 RBAC.RemoveRoleFromUser *)
definition RemoveRoleFromUser :: "gotime \<Rightarrow> string \<Rightarrow> string \<Rightarrow> rbac \<Rightarrow> err option \<times> rbac" where
  "RemoveRoleFromUser now userID roleID s =
     (case map_of (rb_users s) userID of
        None \<Rightarrow> (Some (''user '' @ userID @ '' not found''), s)
      | Some u \<Rightarrow>
          if roleID \<in> set (ruser_Roles u)
            then (None, s\<lparr> rb_users := AList.update userID
                    (u\<lparr> ruser_Roles := del_first (\<lambda>r. r = roleID) (ruser_Roles u), ruser_UpdatedAt := now,
                        ruser_Permissions :=
                          (case map_of (rb_roles s) roleID of
                             None \<Rightarrow> ruser_Permissions u
                           | Some ro \<Rightarrow> drop_each (role_Permissions ro) (ruser_Permissions u)) \<rparr>) (rb_users s) \<rparr>)
          else (Some (''role '' @ roleID @ '' not assigned to user '' @ userID), s))"

text \<open>The loop over all users that hold the role: once per occurrence of the role in the user's list.\<close>

(* src: app/common/security/rbac.go:330-333 RBAC.AssignPermissionToRole (one role of a user) *)
definition grant_once :: "gotime \<Rightarrow> string \<Rightarrow> string \<Rightarrow> string \<Rightarrow> ruser \<Rightarrow> ruser" where
  "grant_once now roleID permissionID userRole u =
     (if userRole = roleID
        then u\<lparr> ruser_Permissions := ruser_Permissions u @ [permissionID], ruser_UpdatedAt := now \<rparr>
      else u)"

(* src: app/common/security/rbac.go:328-335 RBAC.AssignPermissionToRole (user loop) *)
definition grant_holder :: "gotime \<Rightarrow> string \<Rightarrow> string \<Rightarrow> ruser \<Rightarrow> ruser" where
  "grant_holder now roleID permissionID u = fold (grant_once now roleID permissionID) (ruser_Roles u) u"

(* src: app/common/security/rbac.go:303-338 RBAC.AssignPermissionToRole *)
definition AssignPermissionToRole :: "gotime \<Rightarrow> string \<Rightarrow> string \<Rightarrow> rbac \<Rightarrow> err option \<times> rbac" where
  "AssignPermissionToRole now roleID permissionID s =
     (case map_of (rb_roles s) roleID of
        None \<Rightarrow> (Some (''role '' @ roleID @ '' not found''), s)
      | Some ro \<Rightarrow>
          (case map_of (rb_permissions s) permissionID of
             None \<Rightarrow> (Some (''permission '' @ permissionID @ '' not found''), s)
           | Some _ \<Rightarrow>
               if permissionID \<in> set (role_Permissions ro)
                 then (Some (''permission '' @ permissionID @ '' already assigned to role '' @ roleID), s)
               else (None, s\<lparr> rb_roles := AList.update roleID
                                (ro\<lparr> role_Permissions := role_Permissions ro @ [permissionID], role_UpdatedAt := now \<rparr>)
                                (rb_roles s),
                              rb_users := map (\<lambda>(i, u). (i, grant_holder now roleID permissionID u)) (rb_users s) \<rparr>)))"

(* src: app/common/security/rbac.go:359-367 RBAC.RemovePermissionFromRole (one role of a user) *)
definition revoke_once :: "gotime \<Rightarrow> string \<Rightarrow> string \<Rightarrow> string \<Rightarrow> ruser \<Rightarrow> ruser" where
  "revoke_once now roleID permissionID userRole u =
     (if userRole = roleID \<and> permissionID \<in> set (ruser_Permissions u)
        then u\<lparr> ruser_Permissions := del_first (\<lambda>p. p = permissionID) (ruser_Permissions u), ruser_UpdatedAt := now \<rparr>
      else u)"

(* src: app/common/security/rbac.go:357-369 RBAC.RemovePermissionFromRole (user loop) *)
definition revoke_holder :: "gotime \<Rightarrow> string \<Rightarrow> string \<Rightarrow> ruser \<Rightarrow> ruser" where
  "revoke_holder now roleID permissionID u = fold (revoke_once now roleID permissionID) (ruser_Roles u) u"

(* src: app/common/security/rbac.go:341-376 RBAC.RemovePermissionFromRole *)
definition RemovePermissionFromRole :: "gotime \<Rightarrow> string \<Rightarrow> string \<Rightarrow> rbac \<Rightarrow> err option \<times> rbac" where
  "RemovePermissionFromRole now roleID permissionID s =
     (case map_of (rb_roles s) roleID of
        None \<Rightarrow> (Some (''role '' @ roleID @ '' not found''), s)
      | Some ro \<Rightarrow>
          if permissionID \<in> set (role_Permissions ro)
            then (None, s\<lparr> rb_roles := AList.update roleID
                             (ro\<lparr> role_Permissions := del_first (\<lambda>p. p = permissionID) (role_Permissions ro),
                                  role_UpdatedAt := now \<rparr>) (rb_roles s),
                           rb_users := map (\<lambda>(i, u). (i, revoke_holder now roleID permissionID u)) (rb_users s) \<rparr>)
          else (Some (''permission '' @ permissionID @ '' not assigned to role '' @ roleID), s))"

subsection \<open>Queries\<close>

(* src: app/common/security/rbac.go:390-393 RBAC.HasPermission (one permission) *)
definition grants :: "rbac \<Rightarrow> string \<Rightarrow> string \<Rightarrow> string \<Rightarrow> bool" where
  "grants s resource action permissionID =
     (case map_of (rb_permissions s) permissionID of
        None \<Rightarrow> False | Some pe \<Rightarrow> perm_Resource pe = resource \<and> perm_Action pe = action)"

(* src: app/common/security/rbac.go:379-410 RBAC.HasPermission *)
definition HasPermission :: "string \<Rightarrow> string \<Rightarrow> string \<Rightarrow> rbac \<Rightarrow> bool" where
  "HasPermission userID resource action s =
     (case map_of (rb_users s) userID of
        None \<Rightarrow> False
      | Some u \<Rightarrow>
          list_ex (grants s resource action) (ruser_Permissions u)
          \<or> list_ex (\<lambda>roleID. case map_of (rb_roles s) roleID of
                                None \<Rightarrow> False
                              | Some ro \<Rightarrow> list_ex (grants s resource action) (role_Permissions ro)) (ruser_Roles u))"

(* src: app/common/security/rbac.go:413-429 RBAC.HasRole *)
definition HasRole :: "string \<Rightarrow> string \<Rightarrow> rbac \<Rightarrow> bool" where
  "HasRole userID roleID s =
     (case map_of (rb_users s) userID of None \<Rightarrow> False | Some u \<Rightarrow> roleID \<in> set (ruser_Roles u))"

(* src: app/common/security/rbac.go:432-450 RBAC.GetUserPermissions *)
definition GetUserPermissions :: "string \<Rightarrow> rbac \<Rightarrow> err + permission list" where
  "GetUserPermissions userID s =
     (case map_of (rb_users s) userID of
        None \<Rightarrow> Inl (''user '' @ userID @ '' not found'')
      | Some u \<Rightarrow> Inr (List.map_filter (map_of (rb_permissions s)) (ruser_Permissions u)))"

(* src: app/common/security/rbac.go:453-471 RBAC.GetUserRoles *)
definition GetUserRoles :: "string \<Rightarrow> rbac \<Rightarrow> err + role list" where
  "GetUserRoles userID s =
     (case map_of (rb_users s) userID of
        None \<Rightarrow> Inl (''user '' @ userID @ '' not found'')
      | Some u \<Rightarrow> Inr (List.map_filter (map_of (rb_roles s)) (ruser_Roles u)))"

(* src: app/common/security/rbac.go:474-484 RBAC.ListRoles *)
definition ListRoles :: "(string \<times> role) range_order \<Rightarrow> rbac \<Rightarrow> role list" where
  "ListRoles order s = map snd (order (rb_roles s))"

(* src: app/common/security/rbac.go:487-497 RBAC.ListPermissions *)
definition ListPermissions :: "(string \<times> permission) range_order \<Rightarrow> rbac \<Rightarrow> permission list" where
  "ListPermissions order s = map snd (order (rb_permissions s))"

(* src: app/common/security/rbac.go:500-510 RBAC.ListUsers *)
definition ListUsers :: "(string \<times> ruser) range_order \<Rightarrow> rbac \<Rightarrow> ruser list" where
  "ListUsers order s = map snd (order (rb_users s))"

subsection \<open>Operations\<close>

datatype rbac_op =
    OpAddRole role | OpUpdateRole role | OpDeleteRole string
  | OpAddPermission permission | OpUpdatePermission permission | OpDeletePermission string
  | OpAddUser ruser | OpUpdateUser ruser | OpDeleteUser string
  | OpAssignRole string string | OpRemoveRole string string
  | OpGrant string string | OpRevoke string string

fun rbac_apply :: "gotime \<Rightarrow> rbac_op \<Rightarrow> rbac \<Rightarrow> err option \<times> rbac" where
  "rbac_apply now (OpAddRole ro) s = AddRole now ro s"
| "rbac_apply now (OpUpdateRole ro) s = UpdateRole now ro s"
| "rbac_apply now (OpDeleteRole r) s = DeleteRole r s"
| "rbac_apply now (OpAddPermission pe) s = AddPermission now pe s"
| "rbac_apply now (OpUpdatePermission pe) s = UpdatePermission now pe s"
| "rbac_apply now (OpDeletePermission p) s = DeletePermission p s"
| "rbac_apply now (OpAddUser u) s = AddUser now u s"
| "rbac_apply now (OpUpdateUser u) s = UpdateUser now u s"
| "rbac_apply now (OpDeleteUser i) s = DeleteUser i s"
| "rbac_apply now (OpAssignRole i r) s = AssignRoleToUser now i r s"
| "rbac_apply now (OpRemoveRole i r) s = RemoveRoleFromUser now i r s"
| "rbac_apply now (OpGrant r p) s = AssignPermissionToRole now r p s"
| "rbac_apply now (OpRevoke r p) s = RemovePermissionFromRole now r p s"

definition rbac_run :: "(gotime \<times> rbac_op) list \<Rightarrow> rbac \<Rightarrow> rbac" where
  "rbac_run ops s = fold (\<lambda>(now, op) s. snd (rbac_apply now op s)) ops s"

section \<open>Properties\<close>

lemmas rbac_defs = AddRole_def UpdateRole_def DeleteRole_def AddPermission_def UpdatePermission_def DeletePermission_def
  AddUser_def UpdateUser_def DeleteUser_def AssignRoleToUser_def RemoveRoleFromUser_def AssignPermissionToRole_def
  RemovePermissionFromRole_def

subsection \<open>The stores\<close>

text \<open>A Go map whose entries carry their key: the keys are distinct and every entry is under its own ID.\<close>

definition keyed :: "('a \<Rightarrow> string) \<Rightarrow> (string \<times> 'a) list \<Rightarrow> bool" where
  "keyed ident al \<longleftrightarrow> distinct (map fst al) \<and> list_all (\<lambda>(k, v). ident v = k) al"

lemma keyed_Nil [simp]: "keyed ident []"
  by (simp add: keyed_def)

lemma keyed_update: "keyed ident al \<Longrightarrow> ident v = k \<Longrightarrow> keyed ident (AList.update k v al)"
  by (auto simp: keyed_def distinct_update list_all_iff dest!: in_alist_update)

lemma keyed_delete: "keyed ident al \<Longrightarrow> keyed ident (AList.delete k al)"
  by (auto simp: keyed_def list_all_iff distinct_delete dest!: in_alist_delete)

lemma keyed_map: "keyed ident al \<Longrightarrow> (\<And>v. ident (f v) = ident v) \<Longrightarrow> keyed ident (map (\<lambda>(k, v). (k, f v)) al)"
  by (auto simp: keyed_def list_all_iff comp_def case_prod_unfold)

lemma keyed_ident: "keyed ident al \<Longrightarrow> map_of al k = Some v \<Longrightarrow> ident v = k"
  by (auto simp: keyed_def list_all_iff dest!: map_of_SomeD)

definition rbac_ok :: "rbac \<Rightarrow> bool" where
  "rbac_ok s \<longleftrightarrow> keyed role_ID (rb_roles s) \<and> keyed perm_ID (rb_permissions s) \<and> keyed ruser_ID (rb_users s)"

lemma fold_keeps: "(\<And>x v. g (f x v) = g v) \<Longrightarrow> g (fold f xs v) = g v"
  by (induction xs arbitrary: v) auto

lemma holder_fields [simp]:
  "ruser_ID (grant_holder now r p u) = ruser_ID u" "ruser_Roles (grant_holder now r p u) = ruser_Roles u"
  "ruser_ID (revoke_holder now r p u) = ruser_ID u" "ruser_Roles (revoke_holder now r p u) = ruser_Roles u"
  unfolding grant_holder_def revoke_holder_def
  by (rule fold_keeps, simp add: grant_once_def revoke_once_def)+

lemma rbac_ok_apply:
  assumes ok: "rbac_ok s"
  shows "rbac_ok (snd (rbac_apply now op s))"
proof -
  have R: "keyed role_ID (rb_roles s)" and P: "keyed perm_ID (rb_permissions s)" and U: "keyed ruser_ID (rb_users s)"
    using ok by (simp_all add: rbac_ok_def)
  note rules = ok rbac_defs rbac_ok_def R P U keyed_update [OF R] keyed_update [OF P] keyed_update [OF U]
    keyed_delete keyed_map [OF U] keyed_ident [OF R] keyed_ident [OF U]
  show ?thesis by (cases op) (simp_all add: rules split: option.split)
qed


subsection \<open>The copied permissions\<close>

text \<open>
  \<open>direct i\<close> are the permissions user \<open>i\<close> was added with. A state is balanced when the list of every user is,
  as a multiset, the direct permissions and those of each role the user holds.
\<close>

definition role_grants :: "rbac \<Rightarrow> string \<Rightarrow> string multiset" where
  "role_grants s r = (case map_of (rb_roles s) r of None \<Rightarrow> {#} | Some ro \<Rightarrow> mset (role_Permissions ro))"

definition user_balanced :: "rbac \<Rightarrow> string multiset \<Rightarrow> ruser \<Rightarrow> bool" where
  "user_balanced s d u \<longleftrightarrow>
     set (ruser_Roles u) \<subseteq> dom (map_of (rb_roles s))
     \<and> mset (ruser_Permissions u) = d + (\<Sum>r\<leftarrow>ruser_Roles u. role_grants s r)"

definition balanced :: "rbac \<Rightarrow> (string \<Rightarrow> string multiset) \<Rightarrow> bool" where
  "balanced s direct \<longleftrightarrow> (\<forall>i u. map_of (rb_users s) i = Some u \<longrightarrow> user_balanced s (direct i) u)"

lemma mset_drop_each: "mset (drop_each ps qs) = mset qs - mset ps"
proof (induction ps arbitrary: qs)
  case (Cons p ps)
  then show ?case by (simp add: drop_each_def del_first_eq_remove1)
qed (simp add: drop_each_def)

lemma mset_grant_holder:
  "mset (ruser_Permissions (grant_holder now r p u)) = mset (ruser_Permissions u) + replicate_mset (count_list (ruser_Roles u) r) p"
proof -
  have "mset (ruser_Permissions (fold (grant_once now r p) rs v)) = mset (ruser_Permissions v) + replicate_mset (count_list rs r) p"
    for rs v
    by (induction rs arbitrary: v) (simp_all add: grant_once_def)
  then show ?thesis by (simp add: grant_holder_def)
qed

lemma mset_revoke_once: "mset (ruser_Permissions (revoke_once now r p r' u)) = (if r' = r then mset (ruser_Permissions u) - {#p#} else mset (ruser_Permissions u))"
  by (auto simp: revoke_once_def del_first_eq_remove1 diff_single_trivial)

lemma mset_revoke_holder:
  "mset (ruser_Permissions (revoke_holder now r p u)) = mset (ruser_Permissions u) - replicate_mset (count_list (ruser_Roles u) r) p"
proof -
  have "mset (ruser_Permissions (fold (revoke_once now r p) rs v)) = mset (ruser_Permissions v) - replicate_mset (count_list rs r) p"
    for rs v
    by (induction rs arbitrary: v) (simp_all add: mset_revoke_once)
  then show ?thesis by (simp add: revoke_holder_def)
qed

lemma sum_grants_changed:
  fixes g h :: "string \<Rightarrow> 'a multiset"
  assumes "\<And>r'. r' \<noteq> r \<Longrightarrow> h r' = g r'" and "h r = g r + {#p#}"
  shows "(\<Sum>r'\<leftarrow>rs. h r') = (\<Sum>r'\<leftarrow>rs. g r') + replicate_mset (count_list rs r) p"
  using assms by (induction rs) (auto simp: ac_simps)

lemma sum_grants_remove1:
  fixes g :: "string \<Rightarrow> 'a multiset"
  shows "r \<in> set rs \<Longrightarrow> (\<Sum>r'\<leftarrow>rs. g r') = g r + (\<Sum>r'\<leftarrow>remove1 r rs. g r')"
  by (induction rs) auto

lemma user_balanced_cong:
  assumes "\<And>r. r \<in> set (ruser_Roles u) \<Longrightarrow> map_of (rb_roles s') r = map_of (rb_roles s) r"
    and "user_balanced s d u"
  shows "user_balanced s' d u"
proof -
  have "map (role_grants s') (ruser_Roles u) = map (role_grants s) (ruser_Roles u)"
    using assms(1) by (simp add: role_grants_def)
  from arg_cong [OF this, where f = sum_list] show ?thesis using assms(2)
    by (auto simp: user_balanced_def assms(1) subset_iff domIff)
qed

lemma balanced_keep_users:
  assumes "balanced s direct" and "rb_users s' = rb_users s"
    and "\<And>r ro. map_of (rb_roles s) r = Some ro \<Longrightarrow> map_of (rb_roles s') r = Some ro"
  shows "balanced s' direct"
proof (unfold balanced_def, intro allI impI)
  fix i u assume "map_of (rb_users s') i = Some u"
  with assms(1,2) have b: "user_balanced s (direct i) u" by (simp add: balanced_def)
  show "user_balanced s' (direct i) u"
  proof (rule user_balanced_cong [OF _ b])
    fix r assume "r \<in> set (ruser_Roles u)"
    with b obtain ro where "map_of (rb_roles s) r = Some ro" by (auto simp: user_balanced_def)
    with assms(3) show "map_of (rb_roles s') r = map_of (rb_roles s) r" by simp
  qed
qed

lemma balanced_update_user:
  assumes "balanced s direct" and "user_balanced s d u'" and "direct' i = d"
    and "\<And>j. j \<noteq> i \<Longrightarrow> direct' j = direct j"
  shows "balanced (s\<lparr> rb_users := AList.update i u' (rb_users s) \<rparr>) direct'"
proof -
  have c: "user_balanced (s\<lparr> rb_users := us \<rparr>) e u = user_balanced s e u" for us e u
    by (simp add: user_balanced_def role_grants_def)
  show ?thesis using assms by (auto simp: balanced_def update_conv' c)
qed

lemma balanced_AssignRole:
  assumes b: "balanced s direct"
  shows "balanced (snd (AssignRoleToUser now i r s)) direct"
proof (cases "map_of (rb_users s) i")
  case (Some u)
  show ?thesis
  proof (cases "map_of (rb_roles s) r")
    case ro: (Some ro)
    from b Some have "user_balanced s (direct i) u" by (simp add: balanced_def)
    with ro have "user_balanced s (direct i) (u\<lparr> ruser_Roles := ruser_Roles u @ [r], ruser_UpdatedAt := now,
        ruser_Permissions := ruser_Permissions u @ role_Permissions ro \<rparr>)"
      by (auto simp: user_balanced_def role_grants_def ac_simps)
    from balanced_update_user [OF b this] b Some ro show ?thesis
      by (simp add: AssignRoleToUser_def)
  qed (simp add: AssignRoleToUser_def Some b)
qed (simp add: AssignRoleToUser_def b)

lemma balanced_RemoveRole:
  assumes b: "balanced s direct"
  shows "balanced (snd (RemoveRoleFromUser now i r s)) direct"
proof (cases "map_of (rb_users s) i")
  case (Some u)
  from b Some have u: "user_balanced s (direct i) u" by (simp add: balanced_def)
  show ?thesis
  proof (cases "r \<in> set (ruser_Roles u)")
    case True
    with u obtain ro where ro: "map_of (rb_roles s) r = Some ro" by (auto simp: user_balanced_def)
    have "set (del_first (\<lambda>r'. r' = r) (ruser_Roles u)) \<subseteq> set (ruser_Roles u)" by (rule set_del_first)
    moreover have "mset (drop_each (role_Permissions ro) (ruser_Permissions u))
        = direct i + (\<Sum>r\<leftarrow>remove1 r (ruser_Roles u). role_grants s r)"
      using u sum_grants_remove1 [OF True, of "role_grants s"] ro
      by (simp add: mset_drop_each user_balanced_def role_grants_def)
    ultimately have "user_balanced s (direct i) (u\<lparr> ruser_Roles := del_first (\<lambda>r'. r' = r) (ruser_Roles u),
        ruser_UpdatedAt := now, ruser_Permissions := drop_each (role_Permissions ro) (ruser_Permissions u) \<rparr>)"
      using u by (auto simp: user_balanced_def del_first_eq_remove1)
    from balanced_update_user [OF b this] Some True ro show ?thesis
      by (simp add: RemoveRoleFromUser_def)
  qed (simp add: RemoveRoleFromUser_def Some b)
qed (simp add: RemoveRoleFromUser_def b)

lemma balanced_change_role:
  assumes "balanced s direct" and s': "s' = s\<lparr> rb_roles := AList.update r ro' (rb_roles s), rb_users := map (\<lambda>(i, u). (i, f u)) (rb_users s) \<rparr>"
    and "\<And>d u. user_balanced s d u \<Longrightarrow> mset (ruser_Permissions (f u)) = d + (\<Sum>r'\<leftarrow>ruser_Roles u. role_grants s' r')"
    and "\<And>u. ruser_Roles (f u) = ruser_Roles u"
  shows "balanced s' direct"
proof (unfold balanced_def, intro allI impI)
  fix i u' assume "map_of (rb_users s') i = Some u'"
  then obtain u where u: "map_of (rb_users s) i = Some u" and u': "u' = f u"
    by (auto simp: s' map_of_map)
  with assms(1) have b: "user_balanced s (direct i) u" by (simp add: balanced_def)
  from assms(3) [OF b] b assms(4) show "user_balanced s' (direct i) u'"
    by (auto simp: user_balanced_def u' s' update_conv')
qed

lemma balanced_Grant:
  assumes b: "balanced s direct"
  shows "balanced (snd (AssignPermissionToRole now r p s)) direct"
proof (cases "\<exists>ro pe. map_of (rb_roles s) r = Some ro \<and> map_of (rb_permissions s) p = Some pe \<and> p \<notin> set (role_Permissions ro)")
  case True
  then obtain ro pe where ro: "map_of (rb_roles s) r = Some ro" and p: "map_of (rb_permissions s) p = Some pe"
    "p \<notin> set (role_Permissions ro)" by blast
  define ro' where "ro' = ro\<lparr> role_Permissions := role_Permissions ro @ [p], role_UpdatedAt := now \<rparr>"
  define s' where "s' = s\<lparr> rb_roles := AList.update r ro' (rb_roles s),
                           rb_users := map (\<lambda>(i, u). (i, grant_holder now r p u)) (rb_users s) \<rparr>"
  have "balanced s' direct"
  proof (rule balanced_change_role [OF b s'_def])
    fix d u assume "user_balanced s d u"
    moreover have "(\<Sum>r'\<leftarrow>ruser_Roles u. role_grants s' r') = (\<Sum>r'\<leftarrow>ruser_Roles u. role_grants s r')
        + replicate_mset (count_list (ruser_Roles u) r) p"
      by (rule sum_grants_changed) (simp_all add: role_grants_def s'_def update_conv' ro ro'_def)
    ultimately show "mset (ruser_Permissions (grant_holder now r p u)) = d + (\<Sum>r'\<leftarrow>ruser_Roles u. role_grants s' r')"
      by (simp add: mset_grant_holder user_balanced_def)
  qed simp
  then show ?thesis using ro p by (simp add: AssignPermissionToRole_def s'_def ro'_def)
qed (auto simp: AssignPermissionToRole_def b split: option.split)

lemma balanced_Revoke:
  assumes b: "balanced s direct"
  shows "balanced (snd (RemovePermissionFromRole now r p s)) direct"
proof (cases "\<exists>ro. map_of (rb_roles s) r = Some ro \<and> p \<in> set (role_Permissions ro)")
  case True
  then obtain ro where ro: "map_of (rb_roles s) r = Some ro" and p: "p \<in> set (role_Permissions ro)" by blast
  define ro' where "ro' = ro\<lparr> role_Permissions := del_first (\<lambda>q. q = p) (role_Permissions ro), role_UpdatedAt := now \<rparr>"
  define s' where "s' = s\<lparr> rb_roles := AList.update r ro' (rb_roles s),
                           rb_users := map (\<lambda>(i, u). (i, revoke_holder now r p u)) (rb_users s) \<rparr>"
  have "balanced s' direct"
  proof (rule balanced_change_role [OF b s'_def])
    fix d u assume "user_balanced s d u"
    moreover have "(\<Sum>r'\<leftarrow>ruser_Roles u. role_grants s r') = (\<Sum>r'\<leftarrow>ruser_Roles u. role_grants s' r')
        + replicate_mset (count_list (ruser_Roles u) r) p"
      using p by (intro sum_grants_changed)
        (simp_all add: role_grants_def s'_def update_conv' ro ro'_def del_first_eq_remove1)
    ultimately show "mset (ruser_Permissions (revoke_holder now r p u)) = d + (\<Sum>r'\<leftarrow>ruser_Roles u. role_grants s' r')"
      by (simp add: mset_revoke_holder user_balanced_def)
  qed simp
  then show ?thesis using ro p by (simp add: RemovePermissionFromRole_def s'_def ro'_def)
qed (auto simp: RemovePermissionFromRole_def b split: option.split)

lemma balanced_AddUser:
  assumes "balanced s direct" and "ruser_Roles u = []" and "AddUser now u s = (None, s')"
  shows "balanced s' (direct(ruser_ID u := mset (ruser_Permissions u)))"
proof -
  have "user_balanced s (mset (ruser_Permissions u)) (u\<lparr> ruser_CreatedAt := now, ruser_UpdatedAt := now \<rparr>)"
    using assms(2) by (simp add: user_balanced_def)
  from balanced_update_user [OF assms(1) this, of "direct(ruser_ID u := mset (ruser_Permissions u))" "ruser_ID u"] assms(3)
  show ?thesis by (simp add: AddUser_def split: option.splits)
qed

lemma balanced_AddRole:
  assumes "balanced s direct"
  shows "balanced (snd (AddRole now ro s)) direct"
  using assms by (rule balanced_keep_users) (auto simp: AddRole_def update_conv' split: option.split)

lemma balanced_permissions:
  assumes "balanced s direct"
  shows "balanced (snd (AddPermission now pe s)) direct" "balanced (snd (UpdatePermission now pe s)) direct"
    "balanced (snd (DeletePermission q s)) direct"
  by (rule balanced_keep_users [OF assms]; simp add: rbac_defs split: option.split)+

lemma balanced_DeleteUser:
  assumes "balanced s direct"
  shows "balanced (snd (DeleteUser i s)) direct"
proof -
  have c: "user_balanced (s\<lparr> rb_users := us \<rparr>) e u = user_balanced s e u" for us e u
    by (simp add: user_balanced_def role_grants_def)
  show ?thesis using assms
    by (auto simp: balanced_def DeleteUser_def delete_conv' c split: option.split)
qed

text \<open>
  The states reached by the operations that keep the copies in step: users are added without roles, and roles
  and users are neither replaced nor, for roles, deleted.
\<close>

fun keeps_grants :: "rbac_op \<Rightarrow> bool" where
  "keeps_grants (OpUpdateRole _) = False"
| "keeps_grants (OpDeleteRole _) = False"
| "keeps_grants (OpAddUser _) = False"
| "keeps_grants (OpUpdateUser _) = False"
| "keeps_grants _ = True"

inductive managed :: "rbac \<Rightarrow> (string \<Rightarrow> string multiset) \<Rightarrow> bool" where
  managed_new: "managed NewRBAC direct"
| managed_user: "managed s direct \<Longrightarrow> ruser_Roles u = [] \<Longrightarrow> AddUser now u s = (None, s')
    \<Longrightarrow> managed s' (direct(ruser_ID u := mset (ruser_Permissions u)))"
| managed_op: "managed s direct \<Longrightarrow> keeps_grants op \<Longrightarrow> managed (snd (rbac_apply now op s)) direct"

lemma managed_balanced: "managed s direct \<Longrightarrow> balanced s direct"
proof (induction rule: managed.induct)
  case (managed_op s direct op now)
  note kept = balanced_AddRole balanced_permissions balanced_DeleteUser balanced_AssignRole balanced_RemoveRole
    balanced_Grant balanced_Revoke
  from managed_op.hyps(2) show ?case
    by (cases op) (simp_all add: kept [OF managed_op.IH])
qed (simp add: balanced_def NewRBAC_def, rule balanced_AddUser)

lemma managed_run: "managed s direct \<Longrightarrow> list_all (\<lambda>(now, op). keeps_grants op) ops \<Longrightarrow> managed (rbac_run ops s) direct"
  by (induction ops arbitrary: s) (auto simp: rbac_run_def intro: managed_op)

subsection \<open>Access decisions\<close>

definition may_use :: "rbac \<Rightarrow> (string \<Rightarrow> string multiset) \<Rightarrow> string \<Rightarrow> string \<Rightarrow> bool" where
  "may_use s direct userID permissionID \<longleftrightarrow>
     permissionID \<in># direct userID
     \<or> (\<exists>roleID. HasRole userID roleID s \<and> permissionID \<in># role_grants s roleID)"

lemma balanced_user_permissions:
  assumes "balanced s direct" and "map_of (rb_users s) i = Some u"
  shows "p \<in> set (ruser_Permissions u) \<longleftrightarrow> may_use s direct i p"
proof -
  from assms have "set_mset (mset (ruser_Permissions u)) = set_mset (direct i) \<union> (\<Union>r \<in> set (ruser_Roles u). set_mset (role_grants s r))"
    by (simp add: balanced_def user_balanced_def)
  moreover have "set_mset (\<Sum>r\<leftarrow>rs. role_grants s r) = (\<Union>r \<in> set rs. set_mset (role_grants s r))" for rs
    by (induction rs) auto
  ultimately show ?thesis using assms(2) by (auto simp: may_use_def HasRole_def)
qed

lemma HasPermission_role_part:
  "list_ex (\<lambda>r. case map_of (rb_roles s) r of None \<Rightarrow> False | Some ro \<Rightarrow> list_ex P (role_Permissions ro)) rs
   \<longleftrightarrow> (\<exists>r \<in> set rs. \<exists>p. p \<in># role_grants s r \<and> P p)"
  by (auto simp: list_ex_iff role_grants_def split: option.splits) (metis option.simps(5))+

text \<open>
  C14. In every state reached by the operations that keep the copies in step, \<^verbatim>\<open>HasPermission\<close> answers yes exactly for
  the users known to the system who were added with a permission for the resource and action, or hold a role
  that has one. So \<^verbatim>\<open>RemoveRoleFromUser\<close> and \<^verbatim>\<open>RemovePermissionFromRole\<close> leave no copy behind, and they never
  take away a permission that another role or the user's own list still gives.
\<close>

theorem access_iff_granted:
  assumes "managed s direct"
  shows "HasPermission userID resource action s
    \<longleftrightarrow> GetUser userID s \<noteq> Inl (''user '' @ userID @ '' not found'')
      \<and> (\<exists>p. may_use s direct userID p \<and> grants s resource action p)"
proof (cases "map_of (rb_users s) userID")
  case (Some u)
  note members = balanced_user_permissions [OF managed_balanced [OF assms] Some]
  have "(\<exists>r \<in> set (ruser_Roles u). \<exists>p. p \<in># role_grants s r \<and> grants s resource action p)
      \<longrightarrow> (\<exists>p. may_use s direct userID p \<and> grants s resource action p)"
    using Some by (auto simp: may_use_def HasRole_def)
  with Some show ?thesis
    by (auto simp: HasPermission_def GetUser_def HasPermission_role_part list_ex_iff members)
qed (simp add: HasPermission_def GetUser_def)

definition demo_user :: ruser where
  "demo_user = \<lparr> ruser_ID = ''u'', ruser_Username = ''ann'', ruser_Email = ''a@b'', ruser_Roles = [], ruser_Permissions = [''p1''],
     ruser_Metadata = Map.empty, ruser_CreatedAt = 0, ruser_UpdatedAt = 0 \<rparr>"

definition demo_permission :: "string \<Rightarrow> permission" where
  "demo_permission p = \<lparr> perm_ID = p, perm_Name = p, perm_Resource = ''bill'', perm_Action = p, perm_Metadata = Map.empty,
     perm_CreatedAt = 0, perm_UpdatedAt = 0 \<rparr>"

definition demo_role :: "string \<Rightarrow> string list \<Rightarrow> role" where
  "demo_role r ps = \<lparr> role_ID = r, role_Name = r, role_Permissions = ps, role_Metadata = Map.empty,
     role_CreatedAt = 0, role_UpdatedAt = 0 \<rparr>"

definition demo_rbac :: rbac where
  "demo_rbac = rbac_run
     [(2, OpAddPermission (demo_permission ''p1'')), (3, OpAddPermission (demo_permission ''p2'')),
      (4, OpAddRole (demo_role ''r1'' [''p1'', ''p2''])), (5, OpAddRole (demo_role ''r2'' [''p1''])),
      (6, OpAssignRole ''u'' ''r1''), (7, OpAssignRole ''u'' ''r2''), (8, OpRevoke ''r2'' ''p1'')]
     (snd (AddUser 1 demo_user NewRBAC))"

lemma demo_managed: "managed demo_rbac ((\<lambda>_. {#})(''u'' := {# ''p1'' #}))"
proof -
  have "managed (snd (AddUser 1 demo_user NewRBAC)) ((\<lambda>_. {#})(ruser_ID demo_user := mset (ruser_Permissions demo_user)))"
    by (rule managed_user [OF managed_new]) (simp_all add: demo_user_def AddUser_def NewRBAC_def)
  then have "managed (snd (AddUser 1 demo_user NewRBAC)) ((\<lambda>_. {#})(''u'' := {# ''p1'' #}))"
    by (simp add: demo_user_def)
  then show ?thesis unfolding demo_rbac_def by (rule managed_run) simp
qed

lemma demo_users: "map_of (rb_users demo_rbac) ''u'' = Some (demo_user\<lparr> ruser_Roles := [''r1'', ''r2''],
    ruser_Permissions := [''p1'', ''p2'', ''p1''], ruser_CreatedAt := 1, ruser_UpdatedAt := 8 \<rparr>)"
  by (simp add: demo_rbac_def rbac_run_def rbac_defs NewRBAC_def demo_user_def demo_role_def demo_permission_def
      revoke_holder_def revoke_once_def)

lemma demo_stores:
  "map_of (rb_roles demo_rbac) ''r1'' = Some ((demo_role ''r1'' [''p1'', ''p2''])\<lparr> role_CreatedAt := 4, role_UpdatedAt := 4 \<rparr>)"
  "map_of (rb_permissions demo_rbac) ''p2'' = Some ((demo_permission ''p2'')\<lparr> perm_CreatedAt := 3, perm_UpdatedAt := 3 \<rparr>)"
  by (simp_all add: demo_rbac_def rbac_run_def rbac_defs NewRBAC_def demo_user_def demo_role_def demo_permission_def)

theorem access_iff_granted_witness:
  "HasPermission ''u'' ''bill'' ''p2'' demo_rbac
   \<and> (\<exists>p. may_use demo_rbac ((\<lambda>_. {#})(''u'' := {# ''p1'' #})) ''u'' p \<and> grants demo_rbac ''bill'' ''p2'' p)"
proof -
  have "HasPermission ''u'' ''bill'' ''p2'' demo_rbac"
    by (simp add: HasPermission_def demo_users grants_def demo_stores demo_permission_def)
  with access_iff_granted [OF demo_managed, of "''u''" "''bill''" "''p2''"] show ?thesis by simp
qed

text \<open>
  Deleting a role does not take its permissions from the users who hold it: they keep the copies, and
  \<^verbatim>\<open>RemoveRoleFromUser\<close>, which looks the role up to know what to remove, finds nothing any more. The user keeps the
  access although the role is gone and has been taken away.
\<close>

theorem deleted_role_still_grants:
  assumes "managed s direct" and "HasRole userID roleID s" and "map_of (rb_roles s) roleID = Some ro"
    and "p \<in> set (role_Permissions ro)" and "map_of (rb_permissions s) p = Some pe"
  shows "let s' = snd (RemoveRoleFromUser now userID roleID (snd (DeleteRole roleID s)))
         in HasPermission userID (perm_Resource pe) (perm_Action pe) s'
            \<and> GetRole roleID s' = Inl (''role '' @ roleID @ '' not found'')"
proof -
  from assms(2) obtain u where u: "map_of (rb_users s) userID = Some u" and r: "roleID \<in> set (ruser_Roles u)"
    by (auto simp: HasRole_def split: option.splits)
  from assms(2-4) have "may_use s direct userID p"
    by (auto simp: may_use_def role_grants_def)
  then have "p \<in> set (ruser_Permissions u)"
    using balanced_user_permissions [OF managed_balanced [OF assms(1)] u] by simp
  moreover have "map_of (AList.delete roleID (rb_roles s)) roleID = None"
    by (simp add: delete_conv')
  ultimately show ?thesis using u r assms(3,5)
    by (auto simp: DeleteRole_def RemoveRoleFromUser_def HasPermission_def GetRole_def update_conv' list_ex_iff grants_def intro!: bexI [of _ p])
qed

theorem deleted_role_still_grants_witness:
  "HasPermission ''u'' ''bill'' ''p2'' (snd (RemoveRoleFromUser 9 ''u'' ''r1'' (snd (DeleteRole ''r1'' demo_rbac))))"
proof -
  have "HasRole ''u'' ''r1'' demo_rbac" by (simp add: HasRole_def demo_users)
  from deleted_role_still_grants [OF demo_managed this demo_stores(1), of "''p2''" _ 9] demo_stores(2) show ?thesis
    by (simp add: demo_role_def demo_permission_def Let_def)
qed

end
