(* ===== verification/Rbac_Manager.thy ===== *)
theory Rbac_Manager
  imports Rbac
begin

text \<open>
  The \<^verbatim>\<open>RBACManager\<close> of \<^verbatim>\<open>src/app/common/security/rbac_manager.go\<close>: a second store of roles, permissions and users,
  with policies whose rules are handed to an \<^verbatim>\<open>Enforcer\<close>. The enforcer is an interface without an
  implementation in the repository, so it is a parameter over a state of its own; it is given each rule by value
  (the code passes the address of the loop variable, which an enforcer must not keep). Maps are association
  lists and clocks are read once per call, as in theory \<^verbatim>\<open>Rbac\<close>.
\<close>

section \<open>Model\<close>

(* src: app/common/security/rbac_manager.go:11-19 Role *)
record mrole =
  mrole_ID :: string
  mrole_Name :: string
  mrole_Description :: string
  mrole_Permissions :: "string list"
  mrole_CreatedAt :: gotime
  mrole_UpdatedAt :: gotime
  mrole_Metadata :: "string \<rightharpoonup> ctx_value"

(* src: app/common/security/rbac_manager.go:22-31 Permission *)
record mperm =
  mperm_ID :: string
  mperm_Name :: string
  mperm_Description :: string
  mperm_Resource :: string
  mperm_Action :: string
  mperm_CreatedAt :: gotime
  mperm_UpdatedAt :: gotime
  mperm_Metadata :: "string \<rightharpoonup> ctx_value"

(* src: app/common/security/rbac_manager.go:59-65 Condition *)
record condition =
  cond_Type :: string
  cond_Field :: string
  cond_Operator :: string
  cond_Value :: ctx_value
  cond_Metadata :: "string \<rightharpoonup> ctx_value"

(* src: app/common/security/rbac_manager.go:45-56 Rule *)
record rule =
  rule_ID :: string
  rule_Effect :: string
  rule_Resources :: "string list"
  rule_Actions :: "string list"
  rule_Roles :: "string list"
  rule_Users :: "string list"
  rule_Conditions :: "condition list"
  rule_CreatedAt :: gotime
  rule_UpdatedAt :: gotime
  rule_Metadata :: "string \<rightharpoonup> ctx_value"

(* src: app/common/security/rbac_manager.go:34-42 Policy *)
record policy =
  policy_ID :: string
  policy_Name :: string
  policy_Description :: string
  policy_Rules :: "rule list"
  policy_CreatedAt :: gotime
  policy_UpdatedAt :: gotime
  policy_Metadata :: "string \<rightharpoonup> ctx_value"

(* src: app/common/security/rbac_manager.go:68-77 User *)
record muser =
  muser_ID :: string
  muser_Username :: string
  muser_Email :: string
  muser_Roles :: "string list"
  muser_Permissions :: "string list"
  muser_CreatedAt :: gotime
  muser_UpdatedAt :: gotime
  muser_Metadata :: "string \<rightharpoonup> ctx_value"

(* src: app/common/security/rbac_manager.go:90-96 Enforcer *)
record 'w enforcer =
  ef_Enforce :: "string \<Rightarrow> string \<Rightarrow> string \<Rightarrow> (string \<rightharpoonup> ctx_value) \<Rightarrow> 'w \<Rightarrow> (err + bool) \<times> 'w"
  ef_AddPolicy :: "rule \<Rightarrow> 'w \<Rightarrow> err option \<times> 'w"
  ef_RemovePolicy :: "string \<Rightarrow> 'w \<Rightarrow> err option \<times> 'w"

(* src: app/common/security/rbac_manager.go:80-87 RBACManager *)
record rbac_manager =
  rm_roles :: "(string \<times> mrole) list"
  rm_perms :: "(string \<times> mperm) list"
  rm_policies :: "(string \<times> policy) list"
  rm_users :: "(string \<times> muser) list"

(* src: app/common/security/rbac_manager.go:99-107 NewRBACManager *)
definition NewRBACManager :: rbac_manager where
  "NewRBACManager = \<lparr> rm_roles = [], rm_perms = [], rm_policies = [], rm_users = [] \<rparr>"

definition no_such :: "string \<Rightarrow> string \<Rightarrow> err" where
  "no_such what ident = what @ '' not found: '' @ ident"

subsection \<open>Roles and permissions\<close>

(* src: app/common/security/rbac_manager.go:110-123 RBACManager.CreateRole *)
definition CreateRole :: "gotime \<Rightarrow> mrole \<Rightarrow> rbac_manager \<Rightarrow> err option \<times> rbac_manager" where
  "CreateRole now ro s =
     (case map_of (rm_roles s) (mrole_ID ro) of
        Some _ \<Rightarrow> (Some (''role already exists: '' @ mrole_ID ro), s)
      | None \<Rightarrow>
          (None, s\<lparr> rm_roles := AList.update (mrole_ID ro)
                     (ro\<lparr> mrole_CreatedAt := now, mrole_UpdatedAt := now \<rparr>) (rm_roles s) \<rparr>))"

(* src: app/common/security/rbac_manager.go:126-136 RBACManager.GetRole *)
definition mgr_GetRole :: "string \<Rightarrow> rbac_manager \<Rightarrow> err + mrole" where
  "mgr_GetRole roleID s =
     (case map_of (rm_roles s) roleID of None \<Rightarrow> Inl (no_such ''role'' roleID) | Some ro \<Rightarrow> Inr ro)"

(* src: app/common/security/rbac_manager.go:139-151 RBACManager.UpdateRole *)
definition mgr_UpdateRole :: "gotime \<Rightarrow> mrole \<Rightarrow> rbac_manager \<Rightarrow> err option \<times> rbac_manager" where
  "mgr_UpdateRole now ro s =
     (case map_of (rm_roles s) (mrole_ID ro) of
        None \<Rightarrow> (Some (no_such ''role'' (mrole_ID ro)), s)
      | Some _ \<Rightarrow>
          (None, s\<lparr> rm_roles := AList.update (mrole_ID ro) (ro\<lparr> mrole_UpdatedAt := now \<rparr>) (rm_roles s) \<rparr>))"

(* src: app/common/security/rbac_manager.go:154-175 RBACManager.DeleteRole *)
definition mgr_DeleteRole :: "string \<Rightarrow> rbac_manager \<Rightarrow> err option \<times> rbac_manager" where
  "mgr_DeleteRole roleID s =
     (case map_of (rm_roles s) roleID of
        None \<Rightarrow> (Some (no_such ''role'' roleID), s)
      | Some _ \<Rightarrow>
          (None, s\<lparr> rm_roles := AList.delete roleID (rm_roles s),
                   rm_users := map (\<lambda>(i, u). (i, u\<lparr> muser_Roles := del_first (\<lambda>r. r = roleID) (muser_Roles u) \<rparr>))
                                 (rm_users s) \<rparr>))"

(* src: app/common/security/rbac_manager.go:178-191 RBACManager.CreatePermission *)
definition CreatePermission :: "gotime \<Rightarrow> mperm \<Rightarrow> rbac_manager \<Rightarrow> err option \<times> rbac_manager" where
  "CreatePermission now pe s =
     (case map_of (rm_perms s) (mperm_ID pe) of
        Some _ \<Rightarrow> (Some (''permission already exists: '' @ mperm_ID pe), s)
      | None \<Rightarrow>
          (None, s\<lparr> rm_perms := AList.update (mperm_ID pe)
                     (pe\<lparr> mperm_CreatedAt := now, mperm_UpdatedAt := now \<rparr>) (rm_perms s) \<rparr>))"

(* src: app/common/security/rbac_manager.go:194-204 RBACManager.GetPermission *)
definition mgr_GetPermission :: "string \<Rightarrow> rbac_manager \<Rightarrow> err + mperm" where
  "mgr_GetPermission permissionID s =
     (case map_of (rm_perms s) permissionID of
        None \<Rightarrow> Inl (no_such ''permission'' permissionID) | Some pe \<Rightarrow> Inr pe)"

(* src: app/common/security/rbac_manager.go:207-219 RBACManager.UpdatePermission *)
definition mgr_UpdatePermission :: "gotime \<Rightarrow> mperm \<Rightarrow> rbac_manager \<Rightarrow> err option \<times> rbac_manager" where
  "mgr_UpdatePermission now pe s =
     (case map_of (rm_perms s) (mperm_ID pe) of
        None \<Rightarrow> (Some (no_such ''permission'' (mperm_ID pe)), s)
      | Some _ \<Rightarrow>
          (None, s\<lparr> rm_perms := AList.update (mperm_ID pe) (pe\<lparr> mperm_UpdatedAt := now \<rparr>) (rm_perms s) \<rparr>))"

(* src: app/common/security/rbac_manager.go:222-253 RBACManager.DeletePermission *)
definition mgr_DeletePermission :: "string \<Rightarrow> rbac_manager \<Rightarrow> err option \<times> rbac_manager" where
  "mgr_DeletePermission permissionID s =
     (case map_of (rm_perms s) permissionID of
        None \<Rightarrow> (Some (no_such ''permission'' permissionID), s)
      | Some _ \<Rightarrow>
          (None, s\<lparr> rm_perms := AList.delete permissionID (rm_perms s),
                   rm_roles := map (\<lambda>(i, ro). (i, ro\<lparr> mrole_Permissions :=
                                       del_first (\<lambda>p. p = permissionID) (mrole_Permissions ro) \<rparr>)) (rm_roles s),
                   rm_users := map (\<lambda>(i, u). (i, u\<lparr> muser_Permissions :=
                                       del_first (\<lambda>p. p = permissionID) (muser_Permissions u) \<rparr>)) (rm_users s) \<rparr>))"

subsection \<open>Policies\<close>

(* src: app/common/security/rbac_manager.go:269-273 RBACManager.CreatePolicy (rule loop) *)
fun add_rules :: "'w enforcer \<Rightarrow> rule list \<Rightarrow> 'w \<Rightarrow> err option \<times> 'w" where
  "add_rules E [] w = (None, w)"
| "add_rules E (r # rs) w =
     (case ef_AddPolicy E r w of
        (Some e, w') \<Rightarrow> (Some (''failed to add rule to enforcer: '' @ e), w')
      | (None, w') \<Rightarrow> add_rules E rs w')"

(* src: app/common/security/rbac_manager.go:302-304 RBACManager.UpdatePolicy (removal loop) *)
definition remove_rules :: "'w enforcer \<Rightarrow> rule list \<Rightarrow> 'w \<Rightarrow> 'w" where
  "remove_rules E rs w = fold (\<lambda>r w. snd (ef_RemovePolicy E (rule_ID r) w)) rs w"

(* src: app/common/security/rbac_manager.go:256-276 RBACManager.CreatePolicy *)
definition CreatePolicy :: "'w enforcer \<Rightarrow> gotime \<Rightarrow> policy \<Rightarrow> rbac_manager \<times> 'w \<Rightarrow> err option \<times> rbac_manager \<times> 'w" where
  "CreatePolicy E now pol = (\<lambda>(s, w).
     (case map_of (rm_policies s) (policy_ID pol) of
        Some _ \<Rightarrow> (Some (''policy already exists: '' @ policy_ID pol), s, w)
      | None \<Rightarrow>
          (let s' = s\<lparr> rm_policies := AList.update (policy_ID pol)
                        (pol\<lparr> policy_CreatedAt := now, policy_UpdatedAt := now \<rparr>) (rm_policies s) \<rparr>;
               (e, w') = add_rules E (policy_Rules pol) w
           in (e, s', w'))))"

(* src: app/common/security/rbac_manager.go:279-289 RBACManager.GetPolicy *)
definition mgr_GetPolicy :: "string \<Rightarrow> rbac_manager \<Rightarrow> err + policy" where
  "mgr_GetPolicy policyID s =
     (case map_of (rm_policies s) policyID of None \<Rightarrow> Inl (no_such ''policy'' policyID) | Some pol \<Rightarrow> Inr pol)"

(* src: app/common/security/rbac_manager.go:292-317 RBACManager.UpdatePolicy *)
definition UpdatePolicy :: "'w enforcer \<Rightarrow> gotime \<Rightarrow> policy \<Rightarrow> rbac_manager \<times> 'w \<Rightarrow> err option \<times> rbac_manager \<times> 'w" where
  "UpdatePolicy E now pol = (\<lambda>(s, w).
     (case map_of (rm_policies s) (policy_ID pol) of
        None \<Rightarrow> (Some (no_such ''policy'' (policy_ID pol)), s, w)
      | Some oldPolicy \<Rightarrow>
          (case add_rules E (policy_Rules pol) (remove_rules E (policy_Rules oldPolicy) w) of
             (Some e, w') \<Rightarrow> (Some e, s, w')
           | (None, w') \<Rightarrow>
               (None, s\<lparr> rm_policies := AList.update (policy_ID pol) (pol\<lparr> policy_UpdatedAt := now \<rparr>) (rm_policies s) \<rparr>, w'))))"

(* src: app/common/security/rbac_manager.go:320-337 RBACManager.DeletePolicy *)
definition DeletePolicy :: "'w enforcer \<Rightarrow> string \<Rightarrow> rbac_manager \<times> 'w \<Rightarrow> err option \<times> rbac_manager \<times> 'w" where
  "DeletePolicy E policyID = (\<lambda>(s, w).
     (case map_of (rm_policies s) policyID of
        None \<Rightarrow> (Some (no_such ''policy'' policyID), s, w)
      | Some pol \<Rightarrow>
          (None, s\<lparr> rm_policies := AList.delete policyID (rm_policies s) \<rparr>, remove_rules E (policy_Rules pol) w)))"

subsection \<open>Users\<close>

(* src: app/common/security/rbac_manager.go:340-353 RBACManager.CreateUser *)
definition mgr_CreateUser :: "gotime \<Rightarrow> muser \<Rightarrow> rbac_manager \<Rightarrow> err option \<times> rbac_manager" where
  "mgr_CreateUser now u s =
     (case map_of (rm_users s) (muser_ID u) of
        Some _ \<Rightarrow> (Some (''user already exists: '' @ muser_ID u), s)
      | None \<Rightarrow>
          (None, s\<lparr> rm_users := AList.update (muser_ID u)
                     (u\<lparr> muser_CreatedAt := now, muser_UpdatedAt := now \<rparr>) (rm_users s) \<rparr>))"

(* src: app/common/security/rbac_manager.go:356-366 RBACManager.GetUser *)
definition mgr_GetUser :: "string \<Rightarrow> rbac_manager \<Rightarrow> err + muser" where
  "mgr_GetUser userID s =
     (case map_of (rm_users s) userID of None \<Rightarrow> Inl (no_such ''user'' userID) | Some u \<Rightarrow> Inr u)"

(* src: app/common/security/rbac_manager.go:369-381 RBACManager.UpdateUser *)
definition mgr_UpdateUser :: "gotime \<Rightarrow> muser \<Rightarrow> rbac_manager \<Rightarrow> err option \<times> rbac_manager" where
  "mgr_UpdateUser now u s =
     (case map_of (rm_users s) (muser_ID u) of
        None \<Rightarrow> (Some (no_such ''user'' (muser_ID u)), s)
      | Some _ \<Rightarrow>
          (None, s\<lparr> rm_users := AList.update (muser_ID u) (u\<lparr> muser_UpdatedAt := now \<rparr>) (rm_users s) \<rparr>))"

(* src: app/common/security/rbac_manager.go:384-395 RBACManager.DeleteUser *)
definition mgr_DeleteUser :: "string \<Rightarrow> rbac_manager \<Rightarrow> err option \<times> rbac_manager" where
  "mgr_DeleteUser userID s =
     (case map_of (rm_users s) userID of
        None \<Rightarrow> (Some (no_such ''user'' userID), s)
      | Some _ \<Rightarrow> (None, s\<lparr> rm_users := AList.delete userID (rm_users s) \<rparr>))"

text \<open>The loop that appends each permission of a role that is not in the list yet.\<close>

(* src: app/common/security/rbac_manager.go:423-435 RBACManager.AssignRole (permission loop) *)
definition add_missing :: "string list \<Rightarrow> string list \<Rightarrow> string list" where
  "add_missing ps qs = fold (\<lambda>p qs. if p \<in> set qs then qs else qs @ [p]) ps qs"

(* src: app/common/security/rbac_manager.go:398-438 RBACManager.AssignRole *)
definition AssignRole :: "gotime \<Rightarrow> string \<Rightarrow> string \<Rightarrow> rbac_manager \<Rightarrow> err option \<times> rbac_manager" where
  "AssignRole now userID roleID s =
     (case map_of (rm_users s) userID of
        None \<Rightarrow> (Some (no_such ''user'' userID), s)
      | Some u \<Rightarrow>
          (case map_of (rm_roles s) roleID of
             None \<Rightarrow> (Some (no_such ''role'' roleID), s)
           | Some ro \<Rightarrow>
               if roleID \<in> set (muser_Roles u) then (Some (''role already assigned: '' @ roleID), s)
               else (None, s\<lparr> rm_users := AList.update userID
                       (u\<lparr> muser_Roles := muser_Roles u @ [roleID], muser_UpdatedAt := now,
                           muser_Permissions := add_missing (mrole_Permissions ro) (muser_Permissions u) \<rparr>) (rm_users s) \<rparr>)))"

(* src: app/common/security/rbac_manager.go:461-478 RBACManager.RevokeRole (recalculation) *)
definition recompute :: "rbac_manager \<Rightarrow> string list \<Rightarrow> string list" where
  "recompute s roles =
     fold (\<lambda>roleID qs. case map_of (rm_roles s) roleID of
                         None \<Rightarrow> qs | Some ro \<Rightarrow> add_missing (mrole_Permissions ro) qs) roles []"

(* src: app/common/security/rbac_manager.go:441-481 RBACManager.RevokeRole *)
definition RevokeRole :: "gotime \<Rightarrow> string \<Rightarrow> string \<Rightarrow> rbac_manager \<Rightarrow> err option \<times> rbac_manager" where
  "RevokeRole now userID roleID s =
     (case map_of (rm_users s) userID of
        None \<Rightarrow> (Some (no_such ''user'' userID), s)
      | Some u \<Rightarrow>
          (let roles = del_first (\<lambda>r. r = roleID) (muser_Roles u)
           in (None, s\<lparr> rm_users := AList.update userID
                 (u\<lparr> muser_Roles := roles, muser_UpdatedAt := now, muser_Permissions := recompute s roles \<rparr>)
                 (rm_users s) \<rparr>)))"

(* src: app/common/security/rbac_manager.go:484-509 RBACManager.AssignPermission *)
definition AssignPermission :: "gotime \<Rightarrow> string \<Rightarrow> string \<Rightarrow> rbac_manager \<Rightarrow> err option \<times> rbac_manager" where
  "AssignPermission now userID permissionID s =
     (case map_of (rm_users s) userID of
        None \<Rightarrow> (Some (no_such ''user'' userID), s)
      | Some u \<Rightarrow>
          (case map_of (rm_perms s) permissionID of
             None \<Rightarrow> (Some (no_such ''permission'' permissionID), s)
           | Some _ \<Rightarrow>
               if permissionID \<in> set (muser_Permissions u) then (Some (''permission already assigned: '' @ permissionID), s)
               else (None, s\<lparr> rm_users := AList.update userID
                       (u\<lparr> muser_Permissions := muser_Permissions u @ [permissionID], muser_UpdatedAt := now \<rparr>)
                       (rm_users s) \<rparr>)))"

(* src: app/common/security/rbac_manager.go:512-532 RBACManager.RevokePermission *)
definition RevokePermission :: "gotime \<Rightarrow> string \<Rightarrow> string \<Rightarrow> rbac_manager \<Rightarrow> err option \<times> rbac_manager" where
  "RevokePermission now userID permissionID s =
     (case map_of (rm_users s) userID of
        None \<Rightarrow> (Some (no_such ''user'' userID), s)
      | Some u \<Rightarrow>
          (None, s\<lparr> rm_users := AList.update userID
             (u\<lparr> muser_Permissions := del_first (\<lambda>p. p = permissionID) (muser_Permissions u), muser_UpdatedAt := now \<rparr>)
             (rm_users s) \<rparr>))"

subsection \<open>Queries\<close>

(* src: app/common/security/rbac_manager.go:535-537 RBACManager.CheckPermission *)
definition CheckPermission ::
  "'w enforcer \<Rightarrow> string \<Rightarrow> string \<Rightarrow> string \<Rightarrow> (string \<rightharpoonup> ctx_value) \<Rightarrow> rbac_manager \<times> 'w \<Rightarrow> (err + bool) \<times> rbac_manager \<times> 'w" where
  "CheckPermission E userID resource action contextData = (\<lambda>(s, w).
     (case ef_Enforce E userID resource action contextData w of (r, w') \<Rightarrow> (r, s, w')))"

(* src: app/common/security/rbac_manager.go:540-550 RBACManager.GetUserPermissions *)
definition mgr_GetUserPermissions :: "string \<Rightarrow> rbac_manager \<Rightarrow> err + string list" where
  "mgr_GetUserPermissions userID s =
     (case map_of (rm_users s) userID of None \<Rightarrow> Inl (no_such ''user'' userID) | Some u \<Rightarrow> Inr (muser_Permissions u))"

(* src: app/common/security/rbac_manager.go:553-563 RBACManager.GetUserRoles *)
definition mgr_GetUserRoles :: "string \<Rightarrow> rbac_manager \<Rightarrow> err + string list" where
  "mgr_GetUserRoles userID s =
     (case map_of (rm_users s) userID of None \<Rightarrow> Inl (no_such ''user'' userID) | Some u \<Rightarrow> Inr (muser_Roles u))"

(* src: app/common/security/rbac_manager.go:566-576 RBACManager.ListRoles *)
definition mgr_ListRoles :: "(string \<times> mrole) range_order \<Rightarrow> rbac_manager \<Rightarrow> mrole list" where
  "mgr_ListRoles order s = map snd (order (rm_roles s))"

(* src: app/common/security/rbac_manager.go:579-589 RBACManager.ListPermissions *)
definition mgr_ListPermissions :: "(string \<times> mperm) range_order \<Rightarrow> rbac_manager \<Rightarrow> mperm list" where
  "mgr_ListPermissions order s = map snd (order (rm_perms s))"

(* src: app/common/security/rbac_manager.go:592-602 RBACManager.ListPolicies *)
definition mgr_ListPolicies :: "(string \<times> policy) range_order \<Rightarrow> rbac_manager \<Rightarrow> policy list" where
  "mgr_ListPolicies order s = map snd (order (rm_policies s))"

(* src: app/common/security/rbac_manager.go:605-615 RBACManager.ListUsers *)
definition mgr_ListUsers :: "(string \<times> muser) range_order \<Rightarrow> rbac_manager \<Rightarrow> muser list" where
  "mgr_ListUsers order s = map snd (order (rm_users s))"

section \<open>Properties\<close>

subsection \<open>Recalculated permissions\<close>

lemma set_add_missing: "set (add_missing ps qs) = set qs \<union> set ps"
  by (induction ps arbitrary: qs) (auto simp: add_missing_def)

lemma distinct_add_missing: "distinct qs \<Longrightarrow> distinct (add_missing ps qs)"
  by (induction ps arbitrary: qs) (auto simp: add_missing_def)

definition manager_grants :: "rbac_manager \<Rightarrow> string \<Rightarrow> string set" where
  "manager_grants s roleID = (case map_of (rm_roles s) roleID of None \<Rightarrow> {} | Some ro \<Rightarrow> set (mrole_Permissions ro))"

lemma recompute_snoc:
  "recompute s (roles @ [r]) = (case map_of (rm_roles s) r of
      None \<Rightarrow> recompute s roles | Some ro \<Rightarrow> add_missing (mrole_Permissions ro) (recompute s roles))"
  unfolding recompute_def by simp

lemma recompute_spec: "distinct (recompute s roles) \<and> set (recompute s roles) = (\<Union>r \<in> set roles. manager_grants s r)"
proof (induction roles rule: rev_induct)
  case (snoc r roles)
  then show ?case
    by (auto simp: recompute_snoc manager_grants_def set_add_missing distinct_add_missing split: option.split)
qed (simp add: recompute_def)

text \<open>
  After \<^verbatim>\<open>RevokeRole\<close> the permissions of the user are exactly those of the roles left, each once, whatever they were
  before. In particular every permission given with \<^verbatim>\<open>AssignPermission\<close> is gone, even when the user did not hold
  the revoked role.
\<close>

theorem revoke_role_recomputes:
  assumes "map_of (rm_users s) userID = Some u"
  shows "\<exists>ps. mgr_GetUserPermissions userID (snd (RevokeRole now userID roleID s)) = Inr ps \<and> distinct ps
    \<and> set ps = (\<Union>r \<in> set (remove1 roleID (muser_Roles u)). manager_grants s r)"
  using assms recompute_spec [of s "remove1 roleID (muser_Roles u)"]
  by (simp add: RevokeRole_def mgr_GetUserPermissions_def update_conv' del_first_eq_remove1 Let_def)

lemma direct_permission_lost:
  assumes "map_of (rm_users s) userID = Some u" and "roleID \<notin> set (muser_Roles u)"
    and "\<And>r. r \<in> set (muser_Roles u) \<Longrightarrow> p \<notin> manager_grants s r"
  shows "\<exists>ps. mgr_GetUserPermissions userID (snd (RevokeRole now userID roleID (snd (AssignPermission now userID p s)))) = Inr ps
    \<and> p \<notin> set ps"
proof -
  let ?s = "snd (AssignPermission now userID p s)"
  have same: "rm_roles ?s = rm_roles s"
    by (simp add: AssignPermission_def split: option.split)
  have "\<exists>u'. map_of (rm_users ?s) userID = Some u' \<and> muser_Roles u' = muser_Roles u"
    using assms(1) by (simp add: AssignPermission_def update_conv' split: option.split)
  then obtain u' where u': "map_of (rm_users ?s) userID = Some u'" "muser_Roles u' = muser_Roles u" by blast
  have "manager_grants ?s r = manager_grants s r" for r by (simp add: manager_grants_def same)
  with revoke_role_recomputes [OF u'(1), of now roleID] assms(2,3) u'(2) show ?thesis
    by (auto simp: remove1_idem)
qed

subsection \<open>Roles of users\<close>

datatype manager_op =
    MgrCreateRole mrole | MgrUpdateRole mrole | MgrDeleteRole string
  | MgrCreatePermission mperm | MgrUpdatePermission mperm | MgrDeletePermission string
  | MgrCreateUser muser | MgrUpdateUser muser | MgrDeleteUser string
  | MgrAssignRole string string | MgrRevokeRole string string
  | MgrAssignPermission string string | MgrRevokePermission string string

fun manager_apply :: "gotime \<Rightarrow> manager_op \<Rightarrow> rbac_manager \<Rightarrow> err option \<times> rbac_manager" where
  "manager_apply now (MgrCreateRole ro) s = CreateRole now ro s"
| "manager_apply now (MgrUpdateRole ro) s = mgr_UpdateRole now ro s"
| "manager_apply now (MgrDeleteRole r) s = mgr_DeleteRole r s"
| "manager_apply now (MgrCreatePermission pe) s = CreatePermission now pe s"
| "manager_apply now (MgrUpdatePermission pe) s = mgr_UpdatePermission now pe s"
| "manager_apply now (MgrDeletePermission p) s = mgr_DeletePermission p s"
| "manager_apply now (MgrCreateUser u) s = mgr_CreateUser now u s"
| "manager_apply now (MgrUpdateUser u) s = mgr_UpdateUser now u s"
| "manager_apply now (MgrDeleteUser i) s = mgr_DeleteUser i s"
| "manager_apply now (MgrAssignRole i r) s = AssignRole now i r s"
| "manager_apply now (MgrRevokeRole i r) s = RevokeRole now i r s"
| "manager_apply now (MgrAssignPermission i p) s = AssignPermission now i p s"
| "manager_apply now (MgrRevokePermission i p) s = RevokePermission now i p s"

fun supplies_no_roles :: "manager_op \<Rightarrow> bool" where
  "supplies_no_roles (MgrCreateUser u) = (muser_Roles u = [])"
| "supplies_no_roles (MgrUpdateUser u) = False"
| "supplies_no_roles _ = True"

definition manager_run :: "(gotime \<times> manager_op) list \<Rightarrow> rbac_manager \<Rightarrow> rbac_manager" where
  "manager_run ops s = fold (\<lambda>(now, op) s. snd (manager_apply now op s)) ops s"

definition roles_known :: "rbac_manager \<Rightarrow> string list \<Rightarrow> bool" where
  "roles_known s roles \<longleftrightarrow> distinct roles \<and> set roles \<subseteq> dom (map_of (rm_roles s))"

definition roles_of_users_exist :: "rbac_manager \<Rightarrow> bool" where
  "roles_of_users_exist s \<longleftrightarrow> (\<forall>i u. map_of (rm_users s) i = Some u \<longrightarrow> roles_known s (muser_Roles u))"

lemmas manager_defs = CreateRole_def mgr_UpdateRole_def mgr_DeleteRole_def CreatePermission_def mgr_UpdatePermission_def
  mgr_DeletePermission_def mgr_CreateUser_def mgr_UpdateUser_def mgr_DeleteUser_def AssignRole_def RevokeRole_def
  AssignPermission_def RevokePermission_def

lemma exist_update_user:
  assumes "roles_of_users_exist s" and "roles_known s (muser_Roles u)"
  shows "roles_of_users_exist (s\<lparr> rm_users := AList.update i u (rm_users s) \<rparr>)"
  using assms by (auto simp: roles_of_users_exist_def roles_known_def update_conv')

lemma exist_same_users:
  assumes "roles_of_users_exist s" and "rm_users s' = rm_users s"
    and "dom (map_of (rm_roles s)) \<subseteq> dom (map_of (rm_roles s'))"
  shows "roles_of_users_exist s'"
  using assms unfolding roles_of_users_exist_def roles_known_def by (metis subset_trans)

lemma exist_delete_user:
  assumes "roles_of_users_exist s"
  shows "roles_of_users_exist (s\<lparr> rm_users := AList.delete i (rm_users s) \<rparr>)"
  using assms by (auto simp: roles_of_users_exist_def roles_known_def delete_conv')

lemma exist_known: "roles_of_users_exist s \<Longrightarrow> map_of (rm_users s) i = Some u \<Longrightarrow> roles_known s (muser_Roles u)"
  by (simp add: roles_of_users_exist_def)

lemma known_del_first: "roles_known s roles \<Longrightarrow> roles_known s (del_first (\<lambda>r. r = x) roles)"
  using set_remove1_subset [of x roles] by (auto simp: roles_known_def del_first_eq_remove1)

lemma exist_map_users:
  assumes "roles_of_users_exist s" and "rm_users s' = map (\<lambda>(i, u). (i, f u)) (rm_users s)"
    and "\<And>u. roles_known s (muser_Roles u) \<Longrightarrow> roles_known s' (muser_Roles (f u))"
  shows "roles_of_users_exist s'"
  using assms by (auto simp: roles_of_users_exist_def map_of_map)

lemma exist_DeleteRole:
  assumes ok: "roles_of_users_exist s"
  shows "roles_of_users_exist (snd (mgr_DeleteRole r s))"
proof (cases "map_of (rm_roles s) r")
  case (Some ro)
  show ?thesis
    by (rule exist_map_users [OF ok, where f = "\<lambda>u. u\<lparr> muser_Roles := del_first (\<lambda>r'. r' = r) (muser_Roles u) \<rparr>"])
       (auto simp: mgr_DeleteRole_def Some roles_known_def delete_conv' del_first_eq_remove1)
qed (simp add: mgr_DeleteRole_def ok)

lemma dom_map_entries: "dom (map_of (map (\<lambda>(i, v). (i, f v)) al)) = dom (map_of al)"
  by (auto simp: map_of_map)

lemma exist_DeletePermission:
  assumes ok: "roles_of_users_exist s"
  shows "roles_of_users_exist (snd (mgr_DeletePermission p s))"
proof (cases "map_of (rm_perms s) p")
  case (Some pe)
  show ?thesis
    by (rule exist_map_users [OF ok, where f = "\<lambda>u. u\<lparr> muser_Permissions := del_first (\<lambda>q. q = p) (muser_Permissions u) \<rparr>"])
       (simp_all add: mgr_DeletePermission_def Some roles_known_def dom_map_entries)
qed (simp add: mgr_DeletePermission_def ok)

lemma exist_apply:
  assumes ok: "roles_of_users_exist s" and "supplies_no_roles op"
  shows "roles_of_users_exist (snd (manager_apply now op s))"
proof -
  note users = exist_update_user [OF ok] exist_delete_user [OF ok] exist_known [OF ok] known_del_first
  note stores = exist_same_users [OF ok]
  have plain: "roles_known s []" by (simp add: roles_known_def)
  have fresh: "roles_known s (rs @ [r])" if "roles_known s rs" "r \<notin> set rs" "map_of (rm_roles s) r = Some ro" for rs r ro
    using that by (auto simp: roles_known_def)
  show ?thesis
  proof (cases op)
    case (MgrDeleteRole r) then show ?thesis by (simp add: exist_DeleteRole ok)
  next
    case (MgrDeletePermission p) then show ?thesis by (simp add: exist_DeletePermission ok)
  next
    case (MgrAssignRole i r) then show ?thesis
      by (auto simp: AssignRole_def ok intro!: users(1) fresh intro: users(3) split: option.split)
  qed (use assms(2) in \<open>simp_all add: manager_defs ok users plain Let_def split: option.split\<close>,
       auto intro!: stores simp: update_conv')
qed

text \<open>
  The manager, unlike \<open>RBAC\<close>, also takes a deleted role from its users: as long as callers do not write roles into user
  records themselves, the roles of every user exist and none is listed twice, after any sequence of operations.
\<close>

theorem manager_roles_never_dangle:
  assumes "list_all (\<lambda>(now, op). supplies_no_roles op) ops"
  shows "roles_of_users_exist (manager_run ops NewRBACManager)"
proof -
  have "roles_of_users_exist s \<Longrightarrow> roles_of_users_exist (manager_run ops s)" for s
    using assms by (induction ops arbitrary: s) (auto simp: manager_run_def exist_apply)
  moreover have "roles_of_users_exist NewRBACManager"
    by (simp add: roles_of_users_exist_def NewRBACManager_def)
  ultimately show ?thesis .
qed

subsection \<open>Policies and the enforcer\<close>

text \<open>
  What the manager relies on: \<open>enforced\<close> are the identifiers of the rules the enforcer applies, \<^verbatim>\<open>AddPolicy\<close> adds
  the one of its rule or fails without an effect, \<^verbatim>\<open>RemovePolicy\<close> removes one.
\<close>

definition enforcer_laws :: "'w enforcer \<Rightarrow> ('w \<Rightarrow> string set) \<Rightarrow> bool" where
  "enforcer_laws E enforced \<longleftrightarrow>
     (\<forall>r w. enforced (snd (ef_AddPolicy E r w))
        = (if fst (ef_AddPolicy E r w) = None then insert (rule_ID r) (enforced w) else enforced w))
     \<and> (\<forall>i w. enforced (snd (ef_RemovePolicy E i w)) = enforced w - {i})"

lemma remove_rules_enforced:
  "enforcer_laws E enforced \<Longrightarrow> enforced (remove_rules E rs w) = enforced w - rule_ID ` set rs"
  by (induction rs arbitrary: w) (auto simp: remove_rules_def enforcer_laws_def)

lemma enforced_AddPolicy:
  assumes "enforcer_laws E enforced" and "ef_AddPolicy E r w = (res, w')"
  shows "enforced w' = (if res = None then insert (rule_ID r) (enforced w) else enforced w)"
  using assms unfolding enforcer_laws_def by (metis fst_conv snd_conv)

lemma add_rules_enforced:
  assumes "enforcer_laws E enforced" and "add_rules E rs w = (res, w')"
  shows "enforced w \<subseteq> enforced w' \<and> enforced w' \<subseteq> enforced w \<union> rule_ID ` set rs
    \<and> (res = None \<longrightarrow> enforced w' = enforced w \<union> rule_ID ` set rs)"
  using assms(2)
proof (induction rs arbitrary: w)
  case (Cons r rs)
  obtain e w1 where a: "ef_AddPolicy E r w = (e, w1)" by fastforce
  note w1 = enforced_AddPolicy [OF assms(1) a]
  show ?case
  proof (cases e)
    case None
    with Cons a have "add_rules E rs w1 = (res, w')" by simp
    from Cons.IH [OF this] w1 None show ?thesis by auto
  next
    case (Some m)
    with Cons.prems a w1 show ?thesis by auto
  qed
qed simp

text \<open>
  \<^verbatim>\<open>UpdatePolicy\<close> removes the rules of the old policy before it adds the new ones. When the enforcer rejects a rule,
  the manager still lists the old policy, but of its rules only those the new policy also names can be in force.
\<close>

theorem failed_update_drops_rules:
  assumes "enforcer_laws E enforced" and "mgr_GetPolicy (policy_ID pol) s = Inr old"
    and "UpdatePolicy E now pol (s, w) = (Some e, s', w')"
  shows "mgr_GetPolicy (policy_ID pol) s' = Inr old
    \<and> enforced w' \<subseteq> (enforced w - rule_ID ` set (policy_Rules old)) \<union> rule_ID ` set (policy_Rules pol)"
proof -
  from assms(2) have m: "map_of (rm_policies s) (policy_ID pol) = Some old"
    by (simp add: mgr_GetPolicy_def split: option.splits)
  obtain res w1 where a: "add_rules E (policy_Rules pol) (remove_rules E (policy_Rules old) w) = (res, w1)" by fastforce
  with assms(3) m have "s' = s" "w' = w1" by (auto simp: UpdatePolicy_def split: option.splits)
  with add_rules_enforced [OF assms(1) a] assms(2) show ?thesis
    by (simp add: remove_rules_enforced [OF assms(1)])
qed

text \<open>A successful run of the policy operations keeps the enforcer in step with the policies, as long as identifiers are not shared.\<close>

lemma successful_update:
  assumes "enforcer_laws E enforced" and "mgr_GetPolicy (policy_ID pol) s = Inr old"
    and "UpdatePolicy E now pol (s, w) = (None, s', w')"
  shows "enforced w' = (enforced w - rule_ID ` set (policy_Rules old)) \<union> rule_ID ` set (policy_Rules pol)"
proof -
  from assms(2) have m: "map_of (rm_policies s) (policy_ID pol) = Some old"
    by (simp add: mgr_GetPolicy_def split: option.splits)
  obtain res w1 where a: "add_rules E (policy_Rules pol) (remove_rules E (policy_Rules old) w) = (res, w1)" by fastforce
  with assms(3) m have "res = None" "w' = w1" by (auto simp: UpdatePolicy_def split: option.splits)
  with add_rules_enforced [OF assms(1) a] show ?thesis
    by (simp add: remove_rules_enforced [OF assms(1)])
qed

lemma create_registers_even_on_failure:
  assumes "map_of (rm_policies s) (policy_ID pol) = None"
  shows "map_of (rm_policies (fst (snd (CreatePolicy E now pol (s, w))))) (policy_ID pol)
    = Some (pol\<lparr> policy_CreatedAt := now, policy_UpdatedAt := now \<rparr>)"
  using assms by (auto simp: CreatePolicy_def update_conv' Let_def split: prod.split)

definition demo_rule :: "string \<Rightarrow> string \<Rightarrow> rule" where
  "demo_rule i effect = \<lparr> rule_ID = i, rule_Effect = effect, rule_Resources = [''bill''], rule_Actions = [''read''],
     rule_Roles = [], rule_Users = [''u''], rule_Conditions = [], rule_CreatedAt = 0, rule_UpdatedAt = 0,
     rule_Metadata = Map.empty \<rparr>"

definition demo_policy :: "rule list \<Rightarrow> policy" where
  "demo_policy rs = \<lparr> policy_ID = ''p'', policy_Name = ''p'', policy_Description = ''d'', policy_Rules = rs,
     policy_CreatedAt = 0, policy_UpdatedAt = 0, policy_Metadata = Map.empty \<rparr>"

text \<open>An enforcer that accepts only rules with the effect \<open>Allow\<close>.\<close>

definition demo_enforcer :: "string set enforcer" where
  "demo_enforcer = \<lparr> ef_Enforce = \<lambda>u r a c w. (Inr False, w),
     ef_AddPolicy = \<lambda>r w. if rule_Effect r = ''Allow'' then (None, insert (rule_ID r) w) else (Some ''bad effect'', w),
     ef_RemovePolicy = \<lambda>i w. (None, w - {i}) \<rparr>"

lemma demo_enforcer_laws: "enforcer_laws demo_enforcer (\<lambda>w. w)"
  by (simp add: enforcer_laws_def demo_enforcer_def)

theorem failed_update_drops_rules_witness:
  "let s = NewRBACManager\<lparr> rm_policies := [(''p'', demo_policy [demo_rule ''a'' ''Allow''])] \<rparr>;
       (e, s', w') = UpdatePolicy demo_enforcer 1 (demo_policy [demo_rule ''b'' ''Permit'']) (s, {''a''})
   in e \<noteq> None \<and> mgr_GetPolicy ''p'' s' = Inr (demo_policy [demo_rule ''a'' ''Allow'']) \<and> ''a'' \<notin> w'"
proof -
  let ?s = "NewRBACManager\<lparr> rm_policies := [(''p'', demo_policy [demo_rule ''a'' ''Allow''])] \<rparr>"
  let ?pol = "demo_policy [demo_rule ''b'' ''Permit'']"
  have run: "UpdatePolicy demo_enforcer 1 ?pol (?s, {''a''})
      = (Some ''failed to add rule to enforcer: bad effect'', ?s, {})"
    by (simp add: UpdatePolicy_def demo_policy_def demo_rule_def demo_enforcer_def remove_rules_def NewRBACManager_def)
  have old: "mgr_GetPolicy (policy_ID ?pol) ?s = Inr (demo_policy [demo_rule ''a'' ''Allow''])"
    by (simp add: mgr_GetPolicy_def demo_policy_def)
  have ident: "policy_ID ?pol = ''p''" by (simp add: demo_policy_def)
  from failed_update_drops_rules [OF demo_enforcer_laws old run] show ?thesis
    unfolding Let_def run prod.case ident by simp
qed

end
