(* ===== verification/Rbac_Middleware.thy ===== *)
theory Rbac_Middleware
  imports Rbac
begin

text \<open>
  The HTTP middlewares of \<^verbatim>\<open>src/middlewares/rbac_enhanced.go\<close> over the access control of \<^verbatim>\<open>src/app/common/security/rbac.go\<close>: the
  checks of route permissions, roles and single resources, the data scope, the audit record, the permission
  cache and the values the package keeps in the gin context. A middleware reads the \<open>RBAC\<close> state and does not
  change it. The printing of the audit record is not modelled.
\<close>

section \<open>Model\<close>

(* src: middlewares/rbac_enhanced.go:17-20 RBACMiddleware *)
record rbac_middleware =
  rm_rbac :: rbac
  rm_permissions :: "string \<rightharpoonup> string list"

(* src: middlewares/rbac_enhanced.go:23-28 NewRBACMiddleware *)
definition NewRBACMiddleware :: "rbac \<Rightarrow> rbac_middleware" where
  "NewRBACMiddleware s = \<lparr> rm_rbac = s, rm_permissions = Map.empty \<rparr>"

(* src: middlewares/rbac_enhanced.go:32-32 RBACMiddleware.AddPermission (key) *)
definition route_key :: "string \<Rightarrow> string \<Rightarrow> string" where
  "route_key http_method route = http_method @ '':'' @ route"

(* src: middlewares/rbac_enhanced.go:31-34 RBACMiddleware.AddPermission *)
definition AddRoutePermission :: "string \<Rightarrow> string \<Rightarrow> string \<Rightarrow> rbac_middleware \<Rightarrow> rbac_middleware" where
  "AddRoutePermission route http_method permission rm =
     (let key = route_key http_method route;
          old = (case rm_permissions rm key of None \<Rightarrow> [] | Some ps \<Rightarrow> ps)
      in rm\<lparr> rm_permissions := (rm_permissions rm)(key \<mapsto> old @ [permission]) \<rparr>)"

(* src: middlewares/rbac_enhanced.go:58-66 RBACMiddleware.PermissionCheckMiddleware (one permission) *)
definition permits :: "rbac \<Rightarrow> string \<Rightarrow> string \<Rightarrow> bool" where
  "permits s userIDStr permission =
     (case strings_Split (CHR '':'') permission of
        [resource, action] \<Rightarrow> HasPermission userIDStr resource action s
      | _ \<Rightarrow> False)"

definition not_authenticated :: string where
  "not_authenticated = utf8 [0xE7, 0x94, 0xA8, 0xE6, 0x88, 0xB7, 0xE6, 0x9C, 0xAA, 0xE8, 0xAE, 0xA4, 0xE8, 0xAF, 0x81]"

definition permission_denied :: string where
  "permission_denied = utf8 [0xE6, 0x9D, 0x83, 0xE9, 0x99, 0x90, 0xE4, 0xB8, 0x8D, 0xE8, 0xB6, 0xB3]"

definition role_denied :: string where
  "role_denied = utf8 [0xE8, 0xA7, 0x92, 0xE8, 0x89, 0xB2, 0xE6, 0x9D, 0x83, 0xE9, 0x99, 0x90, 0xE4, 0xB8, 0x8D, 0xE8, 0xB6, 0xB3]"

(* src: middlewares/rbac_enhanced.go:37-78 RBACMiddleware.PermissionCheckMiddleware *)
definition PermissionCheckMiddleware :: "gotime \<Rightarrow> rbac_middleware \<Rightarrow> gin_request \<Rightarrow> mw_end" where
  "PermissionCheckMiddleware now rm c =
     (case rq_Keys c ''user_id'' of
        None \<Rightarrow> abort_with (RespondWithUnauthorized now not_authenticated)
      | Some userID \<Rightarrow>
          (case rm_permissions rm (route_key (rq_Method c) (rq_FullPath c)) of
             None \<Rightarrow> Proceeds (rq_Keys c)
           | Some requiredPermissions \<Rightarrow>
               if list_ex (permits (rm_rbac rm) (render userID)) requiredPermissions then Proceeds (rq_Keys c)
               else abort_with (RespondWithForbidden now permission_denied)))"

(* src: middlewares/rbac_enhanced.go:81-109 RBACMiddleware.RoleCheckMiddleware *)
definition RoleCheckMiddleware :: "gotime \<Rightarrow> rbac_middleware \<Rightarrow> string list \<Rightarrow> gin_request \<Rightarrow> mw_end" where
  "RoleCheckMiddleware now rm requiredRoles c =
     (case rq_Keys c ''user_id'' of
        None \<Rightarrow> abort_with (RespondWithUnauthorized now not_authenticated)
      | Some userID \<Rightarrow>
          if list_ex (\<lambda>r. HasRole (render userID) r (rm_rbac rm)) requiredRoles then Proceeds (rq_Keys c)
          else abort_with (RespondWithForbidden now role_denied))"

(* src: middlewares/rbac_enhanced.go:140-150 AuditLog *)
record audit_log =
  al_UserID :: string
  al_IP :: string
  al_Method :: string
  al_Path :: string
  al_UserAgent :: string
  al_StatusCode :: nat
  al_Duration :: duration
  al_Success :: bool
  al_Timestamp :: gotime

text \<open>\<open>status\<close> is the status of the response after the rest of the chain, \<open>start\<close> and \<open>finish\<close> the two readings of the clock.\<close>

(* src: middlewares/rbac_enhanced.go:112-137 RBACMiddleware.AuditMiddleware *)
definition AuditMiddleware :: "gotime \<Rightarrow> gotime \<Rightarrow> nat \<Rightarrow> gin_request \<Rightarrow> audit_log" where
  "AuditMiddleware start finish status c =
     \<lparr> al_UserID = GetString c ''user_id'', al_IP = rq_ClientIP c, al_Method = rq_Method c, al_Path = rq_FullPath c,
       al_UserAgent = GetHeader c ''User-Agent'', al_StatusCode = status, al_Duration = finish - start,
       al_Success = (status < 400), al_Timestamp = start \<rparr>"

(* src: middlewares/rbac_enhanced.go:160-183 RBACMiddleware.ResourceBasedMiddleware *)
definition ResourceBasedMiddleware :: "gotime \<Rightarrow> rbac_middleware \<Rightarrow> string \<Rightarrow> string \<Rightarrow> gin_request \<Rightarrow> mw_end" where
  "ResourceBasedMiddleware now rm resource action c =
     (case rq_Keys c ''user_id'' of
        None \<Rightarrow> abort_with (RespondWithUnauthorized now not_authenticated)
      | Some userID \<Rightarrow>
          if \<not> HasPermission (render userID) resource action (rm_rbac rm)
            then Aborts 403
              (HBody [(''error'', CtxStr (utf8 [0xE6, 0xB2, 0xA1, 0xE6, 0x9C, 0x89] @ resource
                         @ utf8 [0xE8, 0xB5, 0x84, 0xE6, 0xBA, 0x90, 0xE7, 0x9A, 0x84] @ action
                         @ utf8 [0xE6, 0x9D, 0x83, 0xE9, 0x99, 0x90])),
                      (''code'', CtxInt (code_int ErrCodeForbidden))])
          else Proceeds (rq_Keys c))"

(* src: middlewares/rbac_enhanced.go:207-235 RBACMiddleware.getUserDataScope *)
definition getUserDataScope :: "rbac_middleware \<Rightarrow> string \<Rightarrow> string" where
  "getUserDataScope rm userID =
     (case GetUserRoles userID (rm_rbac rm) of
        Inl _ \<Rightarrow> ''5''
      | Inr roles \<Rightarrow>
          if list_ex (\<lambda>ro. role_Name ro = ''admin'' \<or> role_Name ro = ''super_admin'') roles then ''1''
          else if list_ex (\<lambda>ro. role_Name ro = ''dept_manager'') roles then ''3''
          else ''5'')"

(* src: middlewares/rbac_enhanced.go:186-204 RBACMiddleware.DataScopeMiddleware *)
definition DataScopeMiddleware :: "gotime \<Rightarrow> rbac_middleware \<Rightarrow> gin_request \<Rightarrow> mw_end" where
  "DataScopeMiddleware now rm c =
     (case rq_Keys c ''user_id'' of
        None \<Rightarrow> abort_with (RespondWithUnauthorized now not_authenticated)
      | Some userID \<Rightarrow>
          Proceeds ((rq_Keys c)(''data_scope'' \<mapsto> CtxStr (getUserDataScope rm (render userID)))))"

subsection \<open>Permission cache\<close>

text \<open>The ticker of \<^verbatim>\<open>cleanup\<close> empties the cache whenever it fires: \<open>cache_cleanup\<close> is one round of its loop.\<close>

(* src: middlewares/rbac_enhanced.go:238-242 PermissionCache *)
type_synonym permission_cache = "string \<rightharpoonup> (string \<rightharpoonup> bool)"

(* src: middlewares/rbac_enhanced.go:245-255 NewPermissionCache *)
definition NewPermissionCache :: permission_cache where
  "NewPermissionCache = Map.empty"

(* src: middlewares/rbac_enhanced.go:277-277 PermissionCache.SetPermission (key) *)
definition cache_key :: "string \<Rightarrow> string \<Rightarrow> string \<Rightarrow> string" where
  "cache_key userID resource action = userID @ '':'' @ resource @ '':'' @ action"

(* src: middlewares/rbac_enhanced.go:258-270 PermissionCache.HasPermission *)
definition cache_HasPermission :: "string \<Rightarrow> string \<Rightarrow> string \<Rightarrow> permission_cache \<Rightarrow> bool" where
  "cache_HasPermission userID resource action pc =
     (case pc (cache_key userID resource action) of
        None \<Rightarrow> False
      | Some permissions \<Rightarrow> (case permissions action of None \<Rightarrow> False | Some b \<Rightarrow> b))"

(* src: middlewares/rbac_enhanced.go:273-282 PermissionCache.SetPermission *)
definition cache_SetPermission :: "string \<Rightarrow> string \<Rightarrow> string \<Rightarrow> bool \<Rightarrow> permission_cache \<Rightarrow> permission_cache" where
  "cache_SetPermission userID resource action hasPermission pc =
     (let key = cache_key userID resource action;
          old = (case pc key of None \<Rightarrow> Map.empty | Some m \<Rightarrow> m)
      in pc(key \<mapsto> old(action \<mapsto> hasPermission)))"

(* src: middlewares/rbac_enhanced.go:285-294 PermissionCache.cleanup *)
definition cache_cleanup :: "permission_cache \<Rightarrow> permission_cache" where
  "cache_cleanup pc = Map.empty"

subsection \<open>Context values\<close>

(* src: middlewares/rbac_enhanced.go:297-304 ContextKey, constants *)
datatype context_key = UserIDKey | RoleKey | PermissionKey | DataScopeKey

fun key_string :: "context_key \<Rightarrow> string" where
  "key_string UserIDKey = ''user_id''"
| "key_string RoleKey = ''role''"
| "key_string PermissionKey = ''permission''"
| "key_string DataScopeKey = ''data_scope''"

definition ctx_get :: "context_key \<Rightarrow> gin_keys \<Rightarrow> string \<times> bool" where
  "ctx_get k keys = (case keys (key_string k) of None \<Rightarrow> ([], False) | Some v \<Rightarrow> (render v, True))"

(* src: middlewares/rbac_enhanced.go:307-313 GetUserID *)
definition GetUserID :: "gin_keys \<Rightarrow> string \<times> bool" where
  "GetUserID = ctx_get UserIDKey"

(* src: middlewares/rbac_enhanced.go:316-322 GetRole *)
definition ctx_GetRole :: "gin_keys \<Rightarrow> string \<times> bool" where
  "ctx_GetRole = ctx_get RoleKey"

(* src: middlewares/rbac_enhanced.go:325-331 GetPermission *)
definition ctx_GetPermission :: "gin_keys \<Rightarrow> string \<times> bool" where
  "ctx_GetPermission = ctx_get PermissionKey"

(* src: middlewares/rbac_enhanced.go:334-340 GetDataScope *)
definition GetDataScope :: "gin_keys \<Rightarrow> string \<times> bool" where
  "GetDataScope = ctx_get DataScopeKey"

(* src: middlewares/rbac_enhanced.go:343-346 SetUserContext *)
definition SetUserContext :: "string \<Rightarrow> string \<Rightarrow> gin_keys \<Rightarrow> gin_keys" where
  "SetUserContext userID role keys = keys(key_string UserIDKey \<mapsto> CtxStr userID, key_string RoleKey \<mapsto> CtxStr role)"

(* src: middlewares/rbac_enhanced.go:349-351 SetPermissionContext *)
definition SetPermissionContext :: "string \<Rightarrow> gin_keys \<Rightarrow> gin_keys" where
  "SetPermissionContext permission keys = keys(key_string PermissionKey \<mapsto> CtxStr permission)"

(* src: middlewares/rbac_enhanced.go:354-356 SetDataScopeContext *)
definition SetDataScopeContext :: "string \<Rightarrow> gin_keys \<Rightarrow> gin_keys" where
  "SetDataScopeContext dataScope keys = keys(key_string DataScopeKey \<mapsto> CtxStr dataScope)"

section \<open>Properties\<close>

subsection \<open>Route permissions\<close>

lemma permits_iff:
  "permits s u permission \<longleftrightarrow>
     (\<exists>resource action. permission = resource @ '':'' @ action \<and> CHR '':'' \<notin> set resource \<and> CHR '':'' \<notin> set action
        \<and> HasPermission u resource action s)"
proof -
  have "(case xs of [a, b] \<Rightarrow> P a b | _ \<Rightarrow> False) \<longleftrightarrow> (\<exists>a b. xs = [a, b] \<and> P a b)" for xs :: "string list" and P
    by (simp split: list.split)
  then have "permits s u permission \<longleftrightarrow> (\<exists>resource action. strings_Split (CHR '':'') permission = [resource, action]
      \<and> HasPermission u resource action s)"
    unfolding permits_def .
  then show ?thesis by (simp only: strings_Split_pair conj_assoc append_Cons append_Nil)
qed

lemma route_key_inj:
  assumes "CHR '':'' \<notin> set m" and "CHR '':'' \<notin> set m'"
  shows "route_key m r = route_key m' r' \<longleftrightarrow> m = m' \<and> r = r'"
proof
  assume "route_key m r = route_key m' r'"
  then have "m @ CHR '':'' # r = m' @ CHR '':'' # r'" by (simp add: route_key_def)
  with strings_Split_first [OF assms(1), of r] strings_Split_first [OF assms(2), of r'] show "m = m' \<and> r = r'"
    by simp
qed simp

definition add_routes :: "(string \<times> string \<times> string) list \<Rightarrow> rbac_middleware \<Rightarrow> rbac_middleware" where
  "add_routes routes rm = fold (\<lambda>(http_method, route, permission). AddRoutePermission route http_method permission) routes rm"

definition required :: "(string \<times> string \<times> string) list \<Rightarrow> string \<Rightarrow> string \<Rightarrow> string list" where
  "required routes http_method route = map (snd \<circ> snd) (filter (\<lambda>(m, r, p). m = http_method \<and> r = route) routes)"

lemma new_rbac [simp]: "rm_rbac (NewRBACMiddleware s) = s"
  by (simp add: NewRBACMiddleware_def)

lemma add_routes_rbac [simp]: "rm_rbac (add_routes routes rm) = rm_rbac rm"
  by (induction routes arbitrary: rm) (auto simp: add_routes_def AddRoutePermission_def Let_def)

lemma rm_permissions_routes:
  assumes "list_all (\<lambda>(m, r, p). CHR '':'' \<notin> set m) routes" and "CHR '':'' \<notin> set http_method"
  shows "rm_permissions (add_routes routes (NewRBACMiddleware s)) (route_key http_method route)
    = (if required routes http_method route = [] then None else Some (required routes http_method route))"
  using assms
proof (induction routes rule: rev_induct)
  case (snoc x routes)
  obtain m r p where x: "x = (m, r, p)" by (cases x)
  from snoc show ?case
    by (auto simp: x add_routes_def AddRoutePermission_def Let_def required_def route_key_inj)
qed (simp add: add_routes_def required_def NewRBACMiddleware_def)

text \<open>
  C16. The permission check, for routes registered on a new middleware with \<^verbatim>\<open>AddPermission\<close>: a request goes on exactly
  when it is authenticated and either nothing is registered for its method and route, or one of the permissions
  registered for exactly this method and route is a pair \<^verbatim>\<open>resource:action\<close> the user has. A registered permission
  of any other form, with no colon or with two, never lets anyone through: the route is closed for everybody.
\<close>

theorem route_access:
  assumes "list_all (\<lambda>(m, r, p). CHR '':'' \<notin> set m) routes" and "CHR '':'' \<notin> set (rq_Method c)"
  shows "end_status (PermissionCheckMiddleware now (add_routes routes (NewRBACMiddleware s)) c)
    = (case rq_Keys c ''user_id'' of
         None \<Rightarrow> Some 401
       | Some userID \<Rightarrow>
           if (\<forall>p. (rq_Method c, rq_FullPath c, p) \<notin> set routes)
              \<or> (\<exists>resource action. (rq_Method c, rq_FullPath c, resource @ '':'' @ action) \<in> set routes
                   \<and> CHR '':'' \<notin> set resource \<and> CHR '':'' \<notin> set action
                   \<and> HasPermission (render userID) resource action s)
             then None else Some 403)"
proof (cases "rq_Keys c ''user_id''")
  case (Some userID)
  have members: "p \<in> set (required routes m r) \<longleftrightarrow> (m, r, p) \<in> set routes" for m r p
    by (force simp: required_def)
  then have none: "required routes m r = [] \<longleftrightarrow> (\<forall>p. (m, r, p) \<notin> set routes)" for m r
    by (metis list.set(1) empty_iff neq_Nil_conv list.set_intros(1))
  have some: "list_ex (permits s (render userID)) (required routes m r)
      \<longleftrightarrow> (\<exists>resource action. (m, r, resource @ '':'' @ action) \<in> set routes \<and> CHR '':'' \<notin> set resource
            \<and> CHR '':'' \<notin> set action \<and> HasPermission (render userID) resource action s)" for m r
    unfolding list_ex_iff permits_iff Bex_def members by blast
  show ?thesis unfolding Some option.case some [symmetric] none [symmetric]
    by (simp add: PermissionCheckMiddleware_def Some rm_permissions_routes [OF assms])
qed (simp add: PermissionCheckMiddleware_def)

definition demo_request :: "string \<Rightarrow> gin_request" where
  "demo_request m = \<lparr> rq_Method = m, rq_FullPath = ''/bill'', rq_Path = ''/bill'', rq_ClientIP = ''::1'',
     rq_Header = Map.empty, rq_Keys = [''user_id'' \<mapsto> CtxStr ''u''] \<rparr>"

theorem route_access_witness:
  "end_status (PermissionCheckMiddleware 0
     (add_routes [(''GET'', ''/bill'', ''bill:p2''), (''PUT'', ''/bill'', ''bill''), (''DELETE'', ''/bill'', ''bill:p9'')]
       (NewRBACMiddleware demo_rbac)) (demo_request ''GET'')) = None
   \<and> end_status (PermissionCheckMiddleware 0
     (add_routes [(''GET'', ''/bill'', ''bill:p2''), (''PUT'', ''/bill'', ''bill''), (''DELETE'', ''/bill'', ''bill:p9'')]
       (NewRBACMiddleware demo_rbac)) (demo_request ''PUT'')) = Some 403"
proof -
  let ?routes = "[(''GET'', ''/bill'', ''bill:p2''), (''PUT'', ''/bill'', ''bill''), (''DELETE'', ''/bill'', ''bill:p9'')]"
  have access: "HasPermission ''u'' ''bill'' ''p2'' demo_rbac"
    by (simp add: HasPermission_def demo_users grants_def demo_stores demo_permission_def)
  have ok: "list_all (\<lambda>(m, r, p). CHR '':'' \<notin> set m) ?routes" by simp
  have get: "\<exists>resource action. resource @ CHR '':'' # action = ''bill:p2'' \<and> CHR '':'' \<notin> set resource
      \<and> CHR '':'' \<notin> set action \<and> HasPermission ''u'' resource action demo_rbac"
    by (rule exI [of _ "''bill''"], rule exI [of _ "''p2''"]) (simp add: access)
  have put: "''bill'' \<noteq> resource @ '':'' @ action" for resource action
  proof
    assume e: "''bill'' = resource @ '':'' @ action"
    have "CHR '':'' \<in> set (resource @ '':'' @ action)" by simp
    then show False unfolding e [symmetric] by simp
  qed
  show ?thesis
    using route_access [OF ok, of "demo_request ''GET''" 0 demo_rbac] route_access [OF ok, of "demo_request ''PUT''" 0 demo_rbac]
      put [symmetric]
    by (simp add: demo_request_def get)
qed

subsection \<open>Roles, resources and scopes\<close>

lemma end_status_role_check:
  "end_status (RoleCheckMiddleware now rm requiredRoles c) =
     (case rq_Keys c ''user_id'' of
        None \<Rightarrow> Some 401
      | Some userID \<Rightarrow> if \<exists>r \<in> set requiredRoles. HasRole (render userID) r (rm_rbac rm) then None else Some 403)"
  by (auto simp: RoleCheckMiddleware_def list_ex_iff split: option.split)

lemma end_status_resource:
  "end_status (ResourceBasedMiddleware now rm resource action c) =
     (case rq_Keys c ''user_id'' of
        None \<Rightarrow> Some 401
      | Some userID \<Rightarrow> if HasPermission (render userID) resource action (rm_rbac rm) then None else Some 403)"
  by (simp add: ResourceBasedMiddleware_def split: option.split)

lemma data_scope_only_three: "getUserDataScope rm userID \<in> {''1'', ''3'', ''5''}"
  by (simp add: getUserDataScope_def split: sum.split)

lemma scope_of_deleted_role:
  assumes "map_of (rb_users s) i = Some u" and "\<And>r. r \<in> set (ruser_Roles u) \<Longrightarrow> map_of (rb_roles s) r = None"
  shows "getUserDataScope (NewRBACMiddleware s) i = ''5''"
proof -
  have "List.map_filter (map_of (rb_roles s)) rs = []" if "\<And>r. r \<in> set rs \<Longrightarrow> map_of (rb_roles s) r = None" for rs
    using that by (induction rs) (simp_all add: List.map_filter_simps)
  then show ?thesis using assms by (simp add: getUserDataScope_def GetUserRoles_def NewRBACMiddleware_def)
qed

lemma context_roundtrip:
  "GetUserID (SetUserContext u r keys) = (u, True)" "ctx_GetRole (SetUserContext u r keys) = (r, True)"
  "ctx_GetPermission (SetPermissionContext p keys) = (p, True)" "GetDataScope (SetDataScopeContext d keys) = (d, True)"
  by (simp_all add: GetUserID_def ctx_GetRole_def ctx_GetPermission_def GetDataScope_def ctx_get_def SetUserContext_def
      SetPermissionContext_def SetDataScopeContext_def)

subsection \<open>The permission cache\<close>

lemma cache_key_inj:
  assumes "CHR '':'' \<notin> set u" "CHR '':'' \<notin> set u'" "CHR '':'' \<notin> set r" "CHR '':'' \<notin> set r'"
  shows "cache_key u r a = cache_key u' r' a' \<longleftrightarrow> u = u' \<and> r = r' \<and> a = a'"
proof -
  have k: "cache_key u r a = route_key u (route_key r a)" for u r a
    by (simp add: cache_key_def route_key_def)
  show ?thesis using assms by (simp add: k route_key_inj)
qed

definition cache_run :: "(string \<times> string \<times> string \<times> bool) list \<Rightarrow> permission_cache" where
  "cache_run sets = fold (\<lambda>(u, r, a, b). cache_SetPermission u r a b) sets NewPermissionCache"

lemma cache_get_set:
  assumes "CHR '':'' \<notin> set (u @ r)" and "CHR '':'' \<notin> set (u' @ r')"
  shows "cache_HasPermission u r a (cache_SetPermission u' r' a' b pc)
    = (if (u, r, a) = (u', r', a') then b else cache_HasPermission u r a pc)"
  using assms
  by (auto simp: cache_HasPermission_def cache_SetPermission_def Let_def cache_key_inj split: option.split)

lemma cache_answers_last:
  assumes "CHR '':'' \<notin> set (u @ r)" and "list_all (\<lambda>(u, r, a, b). CHR '':'' \<notin> set (u @ r)) sets"
  shows "cache_HasPermission u r a (cache_run sets)
    = (case find (\<lambda>(u', r', a', b). (u', r', a') = (u, r, a)) (rev sets) of None \<Rightarrow> False | Some (_, _, _, b) \<Rightarrow> b)"
  using assms(2)
proof (induction sets rule: rev_induct)
  case (snoc x sets)
  obtain u' r' a' b where x: "x = (u', r', a', b)" by (cases x)
  from snoc assms(1) show ?case by (auto simp: x cache_run_def cache_get_set)
qed (simp add: cache_run_def NewPermissionCache_def cache_HasPermission_def)

text \<open>
  The key joins user, resource and action with colons, so a permission cached for one user answers for another
  one when an identifier holds a colon.
\<close>

theorem cache_confuses_users:
  "cache_HasPermission u (r1 @ '':'' @ r2) action (cache_SetPermission (u @ '':'' @ r1) r2 action True pc)"
  by (simp add: cache_HasPermission_def cache_SetPermission_def cache_key_def Let_def)

end
