(* ===== verification/Flow_Control.thy ===== *)
theory Flow_Control
  imports App_Error
begin

text \<open>
  Limits of rate and of concurrency: \<^verbatim>\<open>src/app/common/performance/semaphore.go\<close>, the limiters of
  \<^verbatim>\<open>src/app/common/performance/request_merger.go\<close> and the token bucket of \<^verbatim>\<open>src/app/gateway/middlewares/limiter.go\<close>.

  A channel of empty structs is its capacity and its length; the capacity is at least one, since an unbuffered channel hands over
  directly. Every operation that cannot block is a function; one that can block is an \<open>option\<close>, None while it has to wait, so that
  a blocked goroutine is a step that is not enabled. Tickers are steps too. Floating point numbers of the token bucket are reals.

  The two files of the package \<^verbatim>\<open>performance\<close> both declare \<^verbatim>\<open>RateLimiter\<close> and \<^verbatim>\<open>NewRateLimiter\<close>, which does not compile; the second one
  has the prefix \<open>merger\<close> here.
\<close>

section \<open>Model\<close>

subsection \<open>Semaphore\<close>

(* src: app/common/performance/semaphore.go:9-11 Semaphore *)
record semaphore =
  sem_cap :: nat
  sem_len :: nat

(* src: app/common/performance/semaphore.go:14-18 NewSemaphore *)
definition NewSemaphore :: "nat \<Rightarrow> semaphore" where
  "NewSemaphore capacity = \<lparr> sem_cap = capacity, sem_len = 0 \<rparr>"

(* src: app/common/performance/semaphore.go:21-23 Semaphore.Acquire *)
definition sem_Acquire :: "semaphore \<Rightarrow> semaphore option" where
  "sem_Acquire s = (if sem_len s < sem_cap s then Some (s\<lparr> sem_len := sem_len s + 1 \<rparr>) else None)"

(* src: app/common/performance/semaphore.go:26-33 Semaphore.TryAcquire *)
definition sem_TryAcquire :: "semaphore \<Rightarrow> bool \<times> semaphore" where
  "sem_TryAcquire s = (if sem_len s < sem_cap s then (True, s\<lparr> sem_len := sem_len s + 1 \<rparr>) else (False, s))"

text \<open>\<open>done\<close> says that the time limit has passed; when both cases of the select are ready, \<open>choice\<close> picks one.\<close>

(* src: app/common/performance/semaphore.go:36-46 Semaphore.AcquireWithTimeout *)
definition sem_AcquireWithTimeout :: "bool \<Rightarrow> bool \<Rightarrow> semaphore \<Rightarrow> (bool \<times> semaphore) option" where
  "sem_AcquireWithTimeout passed choice s =
     (if sem_len s < sem_cap s \<and> (\<not> passed \<or> choice) then Some (True, s\<lparr> sem_len := sem_len s + 1 \<rparr>)
      else if passed then Some (False, s) else None)"

(* src: app/common/performance/semaphore.go:49-51 Semaphore.Release *)
definition sem_Release :: "semaphore \<Rightarrow> semaphore option" where
  "sem_Release s = (if 0 < sem_len s then Some (s\<lparr> sem_len := sem_len s - 1 \<rparr>) else None)"

(* src: app/common/performance/semaphore.go:54-56 Semaphore.Capacity *)
definition sem_Capacity :: "semaphore \<Rightarrow> nat" where
  "sem_Capacity s = sem_cap s"

(* src: app/common/performance/semaphore.go:59-61 Semaphore.Available *)
definition sem_Available :: "semaphore \<Rightarrow> nat" where
  "sem_Available s = sem_cap s - sem_len s"

(* src: app/common/performance/semaphore.go:64-66 Semaphore.Acquired *)
definition sem_Acquired :: "semaphore \<Rightarrow> nat" where
  "sem_Acquired s = sem_len s"

subsection \<open>Rate limiter over a semaphore\<close>

text \<open>\<open>rl_refilling\<close> says that the goroutine of \<^verbatim>\<open>startTokenBucket\<close> runs.\<close>

(* src: app/common/performance/semaphore.go:69-74 RateLimiter *)
record sem_rate_limiter =
  rl_semaphore :: semaphore
  rl_interval :: duration
  rl_refilling :: bool

(* src: app/common/performance/semaphore.go:77-88 NewRateLimiter *)
definition NewRateLimiter :: "int \<Rightarrow> duration \<Rightarrow> sem_rate_limiter go_result" where
  "NewRateLimiter rate interval =
     (if rate < 0 then Panics ''makechan: size out of range''
      else if interval \<le> 0 then Panics ''non-positive interval for NewTicker''
      else Returns \<lparr> rl_semaphore = NewSemaphore (nat rate), rl_interval = interval, rl_refilling = True \<rparr>)"

text \<open>One turn of the loop on a tick.\<close>

(* src: app/common/performance/semaphore.go:91-108 RateLimiter.startTokenBucket *)
definition rl_tick :: "sem_rate_limiter \<Rightarrow> sem_rate_limiter" where
  "rl_tick rl =
     (if \<not> rl_refilling rl then rl
      else case sem_Release (rl_semaphore rl) of None \<Rightarrow> rl | Some s \<Rightarrow> rl\<lparr> rl_semaphore := s \<rparr>)"

(* src: app/common/performance/semaphore.go:111-113 RateLimiter.Allow *)
definition rl_Allow :: "sem_rate_limiter \<Rightarrow> bool \<times> sem_rate_limiter" where
  "rl_Allow rl = (case sem_TryAcquire (rl_semaphore rl) of (b, s) \<Rightarrow> (b, rl\<lparr> rl_semaphore := s \<rparr>))"

(* src: app/common/performance/semaphore.go:116-118 RateLimiter.Wait *)
definition rl_Wait :: "sem_rate_limiter \<Rightarrow> sem_rate_limiter option" where
  "rl_Wait rl = map_option (\<lambda>s. rl\<lparr> rl_semaphore := s \<rparr>) (sem_Acquire (rl_semaphore rl))"

(* src: app/common/performance/semaphore.go:121-123 RateLimiter.WaitWithTimeout *)
definition rl_WaitWithTimeout :: "bool \<Rightarrow> bool \<Rightarrow> sem_rate_limiter \<Rightarrow> (bool \<times> sem_rate_limiter) option" where
  "rl_WaitWithTimeout passed choice rl =
     map_option (\<lambda>(b, s). (b, rl\<lparr> rl_semaphore := s \<rparr>)) (sem_AcquireWithTimeout passed choice (rl_semaphore rl))"

text \<open>Sending on \<^verbatim>\<open>quit\<close> needs the goroutine to receive it.\<close>

(* src: app/common/performance/semaphore.go:126-129 RateLimiter.Stop *)
definition rl_Stop :: "sem_rate_limiter \<Rightarrow> sem_rate_limiter option" where
  "rl_Stop rl = (if rl_refilling rl then Some (rl\<lparr> rl_refilling := False \<rparr>) else None)"

subsection \<open>Adaptive rate limiter\<close>

text \<open>
  \<open>ar_mutex\<close> says that the channel used as a lock is full. The adjusting goroutine takes it, works, and gives it back; in between
  it may have to wait for \<^verbatim>\<open>Stop\<close>, so that its turn is several steps: \<open>ar_adjusting\<close> says that it stands before \<^verbatim>\<open>Stop\<close>.
\<close>

(* src: app/common/performance/semaphore.go:142-153 AdaptiveRateLimiter *)
record adaptive_rate =
  ar_currentRate :: int
  ar_maxRate :: int
  ar_minRate :: int
  ar_interval :: duration
  ar_successCount :: int
  ar_errorCount :: int
  ar_rateLimiter :: sem_rate_limiter
  ar_mutex :: bool
  ar_adjusting :: bool

(* src: app/common/performance/semaphore.go:156-173 NewAdaptiveRateLimiter *)
definition sem_NewAdaptiveRateLimiter :: "int \<Rightarrow> int \<Rightarrow> int \<Rightarrow> duration \<Rightarrow> adaptive_rate go_result" where
  "sem_NewAdaptiveRateLimiter baseRate maxRate minRate interval =
     (case NewRateLimiter baseRate interval of
        Panics p \<Rightarrow> Panics p
      | Returns rl \<Rightarrow> Returns \<lparr> ar_currentRate = baseRate, ar_maxRate = maxRate, ar_minRate = minRate, ar_interval = interval,
          ar_successCount = 0, ar_errorCount = 0, ar_rateLimiter = rl, ar_mutex = False, ar_adjusting = False \<rparr>)"

(* src: app/common/performance/semaphore.go:194-208 AdaptiveRateLimiter.adjustRate (new rate) *)
definition adjusted_rate :: "adaptive_rate \<Rightarrow> int" where
  "adjusted_rate ar =
     (let total = ar_successCount ar + ar_errorCount ar; successRate = real_of_int (ar_successCount ar) / real_of_int total
      in if successRate > 9 / 10 then min (ar_currentRate ar + 1) (ar_maxRate ar)
         else if successRate < 7 / 10 then max (ar_currentRate ar - 1) (ar_minRate ar)
         else ar_currentRate ar)"

(* src: app/common/performance/semaphore.go:189-208 AdaptiveRateLimiter.adjustRate (up to Stop) *)
definition adjust_begin :: "adaptive_rate \<Rightarrow> adaptive_rate option" where
  "adjust_begin ar =
     (if ar_mutex ar then None
      else if ar_successCount ar + ar_errorCount ar = 0 then Some ar
      else Some (ar\<lparr> ar_currentRate := adjusted_rate ar, ar_mutex := True, ar_adjusting := True \<rparr>))"

(* src: app/common/performance/semaphore.go:210-218 AdaptiveRateLimiter.adjustRate (from Stop on) *)
definition adjust_end :: "adaptive_rate \<Rightarrow> adaptive_rate go_result option" where
  "adjust_end ar =
     (if \<not> ar_adjusting ar then None
      else case rl_Stop (ar_rateLimiter ar) of
        None \<Rightarrow> None
      | Some _ \<Rightarrow>
          Some (case NewRateLimiter (ar_currentRate ar) (ar_interval ar) of
            Panics p \<Rightarrow> Panics p
          | Returns rl \<Rightarrow> Returns (ar\<lparr> ar_rateLimiter := rl, ar_successCount := 0, ar_errorCount := 0,
              ar_mutex := False, ar_adjusting := False \<rparr>)))"

(* src: app/common/performance/semaphore.go:221-225 AdaptiveRateLimiter.RecordSuccess *)
definition ar_RecordSuccess :: "adaptive_rate \<Rightarrow> adaptive_rate option" where
  "ar_RecordSuccess ar = (if ar_mutex ar then None else Some (ar\<lparr> ar_successCount := ar_successCount ar + 1 \<rparr>))"

(* src: app/common/performance/semaphore.go:228-232 AdaptiveRateLimiter.RecordError *)
definition ar_RecordError :: "adaptive_rate \<Rightarrow> adaptive_rate option" where
  "ar_RecordError ar = (if ar_mutex ar then None else Some (ar\<lparr> ar_errorCount := ar_errorCount ar + 1 \<rparr>))"

(* src: app/common/performance/semaphore.go:235-237 AdaptiveRateLimiter.Allow *)
definition adaptive_Allow :: "adaptive_rate \<Rightarrow> bool \<times> adaptive_rate" where
  "adaptive_Allow ar = (case rl_Allow (ar_rateLimiter ar) of (b, rl) \<Rightarrow> (b, ar\<lparr> ar_rateLimiter := rl \<rparr>))"

(* src: app/common/performance/semaphore.go:240-242 AdaptiveRateLimiter.Wait *)
definition ar_Wait :: "adaptive_rate \<Rightarrow> adaptive_rate option" where
  "ar_Wait ar = map_option (\<lambda>rl. ar\<lparr> ar_rateLimiter := rl \<rparr>) (rl_Wait (ar_rateLimiter ar))"

(* src: app/common/performance/semaphore.go:245-247 AdaptiveRateLimiter.WaitWithTimeout *)
definition ar_WaitWithTimeout :: "bool \<Rightarrow> bool \<Rightarrow> adaptive_rate \<Rightarrow> (bool \<times> adaptive_rate) option" where
  "ar_WaitWithTimeout passed choice ar =
     map_option (\<lambda>(b, rl). (b, ar\<lparr> ar_rateLimiter := rl \<rparr>)) (rl_WaitWithTimeout passed choice (ar_rateLimiter ar))"

(* src: app/common/performance/semaphore.go:250-252 AdaptiveRateLimiter.Stop *)
definition ar_Stop :: "adaptive_rate \<Rightarrow> adaptive_rate option" where
  "ar_Stop ar = map_option (\<lambda>rl. ar\<lparr> ar_rateLimiter := rl \<rparr>) (rl_Stop (ar_rateLimiter ar))"

subsection \<open>Limiters of the request merger\<close>

definition merger_site :: "int \<Rightarrow> string \<times> int" where
  "merger_site line = (''app/common/performance/request_merger.go'', line)"

text \<open>A channel that holds the tokens left.\<close>

(* src: app/common/performance/request_merger.go:218-224 RateLimiter *)
record token_limiter =
  tl_tokens :: nat
  tl_burst :: nat

(* src: app/common/performance/request_merger.go:227-241 NewRateLimiter *)
definition merger_NewRateLimiter :: "nat \<Rightarrow> token_limiter" where
  "merger_NewRateLimiter burst = \<lparr> tl_tokens = burst, tl_burst = burst \<rparr>"

(* src: app/common/performance/request_merger.go:244-251 RateLimiter.Allow *)
definition tl_Allow :: "token_limiter \<Rightarrow> bool \<times> token_limiter" where
  "tl_Allow tk = (if 0 < tl_tokens tk then (True, tk\<lparr> tl_tokens := tl_tokens tk - 1 \<rparr>) else (False, tk))"

text \<open>\<open>cancelled\<close> says that the context of the caller is done; the error is the one of the context.\<close>

(* src: app/common/performance/request_merger.go:254-261 RateLimiter.Wait *)
definition tl_Wait :: "err option \<Rightarrow> bool \<Rightarrow> token_limiter \<Rightarrow> (err option \<times> token_limiter) option" where
  "tl_Wait cancelled choice tk =
     (if 0 < tl_tokens tk \<and> (cancelled = None \<or> choice) then Some (None, tk\<lparr> tl_tokens := tl_tokens tk - 1 \<rparr>)
      else if cancelled \<noteq> None then Some (cancelled, tk) else None)"

(* src: app/common/performance/request_merger.go:264-275 RateLimiter.refillTokens *)
definition tl_refill :: "token_limiter \<Rightarrow> token_limiter" where
  "tl_refill tk = (if tl_tokens tk < tl_burst tk then tk\<lparr> tl_tokens := tl_tokens tk + 1 \<rparr> else tk)"

(* src: app/common/performance/request_merger.go:153-166 BackpressureController, BackpressureStats *)
record backpressure =
  bp_maxConcurrency :: nat
  bp_semaphore :: nat
  bp_ActiveRequests :: int
  bp_TotalRequests :: int
  bp_RejectedRequests :: int

(* src: app/common/performance/request_merger.go:169-175 NewBackpressureController *)
definition NewBackpressureController :: "nat \<Rightarrow> backpressure" where
  "NewBackpressureController maxConcurrency =
     \<lparr> bp_maxConcurrency = maxConcurrency, bp_semaphore = 0, bp_ActiveRequests = 0, bp_TotalRequests = 0, bp_RejectedRequests = 0 \<rparr>"

(* src: app/common/performance/request_merger.go:178-192 BackpressureController.Acquire *)
definition bp_Acquire :: "backpressure \<Rightarrow> go_error \<times> backpressure" where
  "bp_Acquire b =
     (if bp_semaphore b < bp_maxConcurrency b
        then (NilError, b\<lparr> bp_semaphore := bp_semaphore b + 1, bp_ActiveRequests := bp_ActiveRequests b + 1,
                bp_TotalRequests := bp_TotalRequests b + 1 \<rparr>)
      else (TypedError (WrapError (merger_site 190) None (code_int ErrCodeServiceUnavailable)
                (utf8 [0xE7, 0xB3, 0xBB, 0xE7, 0xBB, 0x9F, 0xE7, 0xB9, 0x81, 0xE5, 0xBF, 0x99, 0xEF, 0xBC, 0x8C, 0xE8, 0xAF, 0xB7,
                       0xE7, 0xA8, 0x8D, 0xE5, 0x90, 0x8E, 0xE9, 0x87, 0x8D, 0xE8, 0xAF, 0x95])),
            b\<lparr> bp_RejectedRequests := bp_RejectedRequests b + 1 \<rparr>))"

(* src: app/common/performance/request_merger.go:195-203 BackpressureController.Release *)
definition bp_Release :: "backpressure \<Rightarrow> backpressure" where
  "bp_Release b =
     (if 0 < bp_semaphore b then b\<lparr> bp_semaphore := bp_semaphore b - 1, bp_ActiveRequests := bp_ActiveRequests b - 1 \<rparr> else b)"

(* src: app/common/performance/request_merger.go:366-378 ConcurrentLimiter, ConcurrentStats *)
record concurrent_limiter =
  cl_cap :: nat
  cl_semaphore :: nat
  cl_Active :: int
  cl_Total :: int
  cl_Rejected :: int

(* src: app/common/performance/request_merger.go:381-386 NewConcurrentLimiter *)
definition NewConcurrentLimiter :: "nat \<Rightarrow> concurrent_limiter" where
  "NewConcurrentLimiter maxConcurrency = \<lparr> cl_cap = maxConcurrency, cl_semaphore = 0, cl_Active = 0, cl_Total = 0, cl_Rejected = 0 \<rparr>"

text \<open>The function runs between two steps, and the deferred one runs also when it panics.\<close>

(* src: app/common/performance/request_merger.go:391-396 ConcurrentLimiter.Execute (permit) *)
definition cl_enter :: "concurrent_limiter \<Rightarrow> concurrent_limiter option" where
  "cl_enter cl =
     (if cl_semaphore cl < cl_cap cl
        then Some (cl\<lparr> cl_semaphore := cl_semaphore cl + 1, cl_Active := cl_Active cl + 1, cl_Total := cl_Total cl + 1 \<rparr>) else None)"

(* src: app/common/performance/request_merger.go:398-403 ConcurrentLimiter.Execute (deferred) *)
definition cl_leave :: "concurrent_limiter \<Rightarrow> concurrent_limiter" where
  "cl_leave cl = cl\<lparr> cl_semaphore := cl_semaphore cl - 1, cl_Active := cl_Active cl - 1 \<rparr>"

(* src: app/common/performance/request_merger.go:389-412 ConcurrentLimiter.Execute *)
definition cl_Execute ::
  "(concurrent_limiter \<times> 'w \<Rightarrow> go_error go_result \<times> concurrent_limiter \<times> 'w) \<Rightarrow> concurrent_limiter \<times> 'w
   \<Rightarrow> go_error go_result \<times> concurrent_limiter \<times> 'w" where
  "cl_Execute fn clw =
     (case cl_enter (fst clw) of
        Some cl1 \<Rightarrow> (case fn (cl1, snd clw) of (r, cl2, w) \<Rightarrow> (r, cl_leave cl2, w))
      | None \<Rightarrow>
          (Returns (TypedError (WrapError (merger_site 410) None (code_int ErrCodeServiceUnavailable)
             (utf8 [0xE5, 0xB9, 0xB6, 0xE5, 0x8F, 0x91, 0xE9, 0x99, 0x90, 0xE5, 0x88, 0xB6]))),
           (fst clw)\<lparr> cl_Rejected := cl_Rejected (fst clw) + 1 \<rparr>, snd clw))"

subsection \<open>Token bucket of the gateway\<close>

(* src: app/gateway/middlewares/limiter.go:11-17 TokenBucket *)
record gate_bucket =
  tb_capacity :: int
  tb_rate :: real
  tb_tokens :: real
  tb_lastToken :: gotime

text \<open>The difference of two times saturates at the bounds of a duration.\<close>

definition time_Sub :: "gotime \<Rightarrow> gotime \<Rightarrow> duration" where
  "time_Sub t u = max (- (2 ^ 63)) (min (2 ^ 63 - 1) (t - u))"

(* src: app/gateway/middlewares/limiter.go:19-34 TokenBucket.Allow *)
definition bucket_Allow :: "gotime \<Rightarrow> gate_bucket \<Rightarrow> bool \<times> gate_bucket" where
  "bucket_Allow now tb =
     (let tokens = tb_tokens tb + tb_rate tb * (real_of_int (time_Sub now (tb_lastToken tb)) / real_of_int second);
          tokens = (if tokens > real_of_int (tb_capacity tb) then real_of_int (tb_capacity tb) else tokens)
      in if tokens \<ge> 1 then (True, tb\<lparr> tb_tokens := tokens - 1, tb_lastToken := now \<rparr>)
         else (False, tb\<lparr> tb_tokens := tokens \<rparr>))"

text \<open>The bucket of \<^verbatim>\<open>LimiterHandler\<close>; a request that is not allowed is answered with status 503 and aborted.\<close>

(* src: app/gateway/middlewares/limiter.go:36-43 LimiterHandler (bucket) *)
definition limiter_bucket :: "int \<Rightarrow> gate_bucket" where
  "limiter_bucket maxCoon = \<lparr> tb_capacity = maxCoon, tb_rate = 1, tb_tokens = 0, tb_lastToken = 0 \<rparr>"

section \<open>What a limiter promises\<close>

text \<open>
  Both rate limiters promise the same: a credit, never more than the capacity; a request is granted exactly when there is some and
  takes one, and a tick gives one back.
\<close>

locale credit_limiter =
  fixes allow :: "'s \<Rightarrow> bool \<times> 's"
    and refill :: "'s \<Rightarrow> 's"
    and credit :: "'s \<Rightarrow> nat"
    and capacity :: "'s \<Rightarrow> nat"
    and ok :: "'s \<Rightarrow> bool"
  assumes allow_granted: "ok s \<Longrightarrow> fst (allow s) \<longleftrightarrow> 0 < credit s"
    and allow_credit: "ok s \<Longrightarrow> credit (snd (allow s)) = credit s - 1"
    and refill_credit: "ok s \<Longrightarrow> credit (refill s) = min (capacity s) (credit s + 1)"
    and capacity_kept: "ok s \<Longrightarrow> capacity (snd (allow s)) = capacity s" "ok s \<Longrightarrow> capacity (refill s) = capacity s"
    and ok_kept: "ok s \<Longrightarrow> ok (snd (allow s))" "ok s \<Longrightarrow> ok (refill s)"

datatype limiter_event = Ask | Tick

primrec answers :: "('s \<Rightarrow> bool \<times> 's) \<Rightarrow> ('s \<Rightarrow> 's) \<Rightarrow> limiter_event list \<Rightarrow> 's \<Rightarrow> bool list" where
  "answers allow refill [] s = []"
| "answers allow refill (e # es) s =
     (case e of Ask \<Rightarrow> fst (allow s) # answers allow refill es (snd (allow s)) | Tick \<Rightarrow> answers allow refill es (refill s))"

text \<open>The reference: a number of tokens.\<close>

primrec credit_answers :: "nat \<Rightarrow> limiter_event list \<Rightarrow> nat \<Rightarrow> bool list" where
  "credit_answers n [] c = []"
| "credit_answers n (e # es) c =
     (case e of Ask \<Rightarrow> (0 < c) # credit_answers n es (c - 1) | Tick \<Rightarrow> credit_answers n es (min n (c + 1)))"

lemma credit_bound:
  "length (filter (\<lambda>b. b) (credit_answers n es c)) \<le> c + length (filter (\<lambda>e. e = Tick) es)"
proof (induction es arbitrary: c)
  case (Cons e es)
  from Cons [of "c - 1"] Cons [of "min n (c + 1)"] show ?case
    by (cases e; cases "0 < c") auto
qed simp

context credit_limiter
begin

lemma answers_by_credit: "ok s \<Longrightarrow> answers allow refill es s = credit_answers (capacity s) es (credit s)"
proof (induction es arbitrary: s)
  case (Cons e es)
  then show ?case
    by (cases e) (simp_all add: allow_granted allow_credit refill_credit capacity_kept ok_kept)
qed simp

lemma grants_bounded:
  "ok s \<Longrightarrow> length (filter (\<lambda>b. b) (answers allow refill es s)) \<le> credit s + length (filter (\<lambda>e. e = Tick) es)"
  by (simp add: answers_by_credit credit_bound)

end

definition rl_credit :: "sem_rate_limiter \<Rightarrow> nat" where
  "rl_credit rl = sem_Available (rl_semaphore rl)"

definition rl_ok :: "sem_rate_limiter \<Rightarrow> bool" where
  "rl_ok rl \<longleftrightarrow> rl_refilling rl \<and> sem_len (rl_semaphore rl) \<le> sem_cap (rl_semaphore rl)"

lemmas limiter_defs = rl_Allow_def rl_tick_def rl_credit_def rl_ok_def sem_TryAcquire_def sem_Release_def sem_Available_def
  tl_Allow_def tl_refill_def

interpretation semaphore_limiter: credit_limiter rl_Allow rl_tick rl_credit "\<lambda>rl. sem_cap (rl_semaphore rl)" rl_ok
  by unfold_locales (auto simp: limiter_defs)

interpretation channel_limiter: credit_limiter tl_Allow tl_refill tl_tokens tl_burst "\<lambda>tk. tl_tokens tk \<le> tl_burst tk"
  by unfold_locales (auto simp: limiter_defs)

section \<open>Properties\<close>

subsection \<open>The two rate limiters\<close>

text \<open>
  C30. The rate limiter over a semaphore, whose channel holds the requests granted, and the one of the request merger, whose channel
  holds the tokens left, answer every sequence of requests and ticks alike when they are made with the same size: as the counter
  of tokens does.
\<close>

theorem rate_limiters_agree:
  "answers rl_Allow rl_tick es \<lparr> rl_semaphore = NewSemaphore n, rl_interval = d, rl_refilling = True \<rparr> = credit_answers n es n
   \<and> answers tl_Allow tl_refill es (merger_NewRateLimiter n) = credit_answers n es n"
proof -
  let ?rl = "\<lparr> rl_semaphore = NewSemaphore n, rl_interval = d, rl_refilling = True \<rparr>"
  have "rl_ok ?rl" "rl_credit ?rl = n" "sem_cap (rl_semaphore ?rl) = n"
    by (simp_all add: rl_ok_def rl_credit_def sem_Available_def NewSemaphore_def)
  then show ?thesis
    using semaphore_limiter.answers_by_credit [of ?rl es] channel_limiter.answers_by_credit [of "merger_NewRateLimiter n" es]
    by (simp add: merger_NewRateLimiter_def)
qed

text \<open>In any stretch of time the limiter grants at most its size and one more for every tick.\<close>

lemma rate_limiter_bounded:
  assumes "NewRateLimiter (int n) d = Returns rl"
  shows "length (filter (\<lambda>b. b) (answers rl_Allow rl_tick es rl)) \<le> n + length (filter (\<lambda>e. e = Tick) es)"
  using assms semaphore_limiter.grants_bounded [of rl es]
  by (auto simp: NewRateLimiter_def rl_ok_def rl_credit_def sem_Available_def NewSemaphore_def split: if_splits)

subsection \<open>The adaptive limiter\<close>

inductive ar_step :: "adaptive_rate \<Rightarrow> adaptive_rate \<Rightarrow> bool" where
  success: "ar_RecordSuccess ar = Some ar' \<Longrightarrow> ar_step ar ar'"
| failure: "ar_RecordError ar = Some ar' \<Longrightarrow> ar_step ar ar'"
| ask: "adaptive_Allow ar = (b, ar') \<Longrightarrow> ar_step ar ar'"
| wait: "ar_Wait ar = Some ar' \<Longrightarrow> ar_step ar ar'"
| wait_timeout: "ar_WaitWithTimeout passed choice ar = Some (b, ar') \<Longrightarrow> ar_step ar ar'"
| tick: "ar_step ar (ar\<lparr> ar_rateLimiter := rl_tick (ar_rateLimiter ar) \<rparr>)"
| adjust: "adjust_begin ar = Some ar' \<Longrightarrow> ar_step ar ar'"
| adjusted: "adjust_end ar = Some (Returns ar') \<Longrightarrow> ar_step ar ar'"
| stop: "ar_Stop ar = Some ar' \<Longrightarrow> ar_step ar ar'"

lemmas adaptive_defs = ar_RecordSuccess_def ar_RecordError_def adaptive_Allow_def ar_Wait_def ar_WaitWithTimeout_def ar_Stop_def
  adjust_begin_def adjust_end_def rl_Stop_def rl_Allow_def rl_Wait_def rl_WaitWithTimeout_def rl_tick_def

definition rate_ok :: "adaptive_rate \<Rightarrow> bool" where
  "rate_ok ar \<longleftrightarrow> ar_minRate ar \<le> ar_currentRate ar \<and> ar_currentRate ar \<le> ar_maxRate ar"

lemma adjusted_rate_ok: "rate_ok ar \<Longrightarrow> ar_minRate ar \<le> adjusted_rate ar \<and> adjusted_rate ar \<le> ar_maxRate ar"
  by (auto simp: rate_ok_def adjusted_rate_def Let_def)

lemma ar_step_rate: "ar_step ar ar' \<Longrightarrow> rate_ok ar \<Longrightarrow> rate_ok ar'"
proof (induction rule: ar_step.induct)
  case (adjust ar ar')
  then show ?case using adjusted_rate_ok [of ar] by (auto simp: adjust_begin_def rate_ok_def split: if_splits)
qed (auto simp: adaptive_defs rate_ok_def split: if_splits prod.splits option.splits go_result.splits)

text \<open>Whatever happens, the rate stays between the smallest and the largest one.\<close>

lemma rate_stays_bounded:
  assumes "sem_NewAdaptiveRateLimiter baseRate maxRate minRate d = Returns ar" and "minRate \<le> baseRate" "baseRate \<le> maxRate"
    and "ar_step\<^sup>*\<^sup>* ar ar'"
  shows "minRate \<le> ar_currentRate ar' \<and> ar_currentRate ar' \<le> maxRate"
proof -
  have "rate_ok ar' \<and> ar_minRate ar' = minRate \<and> ar_maxRate ar' = maxRate"
    using assms(4)
  proof (induction rule: rtranclp_induct)
    case base
    then show ?case using assms(1-3) by (auto simp: sem_NewAdaptiveRateLimiter_def rate_ok_def split: go_result.splits)
  next
    case (step y z)
    from step(2) have "ar_minRate z = ar_minRate y \<and> ar_maxRate z = ar_maxRate y"
      by cases (auto simp: adaptive_defs split: if_splits prod.splits option.splits go_result.splits)
    with ar_step_rate [OF step(2)] step(3) show ?case by simp
  qed
  then show ?thesis by (auto simp: rate_ok_def)
qed

definition hung :: "adaptive_rate \<Rightarrow> bool" where
  "hung ar \<longleftrightarrow> ar_mutex ar \<and> ar_adjusting ar \<and> \<not> rl_refilling (ar_rateLimiter ar)"

lemma hung_stays: "ar_step ar ar' \<Longrightarrow> hung ar \<Longrightarrow> hung ar'"
  by (induction rule: ar_step.induct)
    (auto simp: adaptive_defs hung_def split: if_splits prod.splits option.splits go_result.splits)

text \<open>
  A stopped adaptive limiter hangs its users. \<^verbatim>\<open>Stop\<close> ends the goroutine that receives on \<^verbatim>\<open>quit\<close> but not the one that adjusts the
  rate: its next turn with something recorded takes the lock and waits for ever for somebody to receive its own \<^verbatim>\<open>Stop\<close>. From then
  on, whatever happens, nobody can record a success or an error, and nobody can stop the limiter again.
\<close>

theorem stopped_limiter_hangs:
  assumes "ar_Stop ar = Some ar1" and "\<not> ar_mutex ar1" and "ar_successCount ar1 + ar_errorCount ar1 \<noteq> 0"
    and "adjust_begin ar1 = Some ar2" and "ar_step\<^sup>*\<^sup>* ar2 ar3"
  shows "ar_RecordSuccess ar3 = None \<and> ar_RecordError ar3 = None \<and> adjust_begin ar3 = None \<and> adjust_end ar3 = None
    \<and> ar_Stop ar3 = None"
proof -
  have "hung ar2" using assms(1-4) by (auto simp: hung_def adjust_begin_def ar_Stop_def rl_Stop_def split: if_splits)
  with assms(5) have "hung ar3" by (induction rule: rtranclp_induct) (auto intro: hung_stays)
  then show ?thesis by (simp add: hung_def adaptive_defs)
qed

definition demo_adaptive :: adaptive_rate where
  "demo_adaptive = \<lparr> ar_currentRate = 2, ar_maxRate = 4, ar_minRate = 1, ar_interval = second, ar_successCount = 1, ar_errorCount = 0,
     ar_rateLimiter = \<lparr> rl_semaphore = NewSemaphore 2, rl_interval = second, rl_refilling = True \<rparr>, ar_mutex = False, ar_adjusting = False \<rparr>"

theorem stopped_limiter_hangs_witness:
  "\<exists>ar2. adjust_begin (the (ar_Stop demo_adaptive)) = Some ar2 \<and> ar_RecordSuccess ar2 = None \<and> ar_currentRate ar2 = 3"
proof -
  obtain ar1 where ar1: "ar_Stop demo_adaptive = Some ar1" "\<not> ar_mutex ar1" "ar_successCount ar1 + ar_errorCount ar1 \<noteq> 0"
    by (simp add: ar_Stop_def rl_Stop_def demo_adaptive_def)
  obtain ar2 where ar2: "adjust_begin ar1 = Some ar2" "ar_currentRate ar2 = 3"
    using ar1 by (auto simp: ar_Stop_def rl_Stop_def demo_adaptive_def adjust_begin_def adjusted_rate_def Let_def)
  from stopped_limiter_hangs [OF ar1 ar2(1) rtranclp.rtrancl_refl] ar1 ar2 show ?thesis by simp
qed

text \<open>
  Who waits for a token of a limiter that has been replaced in the meantime waits for ever once it is empty: its channel is full and
  nothing takes from it any more.
\<close>

lemma stranded_waiter:
  assumes "\<not> rl_refilling rl" and "rl_Wait rl = None"
  shows "rl_Wait (fold (\<lambda>e rl. case e of Ask \<Rightarrow> snd (rl_Allow rl) | Tick \<Rightarrow> rl_tick rl) es rl) = None"
proof -
  have "snd (rl_Allow rl) = rl" "rl_tick rl = rl"
    using assms by (simp_all add: rl_Wait_def sem_Acquire_def rl_Allow_def sem_TryAcquire_def rl_tick_def split: if_splits)
  then have "fold (\<lambda>e rl. case e of Ask \<Rightarrow> snd (rl_Allow rl) | Tick \<Rightarrow> rl_tick rl) es rl = rl"
    by (induction es) (simp_all split: limiter_event.split)
  with assms(2) show ?thesis by simp
qed

subsection \<open>Limits of concurrency\<close>

datatype permit_event = TakePermit | GivePermit

definition permit_step :: "permit_event \<Rightarrow> backpressure \<Rightarrow> backpressure" where
  "permit_step e b = (case e of TakePermit \<Rightarrow> snd (bp_Acquire b) | GivePermit \<Rightarrow> bp_Release b)"

lemma permit_step_ok:
  "bp_ActiveRequests b = int (bp_semaphore b) \<and> bp_semaphore b \<le> bp_maxConcurrency b \<Longrightarrow>
   bp_ActiveRequests (permit_step e b) = int (bp_semaphore (permit_step e b)) \<and> bp_semaphore (permit_step e b) \<le> bp_maxConcurrency b
   \<and> bp_maxConcurrency (permit_step e b) = bp_maxConcurrency b
   \<and> bp_TotalRequests (permit_step e b) + bp_RejectedRequests (permit_step e b)
     = bp_TotalRequests b + bp_RejectedRequests b + (if e = TakePermit then 1 else 0)"
  by (cases e) (auto simp: permit_step_def bp_Acquire_def bp_Release_def)

text \<open>
  Over any sequence of calls the number of active requests is the number of permits taken, between zero and the limit, and every
  request asked for was either counted in or rejected.
\<close>

lemma backpressure_counts:
  "case fold permit_step es (NewBackpressureController n) of b \<Rightarrow>
     bp_ActiveRequests b = int (bp_semaphore b) \<and> bp_semaphore b \<le> bp_maxConcurrency b \<and> bp_maxConcurrency b = n
     \<and> bp_TotalRequests b + bp_RejectedRequests b = int (length (filter (\<lambda>e. e = TakePermit) es))"
proof (induction es rule: rev_induct)
  case (snoc e es)
  then show ?case
    using permit_step_ok [of "fold permit_step es (NewBackpressureController n)" e] by simp
qed (simp add: NewBackpressureController_def)

text \<open>A rejection is an error that panics when it is asked for its message.\<close>

lemma rejection_panics:
  "fst (bp_Acquire b) \<noteq> NilError \<Longrightarrow> error_message (fst (bp_Acquire b)) = Panics ''runtime error: invalid memory address or nil pointer dereference''"
  by (simp add: bp_Acquire_def WrapError_def error_message_def split: if_splits)

text \<open>
  A function is run exactly when a permit is free, and gives its permit back also when it panics: after any functions that keep
  the permits, the limiter has as many as before.
\<close>

lemma execute_gives_back:
  assumes "\<And>cl w. cl_semaphore (fst (snd (fn (cl, w)))) = cl_semaphore cl \<and> cl_Active (fst (snd (fn (cl, w)))) = cl_Active cl"
    and "cl_Execute fn (cl, w) = (r, cl', w')"
  shows "cl_semaphore cl' = cl_semaphore cl \<and> cl_Active cl' = cl_Active cl"
  using assms(2) assms(1) [of "the (cl_enter cl)" w]
  by (auto simp: cl_Execute_def cl_enter_def cl_leave_def split: if_splits option.splits prod.splits)

subsection \<open>The token bucket\<close>

primrec tb_calls :: "gotime list \<Rightarrow> gate_bucket \<Rightarrow> bool list \<times> gate_bucket" where
  "tb_calls [] tb = ([], tb)"
| "tb_calls (t # ts) tb =
     (case bucket_Allow t tb of (b, tb1) \<Rightarrow> (case tb_calls ts tb1 of (bs, tb2) \<Rightarrow> (b # bs, tb2)))"

text \<open>What a refused call has added stays, and the next call adds the whole time since the last grant again.\<close>

lemma refused_adds:
  assumes "bucket_Allow now tb = (False, tb')" and "1 \<le> tb_capacity tb"
  shows "tb' = tb\<lparr> tb_tokens := tb_tokens tb + tb_rate tb * (real_of_int (time_Sub now (tb_lastToken tb)) / real_of_int second) \<rparr>
    \<and> tb_tokens tb' < 1"
proof -
  have "1 \<le> real_of_int (tb_capacity tb)" using assms(2) by simp
  with assms(1) show ?thesis by (auto simp: bucket_Allow_def Let_def split: if_splits)
qed

lemma refused_sum:
  assumes "True \<notin> set (fst (tb_calls ts tb))" and "1 \<le> tb_capacity tb" and "ts \<noteq> []"
  shows "tb_tokens tb + (\<Sum>t \<leftarrow> ts. tb_rate tb * (real_of_int (time_Sub t (tb_lastToken tb)) / real_of_int second)) < 1"
  using assms
proof (induction ts arbitrary: tb)
  case (Cons t ts)
  obtain tb1 where t: "bucket_Allow t tb = (False, tb1)"
    using Cons.prems(1) by (cases "bucket_Allow t tb") (auto split: prod.splits)
  note tb1 = refused_adds [OF t Cons.prems(2)]
  show ?case
  proof (cases "ts = []")
    case True
    with tb1 show ?thesis by auto
  next
    case False
    have "True \<notin> set (fst (tb_calls ts tb1))" using Cons.prems(1) t by (auto split: prod.splits)
    from Cons.IH [OF this _ False] Cons.prems(2) tb1 show ?thesis by (cases tb) (simp add: algebra_simps)
  qed
qed simp

lemma sum_ladder: "(\<Sum>i \<leftarrow> [1..<Suc k]. x * real i) = x * real (k * (k + 1)) / 2"
  by (induction k) (simp_all add: algebra_simps)

text \<open>
  The token bucket of the gateway grants more than its rate to who asks often. A refused call adds the time since the last grant
  to the tokens but does not move the start of that time, so that the same time is added again by every further call: asking
  every \<open>s\<close> nanoseconds, a caller is granted one of \<open>k\<close> calls as soon as \<open>s * k * (k + 1) / 2\<close>, and not \<open>s * k\<close>, is a second.
\<close>

theorem asking_often_beats_limit:
  assumes "tb_rate tb = 1" and "0 \<le> tb_tokens tb" and "1 \<le> tb_capacity tb"
    and "0 < s" and "s * int k < 2 ^ 63" and "2 * second \<le> s * int k * (int k + 1)"
  shows "True \<in> set (fst (tb_calls (map (\<lambda>i. tb_lastToken tb + s * int i) [1..<Suc k]) tb))"
proof (rule ccontr)
  let ?ts = "map (\<lambda>i. tb_lastToken tb + s * int i) [1..<Suc k]"
  assume "True \<notin> set (fst (tb_calls ?ts tb))"
  moreover have "0 < k" using assms(6) by (cases k) (simp_all add: second_def)
  ultimately have "(\<Sum>t \<leftarrow> ?ts. real_of_int (time_Sub t (tb_lastToken tb)) / real_of_int second) < 1"
    using refused_sum [of ?ts tb] assms(1-3) by simp
  moreover have "time_Sub (tb_lastToken tb + s * int i) (tb_lastToken tb) = s * int i" if "i \<in> set [1..<Suc k]" for i
  proof -
    from that have "i \<le> k" by auto
    then have "s * int i \<le> s * int k" using assms(4) by simp
    then have "s * int i < 2 ^ 63" using assms(5) by (rule le_less_trans)
    moreover have "0 \<le> s * int i" using assms(4) by simp
    ultimately show ?thesis by (simp add: time_Sub_def)
  qed
  then have "(\<Sum>t \<leftarrow> ?ts. real_of_int (time_Sub t (tb_lastToken tb)) / real_of_int second)
      = (\<Sum>i \<leftarrow> [1..<Suc k]. real_of_int s / real_of_int second * real i)"
    by (auto intro!: arg_cong [where f = sum_list] simp: comp_def simp del: upt_Suc)
  ultimately have "real_of_int s / real_of_int second * real (k * (k + 1)) / 2 < 1"
    by (simp only: sum_ladder)
  then have "real_of_int s * real (k * (k + 1)) < real_of_int (2 * second)" by (simp add: second_def field_simps)
  then have "real_of_int (s * int k * (int k + 1)) < real_of_int (2 * second)" by (simp add: algebra_simps)
  then have "s * int k * (int k + 1) < 2 * second" by (simp only: of_int_less_iff)
  with assms(6) show False by simp
qed

text \<open>Asked every millisecond, the bucket of one token per second gives one every 45 milliseconds.\<close>

theorem asking_often_beats_limit_witness:
  "True \<in> set (fst (tb_calls (map (\<lambda>i. 7 + 1000000 * int i) [1..<Suc 45])
     \<lparr> tb_capacity = 100, tb_rate = 1, tb_tokens = 0, tb_lastToken = 7 \<rparr>))"
  using asking_often_beats_limit [of "\<lparr> tb_capacity = 100, tb_rate = 1, tb_tokens = 0, tb_lastToken = 7 \<rparr>" 1000000 45]
  by (simp add: second_def del: upt_Suc)

end
