(* ===== verification/Request_Merger.thy ===== *)
theory Request_Merger
  imports Flow_Control
begin

text \<open>
  Requests gathered into batches: \<^verbatim>\<open>RequestMerger\<close> and \<^verbatim>\<open>BatchProcessor\<close> of
  \<^verbatim>\<open>src/app/common/performance/request_merger.go\<close>.

  The loop of each goroutine is a sequence of rounds; a round is the case of the select that is taken, and None when that case is
  not ready. A receive from a closed and empty channel is always ready and gives nil. The merger and the processor are parameters
  that act on a world; the size of a batch is at least one. The response channel of a request holds one response; channels are numbered.

  \<^verbatim>\<open>Merger\<close> is an interface, and \<^verbatim>\<open>NewRequestMerger\<close> stores it where a pointer to it is declared, which does not compile.
\<close>

section \<open>Model\<close>

subsection \<open>Request merger\<close>

(* src: app/common/performance/request_merger.go:30-33 MergedResponse *)
record 'r merged_response =
  ms_Data :: "'r option"
  ms_Error :: go_error

(* src: app/common/performance/request_merger.go:22-27 MergedRequest *)
record 'd merged_request =
  mq_Key :: string
  mq_Data :: 'd
  mq_Response :: nat

(* src: app/common/performance/request_merger.go:36-38 Merger *)
type_synonym ('d, 'r, 'w) merger =
  "'d merged_request option list \<Rightarrow> 'w \<Rightarrow> (go_error + (string \<rightharpoonup> 'r merged_response)) go_result \<times> 'w"

(* src: app/common/performance/request_merger.go:12-19 RequestMerger *)
record ('d, 'r) request_merger =
  rm_requests :: "'d merged_request list"
  rm_batch :: "'d merged_request option list"
  rm_batchSize :: nat
  rm_closed :: bool
  rm_responses :: "nat \<rightharpoonup> 'r merged_response"

(* src: app/common/performance/request_merger.go:41-51 NewRequestMerger *)
definition NewRequestMerger :: "nat \<Rightarrow> ('d, 'r) request_merger" where
  "NewRequestMerger batchSize =
     \<lparr> rm_requests = [], rm_batch = [], rm_batchSize = batchSize, rm_closed = False, rm_responses = Map.empty \<rparr>"

text \<open>Submitting is a check of the flag and, later, a send; the flag can be set in between.\<close>

(* src: app/common/performance/request_merger.go:55-60 RequestMerger.Submit (check) *)
definition submit_check :: "('d, 'r) request_merger \<Rightarrow> go_error" where
  "submit_check rm =
     (if rm_closed rm
        then TypedError (WrapError (merger_site 58) None (code_int ErrCodeServiceUnavailable)
          (utf8 [0xE8, 0xAF, 0xB7, 0xE6, 0xB1, 0x82, 0xE5, 0x90, 0x88, 0xE5, 0xB9, 0xB6, 0xE5, 0x99, 0xA8, 0xE5, 0xB7, 0xB2, 0xE5, 0x85,
                 0xB3, 0xE9, 0x97, 0xAD]))
      else NilError)"

(* src: app/common/performance/request_merger.go:62-71 RequestMerger.Submit (send) *)
definition submit_send :: "'d merged_request \<Rightarrow> ('d, 'r) request_merger \<Rightarrow> ('d, 'r) request_merger go_result option" where
  "submit_send request rm =
     (if rm_closed rm then Some (Panics ''send on closed channel'')
      else if length (rm_requests rm) < rm_batchSize rm * 2 then Some (Returns (rm\<lparr> rm_requests := rm_requests rm @ [request] \<rparr>))
      else None)"

text \<open>The wait for the response; \<open>cancelled\<close> is the error of the context when it is done.\<close>

(* src: app/common/performance/request_merger.go:73-78 RequestMerger.Submit (wait) *)
definition submit_await :: "err option \<Rightarrow> bool \<Rightarrow> nat \<Rightarrow> ('d, 'r) request_merger
    \<Rightarrow> ((err + 'r merged_response) \<times> ('d, 'r) request_merger) option" where
  "submit_await cancelled choice channel rm =
     (case (rm_responses rm channel, cancelled) of
        (None, None) \<Rightarrow> None
      | (None, Some e) \<Rightarrow> Some (Inl e, rm)
      | (Some r, None) \<Rightarrow> Some (Inr r, rm\<lparr> rm_responses := (rm_responses rm)(channel := None) \<rparr>)
      | (Some r, Some e) \<Rightarrow>
          Some (if choice then (Inr r, rm\<lparr> rm_responses := (rm_responses rm)(channel := None) \<rparr>) else (Inl e, rm)))"

text \<open>A send that does not block: the first response stays in the channel. A nil request panics.\<close>

(* src: app/common/performance/request_merger.go:137-140 RequestMerger.processBatch (send) *)
definition respond :: "'r merged_response \<Rightarrow> nat \<Rightarrow> (nat \<rightharpoonup> 'r merged_response) \<Rightarrow> nat \<rightharpoonup> 'r merged_response" where
  "respond response channel rs = (if rs channel = None then rs(channel \<mapsto> response) else rs)"

(* src: app/common/performance/request_merger.go:121-126 RequestMerger.processBatch (errors) *)
fun respond_error ::
  "go_error \<Rightarrow> 'd merged_request option list \<Rightarrow> (nat \<rightharpoonup> 'r merged_response) \<Rightarrow> (nat \<rightharpoonup> 'r merged_response) go_result" where
  "respond_error e [] rs = Returns rs"
| "respond_error e (None # batch) rs = Panics ''runtime error: invalid memory address or nil pointer dereference''"
| "respond_error e (Some req # batch) rs =
     respond_error e batch (respond \<lparr> ms_Data = None, ms_Error = e \<rparr> (mq_Response req) rs)"

definition no_response :: "'r merged_response" where
  "no_response = \<lparr> ms_Data = None, ms_Error = TypedError (WrapError (merger_site 134) None (code_int ErrCodeUnknown)
     (utf8 [0xE6, 0x9C, 0xAA, 0xE6, 0x89, 0xBE, 0xE5, 0x88, 0xB0, 0xE5, 0x93, 0x8D, 0xE5, 0xBA, 0x94])) \<rparr>"

(* src: app/common/performance/request_merger.go:131-141 RequestMerger.processBatch (responses) *)
fun respond_each ::
  "(string \<rightharpoonup> 'r merged_response) \<Rightarrow> 'd merged_request option list \<Rightarrow> (nat \<rightharpoonup> 'r merged_response)
   \<Rightarrow> (nat \<rightharpoonup> 'r merged_response) go_result" where
  "respond_each responses [] rs = Returns rs"
| "respond_each responses (None # batch) rs = Panics ''runtime error: invalid memory address or nil pointer dereference''"
| "respond_each responses (Some req # batch) rs =
     respond_each responses batch
       (respond (case responses (mq_Key req) of None \<Rightarrow> no_response | Some r \<Rightarrow> r) (mq_Response req) rs)"

(* src: app/common/performance/request_merger.go:112-142 RequestMerger.processBatch *)
definition merger_processBatch ::
  "('d, 'r, 'w) merger \<Rightarrow> 'd merged_request option list \<Rightarrow> (nat \<rightharpoonup> 'r merged_response) \<times> 'w
   \<Rightarrow> ((nat \<rightharpoonup> 'r merged_response) \<times> 'w) go_result" where
  "merger_processBatch Merge batch rsw =
     (if batch = [] then Returns rsw
      else case Merge batch (snd rsw) of
        (Panics p, w) \<Rightarrow> Panics p
      | (Returns (Inl e), w) \<Rightarrow> (case respond_error e batch (fst rsw) of Panics p \<Rightarrow> Panics p | Returns rs \<Rightarrow> Returns (rs, w))
      | (Returns (Inr responses), w) \<Rightarrow>
          (case respond_each responses batch (fst rsw) of Panics p \<Rightarrow> Panics p | Returns rs \<Rightarrow> Returns (rs, w)))"

datatype select_case = Receive | Ticker

definition flush_batch ::
  "('d, 'r, 'w) merger \<Rightarrow> ('d, 'r) request_merger \<times> 'w \<Rightarrow> (('d, 'r) request_merger \<times> 'w) go_result" where
  "flush_batch Merge rmw =
     (case merger_processBatch Merge (rm_batch (fst rmw)) (rm_responses (fst rmw), snd rmw) of
        Panics p \<Rightarrow> Panics p
      | Returns (rs, w) \<Rightarrow> Returns ((fst rmw)\<lparr> rm_batch := [], rm_responses := rs \<rparr>, w))"

(* src: app/common/performance/request_merger.go:85-109 RequestMerger.processRequests *)
definition merger_round ::
  "('d, 'r, 'w) merger \<Rightarrow> select_case \<Rightarrow> ('d, 'r) request_merger \<times> 'w \<Rightarrow> (('d, 'r) request_merger \<times> 'w) go_result option" where
  "merger_round Merge c rmw =
     (let rm = fst rmw; w = snd rmw in
      case c of
        Receive \<Rightarrow>
          if rm_requests rm = [] \<and> \<not> rm_closed rm then None
          else let request = (case rm_requests rm of [] \<Rightarrow> None | r # _ \<Rightarrow> Some r);
                   rm = rm\<lparr> rm_requests := List.tl (rm_requests rm), rm_batch := rm_batch rm @ [request] \<rparr>
               in Some (if length (rm_batch rm) \<ge> rm_batchSize rm then flush_batch Merge (rm, w) else Returns (rm, w))
      | Ticker \<Rightarrow> Some (if length (rm_batch rm) > 0 then flush_batch Merge (rm, w) else Returns (rm, w)))"

(* src: app/common/performance/request_merger.go:145-150 RequestMerger.Close *)
definition merger_Close :: "('d, 'r) request_merger \<Rightarrow> ('d, 'r) request_merger go_result" where
  "merger_Close rm = (if rm_closed rm then Panics ''close of closed channel'' else Returns (rm\<lparr> rm_closed := True \<rparr>))"

subsection \<open>Batch processor\<close>

(* src: app/common/performance/request_merger.go:278-285 BatchProcessor *)
record 'i batch_processor =
  bt_items :: "'i list"
  bt_batch :: "'i option list"
  bt_batchSize :: nat
  bt_closed :: bool

(* src: app/common/performance/request_merger.go:288-298 NewBatchProcessor *)
definition NewBatchProcessor :: "nat \<Rightarrow> 'i batch_processor" where
  "NewBatchProcessor batchSize = \<lparr> bt_items = [], bt_batch = [], bt_batchSize = batchSize, bt_closed = False \<rparr>"

text \<open>The flag is read first; \<open>closed_since\<close> says that it was set between the check and the send.\<close>

(* src: app/common/performance/request_merger.go:301-315 BatchProcessor.Add *)
definition bt_Add :: "bool \<Rightarrow> 'i \<Rightarrow> 'i batch_processor \<Rightarrow> (go_error \<times> 'i batch_processor) go_result" where
  "bt_Add closed_since item b =
     (if bt_closed b \<and> \<not> closed_since
        then Returns (TypedError (WrapError (merger_site 305) None (code_int ErrCodeServiceUnavailable)
          (utf8 [0xE6, 0x89, 0xB9, 0xE5, 0xA4, 0x84, 0xE7, 0x90, 0x86, 0xE5, 0x99, 0xA8, 0xE5, 0xB7, 0xB2, 0xE5, 0x85, 0xB3, 0xE9, 0x97, 0xAD])), b)
      else if bt_closed b then Panics ''send on closed channel''
      else if length (bt_items b) < bt_batchSize b * 2 then Returns (NilError, b\<lparr> bt_items := bt_items b @ [item] \<rparr>)
      else Returns (TypedError (WrapError (merger_site 313) None (code_int ErrCodeServiceUnavailable)
          (utf8 [0xE6, 0x89, 0xB9, 0xE5, 0xA4, 0x84, 0xE7, 0x90, 0x86, 0xE5, 0x99, 0xA8, 0xE9, 0x98, 0x9F, 0xE5, 0x88, 0x97, 0xE5, 0xB7,
                 0xB2, 0xE6, 0xBB, 0xA1])), b))"

text \<open>The error of the processor is dropped.\<close>

(* src: app/common/performance/request_merger.go:345-355 BatchProcessor.processBatch *)
definition bt_processBatch :: "('i option list \<Rightarrow> 'w \<Rightarrow> err option \<times> 'w) \<Rightarrow> 'i option list \<Rightarrow> 'w \<Rightarrow> 'w" where
  "bt_processBatch processor batch w = (if batch = [] then w else snd (processor batch w))"

(* src: app/common/performance/request_merger.go:318-342 BatchProcessor.process *)
definition bt_round ::
  "('i option list \<Rightarrow> 'w \<Rightarrow> err option \<times> 'w) \<Rightarrow> select_case \<Rightarrow> 'i batch_processor \<times> 'w \<Rightarrow> ('i batch_processor \<times> 'w) option" where
  "bt_round processor c bw =
     (let b = fst bw; w = snd bw in
      case c of
        Receive \<Rightarrow>
          if bt_items b = [] \<and> \<not> bt_closed b then None
          else let item = (case bt_items b of [] \<Rightarrow> None | i # _ \<Rightarrow> Some i);
                   b = b\<lparr> bt_items := List.tl (bt_items b), bt_batch := bt_batch b @ [item] \<rparr>
               in Some (if length (bt_batch b) \<ge> bt_batchSize b
                  then (b\<lparr> bt_batch := [] \<rparr>, bt_processBatch processor (bt_batch b) w) else (b, w))
      | Ticker \<Rightarrow> Some (if length (bt_batch b) > 0
                  then (b\<lparr> bt_batch := [] \<rparr>, bt_processBatch processor (bt_batch b) w) else (b, w)))"

(* src: app/common/performance/request_merger.go:358-363 BatchProcessor.Close *)
definition bt_Close :: "'i batch_processor \<Rightarrow> 'i batch_processor go_result" where
  "bt_Close b = (if bt_closed b then Panics ''close of closed channel'' else Returns (b\<lparr> bt_closed := True \<rparr>))"

section \<open>Properties\<close>

subsection \<open>Batches\<close>

datatype 'd merger_event = Submitted "'d merged_request" | Round select_case

text \<open>A run: a send or a round that is not ready waits, which leaves everything as it is.\<close>

fun merger_step :: "('d, 'r, 'w) merger \<Rightarrow> 'd merger_event \<Rightarrow> ('d, 'r) request_merger \<times> 'w \<Rightarrow> (('d, 'r) request_merger \<times> 'w) go_result" where
  "merger_step Merge (Submitted r) (rm, w) =
     (case submit_send r rm of None \<Rightarrow> Returns (rm, w) | Some (Panics p) \<Rightarrow> Panics p | Some (Returns rm') \<Rightarrow> Returns (rm', w))"
| "merger_step Merge (Round c) rmw = (case merger_round Merge c rmw of None \<Rightarrow> Returns rmw | Some r \<Rightarrow> r)"

primrec merger_run :: "('d, 'r, 'w) merger \<Rightarrow> 'd merger_event list \<Rightarrow> ('d, 'r) request_merger \<times> 'w \<Rightarrow> (('d, 'r) request_merger \<times> 'w) go_result"
  where
  "merger_run Merge [] rmw = Returns rmw"
| "merger_run Merge (e # es) rmw = (case merger_step Merge e rmw of Panics p \<Rightarrow> Panics p | Returns rmw' \<Rightarrow> merger_run Merge es rmw')"

text \<open>The requests a run accepts.\<close>

definition taken :: "'d merger_event \<Rightarrow> ('d, 'r) request_merger \<Rightarrow> 'd merged_request list" where
  "taken e rm = (case e of Submitted r \<Rightarrow> (case submit_send r rm of Some (Returns _) \<Rightarrow> [r] | _ \<Rightarrow> []) | Round c \<Rightarrow> [])"

fun accepted :: "('d, 'r, 'w) merger \<Rightarrow> 'd merger_event list \<Rightarrow> ('d, 'r) request_merger \<times> 'w \<Rightarrow> 'd merged_request list" where
  "accepted Merge [] rmw = []"
| "accepted Merge (e # es) rmw =
     taken e (fst rmw) @ (case merger_step Merge e rmw of Panics p \<Rightarrow> [] | Returns rmw' \<Rightarrow> accepted Merge es rmw')"

text \<open>A merger that writes the batches down and returns.\<close>

definition writes_batches :: "('d, 'r, 'd merged_request option list list) merger \<Rightarrow> bool" where
  "writes_batches Merge \<longleftrightarrow> (\<forall>batch w. \<exists>r. Merge batch w = (Returns r, w @ [batch]))"

definition batches_ok :: "'d merged_request list \<Rightarrow> ('d, 'r) request_merger \<times> 'd merged_request option list list \<Rightarrow> bool" where
  "batches_ok acc rmw \<longleftrightarrow> (case rmw of (rm, w) \<Rightarrow>
     map Some acc = concat w @ rm_batch rm @ map Some (rm_requests rm) \<and> \<not> rm_closed rm \<and> 0 < rm_batchSize rm
     \<and> length (rm_batch rm) < rm_batchSize rm \<and> list_all (\<lambda>b. b \<noteq> [] \<and> length b \<le> rm_batchSize rm) w)"

lemma respond_each_returns: "None \<notin> set batch \<Longrightarrow> respond_each responses batch rs \<noteq> Panics p"
  by (induction responses batch rs rule: respond_each.induct) auto

lemma respond_error_returns: "None \<notin> set batch \<Longrightarrow> respond_error e batch rs \<noteq> Panics p"
  by (induction e batch rs rule: respond_error.induct) auto

lemma processBatch_writes:
  assumes "writes_batches Merge" and "batch \<noteq> []" and "None \<notin> set batch"
  shows "\<exists>rs'. merger_processBatch Merge batch (rs, w) = Returns (rs', w @ [batch])"
proof -
  obtain r where r: "Merge batch w = (Returns r, w @ [batch])" using assms(1) by (auto simp: writes_batches_def)
  show ?thesis
    using assms(2,3)
    by (cases r) (auto simp: merger_processBatch_def r respond_each_returns respond_error_returns split: go_result.splits)
qed

lemma flush_ok:
  assumes "writes_batches Merge" and "rm_batch rm \<noteq> []" and "None \<notin> set (rm_batch rm)"
  shows "\<exists>rs. flush_batch Merge (rm, w) = Returns (rm\<lparr> rm_batch := [], rm_responses := rs \<rparr>, w @ [rm_batch rm])"
  using processBatch_writes [OF assms, of "rm_responses rm" w] by (auto simp: flush_batch_def)

lemma batches_real: "batches_ok acc (rm, w) \<Longrightarrow> None \<notin> set (rm_batch rm)"
proof -
  assume "batches_ok acc (rm, w)"
  then have "set (rm_batch rm) \<subseteq> set (map Some acc)" by (auto simp: batches_ok_def)
  then show ?thesis by auto
qed

lemma receive_ok:
  assumes "writes_batches Merge" and "batches_ok acc (rm, w)" and "rm_requests rm = r # rest"
  shows "\<exists>rmw'. merger_round Merge Receive (rm, w) = Some (Returns rmw') \<and> batches_ok acc rmw'"
proof -
  let ?rm = "rm\<lparr> rm_requests := rest, rm_batch := rm_batch rm @ [Some r] \<rparr>"
  have "\<exists>rs. flush_batch Merge (?rm, w) = Returns (?rm\<lparr> rm_batch := [], rm_responses := rs \<rparr>, w @ [rm_batch ?rm])"
    by (rule flush_ok [OF assms(1)]) (use batches_real [OF assms(2)] in simp_all)
  with assms(2,3) show ?thesis
    by (auto simp: merger_round_def Let_def batches_ok_def)
qed

lemma merger_step_ok:
  assumes "writes_batches Merge" and "batches_ok acc (rm, w)"
  shows "\<exists>rmw'. merger_step Merge e (rm, w) = Returns rmw'
    \<and> batches_ok (acc @ taken e rm) rmw'"
proof (cases e)
  case (Submitted r)
  with assms(2) show ?thesis by (auto simp: submit_send_def batches_ok_def taken_def)
next
  case (Round c)
  show ?thesis
  proof (cases c)
    case Receive
    show ?thesis
    proof (cases "rm_requests rm")
      case Nil
      then have "merger_round Merge Receive (rm, w) = None" using assms(2) by (simp add: merger_round_def batches_ok_def)
      with Round Receive assms(2) show ?thesis by (simp add: taken_def)
    next
      case (Cons r rest)
      from receive_ok [OF assms Cons] Round Receive show ?thesis by (auto simp: taken_def)
    qed
  next
    case Ticker
    show ?thesis
    proof (cases "rm_batch rm = []")
      case True
      with Round Ticker assms(2) show ?thesis by (simp add: merger_round_def taken_def)
    next
      case False
      from flush_ok [OF assms(1) this batches_real [OF assms(2)], of w] Round Ticker assms(2) False
      show ?thesis by (auto simp: merger_round_def batches_ok_def Let_def taken_def)
    qed
  qed
qed

lemma merger_run_ok:
  assumes "writes_batches Merge" and "batches_ok acc rmw"
  shows "\<exists>rmw'. merger_run Merge es rmw = Returns rmw' \<and> batches_ok (acc @ accepted Merge es rmw) rmw'"
  using assms(2)
proof (induction es arbitrary: acc rmw)
  case (Cons e es)
  obtain rm w where rmw: "rmw = (rm, w)" by (cases rmw)
  from merger_step_ok [OF assms(1) Cons.prems [unfolded rmw], of e] obtain rmw1 where
    1: "merger_step Merge e (rm, w) = Returns rmw1"
      "batches_ok (acc @ taken e rm) rmw1"
    by blast
  from Cons.IH [OF 1(2)] show ?case by (simp add: 1(1) rmw)
qed simp

text \<open>
  C31. Over any sequence of submissions and rounds of the merger before it is closed, with a merger that returns, nothing panics and
  every accepted request is handed on exactly once and in the order of acceptance: the batches handed on, the batch begun and the
  queue together are the accepted requests. No batch is empty or longer than the batch size.
\<close>

theorem every_request_in_one_batch:
  assumes "writes_batches Merge" and "0 < n"
  shows "\<exists>rm w. merger_run Merge es (NewRequestMerger n, []) = Returns (rm, w)
    \<and> map Some (accepted Merge es (NewRequestMerger n, [])) = concat w @ rm_batch rm @ map Some (rm_requests rm)
    \<and> list_all (\<lambda>b. b \<noteq> [] \<and> length b \<le> n) w"
proof -
  have size: "rm_batchSize (fst rmw') = rm_batchSize (fst rmw)"
    if "merger_run Merge es rmw = Returns rmw'" "batches_ok acc rmw" for acc rmw rmw'
    using that
  proof (induction es arbitrary: acc rmw)
    case (Cons e es)
    obtain rm w where rmw: "rmw = (rm, w)" by (cases rmw)
    from merger_step_ok [OF assms(1) Cons.prems(2) [unfolded rmw], of e] obtain rmw1 acc1
      where 1: "merger_step Merge e (rm, w) = Returns rmw1" "batches_ok acc1 rmw1" by blast
    have "rm_batchSize (fst rmw1) = rm_batchSize rm"
      using 1(1)
      by (cases e)
        (auto simp: submit_send_def merger_round_def flush_batch_def Let_def split: option.splits go_result.splits if_splits select_case.splits)
    with Cons.IH [of rmw1 acc1] Cons.prems 1 show ?case by (simp add: rmw)
  qed simp
  have "batches_ok [] (NewRequestMerger n, [])" using assms(2) by (simp add: batches_ok_def NewRequestMerger_def)
  from merger_run_ok [OF assms(1) this, of es] size [OF _ this] show ?thesis
    by (fastforce simp: batches_ok_def NewRequestMerger_def)
qed

text \<open>Each request of a batch gets the response for its key, or the one that says that there is none.\<close>

lemma respond_each_gives:
  assumes "respond_each responses batch rs = Returns rs'" and "distinct (map mq_Response (List.map_filter (\<lambda>x. x) batch))"
    and "Some req \<in> set batch" and "rs (mq_Response req) = None"
  shows "rs' (mq_Response req) = Some (case responses (mq_Key req) of None \<Rightarrow> no_response | Some r \<Rightarrow> r)"
proof -
  have kept: "rs' c = rs c" if "respond_each responses batch rs = Returns rs'" "c \<notin> mq_Response ` set (List.map_filter (\<lambda>x. x) batch)"
    for batch :: "'b merged_request option list" and responses :: "string \<Rightarrow> 'a merged_response option" and rs rs' and c
    using that
    by (induction responses batch rs rule: respond_each.induct) (auto simp: map_filter_simps respond_def)
  show ?thesis
    using assms
  proof (induction responses batch rs rule: respond_each.induct)
    case (3 responses r batch rs)
    note eq = 3(2) [unfolded respond_each.simps]
    have r: "mq_Response r \<notin> mq_Response ` set (List.map_filter (\<lambda>x. x) batch)"
      using 3(3) by (simp add: map_filter_simps)
    show ?case
    proof (cases "req = r")
      case True
      with kept [OF eq r] 3(5) show ?thesis by (simp add: respond_def)
    next
      case False
      then have "Some req \<in> set batch" using 3(4) by simp
      moreover from this have "mq_Response req \<in> mq_Response ` set (List.map_filter (\<lambda>x. x) batch)"
        by (force simp: List.map_filter_def)
      with r have "mq_Response req \<noteq> mq_Response r" by metis
      ultimately show ?thesis using 3(1) [OF eq] 3(3,5) by (simp add: map_filter_simps respond_def)
    qed
  qed simp_all
qed

subsection \<open>Closing\<close>

lemma respond_panics:
  "None \<in> set batch \<Longrightarrow> \<exists>p. respond_each responses batch rs = Panics p"
  "None \<in> set batch \<Longrightarrow> \<exists>p. respond_error e batch rs = Panics p"
  by (induction responses batch rs rule: respond_each.induct; simp) (induction e batch rs rule: respond_error.induct; simp)

lemma flush_panics: "None \<in> set (rm_batch rm) \<Longrightarrow> \<exists>p. flush_batch Merge (rm, w) = Panics p"
proof -
  assume nil: "None \<in> set (rm_batch rm)"
  then have ne: "rm_batch rm \<noteq> []" by auto
  consider p w' where "Merge (rm_batch rm) w = (Panics p, w')" | e w' where "Merge (rm_batch rm) w = (Returns (Inl e), w')"
    | m w' where "Merge (rm_batch rm) w = (Returns (Inr m), w')"
    by (metis go_result.exhaust sum.exhaust surj_pair)
  then show ?thesis
  proof cases
    case 1
    with ne show ?thesis by (simp add: flush_batch_def merger_processBatch_def)
  next
    case 2
    with ne respond_panics(2) [OF nil, of e "rm_responses rm"] show ?thesis by (auto simp: flush_batch_def merger_processBatch_def)
  next
    case 3
    with ne respond_panics(1) [OF nil, of m "rm_responses rm"] show ?thesis by (auto simp: flush_batch_def merger_processBatch_def)
  qed
qed

lemma receive_nil:
  assumes "rm_closed rm" and "rm_requests rm = []"
  shows "merger_round Merge Receive (rm, w) =
    Some (if Suc (length (rm_batch rm)) \<ge> rm_batchSize rm then flush_batch Merge (rm\<lparr> rm_batch := rm_batch rm @ [None] \<rparr>, w)
      else Returns (rm\<lparr> rm_batch := rm_batch rm @ [None] \<rparr>, w))"
  using assms by (cases rm) (simp add: merger_round_def Let_def)

definition receives :: "select_case list \<Rightarrow> nat" where
  "receives cs = length (filter (\<lambda>c. c = Receive) cs)"

lemma receives_simps [simp]:
  "receives [] = 0" "receives (Receive # cs) = Suc (receives cs)" "receives (Ticker # cs) = receives cs"
  by (simp_all add: receives_def)

lemma flush_fields:
  "flush_batch Merge (rm, w) = Returns (rm', w') \<Longrightarrow>
   rm_batch rm' = [] \<and> rm_requests rm' = rm_requests rm \<and> rm_batchSize rm' = rm_batchSize rm \<and> rm_closed rm' = rm_closed rm"
  by (auto simp: flush_batch_def split: go_result.splits prod.splits)

text \<open>A batch with a nil request in it does not survive.\<close>

lemma nil_batch_panics:
  assumes "rm_closed rm" and "rm_requests rm = []" and "None \<in> set (rm_batch rm)" and "length (rm_batch rm) < rm_batchSize rm"
    and "rm_batchSize rm \<le> length (rm_batch rm) + receives cs"
  shows "\<exists>p. merger_run Merge (map Round cs) (rm, w) = Panics p"
  using assms
proof (induction cs arbitrary: rm)
  case (Cons c cs)
  show ?case
  proof (cases c)
    case Receive
    let ?rm = "rm\<lparr> rm_batch := rm_batch rm @ [None] \<rparr>"
    note r = receive_nil [OF Cons.prems(1,2), of Merge w]
    show ?thesis
    proof (cases "length (rm_batch ?rm) \<ge> rm_batchSize rm")
      case True
      with flush_panics [of ?rm Merge w] show ?thesis by (auto simp: Receive r)
    next
      case False
      with Cons.IH [of ?rm] Cons.prems show ?thesis by (simp add: Receive r)
    qed
  next
    case Ticker
    from Cons.prems(3) have "rm_batch rm \<noteq> []" by auto
    with flush_panics [OF Cons.prems(3), of Merge w] show ?thesis by (auto simp: Ticker merger_round_def Let_def)
  qed
qed simp

lemma closed_panics:
  assumes "rm_closed rm" and "length (rm_batch rm) < rm_batchSize rm" and "length (rm_requests rm) + rm_batchSize rm \<le> receives cs"
  shows "\<exists>p. merger_run Merge (map Round cs) (rm, w) = Panics p"
  using assms
proof (induction cs arbitrary: rm w)
  case (Cons c cs)
  show ?case
  proof (cases c)
    case Receive
    show ?thesis
    proof (cases "rm_requests rm")
      case Nil
      let ?rm = "rm\<lparr> rm_batch := rm_batch rm @ [None] \<rparr>"
      note r = receive_nil [OF Cons.prems(1) Nil, of Merge w]
      show ?thesis
      proof (cases "length (rm_batch ?rm) \<ge> rm_batchSize rm")
        case True
        with flush_panics [of ?rm Merge w] show ?thesis by (auto simp: Receive r)
      next
        case False
        with nil_batch_panics [of ?rm cs Merge w] Cons.prems Nil show ?thesis by (simp add: Receive r)
      qed
    next
      case (Cons req rest)
      let ?rm = "rm\<lparr> rm_requests := rest, rm_batch := rm_batch rm @ [Some req] \<rparr>"
      have r: "merger_round Merge Receive (rm, w) =
          Some (if length (rm_batch ?rm) \<ge> rm_batchSize rm then flush_batch Merge (?rm, w) else Returns (?rm, w))"
        using Cons by (simp add: merger_round_def Let_def)
      show ?thesis
      proof (cases "length (rm_batch ?rm) \<ge> rm_batchSize rm")
        case True
        show ?thesis
        proof (cases "flush_batch Merge (?rm, w)")
          case (Returns rmw')
          with flush_fields [of Merge ?rm w "fst rmw'" "snd rmw'"] Cons.IH [of "fst rmw'" "snd rmw'"] Cons.prems Cons True
          show ?thesis by (simp add: Receive r)
        qed (use True in \<open>simp add: Receive r\<close>)
      next
        case False
        with Cons.IH [of ?rm w] Cons.prems Cons show ?thesis by (simp add: Receive r)
      qed
    qed
  next
    case Ticker
    show ?thesis
    proof (cases "rm_batch rm = []")
      case True
      with Cons.IH [of rm w] Cons.prems show ?thesis by (simp add: Ticker merger_round_def)
    next
      case nonempty: False
      show ?thesis
      proof (cases "flush_batch Merge (rm, w)")
        case (Returns rmw')
        with flush_fields [of Merge rm w "fst rmw'" "snd rmw'"] Cons.IH [of "fst rmw'" "snd rmw'"] Cons.prems nonempty
        show ?thesis by (simp add: Ticker merger_round_def Let_def)
      qed (use nonempty in \<open>simp add: Ticker merger_round_def Let_def\<close>)
    qed
  qed
qed simp

lemma merger_run_open:
  assumes "merger_run Merge es rmw = Returns rmw'"
    and "length (rm_batch (fst rmw)) < rm_batchSize (fst rmw)" and "length (rm_requests (fst rmw)) \<le> 2 * rm_batchSize (fst rmw)"
  shows "length (rm_batch (fst rmw')) < rm_batchSize (fst rmw') \<and> length (rm_requests (fst rmw')) \<le> 2 * rm_batchSize (fst rmw')
    \<and> rm_batchSize (fst rmw') = rm_batchSize (fst rmw)"
  using assms
proof (induction es arbitrary: rmw)
  case (Cons e es)
  obtain rm w where rmw: "rmw = (rm, w)" by (cases rmw)
  obtain rm1 w1 where 1: "merger_step Merge e (rm, w) = Returns (rm1, w1)"
    using Cons.prems(1) by (auto simp: rmw split: go_result.splits)
  have "length (rm_batch rm1) < rm_batchSize rm1 \<and> length (rm_requests rm1) \<le> 2 * rm_batchSize rm1 \<and> rm_batchSize rm1 = rm_batchSize rm"
    using 1 Cons.prems(2,3)
    by (cases e)
      (auto simp: rmw submit_send_def merger_round_def Let_def dest!: flush_fields
        split: option.splits go_result.splits if_splits select_case.splits list.splits)
  with Cons.IH [of "(rm1, w1)"] Cons.prems(1) 1 show ?case by (simp add: rmw)
qed simp

text \<open>
  C32. Closing the merger ends the process. The goroutine does not notice that the channel is closed: it goes on receiving and gets
  nil requests, gathers them into a batch, and answering a nil request panics, whatever the merger does with it. From any state
  reached before, three batch sizes of receives after \<^verbatim>\<open>Close\<close> are enough, and after \<^verbatim>\<open>Close\<close> a receive is always ready.
\<close>

theorem close_ends_process:
  assumes "merger_run Merge es (NewRequestMerger n, w0) = Returns (rm, w)" and "0 < n"
    and "merger_Close rm = Returns rm'" and "3 * n \<le> receives cs"
  shows "\<exists>p. merger_run Merge (map Round cs) (rm', w) = Panics p"
proof -
  from merger_run_open [OF assms(1)] assms(2) have "length (rm_batch rm) < n" "length (rm_requests rm) \<le> 2 * n" "rm_batchSize rm = n"
    by (simp_all add: NewRequestMerger_def)
  with assms(3,4) show ?thesis by (intro closed_panics) (auto simp: merger_Close_def split: if_splits)
qed

lemma close_always_ready: "merger_Close rm = Returns rm' \<Longrightarrow> merger_round Merge Receive (rm', w) \<noteq> None"
  by (auto simp: merger_Close_def merger_round_def Let_def split: if_splits)

definition echo_merger :: "(string, string, string list) merger" where
  "echo_merger batch w =
     (Returns (Inr (map_of (map (\<lambda>r. (mq_Key r, \<lparr> ms_Data = Some (mq_Data r), ms_Error = NilError \<rparr>)) (List.map_filter (\<lambda>x. x) batch)))), w)"

theorem close_ends_process_witness:
  "\<exists>rm w rm' p. merger_run echo_merger [Submitted \<lparr> mq_Key = ''k'', mq_Data = ''d'', mq_Response = 0 \<rparr>, Round Receive] (NewRequestMerger 1, []) = Returns (rm, w)
    \<and> merger_Close rm = Returns rm' \<and> merger_run echo_merger [Round Receive, Round Receive, Round Receive] (rm', w) = Panics p"
proof -
  obtain rm w where 1: "merger_run echo_merger [Submitted \<lparr> mq_Key = ''k'', mq_Data = ''d'', mq_Response = 0 \<rparr>, Round Receive]
      (NewRequestMerger 1, []) = Returns (rm, w)" "\<not> rm_closed rm"
    by (simp add: NewRequestMerger_def submit_send_def merger_round_def flush_batch_def merger_processBatch_def echo_merger_def
        respond_def map_filter_simps)
  then have 2: "merger_Close rm = Returns (rm\<lparr> rm_closed := True \<rparr>)" by (simp add: merger_Close_def)
  from close_ends_process [OF 1(1) _ 2, of "[Receive, Receive, Receive]"] 1 2 show ?thesis by simp
qed

text \<open>A merger that writes the batches down and answers nothing.\<close>

definition silent_merger :: "(string, string, string merged_request option list list) merger" where
  "silent_merger batch w = (Returns (Inr Map.empty), w @ [batch])"

theorem every_request_in_one_batch_witness:
  "\<exists>rm w. merger_run silent_merger [Submitted \<lparr> mq_Key = ''k'', mq_Data = ''d'', mq_Response = 0 \<rparr>, Round Receive, Round Ticker]
      (NewRequestMerger 2, []) = Returns (rm, w)
    \<and> concat w @ rm_batch rm @ map Some (rm_requests rm) = [Some \<lparr> mq_Key = ''k'', mq_Data = ''d'', mq_Response = 0 \<rparr>]"
proof -
  let ?es = "[Submitted \<lparr> mq_Key = ''k'', mq_Data = ''d'', mq_Response = 0 \<rparr>, Round Receive, Round Ticker]"
  have "writes_batches silent_merger" by (simp add: writes_batches_def silent_merger_def)
  from every_request_in_one_batch [OF this, of 2 ?es]
  obtain rm w where run: "merger_run silent_merger ?es (NewRequestMerger 2, []) = Returns (rm, w)"
    and all: "map Some (accepted silent_merger ?es (NewRequestMerger 2, [])) = concat w @ rm_batch rm @ map Some (rm_requests rm)"
    by auto
  have "accepted silent_merger ?es (NewRequestMerger 2, []) = [\<lparr> mq_Key = ''k'', mq_Data = ''d'', mq_Response = 0 \<rparr>]"
    by (simp add: taken_def NewRequestMerger_def submit_send_def merger_round_def flush_batch_def merger_processBatch_def silent_merger_def)
  from run all [unfolded this, symmetric] show ?thesis by (intro exI conjI) simp_all
qed

text \<open>The closed batch processor never stops: it hands batches of nil items to the processor for ever.\<close>

fun bt_rounds :: "('i option list \<Rightarrow> 'w \<Rightarrow> err option \<times> 'w) \<Rightarrow> nat \<Rightarrow> 'i batch_processor \<times> 'w \<Rightarrow> 'i batch_processor \<times> 'w" where
  "bt_rounds processor 0 bw = bw"
| "bt_rounds processor (Suc k) bw = (case bt_round processor Receive bw of None \<Rightarrow> bw | Some bw' \<Rightarrow> bt_rounds processor k bw')"

lemma bt_round_nil:
  assumes "bt_closed b" and "bt_items b = []" and "0 < bt_batchSize b"
  shows "bt_round processor Receive (b, w) =
    Some (if bt_batchSize b \<le> Suc (length (bt_batch b)) then (b\<lparr> bt_batch := [] \<rparr>, snd (processor (bt_batch b @ [None]) w))
      else (b\<lparr> bt_batch := bt_batch b @ [None] \<rparr>, w))"
  using assms by (cases b) (simp add: bt_round_def bt_processBatch_def Let_def)

lemma bt_fill:
  assumes "bt_closed b" and "bt_items b = []" and "length (bt_batch b) + k = bt_batchSize b" and "0 < k"
  shows "bt_rounds processor k (b, w) = (b\<lparr> bt_batch := [] \<rparr>, snd (processor (bt_batch b @ replicate k None) w))"
  using assms
proof (induction k arbitrary: b)
  case (Suc k)
  have size: "bt_batchSize b = Suc (length (bt_batch b) + k)" using Suc.prems(3) by simp
  show ?case
  proof (cases "k = 0")
    case True
    with Suc.prems size show ?thesis by (simp add: bt_round_nil)
  next
    case False
    with Suc.IH [of "b\<lparr> bt_batch := bt_batch b @ [None] \<rparr>"] Suc.prems size show ?thesis
      by (simp add: bt_round_nil)
  qed
qed simp

text \<open>Every further batch size of receives is one more call with nothing but nil items.\<close>

theorem closed_processor_never_stops:
  assumes "bt_Close b = Returns b'" and "bt_items b = []" and "bt_batch b = []" and "0 < bt_batchSize b"
  shows "bt_rounds processor (m * bt_batchSize b) (b', w) = (b', ((\<lambda>w. snd (processor (replicate (bt_batchSize b) None) w)) ^^ m) w)"
proof -
  have b': "bt_closed b'" "bt_items b' = []" "bt_batch b' = []" "bt_batchSize b' = bt_batchSize b" "b'\<lparr> bt_batch := [] \<rparr> = b'"
    using assms by (auto simp: bt_Close_def split: if_splits)
  have add: "bt_rounds processor (k + n) (c, v) = bt_rounds processor n (bt_rounds processor k (c, v))"
    if "bt_closed c" for k n c v
    using that
  proof (induction k arbitrary: c v)
    case (Suc k)
    have "\<exists>c1 v1. bt_round processor Receive (c, v) = Some (c1, v1) \<and> bt_closed c1"
      using Suc.prems by (simp add: bt_round_def Let_def)
    then obtain c1 v1 where r: "bt_round processor Receive (c, v) = Some (c1, v1)" and "bt_closed c1" by blast
    with Suc.IH [of c1 v1] show ?case by simp
  qed simp
  have once: "bt_rounds processor (bt_batchSize b) (b', v) = (b', snd (processor (replicate (bt_batchSize b) None) v))" for v
    using bt_fill [of b' "bt_batchSize b" processor v] b' assms(4) by simp
  show ?thesis
  proof (induction m arbitrary: w)
    case (Suc m)
    have "bt_rounds processor (Suc m * bt_batchSize b) (b', w) = bt_rounds processor (m * bt_batchSize b) (bt_rounds processor (bt_batchSize b) (b', w))"
      using add [OF b'(1), of "bt_batchSize b" "m * bt_batchSize b" w] by simp
    then show ?case using Suc.IH by (simp add: once funpow_Suc_right del: funpow.simps)
  qed simp
qed

end
