(* ===== verification/Error_Recovery.thy ===== *)
theory Error_Recovery
  imports Exchange_Sort Name_Registry "HOL-Library.Sublist"
begin

text \<open>
  Error classification and recovery (\<^verbatim>\<open>src/app/common/errors/error_recovery.go\<close>): the rule based
  classifier, the retry, circuit breaker and fallback strategies and the manager that tries the
  registered strategies by priority.

  The classifier ranges over a Go map and returns from inside the loop, so its answer depends on
  the iteration order, an argument \<open>ord\<close>. A call of \<^verbatim>\<open>Recover\<close> runs in a world \<open>'w\<close>; the clock and
  the wait \<^verbatim>\<open>select { <-ctx.Done(); <-time.After(delay) }\<close> are parameters on that world, the wait
  answering \<open>Some e\<close> when the context ended with \<^verbatim>\<open>ctx.Err() = e\<close>. The products with a \<^verbatim>\<open>float64\<close>
  are exact, which they are in the code for delays below \<open>2 ^ 49\<close> nanoseconds (six days).
\<close>

section \<open>Model\<close>

(* src: app/common/errors/error_recovery.go:11-28 ErrorType, constants *)
datatype error_type =
    ErrorTypeUnknown | ErrorTypeNetwork | ErrorTypeDatabase | ErrorTypeCache | ErrorTypeExternalAPI
  | ErrorTypeValidation | ErrorTypeAuthentication | ErrorTypeAuthorization | ErrorTypeTimeout
  | ErrorTypeRateLimit | ErrorTypeCircuitBreaker | ErrorTypeConfiguration | ErrorTypeBusiness
  | ErrorTypeSystem

(* src: app/common/errors/error_recovery.go:31-38 ErrorSeverity, constants *)
datatype error_severity = SeverityLow | SeverityMedium | SeverityHigh | SeverityCritical

subsection \<open>Classifier\<close>

(* src: app/common/errors/error_recovery.go:272-279 ErrorRule *)
record error_rule =
  Pattern :: string
  ErrorType :: error_type
  Severity :: error_severity
  rule_ShouldRetry :: bool
  ShouldLog :: bool
  ShouldAlert :: bool

(* src: app/common/errors/error_recovery.go:266-269 ErrorClassifier *)
type_synonym error_classifier = "(error_type \<times> error_rule list) list"

type_synonym verdict = "error_type \<times> error_severity \<times> bool \<times> bool \<times> bool"

text \<open>The loop of \<^verbatim>\<open>containsSubstring\<close> from index \<open>i\<close> on; \<open>s[i:i+len(substr)]\<close> is in range there.\<close>

(* src: app/common/errors/error_recovery.go:468-475 containsSubstring *)
function containsSubstring_from :: "string \<Rightarrow> string \<Rightarrow> int \<Rightarrow> bool" where
  "containsSubstring_from s substr i =
     (if i \<le> int (length s) - int (length substr)
      then (if take (length substr) (drop (nat i) s) = substr then True
            else containsSubstring_from s substr (i + 1))
      else False)"
  by pat_completeness auto
termination
  by (relation "measure (\<lambda>(s, substr, i). nat (int (length s) - int (length substr) + 1 - i))") auto

declare containsSubstring_from.simps [simp del]

(* src: app/common/errors/error_recovery.go:468-475 containsSubstring *)
definition containsSubstring :: "string \<Rightarrow> string \<Rightarrow> bool" where
  "containsSubstring s substr = containsSubstring_from s substr 0"

(* src: app/common/errors/error_recovery.go:458-465 contains *)
definition contains :: "string \<Rightarrow> string \<Rightarrow> bool" where
  "contains s substr =
     (length s \<ge> length substr \<and>
      (s = substr \<or>
       length s > length substr \<and>
       (take (length substr) s = substr \<or>
        drop (length s - length substr) s = substr \<or>
        containsSubstring s substr)))"

text \<open>\<^verbatim>\<open>ec.rules[t] = append(ec.rules[t], rule)\<close>, a missing key reading as the empty slice.\<close>

(* src: app/common/errors/error_recovery.go:427-431 ErrorClassifier.AddRule *)
definition AddRule :: "error_rule \<Rightarrow> error_classifier \<Rightarrow> error_classifier" where
  "AddRule rule ec =
     AList.update (ErrorType rule)
       ((case map_of ec (ErrorType rule) of None \<Rightarrow> [] | Some rs \<Rightarrow> rs) @ [rule]) ec"

definition mk_rule :: "string \<Rightarrow> error_type \<Rightarrow> error_severity \<Rightarrow> bool \<Rightarrow> bool \<Rightarrow> bool \<Rightarrow> error_rule" where
  "mk_rule p t s r l a =
     \<lparr> Pattern = p, ErrorType = t, Severity = s, rule_ShouldRetry = r, ShouldLog = l, ShouldAlert = a \<rparr>"

(* src: app/common/errors/error_recovery.go:294-424 ErrorClassifier.registerDefaultRules *)
definition default_rules :: "error_rule list" where
  "default_rules =
     [mk_rule ''network'' ErrorTypeNetwork SeverityMedium True True False,
      mk_rule ''database'' ErrorTypeDatabase SeverityHigh True True True,
      mk_rule ''cache'' ErrorTypeCache SeverityLow True True False,
      mk_rule ''external'' ErrorTypeExternalAPI SeverityMedium True True False,
      mk_rule ''validation'' ErrorTypeValidation SeverityLow False True False,
      mk_rule ''authentication'' ErrorTypeAuthentication SeverityHigh False True True,
      mk_rule ''authorization'' ErrorTypeAuthorization SeverityHigh False True True,
      mk_rule ''timeout'' ErrorTypeTimeout SeverityMedium True True False,
      mk_rule ''rate limit'' ErrorTypeRateLimit SeverityLow True True False,
      mk_rule ''circuit breaker'' ErrorTypeCircuitBreaker SeverityMedium True True False,
      mk_rule ''configuration'' ErrorTypeConfiguration SeverityCritical False True True,
      mk_rule ''business'' ErrorTypeBusiness SeverityMedium False True False,
      mk_rule ''system'' ErrorTypeSystem SeverityCritical False True True]"

(* src: app/common/errors/error_recovery.go:294-424 ErrorClassifier.registerDefaultRules *)
definition registerDefaultRules :: "error_classifier \<Rightarrow> error_classifier" where
  "registerDefaultRules ec = fold AddRule default_rules ec"

(* src: app/common/errors/error_recovery.go:282-291 NewErrorClassifier *)
definition NewErrorClassifier :: error_classifier where
  "NewErrorClassifier = registerDefaultRules []"

fun classify_rules :: "string \<Rightarrow> (error_type \<times> error_rule list) list \<Rightarrow> verdict" where
  "classify_rules m [] = (ErrorTypeUnknown, SeverityMedium, False, True, False)"
| "classify_rules m ((t, rs) # es) =
     (case find (\<lambda>r. contains m (Pattern r)) rs of
        Some r \<Rightarrow> (t, Severity r, rule_ShouldRetry r, ShouldLog r, ShouldAlert r)
      | None \<Rightarrow> classify_rules m es)"

(* src: app/common/errors/error_recovery.go:434-455 ErrorClassifier.ClassifyError *)
definition ec_ClassifyError ::
  "(error_type \<times> error_rule list) range_order \<Rightarrow> error_classifier \<Rightarrow> err option \<Rightarrow> verdict" where
  "ec_ClassifyError ord ec e =
     (case e of
        None \<Rightarrow> (ErrorTypeUnknown, SeverityLow, False, False, False)
      | Some errorMsg \<Rightarrow> classify_rules errorMsg (ord ec))"

(* src: app/common/errors/error_recovery.go:478-482 ClassifyError *)
definition ClassifyError :: "(error_type \<times> error_rule list) range_order \<Rightarrow> err option \<Rightarrow> error_type" where
  "ClassifyError ord e = (case ec_ClassifyError ord NewErrorClassifier e of (t, _) \<Rightarrow> t)"

(* src: app/common/errors/error_recovery.go:485-489 ShouldRetry *)
definition ShouldRetry :: "(error_type \<times> error_rule list) range_order \<Rightarrow> err option \<Rightarrow> bool" where
  "ShouldRetry ord e = (case ec_ClassifyError ord NewErrorClassifier e of (_, _, r, _) \<Rightarrow> r)"

subsection \<open>Strategies\<close>

text \<open>
  What a call of \<^verbatim>\<open>Recover\<close> does: return nil, return an error, or panic (the remainder by a zero
  jitter).
\<close>

datatype recovery = Recovered | Failed err | Panicked

(* src: app/common/errors/error_recovery.go:41-46 RecoveryStrategy *)
record 'w recovery_strategy =
  CanRecover :: "err option \<Rightarrow> bool"
  Recover :: "err option \<Rightarrow> 'w \<Rightarrow> recovery \<times> 'w"
  GetName :: string
  GetPriority :: int

text \<open>How \<^verbatim>\<open>fmt.Errorf\<close> prints the argument of \<^verbatim>\<open>%w\<close>.\<close>

definition wrapped :: "err option \<Rightarrow> string" where
  "wrapped e = (case e of None \<Rightarrow> ''%!w(<nil>)'' | Some m \<Rightarrow> m)"

(* src: app/common/errors/error_recovery.go:49-55 RetryStrategy *)
record retry_strategy =
  rs_MaxRetries :: int
  rs_BaseDelay :: duration
  rs_MaxDelay :: duration
  rs_BackoffFactor :: real
  rs_Jitter :: bool

(* src: app/common/errors/error_recovery.go:58-66 NewRetryStrategy *)
definition NewRetryStrategy :: "int \<Rightarrow> duration \<Rightarrow> retry_strategy" where
  "NewRetryStrategy maxRetries baseDelay =
     \<lparr> rs_MaxRetries = maxRetries, rs_BaseDelay = baseDelay, rs_MaxDelay = wrap64 (baseDelay * 10),
       rs_BackoffFactor = 2, rs_Jitter = True \<rparr>"

(* src: app/common/errors/error_recovery.go:69-80 RetryStrategy.CanRecover *)
definition rs_CanRecover :: "(error_type \<times> error_rule list) range_order \<Rightarrow> err option \<Rightarrow> bool" where
  "rs_CanRecover ord e =
     (case ClassifyError ord e of
        ErrorTypeNetwork \<Rightarrow> True | ErrorTypeTimeout \<Rightarrow> True | ErrorTypeRateLimit \<Rightarrow> True
      | ErrorTypeCircuitBreaker \<Rightarrow> True | ErrorTypeDatabase \<Rightarrow> True | ErrorTypeCache \<Rightarrow> True
      | ErrorTypeExternalAPI \<Rightarrow> True | _ \<Rightarrow> False)"

fun backoff_loop :: "retry_strategy \<Rightarrow> nat \<Rightarrow> duration \<Rightarrow> duration" where
  "backoff_loop rs 0 delay = delay"
| "backoff_loop rs (Suc n) delay =
     (let delay' = go_trunc (real_of_int delay * rs_BackoffFactor rs)
      in backoff_loop rs n (if delay' > rs_MaxDelay rs then rs_MaxDelay rs else delay'))"

text \<open>\<open>None\<close> is the run-time panic of \<^verbatim>\<open>time.Now().UnixNano() % int64(jitter)\<close> for a zero jitter.\<close>

(* src: app/common/errors/error_recovery.go:115-131 RetryStrategy.calculateDelay *)
definition rs_calculateDelay :: "retry_strategy \<Rightarrow> int \<Rightarrow> int \<Rightarrow> duration option" where
  "rs_calculateDelay rs attempt unixNano =
     (let delay = backoff_loop rs (nat attempt) (rs_BaseDelay rs)
      in if rs_Jitter rs
         then (let jitter = go_trunc (real_of_int delay * (1 / 10))
               in if jitter = 0 then None else Some (delay + go_mod unixNano jitter))
         else Some delay)"

text \<open>
  The body of the loop returns after its first wait, so the loop runs at most once. \<open>clock\<close> is
  \<^verbatim>\<open>time.Now().UnixNano()\<close>.
\<close>

(* src: app/common/errors/error_recovery.go:83-102 RetryStrategy.Recover *)
definition rs_Recover ::
  "('w \<Rightarrow> int) \<Rightarrow> (duration \<Rightarrow> 'w \<Rightarrow> err option \<times> 'w) \<Rightarrow> retry_strategy
   \<Rightarrow> err option \<Rightarrow> 'w \<Rightarrow> recovery \<times> 'w" where
  "rs_Recover clock wait rs e w =
     (if 0 < rs_MaxRetries rs
      then (case rs_calculateDelay rs 0 (clock w) of
              None \<Rightarrow> (Panicked, w)
            | Some delay \<Rightarrow>
                (case wait delay w of
                   (Some ctx_err, w') \<Rightarrow> (Failed ctx_err, w')
                 | (None, w') \<Rightarrow> (Recovered, w')))
      else (Failed (''retry failed after '' @ itoa (rs_MaxRetries rs) @ '' attempts: '' @ wrapped e), w))"

(* src: app/common/errors/error_recovery.go:105-112 RetryStrategy.GetName GetPriority (sub) *)
definition retry_as_strategy ::
  "(error_type \<times> error_rule list) range_order \<Rightarrow> ('w \<Rightarrow> int) \<Rightarrow> (duration \<Rightarrow> 'w \<Rightarrow> err option \<times> 'w)
   \<Rightarrow> retry_strategy \<Rightarrow> 'w recovery_strategy" where
  "retry_as_strategy ord clock wait rs =
     \<lparr> CanRecover = rs_CanRecover ord, Recover = rs_Recover clock wait rs,
       GetName = ''retry'', GetPriority = 1 \<rparr>"

(* src: app/common/errors/error_recovery.go:146-155 CircuitBreakerStrategy.CanRecover *)
definition cbs_CanRecover :: "(error_type \<times> error_rule list) range_order \<Rightarrow> err option \<Rightarrow> bool" where
  "cbs_CanRecover ord e =
     (case ClassifyError ord e of
        ErrorTypeExternalAPI \<Rightarrow> True | ErrorTypeNetwork \<Rightarrow> True | ErrorTypeTimeout \<Rightarrow> True
      | _ \<Rightarrow> False)"

text \<open>The strategy never looks at the breaker it was built with.\<close>

(* src: app/common/errors/error_recovery.go:134-172 CircuitBreakerStrategy, all methods *)
definition NewCircuitBreakerStrategy ::
  "(error_type \<times> error_rule list) range_order \<Rightarrow> 'w recovery_strategy" where
  "NewCircuitBreakerStrategy ord =
     \<lparr> CanRecover = cbs_CanRecover ord, Recover = (\<lambda>e w. (Recovered, w)),
       GetName = ''circuit_breaker'', GetPriority = 2 \<rparr>"

(* src: app/common/errors/error_recovery.go:193-199 FallbackStrategy.Recover *)
definition fs_Recover ::
  "('w \<Rightarrow> err option \<times> 'w) option \<Rightarrow> err option \<Rightarrow> 'w \<Rightarrow> recovery \<times> 'w" where
  "fs_Recover fallbackFunc e w =
     (case fallbackFunc of
        None \<Rightarrow> (Recovered, w)
      | Some f \<Rightarrow> (case f w of (None, w') \<Rightarrow> (Recovered, w') | (Some e', w') \<Rightarrow> (Failed e', w')))"

(* src: app/common/errors/error_recovery.go:175-209 FallbackStrategy, all methods *)
definition NewFallbackStrategy :: "('w \<Rightarrow> err option \<times> 'w) option \<Rightarrow> 'w recovery_strategy" where
  "NewFallbackStrategy fallbackFunc =
     \<lparr> CanRecover = (\<lambda>e. True), Recover = fs_Recover fallbackFunc,
       GetName = ''fallback'', GetPriority = 3 \<rparr>"

(* src: app/common/errors/error_recovery.go:492-503 GetRecoveryStrategy *)
definition GetRecoveryStrategy ::
  "(error_type \<times> error_rule list) range_order \<Rightarrow> ('w \<Rightarrow> int) \<Rightarrow> (duration \<Rightarrow> 'w \<Rightarrow> err option \<times> 'w)
   \<Rightarrow> err option \<Rightarrow> 'w recovery_strategy" where
  "GetRecoveryStrategy ord clock wait e =
     (case ClassifyError ord e of
        ErrorTypeNetwork \<Rightarrow> retry_as_strategy ord clock wait (NewRetryStrategy 3 second)
      | ErrorTypeTimeout \<Rightarrow> retry_as_strategy ord clock wait (NewRetryStrategy 3 second)
      | ErrorTypeRateLimit \<Rightarrow> retry_as_strategy ord clock wait (NewRetryStrategy 3 second)
      | ErrorTypeExternalAPI \<Rightarrow> NewCircuitBreakerStrategy ord
      | _ \<Rightarrow> NewFallbackStrategy None)"

subsection \<open>Manager\<close>

(* src: app/common/errors/error_recovery.go:212-216 ErrorRecovery *)
type_synonym 'w error_recovery = "(string \<times> 'w recovery_strategy) list"

(* src: app/common/errors/error_recovery.go:219-224 NewErrorRecovery *)
definition NewErrorRecovery :: "'w error_recovery" where
  "NewErrorRecovery = []"

(* src: app/common/errors/error_recovery.go:227-231 ErrorRecovery.RegisterStrategy *)
definition er_RegisterStrategy :: "'w recovery_strategy \<Rightarrow> 'w error_recovery \<Rightarrow> 'w error_recovery" where
  "er_RegisterStrategy strategy er = AList.update (GetName strategy) strategy er"

definition all_failed :: "err option \<Rightarrow> err" where
  "all_failed e = ''all recovery strategies failed: '' @ wrapped e"

fun try_strategies ::
  "err option \<Rightarrow> 'w recovery_strategy list \<Rightarrow> 'w \<Rightarrow> recovery \<times> 'w" where
  "try_strategies e [] w = (Failed (all_failed e), w)"
| "try_strategies e (s # ss) w =
     (if CanRecover s e
      then (case Recover s e w of
              (Recovered, w') \<Rightarrow> (Recovered, w')
            | (Failed e', w') \<Rightarrow> try_strategies e ss w'
            | (Panicked, w') \<Rightarrow> (Panicked, w'))
      else try_strategies e ss w)"

(* src: app/common/errors/error_recovery.go:234-263 ErrorRecovery.Recover *)
definition er_Recover ::
  "(string \<times> 'w recovery_strategy) range_order \<Rightarrow> 'w error_recovery \<Rightarrow> err option \<Rightarrow> 'w
   \<Rightarrow> recovery \<times> 'w" where
  "er_Recover ord er e w = try_strategies e (exchange_sort GetPriority (map snd (ord er))) w"

section \<open>Properties\<close>

lemma containsSubstring_from_iff:
  "0 \<le> i \<Longrightarrow> containsSubstring_from s p i \<longleftrightarrow>
     (\<exists>j \<ge> nat i. j + length p \<le> length s \<and> take (length p) (drop j s) = p)"
proof (induction s p i rule: containsSubstring_from.induct)
  case (1 s p i)
  show ?case
  proof (cases "i \<le> int (length s) - int (length p)")
    case out: False
    then have "\<not> containsSubstring_from s p i" by (subst containsSubstring_from.simps) simp
    with out 1(2) show ?thesis by auto
  next
    case inside: True
    show ?thesis
    proof (cases "take (length p) (drop (nat i) s) = p")
      case True
      then have "containsSubstring_from s p i" by (subst containsSubstring_from.simps) (simp add: inside)
      with True inside 1(2) show ?thesis by (intro iffI exI [of _ "nat i"]) auto
    next
      case no: False
      have "containsSubstring_from s p i = containsSubstring_from s p (i + 1)"
        by (subst containsSubstring_from.simps) (simp add: inside no)
      moreover have "j \<ge> nat i \<and> take (length p) (drop j s) = p
                     \<longleftrightarrow> j \<ge> nat (i + 1) \<and> take (length p) (drop j s) = p" for j
        using no 1(2) by (cases "j = nat i") auto
      ultimately show ?thesis using 1(1) [OF inside no] 1(2) by (simp) (meson)
    qed
  qed
qed

lemma containsSubstring_iff: "containsSubstring s p \<longleftrightarrow> sublist p s"
proof
  assume "containsSubstring s p"
  then obtain j where j: "take (length p) (drop j s) = p"
    by (auto simp: containsSubstring_def containsSubstring_from_iff)
  have "s = take j s @ p @ drop (length p) (drop j s)"
    by (metis append_take_drop_id j)
  then show "sublist p s" unfolding sublist_def by blast
next
  assume "sublist p s"
  then obtain a b where "s = a @ p @ b" unfolding sublist_def by blast
  then show "containsSubstring s p"
    by (auto simp: containsSubstring_def containsSubstring_from_iff intro!: exI [of _ "length a"])
qed

text \<open>The four cases of \<^verbatim>\<open>contains\<close> together are the substring test, with the case of letters kept.\<close>

lemma contains_iff: "contains s p \<longleftrightarrow> sublist p s"
proof
  assume "contains s p"
  then consider "s = p" | "take (length p) s = p" | "drop (length s - length p) s = p"
    | "containsSubstring s p"
    unfolding contains_def by blast
  then show "sublist p s"
    by cases (metis sublist_order.order_refl sublist_take sublist_drop containsSubstring_iff)+
next
  assume s: "sublist p s"
  then have "length p \<le> length s" by (rule sublist_length_le)
  moreover have "s = p" if "length p = length s"
    using s that by (auto simp: sublist_def)
  ultimately show "contains s p"
    using s containsSubstring_iff [of s p] unfolding contains_def by linarith
qed

subsection \<open>Classification\<close>

definition rule_verdict :: "error_rule \<Rightarrow> verdict" where
  "rule_verdict r = (ErrorType r, Severity r, rule_ShouldRetry r, ShouldLog r, ShouldAlert r)"

definition matching :: "string \<Rightarrow> error_rule set" where
  "matching m = {r. r \<in> set default_rules \<and> sublist (Pattern r) m}"

lemma default_classifier: "NewErrorClassifier = map (\<lambda>r. (ErrorType r, [r])) default_rules"
  by (simp add: NewErrorClassifier_def registerDefaultRules_def default_rules_def AddRule_def mk_rule_def)

lemma classify_singletons:
  "classify_rules m (map (\<lambda>r. (ErrorType r, [r])) rs) =
     (case find (\<lambda>r. contains m (Pattern r)) rs of
        None \<Rightarrow> (ErrorTypeUnknown, SeverityMedium, False, True, False)
      | Some r \<Rightarrow> rule_verdict r)"
  by (induction rs) (auto simp: rule_verdict_def)

lemma ordered_classifier:
  assumes "is_range_order ord"
  obtains rs where "ord NewErrorClassifier = map (\<lambda>r. (ErrorType r, [r])) rs" and "set rs = set default_rules"
proof
  let ?f = "\<lambda>r. (ErrorType r, [r])"
  let ?rs = "map (\<lambda>z. hd (snd z)) (ord NewErrorClassifier)"
  have es: "set (ord NewErrorClassifier) = ?f ` set default_rules"
    by (simp add: range_order_set [OF assms] default_classifier)
  have "map ?f ?rs = map (\<lambda>z. z) (ord NewErrorClassifier)"
    unfolding map_map using es by (intro map_cong) auto
  then show "ord NewErrorClassifier = map ?f ?rs" by simp
  show "set ?rs = set default_rules" by (simp add: es image_image)
qed

definition front_order :: "'a \<Rightarrow> 'a range_order" where
  "front_order x xs = (if x \<in> set xs then x # remove1 x xs else xs)"

lemma front_order: "is_range_order (front_order x)"
  by (simp add: is_range_order_def front_order_def)

lemma front_rule_wins:
  assumes "r \<in> matching m"
  shows "ec_ClassifyError (front_order (ErrorType r, [r])) NewErrorClassifier (Some m) = rule_verdict r"
proof -
  have r: "r \<in> set default_rules" and c: "contains m (Pattern r)"
    using assms by (simp_all add: matching_def contains_iff)
  from r have "(ErrorType r, [r]) \<in> set NewErrorClassifier"
    by (simp add: default_classifier)
  then have "front_order (ErrorType r, [r]) NewErrorClassifier =
      (ErrorType r, [r]) # remove1 (ErrorType r, [r]) NewErrorClassifier"
    by (simp only: front_order_def if_True)
  with c show ?thesis by (simp add: ec_ClassifyError_def rule_verdict_def)
qed

text \<open>
  The default classifier, over all iteration orders of its rule map, answers exactly the
  verdicts of the default rules whose pattern occurs in the message, and the unknown verdict
  (medium severity, logged, neither retried nor alerted) when none occurs. A message that mentions
  two patterns therefore has no fixed classification.
\<close>
theorem classify_error_spec:
  "{ec_ClassifyError ord NewErrorClassifier (Some m) | ord. is_range_order ord} =
     (if matching m = {} then {(ErrorTypeUnknown, SeverityMedium, False, True, False)}
      else rule_verdict ` matching m)"
    (is "?A = ?B")
proof (intro equalityI subsetI)
  fix v assume "v \<in> ?A"
  then obtain ord where ord: "is_range_order ord"
    and v: "v = ec_ClassifyError ord NewErrorClassifier (Some m)" by blast
  obtain rs where rs: "ord NewErrorClassifier = map (\<lambda>r. (ErrorType r, [r])) rs" "set rs = set default_rules"
    using ordered_classifier [OF ord] by blast
  show "v \<in> ?B"
  proof (cases "find (\<lambda>r. contains m (Pattern r)) rs")
    case None
    then have "matching m = {}"
      using rs(2) by (auto simp: find_None_iff matching_def contains_iff)
    with None show ?thesis by (simp add: v ec_ClassifyError_def rs(1) classify_singletons)
  next
    case (Some r)
    then have "r \<in> matching m"
      using rs(2) by (auto simp: matching_def contains_iff dest!: find_SomeD)
    with Some show ?thesis by (auto simp: v ec_ClassifyError_def rs(1) classify_singletons)
  qed
next
  fix v assume v: "v \<in> ?B"
  show "v \<in> ?A"
  proof (cases "matching m = {}")
    case True
    then have "find (\<lambda>r. contains m (Pattern r)) default_rules = None"
      by (auto simp: find_None_iff matching_def contains_iff)
    with v True have "v = ec_ClassifyError (\<lambda>xs. xs) NewErrorClassifier (Some m)"
      by (simp add: ec_ClassifyError_def default_classifier classify_singletons)
    with range_order_id show ?thesis by blast
  next
    case False
    with v obtain r where r: "r \<in> matching m" "v = rule_verdict r" by auto
    have "v = ec_ClassifyError (front_order (ErrorType r, [r])) NewErrorClassifier (Some m)"
      using r by (simp add: front_rule_wins)
    with front_order [of "(ErrorType r, [r])"] show ?thesis unfolding mem_Collect_eq by (intro exI conjI)
  qed
qed

subsection \<open>Strategies\<close>

lemma first_delay:
  assumes "10 \<le> base" and "0 \<le> unixNano"
  shows "\<exists>d. rs_calculateDelay (NewRetryStrategy n base) 0 unixNano = Some d
             \<and> base \<le> d \<and> d < base + base div 10"
proof -
  have j: "0 < base div 10" using assms(1) by (simp add: pos_imp_zdiv_pos_iff)
  have "rs_calculateDelay (NewRetryStrategy n base) 0 unixNano = Some (base + unixNano mod (base div 10))"
    using assms j by (simp add: rs_calculateDelay_def NewRetryStrategy_def go_trunc_tenth go_mod_nonneg Let_def)
  with j show ?thesis by simp
qed

lemma retry_recover_cases:
  assumes "0 \<le> clock w"
  shows "0 < n \<Longrightarrow> 10 \<le> base \<Longrightarrow>
           \<exists>d. base \<le> d \<and> d < base + base div 10
               \<and> rs_Recover clock wait (NewRetryStrategy n base) e w =
                   (case wait d w of (None, w') \<Rightarrow> (Recovered, w') | (Some c, w') \<Rightarrow> (Failed c, w'))"
    and "0 < n \<Longrightarrow> 0 \<le> base \<Longrightarrow> base < 10 \<Longrightarrow>
           rs_Recover clock wait (NewRetryStrategy n base) e w = (Panicked, w)"
    and "n \<le> 0 \<Longrightarrow>
           rs_Recover clock wait (NewRetryStrategy n base) e w =
             (Failed (''retry failed after '' @ itoa n @ '' attempts: '' @ wrapped e), w)"
proof -
  have [simp]: "rs_MaxRetries (NewRetryStrategy n base) = n" by (simp add: NewRetryStrategy_def)
  show "\<exists>d. base \<le> d \<and> d < base + base div 10
               \<and> rs_Recover clock wait (NewRetryStrategy n base) e w =
                   (case wait d w of (None, w') \<Rightarrow> (Recovered, w') | (Some c, w') \<Rightarrow> (Failed c, w'))"
    if "0 < n" "10 \<le> base"
  proof -
    obtain d where d: "rs_calculateDelay (NewRetryStrategy n base) 0 (clock w) = Some d"
      "base \<le> d" "d < base + base div 10"
      using first_delay [OF \<open>10 \<le> base\<close> assms, of n] by blast
    with \<open>0 < n\<close> have "rs_Recover clock wait (NewRetryStrategy n base) e w =
        (case wait d w of (None, w') \<Rightarrow> (Recovered, w') | (Some c, w') \<Rightarrow> (Failed c, w'))"
      by (simp add: rs_Recover_def split: prod.split option.split)
    with d show ?thesis by blast
  qed
  show "rs_Recover clock wait (NewRetryStrategy n base) e w = (Panicked, w)"
    if "0 < n" "0 \<le> base" "base < 10"
  proof -
    have "base div 10 = 0" using that by simp
    with that show ?thesis
      by (simp add: rs_Recover_def rs_calculateDelay_def NewRetryStrategy_def go_trunc_tenth)
  qed
  show "rs_Recover clock wait (NewRetryStrategy n base) e w =
             (Failed (''retry failed after '' @ itoa n @ '' attempts: '' @ wrapped e), w)"
    if "n \<le> 0"
    using that by (simp add: rs_Recover_def)
qed

text \<open>
  Recovery by the retry strategy with a positive number of retries waits exactly once, for
  the base delay plus less than a tenth of it, and then reports success without looking at the
  error (nothing is retried); when the context ends during the wait it returns the context's error.
  Without retries it fails at once. With a base delay below ten nanoseconds the jitter is zero and the strategy
  panics.
\<close>
theorem retry_recover_single_wait:
  assumes "0 \<le> clock w"
  shows "(0 < n \<and> 10 \<le> base \<longrightarrow>
           (\<exists>d. base \<le> d \<and> d < base + base div 10
               \<and> rs_Recover clock wait (NewRetryStrategy n base) e w =
                   (case wait d w of (None, w') \<Rightarrow> (Recovered, w') | (Some c, w') \<Rightarrow> (Failed c, w'))))
       \<and> (0 < n \<and> 0 \<le> base \<and> base < 10 \<longrightarrow>
           rs_Recover clock wait (NewRetryStrategy n base) e w = (Panicked, w))
       \<and> (n \<le> 0 \<longrightarrow>
           rs_Recover clock wait (NewRetryStrategy n base) e w =
             (Failed (''retry failed after '' @ itoa n @ '' attempts: '' @ wrapped e), w))"
  by (intro conjI impI; (elim conjE)?; rule retry_recover_cases [of clock w, OF assms]; assumption)

theorem retry_recover_single_wait_witness:
  "(\<exists>d. second \<le> d \<and> d < second + second div 10
        \<and> rs_Recover (\<lambda>w. 5) (\<lambda>d w. (None, w @ [d])) (NewRetryStrategy 3 second) None [] = (Recovered, [d]))
   \<and> rs_Recover (\<lambda>w. 5) (\<lambda>d w. (None, w @ [d])) (NewRetryStrategy 3 9) None [] = (Panicked, [])
   \<and> rs_Recover (\<lambda>w. 5) (\<lambda>d w. (None, w @ [d])) (NewRetryStrategy 0 second) (Some ''x'') [] =
       (Failed (''retry failed after '' @ itoa 0 @ '' attempts: x''), [])"
  using retry_recover_single_wait [of "\<lambda>w. 5" "[]" 3 second "\<lambda>d w. (None, w @ [d])" None]
    retry_recover_single_wait [of "\<lambda>w. 5" "[]" 3 9 "\<lambda>d w. (None, w @ [d])" None]
    retry_recover_single_wait [of "\<lambda>w. 5" "[]" 0 second "\<lambda>d w. (None, w @ [d])" "Some ''x''"]
  by (simp add: second_def wrapped_def)

subsection \<open>Manager\<close>

lemma distinct_registered: "distinct (map fst er) \<Longrightarrow> distinct (map fst (er_RegisterStrategy s er))"
  by (simp add: er_RegisterStrategy_def distinct_update)

lemma try_strategies_skip:
  "\<forall>s \<in> set ss. \<not> CanRecover s e \<Longrightarrow> try_strategies e (ss @ ts) w = try_strategies e ts w"
  by (induction ss) auto

lemma try_strategies_fail:
  assumes "\<And>s v. s \<in> set ss \<Longrightarrow> CanRecover s e \<Longrightarrow> \<exists>e' v'. Recover s e v = (Failed e', v')"
  shows "\<exists>w'. try_strategies e ss w = (Failed (all_failed e), w')"
  using assms
proof (induction ss arbitrary: w)
  case (Cons s ss)
  have IH: "\<exists>w'. try_strategies e ss v = (Failed (all_failed e), w')" for v
    using Cons.IH Cons.prems by simp
  show ?case
  proof (cases "CanRecover s e")
    case True
    with Cons.prems [of s w] obtain e' v' where "Recover s e w = (Failed e', v')" by auto
    with True IH [of v'] show ?thesis by simp
  next
    case False
    then have "try_strategies e (s # ss) w = try_strategies e ss w" by simp
    then show ?thesis using IH [of w] by (simp only:)
  qed
qed simp

lemma fallback_recovers:
  "NewFallbackStrategy None \<in> set ss \<Longrightarrow> fst (try_strategies e ss w) \<noteq> Failed m"
proof (induction ss arbitrary: w)
  case (Cons s ss)
  show ?case
  proof (cases "s = NewFallbackStrategy None")
    case True
    then show ?thesis by (simp add: NewFallbackStrategy_def fs_Recover_def)
  next
    case False
    with Cons show ?thesis by (auto split: prod.split recovery.split)
  qed
qed simp

lemma sorted_split_min:
  assumes "sorted (map f xs)" and "x \<in> set xs" and "\<And>y. y \<in> set xs \<Longrightarrow> P y \<Longrightarrow> y \<noteq> x \<Longrightarrow> f x < (f y :: int)"
  obtains ys zs where "xs = ys @ x # zs" and "\<forall>y \<in> set ys. \<not> P y"
proof -
  obtain ys zs where s: "xs = ys @ x # zs" "x \<notin> set ys"
    using assms(2) by (meson split_list_first)
  have "\<not> P y" if "y \<in> set ys" for y
  proof -
    have "f y \<le> f x" using that assms(1) unfolding s(1) by (auto simp: sorted_append)
    moreover have "y \<in> set xs" and "y \<noteq> x" using that s by auto
    ultimately show ?thesis using assms(3) [of y] by (meson leD)
  qed
  with s show ?thesis using that by blast
qed

lemma recover_cases:
  assumes "is_range_order ord"
  shows "s \<in> snd ` set er \<Longrightarrow> CanRecover s e \<Longrightarrow>
         (\<And>t. t \<in> snd ` set er \<Longrightarrow> CanRecover t e \<Longrightarrow> t \<noteq> s \<Longrightarrow> GetPriority s < GetPriority t) \<Longrightarrow>
         Recover s e w = (Recovered, w') \<Longrightarrow> er_Recover ord er e w = (Recovered, w')"
    and "(\<And>t v. t \<in> snd ` set er \<Longrightarrow> CanRecover t e \<Longrightarrow> \<exists>e' v'. Recover t e v = (Failed e', v')) \<Longrightarrow>
         \<exists>w'. er_Recover ord er e w = (Failed (all_failed e), w')"
    and "(n, NewFallbackStrategy None) \<in> set er \<Longrightarrow> fst (er_Recover ord er e w) \<noteq> Failed m"
proof -
  let ?ss = "exchange_sort GetPriority (map snd (ord er))"
  have set: "set ?ss = snd ` set er" by (simp add: range_order_set [OF assms])
  have sorted: "sorted (map GetPriority ?ss)" by (rule sorted_exchange_sort)
  show "er_Recover ord er e w = (Recovered, w')"
    if s: "s \<in> snd ` set er" "CanRecover s e" "Recover s e w = (Recovered, w')"
      and min: "\<And>t. t \<in> snd ` set er \<Longrightarrow> CanRecover t e \<Longrightarrow> t \<noteq> s \<Longrightarrow> GetPriority s < GetPriority t"
  proof -
    have "s \<in> set ?ss" using s(1) by (simp only: set)
    moreover have "\<And>t. t \<in> set ?ss \<Longrightarrow> CanRecover t e \<Longrightarrow> t \<noteq> s \<Longrightarrow> GetPriority s < GetPriority t"
      using min by (simp only: set)
    ultimately obtain ys zs where "?ss = ys @ s # zs" "\<forall>y \<in> set ys. \<not> CanRecover y e"
      by (rule sorted_split_min [OF sorted, where P = "\<lambda>t. CanRecover t e"])
    with s show ?thesis by (simp add: er_Recover_def try_strategies_skip)
  qed
  show "\<exists>w'. er_Recover ord er e w = (Failed (all_failed e), w')"
    if "\<And>t v. t \<in> snd ` set er \<Longrightarrow> CanRecover t e \<Longrightarrow> \<exists>e' v'. Recover t e v = (Failed e', v')"
    unfolding er_Recover_def using that set by (intro try_strategies_fail) auto
  show "fst (er_Recover ord er e w) \<noteq> Failed m" if "(n, NewFallbackStrategy None) \<in> set er"
  proof -
    have "NewFallbackStrategy None \<in> set ?ss" using that set by force
    then show ?thesis unfolding er_Recover_def by (rule fallback_recovers)
  qed
qed

text \<open>
  The manager tries strategies by priority, whatever order the map of strategies is ranged
  in: the applicable strategy with the strictly smallest priority runs first, in the world the
  caller passed, and its success ends the recovery with no other strategy run. When every
  applicable strategy fails (in particular when none is registered or none applies), the result
  is an error that wraps the original one. With a registered fallback whose function is nil
  recovery never fails.
\<close>
theorem recover_by_priority:
  assumes "is_range_order ord"
  shows "(\<forall>s w'. s \<in> snd ` set er \<and> CanRecover s e
           \<and> (\<forall>t \<in> snd ` set er. CanRecover t e \<longrightarrow> t \<noteq> s \<longrightarrow> GetPriority s < GetPriority t)
           \<and> Recover s e w = (Recovered, w') \<longrightarrow> er_Recover ord er e w = (Recovered, w'))
       \<and> ((\<forall>t \<in> snd ` set er. \<forall>v. CanRecover t e \<longrightarrow> (\<exists>e' v'. Recover t e v = (Failed e', v')))
           \<longrightarrow> (\<exists>w'. er_Recover ord er e w = (Failed (all_failed e), w')))
       \<and> (NewFallbackStrategy None \<in> snd ` set er \<longrightarrow> (\<forall>m. fst (er_Recover ord er e w) \<noteq> Failed m))"
proof (intro conjI allI impI)
  fix s w'
  assume "s \<in> snd ` set er \<and> CanRecover s e
           \<and> (\<forall>t \<in> snd ` set er. CanRecover t e \<longrightarrow> t \<noteq> s \<longrightarrow> GetPriority s < GetPriority t)
           \<and> Recover s e w = (Recovered, w')"
  then show "er_Recover ord er e w = (Recovered, w')"
    by (intro recover_cases(1) [OF assms, of s]) auto
next
  assume "\<forall>t \<in> snd ` set er. \<forall>v. CanRecover t e \<longrightarrow> (\<exists>e' v'. Recover t e v = (Failed e', v'))"
  then show "\<exists>w'. er_Recover ord er e w = (Failed (all_failed e), w')"
    by (intro recover_cases(2) [OF assms]) blast
next
  fix m
  assume "NewFallbackStrategy None \<in> snd ` set er"
  then show "fst (er_Recover ord er e w) \<noteq> Failed m"
    using recover_cases(3) [OF assms] by fastforce
qed

lemma network_error_type: "ClassifyError (\<lambda>xs. xs) (Some ''network down'') = ErrorTypeNetwork"
  by code_simp

definition demo_manager :: "duration list error_recovery" where
  "demo_manager = fold er_RegisterStrategy
     [NewFallbackStrategy None,
      retry_as_strategy (\<lambda>xs. xs) (\<lambda>w. 0) (\<lambda>d w. (None, w @ [d])) (NewRetryStrategy 3 second),
      NewCircuitBreakerStrategy (\<lambda>xs. xs)] NewErrorRecovery"

lemma demo_manager_entries:
  "demo_manager =
     [(''fallback'', NewFallbackStrategy None),
      (''retry'', retry_as_strategy (\<lambda>xs. xs) (\<lambda>w. 0) (\<lambda>d w. (None, w @ [d])) (NewRetryStrategy 3 second)),
      (''circuit_breaker'', NewCircuitBreakerStrategy (\<lambda>xs. xs))]"
  by (simp add: demo_manager_def er_RegisterStrategy_def NewErrorRecovery_def NewFallbackStrategy_def
      retry_as_strategy_def NewCircuitBreakerStrategy_def)

theorem recover_by_priority_witness:
  "er_Recover rev demo_manager (Some ''network down'') [] = (Recovered, [second])
   \<and> fst (er_Recover rev demo_manager (Some ''other'') []) \<noteq> Failed ''m''
   \<and> (\<exists>w'. er_Recover rev (er_RegisterStrategy (NewFallbackStrategy (Some (\<lambda>w. (Some ''no'', w)))) NewErrorRecovery)
              (Some ''x'') () = (Failed (all_failed (Some ''x'')), w'))"
proof (intro conjI)
  let ?retry = "retry_as_strategy (\<lambda>xs. xs) (\<lambda>w. 0) (\<lambda>d w. (None, w @ [d])) (NewRetryStrategy 3 second)"
  have can: "CanRecover ?retry (Some ''network down'')"
    by (simp add: retry_as_strategy_def rs_CanRecover_def network_error_type)
  have run: "Recover ?retry (Some ''network down'') [] = (Recovered, [second])"
    by (simp add: retry_as_strategy_def rs_Recover_def rs_calculateDelay_def NewRetryStrategy_def
        second_def go_trunc_def go_mod_def)
  have prio: "GetPriority ?retry < GetPriority t" if "t \<in> snd ` set demo_manager" "t \<noteq> ?retry" for t
    using that unfolding demo_manager_entries
    by (auto simp: NewFallbackStrategy_def NewCircuitBreakerStrategy_def retry_as_strategy_def)
  have retry_in: "?retry \<in> snd ` set demo_manager" by (simp add: demo_manager_entries)
  show "er_Recover rev demo_manager (Some ''network down'') [] = (Recovered, [second])"
    using recover_by_priority [OF range_order_rev, of demo_manager "Some ''network down''" "[]",
        THEN conjunct1, rule_format, of ?retry "[second]"] retry_in can prio run
    by blast
  show "fst (er_Recover rev demo_manager (Some ''other'') []) \<noteq> Failed ''m''"
    using recover_by_priority [OF range_order_rev, of demo_manager "Some ''other''" "[]"]
    by (simp add: demo_manager_entries)
  show "\<exists>w'. er_Recover rev (er_RegisterStrategy (NewFallbackStrategy (Some (\<lambda>w. (Some ''no'', w)))) NewErrorRecovery)
              (Some ''x'') () = (Failed (all_failed (Some ''x'')), w')"
    using recover_by_priority [OF range_order_rev,
        of "er_RegisterStrategy (NewFallbackStrategy (Some (\<lambda>w. (Some ''no'', w)))) NewErrorRecovery" "Some ''x''" "()"]
    by (simp add: er_RegisterStrategy_def NewErrorRecovery_def NewFallbackStrategy_def fs_Recover_def)
qed

end
