(* ===== verification/Retry_Policy.thy ===== *)
theory Retry_Policy
  imports Error_Recovery
begin

text \<open>
  Retry policies (\<^verbatim>\<open>src/app/common/errors/retry_policy.go\<close>): back-off strategies, the retry loop and
  the executor that keeps policies under a name.

  The operation, the context and the random source act on a world \<open>'w\<close>. The code compares errors
  with \<^verbatim>\<open>==\<close>, which is identity of the error values, so an error carries an identity besides its
  message. \<^verbatim>\<open>rand.Int63n(n)\<close> panics for \<open>n \<le> 0\<close> and otherwise answers any number below \<open>n\<close>: the
  remainder of an arbitrary draw. Products of a \<^verbatim>\<open>float64\<close> are exact; the conversion of a
  float outside the range of \<^verbatim>\<open>int64\<close> is implementation dependent in Go and is a parameter \<open>ovf\<close>.
\<close>

section \<open>Model\<close>

text \<open>
  \<open>GoError\<close> is an error made elsewhere, the other two are made by \<^verbatim>\<open>fmt.Errorf\<close> in this file.
\<close>

datatype goerr = GoError nat string | RetryFailed int "goerr option" | PolicyNotFound string

fun Error :: "goerr \<Rightarrow> string" where
  "Error (GoError i m) = m"
| "Error (RetryFailed n le) =
     ''retry failed after '' @ itoa n @ '' attempts: ''
       @ (case le of None \<Rightarrow> ''%!w(<nil>)'' | Some e \<Rightarrow> Error e)"
| "Error (PolicyNotFound n) = ''retry policy not found: '' @ n"

text \<open>How a call ends: it returns an error or nil, or it panics.\<close>

datatype outcome = Ret "goerr option" | Panic

text \<open>
  A context, seen by this code: \<open>ctx_done\<close> is the non-blocking look at \<^verbatim>\<open>Done()\<close>, \<open>ctx_wait d\<close> the
  select between \<^verbatim>\<open>Done()\<close> and \<^verbatim>\<open>time.After(d)\<close>; both answer \<^verbatim>\<open>ctx.Err()\<close> when the context ended.
\<close>

record 'w go_context =
  ctx_done :: "'w \<Rightarrow> goerr option"
  ctx_wait :: "duration \<Rightarrow> 'w \<Rightarrow> goerr option \<times> 'w"

text \<open>The random source and the iteration order of the classifier's map, which vary per call.\<close>

record 'w retry_env =
  env_rand :: "'w \<Rightarrow> int \<times> 'w"
  env_order :: "'w \<Rightarrow> (error_type \<times> error_rule list) range_order"

text \<open>An implementation of \<^verbatim>\<open>BackoffStrategy\<close> is its \<^verbatim>\<open>CalculateDelay\<close>; \<open>None\<close> is a panic.\<close>

(* src: app/common/errors/retry_policy.go:13-15 BackoffStrategy *)
type_synonym backoff_strategy = "int \<Rightarrow> duration \<Rightarrow> duration option"

(* src: app/common/errors/retry_policy.go:18-26 RetryPolicy *)
record 'w retry_policy =
  MaxRetries :: int
  BaseDelay :: duration
  MaxDelay :: duration
  BackoffStrategy :: backoff_strategy
  RetryableErrors :: "goerr list"
  Jitter :: bool
  Context :: "'w go_context"

subsection \<open>Back-off strategies\<close>

definition float_to_int64 :: "(real \<Rightarrow> int) \<Rightarrow> real \<Rightarrow> int" where
  "float_to_int64 ovf x =
     (let t = go_trunc x in if - (2 ^ 63) \<le> t \<and> t < 2 ^ 63 then t else ovf x)"

(* src: app/common/errors/retry_policy.go:160-163 ExponentialBackoff.CalculateDelay *)
definition ExponentialBackoff :: "(real \<Rightarrow> int) \<Rightarrow> real \<Rightarrow> backoff_strategy" where
  "ExponentialBackoff ovf Factor attempt baseDelay =
     Some (float_to_int64 ovf (real_of_int baseDelay * power_int Factor attempt))"

(* src: app/common/errors/retry_policy.go:153-157 NewExponentialBackoff *)
definition NewExponentialBackoff :: "(real \<Rightarrow> int) \<Rightarrow> backoff_strategy" where
  "NewExponentialBackoff ovf = ExponentialBackoff ovf 2"

(* src: app/common/errors/retry_policy.go:178-180 LinearBackoff.CalculateDelay *)
definition LinearBackoff :: "duration \<Rightarrow> backoff_strategy" where
  "LinearBackoff Increment attempt baseDelay = Some (wrap64 (baseDelay + attempt * Increment))"

(* src: app/common/errors/retry_policy.go:171-175 NewLinearBackoff *)
definition NewLinearBackoff :: backoff_strategy where
  "NewLinearBackoff = LinearBackoff second"

(* src: app/common/errors/retry_policy.go:183-193 FixedBackoff, all methods *)
definition NewFixedBackoff :: backoff_strategy where
  "NewFixedBackoff attempt baseDelay = Some baseDelay"

(* src: app/common/errors/retry_policy.go:208-213 CustomBackoff.CalculateDelay *)
definition NewCustomBackoff :: "duration list \<Rightarrow> backoff_strategy" where
  "NewCustomBackoff Delays attempt baseDelay =
     (if attempt < int (length Delays) then go_index Delays attempt else Some baseDelay)"

subsection \<open>Policies\<close>

text \<open>\<^verbatim>\<open>context.Background()\<close> is never done; waiting only lets time pass.\<close>

definition Background :: "(duration \<Rightarrow> 'w \<Rightarrow> 'w) \<Rightarrow> 'w go_context" where
  "Background sleep = \<lparr> ctx_done = (\<lambda>w. None), ctx_wait = (\<lambda>d w. (None, sleep d w)) \<rparr>"

text \<open>The default strategy is the literal \<^verbatim>\<open>&ExponentialBackoff{}\<close>, whose factor is zero.\<close>

(* src: app/common/errors/retry_policy.go:29-39 NewRetryPolicy *)
definition NewRetryPolicy ::
  "(real \<Rightarrow> int) \<Rightarrow> (duration \<Rightarrow> 'w \<Rightarrow> 'w) \<Rightarrow> int \<Rightarrow> duration \<Rightarrow> 'w retry_policy" where
  "NewRetryPolicy ovf sleep maxRetries baseDelay =
     \<lparr> MaxRetries = maxRetries, BaseDelay = baseDelay, MaxDelay = wrap64 (baseDelay * 10),
       BackoffStrategy = ExponentialBackoff ovf 0, RetryableErrors = [], Jitter = True,
       Context = Background sleep \<rparr>"

(* src: app/common/errors/retry_policy.go:42-44 RetryPolicy.SetBackoffStrategy *)
definition SetBackoffStrategy :: "backoff_strategy \<Rightarrow> 'w retry_policy \<Rightarrow> 'w retry_policy" where
  "SetBackoffStrategy strategy rp = rp\<lparr> BackoffStrategy := strategy \<rparr>"

(* src: app/common/errors/retry_policy.go:47-49 RetryPolicy.SetRetryableErrors *)
definition SetRetryableErrors :: "goerr list \<Rightarrow> 'w retry_policy \<Rightarrow> 'w retry_policy" where
  "SetRetryableErrors es rp = rp\<lparr> RetryableErrors := es \<rparr>"

(* src: app/common/errors/retry_policy.go:52-54 RetryPolicy.SetJitter *)
definition SetJitter :: "bool \<Rightarrow> 'w retry_policy \<Rightarrow> 'w retry_policy" where
  "SetJitter jitter rp = rp\<lparr> Jitter := jitter \<rparr>"

(* src: app/common/errors/retry_policy.go:57-59 RetryPolicy.SetContext *)
definition SetContext :: "'w go_context \<Rightarrow> 'w retry_policy \<Rightarrow> 'w retry_policy" where
  "SetContext ctx rp = rp\<lparr> Context := ctx \<rparr>"

(* src: app/common/errors/retry_policy.go:62-83 RetryPolicy.IsRetryable *)
definition IsRetryable ::
  "(error_type \<times> error_rule list) range_order \<Rightarrow> 'w retry_policy \<Rightarrow> goerr option \<Rightarrow> bool" where
  "IsRetryable ord rp e =
     (case e of
        None \<Rightarrow> False
      | Some x \<Rightarrow>
          (case ClassifyError ord (Some (Error x)) of
             ErrorTypeNetwork \<Rightarrow> True | ErrorTypeTimeout \<Rightarrow> True | ErrorTypeRateLimit \<Rightarrow> True
           | ErrorTypeCircuitBreaker \<Rightarrow> True
           | ErrorTypeDatabase \<Rightarrow> True | ErrorTypeCache \<Rightarrow> True | ErrorTypeExternalAPI \<Rightarrow> True
           | _ \<Rightarrow> list_ex (\<lambda>r. x = r) (RetryableErrors rp)))"

text \<open>\<open>None\<close> is a panic of the strategy or of \<^verbatim>\<open>rand.Int63n\<close>.\<close>

(* src: app/common/errors/retry_policy.go:130-145 RetryPolicy.calculateDelay *)
definition rp_calculateDelay ::
  "'w retry_env \<Rightarrow> 'w retry_policy \<Rightarrow> int \<Rightarrow> 'w \<Rightarrow> duration option \<times> 'w" where
  "rp_calculateDelay env rp attempt w =
     (case BackoffStrategy rp attempt (BaseDelay rp) of
        None \<Rightarrow> (None, w)
      | Some d \<Rightarrow>
          (let delay = (if d > MaxDelay rp then MaxDelay rp else d)
           in if Jitter rp
              then (let jitter = go_trunc (real_of_int delay * (1 / 10))
                    in if jitter \<le> 0 then (None, w)
                       else (case env_rand env w of (r, w') \<Rightarrow> (Some (delay + r mod jitter), w')))
              else (Some delay, w)))"

text \<open>The loop of \<^verbatim>\<open>Execute\<close> from \<open>attempt\<close> on, with the error of the previous attempt.\<close>

(* src: app/common/errors/retry_policy.go:86-127 RetryPolicy.Execute *)
function rp_Execute_from ::
  "'w retry_env \<Rightarrow> 'w retry_policy \<Rightarrow> ('w \<Rightarrow> goerr option \<times> 'w) \<Rightarrow> int \<Rightarrow> goerr option
   \<Rightarrow> 'w \<Rightarrow> outcome \<times> 'w" where
  "rp_Execute_from env rp operation attempt lastError w =
     (if attempt \<le> MaxRetries rp
      then (case ctx_done (Context rp) w of
              Some ce \<Rightarrow> (Ret (Some ce), w)
            | None \<Rightarrow>
                (case operation w of
                   (None, w1) \<Rightarrow> (Ret None, w1)
                 | (Some e, w1) \<Rightarrow>
                     (if \<not> IsRetryable (env_order env w1) rp (Some e) then (Ret (Some e), w1)
                      else if attempt = MaxRetries rp
                           then (Ret (Some (RetryFailed (MaxRetries rp) (Some e))), w1)
                      else (case rp_calculateDelay env rp attempt w1 of
                              (None, w2) \<Rightarrow> (Panic, w2)
                            | (Some delay, w2) \<Rightarrow>
                                (case ctx_wait (Context rp) delay w2 of
                                   (Some ce, w3) \<Rightarrow> (Ret (Some ce), w3)
                                 | (None, w3) \<Rightarrow>
                                     rp_Execute_from env rp operation (attempt + 1) (Some e) w3)))))
      else (Ret (Some (RetryFailed (MaxRetries rp) lastError)), w))"
  by pat_completeness auto
termination
  by (relation "measure (\<lambda>(env, rp, operation, attempt, lastError, w). nat (MaxRetries rp + 1 - attempt))")
     auto

declare rp_Execute_from.simps [simp del]

(* src: app/common/errors/retry_policy.go:86-127 RetryPolicy.Execute *)
definition rp_Execute ::
  "'w retry_env \<Rightarrow> 'w retry_policy \<Rightarrow> ('w \<Rightarrow> goerr option \<times> 'w) \<Rightarrow> 'w \<Rightarrow> outcome \<times> 'w" where
  "rp_Execute env rp operation w = rp_Execute_from env rp operation 0 None w"

subsection \<open>Executor\<close>

(* src: app/common/errors/retry_policy.go:216-219 RetryExecutor *)
type_synonym 'w retry_executor = "(string \<times> 'w retry_policy) list"

(* src: app/common/errors/retry_policy.go:222-226 NewRetryExecutor *)
definition NewRetryExecutor :: "'w retry_executor" where
  "NewRetryExecutor = []"

(* src: app/common/errors/retry_policy.go:229-233 RetryExecutor.RegisterPolicy *)
definition RegisterPolicy :: "string \<Rightarrow> 'w retry_policy \<Rightarrow> 'w retry_executor \<Rightarrow> 'w retry_executor" where
  "RegisterPolicy name policy re = AList.update name policy re"

(* src: app/common/errors/retry_policy.go:236-244 RetryExecutor.GetPolicy *)
definition GetPolicy :: "'w retry_executor \<Rightarrow> string \<Rightarrow> goerr + 'w retry_policy" where
  "GetPolicy re name =
     (case map_of re name of None \<Rightarrow> Inl (PolicyNotFound name) | Some policy \<Rightarrow> Inr policy)"

(* src: app/common/errors/retry_policy.go:247-253 RetryExecutor.Execute *)
definition re_Execute ::
  "'w retry_env \<Rightarrow> 'w retry_executor \<Rightarrow> string \<Rightarrow> ('w \<Rightarrow> goerr option \<times> 'w) \<Rightarrow> 'w \<Rightarrow> outcome \<times> 'w" where
  "re_Execute env re policyName operation w =
     (case GetPolicy re policyName of
        Inl e \<Rightarrow> (Ret (Some e), w)
      | Inr policy \<Rightarrow> rp_Execute env policy operation w)"

(* src: app/common/errors/retry_policy.go:256-267 RetryExecutor.ExecuteWithContext *)
definition re_ExecuteWithContext ::
  "'w retry_env \<Rightarrow> 'w go_context \<Rightarrow> 'w retry_executor \<Rightarrow> string \<Rightarrow> ('w \<Rightarrow> goerr option \<times> 'w)
   \<Rightarrow> 'w \<Rightarrow> outcome \<times> 'w" where
  "re_ExecuteWithContext env ctx re policyName operation w =
     (case GetPolicy re policyName of
        Inl e \<Rightarrow> (Ret (Some e), w)
      | Inr policy \<Rightarrow> rp_Execute env (policy\<lparr> Context := ctx \<rparr>) operation w)"

(* src: app/common/errors/retry_policy.go:270-280 RetryExecutor.ListPolicies *)
definition ListPolicies :: "(string \<times> 'w retry_policy) range_order \<Rightarrow> 'w retry_executor \<Rightarrow> string list" where
  "ListPolicies ord re = map fst (ord re)"

subsection \<open>Retryable operations\<close>

(* src: app/common/errors/retry_policy.go:283-287 RetryableOperation *)
record 'w retryable_operation =
  op_Execute :: "'w \<Rightarrow> goerr option \<times> 'w"
  op_ShouldRetry :: "goerr option \<Rightarrow> 'w \<Rightarrow> bool"
  op_GetRetryPolicy :: "'w retry_policy"

(* src: app/common/errors/retry_policy.go:290-316 RetryableFunction, all methods *)
definition NewRetryableFunction ::
  "'w retry_env \<Rightarrow> ('w \<Rightarrow> goerr option \<times> 'w) \<Rightarrow> 'w retry_policy \<Rightarrow> 'w retryable_operation" where
  "NewRetryableFunction env operation policy =
     \<lparr> op_Execute = operation,
       op_ShouldRetry = (\<lambda>e w. IsRetryable (env_order env w) policy e),
       op_GetRetryPolicy = policy \<rparr>"

(* src: app/common/errors/retry_policy.go:319-322 ExecuteWithRetry *)
definition ExecuteWithRetry ::
  "'w retry_env \<Rightarrow> 'w retryable_operation \<Rightarrow> 'w \<Rightarrow> outcome \<times> 'w" where
  "ExecuteWithRetry env operation w =
     rp_Execute env (op_GetRetryPolicy operation) (op_Execute operation) w"

(* src: app/common/errors/retry_policy.go:325-330 ExecuteWithRetryAndContext *)
definition ExecuteWithRetryAndContext ::
  "'w retry_env \<Rightarrow> 'w go_context \<Rightarrow> 'w retryable_operation \<Rightarrow> 'w \<Rightarrow> outcome \<times> 'w" where
  "ExecuteWithRetryAndContext env ctx operation w =
     rp_Execute env ((op_GetRetryPolicy operation)\<lparr> Context := ctx \<rparr>) (op_Execute operation) w"

section \<open>Properties\<close>

subsection \<open>The record of attempts\<close>

text \<open>
  To speak about the calls of the operation, the world is extended by the list of their results,
  which the policy, the context and the random source cannot see.
\<close>

type_synonym 'w logged = "'w \<times> goerr option list"

definition log_op :: "('w \<Rightarrow> goerr option \<times> 'w) \<Rightarrow> 'w logged \<Rightarrow> goerr option \<times> 'w logged" where
  "log_op operation wl = (case operation (fst wl) of (r, w') \<Rightarrow> (r, w', snd wl @ [r]))"

definition log_context :: "'w go_context \<Rightarrow> 'w logged go_context" where
  "log_context c =
     \<lparr> ctx_done = (\<lambda>wl. ctx_done c (fst wl)),
       ctx_wait = (\<lambda>d wl. case ctx_wait c d (fst wl) of (r, w') \<Rightarrow> (r, w', snd wl)) \<rparr>"

definition log_env :: "'w retry_env \<Rightarrow> 'w logged retry_env" where
  "log_env env =
     \<lparr> env_rand = (\<lambda>wl. case env_rand env (fst wl) of (r, w') \<Rightarrow> (r, w', snd wl)),
       env_order = (\<lambda>wl. env_order env (fst wl)) \<rparr>"

definition log_policy :: "'w retry_policy \<Rightarrow> 'w logged retry_policy" where
  "log_policy rp =
     \<lparr> MaxRetries = MaxRetries rp, BaseDelay = BaseDelay rp, MaxDelay = MaxDelay rp,
       BackoffStrategy = BackoffStrategy rp, RetryableErrors = RetryableErrors rp,
       Jitter = Jitter rp, Context = log_context (Context rp) \<rparr>"

definition may_retry :: "'w retry_env \<Rightarrow> 'w retry_policy \<Rightarrow> goerr option \<Rightarrow> bool" where
  "may_retry env rp e \<longleftrightarrow> (\<exists>w. IsRetryable (env_order env w) rp e)"

text \<open>
  An operation that always fails with an error that is retried whatever the iteration order, and
  a context that does not end.
\<close>

definition fails_retryably :: "'w retry_env \<Rightarrow> 'w retry_policy \<Rightarrow> ('w \<Rightarrow> goerr option \<times> 'w) \<Rightarrow> bool" where
  "fails_retryably env rp operation \<longleftrightarrow>
     (\<forall>w. \<exists>e w'. operation w = (Some e, w') \<and> (\<forall>v. IsRetryable (env_order env v) rp (Some e)))"

definition never_done :: "'w go_context \<Rightarrow> bool" where
  "never_done c \<longleftrightarrow> (\<forall>w. ctx_done c w = None) \<and> (\<forall>d w. fst (ctx_wait c d w) = None)"

text \<open>What the record \<open>k\<close> of a run from attempt \<open>a\<close> with result \<open>res\<close> looks like.\<close>

definition record_ok :: "'w retry_env \<Rightarrow> 'w retry_policy \<Rightarrow> int \<Rightarrow> outcome \<Rightarrow> goerr option list \<Rightarrow> bool" where
  "record_ok env rp a res k \<longleftrightarrow>
     int (length k) \<le> max 0 (MaxRetries rp - a + 1)
     \<and> list_all (may_retry env rp) (butlast k)
     \<and> (res = Ret None \<longleftrightarrow> k \<noteq> [] \<and> last k = None)"

lemma log_simps [simp]:
  "MaxRetries (log_policy rp) = MaxRetries rp"
  "RetryableErrors (log_policy rp) = RetryableErrors rp"
  "ctx_done (Context (log_policy rp)) wl = ctx_done (Context rp) (fst wl)"
  "ctx_wait (Context (log_policy rp)) d wl = (case ctx_wait (Context rp) d (fst wl) of (r, w') \<Rightarrow> (r, w', snd wl))"
  "env_order (log_env env) wl = env_order env (fst wl)"
  by (simp_all add: log_policy_def log_context_def log_env_def)

lemma log_IsRetryable [simp]: "IsRetryable ord (log_policy rp) e = IsRetryable ord rp e"
  unfolding IsRetryable_def log_simps by (rule refl)

lemma log_op_apply [simp]: "log_op operation (w, l) = (case operation w of (r, w') \<Rightarrow> (r, w', l @ [r]))"
  by (simp add: log_op_def)

lemma log_calculateDelay [simp]:
  "rp_calculateDelay (log_env env) (log_policy rp) a wl =
     (case rp_calculateDelay env rp a (fst wl) of (d, w') \<Rightarrow> (d, w', snd wl))"
  by (auto simp: rp_calculateDelay_def log_policy_def log_env_def Let_def split: option.split prod.split)

lemma not_retryable_nil [simp]: "\<not> IsRetryable ord rp None"
  by (simp add: IsRetryable_def)

lemma record_ok_nil: "res \<noteq> Ret None \<Longrightarrow> record_ok env rp a res []"
  by (simp add: record_ok_def)

lemma record_ok_one: "a \<le> MaxRetries rp \<Longrightarrow> res = Ret None \<longleftrightarrow> r = None \<Longrightarrow> record_ok env rp a res [r]"
  by (simp add: record_ok_def)

lemma record_ok_step:
  assumes "record_ok env rp (a + 1) res k" and "a < MaxRetries rp" and "IsRetryable (env_order env w) rp (Some e)"
  shows "record_ok env rp a res (Some e # k)"
  using assms by (auto simp: record_ok_def may_retry_def)

lemma logged_run:
  "\<exists>k. rp_Execute_from (log_env env) (log_policy rp) (log_op operation) a le (w, l) =
          (case rp_Execute_from env rp operation a le w of (res, w') \<Rightarrow> (res, w', l @ k))
       \<and> record_ok env rp a (fst (rp_Execute_from env rp operation a le w)) k"
proof (induction env rp operation a le w arbitrary: l rule: rp_Execute_from.induct)
  case (1 env rp operation a le w)
  note unfold = rp_Execute_from.simps [of env rp operation a le w]
    rp_Execute_from.simps [of "log_env env" "log_policy rp" "log_op operation" a le "(w, l)"]
  show ?case
  proof (cases "a \<le> MaxRetries rp \<and> ctx_done (Context rp) w = None")
    case False
    then show ?thesis
      by (intro exI [of _ "[]"]) (auto simp: unfold record_ok_nil split: option.split)
  next
    case True
    obtain r w1 where op: "operation w = (r, w1)" by fastforce
    show ?thesis
    proof (cases "r = None \<or> \<not> IsRetryable (env_order env w1) rp r \<or> a = MaxRetries rp")
      case end_here: True
      show ?thesis
        using True op end_here
        by (intro exI [of _ "[r]"])
           (auto simp: unfold intro!: record_ok_one split: option.split)
    next
      case again: False
      then obtain e where r: "r = Some e" by auto
      from again True have lt: "a < MaxRetries rp" by simp
      have ret: "IsRetryable (env_order env w1) rp (Some e)" using again r by simp
      obtain d w2 where d: "rp_calculateDelay env rp a w1 = (d, w2)" by fastforce
      show ?thesis
      proof (cases d)
        case None
        with True op again r d show ?thesis
          by (intro exI [of _ "[r]"]) (simp add: unfold record_ok_one)
      next
        case (Some delay)
        obtain c w3 where c: "ctx_wait (Context rp) delay w2 = (c, w3)" by fastforce
        show ?thesis
        proof (cases c)
          case (Some ce)
          with \<open>d = Some delay\<close> True op again r d c show ?thesis
            by (intro exI [of _ "[r]"]) (simp add: unfold record_ok_one)
        next
          case None
          have step: "rp_Execute_from env rp operation a le w = rp_Execute_from env rp operation (a + 1) (Some e) w3"
            using None \<open>d = Some delay\<close> True op again r d c by (simp add: unfold)
          have logged: "rp_Execute_from (log_env env) (log_policy rp) (log_op operation) a le (w, l) =
              rp_Execute_from (log_env env) (log_policy rp) (log_op operation) (a + 1) (Some e) (w3, l @ [r])"
            using None \<open>d = Some delay\<close> True op again r d c by (simp add: unfold)
          obtain k where k:
            "rp_Execute_from (log_env env) (log_policy rp) (log_op operation) (a + 1) (Some e) (w3, l @ [r]) =
               (case rp_Execute_from env rp operation (a + 1) (Some e) w3 of (res, w') \<Rightarrow> (res, w', (l @ [r]) @ k))"
            "record_ok env rp (a + 1) (fst (rp_Execute_from env rp operation (a + 1) (Some e) w3)) k"
            using 1 [of r w1 e d w2 delay c w3 "l @ [r]"] True again r d c op None \<open>d = Some delay\<close> by auto
          show ?thesis
            unfolding step logged k(1)
            using record_ok_step [OF k(2) lt ret]
            by (intro exI [of _ "r # k"]) (simp add: r split: prod.split)
        qed
      qed
    qed
  qed
qed

text \<open>
  The retry loop calls the operation at most \<open>MaxRetries + 1\<close> times (never for a negative
  count), every call but the last one failed with an error the policy retries, and the loop
  reports success exactly when the last call succeeded. Recording the calls does not change the
  run.
\<close>
theorem execute_attempts:
  "case rp_Execute (log_env env) (log_policy rp) (log_op operation) (w, []) of
     (res, w', calls) \<Rightarrow>
       rp_Execute env rp operation w = (res, w')
       \<and> int (length calls) \<le> max 0 (MaxRetries rp + 1)
       \<and> list_all (may_retry env rp) (butlast calls)
       \<and> (res = Ret None \<longleftrightarrow> calls \<noteq> [] \<and> last calls = None)"
proof -
  obtain res w' where run: "rp_Execute_from env rp operation 0 None w = (res, w')" by fastforce
  with logged_run [of env rp operation 0 None w "[]"] show ?thesis
    by (auto simp: rp_Execute_def record_ok_def)
qed

subsection \<open>Runs that fail to the end\<close>

lemma log_never_done [simp]: "never_done (Context (log_policy rp)) = never_done (Context rp)"
  by (auto simp: never_done_def split: prod.split) (metis fst_conv surj_pair)+

lemma failing_call:
  assumes "fails_retryably env rp operation" and "operation w = (r, w1)"
  shows "\<exists>e. r = Some e \<and> (\<forall>v. IsRetryable (env_order env v) rp (Some e))"
  using assms unfolding fails_retryably_def by (metis prod.inject)

lemma log_fails [simp]:
  assumes "fails_retryably env rp operation"
  shows "fails_retryably (log_env env) (log_policy rp) (log_op operation)"
  unfolding fails_retryably_def
proof
  fix wl :: "'a logged"
  obtain r w1 where op: "operation (fst wl) = (r, w1)" by fastforce
  with failing_call [OF assms op]
  show "\<exists>e wl'. log_op operation wl = (Some e, wl')
                \<and> (\<forall>v. IsRetryable (env_order (log_env env) v) (log_policy rp) (Some e))"
    by (auto simp: log_op_def)
qed

lemma failing_step:
  assumes "never_done (Context rp)" and "fails_retryably env rp operation" and "a < MaxRetries rp"
    and "operation w = (r, w1)" and "rp_calculateDelay env rp a w1 = (Some d, w2)"
  shows "rp_Execute_from env rp operation a le w =
           rp_Execute_from env rp operation (a + 1) r (snd (ctx_wait (Context rp) d w2))"
proof -
  obtain e where e: "r = Some e" "\<And>v. IsRetryable (env_order env v) rp (Some e)"
    using failing_call [OF assms(2,4)] by blast
  obtain w3 where "ctx_wait (Context rp) d w2 = (None, w3)"
    using assms(1) unfolding never_done_def by (metis prod.collapse)
  with assms e show ?thesis
    by (subst rp_Execute_from.simps) (simp add: never_done_def)
qed

lemma failing_last:
  assumes "never_done (Context rp)" and "fails_retryably env rp operation" and "a = MaxRetries rp"
    and "operation w = (r, w1)"
  shows "rp_Execute_from env rp operation a le w = (Ret (Some (RetryFailed (MaxRetries rp) r)), w1)"
proof -
  obtain e where e: "r = Some e" "\<And>v. IsRetryable (env_order env v) rp (Some e)"
    using failing_call [OF assms(2,4)] by blast
  with assms show ?thesis
    by (subst rp_Execute_from.simps) (simp add: never_done_def)
qed

lemma failing_panic:
  assumes "never_done (Context rp)" and "fails_retryably env rp operation" and "a < MaxRetries rp"
    and "operation w = (r, w1)" and "rp_calculateDelay env rp a w1 = (None, w2)"
  shows "rp_Execute_from env rp operation a le w = (Panic, w2)"
proof -
  obtain e where e: "r = Some e" "\<And>v. IsRetryable (env_order env v) rp (Some e)"
    using failing_call [OF assms(2,4)] by blast
  with assms show ?thesis
    by (subst rp_Execute_from.simps) (simp add: never_done_def)
qed

lemma exhausts:
  assumes "never_done (Context rp)" and "fails_retryably env rp operation"
    and "\<And>a v. 0 \<le> a \<Longrightarrow> a < MaxRetries rp \<Longrightarrow> fst (rp_calculateDelay env rp a v) \<noteq> None"
    and "0 \<le> a" and "a \<le> MaxRetries rp"
  shows "\<exists>w' k. rp_Execute_from (log_env env) (log_policy rp) (log_op operation) a le (w, l) =
                  (Ret (Some (RetryFailed (MaxRetries rp) (last k))), w', l @ k)
                \<and> int (length k) = MaxRetries rp - a + 1"
  using assms(4,5)
proof (induction "nat (MaxRetries rp - a)" arbitrary: a le w l)
  case 0
  obtain r w1 where op: "operation w = (r, w1)" by fastforce
  from 0 have a: "a = MaxRetries rp" by simp
  show ?case
    using failing_last [of "log_policy rp" "log_env env" "log_op operation" a "(w, l)" r "(w1, l @ [r])" le]
      assms(1,2) op a by (intro exI [of _ w1] exI [of _ "[r]"]) simp
next
  case (Suc n)
  obtain r w1 where op: "operation w = (r, w1)" by fastforce
  have lt: "a < MaxRetries rp" using Suc.hyps(2) by simp
  obtain d w2 where d: "rp_calculateDelay env rp a w1 = (Some d, w2)"
    using assms(3) [OF Suc.prems(1) lt, of w1] by (metis fst_conv not_Some_eq surj_pair)
  obtain c w3 where c: "ctx_wait (Context rp) d w2 = (c, w3)" by fastforce
  have step: "rp_Execute_from (log_env env) (log_policy rp) (log_op operation) a le (w, l) =
      rp_Execute_from (log_env env) (log_policy rp) (log_op operation) (a + 1) r (w3, l @ [r])"
    using failing_step [of "log_policy rp" "log_env env" "log_op operation" a "(w, l)" r "(w1, l @ [r])" d "(w2, l @ [r])" le]
      assms(1,2) lt op d c by simp
  have "n = nat (MaxRetries rp - (a + 1))" and "0 \<le> a + 1" and "a + 1 \<le> MaxRetries rp"
    using Suc.hyps(2) Suc.prems lt by simp_all
  then obtain w' k where k: "rp_Execute_from (log_env env) (log_policy rp) (log_op operation) (a + 1) r (w3, l @ [r]) =
      (Ret (Some (RetryFailed (MaxRetries rp) (last k))), w', (l @ [r]) @ k)" "int (length k) = MaxRetries rp - (a + 1) + 1"
    using Suc.hyps(1) by blast
  moreover have "k \<noteq> []" using k(2) lt by auto
  ultimately show ?case using step by (intro exI [of _ w'] exI [of _ "r # k"]) simp
qed


subsection \<open>Delays\<close>

lemma jittered_delay:
  assumes "BackoffStrategy rp a (BaseDelay rp) = Some d" and "10 \<le> d" and "10 \<le> MaxDelay rp"
  shows "\<exists>r w'. rp_calculateDelay env rp a w = (Some r, w')
                \<and> min d (MaxDelay rp) \<le> r \<and> 10 * r \<le> 11 * min d (MaxDelay rp)"
proof -
  define m where "m = min d (MaxDelay rp)"
  have m10: "10 \<le> m" using assms by (simp add: m_def)
  then have j: "0 < m div 10" by (simp add: pos_imp_zdiv_pos_iff)
  obtain x w' where x: "env_rand env w = (x, w')" by fastforce
  have m: "(if d > MaxDelay rp then MaxDelay rp else d) = m" by (simp add: m_def)
  have run: "rp_calculateDelay env rp a w = (if Jitter rp then (Some (m + x mod (m div 10)), w') else (Some m, w))"
    unfolding rp_calculateDelay_def assms(1) option.case m Let_def
    using m10 j x by (simp add: go_trunc_tenth)
  have "0 \<le> x mod (m div 10)" and "x mod (m div 10) < m div 10" using j by simp_all
  moreover have "10 * (m div 10) \<le> m"
    using mult_div_mod_eq [of 10 m] pos_mod_sign [of 10 m] by linarith
  ultimately have "m \<le> m + x mod (m div 10)" and "10 * (m + x mod (m div 10)) \<le> 11 * m"
    by (simp_all add: distrib_left)
  with run m10 show ?thesis unfolding m_def [symmetric] by (cases "Jitter rp") simp_all
qed

lemma doubling_delay:
  assumes "0 \<le> a" and "0 \<le> base" and "base * 2 ^ nat a < 2 ^ 63"
  shows "NewExponentialBackoff ovf a base = Some (base * 2 ^ nat a)"
proof -
  have "real_of_int base * power_int 2 a = real_of_int (base * 2 ^ nat a)"
    using assms(1) by (simp add: power_int_def)
  then have "go_trunc (real_of_int base * power_int 2 a) = base * 2 ^ nat a"
    by (metis go_trunc_of_int)
  moreover have "- (2 ^ 63) \<le> base * 2 ^ nat a" using assms(2) by (meson neg_le_0_iff_le order_trans zero_le_mult_iff zero_le_numeral zero_le_power)
  ultimately show ?thesis
    using assms(3) by (simp add: NewExponentialBackoff_def ExponentialBackoff_def float_to_int64_def)
qed

lemma stock_delays:
  assumes "10 \<le> base" and "base * 10 < 2 ^ 63" and "0 \<le> a"
  shows "base * 2 ^ nat a < 2 ^ 63 \<Longrightarrow>
           \<exists>r w'. rp_calculateDelay env (SetBackoffStrategy (NewExponentialBackoff ovf) (NewRetryPolicy ovf sleep n base)) a w = (Some r, w')
                \<and> min (base * 2 ^ nat a) (10 * base) \<le> r \<and> 10 * r \<le> 11 * min (base * 2 ^ nat a) (10 * base)"
    and "base + a * second < 2 ^ 63 \<Longrightarrow>
           \<exists>r w'. rp_calculateDelay env (SetBackoffStrategy NewLinearBackoff (NewRetryPolicy ovf sleep n base)) a w = (Some r, w')
                \<and> min (base + a * second) (10 * base) \<le> r \<and> 10 * r \<le> 11 * min (base + a * second) (10 * base)"
    and "\<exists>r w'. rp_calculateDelay env (SetBackoffStrategy NewFixedBackoff (NewRetryPolicy ovf sleep n base)) a w = (Some r, w')
                \<and> base \<le> r \<and> 10 * r \<le> 11 * base"
proof -
  have cap: "MaxDelay (SetBackoffStrategy s (NewRetryPolicy ovf sleep n base)) = 10 * base" for s
    using assms by (simp add: SetBackoffStrategy_def NewRetryPolicy_def wrap64_id mult.commute)
  have sel: "BackoffStrategy (SetBackoffStrategy s (NewRetryPolicy ovf sleep n base)) = s"
    "BaseDelay (SetBackoffStrategy s (NewRetryPolicy ovf sleep n base)) = base" for s
    by (simp_all add: SetBackoffStrategy_def NewRetryPolicy_def)
  note bounds = jittered_delay [where rp = "SetBackoffStrategy s (NewRetryPolicy ovf sleep n base)" for s,
      unfolded cap sel]
  have max10: "10 \<le> 10 * base" using assms(1) by simp
  show "\<exists>r w'. rp_calculateDelay env (SetBackoffStrategy (NewExponentialBackoff ovf) (NewRetryPolicy ovf sleep n base)) a w = (Some r, w')
                \<and> min (base * 2 ^ nat a) (10 * base) \<le> r \<and> 10 * r \<le> 11 * min (base * 2 ^ nat a) (10 * base)"
    if "base * 2 ^ nat a < 2 ^ 63"
  proof (rule bounds [OF doubling_delay _ max10])
    have "base * 1 \<le> base * 2 ^ nat a" using assms(1) by (intro mult_left_mono) simp_all
    then show "10 \<le> base * 2 ^ nat a" using assms(1) by linarith
  qed (use assms that in simp_all)
  show "\<exists>r w'. rp_calculateDelay env (SetBackoffStrategy NewLinearBackoff (NewRetryPolicy ovf sleep n base)) a w = (Some r, w')
                \<and> min (base + a * second) (10 * base) \<le> r \<and> 10 * r \<le> 11 * min (base + a * second) (10 * base)"
    if "base + a * second < 2 ^ 63"
  proof -
    have "0 \<le> a * second" using assms(3) by (simp add: second_def)
    with that assms show ?thesis
      by (intro bounds) (simp_all add: NewLinearBackoff_def LinearBackoff_def wrap64_id)
  qed
  have "\<exists>r w'. rp_calculateDelay env (SetBackoffStrategy NewFixedBackoff (NewRetryPolicy ovf sleep n base)) a w = (Some r, w')
                \<and> min base (10 * base) \<le> r \<and> 10 * r \<le> 11 * min base (10 * base)"
    by (rule bounds [OF _ assms(1) max10]) (simp add: NewFixedBackoff_def)
  then show "\<exists>r w'. rp_calculateDelay env (SetBackoffStrategy NewFixedBackoff (NewRetryPolicy ovf sleep n base)) a w = (Some r, w')
                \<and> base \<le> r \<and> 10 * r \<le> 11 * base"
    using assms(1) by simp
qed

text \<open>
  Delays of a policy made by \<^verbatim>\<open>NewRetryPolicy\<close> and given one of the stock back-off strategies,
  for a base delay of at least ten nanoseconds: the computed delay is the strategy's one (doubling,
  linear by a second, or constant), cut at ten times the base delay, plus at most a tenth of it,
  and nothing panics.
\<close>
theorem retry_delay_bounds:
  assumes "10 \<le> base" and "base * 10 < 2 ^ 63" and "0 \<le> a"
  shows "(base * 2 ^ nat a < 2 ^ 63 \<longrightarrow>
           (\<exists>r w'. rp_calculateDelay env (SetBackoffStrategy (NewExponentialBackoff ovf) (NewRetryPolicy ovf sleep n base)) a w = (Some r, w')
                \<and> min (base * 2 ^ nat a) (10 * base) \<le> r \<and> 10 * r \<le> 11 * min (base * 2 ^ nat a) (10 * base)))
       \<and> (base + a * second < 2 ^ 63 \<longrightarrow>
           (\<exists>r w'. rp_calculateDelay env (SetBackoffStrategy NewLinearBackoff (NewRetryPolicy ovf sleep n base)) a w = (Some r, w')
                \<and> min (base + a * second) (10 * base) \<le> r \<and> 10 * r \<le> 11 * min (base + a * second) (10 * base)))
       \<and> (\<exists>r w'. rp_calculateDelay env (SetBackoffStrategy NewFixedBackoff (NewRetryPolicy ovf sleep n base)) a w = (Some r, w')
                \<and> base \<le> r \<and> 10 * r \<le> 11 * base)"
  by (intro conjI impI; rule stock_delays [OF assms])

subsection \<open>The default policy\<close>

lemma default_policy_simps [simp]:
  "MaxRetries (NewRetryPolicy ovf sleep n base) = n"
  "Context (NewRetryPolicy ovf sleep n base) = Background sleep"
  by (simp_all add: NewRetryPolicy_def)

lemma background_never_done [simp]: "never_done (Background sleep)"
  by (simp add: never_done_def Background_def)

lemma default_first_delay:
  assumes "10 \<le> base" and "base * 10 < 2 ^ 63"
  shows "\<exists>d w'. rp_calculateDelay env (NewRetryPolicy ovf sleep n base) 0 w = (Some d, w')"
proof -
  have "BackoffStrategy (NewRetryPolicy ovf sleep n base) 0 (BaseDelay (NewRetryPolicy ovf sleep n base)) = Some base"
    using assms by (simp add: NewRetryPolicy_def ExponentialBackoff_def float_to_int64_def)
  moreover have "10 \<le> MaxDelay (NewRetryPolicy ovf sleep n base)"
    using assms by (simp add: NewRetryPolicy_def wrap64_id)
  ultimately show ?thesis
    using jittered_delay [OF _ assms(1), of "NewRetryPolicy ovf sleep n base" 0 env w] by blast
qed

lemma default_second_delay:
  assumes "10 \<le> base" and "base * 10 < 2 ^ 63"
  shows "rp_calculateDelay env (NewRetryPolicy ovf sleep n base) 1 w = (None, w)"
  using assms
  by (simp add: rp_calculateDelay_def NewRetryPolicy_def ExponentialBackoff_def float_to_int64_def
      go_trunc_def wrap64_id)

text \<open>
  A policy as \<^verbatim>\<open>NewRetryPolicy\<close> makes it, with two or more retries, does not retry as often as
  it says: its back-off factor is zero, so after the second failure the delay and with it the
  jitter is zero and \<^verbatim>\<open>rand.Int63n\<close> panics. The operation is called exactly twice.
\<close>
theorem default_policy_panics:
  assumes "2 \<le> n" and "10 \<le> base" and "base * 10 < 2 ^ 63"
    and "fails_retryably env (NewRetryPolicy ovf sleep n base) operation"
  shows "\<exists>w' r1 r2. rp_Execute (log_env env) (log_policy (NewRetryPolicy ovf sleep n base)) (log_op operation) (w, [])
                      = (Panic, w', [r1, r2])"
proof -
  let ?rp = "NewRetryPolicy ovf sleep n base"
  obtain r1 w1 where op1: "operation w = (r1, w1)" by fastforce
  obtain d w2 where d: "rp_calculateDelay env ?rp 0 w1 = (Some d, w2)"
    using default_first_delay [OF assms(2,3), of env ovf sleep n w1] by blast
  have c: "ctx_wait (Context ?rp) d w2 = (None, sleep d w2)" by (simp add: Background_def)
  obtain r2 w3 where op2: "operation (sleep d w2) = (r2, w3)" by fastforce
  have fails: "fails_retryably (log_env env) (log_policy ?rp) (log_op operation)"
    and nd: "never_done (Context (log_policy ?rp))"
    using assms(4) by simp_all
  have "rp_Execute_from (log_env env) (log_policy ?rp) (log_op operation) 0 None (w, []) =
      rp_Execute_from (log_env env) (log_policy ?rp) (log_op operation) 1 r1 (sleep d w2, [r1])"
    using failing_step [OF nd fails, of 0 "(w, [])" r1 "(w1, [r1])" d "(w2, [r1])" None] assms(1) op1 d c
    by simp
  also have "\<dots> = (Panic, w3, [r1, r2])"
    using failing_panic [OF nd fails, of 1 "(sleep d w2, [r1])" r2 "(w3, [r1, r2])" "(w3, [r1, r2])" r1]
      assms(1) op2 default_second_delay [OF assms(2,3), of env ovf sleep n w3]
    by simp
  finally show ?thesis by (auto simp: rp_Execute_def)
qed

subsection \<open>Witnesses\<close>

definition demo_env :: "int list retry_env" where
  "demo_env = \<lparr> env_rand = (\<lambda>w. (7, w)), env_order = (\<lambda>w xs. xs) \<rparr>"

definition demo_op :: "int list \<Rightarrow> goerr option \<times> int list" where
  "demo_op w = (Some (GoError (length w) ''timeout''), w)"

definition demo_sleep :: "duration \<Rightarrow> int list \<Rightarrow> int list" where
  "demo_sleep d w = w @ [d]"

lemma demo_timeout: "ClassifyError (\<lambda>xs. xs) (Some ''timeout'') = ErrorTypeTimeout"
  by code_simp

lemma demo_fails: "fails_retryably demo_env rp demo_op"
  by (simp add: fails_retryably_def demo_op_def demo_env_def IsRetryable_def demo_timeout)


theorem retry_delay_bounds_witness:
  "(\<exists>r w'. rp_calculateDelay demo_env (SetBackoffStrategy (NewExponentialBackoff (\<lambda>x. 0))
        (NewRetryPolicy (\<lambda>x. 0) demo_sleep 3 100)) 2 [] = (Some r, w') \<and> 400 \<le> r \<and> 10 * r \<le> 4400)
   \<and> (\<exists>r w'. rp_calculateDelay demo_env (SetBackoffStrategy NewLinearBackoff
        (NewRetryPolicy (\<lambda>x. 0) demo_sleep 3 100)) 2 [] = (Some r, w') \<and> 1000 \<le> r \<and> 10 * r \<le> 11000)
   \<and> (\<exists>r w'. rp_calculateDelay demo_env (SetBackoffStrategy NewFixedBackoff
        (NewRetryPolicy (\<lambda>x. 0) demo_sleep 3 100)) 2 [] = (Some r, w') \<and> 100 \<le> r \<and> 10 * r \<le> 1100)"
  using retry_delay_bounds [of 100 2 demo_env "\<lambda>x. 0" demo_sleep 3 "[]"]
  by (simp add: second_def)

theorem default_policy_panics_witness:
  "\<exists>w' r1 r2. rp_Execute (log_env demo_env) (log_policy (NewRetryPolicy (\<lambda>x. 0) demo_sleep 3 second))
                (log_op demo_op) ([], []) = (Panic, w', [r1, r2])"
  using default_policy_panics [of 3 second demo_env "\<lambda>x. 0" demo_sleep demo_op "[]"] demo_fails
  by (simp add: second_def)

subsection \<open>The executor as a registry\<close>

interpretation rex: name_registry NewRetryExecutor "\<lambda>(name, policy). RegisterPolicy name policy"
  GetPolicy fst snd PolicyNotFound
  by unfold_locales (auto simp: NewRetryExecutor_def RegisterPolicy_def GetPolicy_def update_conv')

lemma executor_runs_latest:
  "re_Execute env (fold (\<lambda>(name, policy). RegisterPolicy name policy) ps NewRetryExecutor) n operation w =
     (case find (\<lambda>p. fst p = n) (rev ps) of
        None \<Rightarrow> (Ret (Some (PolicyNotFound n)), w)
      | Some (_, policy) \<Rightarrow> rp_Execute env policy operation w)"
  by (simp add: re_Execute_def rex.get_register_all rex.get_new case_prod_beta split: option.split)

end
