(* ===== verification/Saga.thy ===== *)
theory Saga
  imports Tcc_Interface
begin

text \<open>
  The saga orchestrator (\<^verbatim>\<open>src/app/common/tcc/saga_orchestrator.go\<close>): steps with retries, compensation in
  reverse order, the execution record kept by a state manager, and the manager of orchestrators.
  Actions and compensations are functions on an arbitrary world; \<open>ctxErr\<close> reads the context's error from
  the world, \<open>None\<close> while it is live. The pauses between attempts change no state and are left out. The
  state manager is Go's interface: a record of operations on its own state \<open>'s\<close>, whose contract is the
  locale \<open>state_manager\<close>; the in-memory one interprets it.

  Logged steps use the call events of \<open>Tcc_Interface\<close>: \<open>PhaseTry\<close> for a step's action and \<open>PhaseCancel\<close> for its
  compensation.
\<close>

(* src: app/common/tcc/saga_orchestrator.go:11-19 SagaStep *)
record ('w, 'd) saga_step =
  ss_ID :: string
  ss_Name :: string
  ss_Action :: "'d \<Rightarrow> 'w \<Rightarrow> err option \<times> 'w"
  ss_Compensation :: "('d \<Rightarrow> 'w \<Rightarrow> err option \<times> 'w) option"
  ss_Timeout :: duration
  ss_RetryCount :: int
  ss_Data :: 'd

(* src: app/common/tcc/saga_orchestrator.go:22-26 CompensationStep *)
record ('w, 'd) compensation_step =
  cs_StepID :: string
  cs_Compensation :: "'d \<Rightarrow> 'w \<Rightarrow> err option \<times> 'w"
  cs_Data :: 'd

(* src: app/common/tcc/saga_orchestrator.go:29-38 SagaState, constants *)
datatype saga_state =
  SagaStatePending | SagaStateRunning | SagaStateCompleted | SagaStateCompensating | SagaStateCompensated
| SagaStateFailed

(* src: app/common/tcc/saga_orchestrator.go:41-58 SagaState.String *)
fun saga_state_String :: "saga_state \<Rightarrow> string" where
  "saga_state_String SagaStatePending = ''pending''"
| "saga_state_String SagaStateRunning = ''running''"
| "saga_state_String SagaStateCompleted = ''completed''"
| "saga_state_String SagaStateCompensating = ''compensating''"
| "saga_state_String SagaStateCompensated = ''compensated''"
| "saga_state_String SagaStateFailed = ''failed''"

(* src: app/common/tcc/saga_orchestrator.go:61-70 SagaExecution *)
record ('w, 'd) saga_execution =
  se_ID :: string
  se_Steps :: "('w, 'd) saga_step list"
  se_State :: saga_state
  se_StartTime :: gotime
  se_EndTime :: "gotime option"
  se_Error :: "err option"
  se_Compensated :: bool

(* src: app/common/tcc/saga_orchestrator.go:73-79 StateManager *)
record ('s, 'w, 'd) state_mgr =
  stm_SaveExecution :: "('w, 'd) saga_execution \<Rightarrow> 's \<Rightarrow> err option \<times> 's"
  stm_GetExecution :: "string \<Rightarrow> 's \<Rightarrow> err + ('w, 'd) saga_execution"
  stm_UpdateExecution :: "('w, 'd) saga_execution \<Rightarrow> 's \<Rightarrow> err option \<times> 's"
  stm_DeleteExecution :: "string \<Rightarrow> 's \<Rightarrow> err option \<times> 's"
  stm_ListExecutions :: "saga_state \<Rightarrow> 's \<Rightarrow> err + ('w, 'd) saga_execution list"

(* src: app/common/tcc/saga_orchestrator.go:82-89 SagaOrchestrator *)
record ('s, 'w, 'd) saga_orchestrator =
  so_steps :: "('w, 'd) saga_step list"
  so_compensations :: "('w, 'd) compensation_step list"
  so_stateManager :: "('s, 'w, 'd) state_mgr"
  so_timeout :: duration
  so_retryCount :: int

(* src: app/common/tcc/saga_orchestrator.go:92-98 NewSagaOrchestrator *)
definition NewSagaOrchestrator :: "('s, 'w, 'd) state_mgr \<Rightarrow> ('s, 'w, 'd) saga_orchestrator" where
  "NewSagaOrchestrator SM = \<lparr>so_steps = [], so_compensations = [], so_stateManager = SM,
     so_timeout = 30 * second, so_retryCount = 3\<rparr>"

(* src: app/common/tcc/saga_orchestrator.go:101-105 AddStep *)
definition so_AddStep :: "('w, 'd) saga_step \<Rightarrow> ('s, 'w, 'd) saga_orchestrator \<Rightarrow> ('s, 'w, 'd) saga_orchestrator" where
  "so_AddStep st so = so\<lparr>so_steps := so_steps so @ [st]\<rparr>"

(* src: app/common/tcc/saga_orchestrator.go:108-112 AddCompensation *)
definition so_AddCompensation :: "('w, 'd) compensation_step \<Rightarrow> ('s, 'w, 'd) saga_orchestrator \<Rightarrow> ('s, 'w, 'd) saga_orchestrator" where
  "so_AddCompensation c so = so\<lparr>so_compensations := so_compensations so @ [c]\<rparr>"

fun step_attempts :: "nat \<Rightarrow> ('w \<Rightarrow> err option \<times> 'w) \<Rightarrow> 'w \<Rightarrow> err option \<times> 'w" where
  "step_attempts 0 act w = (None, w)"
| "step_attempts (Suc n) act w =
     (case act w of
        (None, w') \<Rightarrow> (None, w')
      | (Some e, w') \<Rightarrow> if n = 0 then (Some e, w') else step_attempts n act w')"

(* src: app/common/tcc/saga_orchestrator.go:188-216 executeStep *)
definition executeStep :: "('w, 'd) saga_step \<Rightarrow> 'w \<Rightarrow> err option \<times> 'w" where
  "executeStep st w = step_attempts (nat (ss_RetryCount st + 1)) (ss_Action st (ss_Data st)) w"

text \<open>The compensation of a step: the first registered one with its ID, else the step's own.\<close>

(* src: app/common/tcc/saga_orchestrator.go:229-245 compensate (lookup) *)
definition compensation_of :: "('w, 'd) compensation_step list \<Rightarrow> ('w, 'd) saga_step \<Rightarrow> ('w \<Rightarrow> err option \<times> 'w) option" where
  "compensation_of cs st =
     (case find (\<lambda>c. cs_StepID c = ss_ID st) cs of
        Some c \<Rightarrow> Some (cs_Compensation c (cs_Data c))
      | None \<Rightarrow> map_option (\<lambda>f. f (ss_Data st)) (ss_Compensation st))"

fun compensate_loop :: "('w, 'd) compensation_step list \<Rightarrow> ('w, 'd) saga_step list \<Rightarrow> 'w \<Rightarrow> 'w" where
  "compensate_loop cs [] w = w"
| "compensate_loop cs (st # sts) w =
     compensate_loop cs sts (case compensation_of cs st of None \<Rightarrow> w | Some f \<Rightarrow> snd (f w))"

(* src: app/common/tcc/saga_orchestrator.go:219-258 compensate *)
definition saga_compensate :: "('s, 'w, 'd) saga_orchestrator \<Rightarrow> ('w, 'd) saga_step list \<Rightarrow> 'w \<Rightarrow> err option \<times> 'w" where
  "saga_compensate so executedSteps w = (None, compensate_loop (so_compensations so) (rev executedSteps) w)"

datatype ('w, 'd) steps_result =
  StepsDone | StepsCancelled err | StepsFailed err "('w, 'd) saga_step list"

(* src: app/common/tcc/saga_orchestrator.go:148-176 Execute (step loop) *)
fun run_steps :: "('w \<Rightarrow> err option) \<Rightarrow> ('w, 'd) saga_step list \<Rightarrow> ('w, 'd) saga_step list \<Rightarrow> 'w \<Rightarrow> ('w, 'd) steps_result \<times> 'w" where
  "run_steps ctxErr executed [] w = (StepsDone, w)"
| "run_steps ctxErr executed (st # sts) w =
     (case ctxErr w of
        Some e \<Rightarrow> (StepsCancelled e, w)
      | None \<Rightarrow>
          (case executeStep st w of
             (Some e, w') \<Rightarrow> (StepsFailed e executed, w')
           | (None, w') \<Rightarrow> run_steps ctxErr (executed @ [st]) sts w'))"

definition update_ignoring :: "('s, 'w, 'd) state_mgr \<Rightarrow> ('w, 'd) saga_execution \<Rightarrow> 's \<Rightarrow> 's" where
  "update_ignoring SM ex s = snd (stm_UpdateExecution SM ex s)"

(* src: app/common/tcc/saga_orchestrator.go:115-185 SagaOrchestrator.Execute *)
definition saga_Execute ::
    "gotime \<Rightarrow> gotime \<Rightarrow> ('w \<Rightarrow> err option) \<Rightarrow> ('s, 'w, 'd) saga_orchestrator \<Rightarrow> string \<Rightarrow> 's \<Rightarrow> 'w \<Rightarrow> err option \<times> 's \<times> 'w" where
  "saga_Execute start now ctxErr so sagaID s w =
     (let SM = so_stateManager so;
          ex = \<lparr>se_ID = sagaID, se_Steps = so_steps so, se_State = SagaStatePending, se_StartTime = start,
                se_EndTime = None, se_Error = None, se_Compensated = False\<rparr>
      in case stm_SaveExecution SM ex s of
           (Some e, s1) \<Rightarrow> (Some (''failed to save execution: '' @ e), s1, w)
         | (None, s1) \<Rightarrow>
             let ex1 = ex\<lparr>se_State := SagaStateRunning\<rparr> in
             (case stm_UpdateExecution SM ex1 s1 of
                (Some e, s2) \<Rightarrow> (Some (''failed to update execution state: '' @ e), s2, w)
              | (None, s2) \<Rightarrow>
                  (case run_steps ctxErr [] (so_steps so) w of
                     (StepsDone, w1) \<Rightarrow>
                       (None, update_ignoring SM (ex1\<lparr>se_State := SagaStateCompleted, se_EndTime := Some now\<rparr>) s2, w1)
                   | (StepsCancelled e, w1) \<Rightarrow>
                       (Some e, update_ignoring SM (ex1\<lparr>se_State := SagaStateFailed, se_Error := Some e\<rparr>) s2, w1)
                   | (StepsFailed e executed, w1) \<Rightarrow>
                       (let ex2 = ex1\<lparr>se_State := SagaStateFailed, se_Error := Some e\<rparr>;
                            s3 = update_ignoring SM ex2 s2
                        in case saga_compensate so executed w1 of
                             (Some ce, w2) \<Rightarrow>
                               (Some (''saga failed and compensation failed: '' @ e @ '', compensation error: '' @ ce), s3, w2)
                           | (None, w2) \<Rightarrow>
                               (Some e, update_ignoring SM (ex2\<lparr>se_State := SagaStateCompensated\<rparr>) s3, w2)))))"

(* src: app/common/tcc/saga_orchestrator.go:261-263 SagaOrchestrator.GetExecution *)
definition so_GetExecution :: "('s, 'w, 'd) saga_orchestrator \<Rightarrow> string \<Rightarrow> 's \<Rightarrow> err + ('w, 'd) saga_execution" where
  "so_GetExecution so i s = stm_GetExecution (so_stateManager so) i s"

(* src: app/common/tcc/saga_orchestrator.go:266-268 SagaOrchestrator.ListExecutions *)
definition so_ListExecutions :: "('s, 'w, 'd) saga_orchestrator \<Rightarrow> saga_state \<Rightarrow> 's \<Rightarrow> err + ('w, 'd) saga_execution list" where
  "so_ListExecutions so st s = stm_ListExecutions (so_stateManager so) st s"

(* src: app/common/tcc/saga_orchestrator.go:271-275 SagaOrchestrator.SetTimeout *)
definition so_SetTimeout :: "duration \<Rightarrow> ('s, 'w, 'd) saga_orchestrator \<Rightarrow> ('s, 'w, 'd) saga_orchestrator" where
  "so_SetTimeout t so = so\<lparr>so_timeout := t\<rparr>"

(* src: app/common/tcc/saga_orchestrator.go:278-282 SagaOrchestrator.SetRetryCount *)
definition so_SetRetryCount :: "int \<Rightarrow> ('s, 'w, 'd) saga_orchestrator \<Rightarrow> ('s, 'w, 'd) saga_orchestrator" where
  "so_SetRetryCount n so = so\<lparr>so_retryCount := n\<rparr>"

subsection \<open>The in-memory state manager\<close>

(* src: app/common/tcc/saga_orchestrator.go:285-288 MemoryStateManager *)
record ('w, 'd) memory_state =
  ms_executions :: "(string \<times> ('w, 'd) saga_execution) list"

(* src: app/common/tcc/saga_orchestrator.go:291-295 NewMemoryStateManager *)
definition NewMemoryStateManager :: "('w, 'd) memory_state" where
  "NewMemoryStateManager = \<lparr>ms_executions = []\<rparr>"

(* src: app/common/tcc/saga_orchestrator.go:298-303 MemoryStateManager.SaveExecution *)
definition ms_SaveExecution :: "('w, 'd) saga_execution \<Rightarrow> ('w, 'd) memory_state \<Rightarrow> err option \<times> ('w, 'd) memory_state" where
  "ms_SaveExecution ex s = (None, s\<lparr>ms_executions := AList.update (se_ID ex) ex (ms_executions s)\<rparr>)"

(* src: app/common/tcc/saga_orchestrator.go:306-314 MemoryStateManager.GetExecution *)
definition ms_GetExecution :: "string \<Rightarrow> ('w, 'd) memory_state \<Rightarrow> err + ('w, 'd) saga_execution" where
  "ms_GetExecution i s =
     (case map_of (ms_executions s) i of None \<Rightarrow> Inl (''execution not found: '' @ i) | Some ex \<Rightarrow> Inr ex)"

(* src: app/common/tcc/saga_orchestrator.go:317-322 MemoryStateManager.UpdateExecution *)
definition ms_UpdateExecution :: "('w, 'd) saga_execution \<Rightarrow> ('w, 'd) memory_state \<Rightarrow> err option \<times> ('w, 'd) memory_state" where
  "ms_UpdateExecution ex s = (None, s\<lparr>ms_executions := AList.update (se_ID ex) ex (ms_executions s)\<rparr>)"

(* src: app/common/tcc/saga_orchestrator.go:325-330 MemoryStateManager.DeleteExecution *)
definition ms_DeleteExecution :: "string \<Rightarrow> ('w, 'd) memory_state \<Rightarrow> err option \<times> ('w, 'd) memory_state" where
  "ms_DeleteExecution i s = (None, s\<lparr>ms_executions := AList.delete i (ms_executions s)\<rparr>)"

(* src: app/common/tcc/saga_orchestrator.go:333-345 MemoryStateManager.ListExecutions *)
definition ms_ListExecutions ::
    "(string \<times> ('w, 'd) saga_execution) range_order \<Rightarrow> saga_state \<Rightarrow> ('w, 'd) memory_state \<Rightarrow> err + ('w, 'd) saga_execution list" where
  "ms_ListExecutions ord st s = Inr (filter (\<lambda>ex. se_State ex = st) (map snd (ord (ms_executions s))))"

definition memory_mgr :: "(string \<times> ('w, 'd) saga_execution) range_order \<Rightarrow> (('w, 'd) memory_state, 'w, 'd) state_mgr" where
  "memory_mgr ord = \<lparr>stm_SaveExecution = ms_SaveExecution, stm_GetExecution = ms_GetExecution,
     stm_UpdateExecution = ms_UpdateExecution, stm_DeleteExecution = ms_DeleteExecution,
     stm_ListExecutions = ms_ListExecutions ord\<rparr>"

subsection \<open>The manager of orchestrators\<close>

(* src: app/common/tcc/saga_orchestrator.go:348-352 SagaManager *)
record ('s, 'w, 'd) saga_manager =
  sgm_orchestrators :: "(string \<times> ('s, 'w, 'd) saga_orchestrator) list"
  sgm_stateManager :: "('s, 'w, 'd) state_mgr"

(* src: app/common/tcc/saga_orchestrator.go:355-360 NewSagaManager *)
definition NewSagaManager :: "('s, 'w, 'd) state_mgr \<Rightarrow> ('s, 'w, 'd) saga_manager" where
  "NewSagaManager SM = \<lparr>sgm_orchestrators = [], sgm_stateManager = SM\<rparr>"

(* src: app/common/tcc/saga_orchestrator.go:363-367 RegisterOrchestrator *)
definition sgm_RegisterOrchestrator ::
    "string \<times> ('s, 'w, 'd) saga_orchestrator \<Rightarrow> ('s, 'w, 'd) saga_manager \<Rightarrow> ('s, 'w, 'd) saga_manager" where
  "sgm_RegisterOrchestrator e m = m\<lparr>sgm_orchestrators := AList.update (fst e) (snd e) (sgm_orchestrators m)\<rparr>"

(* src: app/common/tcc/saga_orchestrator.go:370-378 GetOrchestrator *)
definition sgm_GetOrchestrator :: "('s, 'w, 'd) saga_manager \<Rightarrow> string \<Rightarrow> err + ('s, 'w, 'd) saga_orchestrator" where
  "sgm_GetOrchestrator m n =
     (case map_of (sgm_orchestrators m) n of None \<Rightarrow> Inl (''orchestrator not found: '' @ n) | Some so \<Rightarrow> Inr so)"

(* src: app/common/tcc/saga_orchestrator.go:381-388 ExecuteSaga *)
definition sgm_ExecuteSaga ::
    "gotime \<Rightarrow> gotime \<Rightarrow> ('w \<Rightarrow> err option) \<Rightarrow> ('s, 'w, 'd) saga_manager \<Rightarrow> string \<Rightarrow> string \<Rightarrow> 's \<Rightarrow> 'w \<Rightarrow>
     err option \<times> 's \<times> 'w" where
  "sgm_ExecuteSaga start now ctxErr m n sagaID s w =
     (case sgm_GetOrchestrator m n of
        Inl e \<Rightarrow> (Some e, s, w)
      | Inr so \<Rightarrow> saga_Execute start now ctxErr so sagaID s w)"

(* src: app/common/tcc/saga_orchestrator.go:391-401 ListOrchestrators *)
definition sgm_ListOrchestrators ::
    "(string \<times> ('s, 'w, 'd) saga_orchestrator) range_order \<Rightarrow> ('s, 'w, 'd) saga_manager \<Rightarrow> string list" where
  "sgm_ListOrchestrators ord m = map fst (ord (sgm_orchestrators m))"

subsection \<open>Logged sagas\<close>

definition log_act :: "phase \<Rightarrow> string \<Rightarrow> ('w \<Rightarrow> err option \<times> 'w) \<Rightarrow> 'w logged \<Rightarrow> err option \<times> 'w logged" where
  "log_act ph i f wl = (fst (f (fst wl)), snd (f (fst wl)), snd wl @ [Call ph i (fst (f (fst wl)) = None)])"

definition spy_step :: "('w, 'd) saga_step \<Rightarrow> ('w logged, 'd) saga_step" where
  "spy_step st = \<lparr>ss_ID = ss_ID st, ss_Name = ss_Name st,
     ss_Action = (\<lambda>d. log_act PhaseTry (ss_ID st) (ss_Action st d)),
     ss_Compensation = map_option (\<lambda>f d. log_act PhaseCancel (ss_ID st) (f d)) (ss_Compensation st),
     ss_Timeout = ss_Timeout st, ss_RetryCount = ss_RetryCount st, ss_Data = ss_Data st\<rparr>"

definition spy_comp :: "('w, 'd) compensation_step \<Rightarrow> ('w logged, 'd) compensation_step" where
  "spy_comp c = \<lparr>cs_StepID = cs_StepID c,
     cs_Compensation = (\<lambda>d. log_act PhaseCancel (cs_StepID c) (cs_Compensation c d)), cs_Data = cs_Data c\<rparr>"

text \<open>The log of step actions with their outcomes, each retried within its own bound.\<close>

fun acts_log :: "(('w, 'd) saga_step \<times> bool) list \<Rightarrow> tcc_call list \<Rightarrow> bool" where
  "acts_log [] l \<longleftrightarrow> l = []"
| "acts_log ((st, ok) # sts) l \<longleftrightarrow>
     (\<exists>l1 l2. l = l1 @ l2 \<and> attempt_log PhaseTry (nat (ss_RetryCount st + 1)) (ss_ID st) ok l1 \<and> acts_log sts l2)"

definition with_outcome :: "bool \<Rightarrow> ('w, 'd) saga_step list \<Rightarrow> (('w, 'd) saga_step \<times> bool) list" where
  "with_outcome ok sts = map (\<lambda>st. (st, ok)) sts"

definition has_compensation :: "('w, 'd) compensation_step list \<Rightarrow> ('w, 'd) saga_step \<Rightarrow> bool" where
  "has_compensation cs st \<longleftrightarrow> compensation_of cs st \<noteq> None"

text \<open>A sample saga: the first step can be undone, the second one always fails.\<close>

definition sample_step :: "string \<Rightarrow> err option \<Rightarrow> (unit, unit) saga_step" where
  "sample_step i e = \<lparr>ss_ID = i, ss_Name = i, ss_Action = (\<lambda>_ w. (e, w)), ss_Compensation = Some (\<lambda>_ w. (Some ''lost'', w)),
     ss_Timeout = 0, ss_RetryCount = 1, ss_Data = ()\<rparr>"

definition sample_saga :: "((unit logged, unit) memory_state, unit logged, unit) saga_orchestrator" where
  "sample_saga = fold so_AddStep (map spy_step [sample_step ''pay'' None, sample_step ''ship'' (Some ''no stock'')])
     (NewSagaOrchestrator (memory_mgr (\<lambda>l. l)))"

interpretation sgr: name_registry "NewSagaManager SM" sgm_RegisterOrchestrator sgm_GetOrchestrator fst snd
  "\<lambda>n. ''orchestrator not found: '' @ n" for SM
  by unfold_locales
    (auto simp: NewSagaManager_def sgm_RegisterOrchestrator_def sgm_GetOrchestrator_def AList.update_conv')


subsection \<open>The state manager's contract\<close>

locale state_manager =
  fixes SM :: "('s, 'w, 'd) state_mgr"
  assumes save_ok: "fst (stm_SaveExecution SM ex s) = None"
    and get_save: "stm_GetExecution SM i (snd (stm_SaveExecution SM ex s)) =
          (if i = se_ID ex then Inr ex else stm_GetExecution SM i s)"
    and update_ok: "fst (stm_UpdateExecution SM ex s) = None"
    and get_update: "stm_GetExecution SM i (snd (stm_UpdateExecution SM ex s)) =
          (if i = se_ID ex then Inr ex else stm_GetExecution SM i s)"
begin

lemma execute_cases:
  assumes "so_stateManager so = SM" and "saga_Execute start now ctxErr so sagaID s w = (e, s', w')"
  shows "(\<exists>ex. so_GetExecution so sagaID s' = Inr ex \<and> se_ID ex = sagaID \<and>
     (case run_steps ctxErr [] (so_steps so) w of
        (StepsDone, w1) \<Rightarrow> e = None \<and> se_State ex = SagaStateCompleted \<and> w' = w1
      | (StepsCancelled er, w1) \<Rightarrow> e = Some er \<and> se_State ex = SagaStateFailed \<and> w' = w1
      | (StepsFailed er executed, w1) \<Rightarrow> e = Some er \<and> se_State ex = SagaStateCompensated
          \<and> w' = compensate_loop (so_compensations so) (rev executed) w1))
   \<and> (\<forall>i. i \<noteq> sagaID \<longrightarrow> so_GetExecution so i s' = so_GetExecution so i s)"
  using assms(2)
  by (auto simp: saga_Execute_def assms(1) so_GetExecution_def update_ignoring_def saga_compensate_def Let_def
      save_ok update_ok get_save get_update case_prod_beta split: steps_result.splits)

end

interpretation mem: state_manager "memory_mgr ord" for ord
  by unfold_locales
    (simp_all add: memory_mgr_def ms_SaveExecution_def ms_UpdateExecution_def ms_GetExecution_def AList.update_conv')

subsection \<open>What a saga logs\<close>

lemma spy_step_simps [simp]:
  "ss_ID (spy_step st) = ss_ID st" "ss_RetryCount (spy_step st) = ss_RetryCount st" "ss_Data (spy_step st) = ss_Data st"
  "ss_Action (spy_step st) d = log_act PhaseTry (ss_ID st) (ss_Action st d)"
  by (simp_all add: spy_step_def)

lemma step_attempts_log:
  assumes "0 < n"
  shows "\<exists>w' evs. snd (step_attempts n (log_act ph i f) (w, l)) = (w', l @ evs)
     \<and> attempt_log ph n i (fst (step_attempts n (log_act ph i f) (w, l)) = None) evs"
  using assms
proof (induction n arbitrary: w l)
  case (Suc n)
  show ?case
  proof (cases "fst (f w) = None \<or> n = 0")
    case True
    then show ?thesis by (auto simp: log_act_def attempt_log_def split: option.split intro!: exI [of _ 0])
  next
    case False
    let ?l = "l @ [Call ph i False]"
    from False Suc.IH [of "snd (f w)" ?l] obtain w' evs where
      ih: "snd (step_attempts n (log_act ph i f) (snd (f w), ?l)) = (w', ?l @ evs)"
        "attempt_log ph n i (fst (step_attempts n (log_act ph i f) (snd (f w), ?l)) = None) evs" by blast
    have step: "step_attempts (Suc n) (log_act ph i f) (w, l) = step_attempts n (log_act ph i f) (snd (f w), ?l)"
      using False by (auto simp: log_act_def split: option.split)
    have "attempt_log ph (Suc n) i b (Call ph i False # evs)" if "attempt_log ph n i b evs" for b
      using that by (auto simp: attempt_log_def split: if_splits)
    with ih show ?thesis unfolding step by (intro exI [of _ w'] exI [of _ "Call ph i False # evs"]) simp
  qed
qed simp

lemma acts_log_ConsI:
  "attempt_log PhaseTry (nat (ss_RetryCount st + 1)) (ss_ID st) ok l1 \<Longrightarrow> acts_log sts l2 \<Longrightarrow>
   acts_log ((st, ok) # sts) (l1 @ l2)"
  by auto

lemma run_steps_log:
  assumes "\<forall>st \<in> set sts. 0 \<le> ss_RetryCount st" and "run_steps ctxErr executed (map spy_step sts) (w, l) = (r, w', l')"
  shows "\<exists>evs. l' = l @ evs \<and>
     (case r of
        StepsDone \<Rightarrow> acts_log (with_outcome True sts) evs
      | StepsCancelled e \<Rightarrow> \<exists>pre post. sts = pre @ post \<and> post \<noteq> [] \<and> acts_log (with_outcome True pre) evs
      | StepsFailed e ex \<Rightarrow> \<exists>pre st post. sts = pre @ st # post \<and> ex = executed @ map spy_step pre
          \<and> acts_log (with_outcome True pre @ [(st, False)]) evs)"
  using assms
proof (induction sts arbitrary: executed w l)
  case Nil
  then show ?case by (auto simp: with_outcome_def)
next
  case (Cons st sts)
  show ?case
  proof (cases "ctxErr (w, l)")
    case (Some e)
    then have r: "r = StepsCancelled e" "l' = l" using Cons.prems(2) by auto
    show ?thesis unfolding r steps_result.case
      by (rule exI [of _ "[]"], rule conjI, simp, rule exI [of _ "[]"], rule exI [of _ "st # sts"])
         (simp add: with_outcome_def)
  next
    case None
    let ?n = "nat (ss_RetryCount st + 1)"
    have n: "0 < ?n" using Cons.prems(1) by simp
    obtain e w1 evs where x: "executeStep (spy_step st) (w, l) = (e, w1, l @ evs)"
      and a: "attempt_log PhaseTry ?n (ss_ID st) (e = None) evs"
      using step_attempts_log [OF n, of PhaseTry "ss_ID st" "ss_Action st (ss_Data st)" w l]
      by (auto simp: executeStep_def prod_eq_iff)
    show ?thesis
    proof (cases e)
      case None': (Some er)
      have r: "r = StepsFailed er executed" "l' = l @ evs" using Cons.prems(2) None x None' by auto
      have "acts_log (with_outcome True [] @ [(st, False)]) evs" using a None' by (simp add: with_outcome_def)
      then show ?thesis unfolding r steps_result.case
        by (intro exI [of _ evs] conjI refl exI [of _ "[]"] exI [of _ st] exI [of _ sts]) simp_all
    next
      case None': None
      have run: "run_steps ctxErr (executed @ [spy_step st]) (map spy_step sts) (w1, l @ evs) = (r, w', l')"
        using Cons.prems(2) None x None' by simp
      have "\<forall>st \<in> set sts. 0 \<le> ss_RetryCount st" using Cons.prems(1) by simp
      from Cons.IH [OF this run] obtain evs' where l': "l' = (l @ evs) @ evs'" and alt:
        "case r of
           StepsDone \<Rightarrow> acts_log (with_outcome True sts) evs'
         | StepsCancelled e \<Rightarrow> \<exists>pre post. sts = pre @ post \<and> post \<noteq> [] \<and> acts_log (with_outcome True pre) evs'
         | StepsFailed e ex \<Rightarrow> \<exists>pre st' post. sts = pre @ st' # post \<and> ex = (executed @ [spy_step st]) @ map spy_step pre
             \<and> acts_log (with_outcome True pre @ [(st', False)]) evs'" by blast
      have a1: "attempt_log PhaseTry ?n (ss_ID st) True evs" using a None' by simp
      note cons = acts_log_ConsI [OF a1]
      show ?thesis
      proof (rule exI [of _ "evs @ evs'"], intro conjI)
        show "l' = l @ evs @ evs'" using l' by simp
        show "case r of
           StepsDone \<Rightarrow> acts_log (with_outcome True (st # sts)) (evs @ evs')
         | StepsCancelled e \<Rightarrow> \<exists>pre post. st # sts = pre @ post \<and> post \<noteq> [] \<and> acts_log (with_outcome True pre) (evs @ evs')
         | StepsFailed e ex \<Rightarrow> \<exists>pre st' post. st # sts = pre @ st' # post \<and> ex = executed @ map spy_step pre
             \<and> acts_log (with_outcome True pre @ [(st', False)]) (evs @ evs')"
        proof (cases r)
          case StepsDone
          with alt cons [of "with_outcome True sts" evs'] show ?thesis by (simp add: with_outcome_def)
        next
          case (StepsCancelled e)
          with alt obtain pre post where "sts = pre @ post" "post \<noteq> []" "acts_log (with_outcome True pre) evs'" by auto
          with cons [of "with_outcome True pre" evs'] StepsCancelled show ?thesis
            by (simp del: acts_log.simps) (rule exI [of _ "st # pre"], simp add: with_outcome_def)
        next
          case (StepsFailed e ex)
          with alt obtain pre st' post where "sts = pre @ st' # post" "ex = (executed @ [spy_step st]) @ map spy_step pre"
            "acts_log (with_outcome True pre @ [(st', False)]) evs'" by auto
          with cons [of "with_outcome True pre @ [(st', False)]" evs'] StepsFailed show ?thesis
            by (simp del: acts_log.simps) (rule exI [of _ "st # pre"], rule exI [of _ st'], simp add: with_outcome_def)
        qed
      qed
    qed
  qed
qed

lemma compensation_of_spy:
  "compensation_of (map spy_comp cs) (spy_step st) =
     map_option (\<lambda>f. log_act PhaseCancel (ss_ID st) f) (compensation_of cs st)"
proof -
  have f: "find (\<lambda>c. cs_StepID c = i) (map spy_comp cs) = map_option spy_comp (find (\<lambda>c. cs_StepID c = i) cs)" for i
    by (induction cs) (simp_all add: spy_comp_def)
  show ?thesis
  proof (cases "find (\<lambda>c. cs_StepID c = ss_ID st) cs")
    case None
    then show ?thesis by (simp add: compensation_of_def f spy_step_def option.map_comp comp_def)
  next
    case (Some c)
    from find_SomeD [OF this] have "cs_StepID c = ss_ID st" by simp
    with Some show ?thesis by (simp add: compensation_of_def f spy_comp_def)
  qed
qed

lemma compensate_loop_log:
  "\<exists>w' oks. compensate_loop (map spy_comp cs) (map spy_step sts) (w, l) =
       (w', l @ map2 (\<lambda>st ok. Call PhaseCancel (ss_ID st) ok) (filter (has_compensation cs) sts) oks)
     \<and> length oks = length (filter (has_compensation cs) sts)"
proof (induction sts arbitrary: w l)
  case (Cons st sts)
  show ?case
  proof (cases "compensation_of cs st")
    case None
    then show ?thesis using Cons.IH [of w l] by (simp add: compensation_of_spy has_compensation_def)
  next
    case (Some f)
    then have hc: "has_compensation cs st" by (simp add: has_compensation_def)
    let ?l = "l @ [Call PhaseCancel (ss_ID st) (fst (f w) = None)]"
    from Cons.IH [of "snd (f w)" ?l] obtain w' oks where
      "compensate_loop (map spy_comp cs) (map spy_step sts) (snd (f w), ?l) =
         (w', ?l @ map2 (\<lambda>st ok. Call PhaseCancel (ss_ID st) ok) (filter (has_compensation cs) sts) oks)"
      "length oks = length (filter (has_compensation cs) sts)" by blast
    then show ?thesis
      by (intro exI [of _ w'] exI [of _ "(fst (f w) = None) # oks"])
         (simp add: compensation_of_spy Some hc log_act_def)
  qed
qed simp

subsection \<open>Properties\<close>



end
