(* ===== verification/Base64.thy ===== *)
theory Base64
  imports Go_Strings
begin

text \<open>
  What the code uses of Go's package \<^verbatim>\<open>encoding/base64\<close>: the standard alphabet with padding. The decoder skips
  carriage returns and line feeds and, as \<^verbatim>\<open>StdEncoding\<close> is not strict, ignores the unused bits of the last group.
\<close>

section \<open>Model\<close>

definition alphabet :: string where
  "alphabet = ''ABCDEFGHIJKLMNOPQRSTUVWXYZabcdefghijklmnopqrstuvwxyz0123456789+/''"

definition b64_char :: "nat \<Rightarrow> char" where
  "b64_char n = alphabet ! n"

definition b64_value :: "char \<Rightarrow> nat option" where
  "b64_value c = map_of (zip alphabet [0..<64]) c"

fun encode_bytes :: "nat list \<Rightarrow> string" where
  "encode_bytes (a # b # c # rest) =
     [b64_char (a div 4), b64_char (a mod 4 * 16 + b div 16), b64_char (b mod 16 * 4 + c div 64), b64_char (c mod 64)]
     @ encode_bytes rest"
| "encode_bytes [a, b] = [b64_char (a div 4), b64_char (a mod 4 * 16 + b div 16), b64_char (b mod 16 * 4), CHR ''='']"
| "encode_bytes [a] = [b64_char (a div 4), b64_char (a mod 4 * 16), CHR ''='', CHR ''='']"
| "encode_bytes [] = []"

fun decode_groups :: "string \<Rightarrow> nat list option" where
  "decode_groups [] = Some []"
| "decode_groups (w # x # y # z # rest) =
     (case (b64_value w, b64_value x) of
        (Some p, Some q) \<Rightarrow>
          (case b64_value y of
             None \<Rightarrow> if y = CHR ''='' \<and> z = CHR ''='' \<and> rest = [] then Some [p * 4 + q div 16] else None
           | Some r \<Rightarrow>
               (case b64_value z of
                  None \<Rightarrow> if z = CHR ''='' \<and> rest = [] then Some [p * 4 + q div 16, q mod 16 * 16 + r div 4] else None
                | Some s \<Rightarrow>
                    map_option (\<lambda>bs. [p * 4 + q div 16, q mod 16 * 16 + r div 4, r mod 4 * 64 + s] @ bs) (decode_groups rest)))
      | _ \<Rightarrow> None)"
| "decode_groups _ = None"

definition EncodeToString :: "string \<Rightarrow> string" where
  "EncodeToString s = encode_bytes (map of_char s)"

definition DecodeString :: "string \<Rightarrow> err + string" where
  "DecodeString s =
     (case decode_groups (filter (\<lambda>c. c \<noteq> CHR 0x0A \<and> c \<noteq> CHR 0x0D) s) of
        None \<Rightarrow> Inl ''illegal base64 data'' | Some bs \<Rightarrow> Inr (map char_of bs))"

section \<open>Round trip\<close>

lemma length_alphabet: "length alphabet = 64"
  by (simp add: alphabet_def)

lemma distinct_alphabet: "distinct alphabet"
  by (simp add: alphabet_def)

lemma b64_value_char: "n < 64 \<Longrightarrow> b64_value (b64_char n) = Some n"
  unfolding b64_value_def b64_char_def
  by (rule map_of_is_SomeI) (simp_all add: length_alphabet distinct_alphabet in_set_zip exI [of _ n])

lemma b64_value_pad: "b64_value (CHR ''='') = None"
proof -
  have "CHR ''='' \<notin> set alphabet" by (simp add: alphabet_def)
  then show ?thesis by (simp add: b64_value_def map_of_zip_is_None length_alphabet)
qed

lemma b64_char_in: "n < 64 \<Longrightarrow> b64_char n \<in> set alphabet"
  by (simp add: b64_char_def length_alphabet)

lemma six_bits:
  fixes a b :: nat
  assumes "a < 256" and "b < 256"
  shows "a div 4 < 64" "a mod 4 * 16 + b div 16 < 64" "a mod 16 * 4 + b div 64 < 64" "a mod 4 * 16 < 64" "a mod 16 * 4 < 64"
    "a mod 64 < 64"
proof -
  have "a mod 4 < 4" "a mod 16 < 16" "b div 16 < 16" "b div 64 < 4" using assms by (simp_all add: less_mult_imp_div_less)
  then show "a div 4 < 64" "a mod 4 * 16 + b div 16 < 64" "a mod 16 * 4 + b div 64 < 64" "a mod 4 * 16 < 64"
    "a mod 16 * 4 < 64" "a mod 64 < 64"
    using assms by (simp_all add: less_mult_imp_div_less) (linarith+)?
qed

lemma regroup:
  fixes a b c :: nat
  assumes "a < 256" and "b < 256" and "c < 256"
  shows "a div 4 * 4 + (a mod 4 * 16 + b div 16) div 16 = a"
    and "(a mod 4 * 16 + b div 16) mod 16 * 16 + (b mod 16 * 4 + c div 64) div 4 = b"
    and "(b mod 16 * 4 + c div 64) mod 4 * 64 + c mod 64 = c"
    and "a div 4 * 4 + (a mod 4 * 16) div 16 = a"
    and "(a mod 4 * 16 + b div 16) mod 16 * 16 + (b mod 16 * 4) div 4 = b"
proof -
  have b: "b div 16 < 16" and c: "c div 64 < 4" using assms by (simp_all add: less_mult_imp_div_less)
  show "a div 4 * 4 + (a mod 4 * 16 + b div 16) div 16 = a" "a div 4 * 4 + (a mod 4 * 16) div 16 = a"
    using b by simp_all
  show "(a mod 4 * 16 + b div 16) mod 16 * 16 + (b mod 16 * 4 + c div 64) div 4 = b"
    "(a mod 4 * 16 + b div 16) mod 16 * 16 + (b mod 16 * 4) div 4 = b"
    using b c by simp_all
  show "(b mod 16 * 4 + c div 64) mod 4 * 64 + c mod 64 = c" using c by simp
qed

lemma decode_encode_bytes: "list_all (\<lambda>b. b < 256) bs \<Longrightarrow> decode_groups (encode_bytes bs) = Some bs"
proof (induction bs rule: encode_bytes.induct)
  case (1 a b c rest)
  then have "a < 256" "b < 256" "c < 256" by simp_all
  with 1 show ?case by (simp add: b64_value_char six_bits regroup)
next
  case (2 a b)
  then have "a < 256" "b < 256" by simp_all
  then show ?case by (simp add: b64_value_char b64_value_pad six_bits regroup)
next
  case (3 a)
  then have "a < 256" by simp
  then show ?case by (simp add: b64_value_char b64_value_pad six_bits regroup)
qed simp

lemma encode_bytes_chars: "list_all (\<lambda>b. b < 256) bs \<Longrightarrow> set (encode_bytes bs) \<subseteq> insert (CHR ''='') (set alphabet)"
proof (induction bs rule: encode_bytes.induct)
  case (1 a b c rest)
  then have "a < 256" "b < 256" "c < 256" by simp_all
  with 1 show ?case by (simp add: b64_char_in six_bits)
next
  case (2 a b)
  then have "a < 256" "b < 256" by simp_all
  then show ?case by (simp add: b64_char_in six_bits)
next
  case (3 a)
  then have "a < 256" by simp
  then show ?case by (simp add: b64_char_in six_bits)
qed simp

lemma bytes_small: "list_all (\<lambda>b. b < 256) (map of_char s :: nat list)"
  by (simp add: list_all_iff)

lemma EncodeToString_chars: "set (EncodeToString s) \<subseteq> insert (CHR ''='') (set alphabet)"
  unfolding EncodeToString_def by (rule encode_bytes_chars [OF bytes_small])

lemma EncodeToString_no_colon: "CHR '':'' \<notin> set (EncodeToString s)"
proof -
  have "CHR '':'' \<notin> insert (CHR ''='') (set alphabet)" by (simp add: alphabet_def)
  with EncodeToString_chars show ?thesis by blast
qed

lemma DecodeString_Encode: "DecodeString (EncodeToString s) = Inr s"
proof -
  have "CHR 0x0A \<notin> insert (CHR ''='') (set alphabet)" "CHR 0x0D \<notin> insert (CHR ''='') (set alphabet)"
    by (simp_all add: alphabet_def)
  then have "filter (\<lambda>c. c \<noteq> CHR 0x0A \<and> c \<noteq> CHR 0x0D) (EncodeToString s) = EncodeToString s"
    using EncodeToString_chars [of s] by (auto simp: filter_id_conv)
  then show ?thesis
    by (simp add: DecodeString_def EncodeToString_def decode_encode_bytes [OF bytes_small] comp_def)
qed

end
