(* ===== verification/Encryption.thy ===== *)
theory Encryption
  imports Base64
begin

text \<open>
  Encryption: the process-wide keys and the AES-GCM and CBC routines of \<^verbatim>\<open>src/utils/encryption.go\<close>, and the field
  encryption of \<^verbatim>\<open>src/app/common/security/data_encryption.go\<close>.

  A byte string is a \<open>string\<close>. The block cipher is a parameter: \<open>gcm_seal\<close> is what \<^verbatim>\<open>gcm.Seal\<close> appends to its first argument,
  \<open>gcm_open\<close> what \<^verbatim>\<open>gcm.Open\<close> returns, \<open>cbc_encrypt\<close> and \<open>cbc_decrypt\<close> are \<^verbatim>\<open>CryptBlocks\<close>; \<open>gcm_laws\<close> states what GCM is: opening
  undoes sealing, only a sealed text opens, and the tag is 16 bytes. Keys of other lengths than 16, 24 and 32 are refused,
  wrong nonce lengths and incomplete blocks are panics. Random bytes are arguments.

  The file declares \<^verbatim>\<open>AesEncoding\<close> and \<^verbatim>\<open>AesDecoding\<close> twice; the first pair uses a field \<^verbatim>\<open>key\<close> that \<^verbatim>\<open>Encryption\<close> does
  not have. The second pair is modelled.
\<close>

section \<open>Model\<close>

record aes_lib =
  gcm_seal :: "string \<Rightarrow> string \<Rightarrow> string \<Rightarrow> string"
  gcm_open :: "string \<Rightarrow> string \<Rightarrow> string \<Rightarrow> err + string"
  cbc_encrypt :: "string \<Rightarrow> string \<Rightarrow> string \<Rightarrow> string"
  cbc_decrypt :: "string \<Rightarrow> string \<Rightarrow> string \<Rightarrow> string"

definition gcm_laws :: "aes_lib \<Rightarrow> bool" where
  "gcm_laws A \<longleftrightarrow>
     (\<forall>key nonce p. gcm_open A key nonce (gcm_seal A key nonce p) = Inr p)
     \<and> (\<forall>key nonce c p. gcm_open A key nonce c = Inr p \<longrightarrow> c = gcm_seal A key nonce p)
     \<and> (\<forall>key nonce p. length (gcm_seal A key nonce p) = length p + 16)"

text \<open>\<^verbatim>\<open>aes.NewCipher\<close>: the error for a key of a wrong length.\<close>

definition cipher_error :: "string \<Rightarrow> err option" where
  "cipher_error key = (if length key \<in> {16, 24, 32} then None else Some (''crypto/aes: invalid key size '' @ decimal (length key)))"

subsection \<open>Keys\<close>

(* src: utils/encryption.go:24-28 CryptoKeyManager *)
record crypto_key_manager =
  ck_keys :: "string \<rightharpoonup> string"
  ck_currentKeyID :: string

text \<open>\<open>viper k\<close> is \<^verbatim>\<open>viper.GetString(k)\<close>, empty when unset; \<open>random\<close> the 32 bytes drawn, or the error of the source.\<close>

definition ToUpper :: "string \<Rightarrow> string" where
  "ToUpper s = map (\<lambda>c. if 97 \<le> (of_char c :: nat) \<and> (of_char c :: nat) \<le> 122 then char_of (of_char c - 32 :: nat) else c) s"

(* src: utils/encryption.go:69-83 generateOrGetKey *)
definition generateOrGetKey :: "(string \<Rightarrow> string) \<Rightarrow> err + string \<Rightarrow> string \<Rightarrow> string go_result" where
  "generateOrGetKey viper random keyID =
     (let envKey = viper (''CRYPTO_KEY_'' @ ToUpper keyID)
      in if envKey \<noteq> [] then Returns envKey
         else case random of
           Inl e \<Rightarrow> Panics (utf8 [0xE7, 0x94, 0x9F, 0xE6, 0x88, 0x90, 0xE5, 0x8A, 0xA0, 0xE5, 0xAF, 0x86, 0xE5, 0xAF, 0x86,
                                0xE9, 0x92, 0xA5, 0xE5, 0xA4, 0xB1, 0xE8, 0xB4, 0xA5, 0x3A, 0x20] @ e)
         | Inr key \<Rightarrow> Returns key)"

(* src: utils/encryption.go:52-66 loadCryptoKeys *)
definition loadCryptoKeys :: "(string \<Rightarrow> string) \<Rightarrow> err + string \<Rightarrow> crypto_key_manager \<Rightarrow> crypto_key_manager go_result" where
  "loadCryptoKeys viper random m =
     (let keyVersion = (if viper ''crypto.keyVersion'' = [] then ''v1'' else viper ''crypto.keyVersion'')
      in case generateOrGetKey viper random keyVersion of
           Panics e \<Rightarrow> Panics e
         | Returns key \<Rightarrow> Returns \<lparr> ck_keys = (ck_keys m)(keyVersion \<mapsto> key), ck_currentKeyID = keyVersion \<rparr>)"

(* src: utils/encryption.go:42-49 initCryptoKeyManager *)
definition initCryptoKeyManager :: "(string \<Rightarrow> string) \<Rightarrow> err + string \<Rightarrow> crypto_key_manager go_result" where
  "initCryptoKeyManager viper random = loadCryptoKeys viper random \<lparr> ck_keys = Map.empty, ck_currentKeyID = [] \<rparr>"

(* src: utils/encryption.go:273-283 Encryption.getCurrentKey *)
definition getCurrentKey :: "crypto_key_manager \<Rightarrow> err + string \<times> string" where
  "getCurrentKey m =
     (case ck_keys m (ck_currentKeyID m) of
        None \<Rightarrow> Inl (utf8 [0xE5, 0xBD, 0x93, 0xE5, 0x89, 0x8D, 0xE5, 0xAF, 0x86, 0xE9, 0x92, 0xA5, 0x49, 0x44, 0x20]
                     @ ck_currentKeyID m @ utf8 [0x20, 0xE4, 0xB8, 0x8D, 0xE5, 0xAD, 0x98, 0xE5, 0x9C, 0xA8])
      | Some key \<Rightarrow> Inr (key, ck_currentKeyID m))"

(* src: utils/encryption.go:286-296 Encryption.getKeyByID *)
definition getKeyByID :: "string \<Rightarrow> crypto_key_manager \<Rightarrow> err + string" where
  "getKeyByID keyID m =
     (case ck_keys m keyID of
        None \<Rightarrow> Inl (utf8 [0xE5, 0xAF, 0x86, 0xE9, 0x92, 0xA5, 0x49, 0x44, 0x20] @ keyID
                     @ utf8 [0x20, 0xE4, 0xB8, 0x8D, 0xE5, 0xAD, 0x98, 0xE5, 0x9C, 0xA8])
      | Some key \<Rightarrow> Inr key)"

(* src: utils/encryption.go:299-305 Encryption.UpdateKeys *)
definition crypto_UpdateKeys :: "(string \<rightharpoonup> string) \<Rightarrow> string \<Rightarrow> crypto_key_manager \<Rightarrow> crypto_key_manager" where
  "crypto_UpdateKeys keys currentKeyID m = \<lparr> ck_keys = keys, ck_currentKeyID = currentKeyID \<rparr>"

(* src: utils/encryption.go:308-312 Encryption.GetCurrentKeyID *)
definition crypto_GetCurrentKeyID :: "crypto_key_manager \<Rightarrow> string" where
  "crypto_GetCurrentKeyID m = ck_currentKeyID m"

(* src: utils/encryption.go:377-383 Encryption.SetKey *)
definition crypto_SetKey :: "string \<Rightarrow> crypto_key_manager \<Rightarrow> crypto_key_manager" where
  "crypto_SetKey key m = m\<lparr> ck_keys := (ck_keys m)(ck_currentKeyID m \<mapsto> key) \<rparr>"

subsection \<open>Padding and CBC\<close>

(* src: utils/encryption.go:92-105 UnPadPwd *)
definition UnPadPwd :: "string \<Rightarrow> (string \<times> err option) go_result" where
  "UnPadPwd dst =
     (if dst = [] then Panics ''runtime error: index out of range [-1]''
      else let unpadNum = (of_char (dst ! (length dst - 1)) :: nat)
           in if length dst < unpadNum then Returns (''error'', None)
              else Returns (take (length dst - unpadNum) dst, None))"

(* src: utils/encryption.go:107-111 pkcs7Padding *)
definition pkcs7Padding :: "string \<Rightarrow> nat \<Rightarrow> string" where
  "pkcs7Padding data blockSize =
     (let padding = blockSize - length data mod blockSize in data @ replicate padding (char_of padding))"

(* src: utils/encryption.go:129-134 PadPwd *)
definition PadPwd :: "string \<Rightarrow> nat \<Rightarrow> string" where
  "PadPwd srcByte blockSize =
     (let padNum = blockSize - length srcByte mod blockSize in srcByte @ replicate padNum (char_of padNum))"

definition zero_iv :: string where
  "zero_iv = replicate 16 (char_of (0::nat))"

(* src: utils/encryption.go:113-126 encrypt *)
definition cbc_encrypt_message :: "aes_lib \<Rightarrow> string \<Rightarrow> string \<Rightarrow> string go_result" where
  "cbc_encrypt_message A message key =
     (case cipher_error key of
        Some e \<Rightarrow> Panics e
      | None \<Rightarrow> Returns (EncodeToString (cbc_encrypt A key zero_iv (pkcs7Padding message 16))))"

(* src: utils/encryption.go:340-374 Encryption.legacyAesDecoding *)
definition legacyAesDecoding :: "aes_lib \<Rightarrow> crypto_key_manager \<Rightarrow> string \<Rightarrow> (err option \<times> string) go_result" where
  "legacyAesDecoding A m pwd =
     (case DecodeString pwd of
        Inl e \<Rightarrow> Returns (Some e, pwd)
      | Inr pwdByte \<Rightarrow>
          (case getCurrentKey m of
             Inl e \<Rightarrow> Returns (Some e, pwd)
           | Inr (key, _) \<Rightarrow>
               (case cipher_error key of
                  Some e \<Rightarrow> Returns (Some e, pwd)
                | None \<Rightarrow>
                    if length pwdByte < 16
                      then Returns (Some (utf8 [0xE5, 0xAF, 0x86, 0xE6, 0x96, 0x87, 0xE9, 0x95, 0xBF, 0xE5, 0xBA, 0xA6,
                                                0xE6, 0x9C, 0x89, 0xE8, 0xAF, 0xAF]), pwd)
                    else if length pwdByte mod 16 \<noteq> 0 then Panics ''crypto/cipher: input not full blocks''
                    else (case UnPadPwd (cbc_decrypt A key zero_iv pwdByte) of
                            Panics e \<Rightarrow> Panics e
                          | Returns (dst, Some e) \<Rightarrow> Returns (Some e, [])
                          | Returns (dst, None) \<Rightarrow> Returns (None, dst)))))"

subsection \<open>GCM\<close>

text \<open>\<open>nonce\<close> are the bytes drawn for the nonce, or the error of the source. The result of \<^verbatim>\<open>Seal\<close> starts with the nonce.\<close>

(* src: utils/encryption.go:183-216 Encryption.AesGCMEncrypt *)
definition AesGCMEncrypt :: "aes_lib \<Rightarrow> crypto_key_manager \<Rightarrow> err + string \<Rightarrow> string \<Rightarrow> err + string" where
  "AesGCMEncrypt A m nonce plaintext =
     (case getCurrentKey m of
        Inl e \<Rightarrow> Inl (utf8 [0xE8, 0x8E, 0xB7, 0xE5, 0x8F, 0x96, 0xE5, 0x8A, 0xA0, 0xE5, 0xAF, 0x86, 0xE5, 0xAF, 0x86, 0xE9,
                           0x92, 0xA5, 0xE5, 0xA4, 0xB1, 0xE8, 0xB4, 0xA5, 0x3A, 0x20] @ e)
      | Inr (key, keyID) \<Rightarrow>
          (case cipher_error key of
             Some e \<Rightarrow> Inl (utf8 [0xE5, 0x88, 0x9B, 0xE5, 0xBB, 0xBA, 0x41, 0x45, 0x53, 0x20, 0x63, 0x69, 0x70, 0x68, 0x65,
                                 0x72, 0xE5, 0xA4, 0xB1, 0xE8, 0xB4, 0xA5, 0x3A, 0x20] @ e)
           | None \<Rightarrow>
               (case nonce of
                  Inl e \<Rightarrow> Inl (utf8 [0xE7, 0x94, 0x9F, 0xE6, 0x88, 0x90, 0x6E, 0x6F, 0x6E, 0x63, 0x65, 0xE5, 0xA4, 0xB1,
                                     0xE8, 0xB4, 0xA5, 0x3A, 0x20] @ e)
                | Inr n \<Rightarrow>
                    let ciphertext = n @ gcm_seal A key n plaintext
                    in Inr (''v'' @ keyID @ '':'' @ EncodeToString n @ '':'' @ EncodeToString ciphertext))))"

definition TrimPrefix :: "string \<Rightarrow> string \<Rightarrow> string" where
  "TrimPrefix s p = (if strings_HasPrefix s p then drop (length p) s else s)"

(* src: utils/encryption.go:219-270 Encryption.AesGCMDecrypt *)
definition AesGCMDecrypt :: "aes_lib \<Rightarrow> crypto_key_manager \<Rightarrow> string \<Rightarrow> (err + string) go_result" where
  "AesGCMDecrypt A m encrypted =
     (case strings_Split (CHR '':'') encrypted of
        [kid, nonceB64, ciphertextB64] \<Rightarrow>
          (case (case getKeyByID (TrimPrefix kid ''v'') m of
                   Inr key \<Rightarrow> Inr key
                 | Inl _ \<Rightarrow> (case getCurrentKey m of Inl e \<Rightarrow> Inl e | Inr (key, _) \<Rightarrow> Inr key)) of
             Inl e \<Rightarrow> Returns (Inl (utf8 [0xE8, 0x8E, 0xB7, 0xE5, 0x8F, 0x96, 0xE8, 0xA7, 0xA3, 0xE5, 0xAF, 0x86, 0xE5, 0xAF,
                                         0x86, 0xE9, 0x92, 0xA5, 0xE5, 0xA4, 0xB1, 0xE8, 0xB4, 0xA5, 0x3A, 0x20] @ e))
           | Inr key \<Rightarrow>
               (case (DecodeString nonceB64, DecodeString ciphertextB64) of
                  (Inl e, _) \<Rightarrow> Returns (Inl (utf8 [0xE8, 0xA7, 0xA3, 0xE7, 0xA0, 0x81, 0x6E, 0x6F, 0x6E, 0x63, 0x65, 0xE5,
                                                   0xA4, 0xB1, 0xE8, 0xB4, 0xA5, 0x3A, 0x20] @ e))
                | (Inr _, Inl e) \<Rightarrow> Returns (Inl (utf8 [0xE8, 0xA7, 0xA3, 0xE7, 0xA0, 0x81, 0xE5, 0xAF, 0x86, 0xE6, 0x96, 0x87,
                                                   0xE5, 0xA4, 0xB1, 0xE8, 0xB4, 0xA5, 0x3A, 0x20] @ e))
                | (Inr nonce, Inr ciphertext) \<Rightarrow>
                    (case cipher_error key of
                       Some e \<Rightarrow> Returns (Inl (utf8 [0xE5, 0x88, 0x9B, 0xE5, 0xBB, 0xBA, 0x41, 0x45, 0x53, 0x20, 0x63, 0x69,
                                 0x70, 0x68, 0x65, 0x72, 0xE5, 0xA4, 0xB1, 0xE8, 0xB4, 0xA5, 0x3A, 0x20] @ e))
                     | None \<Rightarrow>
                         if length nonce \<noteq> 12 then Panics ''crypto/cipher: incorrect nonce length given to GCM''
                         else (case gcm_open A key nonce ciphertext of
                                 Inl e \<Rightarrow> Returns (Inl (utf8 [0xE8, 0xA7, 0xA3, 0xE5, 0xAF, 0x86, 0xE5, 0xA4, 0xB1, 0xE8,
                                                            0xB4, 0xA5, 0x3A, 0x20] @ e))
                               | Inr plaintext \<Rightarrow> Returns (Inr plaintext)))))
      | _ \<Rightarrow> Returns (Inl (utf8 [0xE5, 0x8A, 0xA0, 0xE5, 0xAF, 0x86, 0xE6, 0xA0, 0xBC, 0xE5, 0xBC, 0x8F, 0xE9, 0x94, 0x99,
                                 0xE8, 0xAF, 0xAF])))"

(* src: utils/encryption.go:315-322 Encryption.AesEncoding *)
definition AesEncoding :: "aes_lib \<Rightarrow> crypto_key_manager \<Rightarrow> err + string \<Rightarrow> string \<Rightarrow> string" where
  "AesEncoding A m nonce src = (case AesGCMEncrypt A m nonce src of Inl _ \<Rightarrow> [] | Inr encrypted \<Rightarrow> encrypted)"

(* src: utils/encryption.go:325-337 Encryption.AesDecoding *)
definition AesDecoding :: "aes_lib \<Rightarrow> crypto_key_manager \<Rightarrow> string \<Rightarrow> (err option \<times> string) go_result" where
  "AesDecoding A m pwd =
     (if strings_Contains pwd '':'' \<and> strings_HasPrefix pwd ''v''
        then (case AesGCMDecrypt A m pwd of
                Panics e \<Rightarrow> Panics e
              | Returns (Inl e) \<Rightarrow> Returns (Some e, [])
              | Returns (Inr decrypted) \<Rightarrow> Returns (None, decrypted))
      else legacyAesDecoding A m pwd)"

subsection \<open>Field encryption\<close>

(* src: app/common/security/data_encryption.go:19-23 EncryptionKey *)
record encryption_key =
  enc_Key :: string
  enc_Salt :: string
  enc_Rounds :: int

text \<open>\<open>sha256\<close> is \<^verbatim>\<open>sha256.Sum256\<close>.\<close>

(* src: app/common/security/data_encryption.go:26-33 NewEncryptionKey *)
definition NewEncryptionKey :: "(string \<Rightarrow> string) \<Rightarrow> string \<Rightarrow> string \<Rightarrow> encryption_key" where
  "NewEncryptionKey sha256 password salt =
     \<lparr> enc_Key = sha256 (password @ salt), enc_Salt = salt, enc_Rounds = 10000 \<rparr>"

(* src: app/common/security/data_encryption.go:88-110 FieldEncryption.encrypt *)
definition field_encrypt :: "aes_lib \<Rightarrow> encryption_key \<Rightarrow> err + string \<Rightarrow> string \<Rightarrow> err + string" where
  "field_encrypt A key nonce data =
     (case cipher_error (enc_Key key) of
        Some e \<Rightarrow> Inl e
      | None \<Rightarrow> (case nonce of Inl e \<Rightarrow> Inl e | Inr n \<Rightarrow> Inr (n @ gcm_seal A (enc_Key key) n data)))"

(* src: app/common/security/data_encryption.go:113-141 FieldEncryption.decrypt *)
definition field_decrypt :: "aes_lib \<Rightarrow> encryption_key \<Rightarrow> string \<Rightarrow> err + string" where
  "field_decrypt A key data =
     (case cipher_error (enc_Key key) of
        Some e \<Rightarrow> Inl e
      | None \<Rightarrow>
          if length data < 12 then Inl ''ciphertext too short''
          else gcm_open A (enc_Key key) (take 12 data) (drop 12 data))"

text \<open>\<open>marshal\<close> and \<open>unmarshal\<close> are the JSON encoding of the field and its decoding into the target.\<close>

(* src: app/common/security/data_encryption.go:48-63 FieldEncryption.EncryptField *)
definition EncryptField :: "aes_lib \<Rightarrow> ('d \<Rightarrow> err + string) \<Rightarrow> encryption_key \<Rightarrow> err + string \<Rightarrow> 'd \<Rightarrow> err + string" where
  "EncryptField A marshal key nonce data =
     (case marshal data of
        Inl e \<Rightarrow> Inl (''failed to marshal data: '' @ e)
      | Inr jsonData \<Rightarrow>
          (case field_encrypt A key nonce jsonData of
             Inl e \<Rightarrow> Inl (''failed to encrypt data: '' @ e)
           | Inr encrypted \<Rightarrow> Inr (EncodeToString encrypted)))"

(* src: app/common/security/data_encryption.go:66-85 FieldEncryption.DecryptField *)
definition DecryptField :: "aes_lib \<Rightarrow> (string \<Rightarrow> err + 'd) \<Rightarrow> encryption_key \<Rightarrow> string \<Rightarrow> err + 'd" where
  "DecryptField A unmarshal key encryptedData =
     (case DecodeString encryptedData of
        Inl e \<Rightarrow> Inl (''failed to decode base64: '' @ e)
      | Inr encrypted \<Rightarrow>
          (case field_decrypt A key encrypted of
             Inl e \<Rightarrow> Inl (''failed to decrypt data: '' @ e)
           | Inr decrypted \<Rightarrow>
               (case unmarshal decrypted of Inl e \<Rightarrow> Inl (''failed to unmarshal data: '' @ e) | Inr d \<Rightarrow> Inr d)))"

section \<open>Properties\<close>

subsection \<open>Padding\<close>

lemma unpad_pad:
  assumes "0 < b" and "b < 256"
  shows "UnPadPwd (PadPwd data b) = Returns (data, None)"
proof -
  define n where "n = b - length data mod b"
  have "length data mod b < b" using assms(1) by simp
  then have n: "0 < n" "n < 256" using assms by (simp_all add: n_def)
  then have "(data @ replicate n (char_of n)) ! (length data + n - 1) = char_of n"
    by (auto simp: nth_append)
  with n show ?thesis
    by (simp add: UnPadPwd_def PadPwd_def Let_def n_def [symmetric])
qed

lemma padded_length:
  assumes "0 < b"
  shows "length (pkcs7Padding data b) mod b = 0"
proof -
  define q r where "q = length data div b" and "r = length data mod b"
  have "length data = q * b + r" and "r < b" using assms by (simp_all add: q_def r_def)
  then have "length data + (b - r) = q * b + b" by linarith
  then have "length (pkcs7Padding data b) = q * b + b" by (simp add: pkcs7Padding_def Let_def r_def)
  then show ?thesis by simp
qed

subsection \<open>GCM does not round-trip\<close>

lemma split_encrypted:
  assumes "strings_Split (CHR '':'') (''v'' @ keyID @ '':'' @ EncodeToString n @ '':'' @ EncodeToString c) = [kid, nonceB64, textB64]"
  shows "kid = ''v'' @ keyID \<and> nonceB64 = EncodeToString n \<and> textB64 = EncodeToString c"
proof (cases "CHR '':'' \<in> set keyID")
  case False
  with assms show ?thesis
    by (simp add: strings_Split_first strings_Split_plain EncodeToString_no_colon
        strings_Split_first [where a = "CHR ''v'' # keyID", simplified])
next
  case True
  have "filter (\<lambda>x. x = CHR '':'') keyID \<noteq> []" using True by (auto simp: filter_empty_conv)
  then have "length (strings_Split (CHR '':'') (''v'' @ keyID @ '':'' @ EncodeToString n @ '':'' @ EncodeToString c)) > 3"
    by (simp add: length_strings_Split)
  with assms show ?thesis by simp
qed

lemma AesGCMEncrypt_forms:
  assumes "AesGCMEncrypt A m nonce src = Inr e"
  obtains key n where "ck_keys m (ck_currentKeyID m) = Some key" and "nonce = Inr n"
    and "e = ''v'' @ ck_currentKeyID m @ '':'' @ EncodeToString n @ '':'' @ EncodeToString (n @ gcm_seal A key n src)"
  using assms by (auto simp: AesGCMEncrypt_def getCurrentKey_def Let_def split: option.splits sum.splits if_splits)

lemma gcm_open_prefixed:
  assumes "gcm_laws A" and "n \<noteq> []"
  shows "gcm_open A key n (n @ gcm_seal A key n p) \<noteq> Inr p"
proof
  assume "gcm_open A key n (n @ gcm_seal A key n p) = Inr p"
  with assms(1) have "n @ gcm_seal A key n p = gcm_seal A key n p" unfolding gcm_laws_def by blast
  with assms(2) show False by simp
qed

lemma AesGCMDecrypt_loses:
  assumes "gcm_laws A" and "AesGCMEncrypt A m nonce src = Inr e" and "\<And>n. nonce = Inr n \<Longrightarrow> length n = 12"
  shows "AesGCMDecrypt A m e \<noteq> Returns (Inr src)"
proof
  assume d: "AesGCMDecrypt A m e = Returns (Inr src)"
  obtain key n where k: "ck_keys m (ck_currentKeyID m) = Some key" and n: "nonce = Inr n"
    and e: "e = ''v'' @ ck_currentKeyID m @ '':'' @ EncodeToString n @ '':'' @ EncodeToString (n @ gcm_seal A key n src)"
    using AesGCMEncrypt_forms [OF assms(2)] by metis
  from d obtain kid nb cb where s: "strings_Split (CHR '':'') e = [kid, nb, cb]"
    by (auto simp: AesGCMDecrypt_def split: list.splits)
  from split_encrypted [OF s [unfolded e]] have "TrimPrefix kid ''v'' = ck_currentKeyID m"
    and nb: "nb = EncodeToString n" "cb = EncodeToString (n @ gcm_seal A key n src)"
    by (simp_all add: TrimPrefix_def strings_HasPrefix_def)
  then have "gcm_open A key n (n @ gcm_seal A key n src) = Inr src"
    using d s k by (auto simp: AesGCMDecrypt_def getKeyByID_def DecodeString_Encode split: option.splits sum.splits if_splits)
  moreover have "n \<noteq> []" using assms(3) [OF n] by auto
  ultimately show False using gcm_open_prefixed [OF assms(1)] by blast
qed

lemma AesDecoding_empty: "\<exists>e. AesDecoding A m [] = Returns (Some e, [])"
  by (simp add: AesDecoding_def strings_HasPrefix_def legacyAesDecoding_def DecodeString_def split: sum.split option.split)

text \<open>
  C20. What \<^verbatim>\<open>AesEncoding\<close> encrypts, \<^verbatim>\<open>AesDecoding\<close> with the same keys never gives back: \<^verbatim>\<open>Seal(nonce, nonce, ...)\<close> puts the
  nonce in front of the sealed text, which is then encoded next to the nonce as if it were the sealed text alone, and
  \<^verbatim>\<open>Open\<close> gets it with the nonce in front.
\<close>

theorem gcm_never_round_trips:
  assumes "gcm_laws A" and "\<And>n. nonce = Inr n \<Longrightarrow> length n = 12"
  shows "AesDecoding A m (AesEncoding A m nonce src) \<noteq> Returns (None, src)"
proof (cases "AesGCMEncrypt A m nonce src")
  case (Inl e)
  with AesDecoding_empty [of A m] show ?thesis by (auto simp: AesEncoding_def)
next
  case (Inr e)
  from AesGCMEncrypt_forms [OF this] obtain key n where "nonce = Inr n"
    and e: "e = ''v'' @ ck_currentKeyID m @ '':'' @ EncodeToString n @ '':'' @ EncodeToString (n @ gcm_seal A key n src)"
    by metis
  have "strings_HasPrefix e ''v''" by (simp add: e strings_HasPrefix_def)
  moreover have "strings_Contains e '':''"
    unfolding strings_Contains_iff
    by (rule exI [of _ "''v'' @ ck_currentKeyID m"], rule exI) (simp add: e)
  ultimately show ?thesis
    using AesGCMDecrypt_loses [OF assms(1) Inr assms(2)]
    by (auto simp: AesEncoding_def AesDecoding_def Inr split: go_result.splits sum.splits)
qed

text \<open>A cipher for the witnesses: sealing appends a tag of sixteen bytes.\<close>

definition demo_aes :: aes_lib where
  "demo_aes = \<lparr> gcm_seal = \<lambda>key nonce p. p @ replicate 16 (CHR ''t''),
     gcm_open = \<lambda>key nonce c.
       (if drop (length c - 16) c = replicate 16 (CHR ''t'') then Inr (take (length c - 16) c) else Inl ''message authentication failed''),
     cbc_encrypt = \<lambda>key iv p. p, cbc_decrypt = \<lambda>key iv c. c \<rparr>"

lemma demo_aes_laws: "gcm_laws demo_aes"
  unfolding gcm_laws_def
proof (intro conjI allI impI)
  fix key nonce c p assume "gcm_open demo_aes key nonce c = Inr p"
  then have "take (length c - 16) c = p" "drop (length c - 16) c = replicate 16 (CHR ''t'')"
    by (simp_all add: demo_aes_def split: if_splits)
  then show "c = gcm_seal demo_aes key nonce p"
    using append_take_drop_id [of "length c - 16" c] by (simp add: demo_aes_def)
qed (simp_all add: demo_aes_def)

definition demo_nonce :: string where
  "demo_nonce = replicate 12 (CHR ''n'')"

theorem gcm_never_round_trips_witness:
  "AesDecoding demo_aes \<lparr> ck_keys = [''v1'' \<mapsto> replicate 32 (CHR ''k'')], ck_currentKeyID = ''v1'' \<rparr>
     (AesEncoding demo_aes \<lparr> ck_keys = [''v1'' \<mapsto> replicate 32 (CHR ''k'')], ck_currentKeyID = ''v1'' \<rparr> (Inr demo_nonce) ''points'')
   \<noteq> Returns (None, ''points'')"
  by (rule gcm_never_round_trips [OF demo_aes_laws]) (simp add: demo_nonce_def)

text \<open>
  The field encryption, which takes the nonce off again, gives the field back for every password, salt and nonce.
\<close>

theorem field_roundtrip:
  assumes "gcm_laws A" and "\<And>x. length (sha256 x) = 32" and "length n = 12"
    and "marshal d = Inr j" and "unmarshal j = Inr d"
  shows "\<exists>c. EncryptField A marshal (NewEncryptionKey sha256 password salt) (Inr n) d = Inr c
    \<and> DecryptField A unmarshal (NewEncryptionKey sha256 password salt) c = Inr d"
proof -
  define key where "key = NewEncryptionKey sha256 password salt"
  have ok: "cipher_error (enc_Key key) = None" by (simp add: key_def NewEncryptionKey_def cipher_error_def assms(2))
  have "gcm_open A (enc_Key key) n (gcm_seal A (enc_Key key) n j) = Inr j" using assms(1) by (simp add: gcm_laws_def)
  then have "field_decrypt A key (n @ gcm_seal A (enc_Key key) n j) = Inr j"
    using assms(3) by (simp add: field_decrypt_def ok)
  then show ?thesis unfolding key_def [symmetric]
    by (simp add: EncryptField_def DecryptField_def field_encrypt_def ok assms(4,5) DecodeString_Encode)
qed

theorem field_roundtrip_witness:
  "\<exists>c. EncryptField demo_aes Inr (NewEncryptionKey (\<lambda>_. replicate 32 (CHR ''h'')) ''pw'' ''salt'') (Inr demo_nonce) ''x'' = Inr c
    \<and> DecryptField demo_aes Inr (NewEncryptionKey (\<lambda>_. replicate 32 (CHR ''h'')) ''pw'' ''salt'') c = Inr ''x''"
  by (rule field_roundtrip [OF demo_aes_laws]) (simp_all add: demo_nonce_def)

subsection \<open>Crafted ciphertexts\<close>

text \<open>A nonce of a wrong length, and an old-style ciphertext of incomplete blocks, are not errors but panics.\<close>

lemma wrong_nonce_panics:
  assumes "ck_keys m kid = Some key" and "cipher_error key = None" and "CHR '':'' \<notin> set kid" and "length n \<noteq> 12"
  shows "AesDecoding A m (''v'' @ kid @ '':'' @ EncodeToString n @ '':'' @ EncodeToString c)
    = Panics ''crypto/cipher: incorrect nonce length given to GCM''"
proof -
  let ?e = "''v'' @ kid @ '':'' @ EncodeToString n @ '':'' @ EncodeToString c"
  have "strings_Split (CHR '':'') ((''v'' @ kid) @ CHR '':'' # (EncodeToString n @ CHR '':'' # EncodeToString c))
      = (''v'' @ kid) # strings_Split (CHR '':'') (EncodeToString n @ CHR '':'' # EncodeToString c)"
    by (rule strings_Split_first) (simp add: assms(3))
  then have s: "strings_Split (CHR '':'') ?e = [''v'' @ kid, EncodeToString n, EncodeToString c]"
    by (simp add: strings_Split_first strings_Split_plain EncodeToString_no_colon)
  have "strings_Contains ?e '':''" unfolding strings_Contains_iff
    by (rule exI [of _ "''v'' @ kid"], rule exI) simp
  moreover have "strings_HasPrefix ?e ''v''" by (simp add: strings_HasPrefix_def)
  moreover have "AesGCMDecrypt A m ?e = Panics ''crypto/cipher: incorrect nonce length given to GCM''"
    unfolding AesGCMDecrypt_def s
    by (simp add: TrimPrefix_def strings_HasPrefix_def getKeyByID_def assms DecodeString_Encode)
  ultimately show ?thesis by (simp only: AesDecoding_def simp_thms if_True go_result.case)
qed

lemma partial_block_panics:
  assumes "ck_keys m (ck_currentKeyID m) = Some key" and "cipher_error key = None" and "16 < length c" and "length c mod 16 \<noteq> 0"
  shows "legacyAesDecoding A m (EncodeToString c) = Panics ''crypto/cipher: input not full blocks''"
  using assms by (simp add: legacyAesDecoding_def DecodeString_Encode getCurrentKey_def)

lemma wrong_padding_is_no_error:
  assumes "dst \<noteq> []" and "length dst < of_char (last dst)"
  shows "UnPadPwd dst = Returns (''error'', None)"
  using assms by (simp add: UnPadPwd_def last_conv_nth Let_def)

end
