(* ===== verification/Security_Middleware.thy ===== *)
theory Security_Middleware
  imports Gin_Context Encryption
begin

text \<open>
  The security middlewares of \<^verbatim>\<open>src/middlewares/security.go\<close>: limits of rate and size, security headers and CORS, request
  identifiers, checks of method, content type, query and address, CSRF tokens, encrypted request bodies, passwords, tokens and
  the cleaning of input.

  gin is a parameter as in \<open>Gin_Context\<close>; a middleware that sets response headers also returns them. The limiters of
  \<^verbatim>\<open>golang.org/x/time/rate\<close>, the block cipher and the hash are parameters, random bytes and the clock are arguments. A string
  that is not ASCII goes to lower case through \<open>uni\<close>, the case tables of Unicode. Logging is left out.

  The file does not compile as it is: \<^verbatim>\<open>RateLimit\<close> uses a field \<^verbatim>\<open>rateLimiter\<close> that the middleware lacks (one limiter is modelled) and
  \<^verbatim>\<open>SQLInjectionProtection\<close> declares a variable \<^verbatim>\<open>key\<close> it does not use.
\<close>

section \<open>Model\<close>

subsection \<open>Strings\<close>

definition is_ascii :: "string \<Rightarrow> bool" where
  "is_ascii s \<longleftrightarrow> list_all (\<lambda>c. (of_char c :: nat) < 128) s"

definition lower_char :: "char \<Rightarrow> char" where
  "lower_char c = (if 65 \<le> (of_char c :: nat) \<and> (of_char c :: nat) \<le> 90 then char_of (of_char c + 32 :: nat) else c)"

text \<open>\<^verbatim>\<open>strings.ToLower\<close> and \<^verbatim>\<open>strings.ReplaceAll\<close> (for a nonempty \<open>old\<close>).\<close>

definition strings_ToLower :: "(string \<Rightarrow> string) \<Rightarrow> string \<Rightarrow> string" where
  "strings_ToLower uni s = (if is_ascii s then map lower_char s else uni s)"

function strings_ReplaceAll :: "string \<Rightarrow> string \<Rightarrow> string \<Rightarrow> string" where
  "strings_ReplaceAll old new [] = []"
| "strings_ReplaceAll old new (c # s) =
     (if old \<noteq> [] \<and> strings_HasPrefix (c # s) old then new @ strings_ReplaceAll old new (drop (length old) (c # s))
      else c # strings_ReplaceAll old new s)"
  by pat_completeness auto
termination by (relation "measure (\<lambda>(old, new, s). length s)") (auto simp: strings_HasPrefix_def neq_Nil_conv)

subsection \<open>Configuration\<close>

(* src: middlewares/security.go:25-50 SecurityConfig *)
record security_config =
  sc_RateLimitEnabled :: bool
  sc_RateLimitRPS :: int
  sc_RateLimitBurst :: int
  sc_MaxRequestSize :: int
  sc_RequestTimeout :: duration
  sc_EnableSecurityHeaders :: bool
  sc_CORSEnabled :: bool
  sc_AllowedOrigins :: "string list"
  sc_XSSProtection :: bool
  sc_CSRFProtection :: bool
  sc_SQLInjectionProtection :: bool
  sc_DataMasking :: bool
  sc_EncryptionEnabled :: bool

(* src: middlewares/security.go:53-69 DefaultSecurityConfig *)
definition DefaultSecurityConfig :: security_config where
  "DefaultSecurityConfig = \<lparr> sc_RateLimitEnabled = True, sc_RateLimitRPS = 100, sc_RateLimitBurst = 200,
     sc_MaxRequestSize = 10 * 1024 * 1024, sc_RequestTimeout = 30 * second, sc_EnableSecurityHeaders = True, sc_CORSEnabled = True,
     sc_AllowedOrigins = [''*''], sc_XSSProtection = True, sc_CSRFProtection = True, sc_SQLInjectionProtection = True,
     sc_DataMasking = True, sc_EncryptionEnabled = True \<rparr>"

(* src: middlewares/security.go:597-600 InputValidator *)
record input_validator =
  iv_sqlPatterns :: "string list"
  iv_xssPatterns :: "string list"

(* src: middlewares/security.go:603-615 NewInputValidator *)
definition NewInputValidator :: input_validator where
  "NewInputValidator = \<lparr>
     iv_sqlPatterns = [''union.*select'', ''select.*from'', ''insert.*into'', ''update.*set'', ''delete.*from'', ''drop.*table'',
       ''create.*table'', ''alter.*table'', ''exec.*'', ''execute.*'', ''sp_'', ''xp_'', ''script.*>''],
     iv_xssPatterns = [''<script'', ''javascript:'', ''onload='', ''onerror='', ''onclick='', ''<iframe'', ''<object'', ''<embed'',
       ''eval('', ''expression(''] \<rparr>"

text \<open>The encryption service is its key.\<close>

(* src: middlewares/security.go:543-547 NewEncryptionService *)
definition NewEncryptionService :: string where
  "NewEncryptionService = ''your-32-byte-key-here-123456789012''"

(* src: middlewares/security.go:72-78 SecurityMiddleware *)
record security_middleware =
  sm_config :: security_config
  sm_encryption :: string
  sm_validator :: input_validator

(* src: middlewares/security.go:81-93 NewSecurityMiddleware *)
definition NewSecurityMiddleware :: "security_config option \<Rightarrow> security_middleware" where
  "NewSecurityMiddleware cfg =
     \<lparr> sm_config = (case cfg of None \<Rightarrow> DefaultSecurityConfig | Some c \<Rightarrow> c), sm_encryption = NewEncryptionService,
       sm_validator = NewInputValidator \<rparr>"

subsection \<open>Requests and responses\<close>

text \<open>What the checks read beside the headers: the declared length, the query and the body, or the error of reading it.\<close>

record sec_request =
  sq_gin :: gin_request
  sq_ContentLength :: int
  sq_Query :: "(string \<times> string list) list"
  sq_Body :: "err + string"

type_synonym resp_headers = "string \<rightharpoonup> string"

text \<open>\<^verbatim>\<open>c.Header\<close> sets a header of the response and removes it when the value is empty.\<close>

definition gin_Header :: "string \<Rightarrow> string \<Rightarrow> resp_headers \<Rightarrow> resp_headers" where
  "gin_Header k v h = (if v = [] then h(k := None) else h(k \<mapsto> v))"

definition next_handler :: "sec_request \<Rightarrow> mw_end" where
  "next_handler c = Proceeds (rq_Keys (sq_gin c))"

subsection \<open>Limits\<close>

record 'l limiter_lib =
  lm_New :: "int \<Rightarrow> int \<Rightarrow> 'l"
  lm_Allow :: "gotime \<Rightarrow> 'l \<Rightarrow> bool \<times> 'l"

(* src: middlewares/security.go:96-117 SecurityMiddleware.RateLimit *)
definition sm_RateLimit :: "'l limiter_lib \<Rightarrow> security_middleware \<Rightarrow> gotime \<Rightarrow> sec_request \<Rightarrow> 'l \<Rightarrow> mw_end \<times> 'l" where
  "sm_RateLimit L sm now c l =
     (if \<not> sc_RateLimitEnabled (sm_config sm) then (next_handler c, l)
      else case lm_Allow L now l of
        (True, l') \<Rightarrow> (next_handler c, l')
      | (False, l') \<Rightarrow>
          (abort_with (RespondWithTooManyRequests now
             (utf8 [0xE8, 0xAF, 0xB7, 0xE7, 0xA8, 0x8D, 0xE5, 0x90, 0x8E, 0xE5, 0x86, 0x8D, 0xE8, 0xAF, 0x95])), l'))"

(* src: middlewares/security.go:120-132 SecurityMiddleware.RequestSizeLimit *)
definition RequestSizeLimit :: "security_middleware \<Rightarrow> gotime \<Rightarrow> sec_request \<Rightarrow> mw_end" where
  "RequestSizeLimit sm now c =
     (if sq_ContentLength c > sc_MaxRequestSize (sm_config sm)
        then abort_with (RespondWithError now 413 413
          (utf8 [0xE8, 0xAF, 0xB7, 0xE6, 0xB1, 0x82, 0xE4, 0xBD, 0x93, 0xE5, 0xA4, 0xA7, 0xE5, 0xB0, 0x8F, 0xE8, 0xB6, 0x85, 0xE8,
                 0xBF, 0x87, 0xE9, 0x99, 0x90, 0xE5, 0x88, 0xB6]) None)
      else next_handler c)"

text \<open>The limiters by address: a limiter per client, made at its first request.\<close>

(* src: middlewares/security.go:740-765 RateLimitByIP *)
definition RateLimitByIP :: "'l limiter_lib \<Rightarrow> gotime \<Rightarrow> sec_request \<Rightarrow> (string \<rightharpoonup> 'l) \<Rightarrow> mw_end \<times> (string \<rightharpoonup> 'l)" where
  "RateLimitByIP L now c limiters =
     (let clientIP = rq_ClientIP (sq_gin c);
          limiter = (case limiters clientIP of None \<Rightarrow> lm_New L 50 100 | Some l \<Rightarrow> l)
      in case lm_Allow L now limiter of
           (True, l') \<Rightarrow> (next_handler c, limiters(clientIP \<mapsto> l'))
         | (False, l') \<Rightarrow>
             (Aborts 429 (HBody [(''error'', CtxStr (utf8 [0x49, 0x50, 0xE8, 0xAF, 0xB7, 0xE6, 0xB1, 0x82, 0xE8, 0xBF, 0x87, 0xE4,
                0xBA, 0x8E, 0xE9, 0xA2, 0x91, 0xE7, 0xB9, 0x81])), (''code'', CtxInt (code_int ErrCodeServiceUnavailable))]),
              limiters(clientIP \<mapsto> l')))"

(* src: middlewares/security.go:713-737 RateLimitByUser *)
definition RateLimitByUser ::
  "'l limiter_lib \<Rightarrow> string \<Rightarrow> gotime \<Rightarrow> sec_request \<Rightarrow> (string \<rightharpoonup> 'l) \<Rightarrow> mw_end \<times> (string \<rightharpoonup> 'l)" where
  "RateLimitByUser L userID now c limiters =
     (let limiter = (case limiters userID of None \<Rightarrow> lm_New L 10 20 | Some l \<Rightarrow> l)
      in case lm_Allow L now limiter of
           (True, l') \<Rightarrow> (next_handler c, limiters(userID \<mapsto> l'))
         | (False, l') \<Rightarrow>
             (Aborts 429 (HBody [(''error'', CtxStr (utf8 [0xE7, 0x94, 0xA8, 0xE6, 0x88, 0xB7, 0xE8, 0xAF, 0xB7, 0xE6, 0xB1, 0x82,
                0xE8, 0xBF, 0x87, 0xE4, 0xBA, 0x8E, 0xE9, 0xA2, 0x91, 0xE7, 0xB9, 0x81])),
                (''code'', CtxInt (code_int ErrCodeServiceUnavailable))]),
              limiters(userID \<mapsto> l')))"

text \<open>
  The goroutine of \<^verbatim>\<open>RequestTimeout\<close> answers when the deadline passes before the rest of the chain has returned; the request goes
  on in any case.
\<close>

(* src: middlewares/security.go:363-374 RequestTimeout (goroutine) *)
definition RequestTimeout_watch :: "bool \<Rightarrow> mw_end option" where
  "RequestTimeout_watch deadline_exceeded =
     (if deadline_exceeded
        then Some (Aborts 408 (HBody
          [(''error'', CtxStr (utf8 [0xE8, 0xAF, 0xB7, 0xE6, 0xB1, 0x82, 0xE8, 0xB6, 0x85, 0xE6, 0x97, 0xB6])), (''code'', CtxInt 408),
           (''message'', CtxStr (utf8 [0xE8, 0xAF, 0xB7, 0xE6, 0xB1, 0x82, 0xE5, 0xA4, 0x84, 0xE7, 0x90, 0x86, 0xE8, 0xB6, 0x85, 0xE6,
              0x97, 0xB6]))]))
      else None)"

subsection \<open>Headers\<close>

(* src: middlewares/security.go:135-162 SecurityMiddleware.SecurityHeaders *)
definition SecurityHeaders :: "security_middleware \<Rightarrow> sec_request \<Rightarrow> resp_headers \<Rightarrow> mw_end \<times> resp_headers" where
  "SecurityHeaders sm c h =
     (next_handler c,
      if \<not> sc_EnableSecurityHeaders (sm_config sm) then h
      else fold (\<lambda>(k, v). gin_Header k v)
        [(''X-Content-Type-Options'', ''nosniff''), (''X-Frame-Options'', ''DENY''), (''X-XSS-Protection'', ''1; mode=block''),
         (''Content-Security-Policy'', ''default-src '' @ [char_of (39 :: nat)] @ ''self'' @ [char_of (39 :: nat)]),
         (''Strict-Transport-Security'', ''max-age=31536000; includeSubDomains''), (''Referrer-Policy'', ''strict-origin-when-cross-origin''),
         (''Permissions-Policy'', ''geolocation=(), microphone=(), camera=()'')] h)"

(* src: middlewares/security.go:381-396 SecurityMiddleware.XSSProtectionMiddleware *)
definition XSSProtectionMiddleware :: "security_middleware \<Rightarrow> sec_request \<Rightarrow> resp_headers \<Rightarrow> mw_end \<times> resp_headers" where
  "XSSProtectionMiddleware sm c h =
     (next_handler c,
      if \<not> sc_XSSProtection (sm_config sm) then h
      else fold (\<lambda>(k, v). gin_Header k v)
        [(''X-Content-Type-Options'', ''nosniff''), (''X-Frame-Options'', ''DENY''), (''X-XSS-Protection'', ''1; mode=block''),
         (''Content-Security-Policy'', ''default-src '' @ [char_of (39 :: nat)] @ ''self'' @ [char_of (39 :: nat)])] h)"

(* src: middlewares/security.go:315-325 XSSProtection *)
definition XSSProtection :: "sec_request \<Rightarrow> mw_end" where
  "XSSProtection c = next_handler c"

(* src: middlewares/security.go:165-200 SecurityMiddleware.CORSMiddleware *)
definition sm_CORS :: "security_middleware \<Rightarrow> sec_request \<Rightarrow> resp_headers \<Rightarrow> mw_end \<times> resp_headers" where
  "sm_CORS sm c h =
     (if \<not> sc_CORSEnabled (sm_config sm) then (next_handler c, h)
      else
        let origin = GetHeader (sq_gin c) ''Origin'';
            allowed = list_ex (\<lambda>o'. o' = ''*'' \<or> o' = origin) (sc_AllowedOrigins (sm_config sm));
            h1 = (if allowed then gin_Header ''Access-Control-Allow-Origin'' origin h else h);
            h2 = fold (\<lambda>(k, v). gin_Header k v)
              [(''Access-Control-Allow-Methods'', ''GET, POST, PUT, DELETE, OPTIONS''),
               (''Access-Control-Allow-Headers'', ''Origin, Content-Type, Accept, Authorization, X-Requested-With''),
               (''Access-Control-Allow-Credentials'', ''true''), (''Access-Control-Max-Age'', ''86400'')] h1
        in (if rq_Method (sq_gin c) = ''OPTIONS'' then Aborts 204 EmptyBody else next_handler c, h2))"

text \<open>\<open>bytes\<close> are the 16 random bytes of a new identifier.\<close>

definition hex_EncodeToString :: "string \<Rightarrow> string" where
  "hex_EncodeToString s =
     concat (map (\<lambda>c. [''0123456789abcdef'' ! (of_char c div 16), ''0123456789abcdef'' ! (of_char c mod 16)]) s)"

(* src: middlewares/security.go:217-221 generateRequestID *)
definition generateRequestID :: "string \<Rightarrow> string" where
  "generateRequestID bytes = hex_EncodeToString bytes"

(* src: middlewares/security.go:203-214 RequestID *)
definition RequestID :: "string \<Rightarrow> sec_request \<Rightarrow> resp_headers \<Rightarrow> mw_end \<times> resp_headers" where
  "RequestID bytes c h =
     (let given = GetHeader (sq_gin c) ''X-Request-ID'';
          requestID = (if given = [] then generateRequestID bytes else given)
      in (Proceeds ((rq_Keys (sq_gin c))(''request_id'' \<mapsto> CtxStr requestID)), gin_Header ''X-Request-ID'' requestID h))"

subsection \<open>Checks of the request\<close>

(* src: middlewares/security.go:248-256 isValidMethod *)
definition isValidMethod :: "string \<Rightarrow> bool" where
  "isValidMethod m = list_ex (\<lambda>valid. m = valid) [''GET'', ''POST'', ''PUT'', ''DELETE'', ''OPTIONS'', ''HEAD'']"

(* src: middlewares/security.go:259-273 isValidContentType *)
definition isValidContentType :: "string \<Rightarrow> bool" where
  "isValidContentType contentType =
     list_ex (strings_HasPrefix contentType)
       [''application/json'', ''application/x-www-form-urlencoded'', ''multipart/form-data'', ''text/plain'']"

(* src: middlewares/security.go:224-245 InputValidation *)
definition InputValidation :: "gotime \<Rightarrow> sec_request \<Rightarrow> mw_end" where
  "InputValidation now c =
     (let m = rq_Method (sq_gin c)
      in if \<not> isValidMethod m
           then abort_with (RespondWithMethodNotAllowed now
             (utf8 [0xE8, 0xAF, 0xB7, 0xE6, 0xB1, 0x82, 0xE6, 0x96, 0xB9, 0xE6, 0xB3, 0x95, 0xE4, 0xB8, 0x8D, 0xE8, 0xA2, 0xAB, 0xE5,
                    0x85, 0x81, 0xE8, 0xAE, 0xB8]))
         else if (m = ''POST'' \<or> m = ''PUT'') \<and> \<not> isValidContentType (GetHeader (sq_gin c) ''Content-Type'')
           then abort_with (RespondWithUnsupportedMediaType now
             (''Content-Type'' @ utf8 [0xE4, 0xB8, 0x8D, 0xE8, 0xA2, 0xAB, 0xE6, 0x94, 0xAF, 0xE6, 0x8C, 0x81]))
         else next_handler c)"

(* src: middlewares/security.go:298-312 containsSQLInjection *)
definition containsSQLInjection :: "(string \<Rightarrow> string) \<Rightarrow> string \<Rightarrow> bool" where
  "containsSQLInjection uni s =
     list_ex (strings_Contains (strings_ToLower uni s))
       [[char_of (39 :: nat)], [CHR 0x22], '';'', ''--'', ''/*'', ''*/'', ''xp_'', ''sp_'', ''union'', ''select'', ''insert'', ''update'',
        ''delete'', ''drop'', ''create'', ''alter'', ''exec'', ''execute'']"

(* src: middlewares/security.go:276-295 SQLInjectionProtection *)
definition SQLInjectionProtection :: "(string \<Rightarrow> string) \<Rightarrow> sec_request \<Rightarrow> mw_end" where
  "SQLInjectionProtection uni c =
     (if list_ex (\<lambda>(key, values). list_ex (containsSQLInjection uni) values) (sq_Query c)
        then Aborts 400 (HBody
          [(''error'', CtxStr (utf8 [0xE6, 0xA3, 0x80, 0xE6, 0xB5, 0x8B, 0xE5, 0x88, 0xB0, 0xE6, 0xBD, 0x9C, 0xE5, 0x9C, 0xA8, 0xE7, 0x9A,
              0x84, 0xE5, 0xAE, 0x89, 0xE5, 0x85, 0xA8, 0xE5, 0xA8, 0x81, 0xE8, 0x83, 0x81])),
           (''code'', CtxInt 400),
           (''message'', CtxStr (utf8 [0xE8, 0xAF, 0xB7, 0xE6, 0xB1, 0x82, 0xE5, 0x8C, 0x85, 0xE5, 0x90, 0xAB, 0xE9, 0x9D, 0x9E, 0xE6, 0xB3,
              0x95, 0xE5, 0xAD, 0x97, 0xE7, 0xAC, 0xA6]))])
      else next_handler c)"

(* src: middlewares/security.go:618-626 InputValidator.ContainsSQLInjection *)
definition ContainsSQLInjection :: "(string \<Rightarrow> string) \<Rightarrow> input_validator \<Rightarrow> string \<Rightarrow> bool" where
  "ContainsSQLInjection uni iv s = list_ex (strings_Contains (strings_ToLower uni s)) (iv_sqlPatterns iv)"

(* src: middlewares/security.go:629-637 InputValidator.ContainsXSS *)
definition ContainsXSS :: "(string \<Rightarrow> string) \<Rightarrow> input_validator \<Rightarrow> string \<Rightarrow> bool" where
  "ContainsXSS uni iv s = list_ex (strings_Contains (strings_ToLower uni s)) (iv_xssPatterns iv)"

(* src: middlewares/security.go:434-457 SecurityMiddleware.SQLInjectionProtectionMiddleware *)
definition SQLInjectionProtectionMiddleware :: "(string \<Rightarrow> string) \<Rightarrow> security_middleware \<Rightarrow> sec_request \<Rightarrow> mw_end" where
  "SQLInjectionProtectionMiddleware uni sm c =
     (if \<not> sc_SQLInjectionProtection (sm_config sm) then next_handler c
      else if list_ex (\<lambda>(_, values). list_ex (ContainsSQLInjection uni (sm_validator sm)) values) (sq_Query c)
        then Aborts 400 (HBody
          [(''error'', CtxStr (utf8 [0xE6, 0xA3, 0x80, 0xE6, 0xB5, 0x8B, 0xE5, 0x88, 0xB0, 0x53, 0x51, 0x4C, 0xE6, 0xB3, 0xA8, 0xE5, 0x85,
              0xA5, 0xE6, 0x94, 0xBB, 0xE5, 0x87, 0xBB])), (''code'', CtxInt (code_int ErrCodeInvalidParam))])
      else next_handler c)"

text \<open>\<^verbatim>\<open>ValidateInput\<close> returns a \<^verbatim>\<open>*AppError\<close> as an \<^verbatim>\<open>error\<close>.\<close>

(* src: middlewares/security.go:640-648 InputValidator.ValidateInput *)
definition iv_ValidateInput :: "(string \<Rightarrow> string) \<Rightarrow> string \<times> int \<Rightarrow> input_validator \<Rightarrow> string \<Rightarrow> go_error" where
  "iv_ValidateInput uni caller iv s =
     (if ContainsSQLInjection uni iv s
        then TypedError (WrapError caller None (code_int ErrCodeInvalidParam)
          (utf8 [0xE6, 0xA3, 0x80, 0xE6, 0xB5, 0x8B, 0xE5, 0x88, 0xB0, 0x53, 0x51, 0x4C, 0xE6, 0xB3, 0xA8, 0xE5, 0x85, 0xA5]))
      else if ContainsXSS uni iv s
        then TypedError (WrapError caller None (code_int ErrCodeInvalidParam)
          (utf8 [0xE6, 0xA3, 0x80, 0xE6, 0xB5, 0x8B, 0xE5, 0x88, 0xB0, 0x58, 0x53, 0x53, 0xE6, 0x94, 0xBB, 0xE5, 0x87, 0xBB]))
      else NilError)"

(* src: middlewares/security.go:328-352 IPWhitelist *)
definition IPWhitelist :: "string list \<Rightarrow> sec_request \<Rightarrow> mw_end" where
  "IPWhitelist allowedIPs c =
     (if list_ex (\<lambda>ip. ip = ''*'' \<or> ip = rq_ClientIP (sq_gin c)) allowedIPs then next_handler c
      else Aborts 403 (HBody
        [(''error'', CtxStr (utf8 [0xE8, 0xAE, 0xBF, 0xE9, 0x97, 0xAE, 0xE8, 0xA2, 0xAB, 0xE6, 0x8B, 0x92, 0xE7, 0xBB, 0x9D])),
         (''code'', CtxInt 403),
         (''message'', CtxStr (utf8 [0xE6, 0x82, 0xA8, 0xE7, 0x9A, 0x84, 0x49, 0x50, 0xE5, 0x9C, 0xB0, 0xE5, 0x9D, 0x80, 0xE4, 0xB8, 0x8D,
            0xE5, 0x9C, 0xA8, 0xE5, 0x85, 0x81, 0xE8, 0xAE, 0xB8, 0xE5, 0x88, 0x97, 0xE8, 0xA1, 0xA8, 0xE4, 0xB8, 0xAD]))]))"

subsection \<open>CSRF\<close>

(* src: middlewares/security.go:524-528 SecurityMiddleware.generateCSRFToken *)
definition generateCSRFToken :: "gotime \<Rightarrow> string \<Rightarrow> string" where
  "generateCSRFToken now clientIP = ''csrf_'' @ clientIP @ ''_'' @ itoa (go_unix now)"

(* src: middlewares/security.go:516-521 SecurityMiddleware.validateCSRFToken *)
definition validateCSRFToken :: "gotime \<Rightarrow> string \<Rightarrow> string \<Rightarrow> bool" where
  "validateCSRFToken now token clientIP = (token = generateCSRFToken now clientIP)"

(* src: middlewares/security.go:399-431 SecurityMiddleware.CSRFProtectionMiddleware *)
definition CSRFProtectionMiddleware :: "security_middleware \<Rightarrow> gotime \<Rightarrow> sec_request \<Rightarrow> mw_end" where
  "CSRFProtectionMiddleware sm now c =
     (let token = GetHeader (sq_gin c) ''X-CSRF-Token''
      in if \<not> sc_CSRFProtection (sm_config sm) then next_handler c
         else if rq_Method (sq_gin c) \<noteq> ''GET'' \<and> token = []
           then Aborts 403 (HBody
             [(''error'', CtxStr (utf8 [0xE7, 0xBC, 0xBA, 0xE5, 0xB0, 0x91, 0x43, 0x53, 0x52, 0x46, 0xE4, 0xBB, 0xA4, 0xE7, 0x89, 0x8C])),
              (''code'', CtxInt (code_int ErrCodeForbidden))])
         else if rq_Method (sq_gin c) \<noteq> ''GET'' \<and> \<not> validateCSRFToken now token (rq_ClientIP (sq_gin c))
           then Aborts 403 (HBody
             [(''error'', CtxStr (utf8 [0xE6, 0x97, 0xA0, 0xE6, 0x95, 0x88, 0xE7, 0x9A, 0x84, 0x43, 0x53, 0x52, 0x46, 0xE4, 0xBB, 0xA4,
                 0xE7, 0x89, 0x8C])), (''code'', CtxInt (code_int ErrCodeForbidden))])
         else next_handler c)"

subsection \<open>Masking and encrypted bodies\<close>

(* src: middlewares/security.go:531-535 SecurityMiddleware.maskSensitiveData *)
definition maskSensitiveData :: "ctx_value \<Rightarrow> ctx_value" where
  "maskSensitiveData data = data"

text \<open>\<open>after\<close> is what the rest of the chain leaves in the context.\<close>

(* src: middlewares/security.go:460-476 SecurityMiddleware.DataMaskingMiddleware *)
definition DataMaskingMiddleware :: "security_middleware \<Rightarrow> gin_keys \<Rightarrow> gin_keys" where
  "DataMaskingMiddleware sm after =
     (if \<not> sc_DataMasking (sm_config sm) then after
      else case after ''response_data'' of
        None \<Rightarrow> after
      | Some data \<Rightarrow> after(''response_data'' \<mapsto> maskSensitiveData data))"

(* src: middlewares/security.go:550-568 EncryptionService.Encrypt *)
definition es_Encrypt :: "aes_lib \<Rightarrow> string \<Rightarrow> err + string \<Rightarrow> string \<Rightarrow> err + string" where
  "es_Encrypt A key nonce data =
     (case cipher_error key of
        Some e \<Rightarrow> Inl e
      | None \<Rightarrow> (case nonce of Inl e \<Rightarrow> Inl e | Inr n \<Rightarrow> Inr (n @ gcm_seal A key n data)))"

(* src: middlewares/security.go:571-594 EncryptionService.Decrypt *)
definition es_Decrypt :: "aes_lib \<Rightarrow> string \<Rightarrow> string \<Rightarrow> err + string" where
  "es_Decrypt A key data =
     (case cipher_error key of
        Some e \<Rightarrow> Inl e
      | None \<Rightarrow>
          if length data < 12 then Inl ''ciphertext too short''
          else gcm_open A key (take 12 data) (drop 12 data))"

(* src: middlewares/security.go:651-654 decryptedReader *)
record decrypted_reader =
  dr_data :: string
  dr_pos :: nat

text \<open>\<open>n\<close> is the size of the buffer; the bytes read stand for the buffer and their number. There is never an error.\<close>

(* src: middlewares/security.go:656-663 decryptedReader.Read *)
definition reader_Read :: "nat \<Rightarrow> decrypted_reader \<Rightarrow> (string \<times> err option) \<times> decrypted_reader" where
  "reader_Read n r =
     (if dr_pos r \<ge> length (dr_data r) then (([], None), r)
      else let chunk = take n (drop (dr_pos r) (dr_data r)) in ((chunk, None), r\<lparr> dr_pos := dr_pos r + length chunk \<rparr>))"

text \<open>
  \<^verbatim>\<open>io.ReadAll\<close>, which everything that binds a request body goes through: it reads until an error, which is the end of the
  input when it is \<^verbatim>\<open>EOF\<close>. \<open>room\<close> is the free capacity of its buffer for each number of bytes read before.
\<close>

partial_function (option) io_ReadAll :: "(nat \<Rightarrow> nat) \<Rightarrow> string \<Rightarrow> decrypted_reader \<Rightarrow> (string \<times> err) option" where
  "io_ReadAll room acc r =
     (case reader_Read (room (length acc)) r of
        ((chunk, Some e), _) \<Rightarrow> Some (acc @ chunk, e)
      | ((chunk, None), r') \<Rightarrow> io_ReadAll room (acc @ chunk) r')"

text \<open>The body as it goes on: as it came, or through the reader.\<close>

datatype body = PlainBody "err + string" | DecryptedBody decrypted_reader

(* src: middlewares/security.go:479-513 SecurityMiddleware.EncryptionMiddleware *)
definition EncryptionMiddleware :: "aes_lib \<Rightarrow> security_middleware \<Rightarrow> sec_request \<Rightarrow> mw_end \<times> body" where
  "EncryptionMiddleware A sm c =
     (if \<not> sc_EncryptionEnabled (sm_config sm) \<or> GetHeader (sq_gin c) ''Content-Type'' \<noteq> ''application/encrypted''
        then (next_handler c, PlainBody (sq_Body c))
      else case sq_Body c of
        Inl e \<Rightarrow>
          (Aborts 400 (HBody
             [(''error'', CtxStr (utf8 [0xE8, 0xAF, 0xBB, 0xE5, 0x8F, 0x96, 0xE8, 0xAF, 0xB7, 0xE6, 0xB1, 0x82, 0xE6, 0x95, 0xB0, 0xE6,
                 0x8D, 0xAE, 0xE5, 0xA4, 0xB1, 0xE8, 0xB4, 0xA5])), (''code'', CtxInt (code_int ErrCodeInvalidParam))]), PlainBody (Inl e))
      | Inr raw \<Rightarrow>
          (case es_Decrypt A (sm_encryption sm) raw of
             Inl _ \<Rightarrow>
               (Aborts 400 (HBody
                  [(''error'', CtxStr (utf8 [0xE8, 0xA7, 0xA3, 0xE5, 0xAF, 0x86, 0xE5, 0xA4, 0xB1, 0xE8, 0xB4, 0xA5])),
                   (''code'', CtxInt (code_int ErrCodeInvalidParam))]), PlainBody (Inr []))
           | Inr decrypted \<Rightarrow> (next_handler c, DecryptedBody \<lparr> dr_data = decrypted, dr_pos = 0 \<rparr>)))"

subsection \<open>Passwords, tokens and input\<close>

(* src: middlewares/security.go:671-674 HashPassword *)
definition HashPassword :: "(string \<Rightarrow> string) \<Rightarrow> string \<Rightarrow> err + string" where
  "HashPassword sha256 password = Inr (EncodeToString (sha256 (password @ ''salt'')))"

(* src: middlewares/security.go:677-683 VerifyPassword *)
definition VerifyPassword :: "(string \<Rightarrow> string) \<Rightarrow> string \<Rightarrow> string \<Rightarrow> bool" where
  "VerifyPassword sha256 password hash =
     (case HashPassword sha256 password of Inl _ \<Rightarrow> False | Inr hashedPassword \<Rightarrow> hashedPassword = hash)"

text \<open>\<^verbatim>\<open>base64.URLEncoding\<close> differs from the standard encoding in two characters.\<close>

definition URLEncodeToString :: "string \<Rightarrow> string" where
  "URLEncodeToString s = map (\<lambda>c. if c = CHR ''+'' then CHR ''-'' else if c = CHR ''/'' then CHR ''_'' else c) (EncodeToString s)"

(* src: middlewares/security.go:686-692 GenerateSecureToken *)
definition GenerateSecureToken :: "err + string \<Rightarrow> err + string" where
  "GenerateSecureToken random = (case random of Inl e \<Rightarrow> Inl e | Inr bytes \<Rightarrow> Inr (URLEncodeToString bytes))"

(* src: middlewares/security.go:695-699 ValidateToken *)
definition ValidateToken :: "string \<Rightarrow> bool" where
  "ValidateToken token = (length token > 0)"

definition dangerous :: "string list" where
  "dangerous = [''<'', ''>'', [CHR 0x22], [char_of (39 :: nat)], ''&'', '';'', ''('', '')'', ''|'', ''`'', ''$'']"

(* src: middlewares/security.go:702-710 SanitizeInput *)
definition SanitizeInput :: "string \<Rightarrow> string" where
  "SanitizeInput s = fold (\<lambda>d result. strings_ReplaceAll d [] result) dangerous s"

section \<open>Properties\<close>

subsection \<open>Input\<close>

lemma replace_char: "strings_ReplaceAll [d] [] s = filter (\<lambda>c. c \<noteq> d) s"
  by (induction s) (auto simp: strings_HasPrefix_def)

text \<open>
  Cleaning an input takes out exactly the dangerous characters, and all of them; cleaning it again changes nothing.
\<close>

theorem sanitize_filters:
  "SanitizeInput s = filter (\<lambda>c. [c] \<notin> set dangerous) s \<and> SanitizeInput (SanitizeInput s) = SanitizeInput s"
proof -
  have "SanitizeInput s = filter (\<lambda>c. [c] \<notin> set dangerous) s" for s
    by (auto simp: SanitizeInput_def dangerous_def replace_char intro!: filter_cong)
  then show ?thesis by simp
qed

lemma of_char_eqD: "(of_char c :: nat) = n \<Longrightarrow> n < 256 \<Longrightarrow> c = char_of n"
  by auto

lemma lower_char_fixed:
  assumes "lower_char c = d" and "(of_char d :: nat) < 97 \<or> 122 < (of_char d :: nat)"
  shows "c = d"
proof (cases "65 \<le> (of_char c :: nat) \<and> (of_char c :: nat) \<le> 90")
  case True
  then have "d = char_of (of_char c + 32 :: nat)" using assms(1) by (simp add: lower_char_def)
  then have "(of_char d :: nat) = of_char c + 32" using True by simp
  with True assms(2) show ?thesis by simp
next
  case False
  with assms(1) show ?thesis by (auto simp: lower_char_def)
qed

lemma sql_pattern_chars:
  assumes "ContainsSQLInjection uni NewInputValidator s" and "is_ascii s"
  shows "CHR ''.'' \<in> set s \<or> CHR ''_'' \<in> set s"
proof -
  obtain p where p: "p \<in> set (iv_sqlPatterns NewInputValidator)" and c: "strings_Contains (map lower_char s) p"
    using assms by (auto simp: ContainsSQLInjection_def list_ex_iff strings_ToLower_def)
  from p have "CHR ''.'' \<in> set p \<or> CHR ''_'' \<in> set p" by (auto simp: NewInputValidator_def)
  moreover from c have "set p \<subseteq> lower_char ` set s"
    by (auto simp: strings_Contains_iff dest: arg_cong [of _ _ set])
  ultimately have "CHR ''.'' \<in> lower_char ` set s \<or> CHR ''_'' \<in> lower_char ` set s" by blast
  then show ?thesis by (auto dest!: sym [of _ "lower_char _"] lower_char_fixed)
qed

text \<open>
  The patterns of the validator are regular expressions that are searched for letter by letter: a query whose ASCII values have
  no full stop and no underscore passes, whatever SQL it holds.
\<close>

theorem sql_filter_misses:
  assumes "\<And>k vs v. (k, vs) \<in> set (sq_Query c) \<Longrightarrow> v \<in> set vs \<Longrightarrow> is_ascii v \<and> CHR ''.'' \<notin> set v \<and> CHR ''_'' \<notin> set v"
  shows "SQLInjectionProtectionMiddleware uni (NewSecurityMiddleware cfg) c = next_handler c"
proof -
  have "\<not> ContainsSQLInjection uni NewInputValidator v" if "(k, vs) \<in> set (sq_Query c)" "v \<in> set vs" for k vs v
    using assms [OF that] sql_pattern_chars [of uni v] by blast
  then show ?thesis
    by (auto simp: SQLInjectionProtectionMiddleware_def NewSecurityMiddleware_def list_ex_iff)
qed

definition sec_demo_request :: sec_request where
  "sec_demo_request = \<lparr> sq_gin = \<lparr> rq_Method = ''POST'', rq_FullPath = ''/users'', rq_Path = ''/users'', rq_ClientIP = ''10.0.0.1'',
       rq_Header = [''Origin'' \<mapsto> ''https://evil.example'', ''Content-Type'' \<mapsto> ''application/encrypted'',
                    ''X-CSRF-Token'' \<mapsto> generateCSRFToken (62135596800 * second) ''10.0.0.1''],
       rq_Keys = Map.empty \<rparr>,
     sq_ContentLength = 0, sq_Query = [(''id'', [''0 union select password from users''])], sq_Body = Inr ''secret'' \<rparr>"

theorem sql_filter_misses_witness:
  "SQLInjectionProtectionMiddleware uni (NewSecurityMiddleware None) sec_demo_request = next_handler sec_demo_request"
  by (rule sql_filter_misses) (auto simp: sec_demo_request_def is_ascii_def)

text \<open>
  An input that is found to be an attack gives an error that is no nil error but holds a nil pointer: whoever asks it for its
  message panics.
\<close>

theorem attack_error_panics:
  "(iv_ValidateInput uni caller iv s = NilError \<longleftrightarrow> \<not> (ContainsSQLInjection uni iv s \<or> ContainsXSS uni iv s))
   \<and> error_message (iv_ValidateInput uni caller iv s) = Panics ''runtime error: invalid memory address or nil pointer dereference''"
  by (simp add: iv_ValidateInput_def error_message_def WrapError_def)

subsection \<open>CSRF\<close>

lemma digits_value_snoc: "digits_value (s @ [c]) = 10 * digits_value s + (of_char c - 48)"
  by (simp add: digits_value_def)

lemma digits_value_decimal [simp]: "digits_value (decimal n) = n"
proof (induction n rule: decimal.induct)
  case (1 n)
  have "(of_char (char_of (48 + k :: nat)) :: nat) = 48 + k" if "k < 10" for k :: nat using that by simp
  with 1 show ?case
    by (subst decimal.simps) (simp add: digits_value_snoc, simp add: digits_value_def)
qed

lemma decimal_no_minus: "CHR ''-'' \<notin> set (decimal n)"
proof (induction n rule: decimal.induct)
  case (1 n)
  have ne: "CHR ''-'' \<noteq> char_of (48 + k :: nat)" if "k < 10" for k :: nat
  proof
    assume "CHR ''-'' = char_of (48 + k)"
    then have "(of_char (CHR ''-'') :: nat) = of_char (char_of (48 + k :: nat))" by simp
    with that show False by simp
  qed
  with 1 ne [of n] ne [of "n mod 10"] show ?case by (subst decimal.simps) auto
qed

lemma decimal_inj: "decimal m = decimal n \<Longrightarrow> m = n"
  using digits_value_decimal by metis

lemma itoa_inj: "itoa i = itoa j \<longleftrightarrow> i = j"
proof
  assume eq: "itoa i = itoa j"
  have sign: "CHR ''-'' \<in> set (itoa k) \<longleftrightarrow> k < 0" for k by (simp add: itoa_def decimal_no_minus)
  have "nat \<bar>i\<bar> = nat \<bar>j\<bar>"
    using eq sign [of i] sign [of j] by (auto simp: itoa_def split: if_splits dest: decimal_inj)
  then have "\<bar>i\<bar> = \<bar>j\<bar>" by simp
  moreover have "i < 0 \<longleftrightarrow> j < 0" using eq sign [of i] sign [of j] by simp
  ultimately show "i = j" by linarith
qed simp

text \<open>
  A CSRF token is the client's own address and the time: a request that may change something passes exactly when its token was
  made for its address in the same second. Anyone can make it, and no page can be sent in time.
\<close>

theorem csrf_token_one_second:
  assumes "sc_CSRFProtection (sm_config sm)" and "rq_Method (sq_gin c) \<noteq> ''GET''"
    and "rq_Header (sq_gin c) ''X-CSRF-Token'' = Some (generateCSRFToken issued (rq_ClientIP (sq_gin c)))"
  shows "proceeds (CSRFProtectionMiddleware sm now c) \<longleftrightarrow> go_unix issued = go_unix now"
  using assms
  by (simp add: CSRFProtectionMiddleware_def Let_def GetHeader_def validateCSRFToken_def generateCSRFToken_def itoa_inj next_handler_def)

theorem csrf_token_one_second_witness:
  "proceeds (CSRFProtectionMiddleware (NewSecurityMiddleware None) (62135596800 * second + 5) sec_demo_request)
   \<and> \<not> proceeds (CSRFProtectionMiddleware (NewSecurityMiddleware None) (62135596801 * second) sec_demo_request)"
proof -
  have p: "proceeds (CSRFProtectionMiddleware (NewSecurityMiddleware None) now sec_demo_request)
      \<longleftrightarrow> go_unix (62135596800 * second) = go_unix now" for now
    by (rule csrf_token_one_second) (simp_all add: sec_demo_request_def NewSecurityMiddleware_def DefaultSecurityConfig_def)
  show ?thesis unfolding p by (simp add: go_unix_def second_def)
qed

subsection \<open>Encrypted bodies\<close>

text \<open>
  The key of the encryption service is 34 bytes long, which no AES key is: nothing is ever encrypted or decrypted with it, and
  under the default configuration every request with an encrypted body is refused.
\<close>

theorem encrypted_requests_refused:
  assumes "GetHeader (sq_gin c) ''Content-Type'' = ''application/encrypted''"
  shows "end_status (fst (EncryptionMiddleware A (NewSecurityMiddleware None) c)) = Some 400
    \<and> es_Encrypt A (sm_encryption (NewSecurityMiddleware None)) nonce data = Inl (''crypto/aes: invalid key size '' @ decimal 34)"
proof -
  have "length NewEncryptionService = 34" by (simp add: NewEncryptionService_def)
  then have bad: "cipher_error NewEncryptionService = Some (''crypto/aes: invalid key size '' @ decimal 34)"
    by (simp add: cipher_error_def)
  then show ?thesis
    by (simp add: EncryptionMiddleware_def assms NewSecurityMiddleware_def DefaultSecurityConfig_def es_Decrypt_def es_Encrypt_def
        split: sum.split)
qed

theorem encrypted_requests_refused_witness:
  "end_status (fst (EncryptionMiddleware demo_aes (NewSecurityMiddleware None) sec_demo_request)) = Some 400
   \<and> es_Encrypt demo_aes (sm_encryption (NewSecurityMiddleware None)) (Inr (replicate 12 (CHR ''n''))) ''x''
      = Inl (''crypto/aes: invalid key size '' @ decimal 34)"
  by (rule encrypted_requests_refused) (simp add: sec_demo_request_def GetHeader_def)

text \<open>With a key of a proper length the service gives back what it encrypted.\<close>

lemma es_roundtrip:
  assumes "gcm_laws A" and "length key = 32" and "length n = 12" and "es_Encrypt A key (Inr n) data = Inr e"
  shows "es_Decrypt A key e = Inr data"
  using assms by (auto simp: es_Encrypt_def es_Decrypt_def cipher_error_def gcm_laws_def)

text \<open>
  Even then the body could not be read: the reader that holds it never reports the end of the input, so reading all of it never
  returns.
\<close>

theorem decrypted_body_never_ends:
  "io_ReadAll room acc r = None"
proof -
  have "False" if "io_ReadAll room acc r = Some y" for acc r y
  proof (rule io_ReadAll.raw_induct [where P = "\<lambda>_ _ _ _. False", OF _ that])
    fix f :: "(nat \<Rightarrow> nat) \<Rightarrow> string \<Rightarrow> decrypted_reader \<Rightarrow> (string \<times> err) option" and room acc r y
    assume none: "\<And>room acc r y. f room acc r = Some y \<Longrightarrow> False"
      and step: "(case reader_Read (room (length acc)) r of
          ((chunk, Some e), x) \<Rightarrow> Some (acc @ chunk, e) | ((chunk, None), r') \<Rightarrow> f room (acc @ chunk) r') = Some y"
    obtain chunk r' where "reader_Read (room (length acc)) r = ((chunk, None), r')"
      by (cases "dr_pos r \<ge> length (dr_data r)") (auto simp: reader_Read_def Let_def)
    with step have "f room (acc @ chunk) r' = Some y" by simp
    then show False by (rule none)
  qed
  then show ?thesis by (cases "io_ReadAll room acc r") auto
qed

subsection \<open>Origins\<close>

text \<open>The default configuration lets every origin send the credentials of its visitors and read the answers.\<close>

theorem every_origin_is_trusted:
  assumes "GetHeader (sq_gin c) ''Origin'' = origin" and "origin \<noteq> []"
  shows "snd (sm_CORS (NewSecurityMiddleware None) c h) ''Access-Control-Allow-Origin'' = Some origin
    \<and> snd (sm_CORS (NewSecurityMiddleware None) c h) ''Access-Control-Allow-Credentials'' = Some ''true''"
  using assms by (simp add: sm_CORS_def NewSecurityMiddleware_def DefaultSecurityConfig_def Let_def gin_Header_def)

theorem every_origin_is_trusted_witness:
  "snd (sm_CORS (NewSecurityMiddleware None) sec_demo_request Map.empty) ''Access-Control-Allow-Origin'' = Some ''https://evil.example''
   \<and> snd (sm_CORS (NewSecurityMiddleware None) sec_demo_request Map.empty) ''Access-Control-Allow-Credentials'' = Some ''true''"
  by (rule every_origin_is_trusted) (simp_all add: sec_demo_request_def GetHeader_def)

subsection \<open>Limits by address\<close>

text \<open>A run of the middleware over timed requests, and of one limiter over times.\<close>

fun ip_run :: "'l limiter_lib \<Rightarrow> (gotime \<times> sec_request) list \<Rightarrow> (string \<rightharpoonup> 'l) \<Rightarrow> bool list" where
  "ip_run L [] limiters = []"
| "ip_run L ((now, c) # reqs) limiters =
     proceeds (fst (RateLimitByIP L now c limiters)) # ip_run L reqs (snd (RateLimitByIP L now c limiters))"

fun limiter_run :: "'l limiter_lib \<Rightarrow> gotime list \<Rightarrow> 'l \<Rightarrow> bool list" where
  "limiter_run L [] l = []"
| "limiter_run L (now # ts) l = fst (lm_Allow L now l) # limiter_run L ts (snd (lm_Allow L now l))"

definition limiter_at :: "'l limiter_lib \<Rightarrow> string \<Rightarrow> (string \<rightharpoonup> 'l) \<Rightarrow> 'l" where
  "limiter_at L ip limiters = (case limiters ip of None \<Rightarrow> lm_New L 50 100 | Some l \<Rightarrow> l)"

lemma RateLimitByIP_step:
  "proceeds (fst (RateLimitByIP L now c limiters)) \<longleftrightarrow> fst (lm_Allow L now (limiter_at L (rq_ClientIP (sq_gin c)) limiters))"
  "limiter_at L ip (snd (RateLimitByIP L now c limiters))
    = (if ip = rq_ClientIP (sq_gin c) then snd (lm_Allow L now (limiter_at L ip limiters)) else limiter_at L ip limiters)"
  by (auto simp: RateLimitByIP_def limiter_at_def next_handler_def Let_def split: prod.split bool.split option.split)

lemma ip_run_at:
  "map snd (filter (\<lambda>(r, ok). rq_ClientIP (sq_gin (snd r)) = ip) (zip reqs (ip_run L reqs limiters)))
    = limiter_run L (map fst (filter (\<lambda>r. rq_ClientIP (sq_gin (snd r)) = ip) reqs)) (limiter_at L ip limiters)"
  by (induction L reqs limiters rule: ip_run.induct) (simp_all add: RateLimitByIP_step)

text \<open>
  Clients with different addresses do not disturb each other: what the requests of an address are answered is what a limiter of
  its own, fed with their times only, decides.
\<close>

theorem ip_limits_independent:
  "map snd (filter (\<lambda>(r, ok). rq_ClientIP (sq_gin (snd r)) = ip) (zip reqs (ip_run L reqs Map.empty)))
    = limiter_run L (map fst (filter (\<lambda>r. rq_ClientIP (sq_gin (snd r)) = ip) reqs)) (lm_New L 50 100)"
  by (simp add: ip_run_at limiter_at_def)

subsection \<open>Passwords\<close>

lemma EncodeToString_inj: "EncodeToString s = EncodeToString t \<longleftrightarrow> s = t"
  using DecodeString_Encode by (metis sum.inject(2))

lemma verify_password:
  "HashPassword sha256 password = Inr hash \<Longrightarrow>
   VerifyPassword sha256 guess hash \<longleftrightarrow> sha256 (guess @ ''salt'') = sha256 (password @ ''salt'')"
  by (auto simp: VerifyPassword_def HashPassword_def EncodeToString_inj)

end
