(* ===== verification/Service_Governance.thy ===== *)
theory Service_Governance
  imports App_Error Name_Registry
begin

text \<open>
  Service governance: registered services, circuit breakers, load balancers and retry policies,
  \<^verbatim>\<open>src/app/common/governance/service_governance.go\<close>.

  Services are shared by pointer: an address into a heap. A function that is called acts on the world and returns an error or
  panics. The lock of a breaker is held during the call, so that calls of one breaker never overlap; a panic leaves the breaker as
  it was before the call. Sleeps are left out of the world and returned as a list. Floating point numbers are reals.

  Errors: \<^verbatim>\<open>utils.WrapError(nil, ...)\<close> is a nil pointer, which as an \<^verbatim>\<open>error\<close> is not nil.
\<close>

section \<open>Model\<close>

type_synonym addr = nat

(* src: app/common/governance/service_governance.go:32-37 ServiceHealth *)
record service_health =
  sh_Status :: string
  sh_LastCheck :: gotime
  sh_ResponseTime :: duration
  sh_Error :: "err option"

(* src: app/common/governance/service_governance.go:21-29 Service *)
record service =
  gs_Name :: string
  gs_Address :: string
  gs_Port :: int
  gs_Health :: service_health
  gs_Load :: real
  gs_LastCheck :: gotime
  gs_Tags :: "string \<rightharpoonup> string"

(* src: app/common/governance/service_governance.go:51-57 CircuitState, constants *)
datatype circuit_state = CircuitClosed | CircuitOpen | CircuitHalfOpen

(* src: app/common/governance/service_governance.go:40-48 CircuitBreaker *)
record gov_breaker =
  gb_Name :: string
  gb_State :: circuit_state
  gb_FailureCount :: int
  gb_LastFailure :: gotime
  gb_Threshold :: int
  gb_Timeout :: duration

(* src: app/common/governance/service_governance.go:68-75 LoadBalanceStrategy, constants *)
datatype balance_strategy = StrategyRoundRobin | StrategyRandom | StrategyWeighted | StrategyLeastConnections | StrategyOther

(* src: app/common/governance/service_governance.go:60-65 LoadBalancer *)
record gov_balancer =
  lb_Name :: string
  lb_Strategy :: balance_strategy
  lb_Services :: "addr list"

(* src: app/common/governance/service_governance.go:78-85 RetryPolicy *)
record gov_policy =
  gp_Name :: string
  gp_MaxRetries :: int
  gp_BaseDelay :: duration
  gp_MaxDelay :: duration
  gp_Multiplier :: real
  gp_Jitter :: bool

(* src: app/common/governance/service_governance.go:12-18 ServiceGovernance *)
record governance =
  sg_services :: "string \<rightharpoonup> addr"
  sg_circuitBreakers :: "string \<rightharpoonup> gov_breaker"
  sg_loadBalancers :: "string \<rightharpoonup> gov_balancer"
  sg_retryPolicies :: "string \<rightharpoonup> gov_policy"

(* src: app/common/governance/service_governance.go:88-95 NewServiceGovernance *)
definition NewServiceGovernance :: governance where
  "NewServiceGovernance = \<lparr> sg_services = Map.empty, sg_circuitBreakers = Map.empty, sg_loadBalancers = Map.empty, sg_retryPolicies = Map.empty \<rparr>"

definition gov_site :: "int \<Rightarrow> string \<times> int" where
  "gov_site line = (''app/common/governance/service_governance.go'', line)"

definition nil_wrapped :: "int \<Rightarrow> error_code \<Rightarrow> string \<Rightarrow> go_error" where
  "nil_wrapped line code message = TypedError (WrapError (gov_site line) None (code_int code) message)"

definition no_service :: string where
  "no_service = utf8 [0xE6, 0x9C, 0x8D, 0xE5, 0x8A, 0xA1, 0xE4, 0xB8, 0x8D, 0xE5, 0xAD, 0x98, 0xE5, 0x9C, 0xA8]"

definition no_balancer :: string where
  "no_balancer = utf8 [0xE8, 0xB4, 0x9F, 0xE8, 0xBD, 0xBD, 0xE5, 0x9D, 0x87, 0xE8, 0xA1, 0xA1, 0xE5, 0x99, 0xA8, 0xE4, 0xB8, 0x8D, 0xE5, 0xAD, 0x98,
     0xE5, 0x9C, 0xA8]"

definition none_available :: string where
  "none_available = utf8 [0xE6, 0xB2, 0xA1, 0xE6, 0x9C, 0x89, 0xE5, 0x8F, 0xAF, 0xE7, 0x94, 0xA8, 0xE7, 0x9A, 0x84, 0xE6, 0x9C, 0x8D, 0xE5, 0x8A, 0xA1]"

definition empty_name :: string where
  "empty_name = utf8 [0xE6, 0x9C, 0x8D, 0xE5, 0x8A, 0xA1, 0xE5, 0x90, 0x8D, 0xE7, 0xA7, 0xB0, 0xE4, 0xB8, 0x8D, 0xE8, 0x83, 0xBD, 0xE4, 0xB8, 0xBA,
     0xE7, 0xA9, 0xBA]"

subsection \<open>Services\<close>

(* src: app/common/governance/service_governance.go:98-108 ServiceGovernance.RegisterService *)
definition gov_RegisterService :: "(addr \<Rightarrow> service) \<Rightarrow> addr \<Rightarrow> governance \<Rightarrow> go_error \<times> governance" where
  "gov_RegisterService h s g =
     (if gs_Name (h s) = [] then (nil_wrapped 103 ErrCodeInvalidParam empty_name, g)
      else (NilError, g\<lparr> sg_services := (sg_services g)(gs_Name (h s) \<mapsto> s) \<rparr>))"

(* src: app/common/governance/service_governance.go:111-115 ServiceGovernance.UnregisterService *)
definition gov_UnregisterService :: "string \<Rightarrow> governance \<Rightarrow> governance" where
  "gov_UnregisterService name g = g\<lparr> sg_services := (sg_services g)(name := None) \<rparr>"

(* src: app/common/governance/service_governance.go:118-128 ServiceGovernance.GetService *)
definition gov_GetService :: "string \<Rightarrow> governance \<Rightarrow> go_error + addr" where
  "gov_GetService name g =
     (case sg_services g name of None \<Rightarrow> Inl (nil_wrapped 124 ErrCodeServiceUnavailable no_service) | Some s \<Rightarrow> Inr s)"

subsection \<open>Circuit breakers\<close>

(* src: app/common/governance/service_governance.go:144-154 ServiceGovernance.AddCircuitBreaker *)
definition AddCircuitBreaker :: "string \<Rightarrow> int \<Rightarrow> duration \<Rightarrow> governance \<Rightarrow> governance" where
  "AddCircuitBreaker name threshold timeout g =
     g\<lparr> sg_circuitBreakers := (sg_circuitBreakers g)(name \<mapsto>
       \<lparr> gb_Name = name, gb_State = CircuitClosed, gb_FailureCount = 0, gb_LastFailure = 0, gb_Threshold = threshold, gb_Timeout = timeout \<rparr>) \<rparr>"

(* src: app/common/governance/service_governance.go:157-163 ServiceGovernance.GetCircuitBreaker *)
definition gov_GetCircuitBreaker :: "governance \<Rightarrow> string \<Rightarrow> gov_breaker option" where
  "gov_GetCircuitBreaker g name = sg_circuitBreakers g name"

text \<open>\<open>now1\<close> is read at the check and \<open>now2\<close> after a failed call.\<close>

(* src: app/common/governance/service_governance.go:350-382 CircuitBreaker.Call *)
definition gb_Call :: "gotime \<Rightarrow> gotime \<Rightarrow> ('w \<Rightarrow> go_error go_result \<times> 'w) \<Rightarrow> gov_breaker \<times> 'w \<Rightarrow> go_error go_result \<times> gov_breaker \<times> 'w" where
  "gb_Call now1 now2 fn bw =
     (let b = fst bw; w = snd bw in
      if gb_State b = CircuitOpen \<and> now1 - gb_LastFailure b < gb_Timeout b
        then (Returns (nil_wrapped 357 ErrCodeServiceUnavailable
               (utf8 [0xE7, 0x86, 0x94, 0xE6, 0x96, 0xAD, 0xE5, 0x99, 0xA8, 0xE5, 0xBC, 0x80, 0xE5, 0x90, 0xAF])), b, w)
      else
        let b = (if gb_State b = CircuitOpen then b\<lparr> gb_State := CircuitHalfOpen \<rparr> else b)
        in case fn w of
          (Panics p, w') \<Rightarrow> (Panics p, b, w')
        | (Returns NilError, w') \<Rightarrow>
            (Returns NilError, (if gb_State b = CircuitHalfOpen then b\<lparr> gb_State := CircuitClosed \<rparr> else b)\<lparr> gb_FailureCount := 0 \<rparr>, w')
        | (Returns e, w') \<Rightarrow>
            let b = b\<lparr> gb_FailureCount := gb_FailureCount b + 1, gb_LastFailure := now2 \<rparr>
            in (Returns e, if gb_FailureCount b \<ge> gb_Threshold b then b\<lparr> gb_State := CircuitOpen \<rparr> else b, w'))"

(* src: app/common/governance/service_governance.go:385-389 CircuitBreaker.GetState *)
definition gb_GetState :: "gov_breaker \<Rightarrow> circuit_state" where
  "gb_GetState b = gb_State b"

(* src: app/common/governance/service_governance.go:392-399 CircuitBreaker.Reset *)
definition gb_Reset :: "gov_breaker \<Rightarrow> gov_breaker" where
  "gb_Reset b = b\<lparr> gb_State := CircuitClosed, gb_FailureCount := 0, gb_LastFailure := 0 \<rparr>"

(* src: app/common/governance/service_governance.go:166-175 ServiceGovernance.CallService *)
definition gov_CallService ::
  "gotime \<Rightarrow> gotime \<Rightarrow> string \<Rightarrow> ('w \<Rightarrow> go_error go_result \<times> 'w) \<Rightarrow> governance \<times> 'w \<Rightarrow> go_error go_result \<times> governance \<times> 'w" where
  "gov_CallService now1 now2 name fn gw =
     (case gov_GetCircuitBreaker (fst gw) name of
        Some b \<Rightarrow>
          (case gb_Call now1 now2 fn (b, snd gw) of
             (r, b', w') \<Rightarrow> (r, (fst gw)\<lparr> sg_circuitBreakers := (sg_circuitBreakers (fst gw))(name \<mapsto> b') \<rparr>, w'))
      | None \<Rightarrow> (case fn (snd gw) of (r, w') \<Rightarrow> (r, fst gw, w')))"

subsection \<open>Load balancers\<close>

(* src: app/common/governance/service_governance.go:178-187 ServiceGovernance.AddLoadBalancer *)
definition AddLoadBalancer :: "string \<Rightarrow> balance_strategy \<Rightarrow> governance \<Rightarrow> governance" where
  "AddLoadBalancer name strategy g =
     g\<lparr> sg_loadBalancers := (sg_loadBalancers g)(name \<mapsto> \<lparr> lb_Name = name, lb_Strategy = strategy, lb_Services = [] \<rparr>) \<rparr>"

(* src: app/common/governance/service_governance.go:190-206 ServiceGovernance.AddServiceToLoadBalancer *)
definition AddServiceToLoadBalancer :: "string \<Rightarrow> string \<Rightarrow> governance \<Rightarrow> go_error \<times> governance" where
  "AddServiceToLoadBalancer lbName serviceName g =
     (case sg_loadBalancers g lbName of
        None \<Rightarrow> (nil_wrapped 196 ErrCodeServiceUnavailable no_balancer, g)
      | Some lb \<Rightarrow>
          (case sg_services g serviceName of
             None \<Rightarrow> (nil_wrapped 201 ErrCodeServiceUnavailable no_service, g)
           | Some s \<Rightarrow> (NilError, g\<lparr> sg_loadBalancers := (sg_loadBalancers g)(lbName \<mapsto> lb\<lparr> lb_Services := lb_Services lb @ [s] \<rparr>) \<rparr>)))"

(* src: app/common/governance/service_governance.go:238-245 LoadBalancer.selectRoundRobin *)
definition lb_selectRoundRobin :: "gov_balancer \<Rightarrow> go_error + addr" where
  "lb_selectRoundRobin lb =
     (if lb_Services lb = [] then Inl (nil_wrapped 242 ErrCodeServiceUnavailable none_available) else Inr (lb_Services lb ! 0))"

(* src: app/common/governance/service_governance.go:248-254 LoadBalancer.selectRandom *)
definition lb_selectRandom :: "gov_balancer \<Rightarrow> go_error + addr" where
  "lb_selectRandom lb =
     (if lb_Services lb = [] then Inl (nil_wrapped 250 ErrCodeServiceUnavailable none_available) else Inr (lb_Services lb ! 0))"

(* src: app/common/governance/service_governance.go:257-263 LoadBalancer.selectWeighted *)
definition lb_selectWeighted :: "gov_balancer \<Rightarrow> go_error + addr" where
  "lb_selectWeighted lb =
     (if lb_Services lb = [] then Inl (nil_wrapped 259 ErrCodeServiceUnavailable none_available) else Inr (lb_Services lb ! 0))"

(* src: app/common/governance/service_governance.go:266-272 LoadBalancer.selectLeastConnections *)
definition lb_selectLeastConnections :: "gov_balancer \<Rightarrow> go_error + addr" where
  "lb_selectLeastConnections lb =
     (if lb_Services lb = [] then Inl (nil_wrapped 268 ErrCodeServiceUnavailable none_available) else Inr (lb_Services lb ! 0))"

(* src: app/common/governance/service_governance.go:209-235 ServiceGovernance.SelectService *)
definition gov_SelectService :: "string \<Rightarrow> governance \<Rightarrow> go_error + addr" where
  "gov_SelectService lbName g =
     (case sg_loadBalancers g lbName of
        None \<Rightarrow> Inl (nil_wrapped 215 ErrCodeServiceUnavailable no_balancer)
      | Some lb \<Rightarrow>
          if lb_Services lb = [] then Inl (nil_wrapped 219 ErrCodeServiceUnavailable none_available)
          else case lb_Strategy lb of
            StrategyRoundRobin \<Rightarrow> lb_selectRoundRobin lb
          | StrategyRandom \<Rightarrow> lb_selectRandom lb
          | StrategyWeighted \<Rightarrow> lb_selectWeighted lb
          | StrategyLeastConnections \<Rightarrow> lb_selectLeastConnections lb
          | StrategyOther \<Rightarrow> lb_selectRoundRobin lb)"

subsection \<open>Retry policies\<close>

(* src: app/common/governance/service_governance.go:275-280 ServiceGovernance.AddRetryPolicy *)
definition AddRetryPolicy :: "gov_policy \<Rightarrow> governance \<Rightarrow> governance" where
  "AddRetryPolicy policy g = g\<lparr> sg_retryPolicies := (sg_retryPolicies g)(gp_Name policy \<mapsto> policy) \<rparr>"

(* src: app/common/governance/service_governance.go:283-289 ServiceGovernance.GetRetryPolicy *)
definition gov_GetRetryPolicy :: "governance \<Rightarrow> string \<Rightarrow> gov_policy option" where
  "gov_GetRetryPolicy g name = sg_retryPolicies g name"

(* src: app/common/governance/service_governance.go:329-347 RetryPolicy.calculateDelay *)
definition gp_calculateDelay :: "gov_policy \<Rightarrow> nat \<Rightarrow> duration" where
  "gp_calculateDelay rp attempt =
     (let delay = ((\<lambda>delay. let delay = go_trunc (real_of_int delay * gp_Multiplier rp)
                            in if delay > gp_MaxDelay rp then gp_MaxDelay rp else delay) ^^ attempt) (gp_BaseDelay rp)
      in if gp_Jitter rp then go_trunc (real_of_int delay * (9 / 10)) else delay)"

text \<open>Wrapping an error asks it for its message, which a nil pointer answers with a panic.\<close>

definition wrap_go :: "string \<times> int \<Rightarrow> go_error \<Rightarrow> int \<Rightarrow> string \<Rightarrow> go_error go_result" where
  "wrap_go caller e code message =
     (case e of
        NilError \<Rightarrow> Returns (TypedError (WrapError caller None code message))
      | TypedError None \<Rightarrow> Panics ''runtime error: invalid memory address or nil pointer dereference''
      | TypedError (Some g) \<Rightarrow> Returns (TypedError (WrapError caller (Some g) code message)))"

text \<open>\<open>left\<close> more rounds are to come after this one; \<open>done i\<close> is the error of the context at round \<open>i\<close>, if it is done.\<close>

(* src: app/common/governance/service_governance.go:305-323 ServiceGovernance.retryWithPolicy (loop) *)
fun gov_attempts ::
  "(nat \<Rightarrow> err option) \<Rightarrow> gov_policy \<Rightarrow> ('w \<Rightarrow> go_error go_result \<times> 'w) \<Rightarrow> nat \<Rightarrow> nat \<Rightarrow> 'w
   \<Rightarrow> (go_error + go_error) go_result \<times> duration list \<times> 'w" where
  "gov_attempts done policy fn i left w =
     (case done i of
        Some e \<Rightarrow> (Returns (Inl (TypedError (Some (PlainError e)))), [], w)
      | None \<Rightarrow>
          (case fn w of
             (Panics p, w') \<Rightarrow> (Panics p, [], w')
           | (Returns NilError, w') \<Rightarrow> (Returns (Inl NilError), [], w')
           | (Returns e, w') \<Rightarrow>
               (case left of
                  0 \<Rightarrow> (Returns (Inr e), [], w')
                | Suc l \<Rightarrow> (case gov_attempts done policy fn (Suc i) l w' of
                    (r, sleeps, w'') \<Rightarrow> (r, gp_calculateDelay policy i # sleeps, w'')))))"

text \<open>\<open>Inl\<close> of the loop is what it returns, \<open>Inr\<close> the last error, which is wrapped.\<close>

(* src: app/common/governance/service_governance.go:302-326 ServiceGovernance.retryWithPolicy *)
definition gov_retryWithPolicy ::
  "(nat \<Rightarrow> err option) \<Rightarrow> gov_policy \<Rightarrow> ('w \<Rightarrow> go_error go_result \<times> 'w) \<Rightarrow> 'w \<Rightarrow> go_error go_result \<times> duration list \<times> 'w" where
  "gov_retryWithPolicy done policy fn w =
     (let failed = utf8 [0xE9, 0x87, 0x8D, 0xE8, 0xAF, 0x95, 0xE5, 0xA4, 0xB1, 0xE8, 0xB4, 0xA5] in
      if gp_MaxRetries policy < 0 then (wrap_go (gov_site 325) NilError (code_int ErrCodeServiceUnavailable) failed, [], w)
      else case gov_attempts done policy fn 0 (nat (gp_MaxRetries policy)) w of
        (Panics p, sleeps, w') \<Rightarrow> (Panics p, sleeps, w')
      | (Returns (Inl r), sleeps, w') \<Rightarrow> (Returns r, sleeps, w')
      | (Returns (Inr lastErr), sleeps, w') \<Rightarrow> (wrap_go (gov_site 325) lastErr (code_int ErrCodeServiceUnavailable) failed, sleeps, w'))"

(* src: app/common/governance/service_governance.go:292-299 ServiceGovernance.RetryWithPolicy *)
definition gov_RetryWithPolicy ::
  "(nat \<Rightarrow> err option) \<Rightarrow> governance \<Rightarrow> string \<Rightarrow> ('w \<Rightarrow> go_error go_result \<times> 'w) \<Rightarrow> 'w \<Rightarrow> go_error go_result \<times> duration list \<times> 'w" where
  "gov_RetryWithPolicy done g policyName fn w =
     (case gov_GetRetryPolicy g policyName of
        None \<Rightarrow> (Returns (nil_wrapped 295 ErrCodeServiceUnavailable
          (utf8 [0xE9, 0x87, 0x8D, 0xE8, 0xAF, 0x95, 0xE7, 0xAD, 0x96, 0xE7, 0x95, 0xA5, 0xE4, 0xB8, 0x8D, 0xE5, 0xAD, 0x98, 0xE5, 0x9C, 0xA8])), [], w)
      | Some policy \<Rightarrow> gov_retryWithPolicy done policy fn w)"

subsection \<open>Discovery and health\<close>

(* src: app/common/governance/service_governance.go:415-425 ServiceDiscovery.Register *)
definition sd_Register :: "(addr \<Rightarrow> service) \<Rightarrow> addr \<Rightarrow> (string \<rightharpoonup> addr) \<Rightarrow> go_error \<times> (string \<rightharpoonup> addr)" where
  "sd_Register h s services =
     (if gs_Name (h s) = [] then (nil_wrapped 420 ErrCodeInvalidParam empty_name, services)
      else (NilError, services(gs_Name (h s) \<mapsto> s)))"

(* src: app/common/governance/service_governance.go:428-438 ServiceDiscovery.Discover *)
definition sd_Discover :: "(string \<rightharpoonup> addr) \<Rightarrow> string \<Rightarrow> go_error + addr" where
  "sd_Discover services name =
     (case services name of None \<Rightarrow> Inl (nil_wrapped 434 ErrCodeServiceUnavailable no_service) | Some s \<Rightarrow> Inr s)"

(* src: app/common/governance/service_governance.go:471-475 HealthChecker.AddService *)
definition hc_AddService :: "(addr \<Rightarrow> service) \<Rightarrow> addr \<Rightarrow> (string \<rightharpoonup> addr) \<Rightarrow> string \<rightharpoonup> addr" where
  "hc_AddService h s services = services(gs_Name (h s) \<mapsto> s)"

(* src: app/common/governance/service_governance.go:517-526 HealthChecker.checkService *)
definition hc_checkService :: "gotime \<Rightarrow> addr \<Rightarrow> (addr \<Rightarrow> service) \<Rightarrow> addr \<Rightarrow> service" where
  "hc_checkService now s h =
     h(s := (h s)\<lparr> gs_Health := \<lparr> sh_Status = ''healthy'', sh_LastCheck = now, sh_ResponseTime = 100 * (second div 1000), sh_Error = None \<rparr> \<rparr>)"

text \<open>One goroutine per service; each writes its own service. The times are those of the writes.\<close>

(* src: app/common/governance/service_governance.go:503-514 HealthChecker.checkAllServices *)
definition hc_checkAllServices :: "(addr \<times> gotime) list \<Rightarrow> (addr \<Rightarrow> service) \<Rightarrow> addr \<Rightarrow> service" where
  "hc_checkAllServices schedule h = fold (\<lambda>(s, now). hc_checkService now s) schedule h"

section \<open>Registries\<close>

interpretation gov_breakers: name_registry NewServiceGovernance "\<lambda>(name, threshold, timeout). AddCircuitBreaker name threshold timeout"
  "\<lambda>g n. case gov_GetCircuitBreaker g n of None \<Rightarrow> Inl n | Some b \<Rightarrow> Inr b" fst
  "\<lambda>(name, threshold, timeout). \<lparr> gb_Name = name, gb_State = CircuitClosed, gb_FailureCount = 0, gb_LastFailure = 0,
     gb_Threshold = threshold, gb_Timeout = timeout \<rparr>" "\<lambda>n. n"
  by unfold_locales (auto simp: NewServiceGovernance_def AddCircuitBreaker_def gov_GetCircuitBreaker_def)

interpretation gov_policies: name_registry NewServiceGovernance AddRetryPolicy
  "\<lambda>g n. case gov_GetRetryPolicy g n of None \<Rightarrow> Inl n | Some p \<Rightarrow> Inr p" gp_Name "\<lambda>p. p" "\<lambda>n. n"
  by unfold_locales (auto simp: NewServiceGovernance_def AddRetryPolicy_def gov_GetRetryPolicy_def)

text \<open>Adding a breaker under a name in use forgets what the old one knew: the new one is closed.\<close>

lemma added_breaker_closed:
  "gov_GetCircuitBreaker (AddCircuitBreaker name t d g) name =
     Some \<lparr> gb_Name = name, gb_State = CircuitClosed, gb_FailureCount = 0, gb_LastFailure = 0, gb_Threshold = t, gb_Timeout = d \<rparr>"
  by (simp add: AddCircuitBreaker_def gov_GetCircuitBreaker_def)

section \<open>Properties\<close>

subsection \<open>The breaker\<close>

text \<open>
  A run of calls, each with its two times and the error it will return when it is made. The world counts the calls made; the result
  says of each call whether it was made.
\<close>

type_synonym timed_call = "gotime \<times> gotime \<times> go_error"

fun gb_run :: "timed_call list \<Rightarrow> gov_breaker \<Rightarrow> bool list \<times> circuit_state" where
  "gb_run [] b = ([], gb_GetState b)"
| "gb_run ((now1, now2, e) # cs) b =
     (case gb_Call now1 now2 (\<lambda>w :: nat. (Returns e, w + 1)) (b, 0) of
        (r, b', made) \<Rightarrow> (case gb_run cs b' of (bs, st) \<Rightarrow> ((made = 1) # bs, st)))"

text \<open>The specification: the number of failures since the last success, and the time of the last failure.\<close>

fun consecutive_failures :: "int \<Rightarrow> duration \<Rightarrow> timed_call list \<Rightarrow> int \<Rightarrow> gotime \<Rightarrow> bool list \<times> bool" where
  "consecutive_failures T d [] k t = ([], k \<ge> T)"
| "consecutive_failures T d ((now1, now2, e) # cs) k t =
     (if k \<ge> T \<and> now1 - t < d then (case consecutive_failures T d cs k t of (bs, st) \<Rightarrow> (False # bs, st))
      else if e = NilError then (case consecutive_failures T d cs 0 t of (bs, st) \<Rightarrow> (True # bs, st))
      else (case consecutive_failures T d cs (k + 1) now2 of (bs, st) \<Rightarrow> (True # bs, st)))"

definition counts_failures :: "int \<Rightarrow> duration \<Rightarrow> int \<Rightarrow> gotime \<Rightarrow> gov_breaker \<Rightarrow> bool" where
  "counts_failures T d k t b \<longleftrightarrow> gb_FailureCount b = k \<and> gb_LastFailure b = t \<and> gb_Threshold b = T \<and> gb_Timeout b = d
     \<and> gb_State b = (if k \<ge> T then CircuitOpen else CircuitClosed)"

lemma gb_run_counts:
  "1 \<le> T \<Longrightarrow> counts_failures T d k t b \<Longrightarrow> 0 \<le> k \<Longrightarrow>
   gb_run cs b = (case consecutive_failures T d cs k t of (bs, tripped) \<Rightarrow> (bs, if tripped then CircuitOpen else CircuitClosed))"
proof (induction cs arbitrary: k t b)
  case Nil
  then show ?case by (simp add: counts_failures_def gb_GetState_def)
next
  case (Cons c cs)
  obtain now1 now2 e where c: "c = (now1, now2, e)" by (cases c) auto
  let ?call = "gb_Call now1 now2 (\<lambda>w :: nat. (Returns e, w + 1)) (b, 0)"
  consider (rejected) "k \<ge> T" "now1 - t < d" | (passed) "\<not> (k \<ge> T \<and> now1 - t < d)" "e = NilError"
    | (failed) "\<not> (k \<ge> T \<and> now1 - t < d)" "e \<noteq> NilError" by blast
  then show ?case
  proof cases
    case rejected
    then have "\<exists>r. ?call = (r, b, 0)" using Cons.prems(2) by (simp add: gb_Call_def counts_failures_def)
    with Cons.IH [OF Cons.prems] rejected show ?thesis by (auto simp: c split: prod.splits)
  next
    case passed
    obtain b' where "?call = (Returns NilError, b', 1)" "counts_failures T d 0 t b'"
      using passed Cons.prems by (auto simp: gb_Call_def counts_failures_def Let_def)
    with Cons.IH [of 0 t b'] Cons.prems passed show ?thesis by (auto simp: c split: prod.splits)
  next
    case failed
    obtain g where e: "e = TypedError g" using failed(2) by (cases e) auto
    obtain b' where "?call = (Returns e, b', 1)" "counts_failures T d (k + 1) now2 b'"
      using failed Cons.prems by (auto simp: gb_Call_def counts_failures_def Let_def e)
    with Cons.IH [of "k + 1" now2 b'] Cons.prems failed show ?thesis by (auto simp: c split: prod.splits)
  qed
qed

text \<open>
  C34. The breaker of the governance counts consecutive failures: in any sequence of calls through a new breaker with a threshold of
  at least one, a call is refused exactly when the threshold of failures in a row has been reached and the time limit since the
  last of them is not over, and the breaker is open exactly when the threshold is reached; half-open is never left standing.
\<close>

theorem governance_breaker_refines:
  assumes "1 \<le> threshold"
    and "gov_GetCircuitBreaker (AddCircuitBreaker name threshold timeout g) name = Some b"
  shows "gb_run cs b = (case consecutive_failures threshold timeout cs 0 0 of (bs, tripped) \<Rightarrow>
     (bs, if tripped then CircuitOpen else CircuitClosed))"
proof -
  have "counts_failures threshold timeout 0 0 b" using assms by (auto simp: added_breaker_closed counts_failures_def)
  from gb_run_counts [OF assms(1) this] show ?thesis by simp
qed

theorem governance_breaker_refines_witness:
  "gb_run [(5, 5, TypedError None), (6, 6, TypedError None), (7, 7, NilError), (20, 20, NilError)]
     (the (gov_GetCircuitBreaker (AddCircuitBreaker ''user'' 2 10 NewServiceGovernance) ''user'')) = ([True, True, False, True], CircuitClosed)"
  using governance_breaker_refines [of 2 "''user''" 10 NewServiceGovernance _ "[(5, 5, TypedError None), (6, 6, TypedError None), (7, 7, NilError), (20, 20, NilError)]", OF _ added_breaker_closed]
  by (simp add: added_breaker_closed)

subsection \<open>Selection\<close>

definition first_service :: "string \<Rightarrow> addr \<Rightarrow> governance \<Rightarrow> bool" where
  "first_service lb s g \<longleftrightarrow> (\<exists>b ss. sg_loadBalancers g lb = Some b \<and> lb_Services b = s # ss)"

lemma first_service_kept: "first_service lb s g \<Longrightarrow> first_service lb s (snd (AddServiceToLoadBalancer lb n g))"
  by (auto simp: first_service_def AddServiceToLoadBalancer_def split: option.splits)

lemma first_service_selected: "first_service lb s g \<Longrightarrow> gov_SelectService lb g = Inr s"
  by (auto simp: first_service_def gov_SelectService_def lb_selectRoundRobin_def lb_selectRandom_def lb_selectWeighted_def
      lb_selectLeastConnections_def split: balance_strategy.split)

text \<open>
  Every strategy is the same: whatever the strategy of a balancer and however many services are added to it, the
  service that was added first is selected each time.
\<close>

theorem first_service_always:
  assumes "sg_services g n = Some s"
  shows "gov_SelectService lb (fold (\<lambda>n g. snd (AddServiceToLoadBalancer lb n g)) (n # ns) (AddLoadBalancer lb strategy g)) = Inr s"
proof -
  have "first_service lb s (fold (\<lambda>n g. snd (AddServiceToLoadBalancer lb n g)) ns g')" if "first_service lb s g'" for g'
    using that by (induction ns arbitrary: g') (simp_all add: first_service_kept)
  moreover have "first_service lb s (snd (AddServiceToLoadBalancer lb n (AddLoadBalancer lb strategy g)))"
    using assms by (simp add: first_service_def AddServiceToLoadBalancer_def AddLoadBalancer_def)
  ultimately show ?thesis by (intro first_service_selected) simp
qed

subsection \<open>Retries\<close>

declare gov_attempts.simps [simp del]

lemma failed_attempt:
  assumes "done i = None" and "fn w = (Returns (TypedError e), w')"
  shows "gov_attempts done policy fn i 0 w = (Returns (Inr (TypedError e)), [], w')"
    and "gov_attempts done policy fn i (Suc n) w =
      (case gov_attempts done policy fn (Suc i) n w' of (r, sleeps, w'') \<Rightarrow> (r, gp_calculateDelay policy i # sleeps, w''))"
  using assms by (simp_all add: gov_attempts.simps)

text \<open>A function that always fails with a real error is called once more than the retries, and its last error is wrapped.\<close>

lemma attempts_all_fail:
  assumes "\<And>i. done i = None" and "\<And>w. \<exists>g. fn w = (Returns (TypedError (Some g)), w + 1)"
  shows "\<exists>g. gov_attempts done policy fn i n (w :: nat) =
    (Returns (Inr (TypedError (Some g))), map (gp_calculateDelay policy) [i..<i + n], w + Suc n)"
proof (induction n arbitrary: i w)
  case 0
  obtain g where "fn w = (Returns (TypedError (Some g)), w + 1)" using assms(2) by blast
  then show ?case by (simp add: failed_attempt assms(1))
next
  case (Suc n)
  obtain g where g: "fn w = (Returns (TypedError (Some g)), w + 1)" using assms(2) by blast
  obtain g' where "gov_attempts done policy fn (Suc i) n (w + 1) =
      (Returns (Inr (TypedError (Some g'))), map (gp_calculateDelay policy) [Suc i..<Suc i + n], w + 1 + Suc n)"
    using Suc by blast
  with failed_attempt(2) [of "done" i fn w, OF assms(1) g, of policy n] show ?case by (simp add: upt_conv_Cons del: upt_Suc)
qed

text \<open>
  Retrying a call through an open breaker panics: the breaker refuses with an error that holds a nil pointer, and when the
  retries are used up the last error is asked for its message in order to be wrapped. The function itself is never called.
\<close>

theorem retry_of_open_breaker_panics:
  assumes "sg_circuitBreakers g name = Some b" and "gb_State b = CircuitOpen" and "\<And>w. clock w - gb_LastFailure b < gb_Timeout b"
    and "gov_GetRetryPolicy g policyName = Some policy" and "0 \<le> gp_MaxRetries policy" and "\<And>i. done i = None"
  shows "\<exists>sleeps. gov_RetryWithPolicy done g policyName (\<lambda>(g, w). gov_CallService (clock w) (clock w) name fn (g, w)) (g, w)
    = (Panics ''runtime error: invalid memory address or nil pointer dereference'', sleeps, (g, w))"
proof -
  let ?fn = "\<lambda>(g, w). gov_CallService (clock w) (clock w) name fn (g, w)"
  have g: "g\<lparr> sg_circuitBreakers := (sg_circuitBreakers g)(name \<mapsto> b) \<rparr> = g" using assms(1) by (cases g) auto
  have call: "?fn (g, w) = (Returns (TypedError None), g, w)"
    using assms(1-3) by (simp add: gov_CallService_def gov_GetCircuitBreaker_def gb_Call_def nil_wrapped_def WrapError_def g)
  have "\<exists>sleeps. gov_attempts done policy ?fn i n (g, w) = (Returns (Inr (TypedError None)), sleeps, (g, w))" for i n
  proof (induction n arbitrary: i)
    case (Suc n)
    from Suc [of "Suc i"] obtain sleeps where
      "gov_attempts done policy ?fn (Suc i) n (g, w) = (Returns (Inr (TypedError None)), sleeps, (g, w))" by blast
    then show ?case using call by (simp add: failed_attempt(2) [of "done" i ?fn "(g, w)", OF assms(6) call])
  qed (simp add: failed_attempt(1) [of "done" _ ?fn "(g, w)", OF assms(6) call])
  then obtain sleeps where "gov_attempts done policy ?fn 0 (nat (gp_MaxRetries policy)) (g, w) = (Returns (Inr (TypedError None)), sleeps, (g, w))"
    by blast
  with assms(4,5) show ?thesis by (simp add: gov_RetryWithPolicy_def gov_retryWithPolicy_def wrap_go_def Let_def)
qed

definition demo_governance :: governance where
  "demo_governance = AddRetryPolicy \<lparr> gp_Name = ''p'', gp_MaxRetries = 2, gp_BaseDelay = second, gp_MaxDelay = minute, gp_Multiplier = 2, gp_Jitter = False \<rparr>
     (snd (snd (case gov_CallService 5 5 ''user'' (\<lambda>w :: nat. (Returns (TypedError None), w + 1)) (AddCircuitBreaker ''user'' 1 minute NewServiceGovernance, 0)
        of (r, g, w) \<Rightarrow> (r, w, g))))"

theorem retry_of_open_breaker_panics_witness:
  "\<exists>sleeps. gov_RetryWithPolicy (\<lambda>_. None) demo_governance ''p''
      (\<lambda>(g, w). gov_CallService 9 9 ''user'' (\<lambda>w :: nat. (Returns NilError, w + 1)) (g, w)) (demo_governance, 0)
    = (Panics ''runtime error: invalid memory address or nil pointer dereference'', sleeps, (demo_governance, 0))"
proof -
  obtain b where "sg_circuitBreakers demo_governance ''user'' = Some b" "gb_State b = CircuitOpen" "\<And>w :: nat. 9 - gb_LastFailure b < gb_Timeout b"
    by (simp add: demo_governance_def AddRetryPolicy_def gov_CallService_def gov_GetCircuitBreaker_def AddCircuitBreaker_def gb_Call_def
        minute_def second_def)
  moreover obtain policy where "gov_GetRetryPolicy demo_governance ''p'' = Some policy" "0 \<le> gp_MaxRetries policy"
    by (simp add: demo_governance_def AddRetryPolicy_def gov_GetRetryPolicy_def)
  ultimately show ?thesis by (intro retry_of_open_breaker_panics) simp_all
qed

text \<open>Every delay but the first is at most the largest one; the first is the base delay, whatever the largest one is.\<close>

lemma delay_capped:
  assumes "0 < attempt" and "0 \<le> gp_MaxDelay p"
  shows "gp_calculateDelay p attempt \<le> gp_MaxDelay p"
proof -
  let ?f = "\<lambda>delay. let delay = go_trunc (real_of_int delay * gp_Multiplier p) in if delay > gp_MaxDelay p then gp_MaxDelay p else delay"
  obtain n where "attempt = Suc n" using assms(1) by (cases attempt) auto
  then have le: "(?f ^^ attempt) (gp_BaseDelay p) \<le> gp_MaxDelay p" by (simp add: Let_def)
  then have "real_of_int ((?f ^^ attempt) (gp_BaseDelay p)) * (9 / 10) \<le> real_of_int (gp_MaxDelay p)"
    using assms(2) by (simp add: field_simps)
  then have "go_trunc (real_of_int ((?f ^^ attempt) (gp_BaseDelay p)) * (9 / 10)) \<le> gp_MaxDelay p"
    using go_trunc_mono [of "real_of_int ((?f ^^ attempt) (gp_BaseDelay p)) * (9 / 10)" "real_of_int (gp_MaxDelay p)"] by simp
  with le show ?thesis by (simp add: gp_calculateDelay_def Let_def)
qed

lemma first_delay_uncapped: "\<not> gp_Jitter p \<Longrightarrow> gp_calculateDelay p 0 = gp_BaseDelay p"
  by (simp add: gp_calculateDelay_def)

subsection \<open>Health\<close>

text \<open>The health check finds every service healthy, whatever state it is in.\<close>

lemma always_healthy:
  "s \<in> fst ` set schedule \<Longrightarrow> sh_Status (gs_Health (hc_checkAllServices schedule h s)) = ''healthy''"
proof (induction schedule arbitrary: h)
  case (Cons c schedule)
  have kept: "sh_Status (gs_Health (h s)) = ''healthy'' \<Longrightarrow> sh_Status (gs_Health (hc_checkAllServices schedule h s)) = ''healthy''" for h
    unfolding hc_checkAllServices_def
    by (induction schedule arbitrary: h) (auto simp: hc_checkService_def split: prod.split)
  show ?case
  proof (cases "fst c = s")
    case True
    then show ?thesis using kept [of "hc_checkService (snd c) s h"]
      by (cases c) (simp add: hc_checkAllServices_def hc_checkService_def)
  next
    case False
    with Cons show ?thesis by (cases c) (auto simp: hc_checkAllServices_def)
  qed
qed simp

end
