(* ===== verification/Tcc_Coordinator.thy ===== *)
theory Tcc_Coordinator
  imports Tcc_Interface
begin

text \<open>
  The in-memory TCC coordinator of \<^verbatim>\<open>src/app/common/tcc/tcc.go\<close>: transactions, the three phases with
  their retry loops, and the manager of coordinators. The context only reaches the components, so it
  is part of their world; the pauses between attempts change no state and are left out. Clock
  readings are arguments.
\<close>

(* src: app/common/tcc/tcc.go:34-43 TCCStatus, constants *)
datatype tcc_status =
  StatusPending | StatusTrying | StatusConfirmed | StatusCancelled | StatusFailed | StatusTimeout

(* src: app/common/tcc/tcc.go:20-31 TCCPhase.String *)
fun phase_String :: "phase \<Rightarrow> string" where
  "phase_String PhaseTry = ''try''"
| "phase_String PhaseConfirm = ''confirm''"
| "phase_String PhaseCancel = ''cancel''"

(* src: app/common/tcc/tcc.go:46-63 TCCStatus.String *)
fun tcc_status_String :: "tcc_status \<Rightarrow> string" where
  "tcc_status_String StatusPending = ''pending''"
| "tcc_status_String StatusTrying = ''trying''"
| "tcc_status_String StatusConfirmed = ''confirmed''"
| "tcc_status_String StatusCancelled = ''cancelled''"
| "tcc_status_String StatusFailed = ''failed''"
| "tcc_status_String StatusTimeout = ''timeout''"

(* src: app/common/tcc/tcc.go:66-78 TCCTransaction *)
record ('w, 'd) tcc_transaction =
  tt_ID :: string
  tt_Components :: "('w, 'd) tcc_component list"
  tt_Status :: tcc_status
  tt_Phase :: phase
  tt_StartTime :: gotime
  tt_EndTime :: "gotime option"
  tt_Timeout :: duration
  tt_RetryCount :: int
  tt_MaxRetries :: int
  tt_Error :: "err option"

(* src: app/common/tcc/tcc.go:81-87 TCCCoordinator *)
record ('w, 'd) tcc_coordinator =
  tcs_transactions :: "(string \<times> ('w, 'd) tcc_transaction) list"
  tcs_components :: "(string \<times> ('w, 'd) tcc_component) list"
  tcs_timeout :: duration
  tcs_retryCount :: int

(* src: app/common/tcc/tcc.go:90-97 NewTCCCoordinator *)
definition NewTCCCoordinator :: "('w, 'd) tcc_coordinator" where
  "NewTCCCoordinator = \<lparr>tcs_transactions = [], tcs_components = [], tcs_timeout = 30 * second, tcs_retryCount = 3\<rparr>"

(* src: app/common/tcc/tcc.go:100-104 RegisterComponent *)
definition tcs_RegisterComponent :: "('w, 'd) tcc_component \<Rightarrow> ('w, 'd) tcc_coordinator \<Rightarrow> ('w, 'd) tcc_coordinator" where
  "tcs_RegisterComponent c tc = tc\<lparr>tcs_components := AList.update (co_ID c) c (tcs_components tc)\<rparr>"

(* src: app/common/tcc/tcc.go:109-116 BeginTransaction (lookup loop) *)
fun tcs_lookup :: "string list \<Rightarrow> ('w, 'd) tcc_coordinator \<Rightarrow> err + ('w, 'd) tcc_component list" where
  "tcs_lookup [] tc = Inr []"
| "tcs_lookup (cid # cids) tc =
     (case map_of (tcs_components tc) cid of
        None \<Rightarrow> Inl (''component not found: '' @ cid)
      | Some c \<Rightarrow> (case tcs_lookup cids tc of Inl e \<Rightarrow> Inl e | Inr cs \<Rightarrow> Inr (c # cs)))"

(* src: app/common/tcc/tcc.go:107-136 BeginTransaction *)
definition BeginTransaction ::
    "gotime \<Rightarrow> string \<Rightarrow> string list \<Rightarrow> ('w, 'd) tcc_coordinator \<Rightarrow>
     (err + ('w, 'd) tcc_transaction) \<times> ('w, 'd) tcc_coordinator" where
  "BeginTransaction now txID cids tc =
     (case tcs_lookup cids tc of
        Inl e \<Rightarrow> (Inl e, tc)
      | Inr cs \<Rightarrow>
          let tx = \<lparr>tt_ID = txID, tt_Components = cs, tt_Status = StatusPending, tt_Phase = PhaseTry,
                    tt_StartTime = now, tt_EndTime = None, tt_Timeout = tcs_timeout tc, tt_RetryCount = 0,
                    tt_MaxRetries = tcs_retryCount tc, tt_Error = None\<rparr>
          in (Inr tx, tc\<lparr>tcs_transactions := AList.update txID tx (tcs_transactions tc)\<rparr>))"

text \<open>
  The retry loop the phases share: at most \<open>n\<close> attempts, stopping at the first success; the result is
  the error of the last attempt, and no error when no attempt was made.
\<close>

(* src: app/common/tcc/tcc.go:182-191 executeTryPhase (retry loop) *)
fun retry_loop :: "nat \<Rightarrow> ('w \<Rightarrow> (err + 'a) \<times> 'w) \<Rightarrow> 'w \<Rightarrow> err option \<times> 'w" where
  "retry_loop 0 op w = (None, w)"
| "retry_loop (Suc n) op w =
     (case op w of
        (Inr _, w') \<Rightarrow> (None, w')
      | (Inl e, w') \<Rightarrow> if n = 0 then (Some e, w') else retry_loop n op w')"

(* src: app/common/tcc/tcc.go:293-310 cancelComponent *)
definition cancelComponent ::
    "('w, 'd) tcc_coordinator \<Rightarrow> string \<Rightarrow> ('w, 'd) tcc_component \<Rightarrow> 'w \<Rightarrow> err option \<times> 'w" where
  "cancelComponent tc txID c w =
     (case retry_loop (nat (tcs_retryCount tc + 1)) (co_Cancel c txID) w of
        (None, w') \<Rightarrow> (None, w')
      | (Some e, w') \<Rightarrow> (Some (''component '' @ co_ID c @ '' cancel failed: '' @ e), w'))"

definition confirmComponent :: "('w, 'd) tcc_transaction \<Rightarrow> ('w, 'd) tcc_component \<Rightarrow> 'w \<Rightarrow> err option \<times> 'w" where
  "confirmComponent tx c w =
     (case retry_loop (nat (tt_MaxRetries tx + 1)) (co_Confirm c (tt_ID tx)) w of
        (None, w') \<Rightarrow> (None, w')
      | (Some e, w') \<Rightarrow> (Some (''component '' @ co_ID c @ '' confirm failed: '' @ e), w'))"

text \<open>Running an action on every component, collecting the errors.\<close>

fun collect_errors :: "('c \<Rightarrow> 'w \<Rightarrow> err option \<times> 'w) \<Rightarrow> 'c list \<Rightarrow> 'w \<Rightarrow> err list \<times> 'w" where
  "collect_errors act [] w = ([], w)"
| "collect_errors act (c # cs) w =
     (case act c w of (r, w') \<Rightarrow>
        case collect_errors act cs w' of (es, w'') \<Rightarrow> ((case r of None \<Rightarrow> es | Some e \<Rightarrow> e # es), w''))"

(* src: app/common/tcc/tcc.go:175-204 executeTryPhase (component loop) *)
fun try_loop ::
    "('w, 'd) tcc_coordinator \<Rightarrow> ('w, 'd) tcc_transaction \<Rightarrow> ('w, 'd) tcc_component list \<Rightarrow>
     ('w, 'd) tcc_component list \<Rightarrow> 'w \<Rightarrow> err list \<times> 'w" where
  "try_loop tc tx done [] w = ([], w)"
| "try_loop tc tx done (c # cs) w =
     (let req = \<lparr>rq_ComponentID = co_ID c, rq_TXID = tt_ID tx, rq_Data = Map.empty\<rparr> in
      case retry_loop (nat (tt_MaxRetries tx + 1)) (co_Try c req) w of
        (None, w') \<Rightarrow> try_loop tc tx (done @ [c]) cs w'
      | (Some e, w') \<Rightarrow>
          ([''component '' @ co_ID c @ '' try failed: '' @ e],
           snd (collect_errors (cancelComponent tc (tt_ID tx)) done w')))"

definition show_errors :: "err list \<Rightarrow> string" where
  "show_errors es = ''['' @ concat (case es of [] \<Rightarrow> [] | e # es' \<Rightarrow> e # map (\<lambda>e. '' '' @ e) es') @ '']''"

text \<open>The end of a phase: the errors fail the transaction, or the end time is set.\<close>

definition finish_phase :: "string \<Rightarrow> gotime option \<Rightarrow> err list \<Rightarrow> ('w, 'd) tcc_transaction \<Rightarrow>
    err option \<times> ('w, 'd) tcc_transaction" where
  "finish_phase name end es tx =
     (if es \<noteq> [] then
        let e = name @ '' phase failed: '' @ show_errors es
        in (Some e, tx\<lparr>tt_Status := StatusFailed, tt_Error := Some e\<rparr>)
      else (None, case end of None \<Rightarrow> tx | Some t \<Rightarrow> tx\<lparr>tt_EndTime := Some t\<rparr>))"

(* src: app/common/tcc/tcc.go:164-213 executeTryPhase *)
definition executeTryPhase ::
    "('w, 'd) tcc_coordinator \<Rightarrow> ('w, 'd) tcc_transaction \<Rightarrow> 'w \<Rightarrow> err option \<times> ('w, 'd) tcc_transaction \<times> 'w" where
  "executeTryPhase tc tx w =
     (let tx1 = tx\<lparr>tt_Status := StatusTrying, tt_Phase := PhaseTry\<rparr>;
          (es, w') = try_loop tc tx1 [] (tt_Components tx1) w;
          (e, tx2) = finish_phase ''try'' None es tx1
      in (e, tx2, w'))"

(* src: app/common/tcc/tcc.go:216-257 executeConfirmPhase *)
definition executeConfirmPhase ::
    "gotime \<Rightarrow> ('w, 'd) tcc_transaction \<Rightarrow> 'w \<Rightarrow> err option \<times> ('w, 'd) tcc_transaction \<times> 'w" where
  "executeConfirmPhase now tx w =
     (let tx1 = tx\<lparr>tt_Status := StatusConfirmed, tt_Phase := PhaseConfirm\<rparr>;
          (es, w') = collect_errors (confirmComponent tx1) (tt_Components tx1) w;
          (e, tx2) = finish_phase ''confirm'' (Some now) es tx1
      in (e, tx2, w'))"

(* src: app/common/tcc/tcc.go:260-290 executeCancelPhase *)
definition executeCancelPhase ::
    "('w, 'd) tcc_coordinator \<Rightarrow> gotime \<Rightarrow> ('w, 'd) tcc_transaction \<Rightarrow> 'w \<Rightarrow> err option \<times> ('w, 'd) tcc_transaction \<times> 'w" where
  "executeCancelPhase tc now tx w =
     (let tx1 = tx\<lparr>tt_Status := StatusCancelled, tt_Phase := PhaseCancel\<rparr>;
          (es, w') = collect_errors (cancelComponent tc (tt_ID tx1)) (tt_Components tx1) w;
          (e, tx2) = finish_phase ''cancel'' (Some now) es tx1
      in (e, tx2, w'))"

(* src: app/common/tcc/tcc.go:139-161 ExecuteTransaction *)
definition ExecuteTransaction ::
    "gotime \<Rightarrow> string \<Rightarrow> ('w, 'd) tcc_coordinator \<Rightarrow> 'w \<Rightarrow> err option \<times> ('w, 'd) tcc_coordinator \<times> 'w" where
  "ExecuteTransaction now txID tc w =
     (case map_of (tcs_transactions tc) txID of
        None \<Rightarrow> (Some (''transaction not found: '' @ txID), tc, w)
      | Some tx \<Rightarrow>
          let (r, tx', w') =
            (case executeTryPhase tc tx w of
               (Some e, tx1, w1) \<Rightarrow> (case executeCancelPhase tc now tx1 w1 of (_, tx2, w2) \<Rightarrow> (Some e, tx2, w2))
             | (None, tx1, w1) \<Rightarrow> executeConfirmPhase now tx1 w1)
          in (r, tc\<lparr>tcs_transactions := AList.update txID tx' (tcs_transactions tc)\<rparr>, w'))"

(* src: app/common/tcc/tcc.go:313-323 GetTransaction *)
definition tcs_GetTransaction :: "string \<Rightarrow> ('w, 'd) tcc_coordinator \<Rightarrow> err + ('w, 'd) tcc_transaction" where
  "tcs_GetTransaction txID tc =
     (case map_of (tcs_transactions tc) txID of
        None \<Rightarrow> Inl (''transaction not found: '' @ txID) | Some tx \<Rightarrow> Inr tx)"

(* src: app/common/tcc/tcc.go:326-338 ListTransactions *)
definition tcs_ListTransactions ::
    "(string \<times> ('w, 'd) tcc_transaction) range_order \<Rightarrow> tcc_status \<Rightarrow> ('w, 'd) tcc_coordinator \<Rightarrow> ('w, 'd) tcc_transaction list" where
  "tcs_ListTransactions ord st tc = filter (\<lambda>tx. tt_Status tx = st) (map snd (ord (tcs_transactions tc)))"

(* src: app/common/tcc/tcc.go:341-345 SetTimeout *)
definition tcs_SetTimeout :: "duration \<Rightarrow> ('w, 'd) tcc_coordinator \<Rightarrow> ('w, 'd) tcc_coordinator" where
  "tcs_SetTimeout t tc = tc\<lparr>tcs_timeout := t\<rparr>"

(* src: app/common/tcc/tcc.go:348-352 SetRetryCount *)
definition tcs_SetRetryCount :: "int \<Rightarrow> ('w, 'd) tcc_coordinator \<Rightarrow> ('w, 'd) tcc_coordinator" where
  "tcs_SetRetryCount n tc = tc\<lparr>tcs_retryCount := n\<rparr>"

(* src: app/common/tcc/tcc.go:355-365 CleanupTransactions *)
definition tcs_CleanupTransactions :: "gotime \<Rightarrow> duration \<Rightarrow> ('w, 'd) tcc_coordinator \<Rightarrow> ('w, 'd) tcc_coordinator" where
  "tcs_CleanupTransactions now olderThan tc =
     tc\<lparr>tcs_transactions := filter (\<lambda>(_, tx). \<not> tt_StartTime tx < now - olderThan) (tcs_transactions tc)\<rparr>"

subsection \<open>The manager of coordinators\<close>

(* src: app/common/tcc/tcc.go:368-371 TCCManager *)
record ('w, 'd) tcc_manager =
  tm_coordinators :: "(string \<times> ('w, 'd) tcc_coordinator) list"

(* src: app/common/tcc/tcc.go:374-378 NewTCCManager *)
definition NewTCCManager :: "('w, 'd) tcc_manager" where
  "NewTCCManager = \<lparr>tm_coordinators = []\<rparr>"

(* src: app/common/tcc/tcc.go:381-385 RegisterCoordinator *)
definition tm_RegisterCoordinator :: "string \<times> ('w, 'd) tcc_coordinator \<Rightarrow> ('w, 'd) tcc_manager \<Rightarrow> ('w, 'd) tcc_manager" where
  "tm_RegisterCoordinator e tm = tm\<lparr>tm_coordinators := AList.update (fst e) (snd e) (tm_coordinators tm)\<rparr>"

(* src: app/common/tcc/tcc.go:388-396 GetCoordinator *)
definition tm_GetCoordinator :: "('w, 'd) tcc_manager \<Rightarrow> string \<Rightarrow> err + ('w, 'd) tcc_coordinator" where
  "tm_GetCoordinator tm name =
     (case map_of (tm_coordinators tm) name of
        None \<Rightarrow> Inl (''coordinator not found: '' @ name) | Some tc \<Rightarrow> Inr tc)"

(* src: app/common/tcc/tcc.go:399-409 ListCoordinators *)
definition tm_ListCoordinators :: "(string \<times> ('w, 'd) tcc_coordinator) range_order \<Rightarrow> ('w, 'd) tcc_manager \<Rightarrow> string list" where
  "tm_ListCoordinators ord tm = map fst (ord (tm_coordinators tm))"

text \<open>The expected outcome of each component in a phase, for the logs below.\<close>

definition tagged :: "bool \<Rightarrow> ('w, 'd) tcc_component list \<Rightarrow> (string \<times> bool) list" where
  "tagged ok cs = map (\<lambda>c. (co_ID c, ok)) cs"

text \<open>Sample transactions for the concrete runs.\<close>

definition sample_tx :: "int \<Rightarrow> ('w, 'd) tcc_component list \<Rightarrow> ('w, 'd) tcc_transaction" where
  "sample_tx n cs = \<lparr>tt_ID = ''t1'', tt_Components = cs, tt_Status = StatusPending, tt_Phase = PhaseTry,
     tt_StartTime = 0, tt_EndTime = None, tt_Timeout = 30 * second, tt_RetryCount = 0, tt_MaxRetries = n,
     tt_Error = None\<rparr>"

definition refusing :: "string \<Rightarrow> (unit, unit) tcc_component" where
  "refusing cid = (steady cid)\<lparr>co_Try := (\<lambda>_ w. (Inl ''no stock'', w))\<rparr>"

interpretation tcm: name_registry NewTCCManager tm_RegisterCoordinator tm_GetCoordinator fst snd
  "\<lambda>n. ''coordinator not found: '' @ n"
  by unfold_locales (auto simp: NewTCCManager_def tm_RegisterCoordinator_def tm_GetCoordinator_def AList.update_conv')


subsection \<open>What the phases log\<close>

lemma log_call_apply:
  "log_call ph cid f (w, l) = (fst (f w), snd (f w), l @ [Call ph cid (is_ok (fst (f w)))])"
  by (simp add: log_call_def split: prod.split)

lemma attempt_log_Suc: "attempt_log ph n cid b l \<Longrightarrow> attempt_log ph (Suc n) cid b (Call ph cid False # l)"
  unfolding attempt_log_def by (auto split: if_splits)

lemma phase_log_ConsI:
  "attempt_log ph n cid ok l1 \<Longrightarrow> phase_log ph n cs l2 \<Longrightarrow> phase_log ph n ((cid, ok) # cs) (l1 @ l2)"
  by auto

lemma retry_loop_log:
  assumes "0 < n"
  shows "\<exists>w' evs. snd (retry_loop n (log_call ph cid f) (w, l)) = (w', l @ evs)
     \<and> attempt_log ph n cid (fst (retry_loop n (log_call ph cid f) (w, l)) = None) evs"
  using assms
proof (induction n arbitrary: w l)
  case (Suc n)
  show ?case
  proof (cases "fst (f w)")
    case (Inr a)
    then show ?thesis
      by (auto simp: log_call_apply attempt_log_def intro!: exI [of _ 0])
  next
    case (Inl e)
    show ?thesis
    proof (cases "n = 0")
      case True
      with Inl show ?thesis by (simp add: log_call_apply attempt_log_def)
    next
      case False
      let ?l = "l @ [Call ph cid False]"
      from False Suc.IH [of "snd (f w)" ?l] obtain w' evs where
        ih: "snd (retry_loop n (log_call ph cid f) (snd (f w), ?l)) = (w', ?l @ evs)"
        "attempt_log ph n cid (fst (retry_loop n (log_call ph cid f) (snd (f w), ?l)) = None) evs" by blast
      have step: "retry_loop (Suc n) (log_call ph cid f) (w, l) = retry_loop n (log_call ph cid f) (snd (f w), ?l)"
        using Inl False by (simp add: log_call_apply)
      with ih attempt_log_Suc show ?thesis unfolding step by (intro exI [of _ w'] exI [of _ "Call ph cid False # evs"]) simp
    qed
  qed
qed simp

lemma cancel_log:
  assumes "0 \<le> tcs_retryCount tc"
  shows "\<exists>w' evs. snd (cancelComponent tc tx (spy c) (w, l)) = (w', l @ evs)
     \<and> attempt_log PhaseCancel (nat (tcs_retryCount tc + 1)) (co_ID c)
         (fst (cancelComponent tc tx (spy c) (w, l)) = None) evs"
  using retry_loop_log [of "nat (tcs_retryCount tc + 1)" PhaseCancel "co_ID c" "co_Cancel c tx" w l] assms
  by (auto simp: cancelComponent_def split: prod.splits option.splits)

lemma confirm_log:
  assumes "0 \<le> tt_MaxRetries tx"
  shows "\<exists>w' evs. snd (confirmComponent tx (spy c) (w, l)) = (w', l @ evs)
     \<and> attempt_log PhaseConfirm (nat (tt_MaxRetries tx + 1)) (co_ID c)
         (fst (confirmComponent tx (spy c) (w, l)) = None) evs"
  using retry_loop_log [of "nat (tt_MaxRetries tx + 1)" PhaseConfirm "co_ID c" "co_Confirm c (tt_ID tx)" w l] assms
  by (auto simp: confirmComponent_def split: prod.splits option.splits)

lemma collect_errors_log:
  assumes "\<And>c w l. \<exists>w' evs. snd (act (spy c) (w, l)) = (w', l @ evs)
     \<and> attempt_log ph n (co_ID c) (fst (act (spy c) (w, l)) = None) evs"
  shows "\<exists>w' evs oks. snd (collect_errors act (map spy cs) (w, l)) = (w', l @ evs)
     \<and> length oks = length cs \<and> phase_log ph n (zip (map co_ID cs) oks) evs
     \<and> (fst (collect_errors act (map spy cs) (w, l)) = [] \<longleftrightarrow> False \<notin> set oks)"
proof (induction cs arbitrary: w l)
  case (Cons c cs)
  obtain r w1 evs where a: "act (spy c) (w, l) = (r, w1, l @ evs)" "attempt_log ph n (co_ID c) (r = None) evs"
    using assms [of c w l] by (metis prod.collapse)
  from Cons.IH [of w1 "l @ evs"] obtain w' evs' oks where
    ih: "snd (collect_errors act (map spy cs) (w1, l @ evs)) = (w', (l @ evs) @ evs')" "length oks = length cs"
      "phase_log ph n (zip (map co_ID cs) oks) evs'"
      "fst (collect_errors act (map spy cs) (w1, l @ evs)) = [] \<longleftrightarrow> False \<notin> set oks" by blast
  show ?case
    by (rule exI [of _ w'], rule exI [of _ "evs @ evs'"], rule exI [of _ "(r = None) # oks"])
       (use ih a(1) phase_log_ConsI [OF a(2) ih(3)] in
         \<open>auto simp del: phase_log.simps split: prod.splits option.splits\<close>)
qed simp

lemma phase_log_append:
  "phase_log ph n cs l \<Longrightarrow> phase_log ph n cs' l' \<Longrightarrow> phase_log ph n (cs @ cs') (l @ l')"
proof (induction ph n cs l rule: phase_log.induct)
  case (2 ph n cid ok cs l)
  from "2.prems"(1) obtain l1 l2 where l: "l = l1 @ l2" "attempt_log ph n cid ok l1" "phase_log ph n cs l2" by auto
  show ?case using phase_log_ConsI [OF l(2) "2.IH" [OF l(3) "2.prems"(2)]] by (simp add: l(1))
qed simp

lemma try_loop_log:
  assumes "0 \<le> tt_MaxRetries tx" and "0 \<le> tcs_retryCount tc"
    and "M = nat (tt_MaxRetries tx + 1)" and "R = nat (tcs_retryCount tc + 1)"
  shows "\<exists>w' evs. snd (try_loop tc tx (map spy done) (map spy cs) (w, l)) = (w', l @ evs)
     \<and> (fst (try_loop tc tx (map spy done) (map spy cs) (w, l)) = [] \<and> phase_log PhaseTry M (tagged True cs) evs
       \<or> (\<exists>pre c post tries undo oks. fst (try_loop tc tx (map spy done) (map spy cs) (w, l)) \<noteq> []
            \<and> cs = pre @ c # post \<and> evs = tries @ undo
            \<and> phase_log PhaseTry M (tagged True pre @ [(co_ID c, False)]) tries
            \<and> length oks = length (done @ pre)
            \<and> phase_log PhaseCancel R (zip (map co_ID (done @ pre)) oks) undo))"
proof (induction cs arbitrary: "done" w l)
  case Nil
  show ?case by (simp add: tagged_def)
next
  case (Cons c cs)
  let ?req = "\<lparr>rq_ComponentID = co_ID c, rq_TXID = tt_ID tx, rq_Data = Map.empty\<rparr>"
  let ?rl = "retry_loop M (log_call PhaseTry (co_ID c) (co_Try c ?req)) (w, l)"
  have M: "0 < M" using assms(1,3) by simp
  from retry_loop_log [OF M, of PhaseTry "co_ID c" "co_Try c ?req" w l] obtain w1 evs1 where
    r1: "snd ?rl = (w1, l @ evs1)" and a1: "attempt_log PhaseTry M (co_ID c) (fst ?rl = None) evs1" by blast
  show ?case
  proof (cases "fst ?rl")
    case None
    then have "?rl = (None, w1, l @ evs1)" using r1 by (simp add: prod_eq_iff)
    then have step: "try_loop tc tx (map spy done) (map spy (c # cs)) (w, l) =
        try_loop tc tx (map spy (done @ [c])) (map spy cs) (w1, l @ evs1)"
      by (simp add: Let_def assms(3))
    from Cons.IH [of "done @ [c]" w1 "l @ evs1"] obtain w' evs where
      w': "snd (try_loop tc tx (map spy (done @ [c])) (map spy cs) (w1, l @ evs1)) = (w', (l @ evs1) @ evs)"
      and alt: "fst (try_loop tc tx (map spy (done @ [c])) (map spy cs) (w1, l @ evs1)) = []
          \<and> phase_log PhaseTry M (tagged True cs) evs
        \<or> (\<exists>pre d post tries undo oks. fst (try_loop tc tx (map spy (done @ [c])) (map spy cs) (w1, l @ evs1)) \<noteq> []
            \<and> cs = pre @ d # post \<and> evs = tries @ undo
            \<and> phase_log PhaseTry M (tagged True pre @ [(co_ID d, False)]) tries
            \<and> length oks = length ((done @ [c]) @ pre)
            \<and> phase_log PhaseCancel R (zip (map co_ID ((done @ [c]) @ pre)) oks) undo)" by blast
    have one: "phase_log PhaseTry M [(co_ID c, True)] evs1" using a1 None by simp
    show ?thesis unfolding step
    proof (intro exI [of _ w'] exI [of _ "evs1 @ evs"] conjI)
      show "snd (try_loop tc tx (map spy (done @ [c])) (map spy cs) (w1, l @ evs1)) = (w', l @ evs1 @ evs)"
        using w' by simp
      from alt show "fst (try_loop tc tx (map spy (done @ [c])) (map spy cs) (w1, l @ evs1)) = []
          \<and> phase_log PhaseTry M (tagged True (c # cs)) (evs1 @ evs)
        \<or> (\<exists>pre d post tries undo oks. fst (try_loop tc tx (map spy (done @ [c])) (map spy cs) (w1, l @ evs1)) \<noteq> []
            \<and> c # cs = pre @ d # post \<and> evs1 @ evs = tries @ undo
            \<and> phase_log PhaseTry M (tagged True pre @ [(co_ID d, False)]) tries
            \<and> length oks = length (done @ pre)
            \<and> phase_log PhaseCancel R (zip (map co_ID (done @ pre)) oks) undo)"
      proof (elim disjE exE conjE, goal_cases)
        case 1
        with phase_log_append [OF one, of "tagged True cs" evs] show ?case by (simp add: tagged_def)
      next
        case (2 pre d post tries undo oks)
        with phase_log_append [OF one, of "tagged True pre @ [(co_ID d, False)]" tries] show ?case
          by (intro disjI2 exI [of _ "c # pre"] exI [of _ d] exI [of _ post] exI [of _ "evs1 @ tries"]
              exI [of _ undo] exI [of _ oks]) (simp add: tagged_def)
      qed
    qed
  next
    case (Some e)
    then have eq: "?rl = (Some e, w1, l @ evs1)" using r1 by (simp add: prod_eq_iff)
    from collect_errors_log [of "cancelComponent tc (tt_ID tx)" PhaseCancel R "done" w1 "l @ evs1",
        OF cancel_log [OF assms(2), folded assms(4)]]
    obtain w' undo oks where c: "snd (collect_errors (cancelComponent tc (tt_ID tx)) (map spy done) (w1, l @ evs1)) =
        (w', (l @ evs1) @ undo)" "length oks = length done" "phase_log PhaseCancel R (zip (map co_ID done) oks) undo"
      by blast
    have step: "fst (try_loop tc tx (map spy done) (map spy (c # cs)) (w, l)) \<noteq> []"
      "snd (try_loop tc tx (map spy done) (map spy (c # cs)) (w, l)) = (w', l @ evs1 @ undo)"
      using eq c(1) by (simp_all add: Let_def assms(3))
    have one: "phase_log PhaseTry M (tagged True [] @ [(co_ID c, False)]) evs1"
      using a1 Some by (simp add: tagged_def)
    show ?thesis
      by (rule exI [of _ w'], rule exI [of _ "evs1 @ undo"], intro conjI disjI2 exI [of _ "[]"] exI [of _ c]
          exI [of _ cs] exI [of _ evs1] exI [of _ undo] exI [of _ oks])
         (use step c(2,3) one in \<open>simp_all only: append_Nil append_Nil2 not_False_eq_True\<close>)
  qed
qed


lemma finish_phase_simps:
  "fst (finish_phase n e es tx) = None \<longleftrightarrow> es = []"
  "tt_Status (snd (finish_phase n e es tx)) = (if es = [] then tt_Status tx else StatusFailed)"
  "tt_Phase (snd (finish_phase n e es tx)) = tt_Phase tx"
  "tt_Components (snd (finish_phase n e es tx)) = tt_Components tx"
  "tt_MaxRetries (snd (finish_phase n e es tx)) = tt_MaxRetries tx"
  "tt_ID (snd (finish_phase n e es tx)) = tt_ID tx"
  by (auto simp: finish_phase_def Let_def split: option.split)

lemma executeTryPhase_log:
  assumes "tt_Components tx = map spy cs" and "0 \<le> tt_MaxRetries tx" and "0 \<le> tcs_retryCount tc"
    and "M = nat (tt_MaxRetries tx + 1)" and "R = nat (tcs_retryCount tc + 1)"
    and "executeTryPhase tc tx (w, l) = (e, tx', w', l')"
  shows "tt_Components tx' = map spy cs \<and> tt_MaxRetries tx' = tt_MaxRetries tx \<and> tt_ID tx' = tt_ID tx
     \<and> (if e = None then \<exists>tries. l' = l @ tries \<and> phase_log PhaseTry M (tagged True cs) tries
        else \<exists>pre c post tries undo oks. cs = pre @ c # post \<and> l' = l @ tries @ undo
            \<and> phase_log PhaseTry M (tagged True pre @ [(co_ID c, False)]) tries
            \<and> length oks = length pre \<and> phase_log PhaseCancel R (zip (map co_ID pre) oks) undo)"
proof -
  let ?tx = "tx\<lparr>tt_Status := StatusTrying, tt_Phase := PhaseTry\<rparr>"
  let ?t = "try_loop tc ?tx [] (map spy cs) (w, l)"
  have f: "e = fst (finish_phase ''try'' None (fst ?t) ?tx)" "tx' = snd (finish_phase ''try'' None (fst ?t) ?tx)"
    "(w', l') = snd ?t"
    using assms(6) by (simp_all add: executeTryPhase_def assms(1) Let_def split: prod.splits)
  have "0 \<le> tt_MaxRetries ?tx" "M = nat (tt_MaxRetries ?tx + 1)" using assms(2,4) by simp_all
  note t = try_loop_log [OF this(1) assms(3) this(2) assms(5), of "[]" cs w l, unfolded list.map append_Nil]
  have fields: "tt_Components tx' = map spy cs" "tt_MaxRetries tx' = tt_MaxRetries tx" "tt_ID tx' = tt_ID tx"
    using assms(1) by (simp_all add: f(2) finish_phase_simps)
  have e: "e = None \<longleftrightarrow> fst ?t = []" by (simp add: f(1) finish_phase_simps)
  show ?thesis
  proof (cases "fst ?t = []")
    case True
    with t f(3) show ?thesis unfolding e by (simp add: fields) (metis snd_conv)
  next
    case False
    with t f(3) obtain pre c post tries undo oks where
      "cs = pre @ c # post \<and> l' = l @ tries @ undo
        \<and> phase_log PhaseTry M (tagged True pre @ [(co_ID c, False)]) tries
        \<and> length oks = length pre \<and> phase_log PhaseCancel R (zip (map co_ID pre) oks) undo"
      by (metis snd_conv)
    with False show ?thesis unfolding e if_not_P [OF False] by (intro conjI fields) blast
  qed
qed

lemma executeConfirmPhase_log:
  assumes "tt_Components tx = map spy cs" and "0 \<le> tt_MaxRetries tx" and "M = nat (tt_MaxRetries tx + 1)"
    and "executeConfirmPhase now tx (w, l) = (e, tx', w', l')"
  shows "\<exists>evs oks. l' = l @ evs \<and> length oks = length cs \<and> phase_log PhaseConfirm M (zip (map co_ID cs) oks) evs
     \<and> (e = None \<longleftrightarrow> False \<notin> set oks) \<and> tt_Phase tx' = PhaseConfirm
     \<and> tt_Status tx' = (if e = None then StatusConfirmed else StatusFailed)"
proof -
  let ?tx = "tx\<lparr>tt_Status := StatusConfirmed, tt_Phase := PhaseConfirm\<rparr>"
  have "0 \<le> tt_MaxRetries ?tx" "M = nat (tt_MaxRetries ?tx + 1)" using assms(2,3) by simp_all
  from collect_errors_log [OF confirm_log [OF this(1), folded this(2)], of cs w l]
  obtain w1 evs oks where c: "snd (collect_errors (confirmComponent ?tx) (map spy cs) (w, l)) = (w1, l @ evs)"
    "length oks = length cs" "phase_log PhaseConfirm M (zip (map co_ID cs) oks) evs"
    "fst (collect_errors (confirmComponent ?tx) (map spy cs) (w, l)) = [] \<longleftrightarrow> False \<notin> set oks" by blast
  let ?f = "finish_phase ''confirm'' (Some now) (fst (collect_errors (confirmComponent ?tx) (map spy cs) (w, l))) ?tx"
  have f: "e = fst ?f" "tx' = snd ?f" "l' = l @ evs"
    using assms(4) c(1) by (simp_all add: executeConfirmPhase_def assms(1) Let_def split: prod.splits)
  show ?thesis
    by (rule exI [of _ evs], rule exI [of _ oks]) (use c(2-4) in \<open>simp add: f finish_phase_simps\<close>)
qed

lemma executeCancelPhase_log:
  assumes "tt_Components tx = map spy cs" and "0 \<le> tcs_retryCount tc" and "R = nat (tcs_retryCount tc + 1)"
    and "executeCancelPhase tc now tx (w, l) = (e, tx', w', l')"
  shows "\<exists>evs oks. l' = l @ evs \<and> length oks = length cs \<and> phase_log PhaseCancel R (zip (map co_ID cs) oks) evs
     \<and> (e = None \<longleftrightarrow> False \<notin> set oks) \<and> tt_Phase tx' = PhaseCancel
     \<and> tt_Status tx' = (if False \<notin> set oks then StatusCancelled else StatusFailed)"
proof -
  let ?tx = "tx\<lparr>tt_Status := StatusCancelled, tt_Phase := PhaseCancel\<rparr>"
  let ?c = "collect_errors (cancelComponent tc (tt_ID tx)) (map spy cs) (w, l)"
  from collect_errors_log [of "cancelComponent tc (tt_ID tx)" PhaseCancel R cs w l,
      OF cancel_log [OF assms(2), folded assms(3)]]
  obtain w1 evs oks where c: "snd ?c = (w1, l @ evs)" "length oks = length cs"
    "phase_log PhaseCancel R (zip (map co_ID cs) oks) evs" "fst ?c = [] \<longleftrightarrow> False \<notin> set oks" by blast
  let ?f = "finish_phase ''cancel'' (Some now) (fst ?c) ?tx"
  have f: "e = fst ?f" "tx' = snd ?f" "l' = l @ evs"
    using assms(4) c(1) by (simp_all add: executeCancelPhase_def assms(1) Let_def split: prod.splits)
  show ?thesis
    by (rule exI [of _ evs], rule exI [of _ oks]) (use c(2-4) in \<open>simp add: f finish_phase_simps\<close>)
qed


subsection \<open>Properties\<close>

text \<open>
  C2. Two-phase outcome of a TCC transaction with arbitrary components. Either every component's Try
  succeeded, in order, and then every component is confirmed, in order, and the call succeeds and the
  transaction is Confirmed exactly when all confirmations succeeded; or some component's Try failed on
  every attempt, nothing is confirmed, no later component is tried, every component tried before it is
  cancelled right away, and then every component of the transaction is cancelled (so the ones tried
  successfully are cancelled twice); the call fails and the transaction is Cancelled or Failed. Each call
  is attempted at most one more time than the configured retries.
\<close>

theorem execute_confirms_all_or_cancels_all:
  assumes "map_of (tcs_transactions tc) txID = Some tx" and "tt_Components tx = map spy cs"
    and "0 \<le> tt_MaxRetries tx" and "0 \<le> tcs_retryCount tc"
    and "M = nat (tt_MaxRetries tx + 1)" and "R = nat (tcs_retryCount tc + 1)"
    and "ExecuteTransaction now txID tc (w, []) = (e, tc', w', l)"
  shows "\<exists>tx'. map_of (tcs_transactions tc') txID = Some tx' \<and>
     ((\<exists>tries confirms oks. l = tries @ confirms \<and> phase_log PhaseTry M (tagged True cs) tries
         \<and> length oks = length cs \<and> phase_log PhaseConfirm M (zip (map co_ID cs) oks) confirms
         \<and> (e = None \<longleftrightarrow> False \<notin> set oks)
         \<and> tt_Status tx' = (if e = None then StatusConfirmed else StatusFailed))
     \<or> (\<exists>pre c post tries undo cancels oks oks'. cs = pre @ c # post \<and> l = tries @ undo @ cancels
         \<and> phase_log PhaseTry M (tagged True pre @ [(co_ID c, False)]) tries
         \<and> length oks = length pre \<and> phase_log PhaseCancel R (zip (map co_ID pre) oks) undo
         \<and> length oks' = length cs \<and> phase_log PhaseCancel R (zip (map co_ID cs) oks') cancels
         \<and> e \<noteq> None \<and> tt_Status tx' = (if False \<notin> set oks' then StatusCancelled else StatusFailed)))"
proof -
  obtain e1 tx1 w1 l1 where t: "executeTryPhase tc tx (w, []) = (e1, tx1, w1, l1)" by (metis prod_cases4)
  note tl = executeTryPhase_log [OF assms(2-6) t, unfolded append_Nil]
  show ?thesis
  proof (cases e1)
    case None
    obtain e2 tx2 w2 l2 where c: "executeConfirmPhase now tx1 (w1, l1) = (e2, tx2, w2, l2)" by (metis prod_cases4)
    have x: "e2 = e" "l2 = l" "map_of (tcs_transactions tc') txID = Some tx2"
      using assms(1,7) t c None by (auto simp: ExecuteTransaction_def AList.update_conv')
    from tl None have "tt_Components tx1 = map spy cs" "0 \<le> tt_MaxRetries tx1" "M = nat (tt_MaxRetries tx1 + 1)"
      and "phase_log PhaseTry M (tagged True cs) l1" using assms(3,5) by auto
    with executeConfirmPhase_log [OF this(1-3) c] x show ?thesis by blast
  next
    case (Some e0)
    obtain e2 tx2 w2 l2 where c: "executeCancelPhase tc now tx1 (w1, l1) = (e2, tx2, w2, l2)" by (metis prod_cases4)
    have x: "e = Some e0" "l2 = l" "map_of (tcs_transactions tc') txID = Some tx2"
      using assms(1,7) t c Some by (auto simp: ExecuteTransaction_def AList.update_conv')
    from tl Some have "tt_Components tx1 = map spy cs" by auto
    from executeCancelPhase_log [OF this assms(4,6) c] obtain evs oks' where v: "l = l1 @ evs"
      "length oks' = length cs" "phase_log PhaseCancel R (zip (map co_ID cs) oks') evs"
      "tt_Status tx2 = (if False \<notin> set oks' then StatusCancelled else StatusFailed)" by (auto simp: x(2))
    from tl Some obtain pre c post tries undo oks where u: "cs = pre @ c # post" "l1 = tries @ undo"
      "phase_log PhaseTry M (tagged True pre @ [(co_ID c, False)]) tries" "length oks = length pre"
      "phase_log PhaseCancel R (zip (map co_ID pre) oks) undo" by auto
    show ?thesis
      by (rule exI [of _ tx2], intro conjI x(3) disjI2 exI [of _ pre] exI [of _ c] exI [of _ post] exI [of _ tries]
          exI [of _ undo] exI [of _ evs] exI [of _ oks] exI [of _ oks']) (use u v x(1) in simp_all)
  qed
qed

theorem execute_confirms_all_or_cancels_all_witness:
  "case ExecuteTransaction 9 ''t1'' \<lparr>tcs_transactions = [(''t1'', sample_tx 1 (map spy [steady ''a'', refusing ''b'']))],
      tcs_components = [], tcs_timeout = 0, tcs_retryCount = 0\<rparr> ((), []) of (e, tc', w', l) \<Rightarrow>
     e \<noteq> None \<and> l = [Call PhaseTry ''a'' True, Call PhaseTry ''b'' False, Call PhaseTry ''b'' False,
       Call PhaseCancel ''a'' True, Call PhaseCancel ''a'' True, Call PhaseCancel ''b'' True]
   \<and> (\<exists>tx'. map_of (tcs_transactions tc') ''t1'' = Some tx' \<and> tt_Status tx' \<in> {StatusCancelled, StatusFailed})"
proof -
  let ?tc = "\<lparr>tcs_transactions = [(''t1'', sample_tx 1 (map spy [steady ''a'', refusing ''b'']))],
      tcs_components = [], tcs_timeout = 0, tcs_retryCount = 0\<rparr>"
  obtain e tc' w' l where x: "ExecuteTransaction 9 ''t1'' ?tc ((), []) = (e, tc', w', l)" by (metis prod_cases4)
  have v: "e \<noteq> None" "l = [Call PhaseTry ''a'' True, Call PhaseTry ''b'' False, Call PhaseTry ''b'' False,
       Call PhaseCancel ''a'' True, Call PhaseCancel ''a'' True, Call PhaseCancel ''b'' True]"
    using x by (auto simp: ExecuteTransaction_def executeTryPhase_def executeCancelPhase_def sample_tx_def
        finish_phase_def cancelComponent_def log_call_apply steady_def refusing_def numeral_2_eq_2 Let_def)
  have "\<exists>tx'. map_of (tcs_transactions tc') ''t1'' = Some tx' \<and> tt_Status tx' \<in> {StatusCancelled, StatusFailed}"
    using execute_confirms_all_or_cancels_all [OF _ _ _ _ refl refl x,
        of "sample_tx 1 (map spy [steady ''a'', refusing ''b''])" "[steady ''a'', refusing ''b'']"] v(1)
    by (auto simp: sample_tx_def split: if_splits)
  with v x show ?thesis by simp
qed

text \<open>
  A negative retry count, which \<^verbatim>\<open>SetRetryCount\<close> accepts, disables the protocol silently: the retry loops
  run no attempt and leave a nil error, so a transaction begun under it is reported Confirmed without a
  single call of its components.
\<close>

theorem negative_retries_confirm_without_calls:
  assumes "n < 0" and "BeginTransaction now txID cids (tcs_SetRetryCount n tc) = (Inr tx, tc1)"
    and "ExecuteTransaction now2 txID tc1 w = (e, tc2, w')"
  shows "e = None \<and> w' = w \<and> (\<exists>tx'. tcs_GetTransaction txID tc2 = Inr tx' \<and> tt_Status tx' = StatusConfirmed)"
proof -
  have z: "nat (n + 1) = 0" using assms(1) by simp
  have b: "map_of (tcs_transactions tc1) txID = Some tx" "tt_MaxRetries tx = n"
    using assms(2) by (auto simp: BeginTransaction_def tcs_SetRetryCount_def Let_def AList.update_conv' split: sum.splits)
  have tries_nothing: "tt_MaxRetries t = n \<Longrightarrow> try_loop c t d cs v = ([], v)" for c t d cs v
    by (induction c t d cs v rule: try_loop.induct) (simp_all add: z Let_def)
  have confirms_nothing: "tt_MaxRetries t = n \<Longrightarrow> collect_errors (confirmComponent t) cs v = ([], v)" for t cs v
    by (induction cs) (simp_all add: confirmComponent_def z)
  from assms(3) b show ?thesis
    by (auto simp: ExecuteTransaction_def executeTryPhase_def executeConfirmPhase_def tries_nothing confirms_nothing finish_phase_def
        tcs_GetTransaction_def Let_def AList.update_conv')
qed

theorem negative_retries_confirm_without_calls_witness:
  "let tc = tcs_RegisterComponent (spy (refusing ''a'')) NewTCCCoordinator;
       tc1 = snd (BeginTransaction 5 ''t1'' [''a''] (tcs_SetRetryCount (-1) tc))
   in fst (ExecuteTransaction 6 ''t1'' tc1 ((), [])) = None
    \<and> snd (snd (ExecuteTransaction 6 ''t1'' tc1 ((), []))) = ((), [])"
proof -
  let ?tc = "tcs_RegisterComponent (spy (refusing ''a'')) NewTCCCoordinator"
  let ?b = "BeginTransaction 5 ''t1'' [''a''] (tcs_SetRetryCount (-1) ?tc)"
  obtain tx where b: "?b = (Inr tx, snd ?b)"
    by (simp add: BeginTransaction_def tcs_SetRetryCount_def tcs_RegisterComponent_def NewTCCCoordinator_def
        refusing_def Let_def)
  obtain e tc2 w' where x: "ExecuteTransaction 6 ''t1'' (snd ?b) ((), []) = (e, tc2, w')" by (metis prod_cases3)
  from negative_retries_confirm_without_calls [OF _ b x] show ?thesis by (simp add: x)
qed

end
