(* ===== verification/Tx_Coordinator.thy ===== *)
theory Tx_Coordinator
  imports Tcc_Interface
begin

text \<open>
  The distributed transaction coordinator (\<^verbatim>\<open>src/app/common/tcc/transaction_coordinator.go\<close>) with its store,
  monitor and compensator interfaces, the etcd store, and the default monitor and compensator.
  Everything that can be changed is part of the world \<open>'w\<close>: the store, the monitor's output and what the
  components change. The etcd client is third-party code and a parameter; a stored value is the JSON
  text of a transaction (\<open>EJson\<close>) or any other text. A goroutine started by an operation runs to its end
  right after the operation. The JSON text of a transaction is decoded to the same transaction.
\<close>

(* src: app/common/tcc/transaction_coordinator.go:63-74 TransactionStatus, constants *)
datatype dtx_status =
  DPending | DTrying | DConfirming | DConfirmed | DCancelling | DCancelled | DFailed | DTimeout

(* src: app/common/tcc/transaction_coordinator.go:49-60 Transaction *)
record 'd dtx =
  dtx_ID :: string
  dtx_Status :: dtx_status
  dtx_Components :: "string list"
  dtx_StartTime :: gotime
  dtx_EndTime :: gotime
  dtx_Timeout :: duration
  dtx_RetryCount :: int
  dtx_MaxRetries :: int
  dtx_Metadata :: "string \<rightharpoonup> 'd"
  dtx_Error :: string

(* src: app/common/tcc/transaction_coordinator.go:26-32 TransactionStore *)
record ('w, 'd) dtx_store =
  dst_Save :: "'d dtx \<Rightarrow> 'w \<Rightarrow> err option \<times> 'w"
  dst_Get :: "string \<Rightarrow> 'w \<Rightarrow> (err + 'd dtx) \<times> 'w"
  dst_Update :: "'d dtx \<Rightarrow> 'w \<Rightarrow> err option \<times> 'w"
  dst_Delete :: "string \<Rightarrow> 'w \<Rightarrow> err option \<times> 'w"
  dst_List :: "dtx_status option \<Rightarrow> 'w \<Rightarrow> (err + 'd dtx list) \<times> 'w"

(* src: app/common/tcc/transaction_coordinator.go:35-40 TransactionMonitor *)
record ('w, 'd) dtx_monitor =
  dm_OnStarted :: "'d dtx \<Rightarrow> 'w \<Rightarrow> 'w"
  dm_OnCompleted :: "'d dtx \<Rightarrow> 'w \<Rightarrow> 'w"
  dm_OnFailed :: "'d dtx \<Rightarrow> err \<Rightarrow> 'w \<Rightarrow> 'w"
  dm_OnTimeout :: "'d dtx \<Rightarrow> 'w \<Rightarrow> 'w"

(* src: app/common/tcc/transaction_coordinator.go:43-46 Compensator *)
record ('w, 'd) dtx_compensator =
  dc_Compensate :: "'d dtx \<Rightarrow> 'w \<Rightarrow> err option \<times> 'w"
  dc_CanCompensate :: "'d dtx \<Rightarrow> bool"

(* src: app/common/tcc/transaction_coordinator.go:14-23 TransactionCoordinator *)
record ('w, 'd) dtx_coordinator =
  dco_components :: "string \<rightharpoonup> ('w, 'd) tcc_component"
  dco_store :: "('w, 'd) dtx_store"
  dco_monitor :: "('w, 'd) dtx_monitor option"
  dco_compensator :: "('w, 'd) dtx_compensator option"
  dco_now :: "'w \<Rightarrow> gotime"

(* src: app/common/tcc/transaction_coordinator.go:77-88 NewTransactionCoordinator *)
definition NewTransactionCoordinator ::
    "('w, 'd) dtx_store \<Rightarrow> ('w, 'd) dtx_monitor option \<Rightarrow> ('w, 'd) dtx_compensator option \<Rightarrow> ('w \<Rightarrow> gotime) \<Rightarrow> ('w, 'd) dtx_coordinator" where
  "NewTransactionCoordinator st mon cmp now =
     \<lparr>dco_components = Map.empty, dco_store = st, dco_monitor = mon, dco_compensator = cmp, dco_now = now\<rparr>"

(* src: app/common/tcc/transaction_coordinator.go:91-95 RegisterComponent *)
definition dco_RegisterComponent :: "('w, 'd) tcc_component \<Rightarrow> ('w, 'd) dtx_coordinator \<Rightarrow> ('w, 'd) dtx_coordinator" where
  "dco_RegisterComponent c tc = tc\<lparr>dco_components := (dco_components tc)(co_ID c \<mapsto> c)\<rparr>"

definition dco_update :: "('w, 'd) dtx_coordinator \<Rightarrow> 'd dtx \<Rightarrow> 'w \<Rightarrow> 'w" where
  "dco_update tc tx w = snd (dst_Update (dco_store tc) tx w)"

definition dco_notify :: "('w, 'd) dtx_coordinator \<Rightarrow> (('w, 'd) dtx_monitor \<Rightarrow> 'w \<Rightarrow> 'w) \<Rightarrow> 'w \<Rightarrow> 'w" where
  "dco_notify tc f w = (case dco_monitor tc of None \<Rightarrow> w | Some m \<Rightarrow> f m w)"

(* src: app/common/tcc/transaction_coordinator.go:159-183 executeTryPhase *)
fun dco_executeTryPhase :: "('w, 'd) dtx_coordinator \<Rightarrow> 'd dtx \<Rightarrow> string list \<Rightarrow> 'w \<Rightarrow> err option \<times> 'w" where
  "dco_executeTryPhase tc tx [] w = (None, w)"
| "dco_executeTryPhase tc tx (cid # cids) w =
     (case dco_components tc cid of
        None \<Rightarrow> (Some (''component not found: '' @ cid), w)
      | Some c \<Rightarrow>
          (case co_Try c \<lparr>rq_ComponentID = cid, rq_TXID = dtx_ID tx, rq_Data = dtx_Metadata tx\<rparr> w of
             (Inl e, w1) \<Rightarrow> (Some (''try phase failed for component '' @ cid @ '': '' @ e), w1)
           | (Inr resp, w1) \<Rightarrow>
               if \<not> rs_ACK resp then (Some (''try phase not acknowledged by component '' @ cid), w1)
               else dco_executeTryPhase tc tx cids w1))"

fun dco_confirm_loop :: "('w, 'd) dtx_coordinator \<Rightarrow> 'd dtx \<Rightarrow> string list \<Rightarrow> 'w \<Rightarrow> err option \<times> 'w" where
  "dco_confirm_loop tc tx [] w = (None, w)"
| "dco_confirm_loop tc tx (cid # cids) w =
     (case dco_components tc cid of
        None \<Rightarrow> (Some (''component not found: '' @ cid), w)
      | Some c \<Rightarrow>
          (case co_Confirm c (dtx_ID tx) w of
             (Inl e, w1) \<Rightarrow> (Some (''confirm phase failed for component '' @ cid @ '': '' @ e), w1)
           | (Inr resp, w1) \<Rightarrow>
               if \<not> rs_ACK resp then (Some (''confirm phase not acknowledged by component '' @ cid), w1)
               else dco_confirm_loop tc tx cids w1))"

(* src: app/common/tcc/transaction_coordinator.go:186-207 executeConfirmPhase *)
definition dco_executeConfirmPhase :: "('w, 'd) dtx_coordinator \<Rightarrow> 'd dtx \<Rightarrow> 'w \<Rightarrow> err option \<times> 'd dtx \<times> 'w" where
  "dco_executeConfirmPhase tc tx w =
     (let tx1 = tx\<lparr>dtx_Status := DConfirming\<rparr>;
          (e, w1) = dco_confirm_loop tc tx1 (dtx_Components tx1) (dco_update tc tx1 w)
      in (e, tx1, w1))"

text \<open>The cancel loop of \<^verbatim>\<open>executeCompensation\<close> and of the default compensator: missing components and errors are skipped.\<close>

fun cancel_each :: "(string \<rightharpoonup> ('w, 'd) tcc_component) \<Rightarrow> string \<Rightarrow> string list \<Rightarrow> 'w \<Rightarrow> 'w" where
  "cancel_each comps txID [] w = w"
| "cancel_each comps txID (cid # cids) w =
     cancel_each comps txID cids (case comps cid of None \<Rightarrow> w | Some c \<Rightarrow> snd (co_Cancel c txID w))"

(* src: app/common/tcc/transaction_coordinator.go:227-252 executeCompensation *)
definition dco_executeCompensation :: "('w, 'd) dtx_coordinator \<Rightarrow> 'd dtx \<Rightarrow> 'w \<Rightarrow> 'd dtx \<times> 'w" where
  "dco_executeCompensation tc tx w =
     (let tx1 = tx\<lparr>dtx_Status := DCancelling\<rparr>;
          w1 = cancel_each (dco_components tc) (dtx_ID tx1) (dtx_Components tx1) (dco_update tc tx1 w);
          tx2 = tx1\<lparr>dtx_Status := DCancelled, dtx_EndTime := dco_now tc w1\<rparr>
      in (tx2, dco_update tc tx2 w1))"

(* src: app/common/tcc/transaction_coordinator.go:210-224 handleTransactionFailure *)
definition handleTransactionFailure :: "('w, 'd) dtx_coordinator \<Rightarrow> 'd dtx \<Rightarrow> err \<Rightarrow> 'w \<Rightarrow> 'd dtx \<times> 'w" where
  "handleTransactionFailure tc tx e w =
     (let tx1 = tx\<lparr>dtx_Status := DFailed, dtx_Error := e, dtx_EndTime := dco_now tc w\<rparr>;
          w1 = dco_update tc tx1 w;
          can = (case dco_compensator tc of None \<Rightarrow> False | Some c \<Rightarrow> dc_CanCompensate c tx1);
          w2 = dco_notify tc (\<lambda>m. dm_OnFailed m tx1 e) w1
      in if can then dco_executeCompensation tc tx1 w2 else (tx1, w2))"

(* src: app/common/tcc/transaction_coordinator.go:128-156 executeTransaction *)
definition dco_executeTransaction :: "('w, 'd) dtx_coordinator \<Rightarrow> 'd dtx \<Rightarrow> 'w \<Rightarrow> 'd dtx \<times> 'w" where
  "dco_executeTransaction tc tx w =
     (let tx1 = tx\<lparr>dtx_Status := DTrying\<rparr>; w1 = dco_update tc tx1 w in
      case dco_executeTryPhase tc tx1 (dtx_Components tx1) w1 of
        (Some e, w2) \<Rightarrow> handleTransactionFailure tc tx1 e w2
      | (None, w2) \<Rightarrow>
          (case dco_executeConfirmPhase tc tx1 w2 of
             (Some e, tx2, w3) \<Rightarrow> handleTransactionFailure tc tx2 e w3
           | (None, tx2, w3) \<Rightarrow>
               let tx3 = tx2\<lparr>dtx_Status := DConfirmed, dtx_EndTime := dco_now tc w3\<rparr>
               in (tx3, dco_notify tc (\<lambda>m. dm_OnCompleted m tx3) (dco_update tc tx3 w3))))"

(* src: app/common/tcc/transaction_coordinator.go:291-293 generateTransactionID *)
definition generateTransactionID :: "gotime \<Rightarrow> string" where
  "generateTransactionID t = ''tx_'' @ itoa (t - 62135596800 * second)"

(* src: app/common/tcc/transaction_coordinator.go:98-125 StartTransaction *)
definition StartTransaction ::
    "('w, 'd) dtx_coordinator \<Rightarrow> string list \<Rightarrow> duration \<Rightarrow> (string \<rightharpoonup> 'd) \<Rightarrow> 'w \<Rightarrow> (err + 'd dtx) \<times> 'w" where
  "StartTransaction tc cids timeout metadata w =
     (let tx = \<lparr>dtx_ID = generateTransactionID (dco_now tc w), dtx_Status = DPending, dtx_Components = cids,
                dtx_StartTime = dco_now tc w, dtx_EndTime = 0, dtx_Timeout = timeout, dtx_RetryCount = 0,
                dtx_MaxRetries = 3, dtx_Metadata = metadata, dtx_Error = []\<rparr>
      in case dst_Save (dco_store tc) tx w of
           (Some e, w1) \<Rightarrow> (Inl (''failed to save transaction: '' @ e), w1)
         | (None, w1) \<Rightarrow>
             (case dco_executeTransaction tc tx (dco_notify tc (\<lambda>m. dm_OnStarted m tx) w1) of
                (tx', w2) \<Rightarrow> (Inr tx', w2)))"

(* src: app/common/tcc/transaction_coordinator.go:255-257 TransactionCoordinator.GetTransaction *)
definition dco_GetTransaction :: "('w, 'd) dtx_coordinator \<Rightarrow> string \<Rightarrow> 'w \<Rightarrow> (err + 'd dtx) \<times> 'w" where
  "dco_GetTransaction tc txID w = dst_Get (dco_store tc) txID w"

(* src: app/common/tcc/transaction_coordinator.go:260-262 TransactionCoordinator.ListTransactions *)
definition dco_ListTransactions :: "('w, 'd) dtx_coordinator \<Rightarrow> dtx_status option \<Rightarrow> 'w \<Rightarrow> (err + 'd dtx list) \<times> 'w" where
  "dco_ListTransactions tc st w = dst_List (dco_store tc) st w"

(* src: app/common/tcc/transaction_coordinator.go:265-283 RetryTransaction *)
definition RetryTransaction :: "('w, 'd) dtx_coordinator \<Rightarrow> string \<Rightarrow> 'w \<Rightarrow> err option \<times> 'w" where
  "RetryTransaction tc txID w =
     (case dst_Get (dco_store tc) txID w of
        (Inl e, w1) \<Rightarrow> (Some (''failed to get transaction: '' @ e), w1)
      | (Inr tx, w1) \<Rightarrow>
          if dtx_RetryCount tx \<ge> dtx_MaxRetries tx then (Some (''max retries exceeded for transaction '' @ txID), w1)
          else let tx1 = tx\<lparr>dtx_RetryCount := dtx_RetryCount tx + 1, dtx_Status := DPending\<rparr>
               in (None, snd (dco_executeTransaction tc tx1 (dco_update tc tx1 w1))))"

subsection \<open>The etcd store\<close>

datatype 'd etval = EText string | EJson "'d dtx"

record ('w, 'd) etcd_client =
  et_Put :: "string \<Rightarrow> 'd etval \<Rightarrow> 'w \<Rightarrow> err option \<times> 'w"
  et_Get :: "string \<Rightarrow> 'w \<Rightarrow> (err + 'd etval list) \<times> 'w"
  et_GetPrefix :: "string \<Rightarrow> 'w \<Rightarrow> (err + 'd etval list) \<times> 'w"
  et_Delete :: "string \<Rightarrow> 'w \<Rightarrow> err option \<times> 'w"

(* src: app/common/tcc/transaction_coordinator.go:296-307 EtcdTransactionStore, NewEtcdTransactionStore *)
record ('w, 'd) etcd_store =
  ets_client :: "('w, 'd) etcd_client"
  ets_keyPrefix :: string

(* src: app/common/tcc/transaction_coordinator.go:310-323 EtcdTransactionStore.SaveTransaction *)
definition ets_SaveTransaction :: "('w, 'd) etcd_store \<Rightarrow> 'd dtx \<Rightarrow> 'w \<Rightarrow> err option \<times> 'w" where
  "ets_SaveTransaction S tx w =
     (case et_Put (ets_client S) (ets_keyPrefix S @ dtx_ID tx) (EJson tx) w of
        (Some e, w1) \<Rightarrow> (Some (''failed to save transaction: '' @ e), w1)
      | (None, w1) \<Rightarrow> (None, w1))"

(* src: app/common/tcc/transaction_coordinator.go:326-344 EtcdTransactionStore.GetTransaction *)
definition ets_GetTransaction :: "('w, 'd) etcd_store \<Rightarrow> string \<Rightarrow> 'w \<Rightarrow> (err + 'd dtx) \<times> 'w" where
  "ets_GetTransaction S txID w =
     (case et_Get (ets_client S) (ets_keyPrefix S @ txID) w of
        (Inl e, w1) \<Rightarrow> (Inl (''failed to get transaction: '' @ e), w1)
      | (Inr [], w1) \<Rightarrow> (Inl (''transaction not found: '' @ txID), w1)
      | (Inr (EJson tx # _), w1) \<Rightarrow> (Inr tx, w1)
      | (Inr (EText s # _), w1) \<Rightarrow> (Inl (''failed to unmarshal transaction: '' @ s), w1))"

(* src: app/common/tcc/transaction_coordinator.go:347-349 EtcdTransactionStore.UpdateTransaction *)
definition ets_UpdateTransaction :: "('w, 'd) etcd_store \<Rightarrow> 'd dtx \<Rightarrow> 'w \<Rightarrow> err option \<times> 'w" where
  "ets_UpdateTransaction S tx w = ets_SaveTransaction S tx w"

(* src: app/common/tcc/transaction_coordinator.go:352-361 EtcdTransactionStore.DeleteTransaction *)
definition ets_DeleteTransaction :: "('w, 'd) etcd_store \<Rightarrow> string \<Rightarrow> 'w \<Rightarrow> err option \<times> 'w" where
  "ets_DeleteTransaction S txID w =
     (case et_Delete (ets_client S) (ets_keyPrefix S @ txID) w of
        (Some e, w1) \<Rightarrow> (Some (''failed to delete transaction: '' @ e), w1)
      | (None, w1) \<Rightarrow> (None, w1))"

fun decode_all :: "'d etval list \<Rightarrow> 'd dtx list" where
  "decode_all [] = []"
| "decode_all (EJson tx # vs) = tx # decode_all vs"
| "decode_all (EText _ # vs) = decode_all vs"

text \<open>The status \<open>-1\<close>, which lists everything, is \<open>None\<close>.\<close>

(* src: app/common/tcc/transaction_coordinator.go:364-383 EtcdTransactionStore.ListTransactions *)
definition ets_ListTransactions :: "('w, 'd) etcd_store \<Rightarrow> dtx_status option \<Rightarrow> 'w \<Rightarrow> (err + 'd dtx list) \<times> 'w" where
  "ets_ListTransactions S st w =
     (case et_GetPrefix (ets_client S) (ets_keyPrefix S) w of
        (Inl e, w1) \<Rightarrow> (Inl (''failed to list transactions: '' @ e), w1)
      | (Inr vs, w1) \<Rightarrow> (Inr (filter (\<lambda>tx. st = None \<or> st = Some (dtx_Status tx)) (decode_all vs)), w1))"

definition etcd_as_store :: "('w, 'd) etcd_store \<Rightarrow> ('w, 'd) dtx_store" where
  "etcd_as_store S = \<lparr>dst_Save = ets_SaveTransaction S, dst_Get = ets_GetTransaction S, dst_Update = ets_UpdateTransaction S,
     dst_Delete = ets_DeleteTransaction S, dst_List = ets_ListTransactions S\<rparr>"

subsection \<open>The default monitor and compensator\<close>

text \<open>The default monitor prints; \<open>print\<close> is \<^verbatim>\<open>fmt.Printf\<close> on the world.\<close>

(* src: app/common/tcc/transaction_coordinator.go:398-419 OnTransactionStarted, OnTransactionCompleted, OnTransactionFailed, OnTransactionTimeout *)
definition DefaultTransactionMonitor :: "(string \<Rightarrow> 'w \<Rightarrow> 'w) \<Rightarrow> ('w, 'd) dtx_monitor" where
  "DefaultTransactionMonitor print =
     \<lparr>dm_OnStarted = (\<lambda>tx. print (''Transaction started: '' @ dtx_ID tx @ [CHR 0x0A])),
      dm_OnCompleted = (\<lambda>tx. print (''Transaction completed: '' @ dtx_ID tx @ [CHR 0x0A])),
      dm_OnFailed = (\<lambda>tx e. print (''Transaction failed: '' @ dtx_ID tx @ '', error: '' @ e @ [CHR 0x0A])),
      dm_OnTimeout = (\<lambda>tx. print (''Transaction timeout: '' @ dtx_ID tx @ [CHR 0x0A]))\<rparr>"

(* src: app/common/tcc/transaction_coordinator.go:434-450 DefaultCompensator.Compensate *)
definition default_Compensate :: "(string \<rightharpoonup> ('w, 'd) tcc_component) \<Rightarrow> 'd dtx \<Rightarrow> 'w \<Rightarrow> err option \<times> 'w" where
  "default_Compensate comps tx w = (None, cancel_each comps (dtx_ID tx) (dtx_Components tx) w)"

(* src: app/common/tcc/transaction_coordinator.go:453-456 DefaultCompensator.CanCompensate *)
definition default_CanCompensate :: "'d dtx \<Rightarrow> bool" where
  "default_CanCompensate tx \<longleftrightarrow> dtx_Status tx = DTrying \<or> dtx_Status tx = DConfirming"

definition DefaultCompensator :: "(string \<rightharpoonup> ('w, 'd) tcc_component) \<Rightarrow> ('w, 'd) dtx_compensator" where
  "DefaultCompensator comps = \<lparr>dc_Compensate = default_Compensate comps, dc_CanCompensate = default_CanCompensate\<rparr>"

subsection \<open>Vocabulary of the theorems\<close>

text \<open>The coordinator's own effects leave a view of the world alone: the store's writes and the monitor.\<close>

definition dco_silent :: "('w, 'd) dtx_coordinator \<Rightarrow> ('w \<Rightarrow> 'v) \<Rightarrow> bool" where
  "dco_silent tc view \<longleftrightarrow> (\<forall>tx w. view (dco_update tc tx w) = view w)
     \<and> (\<forall>m. dco_monitor tc = Some m \<longrightarrow> (\<forall>tx e w. view (dm_OnFailed m tx e w) = view w \<and> view (dm_OnCompleted m tx w) = view w))"

text \<open>The documented behaviour of etcd: a key holds the value last put there.\<close>

definition etcd_ok :: "('w, 'd) etcd_client \<Rightarrow> ('w \<Rightarrow> string \<Rightarrow> 'd etval option) \<Rightarrow> bool" where
  "etcd_ok C obs \<longleftrightarrow>
     (\<forall>k v w. fst (et_Put C k v w) = None \<and> obs (snd (et_Put C k v w)) = (obs w)(k \<mapsto> v))
   \<and> (\<forall>k w. fst (et_Get C k w) = Inr (case obs w k of None \<Rightarrow> [] | Some v \<Rightarrow> [v]) \<and> obs (snd (et_Get C k w)) = obs w)"

text \<open>A coordinator on etcd whose components and monitor do not touch the stored transactions.\<close>

definition on_etcd :: "('w, 'd) dtx_coordinator \<Rightarrow> ('w, 'd) etcd_store \<Rightarrow> ('w \<Rightarrow> string \<Rightarrow> 'd etval option) \<Rightarrow> bool" where
  "on_etcd tc S obs \<longleftrightarrow> dco_store tc = etcd_as_store S \<and> etcd_ok (ets_client S) obs
   \<and> (\<forall>m. dco_monitor tc = Some m \<longrightarrow> (\<forall>tx e w. obs (dm_OnFailed m tx e w) = obs w \<and> obs (dm_OnCompleted m tx w) = obs w))
   \<and> (\<forall>cid c. dco_components tc cid = Some c \<longrightarrow> (\<forall>req i w. obs (snd (co_Try c req w)) = obs w
        \<and> obs (snd (co_Confirm c i w)) = obs w \<and> obs (snd (co_Cancel c i w)) = obs w))"

fun retry_run :: "('w, 'd) dtx_coordinator \<Rightarrow> string \<Rightarrow> nat \<Rightarrow> 'w \<Rightarrow> err option list \<times> 'w" where
  "retry_run tc txID 0 w = ([], w)"
| "retry_run tc txID (Suc n) w =
     (case RetryTransaction tc txID w of (e, w1) \<Rightarrow> case retry_run tc txID n w1 of (es, w2) \<Rightarrow> (e # es, w2))"

text \<open>A log grows, and every new event satisfies the predicate.\<close>

definition extends :: "(tcc_call \<Rightarrow> bool) \<Rightarrow> tcc_call list \<Rightarrow> tcc_call list \<Rightarrow> bool" where
  "extends P l l' \<longleftrightarrow> (\<exists>evs. l' = l @ evs \<and> (\<forall>ev \<in> set evs. P ev))"

text \<open>An etcd server in memory.\<close>

definition mem_etcd :: "(string \<Rightarrow> 'd etval option, 'd) etcd_client" where
  "mem_etcd = \<lparr>et_Put = (\<lambda>k v w. (None, w(k \<mapsto> v))),
     et_Get = (\<lambda>k w. (Inr (case w k of None \<Rightarrow> [] | Some v \<Rightarrow> [v]), w)),
     et_GetPrefix = (\<lambda>p w. (Inl ''not supported'', w)), et_Delete = (\<lambda>k w. (None, w(k := None)))\<rparr>"

subsection \<open>The default compensator\<close>

lemma extends_refl [simp]: "extends P l l"
  by (simp add: extends_def)

lemma extends_trans: "extends P l1 l2 \<Longrightarrow> extends P l2 l3 \<Longrightarrow> extends P l1 l3"
  by (fastforce simp: extends_def)

lemma extends_call: "P (Call ph c True) \<Longrightarrow> P (Call ph c False) \<Longrightarrow> extends P (snd wl) (snd (snd (log_call ph c f wl)))"
  by (cases "is_ok (fst (f (fst wl)))") (auto simp: extends_def log_call_def case_prod_beta)

lemma try_phase_extends:
  assumes "dco_components tc = (\<lambda>cid. map_option spy (comps cid))" and "\<And>c b. P (Call PhaseTry c b)"
  shows "extends P (snd wl) (snd (snd (dco_executeTryPhase tc tx cids wl)))"
proof (induction cids arbitrary: wl)
  case (Cons cid cids)
  show ?case
  proof (cases "comps cid")
    case (Some c)
    let ?r = "log_call PhaseTry (co_ID c) (co_Try c \<lparr>rq_ComponentID = cid, rq_TXID = dtx_ID tx, rq_Data = dtx_Metadata tx\<rparr>) wl"
    have 1: "extends P (snd wl) (snd (snd ?r))" using assms(2) by (intro extends_call) simp_all
    from extends_trans [OF 1 Cons.IH] 1 show ?thesis
      by (auto simp: assms(1) Some case_prod_beta split: sum.split)
  qed (simp add: assms(1))
qed simp

lemma confirm_loop_extends:
  assumes "dco_components tc = (\<lambda>cid. map_option spy (comps cid))" and "\<And>c b. P (Call PhaseConfirm c b)"
  shows "extends P (snd wl) (snd (snd (dco_confirm_loop tc tx cids wl)))"
proof (induction cids arbitrary: wl)
  case (Cons cid cids)
  show ?case
  proof (cases "comps cid")
    case (Some c)
    let ?r = "log_call PhaseConfirm (co_ID c) (co_Confirm c (dtx_ID tx)) wl"
    have 1: "extends P (snd wl) (snd (snd ?r))" using assms(2) by (intro extends_call) simp_all
    from extends_trans [OF 1 Cons.IH] 1 show ?thesis
      by (auto simp: assms(1) Some case_prod_beta split: sum.split)
  qed (simp add: assms(1))
qed simp

lemma silent_update: "dco_silent tc view \<Longrightarrow> view (dco_update tc tx w) = view w"
  by (simp add: dco_silent_def)

lemma silent_notify:
  "dco_silent tc view \<Longrightarrow> view (dco_notify tc (\<lambda>m. dm_OnFailed m tx e) w) = view w"
  "dco_silent tc view \<Longrightarrow> view (dco_notify tc (\<lambda>m. dm_OnCompleted m tx) w) = view w"
  by (auto simp: dco_silent_def dco_notify_def split: option.split)

text \<open>With the default compensator, a failed transaction is recorded and reported, and that is all.\<close>

lemma default_failure:
  assumes "dco_compensator tc = Some (DefaultCompensator comps)" and "dco_silent tc view"
  shows "view (snd (handleTransactionFailure tc tx e w)) = view w"
    and "dtx_Status (fst (handleTransactionFailure tc tx e w)) = DFailed"
  using silent_update [OF assms(2)] silent_notify(1) [OF assms(2)]
  by (simp_all add: handleTransactionFailure_def assms(1) DefaultCompensator_def default_CanCompensate_def Let_def)

text \<open>
  The default compensator never compensates. \<^verbatim>\<open>handleTransactionFailure\<close> sets the status to Failed before it
  asks \<^verbatim>\<open>CanCompensate\<close>, which only accepts Trying and Confirming. So in every run of a transaction, with any
  components, not one Cancel is called: components whose Try succeeded keep their reservations when a
  later component fails, and the transaction ends as Confirmed or Failed, never as Cancelled.
\<close>

theorem default_compensator_never_cancels:
  assumes "dco_compensator tc = Some (DefaultCompensator cs)" and "dco_components tc = (\<lambda>cid. map_option spy (comps cid))"
    and "dco_silent tc snd" and "dco_executeTransaction tc tx (w, l) = (tx', w', l')"
  shows "extends (\<lambda>ev. \<forall>c b. ev \<noteq> Call PhaseCancel c b) l l' \<and> dtx_Status tx' \<in> {DConfirmed, DFailed}"
proof -
  let ?P = "\<lambda>ev. \<forall>c b. ev \<noteq> Call PhaseCancel c b"
  let ?tx1 = "tx\<lparr>dtx_Status := DTrying\<rparr>"
  let ?t = "dco_executeTryPhase tc ?tx1 (dtx_Components tx) (dco_update tc ?tx1 (w, l))"
  note s = silent_update [OF assms(3)] silent_notify [OF assms(3)] default_failure [OF assms(1,3)]
  have 1: "extends ?P l (snd (snd ?t))"
    using try_phase_extends [OF assms(2), of ?P "dco_update tc ?tx1 (w, l)"] by (simp add: s)
  show ?thesis
  proof (cases "fst ?t")
    case (Some e)
    then have "(tx', w', l') = handleTransactionFailure tc ?tx1 e (snd ?t)"
      using assms(4) by (simp add: dco_executeTransaction_def Let_def case_prod_beta)
    with 1 s(4,5) [of ?tx1 e "snd ?t"] show ?thesis by (metis fst_conv insertCI snd_conv)
  next
    case None
    let ?c = "dco_executeConfirmPhase tc ?tx1 (snd ?t)"
    have 2: "extends ?P (snd (snd ?t)) (snd (snd (snd ?c)))"
      using confirm_loop_extends [OF assms(2), of ?P "dco_update tc (?tx1\<lparr>dtx_Status := DConfirming\<rparr>) (snd ?t)"]
      by (simp add: dco_executeConfirmPhase_def Let_def case_prod_beta s)
    note e = extends_trans [OF 1 2]
    show ?thesis
    proof (cases "fst ?c")
      case (Some er)
      then have "(tx', w', l') = handleTransactionFailure tc (fst (snd ?c)) er (snd (snd ?c))"
        using assms(4) None by (simp add: dco_executeTransaction_def Let_def case_prod_beta)
      with e s(4,5) [of "fst (snd ?c)" er "snd (snd ?c)"] show ?thesis by (metis fst_conv insertCI snd_conv)
    next
      case None': None
      let ?tx3 = "(fst (snd ?c))\<lparr>dtx_Status := DConfirmed, dtx_EndTime := dco_now tc (snd (snd ?c))\<rparr>"
      have "dco_executeTransaction tc tx (w, l) =
          (?tx3, dco_notify tc (\<lambda>m. dm_OnCompleted m ?tx3) (dco_update tc ?tx3 (snd (snd ?c))))"
        using None None' by (simp add: dco_executeTransaction_def Let_def case_prod_beta)
      with assms(4) have t: "tx' = ?tx3"
        and r: "(w', l') = dco_notify tc (\<lambda>m. dm_OnCompleted m ?tx3) (dco_update tc ?tx3 (snd (snd ?c)))"
        by (metis prod.inject)+
      have "l' = snd (snd (snd ?c))" using r s(1,3) by (metis snd_conv)
      moreover have "dtx_Status tx' = DConfirmed" unfolding t by simp
      ultimately show ?thesis using e by simp
    qed
  qed
qed

subsection \<open>Retries\<close>

lemma on_etcd_update:
  assumes "on_etcd tc S obs"
  shows "obs (dco_update tc tx w) = (obs w)(ets_keyPrefix S @ dtx_ID tx \<mapsto> EJson tx)"
  using assms by (simp add: on_etcd_def etcd_ok_def dco_update_def etcd_as_store_def ets_UpdateTransaction_def
      ets_SaveTransaction_def case_prod_beta split: option.split)

lemma on_etcd_notify:
  assumes "on_etcd tc S obs"
  shows "obs (dco_notify tc (\<lambda>m. dm_OnFailed m tx e) w) = obs w" "obs (dco_notify tc (\<lambda>m. dm_OnCompleted m tx) w) = obs w"
  using assms by (auto simp: on_etcd_def dco_notify_def split: option.split)

lemma failure_stored:
  assumes "on_etcd tc S obs" and "dtx_ID tx = i"
  shows "obs (snd (handleTransactionFailure tc tx e w)) (ets_keyPrefix S @ i) =
           Some (EJson (fst (handleTransactionFailure tc tx e w)))
     \<and> dtx_ID (fst (handleTransactionFailure tc tx e w)) = i
     \<and> dtx_RetryCount (fst (handleTransactionFailure tc tx e w)) = dtx_RetryCount tx
     \<and> dtx_MaxRetries (fst (handleTransactionFailure tc tx e w)) = dtx_MaxRetries tx"
  by (simp add: handleTransactionFailure_def dco_executeCompensation_def Let_def assms(2)
      on_etcd_update [OF assms(1)] on_etcd_notify [OF assms(1)])

lemma execute_stored:
  assumes "on_etcd tc S obs" and "dco_executeTransaction tc tx w = (tx', w')"
  shows "obs w' (ets_keyPrefix S @ dtx_ID tx) = Some (EJson tx') \<and> dtx_ID tx' = dtx_ID tx
     \<and> dtx_RetryCount tx' = dtx_RetryCount tx \<and> dtx_MaxRetries tx' = dtx_MaxRetries tx"
proof -
  have "obs (snd (dco_executeTransaction tc tx w)) (ets_keyPrefix S @ dtx_ID tx) = Some (EJson (fst (dco_executeTransaction tc tx w)))
     \<and> dtx_ID (fst (dco_executeTransaction tc tx w)) = dtx_ID tx
     \<and> dtx_RetryCount (fst (dco_executeTransaction tc tx w)) = dtx_RetryCount tx
     \<and> dtx_MaxRetries (fst (dco_executeTransaction tc tx w)) = dtx_MaxRetries tx"
    by (simp add: failure_stored [OF assms(1)] dco_executeTransaction_def dco_executeConfirmPhase_def Let_def case_prod_beta on_etcd_update [OF assms(1)]
        on_etcd_notify [OF assms(1)] split: option.split)
  with assms(2) show ?thesis by simp
qed

text \<open>
  Retries are bounded: however often \<^verbatim>\<open>RetryTransaction\<close> is called and whatever the components do, exactly as
  many calls as the transaction has retries left run it again; every later call is refused with the
  same error and leaves the stored transaction alone.
\<close>

theorem retries_bounded:
  assumes "on_etcd tc S obs" and "obs w (ets_keyPrefix S @ txID) = Some (EJson tx)" and "dtx_ID tx = txID"
    and "0 \<le> dtx_RetryCount tx" and "dtx_RetryCount tx \<le> dtx_MaxRetries tx"
    and "m = nat (dtx_MaxRetries tx - dtx_RetryCount tx)"
  shows "fst (retry_run tc txID (m + n) w) = replicate m None @ replicate n (Some (''max retries exceeded for transaction '' @ txID))"
  using assms(2-6)
proof (induction m arbitrary: w tx)
  case 0
  then have ge: "dtx_MaxRetries tx \<le> dtx_RetryCount tx" by simp
  have "\<exists>v'. RetryTransaction tc txID v = (Some (''max retries exceeded for transaction '' @ txID), v') \<and> obs v' = obs v"
    if "obs v (ets_keyPrefix S @ txID) = Some (EJson tx)" for v
    using that assms(1) ge
    by (auto simp: RetryTransaction_def on_etcd_def etcd_as_store_def ets_GetTransaction_def etcd_ok_def case_prod_beta)
  then have "obs v (ets_keyPrefix S @ txID) = Some (EJson tx) \<Longrightarrow>
      fst (retry_run tc txID n v) = replicate n (Some (''max retries exceeded for transaction '' @ txID))" for v n
  proof (induction n arbitrary: v)
    case (Suc n)
    from Suc.prems(2) [OF Suc.prems(1)] obtain v' where
      "RetryTransaction tc txID v = (Some (''max retries exceeded for transaction '' @ txID), v')" "obs v' = obs v" by blast
    with Suc show ?case by (simp add: case_prod_beta)
  qed simp
  with 0 show ?case by simp
next
  case (Suc m)
  let ?tx1 = "tx\<lparr>dtx_RetryCount := dtx_RetryCount tx + 1, dtx_Status := DPending\<rparr>"
  have g: "fst (dst_Get (dco_store tc) txID w) = Inr tx"
    using Suc.prems(1) assms(1) by (simp add: on_etcd_def etcd_as_store_def ets_GetTransaction_def etcd_ok_def case_prod_beta)
  obtain tx2 w2 where ex: "dco_executeTransaction tc ?tx1 (dco_update tc ?tx1 (snd (dst_Get (dco_store tc) txID w))) = (tx2, w2)"
    by fastforce
  have r: "RetryTransaction tc txID w = (None, w2)"
    using g ex Suc.prems(5) by (simp add: RetryTransaction_def case_prod_beta Let_def)
  note st = execute_stored [OF assms(1) ex]
  have "fst (retry_run tc txID (m + n) w2) = replicate m None @ replicate n (Some (''max retries exceeded for transaction '' @ txID))"
    by (rule Suc.IH [of w2 tx2]) (use st Suc.prems in auto)
  with r show ?case by (simp add: case_prod_beta)
qed

subsection \<open>Concrete runs\<close>

definition sample_dtx :: "string list \<Rightarrow> unit dtx" where
  "sample_dtx cids = \<lparr>dtx_ID = ''t1'', dtx_Status = DPending, dtx_Components = cids, dtx_StartTime = 0, dtx_EndTime = 0,
     dtx_Timeout = second, dtx_RetryCount = 1, dtx_MaxRetries = 3, dtx_Metadata = Map.empty, dtx_Error = []\<rparr>"

definition idle_store :: "('w, unit) dtx_store" where
  "idle_store = \<lparr>dst_Save = (\<lambda>_ w. (None, w)), dst_Get = (\<lambda>_ w. (Inl ''none'', w)), dst_Update = (\<lambda>_ w. (None, w)),
     dst_Delete = (\<lambda>_ w. (None, w)), dst_List = (\<lambda>_ w. (Inr [], w))\<rparr>"

theorem default_compensator_never_cancels_witness:
  "let comps = [''a'' \<mapsto> steady ''a'', ''b'' \<mapsto> (steady ''b'')\<lparr>co_Try := (\<lambda>_ w. (Inl ''no stock'', w))\<rparr>];
       tc = \<lparr>dco_components = (\<lambda>cid. map_option spy (comps cid)), dco_store = idle_store, dco_monitor = None,
             dco_compensator = Some (DefaultCompensator Map.empty), dco_now = (\<lambda>_. 0)\<rparr>;
       r = dco_executeTransaction tc (sample_dtx [''a'', ''b'']) ((), [])
   in snd (snd r) = [Call PhaseTry ''a'' True, Call PhaseTry ''b'' False] \<and> dtx_Status (fst r) \<in> {DConfirmed, DFailed}"
proof -
  let ?comps = "[''a'' \<mapsto> steady ''a'', ''b'' \<mapsto> (steady ''b'')\<lparr>co_Try := (\<lambda>_ w. (Inl ''no stock'', w))\<rparr>]"
  let ?tc = "\<lparr>dco_components = (\<lambda>cid. map_option spy (?comps cid)), dco_store = idle_store, dco_monitor = None,
             dco_compensator = Some (DefaultCompensator Map.empty), dco_now = (\<lambda>_. 0)\<rparr>"
  let ?r = "dco_executeTransaction ?tc (sample_dtx [''a'', ''b'']) ((), [])"
  obtain tx' w' l' where r: "?r = (tx', w', l')" by (metis prod_cases3)
  have s: "dco_silent ?tc snd" by (simp add: dco_silent_def dco_update_def idle_store_def)
  have c: "dco_components ?tc = (\<lambda>cid. map_option spy (?comps cid))" "dco_compensator ?tc = Some (DefaultCompensator Map.empty)"
    by simp_all
  have "dtx_Status (fst ?r) \<in> {DConfirmed, DFailed}"
    using default_compensator_never_cancels [OF c(2,1) s r] by (simp only: r fst_conv)
  moreover have "snd (snd ?r) = [Call PhaseTry ''a'' True, Call PhaseTry ''b'' False]"
    by (simp add: dco_executeTransaction_def handleTransactionFailure_def DefaultCompensator_def default_CanCompensate_def
        dco_notify_def dco_update_def idle_store_def sample_dtx_def steady_def log_call_def Let_def)
  ultimately show ?thesis by simp
qed

theorem retries_bounded_witness:
  "let S = \<lparr>ets_client = mem_etcd, ets_keyPrefix = ''/tx/''\<rparr>;
       tc = NewTransactionCoordinator (etcd_as_store S) None None (\<lambda>_. 0)
   in fst (retry_run tc ''t1'' (2 + 1) [''/tx/t1'' \<mapsto> EJson (sample_dtx [''gone''])]) =
        [None, None, Some ''max retries exceeded for transaction t1'']"
proof -
  let ?S = "\<lparr>ets_client = mem_etcd, ets_keyPrefix = ''/tx/''\<rparr>"
  let ?tc = "NewTransactionCoordinator (etcd_as_store ?S) None None (\<lambda>_. 0)"
  have "on_etcd ?tc ?S (\<lambda>w. w)"
    by (simp add: on_etcd_def NewTransactionCoordinator_def etcd_ok_def mem_etcd_def)
  from retries_bounded [OF this, of "[''/tx/t1'' \<mapsto> EJson (sample_dtx [''gone''])]" "''t1''" "sample_dtx [''gone'']" 2 1]
  show ?thesis by (simp add: sample_dtx_def numeral_2_eq_2)
qed

end
