(* ===== verification/User_Service.thy ===== *)
theory User_Service
  imports Bobing_Service
begin

text \<open>
  The user service (\<^verbatim>\<open>src/app/user\<close>): the user table, the certificate cache and the login handlers of
  \<^verbatim>\<open>service/routine.go\<close> and \<^verbatim>\<open>service/activity.go\<close>, with the WeChat helpers of \<^verbatim>\<open>src/utils/wxLoginUtils.go\<close>. The
  HTTP exchanges (a request and the decoding of its JSON answer), gorm, Redis and the token library are
  parameters. A nil dereference is the error value \<open>nil_pointer\<close>; in the program it ends the process.

  \<^verbatim>\<open>UserLogin\<close> and \<^verbatim>\<open>YearBillLogin\<close> ask the school and WeChat in two goroutines that share \<open>err\<close>; as in
  \<^verbatim>\<open>BoBingPublish\<close> a schedule orders their steps.
\<close>

section \<open>Model\<close>

subsection \<open>Data\<close>

(* src: app/user/database/models/user.go:6-15 User *)
record user =
  us_OpenId :: string
  us_StuNum :: string
  us_IsAdmin :: int
  us_IsSuperAdmin :: int
  us_Avatar :: string
  us_Nickname :: string
  us_Organization :: nat

definition new_user :: "string \<Rightarrow> string \<Rightarrow> string \<Rightarrow> string \<Rightarrow> user" where
  "new_user openId stuNum avatar nickname =
     \<lparr> us_OpenId = openId, us_StuNum = stuNum, us_IsAdmin = 0, us_IsSuperAdmin = 0, us_Avatar = avatar,
       us_Nickname = nickname, us_Organization = 0 \<rparr>"

(* src: app/user/types/authentication.go:8-11 JwcCertificate *)
record jwc_certificate =
  jc_GsSession :: string
  jc_Emaphome_WEU :: string

(* src: utils/wxLoginUtils.go:19-27 WXLoginResp *)
record wx_login_resp =
  wl_OpenId :: string
  wl_AccessToken :: string
  wl_ErrCode :: int
  wl_ErrMsg :: string

(* src: utils/wxLoginUtils.go:47-57 WeChatUser *)
record wechat_user =
  wu_Nickname :: string
  wu_HeadImgURL :: string

(* src: utils/wxLoginUtils.go:59-62 GetStuNumResp *)
record stu_num_resp =
  sn_Msg :: string
  sn_Stuid :: string

text \<open>
  The surroundings. An HTTP exchange that gets no answer is \<open>None\<close>; an answer that does not decode is \<open>Inl\<close>.
\<close>

record 'w user_env =
  ue_find_openid :: "string \<Rightarrow> (user list \<times> int, 'w) action"
  ue_find_stunum :: "string \<Rightarrow> (user list \<times> int, 'w) action"
  ue_create :: "user \<Rightarrow> 'w \<Rightarrow> err option \<times> 'w"
  ue_HGetAll :: "string \<Rightarrow> (string \<rightharpoonup> string, 'w) action"
  ue_HMSet :: "string \<Rightarrow> (string \<times> string) list \<Rightarrow> 'w \<Rightarrow> err option \<times> 'w"
  ue_Expire :: "string \<Rightarrow> duration \<Rightarrow> 'w \<Rightarrow> err option \<times> 'w"
  ue_HGet :: "string \<Rightarrow> string \<Rightarrow> (string, 'w) action"
  ue_HSet :: "string \<Rightarrow> string \<Rightarrow> string \<Rightarrow> 'w \<Rightarrow> err option \<times> 'w"
  enc_ecard :: "string \<times> string \<Rightarrow> err + string"
  ue_Get :: "string \<Rightarrow> (string, 'w) action"
  ue_Set :: "string \<Rightarrow> string \<Rightarrow> duration \<Rightarrow> 'w \<Rightarrow> err option \<times> 'w"
  http_login :: "string \<Rightarrow> (wx_login_resp, 'w) action"
  http_info :: "string \<Rightarrow> string \<Rightarrow> 'w \<Rightarrow> (err + wechat_user) option \<times> 'w"
  http_stunum :: "string \<Rightarrow> 'w \<Rightarrow> (err + stu_num_resp) option \<times> 'w"
  GetGsSession :: "string \<Rightarrow> (string, 'w) action"
  GetEmaphome_WEU :: "string \<Rightarrow> 'w \<Rightarrow> (string \<times> err option) \<times> 'w"
  http_ticket :: "(string, 'w) action"
  user_token :: "string \<Rightarrow> string \<Rightarrow> 'w \<Rightarrow> string"
  masses_token :: "string \<Rightarrow> string \<Rightarrow> 'w \<Rightarrow> string"
  signature :: "string \<Rightarrow> int \<Rightarrow> string \<Rightarrow> string \<Rightarrow> string"
  ue_random :: "nat \<Rightarrow> (string, 'w) action"
  ue_now :: "'w \<Rightarrow> gotime"

definition nil_pointer :: err where
  "nil_pointer = ''runtime error: invalid memory address or nil pointer dereference''"

subsection \<open>Messages\<close>

(* src: utils/errors.go:166-166 ErrWXLoginFailed *)
definition ErrWXLoginFailed :: err where
  "ErrWXLoginFailed = App_Error.Error (NewAppError ([], 0) 6001 (
     utf8 [0xE5, 0xBE, 0xAE, 0xE4, 0xBF, 0xA1, 0xE7, 0x99, 0xBB, 0xE5, 0xBD, 0x95, 0xE5, 0xA4,
     0xB1, 0xE8, 0xB4, 0xA5]) None)"

(* src: utils/errors.go:167-167 ErrStuNumNotFound *)
definition ErrStuNumNotFound :: err where
  "ErrStuNumNotFound = App_Error.Error (NewAppError ([], 0) 6002 (
     utf8 [0xE6, 0x89, 0xBE, 0xE4, 0xB8, 0x8D, 0xE5, 0x88, 0xB0, 0xE5, 0xAD, 0xA6, 0xE5, 0x8F,
     0xB7, 0xEF, 0xBC, 0x8C, 0xE8, 0xAF, 0xB7, 0xE7, 0xBB, 0x91, 0xE5, 0xAE, 0x9A, 0xE6,
     0xA1, 0x91, 0xE6, 0xA2, 0x93, 0xE5, 0xBE, 0xAE, 0xE5, 0x8A, 0xA9, 0xE6, 0x89, 0x8B]) None)"

(* src: utils/errors.go:168-168 ErrWXInfoFailed *)
definition ErrWXInfoFailed :: err where
  "ErrWXInfoFailed = App_Error.Error (NewAppError ([], 0) 6003 (
     utf8 [0xE8, 0x8E, 0xB7, 0xE5, 0x8F, 0x96, 0xE5, 0xBE, 0xAE, 0xE4, 0xBF, 0xA1, 0xE7, 0x94,
     0xA8, 0xE6, 0x88, 0xB7, 0xE4, 0xBF, 0xA1, 0xE6, 0x81, 0xAF, 0xE5, 0xA4, 0xB1, 0xE8,
     0xB4, 0xA5]) None)"

definition msg_no_stunum :: err where
  "msg_no_stunum =
     utf8 [0xE6, 0x89, 0xBE, 0xE4, 0xB8, 0x8D, 0xE5, 0x88, 0xB0, 0xE5, 0xAD, 0xA6, 0xE5, 0x8F,
     0xB7, 0xEF, 0xBC, 0x8C, 0xE8, 0xAF, 0xB7, 0xE7, 0xBB, 0x91, 0xE5, 0xAE, 0x9A, 0xE6,
     0xA1, 0x91, 0xE6, 0xA2, 0x93, 0xE5, 0xBE, 0xAE, 0xE5, 0x8A, 0xA9, 0xE6, 0x89, 0x8B,
     0xEF, 0xBC, 0x81]"

definition msg_no_stunum_wx :: err where
  "msg_no_stunum_wx =
     utf8 [0xE6, 0x89, 0xBE, 0xE4, 0xB8, 0x8D, 0xE5, 0x88, 0xB0, 0xE5, 0xAD, 0xA6, 0xE5, 0x8F,
     0xB7, 0xEF, 0xBC, 0x8C, 0xE8, 0xAF, 0xB7, 0xE7, 0xBB, 0x91, 0xE5, 0xAE, 0x9A, 0xE6,
     0xA1, 0x91, 0xE6, 0xA2, 0x93, 0xE5, 0xBE, 0xAE, 0xE5, 0x8A, 0xA9, 0xE6, 0x89, 0x8B,
     0xE3, 0x80, 0x82]"

definition msg_no_avatar :: err where
  "msg_no_avatar =
     utf8 [0xE8, 0x8E, 0xB7, 0xE5, 0x8F, 0x96, 0xE5, 0xA4, 0xB4, 0xE5, 0x83, 0x8F, 0xE6, 0x98,
     0xB5, 0xE7, 0xA7, 0xB0, 0xE9, 0x94, 0x99, 0xE8, 0xAF, 0xAF, 0xEF, 0xBC, 0x81]"

definition op_wx_login :: string where
  "op_wx_login =
     utf8 [0xE5, 0xBE, 0xAE, 0xE4, 0xBF, 0xA1, 0xE7, 0x99, 0xBB, 0xE5, 0xBD, 0x95]"

definition op_find_user :: string where
  "op_find_user =
     utf8 [0xE6, 0x9F, 0xA5, 0xE8, 0xAF, 0xA2, 0xE7, 0x94, 0xA8, 0xE6, 0x88, 0xB7]"

definition op_create_user :: string where
  "op_create_user =
     utf8 [0xE5, 0x88, 0x9B, 0xE5, 0xBB, 0xBA, 0xE7, 0x94, 0xA8, 0xE6, 0x88, 0xB7]"

definition wrap_database :: "err \<Rightarrow> string \<Rightarrow> err" where
  "wrap_database e operation =
     (case WrapDatabaseError ([], 0) (Some (PlainError e)) operation of None \<Rightarrow> [] | Some g \<Rightarrow> App_Error.Error g)"

(* src: utils/errors.go:309-314 WrapExternalAPIError *)
definition WrapExternalAPIError :: "string \<times> int \<Rightarrow> goerror option \<Rightarrow> string \<Rightarrow> goerror option" where
  "WrapExternalAPIError caller e api =
     (case e of None \<Rightarrow> None
      | Some e' \<Rightarrow> WrapError caller e (code_int ErrCodeExternalAPI)
          (utf8 [0xE5, 0xA4, 0x96, 0xE9, 0x83, 0xA8, 0x41, 0x50, 0x49, 0xE8, 0xB0, 0x83, 0xE7, 0x94,
     0xA8, 0xE5, 0xA4, 0xB1, 0xE8, 0xB4, 0xA5] @ '': '' @ api))"

definition wrap_external :: "err \<Rightarrow> string \<Rightarrow> err" where
  "wrap_external e api =
     (case WrapExternalAPIError ([], 0) (Some (PlainError e)) api of None \<Rightarrow> [] | Some g \<Rightarrow> App_Error.Error g)"

subsection \<open>The user table\<close>

(* src: app/user/database/dao/user.go:25-32 UserDao.ExistUserByOpenid *)
definition ExistUserByOpenid :: "'w user_env \<Rightarrow> string \<Rightarrow> (user list \<times> int, 'w) action" where
  "ExistUserByOpenid U openid = ue_find_openid U openid"

(* src: app/user/database/dao/user.go:34-45 UserDao.FindUserByStuNum *)
definition FindUserByStuNum :: "'w user_env \<Rightarrow> string \<Rightarrow> (user list \<times> int, 'w) action" where
  "FindUserByStuNum U stuNum = ue_find_stunum U stuNum"

(* src: app/user/database/dao/user.go:47-50 UserDao.CreateUser *)
definition CreateUser :: "'w user_env \<Rightarrow> user \<Rightarrow> (unit, 'w) action" where
  "CreateUser U user = run_err (ue_create U user)"

subsection \<open>The cache\<close>

(* src: app/user/database/cache/common.go:22-33 RDBCache.GetValue *)
definition GetValue :: "'w user_env \<Rightarrow> string \<Rightarrow> (string, 'w) action" where
  "GetValue U key = ue_Get U key"

(* src: app/user/database/cache/common.go:35-45 RDBCache.SaveValue *)
definition SaveValue :: "'w user_env \<Rightarrow> string \<Rightarrow> string \<Rightarrow> duration \<Rightarrow> 'w \<Rightarrow> 'w" where
  "SaveValue U key val ttl w = snd (ue_Set U key val ttl w)"

(* src: app/user/database/cache/common.go:47-54 RDBCache.SaveGeSession *)
definition SaveGeSession :: "'w user_env \<Rightarrow> string \<Rightarrow> string \<Rightarrow> (unit, 'w) action" where
  "SaveGeSession U openid geSession = run_err (ue_Set U (''hqu'' @ openid) geSession (10 * minute))"

text \<open>The certificate is decoded into a value instead of a pointer, which the JSON library refuses.\<close>

(* src: app/user/database/cache/common.go:56-70 RDBCache.GetECardCertificate *)
definition GetECardCertificate :: "'w user_env \<Rightarrow> string \<Rightarrow> (string \<times> string, 'w) action" where
  "GetECardCertificate U stunum =
     andThen (ue_HGet U ''eCardCertificate'' stunum) (\<lambda>_. fail ''json: Unmarshal(non-pointer types.ECardCertificate)'')"

(* src: app/user/database/cache/common.go:85-97 RDBCache.SaveECardCertificate *)
definition SaveECardCertificate :: "'w user_env \<Rightarrow> string \<times> string \<Rightarrow> string \<Rightarrow> (unit, 'w) action" where
  "SaveECardCertificate U c stunum =
     andThen (lift_err (enc_ecard U c)) (\<lambda>data. run_err (ue_HSet U ''eCardCertificate'' stunum data))"

(* src: app/user/database/cache/common.go:72-83 RDBCache.GetJwcCertificate *)
definition GetJwcCertificate :: "'w user_env \<Rightarrow> string \<Rightarrow> 'w \<Rightarrow> jwc_certificate \<times> 'w" where
  "GetJwcCertificate U stunum w =
     (case ue_HGetAll U (''jwcCertificate:'' @ stunum) w of
        (Inl _, w') \<Rightarrow> (\<lparr> jc_GsSession = [], jc_Emaphome_WEU = [] \<rparr>, w')
      | (Inr maps, w') \<Rightarrow>
          (\<lparr> jc_GsSession = (case maps ''gsSession'' of None \<Rightarrow> [] | Some s \<Rightarrow> s),
             jc_Emaphome_WEU = (case maps ''emaphome_WEU'' of None \<Rightarrow> [] | Some s \<Rightarrow> s) \<rparr>, w'))"

(* src: app/user/database/cache/common.go:99-114 RDBCache.SaveJwcCertificate *)
definition SaveJwcCertificate :: "'w user_env \<Rightarrow> jwc_certificate \<Rightarrow> string \<Rightarrow> (unit, 'w) action" where
  "SaveJwcCertificate U c stunum =
     (let key = ''jwcCertificate:'' @ stunum in
      andThen (run_err (ue_HMSet U key [(''gsSession'', jc_GsSession c), (''emaphome_WEU'', jc_Emaphome_WEU c)])) (\<lambda>_.
        run_err (ue_Expire U key (8 * minute))))"

subsection \<open>WeChat and the school\<close>

(* src: utils/wxLoginUtils.go:72-98 WXLogin *)
definition WXLogin :: "'w user_env \<Rightarrow> string \<Rightarrow> (wx_login_resp, 'w) action" where
  "WXLogin U code =
     andThen (http_login U code) (\<lambda>r.
       if wl_ErrCode r \<noteq> 0 then fail (''ErrCode:'' @ itoa (wl_ErrCode r) @ ''  ErrMsg:'' @ wl_ErrMsg r) else ret r)"

text \<open>The body of the answer is closed before the error of the request is looked at.\<close>

(* src: utils/wxLoginUtils.go:100-109 GetWeChatInfo *)
definition GetWeChatInfo :: "'w user_env \<Rightarrow> string \<Rightarrow> string \<Rightarrow> (wechat_user, 'w) action" where
  "GetWeChatInfo U openid accessToken w =
     (case http_info U openid accessToken w of
        (None, w') \<Rightarrow> (Inl nil_pointer, w')
      | (Some r, w') \<Rightarrow> (r, w'))"

(* src: utils/wxLoginUtils.go:111-129 GetStuNum *)
definition GetStuNum :: "'w user_env \<Rightarrow> string \<Rightarrow> (stu_num_resp, 'w) action" where
  "GetStuNum U openId w =
     (case http_stunum U openId w of
        (None, w') \<Rightarrow> (Inl nil_pointer, w')
      | (Some (Inl e), w') \<Rightarrow> (Inl e, w')
      | (Some (Inr r), w') \<Rightarrow> if sn_Msg r \<noteq> ''success'' then (Inl msg_no_stunum_wx, w') else (Inr r, w'))"

subsection \<open>The goroutines of a login\<close>

datatype fetch_pc = FetchCall | FetchTest | FetchEnd

record 'w fetch_state =
  fs_stu :: fetch_pc
  fs_wx :: fetch_pc
  fs_err :: "err option"
  fs_stResp :: "stu_num_resp option"
  fs_wxInfo :: "wechat_user option"
  fs_crash :: bool
  fs_world :: 'w

definition ok_of :: "err + 'a \<Rightarrow> 'a option" where
  "ok_of r = (case r of Inl _ \<Rightarrow> None | Inr x \<Rightarrow> Some x)"

(* src: app/user/service/routine.go:64-72 UserSrv.UserLogin (first goroutine) *)
definition stu_step :: "'w user_env \<Rightarrow> (err \<Rightarrow> err) \<Rightarrow> string \<Rightarrow> 'w fetch_state \<Rightarrow> 'w fetch_state" where
  "stu_step U report openid st =
     (case fs_stu st of
        FetchCall \<Rightarrow>
          (case GetStuNum U openid (fs_world st) of
             (r, w') \<Rightarrow> st\<lparr> fs_stu := FetchTest, fs_stResp := ok_of r, fs_err := err_of r,
               fs_crash := fs_crash st \<or> r = Inl nil_pointer, fs_world := w' \<rparr>)
      | FetchTest \<Rightarrow> st\<lparr> fs_stu := FetchEnd, fs_err := map_option report (fs_err st) \<rparr>
      | FetchEnd \<Rightarrow> st)"

(* src: app/user/service/routine.go:73-80 UserSrv.UserLogin (second goroutine) *)
definition wx_step :: "'w user_env \<Rightarrow> (err \<Rightarrow> err) \<Rightarrow> string \<Rightarrow> string \<Rightarrow> 'w fetch_state \<Rightarrow> 'w fetch_state" where
  "wx_step U report openid accessToken st =
     (case fs_wx st of
        FetchCall \<Rightarrow>
          (case GetWeChatInfo U openid accessToken (fs_world st) of
             (r, w') \<Rightarrow> st\<lparr> fs_wx := FetchTest, fs_wxInfo := ok_of r, fs_err := err_of r,
               fs_crash := fs_crash st \<or> r = Inl nil_pointer, fs_world := w' \<rparr>)
      | FetchTest \<Rightarrow> st\<lparr> fs_wx := FetchEnd, fs_err := map_option report (fs_err st) \<rparr>
      | FetchEnd \<Rightarrow> st)"

text \<open>
  A panic in a goroutine is not an error value but ends the process: \<open>fs_crash\<close> remembers it. The schedule,
  then each goroutine to its end: two steps each.
\<close>

(* src: app/user/service/routine.go:62-81 UserSrv.UserLogin (goroutines) *)
definition run_fetch ::
  "bool list \<Rightarrow> 'w user_env \<Rightarrow> (err \<Rightarrow> err) \<Rightarrow> (err \<Rightarrow> err) \<Rightarrow> string \<Rightarrow> string \<Rightarrow> 'w \<Rightarrow> 'w fetch_state" where
  "run_fetch sched U stu wx openid accessToken w =
     fold (\<lambda>b. if b then stu_step U stu openid else wx_step U wx openid accessToken)
       (sched @ replicate 2 True @ replicate 2 False)
       \<lparr> fs_stu = FetchCall, fs_wx = FetchCall, fs_err = None, fs_stResp = None,
         fs_wxInfo = Some \<lparr> wu_Nickname = [], wu_HeadImgURL = [] \<rparr>, fs_crash = False, fs_world = w \<rparr>"

subsection \<open>Logins\<close>

(* src: app/user/service/routine.go:41-103 UserSrv.UserLogin *)
definition UserLogin :: "bool list \<Rightarrow> 'w user_env \<Rightarrow> string \<Rightarrow> (string, 'w) handler" where
  "UserLogin sched U code w =
     (case WXLogin U code w of
        (Inl e, w1) \<Rightarrow> ((None, Some (wrap_external e op_wx_login)), w1)
      | (Inr wl, w1) \<Rightarrow>
          if wl_OpenId wl = [] then ((None, Some ErrWXLoginFailed), w1)
          else (case ExistUserByOpenid U (wl_OpenId wl) w1 of
                  (Inl e, w2) \<Rightarrow> ((None, Some (wrap_database e op_find_user)), w2)
                | (Inr (data, cnt), w2) \<Rightarrow>
                    if cnt = 0 then
                      (let st = run_fetch sched U (\<lambda>_. ErrStuNumNotFound) (\<lambda>_. ErrWXInfoFailed) (wl_OpenId wl) (wl_AccessToken wl) w2;
                           w3 = fs_world st
                       in if fs_crash st then ((None, Some nil_pointer), w3)
                          else case fs_err st of
                            Some e \<Rightarrow> ((Some [], Some e), w3)
                          | None \<Rightarrow>
                              (case (fs_stResp st, fs_wxInfo st) of
                                 (Some s, Some x) \<Rightarrow>
                                   (case CreateUser U (new_user (wl_OpenId wl) (sn_Stuid s) (wu_HeadImgURL x) (wu_Nickname x)) w3 of
                                      (Inl e, w4) \<Rightarrow> ((None, Some (wrap_database e op_create_user)), w4)
                                    | (Inr _, w4) \<Rightarrow> ((Some (user_token U (wl_OpenId wl) (sn_Stuid s) w4), None), w4))
                               | _ \<Rightarrow> ((None, Some nil_pointer), w3)))
                    else (case data of
                            [] \<Rightarrow> ((None, Some ''runtime error: index out of range''), w2)
                          | u # _ \<Rightarrow> ((Some (user_token U (wl_OpenId wl) (us_StuNum u) w2), None), w2))))"

text \<open>
  An empty OpenId is answered with an empty token and no error. The error of \<^verbatim>\<open>GetWeChatInfo\<close> is assigned to a
  shadowed variable and the answer dereferenced anyway.
\<close>

(* src: app/user/service/routine.go:105-139 UserSrv.MassesLogin *)
definition MassesLogin :: "'w user_env \<Rightarrow> string \<Rightarrow> (string, 'w) handler" where
  "MassesLogin U code w =
     (case WXLogin U code w of
        (Inl e, w1) \<Rightarrow> ((Some [], Some e), w1)
      | (Inr wl, w1) \<Rightarrow>
          if wl_OpenId wl = [] then ((Some [], None), w1)
          else (case ExistUserByOpenid U (wl_OpenId wl) w1 of
                  (Inl e, w2) \<Rightarrow> ((Some [], Some e), w2)
                | (Inr (data, cnt), w2) \<Rightarrow>
                    if cnt = 0 then
                      (case GetWeChatInfo U (wl_OpenId wl) (wl_AccessToken wl) w2 of
                         (Inl _, w3) \<Rightarrow> ((None, Some nil_pointer), w3)
                       | (Inr x, w3) \<Rightarrow>
                           (case CreateUser U (new_user (wl_OpenId wl) [] (wu_HeadImgURL x) (wu_Nickname x)) w3 of
                              (Inl e, w4) \<Rightarrow> ((Some [], Some e), w4)
                            | (Inr _, w4) \<Rightarrow> ((Some (masses_token U (wl_OpenId wl) (wu_Nickname x) w4), None), w4)))
                    else (case data of
                            [] \<Rightarrow> ((None, Some ''runtime error: index out of range''), w2)
                          | u # _ \<Rightarrow> ((Some (masses_token U (wl_OpenId wl) (us_Nickname u) w2), None), w2))))"

text \<open>The error of \<^verbatim>\<open>GetEmaphome_WEU\<close> is overwritten by that of the save.\<close>

(* src: app/user/service/routine.go:141-172 UserSrv.SchoolUserLogin *)
definition SchoolUserLogin :: "'w user_env \<Rightarrow> string \<Rightarrow> (string, 'w) handler" where
  "SchoolUserLogin U code w =
     (case WXLogin U code w of
        (Inl e, w1) \<Rightarrow> ((Some [], Some e), w1)
      | (Inr wl, w1) \<Rightarrow>
          if wl_OpenId wl = [] then ((Some [], None), w1)
          else (case GetStuNum U (wl_OpenId wl) w1 of
                  (Inl e, w2) \<Rightarrow>
                    if e = nil_pointer then ((None, Some nil_pointer), w2) else ((Some [], Some msg_no_stunum), w2)
                | (Inr st, w2) \<Rightarrow>
                    (case GetJwcCertificate U (sn_Stuid st) w2 of
                       (c, w3) \<Rightarrow>
                         if jc_Emaphome_WEU c = [] then
                           (case GetGsSession U (wl_OpenId wl) w3 of
                              (Inl e, w4) \<Rightarrow> ((Some [], Some e), w4)
                            | (Inr gs, w4) \<Rightarrow>
                                (case GetEmaphome_WEU U gs w4 of
                                   ((weu, _), w5) \<Rightarrow>
                                     (case SaveJwcCertificate U \<lparr> jc_GsSession = gs, jc_Emaphome_WEU = weu \<rparr> (sn_Stuid st) w5 of
                                        (Inl e, w6) \<Rightarrow> ((Some [], Some e), w6)
                                      | (Inr _, w6) \<Rightarrow> ((Some (user_token U (wl_OpenId wl) (sn_Stuid st) w6), None), w6))))
                         else ((Some (user_token U (wl_OpenId wl) (sn_Stuid st) w3), None), w3))))"

(* src: app/user/service/routine.go:174-207 UserSrv.WxJSSDK *)
definition WxJSSDK :: "'w user_env \<Rightarrow> string \<Rightarrow> (string \<times> int \<times> string, 'w) handler" where
  "WxJSSDK U url =
     orReturn (onError (GetValue U ''jsapi'') (\<lambda>_. andThen (http_ticket U) (\<lambda>t w. (Inr t, SaveValue U ''jsapi'' t hour w))))
       (Some ([], 0, [])) (\<lambda>ticket.
     orReturn (ue_random U 16) (Some ([], 0, [])) (\<lambda>nonce w.
       let ts = go_unix (ue_now U w) in ((Some (signature U ticket ts nonce url, ts, nonce), None), w)))"

text \<open>\<^verbatim>\<open>YearBillLogin\<close> does not look at the error after the goroutines.\<close>

record bill_login =
  bl_Token :: string
  bl_NickName :: string
  bl_Avatar :: string

(* src: app/user/service/activity.go:12-45 UserSrv.YearBillLogin *)
definition YearBillLogin :: "bool list \<Rightarrow> 'w user_env \<Rightarrow> string \<Rightarrow> (bill_login, 'w) handler" where
  "YearBillLogin sched U code w =
     (let none = Some \<lparr> bl_Token = [], bl_NickName = [], bl_Avatar = [] \<rparr> in
      case WXLogin U code w of
        (Inl e, w1) \<Rightarrow> ((none, Some e), w1)
      | (Inr wl, w1) \<Rightarrow>
          if wl_OpenId wl = [] then ((none, None), w1)
          else (let st = run_fetch sched U (\<lambda>_. msg_no_stunum) (\<lambda>e. e @ '' '' @ msg_no_avatar) (wl_OpenId wl) (wl_AccessToken wl) w1
                in if fs_crash st then ((None, Some nil_pointer), fs_world st)
                   else case (fs_stResp st, fs_wxInfo st) of
                     (Some s, Some x) \<Rightarrow>
                       ((Some \<lparr> bl_Token = user_token U (wl_OpenId wl) (sn_Stuid s) (fs_world st),
                           bl_NickName = wu_Nickname x, bl_Avatar = wu_HeadImgURL x \<rparr>, fs_err st), fs_world st)
                   | _ \<Rightarrow> ((None, Some nil_pointer), fs_world st)))"

section \<open>Properties\<close>

text \<open>
  What the user table promises: a query answers the rows with the given OpenId, or fails; an
  insertion appends the row, or fails and changes nothing. The other services leave the table alone.
\<close>

definition users_ok :: "'w user_env \<Rightarrow> ('w \<Rightarrow> user list) \<Rightarrow> bool" where
  "users_ok U users \<longleftrightarrow>
     (\<forall>i. reads users users (ue_find_openid U i)
        (\<lambda>t (us, n). us = filter (\<lambda>u. us_OpenId u = i) t \<and> n = int (length us)))
   \<and> (\<forall>u w. users (snd (ue_create U u w)) = (case fst (ue_create U u w) of None \<Rightarrow> users w @ [u] | Some e \<Rightarrow> users w))
   \<and> (\<forall>c. unchanged users (http_login U c)) \<and> (\<forall>i t. unchanged users (http_info U i t))
   \<and> (\<forall>i. unchanged users (http_stunum U i)) \<and> (\<forall>k. unchanged users (ue_HGetAll U k))
   \<and> (\<forall>k m. unchanged users (ue_HMSet U k m)) \<and> (\<forall>k d. unchanged users (ue_Expire U k d))
   \<and> (\<forall>i. unchanged users (GetGsSession U i)) \<and> (\<forall>s. unchanged users (GetEmaphome_WEU U s))"

lemma users_okD:
  assumes "users_ok U users"
  shows "reads users users (ExistUserByOpenid U i) (\<lambda>t (us, n). us = filter (\<lambda>u. us_OpenId u = i) t \<and> n = int (length us))"
    and "users (snd (ue_create U u w)) = (case fst (ue_create U u w) of None \<Rightarrow> users w @ [u] | Some e \<Rightarrow> users w)"
    and "unchanged users (http_login U c)" and "unchanged users (http_info U i t)" and "unchanged users (http_stunum U i)"
    and "unchanged users (ue_HGetAll U k)" and "unchanged users (ue_HMSet U k m)" and "unchanged users (ue_Expire U k d)"
    and "unchanged users (GetGsSession U i)" and "unchanged users (GetEmaphome_WEU U s)"
  using assms by (simp_all only: users_ok_def ExistUserByOpenid_def simp_thms)

lemma silent_wechat:
  assumes "users_ok U users"
  shows "unchanged users (WXLogin U c)" "unchanged users (GetWeChatInfo U i t)" "unchanged users (GetStuNum U i)"
proof -
  show "unchanged users (WXLogin U c)"
    unfolding WXLogin_def by (intro action_rules users_okD(3) [OF assms])
  show "unchanged users (GetWeChatInfo U i t)"
    using users_okD(4) [OF assms, of i t]
    by (auto simp: unchanged_def GetWeChatInfo_def split: prod.split option.split) (metis snd_conv)+
  show "unchanged users (GetStuNum U i)"
    using users_okD(5) [OF assms, of i]
    by (auto simp: unchanged_def GetStuNum_def split: prod.split option.split sum.split) (metis snd_conv)+
qed

lemma create_user:
  assumes "users_ok U users" and "CreateUser U u w = (r, w')"
  shows "users w' = (case r of Inl e \<Rightarrow> users w | Inr _ \<Rightarrow> users w @ [u])"
proof -
  obtain e v where c: "ue_create U u w = (e, v)" by fastforce
  show ?thesis using users_okD(2) [OF assms(1), of u w] assms(2) c
    by (cases e) (auto simp: CreateUser_def run_err_def)
qed

lemma found_none:
  assumes "users_ok U users" and "ExistUserByOpenid U i w = (Inr (data, 0), w')"
  shows "filter (\<lambda>u. us_OpenId u = i) (users w) = []"
proof -
  have d: "data = filter (\<lambda>u. us_OpenId u = i) (users w) \<and> 0 = int (length data)"
    using readsD(2) [OF users_okD(1) [OF assms(1)] assms(2)] unfolding prod.case .
  from d [THEN conjunct2] have "data = []" by simp
  with d [THEN conjunct1] show ?thesis by (rule subst)
qed

subsection \<open>The goroutines\<close>

lemma fetch_ends [simp]:
  "fs_stu st = FetchEnd \<Longrightarrow> (stu_step U p i ^^ n) st = st"
  "fs_wx st = FetchEnd \<Longrightarrow> (wx_step U q i t ^^ n) st = st"
  by (induction n) (simp_all add: stu_step_def wx_step_def)

lemma fetch_steps_silent:
  assumes "users_ok U users"
  shows "users (fs_world (stu_step U rep i st)) = users (fs_world st)"
    "users (fs_world (wx_step U rep i t st)) = users (fs_world st)"
proof -
  obtain r w' where s: "GetStuNum U i (fs_world st) = (r, w')" by fastforce
  show "users (fs_world (stu_step U rep i st)) = users (fs_world st)"
    using s unchangedD [OF silent_wechat(3) [OF assms] s] by (simp add: stu_step_def split: fetch_pc.split)
  obtain r' w'' where x: "GetWeChatInfo U i t (fs_world st) = (r', w'')" by fastforce
  show "users (fs_world (wx_step U rep i t st)) = users (fs_world st)"
    using x unchangedD [OF silent_wechat(2) [OF assms] x] by (simp add: wx_step_def split: fetch_pc.split)
qed

lemma fetch_fold:
  assumes "\<And>b st. J st \<Longrightarrow> J (if b then stu_step U p i st else wx_step U q i t st)"
    and "J \<lparr> fs_stu = FetchCall, fs_wx = FetchCall, fs_err = None, fs_stResp = None,
         fs_wxInfo = Some \<lparr> wu_Nickname = [], wu_HeadImgURL = [] \<rparr>, fs_crash = False, fs_world = w \<rparr>"
  shows "J (run_fetch sched U p q i t w)"
proof -
  have "J (fold (\<lambda>b. if b then stu_step U p i else wx_step U q i t) bs st)" if "J st" for bs st
    using that
  proof (induction bs arbitrary: st)
    case (Cons b bs)
    have "J ((if b then stu_step U p i else wx_step U q i t) st)" using assms(1) [OF Cons.prems, of b] by (cases b) simp_all
    then show ?case using Cons.IH by simp
  qed simp
  then show ?thesis unfolding run_fetch_def using assms(2) by blast
qed

lemma run_fetch_silent: "users_ok U users \<Longrightarrow> users (fs_world (run_fetch sched U p q i t w)) = users w"
  by (rule fetch_fold) (simp_all add: fetch_steps_silent)

text \<open>When both services answer, every schedule ends with both answers and no error.\<close>

definition fetched :: "stu_num_resp \<Rightarrow> wechat_user \<Rightarrow> 'w fetch_state \<Rightarrow> bool" where
  "fetched s x st \<longleftrightarrow> fs_err st = None \<and> \<not> fs_crash st \<and> (fs_stu st \<noteq> FetchCall \<longrightarrow> fs_stResp st = Some s)
     \<and> (fs_wx st \<noteq> FetchCall \<longrightarrow> fs_wxInfo st = Some x)"

lemma fetch_progress:
  assumes step: "step = (\<lambda>b. if b then stu_step U p i else wx_step U q i t)"
  shows "True \<in> set bs \<or> fs_stu st \<noteq> FetchCall \<Longrightarrow> fs_stu (fold step bs st) \<noteq> FetchCall"
    and "False \<in> set bs \<or> fs_wx st \<noteq> FetchCall \<Longrightarrow> fs_wx (fold step bs st) \<noteq> FetchCall"
proof (induction bs arbitrary: st)
  case (Cons b bs)
  have u: "fs_stu (stu_step U p i st) \<noteq> FetchCall" "fs_wx (wx_step U q i t st) \<noteq> FetchCall"
    "fs_wx (stu_step U p i st) = fs_wx st" "fs_stu (wx_step U q i t st) = fs_stu st" for st
    by (auto simp: stu_step_def wx_step_def split: fetch_pc.split prod.split)
  { case 1
    then have "True \<in> set bs \<or> fs_stu (step b st) \<noteq> FetchCall" using u by (cases b) (simp_all add: step)
    from Cons.IH(1) [OF this] show ?case by simp }
  { case 2
    then have "False \<in> set bs \<or> fs_wx (step b st) \<noteq> FetchCall" using u by (cases b) (simp_all add: step)
    from Cons.IH(2) [OF this] show ?case by simp }
qed auto

lemma run_fetch_answers:
  assumes "\<And>w. \<exists>w'. GetStuNum U i w = (Inr s, w')" and "\<And>w. \<exists>w'. GetWeChatInfo U i t w = (Inr x, w')"
  shows "fs_err (run_fetch sched U p q i t w) = None \<and> \<not> fs_crash (run_fetch sched U p q i t w)
     \<and> fs_stResp (run_fetch sched U p q i t w) = Some s \<and> fs_wxInfo (run_fetch sched U p q i t w) = Some x"
proof -
  have steps: "fetched s x (if b then stu_step U p i st else wx_step U q i t st)" if "fetched s x st" for b st
  proof -
    obtain w' where s: "GetStuNum U i (fs_world st) = (Inr s, w')" using assms(1) by blast
    obtain w'' where x: "GetWeChatInfo U i t (fs_world st) = (Inr x, w'')" using assms(2) by blast
    show ?thesis using that s x
      by (auto simp: fetched_def stu_step_def wx_step_def err_of_def ok_of_def split: fetch_pc.split)
  qed
  have f: "fetched s x (run_fetch sched U p q i t w)"
    by (rule fetch_fold) (simp_all add: steps, simp add: fetched_def)
  have "fs_stu (run_fetch sched U p q i t w) \<noteq> FetchCall" "fs_wx (run_fetch sched U p q i t w) \<noteq> FetchCall"
    unfolding run_fetch_def by (rule fetch_progress [OF refl]; simp)+
  with f show ?thesis by (simp add: fetched_def)
qed

subsection \<open>The user table\<close>

text \<open>The logins, one request each.\<close>

datatype login_request =
    LoginUser "bool list" string
  | LoginMasses string
  | LoginSchool string
  | LoginBill "bool list" string

fun serve_login :: "'w user_env \<Rightarrow> login_request \<Rightarrow> 'w \<Rightarrow> 'w" where
  "serve_login U (LoginUser sched code) w = snd (UserLogin sched U code w)"
| "serve_login U (LoginMasses code) w = snd (MassesLogin U code w)"
| "serve_login U (LoginSchool code) w = snd (SchoolUserLogin U code w)"
| "serve_login U (LoginBill sched code) w = snd (YearBillLogin sched U code w)"

definition unique_ids :: "user list \<Rightarrow> bool" where
  "unique_ids us \<longleftrightarrow> distinct (map us_OpenId us)"

lemma unique_append:
  "unique_ids us \<Longrightarrow> filter (\<lambda>u. us_OpenId u = us_OpenId v) us = [] \<Longrightarrow> unique_ids (us @ [v])"
  by (auto simp: unique_ids_def filter_empty_conv)

text \<open>A user is created only for an OpenId that the preceding query did not find.\<close>

lemma user_login_table:
  assumes ok: "users_ok U users" and run: "UserLogin sched U code w = (r, w')"
  shows "users w' = users w
       \<or> (\<exists>u. users w' = users w @ [u] \<and> filter (\<lambda>v. us_OpenId v = us_OpenId u) (users w) = [])"
proof -
  obtain l w1 where l: "WXLogin U code w = (l, w1)" by fastforce
  have w1: "users w1 = users w" by (rule unchangedD [OF silent_wechat(1) [OF ok] l])
  show ?thesis
  proof (cases l)
    case (Inl e)
    then show ?thesis using run l w1 by (auto simp: UserLogin_def)
  next
    case (Inr wl)
    obtain q w2 where q: "ExistUserByOpenid U (wl_OpenId wl) w1 = (q, w2)" by fastforce
    have w2: "users w2 = users w" using readsD(1) [OF users_okD(1) [OF ok] q] w1 by simp
    define st where "st = run_fetch sched U (\<lambda>_. ErrStuNumNotFound) (\<lambda>_. ErrWXInfoFailed) (wl_OpenId wl) (wl_AccessToken wl) w2"
    have w3: "users (fs_world st) = users w" unfolding st_def by (simp add: run_fetch_silent [OF ok] w2)
    show ?thesis
    proof (cases "\<exists>data s x. q = Inr (data, 0) \<and> wl_OpenId wl \<noteq> [] \<and> fs_err st = None \<and> \<not> fs_crash st
        \<and> fs_stResp st = Some s \<and> fs_wxInfo st = Some x")
      case True
      then obtain data s x where c: "q = Inr (data, 0)" "wl_OpenId wl \<noteq> []" "fs_err st = None" "\<not> fs_crash st"
        "fs_stResp st = Some s" "fs_wxInfo st = Some x" by blast
      let ?u = "new_user (wl_OpenId wl) (sn_Stuid s) (wu_HeadImgURL x) (wu_Nickname x)"
      obtain cr w4 where cr: "CreateUser U ?u (fs_world st) = (cr, w4)" by fastforce
      have "w' = w4" using run l Inr q c cr by (cases cr) (simp_all add: UserLogin_def Let_def st_def)
      moreover have "users w4 = (case cr of Inl e \<Rightarrow> users w | Inr _ \<Rightarrow> users w @ [?u])"
        using create_user [OF ok cr] unfolding w3 .
      moreover have "filter (\<lambda>v. us_OpenId v = us_OpenId ?u) (users w) = []"
        using found_none [OF ok q [unfolded c(1)]] w1 by (simp add: new_user_def)
      ultimately show ?thesis by (cases cr) auto
    next
      case False
      then have "w' = w1 \<or> w' = w2 \<or> w' = fs_world st"
        using run l Inr q
        by (auto simp: UserLogin_def Let_def st_def split: if_splits sum.splits prod.splits option.splits list.splits)
      then show ?thesis using w1 w2 w3 by auto
    qed
  qed
qed

lemma masses_login_table:
  assumes ok: "users_ok U users" and run: "MassesLogin U code w = (r, w')"
  shows "users w' = users w
       \<or> (\<exists>u. users w' = users w @ [u] \<and> filter (\<lambda>v. us_OpenId v = us_OpenId u) (users w) = [])"
proof -
  obtain l w1 where l: "WXLogin U code w = (l, w1)" by fastforce
  have w1: "users w1 = users w" by (rule unchangedD [OF silent_wechat(1) [OF ok] l])
  show ?thesis
  proof (cases l)
    case (Inl e)
    then show ?thesis using run l w1 by (auto simp: MassesLogin_def)
  next
    case (Inr wl)
    obtain q w2 where q: "ExistUserByOpenid U (wl_OpenId wl) w1 = (q, w2)" by fastforce
    have w2: "users w2 = users w" using readsD(1) [OF users_okD(1) [OF ok] q] w1 by simp
    obtain g w3 where g: "GetWeChatInfo U (wl_OpenId wl) (wl_AccessToken wl) w2 = (g, w3)" by fastforce
    have w3: "users w3 = users w" using unchangedD [OF silent_wechat(2) [OF ok] g] w2 by simp
    show ?thesis
    proof (cases "\<exists>data x. q = Inr (data, 0) \<and> wl_OpenId wl \<noteq> [] \<and> g = Inr x")
      case True
      then obtain data x where c: "q = Inr (data, 0)" "wl_OpenId wl \<noteq> []" "g = Inr x" by blast
      let ?u = "new_user (wl_OpenId wl) [] (wu_HeadImgURL x) (wu_Nickname x)"
      obtain cr w4 where cr: "CreateUser U ?u w3 = (cr, w4)" by fastforce
      have "w' = w4" using run l Inr q c g cr by (cases cr) (simp_all add: MassesLogin_def)
      moreover have "users w4 = (case cr of Inl e \<Rightarrow> users w | Inr _ \<Rightarrow> users w @ [?u])"
        using create_user [OF ok cr] unfolding w3 .
      moreover have "filter (\<lambda>v. us_OpenId v = us_OpenId ?u) (users w) = []"
        using found_none [OF ok q [unfolded c(1)]] w1 by (simp add: new_user_def)
      ultimately show ?thesis by (cases cr) auto
    next
      case False
      then have "w' = w1 \<or> w' = w2 \<or> w' = w3"
        using run l Inr q g by (auto simp: MassesLogin_def split: if_splits sum.splits prod.splits list.splits)
      then show ?thesis using w1 w2 w3 by auto
    qed
  qed
qed

lemma silent_certificate:
  assumes "users_ok U users"
  shows "unchanged users (GetJwcCertificate U s)" "unchanged users (SaveJwcCertificate U c s)"
proof -
  show "unchanged users (GetJwcCertificate U s)"
    using users_okD(6) [OF assms, of "''jwcCertificate:'' @ s"]
    by (auto simp: unchanged_def GetJwcCertificate_def split: prod.split sum.split) (metis snd_conv)+
  show "unchanged users (SaveJwcCertificate U c s)"
    unfolding SaveJwcCertificate_def Let_def by (intro action_rules users_okD(7,8) [OF assms])
qed

lemma school_login_table:
  assumes ok: "users_ok U users" and run: "SchoolUserLogin U code w = (r, w')"
  shows "users w' = users w"
proof -
  obtain l w1 where l: "WXLogin U code w = (l, w1)" by fastforce
  have w1: "users w1 = users w" by (rule unchangedD [OF silent_wechat(1) [OF ok] l])
  show ?thesis
  proof (cases l)
    case (Inl e)
    then show ?thesis using run l w1 by (auto simp: SchoolUserLogin_def)
  next
    case (Inr wl)
    obtain q w2 where q: "GetStuNum U (wl_OpenId wl) w1 = (q, w2)" by fastforce
    have w2: "users w2 = users w" using unchangedD [OF silent_wechat(3) [OF ok] q] w1 by simp
    show ?thesis
    proof (cases q)
      case I: (Inl e)
      then show ?thesis using run l Inr q w1 w2 by (auto simp: SchoolUserLogin_def split: if_splits)
    next
      case I: (Inr st)
      obtain c w3 where c: "GetJwcCertificate U (sn_Stuid st) w2 = (c, w3)" by fastforce
      have w3: "users w3 = users w" using unchangedD [OF silent_certificate(1) [OF ok] c] w2 by simp
      obtain gs w4 where gs: "GetGsSession U (wl_OpenId wl) w3 = (gs, w4)" by fastforce
      have w4: "users w4 = users w" using unchangedD [OF users_okD(9) [OF ok] gs] w3 by simp
      obtain weu e w5 where e: "GetEmaphome_WEU U (case gs of Inr g \<Rightarrow> g | Inl _ \<Rightarrow> []) w4 = ((weu, e), w5)" by (metis surj_pair)
      have w5: "users w5 = users w" using unchangedD [OF users_okD(10) [OF ok] e] w4 by simp
      obtain s w6 where s: "SaveJwcCertificate U \<lparr> jc_GsSession = (case gs of Inr g \<Rightarrow> g | Inl _ \<Rightarrow> []), jc_Emaphome_WEU = weu \<rparr>
          (sn_Stuid st) w5 = (s, w6)" by fastforce
      have w6: "users w6 = users w" using unchangedD [OF silent_certificate(2) [OF ok] s] w5 by simp
      have "w' = w1 \<or> w' = w3 \<or> w' = w4 \<or> w' = w6"
        using run l Inr q I c gs e s
        by (cases gs; cases s) (auto simp: SchoolUserLogin_def split: if_splits)
      then show ?thesis using w1 w3 w4 w6 by auto
    qed
  qed
qed

lemma bill_login_table:
  assumes ok: "users_ok U users" and run: "YearBillLogin sched U code w = (r, w')"
  shows "users w' = users w"
proof -
  obtain l w1 where l: "WXLogin U code w = (l, w1)" by fastforce
  have w1: "users w1 = users w" by (rule unchangedD [OF silent_wechat(1) [OF ok] l])
  show ?thesis
  proof (cases l)
    case (Inl e)
    then show ?thesis using run l w1 by (auto simp: YearBillLogin_def)
  next
    case (Inr wl)
    define st where "st = run_fetch sched U (\<lambda>_. msg_no_stunum) (\<lambda>e. e @ '' '' @ msg_no_avatar) (wl_OpenId wl) (wl_AccessToken wl) w1"
    have "users (fs_world st) = users w" unfolding st_def by (simp add: run_fetch_silent [OF ok] w1)
    moreover have "w' = w1 \<or> w' = fs_world st"
      using run l Inr by (auto simp: YearBillLogin_def Let_def st_def split: if_splits option.splits)
    ultimately show ?thesis using w1 by auto
  qed
qed

lemma serve_login_unique:
  assumes "users_ok U users" and "unique_ids (users w)"
  shows "unique_ids (users (serve_login U req w))"
proof (cases req)
  case (LoginUser sched code)
  obtain r w' where run: "UserLogin sched U code w = (r, w')" by fastforce
  from user_login_table [OF assms(1) run] assms(2) show ?thesis using LoginUser run by (auto intro: unique_append)
next
  case (LoginMasses code)
  obtain r w' where run: "MassesLogin U code w = (r, w')" by fastforce
  from masses_login_table [OF assms(1) run] assms(2) show ?thesis using LoginMasses run by (auto intro: unique_append)
next
  case (LoginSchool code)
  obtain r w' where run: "SchoolUserLogin U code w = (r, w')" by fastforce
  from school_login_table [OF assms(1) run] assms(2) show ?thesis using LoginSchool run by simp
next
  case (LoginBill sched code)
  obtain r w' where run: "YearBillLogin sched U code w = (r, w')" by fastforce
  from bill_login_table [OF assms(1) run] assms(2) show ?thesis using LoginBill run by simp
qed

section \<open>Theorems\<close>

text \<open>
  C7. Over any sequence of logins of all four kinds, whatever fails and however the goroutines of a
  login interleave, the user table never holds two users with the same OpenId.
\<close>

theorem logins_keep_ids_unique:
  assumes "users_ok U users" and "unique_ids (users w)"
  shows "unique_ids (users (fold (serve_login U) reqs w))"
  using assms(2) by (induction reqs arbitrary: w) (simp_all add: serve_login_unique [OF assms(1)])


text \<open>
  The goroutines of a login share \<open>err\<close>: when the school does not know the user but the request to
  WeChat ends last and succeeds, the failure is forgotten and the missing student number is
  dereferenced, which ends the process; in the other order the login is refused.
\<close>

theorem login_race_crashes:
  assumes "WXLogin U code w = (Inr wl, w1)" and "wl_OpenId wl \<noteq> []"
    and "ExistUserByOpenid U (wl_OpenId wl) w1 = (Inr (data, 0), w2)"
    and "\<And>v. \<exists>v'. GetStuNum U (wl_OpenId wl) v = (Inl msg_no_stunum_wx, v')"
    and "\<And>v. \<exists>v'. GetWeChatInfo U (wl_OpenId wl) (wl_AccessToken wl) v = (Inr x, v')"
  shows "fst (UserLogin [True, True, False, False] U code w) = (None, Some nil_pointer)
       \<and> fst (UserLogin [False, False, True, True] U code w) = (Some [], Some ErrStuNumNotFound)"
proof -
  have ne: "msg_no_stunum_wx \<noteq> nil_pointer" by code_simp
  obtain v1 where s1: "GetStuNum U (wl_OpenId wl) w2 = (Inl msg_no_stunum_wx, v1)" using assms(4) by blast
  obtain v2 where x1: "GetWeChatInfo U (wl_OpenId wl) (wl_AccessToken wl) v1 = (Inr x, v2)" using assms(5) by blast
  obtain v3 where x2: "GetWeChatInfo U (wl_OpenId wl) (wl_AccessToken wl) w2 = (Inr x, v3)" using assms(5) by blast
  obtain v4 where s2: "GetStuNum U (wl_OpenId wl) v3 = (Inl msg_no_stunum_wx, v4)" using assms(4) by blast
  let ?f = "\<lambda>sched. run_fetch sched U (\<lambda>_. ErrStuNumNotFound) (\<lambda>_. ErrWXInfoFailed) (wl_OpenId wl) (wl_AccessToken wl) w2"
  have "fs_err (?f [True, True, False, False]) = None \<and> \<not> fs_crash (?f [True, True, False, False])
      \<and> fs_stResp (?f [True, True, False, False]) = None"
    by (simp add: run_fetch_def stu_step_def wx_step_def err_of_def ok_of_def s1 x1 ne)
  moreover have "fs_err (?f [False, False, True, True]) = Some ErrStuNumNotFound \<and> \<not> fs_crash (?f [False, False, True, True])"
    by (simp add: run_fetch_def stu_step_def wx_step_def err_of_def ok_of_def s2 x2 ne)
  ultimately show ?thesis
    using assms(1-3) by (simp add: UserLogin_def Let_def)
qed

subsection \<open>Users in memory\<close>

text \<open>A table in a list; WeChat takes the code for the OpenId; the argument says whether the school knows the user.\<close>

definition mem_users :: "bool \<Rightarrow> (user list) user_env" where
  "mem_users known = \<lparr>
     ue_find_openid = (\<lambda>i w. let us = filter (\<lambda>u. us_OpenId u = i) w in (Inr (us, int (length us)), w)),
     ue_find_stunum = (\<lambda>n w. let us = filter (\<lambda>u. us_StuNum u = n) w in (Inr (us, int (length us)), w)),
     ue_create = (\<lambda>u w. (None, w @ [u])),
     ue_HGetAll = (\<lambda>k w. (Inr Map.empty, w)), ue_HMSet = (\<lambda>k m w. (None, w)), ue_Expire = (\<lambda>k d w. (None, w)),
     ue_HGet = (\<lambda>k f w. (Inl redis_Nil, w)), ue_HSet = (\<lambda>k f v w. (None, w)), enc_ecard = (\<lambda>c. Inr (fst c)),
     ue_Get = (\<lambda>k w. (Inl redis_Nil, w)), ue_Set = (\<lambda>k v d w. (None, w)),
     http_login = (\<lambda>c w. (Inr \<lparr> wl_OpenId = c, wl_AccessToken = ''t'', wl_ErrCode = 0, wl_ErrMsg = [] \<rparr>, w)),
     http_info = (\<lambda>i t w. (Some (Inr \<lparr> wu_Nickname = ''ann'', wu_HeadImgURL = ''a.png'' \<rparr>), w)),
     http_stunum = (\<lambda>i w. (Some (Inr \<lparr> sn_Msg = (if known then ''success'' else ''unknown''), sn_Stuid = ''2125'' \<rparr>), w)),
     GetGsSession = (\<lambda>i w. (Inr ''gs'', w)), GetEmaphome_WEU = (\<lambda>s w. ((''weu'', None), w)), http_ticket = (\<lambda>w. (Inr ''ticket'', w)),
     user_token = (\<lambda>i s w. i @ s), masses_token = (\<lambda>i n w. i @ n), signature = (\<lambda>t n s u. t), ue_random = (\<lambda>n w. (Inr [], w)),
     ue_now = (\<lambda>w. 7) \<rparr>"

lemma mem_users_ok: "users_ok (mem_users b) (\<lambda>w. w)"
  by (simp add: users_ok_def mem_users_def reads_def unchanged_def Let_def)

lemma mem_login: "WXLogin (mem_users b) ''o1'' w
    = (Inr \<lparr> wl_OpenId = ''o1'', wl_AccessToken = ''t'', wl_ErrCode = 0, wl_ErrMsg = [] \<rparr>, w)"
  by (simp add: WXLogin_def andThen_def mem_users_def)

theorem logins_keep_ids_unique_witness:
  "unique_ids (fold (serve_login (mem_users True))
     [LoginUser [] ''o1'', LoginMasses ''o1'', LoginUser [False, True] ''o2'', LoginSchool ''o1'', LoginBill [] ''o2''] [])"
  by (rule logins_keep_ids_unique [OF mem_users_ok]) (simp add: unique_ids_def)


theorem login_race_crashes_witness:
  "fst (UserLogin [True, True, False, False] (mem_users False) ''o1'' []) = (None, Some nil_pointer)
 \<and> fst (UserLogin [False, False, True, True] (mem_users False) ''o1'' []) = (Some [], Some ErrStuNumNotFound)"
proof -
  have q: "ExistUserByOpenid (mem_users False) (wl_OpenId \<lparr> wl_OpenId = ''o1'', wl_AccessToken = ''t'', wl_ErrCode = 0, wl_ErrMsg = [] \<rparr>) []
      = (Inr ([], 0), [])"
    by (simp add: ExistUserByOpenid_def mem_users_def)
  show ?thesis
    using login_race_crashes [OF mem_login _ q, of "\<lparr> wu_Nickname = ''ann'', wu_HeadImgURL = ''a.png'' \<rparr>"]
    by (simp add: GetStuNum_def GetWeChatInfo_def mem_users_def)
qed

end
