(* ===== verification/User_Tcc.thy ===== *)
theory User_Tcc
  imports User_Service Tcc_Staging
begin

text \<open>
  The TCC components of the user service (\<^verbatim>\<open>src/app/user/service/tcc_components.go\<close>) and the logins that run
  them as transactions (\<^verbatim>\<open>tcc_integration.go\<close>). They are instances of the contract in \<^verbatim>\<open>Tcc_Staging\<close>: what
  \<^verbatim>\<open>Try\<close> stages is never found by \<^verbatim>\<open>Confirm\<close>.
\<close>

section \<open>Model\<close>

text \<open>The surroundings of the service, the Redis client for staging and the rendering of times.\<close>

record 'w user_tcc_env =
  ut_env :: "'w user_env"
  ut_client :: "'w staging_client"
  ut_fmt :: "gotime \<Rightarrow> string"

text \<open>The error of a student number request; a nil dereference ends the process and stays what it is.\<close>

definition stunum_or_refuse :: "'w user_env \<Rightarrow> string \<Rightarrow> (stu_num_resp, 'w) action" where
  "stunum_or_refuse U openId =
     onError (GetStuNum U openId) (\<lambda>e. fail (if e = nil_pointer then nil_pointer else msg_no_stunum))"

definition wechat_or_refuse :: "'w user_env \<Rightarrow> string \<Rightarrow> string \<Rightarrow> (wechat_user, 'w) action" where
  "wechat_or_refuse U openId accessToken =
     onError (GetWeChatInfo U openId accessToken)
       (\<lambda>e. fail (if e = nil_pointer then nil_pointer else e @ '' '' @ msg_no_avatar))"

definition index_panic :: err where
  "index_panic = ''runtime error: index out of range''"

subsection \<open>Logins of students\<close>

(* src: app/user/service/tcc_components.go:38-105 UserLoginTCCComponent.Try *)
definition login_Try :: "'w user_tcc_env \<Rightarrow> govalue tcc_req \<Rightarrow> (tcc_resp, 'w) action" where
  "login_Try T req =
     (let U = ut_env T in
      andThen (value_of (as_string (rq_Data req ''code''))) (\<lambda>code.
      andThen (value_of (as_string (rq_Data req ''open_id''))) (\<lambda>openId w.
        let key = ''tcc_user_login:'' @ rq_TXID req @ '':'' @ openId in
        case already_tried (ut_client T) key w of
          (True, w') \<Rightarrow> (Inr acked, w')
        | (False, w') \<Rightarrow>
            andThen (ExistUserByOpenid U openId) (\<lambda>(data, cnt).
              if cnt = 0 then
                andThen (stunum_or_refuse U openId) (\<lambda>stResp.
                andThen (WXLogin U code) (\<lambda>wl.
                andThen (wechat_or_refuse U openId (wl_AccessToken wl)) (\<lambda>info.
                  stage (ut_client T) key
                    [(''open_id'', GoString openId), (''stu_num'', GoString (sn_Stuid stResp)),
                     (''avatar'', GoString (wu_HeadImgURL info)), (''nickname'', GoString (wu_Nickname info)),
                     (''is_admin'', GoInt 0), (''created'', GoBool True)])))
              else (case data of
                      [] \<Rightarrow> fail index_panic
                    | u # _ \<Rightarrow>
                        stage (ut_client T) key
                          [(''open_id'', GoString openId), (''stu_num'', GoString (us_StuNum u)),
                           (''avatar'', GoString (us_Avatar u)), (''nickname'', GoString (us_Nickname u)),
                           (''is_admin'', GoInt (us_IsAdmin u)), (''created'', GoBool False)])) w')))"

(* src: app/user/service/tcc_components.go:107-141 UserLoginTCCComponent.Confirm *)
definition login_Confirm :: "'w user_tcc_env \<Rightarrow> string \<Rightarrow> (tcc_resp, 'w) action" where
  "login_Confirm T txID =
     (let key = ''tcc_user_login:'' @ txID in
      andThen (load_staged (ut_client T) (ut_fmt T) key) (\<lambda>tempData.
      andThen (value_of (as_bool (tempData ''created''))) (\<lambda>created.
      andThen (if created then
                 andThen (value_of (as_string (tempData ''open_id''))) (\<lambda>openId.
                 andThen (value_of (as_string (tempData ''stu_num''))) (\<lambda>stuNum.
                 andThen (value_of (as_float (tempData ''is_admin''))) (\<lambda>isAdmin.
                 andThen (value_of (as_string (tempData ''avatar''))) (\<lambda>avatar.
                 andThen (value_of (as_string (tempData ''nickname''))) (\<lambda>nickname.
                   CreateUser (ut_env T) ((new_user openId stuNum avatar nickname)\<lparr> us_IsAdmin := isAdmin \<rparr>))))))
               else ret ()) (\<lambda>_.
        unstage (ut_client T) key))))"

text \<open>The deletion of a created user is a comment in the code.\<close>

(* src: app/user/service/tcc_components.go:143-168 UserLoginTCCComponent.Cancel *)
definition login_Cancel :: "'w user_tcc_env \<Rightarrow> string \<Rightarrow> (tcc_resp, 'w) action" where
  "login_Cancel T txID =
     (let key = ''tcc_user_login:'' @ txID in
      andThen (load_staged (ut_client T) (ut_fmt T) key) (\<lambda>tempData.
      andThen (value_of (as_bool (tempData ''created''))) (\<lambda>created.
      andThen (if created then value_of (as_string (tempData ''open_id'')) else ret []) (\<lambda>_.
        unstage (ut_client T) key))))"

(* src: app/user/service/tcc_components.go:20-24 UserLoginTCCComponent *)
definition login_component :: "'w user_tcc_env \<Rightarrow> ('w, govalue) tcc_component" where
  "login_component T = \<lparr> co_ID = ''user_login_component'', co_Try = login_Try T,
     co_Confirm = login_Confirm T, co_Cancel = login_Cancel T \<rparr>"

subsection \<open>Logins with a school certificate\<close>

(* src: app/user/service/tcc_components.go:189-251 SchoolUserLoginTCCComponent.Try *)
definition school_Try :: "'w user_tcc_env \<Rightarrow> govalue tcc_req \<Rightarrow> (tcc_resp, 'w) action" where
  "school_Try T req =
     (let U = ut_env T in
      andThen (value_of (as_string (rq_Data req ''code''))) (\<lambda>code.
      andThen (value_of (as_string (rq_Data req ''open_id''))) (\<lambda>openId w.
        let key = ''tcc_school_user_login:'' @ rq_TXID req @ '':'' @ openId;
            staged = (\<lambda>stuNum gs weu updated.
              [(''open_id'', GoString openId), (''stu_num'', GoString stuNum), (''gs_session'', GoString gs),
               (''emaphome_weu'', GoString weu), (''certificate_updated'', GoBool updated)])
        in
        case already_tried (ut_client T) key w of
          (True, w') \<Rightarrow> (Inr acked, w')
        | (False, w') \<Rightarrow>
            andThen (stunum_or_refuse U openId) (\<lambda>stResp.
            andThen (\<lambda>w. apfst Inr (GetJwcCertificate U (sn_Stuid stResp) w)) (\<lambda>cert.
              if jc_Emaphome_WEU cert = [] then
                andThen (GetGsSession U openId) (\<lambda>gsSession.
                andThen (\<lambda>w. apfst (\<lambda>(weu, e). case e of None \<Rightarrow> Inr weu | Some e' \<Rightarrow> Inl e') (GetEmaphome_WEU U gsSession w)) (\<lambda>weu.
                  stage (ut_client T) key (staged (sn_Stuid stResp) gsSession weu True)))
              else stage (ut_client T) key (staged (sn_Stuid stResp) (jc_GsSession cert) (jc_Emaphome_WEU cert) False))) w')))"

(* src: app/user/service/tcc_components.go:253-284 SchoolUserLoginTCCComponent.Confirm *)
definition school_Confirm :: "'w user_tcc_env \<Rightarrow> string \<Rightarrow> (tcc_resp, 'w) action" where
  "school_Confirm T txID =
     (let key = ''tcc_school_user_login:'' @ txID in
      andThen (load_staged (ut_client T) (ut_fmt T) key) (\<lambda>tempData.
      andThen (value_of (as_bool (tempData ''certificate_updated''))) (\<lambda>updated.
      andThen (if updated then
                 andThen (value_of (as_string (tempData ''gs_session''))) (\<lambda>gs.
                 andThen (value_of (as_string (tempData ''emaphome_weu''))) (\<lambda>weu.
                 andThen (value_of (as_string (tempData ''stu_num''))) (\<lambda>stuNum.
                   SaveJwcCertificate (ut_env T) \<lparr> jc_GsSession = gs, jc_Emaphome_WEU = weu \<rparr> stuNum)))
               else ret ()) (\<lambda>_.
        unstage (ut_client T) key))))"

(* src: app/user/service/tcc_components.go:286-293 SchoolUserLoginTCCComponent.Cancel *)
definition school_Cancel :: "'w user_tcc_env \<Rightarrow> string \<Rightarrow> (tcc_resp, 'w) action" where
  "school_Cancel T txID = unstage (ut_client T) (''tcc_school_user_login:'' @ txID)"

(* src: app/user/service/tcc_components.go:171-175 SchoolUserLoginTCCComponent *)
definition school_component :: "'w user_tcc_env \<Rightarrow> ('w, govalue) tcc_component" where
  "school_component T = \<lparr> co_ID = ''school_user_login_component'', co_Try = school_Try T,
     co_Confirm = school_Confirm T, co_Cancel = school_Cancel T \<rparr>"

subsection \<open>Logins of others\<close>

(* src: app/user/service/tcc_components.go:314-373 MassesLoginTCCComponent.Try *)
definition masses_Try :: "'w user_tcc_env \<Rightarrow> govalue tcc_req \<Rightarrow> (tcc_resp, 'w) action" where
  "masses_Try T req =
     (let U = ut_env T in
      andThen (value_of (as_string (rq_Data req ''code''))) (\<lambda>code.
      andThen (value_of (as_string (rq_Data req ''open_id''))) (\<lambda>openId w.
        let key = ''tcc_masses_login:'' @ rq_TXID req @ '':'' @ openId in
        case already_tried (ut_client T) key w of
          (True, w') \<Rightarrow> (Inr acked, w')
        | (False, w') \<Rightarrow>
            andThen (ExistUserByOpenid U openId) (\<lambda>(data, cnt).
              if cnt = 0 then
                andThen (WXLogin U code) (\<lambda>wl.
                andThen (wechat_or_refuse U openId (wl_AccessToken wl)) (\<lambda>info.
                  stage (ut_client T) key
                    [(''open_id'', GoString openId), (''avatar'', GoString (wu_HeadImgURL info)),
                     (''nickname'', GoString (wu_Nickname info)), (''is_admin'', GoInt 0), (''created'', GoBool True)]))
              else (case data of
                      [] \<Rightarrow> fail index_panic
                    | u # _ \<Rightarrow>
                        stage (ut_client T) key
                          [(''open_id'', GoString openId), (''avatar'', GoString (us_Avatar u)),
                           (''nickname'', GoString (us_Nickname u)), (''is_admin'', GoInt (us_IsAdmin u)),
                           (''created'', GoBool False)])) w')))"

(* src: app/user/service/tcc_components.go:375-408 MassesLoginTCCComponent.Confirm *)
definition masses_Confirm :: "'w user_tcc_env \<Rightarrow> string \<Rightarrow> (tcc_resp, 'w) action" where
  "masses_Confirm T txID =
     (let key = ''tcc_masses_login:'' @ txID in
      andThen (load_staged (ut_client T) (ut_fmt T) key) (\<lambda>tempData.
      andThen (value_of (as_bool (tempData ''created''))) (\<lambda>created.
      andThen (if created then
                 andThen (value_of (as_string (tempData ''open_id''))) (\<lambda>openId.
                 andThen (value_of (as_float (tempData ''is_admin''))) (\<lambda>isAdmin.
                 andThen (value_of (as_string (tempData ''avatar''))) (\<lambda>avatar.
                 andThen (value_of (as_string (tempData ''nickname''))) (\<lambda>nickname.
                   CreateUser (ut_env T) ((new_user openId [] avatar nickname)\<lparr> us_IsAdmin := isAdmin \<rparr>)))))
               else ret ()) (\<lambda>_.
        unstage (ut_client T) key))))"

(* src: app/user/service/tcc_components.go:410-435 MassesLoginTCCComponent.Cancel *)
definition masses_Cancel :: "'w user_tcc_env \<Rightarrow> string \<Rightarrow> (tcc_resp, 'w) action" where
  "masses_Cancel T txID =
     (let key = ''tcc_masses_login:'' @ txID in
      andThen (load_staged (ut_client T) (ut_fmt T) key) (\<lambda>tempData.
      andThen (value_of (as_bool (tempData ''created''))) (\<lambda>created.
      andThen (if created then value_of (as_string (tempData ''open_id'')) else ret []) (\<lambda>_.
        unstage (ut_client T) key))))"

(* src: app/user/service/tcc_components.go:296-300 MassesLoginTCCComponent *)
definition masses_component :: "'w user_tcc_env \<Rightarrow> ('w, govalue) tcc_component" where
  "masses_component T = \<lparr> co_ID = ''masses_login_component'', co_Try = masses_Try T,
     co_Confirm = masses_Confirm T, co_Cancel = masses_Cancel T \<rparr>"

subsection \<open>The service\<close>

(* src: app/user/service/tcc_integration.go:22-49 NewUserTCCService *)
definition NewUserTCCService :: "'w tx_store \<Rightarrow> 'w user_tcc_env \<Rightarrow> ('w, govalue) tx_manager" where
  "NewUserTCCService S T =
     fold (\<lambda>c M. snd (txm_Register (Some c) M)) [login_component T, school_component T, masses_component T]
       (NewTXManager S [WithTimeout (30 * second), WithMonitorTick (5 * second)])"

text \<open>One request, with an empty OpenId; the error is nil also when the transaction did not succeed.\<close>

definition run_login ::
  "string \<Rightarrow> ('w, govalue) tx_manager \<Rightarrow> 'w tx_store \<Rightarrow> ('w, govalue) component_entity range_order \<Rightarrow> nat \<Rightarrow> string
   \<Rightarrow> 'w \<Rightarrow> err option \<times> 'w" where
  "run_login cid M SC ord slack code w =
     (case txm_Transaction M SC ord slack
             [\<lparr> re_ComponentID = cid, re_Request = [''code'' \<mapsto> GoString code, ''open_id'' \<mapsto> GoString []] \<rparr>] w of
        ((txID, success, e), w') \<Rightarrow> (e, w'))"

(* src: app/user/service/tcc_integration.go:52-77 UserTCCService.UserLoginWithTCC *)
definition UserLoginWithTCC ::
  "('w, govalue) tx_manager \<Rightarrow> 'w tx_store \<Rightarrow> ('w, govalue) component_entity range_order \<Rightarrow> nat \<Rightarrow> string
   \<Rightarrow> 'w \<Rightarrow> err option \<times> 'w" where
  "UserLoginWithTCC = run_login ''user_login_component''"

(* src: app/user/service/tcc_integration.go:80-105 UserTCCService.SchoolUserLoginWithTCC *)
definition SchoolUserLoginWithTCC ::
  "('w, govalue) tx_manager \<Rightarrow> 'w tx_store \<Rightarrow> ('w, govalue) component_entity range_order \<Rightarrow> nat \<Rightarrow> string
   \<Rightarrow> 'w \<Rightarrow> err option \<times> 'w" where
  "SchoolUserLoginWithTCC = run_login ''school_user_login_component''"

(* src: app/user/service/tcc_integration.go:108-133 UserTCCService.MassesLoginWithTCC *)
definition MassesLoginWithTCC ::
  "('w, govalue) tx_manager \<Rightarrow> 'w tx_store \<Rightarrow> ('w, govalue) component_entity range_order \<Rightarrow> nat \<Rightarrow> string
   \<Rightarrow> 'w \<Rightarrow> err option \<times> 'w" where
  "MassesLoginWithTCC = run_login ''masses_login_component''"

(* src: app/user/service/tcc_integration.go:136-138 UserTCCService.GetTransactionStatus *)
definition user_GetTransactionStatus :: "('w, govalue) tx_manager \<Rightarrow> string \<Rightarrow> (tx_record, 'w) action" where
  "user_GetTransactionStatus M txID = GetTX (txm_store M) txID"

section \<open>Properties\<close>

text \<open>
  What the components rely on: a Redis client for staging, and queries of the user table, of the
  certificate cache, of WeChat and of the school that touch neither Redis nor the data under observation.
\<close>

definition calls_silent :: "'w user_env \<Rightarrow> ('w \<Rightarrow> 'v) \<Rightarrow> bool" where
  "calls_silent U view \<longleftrightarrow> (\<forall>i. unchanged view (ue_find_openid U i)) \<and> (\<forall>c. unchanged view (http_login U c))
     \<and> (\<forall>i t. unchanged view (http_info U i t)) \<and> (\<forall>i. unchanged view (http_stunum U i))
     \<and> (\<forall>k. unchanged view (ue_HGetAll U k)) \<and> (\<forall>i. unchanged view (GetGsSession U i))
     \<and> (\<forall>s. unchanged view (GetEmaphome_WEU U s))"

definition user_good :: "'w user_tcc_env \<Rightarrow> ('w \<Rightarrow> gotime) \<Rightarrow> ('w \<Rightarrow> stval rdb) \<Rightarrow> ('w \<Rightarrow> 'v) \<Rightarrow> bool" where
  "user_good T clock obs data \<longleftrightarrow> client_ok (ut_client T) clock obs data
     \<and> calls_silent (ut_env T) obs \<and> calls_silent (ut_env T) data"

lemma unchanged_apfst: "unchanged view m \<Longrightarrow> unchanged view (\<lambda>w. apfst f (m w))"
  by (simp add: unchanged_def)

lemma silent_calls:
  assumes "calls_silent U view"
  shows "unchanged view (ExistUserByOpenid U i)" "unchanged view (WXLogin U c)" "unchanged view (wechat_or_refuse U i t)"
    "unchanged view (stunum_or_refuse U i)" "unchanged view (GetGsSession U i)"
    "unchanged view (\<lambda>w. apfst f (GetJwcCertificate U i w))" "unchanged view (\<lambda>w. apfst g (GetEmaphome_WEU U i w))"
proof -
  have c: "unchanged view (ue_find_openid U i)" "unchanged view (http_login U c)" "unchanged view (http_info U i t)"
    "unchanged view (http_stunum U i)" "unchanged view (ue_HGetAll U k)" "unchanged view (GetGsSession U i)"
    "unchanged view (GetEmaphome_WEU U i)" for i c t k
    using assms by (simp_all only: calls_silent_def simp_thms)
  show "unchanged view (ExistUserByOpenid U i)" "unchanged view (GetGsSession U i)"
    by (simp_all add: ExistUserByOpenid_def c)
  show "unchanged view (WXLogin U c)" unfolding WXLogin_def by (intro action_rules c)
  have "unchanged view (GetWeChatInfo U i t)"
    using c(3) [of i t] by (auto simp: unchanged_def GetWeChatInfo_def split: prod.split option.split) (metis snd_conv)+
  then show "unchanged view (wechat_or_refuse U i t)" unfolding wechat_or_refuse_def by (intro action_rules)
  have "unchanged view (GetStuNum U i)"
    using c(4) [of i] by (auto simp: unchanged_def GetStuNum_def split: prod.split option.split sum.split) (metis snd_conv)+
  then show "unchanged view (stunum_or_refuse U i)" unfolding stunum_or_refuse_def by (intro action_rules)
  have "unchanged view (GetJwcCertificate U i)"
    using c(5) [of "''jwcCertificate:'' @ i"]
    by (auto simp: unchanged_def GetJwcCertificate_def split: prod.split sum.split) (metis snd_conv)+
  then show "unchanged view (\<lambda>w. apfst f (GetJwcCertificate U i w))" by (rule unchanged_apfst)
  show "unchanged view (\<lambda>w. apfst g (GetEmaphome_WEU U i w))" by (rule unchanged_apfst [OF c(7)])
qed

lemma user_client: "user_good T clock obs data \<Longrightarrow> client_ok (ut_client T) clock obs data"
  by (simp add: user_good_def)

lemma calls_clean:
  assumes "user_good T clock obs data"
  shows "maintains (clean obs data d) (ExistUserByOpenid (ut_env T) i)" "maintains (clean obs data d) (WXLogin (ut_env T) c)"
    "maintains (clean obs data d) (wechat_or_refuse (ut_env T) i t)" "maintains (clean obs data d) (stunum_or_refuse (ut_env T) i)"
    "maintains (clean obs data d) (GetGsSession (ut_env T) i)"
    "maintains (clean obs data d) (\<lambda>w. apfst f (GetJwcCertificate (ut_env T) i w))"
    "maintains (clean obs data d) (\<lambda>w. apfst g (GetEmaphome_WEU (ut_env T) i w))"
  using assms by (auto simp: user_good_def intro!: clean_unchanged silent_calls)

lemma maintains_found:
  assumes "\<And>us. maintains I (f us [])" and "\<And>u us. maintains I (g u us)"
  shows "maintains I ((\<lambda>(data, cnt). if cnt = (0 :: int) then f data [] else (case data of [] \<Rightarrow> fail e | u # us \<Rightarrow> g u us)) r)"
  using assms by (cases r) (auto simp: maintains_def split: list.split)

lemma maintains_acked: "maintains I (\<lambda>w'. (Inr acked, w'))"
  by (simp add: maintains_def)

lemma user_prefixes:
  "colons ''tcc_user_login:'' = 1" "colons ''tcc_school_user_login:'' = 1" "colons ''tcc_masses_login:'' = 1"
  by (simp_all add: colons_def)

lemmas user_try_rules = action_rules maintains_acked colons_key user_prefixes

lemma login_try_clean:
  assumes "user_good T clock obs data"
  shows "maintains (clean obs data d) (login_Try T req)"
  unfolding login_Try_def Let_def
  by (intro user_try_rules maintains_after_tried [OF already_tried_clean [OF user_client [OF assms]]] calls_clean [OF assms]
      stage_clean [OF user_client [OF assms]] maintains_found)

lemma school_try_clean:
  assumes "user_good T clock obs data"
  shows "maintains (clean obs data d) (school_Try T req)"
  unfolding school_Try_def Let_def
  by (intro user_try_rules maintains_after_tried [OF already_tried_clean [OF user_client [OF assms]]] calls_clean [OF assms]
      stage_clean [OF user_client [OF assms]])

lemma masses_try_clean:
  assumes "user_good T clock obs data"
  shows "maintains (clean obs data d) (masses_Try T req)"
  unfolding masses_Try_def Let_def
  by (intro user_try_rules maintains_after_tried [OF already_tried_clean [OF user_client [OF assms]]] calls_clean [OF assms]
      stage_clean [OF user_client [OF assms]] maintains_found)

text \<open>The three components satisfy the contract.\<close>

interpretation login: staged_component login_component user_good
proof
  show "maintains (clean obs data d) (co_Try (login_component T) req)" if "user_good T clock obs data"
    for T :: "'a user_tcc_env" and clock obs data d req
    using that by (simp add: login_component_def login_try_clean)
  show "\<exists>w'. co_Confirm (login_component T) x w = (Inl redisNil, w') \<and> obs w' = obs w \<and> data w' = data w"
    if "user_good T clock obs data" "unstaged (obs w)" "colon_free x"
    for T :: "'a user_tcc_env" and clock obs data w x
    unfolding login_component_def tcc_component.simps login_Confirm_def Let_def
    by (rule missing_confirm [OF user_client [OF that(1)] that(2) confirm_key [OF user_prefixes(1) that(3)]])
  show "maintains (clean obs data d) (co_Cancel (login_component T) x)" if "user_good T clock obs data" "colon_free x"
    for T :: "'a user_tcc_env" and clock obs data d x
    unfolding login_component_def tcc_component.simps login_Cancel_def Let_def
    by (rule missing_clean [OF user_client [OF that(1)] confirm_key [OF user_prefixes(1) that(2)]])
qed

interpretation school: staged_component school_component user_good
proof
  show "maintains (clean obs data d) (co_Try (school_component T) req)" if "user_good T clock obs data"
    for T :: "'a user_tcc_env" and clock obs data d req
    using that by (simp add: school_component_def school_try_clean)
  show "\<exists>w'. co_Confirm (school_component T) x w = (Inl redisNil, w') \<and> obs w' = obs w \<and> data w' = data w"
    if "user_good T clock obs data" "unstaged (obs w)" "colon_free x"
    for T :: "'a user_tcc_env" and clock obs data w x
    unfolding school_component_def tcc_component.simps school_Confirm_def Let_def
    by (rule missing_confirm [OF user_client [OF that(1)] that(2) confirm_key [OF user_prefixes(2) that(3)]])
  show "maintains (clean obs data d) (co_Cancel (school_component T) x)" if "user_good T clock obs data" "colon_free x"
    for T :: "'a user_tcc_env" and clock obs data d x
    unfolding school_component_def tcc_component.simps school_Cancel_def Let_def
    by (rule unstage_clean [OF user_client [OF that(1)]])
qed

interpretation masses: staged_component masses_component user_good
proof
  show "maintains (clean obs data d) (co_Try (masses_component T) req)" if "user_good T clock obs data"
    for T :: "'a user_tcc_env" and clock obs data d req
    using that by (simp add: masses_component_def masses_try_clean)
  show "\<exists>w'. co_Confirm (masses_component T) x w = (Inl redisNil, w') \<and> obs w' = obs w \<and> data w' = data w"
    if "user_good T clock obs data" "unstaged (obs w)" "colon_free x"
    for T :: "'a user_tcc_env" and clock obs data w x
    unfolding masses_component_def tcc_component.simps masses_Confirm_def Let_def
    by (rule missing_confirm [OF user_client [OF that(1)] that(2) confirm_key [OF user_prefixes(3) that(3)]])
  show "maintains (clean obs data d) (co_Cancel (masses_component T) x)" if "user_good T clock obs data" "colon_free x"
    for T :: "'a user_tcc_env" and clock obs data d x
    unfolding masses_component_def tcc_component.simps masses_Cancel_def Let_def
    by (rule missing_clean [OF user_client [OF that(1)] confirm_key [OF user_prefixes(3) that(2)]])
qed

subsection \<open>The service over time\<close>

datatype login_kind = StudentLogin | SchoolLogin | OtherLogin

datatype 'w login_step =
    TccLogin login_kind bool "('w, govalue) component_entity range_order" nat string
  | LoginMonitor "tx_record range_order" nat "duration \<times> err option"

fun login_of :: "login_kind \<Rightarrow> ('w, govalue) tx_manager \<Rightarrow> 'w tx_store \<Rightarrow> ('w, govalue) component_entity range_order
    \<Rightarrow> nat \<Rightarrow> string \<Rightarrow> 'w \<Rightarrow> err option \<times> 'w" where
  "login_of StudentLogin = UserLoginWithTCC"
| "login_of SchoolLogin = SchoolUserLoginWithTCC"
| "login_of OtherLogin = MassesLoginWithTCC"

fun serve_tcc_login :: "'w tx_store \<Rightarrow> 'w user_tcc_env \<Rightarrow> 'w login_step \<Rightarrow> 'w \<Rightarrow> 'w" where
  "serve_tcc_login S T (TccLogin kind cancelled ord slack code) w =
     snd (login_of kind (NewUserTCCService S T) (if cancelled then cancelled_store S else S) ord slack code w)"
| "serve_tcc_login S T (LoginMonitor ord n st) w = snd (monitor (NewUserTCCService S T) ord n st w)"

fun login_ordered :: "'w login_step \<Rightarrow> bool" where
  "login_ordered (TccLogin kind cancelled ord slack code) = is_range_order ord"
| "login_ordered (LoginMonitor ord n st) = is_range_order ord"

fun login_component_id :: "login_kind \<Rightarrow> string" where
  "login_component_id StudentLogin = ''user_login_component''"
| "login_component_id SchoolLogin = ''school_user_login_component''"
| "login_component_id OtherLogin = ''masses_login_component''"

fun login_manager_step :: "'w login_step \<Rightarrow> ('w, govalue) manager_step" where
  "login_manager_step (TccLogin kind cancelled ord slack code) = Transact cancelled ord slack
     [\<lparr> re_ComponentID = login_component_id kind, re_Request = [''code'' \<mapsto> GoString code, ''open_id'' \<mapsto> GoString []] \<rparr>]"
| "login_manager_step (LoginMonitor ord n st) = Watch ord n st"

lemma user_manager:
  "txm_store (NewUserTCCService S T) = S"
  "rc_components (txm_registry (NewUserTCCService S T)) =
     [(''user_login_component'', login_component T), (''school_user_login_component'', school_component T),
      (''masses_login_component'', masses_component T)]"
  by (simp_all add: NewUserTCCService_def NewTXManager_def txm_Register_def rc_register_def newRegistryCenter_def
      login_component_def school_component_def masses_component_def)

lemma serve_login_step: "serve_tcc_login S T s w = step_manager (NewUserTCCService S T) (login_manager_step s) w"
proof (cases s)
  case (TccLogin kind cancelled ord slack code)
  then show ?thesis
    by (cases kind) (simp_all add: UserLoginWithTCC_def SchoolUserLoginWithTCC_def MassesLoginWithTCC_def run_login_def
        user_manager case_prod_beta)
qed simp

lemma serve_login_fold:
  "fold (serve_tcc_login S T) steps w = fold (step_manager (NewUserTCCService S T)) (map login_manager_step steps) w"
  by (induction steps arbitrary: w) (simp_all add: serve_login_step)

lemma login_steps_ordered: "login_ordered s \<Longrightarrow> step_ordered (login_manager_step s)"
  by (cases s) simp_all

section \<open>Theorem\<close>

text \<open>
  A login through the TCC service never registers a user and never stores a school certificate:
  whatever codes arrive, in whatever order the goroutines run and however often the monitor retries,
  the user table and the certificates stay as they were, because no component finds what it staged.
\<close>

theorem tcc_login_never_registers:
  assumes "apart S clock sobs rows (\<lambda>w. (obs w, users w, certificates w))"
    and "user_good T clock obs (\<lambda>w. ((users w, certificates w), sobs w, rows w))"
    and "\<forall>s \<in> set steps. login_ordered s" and "log_ids colon_free sobs rows w" and "unstaged (obs w)"
  shows "users (fold (serve_tcc_login S T) steps w) = users w
       \<and> certificates (fold (serve_tcc_login S T) steps w) = certificates w"
proof -
  let ?M = "NewUserTCCService S T"
  have A: "apart (txm_store ?M) clock sobs rows (\<lambda>w. (obs w, users w, certificates w))"
    using assms(1) by (simp add: user_manager)
  have "\<forall>(k, c) \<in> set (rc_components (txm_registry ?M)). \<forall>d. component_frame
      (clean obs (\<lambda>w. ((users w, certificates w), sobs w, rows w)) d) colon_free c"
    using login.frame [OF assms(2)] school.frame [OF assms(2)] masses.frame [OF assms(2)]
    by (simp add: user_manager)
  moreover have "\<forall>m \<in> set (map login_manager_step steps). step_ordered m"
    using assms(3) login_steps_ordered by auto
  ultimately have "(users (fold (serve_tcc_login S T) steps w), certificates (fold (serve_tcc_login S T) steps w))
      = (users w, certificates w)"
    unfolding serve_login_fold by (rule staged_manager_keeps [OF A _ _ assms(4,5)])
  then show ?thesis by simp
qed

subsection \<open>A run in memory\<close>

type_synonym login_world = "(user list \<times> (string \<rightharpoonup> (string \<times> string) list)) staged_world"

definition mem_user_tcc :: "login_world user_tcc_env" where
  "mem_user_tcc = \<lparr>
     ut_env = \<lparr>
       ue_find_openid = (\<lambda>i w. let us = filter (\<lambda>u. us_OpenId u = i) (fst (side_of w)) in (Inr (us, int (length us)), w)),
       ue_find_stunum = (\<lambda>i w. let us = filter (\<lambda>u. us_StuNum u = i) (fst (side_of w)) in (Inr (us, int (length us)), w)),
       ue_create = (\<lambda>u. via_side (\<lambda>(us, cs). (None, us @ [u], cs))),
       ue_HGetAll = (\<lambda>k w. (Inr (case snd (side_of w) k of None \<Rightarrow> Map.empty | Some m \<Rightarrow> map_of m), w)),
       ue_HMSet = (\<lambda>k m. via_side (\<lambda>(us, cs). (None, us, cs(k \<mapsto> m)))),
       ue_Expire = (\<lambda>k d w. (None, w)), ue_HGet = (\<lambda>k f w. (Inl redisNil, w)), ue_HSet = (\<lambda>k f v w. (None, w)),
       enc_ecard = (\<lambda>(a, b). Inr (a @ b)), ue_Get = (\<lambda>k w. (Inl redisNil, w)), ue_Set = (\<lambda>k v d w. (None, w)),
       http_login = (\<lambda>c w. (Inr \<lparr> wl_OpenId = c, wl_AccessToken = ''t'', wl_ErrCode = 0, wl_ErrMsg = [] \<rparr>, w)),
       http_info = (\<lambda>i t w. (Some (Inr \<lparr> wu_Nickname = ''ann'', wu_HeadImgURL = ''a.png'' \<rparr>), w)),
       http_stunum = (\<lambda>i w. (Some (Inr \<lparr> sn_Msg = ''success'', sn_Stuid = ''2125'' \<rparr>), w)),
       GetGsSession = (\<lambda>i w. (Inr ''gs'', w)), GetEmaphome_WEU = (\<lambda>s w. ((''weu'', None), w)), http_ticket = (\<lambda>w. (Inr ''ticket'', w)),
       user_token = (\<lambda>i s w. i @ s), masses_token = (\<lambda>i n w. i @ n), signature = (\<lambda>t n s u. t), ue_random = (\<lambda>n w. (Inr [], w)),
       ue_now = mem_clock \<rparr>,
     ut_client = mem_staging, ut_fmt = itoa \<rparr>"

definition login_start :: login_world where
  "login_start = (7, Map.empty, [], Map.empty, [], Map.empty)"

lemma mem_user_good:
  "user_good mem_user_tcc mem_clock staged_of (\<lambda>w. ((fst (side_of w), snd (side_of w)), mem_obs w, mem_rows w))"
  using mem_client_ok [of "\<lambda>g. (fst g, snd g)"]
  by (simp add: user_good_def mem_user_tcc_def calls_silent_def unchanged_def Let_def)

theorem tcc_login_never_registers_witness:
  "fst (side_of (fold (serve_tcc_login mem_store mem_user_tcc)
      [TccLogin StudentLogin False (\<lambda>xs. xs) 0 ''c1'', TccLogin OtherLogin False (\<lambda>xs. xs) 1 ''c2'', LoginMonitor (\<lambda>xs. xs) 3 (0, None)]
      login_start)) = []"
proof -
  let ?steps = "[TccLogin StudentLogin False (\<lambda>xs. xs) 0 ''c1'', TccLogin OtherLogin False (\<lambda>xs. xs) 1 ''c2'', LoginMonitor (\<lambda>xs. xs) 3 (0, None)]"
  have 1: "\<forall>s \<in> set ?steps. login_ordered s" by (simp add: is_range_order_def)
  have 2: "log_ids colon_free mem_obs mem_rows login_start" and 3: "unstaged (staged_of login_start)"
    by (simp_all add: log_ids_def unstaged_def login_start_def mem_obs_def mem_rows_def staged_of_def)
  show ?thesis
    using tcc_login_never_registers [OF mem_apart [of "\<lambda>g. (fst g, snd g)"] mem_user_good 1 2 3]
    by (simp add: login_start_def side_of_def)
qed

end
