(* ===== verification/Worker_Pool.thy ===== *)
theory Worker_Pool
  imports Prelude "HOL-Library.Multiset"
begin

text \<open>
  Worker pools: \<^verbatim>\<open>src/app/common/performance/worker_pool.go\<close>.

  The goroutines of a pool (dispatcher, workers, the caller of \<^verbatim>\<open>Stop\<close>) are state machines that step one at a time; an
  unbuffered send and its receive are one step of both. A step that would block is not enabled. What a job does is left out: the
  error it returns is dropped by the worker. Jobs with their priorities are a type of their own.

  \<^verbatim>\<open>WorkerPool\<close> declares the field \<^verbatim>\<open>workers\<close> twice, which does not compile; the number and the list of workers are modelled.
\<close>

section \<open>Model\<close>

subsection \<open>Priority queue\<close>

(* src: app/common/performance/worker_pool.go:193-197 PriorityJob *)
record job =
  job_id :: string
  job_priority :: int

text \<open>One pass of the bubble sort makes \<open>n\<close> comparisons of neighbours.\<close>

(* src: app/common/performance/worker_pool.go:291-295 PriorityQueue.sort (pass) *)
fun bubble_pass :: "nat \<Rightarrow> job list \<Rightarrow> job list" where
  "bubble_pass (Suc n) (x # y # xs) =
     (if job_priority x < job_priority y then y # bubble_pass n (x # xs) else x # bubble_pass n (y # xs))"
| "bubble_pass n xs = xs"

(* src: app/common/performance/worker_pool.go:288-297 PriorityQueue.sort *)
definition pq_sort :: "job list \<Rightarrow> job list" where
  "pq_sort jobs = fold (\<lambda>i. bubble_pass (length jobs - 1 - i)) [0..<length jobs - 1] jobs"

(* src: app/common/performance/worker_pool.go:264-271 PriorityQueue.Push *)
definition pq_Push :: "job \<Rightarrow> job list \<Rightarrow> job list" where
  "pq_Push j jobs = pq_sort (jobs @ [j])"

(* src: app/common/performance/worker_pool.go:274-285 PriorityQueue.Pop *)
definition pq_Pop :: "job list \<Rightarrow> job option \<times> job list" where
  "pq_Pop jobs = (case jobs of [] \<Rightarrow> (None, []) | j # js \<Rightarrow> (Some j, js))"

subsection \<open>The pool\<close>

datatype 'j dispatcher = Idle | Has_Job 'j | Hands_Over 'j nat | Dispatcher_Ended

text \<open>\<open>Registering\<close> stands before the send of the job queue, \<open>Selecting\<close> in the select.\<close>

datatype 'j worker = Registering | Selecting | Executing 'j | Worker_Ended

text \<open>Where the caller of \<^verbatim>\<open>Stop\<close> is: before the call, sending on \<^verbatim>\<open>quit\<close>, before stopping worker \<open>i\<close>, sending it \<^verbatim>\<open>quit\<close>.\<close>

datatype stopper = Not_Stopped | Sends_Quit | Stops_Worker nat | Quits_Worker nat

(* src: app/common/performance/worker_pool.go:69-78 WorkerPool *)
record 'j worker_pool =
  wp_workers :: "'j worker list"
  wp_cancelled :: "bool list"
  wp_jobQueue :: "'j list"
  wp_workerPool :: "nat list"
  wp_dispatcher :: "'j dispatcher"
  wp_done :: bool
  wp_stopper :: stopper

definition wp_queue_cap :: nat where
  "wp_queue_cap = 1000"

text \<open>A pool that has been started.\<close>

(* src: app/common/performance/worker_pool.go:81-108 NewWorkerPool, WorkerPool.Start *)
definition StartedWorkerPool :: "nat \<Rightarrow> 'j worker_pool" where
  "StartedWorkerPool workers = \<lparr> wp_workers = replicate workers Registering, wp_cancelled = replicate workers False, wp_jobQueue = [],
     wp_workerPool = [], wp_dispatcher = Idle, wp_done = False, wp_stopper = Not_Stopped \<rparr>"

text \<open>\<open>choice\<close> picks the case when the queue has room and the context is done.\<close>

(* src: app/common/performance/worker_pool.go:141-150 WorkerPool.Submit *)
definition wp_Submit :: "bool \<Rightarrow> 'j \<Rightarrow> 'j worker_pool \<Rightarrow> err option \<times> 'j worker_pool" where
  "wp_Submit choice j p =
     (if length (wp_jobQueue p) < wp_queue_cap \<and> (\<not> wp_done p \<or> choice) then (None, p\<lparr> wp_jobQueue := wp_jobQueue p @ [j] \<rparr>)
      else if wp_done p then (Some ''context canceled'', p)
      else (Some ''worker pool is full'', p))"

text \<open>None while it waits; \<open>passed\<close> says that the time limit is over.\<close>

(* src: app/common/performance/worker_pool.go:153-163 WorkerPool.SubmitWithTimeout *)
definition wp_SubmitWithTimeout :: "bool \<Rightarrow> bool \<Rightarrow> 'j \<Rightarrow> 'j worker_pool \<Rightarrow> (err option \<times> 'j worker_pool) option" where
  "wp_SubmitWithTimeout passed choice j p =
     (if length (wp_jobQueue p) < wp_queue_cap \<and> (\<not> (wp_done p \<or> passed) \<or> choice)
        then Some (None, p\<lparr> wp_jobQueue := wp_jobQueue p @ [j] \<rparr>)
      else if wp_done p then Some (Some ''context canceled'', p)
      else if passed then Some (Some ''context deadline exceeded'', p)
      else None)"

text \<open>The steps of the dispatcher.\<close>

(* src: app/common/performance/worker_pool.go:124-138 WorkerPool.dispatch *)
inductive dispatch_step :: "'j worker_pool \<Rightarrow> 'j worker_pool \<Rightarrow> bool" where
  receive_job: "wp_dispatcher p = Idle \<Longrightarrow> wp_jobQueue p = j # js \<Longrightarrow>
     dispatch_step p (p\<lparr> wp_jobQueue := js, wp_dispatcher := Has_Job j \<rparr>)"
| take_worker: "wp_dispatcher p = Has_Job j \<Longrightarrow> wp_workerPool p = i # is \<Longrightarrow>
     dispatch_step p (p\<lparr> wp_workerPool := is, wp_dispatcher := Hands_Over j i \<rparr>)"
| hand_over: "wp_dispatcher p = Hands_Over j i \<Longrightarrow> i < length (wp_workers p) \<Longrightarrow> wp_workers p ! i = Selecting \<Longrightarrow>
     dispatch_step p (p\<lparr> wp_dispatcher := Idle, wp_workers := (wp_workers p)[i := Executing j] \<rparr>)"
| receive_quit: "wp_dispatcher p = Idle \<Longrightarrow> wp_stopper p = Sends_Quit \<Longrightarrow>
     dispatch_step p (p\<lparr> wp_dispatcher := Dispatcher_Ended, wp_stopper := Stops_Worker 0 \<rparr>)"
| context_done: "wp_dispatcher p = Idle \<Longrightarrow> wp_done p \<Longrightarrow> dispatch_step p (p\<lparr> wp_dispatcher := Dispatcher_Ended \<rparr>)"

text \<open>The steps of a worker. The channel of registrations has room for one of each worker.\<close>

(* src: app/common/performance/worker_pool.go:40-60 Worker.Start *)
inductive worker_step :: "'j worker_pool \<Rightarrow> 'j worker_pool \<Rightarrow> bool" where
  register: "i < length (wp_workers p) \<Longrightarrow> wp_workers p ! i = Registering \<Longrightarrow> length (wp_workerPool p) < length (wp_workers p) \<Longrightarrow>
     worker_step p (p\<lparr> wp_workers := (wp_workers p)[i := Selecting], wp_workerPool := wp_workerPool p @ [i] \<rparr>)"
| finish: "i < length (wp_workers p) \<Longrightarrow> wp_workers p ! i = Executing j \<Longrightarrow>
     worker_step p (p\<lparr> wp_workers := (wp_workers p)[i := Registering] \<rparr>)"
| worker_quit: "i < length (wp_workers p) \<Longrightarrow> wp_workers p ! i = Selecting \<Longrightarrow> wp_stopper p = Quits_Worker i \<Longrightarrow>
     worker_step p (p\<lparr> wp_workers := (wp_workers p)[i := Worker_Ended], wp_stopper := Stops_Worker (Suc i) \<rparr>)"
| worker_done: "i < length (wp_workers p) \<Longrightarrow> wp_workers p ! i = Selecting \<Longrightarrow> wp_cancelled p ! i \<Longrightarrow>
     worker_step p (p\<lparr> wp_workers := (wp_workers p)[i := Worker_Ended] \<rparr>)"

text \<open>The steps of \<^verbatim>\<open>Stop\<close> other than the sends, which are steps of who receives.\<close>

(* src: app/common/performance/worker_pool.go:111-121 WorkerPool.Stop *)
inductive stop_step :: "'j worker_pool \<Rightarrow> 'j worker_pool \<Rightarrow> bool" where
  cancel: "wp_stopper p = Not_Stopped \<Longrightarrow> stop_step p (p\<lparr> wp_done := True, wp_stopper := Sends_Quit \<rparr>)"
| cancel_worker: "wp_stopper p = Stops_Worker i \<Longrightarrow> i < length (wp_workers p) \<Longrightarrow>
     stop_step p (p\<lparr> wp_cancelled := (wp_cancelled p)[i := True], wp_stopper := Quits_Worker i \<rparr>)"

definition stop_returned :: "'j worker_pool \<Rightarrow> bool" where
  "stop_returned p \<longleftrightarrow> wp_stopper p = Stops_Worker (length (wp_workers p))"

subsection \<open>Pool with priorities\<close>

(* src: app/common/performance/worker_pool.go:224-227 PriorityWorkerPool *)
type_synonym priority_pool = "job list \<times> job worker_pool"

(* src: app/common/performance/worker_pool.go:238-248 PriorityWorkerPool.Submit *)
definition pwp_Submit :: "bool \<Rightarrow> job \<Rightarrow> priority_pool \<Rightarrow> err option \<times> priority_pool" where
  "pwp_Submit choice j qp =
     (case pq_Pop (pq_Push j (fst qp)) of
        (None, q) \<Rightarrow> (None, (q, snd qp))
      | (Some topJob, q) \<Rightarrow> (case wp_Submit choice topJob (snd qp) of (e, p) \<Rightarrow> (e, (q, p))))"

section \<open>Properties\<close>

subsection \<open>The priority queue\<close>

lemma bubble_pass_mset [simp]: "mset (bubble_pass n xs) = mset xs"
  by (induction n xs rule: bubble_pass.induct) auto

lemma bubble_pass_length [simp]: "length (bubble_pass n xs) = length xs"
  by (induction n xs rule: bubble_pass.induct) auto

text \<open>Jobs of one priority keep their order.\<close>

lemma bubble_pass_stable: "filter (\<lambda>x. job_priority x = k) (bubble_pass n xs) = filter (\<lambda>x. job_priority x = k) xs"
  by (induction n xs rule: bubble_pass.induct) auto

text \<open>A pass carries the smallest of the jobs it compares to their end.\<close>

lemma bubble_pass_least:
  "n < length xs \<Longrightarrow>
   \<exists>ys m. bubble_pass n xs = ys @ m # drop (Suc n) xs \<and> length ys = n \<and> mset (ys @ [m]) = mset (take (Suc n) xs)
     \<and> (\<forall>y \<in> set ys. job_priority m \<le> job_priority y)"
proof (induction n xs rule: bubble_pass.induct)
  case (1 n x y xs)
  show ?case
  proof (cases "job_priority x < job_priority y")
    case True
    with 1(1) [OF True] 1(3) obtain ys m where
      ih: "bubble_pass n (x # xs) = ys @ m # drop (Suc n) (x # xs)" "length ys = n" "mset (ys @ [m]) = mset (take (Suc n) (x # xs))"
        "\<forall>z \<in> set ys. job_priority m \<le> job_priority z" by auto
    have "set (ys @ [m]) = set (take (Suc n) (x # xs))" using ih(3) by (metis set_mset_mset)
    then have "x \<in> set (ys @ [m])" by simp
    with ih(4) have "job_priority m \<le> job_priority x" by auto
    with True ih show ?thesis by (intro exI [of _ "y # ys"] exI [of _ m]) auto
  next
    case False
    with 1(2) [OF False] 1(3) obtain ys m where
      ih: "bubble_pass n (y # xs) = ys @ m # drop (Suc n) (y # xs)" "length ys = n" "mset (ys @ [m]) = mset (take (Suc n) (y # xs))"
        "\<forall>z \<in> set ys. job_priority m \<le> job_priority z" by auto
    have "set (ys @ [m]) = set (take (Suc n) (y # xs))" using ih(3) by (metis set_mset_mset)
    then have "y \<in> set (ys @ [m])" by simp
    with ih(4) have "job_priority m \<le> job_priority y" by auto
    with False ih show ?thesis by (intro exI [of _ "x # ys"] exI [of _ m]) auto
  qed
qed (auto simp: neq_Nil_conv length_Suc_conv)

definition tail_sorted :: "nat \<Rightarrow> job list \<Rightarrow> bool" where
  "tail_sorted i xs \<longleftrightarrow> (\<exists>front rear. xs = front @ rear \<and> length rear = i
     \<and> sorted_wrt (\<lambda>x y. job_priority x \<ge> job_priority y) rear
     \<and> (\<forall>x \<in> set front. \<forall>y \<in> set rear. job_priority x \<ge> job_priority y))"

lemma bubble_pass_tail:
  assumes "tail_sorted i xs" and "Suc i \<le> length xs"
  shows "tail_sorted (Suc i) (bubble_pass (length xs - 1 - i) xs)"
proof -
  obtain front rear where fb: "xs = front @ rear" "length rear = i" "sorted_wrt (\<lambda>x y. job_priority x \<ge> job_priority y) rear"
    "\<forall>x \<in> set front. \<forall>y \<in> set rear. job_priority x \<ge> job_priority y"
    using assms(1) by (auto simp: tail_sorted_def)
  let ?n = "length xs - 1 - i"
  have n: "?n < length xs" "Suc ?n = length front" using assms(2) fb(1,2) by auto
  obtain ys m where p: "bubble_pass ?n xs = ys @ m # drop (Suc ?n) xs" "mset (ys @ [m]) = mset (take (Suc ?n) xs)"
    "\<forall>y \<in> set ys. job_priority m \<le> job_priority y"
    using bubble_pass_least [OF n(1)] by blast
  have "drop (Suc ?n) xs = rear" "take (Suc ?n) xs = front" using n(2) fb(1) by simp_all
  with p(1,2) have q: "bubble_pass ?n xs = ys @ (m # rear)" "mset (ys @ [m]) = mset front" by simp_all
  from q(2) have "set (ys @ [m]) = set front" by (metis set_mset_mset)
  then have "m \<in> set front" "set ys \<subseteq> set front" by auto
  then show ?thesis
    unfolding tail_sorted_def using q(1) fb(2-4) p(3)
    by (intro exI [of _ ys] exI [of _ "m # rear"]) auto
qed

lemma passes_tail:
  "i < length xs \<Longrightarrow> tail_sorted i (fold (\<lambda>i. bubble_pass (length xs - 1 - i)) [0..<i] xs)
   \<and> mset (fold (\<lambda>i. bubble_pass (length xs - 1 - i)) [0..<i] xs) = mset xs"
proof (induction i)
  case 0
  show ?case by (auto simp: tail_sorted_def)
next
  case (Suc i)
  let ?ys = "fold (\<lambda>i. bubble_pass (length xs - 1 - i)) [0..<i] xs"
  have ih: "tail_sorted i ?ys" "mset ?ys = mset xs" using Suc by simp_all
  have "length ?ys = length xs" using ih(2) by (metis size_mset)
  with bubble_pass_tail [OF ih(1)] Suc.prems ih(2) show ?case by simp
qed

lemma pq_sort_mset [simp]: "mset (pq_sort xs) = mset xs"
proof -
  have "mset (fold (\<lambda>i. bubble_pass (f i)) is xs) = mset xs" for f :: "nat \<Rightarrow> nat" and "is"
    by (induction "is" arbitrary: xs) simp_all
  then show ?thesis by (simp add: pq_sort_def)
qed

lemma pq_sort_stable: "filter (\<lambda>x. job_priority x = k) (pq_sort xs) = filter (\<lambda>x. job_priority x = k) xs"
proof -
  have "filter (\<lambda>x. job_priority x = k) (fold (\<lambda>i. bubble_pass (f i)) is xs) = filter (\<lambda>x. job_priority x = k) xs"
    for f :: "nat \<Rightarrow> nat" and "is"
    by (induction "is" arbitrary: xs) (simp_all add: bubble_pass_stable)
  then show ?thesis by (simp add: pq_sort_def)
qed

lemma pq_sort_sorted: "sorted_wrt (\<lambda>x y. job_priority x \<ge> job_priority y) (pq_sort xs)"
proof (cases "xs = []")
  case True
  then show ?thesis by (simp add: pq_sort_def)
next
  case False
  then have "tail_sorted (length xs - 1) (pq_sort xs)" using passes_tail [of "length xs - 1" xs] by (simp add: pq_sort_def)
  then obtain front rear where fb: "pq_sort xs = front @ rear" "length rear = length xs - 1"
    "sorted_wrt (\<lambda>x y. job_priority x \<ge> job_priority y) rear" "\<forall>x \<in> set front. \<forall>y \<in> set rear. job_priority x \<ge> job_priority y"
    by (auto simp: tail_sorted_def)
  have "length (pq_sort xs) = length xs" by (metis pq_sort_mset size_mset)
  with fb(1,2) False have "length front = 1" by (cases xs) auto
  then obtain x where "front = [x]" by (cases front) auto
  with fb show ?thesis by simp
qed

text \<open>The bubble sort is the stable sort by descending priority.\<close>

lemma pq_sort_eq: "pq_sort xs = sort_key (\<lambda>j. - job_priority j) xs"
proof (rule sym, rule properties_for_sort_key)
  show "filter (\<lambda>x. - job_priority k = - job_priority x) (pq_sort xs) = filter (\<lambda>x. - job_priority k = - job_priority x) xs" for k
    using pq_sort_stable [of "job_priority k" xs] by (simp add: eq_commute)
  show "sorted (map (\<lambda>j. - job_priority j) (pq_sort xs))"
    using pq_sort_sorted [of xs] by (simp add: sorted_map sorted_wrt_iff_nth_less)
qed simp

lemma sort_key_append: "sort_key f (sort_key f xs @ [x]) = sort_key f (xs @ [x])"
proof (rule sym, rule properties_for_sort_key)
  fix k
  have "(\<lambda>y. f k = f y) = (\<lambda>y. f y = f k)" by auto
  then show "filter (\<lambda>y. f k = f y) (sort_key f (sort_key f xs @ [x])) = filter (\<lambda>y. f k = f y) (xs @ [x])"
    by (simp only: sort_key_stable filter_append)
qed simp_all

text \<open>
  Whatever jobs are pushed and popped, the queue holds the jobs left in descending order of priority, those of one priority in
  the order of their arrival: pushing is the insertion of the stable sort, and popping takes the first.
\<close>

theorem priority_queue_order:
  "fold pq_Push jobs [] = sort_key (\<lambda>j. - job_priority j) jobs
   \<and> (case fold pq_Push jobs [] of [] \<Rightarrow> jobs = [] | j # js \<Rightarrow> pq_Pop (fold pq_Push jobs []) = (Some j, js)
        \<and> list_all (\<lambda>x. job_priority x \<le> job_priority j) jobs)"
proof -
  have push: "pq_Push j (sort_key (\<lambda>j. - job_priority j) js) = sort_key (\<lambda>j. - job_priority j) (js @ [j])" for j js
    by (simp add: pq_Push_def pq_sort_eq sort_key_append)
  have eq: "fold pq_Push jobs [] = sort_key (\<lambda>j. - job_priority j) jobs"
  proof (induction jobs rule: rev_induct)
    case (snoc j js)
    have "fold pq_Push (js @ [j]) [] = pq_Push j (fold pq_Push js [])" by simp
    with snoc show ?case by (simp only: push)
  qed simp
  show ?thesis
  proof (cases "sort_key (\<lambda>j. - job_priority j) jobs")
    case Nil
    then have "jobs = []" by (metis length_sort length_0_conv)
    with eq show ?thesis by simp
  next
    case (Cons j js)
    have "sorted (map (\<lambda>j. - job_priority j) (j # js))" using sorted_sort_key [of "\<lambda>j. - job_priority j" jobs] Cons by simp
    moreover have "set jobs = set (j # js)" using Cons by (metis set_sort)
    ultimately have "list_all (\<lambda>x. job_priority x \<le> job_priority j) jobs" by (auto simp: list_all_iff)
    with eq Cons show ?thesis by (simp add: pq_Pop_def)
  qed
qed

text \<open>
  In the pool with priorities no priority ever matters: \<^verbatim>\<open>Submit\<close> pops the queue as soon as it has pushed, so that the queue is empty
  between two calls and every job goes to the plain pool at once, in the order of the calls.
\<close>

lemma pq_sort_single [simp]: "pq_sort [j] = [j]"
  by (simp add: pq_sort_eq)

lemma priority_never_matters: "pwp_Submit choice j ([], p) = (case wp_Submit choice j p of (e, p') \<Rightarrow> (e, ([], p')))"
  by (simp add: pwp_Submit_def pq_Push_def pq_Pop_def)

subsection \<open>Jobs\<close>

text \<open>A run of the pool: submissions and the steps of the goroutines. The lists are the jobs accepted and the jobs begun.\<close>

inductive pool_run :: "nat \<Rightarrow> 'j list \<Rightarrow> 'j list \<Rightarrow> 'j worker_pool \<Rightarrow> bool" for n where
  started: "pool_run n [] [] (StartedWorkerPool n)"
| submitted: "pool_run n acc begun p \<Longrightarrow> wp_Submit choice j p = (None, p') \<Longrightarrow> pool_run n (acc @ [j]) begun p'"
| submitted_in_time: "pool_run n acc begun p \<Longrightarrow> wp_SubmitWithTimeout passed choice j p = Some (None, p') \<Longrightarrow> pool_run n (acc @ [j]) begun p'"
| dispatched: "pool_run n acc begun p \<Longrightarrow> dispatch_step p p' \<Longrightarrow>
     pool_run n acc (begun @ (case wp_dispatcher p of Hands_Over j i \<Rightarrow> [j] | _ \<Rightarrow> [])) p'"
| worked: "pool_run n acc begun p \<Longrightarrow> worker_step p p' \<Longrightarrow> pool_run n acc begun p'"
| stopping: "pool_run n acc begun p \<Longrightarrow> stop_step p p' \<Longrightarrow> pool_run n acc begun p'"

definition held :: "'j dispatcher \<Rightarrow> 'j list" where
  "held d = (case d of Has_Job j \<Rightarrow> [j] | Hands_Over j i \<Rightarrow> [j] | _ \<Rightarrow> [])"

lemma submit_queue:
  "wp_Submit choice j p = (None, p') \<Longrightarrow> p' = p\<lparr> wp_jobQueue := wp_jobQueue p @ [j] \<rparr> \<and> length (wp_jobQueue p') \<le> wp_queue_cap"
  "wp_SubmitWithTimeout passed choice j p = Some (None, p') \<Longrightarrow> p' = p\<lparr> wp_jobQueue := wp_jobQueue p @ [j] \<rparr> \<and> length (wp_jobQueue p') \<le> wp_queue_cap"
  by (auto simp: wp_Submit_def wp_SubmitWithTimeout_def split: if_splits)


subsection \<open>Stopping\<close>

definition pool_step :: "'j worker_pool \<Rightarrow> 'j worker_pool \<Rightarrow> bool" where
  "pool_step p p' \<longleftrightarrow> dispatch_step p p' \<or> worker_step p p' \<or> stop_step p p' \<or> (\<exists>choice j e. wp_Submit choice j p = (e, p'))
     \<or> (\<exists>passed choice j e. wp_SubmitWithTimeout passed choice j p = Some (e, p'))"

definition stuck :: "'j worker_pool \<Rightarrow> bool" where
  "stuck p \<longleftrightarrow> wp_dispatcher p = Dispatcher_Ended \<and> wp_stopper p = Sends_Quit"

lemma stuck_stays: "pool_step p p' \<Longrightarrow> stuck p \<Longrightarrow> stuck p'"
  by (auto simp: pool_step_def stuck_def wp_Submit_def wp_SubmitWithTimeout_def
      elim!: dispatch_step.cases worker_step.cases stop_step.cases split: if_splits)

text \<open>
  \<^verbatim>\<open>Stop\<close> can hang for ever. It cancels the context and then sends on \<^verbatim>\<open>quit\<close>; a dispatcher that is waiting for a job may notice the
  context first and end, and nobody is left to receive. Whenever \<^verbatim>\<open>Stop\<close> is called while the dispatcher waits, there is a run in
  which it never returns, whatever happens afterwards, and no worker is ever told to stop.
\<close>

theorem stop_can_hang:
  assumes "pool_run n acc begun p" and "wp_dispatcher p = Idle" and "wp_stopper p = Not_Stopped"
  shows "\<exists>p' p''. stop_step p p' \<and> dispatch_step p' p'' \<and> pool_run n acc begun p''
    \<and> (\<forall>q. pool_step\<^sup>*\<^sup>* p'' q \<longrightarrow> \<not> stop_returned q \<and> wp_stopper q = Sends_Quit)"
proof -
  let ?p1 = "p\<lparr> wp_done := True, wp_stopper := Sends_Quit \<rparr>" let ?p2 = "?p1\<lparr> wp_dispatcher := Dispatcher_Ended \<rparr>"
  have 1: "stop_step p ?p1" using assms(3) by (rule stop_step.cancel)
  have 2: "dispatch_step ?p1 ?p2" by (rule dispatch_step.context_done) (simp_all add: assms(2))
  have "pool_run n acc begun ?p2"
    using pool_run.dispatched [OF pool_run.stopping [OF assms(1) 1] 2] assms(2) by simp
  moreover have "stuck q" if "pool_step\<^sup>*\<^sup>* ?p2 q" for q
    using that
  proof (induction rule: rtranclp_induct)
    case base
    show ?case by (simp add: stuck_def)
  qed (rule stuck_stays)
  then have "\<not> stop_returned q \<and> wp_stopper q = Sends_Quit" if "pool_step\<^sup>*\<^sup>* ?p2 q" for q
    using that by (simp add: stuck_def stop_returned_def)
  ultimately show ?thesis using 1 2 by blast
qed

lemma one_job_run:
  "pool_run 2 [7 :: nat] [] ((StartedWorkerPool 2)\<lparr> wp_jobQueue := [7] \<rparr>)"
proof -
  have "wp_Submit True (7 :: nat) (StartedWorkerPool 2) = (None, (StartedWorkerPool 2)\<lparr> wp_jobQueue := [7] \<rparr>)"
    by (simp add: wp_Submit_def StartedWorkerPool_def wp_queue_cap_def)
  from pool_run.submitted [OF pool_run.started this] show ?thesis by simp
qed

theorem stop_can_hang_witness:
  "\<exists>p'' :: nat worker_pool. pool_run 2 [7] [] p'' \<and> (\<forall>q. pool_step\<^sup>*\<^sup>* p'' q \<longrightarrow> \<not> stop_returned q)"
proof -
  from stop_can_hang [OF one_job_run] show ?thesis by (simp add: StartedWorkerPool_def) blast
qed


end
