(* ===== verification/School_Client.thy ===== *)
theory School_Client
  imports Go_Action Go_Strings
begin

text \<open>
  The clients of the school's web services (\<^verbatim>\<open>src/utils/school\<close>). A request posts a JSON document to an end
  point and decodes the answer into \<^verbatim>\<open>map[string]any\<close>; sending a request and decoding are parameters. A
  failed type assertion, a nil dereference and a slice out of range are panics, which end the process:
  they are error values that start like the message Go prints, and \<open>is_panic\<close> recognises them.
\<close>

section \<open>Model\<close>

subsection \<open>JSON documents\<close>

text \<open>What \<^verbatim>\<open>encoding/json\<close> stores in an \<^verbatim>\<open>any\<close>; numbers are \<^verbatim>\<open>float64\<close>, here real numbers.\<close>

datatype json = JNull | JBool bool | JNumber real | JString string | JArray "json list" | JObject "(string \<times> json) list"

text \<open>\<^verbatim>\<open>x.(T)\<close> with two results: a missing entry is the nil interface.\<close>

fun text_of :: "json option \<Rightarrow> string option" where
  "text_of (Some (JString s)) = Some s"
| "text_of _ = None"

fun number_of :: "json option \<Rightarrow> real option" where
  "number_of (Some (JNumber x)) = Some x"
| "number_of _ = None"

fun array_of :: "json option \<Rightarrow> json list option" where
  "array_of (Some (JArray xs)) = Some xs"
| "array_of _ = None"

fun object_of :: "json option \<Rightarrow> (string \<rightharpoonup> json) option" where
  "object_of (Some (JObject kvs)) = Some (map_of kvs)"
| "object_of _ = None"

text \<open>\<^verbatim>\<open>x.(T)\<close> with one result panics.\<close>

definition assertion_panic :: err where
  "assertion_panic = ''panic: interface conversion''"

definition asserted :: "'a option \<Rightarrow> ('a, 'w) action" where
  "asserted r w = (case r of None \<Rightarrow> (Inl assertion_panic, w) | Some x \<Rightarrow> (Inr x, w))"

definition nil_panic :: err where
  "nil_panic = ''runtime error: invalid memory address or nil pointer dereference''"

definition is_panic :: "err \<Rightarrow> bool" where
  "is_panic e \<longleftrightarrow> strings_HasPrefix e ''panic: '' \<or> strings_HasPrefix e ''runtime error: ''"

definition or_empty :: "string option \<Rightarrow> string" where
  "or_empty r = (case r of None \<Rightarrow> [] | Some s \<Rightarrow> s)"

definition or_zero :: "real option \<Rightarrow> real" where
  "or_zero r = (case r of None \<Rightarrow> 0 | Some x \<Rightarrow> x)"

subsection \<open>The network\<close>

(* src: utils/httpUtil/constant.go:9-23 URL *)
datatype endpoint = GsSession_URL | Emaphome_WEU_URL | Schedule_URL | Grade_URL | Xuefen_URL | ECard_URL | Card_URL
  | Pay_URL | Book_URL | Gpa_All_URL | Gpa_Year_URL | Gpa_Semester_URL

text \<open>\<open>net_post\<close>: the body of the answer or the error of the request; \<open>net_json\<close>: decoding of an object.\<close>

record 'w school_net =
  net_post :: "endpoint \<Rightarrow> (string \<times> string) list \<Rightarrow> (string, 'w) action"
  net_json :: "string \<Rightarrow> err + (string \<rightharpoonup> json)"

(* src: utils/analyze.go:10-21 JSONToMap *)
definition JSONToMap :: "'w school_net \<Rightarrow> string \<Rightarrow> (string \<rightharpoonup> json) \<times> err option" where
  "JSONToMap N str = (case net_json N str of Inl e \<Rightarrow> (Map.empty, Some e) | Inr m \<Rightarrow> (m, None))"

text \<open>\<^verbatim>\<open>body, err := utils.JSONToMap(...); if err != nil { return }\<close>.\<close>

definition decoded :: "'w school_net \<Rightarrow> string \<Rightarrow> (string \<rightharpoonup> json, 'w) action" where
  "decoded N str w = (case JSONToMap N str of (m, None) \<Rightarrow> (Inr m, w) | (_, Some e) \<Rightarrow> (Inl e, w))"

text \<open>Clients that only log the error of a request go on to read the body of a nil response.\<close>

definition post_unchecked :: "'w school_net \<Rightarrow> endpoint \<Rightarrow> (string \<times> string) list \<Rightarrow> (string, 'w) action" where
  "post_unchecked N url body = onError (net_post N url body) (\<lambda>_. fail nil_panic)"

definition msg_not_bound :: err where
  "msg_not_bound = utf8 [0xE7, 0x99, 0xBB, 0xE5, 0xBD, 0x95, 0xE5, 0xA4, 0xB1, 0xE8, 0xB4, 0xA5, 0xE8, 0xAF, 0xB7, 0xE7, 0xBB, 0x91, 0xE5, 0xAE, 0x9A, 0xE6, 0xA1, 0x91, 0xE6, 0xA2, 0x93, 0xE5, 0xBE, 0xAE, 0xE5, 0x8A, 0xA9, 0xE6, 0x89, 0x8B]"

subsection \<open>Authentication\<close>

(* src: utils/school/authentication.go:18-40 GetGsSession *)
definition school_GetGsSession :: "'w school_net \<Rightarrow> string \<Rightarrow> (string, 'w) action" where
  "school_GetGsSession N openid =
     andThen (net_post N GsSession_URL [(''open_id'', openid)]) (\<lambda>respJson.
     andThen (decoded N respJson) (\<lambda>body.
     andThen (asserted (number_of (body ''code''))) (\<lambda>code.
       if code \<noteq> 200 then fail msg_not_bound else asserted (text_of (body ''data'')))))"

(* src: app/yearBill/types/yearBill.go:8-11 ECardCertificate *)
record ecard_certificate =
  ec_JsSessionId :: string
  ec_HallTicket :: string

(* src: utils/school/authentication.go:42-65 ECardLogin *)
definition ECardLogin :: "'w school_net \<Rightarrow> string \<Rightarrow> (ecard_certificate, 'w) action" where
  "ECardLogin N openid =
     andThen (net_post N ECard_URL [(''open_id'', openid)]) (\<lambda>respJson.
     andThen (decoded N respJson) (\<lambda>body.
     andThen (asserted (number_of (body ''code''))) (\<lambda>code.
       if code \<noteq> 200 then fail msg_not_bound
       else andThen (asserted (object_of (body ''data''))) (\<lambda>data.
            andThen (asserted (text_of (data ''jsessionid''))) (\<lambda>js.
            andThen (asserted (text_of (data ''hallticket''))) (\<lambda>hall.
              ret \<lparr> ec_JsSessionId = js, ec_HallTicket = hall \<rparr>))))))"

subsection \<open>The campus card\<close>

(* src: utils/school/ecard.go:14-17 ECard *)
record ecard =
  card_HallTicket :: string
  card_JsSessionId :: string

text \<open>The first decoding error is overwritten; its empty map panics at the assertion.\<close>

(* src: utils/school/ecard.go:44-59 ECard.GetCardInfo *)
definition GetCardInfo :: "'w school_net \<Rightarrow> ecard \<Rightarrow> (string \<rightharpoonup> json, 'w) action" where
  "GetCardInfo N eCard =
     andThen (net_post N Card_URL [(''hallticket'', card_HallTicket eCard)]) (\<lambda>respJson.
     andThen (asserted (object_of (fst (JSONToMap N respJson) ''data''))) (\<lambda>data.
     andThen (asserted (text_of (data ''Msg''))) (\<lambda>msg.
       decoded N msg)))"

(* src: utils/school/ecard.go:61-79 ECard.GetPay *)
definition GetPay :: "'w school_net \<Rightarrow> ecard \<Rightarrow> string \<Rightarrow> string \<Rightarrow> (string \<rightharpoonup> json, 'w) action" where
  "GetPay N eCard account page =
     andThen (net_post N Pay_URL [(''start_date'', ''2023-01-01''), (''end_date'', ''2023-12-31''), (''account'', account),
                (''page'', page), (''hallticket'', card_HallTicket eCard)]) (\<lambda>respJson.
       asserted (object_of (fst (JSONToMap N respJson) ''data'')))"

(* src: utils/school/ecard.go:81-96 ECard.GetBook *)
definition GetBook :: "'w school_net \<Rightarrow> ecard \<Rightarrow> string \<Rightarrow> (string \<rightharpoonup> json, 'w) action" where
  "GetBook N eCard pageNo =
     andThen (net_post N Book_URL [(''page_no'', pageNo), (''jsessionid'', card_JsSessionId eCard)]) (\<lambda>respJson.
       decoded N respJson)"

subsection \<open>The registrar\<close>

(* src: utils/school/jwc.go:17-20 Jwc *)
record jwc =
  jwc_GsSession :: string
  jwc_Emaphome_WEU :: string

(* src: utils/school/jwc.go:36-51 Jwc.GetEmaphome_WEU *)
definition jwc_GetEmaphome_WEU :: "'w school_net \<Rightarrow> jwc \<Rightarrow> (string, 'w) action" where
  "jwc_GetEmaphome_WEU N j =
     andThen (net_post N Emaphome_WEU_URL [(''cookie'', jwc_GsSession j)]) (\<lambda>respJson.
       asserted (text_of (fst (JSONToMap N respJson) ''data'')))"

(* src: utils/school/jwc.go:53-73 Jwc.GetSchedule *)
definition GetSchedule :: "'w school_net \<Rightarrow> jwc \<Rightarrow> string \<Rightarrow> (json list, 'w) action" where
  "GetSchedule N j semester =
     andThen (post_unchecked N Schedule_URL [(''gssession'', jwc_GsSession j), (''weu'', jwc_Emaphome_WEU j), (''semester'', semester)]) (\<lambda>respJson.
     andThen (decoded N respJson) (\<lambda>body.
       asserted (array_of (body ''data''))))"

text \<open>One of the three goroutines of \<^verbatim>\<open>GetGpa\<close>: it appends its rows, or nothing; only a panic leaves it.\<close>

(* src: utils/school/jwc.go:85-105 Jwc.GetGpa (one goroutine) *)
definition gpa_rows :: "'w school_net \<Rightarrow> jwc \<Rightarrow> endpoint \<Rightarrow> (json list, 'w) action" where
  "gpa_rows N j url =
     andThen (post_unchecked N url [(''gssession'', jwc_GsSession j), (''weu'', jwc_Emaphome_WEU j), (''stu_num'', [])]) (\<lambda>respJson.
       case JSONToMap N respJson of
         (_, Some _) \<Rightarrow> ret []
       | (body, None) \<Rightarrow>
           andThen (asserted (object_of (body ''data''))) (\<lambda>data.
             case array_of (data ''rows'') of None \<Rightarrow> ret [] | Some info \<Rightarrow> ret info))"

primrec append_all :: "(json list, 'w) action list \<Rightarrow> (json list, 'w) action" where
  "append_all [] = ret []"
| "append_all (m # ms) = andThen m (\<lambda>xs. andThen (append_all ms) (\<lambda>ys. ret (xs @ ys)))"

text \<open>The goroutines append in the order \<open>ord\<close>.\<close>

(* src: utils/school/jwc.go:75-149 Jwc.GetGpa *)
definition GetGpa :: "'w school_net \<Rightarrow> endpoint range_order \<Rightarrow> jwc \<Rightarrow> (json list, 'w) action" where
  "GetGpa N ord j = append_all (map (gpa_rows N j) (ord [Gpa_All_URL, Gpa_Semester_URL, Gpa_Year_URL]))"

(* src: utils/school/jwc.go:151-173 Jwc.GetGrade *)
definition GetGrade :: "'w school_net \<Rightarrow> jwc \<Rightarrow> (json list, 'w) action" where
  "GetGrade N j =
     andThen (post_unchecked N Grade_URL [(''gssession'', jwc_GsSession j), (''weu'', jwc_Emaphome_WEU j), (''semester'', ''1'')]) (\<lambda>respJson.
     andThen (decoded N respJson) (\<lambda>body.
       asserted (array_of (body ''data''))))"

text \<open>An answer without rows is nil with a nil error.\<close>

(* src: utils/school/jwc.go:175-205 Jwc.GetXuefen *)
definition GetXuefen :: "'w school_net \<Rightarrow> jwc \<Rightarrow> (json list option, 'w) action" where
  "GetXuefen N j =
     andThen (net_post N Xuefen_URL [(''gssession'', jwc_GsSession j), (''weu'', jwc_Emaphome_WEU j), (''semester'', ''1'')]) (\<lambda>respJson.
     andThen (decoded N respJson) (\<lambda>body.
       ret (array_of (body ''data''))))"

section \<open>Facts\<close>

lemma asserted_simps [simp]:
  "asserted None w = (Inl assertion_panic, w)" "asserted (Some x) w = (Inr x, w)"
  by (simp_all add: asserted_def)

lemma panics [simp]: "is_panic assertion_panic" "is_panic nil_panic"
  by (simp_all add: is_panic_def assertion_panic_def nil_panic_def strings_HasPrefix_def)

lemma or_defaults [simp]: "or_empty None = []" "or_empty (Some s) = s" "or_zero None = 0" "or_zero (Some x) = x"
  by (simp_all add: or_empty_def or_zero_def)

lemma unchanged_asserted [action_rules]: "unchanged view (asserted r)"
  by (simp add: unchanged_def asserted_def split: option.split)

lemma unchanged_decoded [action_rules]: "unchanged view (decoded N s)"
  by (simp add: unchanged_def decoded_def split: prod.split option.split)

text \<open>Requests to the school leave a part of the world alone that sending a request leaves alone.\<close>

definition net_silent :: "'w school_net \<Rightarrow> ('w \<Rightarrow> 'v) \<Rightarrow> bool" where
  "net_silent N view \<longleftrightarrow> (\<forall>u b. unchanged view (net_post N u b))"

lemma silent_post:
  assumes "net_silent N view"
  shows "unchanged view (net_post N u b)" and "unchanged view (post_unchecked N u b)"
proof -
  show 1: "unchanged view (net_post N u b)" using assms by (simp add: net_silent_def)
  show "unchanged view (post_unchecked N u b)" unfolding post_unchecked_def by (intro action_rules 1)
qed

lemma silent_gpa_rows:
  assumes "net_silent N view"
  shows "unchanged view (gpa_rows N j u)"
proof -
  have "unchanged view (case JSONToMap N s of (_, Some _) \<Rightarrow> ret [] | (body, None) \<Rightarrow>
           andThen (asserted (object_of (body ''data''))) (\<lambda>data.
             case array_of (data ''rows'') of None \<Rightarrow> ret [] | Some info \<Rightarrow> ret info))" for s
    by (auto split: prod.split option.split intro!: action_rules)
  then show ?thesis unfolding gpa_rows_def by (intro action_rules silent_post [OF assms])
qed

lemma silent_append_all: "\<forall>m \<in> set ms. unchanged view m \<Longrightarrow> unchanged view (append_all ms)"
  by (induction ms) (auto intro!: action_rules)

lemma silent_clients:
  assumes "net_silent N view"
  shows "unchanged view (school_GetGsSession N i)" "unchanged view (ECardLogin N i)" "unchanged view (GetCardInfo N c)"
    "unchanged view (GetPay N c a p)" "unchanged view (GetBook N c p)" "unchanged view (jwc_GetEmaphome_WEU N j)"
    "unchanged view (GetSchedule N j s)" "unchanged view (GetGpa N ord j)" "unchanged view (GetGrade N j)"
    "unchanged view (GetXuefen N j)"
  unfolding school_GetGsSession_def ECardLogin_def GetCardInfo_def GetPay_def GetBook_def jwc_GetEmaphome_WEU_def
    GetSchedule_def GetGpa_def GetGrade_def GetXuefen_def
  by (intro action_rules silent_post [OF assms] silent_append_all ballI;
      auto simp: silent_gpa_rows [OF assms])+

end
