(* ===== verification/School_Service.thy ===== *)
theory School_Service
  imports School_Client
begin

text \<open>
  The school service (\<^verbatim>\<open>src/app/school\<close>): averages, grades, credits and the time table of a student, read from
  the registrar with the certificate that the user service cached. \<^verbatim>\<open>SchoolGrade\<close> and \<^verbatim>\<open>SchoolSchedule\<close>
  convert each row in a goroutine of its own and append under a mutex: the order of the appended rows is an
  argument. A panic in any of them ends the process.
\<close>

section \<open>Model\<close>

record 'w school_env =
  se_net :: "'w school_net"
  se_HGetAll :: "string \<Rightarrow> (string \<rightharpoonup> string, 'w) action"
  se_Get :: "string \<Rightarrow> (string, 'w) action"
  se_fmt_float :: "real \<Rightarrow> string"

subsection \<open>The cache\<close>

definition msg_no_key :: err where
  "msg_no_key = utf8 [0x6B, 0x65, 0x79, 0xE7, 0xBC, 0x93, 0xE5, 0xAD, 0x98, 0xE4, 0xB8, 0x8D, 0xE5, 0xAD, 0x98, 0xE5, 0x9C, 0xA8]"

definition redis_missing :: err where
  "redis_missing = ''redis: nil''"

(* src: app/school/database/cache/common.go:22-33 RDBCache.GetKey *)
definition school_GetKey :: "'w school_env \<Rightarrow> string \<Rightarrow> (string, 'w) action" where
  "school_GetKey S key = onError (se_Get S key) (\<lambda>e. fail (if e = redis_missing then msg_no_key else e))"

(* src: app/school/database/cache/common.go:35-46 RDBCache.GetJwcCertificate *)
definition school_GetJwcCertificate :: "'w school_env \<Rightarrow> string \<Rightarrow> 'w \<Rightarrow> jwc \<times> 'w" where
  "school_GetJwcCertificate S stunum w =
     (case se_HGetAll S (''jwcCertificate:'' @ stunum) w of
        (Inl _, w') \<Rightarrow> (\<lparr> jwc_GsSession = [], jwc_Emaphome_WEU = [] \<rparr>, w')
      | (Inr maps, w') \<Rightarrow>
          (\<lparr> jwc_GsSession = or_empty (maps ''gsSession''), jwc_Emaphome_WEU = or_empty (maps ''emaphome_WEU'') \<rparr>, w'))"

subsection \<open>Rows\<close>

text \<open>The goroutines over the rows: the answers in the order in which they are appended, or a panic.\<close>

fun collect :: "('a \<Rightarrow> err + 'b) \<Rightarrow> 'a list \<Rightarrow> err + 'b list" where
  "collect f [] = Inr []"
| "collect f (x # xs) =
     (case f x of Inl e \<Rightarrow> Inl e | Inr y \<Rightarrow> (case collect f xs of Inl e \<Rightarrow> Inl e | Inr ys \<Rightarrow> Inr (y # ys)))"

definition row_object :: "json \<Rightarrow> err + (string \<rightharpoonup> json)" where
  "row_object v = (case object_of (Some v) of None \<Rightarrow> Inl assertion_panic | Some m \<Rightarrow> Inr m)"

record gpa =
  gp_Semester :: string
  gp_Gpa :: string
  gp_ClassRank :: string
  gp_MajorRank :: string

(* src: app/school/service/school.go:57-92 SchoolSrv.SchoolGpa (one row) *)
definition gpa_of :: "(real \<Rightarrow> string) \<Rightarrow> json \<Rightarrow> err + gpa" where
  "gpa_of fmt v = map_sum id (\<lambda>m.
     \<lparr> gp_Semester = (case text_of (m ''XN'') of Some s \<Rightarrow> s
          | None \<Rightarrow> (case text_of (m ''XNXQDM'') of Some s \<Rightarrow> s | None \<Rightarrow> utf8 [0xE6, 0x80, 0xBB, 0xE8, 0xAE, 0xA1])),
       gp_Gpa = (case number_of (m ''GPA'') of Some x \<Rightarrow> fmt x | None \<Rightarrow> []),
       gp_ClassRank = or_empty (text_of (m ''BJPM'')), gp_MajorRank = or_empty (text_of (m ''ZYPM'')) \<rparr>) (row_object v)"

record grade =
  gr_XNXQDM :: string
  gr_XF :: real
  gr_XSKCM :: string
  gr_XSZCJMC :: string
  gr_ZCJ :: real
  gr_QMCJ :: string
  gr_PSCJ :: string

text \<open>A row without term or without course name panics while the mutex is held.\<close>

(* src: app/school/service/school.go:117-162 SchoolSrv.SchoolGrade (one goroutine) *)
definition grade_of :: "json \<Rightarrow> err + grade" where
  "grade_of v =
     (case row_object v of
        Inl e \<Rightarrow> Inl e
      | Inr m \<Rightarrow>
          (case (text_of (m ''XNXQDM''), text_of (m ''XSKCM'')) of
             (Some term, Some name) \<Rightarrow>
               Inr \<lparr> gr_XNXQDM = term, gr_XF = or_zero (number_of (m ''XF'')), gr_XSKCM = name,
                     gr_XSZCJMC = or_empty (text_of (m ''DJCJMC'')), gr_ZCJ = or_zero (number_of (m ''ZCJ'')),
                     gr_QMCJ = or_empty (text_of (m ''QMCJ'')), gr_PSCJ = or_empty (text_of (m ''PSCJ'')) \<rparr>
           | _ \<Rightarrow> Inl assertion_panic))"

record credit =
  xf_YXXF :: real
  xf_YHXF :: real
  xf_XNXQDM :: string
  xf_BJGXF :: real
  xf_WLCJXF :: real

(* src: app/school/service/school.go:187-225 SchoolSrv.SchoolXuefen (one row) *)
definition credit_of :: "json \<Rightarrow> err + credit" where
  "credit_of v = map_sum id (\<lambda>m.
     \<lparr> xf_YXXF = or_zero (number_of (m ''YXXF'')), xf_YHXF = or_zero (number_of (m ''YHXF'')),
       xf_XNXQDM = or_empty (text_of (m ''XNXQDM'')), xf_BJGXF = or_zero (number_of (m ''BJGXF'')),
       xf_WLCJXF = or_zero (number_of (m ''WLCJXF'')) \<rparr>) (row_object v)"

record lesson =
  ls_TeachWeek :: string
  ls_LessonName :: string
  ls_Week :: string
  ls_BeginTime :: string
  ls_EndTime :: string
  ls_Address :: string
  ls_TeacherName :: string

(* src: app/school/service/school.go:252-318 SchoolSrv.SchoolSchedule (one goroutine) *)
definition lesson_of :: "json \<Rightarrow> err + lesson" where
  "lesson_of v = map_sum id (\<lambda>m.
     \<lparr> ls_TeachWeek = or_empty (text_of (m ''ZCMC'')), ls_LessonName = or_empty (text_of (m ''KCM'')),
       ls_Week = or_empty (text_of (m ''SKXQ_DISPLAY'')), ls_BeginTime = or_empty (text_of (m ''KSJC_DISPLAY'')),
       ls_EndTime = or_empty (text_of (m ''JSJC_DISPLAY'')), ls_Address = or_empty (text_of (m ''JASMC'')),
       ls_TeacherName = or_empty (text_of (m ''SKJS'')) \<rparr>) (row_object v)"

subsection \<open>Handlers\<close>

definition msg_no_metadata :: err where
  "msg_no_metadata = utf8 [0xE4, 0xBF, 0xA1, 0xE6, 0x81, 0xAF, 0xE4, 0xB8, 0xBA, 0xE7, 0xA9, 0xBA]"

definition msg_expired :: err where
  "msg_expired =
     utf8 [0xE5, 0x87, 0xAD, 0xE8, 0xAF, 0x81, 0xE5, 0xB7, 0xB2, 0xE8, 0xBF, 0x87, 0xE6, 0x9C, 0x9F, 0x2C,
     0xE8, 0xAF, 0xB7, 0xE9, 0x87, 0x8D, 0xE6, 0x96, 0xB0, 0xE8, 0xBF, 0x9B, 0xE5, 0x85, 0xA5, 0xE8, 0xAF, 0xA5,
     0xE7, 0x95, 0x8C, 0xE9, 0x9D, 0xA2]"

text \<open>
  What the four handlers share: the metadata, the certificate, the rows of the registrar, and the
  conversion of the rows in the order \<open>ord\<close>. A panic leaves no response.
\<close>

(* src: app/school/service/school.go:37-55 SchoolSrv.SchoolGpa (head) *)
definition with_certificate ::
  "'w school_env \<Rightarrow> metadata \<Rightarrow> ((string \<Rightarrow> string list) \<Rightarrow> jwc \<Rightarrow> ('r, 'w) handler) \<Rightarrow> ('r, 'w) handler" where
  "with_certificate S md k w =
     (case md of
        None \<Rightarrow> ((None, Some msg_no_metadata), w)
      | Some m \<Rightarrow>
          (case school_GetJwcCertificate S (md_value m ''stu_num'') w of
             (j, w') \<Rightarrow> if jwc_Emaphome_WEU j = [] then ((None, Some msg_expired), w') else k m j w'))"

definition answer_rows ::
  "json range_order \<Rightarrow> (json \<Rightarrow> err + 'r) \<Rightarrow> (json list, 'w) action \<Rightarrow> ('r list, 'w) handler" where
  "answer_rows ord conv fetch w =
     (case fetch w of
        (Inl e, w') \<Rightarrow> ((if is_panic e then None else Some [], Some e), w')
      | (Inr rows, w') \<Rightarrow>
          (case collect conv (ord rows) of Inl e \<Rightarrow> ((None, Some e), w') | Inr ys \<Rightarrow> ((Some ys, None), w')))"

(* src: app/school/service/school.go:37-94 SchoolSrv.SchoolGpa *)
definition SchoolGpa :: "'w school_env \<Rightarrow> endpoint range_order \<Rightarrow> metadata \<Rightarrow> (gpa list, 'w) handler" where
  "SchoolGpa S goroutines md =
     with_certificate S md (\<lambda>m j. answer_rows (\<lambda>rows. rows) (gpa_of (se_fmt_float S)) (GetGpa (se_net S) goroutines j))"

(* src: app/school/service/school.go:96-166 SchoolSrv.SchoolGrade *)
definition SchoolGrade :: "'w school_env \<Rightarrow> json range_order \<Rightarrow> metadata \<Rightarrow> (grade list, 'w) handler" where
  "SchoolGrade S ord md = with_certificate S md (\<lambda>m j. answer_rows ord grade_of (GetGrade (se_net S) j))"

text \<open>The rows of the credits are asserted, although the client answers nil for an answer without rows.\<close>

(* src: app/school/service/school.go:168-227 SchoolSrv.SchoolXuefen *)
definition SchoolXuefen :: "'w school_env \<Rightarrow> metadata \<Rightarrow> (credit list, 'w) handler" where
  "SchoolXuefen S md =
     with_certificate S md (\<lambda>m j. answer_rows (\<lambda>rows. rows) credit_of (andThen (GetXuefen (se_net S) j) asserted))"

(* src: app/school/service/school.go:229-321 SchoolSrv.SchoolSchedule *)
definition SchoolSchedule :: "'w school_env \<Rightarrow> json range_order \<Rightarrow> metadata \<Rightarrow> (lesson list, 'w) handler" where
  "SchoolSchedule S ord md =
     with_certificate S md (\<lambda>m j. answer_rows ord lesson_of (GetSchedule (se_net S) j (md_value m ''semester'')))"

section \<open>Properties\<close>

lemma collect_total: "\<forall>x \<in> set xs. f x = Inr (g x) \<Longrightarrow> collect f xs = Inr (map g xs)"
  by (induction xs) simp_all

lemma collect_values: "collect f xs = Inr ys \<Longrightarrow> map f xs = map Inr ys"
  by (induction xs arbitrary: ys) (auto split: sum.splits)

lemma collect_panics: "collect f xs = Inl e \<Longrightarrow> \<exists>x \<in> set xs. f x = Inl e"
  by (induction xs) (auto split: sum.splits)

lemma collect_fails: "x \<in> set xs \<Longrightarrow> f x = Inl e \<Longrightarrow> \<exists>e'. collect f xs = Inl e'"
  by (induction xs) (auto split: sum.splits)

text \<open>The rows the registrar must send for the grades.\<close>

definition grade_row_ok :: "json \<Rightarrow> bool" where
  "grade_row_ok v \<longleftrightarrow> (case object_of (Some v) of None \<Rightarrow> False
     | Some m \<Rightarrow> text_of (m ''XNXQDM'') \<noteq> None \<and> text_of (m ''XSKCM'') \<noteq> None)"

lemma grade_of_ok: "grade_row_ok v \<longleftrightarrow> (\<exists>g. grade_of v = Inr g)"
  by (auto simp: grade_row_ok_def grade_of_def row_object_def split: option.splits)

lemma grade_of_bad: "\<not> grade_row_ok v \<Longrightarrow> grade_of v = Inl assertion_panic"
  by (auto simp: grade_row_ok_def grade_of_def row_object_def split: option.splits)

lemma grade_of_error: "grade_of v = Inl e \<Longrightarrow> e = assertion_panic"
  by (auto simp: grade_of_def row_object_def split: option.splits)

lemma lesson_of_total: "lesson_of (JObject kvs) \<noteq> Inl e"
  by (simp add: lesson_of_def row_object_def)

lemma with_certificate_found:
  "school_GetJwcCertificate S (md_value m ''stu_num'') w = (j, w') \<Longrightarrow> jwc_Emaphome_WEU j \<noteq> [] \<Longrightarrow>
   with_certificate S (Some m) k w = k m j w'"
  by (simp add: with_certificate_def)

lemma answer_rows_ordered:
  assumes "is_range_order ord" and "fetch w = (Inr rows, w')" and "\<forall>v \<in> set rows. \<exists>y. conv v = Inr y"
  shows "\<exists>ys. answer_rows ord conv fetch w = ((Some ys, None), w') \<and> image_mset conv (mset rows) = image_mset Inr (mset ys)"
proof -
  have "\<forall>v \<in> set (ord rows). conv v = Inr (projr (conv v))"
    using assms(3) range_order_set [OF assms(1)] by force
  then have c: "collect conv (ord rows) = Inr (map (\<lambda>v. projr (conv v)) (ord rows))" by (rule collect_total)
  from collect_values [OF this] have "mset (map conv (ord rows)) = mset (map Inr (map (\<lambda>v. projr (conv v)) (ord rows)))"
    by (rule arg_cong)
  with c assms(2) range_order_mset [OF assms(1), of rows] show ?thesis
    by (auto simp: answer_rows_def multiset.map_comp)
qed

lemma answer_rows_panics:
  assumes "is_range_order ord" and "fetch w = (Inr rows, w')" and "v \<in> set rows" and "conv v = Inl e0"
    and "\<And>v e. conv v = Inl e \<Longrightarrow> e = p"
  shows "answer_rows ord conv fetch w = ((None, Some p), w')"
proof -
  have "v \<in> set (ord rows)" using assms(3) range_order_set [OF assms(1)] by simp
  from collect_fails [where f = conv, OF this assms(4)] obtain e where e: "collect conv (ord rows) = Inl e" by blast
  with collect_panics [OF e] assms(5) have "e = p" by blast
  with e assms(2) show ?thesis by (simp add: answer_rows_def)
qed

text \<open>An answer without rows: the client reports no error, the handler ends the process.\<close>

lemma xuefen_without_rows:
  assumes "school_GetJwcCertificate S (md_value m ''stu_num'') w = (j, w1)" and "jwc_Emaphome_WEU j \<noteq> []"
    and "GetXuefen (se_net S) j w1 = (Inr None, w2)"
  shows "SchoolXuefen S (Some m) w = ((None, Some assertion_panic), w2)"
  using assms by (simp add: SchoolXuefen_def with_certificate_found answer_rows_def andThen_def)

section \<open>Theorem\<close>

text \<open>
  C13. The answer to a request for grades has exactly one entry for every row of the registrar, whatever
  the order in which the goroutines append; one row without term or course name ends the process,
  whatever else was sent.
\<close>

theorem grades_answer_every_row:
  assumes "is_range_order ord" and "school_GetJwcCertificate S (md_value m ''stu_num'') w = (j, w1)" and "jwc_Emaphome_WEU j \<noteq> []"
    and "GetGrade (se_net S) j w1 = (Inr rows, w2)"
  shows "if list_all grade_row_ok rows
         then \<exists>gs. SchoolGrade S ord (Some m) w = ((Some gs, None), w2) \<and> image_mset grade_of (mset rows) = image_mset Inr (mset gs)
         else SchoolGrade S ord (Some m) w = ((None, Some assertion_panic), w2)"
proof -
  have run: "SchoolGrade S ord (Some m) w = answer_rows ord grade_of (GetGrade (se_net S) j) w1"
    unfolding SchoolGrade_def by (rule with_certificate_found [OF assms(2,3)])
  show ?thesis
  proof (cases "list_all grade_row_ok rows")
    case True
    then have "\<forall>v \<in> set rows. \<exists>g. grade_of v = Inr g" by (simp add: list_all_iff grade_of_ok)
    from answer_rows_ordered [where fetch = "GetGrade (se_net S) j" and conv = grade_of, OF assms(1,4) this] True run show ?thesis by simp
  next
    case False
    then obtain v where v: "v \<in> set rows" "\<not> grade_row_ok v" by (auto simp: list_all_iff)
    have "answer_rows ord grade_of (GetGrade (se_net S) j) w1 = ((None, Some assertion_panic), w2)"
      by (rule answer_rows_panics [where fetch = "GetGrade (se_net S) j" and conv = grade_of, OF assms(1,4) v(1) grade_of_bad [OF v(2)]])
         (rule grade_of_error)
    with False run show ?thesis by simp
  qed
qed

subsection \<open>A registrar with two rows\<close>

definition demo_rows :: "json list" where
  "demo_rows = [JObject [(''XNXQDM'', JString ''2023-1''), (''XSKCM'', JString ''algebra''), (''ZCJ'', JNumber 91)],
                JObject [(''XNXQDM'', JString ''2023-1''), (''XSKCM'', JString ''logic''), (''XF'', JNumber 3)]]"

definition demo_school :: "unit school_env" where
  "demo_school = \<lparr>
     se_net = \<lparr> net_post = (\<lambda>u b w. (Inr ''rows'', w)), net_json = (\<lambda>s. Inr [''data'' \<mapsto> JArray demo_rows]) \<rparr>,
     se_HGetAll = (\<lambda>k w. (Inr [''gsSession'' \<mapsto> ''gs'', ''emaphome_WEU'' \<mapsto> ''weu''], w)),
     se_Get = (\<lambda>k w. (Inl redis_missing, w)), se_fmt_float = (\<lambda>x. []) \<rparr>"

theorem grades_answer_every_row_witness:
  "\<exists>gs. SchoolGrade demo_school rev (Some (\<lambda>k. [''2125''])) () = ((Some gs, None), ()) \<and> length gs = 2"
proof -
  have c: "school_GetJwcCertificate demo_school (md_value (\<lambda>k. [''2125'']) ''stu_num'') ()
      = (\<lparr> jwc_GsSession = ''gs'', jwc_Emaphome_WEU = ''weu'' \<rparr>, ())"
    by (simp add: school_GetJwcCertificate_def demo_school_def)
  have g: "GetGrade (se_net demo_school) \<lparr> jwc_GsSession = ''gs'', jwc_Emaphome_WEU = ''weu'' \<rparr> () = (Inr demo_rows, ())"
    by (simp add: GetGrade_def post_unchecked_def onError_def andThen_def decoded_def JSONToMap_def demo_school_def)
  have ok: "list_all grade_row_ok demo_rows" by (simp add: demo_rows_def grade_row_ok_def)
  from grades_answer_every_row [OF range_order_rev c _ g] ok obtain gs
    where gs: "SchoolGrade demo_school rev (Some (\<lambda>k. [''2125''])) () = ((Some gs, None), ())"
      and "image_mset grade_of (mset demo_rows) = image_mset Inr (mset gs)" by auto
  then have "size (mset demo_rows) = size (mset gs)" by (metis size_image_mset)
  with gs show ?thesis by (simp add: demo_rows_def)
qed

end
