(* ===== verification/Year_Bill_Data.thy ===== *)
theory Year_Bill_Data
  imports School_Service
begin

text \<open>
  Tables, cache and queue of the year bill service (\<^verbatim>\<open>src/app/yearBill/database\<close>). gorm, Redis and RabbitMQ
  are parameters, one field for each statement. The cached values are JSON renderings of structs; they are
  a datatype, and a value of another shape does not decode. Amounts are real numbers.
\<close>

section \<open>Data\<close>

(* src: app/yearBill/database/model/bill.go:8-18 Bill *)
record bill =
  bi_StuNum :: string
  bi_BestRestaurant :: string
  bi_BestRestaurantPay :: real
  bi_EarlyTime :: gotime
  bi_LastTime :: gotime
  bi_OtherPay :: real
  bi_LibraryPay :: real
  bi_RestaurantPay :: real

(* src: app/yearBill/database/model/bill.go:20-28 BillCache *)
record bill_cache =
  bc_BestRestaurant :: string
  bc_BestRestaurantPay :: real
  bc_EarlyTime :: gotime
  bc_LastTime :: gotime
  bc_OtherPay :: real
  bc_RestaurantPay :: real
  bc_LibraryPay :: real

(* src: app/yearBill/database/model/learn.go:5-13 Learn *)
record learn =
  le_StuNum :: string
  le_MostCourse :: string
  le_Most :: int
  le_Eight :: int
  le_Ten :: int
  le_SumLesson :: int

(* src: app/yearBill/database/model/learn.go:15-21 LearnCache *)
record learn_cache =
  lc_MostCourse :: string
  lc_Eight :: int
  lc_Ten :: int
  lc_Most :: int
  lc_SumLesson :: int

(* src: app/yearBill/database/model/user.go:5-11 User *)
record bill_user =
  bu_StuNum :: string
  bu_Init :: int
  bu_Appraisal :: int
  bu_Rank :: int

(* src: app/yearBill/database/model/user.go:13-19 DadaInitTask *)
record init_task =
  it_JsSessionId :: string
  it_HallTicket :: string
  it_GsSession :: string
  it_Emaphome_WEU :: string
  it_StuNum :: string

(* src: app/yearBill/database/model/user.go:21-24 RankCache *)
record rank_cache =
  rc_ID :: int
  rc_Appraisal :: int

(* src: app/yearBill/database/model/book.go:8-15 Book *)
record book =
  bk_StuNum :: string
  bk_Read :: int
  bk_Reading :: int
  bk_BookName :: string
  bk_Longest :: gotime

datatype cached = CachedPay bill_cache | CachedLearn learn_cache | CachedRank rank_cache | CachedText string

record 'w bill_env =
  q_count_bills :: "string \<Rightarrow> (int, 'w) action"
  q_create_bill :: "bill \<Rightarrow> 'w \<Rightarrow> err option \<times> 'w"
  q_find_bills :: "string \<Rightarrow> (bill list, 'w) action"
  q_count_learns :: "string \<Rightarrow> (int, 'w) action"
  q_create_learn :: "learn \<Rightarrow> 'w \<Rightarrow> err option \<times> 'w"
  q_find_learns :: "string \<Rightarrow> (learn list, 'w) action"
  q_count_books :: "string \<Rightarrow> (int, 'w) action"
  q_create_book :: "book \<Rightarrow> 'w \<Rightarrow> err option \<times> 'w"
  q_create_user :: "bill_user \<Rightarrow> 'w \<Rightarrow> err option \<times> 'w"
  q_find_users :: "string \<Rightarrow> (bill_user list, 'w) action"
  q_update_appraisal :: "string \<Rightarrow> int \<Rightarrow> 'w \<Rightarrow> err option \<times> 'w"
  q_flag_user :: "string \<Rightarrow> string \<Rightarrow> 'w \<Rightarrow> err option \<times> 'w"
  q_init_user :: "string \<Rightarrow> int \<Rightarrow> 'w \<Rightarrow> err option \<times> 'w"
  t_begin :: "'w \<Rightarrow> 'w"
  t_rollback :: "'w \<Rightarrow> 'w"
  t_commit :: "'w \<Rightarrow> 'w"
  h_Get :: "string \<Rightarrow> (string, 'w) action"
  h_Set :: "string \<Rightarrow> string \<Rightarrow> duration \<Rightarrow> 'w \<Rightarrow> err option \<times> 'w"
  h_Incr :: "string \<Rightarrow> (int, 'w) action"
  h_HGet :: "string \<Rightarrow> string \<Rightarrow> (cached, 'w) action"
  h_HSet :: "string \<Rightarrow> string \<Rightarrow> cached \<Rightarrow> 'w \<Rightarrow> err option \<times> 'w"
  h_HDel :: "string \<Rightarrow> string \<Rightarrow> 'w \<Rightarrow> err option \<times> 'w"
  m_declare :: "'w \<Rightarrow> err option \<times> 'w"
  m_publish :: "init_task \<Rightarrow> 'w \<Rightarrow> err option \<times> 'w"
  ye_net :: "'w school_net"
  ye_parse :: "string \<Rightarrow> gotime \<times> int"

section \<open>Tables\<close>

text \<open>A transaction that is rolled back when a statement fails.\<close>

definition or_rollback :: "'w bill_env \<Rightarrow> ('w \<Rightarrow> err option \<times> 'w) \<Rightarrow> (unit, 'w) action \<Rightarrow> (unit, 'w) action" where
  "or_rollback Y m k w = (case m w of (Some e, w') \<Rightarrow> (Inl e, t_rollback Y w') | (None, w') \<Rightarrow> k w')"

definition commit :: "'w bill_env \<Rightarrow> (unit, 'w) action" where
  "commit Y w = (Inr (), t_commit Y w)"

(* src: app/yearBill/database/dao/bill.go:25-35 BillDao.ExistBillByStuNum *)
definition ExistBillByStuNum :: "'w bill_env \<Rightarrow> string \<Rightarrow> (int, 'w) action" where
  "ExistBillByStuNum Y stuNum = q_count_bills Y stuNum"

text \<open>The insertion does not use the transaction; the flag is a column that the table does not have.\<close>

(* src: app/yearBill/database/dao/bill.go:37-59 BillDao.CreateBill *)
definition CreateBill :: "'w bill_env \<Rightarrow> string \<Rightarrow> bill \<Rightarrow> (unit, 'w) action" where
  "CreateBill Y stuNum data w =
     or_rollback Y (q_create_bill Y data) (or_rollback Y (q_flag_user Y stuNum ''bill'') (commit Y)) (t_begin Y w)"

(* src: app/yearBill/database/dao/bill.go:61-71 BillDao.GetBill *)
definition GetBill :: "'w bill_env \<Rightarrow> string \<Rightarrow> (bill list, 'w) action" where
  "GetBill Y stuNum = q_find_bills Y stuNum"

(* src: app/yearBill/database/dao/learn.go:25-35 LearnDao.ExistLearnByStuNum *)
definition ExistLearnByStuNum :: "'w bill_env \<Rightarrow> string \<Rightarrow> (int, 'w) action" where
  "ExistLearnByStuNum Y stuNum = q_count_learns Y stuNum"

(* src: app/yearBill/database/dao/learn.go:37-59 LearnDao.CreateLearn *)
definition CreateLearn :: "'w bill_env \<Rightarrow> string \<Rightarrow> learn \<Rightarrow> (unit, 'w) action" where
  "CreateLearn Y stuNum data w =
     or_rollback Y (q_create_learn Y data) (or_rollback Y (q_flag_user Y stuNum ''learn'') (commit Y)) (t_begin Y w)"

(* src: app/yearBill/database/dao/learn.go:61-71 LearnDao.GetLearn *)
definition GetLearn :: "'w bill_env \<Rightarrow> string \<Rightarrow> (learn list, 'w) action" where
  "GetLearn Y stuNum = q_find_learns Y stuNum"

(* src: app/yearBill/database/dao/book.go:26-36 BookDao.ExistBookByStuNum *)
definition ExistBookByStuNum :: "'w bill_env \<Rightarrow> string \<Rightarrow> (int, 'w) action" where
  "ExistBookByStuNum Y stuNum = q_count_books Y stuNum"

(* src: app/yearBill/database/dao/book.go:38-67 BookDao.CreateBook *)
definition CreateBook :: "'w bill_env \<Rightarrow> string \<Rightarrow> book \<Rightarrow> (unit, 'w) action" where
  "CreateBook Y stuNum data w =
     or_rollback Y (q_create_book Y (data\<lparr> bk_StuNum := stuNum \<rparr>))
       (or_rollback Y (q_flag_user Y stuNum ''book'') (commit Y)) (t_begin Y w)"

(* src: app/yearBill/database/dao/user.go:25-37 UserDao.CreateUser *)
definition bill_CreateUser :: "'w bill_env \<Rightarrow> string \<Rightarrow> (unit, 'w) action" where
  "bill_CreateUser Y stuNum = run_err (q_create_user Y \<lparr> bu_StuNum = stuNum, bu_Init = 0, bu_Appraisal = 0, bu_Rank = 0 \<rparr>)"

(* src: app/yearBill/database/dao/user.go:39-49 UserDao.FindUser *)
definition FindUser :: "'w bill_env \<Rightarrow> string \<Rightarrow> (bill_user list, 'w) action" where
  "FindUser Y stuNum = q_find_users Y stuNum"

(* src: app/yearBill/database/dao/user.go:51-61 UserDao.UpdateAppraisal *)
definition UpdateAppraisal :: "'w bill_env \<Rightarrow> string \<Rightarrow> int \<Rightarrow> (unit, 'w) action" where
  "UpdateAppraisal Y stuNum appraisal = run_err (q_update_appraisal Y stuNum appraisal)"

(* src: app/yearBill/database/dao/user.go:63-91 UserDao.StorageData *)
definition StorageData :: "'w bill_env \<Rightarrow> string \<Rightarrow> int \<Rightarrow> bill \<Rightarrow> learn \<Rightarrow> (unit, 'w) action" where
  "StorageData Y stuNum index b l w =
     or_rollback Y (q_create_bill Y b)
       (or_rollback Y (q_create_learn Y l)
         (or_rollback Y (q_init_user Y stuNum index) (commit Y))) (t_begin Y w)"

section \<open>Cache\<close>

text \<open>An error is logged and the empty string returned, so the interface is never nil.\<close>

(* src: app/yearBill/database/cache/common.go:24-34 RDBCache.GetValue *)
definition bill_GetValue :: "'w bill_env \<Rightarrow> string \<Rightarrow> 'w \<Rightarrow> string option \<times> 'w" where
  "bill_GetValue Y key w = (case h_Get Y key w of (Inl _, w') \<Rightarrow> (Some [], w') | (Inr s, w') \<Rightarrow> (Some s, w'))"

(* src: app/yearBill/database/cache/common.go:36-46 RDBCache.SaveValue *)
definition bill_SaveValue :: "'w bill_env \<Rightarrow> string \<Rightarrow> string \<Rightarrow> duration \<Rightarrow> 'w \<Rightarrow> 'w" where
  "bill_SaveValue Y key val ttl w = snd (h_Set Y key val ttl w)"

(* src: app/yearBill/database/cache/common.go:48-57 RDBCache.IncrValue *)
definition IncrValue :: "'w bill_env \<Rightarrow> string \<Rightarrow> (int, 'w) action" where
  "IncrValue Y key = h_Incr Y key"

(* src: app/yearBill/database/cache/common.go:119-131 RDBCache.SaveLearnData *)
definition SaveLearnData :: "'w bill_env \<Rightarrow> learn_cache \<Rightarrow> string \<Rightarrow> (unit, 'w) action" where
  "SaveLearnData Y data stunum = run_err (h_HSet Y (''data:'' @ stunum) ''learn_data'' (CachedLearn data))"

(* src: app/yearBill/database/cache/common.go:133-145 RDBCache.SavePayData *)
definition SavePayData :: "'w bill_env \<Rightarrow> bill_cache \<Rightarrow> string \<Rightarrow> (unit, 'w) action" where
  "SavePayData Y data stunum = run_err (h_HSet Y (''data:'' @ stunum) ''pay_data'' (CachedPay data))"

definition bad_json :: err where
  "bad_json = ''json: cannot unmarshal''"

(* src: app/yearBill/database/cache/common.go:147-161 RDBCache.GetPayData *)
definition cache_GetPayData :: "'w bill_env \<Rightarrow> string \<Rightarrow> (bill_cache, 'w) action" where
  "cache_GetPayData Y stunum =
     andThen (h_HGet Y (''data:'' @ stunum) ''pay_data'') (\<lambda>c. case c of CachedPay d \<Rightarrow> ret d | _ \<Rightarrow> fail bad_json)"

(* src: app/yearBill/database/cache/common.go:163-177 RDBCache.GetLearnData *)
definition cache_GetLearnData :: "'w bill_env \<Rightarrow> string \<Rightarrow> (learn_cache, 'w) action" where
  "cache_GetLearnData Y stunum =
     andThen (h_HGet Y (''data:'' @ stunum) ''learn_data'') (\<lambda>c. case c of CachedLearn d \<Rightarrow> ret d | _ \<Rightarrow> fail bad_json)"

(* src: app/yearBill/database/cache/common.go:179-191 RDBCache.SaveRank *)
definition SaveRank :: "'w bill_env \<Rightarrow> string \<Rightarrow> rank_cache \<Rightarrow> (unit, 'w) action" where
  "SaveRank Y stuNum data = run_err (h_HSet Y (''data:'' @ stuNum) ''user_data'' (CachedRank data))"

definition no_rank :: rank_cache where
  "no_rank = \<lparr> rc_ID = 0, rc_Appraisal = 0 \<rparr>"

(* src: app/yearBill/database/cache/common.go:193-207 RDBCache.GetRank *)
definition cache_GetRank :: "'w bill_env \<Rightarrow> string \<Rightarrow> 'w \<Rightarrow> rank_cache \<times> 'w" where
  "cache_GetRank Y stuNum w =
     (case h_HGet Y (''data:'' @ stuNum) ''user_data'' w of
        (Inr (CachedRank r), w') \<Rightarrow> (r, w') | (_, w') \<Rightarrow> (no_rank, w'))"

(* src: app/yearBill/database/cache/common.go:209-218 RDBCache.DelRank *)
definition DelRank :: "'w bill_env \<Rightarrow> string \<Rightarrow> 'w \<Rightarrow> 'w" where
  "DelRank Y stuNum w = snd (h_HDel Y (''data:'' @ stuNum) ''user_data'' w)"

text \<open>The certificates are decoded into a value instead of a pointer, which the JSON library refuses.\<close>

(* src: app/yearBill/database/cache/common.go:59-73 RDBCache.GetECardCertificate *)
definition bill_GetECardCertificate :: "'w bill_env \<Rightarrow> string \<Rightarrow> (ecard_certificate, 'w) action" where
  "bill_GetECardCertificate Y stunum =
     andThen (h_HGet Y ''eCardCertificate'' stunum) (\<lambda>_. fail ''json: Unmarshal(non-pointer types.ECardCertificate)'')"

(* src: app/yearBill/database/cache/common.go:75-89 RDBCache.GetJwcCertificate *)
definition bill_GetJwcCertificate :: "'w bill_env \<Rightarrow> string \<Rightarrow> (jwc, 'w) action" where
  "bill_GetJwcCertificate Y stunum =
     andThen (h_HGet Y ''jwcCertificate'' stunum) (\<lambda>_. fail ''json: Unmarshal(non-pointer types.JwcCertificate)'')"

section \<open>Queue\<close>

(* src: app/yearBill/database/mq/producer.go:10-46 Producer *)
definition Producer :: "'w bill_env \<Rightarrow> init_task \<Rightarrow> (unit, 'w) action" where
  "Producer Y task = andThen (run_err (m_declare Y)) (\<lambda>_. run_err (m_publish Y task))"

section \<open>Servers in memory\<close>

text \<open>The tables, the snapshot of an open transaction, the hashes, the counter and the queue.\<close>

record bill_tables =
  bt_bills :: "bill list"
  bt_learns :: "learn list"
  bt_users :: "bill_user list"

record bill_world =
  bw_tables :: bill_tables
  bw_saved :: bill_tables
  bw_hash :: "string \<times> string \<rightharpoonup> cached"
  bw_count :: int
  bw_queue :: "init_task list"

definition empty_bills :: bill_tables where
  "empty_bills = \<lparr> bt_bills = [], bt_learns = [], bt_users = [] \<rparr>"

definition bill_start :: bill_world where
  "bill_start = \<lparr> bw_tables = empty_bills, bw_saved = empty_bills, bw_hash = Map.empty, bw_count = 0, bw_queue = [] \<rparr>"

text \<open>With \<open>broken\<close> the update of the user row fails.\<close>

definition mem_bills :: "bool \<Rightarrow> bill_world school_net \<Rightarrow> (string \<Rightarrow> gotime \<times> int) \<Rightarrow> bill_world bill_env" where
  "mem_bills broken net parse =
     \<lparr>
     q_count_bills = (\<lambda>s w. (Inr (int (length (filter (\<lambda>b. bi_StuNum b = s) (bt_bills (bw_tables w))))), w)),
     q_create_bill = (\<lambda>b w. if \<exists>b' \<in> set (bt_bills (bw_tables w)). bi_StuNum b' = bi_StuNum b
        then (Some ''Duplicate entry'', w) else (None, w\<lparr> bw_tables := (bw_tables w)\<lparr> bt_bills := bt_bills (bw_tables w) @ [b] \<rparr> \<rparr>)),
     q_find_bills = (\<lambda>s w. (Inr (filter (\<lambda>b. bi_StuNum b = s) (bt_bills (bw_tables w))), w)),
     q_count_learns = (\<lambda>s w. (Inr (int (length (filter (\<lambda>b. le_StuNum b = s) (bt_learns (bw_tables w))))), w)),
     q_create_learn = (\<lambda>l w. if \<exists>l' \<in> set (bt_learns (bw_tables w)). le_StuNum l' = le_StuNum l
        then (Some ''Duplicate entry'', w) else (None, w\<lparr> bw_tables := (bw_tables w)\<lparr> bt_learns := bt_learns (bw_tables w) @ [l] \<rparr> \<rparr>)),
     q_find_learns = (\<lambda>s w. (Inr (filter (\<lambda>b. le_StuNum b = s) (bt_learns (bw_tables w))), w)),
     q_count_books = (\<lambda>s w. (Inr 0, w)), q_create_book = (\<lambda>b w. (None, w)),
     q_create_user = (\<lambda>u w. if \<exists>u' \<in> set (bt_users (bw_tables w)). bu_StuNum u' = bu_StuNum u
        then (Some ''Duplicate entry'', w) else (None, w\<lparr> bw_tables := (bw_tables w)\<lparr> bt_users := bt_users (bw_tables w) @ [u] \<rparr> \<rparr>)),
     q_find_users = (\<lambda>s w. (Inr (filter (\<lambda>u. bu_StuNum u = s) (bt_users (bw_tables w))), w)),
     q_update_appraisal = (\<lambda>s n w. (None, w\<lparr> bw_tables := (bw_tables w)\<lparr> bt_users :=
        map (\<lambda>u. if bu_StuNum u = s then u\<lparr> bu_Appraisal := n \<rparr> else u) (bt_users (bw_tables w)) \<rparr> \<rparr>)),
     q_flag_user = (\<lambda>s c w. (Some ''Unknown column'', w)),
     q_init_user = (\<lambda>s n w. if broken then (Some ''Lock wait timeout'', w) else (None, w\<lparr> bw_tables := (bw_tables w)\<lparr> bt_users :=
        map (\<lambda>u. if bu_StuNum u = s then u\<lparr> bu_Init := 1, bu_Rank := n \<rparr> else u) (bt_users (bw_tables w)) \<rparr> \<rparr>)),
     t_begin = (\<lambda>w. w\<lparr> bw_saved := bw_tables w \<rparr>), t_rollback = (\<lambda>w. w\<lparr> bw_tables := bw_saved w \<rparr>), t_commit = (\<lambda>w. w),
     h_Get = (\<lambda>k w. if k = ''count'' \<and> bw_count w \<noteq> 0 then (Inr (itoa (bw_count w)), w) else (Inl redis_missing, w)),
     h_Set = (\<lambda>k v d w. (None, w)),
     h_Incr = (\<lambda>k w. (Inr (bw_count w + 1), w\<lparr> bw_count := bw_count w + 1 \<rparr>)),
     h_HGet = (\<lambda>k f w. (case bw_hash w (k, f) of None \<Rightarrow> Inl redis_missing | Some v \<Rightarrow> Inr v, w)),
     h_HSet = (\<lambda>k f v w. (None, w\<lparr> bw_hash := (bw_hash w)((k, f) \<mapsto> v) \<rparr>)),
     h_HDel = (\<lambda>k f w. (None, w\<lparr> bw_hash := (bw_hash w)((k, f) := None) \<rparr>)),
     m_declare = (\<lambda>w. (None, w)), m_publish = (\<lambda>task w. (None, w\<lparr> bw_queue := bw_queue w @ [task] \<rparr>)),
     ye_net = net, ye_parse = parse \<rparr>"

end
