(* ===== verification/Year_Bill_Stats.thy ===== *)
theory Year_Bill_Stats
  imports Year_Bill_Data
begin

text \<open>
  The statistics of the year bill (\<^verbatim>\<open>src/app/yearBill/script/data.go\<close>): payments with the campus card and
  lessons. Every row is handled by a goroutine of its own that updates shared totals under a mutex; the
  order of the updates is an argument. The arithmetic of \<^verbatim>\<open>decimal\<close> is exact, amounts are real numbers;
  numbers of lessons stay far below the width of \<^verbatim>\<open>int\<close> and are unbounded here.
\<close>

section \<open>Payments\<close>

definition restaurant :: string where
  "restaurant = utf8 [0xE9, 0xA4, 0x90, 0xE5, 0x8E, 0x85]"

definition library :: string where
  "library = utf8 [0xE5, 0x9B, 0xBE, 0xE4, 0xB9, 0xA6, 0xE9, 0xA6, 0x86]"

definition unknown_place :: string where
  "unknown_place = utf8 [0xE6, 0x9C, 0xAA, 0xE7, 0x9F, 0xA5]"

(* src: app/yearBill/types/yearBill.go:18-29 PayData *)
record pay_data =
  pd_Maps :: "string \<rightharpoonup> real"
  pd_BestRestaurant :: string
  pd_RestaurantPay :: real
  pd_EarlyTime :: gotime
  pd_EarlyCount :: int
  pd_LastTime :: gotime
  pd_LastCount :: int
  pd_OtherPay :: real
  pd_LibraryPay :: real

(* src: app/yearBill/script/data.go:48-59 PayDataInit (totals) *)
definition no_payments :: pay_data where
  "no_payments = \<lparr> pd_Maps = Map.empty, pd_BestRestaurant = [], pd_RestaurantPay = 0, pd_EarlyTime = 0,
     pd_EarlyCount = 2 ^ 63 - 1, pd_LastTime = 0, pd_LastCount = 0, pd_OtherPay = 0, pd_LibraryPay = 0 \<rparr>"

text \<open>A payment: the place, the amount that left the card, its time and the second of the day.\<close>

record payment =
  pm_place :: string
  pm_amount :: real
  pm_time :: gotime
  pm_count :: int

text \<open>What a goroutine does before it takes the mutex: rows without time, and incoming money, are ignored.\<close>

(* src: app/yearBill/script/data.go:75-94 PayDataInit (reading a row) *)
definition payment_of :: "(string \<Rightarrow> gotime \<times> int) \<Rightarrow> json \<Rightarrow> err + payment option" where
  "payment_of parse v = map_sum id (\<lambda>m.
     case text_of (m ''OCCTIME'') of
       None \<Rightarrow> None
     | Some timeStr \<Rightarrow>
         (case number_of (m ''TRANAMT'') of
            None \<Rightarrow> None
          | Some x \<Rightarrow>
              if x \<ge> 0 then None
              else Some \<lparr> pm_place = (case text_of (m ''MERCNAME'') of None \<Rightarrow> unknown_place | Some p \<Rightarrow> p),
                          pm_amount = - x, pm_time = fst (parse timeStr), pm_count = snd (parse timeStr) \<rparr>)) (row_object v)"

definition total_at :: "(string \<rightharpoonup> real) \<Rightarrow> string \<Rightarrow> real" where
  "total_at m k = (case m k of None \<Rightarrow> 0 | Some v \<Rightarrow> v)"

(* src: app/yearBill/script/data.go:95-119 PayDataInit (updating the totals) *)
definition add_payment :: "payment \<Rightarrow> pay_data \<Rightarrow> pay_data" where
  "add_payment p pd =
     (let place = pm_place p; cnt = pm_count p;
          maps = (pd_Maps pd)(place \<mapsto> total_at (pd_Maps pd) place + pm_amount p);
          pd1 = pd\<lparr> pd_Maps := maps \<rparr>
      in if strings_Contains place restaurant then
           (let pd2 = pd1\<lparr> pd_RestaurantPay := pd_RestaurantPay pd + pm_amount p \<rparr>;
                pd3 = (if total_at maps place > total_at maps (pd_BestRestaurant pd)
                       then pd2\<lparr> pd_BestRestaurant := place \<rparr> else pd2);
                pd4 = (if cnt > pd_LastCount pd then pd3\<lparr> pd_LastCount := cnt, pd_LastTime := pm_time p \<rparr> else pd3)
            in if cnt < pd_EarlyCount pd then pd4\<lparr> pd_EarlyCount := cnt, pd_EarlyTime := pm_time p \<rparr> else pd4)
         else if strings_Contains place library then pd1\<lparr> pd_LibraryPay := pd_LibraryPay pd + pm_amount p \<rparr>
         else pd1\<lparr> pd_OtherPay := pd_OtherPay pd + pm_amount p \<rparr>)"

record pay_response =
  pp_Flag :: int
  pp_FavoriteRestaurant :: string
  pp_FavoriteRestaurantPay :: real
  pp_EarlyTime :: "gotime option"
  pp_LastTime :: "gotime option"
  pp_OtherPay :: real
  pp_RestaurantPay :: real
  pp_LibraryPay :: real

definition empty_pay :: pay_response where
  "empty_pay = \<lparr> pp_Flag = 0, pp_FavoriteRestaurant = [], pp_FavoriteRestaurantPay = 0, pp_EarlyTime = None,
     pp_LastTime = None, pp_OtherPay = 0, pp_RestaurantPay = 0, pp_LibraryPay = 0 \<rparr>"

(* src: app/yearBill/script/data.go:126-135 PayDataInit (response) *)
definition pay_summary :: "pay_data \<Rightarrow> pay_response" where
  "pay_summary pd =
     \<lparr> pp_Flag = 1, pp_FavoriteRestaurant = TrimSpace (pd_BestRestaurant pd),
       pp_FavoriteRestaurantPay = total_at (pd_Maps pd) (pd_BestRestaurant pd), pp_EarlyTime = Some (pd_EarlyTime pd),
       pp_LastTime = Some (pd_LastTime pd), pp_OtherPay = pd_OtherPay pd, pp_RestaurantPay = pd_RestaurantPay pd,
       pp_LibraryPay = pd_LibraryPay pd \<rparr>"

text \<open>
  The goroutines of the pages: a page that cannot be fetched is left out. \<open>ord_pages\<close> is the order of the
  requests, \<open>ord_rows\<close> the order in which the goroutines of all rows reach the mutex.
\<close>

(* src: app/yearBill/script/data.go:63-74 PayDataInit (one page) *)
fun fetch_pages :: "'w school_net \<Rightarrow> ecard \<Rightarrow> string \<Rightarrow> int list \<Rightarrow> (json list, 'w) action" where
  "fetch_pages N eCard account [] = ret []"
| "fetch_pages N eCard account (i # is) = (\<lambda>w.
     case GetPay N eCard account (itoa i) w of
       (Inl e, w') \<Rightarrow> if is_panic e then (Inl e, w') else fetch_pages N eCard account is w'
     | (Inr payInfo, w') \<Rightarrow>
         andThen (asserted (array_of (payInfo ''rows''))) (\<lambda>rows.
         andThen (fetch_pages N eCard account is) (\<lambda>more. ret (rows @ more))) w')"

(* src: app/yearBill/script/data.go:40-40 PayDataInit (account) *)
definition account_of :: "(string \<rightharpoonup> json) \<Rightarrow> (string, 'w) action" where
  "account_of cardInfo =
     andThen (asserted (object_of (cardInfo ''query_card''))) (\<lambda>q.
     andThen (asserted (array_of (q ''card''))) (\<lambda>cards.
       case cards of
         [] \<Rightarrow> fail ''runtime error: index out of range''
       | c # _ \<Rightarrow> andThen (asserted (object_of (Some c))) (\<lambda>m. asserted (text_of (m ''account'')))))"

definition known_payments :: "(string \<Rightarrow> gotime \<times> int) \<Rightarrow> json list \<Rightarrow> err + payment list" where
  "known_payments parse rows = map_sum id (List.map_filter (\<lambda>x. x)) (collect (payment_of parse) rows)"

text \<open>
  The response comes with the error: a failed request leaves the empty response. No response at all
  stands for a panic.
\<close>

definition or_stop :: "('a, 'w) action \<Rightarrow> 'r \<Rightarrow> ('a \<Rightarrow> ('r, 'w) handler) \<Rightarrow> ('r, 'w) handler" where
  "or_stop m resp k w =
     (case m w of (Inl e, w') \<Rightarrow> ((if is_panic e then None else Some resp, Some e), w') | (Inr x, w') \<Rightarrow> k x w')"


(* src: app/yearBill/script/data.go:22-137 PayDataInit *)
definition PayDataInit ::
  "'w bill_env \<Rightarrow> int range_order \<Rightarrow> json range_order \<Rightarrow> string \<Rightarrow> string \<Rightarrow> (pay_response, 'w) handler" where
  "PayDataInit Y ord_pages ord_rows stuNum hallTicket =
     or_stop (ExistBillByStuNum Y stuNum) empty_pay (\<lambda>cnt.
       if cnt \<noteq> 0 then reply (Some (empty_pay\<lparr> pp_Flag := 1 \<rparr>)) None
       else
         (let N = ye_net Y; eCard = \<lparr> card_HallTicket = hallTicket, card_JsSessionId = [] \<rparr> in
          or_stop (GetCardInfo N eCard) empty_pay (\<lambda>cardInfo.
          or_stop (account_of cardInfo) empty_pay (\<lambda>account.
          or_stop (GetPay N eCard account (itoa 1)) empty_pay (\<lambda>payInfo.
          or_stop (asserted (number_of (payInfo ''total''))) empty_pay (\<lambda>total.
            let task = go_trunc (total / 15) + 1 in
            if task < 0 then reply None (Some ''panic: sync: negative WaitGroup counter'')
            else or_stop (fetch_pages N eCard account (ord_pages [1..task])) empty_pay (\<lambda>rows.
                 case known_payments (ye_parse Y) (ord_rows rows) of
                   Inl e \<Rightarrow> reply None (Some e)
                 | Inr ps \<Rightarrow> reply (Some (pay_summary (fold add_payment ps no_payments))) None)))))))"

(* src: app/yearBill/script/data.go:140-162 BookDataInit *)
definition BookDataInit :: "'w bill_env \<Rightarrow> string \<Rightarrow> string \<Rightarrow> (int, 'w) handler" where
  "BookDataInit Y stuNum jsSessionid =
     or_stop (ExistBookByStuNum Y stuNum) 0 (\<lambda>cnt.
       if cnt \<noteq> 0 then reply (Some 1) None
       else or_stop (GetBook (ye_net Y) \<lparr> card_HallTicket = [], card_JsSessionId = jsSessionid \<rparr> ''1'') 0 (\<lambda>_.
         reply (Some 0) None))"

section \<open>Lessons\<close>

(* src: app/yearBill/types/yearBill.go:31-39 LearnData *)
record learn_data =
  ld_LearnSum :: "string \<rightharpoonup> int"
  ld_MostCourse :: string
  ld_Most :: int
  ld_Eight :: int
  ld_Ten :: int
  ld_Sum :: int

definition no_lessons :: learn_data where
  "no_lessons = \<lparr> ld_LearnSum = Map.empty, ld_MostCourse = [], ld_Most = 0, ld_Eight = 0, ld_Ten = 0, ld_Sum = 0 \<rparr>"

text \<open>The weeks of a course are written like \<open>1-16\<close> and a unit; only the first range counts.\<close>

(* src: app/yearBill/script/data.go:233-254 LearnDataInit (weeks) *)
definition week_range :: "string \<Rightarrow> err + (int \<times> int)" where
  "week_range teachWeek =
     (let j = length (takeWhile (\<lambda>c. c \<noteq> CHR ''-'') teachWeek) in
      if j = length teachWeek then Inr (0, 0)
      else case Atoi (take j teachWeek) of
        Inl e \<Rightarrow> Inl e
      | Inr startWeek \<Rightarrow>
          (case slice teachWeek (int j + 2) (int j + 3) of
             Inl e \<Rightarrow> Inl e
           | Inr digit \<Rightarrow>
               (case slice teachWeek (int j + 1) (int j + (if list_all is_digit digit then 3 else 2)) of
                  Inl e \<Rightarrow> Inl e
                | Inr weeks \<Rightarrow> (case Atoi weeks of Inl e \<Rightarrow> Inl e | Inr endWeek \<Rightarrow> Inr (startWeek, endWeek)))))"

text \<open>The number inside a period like \<open>(3 bytes) 1 (3 bytes)\<close>; a text of less than six bytes panics.\<close>

(* src: app/yearBill/script/data.go:255-256 LearnDataInit (periods) *)
definition period_number :: "string \<Rightarrow> err + int" where
  "period_number s = map_sum id Atoi_value (slice s 3 (int (length s) - 3))"

record lesson_row =
  lr_course :: string
  lr_begin :: int
  lr_end :: int
  lr_weeks :: int

text \<open>\<open>None\<close>: the weeks are no numbers and the row is skipped.\<close>

(* src: app/yearBill/script/data.go:205-257 LearnDataInit (reading a row) *)
definition lesson_row_of :: "json \<Rightarrow> err + lesson_row option" where
  "lesson_row_of v =
     (case lesson_of v of
        Inl e \<Rightarrow> Inl e
      | Inr l \<Rightarrow>
          (case week_range (ls_TeachWeek l) of
             Inl e \<Rightarrow> if is_panic e then Inl e else Inr None
           | Inr (startWeek, endWeek) \<Rightarrow>
               (case period_number (ls_BeginTime l) of
                  Inl e \<Rightarrow> Inl e
                | Inr b \<Rightarrow>
                    (case period_number (ls_EndTime l) of
                       Inl e \<Rightarrow> Inl e
                     | Inr e \<Rightarrow> Inr (Some \<lparr> lr_course = ls_LessonName l, lr_begin = b, lr_end = e,
                                            lr_weeks = endWeek - startWeek + 1 \<rparr>)))))"

definition lessons_in :: "lesson_row \<Rightarrow> int" where
  "lessons_in r = (lr_end r - lr_begin r + 1) * lr_weeks r"

definition sum_at :: "(string \<rightharpoonup> int) \<Rightarrow> string \<Rightarrow> int" where
  "sum_at m k = (case m k of None \<Rightarrow> 0 | Some v \<Rightarrow> v)"

text \<open>The lessons of a course are set, not added up.\<close>

(* src: app/yearBill/script/data.go:258-271 LearnDataInit (updating the totals) *)
definition add_lesson :: "lesson_row \<Rightarrow> learn_data \<Rightarrow> learn_data" where
  "add_lesson r ld =
     (let tbl = (ld_LearnSum ld)(lr_course r \<mapsto> lessons_in r);
          ld1 = ld\<lparr> ld_LearnSum := tbl \<rparr>;
          ld2 = (if lessons_in r > sum_at tbl (ld_MostCourse ld)
                 then ld1\<lparr> ld_MostCourse := lr_course r, ld_Most := lessons_in r \<rparr> else ld1)
      in ld2\<lparr> ld_Sum := ld_Sum ld + lessons_in r,
              ld_Eight := ld_Eight ld + (if lr_begin r = 1 then lr_weeks r else 0),
              ld_Ten := ld_Ten ld + (if lr_end r = 13 then lr_weeks r else 0) \<rparr>)"

record learn_response =
  lp_Flag :: int
  lp_MostCourse :: string
  lp_Eight :: int
  lp_Ten :: int
  lp_Most :: int
  lp_SumLesson :: int

definition empty_learn :: learn_response where
  "empty_learn = \<lparr> lp_Flag = 0, lp_MostCourse = [], lp_Eight = 0, lp_Ten = 0, lp_Most = 0, lp_SumLesson = 0 \<rparr>"

(* src: app/yearBill/script/data.go:278-285 LearnDataInit (response) *)
definition learn_summary :: "learn_data \<Rightarrow> learn_response" where
  "learn_summary ld = \<lparr> lp_Flag = 1, lp_MostCourse = ld_MostCourse ld, lp_Eight = ld_Eight ld, lp_Ten = ld_Ten ld,
     lp_Most = ld_Most ld, lp_SumLesson = ld_Sum ld \<rparr>"

(* src: app/yearBill/script/data.go:189-204 LearnDataInit (terms) *)
fun fetch_terms :: "'w school_net \<Rightarrow> jwc \<Rightarrow> string list \<Rightarrow> (json list, 'w) action" where
  "fetch_terms N j [] = ret []"
| "fetch_terms N j (s # ss) = (\<lambda>w.
     case GetSchedule N j s w of
       (Inl e, w') \<Rightarrow> if is_panic e then (Inl e, w') else fetch_terms N j ss w'
     | (Inr rows, w') \<Rightarrow> andThen (fetch_terms N j ss) (\<lambda>more. ret (rows @ more)) w')"

definition known_lessons :: "json list \<Rightarrow> err + lesson_row list" where
  "known_lessons rows = map_sum id (List.map_filter (\<lambda>x. x)) (collect lesson_row_of rows)"

(* src: app/yearBill/script/data.go:165-287 LearnDataInit *)
definition LearnDataInit ::
  "'w bill_env \<Rightarrow> string range_order \<Rightarrow> json range_order \<Rightarrow> string \<Rightarrow> jwc \<Rightarrow> (learn_response, 'w) handler" where
  "LearnDataInit Y ord_terms ord_rows stuNum j =
     or_stop (ExistLearnByStuNum Y stuNum) empty_learn (\<lambda>cnt.
       if cnt \<noteq> 0 then reply (Some (empty_learn\<lparr> lp_Flag := 1 \<rparr>)) None
       else or_stop (fetch_terms (ye_net Y) j (ord_terms [''2023-2024-1'', ''2022-2023-2''])) empty_learn (\<lambda>rows.
         case known_lessons (ord_rows rows) of
           Inl e \<Rightarrow> reply None (Some e)
         | Inr ls \<Rightarrow> reply (Some (learn_summary (fold add_lesson ls no_lessons))) None))"

section \<open>Properties\<close>

subsection \<open>Payments\<close>

definition spent :: "(payment \<Rightarrow> bool) \<Rightarrow> payment list \<Rightarrow> real" where
  "spent P ps = sum_list (map pm_amount (filter P ps))"

definition at_restaurant :: "payment \<Rightarrow> bool" where
  "at_restaurant p = strings_Contains (pm_place p) restaurant"

definition at_library :: "payment \<Rightarrow> bool" where
  "at_library p \<longleftrightarrow> \<not> at_restaurant p \<and> strings_Contains (pm_place p) library"

definition elsewhere :: "payment \<Rightarrow> bool" where
  "elsewhere p \<longleftrightarrow> \<not> at_restaurant p \<and> \<not> at_library p"

lemma spent_simps [simp]:
  "spent P [] = 0" "spent P (ps @ qs) = spent P ps + spent P qs"
  "spent P [p] = (if P p then pm_amount p else 0)"
  by (simp_all add: spent_def)

lemma spent_mset: "mset ps = mset qs \<Longrightarrow> spent P ps = spent P qs"
  unfolding spent_def by (metis mset_filter mset_map sum_mset_sum_list)

lemma spent_nonneg: "\<forall>p \<in> set ps. 0 \<le> pm_amount p \<Longrightarrow> 0 \<le> spent P ps"
  unfolding spent_def by (rule sum_list_nonneg) auto

lemma add_payment_fields:
  "total_at (pd_Maps (add_payment p pd)) k = total_at (pd_Maps pd) k + (if k = pm_place p then pm_amount p else 0)"
  "pd_BestRestaurant (add_payment p pd) =
     (if at_restaurant p \<and> total_at (pd_Maps (add_payment p pd)) (pm_place p) > total_at (pd_Maps (add_payment p pd)) (pd_BestRestaurant pd)
      then pm_place p else pd_BestRestaurant pd)"
  "pd_RestaurantPay (add_payment p pd) = pd_RestaurantPay pd + (if at_restaurant p then pm_amount p else 0)"
  "pd_LibraryPay (add_payment p pd) = pd_LibraryPay pd + (if at_library p then pm_amount p else 0)"
  "pd_OtherPay (add_payment p pd) = pd_OtherPay pd + (if elsewhere p then pm_amount p else 0)"
  "pd_LastCount (add_payment p pd) = (if at_restaurant p \<and> pd_LastCount pd < pm_count p then pm_count p else pd_LastCount pd)"
  "pd_LastTime (add_payment p pd) = (if at_restaurant p \<and> pd_LastCount pd < pm_count p then pm_time p else pd_LastTime pd)"
  "pd_EarlyCount (add_payment p pd) = (if at_restaurant p \<and> pm_count p < pd_EarlyCount pd then pm_count p else pd_EarlyCount pd)"
  "pd_EarlyTime (add_payment p pd) = (if at_restaurant p \<and> pm_count p < pd_EarlyCount pd then pm_time p else pd_EarlyTime pd)"
  by (simp_all add: add_payment_def Let_def at_restaurant_def at_library_def elsewhere_def total_at_def)

text \<open>The totals after the payments \<open>ps\<close>, by induction on the last one.\<close>

abbreviation after :: "payment list \<Rightarrow> pay_data" where
  "after ps \<equiv> fold add_payment ps no_payments"

lemma after_maps: "total_at (pd_Maps (after ps)) k = spent (\<lambda>p. pm_place p = k) ps"
  by (induction ps rule: rev_induct) (simp_all add: add_payment_fields no_payments_def [THEN arg_cong [of _ _ pd_Maps]] total_at_def [of Map.empty])

lemma after_sums:
  "pd_RestaurantPay (after ps) = spent at_restaurant ps"
  "pd_LibraryPay (after ps) = spent at_library ps"
  "pd_OtherPay (after ps) = spent elsewhere ps"
  by (induction ps rule: rev_induct)
     (auto simp: add_payment_fields no_payments_def)

lemma after_best_known: "pd_BestRestaurant (after ps) = [] \<or> (\<exists>p \<in> set ps. at_restaurant p \<and> pm_place p = pd_BestRestaurant (after ps))"
  by (induction ps rule: rev_induct) (auto simp: add_payment_fields no_payments_def)

lemma after_best_max:
  assumes "\<forall>p \<in> set ps. 0 < pm_amount p" and "p \<in> set ps" and "at_restaurant p"
  shows "spent (\<lambda>q. pm_place q = pm_place p) ps \<le> total_at (pd_Maps (after ps)) (pd_BestRestaurant (after ps))"
  using assms
proof (induction ps rule: rev_induct)
  case (snoc q ps)
  let ?pd = "after ps"
  have amounts: "\<forall>p \<in> set ps. 0 < pm_amount p" "0 < pm_amount q" using snoc.prems(1) by auto
  have old: "spent (\<lambda>r. pm_place r = pm_place p) ps \<le> total_at (pd_Maps ?pd) (pd_BestRestaurant ?pd)" if "p \<in> set ps"
    using snoc.IH [OF amounts(1) that snoc.prems(3)] .
  show ?case
  proof (cases "p \<in> set ps \<and> pm_place q \<noteq> pm_place p")
    case True
    with old amounts(2) show ?thesis by (auto simp: add_payment_fields)
  next
    case False
    with snoc.prems(2) have eq: "pm_place q = pm_place p" by auto
    with snoc.prems(3) have "at_restaurant q" by (simp add: at_restaurant_def)
    with eq show ?thesis by (auto simp: add_payment_fields after_maps)
  qed
qed simp

lemma after_last:
  assumes "\<exists>p \<in> set ps. at_restaurant p \<and> 0 < pm_count p"
  shows "\<exists>p \<in> set ps. at_restaurant p \<and> pd_LastTime (after ps) = pm_time p \<and> pd_LastCount (after ps) = pm_count p
    \<and> (\<forall>q \<in> set ps. at_restaurant q \<longrightarrow> pm_count q \<le> pm_count p)"
proof -
  have "(pd_LastCount (after ps) = 0 \<and> (\<forall>q \<in> set ps. at_restaurant q \<longrightarrow> pm_count q \<le> 0))
    \<or> (\<exists>p \<in> set ps. at_restaurant p \<and> pd_LastTime (after ps) = pm_time p \<and> pd_LastCount (after ps) = pm_count p
        \<and> 0 < pm_count p \<and> (\<forall>q \<in> set ps. at_restaurant q \<longrightarrow> pm_count q \<le> pm_count p))"
  proof (induction ps rule: rev_induct)
    case (snoc q ps)
    show ?case
    proof (cases "at_restaurant q \<and> pd_LastCount (after ps) < pm_count q")
      case True
      with snoc show ?thesis by (auto simp: add_payment_fields)
    next
      case False
      then have "pd_LastCount (after (ps @ [q])) = pd_LastCount (after ps)" "pd_LastTime (after (ps @ [q])) = pd_LastTime (after ps)"
        by (auto simp: add_payment_fields)
      with snoc False show ?thesis by auto
    qed
  qed (simp add: no_payments_def)
  with assms show ?thesis by force
qed

lemma after_early:
  assumes "\<exists>p \<in> set ps. at_restaurant p" and "\<forall>p \<in> set ps. pm_count p < 2 ^ 63 - 1"
  shows "\<exists>p \<in> set ps. at_restaurant p \<and> pd_EarlyTime (after ps) = pm_time p
    \<and> (\<forall>q \<in> set ps. at_restaurant q \<longrightarrow> pm_count p \<le> pm_count q)"
proof -
  have "(pd_EarlyCount (after ps) = 2 ^ 63 - 1 \<and> (\<forall>q \<in> set ps. \<not> at_restaurant q))
    \<or> (\<exists>p \<in> set ps. at_restaurant p \<and> pd_EarlyTime (after ps) = pm_time p \<and> pd_EarlyCount (after ps) = pm_count p
        \<and> (\<forall>q \<in> set ps. at_restaurant q \<longrightarrow> pm_count p \<le> pm_count q))"
    using assms(2)
  proof (induction ps rule: rev_induct)
    case (snoc q ps)
    then have IH: "(pd_EarlyCount (after ps) = 2 ^ 63 - 1 \<and> (\<forall>q \<in> set ps. \<not> at_restaurant q))
      \<or> (\<exists>p \<in> set ps. at_restaurant p \<and> pd_EarlyTime (after ps) = pm_time p \<and> pd_EarlyCount (after ps) = pm_count p
        \<and> (\<forall>q \<in> set ps. at_restaurant q \<longrightarrow> pm_count p \<le> pm_count q))" and "pm_count q < 2 ^ 63 - 1" by auto
    show ?case
    proof (cases "at_restaurant q \<and> pm_count q < pd_EarlyCount (after ps)")
      case True
      with IH show ?thesis by (auto simp: add_payment_fields)
    next
      case False
      then have "pd_EarlyCount (after (ps @ [q])) = pd_EarlyCount (after ps)" "pd_EarlyTime (after (ps @ [q])) = pd_EarlyTime (after ps)"
        by (auto simp: add_payment_fields)
      with IH False \<open>pm_count q < 2 ^ 63 - 1\<close> show ?thesis by auto
    qed
  qed (simp add: no_payments_def)
  with assms(1) show ?thesis by blast
qed

lemma collect_perm:
  assumes "collect f xs = Inr ys" and "mset xs = mset xs'"
  shows "\<exists>ys'. collect f xs' = Inr ys' \<and> mset ys' = mset ys"
proof -
  have v: "map f xs = map Inr ys" by (rule collect_values [OF assms(1)])
  have "\<forall>x \<in> set xs. f x = Inr (projr (f x))"
  proof
    fix x assume "x \<in> set xs"
    then have "f x \<in> set (map Inr ys)" using v [symmetric] by simp
    then obtain y where "f x = Inr y" by auto
    then show "f x = Inr (projr (f x))" by simp
  qed
  then have "\<forall>x \<in> set xs'. f x = Inr (projr (f x))" using mset_eq_setD [OF assms(2)] by blast
  then have c: "collect f xs' = Inr (map (\<lambda>x. projr (f x)) xs')" by (rule collect_total)
  from v have "map projr (map f xs) = map projr (map Inr ys)" by simp
  then have "ys = map (\<lambda>x. projr (f x)) xs" by (simp add: comp_def)
  then have "mset (map (\<lambda>x. projr (f x)) xs') = mset ys" using assms(2) by simp
  with c show ?thesis by blast
qed

lemma map_filter_mset: "mset xs = mset ys \<Longrightarrow> mset (List.map_filter f xs) = mset (List.map_filter f ys)"
  by (simp add: List.map_filter_def mset_filter)

lemma known_payments_perm:
  assumes "known_payments parse rows = Inr ps" and "is_range_order ord"
  shows "\<exists>qs. known_payments parse (ord rows) = Inr qs \<and> mset qs = mset ps"
proof -
  from assms(1) obtain xs where c: "collect (payment_of parse) rows = Inr xs" and ps: "ps = List.map_filter (\<lambda>x. x) xs"
    by (cases "collect (payment_of parse) rows") (auto simp: known_payments_def)
  from collect_perm [OF c, of "ord rows"] range_order_mset [OF assms(2)]
  obtain ys where "collect (payment_of parse) (ord rows) = Inr ys" "mset ys = mset xs" by auto
  with ps map_filter_mset [of ys xs] show ?thesis by (auto simp: known_payments_def)
qed

lemma payment_of_positive: "payment_of parse v = Inr (Some p) \<Longrightarrow> 0 < pm_amount p"
  by (auto simp: payment_of_def row_object_def split: option.splits if_splits)

lemma known_payments_positive:
  assumes "known_payments parse rows = Inr ps" and "p \<in> set ps"
  shows "0 < pm_amount p"
proof -
  from assms(1) obtain xs where c: "collect (payment_of parse) rows = Inr xs" and ps: "ps = List.map_filter (\<lambda>x. x) xs"
    by (cases "collect (payment_of parse) rows") (auto simp: known_payments_def)
  from assms(2) ps have "Some p \<in> set xs" by (auto simp: List.map_filter_def)
  then have "Inr (Some p) \<in> set (map (payment_of parse) rows)" using collect_values [OF c] by auto
  then obtain v where "payment_of parse v = Inr (Some p)" by auto
  then show ?thesis by (rule payment_of_positive)
qed

lemma or_stop_value: "m w = (Inr x, w') \<Longrightarrow> or_stop m r k w = k x w'"
  by (simp add: or_stop_def)

text \<open>A run of \<^verbatim>\<open>PayDataInit\<close> whose requests are answered.\<close>

lemma PayDataInit_run:
  assumes "ExistBillByStuNum Y stuNum w = (Inr 0, w1)"
    and "GetCardInfo (ye_net Y) \<lparr> card_HallTicket = hall, card_JsSessionId = [] \<rparr> w1 = (Inr cardInfo, w2)"
    and "account_of cardInfo w2 = (Inr account, w3)"
    and "GetPay (ye_net Y) \<lparr> card_HallTicket = hall, card_JsSessionId = [] \<rparr> account (itoa 1) w3 = (Inr payInfo, w4)"
    and "payInfo ''total'' = Some (JNumber amount)" and "0 \<le> amount"
    and "fetch_pages (ye_net Y) \<lparr> card_HallTicket = hall, card_JsSessionId = [] \<rparr> account
           (ord_pages [1..go_trunc (amount / 15) + 1]) w4 = (Inr rows, w5)"
    and "known_payments (ye_parse Y) (ord_rows rows) = Inr ps"
  shows "PayDataInit Y ord_pages ord_rows stuNum hall w = ((Some (pay_summary (after ps)), None), w5)"
proof -
  have t: "\<not> go_trunc (amount / 15) + 1 < 0" using go_trunc_nonneg [of "amount / 15"] assms(6) by simp
  then show ?thesis using assms by (simp add: PayDataInit_def or_stop_def reply_def Let_def)
qed


text \<open>Four payments of one student, read from one page in reverse order.\<close>

definition canteen :: string where
  "canteen = CHR ''A'' # restaurant"

definition pay_row :: "string \<Rightarrow> string \<Rightarrow> real \<Rightarrow> json" where
  "pay_row time place x = JObject [(''OCCTIME'', JString time), (''MERCNAME'', JString place), (''TRANAMT'', JNumber x)]"

definition demo_payments :: "json list" where
  "demo_payments = [pay_row ''noon'' canteen (-12), pay_row ''night'' canteen (-8), pay_row ''noon'' library (-3), pay_row ''noon'' ''bank'' 100]"

definition demo_net :: "'w school_net" where
  "demo_net = \<lparr> net_post = (\<lambda>u b w. (Inr (case u of Card_URL \<Rightarrow> ''card'' | Schedule_URL \<Rightarrow> ''rows'' | _ \<Rightarrow> ''pay''), w)),
     net_json = (\<lambda>s. Inr (if s = ''card'' then [''data'' \<mapsto> JObject [(''Msg'', JString ''msg'')]]
       else if s = ''msg'' then [''query_card'' \<mapsto> JObject [(''card'', JArray [JObject [(''account'', JString ''77'')]])]]
       else if s = ''rows'' then [''data'' \<mapsto> JArray []] else [''data'' \<mapsto> JObject [(''total'', JNumber 4), (''rows'', JArray demo_payments)]])) \<rparr>"

definition demo_parse :: "string \<Rightarrow> gotime \<times> int" where
  "demo_parse s = (if s = ''noon'' then (1000, 43200) else (2000, 72000))"

lemma demo_requests:
  "GetCardInfo demo_net c w = (Inr [''query_card'' \<mapsto> JObject [(''card'', JArray [JObject [(''account'', JString ''77'')]])]], w)"
  "account_of [''query_card'' \<mapsto> JObject [(''card'', JArray [JObject [(''account'', JString ''77'')]])]] w = (Inr ''77'', w)"
  "GetPay demo_net c a p w = (Inr (map_of [(''total'', JNumber 4), (''rows'', JArray demo_payments)]), w)"
  by (simp_all add: GetCardInfo_def GetPay_def account_of_def demo_net_def andThen_def decoded_def JSONToMap_def)

lemma demo_places: "strings_Contains canteen restaurant" "\<not> strings_Contains library restaurant"
  by (simp_all add: canteen_def restaurant_def library_def utf8_def strings_HasPrefix_def)

lemma library_self: "strings_Contains library library"
  unfolding strings_Contains_iff by (metis append_Nil append_Nil2)

lemma demo_known:
  "known_payments demo_parse demo_payments = Inr
     [\<lparr> pm_place = canteen, pm_amount = 12, pm_time = 1000, pm_count = 43200 \<rparr>,
      \<lparr> pm_place = canteen, pm_amount = 8, pm_time = 2000, pm_count = 72000 \<rparr>,
      \<lparr> pm_place = library, pm_amount = 3, pm_time = 1000, pm_count = 43200 \<rparr>]"
  by (simp add: known_payments_def demo_payments_def pay_row_def payment_of_def row_object_def demo_parse_def List.map_filter_def)

lemma demo_pay_run:
  assumes "q_count_bills Y s w = (Inr 0, w)" and "ye_net Y = demo_net" and "ye_parse Y = demo_parse"
  shows "\<exists>r. PayDataInit Y (\<lambda>xs. xs) rev s h w = ((Some r, None), w)"
proof -
  have "\<lfloor>4 / 15 :: real\<rfloor> = 0" by simp
  then have f: "fetch_pages (ye_net Y) c ''77'' [1..go_trunc (4 / 15) + 1] w = (Inr demo_payments, w)" for c
    by (simp add: assms(2) go_trunc_def demo_requests andThen_def)
  obtain ps where k: "known_payments (ye_parse Y) (rev demo_payments) = Inr ps"
    using known_payments_perm [OF demo_known range_order_rev] assms(3) by auto
  have e: "ExistBillByStuNum Y s w = (Inr 0, w)" by (simp add: ExistBillByStuNum_def assms(1))
  have c: "GetCardInfo (ye_net Y) \<lparr> card_HallTicket = h, card_JsSessionId = [] \<rparr> w
      = (Inr [''query_card'' \<mapsto> JObject [(''card'', JArray [JObject [(''account'', JString ''77'')]])]], w)"
    and g: "GetPay (ye_net Y) \<lparr> card_HallTicket = h, card_JsSessionId = [] \<rparr> ''77'' (itoa 1) w
      = (Inr (map_of [(''total'', JNumber 4), (''rows'', JArray demo_payments)]), w)"
    by (simp_all only: assms(2) demo_requests)
  have t: "map_of [(''total'', JNumber 4), (''rows'', JArray demo_payments)] ''total'' = Some (JNumber 4)" and four: "(0 :: real) \<le> 4" by simp_all
  show ?thesis
    using PayDataInit_run [where ord_pages = "\<lambda>xs. xs" and ord_rows = rev and Y = Y, OF e c demo_requests(2) g t four f k] by blast
qed


subsection \<open>Lessons\<close>

abbreviation taught :: "lesson_row list \<Rightarrow> learn_data" where
  "taught ls \<equiv> fold add_lesson ls no_lessons"

lemma add_lesson_fields:
  "sum_at (ld_LearnSum (add_lesson r ld)) k = (if k = lr_course r then lessons_in r else sum_at (ld_LearnSum ld) k)"
  "ld_MostCourse (add_lesson r ld) =
     (if sum_at (ld_LearnSum (add_lesson r ld)) (ld_MostCourse ld) < lessons_in r then lr_course r else ld_MostCourse ld)"
  "ld_Most (add_lesson r ld) =
     (if sum_at (ld_LearnSum (add_lesson r ld)) (ld_MostCourse ld) < lessons_in r then lessons_in r else ld_Most ld)"
  "ld_Sum (add_lesson r ld) = ld_Sum ld + lessons_in r"
  "ld_Eight (add_lesson r ld) = ld_Eight ld + (if lr_begin r = 1 then lr_weeks r else 0)"
  "ld_Ten (add_lesson r ld) = ld_Ten ld + (if lr_end r = 13 then lr_weeks r else 0)"
  by (simp_all add: add_lesson_def Let_def sum_at_def)

lemma no_lessons_fields:
  "sum_at (ld_LearnSum no_lessons) k = 0" "ld_MostCourse no_lessons = []" "ld_Most no_lessons = 0"
  "ld_Sum no_lessons = 0" "ld_Eight no_lessons = 0" "ld_Ten no_lessons = 0"
  by (simp_all add: no_lessons_def sum_at_def)

lemma taught_totals:
  "ld_Sum (taught ls) = sum_list (map lessons_in ls)"
  "ld_Eight (taught ls) = sum_list (map lr_weeks (filter (\<lambda>r. lr_begin r = 1) ls))"
  "ld_Ten (taught ls) = sum_list (map lr_weeks (filter (\<lambda>r. lr_end r = 13) ls))"
  by (induction ls rule: rev_induct) (simp_all add: add_lesson_fields no_lessons_fields)

lemma sum_filter_mset: "mset xs = mset ys \<Longrightarrow> sum_list (map f (filter P xs)) = sum_list (map f (filter P ys) :: int list)"
  by (metis mset_filter mset_map sum_mset_sum_list)

lemma taught_sum: "sum_at (ld_LearnSum (taught ls)) k = 0" if "k \<notin> lr_course ` set ls"
  using that by (induction ls rule: rev_induct) (auto simp: add_lesson_fields no_lessons_fields)

text \<open>With one row for each course the favourite is a course with the most lessons.\<close>

lemma taught_most:
  assumes "distinct (map lr_course ls)" and "\<forall>r \<in> set ls. lr_course r \<noteq> [] \<and> 0 < lessons_in r"
  shows "sum_at (ld_LearnSum (taught ls)) (ld_MostCourse (taught ls)) = ld_Most (taught ls)
    \<and> (ld_MostCourse (taught ls) = [] \<or> ld_MostCourse (taught ls) \<in> lr_course ` set ls)
    \<and> (\<forall>r \<in> set ls. lessons_in r \<le> ld_Most (taught ls))"
  using assms
proof (induction ls rule: rev_induct)
  case (snoc r ls)
  then have IH: "sum_at (ld_LearnSum (taught ls)) (ld_MostCourse (taught ls)) = ld_Most (taught ls)"
      "ld_MostCourse (taught ls) = [] \<or> ld_MostCourse (taught ls) \<in> lr_course ` set ls"
      "\<forall>r \<in> set ls. lessons_in r \<le> ld_Most (taught ls)" by simp_all
  have "lr_course r \<noteq> ld_MostCourse (taught ls)" using IH(2) snoc.prems by auto
  with IH show ?case by (auto simp: add_lesson_fields)
qed (simp add: no_lessons_fields)

lemma known_lessons_perm:
  assumes "known_lessons rows = Inr ls" and "is_range_order ord"
  shows "\<exists>ks. known_lessons (ord rows) = Inr ks \<and> mset ks = mset ls"
proof -
  from assms(1) obtain xs where c: "collect lesson_row_of rows = Inr xs" and ls: "ls = List.map_filter (\<lambda>x. x) xs"
    by (cases "collect lesson_row_of rows") (auto simp: known_lessons_def)
  from collect_perm [OF c, of "ord rows"] range_order_mset [OF assms(2)]
  obtain ys where "collect lesson_row_of (ord rows) = Inr ys" "mset ys = mset xs" by auto
  with ls map_filter_mset [of ys xs] show ?thesis by (auto simp: known_lessons_def)
qed

lemma LearnDataInit_run:
  assumes "ExistLearnByStuNum Y stuNum w = (Inr 0, w1)"
    and "fetch_terms (ye_net Y) j (ord_terms [''2023-2024-1'', ''2022-2023-2'']) w1 = (Inr rows, w2)"
  shows "LearnDataInit Y ord_terms ord_rows stuNum j w =
    (case known_lessons (ord_rows rows) of Inl e \<Rightarrow> ((None, Some e), w2) | Inr ls \<Rightarrow> ((Some (learn_summary (taught ls)), None), w2))"
  using assms by (simp add: LearnDataInit_def or_stop_def reply_def split: sum.split)

text \<open>
  The numbers of lessons, of lessons at eight and of lessons until ten are the sums over all rows of
  the two terms, for every order of the goroutines. When every course has one row, the favourite
  course is one with the most lessons.
\<close>

theorem lesson_statistics:
  assumes "is_range_order ord_rows" and "ExistLearnByStuNum Y stuNum w = (Inr 0, w1)"
    and "fetch_terms (ye_net Y) j (ord_terms [''2023-2024-1'', ''2022-2023-2'']) w1 = (Inr rows, w2)"
    and "known_lessons rows = Inr ls"
  shows "\<exists>r. LearnDataInit Y ord_terms ord_rows stuNum j w = ((Some r, None), w2)
    \<and> lp_SumLesson r = sum_list (map lessons_in ls)
    \<and> lp_Eight r = sum_list (map lr_weeks (filter (\<lambda>l. lr_begin l = 1) ls))
    \<and> lp_Ten r = sum_list (map lr_weeks (filter (\<lambda>l. lr_end l = 13) ls))
    \<and> (distinct (map lr_course ls) \<and> (\<forall>l \<in> set ls. lr_course l \<noteq> [] \<and> 0 < lessons_in l) \<longrightarrow> (\<forall>l \<in> set ls. lessons_in l \<le> lp_Most r))"
proof -
  obtain ks where ks: "known_lessons (ord_rows rows) = Inr ks" "mset ks = mset ls"
    using known_lessons_perm [OF assms(4,1)] by blast
  have set: "set ks = set ls" using mset_eq_setD [OF ks(2)] by simp
  have "distinct (map lr_course ks) = distinct (map lr_course ls)"
    using mset_eq_imp_distinct_iff [of "map lr_course ks" "map lr_course ls"] ks(2) by simp
  then have most: "\<forall>l \<in> set ls. lessons_in l \<le> ld_Most (taught ks)"
    if "distinct (map lr_course ls)" "\<forall>l \<in> set ls. lr_course l \<noteq> [] \<and> 0 < lessons_in l"
    using taught_most [of ks] that set by simp
  have sums: "sum_list (map lessons_in ks) = sum_list (map lessons_in ls)"
    "sum_list (map lr_weeks (filter P ks)) = sum_list (map lr_weeks (filter P ls))" for P
    using sum_filter_mset [OF ks(2), of lessons_in "\<lambda>_. True"] sum_filter_mset [OF ks(2), of lr_weeks P] by simp_all
  have "LearnDataInit Y ord_terms ord_rows stuNum j w = ((Some (learn_summary (taught ks)), None), w2)"
    using LearnDataInit_run [where ord_terms = ord_terms and ord_rows = ord_rows, OF assms(2,3)] ks(1) by simp
  with most show ?thesis
    by (intro exI [of _ "learn_summary (taught ks)"]) (simp add: learn_summary_def taught_totals sums)
qed

text \<open>
  A course with two rows makes the favourite depend on the order of the goroutines, because the second
  row overwrites the lessons of the first instead of adding to them: the same rows give a course with
  thirty-two lessons in one order and one with five in another.
\<close>

theorem favourite_depends_on_order:
  "\<exists>ls ls'. mset ls = mset ls' \<and> ld_MostCourse (fold add_lesson ls no_lessons) = ''A'' \<and> ld_Most (fold add_lesson ls no_lessons) = 32
     \<and> ld_MostCourse (fold add_lesson ls' no_lessons) = ''B'' \<and> ld_Most (fold add_lesson ls' no_lessons) = 5"
proof -
  let ?a1 = "\<lparr> lr_course = ''A'', lr_begin = 1, lr_end = 2, lr_weeks = 16 \<rparr>"
    and ?a2 = "\<lparr> lr_course = ''A'', lr_begin = 3, lr_end = 4, lr_weeks = 2 \<rparr>"
    and ?b = "\<lparr> lr_course = ''B'', lr_begin = 5, lr_end = 5, lr_weeks = 5 \<rparr>"
  have "mset [?b, ?a1, ?a2] = mset [?a1, ?a2, ?b]" by simp
  moreover have "ld_MostCourse (taught [?b, ?a1, ?a2]) = ''A''" "ld_Most (taught [?b, ?a1, ?a2]) = 32"
    "ld_MostCourse (taught [?a1, ?a2, ?b]) = ''B''" "ld_Most (taught [?a1, ?a2, ?b]) = 5"
    by (simp_all add: add_lesson_fields no_lessons_fields lessons_in_def)
  ultimately show ?thesis by blast
qed

text \<open>
  A time table entry without a begin time, which the code replaces by the empty string, ends the
  process of the service: the empty string is sliced from its third byte on.
\<close>

theorem missing_period_crashes:
  assumes "is_range_order ord_rows" and "ExistLearnByStuNum Y stuNum w = (Inr 0, w1)"
    and "fetch_terms (ye_net Y) j (ord_terms [''2023-2024-1'', ''2022-2023-2'']) w1 = (Inr rows, w2)"
    and "JObject kvs \<in> set rows" and "text_of (map_of kvs ''KSJC_DISPLAY'') = None"
    and "week_range (or_empty (text_of (map_of kvs ''ZCMC''))) = Inr weeks"
  shows "\<exists>e. LearnDataInit Y ord_terms ord_rows stuNum j w = ((None, Some e), w2)"
proof -
  have p: "period_number [] = Inl ''runtime error: slice bounds out of range''"
    by (simp add: period_number_def slice_def)
  have "\<exists>e. lesson_row_of (JObject kvs) = Inl e"
    using assms(5,6) p by (simp add: lesson_row_of_def lesson_of_def row_object_def split: prod.split)
  then obtain e where e: "lesson_row_of (JObject kvs) = Inl e" by blast
  have "JObject kvs \<in> set (ord_rows rows)" using assms(4) range_order_set [OF assms(1)] by simp
  from collect_fails [where f = lesson_row_of, OF this e] obtain e' where "known_lessons (ord_rows rows) = Inl e'"
    by (auto simp: known_lessons_def)
  with LearnDataInit_run [where ord_terms = ord_terms and ord_rows = ord_rows, OF assms(2,3)] show ?thesis by simp
qed

text \<open>A time table with one complete row, and one with a row without begin time.\<close>

definition period :: "string \<Rightarrow> string" where
  "period n = utf8 [0xE7, 0xAC, 0xAC] @ n @ utf8 [0xE8, 0x8A, 0x82]"

definition lesson_json :: "(string \<times> json) list" where
  "lesson_json = [(''ZCMC'', JString ''1-16 ''), (''KCM'', JString ''logic''), (''KSJC_DISPLAY'', JString (period ''1'')),
     (''JSJC_DISPLAY'', JString (period ''2''))]"

definition lesson_net :: "json list \<Rightarrow> 'w school_net" where
  "lesson_net rows = \<lparr> net_post = (\<lambda>u b w. (Inr ''rows'', w)), net_json = (\<lambda>s. Inr [''data'' \<mapsto> JArray rows]) \<rparr>"

lemma lesson_terms: "fetch_terms (ye_net (mem_bills b (lesson_net rows) parse)) j [s1, s2] w = (Inr (rows @ rows), w)"
  by (simp add: GetSchedule_def post_unchecked_def onError_def andThen_def decoded_def JSONToMap_def lesson_net_def mem_bills_def)

lemma lesson_exists: "ExistLearnByStuNum (mem_bills b N parse) s bill_start = (Inr 0, bill_start)"
  by (simp add: ExistLearnByStuNum_def mem_bills_def bill_start_def empty_bills_def)

lemma lesson_row_value:
  "lesson_row_of (JObject lesson_json) = Inr (Some \<lparr> lr_course = ''logic'', lr_begin = 1, lr_end = 2, lr_weeks = 16 \<rparr>)"
proof -
  have "week_range ''1-16 '' = Inr (1, 16)" by code_simp
  moreover have "period_number (period ''1'') = Inr 1" "period_number (period ''2'') = Inr 2" by code_simp+
  ultimately show ?thesis by (simp add: lesson_row_of_def lesson_of_def row_object_def lesson_json_def)
qed

theorem lesson_statistics_witness:
  "\<exists>r. LearnDataInit (mem_bills False (lesson_net [JObject lesson_json]) demo_parse) (\<lambda>xs. xs) rev ''2125'' \<lparr> jwc_GsSession = [], jwc_Emaphome_WEU = [] \<rparr> bill_start = ((Some r, None), bill_start)
     \<and> lp_SumLesson r = 64 \<and> lp_Eight r = 32 \<and> lp_Ten r = 0"
proof -
  let ?l = "\<lparr> lr_course = ''logic'', lr_begin = 1, lr_end = 2, lr_weeks = 16 \<rparr>"
  have k: "known_lessons ([JObject lesson_json] @ [JObject lesson_json]) = Inr [?l, ?l]"
    by (simp add: known_lessons_def lesson_row_value List.map_filter_def)
  show ?thesis
    using lesson_statistics [where ord_terms = "\<lambda>xs. xs" and j = "\<lparr> jwc_GsSession = [], jwc_Emaphome_WEU = [] \<rparr>", OF range_order_rev lesson_exists lesson_terms k]
    by (auto simp: lessons_in_def)
qed

theorem missing_period_crashes_witness:
  "\<exists>e. LearnDataInit (mem_bills False (lesson_net [JObject lesson_json, JObject [(''KCM'', JString ''sports'')]]) demo_parse)
     (\<lambda>xs. xs) (\<lambda>xs. xs) ''2125'' \<lparr> jwc_GsSession = [], jwc_Emaphome_WEU = [] \<rparr> bill_start = ((None, Some e), bill_start)"
proof -
  let ?rows = "[JObject lesson_json, JObject [(''KCM'', JString ''sports'')]]"
  have m: "JObject [(''KCM'', JString ''sports'')] \<in> set (?rows @ ?rows)" by simp
  have w: "week_range (or_empty (text_of (map_of [(''KCM'', JString ''sports'')] ''ZCMC''))) = Inr (0, 0)"
    by (simp add: week_range_def)
  have n: "text_of (map_of [(''KCM'', JString ''sports'')] ''KSJC_DISPLAY'') = None" by simp
  show ?thesis
    by (rule missing_period_crashes [where ord_terms = "\<lambda>xs. xs", OF range_order_id lesson_exists lesson_terms m n w])
qed

end
