(* ===== verification/Year_Bill.thy ===== *)
theory Year_Bill
  imports Year_Bill_Stats
begin

text \<open>
  The year bill service (\<^verbatim>\<open>src/app/yearBill/service/dataInit.go\<close>, \<^verbatim>\<open>dataResponse.go\<close>). A message of the queue
  starts a task that collects the statistics of a student, gives the student the next rank, stores both in
  the database and caches them; the handlers read through the cache. One task runs at a time, and pauses
  and the time limit of a task, which only logs, are left out. A handler without response has panicked.
\<close>

section \<open>Model\<close>

subsection \<open>Preparation\<close>

(* src: app/yearBill/service/dataInit.go:24-38 YearBillSrv.InfoCheck *)
definition InfoCheck :: "'w bill_env \<Rightarrow> string \<Rightarrow> (bool, 'w) handler" where
  "InfoCheck Y stuNum w = (case cache_GetRank Y stuNum w of (data, w') \<Rightarrow> ((Some (rc_ID data \<noteq> 0), None), w'))"

(* src: app/yearBill/service/dataInit.go:261-270 YearBillSrv.CheckState *)
definition CheckState :: "'w bill_env \<Rightarrow> string \<Rightarrow> (bool, 'w) handler" where
  "CheckState Y stuNum w = (case cache_GetRank Y stuNum w of (data, w') \<Rightarrow> ((Some (rc_ID data \<noteq> 0), None), w'))"

record certificate =
  ct_HallTicket :: string
  ct_JsSessionId :: string
  ct_Emaphome_WEU :: string
  ct_GsSession :: string

definition no_certificate :: certificate where
  "no_certificate = \<lparr> ct_HallTicket = [], ct_JsSessionId = [], ct_Emaphome_WEU = [], ct_GsSession = [] \<rparr>"

text \<open>
  The two goroutines: both declare their error anew, so that the errors tested after the wait are always nil.
  An error is a panic here.
\<close>

(* src: app/yearBill/service/dataInit.go:49-59 YearBillSrv.GetCertificate (first goroutine) *)
definition fetch_ecard :: "'w bill_env \<Rightarrow> string \<Rightarrow> certificate \<Rightarrow> (certificate, 'w) action" where
  "fetch_ecard Y openid resp w =
     (case ECardLogin (ye_net Y) openid w of
        (Inl e, w') \<Rightarrow> (if is_panic e then Inl e else Inr resp, w')
      | (Inr info, w') \<Rightarrow> (Inr (resp\<lparr> ct_HallTicket := ec_HallTicket info, ct_JsSessionId := ec_JsSessionId info \<rparr>), w'))"

(* src: app/yearBill/service/dataInit.go:60-73 YearBillSrv.GetCertificate (second goroutine) *)
definition fetch_jwc :: "'w bill_env \<Rightarrow> string \<Rightarrow> certificate \<Rightarrow> (certificate, 'w) action" where
  "fetch_jwc Y openid resp =
     andThen (onError (school_GetGsSession (ye_net Y) openid) (\<lambda>e. if is_panic e then fail e else ret [])) (\<lambda>gssession w.
       case jwc_GetEmaphome_WEU (ye_net Y) \<lparr> jwc_GsSession = gssession, jwc_Emaphome_WEU = [] \<rparr> w of
         (Inl e, w') \<Rightarrow> (if is_panic e then Inl e else Inr resp, w')
       | (Inr weu, w') \<Rightarrow> (Inr (resp\<lparr> ct_Emaphome_WEU := weu, ct_GsSession := gssession \<rparr>), w'))"

definition msg_no_certificate :: err where
  "msg_no_certificate = utf8 [0xE8, 0x8E, 0xB7, 0xE5, 0x8F, 0x96, 0xE5, 0x87, 0xAD, 0xE8, 0xAF, 0x81, 0xE5, 0xA4, 0xB1, 0xE8,
     0xB4, 0xA5, 0xEF, 0xBC, 0x8C, 0xE6, 0x82, 0xA8, 0xE6, 0x9C, 0xAA, 0xE6, 0x88, 0x90, 0xE5, 0x8A,
     0x9F, 0xE7, 0xBB, 0x91, 0xE5, 0xAE, 0x9A, 0xE6, 0xA1, 0x91, 0xE6, 0xA2, 0x93, 0xE5, 0xBE, 0xAE]"

definition init_task_of :: "certificate \<Rightarrow> string \<Rightarrow> init_task" where
  "init_task_of c stuNum = \<lparr> it_JsSessionId = ct_JsSessionId c, it_HallTicket = ct_HallTicket c, it_GsSession = ct_GsSession c,
     it_Emaphome_WEU = ct_Emaphome_WEU c, it_StuNum = stuNum \<rparr>"

text \<open>\<open>ecardFirst\<close>: which goroutine runs first.\<close>

(* src: app/yearBill/service/dataInit.go:41-136 YearBillSrv.GetCertificate *)
definition GetCertificate :: "bool \<Rightarrow> 'w bill_env \<Rightarrow> string \<Rightarrow> string \<Rightarrow> (certificate, 'w) handler" where
  "GetCertificate ecardFirst Y openid stuNum =
     orReturn (if ecardFirst then andThen (fetch_ecard Y openid no_certificate) (fetch_jwc Y openid)
               else andThen (fetch_jwc Y openid no_certificate) (fetch_ecard Y openid)) None (\<lambda>resp.
       if ct_Emaphome_WEU resp = [] \<or> ct_HallTicket resp = [] then reply (Some resp) (Some msg_no_certificate)
       else orReturn (FindUser Y stuNum) (Some resp) (\<lambda>users.
         case users of
           [] \<Rightarrow>
             orReturn (bill_CreateUser Y stuNum) (Some resp) (\<lambda>_.
             orReturn (Producer Y (init_task_of resp stuNum)) (Some resp) (\<lambda>_. reply (Some resp) None))
         | u # _ \<Rightarrow>
             if bu_Init u = 1
             then orReturn (SaveRank Y stuNum \<lparr> rc_ID = bu_Rank u, rc_Appraisal = bu_Appraisal u \<rparr>) (Some resp) (\<lambda>_. reply (Some resp) None)
             else orReturn (Producer Y (init_task_of resp stuNum)) (Some resp) (\<lambda>_. reply (Some resp) None)))"

subsection \<open>Tasks\<close>

text \<open>A nil time stamp is the start of the Unix epoch.\<close>

definition as_time :: "gotime option \<Rightarrow> gotime" where
  "as_time t = (case t of None \<Rightarrow> 62135596800 * second | Some x \<Rightarrow> x)"

definition bill_of :: "string \<Rightarrow> pay_response \<Rightarrow> bill" where
  "bill_of stuNum p = \<lparr> bi_StuNum = stuNum, bi_BestRestaurant = pp_FavoriteRestaurant p,
     bi_BestRestaurantPay = pp_FavoriteRestaurantPay p, bi_EarlyTime = as_time (pp_EarlyTime p), bi_LastTime = as_time (pp_LastTime p),
     bi_OtherPay = pp_OtherPay p, bi_LibraryPay = pp_LibraryPay p, bi_RestaurantPay = pp_RestaurantPay p \<rparr>"

definition learn_of :: "string \<Rightarrow> learn_response \<Rightarrow> learn" where
  "learn_of stuNum l = \<lparr> le_StuNum = stuNum, le_MostCourse = lp_MostCourse l, le_Most = lp_Most l, le_Eight = lp_Eight l,
     le_Ten = lp_Ten l, le_SumLesson = lp_SumLesson l \<rparr>"

definition bill_cached :: "bill \<Rightarrow> bill_cache" where
  "bill_cached b = \<lparr> bc_BestRestaurant = bi_BestRestaurant b, bc_BestRestaurantPay = bi_BestRestaurantPay b, bc_EarlyTime = bi_EarlyTime b,
     bc_LastTime = bi_LastTime b, bc_OtherPay = bi_OtherPay b, bc_RestaurantPay = bi_RestaurantPay b, bc_LibraryPay = bi_LibraryPay b \<rparr>"

definition learn_cached :: "learn \<Rightarrow> learn_cache" where
  "learn_cached l = \<lparr> lc_MostCourse = le_MostCourse l, lc_Eight = le_Eight l, lc_Ten = le_Ten l, lc_Most = le_Most l,
     lc_SumLesson = le_SumLesson l \<rparr>"

text \<open>The errors of the two scripts are dropped, their responses used as they are; without response they panicked.\<close>

definition script_result :: "('r, 'w) handler \<Rightarrow> ('r, 'w) action" where
  "script_result h w =
     (case h w of ((Some r, _), w') \<Rightarrow> (Inr r, w')
      | ((None, Some e), w') \<Rightarrow> (Inl e, w') | ((None, None), w') \<Rightarrow> (Inl nil_panic, w'))"

record script_orders =
  so_pages :: "int range_order"
  so_payments :: "json range_order"
  so_terms :: "string range_order"
  so_lessons :: "json range_order"
  so_payFirst :: bool

(* src: app/yearBill/service/dataInit.go:163-192 YearBillSrv.DataInit (scripts) *)
definition run_scripts :: "script_orders \<Rightarrow> 'w bill_env \<Rightarrow> init_task \<Rightarrow> (pay_response \<times> learn_response, 'w) action" where
  "run_scripts ords Y task =
     (let pay = script_result (PayDataInit Y (so_pages ords) (so_payments ords) (it_StuNum task) (it_HallTicket task));
          learn = script_result (LearnDataInit Y (so_terms ords) (so_lessons ords) (it_StuNum task)
                    \<lparr> jwc_GsSession = it_GsSession task, jwc_Emaphome_WEU = it_Emaphome_WEU task \<rparr>)
      in if so_payFirst ords then andThen pay (\<lambda>p. andThen learn (\<lambda>l. ret (p, l)))
         else andThen learn (\<lambda>l. andThen pay (\<lambda>p. ret (p, l))))"

(* src: app/yearBill/service/dataInit.go:194-245 YearBillSrv.DataInit (storing) *)
definition store_task :: "'w bill_env \<Rightarrow> string \<Rightarrow> pay_response \<Rightarrow> learn_response \<Rightarrow> (unit, 'w) action" where
  "store_task Y stuNum p l =
     andThen (IncrValue Y ''count'') (\<lambda>index.
     andThen (SaveRank Y stuNum \<lparr> rc_ID = index, rc_Appraisal = 0 \<rparr>) (\<lambda>_.
     andThen (StorageData Y stuNum index (bill_of stuNum p) (learn_of stuNum l)) (\<lambda>_.
     andThen (SavePayData Y (bill_cached (bill_of stuNum p)) stuNum) (\<lambda>_.
       SaveLearnData Y (learn_cached (learn_of stuNum l)) stuNum))))"

text \<open>One message of the queue; it was acknowledged before.\<close>

(* src: app/yearBill/service/dataInit.go:149-246 YearBillSrv.DataInit (one message) *)
definition run_task :: "script_orders \<Rightarrow> 'w bill_env \<Rightarrow> init_task \<Rightarrow> (unit, 'w) action" where
  "run_task ords Y task w =
     (case cache_GetRank Y (it_StuNum task) w of
        (data, w') \<Rightarrow>
          if rc_ID data \<noteq> 0 then (Inr (), w')
          else andThen (run_scripts ords Y task) (\<lambda>(p, l). store_task Y (it_StuNum task) p l) w')"

subsection \<open>Answers\<close>

text \<open>The empty response, \<open>None\<close>, has no time stamps. A missing bill is answered by it without an error.\<close>

(* src: app/yearBill/service/dataResponse.go:16-68 YearBillSrv.GetPayData *)
definition GetPayData :: "'w bill_env \<Rightarrow> string \<Rightarrow> (bill_cache option, 'w) handler" where
  "GetPayData Y stuNum w =
     (case cache_GetPayData Y stuNum w of
        (Inr data, w1) \<Rightarrow> ((Some (Some data), None), w1)
      | (Inl e, w1) \<Rightarrow>
          if e \<noteq> redis_missing then ((Some None, Some e), w1)
          else orReturn (GetBill Y stuNum) (Some None) (\<lambda>bills.
                 case bills of
                   [] \<Rightarrow> reply (Some None) None
                 | b # _ \<Rightarrow> orReturn (SavePayData Y (bill_cached b) stuNum) (Some (Some (bill_cached b))) (\<lambda>_.
                              reply (Some (Some (bill_cached b))) None)) w1)"

definition no_learn :: learn_cache where
  "no_learn = \<lparr> lc_MostCourse = [], lc_Eight = 0, lc_Ten = 0, lc_Most = 0, lc_SumLesson = 0 \<rparr>"

(* src: app/yearBill/service/dataResponse.go:70-113 YearBillSrv.GetLearnData *)
definition GetLearnData :: "'w bill_env \<Rightarrow> string \<Rightarrow> (learn_cache, 'w) handler" where
  "GetLearnData Y stuNum w =
     (case cache_GetLearnData Y stuNum w of
        (Inr data, w1) \<Rightarrow> ((Some data, None), w1)
      | (Inl e, w1) \<Rightarrow>
          if e \<noteq> redis_missing then ((Some no_learn, Some e), w1)
          else orReturn (GetLearn Y stuNum) (Some no_learn) (\<lambda>learns.
                 case learns of
                   [] \<Rightarrow> reply (Some no_learn) None
                 | l # _ \<Rightarrow> orReturn (SaveLearnData Y (learn_cached l) stuNum) (Some (learn_cached l)) (\<lambda>_.
                              reply (Some (learn_cached l)) None)) w1)"

record rank_response =
  rr_Index :: int
  rr_Appraisal :: int
  rr_Count :: int

text \<open>The error of the save in the cache is assigned to a shadowed variable.\<close>

(* src: app/yearBill/service/dataResponse.go:115-148 YearBillSrv.GetRank *)
definition bill_GetRank :: "'w bill_env \<Rightarrow> string \<Rightarrow> (rank_response, 'w) handler" where
  "bill_GetRank Y stuNum w =
     (let counted = (\<lambda>index appraisal w. case bill_GetValue Y ''count'' w of
            (v, w') \<Rightarrow> ((Some \<lparr> rr_Index = index, rr_Appraisal = appraisal,
                              rr_Count = (case v of None \<Rightarrow> 0 | Some s \<Rightarrow> Atoi_value s) \<rparr>, None), w'))
      in case cache_GetRank Y stuNum w of
        (data, w1) \<Rightarrow>
          if rc_ID data \<noteq> 0 then counted (rc_ID data) (rc_Appraisal data) w1
          else orReturn (FindUser Y stuNum) None (\<lambda>users.
                 case users of
                   [] \<Rightarrow> counted 0 0
                 | u # _ \<Rightarrow> (\<lambda>w2. counted (bu_Rank u) (bu_Appraisal u)
                     (snd (SaveRank Y stuNum \<lparr> rc_ID = bu_Rank u, rc_Appraisal = bu_Appraisal u \<rparr> w2)))) w1)"

(* src: app/yearBill/service/dataResponse.go:150-160 YearBillSrv.Appraise *)
definition Appraise :: "'w bill_env \<Rightarrow> string \<Rightarrow> int \<Rightarrow> (unit, 'w) handler" where
  "Appraise Y stuNum appraisal =
     orReturn (UpdateAppraisal Y stuNum appraisal) (Some ()) (\<lambda>_ w. ((Some (), None), DelRank Y stuNum w))"

section \<open>What the servers promise\<close>

text \<open>
  A query leaves everything alone and answers the truth, or fails; a statement fails and changes nothing,
  or takes effect. Rows have unique student numbers. The school's services touch neither tables nor cache.
\<close>

definition queries :: "('w \<Rightarrow> 's) \<Rightarrow> ('a, 'w) action \<Rightarrow> ('s \<Rightarrow> 'a \<Rightarrow> bool) \<Rightarrow> bool" where
  "queries obs m P \<longleftrightarrow> (\<forall>w. obs (snd (m w)) = obs w \<and> (\<forall>x. fst (m w) = Inr x \<longrightarrow> P (obs w) x))"

definition changes :: "('w \<Rightarrow> 's) \<Rightarrow> ('w \<Rightarrow> err option \<times> 'w) \<Rightarrow> ('s \<Rightarrow> bool) \<Rightarrow> ('s \<Rightarrow> 's) \<Rightarrow> bool" where
  "changes obs m G f \<longleftrightarrow> (\<forall>w. if fst (m w) = None then G (obs w) \<and> obs (snd (m w)) = f (obs w) else obs (snd (m w)) = obs w)"

definition upd_tables :: "(bill_tables \<Rightarrow> bill_tables) \<Rightarrow> bill_world \<Rightarrow> bill_world" where
  "upd_tables f S = S\<lparr> bw_tables := f (bw_tables S) \<rparr>"

definition put_bill :: "bill \<Rightarrow> bill_world \<Rightarrow> bill_world" where
  "put_bill b = upd_tables (\<lambda>t. t\<lparr> bt_bills := bt_bills t @ [b] \<rparr>)"

definition put_learn :: "learn \<Rightarrow> bill_world \<Rightarrow> bill_world" where
  "put_learn l = upd_tables (\<lambda>t. t\<lparr> bt_learns := bt_learns t @ [l] \<rparr>)"

definition put_user :: "bill_user \<Rightarrow> bill_world \<Rightarrow> bill_world" where
  "put_user u = upd_tables (\<lambda>t. t\<lparr> bt_users := bt_users t @ [u] \<rparr>)"

definition upd_users :: "string \<Rightarrow> (bill_user \<Rightarrow> bill_user) \<Rightarrow> bill_world \<Rightarrow> bill_world" where
  "upd_users s f = upd_tables (\<lambda>t. t\<lparr> bt_users := map (\<lambda>u. if bu_StuNum u = s then f u else u) (bt_users t) \<rparr>)"

definition put_hash :: "string \<Rightarrow> string \<Rightarrow> cached option \<Rightarrow> bill_world \<Rightarrow> bill_world" where
  "put_hash k f v S = S\<lparr> bw_hash := (bw_hash S)((k, f) := v) \<rparr>"

definition bills_ok :: "'w bill_env \<Rightarrow> ('w \<Rightarrow> bill_world) \<Rightarrow> bool" where
  "bills_ok Y obs \<longleftrightarrow>
     (\<forall>s. queries obs (q_find_bills Y s) (\<lambda>S x. x = filter (\<lambda>b. bi_StuNum b = s) (bt_bills (bw_tables S))))
   \<and> (\<forall>s. queries obs (q_find_learns Y s) (\<lambda>S x. x = filter (\<lambda>l. le_StuNum l = s) (bt_learns (bw_tables S))))
   \<and> (\<forall>s. queries obs (q_find_users Y s) (\<lambda>S x. x = filter (\<lambda>u. bu_StuNum u = s) (bt_users (bw_tables S))))
   \<and> (\<forall>s. unchanged obs (q_count_bills Y s)) \<and> (\<forall>s. unchanged obs (q_count_learns Y s))
   \<and> (\<forall>b. changes obs (q_create_bill Y b) (\<lambda>S. \<forall>b' \<in> set (bt_bills (bw_tables S)). bi_StuNum b' \<noteq> bi_StuNum b) (put_bill b))
   \<and> (\<forall>l. changes obs (q_create_learn Y l) (\<lambda>S. \<forall>l' \<in> set (bt_learns (bw_tables S)). le_StuNum l' \<noteq> le_StuNum l) (put_learn l))
   \<and> (\<forall>u. changes obs (q_create_user Y u) (\<lambda>S. \<forall>u' \<in> set (bt_users (bw_tables S)). bu_StuNum u' \<noteq> bu_StuNum u) (put_user u))
   \<and> (\<forall>s n. changes obs (q_update_appraisal Y s n) (\<lambda>S. True) (upd_users s (\<lambda>u. u\<lparr> bu_Appraisal := n \<rparr>)))
   \<and> (\<forall>s n. changes obs (q_init_user Y s n) (\<lambda>S. True) (upd_users s (\<lambda>u. u\<lparr> bu_Init := 1, bu_Rank := n \<rparr>)))
   \<and> (\<forall>w. obs (t_begin Y w) = (obs w)\<lparr> bw_saved := bw_tables (obs w) \<rparr>)
   \<and> (\<forall>w. obs (t_rollback Y w) = (obs w)\<lparr> bw_tables := bw_saved (obs w) \<rparr>) \<and> (\<forall>w. obs (t_commit Y w) = obs w)
   \<and> (\<forall>k. unchanged obs (h_Get Y k))
   \<and> (\<forall>w. case h_Incr Y ''count'' w of (Inl _, w') \<Rightarrow> obs w' = obs w
        | (Inr n, w') \<Rightarrow> n = bw_count (obs w) + 1 \<and> obs w' = (obs w)\<lparr> bw_count := n \<rparr>)
   \<and> (\<forall>k f. queries obs (h_HGet Y k f) (\<lambda>S v. bw_hash S (k, f) = Some v))
   \<and> (\<forall>k f w. fst (h_HGet Y k f w) = Inl redis_missing \<longrightarrow> bw_hash (obs w) (k, f) = None)
   \<and> (\<forall>k f v. changes obs (h_HSet Y k f v) (\<lambda>S. True) (put_hash k f (Some v)))
   \<and> (\<forall>k f. changes obs (h_HDel Y k f) (\<lambda>S. True) (put_hash k f None))
   \<and> unchanged obs (m_declare Y) \<and> (\<forall>task. changes obs (m_publish Y task) (\<lambda>S. True) (\<lambda>S. S\<lparr> bw_queue := bw_queue S @ [task] \<rparr>))
   \<and> net_silent (ye_net Y) obs"

lemma bills_okD:
  assumes "bills_ok Y obs"
  shows "queries obs (GetBill Y s) (\<lambda>S x. x = filter (\<lambda>b. bi_StuNum b = s) (bt_bills (bw_tables S)))"
    and "queries obs (GetLearn Y s) (\<lambda>S x. x = filter (\<lambda>l. le_StuNum l = s) (bt_learns (bw_tables S)))"
    and "queries obs (FindUser Y s) (\<lambda>S x. x = filter (\<lambda>u. bu_StuNum u = s) (bt_users (bw_tables S)))"
    and "unchanged obs (q_count_bills Y s)" and "unchanged obs (q_count_learns Y s)"
    and "changes obs (q_create_bill Y b) (\<lambda>S. \<forall>b' \<in> set (bt_bills (bw_tables S)). bi_StuNum b' \<noteq> bi_StuNum b) (put_bill b)"
    and "changes obs (q_create_learn Y l) (\<lambda>S. \<forall>l' \<in> set (bt_learns (bw_tables S)). le_StuNum l' \<noteq> le_StuNum l) (put_learn l)"
    and "changes obs (q_create_user Y u) (\<lambda>S. \<forall>u' \<in> set (bt_users (bw_tables S)). bu_StuNum u' \<noteq> bu_StuNum u) (put_user u)"
    and "changes obs (q_update_appraisal Y s n) (\<lambda>S. True) (upd_users s (\<lambda>u. u\<lparr> bu_Appraisal := n \<rparr>))"
    and "changes obs (q_init_user Y s n) (\<lambda>S. True) (upd_users s (\<lambda>u. u\<lparr> bu_Init := 1, bu_Rank := n \<rparr>))"
    and "obs (t_begin Y w) = (obs w)\<lparr> bw_saved := bw_tables (obs w) \<rparr>"
    and "obs (t_rollback Y w) = (obs w)\<lparr> bw_tables := bw_saved (obs w) \<rparr>" and "obs (t_commit Y w) = obs w"
    and "unchanged obs (h_Get Y k)"
    and "queries obs (h_HGet Y k f) (\<lambda>S v. bw_hash S (k, f) = Some v)"
    and "fst (h_HGet Y k f w) = Inl redis_missing \<Longrightarrow> bw_hash (obs w) (k, f) = None"
    and "changes obs (h_HSet Y k f v) (\<lambda>S. True) (put_hash k f (Some v))"
    and "changes obs (h_HDel Y k f) (\<lambda>S. True) (put_hash k f None)"
    and "unchanged obs (m_declare Y)"
    and "changes obs (m_publish Y task) (\<lambda>S. True) (\<lambda>S. S\<lparr> bw_queue := bw_queue S @ [task] \<rparr>)"
    and "net_silent (ye_net Y) obs"
  using assms by (simp_all only: bills_ok_def GetBill_def GetLearn_def FindUser_def simp_thms)

lemma incr_counter:
  assumes "bills_ok Y obs" and "IncrValue Y ''count'' w = (r, w')"
  shows "case r of Inl _ \<Rightarrow> obs w' = obs w | Inr n \<Rightarrow> n = bw_count (obs w) + 1 \<and> obs w' = (obs w)\<lparr> bw_count := n \<rparr>"
proof -
  have "case h_Incr Y ''count'' w of (Inl _, w') \<Rightarrow> obs w' = obs w
        | (Inr n, w') \<Rightarrow> n = bw_count (obs w) + 1 \<and> obs w' = (obs w)\<lparr> bw_count := n \<rparr>"
    using assms(1) by (simp only: bills_ok_def)
  with assms(2) show ?thesis by (cases r) (simp_all add: IncrValue_def)
qed

lemma queriesD:
  assumes "queries obs m P" and "m w = (r, w')"
  shows "obs w' = obs w" and "r = Inr x \<Longrightarrow> P (obs w) x"
  using assms unfolding queries_def by (metis snd_conv, metis fst_conv)

lemma queries_unchanged: "queries obs m P \<Longrightarrow> unchanged obs m"
  by (simp add: queries_def unchanged_def)

lemma run_changes:
  assumes "changes obs m G f" and "run_err m w = (r, w')"
  shows "case r of Inl _ \<Rightarrow> obs w' = obs w | Inr _ \<Rightarrow> G (obs w) \<and> obs w' = f (obs w)"
proof -
  obtain e v where m: "m w = (e, v)" by fastforce
  with assms have "if e = None then G (obs w) \<and> obs v = f (obs w) else obs v = obs w"
    unfolding changes_def by (metis fst_conv snd_conv)
  with m assms(2) show ?thesis by (cases e) (auto simp: run_err_def)
qed

text \<open>A transaction of \<^verbatim>\<open>StorageData\<close> takes effect as a whole or leaves the tables as they were.\<close>

lemma rolled_back:
  assumes "bills_ok Y obs" and "changes obs m G f" and "or_rollback Y m k w = (r, w')" and "bw_saved (obs w) = T"
    and "\<And>v. G (obs w) \<Longrightarrow> obs v = f (obs w) \<Longrightarrow> k v = (r, w') \<Longrightarrow> R"
    and "\<And>e. r = Inl e \<Longrightarrow> obs w' = (obs w)\<lparr> bw_tables := T \<rparr> \<Longrightarrow> R"
  shows R
proof -
  obtain e v where m: "m w = (e, v)" by fastforce
  with assms(2) have c: "if e = None then G (obs w) \<and> obs v = f (obs w) else obs v = obs w"
    unfolding changes_def by (metis fst_conv snd_conv)
  show R
  proof (cases e)
    case None
    with m c assms(3,5) show R by (auto simp: or_rollback_def)
  next
    case (Some x)
    with m assms(3) have "r = Inl x" "w' = t_rollback Y v" by (auto simp: or_rollback_def)
    with c Some assms(4,6) bills_okD(12) [OF assms(1), of v] show R by auto
  qed
qed

lemma storage_outcome:
  assumes Y: "bills_ok Y obs" and run: "StorageData Y s n b l w = (r, w')"
  shows "bw_hash (obs w') = bw_hash (obs w) \<and> bw_count (obs w') = bw_count (obs w)
    \<and> (case r of Inl _ \<Rightarrow> bw_tables (obs w') = bw_tables (obs w)
       | Inr _ \<Rightarrow> bw_tables (obs w') = bw_tables (upd_users s (\<lambda>u. u\<lparr> bu_Init := 1, bu_Rank := n \<rparr>) (put_learn l (put_bill b (obs w))))
           \<and> (\<forall>b' \<in> set (bt_bills (bw_tables (obs w))). bi_StuNum b' \<noteq> bi_StuNum b)
           \<and> (\<forall>l' \<in> set (bt_learns (bw_tables (obs w))). le_StuNum l' \<noteq> le_StuNum l))"
proof -
  note defs = upd_tables_def put_bill_def put_learn_def upd_users_def
  let ?w = "t_begin Y w"
  have S: "obs ?w = (obs w)\<lparr> bw_saved := bw_tables (obs w) \<rparr>" by (rule bills_okD(11) [OF Y])
  from run have r1: "or_rollback Y (q_create_bill Y b) (or_rollback Y (q_create_learn Y l)
      (or_rollback Y (q_init_user Y s n) (commit Y))) ?w = (r, w')" by (simp add: StorageData_def)
  show ?thesis
  proof (rule rolled_back [OF Y bills_okD(6) [OF Y] r1, of "bw_tables (obs w)"])
    fix v assume g: "\<forall>b' \<in> set (bt_bills (bw_tables (obs ?w))). bi_StuNum b' \<noteq> bi_StuNum b" and v: "obs v = put_bill b (obs ?w)"
      and r2: "or_rollback Y (q_create_learn Y l) (or_rollback Y (q_init_user Y s n) (commit Y)) v = (r, w')"
    show ?thesis
    proof (rule rolled_back [OF Y bills_okD(7) [OF Y] r2, of "bw_tables (obs w)"])
      fix u assume g2: "\<forall>l' \<in> set (bt_learns (bw_tables (obs v))). le_StuNum l' \<noteq> le_StuNum l" and u: "obs u = put_learn l (obs v)"
        and r3: "or_rollback Y (q_init_user Y s n) (commit Y) u = (r, w')"
      show ?thesis
        by (rule rolled_back [OF Y bills_okD(10) [OF Y] r3, of "bw_tables (obs w)"])
           (use g g2 u v S in \<open>auto simp: defs commit_def bills_okD(13) [OF Y]\<close>)
    qed (use v S in \<open>simp_all add: defs\<close>)
  qed (use S in \<open>simp_all add: defs\<close>)
qed

subsection \<open>The scripts only read\<close>

lemma unchanged_or_stop: "unchanged view m \<Longrightarrow> (\<And>x. unchanged view (k x)) \<Longrightarrow> unchanged view (or_stop m r k)"
  by (auto simp: unchanged_def or_stop_def split: sum.split prod.split) (metis snd_conv)+

lemma reply_unchanged: "unchanged view (reply r e)"
  by (simp add: unchanged_def reply_def)

lemma unchanged_fetch_pages:
  assumes "net_silent N view"
  shows "unchanged view (fetch_pages N c a pages)"
  unfolding unchanged_def
proof
  fix w show "view (snd (fetch_pages N c a pages w)) = view w"
  proof (induction pages arbitrary: w)
    case (Cons i pages)
    obtain r w' where g: "GetPay N c a (itoa i) w = (r, w')" by fastforce
    have v: "view w' = view w" by (rule unchangedD [OF silent_clients(4) [OF assms] g])
    show ?case
    proof (cases r)
      case (Inl e)
      with g v Cons show ?thesis by simp
    next
      case (Inr info)
      with g v Cons [of w'] show ?thesis
        by (cases "array_of (info ''rows'')") (auto simp: andThen_def split: sum.split prod.split)
    qed
  qed simp
qed

lemma unchanged_fetch_terms:
  assumes "net_silent N view"
  shows "unchanged view (fetch_terms N j ss)"
  unfolding unchanged_def
proof
  fix w show "view (snd (fetch_terms N j ss w)) = view w"
  proof (induction ss arbitrary: w)
    case (Cons s ss)
    obtain r w' where g: "GetSchedule N j s w = (r, w')" by fastforce
    have v: "view w' = view w" by (rule unchangedD [OF silent_clients(7) [OF assms] g])
    show ?case
    proof (cases r)
      case (Inl e)
      with g v Cons show ?thesis by simp
    next
      case (Inr info)
      with g v Cons [of w'] show ?thesis by (auto simp: andThen_def split: sum.split prod.split)
    qed
  qed simp
qed

lemma unchanged_account_of: "unchanged view (account_of info)"
  unfolding account_of_def by (auto intro!: action_rules split: list.split)

lemma scripts_silent:
  assumes "\<And>s. unchanged view (q_count_bills Y s)" and "\<And>s. unchanged view (q_count_learns Y s)" and N: "net_silent (ye_net Y) view"
  shows "unchanged view (PayDataInit Y op orr s h)" and "unchanged view (LearnDataInit Y ot orr s j)"
proof -
  show "unchanged view (PayDataInit Y op orr s h)"
    unfolding PayDataInit_def Let_def ExistBillByStuNum_def
    by (intro unchanged_or_stop unchanged_if reply_unchanged assms(1) silent_clients(3,4) [OF N]
        unchanged_account_of action_rules unchanged_fetch_pages [OF N]) (auto simp: reply_unchanged split: sum.split)
  show "unchanged view (LearnDataInit Y ot orr s j)"
    unfolding LearnDataInit_def ExistLearnByStuNum_def
    by (intro unchanged_or_stop unchanged_if reply_unchanged assms(2) unchanged_fetch_terms [OF N])
       (auto simp: reply_unchanged split: sum.split)
qed

lemma unchanged_scripts:
  assumes "bills_ok Y obs"
  shows "unchanged obs (PayDataInit Y op orr s h)" and "unchanged obs (LearnDataInit Y ot orr s j)"
  by (rule scripts_silent [OF bills_okD(4) [OF assms] bills_okD(5) [OF assms] bills_okD(21) [OF assms]])+

lemma unchanged_script_result: "unchanged view h \<Longrightarrow> unchanged view (script_result h)"
  by (auto simp: unchanged_def script_result_def split: prod.split option.split) (metis snd_conv)+

lemma unchanged_run_scripts:
  assumes "bills_ok Y obs"
  shows "unchanged obs (run_scripts ords Y task)"
  unfolding run_scripts_def Let_def
  by (intro action_rules unchanged_script_result unchanged_scripts [OF assms])

lemma unchanged_cache_GetRank:
  assumes "bills_ok Y obs"
  shows "unchanged obs (cache_GetRank Y s)"
  using queries_unchanged [OF bills_okD(15) [OF assms], of "''data:'' @ s" "''user_data''"]
  by (auto simp: unchanged_def cache_GetRank_def split: prod.split sum.split cached.split) (metis snd_conv)+

section \<open>Ranks\<close>

text \<open>The ranks that are given out: in the table of users or in the cache.\<close>

definition held :: "bill_world \<Rightarrow> string \<Rightarrow> int \<Rightarrow> bool" where
  "held S s n \<longleftrightarrow> n \<noteq> 0 \<and> ((\<exists>u \<in> set (bt_users (bw_tables S)). bu_StuNum u = s \<and> bu_Rank u = n)
     \<or> (\<exists>r. bw_hash S (''data:'' @ s, ''user_data'') = Some (CachedRank r) \<and> rc_ID r = n))"

definition ranks_ok :: "bill_world \<Rightarrow> bool" where
  "ranks_ok S \<longleftrightarrow> 0 \<le> bw_count S \<and> (\<forall>s n. held S s n \<longrightarrow> 0 < n \<and> n \<le> bw_count S)
     \<and> (\<forall>s s' n. held S s n \<longrightarrow> held S s' n \<longrightarrow> s = s')"

text \<open>At most one new pair, whose rank nobody else holds, keeps the invariant.\<close>

lemma ranks_extend:
  assumes "ranks_ok S" and "bw_count S \<le> bw_count S'" and "\<And>s' n'. held S' s' n' \<Longrightarrow> held S s' n' \<or> (s' = s \<and> n' = n)"
    and "n = 0 \<or> (0 < n \<and> n \<le> bw_count S')" and "\<And>s'. held S s' n \<Longrightarrow> s' = s"
  shows "ranks_ok S'"
proof -
  have nz: "\<not> held S' s' 0" for s' by (simp add: held_def)
  show ?thesis
    unfolding ranks_ok_def
  proof (intro conjI allI impI)
    show "0 \<le> bw_count S'" using assms(1,2) by (simp add: ranks_ok_def)
  next
    fix s' n' assume h: "held S' s' n'"
    then have "n' \<noteq> 0" using nz by metis
    from assms(3) [OF h] assms(1,2,4) \<open>n' \<noteq> 0\<close> have "0 < n' \<and> n' \<le> bw_count S'" unfolding ranks_ok_def by fastforce
    then show "0 < n'" "n' \<le> bw_count S'" by simp_all
  next
    fix s1 s2 n' assume "held S' s1 n'" "held S' s2 n'"
    then show "s1 = s2" using assms(1,3,5) unfolding ranks_ok_def by metis
  qed
qed

lemma ranks_same:
  assumes "ranks_ok S" and "bw_count S' = bw_count S" and "\<And>s n. held S' s n \<Longrightarrow> held S s n"
  shows "ranks_ok S'"
  using assms unfolding ranks_ok_def by metis

lemma held_simps [simp]:
  "held (S\<lparr> bw_count := c \<rparr>) s n = held S s n" "held (S\<lparr> bw_saved := t \<rparr>) s n = held S s n" "held (S\<lparr> bw_queue := q \<rparr>) s n = held S s n"
  "held (put_bill b S) s n = held S s n" "held (put_learn l S) s n = held S s n"
  by (simp_all add: held_def put_bill_def put_learn_def upd_tables_def)

lemma count_simps [simp]:
  "bw_count (put_bill b S) = bw_count S" "bw_count (put_learn l S) = bw_count S" "bw_count (put_user u S) = bw_count S"
  "bw_count (upd_users s g S) = bw_count S" "bw_count (put_hash k f v S) = bw_count S"
  by (simp_all add: put_bill_def put_learn_def put_user_def upd_users_def upd_tables_def put_hash_def)

lemma held_put_rank:
  "held (put_hash (''data:'' @ s) ''user_data'' (Some (CachedRank r)) S) s' n' \<Longrightarrow> held S s' n' \<or> (s' = s \<and> n' = rc_ID r)"
  by (auto simp: held_def put_hash_def split: if_splits)

lemma held_put_other: "f \<noteq> ''user_data'' \<Longrightarrow> held (put_hash k f v S) s n = held S s n"
  by (auto simp: held_def put_hash_def)

lemma held_del_rank: "held (put_hash k f None S) s n \<Longrightarrow> held S s n"
  by (auto simp: held_def put_hash_def split: if_splits)

lemma held_put_user: "bu_Rank u = 0 \<Longrightarrow> held (put_user u S) s n = held S s n"
  by (auto simp: held_def put_user_def upd_tables_def)

lemma held_upd_users:
  assumes "held (upd_users s g S) s' n'" and "\<And>u. bu_StuNum (g u) = bu_StuNum u"
  shows "held S s' n' \<or> (s' = s \<and> (\<exists>u. bu_Rank (g u) = n'))"
  using assms by (auto simp: held_def upd_users_def upd_tables_def split: if_splits)

lemma held_appraisal: "held (upd_users s (\<lambda>u. u\<lparr> bu_Appraisal := a \<rparr>) S) s' n' \<Longrightarrow> held S s' n'"
  by (auto simp: held_def upd_users_def upd_tables_def split: if_splits)

lemma save_rank_ok:
  assumes "bills_ok Y obs" and "SaveRank Y s r w = (x, w')" and "ranks_ok (obs w)"
    and "rc_ID r = 0 \<or> (0 < rc_ID r \<and> rc_ID r \<le> bw_count (obs w))" and "\<And>s'. held (obs w) s' (rc_ID r) \<Longrightarrow> s' = s"
  shows "ranks_ok (obs w') \<and> bw_count (obs w') = bw_count (obs w) \<and> (\<forall>s'. held (obs w') s' (rc_ID r) \<longrightarrow> s' = s)"
proof -
  let ?S = "put_hash (''data:'' @ s) ''user_data'' (Some (CachedRank r)) (obs w)"
  have "ranks_ok ?S" by (rule ranks_extend [OF assms(3) _ held_put_rank]) (use assms(4,5) in auto)
  moreover have "held ?S s' (rc_ID r) \<longrightarrow> s' = s" for s' using held_put_rank [of s r "obs w" s'] assms(5) by blast
  moreover have "case x of Inl _ \<Rightarrow> obs w' = obs w | Inr _ \<Rightarrow> True \<and> obs w' = ?S"
    using run_changes [OF bills_okD(17) [OF assms(1)] assms(2) [unfolded SaveRank_def]] .
  ultimately show ?thesis using assms(3,5) by (cases x) auto
qed

lemma save_data_ok:
  assumes "bills_ok Y obs" and "run_err (h_HSet Y k f v) w = (x, w')" and "f \<noteq> ''user_data''" and "ranks_ok (obs w)"
  shows "ranks_ok (obs w')"
proof -
  have "ranks_ok (put_hash k f (Some v) (obs w))"
    by (rule ranks_same [OF assms(4)]) (simp_all add: held_put_other [OF assms(3)])
  then show ?thesis using run_changes [OF bills_okD(17) [OF assms(1)] assms(2)] assms(4) by (cases x) auto
qed

lemma andThen_cases:
  assumes "andThen m f w = (r, w')"
  obtains (failed) e where "m w = (Inl e, w')" "r = Inl e" | (went_on) x v where "m w = (Inr x, v)" "f x v = (r, w')"
  using assms by (auto simp: andThen_def split: prod.splits sum.splits)

lemma store_task_ok:
  assumes Y: "bills_ok Y obs" and run: "store_task Y s p l w = (x, w')" and ok: "ranks_ok (obs w)"
  shows "ranks_ok (obs w')"
  using run unfolding store_task_def
proof (cases rule: andThen_cases)
  case (failed e)
  with incr_counter [OF Y failed(1)] ok show ?thesis by simp
next
  case (went_on n w1)
  note rest = went_on(2)
  have c: "n = bw_count (obs w) + 1" "obs w1 = (obs w)\<lparr> bw_count := n \<rparr>" using incr_counter [OF Y went_on(1)] by simp_all
  have n: "0 < n" using c(1) ok by (simp add: ranks_ok_def)
  have fresh: "\<not> held (obs w1) s' n" for s' using c ok by (fastforce simp: ranks_ok_def)
  have ok1: "ranks_ok (obs w1)" by (rule ranks_extend [OF ok, of "obs w1" s 0]) (use c in \<open>auto simp: held_def\<close>)
  from rest show ?thesis
  proof (cases rule: andThen_cases)
    case (failed e)
    from save_rank_ok [OF Y failed(1) ok1] n c fresh show ?thesis by auto
  next
    case (went_on u w2)
    note rest = went_on(2)
    from save_rank_ok [OF Y went_on(1) ok1] n c fresh
    have ok2: "ranks_ok (obs w2)" "bw_count (obs w2) = n" "\<And>s'. held (obs w2) s' n \<Longrightarrow> s' = s" by auto
    have stored: "ranks_ok (obs v)" if "StorageData Y s n b l' w2 = (r, v)" for b l' r v
    proof (cases r)
      case (Inl e)
      with storage_outcome [OF Y that] ranks_same [OF ok2(1), of "obs v"] show ?thesis by (auto simp: held_def)
    next
      case (Inr y)
      let ?g = "\<lambda>u. u\<lparr> bu_Init := 1, bu_Rank := n \<rparr>"
      have o: "bw_hash (obs v) = bw_hash (obs w2)" "bw_count (obs v) = n"
        "bw_tables (obs v) = bw_tables (upd_users s ?g (put_learn l' (put_bill b (obs w2))))"
        using storage_outcome [OF Y that] Inr ok2(2) by simp_all
      have "held (obs v) s' n' \<Longrightarrow> held (upd_users s ?g (put_learn l' (put_bill b (obs w2)))) s' n'" for s' n'
        using o by (simp add: held_def upd_users_def put_learn_def put_bill_def upd_tables_def)
      then have "held (obs v) s' n' \<Longrightarrow> held (obs w2) s' n' \<or> (s' = s \<and> n' = n)" for s' n'
        using held_upd_users [of s ?g "put_learn l' (put_bill b (obs w2))" s' n'] by auto
      from ranks_extend [where n = n, OF ok2(1) _ this] o(2) ok2(2,3) n show ?thesis by auto
    qed
    from rest show ?thesis
    proof (cases rule: andThen_cases)
      case (failed e)
      then show ?thesis using stored by blast
    next
      case (went_on u' w3)
      then have ok3: "ranks_ok (obs w3)" using stored by blast
      from went_on(2) show ?thesis
      proof (cases rule: andThen_cases)
        case (failed e)
        show ?thesis by (rule save_data_ok [OF Y failed(1) [unfolded SavePayData_def] _ ok3]) simp
      next
        case (went_on u'' w4)
        have "ranks_ok (obs w4)" by (rule save_data_ok [OF Y went_on(1) [unfolded SavePayData_def] _ ok3]) simp
        then show ?thesis using save_data_ok [OF Y went_on(2) [unfolded SaveLearnData_def]] by simp
      qed
    qed
  qed
qed

lemma run_task_ok:
  assumes "bills_ok Y obs"
  shows "maintains (\<lambda>w. ranks_ok (obs w)) (run_task ords Y task)"
  unfolding maintains_def
proof (intro allI impI)
  fix w assume ok: "ranks_ok (obs w)"
  obtain d w1 where g: "cache_GetRank Y (it_StuNum task) w = (d, w1)" by fastforce
  have ok1: "ranks_ok (obs w1)" using unchangedD [OF unchanged_cache_GetRank [OF assms] g] ok by simp
  obtain r w2 where s: "run_scripts ords Y task w1 = (r, w2)" by fastforce
  have ok2: "ranks_ok (obs w2)" using unchangedD [OF unchanged_run_scripts [OF assms] s] ok1 by simp
  show "ranks_ok (obs (snd (run_task ords Y task w)))"
  proof (cases r)
    case (Inl e)
    with g s ok1 ok2 show ?thesis by (simp add: run_task_def andThen_def)
  next
    case (Inr pl)
    obtain p l where pl: "pl = (p, l)" by fastforce
    obtain x w3 where t: "store_task Y (it_StuNum task) p l w2 = (x, w3)" by fastforce
    from store_task_ok [OF assms t ok2] g s Inr pl t ok1 show ?thesis by (simp add: run_task_def andThen_def)
  qed
qed

lemma user_rank_held:
  assumes "bills_ok Y obs" and "FindUser Y s w = (Inr (u # us), w')" and "bu_Rank u \<noteq> 0"
  shows "held (obs w') s (bu_Rank u)"
proof -
  have "u # us = filter (\<lambda>u. bu_StuNum u = s) (bt_users (bw_tables (obs w)))"
    by (rule queriesD(2) [OF bills_okD(3) [OF assms(1)] assms(2)]) simp
  then have "u \<in> set (filter (\<lambda>u. bu_StuNum u = s) (bt_users (bw_tables (obs w))))" by (metis list.set_intros(1))
  with assms(3) queriesD(1) [OF bills_okD(3) [OF assms(1)] assms(2)] show ?thesis by (auto simp: held_def)
qed

lemma resave_rank_ok:
  assumes "bills_ok Y obs" and "FindUser Y s w = (Inr (u # us), w1)" and "ranks_ok (obs w)"
    and "SaveRank Y s \<lparr> rc_ID = bu_Rank u, rc_Appraisal = a \<rparr> w1 = (x, w2)"
  shows "ranks_ok (obs w2)"
proof -
  have ok: "ranks_ok (obs w1)" using queriesD(1) [OF bills_okD(3) [OF assms(1)] assms(2)] assms(3) by simp
  have h: "bu_Rank u \<noteq> 0 \<Longrightarrow> held (obs w1) s (bu_Rank u)" by (rule user_rank_held [OF assms(1,2)])
  then have "bu_Rank u = 0 \<or> (0 < bu_Rank u \<and> bu_Rank u \<le> bw_count (obs w1))"
    and "held (obs w1) s' (bu_Rank u) \<Longrightarrow> s' = s" for s'
    using ok unfolding ranks_ok_def by (metis, metis held_def)
  with save_rank_ok [OF assms(1,4) ok] show ?thesis by simp
qed

lemma producer_ok:
  assumes "bills_ok Y obs"
  shows "maintains (\<lambda>w. ranks_ok (obs w)) (Producer Y task)"
proof -
  have d: "maintains (\<lambda>w. ranks_ok (obs w)) (run_err (m_declare Y))"
    by (intro action_rules unchanged_maintains bills_okD(19) [OF assms])
  have "maintains (\<lambda>w. ranks_ok (obs w)) (run_err (m_publish Y task))"
    unfolding maintains_def
  proof (intro allI impI)
    fix w assume ok: "ranks_ok (obs w)"
    obtain x w' where r: "run_err (m_publish Y task) w = (x, w')" by fastforce
    have "ranks_ok ((obs w)\<lparr> bw_queue := q \<rparr>)" for q by (rule ranks_same [OF ok]) simp_all
    with run_changes [OF bills_okD(20) [OF assms] r] ok r show "ranks_ok (obs (snd (run_err (m_publish Y task) w)))"
      by (cases x) auto
  qed
  with d show ?thesis unfolding Producer_def by (rule maintains_andThen)
qed

lemma create_user_ok:
  assumes "bills_ok Y obs"
  shows "maintains (\<lambda>w. ranks_ok (obs w)) (bill_CreateUser Y s)"
  unfolding maintains_def bill_CreateUser_def
proof (intro allI impI)
  let ?u = "\<lparr> bu_StuNum = s, bu_Init = 0, bu_Appraisal = 0, bu_Rank = 0 \<rparr>"
  fix w assume ok: "ranks_ok (obs w)"
  obtain x w' where r: "run_err (q_create_user Y ?u) w = (x, w')" by fastforce
  have "ranks_ok (put_user ?u (obs w))" by (rule ranks_same [OF ok]) (simp_all add: held_put_user)
  with run_changes [OF bills_okD(8) [OF assms] r] ok r show "ranks_ok (obs (snd (run_err (q_create_user Y ?u) w)))"
    by (cases x) auto
qed

lemma unchanged_certificates:
  assumes "bills_ok Y obs"
  shows "unchanged obs (fetch_ecard Y i c)" and "unchanged obs (fetch_jwc Y i c)"
proof -
  have N: "net_silent (ye_net Y) obs" by (rule bills_okD(21) [OF assms])
  show "unchanged obs (fetch_ecard Y i c)"
    using silent_clients(2) [OF N, of i] by (auto simp: unchanged_def fetch_ecard_def split: prod.split sum.split) (metis snd_conv)+
  have "unchanged obs (\<lambda>w. case jwc_GetEmaphome_WEU (ye_net Y) j w of
         (Inl e, w') \<Rightarrow> (if is_panic e then Inl e else Inr c, w') | (Inr weu, w') \<Rightarrow> (Inr (f weu), w'))" for j and f :: "string \<Rightarrow> certificate"
    using silent_clients(6) [OF N, of j] by (auto simp: unchanged_def split: prod.split sum.split) (metis snd_conv)+
  then show "unchanged obs (fetch_jwc Y i c)"
    unfolding fetch_jwc_def by (intro action_rules silent_clients(1) [OF N])
qed

lemma orReturn_maintains:
  "maintains I m \<Longrightarrow> (\<And>x. maintains I (k x)) \<Longrightarrow> maintains I (orReturn m r k)"
  by (auto simp: maintains_def orReturn_def split: prod.split sum.split)

lemma reply_maintains: "maintains I (reply r e)"
  by (simp add: maintains_def reply_def)

lemma certificate_ok:
  assumes Y: "bills_ok Y obs"
  shows "maintains (\<lambda>w. ranks_ok (obs w)) (GetCertificate b Y i s)"
proof -
  let ?I = "\<lambda>w. ranks_ok (obs w)"
  have users: "maintains ?I (orReturn (FindUser Y s) (Some resp) (\<lambda>users. case users of
           [] \<Rightarrow> orReturn (bill_CreateUser Y s) (Some resp) (\<lambda>_.
             orReturn (Producer Y (init_task_of resp s)) (Some resp) (\<lambda>_. reply (Some resp) None))
         | u # _ \<Rightarrow> if bu_Init u = 1
             then orReturn (SaveRank Y s \<lparr> rc_ID = bu_Rank u, rc_Appraisal = bu_Appraisal u \<rparr>) (Some resp) (\<lambda>_. reply (Some resp) None)
             else orReturn (Producer Y (init_task_of resp s)) (Some resp) (\<lambda>_. reply (Some resp) None)))" for resp
    unfolding maintains_def
  proof (intro allI impI)
    fix w assume ok: "?I w"
    obtain r w1 where f: "FindUser Y s w = (r, w1)" by fastforce
    have ok1: "?I w1" using queriesD(1) [OF bills_okD(3) [OF Y] f] ok by simp
    have new: "maintains ?I (orReturn (bill_CreateUser Y s) (Some resp) (\<lambda>_.
             orReturn (Producer Y (init_task_of resp s)) (Some resp) (\<lambda>_. reply (Some resp) None)))"
      and again: "maintains ?I (orReturn (Producer Y (init_task_of resp s)) (Some resp) (\<lambda>_. reply (Some resp) None))"
      by (intro orReturn_maintains create_user_ok [OF Y] producer_ok [OF Y] reply_maintains)+
    show "?I (snd (orReturn (FindUser Y s) (Some resp) (\<lambda>users. case users of
           [] \<Rightarrow> orReturn (bill_CreateUser Y s) (Some resp) (\<lambda>_.
             orReturn (Producer Y (init_task_of resp s)) (Some resp) (\<lambda>_. reply (Some resp) None))
         | u # _ \<Rightarrow> if bu_Init u = 1
             then orReturn (SaveRank Y s \<lparr> rc_ID = bu_Rank u, rc_Appraisal = bu_Appraisal u \<rparr>) (Some resp) (\<lambda>_. reply (Some resp) None)
             else orReturn (Producer Y (init_task_of resp s)) (Some resp) (\<lambda>_. reply (Some resp) None)) w))"
    proof (cases r)
      case (Inl e)
      with f ok1 show ?thesis by (simp add: orReturn_def)
    next
      case (Inr us)
      show ?thesis
      proof (cases us)
        case Nil
        with f Inr new ok1 show ?thesis by (simp add: orReturn_def [of "FindUser Y s"] maintains_def)
      next
        case (Cons u vs)
        obtain x w2 where sv: "SaveRank Y s \<lparr> rc_ID = bu_Rank u, rc_Appraisal = bu_Appraisal u \<rparr> w1 = (x, w2)" by fastforce
        have "?I w2" by (rule resave_rank_ok [OF Y f [unfolded Inr Cons] ok sv])
        then have "?I (snd (orReturn (SaveRank Y s \<lparr> rc_ID = bu_Rank u, rc_Appraisal = bu_Appraisal u \<rparr>) (Some resp) (\<lambda>_. reply (Some resp) None) w1))"
          using sv by (cases x) (simp_all add: orReturn_def reply_def)
        with f Inr Cons again ok1 show ?thesis by (simp add: orReturn_def [of "FindUser Y s"] maintains_def)
      qed
    qed
  qed
  show ?thesis
    unfolding GetCertificate_def
    by (intro orReturn_maintains maintains_if reply_maintains users action_rules unchanged_maintains
        unchanged_certificates [OF Y])
qed

lemma check_ok:
  assumes "bills_ok Y obs"
  shows "unchanged obs (InfoCheck Y s)" and "unchanged obs (CheckState Y s)"
  using unchanged_cache_GetRank [OF assms, of s]
  by (auto simp: unchanged_def InfoCheck_def CheckState_def split: prod.split) (metis snd_conv)+

lemma save_ok:
  assumes "bills_ok Y obs"
  shows "maintains (\<lambda>w. ranks_ok (obs w)) (SavePayData Y d s)" and "maintains (\<lambda>w. ranks_ok (obs w)) (SaveLearnData Y d' s)"
  unfolding maintains_def SavePayData_def SaveLearnData_def
  by (intro allI impI; rule save_data_ok [OF assms prod.collapse [symmetric]]; simp)+

lemma unchanged_cache_data:
  assumes "bills_ok Y obs"
  shows "unchanged obs (cache_GetPayData Y s)" and "unchanged obs (cache_GetLearnData Y s)"
  unfolding cache_GetPayData_def cache_GetLearnData_def
  by (auto intro!: unchanged_andThen queries_unchanged [OF bills_okD(15) [OF assms]] unchanged_basic split: cached.split)

lemma answers_ok:
  assumes Y: "bills_ok Y obs"
  shows "maintains (\<lambda>w. ranks_ok (obs w)) (GetPayData Y s)" and "maintains (\<lambda>w. ranks_ok (obs w)) (GetLearnData Y s)"
proof -
  let ?I = "\<lambda>w. ranks_ok (obs w)"
  have pay: "maintains ?I (orReturn (GetBill Y s) (Some None) (\<lambda>bills. case bills of [] \<Rightarrow> reply (Some None) None
      | b # _ \<Rightarrow> orReturn (SavePayData Y (bill_cached b) s) (Some (Some (bill_cached b))) (\<lambda>_. reply (Some (Some (bill_cached b))) None)))"
    by (rule orReturn_maintains [OF unchanged_maintains [OF queries_unchanged [OF bills_okD(1) [OF Y]]]])
       (auto intro: orReturn_maintains reply_maintains save_ok [OF Y] split: list.split)
  have learn: "maintains ?I (orReturn (GetLearn Y s) (Some no_learn) (\<lambda>learns. case learns of [] \<Rightarrow> reply (Some no_learn) None
      | l # _ \<Rightarrow> orReturn (SaveLearnData Y (learn_cached l) s) (Some (learn_cached l)) (\<lambda>_. reply (Some (learn_cached l)) None)))"
    by (rule orReturn_maintains [OF unchanged_maintains [OF queries_unchanged [OF bills_okD(2) [OF Y]]]])
       (auto intro: orReturn_maintains reply_maintains save_ok [OF Y] split: list.split)
  show "maintains ?I (GetPayData Y s)" "maintains ?I (GetLearnData Y s)"
    unfolding maintains_def
  proof (intro allI impI)
    fix w assume ok: "?I w"
    obtain r w1 where g: "cache_GetPayData Y s w = (r, w1)" by fastforce
    have "?I w1" using unchangedD [OF unchanged_cache_data(1) [OF Y] g] ok by simp
    with g pay show "?I (snd (GetPayData Y s w))" by (cases r) (simp_all add: GetPayData_def maintains_def)
  next
    show "\<forall>w. ?I w \<longrightarrow> ?I (snd (GetLearnData Y s w))"
    proof (intro allI impI)
      fix w assume ok: "?I w"
      obtain r w1 where g: "cache_GetLearnData Y s w = (r, w1)" by fastforce
      have "?I w1" using unchangedD [OF unchanged_cache_data(2) [OF Y] g] ok by simp
      with g learn show "?I (snd (GetLearnData Y s w))" by (cases r) (simp_all add: GetLearnData_def maintains_def)
    qed
  qed
qed

lemma counted_ok:
  assumes "bills_ok Y obs"
  shows "obs (snd (case bill_GetValue Y k w of (v, w') \<Rightarrow> (f v, w'))) = obs w"
  using bills_okD(14) [OF assms, of k]
  by (auto simp: bill_GetValue_def unchanged_def split: prod.split sum.split) (metis snd_conv)+

lemma get_rank_ok:
  assumes Y: "bills_ok Y obs"
  shows "maintains (\<lambda>w. ranks_ok (obs w)) (bill_GetRank Y s)"
  unfolding maintains_def
proof (intro allI impI)
  fix w assume ok: "ranks_ok (obs w)"
  obtain d w1 where g: "cache_GetRank Y s w = (d, w1)" by fastforce
  have ok1: "ranks_ok (obs w1)" using unchangedD [OF unchanged_cache_GetRank [OF Y] g] ok by simp
  obtain r w2 where f: "FindUser Y s w1 = (r, w2)" by fastforce
  have ok2: "ranks_ok (obs w2)" using queriesD(1) [OF bills_okD(3) [OF Y] f] ok1 by simp
  show "ranks_ok (obs (snd (bill_GetRank Y s w)))"
  proof (cases "\<exists>u us. r = Inr (u # us)")
    case True
    then obtain u us where r: "r = Inr (u # us)" by blast
    obtain x w3 where sv: "SaveRank Y s \<lparr> rc_ID = bu_Rank u, rc_Appraisal = bu_Appraisal u \<rparr> w2 = (x, w3)" by fastforce
    have "ranks_ok (obs w3)" by (rule resave_rank_ok [OF Y f [unfolded r] ok1 sv])
    with g f r sv ok1 show ?thesis by (simp add: bill_GetRank_def orReturn_def counted_ok [OF Y])
  next
    case False
    with g f ok1 ok2 show ?thesis
      by (cases r) (auto simp: bill_GetRank_def orReturn_def counted_ok [OF Y] neq_Nil_conv split: list.split)
  qed
qed

lemma appraise_ok:
  assumes Y: "bills_ok Y obs"
  shows "maintains (\<lambda>w. ranks_ok (obs w)) (Appraise Y s a)"
  unfolding maintains_def
proof (intro allI impI)
  fix w assume ok: "ranks_ok (obs w)"
  obtain x w1 where u: "UpdateAppraisal Y s a w = (x, w1)" by fastforce
  have "ranks_ok (upd_users s (\<lambda>u. u\<lparr> bu_Appraisal := a \<rparr>) (obs w))"
    by (rule ranks_same [OF ok]) (simp_all add: held_appraisal)
  with run_changes [OF bills_okD(9) [OF Y] u [unfolded UpdateAppraisal_def]] ok have ok1: "ranks_ok (obs w1)" by (cases x) auto
  obtain e w2 where d: "h_HDel Y (''data:'' @ s) ''user_data'' w1 = (e, w2)" by fastforce
  have "ranks_ok (put_hash (''data:'' @ s) ''user_data'' None (obs w1))"
    by (rule ranks_same [OF ok1]) (simp_all add: held_del_rank)
  moreover have "if e = None then True \<and> obs w2 = put_hash (''data:'' @ s) ''user_data'' None (obs w1) else obs w2 = obs w1"
    using bills_okD(18) [OF Y, of "''data:'' @ s" "''user_data''"] d unfolding changes_def by (metis fst_conv snd_conv)
  ultimately have "ranks_ok (obs w2)" using ok1 by (cases e) auto
  with u d ok1 show "ranks_ok (obs (snd (Appraise Y s a w)))"
    by (cases x) (simp_all add: Appraise_def orReturn_def DelRank_def)
qed

subsection \<open>Requests\<close>

datatype bill_request =
    AskInfo string | AskState string | AskCertificate bool string string | RunTask script_orders init_task
  | AskPay string | AskLearn string | AskRank string | SendAppraisal string int

fun serve_bill :: "'w bill_env \<Rightarrow> bill_request \<Rightarrow> 'w \<Rightarrow> 'w" where
  "serve_bill Y (AskInfo s) w = snd (InfoCheck Y s w)"
| "serve_bill Y (AskState s) w = snd (CheckState Y s w)"
| "serve_bill Y (AskCertificate b i s) w = snd (GetCertificate b Y i s w)"
| "serve_bill Y (RunTask ords task) w = snd (run_task ords Y task w)"
| "serve_bill Y (AskPay s) w = snd (GetPayData Y s w)"
| "serve_bill Y (AskLearn s) w = snd (GetLearnData Y s w)"
| "serve_bill Y (AskRank s) w = snd (bill_GetRank Y s w)"
| "serve_bill Y (SendAppraisal s n) w = snd (Appraise Y s n w)"

lemma serve_bill_ok:
  assumes "bills_ok Y obs" and "ranks_ok (obs w)"
  shows "ranks_ok (obs (serve_bill Y req w))"
proof -
  note ok = check_ok [OF assms(1), THEN unchanged_maintains [where P = ranks_ok]] certificate_ok [OF assms(1)] run_task_ok [OF assms(1)]
    answers_ok [OF assms(1)] get_rank_ok [OF assms(1)] appraise_ok [OF assms(1)]
  show ?thesis using ok assms(2) by (cases req) (simp_all add: maintains_def)
qed

text \<open>
  C9. Over any sequence of requests and tasks of the year bill, whatever statements fail and in whatever
  order goroutines run, every rank given out lies between one and the counter and belongs to one
  student only, in the table as well as in the cache.
\<close>

theorem bill_ranks_unique:
  assumes "bills_ok Y obs" and "ranks_ok (obs w)"
  shows "ranks_ok (obs (fold (serve_bill Y) reqs w))"
  using assms(2) by (induction reqs arbitrary: w) (simp_all add: serve_bill_ok [OF assms(1)])

lemma mem_bills_ok:
  assumes "net_silent N (\<lambda>w. w)"
  shows "bills_ok (mem_bills b N parse) (\<lambda>w. w)"
  using assms unfolding bills_ok_def
  by (auto simp: mem_bills_def queries_def changes_def unchanged_def put_bill_def put_learn_def put_user_def upd_users_def
      upd_tables_def put_hash_def split: option.split)

text \<open>Two students, one of whom asks twice, over servers in memory.\<close>

definition demo_orders :: script_orders where
  "demo_orders = \<lparr> so_pages = (\<lambda>xs. xs), so_payments = rev, so_terms = (\<lambda>xs. xs), so_lessons = (\<lambda>xs. xs), so_payFirst = True \<rparr>"

definition demo_task :: "string \<Rightarrow> init_task" where
  "demo_task s = \<lparr> it_JsSessionId = [], it_HallTicket = ''h'', it_GsSession = ''g'', it_Emaphome_WEU = ''e'', it_StuNum = s \<rparr>"

lemma demo_net_silent: "net_silent demo_net view" "net_silent (lesson_net rows) view"
  by (simp_all add: net_silent_def unchanged_def demo_net_def lesson_net_def)

theorem bill_ranks_unique_witness:
  "ranks_ok (fold (serve_bill (mem_bills False demo_net demo_parse))
     [AskCertificate True ''o1'' ''2125'', RunTask demo_orders (demo_task ''2125''), RunTask demo_orders (demo_task ''2126''),
      AskRank ''2125'', SendAppraisal ''2125'' 5, AskRank ''2125''] bill_start)"
proof -
  have "ranks_ok bill_start" by (simp add: ranks_ok_def held_def bill_start_def empty_bills_def)
  then show ?thesis by (rule bill_ranks_unique [where obs = "\<lambda>w. w", OF mem_bills_ok [OF demo_net_silent(1)]])
qed

section \<open>Answers\<close>

lemma andThen_InrE:
  assumes "andThen m f w = (Inr y, w')"
  obtains x v where "m w = (Inr x, v)" "f x v = (Inr y, w')"
  using assms by (auto simp: andThen_def split: prod.splits sum.splits)

text \<open>The state after a task that went through.\<close>

lemma store_task_effect:
  assumes Y: "bills_ok Y obs" and run: "store_task Y s p l w = (Inr y, w')"
  defines "n \<equiv> bw_count (obs w) + 1"
  shows "bw_hash (obs w') (''data:'' @ s, ''user_data'') = Some (CachedRank \<lparr> rc_ID = n, rc_Appraisal = 0 \<rparr>)"
    and "bw_hash (obs w') (''data:'' @ s, ''pay_data'') = Some (CachedPay (bill_cached (bill_of s p)))"
    and "bw_hash (obs w') (''data:'' @ s, ''learn_data'') = Some (CachedLearn (learn_cached (learn_of s l)))"
    and "bw_count (obs w') = n"
    and "bw_tables (obs w') = bw_tables (upd_users s (\<lambda>u. u\<lparr> bu_Init := 1, bu_Rank := n \<rparr>)
           (put_learn (learn_of s l) (put_bill (bill_of s p) (obs w))))"
proof -
  from run obtain i w1 where 1: "IncrValue Y ''count'' w = (Inr i, w1)"
    and r1: "andThen (SaveRank Y s \<lparr> rc_ID = i, rc_Appraisal = 0 \<rparr>) (\<lambda>_.
     andThen (StorageData Y s i (bill_of s p) (learn_of s l)) (\<lambda>_.
     andThen (SavePayData Y (bill_cached (bill_of s p)) s) (\<lambda>_. SaveLearnData Y (learn_cached (learn_of s l)) s))) w1 = (Inr y, w')"
    unfolding store_task_def by (rule andThen_InrE)
  from r1 obtain u2 w2 where 2: "SaveRank Y s \<lparr> rc_ID = i, rc_Appraisal = 0 \<rparr> w1 = (Inr u2, w2)"
    and r2: "andThen (StorageData Y s i (bill_of s p) (learn_of s l)) (\<lambda>_.
     andThen (SavePayData Y (bill_cached (bill_of s p)) s) (\<lambda>_. SaveLearnData Y (learn_cached (learn_of s l)) s)) w2 = (Inr y, w')"
    by (rule andThen_InrE)
  from r2 obtain u3 w3 where 3: "StorageData Y s i (bill_of s p) (learn_of s l) w2 = (Inr u3, w3)"
    and r3: "andThen (SavePayData Y (bill_cached (bill_of s p)) s) (\<lambda>_. SaveLearnData Y (learn_cached (learn_of s l)) s) w3 = (Inr y, w')"
    by (rule andThen_InrE)
  from r3 obtain u4 w4 where 4: "SavePayData Y (bill_cached (bill_of s p)) s w3 = (Inr u4, w4)"
    and 5: "SaveLearnData Y (learn_cached (learn_of s l)) s w4 = (Inr y, w')"
    by (rule andThen_InrE)
  have s1: "i = n" "obs w1 = (obs w)\<lparr> bw_count := n \<rparr>" using incr_counter [OF Y 1] by (simp_all add: n_def)
  have s2: "obs w2 = put_hash (''data:'' @ s) ''user_data'' (Some (CachedRank \<lparr> rc_ID = i, rc_Appraisal = 0 \<rparr>)) (obs w1)"
    using run_changes [OF bills_okD(17) [OF Y] 2 [unfolded SaveRank_def]] by simp
  have s3: "bw_hash (obs w3) = bw_hash (obs w2)" "bw_count (obs w3) = bw_count (obs w2)"
    "bw_tables (obs w3) = bw_tables (upd_users s (\<lambda>u. u\<lparr> bu_Init := 1, bu_Rank := i \<rparr>)
       (put_learn (learn_of s l) (put_bill (bill_of s p) (obs w2))))"
    using storage_outcome [OF Y 3] by simp_all
  have s4: "obs w4 = put_hash (''data:'' @ s) ''pay_data'' (Some (CachedPay (bill_cached (bill_of s p)))) (obs w3)"
    using run_changes [OF bills_okD(17) [OF Y] 4 [unfolded SavePayData_def]] by simp
  have s5: "obs w' = put_hash (''data:'' @ s) ''learn_data'' (Some (CachedLearn (learn_cached (learn_of s l)))) (obs w4)"
    using run_changes [OF bills_okD(17) [OF Y] 5 [unfolded SaveLearnData_def]] by simp
  note steps = s1 s2 s3 s4 s5 put_hash_def upd_users_def put_learn_def put_bill_def upd_tables_def
  show "bw_hash (obs w') (''data:'' @ s, ''user_data'') = Some (CachedRank \<lparr> rc_ID = n, rc_Appraisal = 0 \<rparr>)"
    and "bw_hash (obs w') (''data:'' @ s, ''pay_data'') = Some (CachedPay (bill_cached (bill_of s p)))"
    and "bw_hash (obs w') (''data:'' @ s, ''learn_data'') = Some (CachedLearn (learn_cached (learn_of s l)))"
    and "bw_count (obs w') = n"
    and "bw_tables (obs w') = bw_tables (upd_users s (\<lambda>u. u\<lparr> bu_Init := 1, bu_Rank := n \<rparr>)
           (put_learn (learn_of s l) (put_bill (bill_of s p) (obs w))))"
    by (simp_all add: steps)
qed

text \<open>What the cache answers.\<close>

lemma cache_hit:
  assumes "bills_ok Y obs" and "h_HGet Y k f w = (r, w')"
  shows "r = Inr v \<Longrightarrow> bw_hash (obs w) (k, f) = Some v" and "r = Inl redis_missing \<Longrightarrow> bw_hash (obs w) (k, f) = None"
  using queriesD(2) [OF bills_okD(15) [OF assms(1)] assms(2)] bills_okD(16) [OF assms(1), of k f w] assms(2) by simp_all

lemma rank_absent:
  assumes "bills_ok Y obs" and "bw_hash (obs w) (''data:'' @ s, ''user_data'') = None"
  shows "\<exists>w'. cache_GetRank Y s w = (no_rank, w') \<and> obs w' = obs w"
proof -
  obtain r w' where g: "h_HGet Y (''data:'' @ s) ''user_data'' w = (r, w')" by fastforce
  have "r \<noteq> Inr v" for v using cache_hit(1) [OF assms(1) g, of v] assms(2) by auto
  then obtain e where "r = Inl e" by (cases r) auto
  with g queriesD(1) [OF bills_okD(15) [OF assms(1)] g] show ?thesis by (simp add: cache_GetRank_def)
qed

lemma pay_answer:
  assumes "bills_ok Y obs" and "bw_hash (obs w) (''data:'' @ s, ''pay_data'') = Some (CachedPay d)"
    and "GetPayData Y s w = ((Some x, None), w')"
  shows "x = Some d"
proof -
  obtain r v where g: "h_HGet Y (''data:'' @ s) ''pay_data'' w = (r, v)" by fastforce
  show ?thesis
  proof (cases r)
    case (Inr c)
    with cache_hit(1) [OF assms(1) g] assms(2) have "c = CachedPay d" by simp
    with g Inr assms(3) show ?thesis by (simp add: GetPayData_def cache_GetPayData_def andThen_def)
  next
    case (Inl e)
    with cache_hit(2) [OF assms(1) g] assms(2) have "e \<noteq> redis_missing" by auto
    with g Inl assms(3) show ?thesis by (simp add: GetPayData_def cache_GetPayData_def andThen_def)
  qed
qed

lemma learn_answer:
  assumes "bills_ok Y obs" and "bw_hash (obs w) (''data:'' @ s, ''learn_data'') = Some (CachedLearn d)"
    and "GetLearnData Y s w = ((Some x, None), w')"
  shows "x = d"
proof -
  obtain r v where g: "h_HGet Y (''data:'' @ s) ''learn_data'' w = (r, v)" by fastforce
  show ?thesis
  proof (cases r)
    case (Inr c)
    with cache_hit(1) [OF assms(1) g] assms(2) have "c = CachedLearn d" by simp
    with g Inr assms(3) show ?thesis by (simp add: GetLearnData_def cache_GetLearnData_def andThen_def)
  next
    case (Inl e)
    with cache_hit(2) [OF assms(1) g] assms(2) have "e \<noteq> redis_missing" by auto
    with g Inl assms(3) show ?thesis by (simp add: GetLearnData_def cache_GetLearnData_def andThen_def)
  qed
qed

lemma rank_answer:
  assumes Y: "bills_ok Y obs" and h: "bw_hash (obs w) (''data:'' @ s, ''user_data'') = Some (CachedRank \<lparr> rc_ID = n, rc_Appraisal = a \<rparr>)"
    and u: "u \<in> set (bt_users (bw_tables (obs w)))" "bu_StuNum u = s"
    and all: "\<forall>u \<in> set (bt_users (bw_tables (obs w))). bu_StuNum u = s \<longrightarrow> bu_Rank u = n"
    and run: "bill_GetRank Y s w = ((Some x, None), w')"
  shows "rr_Index x = n"
proof -
  obtain d w1 where g: "cache_GetRank Y s w = (d, w1)" by fastforce
  have o: "obs w1 = obs w" by (rule unchangedD [OF unchanged_cache_GetRank [OF Y] g])
  obtain r v where hg: "h_HGet Y (''data:'' @ s) ''user_data'' w = (r, v)" by fastforce
  have d: "d = \<lparr> rc_ID = n, rc_Appraisal = a \<rparr> \<or> d = no_rank"
    using g hg cache_hit(1) [OF Y hg] h by (cases r) (auto simp: cache_GetRank_def split: cached.splits)
  show ?thesis
  proof (cases "rc_ID d \<noteq> 0")
    case True
    with d g run show ?thesis by (auto simp: bill_GetRank_def no_rank_def split: prod.splits)
  next
    case False
    obtain q w2 where f: "FindUser Y s w1 = (q, w2)" by fastforce
    show ?thesis
    proof (cases q)
      case (Inl e)
      with False g f run show ?thesis by (simp add: bill_GetRank_def orReturn_def)
    next
      case (Inr us)
      have us: "us = filter (\<lambda>u. bu_StuNum u = s) (bt_users (bw_tables (obs w)))"
        using queriesD(2) [OF bills_okD(3) [OF Y] f Inr] o by simp
      have "us \<noteq> []" using us u by (auto simp: filter_empty_conv)
      then obtain u0 us' where u0: "us = u0 # us'" by (cases us) auto
      then have "u0 \<in> set (filter (\<lambda>u. bu_StuNum u = s) (bt_users (bw_tables (obs w))))" using us by (metis list.set_intros(1))
      then have "bu_Rank u0 = n" using all by simp
      with False g f Inr u0 run show ?thesis by (auto simp: bill_GetRank_def orReturn_def split: prod.splits)
    qed
  qed
qed

text \<open>
  C10. What a task collected is what the service answers afterwards: when a task of a student without rank
  goes through, the bill and the lessons are stored once, and each later answer without error gives
  exactly these statistics and the rank the counter assigned.
\<close>

theorem task_answers:
  assumes Y: "bills_ok Y obs" and new: "bw_hash (obs w) (''data:'' @ it_StuNum task, ''user_data'') = None"
    and u: "u \<in> set (bt_users (bw_tables (obs w)))" "bu_StuNum u = it_StuNum task"
    and run: "run_task ords Y task w = (Inr (), w')"
    and pay: "GetPayData Y (it_StuNum task) w' = ((Some x, None), v1)"
    and learn: "GetLearnData Y (it_StuNum task) w' = ((Some y, None), v2)"
    and rank: "bill_GetRank Y (it_StuNum task) w' = ((Some z, None), v3)"
  shows "\<exists>p l w1 w2. run_scripts ords Y task w1 = (Inr (p, l), w2)
    \<and> x = Some (bill_cached (bill_of (it_StuNum task) p)) \<and> y = learn_cached (learn_of (it_StuNum task) l)
    \<and> rr_Index z = bw_count (obs w) + 1
    \<and> bt_bills (bw_tables (obs w')) = bt_bills (bw_tables (obs w)) @ [bill_of (it_StuNum task) p]
    \<and> bt_learns (bw_tables (obs w')) = bt_learns (bw_tables (obs w)) @ [learn_of (it_StuNum task) l]"
proof -
  let ?s = "it_StuNum task" and ?n = "bw_count (obs w) + 1"
  from rank_absent [OF Y new] obtain w1 where g: "cache_GetRank Y ?s w = (no_rank, w1)" "obs w1 = obs w" by blast
  from run g have "andThen (run_scripts ords Y task) (\<lambda>(p, l). store_task Y ?s p l) w1 = (Inr (), w')"
    by (simp add: run_task_def no_rank_def)
  then obtain pl w2 where sc: "run_scripts ords Y task w1 = (Inr pl, w2)"
    and st: "(case pl of (p, l) \<Rightarrow> store_task Y ?s p l) w2 = (Inr (), w')" by (rule andThen_InrE)
  obtain p l where pl: "pl = (p, l)" by fastforce
  have o: "obs w2 = obs w" using unchangedD [OF unchanged_run_scripts [OF Y] sc] g(2) by simp
  from st pl have store: "store_task Y ?s p l w2 = (Inr (), w')" by simp
  note after = store_task_effect [OF Y store, unfolded o]
  have tables: "bt_bills (bw_tables (obs w')) = bt_bills (bw_tables (obs w)) @ [bill_of ?s p]"
    "bt_learns (bw_tables (obs w')) = bt_learns (bw_tables (obs w)) @ [learn_of ?s l]"
    "bt_users (bw_tables (obs w')) = map (\<lambda>u. if bu_StuNum u = ?s then u\<lparr> bu_Init := 1, bu_Rank := ?n \<rparr> else u) (bt_users (bw_tables (obs w)))"
    by (simp_all add: after(5) upd_users_def put_learn_def put_bill_def upd_tables_def)
  have "rr_Index z = ?n"
    by (rule rank_answer [OF Y after(1) _ _ _ rank, of "u\<lparr> bu_Init := 1, bu_Rank := ?n \<rparr>"])
       (use u in \<open>auto simp: tables(3) image_iff\<close>)
  with pay_answer [OF Y after(2) pay] learn_answer [OF Y after(3) learn] sc pl tables(1,2) show ?thesis by blast
qed

text \<open>A run in memory: the student is registered and has no rank yet.\<close>

definition registered :: bill_world where
  "registered = put_user \<lparr> bu_StuNum = ''2125'', bu_Init = 0, bu_Appraisal = 0, bu_Rank = 0 \<rparr> bill_start"

lemma demo_scripts:
  "\<exists>p l. run_scripts demo_orders (mem_bills b demo_net demo_parse) (demo_task ''2125'') registered = (Inr (p, l), registered)"
proof -
  let ?Y = "mem_bills b demo_net demo_parse"
  have q: "q_count_bills ?Y ''2125'' registered = (Inr 0, registered)" and net: "ye_net ?Y = demo_net" "ye_parse ?Y = demo_parse"
    by (simp_all add: mem_bills_def registered_def put_user_def upd_tables_def bill_start_def empty_bills_def)
  obtain r where p: "PayDataInit ?Y (\<lambda>xs. xs) rev ''2125'' ''h'' registered = ((Some r, None), registered)"
    using demo_pay_run [OF q net] by blast
  have "\<exists>r. LearnDataInit ?Y (\<lambda>xs. xs) (\<lambda>xs. xs) ''2125'' j registered = ((Some r, None), registered)" for j
    by (simp add: LearnDataInit_def or_stop_def reply_def ExistLearnByStuNum_def mem_bills_def registered_def put_user_def upd_tables_def
        bill_start_def empty_bills_def GetSchedule_def post_unchecked_def onError_def andThen_def decoded_def JSONToMap_def demo_net_def
        known_lessons_def List.map_filter_def)
  then obtain r' where "LearnDataInit ?Y (\<lambda>xs. xs) (\<lambda>xs. xs) ''2125'' \<lparr> jwc_GsSession = ''g'', jwc_Emaphome_WEU = ''e'' \<rparr> registered
      = ((Some r', None), registered)" by blast
  with p show ?thesis by (simp add: run_scripts_def script_result_def andThen_def demo_orders_def demo_task_def)
qed

lemma demo_store:
  assumes "bw_tables S = bw_tables registered"
  shows "fst (store_task (mem_bills False N parse) ''2125'' p l S) = Inr ()"
  using assms by (simp add: store_task_def andThen_def IncrValue_def SaveRank_def run_err_def StorageData_def or_rollback_def commit_def
      SavePayData_def SaveLearnData_def mem_bills_def registered_def put_user_def upd_tables_def bill_start_def empty_bills_def)

theorem task_answers_witness:
  "\<exists>w'. run_task demo_orders (mem_bills False demo_net demo_parse) (demo_task ''2125'') registered = (Inr (), w')
     \<and> length (bt_bills (bw_tables w')) = 1
     \<and> (\<exists>z. bill_GetRank (mem_bills False demo_net demo_parse) ''2125'' w' = ((Some z, None), w') \<and> rr_Index z = 1)"
proof -
  let ?Y = "mem_bills False demo_net demo_parse" and ?t = "demo_task ''2125''"
  have Y: "bills_ok ?Y (\<lambda>w. w)" by (rule mem_bills_ok [OF demo_net_silent(1)])
  have s: "it_StuNum ?t = ''2125''" by (simp add: demo_task_def)
  have new: "bw_hash registered (''data:'' @ it_StuNum ?t, ''user_data'') = None"
    by (simp add: registered_def put_user_def upd_tables_def bill_start_def)
  have u: "\<lparr> bu_StuNum = ''2125'', bu_Init = 0, bu_Appraisal = 0, bu_Rank = 0 \<rparr> \<in> set (bt_users (bw_tables registered))"
    by (simp add: registered_def put_user_def upd_tables_def bill_start_def empty_bills_def)
  from demo_scripts obtain p l where sc: "run_scripts demo_orders ?Y ?t registered = (Inr (p, l), registered)" by blast
  obtain w' where st: "store_task ?Y ''2125'' p l registered = (Inr (), w')" using demo_store [of registered] by (metis prod.collapse)
  have g: "cache_GetRank ?Y ''2125'' registered = (no_rank, registered)"
    using new s by (simp add: cache_GetRank_def mem_bills_def)
  have run: "run_task demo_orders ?Y ?t registered = (Inr (), w')"
    using g sc st s by (simp add: run_task_def andThen_def no_rank_def)
  note after = store_task_effect [where obs = "\<lambda>w. w", OF Y st]
  have pay: "\<exists>x. GetPayData ?Y (it_StuNum ?t) w' = ((Some x, None), w')"
    using after(2) s by (simp add: GetPayData_def cache_GetPayData_def andThen_def mem_bills_def)
  have learn: "\<exists>x. GetLearnData ?Y (it_StuNum ?t) w' = ((Some x, None), w')"
    using after(3) s by (simp add: GetLearnData_def cache_GetLearnData_def andThen_def mem_bills_def)
  have "bw_count registered = 0" by (simp add: registered_def put_user_def upd_tables_def bill_start_def)
  then have rank: "\<exists>x. bill_GetRank ?Y (it_StuNum ?t) w' = ((Some x, None), w')"
    using after(1) s by (auto simp: bill_GetRank_def cache_GetRank_def bill_GetValue_def mem_bills_def)
  from pay learn rank obtain x y z where ans: "GetPayData ?Y (it_StuNum ?t) w' = ((Some x, None), w')"
    "GetLearnData ?Y (it_StuNum ?t) w' = ((Some y, None), w')" "bill_GetRank ?Y (it_StuNum ?t) w' = ((Some z, None), w')" by blast
  have e: "bt_bills (bw_tables registered) = []" by (simp add: registered_def put_user_def upd_tables_def bill_start_def empty_bills_def)
  from task_answers [where obs = "\<lambda>w. w", OF Y new u _ run ans] s \<open>bw_count registered = 0\<close> e run ans(3) show ?thesis by auto
qed

section \<open>Lost bills\<close>

text \<open>A cache that answers every lookup.\<close>

definition cache_answers :: "'w bill_env \<Rightarrow> ('w \<Rightarrow> bill_world) \<Rightarrow> bool" where
  "cache_answers Y obs \<longleftrightarrow> (\<forall>k f w. fst (h_HGet Y k f w) = (case bw_hash (obs w) (k, f) of None \<Rightarrow> Inl redis_missing | Some v \<Rightarrow> Inr v))
     \<and> (\<forall>s w. \<exists>x. fst (q_find_bills Y s w) = Inr x)"

lemma ranked_skips:
  assumes Y: "bills_ok Y obs" and C: "cache_answers Y obs"
    and h: "bw_hash (obs w) (''data:'' @ s, ''user_data'') = Some (CachedRank r)" "rc_ID r \<noteq> 0"
  shows "\<exists>w'. cache_GetRank Y s w = (r, w') \<and> obs w' = obs w"
    and "it_StuNum task = s \<Longrightarrow> obs (snd (run_task ords Y task w)) = obs w"
    and "fst (CheckState Y s w) = (Some True, None)"
proof -
  obtain x w' where g: "h_HGet Y (''data:'' @ s) ''user_data'' w = (x, w')" by fastforce
  have "x = Inr (CachedRank r)" using C g h(1) unfolding cache_answers_def by (metis fst_conv option.simps(5))
  moreover have "obs w' = obs w" by (rule queriesD(1) [OF bills_okD(15) [OF Y] g])
  ultimately have c: "cache_GetRank Y s w = (r, w')" "obs w' = obs w" using g by (simp_all add: cache_GetRank_def)
  then show "\<exists>w'. cache_GetRank Y s w = (r, w') \<and> obs w' = obs w" by blast
  show "it_StuNum task = s \<Longrightarrow> obs (snd (run_task ords Y task w)) = obs w" using c h(2) by (simp add: run_task_def)
  show "fst (CheckState Y s w) = (Some True, None)" using c h(2) by (simp add: CheckState_def)
qed

lemma pay_missing:
  assumes Y: "bills_ok Y obs" and C: "cache_answers Y obs"
    and "bw_hash (obs w) (''data:'' @ s, ''pay_data'') = None" and "\<forall>b \<in> set (bt_bills (bw_tables (obs w))). bi_StuNum b \<noteq> s"
  shows "fst (GetPayData Y s w) = (Some None, None)"
proof -
  obtain x w1 where g: "h_HGet Y (''data:'' @ s) ''pay_data'' w = (x, w1)" by fastforce
  have x: "x = Inl redis_missing" using C g assms(3) unfolding cache_answers_def by (metis fst_conv option.simps(4))
  have o: "obs w1 = obs w" by (rule queriesD(1) [OF bills_okD(15) [OF Y] g])
  obtain y w2 where q: "GetBill Y s w1 = (y, w2)" by fastforce
  obtain bs where bs: "y = Inr bs" using C q unfolding cache_answers_def GetBill_def by (metis fst_conv)
  have "bs = filter (\<lambda>b. bi_StuNum b = s) (bt_bills (bw_tables (obs w1)))"
    by (rule queriesD(2) [OF bills_okD(1) [OF Y] q bs])
  then have "bs = []" using o assms(4) by simp
  with g x q bs show ?thesis by (simp add: GetPayData_def cache_GetPayData_def andThen_def orReturn_def reply_def)
qed

text \<open>
  C11. A task caches the rank of the student before it stores the data. When the transaction then fails, the
  data of this student is never stored: every later task is skipped because of the cached rank, the state
  is reported as ready, and the request for the bill gets an empty answer without an error.
\<close>

theorem failed_storage_is_final:
  assumes Y: "bills_ok Y obs" and C: "cache_answers Y obs" and "ranks_ok (obs w)"
    and new: "bw_hash (obs w) (''data:'' @ it_StuNum task, ''user_data'') = None"
    and nopay: "bw_hash (obs w) (''data:'' @ it_StuNum task, ''pay_data'') = None"
    and nobill: "\<forall>b \<in> set (bt_bills (bw_tables (obs w))). bi_StuNum b \<noteq> it_StuNum task"
    and scripts: "run_scripts ords Y task (snd (cache_GetRank Y (it_StuNum task) w)) = (Inr (p, l), w1)"
    and incr: "IncrValue Y ''count'' w1 = (Inr n, w2)"
    and save: "SaveRank Y (it_StuNum task) \<lparr> rc_ID = n, rc_Appraisal = 0 \<rparr> w2 = (Inr (), w3)"
    and storage: "StorageData Y (it_StuNum task) n (bill_of (it_StuNum task) p) (learn_of (it_StuNum task) l) w3 = (Inl e, w4)"
    and later: "\<forall>(ords', task') \<in> set tasks. it_StuNum task' = it_StuNum task"
  shows "run_task ords Y task w = (Inl e, w4)
    \<and> bw_tables (obs (fold (\<lambda>(ords', task') v. snd (run_task ords' Y task' v)) tasks w4)) = bw_tables (obs w)
    \<and> fst (CheckState Y (it_StuNum task) (fold (\<lambda>(ords', task') v. snd (run_task ords' Y task' v)) tasks w4)) = (Some True, None)
    \<and> fst (GetPayData Y (it_StuNum task) (fold (\<lambda>(ords', task') v. snd (run_task ords' Y task' v)) tasks w4)) = (Some None, None)"
proof -
  let ?s = "it_StuNum task" and ?later = "fold (\<lambda>(ords', task') v. snd (run_task ords' Y task' v)) tasks w4"
  from rank_absent [OF Y new] obtain w0 where g: "cache_GetRank Y ?s w = (no_rank, w0)" "obs w0 = obs w" by blast
  have s1: "obs w1 = obs w" using unchangedD [OF unchanged_run_scripts [OF Y] scripts] g by simp
  have s2: "n = bw_count (obs w) + 1" "obs w2 = (obs w)\<lparr> bw_count := n \<rparr>" using incr_counter [OF Y incr] s1 by simp_all
  have s3: "obs w3 = put_hash (''data:'' @ ?s) ''user_data'' (Some (CachedRank \<lparr> rc_ID = n, rc_Appraisal = 0 \<rparr>)) (obs w2)"
    using run_changes [OF bills_okD(17) [OF Y] save [unfolded SaveRank_def]] by simp
  have s4: "bw_hash (obs w4) = bw_hash (obs w3)" "bw_tables (obs w4) = bw_tables (obs w3)"
    using storage_outcome [OF Y storage] by simp_all
  have n: "n \<noteq> 0" using s2(1) assms(3) by (simp add: ranks_ok_def)
  have run: "run_task ords Y task w = (Inl e, w4)"
    using g scripts incr save storage by (simp add: run_task_def no_rank_def andThen_def store_task_def)
  have h4: "bw_hash (obs w4) (''data:'' @ ?s, ''user_data'') = Some (CachedRank \<lparr> rc_ID = n, rc_Appraisal = 0 \<rparr>)"
    and p4: "bw_hash (obs w4) (''data:'' @ ?s, ''pay_data'') = None" and t4: "bw_tables (obs w4) = bw_tables (obs w)"
    using s2 s3 s4 nopay by (simp_all add: put_hash_def)
  have stays: "obs (fold (\<lambda>(ords', task') v. snd (run_task ords' Y task' v)) ts v) = obs w4"
    if "\<forall>(ords', task') \<in> set ts. it_StuNum task' = ?s" "obs v = obs w4" for ts v
    using that
  proof (induction ts arbitrary: v)
    case (Cons t ts)
    obtain o' t' where t: "t = (o', t')" by fastforce
    have "obs (snd (run_task o' Y t' v)) = obs v"
      by (rule ranked_skips(2) [OF Y C, where s = ?s and r = "\<lparr> rc_ID = n, rc_Appraisal = 0 \<rparr>"]) (use Cons.prems h4 n t in auto)
    with Cons t show ?case by simp
  qed simp
  have o: "obs ?later = obs w4" by (rule stays [OF later]) simp
  have "fst (CheckState Y ?s ?later) = (Some True, None)"
    by (rule ranked_skips(3) [OF Y C, where r = "\<lparr> rc_ID = n, rc_Appraisal = 0 \<rparr>"]) (use h4 n o in auto)
  moreover have "fst (GetPayData Y ?s ?later) = (Some None, None)"
    by (rule pay_missing [OF Y C]) (use o p4 t4 nobill in auto)
  ultimately show ?thesis using run o t4 by simp
qed

theorem failed_storage_is_final_witness:
  "\<exists>e w'. run_task demo_orders (mem_bills True demo_net demo_parse) (demo_task ''2125'') registered = (Inl e, w')
     \<and> fst (CheckState (mem_bills True demo_net demo_parse) ''2125'' (snd (run_task demo_orders (mem_bills True demo_net demo_parse) (demo_task ''2125'') w')))
         = (Some True, None)
     \<and> fst (GetPayData (mem_bills True demo_net demo_parse) ''2125'' (snd (run_task demo_orders (mem_bills True demo_net demo_parse) (demo_task ''2125'') w')))
         = (Some None, None)"
proof -
  let ?Y = "mem_bills True demo_net demo_parse" and ?t = "demo_task ''2125''"
  note start = registered_def put_user_def upd_tables_def bill_start_def empty_bills_def
  have Y: "bills_ok ?Y (\<lambda>w. w)" by (rule mem_bills_ok [OF demo_net_silent(1)])
  have C: "cache_answers ?Y (\<lambda>w. w)" by (simp add: cache_answers_def mem_bills_def)
  have s: "it_StuNum ?t = ''2125''" by (simp add: demo_task_def)
  have ok: "ranks_ok registered" by (auto simp: ranks_ok_def held_def start)
  have new: "bw_hash registered (''data:'' @ it_StuNum ?t, ''user_data'') = None"
    "bw_hash registered (''data:'' @ it_StuNum ?t, ''pay_data'') = None"
    and nobill: "\<forall>b \<in> set (bt_bills (bw_tables registered)). bi_StuNum b \<noteq> it_StuNum ?t"
    by (simp_all add: start)
  have g: "snd (cache_GetRank ?Y (it_StuNum ?t) registered) = registered"
    using new by (simp add: cache_GetRank_def mem_bills_def)
  from demo_scripts obtain p l where sc: "run_scripts demo_orders ?Y ?t (snd (cache_GetRank ?Y (it_StuNum ?t) registered)) = (Inr (p, l), registered)"
    unfolding g by blast
  have i: "\<exists>w2. IncrValue ?Y ''count'' registered = (Inr 1, w2) \<and> bw_tables w2 = bw_tables registered"
    by (simp add: IncrValue_def mem_bills_def start)
  then obtain w2 where i: "IncrValue ?Y ''count'' registered = (Inr 1, w2)" and t2: "bw_tables w2 = bw_tables registered" by blast
  have "\<exists>w3. SaveRank ?Y (it_StuNum ?t) \<lparr> rc_ID = 1, rc_Appraisal = 0 \<rparr> w2 = (Inr (), w3) \<and> bw_tables w3 = bw_tables registered"
    using t2 by (simp add: SaveRank_def run_err_def mem_bills_def)
  then obtain w3 where sv: "SaveRank ?Y (it_StuNum ?t) \<lparr> rc_ID = 1, rc_Appraisal = 0 \<rparr> w2 = (Inr (), w3)" and t3: "bw_tables w3 = bw_tables registered" by blast
  have "\<exists>e w4. StorageData ?Y (it_StuNum ?t) 1 b l' w3 = (Inl e, w4)" for b l'
    using t3 by (simp add: StorageData_def or_rollback_def mem_bills_def start)
  then obtain e w4 where st: "StorageData ?Y (it_StuNum ?t) 1 (bill_of (it_StuNum ?t) p) (learn_of (it_StuNum ?t) l) w3 = (Inl e, w4)" by blast
  have later: "\<forall>(ords', task') \<in> set [(demo_orders, ?t)]. it_StuNum task' = it_StuNum ?t" by simp
  from failed_storage_is_final [where obs = "\<lambda>w. w", OF Y C ok new nobill sc i sv st later] s show ?thesis by auto
qed

end
