(* ===== verification/Year_Bill_Tcc.thy ===== *)
theory Year_Bill_Tcc
  imports Year_Bill Tcc_Staging
begin

text \<open>
  The TCC components of the year bill (\<^verbatim>\<open>src/app/yearBill/service/tcc_components.go\<close>) and the service that runs
  them (\<^verbatim>\<open>tcc_integration.go\<close>). They are instances of the contract in \<^verbatim>\<open>Tcc_Staging\<close>. The confirmation of the two
  statistics stores nothing; that of the rank would, but never finds it.
\<close>

section \<open>Model\<close>

record 'w bill_tcc_env =
  yt_env :: "'w bill_env"
  yt_client :: "'w staging_client"
  yt_fmt :: "gotime \<Rightarrow> string"
  yt_dec :: "string \<Rightarrow> err + init_task"
  yt_enc :: "init_task \<Rightarrow> err + string"
  yt_orders :: script_orders
  yt_cents :: "real \<Rightarrow> int"

text \<open>A script whose error is returned; without response it panicked.\<close>

definition checked_result :: "('r, 'w) handler \<Rightarrow> ('r, 'w) action" where
  "checked_result h w =
     (case h w of ((_, Some e), w') \<Rightarrow> (Inl e, w') | ((Some r, None), w') \<Rightarrow> (Inr r, w') | ((None, None), w') \<Rightarrow> (Inl nil_panic, w'))"

definition task_of :: "'w bill_tcc_env \<Rightarrow> govalue tcc_req \<Rightarrow> (init_task, 'w) action" where
  "task_of B req = andThen (value_of (as_string (rq_Data req ''task''))) (\<lambda>text. value_of (yt_dec B text))"

text \<open>Amounts are staged as JSON numbers, which \<open>yt_cents\<close> represents; nothing reads them back.\<close>

(* src: app/yearBill/service/tcc_components.go:36-75 PayDataTCCComponent.Try *)
definition pay_Try :: "'w bill_tcc_env \<Rightarrow> govalue tcc_req \<Rightarrow> (tcc_resp, 'w) action" where
  "pay_Try B req =
     andThen (task_of B req) (\<lambda>task w.
       let key = ''tcc_pay_data:'' @ rq_TXID req @ '':'' @ it_StuNum task in
       case already_tried (yt_client B) key w of
         (True, w') \<Rightarrow> (Inr acked, w')
       | (False, w') \<Rightarrow>
           andThen (checked_result (PayDataInit (yt_env B) (so_pages (yt_orders B)) (so_payments (yt_orders B))
                      (it_StuNum task) (it_HallTicket task))) (\<lambda>p.
             stage (yt_client B) key
               [(''favorite_restaurant'', GoString (pp_FavoriteRestaurant p)),
                (''favorite_restaurant_pay'', GoFloat (yt_cents B (pp_FavoriteRestaurantPay p))),
                (''early_time'', GoTime (as_time (pp_EarlyTime p))), (''last_time'', GoTime (as_time (pp_LastTime p))),
                (''other_pay'', GoFloat (yt_cents B (pp_OtherPay p))), (''library_pay'', GoFloat (yt_cents B (pp_LibraryPay p))),
                (''restaurant_pay'', GoFloat (yt_cents B (pp_RestaurantPay p)))]) w')"

(* src: app/yearBill/service/tcc_components.go:77-99 PayDataTCCComponent.Confirm *)
definition pay_Confirm :: "'w bill_tcc_env \<Rightarrow> string \<Rightarrow> (tcc_resp, 'w) action" where
  "pay_Confirm B txID =
     (let key = ''tcc_pay_data:'' @ txID in
      andThen (load_staged (yt_client B) (yt_fmt B) key) (\<lambda>_. unstage (yt_client B) key))"

(* src: app/yearBill/service/tcc_components.go:101-108 PayDataTCCComponent.Cancel *)
definition pay_Cancel :: "'w bill_tcc_env \<Rightarrow> string \<Rightarrow> (tcc_resp, 'w) action" where
  "pay_Cancel B txID = unstage (yt_client B) (''tcc_pay_data:'' @ txID)"

(* src: app/yearBill/service/tcc_components.go:18-22 PayDataTCCComponent *)
definition pay_component :: "'w bill_tcc_env \<Rightarrow> ('w, govalue) tcc_component" where
  "pay_component B = \<lparr> co_ID = ''pay_data_component'', co_Try = pay_Try B, co_Confirm = pay_Confirm B, co_Cancel = pay_Cancel B \<rparr>"

(* src: app/yearBill/service/tcc_components.go:129-167 LearnDataTCCComponent.Try *)
definition learn_Try :: "'w bill_tcc_env \<Rightarrow> govalue tcc_req \<Rightarrow> (tcc_resp, 'w) action" where
  "learn_Try B req =
     andThen (task_of B req) (\<lambda>task w.
       let key = ''tcc_learn_data:'' @ rq_TXID req @ '':'' @ it_StuNum task in
       case already_tried (yt_client B) key w of
         (True, w') \<Rightarrow> (Inr acked, w')
       | (False, w') \<Rightarrow>
           andThen (checked_result (LearnDataInit (yt_env B) (so_terms (yt_orders B)) (so_lessons (yt_orders B)) (it_StuNum task)
                      \<lparr> jwc_GsSession = it_GsSession task, jwc_Emaphome_WEU = it_Emaphome_WEU task \<rparr>)) (\<lambda>l.
             stage (yt_client B) key
               [(''most_course'', GoString (lp_MostCourse l)), (''eight'', GoInt (lp_Eight l)), (''most'', GoInt (lp_Most l)),
                (''ten'', GoInt (lp_Ten l)), (''sum_lesson'', GoInt (lp_SumLesson l))]) w')"

(* src: app/yearBill/service/tcc_components.go:169-190 LearnDataTCCComponent.Confirm *)
definition learn_Confirm :: "'w bill_tcc_env \<Rightarrow> string \<Rightarrow> (tcc_resp, 'w) action" where
  "learn_Confirm B txID =
     (let key = ''tcc_learn_data:'' @ txID in
      andThen (load_staged (yt_client B) (yt_fmt B) key) (\<lambda>_. unstage (yt_client B) key))"

(* src: app/yearBill/service/tcc_components.go:192-199 LearnDataTCCComponent.Cancel *)
definition learn_Cancel :: "'w bill_tcc_env \<Rightarrow> string \<Rightarrow> (tcc_resp, 'w) action" where
  "learn_Cancel B txID = unstage (yt_client B) (''tcc_learn_data:'' @ txID)"

(* src: app/yearBill/service/tcc_components.go:111-115 LearnDataTCCComponent *)
definition learn_component :: "'w bill_tcc_env \<Rightarrow> ('w, govalue) tcc_component" where
  "learn_component B = \<lparr> co_ID = ''learn_data_component'', co_Try = learn_Try B, co_Confirm = learn_Confirm B, co_Cancel = learn_Cancel B \<rparr>"

(* src: app/yearBill/service/tcc_components.go:220-248 RankUpdateTCCComponent.Try *)
definition update_Try :: "'w bill_tcc_env \<Rightarrow> govalue tcc_req \<Rightarrow> (tcc_resp, 'w) action" where
  "update_Try B req =
     andThen (value_of (as_string (rq_Data req ''stu_num''))) (\<lambda>stuNum w.
       let key = ''tcc_rank_update:'' @ rq_TXID req @ '':'' @ stuNum in
       case already_tried (yt_client B) key w of
         (True, w') \<Rightarrow> (Inr acked, w')
       | (False, w') \<Rightarrow>
           andThen (IncrValue (yt_env B) ''count'') (\<lambda>index.
             stage (yt_client B) key [(''index'', GoInt index), (''stu_num'', GoString stuNum)]) w')"

(* src: app/yearBill/service/tcc_components.go:250-280 RankUpdateTCCComponent.Confirm *)
definition update_Confirm :: "'w bill_tcc_env \<Rightarrow> string \<Rightarrow> (tcc_resp, 'w) action" where
  "update_Confirm B txID =
     (let key = ''tcc_rank_update:'' @ txID in
      andThen (load_staged (yt_client B) (yt_fmt B) key) (\<lambda>tempData.
      andThen (value_of (as_string (tempData ''stu_num''))) (\<lambda>stuNum.
      andThen (value_of (as_float (tempData ''index''))) (\<lambda>index.
      andThen (SaveRank (yt_env B) stuNum \<lparr> rc_ID = index, rc_Appraisal = 0 \<rparr>) (\<lambda>_.
        unstage (yt_client B) key)))))"

(* src: app/yearBill/service/tcc_components.go:282-289 RankUpdateTCCComponent.Cancel *)
definition update_Cancel :: "'w bill_tcc_env \<Rightarrow> string \<Rightarrow> (tcc_resp, 'w) action" where
  "update_Cancel B txID = unstage (yt_client B) (''tcc_rank_update:'' @ txID)"

(* src: app/yearBill/service/tcc_components.go:202-206 RankUpdateTCCComponent *)
definition update_component :: "'w bill_tcc_env \<Rightarrow> ('w, govalue) tcc_component" where
  "update_component B = \<lparr> co_ID = ''rank_update_component'', co_Try = update_Try B, co_Confirm = update_Confirm B, co_Cancel = update_Cancel B \<rparr>"

subsection \<open>The service\<close>

(* src: app/yearBill/service/tcc_integration.go:24-51 NewYearBillTCCService *)
definition NewYearBillTCCService :: "'w tx_store \<Rightarrow> 'w bill_tcc_env \<Rightarrow> ('w, govalue) tx_manager" where
  "NewYearBillTCCService S B =
     fold (\<lambda>c M. snd (txm_Register (Some c) M)) [pay_component B, learn_component B, update_component B]
       (NewTXManager S [WithTimeout (30 * second), WithMonitorTick (5 * second)])"

definition init_requests :: "init_task \<Rightarrow> string \<Rightarrow> govalue request_entity list" where
  "init_requests task taskJSON =
     [\<lparr> re_ComponentID = ''pay_data_component'', re_Request = [''task'' \<mapsto> GoString taskJSON] \<rparr>,
      \<lparr> re_ComponentID = ''learn_data_component'', re_Request = [''task'' \<mapsto> GoString taskJSON] \<rparr>,
      \<lparr> re_ComponentID = ''rank_update_component'', re_Request = [''stu_num'' \<mapsto> GoString (it_StuNum task)] \<rparr>]"

(* src: app/yearBill/service/tcc_integration.go:54-96 YearBillTCCService.DataInitWithTCC *)
definition DataInitWithTCC ::
  "('w, govalue) tx_manager \<Rightarrow> 'w bill_tcc_env \<Rightarrow> 'w tx_store \<Rightarrow> ('w, govalue) component_entity range_order \<Rightarrow> nat
   \<Rightarrow> init_task \<Rightarrow> 'w \<Rightarrow> err option \<times> 'w" where
  "DataInitWithTCC M B SC ord slack task w =
     (case yt_enc B task of
        Inl e \<Rightarrow> (Some e, w)
      | Inr taskJSON \<Rightarrow>
          (case txm_Transaction M SC ord slack (init_requests task taskJSON) w of ((txID, success, e), w') \<Rightarrow> (e, w')))"

(* src: app/yearBill/service/tcc_integration.go:99-101 YearBillTCCService.GetTransactionStatus *)
definition bill_GetTransactionStatus :: "('w, govalue) tx_manager \<Rightarrow> string \<Rightarrow> (tx_record, 'w) action" where
  "bill_GetTransactionStatus M txID = GetTX (txm_store M) txID"

section \<open>Properties\<close>

definition bill_calls_silent :: "'w bill_env \<Rightarrow> ('w \<Rightarrow> 'v) \<Rightarrow> bool" where
  "bill_calls_silent Y view \<longleftrightarrow> (\<forall>s. unchanged view (q_count_bills Y s)) \<and> (\<forall>s. unchanged view (q_count_learns Y s))
     \<and> unchanged view (h_Incr Y ''count'') \<and> net_silent (ye_net Y) view"

definition bill_good :: "'w bill_tcc_env \<Rightarrow> ('w \<Rightarrow> gotime) \<Rightarrow> ('w \<Rightarrow> stval rdb) \<Rightarrow> ('w \<Rightarrow> 'v) \<Rightarrow> bool" where
  "bill_good B clock obs data \<longleftrightarrow> client_ok (yt_client B) clock obs data
     \<and> bill_calls_silent (yt_env B) obs \<and> bill_calls_silent (yt_env B) data"

lemma bill_client: "bill_good B clock obs data \<Longrightarrow> client_ok (yt_client B) clock obs data"
  by (simp add: bill_good_def)

lemma unchanged_checked: "unchanged view h \<Longrightarrow> unchanged view (checked_result h)"
  by (auto simp: unchanged_def checked_result_def split: prod.split option.split) (metis snd_conv)+

lemma bill_calls:
  assumes "bill_calls_silent Y view"
  shows "unchanged view (checked_result (PayDataInit Y op orr s h))" and "unchanged view (checked_result (LearnDataInit Y ot orr s j))"
    and "unchanged view (IncrValue Y ''count'')"
proof -
  have c: "\<And>s. unchanged view (q_count_bills Y s)" "\<And>s. unchanged view (q_count_learns Y s)" "net_silent (ye_net Y) view"
      "unchanged view (h_Incr Y ''count'')"
    using assms by (simp_all only: bill_calls_silent_def simp_thms)
  show "unchanged view (checked_result (PayDataInit Y op orr s h))" "unchanged view (checked_result (LearnDataInit Y ot orr s j))"
    by (rule unchanged_checked, rule scripts_silent [OF c(1-3)])+
  show "unchanged view (IncrValue Y ''count'')" unfolding IncrValue_def by (rule c(4))
qed

lemma bill_calls_clean:
  assumes "bill_good B clock obs data"
  shows "maintains (clean obs data d) (checked_result (PayDataInit (yt_env B) op orr s h))"
    "maintains (clean obs data d) (checked_result (LearnDataInit (yt_env B) ot orr s j))"
    "maintains (clean obs data d) (IncrValue (yt_env B) ''count'')"
  using assms by (auto simp: bill_good_def intro!: clean_unchanged bill_calls)

lemma bill_prefixes: "colons ''tcc_pay_data:'' = 1" "colons ''tcc_learn_data:'' = 1" "colons ''tcc_rank_update:'' = 1"
  by (simp_all add: colons_def)

lemma task_of_clean: "maintains I (task_of B req)"
  unfolding task_of_def by (intro action_rules)

lemma acked_clean: "maintains I (\<lambda>w'. (Inr acked, w'))"
  by (simp add: maintains_def)

lemma bill_try_clean:
  assumes "bill_good B clock obs data"
  shows "maintains (clean obs data d) (pay_Try B req)" "maintains (clean obs data d) (learn_Try B req)"
    "maintains (clean obs data d) (update_Try B req)"
  unfolding pay_Try_def learn_Try_def update_Try_def Let_def
  by (intro maintains_andThen maintains_value_of task_of_clean acked_clean colons_key bill_prefixes
      maintains_after_tried [OF already_tried_clean [OF bill_client [OF assms]]] bill_calls_clean [OF assms]
      stage_clean [OF bill_client [OF assms]])+

interpretation pay_data: staged_component pay_component bill_good
proof
  show "maintains (clean obs data d) (co_Try (pay_component B) req)" if "bill_good B clock obs data"
    for B :: "'a bill_tcc_env" and clock obs data d req
    using that by (simp add: pay_component_def bill_try_clean)
  show "\<exists>w'. co_Confirm (pay_component B) x w = (Inl redisNil, w') \<and> obs w' = obs w \<and> data w' = data w"
    if "bill_good B clock obs data" "unstaged (obs w)" "colon_free x"
    for B :: "'a bill_tcc_env" and clock obs data w x
    unfolding pay_component_def tcc_component.simps pay_Confirm_def Let_def
    by (rule missing_confirm [OF bill_client [OF that(1)] that(2) confirm_key [OF bill_prefixes(1) that(3)]])
  show "maintains (clean obs data d) (co_Cancel (pay_component B) x)" if "bill_good B clock obs data"
    for B :: "'a bill_tcc_env" and clock obs data d x
    unfolding pay_component_def tcc_component.simps pay_Cancel_def
    by (rule unstage_clean [OF bill_client [OF that]])
qed

interpretation learn_data: staged_component learn_component bill_good
proof
  show "maintains (clean obs data d) (co_Try (learn_component B) req)" if "bill_good B clock obs data"
    for B :: "'a bill_tcc_env" and clock obs data d req
    using that by (simp add: learn_component_def bill_try_clean)
  show "\<exists>w'. co_Confirm (learn_component B) x w = (Inl redisNil, w') \<and> obs w' = obs w \<and> data w' = data w"
    if "bill_good B clock obs data" "unstaged (obs w)" "colon_free x"
    for B :: "'a bill_tcc_env" and clock obs data w x
    unfolding learn_component_def tcc_component.simps learn_Confirm_def Let_def
    by (rule missing_confirm [OF bill_client [OF that(1)] that(2) confirm_key [OF bill_prefixes(2) that(3)]])
  show "maintains (clean obs data d) (co_Cancel (learn_component B) x)" if "bill_good B clock obs data"
    for B :: "'a bill_tcc_env" and clock obs data d x
    unfolding learn_component_def tcc_component.simps learn_Cancel_def
    by (rule unstage_clean [OF bill_client [OF that]])
qed

interpretation rank_update: staged_component update_component bill_good
proof
  show "maintains (clean obs data d) (co_Try (update_component B) req)" if "bill_good B clock obs data"
    for B :: "'a bill_tcc_env" and clock obs data d req
    using that by (simp add: update_component_def bill_try_clean)
  show "\<exists>w'. co_Confirm (update_component B) x w = (Inl redisNil, w') \<and> obs w' = obs w \<and> data w' = data w"
    if "bill_good B clock obs data" "unstaged (obs w)" "colon_free x"
    for B :: "'a bill_tcc_env" and clock obs data w x
    unfolding update_component_def tcc_component.simps update_Confirm_def Let_def
    by (rule missing_confirm [OF bill_client [OF that(1)] that(2) confirm_key [OF bill_prefixes(3) that(3)]])
  show "maintains (clean obs data d) (co_Cancel (update_component B) x)" if "bill_good B clock obs data"
    for B :: "'a bill_tcc_env" and clock obs data d x
    unfolding update_component_def tcc_component.simps update_Cancel_def
    by (rule unstage_clean [OF bill_client [OF that]])
qed

lemma bill_manager:
  "txm_store (NewYearBillTCCService S B) = S"
  "rc_components (txm_registry (NewYearBillTCCService S B)) =
     [(''pay_data_component'', pay_component B), (''learn_data_component'', learn_component B), (''rank_update_component'', update_component B)]"
  by (simp_all add: NewYearBillTCCService_def NewTXManager_def txm_Register_def rc_register_def newRegistryCenter_def
      pay_component_def learn_component_def update_component_def)

text \<open>
  A year bill initialised as TCC transactions: no table and no cached rank changes, whatever the transactions
  and the monitor do. The counter of ranks may not be part of what is observed: every \<^verbatim>\<open>Try\<close> takes a number.
\<close>

theorem tcc_init_never_stores:
  assumes "apart S clock sobs rows (\<lambda>w. (obs w, stored w))"
    and "bill_good B clock obs (\<lambda>w. (stored w, sobs w, rows w))"
    and "\<forall>m \<in> set steps. step_ordered m" and "log_ids colon_free sobs rows w" and "unstaged (obs w)"
  shows "stored (fold (step_manager (NewYearBillTCCService S B)) steps w) = stored w"
proof -
  let ?M = "NewYearBillTCCService S B"
  have A: "apart (txm_store ?M) clock sobs rows (\<lambda>w. (obs w, stored w))" using assms(1) by (simp add: bill_manager)
  have "\<forall>(k, c) \<in> set (rc_components (txm_registry ?M)). \<forall>d. component_frame
      (clean obs (\<lambda>w. (stored w, sobs w, rows w)) d) colon_free c"
    using pay_data.frame [OF assms(2)] learn_data.frame [OF assms(2)] rank_update.frame [OF assms(2)]
    by (simp add: bill_manager)
  then show ?thesis by (rule staged_manager_keeps [OF A _ assms(3-5)])
qed

end
