(* ===== verification/Spec2Isabelle.thy ===== *)
theory Spec2Isabelle
  imports Advanced_Cache Auth_Enhanced Bobing_Tcc Breaker_Discovery Breaker_Gateway Config_Validator Config_Versions Data_Masking Database_Router Event_Bus Gateway_Auth Jwt_Manager Load_Balancer Rate_Limiter Rbac_Manager Rbac_Middleware Request_Merger Retry_Policy Saga Security_Middleware Service_Governance Tcc_Coordinator Tx_Coordinator User_Tcc Worker_Pool Year_Bill_Tcc
begin

text \<open>
  SendsPlatfrom is a set of Go services behind an HTTP gateway: a dice game, year bills, school
  data and users. This library models the code that carries the platform's own logic and proves
  what it does. Paths below are relative to \<^verbatim>\<open>src/\<close>.

  \<^bold>\<open>Shared vocabulary.\<close> \<^verbatim>\<open>Prelude\<close> fixes how Go values are represented (times, durations, wrap-around,
  errors, iteration order of maps, float conversion). \<^verbatim>\<open>Name_Registry\<close> is the contract of every manager
  that keeps values under a name; the game strategies, TCC coordinators, sagas, breakers, retry
  policies and rate limiters interpret it. \<^verbatim>\<open>Exchange_Sort\<close> is the sorting loop shared by the load
  balancers and the recovery manager. \<^verbatim>\<open>Redis\<close> and \<^verbatim>\<open>Redis_Script\<close> state the documented behaviour of the
  Redis server, which is third-party code, as predicates on records of commands, with an in-memory
  server that satisfies them.

  \<^bold>\<open>Distributed transactions\<close> (\<^verbatim>\<open>app/common/tcc\<close>). \<^verbatim>\<open>Tcc_Interface\<close>: the component interface and the
  registry (\<^verbatim>\<open>interface.go\<close>, \<^verbatim>\<open>registry.go\<close>). \<^verbatim>\<open>Tcc_Coordinator\<close>: the in-memory coordinator (\<^verbatim>\<open>tcc.go\<close>), with
  the theorem that a transaction confirms all components or cancels all. \<^verbatim>\<open>Tx_Store\<close>: the transaction
  log and the idempotency records (\<^verbatim>\<open>txstore.go\<close>, \<^verbatim>\<open>idempotency.go\<close>); the log refines a list of component
  outcomes, and concurrent updates can lose one. \<^verbatim>\<open>Tx_Manager\<close>: the transaction manager
  (\<^verbatim>\<open>txmanager.go\<close>): resolution of a request, the concurrent try phase, the second phase, the monitor.
  \<^verbatim>\<open>Saga\<close>: the saga orchestrator (\<^verbatim>\<open>saga_orchestrator.go\<close>) and its outcome. \<^verbatim>\<open>Tx_Coordinator\<close>: the
  coordinator over etcd (\<^verbatim>\<open>transaction_coordinator.go\<close>).

  \<^bold>\<open>The dice game.\<close> \<^verbatim>\<open>Game\<close>: the award table and the scoring strategy (\<^verbatim>\<open>app/boBing/pkg/boBing.go\<close>,
  \<^verbatim>\<open>app/common/strategy\<close>); the scoring equals a reference table over the partitions of six dice.
  \<^verbatim>\<open>Go_Action\<close> holds the proof rules for Go functions that act on the outside and may fail. \<^verbatim>\<open>Bobing_Dao\<close>,
  \<^verbatim>\<open>Bobing_Cache\<close> and \<^verbatim>\<open>Bobing_Service\<close> model the service (\<^verbatim>\<open>app/boBing/database\<close>, \<^verbatim>\<open>app/boBing/service/boBing.go\<close>,
  \<^verbatim>\<open>app/boBing/pkg/verify.go\<close>); \<^verbatim>\<open>Bobing_Throws\<close> proves that the counts of throws stay in their bounds
  whatever fails, that a throw is counted once under every interleaving, that dice positions are
  accepted once, and how an error is lost between the goroutines.
  \<^verbatim>\<open>Tx_Frame\<close> is the frame rule of the transaction manager (what every component keeps, a whole
  transaction and every turn of the monitor keep), \<^verbatim>\<open>Tcc_Staging\<close> the contract of components that stage
  their data in Redis, and \<^verbatim>\<open>Bobing_Tcc\<close> the components of the dice game (\<^verbatim>\<open>app/boBing/service/tcc_components.go\<close>,
  \<^verbatim>\<open>tcc_integration.go\<close>), which interpret it: a throw published this way is never counted.

  \<^bold>\<open>Users.\<close> \<^verbatim>\<open>User_Service\<close>: the user table, its cache and the four logins (\<^verbatim>\<open>app/user\<close>, \<^verbatim>\<open>utils/wxLoginUtils.go\<close>):
  no sequence of logins creates two users with one OpenId, a login answers with the token of the
  user, and the goroutines of a login can lose an error. \<^verbatim>\<open>User_Tcc\<close>: its TCC components, which never
  register anybody.

  \<^bold>\<open>School and year bill.\<close> \<^verbatim>\<open>Go_Strings\<close> models what is used of \<^verbatim>\<open>strconv\<close> and \<^verbatim>\<open>strings\<close>. \<^verbatim>\<open>School_Client\<close>: the
  clients of the school's services over JSON documents (\<^verbatim>\<open>utils/school\<close>). \<^verbatim>\<open>School_Service\<close>: grades, credits and
  time tables (\<^verbatim>\<open>app/school\<close>). \<^verbatim>\<open>Year_Bill_Data\<close>, \<^verbatim>\<open>Year_Bill_Stats\<close> and \<^verbatim>\<open>Year_Bill\<close>: tables and cache, the statistics
  gathered by concurrent goroutines, tasks and answers (\<^verbatim>\<open>app/yearBill\<close>): the statistics do not depend on the
  order of the goroutines, ranks are unique, what a task stored is what is answered, and a failed storage
  is final. \<^verbatim>\<open>Year_Bill_Tcc\<close>: its TCC components.

  \<^bold>\<open>Access.\<close> \<^verbatim>\<open>Gin_Context\<close>: what middlewares read of a request and how they end. \<^verbatim>\<open>Rbac\<close> and \<^verbatim>\<open>Rbac_Middleware\<close>:
  role based access control (\<^verbatim>\<open>app/common/security/rbac.go\<close>, \<^verbatim>\<open>middlewares/rbac_enhanced.go\<close>): access decisions refine the
  relation of granted roles and permissions as long as roles are not replaced or deleted, and a deleted role goes on
  granting. \<^verbatim>\<open>Rbac_Manager\<close>: the variant with policies (\<^verbatim>\<open>rbac_manager.go\<close>). \<^verbatim>\<open>Jwt_Tokens\<close> and \<^verbatim>\<open>Gateway_Auth\<close>: login tokens
  (\<^verbatim>\<open>utils/jwtUtils.go\<close>) and the gateway's checks (\<^verbatim>\<open>app/gateway/middlewares/auth.go\<close>): user tokens never expire and
  open the administrator check. \<^verbatim>\<open>Auth_Enhanced\<close>: bearer authentication with providers (\<^verbatim>\<open>auth_enhanced.go\<close>).
  \<^verbatim>\<open>Jwt_Manager\<close>: access and refresh tokens with rotating keys (\<^verbatim>\<open>app/common/security/jwt_manager.go\<close>): a refresh token is
  good once, unless two requests use it at the same time. \<^verbatim>\<open>Base64\<close>, \<^verbatim>\<open>Encryption\<close> and \<^verbatim>\<open>Data_Masking\<close>: encryption of
  passwords and fields, masking and the audit log (\<^verbatim>\<open>utils/encryption.go\<close>, \<^verbatim>\<open>data_encryption.go\<close>): the field encryption
  round-trips, the encryption of passwords never does. \<^verbatim>\<open>Security_Middleware\<close>: the middlewares of
  \<^verbatim>\<open>middlewares/security.go\<close>: limits, headers, CSRF tokens that last one second, a filter for SQL that misses it, and encrypted
  bodies that are always refused.

  \<^bold>\<open>Resilience.\<close> \<^verbatim>\<open>Breaker_Interface\<close>, \<^verbatim>\<open>Breaker_Discovery\<close>, \<^verbatim>\<open>Breaker_Gateway\<close>: the two circuit breakers
  (\<^verbatim>\<open>app/common/discovery/circuit_breaker.go\<close>, \<^verbatim>\<open>app/gateway/middlewares/circuit_breaker.go\<close>) as state
  machines. \<^verbatim>\<open>Load_Balancer\<close>: the five strategies of \<^verbatim>\<open>app/common/discovery/load_balancer.go\<close>.
  \<^verbatim>\<open>Error_Recovery\<close> and \<^verbatim>\<open>Retry_Policy\<close>: \<^verbatim>\<open>app/common/errors\<close>. \<^verbatim>\<open>Rate_Limiter\<close>: the gateway's limiters with
  their Lua scripts (\<^verbatim>\<open>app/gateway/middlewares/rate_limiter.go\<close>). \<^verbatim>\<open>App_Error\<close>: \<^verbatim>\<open>utils/errors.go\<close>.

  \<^bold>\<open>Configuration, events, caches, databases.\<close> \<^verbatim>\<open>Config_Versions\<close> and \<^verbatim>\<open>Config_Validator\<close> (\<^verbatim>\<open>app/common/config\<close>): versions with
  one active, changes whose approval guards nothing, hot reload, and the rules a configuration must meet. \<^verbatim>\<open>Event_Store\<close> and
  \<^verbatim>\<open>Event_Bus\<close> (\<^verbatim>\<open>app/common/patterns\<close>): stored events, whose archive loses none, and the bus that publishes by priority, counts its
  subscribers and replays what was published; a concurrent unsubscription tells a subscriber twice. \<^verbatim>\<open>Advanced_Cache\<close>
  (\<^verbatim>\<open>app/common/container\<close>): the two-level cache, whose local level knows no expiry, and the bloom filter without false
  negatives. \<^verbatim>\<open>Database_Router\<close> (\<^verbatim>\<open>app/common/performance/database_router.go\<close>): the contract between router and strategy,
  from which follow that slaves are never used after start and that a failed one is not asked again; sharding by hashes that
  become negative.

  \<^bold>\<open>Load.\<close> \<^verbatim>\<open>Flow_Control\<close>: semaphore, rate limiters and token bucket (\<^verbatim>\<open>app/common/performance/semaphore.go\<close>,
  \<^verbatim>\<open>app/gateway/middlewares/limiter.go\<close>, the limiters of \<^verbatim>\<open>request_merger.go\<close>): the two rate limiters satisfy one contract and agree,
  a stopped adaptive limiter hangs its users, and the token bucket gives more to who asks often. \<^verbatim>\<open>Request_Merger\<close>
  (\<^verbatim>\<open>app/common/performance/request_merger.go\<close>): every request is in one batch, and closing ends the process. \<^verbatim>\<open>Worker_Pool\<close>
  (\<^verbatim>\<open>worker_pool.go\<close>): jobs begin in order, the priority queue is the stable sort, and stopping can hang. \<^verbatim>\<open>Service_Governance\<close>
  (\<^verbatim>\<open>app/common/governance/service_governance.go\<close>): its breaker refines a count of consecutive failures, every selection strategy
  takes the first service, and a retry of an open breaker panics.

  \<^bold>\<open>Parameters.\<close> Third-party code (Redis, SQL through gorm, etcd, gin, JSON of foreign types) enters
  as records of functions on an arbitrary world; what a theorem needs of it is a named predicate
  (\<^verbatim>\<open>redis_conforms\<close>, \<^verbatim>\<open>store_conforms\<close>, \<^verbatim>\<open>cmds_conform\<close>, \<^verbatim>\<open>env_ok\<close>, \<^verbatim>\<open>gorm_ok\<close>, \<^verbatim>\<open>sets_ok\<close>, \<^verbatim>\<open>users_ok\<close>,
  \<^verbatim>\<open>bills_ok\<close>, \<^verbatim>\<open>net_silent\<close>, \<^verbatim>\<open>jwt_laws\<close>, \<^verbatim>\<open>enforcer_laws\<close>,
  \<^verbatim>\<open>gcm_laws\<close>) that the witnesses discharge with a
  concrete instance. Clocks, random draws, waits and the order of goroutines and of map iteration
  are arguments.

  \<^bold>\<open>Bounds.\<close> No model uses fuel: loops are structural recursions or carry a measure (retries left,
  characters left). The monitor loop, which runs for ever, is stated for any number of turns.

  \<^bold>\<open>Not modelled.\<close> Glue and input/output: the gateway's handlers, router and RPC clients, its version headers, set-up of servers and
  connections, the etcd registry and resolver, metrics, tracing, logging and health endpoints, dependency injection by reflection and
  factories, configuration loading and \<^verbatim>\<open>app/common/governance/config_management.go\<close>, the warming of caches and the statistics of
  queries, generated protocol code, tests. Panics recovered by middlewares and the pauses between attempts, which change no state, are
  left out where a theory says so.
\<close>

end
